(* ===== verification/Capo_Prelude.thy ===== *)
theory Capo_Prelude
  imports Main "HOL-Library.Char_ord" "HOL-Library.List_Lexorder"
begin

text \<open>
  Shared vocabulary of the development: the result type of fallible Rust code, the parts of the
  Rust standard library the sources use on strings and integers (\<open>str::replace\<close> on one
  character, \<open>starts_with\<close>, \<open>contains\<close>, \<open>trim().is_empty()\<close>, \<open>to_string\<close> and
  \<open>parse\<close> on \<open>i64\<close> and \<open>bool\<close>), and the collections of rewrite rules that the
  component theories extend.

  A Rust \<open>String\<close> is modelled by the list of its UTF-8 bytes, a \<^typ>\<open>string\<close>.  An
  \<open>i64\<close> is an \<^typ>\<open>int\<close> together with the range predicate \<open>i64_ok\<close>; every operation
  that could leave the range says what happens there.
\<close>

named_theorems codec_simps \<open>evaluation rules of the projection codec\<close>
named_theorems wf_simps \<open>well-formedness of the projection records\<close>
named_theorems store_simps \<open>evaluation rules of the event store\<close>

section \<open>Results\<close>

text \<open>\<open>Result<T, E>\<close> is \<open>'e + 'a\<close>, with \<^const>\<open>Inl\<close> for \<open>Err\<close>; \<open>and_then\<close> is
  the \<open>?\<close> operator.\<close>

type_synonym ('e, 'a) result = "'e + 'a"

fun and_then :: "('e, 'a) result \<Rightarrow> ('a \<Rightarrow> ('e, 'b) result) \<Rightarrow> ('e, 'b) result" where
  "and_then (Inl e) f = Inl e"
| "and_then (Inr a) f = f a"

fun map_err :: "('e \<Rightarrow> 'f) \<Rightarrow> ('e, 'a) result \<Rightarrow> ('f, 'a) result" where
  "map_err h (Inl e) = Inl (h e)"
| "map_err h (Inr a) = Inr a"

lemma and_then_Inr_iff: "and_then x f = Inr b \<longleftrightarrow> (\<exists>a. x = Inr a \<and> f a = Inr b)"
  by (cases x) auto

lemma and_then_Inl_iff: "and_then x f = Inl e \<longleftrightarrow> x = Inl e \<or> (\<exists>a. x = Inr a \<and> f a = Inl e)"
  by (cases x) auto

lemma map_err_Inr_iff [simp]: "map_err h x = Inr b \<longleftrightarrow> x = Inr b"
  by (cases x) auto

text \<open>A loop that stops at the first \<open>Err\<close>: \<open>for x in xs { s = f(s, x)?; }\<close>.\<close>

fun try_fold :: "('s \<Rightarrow> 'x \<Rightarrow> ('e, 's) result) \<Rightarrow> 's \<Rightarrow> 'x list \<Rightarrow> ('e, 's) result" where
  "try_fold f s [] = Inr s"
| "try_fold f s (x # xs) = and_then (f s x) (\<lambda>s'. try_fold f s' xs)"

lemma try_fold_append:
  "try_fold f s (xs @ ys) = and_then (try_fold f s xs) (\<lambda>s'. try_fold f s' ys)"
proof (induction xs arbitrary: s)
  case Nil
  show ?case by simp
next
  case (Cons x xs)
  show ?case by (cases "f s x") (simp_all add: Cons.IH)
qed

lemma try_fold_cong:
  assumes "\<And>s x. x \<in> set xs \<Longrightarrow> f s x = g s x"
  shows "try_fold f s xs = try_fold g s xs"
  using assms
proof (induction xs arbitrary: s)
  case (Cons x xs)
  then show ?case by (cases "g s x") auto
qed simp

lemma try_fold_invariant:
  assumes "try_fold f s xs = Inr s'" and "P s"
    and "\<And>s x s'. x \<in> set xs \<Longrightarrow> P s \<Longrightarrow> f s x = Inr s' \<Longrightarrow> P s'"
  shows "P s'"
  using assms
proof (induction xs arbitrary: s)
  case (Cons x xs)
  then obtain s1 where s1: "f s x = Inr s1" "try_fold f s1 xs = Inr s'"
    by (auto simp: and_then_Inr_iff)
  show ?case
    by (rule Cons.IH [OF s1(2)]) (use Cons.prems s1 in auto)
qed simp

section \<open>Strings\<close>

fun starts_with :: "string \<Rightarrow> string \<Rightarrow> bool" where
  "starts_with [] s = True"
| "starts_with (c # cs) [] = False"
| "starts_with (c # cs) (d # ds) = (c = d \<and> starts_with cs ds)"

lemma starts_with_iff: "starts_with p s \<longleftrightarrow> (\<exists>t. s = p @ t)"
  by (induction p s rule: starts_with.induct) auto

lemma starts_with_append [simp]: "starts_with p (p @ s)"
  by (auto simp: starts_with_iff)

fun strip_prefix :: "string \<Rightarrow> string \<Rightarrow> string option" where
  "strip_prefix [] s = Some s"
| "strip_prefix (c # cs) [] = None"
| "strip_prefix (c # cs) (d # ds) = (if c = d then strip_prefix cs ds else None)"

fun str_contains :: "string \<Rightarrow> string \<Rightarrow> bool" where
  "str_contains [] p = (p = [])"
| "str_contains (c # cs) p = (starts_with p (c # cs) \<or> str_contains cs p)"

lemma str_contains_iff: "str_contains s p \<longleftrightarrow> (\<exists>u v. s = u @ p @ v)"
proof (induction s)
  case Nil
  then show ?case by auto
next
  case (Cons c cs)
  have "(\<exists>u v. c # cs = u @ p @ v) \<longleftrightarrow> (\<exists>v. c # cs = p @ v) \<or> (\<exists>u v. cs = u @ p @ v)"
    by (metis append_Cons append_Nil append_eq_Cons_conv)
  then show ?case
    using Cons.IH by (simp add: starts_with_iff)
qed

text \<open>\<open>str::to_ascii_lowercase\<close>: bytes outside \<open>A\<close>..\<open>Z\<close> are kept.\<close>

definition ascii_lower :: "char \<Rightarrow> char" where
  "ascii_lower c = (let n = of_char c :: nat in if 65 \<le> n \<and> n \<le> 90 then char_of (n + 32) else c)"

definition to_ascii_lowercase :: "string \<Rightarrow> string" where
  "to_ascii_lowercase s = map ascii_lower s"

text \<open>\<open>str::replace\<close> of a one-character pattern.\<close>

definition replace_char :: "char \<Rightarrow> string \<Rightarrow> string \<Rightarrow> string" where
  "replace_char p t s = concat (map (\<lambda>c. if c = p then t else [c]) s)"

lemma replace_char_Nil [simp]: "replace_char p t [] = []"
  by (simp add: replace_char_def)

lemma replace_char_Cons [simp]:
  "replace_char p t (c # s) = (if c = p then t else [c]) @ replace_char p t s"
  by (simp add: replace_char_def)

lemma replace_char_append [simp]:
  "replace_char p t (s @ s') = replace_char p t s @ replace_char p t s'"
  by (simp add: replace_char_def)

text \<open>\<open>[..].join(sep)\<close>.\<close>

fun join_with :: "string \<Rightarrow> string list \<Rightarrow> string" where
  "join_with sep [] = []"
| "join_with sep [s] = s"
| "join_with sep (s # t # ss) = s @ sep @ join_with sep (t # ss)"

text \<open>
  \<open>s.trim().is_empty()\<close>: every character of the string has the Unicode property
  \<open>White_Space\<close>.  On UTF-8 bytes these are the six ASCII blanks, U+0085, U+00A0, U+1680,
  U+2000..U+200A, U+2028, U+2029, U+202F, U+205F and U+3000.
\<close>

fun is_blank_bytes :: "nat list \<Rightarrow> bool" where
  "is_blank_bytes [] = True"
| "is_blank_bytes (b # bs) =
     (if b = 32 \<or> (9 \<le> b \<and> b \<le> 13) then is_blank_bytes bs
      else (case bs of
        [] \<Rightarrow> False
      | b2 # bs2 \<Rightarrow>
          if b = 194 \<and> (b2 = 133 \<or> b2 = 160) then is_blank_bytes bs2
          else (case bs2 of
            [] \<Rightarrow> False
          | b3 # bs3 \<Rightarrow>
              if (b = 225 \<and> b2 = 154 \<and> b3 = 128)
                \<or> (b = 226 \<and> b2 = 128 \<and>
                     ((128 \<le> b3 \<and> b3 \<le> 138) \<or> b3 = 168 \<or> b3 = 169 \<or> b3 = 175))
                \<or> (b = 226 \<and> b2 = 129 \<and> b3 = 159)
                \<or> (b = 227 \<and> b2 = 128 \<and> b3 = 128)
              then is_blank_bytes bs3 else False)))"

definition trim_is_empty :: "string \<Rightarrow> bool" where
  "trim_is_empty s = is_blank_bytes (map of_char s)"

section \<open>64-bit integers as text\<close>

definition i64_ok :: "int \<Rightarrow> bool" where
  "i64_ok i \<longleftrightarrow> - (2 ^ 63) \<le> i \<and> i < 2 ^ 63"

definition digit_char :: "nat \<Rightarrow> char" where
  "digit_char d = char_of (48 + d)"

fun nat_to_string :: "nat \<Rightarrow> string" where
  "nat_to_string n =
     (if n < 10 then [digit_char n] else nat_to_string (n div 10) @ [digit_char (n mod 10)])"

declare nat_to_string.simps [simp del]

text \<open>\<open>i64::to_string\<close>.\<close>

definition int_to_string :: "int \<Rightarrow> string" where
  "int_to_string i =
     (if i < 0 then CHR ''-'' # nat_to_string (nat (- i)) else nat_to_string (nat i))"

definition digit_value :: "char \<Rightarrow> nat option" where
  "digit_value c =
     (let n = of_char c :: nat in if 48 \<le> n \<and> n \<le> 57 then Some (n - 48) else None)"

text \<open>
  \<open>str::parse::<i64>\<close>: the digits are folded from the left with checked arithmetic, downwards
  for a negative number, and the first failing step decides the \<open>ParseIntError\<close>, given here by
  its \<open>Display\<close> text.
\<close>

definition err_invalid_digit :: string where
  "err_invalid_digit = ''invalid digit found in string''"

definition err_overflow :: "bool \<Rightarrow> string" where
  "err_overflow neg =
     (if neg then ''number too small to fit in target type''
      else ''number too large to fit in target type'')"

fun parse_i64_digits :: "bool \<Rightarrow> int \<Rightarrow> string \<Rightarrow> (string, int) result" where
  "parse_i64_digits neg acc [] = Inr acc"
| "parse_i64_digits neg acc (c # cs) =
     (case digit_value c of
        None \<Rightarrow> Inl err_invalid_digit
      | Some d \<Rightarrow>
          let mul = acc * 10; next_acc = (if neg then mul - int d else mul + int d) in
          if i64_ok mul \<and> i64_ok next_acc then parse_i64_digits neg next_acc cs
          else Inl (err_overflow neg))"

definition parse_i64 :: "string \<Rightarrow> (string, int) result" where
  "parse_i64 s =
     (if s = [] then Inl ''cannot parse integer from empty string''
      else if s = ''+'' \<or> s = ''-'' then Inl err_invalid_digit
      else if hd s = CHR ''-'' then parse_i64_digits True 0 (tl s)
      else if hd s = CHR ''+'' then parse_i64_digits False 0 (tl s)
      else parse_i64_digits False 0 s)"

definition bool_to_string :: "bool \<Rightarrow> string" where
  "bool_to_string b = (if b then ''true'' else ''false'')"

definition parse_bool :: "string \<Rightarrow> (string, bool) result" where
  "parse_bool s =
     (if s = ''true'' then Inr True else if s = ''false'' then Inr False
      else Inl ''provided string was not `true` or `false`'')"

lemma parse_bool_to_string [simp]: "parse_bool (bool_to_string b) = Inr b"
  by (simp add: parse_bool_def bool_to_string_def)

lemma digit_value_digit_char [simp]: "d < 10 \<Longrightarrow> digit_value (digit_char d) = Some d"
  by (simp add: digit_value_def digit_char_def of_char_of)

lemma digit_char_neq [simp]:
  "d < 10 \<Longrightarrow> digit_char d \<noteq> CHR ''-''" "d < 10 \<Longrightarrow> digit_char d \<noteq> CHR ''+''"
proof -
  show "d < 10 \<Longrightarrow> digit_char d \<noteq> CHR ''-''"
    using digit_value_digit_char [of d] by (force simp: digit_value_def)
  show "d < 10 \<Longrightarrow> digit_char d \<noteq> CHR ''+''"
    using digit_value_digit_char [of d] by (force simp: digit_value_def)
qed

lemma nat_to_string_not_Nil [simp]: "nat_to_string n \<noteq> []"
  by (subst nat_to_string.simps) simp

lemma hd_nat_to_string: "\<exists>d < 10. hd (nat_to_string n) = digit_char d"
proof (induction n rule: nat_to_string.induct)
  case (1 n)
  then show ?case
    by (subst nat_to_string.simps) (auto simp: hd_append)
qed

lemma parse_i64_digits_append:
  "parse_i64_digits neg acc (s @ t) =
     and_then (parse_i64_digits neg acc s) (\<lambda>acc'. parse_i64_digits neg acc' t)"
  by (induction neg acc s rule: parse_i64_digits.induct)
    (auto simp: Let_def split: option.splits)

lemma parse_i64_digits_nat:
  assumes "i64_ok (if neg then - int n else int n)"
  shows "parse_i64_digits neg 0 (nat_to_string n) = Inr (if neg then - int n else int n)"
  using assms
proof (induction n rule: nat_to_string.induct)
  case (1 n)
  show ?case
  proof (cases "n < 10")
    case True
    with "1.prems" show ?thesis
      by (subst nat_to_string.simps) (simp add: Let_def i64_ok_def)
  next
    case False
    have le: "int (n div 10) * 10 \<le> int n"
      by (metis div_times_less_eq_dividend of_nat_mono of_nat_mult of_nat_numeral)
    have split: "int n = int (n div 10) * 10 + int (n mod 10)"
      by (metis div_mult_mod_eq of_nat_add of_nat_mult of_nat_numeral)
    have small: "i64_ok (if neg then - int (n div 10) else int (n div 10))"
      using "1.prems" le by (auto simp: i64_ok_def split: if_splits)
    have mul: "i64_ok ((if neg then - int (n div 10) else int (n div 10)) * 10)"
      using "1.prems" le by (auto simp: i64_ok_def split: if_splits)
    from "1.IH" [OF False small] False mul "1.prems" split show ?thesis
      by (subst nat_to_string.simps) (auto simp: parse_i64_digits_append Let_def)
  qed
qed

text \<open>Round trip of the decimal text of an \<open>i64\<close>.\<close>

lemma parse_i64_int_to_string [simp]:
  assumes "i64_ok i"
  shows "parse_i64 (int_to_string i) = Inr i"
proof (cases "i < 0")
  case True
  then have "parse_i64 (int_to_string i) = parse_i64_digits True 0 (nat_to_string (nat (- i)))"
    by (simp add: parse_i64_def int_to_string_def)
  also have "\<dots> = Inr i"
    using assms True by (subst parse_i64_digits_nat) auto
  finally show ?thesis .
next
  case False
  obtain d where d: "d < 10" "hd (nat_to_string (nat i)) = digit_char d"
    using hd_nat_to_string by blast
  have "nat_to_string (nat i) \<noteq> ''+''" "nat_to_string (nat i) \<noteq> ''-''"
    using d by (metis digit_char_neq list.sel(1))+
  with False d have "parse_i64 (int_to_string i) = parse_i64_digits False 0 (nat_to_string (nat i))"
    by (simp add: parse_i64_def int_to_string_def)
  also have "\<dots> = Inr i"
    using assms False by (subst parse_i64_digits_nat) auto
  finally show ?thesis .
qed

section \<open>Options\<close>

definition opt_all :: "('a \<Rightarrow> bool) \<Rightarrow> 'a option \<Rightarrow> bool" where
  "opt_all P x = (case x of None \<Rightarrow> True | Some a \<Rightarrow> P a)"

lemma opt_all_simps [simp]: "opt_all P None" "opt_all P (Some a) = P a"
  by (simp_all add: opt_all_def)

end
