(* ===== verification/Capo_Core.thy ===== *)
theory Capo_Core
  imports Capo_Prelude
begin

text \<open>
  The shared vocabulary of \<open>capo-core\<close>: typed identifiers, the classification of evidence
  sources that every other component defers to, the boundary registry and the session preview of the
  persistence-free controller.

  A typed identifier is the string it wraps; \<open>typed_id_new\<close> is its constructor, which panics on
  a blank string, and \<open>id_ok\<close> is the invariant every constructed identifier satisfies.
\<close>

section \<open>Typed identifiers\<close>

datatype id_panic = TypedIdEmpty

definition typed_id_new :: "string \<Rightarrow> (id_panic, string) result" where
  "typed_id_new value = (if trim_is_empty value then Inl TypedIdEmpty else Inr value)"

definition id_ok :: "string \<Rightarrow> bool" where
  "id_ok value \<longleftrightarrow> \<not> trim_is_empty value"

lemma typed_id_new_ok [simp]: "id_ok v \<Longrightarrow> typed_id_new v = Inr v"
  by (simp add: typed_id_new_def id_ok_def)

lemma typed_id_new_Inr: "typed_id_new v = Inr w \<longleftrightarrow> w = v \<and> id_ok v"
  by (auto simp: typed_id_new_def id_ok_def)

section \<open>Evidence sources\<close>

definition EVIDENCE_SOURCE_AGENT_REPORTED :: string where
  "EVIDENCE_SOURCE_AGENT_REPORTED = ''agent_reported''"

definition EVIDENCE_SOURCE_RUNTIME_OUTPUT :: string where
  "EVIDENCE_SOURCE_RUNTIME_OUTPUT = ''runtime_output''"

definition EVIDENCE_SOURCE_ADAPTER_EVENT :: string where
  "EVIDENCE_SOURCE_ADAPTER_EVENT = ''adapter_event''"

definition source_is_observed_evidence :: "string \<Rightarrow> bool" where
  "source_is_observed_evidence source \<longleftrightarrow>
     source = EVIDENCE_SOURCE_RUNTIME_OUTPUT
     \<or> source = EVIDENCE_SOURCE_ADAPTER_EVENT
     \<or> starts_with (EVIDENCE_SOURCE_ADAPTER_EVENT @ '':'') source"

lemma agent_report_is_not_observed:
  "\<not> source_is_observed_evidence EVIDENCE_SOURCE_AGENT_REPORTED"
  by (simp add: source_is_observed_evidence_def EVIDENCE_SOURCE_AGENT_REPORTED_def
      EVIDENCE_SOURCE_RUNTIME_OUTPUT_def EVIDENCE_SOURCE_ADAPTER_EVENT_def)

section \<open>Commands, sessions and runs\<close>

datatype input_origin = Cli | Tui | Dashboard | Mobile | Voice | Api | System

datatype command_target =
    TargetProject string | TargetTask string | TargetAgent string
  | TargetSession string | TargetRun string

datatype (plugins only: code size) command_intent =
    InitializeProject | RegisterAgent | StartSession | SendTask | QueryStatus | RedirectSession
  | InterruptSession | Recover | ExportEvidence | IndexWorkpads | ImportWorkpadTask
  | WriteWorkpadProposal | ApplyWorkpadProposal | QueuePermissionApproval
  | DecidePermissionApproval | RecordReviewFinding

datatype risk_level = LowRisk | MediumRisk | HighRisk | CriticalRisk

datatype session_status =
    SessionStarting | SessionActive | WaitingForInput | WaitingForPermission | SessionCanceling
  | SessionCompleted | SessionFailed | SessionCanceled | SessionRecovering

datatype run_status =
    RunStarting | RunRunning | RunStopping | RunExitedStatus | RunFailed | RunOrphanedStatus
  | RunRecoveredStatus

datatype turn_status =
    TurnOpen | TurnStreaming | TurnWaitingForTool | TurnWaitingForPermission | TurnCompleted
  | TurnFailed | TurnCanceled

text \<open>The \<open>Debug\<close> text of an origin, as \<open>format!("{origin:?}")\<close> prints it.\<close>

fun origin_debug :: "input_origin \<Rightarrow> string" where
  "origin_debug Cli = ''Cli''"
| "origin_debug Tui = ''Tui''"
| "origin_debug Dashboard = ''Dashboard''"
| "origin_debug Mobile = ''Mobile''"
| "origin_debug Voice = ''Voice''"
| "origin_debug Api = ''Api''"
| "origin_debug System = ''System''"

record command_envelope =
  cmd_command_id :: string
  cmd_origin :: input_origin
  cmd_actor_id :: string
  cmd_project_id :: string
  cmd_target :: command_target
  cmd_intent :: command_intent
  cmd_text :: "string option"
  cmd_structured_args :: "(string \<times> string) list"
  cmd_attachments :: "string list"
  cmd_risk :: risk_level
  cmd_idempotency_key :: string

definition command_envelope_new ::
  "string \<Rightarrow> input_origin \<Rightarrow> string \<Rightarrow> string \<Rightarrow> command_target \<Rightarrow> command_intent
     \<Rightarrow> command_envelope" where
  "command_envelope_new command_id origin actor_id project_id target intent =
     \<lparr>cmd_command_id = command_id, cmd_origin = origin, cmd_actor_id = actor_id,
      cmd_project_id = project_id, cmd_target = target, cmd_intent = intent, cmd_text = None,
      cmd_structured_args = [], cmd_attachments = [], cmd_risk = LowRisk,
      cmd_idempotency_key = origin_debug origin @ '':'' @ command_id\<rparr>"

definition with_text :: "command_envelope \<Rightarrow> string \<Rightarrow> command_envelope" where
  "with_text c text = c\<lparr>cmd_text := Some text\<rparr>"

record core_session =
  cs_session_id :: string
  cs_project_id :: string
  cs_task_id :: "string option"
  cs_agent_id :: string
  cs_title :: string
  cs_status :: session_status
  cs_current_goal :: string
  cs_latest_confidence :: "nat option"

record core_run =
  cr_run_id :: string
  cr_session_id :: string
  cr_status :: run_status
  cr_recovery_of_run_id :: "string option"

record core_turn =
  ct_turn_id :: string
  ct_session_id :: string
  ct_run_id :: "string option"
  ct_status :: turn_status

section \<open>The boundary registry\<close>

datatype boundary_kind =
    AgentAdapter | RuntimeRunner | ConnectivityTunnel | ProviderConnector | PermissionPolicy
  | ToolExposure | StateStore | MemoryBackend | EvaluationLayer

record boundary_binding =
  bb_kind :: boundary_kind
  bb_variant :: string
  bb_fake :: bool

type_synonym boundary_set = "boundary_binding list"

definition boundary_fake :: "boundary_kind \<Rightarrow> string \<Rightarrow> boundary_binding" where
  "boundary_fake kind variant = \<lparr>bb_kind = kind, bb_variant = variant, bb_fake = True\<rparr>"

definition boundary_register :: "boundary_set \<Rightarrow> boundary_binding \<Rightarrow> boundary_set" where
  "boundary_register bs b = filter (\<lambda>existing. bb_kind existing \<noteq> bb_kind b) bs @ [b]"

definition boundary_has :: "boundary_set \<Rightarrow> boundary_kind \<Rightarrow> bool" where
  "boundary_has bs kind = list_ex (\<lambda>b. bb_kind b = kind) bs"

definition boundary_all_fake :: "boundary_set \<Rightarrow> bool" where
  "boundary_all_fake bs = list_all bb_fake bs"

definition REQUIRED_FAKE_E2E_BOUNDARIES :: "boundary_kind list" where
  "REQUIRED_FAKE_E2E_BOUNDARIES =
     [AgentAdapter, RuntimeRunner, ConnectivityTunnel, ProviderConnector, PermissionPolicy,
      ToolExposure, StateStore, MemoryBackend, EvaluationLayer]"

datatype controller_error =
    MissingBoundary boundary_kind | UnsupportedIntent command_intent | TargetIsNotAgent

record controller_preview =
  cp_accepted_command_id :: string
  cp_session :: core_session
  cp_run :: core_run
  cp_turn :: core_turn
  cp_boundary_count :: nat

text \<open>
  The identifiers built with \<open>format!\<close> start with a visible character, so their constructors
  cannot panic and the model writes them directly.
\<close>

definition preview_start_session ::
  "command_envelope \<Rightarrow> boundary_set \<Rightarrow> (controller_error, controller_preview) result" where
  "preview_start_session command boundaries =
     (case List.find (\<lambda>kind. \<not> boundary_has boundaries kind) REQUIRED_FAKE_E2E_BOUNDARIES of
        Some kind \<Rightarrow> Inl (MissingBoundary kind)
      | None \<Rightarrow>
          if cmd_intent command \<noteq> StartSession then Inl (UnsupportedIntent (cmd_intent command))
          else (case cmd_target command of
            TargetAgent agent_id \<Rightarrow>
              let session_id = ''session-'' @ cmd_command_id command;
                  run_id = ''run-'' @ cmd_command_id command
              in Inr
                \<lparr>cp_accepted_command_id = cmd_command_id command,
                 cp_session =
                   \<lparr>cs_session_id = session_id, cs_project_id = cmd_project_id command,
                    cs_task_id = None, cs_agent_id = agent_id, cs_title = ''prototype fake session'',
                    cs_status = SessionStarting,
                    cs_current_goal = (case cmd_text command of Some t \<Rightarrow> t | None \<Rightarrow> []),
                    cs_latest_confidence = None\<rparr>,
                 cp_run =
                   \<lparr>cr_run_id = run_id, cr_session_id = session_id, cr_status = RunStarting,
                    cr_recovery_of_run_id = None\<rparr>,
                 cp_turn =
                   \<lparr>ct_turn_id = ''turn-'' @ cmd_command_id command, ct_session_id = session_id,
                    ct_run_id = Some run_id, ct_status = TurnOpen\<rparr>,
                 cp_boundary_count = length boundaries\<rparr>
          | _ \<Rightarrow> Inl TargetIsNotAgent))"

text \<open>The registry keeps at most one binding per boundary kind, and the last one registered.\<close>

definition boundary_wf :: "boundary_set \<Rightarrow> bool" where
  "boundary_wf bs = distinct (map bb_kind bs)"

lemma boundary_register_wf: "boundary_wf bs \<Longrightarrow> boundary_wf (boundary_register bs b)"
  by (auto simp: boundary_wf_def boundary_register_def distinct_map inj_on_def)

lemma boundary_has_register:
  "boundary_has (boundary_register bs b) k \<longleftrightarrow> k = bb_kind b \<or> boundary_has bs k"
  by (auto simp: boundary_has_def boundary_register_def list_ex_iff)

lemma preview_start_session_ok_iff:
  "(\<exists>p. preview_start_session c bs = Inr p) \<longleftrightarrow>
     (\<forall>k. boundary_has bs k) \<and> cmd_intent c = StartSession \<and> (\<exists>a. cmd_target c = TargetAgent a)"
proof -
  have all: "k \<in> set REQUIRED_FAKE_E2E_BOUNDARIES" for k
    by (cases k) (simp_all add: REQUIRED_FAKE_E2E_BOUNDARIES_def)
  have "List.find (\<lambda>kind. \<not> boundary_has bs kind) REQUIRED_FAKE_E2E_BOUNDARIES = None
    \<longleftrightarrow> (\<forall>k. boundary_has bs k)"
    using all by (auto simp: find_None_iff)
  then show ?thesis
    by (auto simp: preview_start_session_def Let_def split: option.splits command_target.splits)
qed

end
