(* ===== verification/Projections.thy ===== *)
theory Projections
  imports Capo_Core
begin

text \<open>
  The read models of \<open>capo-state/src/projections.rs\<close>: one record per projection struct, with the
  fields in the order of the source, and the sum type \<open>projection_record\<close> over them.  Field names
  carry a short prefix per record.  Typed identifiers and plain strings are both strings; what
  separates them is the well-formedness predicate of the record (\<open>project_wf\<close>, \<open>task_wf\<close>, ..),
  which states exactly what the Rust types guarantee: identifiers are not blank and integers are
  \<open>i64\<close>.
\<close>

section \<open>The records\<close>

record project_projection =
  prj_project_id :: string
  prj_name :: string
  prj_status :: string
  prj_updated_sequence :: int

record task_projection =
  tsk_task_id :: string
  tsk_project_id :: string
  tsk_title :: string
  tsk_capo_execution_status :: string
  tsk_active_session_id :: "string option"
  tsk_latest_summary :: "string option"
  tsk_evidence_id :: "string option"
  tsk_updated_sequence :: int

record agent_projection =
  agt_agent_id :: string
  agt_project_id :: string
  agt_name :: string
  agt_status :: string
  agt_current_session_id :: "string option"
  agt_updated_sequence :: int

record session_projection =
  ses_session_id :: string
  ses_project_id :: string
  ses_task_id :: "string option"
  ses_agent_id :: string
  ses_title :: string
  ses_status :: string
  ses_current_goal :: string
  ses_latest_summary :: "string option"
  ses_latest_confidence :: "int option"
  ses_latest_blocker :: "string option"
  ses_external_session_ref :: "string option"
  ses_updated_sequence :: int

record run_projection =
  run_run_id :: string
  run_session_id :: string
  run_status :: string
  run_recovery_of_run_id :: "string option"
  run_updated_sequence :: int

record capability_grant_projection =
  grant_capability_grant_id :: string
  grant_capability_profile_id :: string
  grant_scope_json :: string
  grant_effect :: string
  grant_subject_json :: string
  grant_decision_source :: string
  grant_persistence :: string
  grant_explanation :: string
  grant_created_at :: "string option"
  grant_expires_at :: "string option"
  grant_revoked_at :: "string option"
  grant_updated_sequence :: int

record workspace_lease_projection =
  lease_workspace_lease_id :: string
  lease_project_id :: string
  lease_holder_session_id :: string
  lease_holder_run_id :: "string option"
  lease_status :: string
  lease_acquired_at :: "string option"
  lease_released_at :: "string option"
  lease_release_reason :: string
  lease_updated_sequence :: int

record permission_approval_projection =
  appr_approval_id :: string
  appr_project_id :: string
  appr_session_id :: "string option"
  appr_tool_call_id :: "string option"
  appr_capability_profile_id :: string
  appr_scope_json :: string
  appr_subject_json :: string
  appr_status :: string
  appr_requested_by :: string
  appr_reason :: string
  appr_decision :: "string option"
  appr_capability_grant_id :: "string option"
  appr_updated_sequence :: int

record connectivity_exposure_projection =
  expo_exposure_id :: string
  expo_project_id :: string
  expo_connectivity_endpoint_id :: string
  expo_owner_kind :: string
  expo_owner_id :: string
  expo_channel_kind :: string
  expo_exposure :: string
  expo_permission_scope :: string
  expo_status :: string
  expo_capability_grant_id :: "string option"
  expo_health_status :: string
  expo_reachable :: bool
  expo_revoked_at :: "string option"
  expo_auth_ref :: "string option"
  expo_identity_ref :: "string option"
  expo_identity_fingerprint :: "string option"
  expo_expires_at :: "string option"
  expo_last_heartbeat_at :: "string option"
  expo_updated_sequence :: int

record runtime_target_projection =
  rtt_runtime_target_id :: string
  rtt_project_id :: string
  rtt_name :: string
  rtt_runner_kind :: string
  rtt_workspace_root :: string
  rtt_artifact_root :: string
  rtt_default_cwd :: string
  rtt_capability_profile_id :: string
  rtt_connectivity_endpoint_id :: "string option"
  rtt_status :: string
  rtt_updated_sequence :: int

record adapter_readiness_projection =
  ardy_adapter_kind :: string
  ardy_project_id :: string
  ardy_program :: string
  ardy_opt_in_env :: string
  ardy_opted_in :: bool
  ardy_smoke_status :: string
  ardy_credential_policy :: string
  ardy_expected_marker :: string
  ardy_env_allowlist_count :: int
  ardy_redaction_rule_count :: int
  ardy_output_limit_bytes :: int
  ardy_dogfood_blocker :: "string option"
  ardy_updated_sequence :: int

record adapter_smoke_report_projection =
  asmk_smoke_report_id :: string
  asmk_project_id :: string
  asmk_adapter_kind :: string
  asmk_smoke_status :: string
  asmk_credential_scan_status :: string
  asmk_marker_found :: bool
  asmk_artifact_root :: "string option"
  asmk_reason :: string
  asmk_dogfood_readiness_effect :: string
  asmk_updated_sequence :: int

record adapter_dispatch_plan_projection =
  plan_dispatch_plan_id :: string
  plan_project_id :: string
  plan_adapter_kind :: string
  plan_provider_kind :: string
  plan_credential_scope :: string
  plan_agent_id :: string
  plan_agent_name :: string
  plan_session_id :: string
  plan_run_id :: string
  plan_runtime_program :: string
  plan_runtime_arg_count :: int
  plan_runtime_prompt_policy :: string
  plan_runtime_cwd :: string
  plan_artifact_root :: string
  plan_request_env_count :: int
  plan_env_allowlist_count :: int
  plan_redaction_rule_count :: int
  plan_stdout_format :: string
  plan_stderr_policy :: string
  plan_provider_cli_executed :: bool
  plan_status :: string
  plan_updated_sequence :: int

record adapter_dispatch_gate_projection =
  gate_dispatch_gate_id :: string
  gate_project_id :: string
  gate_dispatch_plan_id :: string
  gate_adapter_kind :: string
  gate_provider_cli_execution_allowed :: bool
  gate_status :: string
  gate_required_dogfood_gate :: string
  gate_reason_codes :: string
  gate_provider_cli_executed :: bool
  gate_runtime_prompt_policy :: string
  gate_updated_sequence :: int

record adapter_dispatch_replay_projection =
  rply_dispatch_replay_id :: string
  rply_project_id :: string
  rply_dispatch_plan_id :: string
  rply_dispatch_gate_id :: string
  rply_adapter_kind :: string
  rply_session_id :: string
  rply_run_id :: string
  rply_fixture_path :: string
  rply_fixture_hash :: string
  rply_input_event_count :: int
  rply_appended_event_count :: int
  rply_tool_event_count :: int
  rply_summary_event_count :: int
  rply_completed_turn_count :: int
  rply_provider_cli_executed :: bool
  rply_raw_content_policy :: string
  rply_updated_sequence :: int

record adapter_dispatch_execution_request_projection =
  xreq_execution_request_id :: string
  xreq_project_id :: string
  xreq_dispatch_plan_id :: string
  xreq_dispatch_gate_id :: string
  xreq_adapter_kind :: string
  xreq_provider_cli_execution_allowed :: bool
  xreq_provider_cli_executed :: bool
  xreq_status :: string
  xreq_opt_in_env :: string
  xreq_runtime_prompt_policy :: string
  xreq_reason_codes :: string
  xreq_updated_sequence :: int

record adapter_dispatch_execution_projection =
  exec_dispatch_execution_id :: string
  exec_project_id :: string
  exec_dispatch_plan_id :: string
  exec_execution_request_id :: string
  exec_adapter_kind :: string
  exec_session_id :: string
  exec_run_id :: string
  exec_provider_cli_execution_allowed :: bool
  exec_provider_cli_executed :: bool
  exec_status :: string
  exec_exit_code :: "int option"
  exec_runtime_process_ref :: "string option"
  exec_stdout_artifact_id :: "string option"
  exec_stderr_artifact_id :: "string option"
  exec_artifact_root :: string
  exec_credential_scan_status :: string
  exec_raw_prompt_policy :: string
  exec_raw_output_policy :: string
  exec_reason_codes :: string
  exec_updated_sequence :: int

record adapter_dispatch_prompt_source_projection =
  psrc_prompt_source_id :: string
  psrc_project_id :: string
  psrc_dispatch_plan_id :: string
  psrc_prompt_hash :: string
  psrc_source_kind :: string
  psrc_source_ref :: "string option"
  psrc_source_hash :: "string option"
  psrc_materialization_status :: string
  psrc_raw_prompt_policy :: string
  psrc_updated_sequence :: int

record adapter_dispatch_prompt_materialization_projection =
  pmat_materialization_id :: string
  pmat_project_id :: string
  pmat_dispatch_plan_id :: string
  pmat_prompt_source_id :: string
  pmat_source_kind :: string
  pmat_source_ref :: "string option"
  pmat_expected_source_hash :: "string option"
  pmat_observed_source_hash :: "string option"
  pmat_expected_prompt_hash :: string
  pmat_materialized_prompt_hash :: "string option"
  pmat_status :: string
  pmat_raw_prompt_policy :: string
  pmat_reason_codes :: string
  pmat_updated_sequence :: int

record tool_call_provenance =
  prov_correlation_id :: "string option"
  prov_permission_decision_id :: "string option"
  prov_capability_grant_use_id :: "string option"
  prov_started_at :: "int option"
  prov_completed_at :: "int option"

record tool_call_projection =
  call_tool_call_id :: string
  call_session_id :: string
  call_turn_id :: "string option"
  call_tool_name :: string
  call_tool_origin :: string
  call_status :: string
  call_input_artifact_id :: "string option"
  call_output_artifact_id :: "string option"
  call_provenance :: tool_call_provenance
  call_updated_sequence :: int

record tool_observation_projection =
  obs_tool_observation_id :: string
  obs_session_id :: string
  obs_tool_call_id :: "string option"
  obs_source :: string
  obs_external_tool_ref :: "string option"
  obs_tool_name :: string
  obs_observed_status :: string
  obs_instrumentation_level :: string
  obs_confidence :: string
  obs_raw_event_hash :: string
  obs_artifact_id :: "string option"
  obs_updated_sequence :: int

record memory_packet_projection =
  mpkt_memory_packet_id :: string
  mpkt_project_id :: string
  mpkt_task_id :: "string option"
  mpkt_agent_id :: "string option"
  mpkt_session_id :: "string option"
  mpkt_run_id :: "string option"
  mpkt_turn_id :: "string option"
  mpkt_packet_artifact_id :: "string option"
  mpkt_purpose :: string
  mpkt_updated_sequence :: int

record memory_record_projection =
  mrec_memory_record_id :: string
  mrec_project_id :: string
  mrec_scope :: string
  mrec_scope_owner_ref :: string
  mrec_subject_ref :: "string option"
  mrec_sensitivity_classification :: string
  mrec_record_kind :: string
  mrec_subject :: string
  mrec_predicate :: string
  mrec_object :: string
  mrec_body :: string
  mrec_confidence :: string
  mrec_review_state :: string
  mrec_source_count :: int
  mrec_valid_from :: "string option"
  mrec_valid_until :: "string option"
  mrec_supersedes_memory_record_id :: "string option"
  mrec_revoked_by_memory_record_id :: "string option"
  mrec_redaction_state :: string
  mrec_invalidated_at :: "string option"
  mrec_invalidation_reason :: "string option"
  mrec_packet_item_ref :: "string option"
  mrec_updated_sequence :: int

record memory_source_projection =
  msrc_memory_source_id :: string
  msrc_memory_record_id :: string
  msrc_source_kind :: string
  msrc_source_event_id :: "string option"
  msrc_source_artifact_id :: "string option"
  msrc_source_path :: "string option"
  msrc_source_anchor :: "string option"
  msrc_source_content_hash :: "string option"
  msrc_source_sequence :: "int option"
  msrc_quote_artifact_id :: "string option"
  msrc_observed_at :: "string option"
  msrc_updated_sequence :: int

record task_outcome_report_projection =
  tout_task_outcome_report_id :: string
  tout_project_id :: string
  tout_task_id :: string
  tout_session_id :: string
  tout_run_id :: string
  tout_outcome_status :: string
  tout_started_sequence :: int
  tout_completed_sequence :: int
  tout_duration_sequence_span :: int
  tout_action_count :: int
  tout_tool_call_count :: int
  tout_evidence_count :: int
  tout_memory_packet_count :: int
  tout_confidence :: "int option"
  tout_blocker :: "string option"
  tout_review_outcome :: string
  tout_report_artifact_id :: "string option"
  tout_updated_sequence :: int

record review_finding_projection =
  find_review_finding_id :: string
  find_project_id :: string
  find_task_id :: string
  find_session_id :: string
  find_run_id :: "string option"
  find_tool_call_id :: "string option"
  find_workpad_task_id :: "string option"
  find_reviewer :: string
  find_finding_kind :: string
  find_severity :: string
  find_summary :: string
  find_status :: string
  find_evidence_artifact_id :: "string option"
  find_follow_up :: "string option"
  find_updated_sequence :: int

record evidence_projection =
  evid_evidence_id :: string
  evid_project_id :: string
  evid_task_id :: "string option"
  evid_session_id :: "string option"
  evid_run_id :: "string option"
  evid_kind :: string
  evid_artifact_id :: "string option"
  evid_confidence :: int
  evid_updated_sequence :: int

record run_score_projection =
  score_run_score_id :: string
  score_project_id :: string
  score_task_id :: "string option"
  score_session_id :: string
  score_run_id :: string
  score_outcome :: string
  score_passed :: bool
  score_criteria_total :: int
  score_criteria_met :: int
  score_observed_evidence_count :: int
  score_started_at :: int
  score_completed_at :: int
  score_duration_millis :: int
  score_score_inputs_json :: string
  score_updated_sequence :: int

record checkpoint_projection =
  ckpt_checkpoint_id :: string
  ckpt_project_id :: string
  ckpt_session_id :: string
  ckpt_run_id :: string
  ckpt_turn_id :: "string option"
  ckpt_kind :: string
  ckpt_commit_ref :: string
  ckpt_workspace_root :: string
  ckpt_shadow_git_dir :: string
  ckpt_content_hash :: string
  ckpt_created_at :: "string option"
  ckpt_restored_at :: "string option"
  ckpt_updated_sequence :: int

record worktree_projection =
  wtree_worktree_id :: string
  wtree_project_id :: string
  wtree_session_id :: string
  wtree_run_id :: "string option"
  wtree_goal_id :: "string option"
  wtree_repo_root :: string
  wtree_worktree_path :: string
  wtree_branch :: string
  wtree_status :: string
  wtree_created_at :: "string option"
  wtree_reconciled_at :: "string option"
  wtree_torn_down_at :: "string option"
  wtree_updated_sequence :: int

record source_binding_projection =
  bind_source_binding_id :: string
  bind_project_id :: string
  bind_task_id :: string
  bind_source_kind :: string
  bind_source_task_id :: string
  bind_source_path :: string
  bind_source_anchor :: string
  bind_source_hash :: string
  bind_binding_status :: string
  bind_updated_sequence :: int

record workpad_index_reset_projection =
  wreset_project_id :: string
  wreset_observed_unix :: int
  wreset_updated_sequence :: int

record workpad_file_projection =
  wfile_path :: string
  wfile_project_id :: string
  wfile_content_hash :: string
  wfile_headings :: string
  wfile_objective :: "string option"
  wfile_observed_unix :: int
  wfile_updated_sequence :: int

record workpad_task_projection =
  wtask_workpad_task_id :: string
  wtask_project_id :: string
  wtask_path :: string
  wtask_source_anchor :: string
  wtask_title :: string
  wtask_observed_status :: string
  wtask_capo_execution_status :: string
  wtask_observed_unix :: int
  wtask_updated_sequence :: int

record goal_projection =
  goal_goal_id :: string
  goal_project_id :: string
  goal_task_id :: "string option"
  goal_agent_id :: "string option"
  goal_session_id :: "string option"
  goal_parent_goal_id :: "string option"
  goal_attempt_run_id :: "string option"
  goal_objective :: string
  goal_status :: string
  goal_success_criteria_json :: string
  goal_constraints_json :: string
  goal_verification_surface_json :: string
  goal_budget_json :: string
  goal_stop_conditions_json :: string
  goal_blocker_reason :: string
  goal_updated_sequence :: int

record requirement_ledger_projection =
  req_requirement_id :: string
  req_goal_id :: string
  req_project_id :: string
  req_summary :: string
  req_status :: string
  req_last_status_source :: string
  req_updated_sequence :: int

record goal_report_projection =
  grpt_goal_report_id :: string
  grpt_goal_id :: string
  grpt_project_id :: string
  grpt_session_id :: "string option"
  grpt_requirement_id :: "string option"
  grpt_report_kind :: string
  grpt_source :: string
  grpt_confidence :: "int option"
  grpt_summary :: string
  grpt_body_artifact_id :: "string option"
  grpt_evidence_id :: "string option"
  grpt_updated_sequence :: int

record goal_continuation_projection =
  cont_continuation_id :: string
  cont_goal_id :: string
  cont_project_id :: string
  cont_attempt_run_id :: "string option"
  cont_decision :: string
  cont_reason :: string
  cont_updated_sequence :: int

record delegated_provider_goal_projection =
  dpg_delegated_goal_id :: string
  dpg_goal_id :: string
  dpg_project_id :: string
  dpg_session_id :: "string option"
  dpg_provider_kind :: string
  dpg_provider_goal_ref :: "string option"
  dpg_provider_state :: string
  dpg_source :: string
  dpg_body_artifact_id :: "string option"
  dpg_updated_sequence :: int

record goal_audit_decision_projection =
  audit_audit_id :: string
  audit_goal_id :: string
  audit_project_id :: string
  audit_attempt_run_id :: "string option"
  audit_verdict :: string
  audit_reason :: string
  audit_requirements_total :: int
  audit_requirements_complete :: int
  audit_requirement_detail_json :: string
  audit_updated_sequence :: int

record adapter_replay_batch_projection =
  batch_acp_replay_batch_id :: string
  batch_session_id :: string
  batch_project_id :: string
  batch_external_session_ref :: string
  batch_source :: string
  batch_status :: string
  batch_load_request_id :: "string option"
  batch_prompt_request_id :: "string option"
  batch_recovery_attempt_id :: "string option"
  batch_raw_update_count :: int
  batch_imported_count :: int
  batch_duplicate_count :: int
  batch_ambiguous_count :: int
  batch_normalized_sequence_start :: "int option"
  batch_normalized_sequence_end :: "int option"
  batch_started_at :: "string option"
  batch_completed_at :: "string option"
  batch_updated_sequence :: int

record adapter_raw_update_projection =
  raw_acp_raw_update_id :: string
  raw_acp_replay_batch_id :: string
  raw_project_id :: string
  raw_external_session_ref :: string
  raw_batch_index :: int
  raw_jsonrpc_method :: string
  raw_session_update_kind :: "string option"
  raw_external_item_ref :: "string option"
  raw_acp_timeline_key :: "string option"
  raw_payload_hash :: string
  raw_payload_artifact_id :: "string option"
  raw_replay_source :: string
  raw_dedupe_confidence :: string
  raw_observed_at :: "string option"
  raw_updated_sequence :: int

record adapter_timeline_key_projection =
  tkey_adapter_timeline_key_id :: string
  tkey_session_id :: string
  tkey_project_id :: string
  tkey_external_session_ref :: string
  tkey_kind :: string
  tkey_stable_ref :: "string option"
  tkey_synthetic_ref :: "string option"
  tkey_confidence :: string
  tkey_first_sequence :: "int option"
  tkey_last_sequence :: "int option"
  tkey_updated_sequence :: int

section \<open>The sum of the projections\<close>

datatype (plugins only: code size) projection_record =
    Project project_projection
  | Task task_projection
  | Agent agent_projection
  | Session session_projection
  | Run run_projection
  | CapabilityGrant capability_grant_projection
  | WorkspaceLease workspace_lease_projection
  | PermissionApproval permission_approval_projection
  | ConnectivityExposure connectivity_exposure_projection
  | RuntimeTarget runtime_target_projection
  | AdapterReadiness adapter_readiness_projection
  | AdapterSmokeReport adapter_smoke_report_projection
  | AdapterDispatchPlan adapter_dispatch_plan_projection
  | AdapterDispatchGate adapter_dispatch_gate_projection
  | AdapterDispatchReplay adapter_dispatch_replay_projection
  | AdapterDispatchExecutionRequest adapter_dispatch_execution_request_projection
  | AdapterDispatchExecution adapter_dispatch_execution_projection
  | AdapterDispatchPromptSource adapter_dispatch_prompt_source_projection
  | AdapterDispatchPromptMaterialization adapter_dispatch_prompt_materialization_projection
  | ToolCall tool_call_projection
  | ToolObservation tool_observation_projection
  | MemoryPacketRef memory_packet_projection
  | MemoryRecord memory_record_projection
  | MemorySource memory_source_projection
  | TaskOutcomeReport task_outcome_report_projection
  | ReviewFinding review_finding_projection
  | Evidence evidence_projection
  | RunScore run_score_projection
  | Checkpoint checkpoint_projection
  | Worktree worktree_projection
  | SourceBinding source_binding_projection
  | WorkpadIndexReset workpad_index_reset_projection
  | WorkpadFile workpad_file_projection
  | WorkpadTask workpad_task_projection
  | Goal goal_projection
  | RequirementLedger requirement_ledger_projection
  | GoalReport goal_report_projection
  | GoalContinuation goal_continuation_projection
  | DelegatedProviderGoal delegated_provider_goal_projection
  | GoalAuditDecision goal_audit_decision_projection
  | AdapterReplayBatch adapter_replay_batch_projection
  | AdapterRawUpdate adapter_raw_update_projection
  | AdapterTimelineKey adapter_timeline_key_projection

section \<open>What the Rust types guarantee\<close>

definition project_wf :: "project_projection \<Rightarrow> bool" where
  "project_wf p \<longleftrightarrow>
     id_ok (prj_project_id p)"

definition task_wf :: "task_projection \<Rightarrow> bool" where
  "task_wf p \<longleftrightarrow>
     id_ok (tsk_task_id p) \<and> id_ok (tsk_project_id p) \<and>
     opt_all id_ok (tsk_active_session_id p) \<and> opt_all id_ok (tsk_evidence_id p)"

definition agent_wf :: "agent_projection \<Rightarrow> bool" where
  "agent_wf p \<longleftrightarrow>
     id_ok (agt_agent_id p) \<and> id_ok (agt_project_id p) \<and>
     opt_all id_ok (agt_current_session_id p)"

definition session_wf :: "session_projection \<Rightarrow> bool" where
  "session_wf p \<longleftrightarrow>
     id_ok (ses_session_id p) \<and> id_ok (ses_project_id p) \<and> opt_all id_ok (ses_task_id p) \<and>
     id_ok (ses_agent_id p) \<and> opt_all i64_ok (ses_latest_confidence p)"

definition run_wf :: "run_projection \<Rightarrow> bool" where
  "run_wf p \<longleftrightarrow>
     id_ok (run_run_id p) \<and> id_ok (run_session_id p) \<and> opt_all id_ok (run_recovery_of_run_id p)"

definition capability_grant_wf :: "capability_grant_projection \<Rightarrow> bool" where
  "capability_grant_wf p \<longleftrightarrow>
     True"

definition workspace_lease_wf :: "workspace_lease_projection \<Rightarrow> bool" where
  "workspace_lease_wf p \<longleftrightarrow>
     id_ok (lease_project_id p) \<and> id_ok (lease_holder_session_id p) \<and>
     opt_all id_ok (lease_holder_run_id p)"

definition permission_approval_wf :: "permission_approval_projection \<Rightarrow> bool" where
  "permission_approval_wf p \<longleftrightarrow>
     id_ok (appr_project_id p) \<and> opt_all id_ok (appr_session_id p) \<and>
     opt_all id_ok (appr_tool_call_id p)"

definition connectivity_exposure_wf :: "connectivity_exposure_projection \<Rightarrow> bool" where
  "connectivity_exposure_wf p \<longleftrightarrow>
     id_ok (expo_project_id p)"

definition runtime_target_wf :: "runtime_target_projection \<Rightarrow> bool" where
  "runtime_target_wf p \<longleftrightarrow>
     id_ok (rtt_project_id p)"

definition adapter_readiness_wf :: "adapter_readiness_projection \<Rightarrow> bool" where
  "adapter_readiness_wf p \<longleftrightarrow>
     id_ok (ardy_project_id p) \<and> i64_ok (ardy_env_allowlist_count p) \<and>
     i64_ok (ardy_redaction_rule_count p) \<and> i64_ok (ardy_output_limit_bytes p)"

definition adapter_smoke_report_wf :: "adapter_smoke_report_projection \<Rightarrow> bool" where
  "adapter_smoke_report_wf p \<longleftrightarrow>
     id_ok (asmk_project_id p)"

definition adapter_dispatch_plan_wf :: "adapter_dispatch_plan_projection \<Rightarrow> bool" where
  "adapter_dispatch_plan_wf p \<longleftrightarrow>
     id_ok (plan_project_id p) \<and> id_ok (plan_agent_id p) \<and> id_ok (plan_session_id p) \<and>
     id_ok (plan_run_id p) \<and> i64_ok (plan_runtime_arg_count p) \<and>
     i64_ok (plan_request_env_count p) \<and> i64_ok (plan_env_allowlist_count p) \<and>
     i64_ok (plan_redaction_rule_count p)"

definition adapter_dispatch_gate_wf :: "adapter_dispatch_gate_projection \<Rightarrow> bool" where
  "adapter_dispatch_gate_wf p \<longleftrightarrow>
     id_ok (gate_project_id p)"

definition adapter_dispatch_replay_wf :: "adapter_dispatch_replay_projection \<Rightarrow> bool" where
  "adapter_dispatch_replay_wf p \<longleftrightarrow>
     id_ok (rply_project_id p) \<and> id_ok (rply_session_id p) \<and> id_ok (rply_run_id p) \<and>
     i64_ok (rply_input_event_count p) \<and> i64_ok (rply_appended_event_count p) \<and>
     i64_ok (rply_tool_event_count p) \<and> i64_ok (rply_summary_event_count p) \<and>
     i64_ok (rply_completed_turn_count p)"

definition adapter_dispatch_execution_request_wf :: "adapter_dispatch_execution_request_projection \<Rightarrow> bool" where
  "adapter_dispatch_execution_request_wf p \<longleftrightarrow>
     id_ok (xreq_project_id p)"

definition adapter_dispatch_execution_wf :: "adapter_dispatch_execution_projection \<Rightarrow> bool" where
  "adapter_dispatch_execution_wf p \<longleftrightarrow>
     id_ok (exec_project_id p) \<and> id_ok (exec_session_id p) \<and> id_ok (exec_run_id p) \<and>
     opt_all i64_ok (exec_exit_code p)"

definition adapter_dispatch_prompt_source_wf :: "adapter_dispatch_prompt_source_projection \<Rightarrow> bool" where
  "adapter_dispatch_prompt_source_wf p \<longleftrightarrow>
     id_ok (psrc_project_id p)"

definition adapter_dispatch_prompt_materialization_wf :: "adapter_dispatch_prompt_materialization_projection \<Rightarrow> bool" where
  "adapter_dispatch_prompt_materialization_wf p \<longleftrightarrow>
     id_ok (pmat_project_id p)"

definition tool_call_wf :: "tool_call_projection \<Rightarrow> bool" where
  "tool_call_wf p \<longleftrightarrow>
     id_ok (call_tool_call_id p) \<and> id_ok (call_session_id p) \<and>
     opt_all i64_ok (prov_started_at (call_provenance p)) \<and>
     opt_all i64_ok (prov_completed_at (call_provenance p))"

definition tool_observation_wf :: "tool_observation_projection \<Rightarrow> bool" where
  "tool_observation_wf p \<longleftrightarrow>
     id_ok (obs_session_id p) \<and> opt_all id_ok (obs_tool_call_id p)"

definition memory_packet_ref_wf :: "memory_packet_projection \<Rightarrow> bool" where
  "memory_packet_ref_wf p \<longleftrightarrow>
     id_ok (mpkt_memory_packet_id p) \<and> id_ok (mpkt_project_id p) \<and>
     opt_all id_ok (mpkt_task_id p) \<and> opt_all id_ok (mpkt_agent_id p) \<and>
     opt_all id_ok (mpkt_session_id p) \<and> opt_all id_ok (mpkt_run_id p)"

definition memory_record_wf :: "memory_record_projection \<Rightarrow> bool" where
  "memory_record_wf p \<longleftrightarrow>
     id_ok (mrec_project_id p) \<and> i64_ok (mrec_source_count p)"

definition memory_source_wf :: "memory_source_projection \<Rightarrow> bool" where
  "memory_source_wf p \<longleftrightarrow>
     opt_all i64_ok (msrc_source_sequence p)"

definition task_outcome_report_wf :: "task_outcome_report_projection \<Rightarrow> bool" where
  "task_outcome_report_wf p \<longleftrightarrow>
     id_ok (tout_project_id p) \<and> id_ok (tout_task_id p) \<and> id_ok (tout_session_id p) \<and>
     id_ok (tout_run_id p) \<and> i64_ok (tout_started_sequence p) \<and>
     i64_ok (tout_completed_sequence p) \<and> i64_ok (tout_duration_sequence_span p) \<and>
     i64_ok (tout_action_count p) \<and> i64_ok (tout_tool_call_count p) \<and>
     i64_ok (tout_evidence_count p) \<and> i64_ok (tout_memory_packet_count p) \<and>
     opt_all i64_ok (tout_confidence p)"

definition review_finding_wf :: "review_finding_projection \<Rightarrow> bool" where
  "review_finding_wf p \<longleftrightarrow>
     id_ok (find_project_id p) \<and> id_ok (find_task_id p) \<and> id_ok (find_session_id p) \<and>
     opt_all id_ok (find_run_id p) \<and> opt_all id_ok (find_tool_call_id p)"

definition evidence_wf :: "evidence_projection \<Rightarrow> bool" where
  "evidence_wf p \<longleftrightarrow>
     id_ok (evid_evidence_id p) \<and> id_ok (evid_project_id p) \<and> opt_all id_ok (evid_task_id p) \<and>
     opt_all id_ok (evid_session_id p) \<and> opt_all id_ok (evid_run_id p) \<and>
     i64_ok (evid_confidence p)"

definition run_score_wf :: "run_score_projection \<Rightarrow> bool" where
  "run_score_wf p \<longleftrightarrow>
     id_ok (score_project_id p) \<and> opt_all id_ok (score_task_id p) \<and>
     id_ok (score_session_id p) \<and> id_ok (score_run_id p) \<and> i64_ok (score_criteria_total p) \<and>
     i64_ok (score_criteria_met p) \<and> i64_ok (score_observed_evidence_count p) \<and>
     i64_ok (score_started_at p) \<and> i64_ok (score_completed_at p) \<and>
     i64_ok (score_duration_millis p)"

definition checkpoint_wf :: "checkpoint_projection \<Rightarrow> bool" where
  "checkpoint_wf p \<longleftrightarrow>
     id_ok (ckpt_project_id p) \<and> id_ok (ckpt_session_id p) \<and> id_ok (ckpt_run_id p)"

definition worktree_wf :: "worktree_projection \<Rightarrow> bool" where
  "worktree_wf p \<longleftrightarrow>
     id_ok (wtree_project_id p) \<and> id_ok (wtree_session_id p) \<and> opt_all id_ok (wtree_run_id p) \<and>
     opt_all id_ok (wtree_goal_id p)"

definition source_binding_wf :: "source_binding_projection \<Rightarrow> bool" where
  "source_binding_wf p \<longleftrightarrow>
     id_ok (bind_project_id p) \<and> id_ok (bind_task_id p)"

definition workpad_index_reset_wf :: "workpad_index_reset_projection \<Rightarrow> bool" where
  "workpad_index_reset_wf p \<longleftrightarrow>
     id_ok (wreset_project_id p) \<and> i64_ok (wreset_observed_unix p)"

definition workpad_file_wf :: "workpad_file_projection \<Rightarrow> bool" where
  "workpad_file_wf p \<longleftrightarrow>
     id_ok (wfile_project_id p) \<and> i64_ok (wfile_observed_unix p)"

definition workpad_task_wf :: "workpad_task_projection \<Rightarrow> bool" where
  "workpad_task_wf p \<longleftrightarrow>
     id_ok (wtask_project_id p) \<and> i64_ok (wtask_observed_unix p)"

definition goal_wf :: "goal_projection \<Rightarrow> bool" where
  "goal_wf p \<longleftrightarrow>
     id_ok (goal_goal_id p) \<and> id_ok (goal_project_id p) \<and> opt_all id_ok (goal_task_id p) \<and>
     opt_all id_ok (goal_agent_id p) \<and> opt_all id_ok (goal_session_id p) \<and>
     opt_all id_ok (goal_parent_goal_id p) \<and> opt_all id_ok (goal_attempt_run_id p)"

definition requirement_ledger_wf :: "requirement_ledger_projection \<Rightarrow> bool" where
  "requirement_ledger_wf p \<longleftrightarrow>
     id_ok (req_requirement_id p) \<and> id_ok (req_goal_id p) \<and> id_ok (req_project_id p)"

definition goal_report_wf :: "goal_report_projection \<Rightarrow> bool" where
  "goal_report_wf p \<longleftrightarrow>
     id_ok (grpt_goal_id p) \<and> id_ok (grpt_project_id p) \<and> opt_all id_ok (grpt_session_id p) \<and>
     opt_all id_ok (grpt_requirement_id p) \<and> opt_all i64_ok (grpt_confidence p) \<and>
     opt_all id_ok (grpt_evidence_id p)"

definition goal_continuation_wf :: "goal_continuation_projection \<Rightarrow> bool" where
  "goal_continuation_wf p \<longleftrightarrow>
     id_ok (cont_goal_id p) \<and> id_ok (cont_project_id p) \<and> opt_all id_ok (cont_attempt_run_id p)"

definition delegated_provider_goal_wf :: "delegated_provider_goal_projection \<Rightarrow> bool" where
  "delegated_provider_goal_wf p \<longleftrightarrow>
     id_ok (dpg_goal_id p) \<and> id_ok (dpg_project_id p) \<and> opt_all id_ok (dpg_session_id p)"

definition goal_audit_decision_wf :: "goal_audit_decision_projection \<Rightarrow> bool" where
  "goal_audit_decision_wf p \<longleftrightarrow>
     id_ok (audit_goal_id p) \<and> id_ok (audit_project_id p) \<and>
     opt_all id_ok (audit_attempt_run_id p) \<and> i64_ok (audit_requirements_total p) \<and>
     i64_ok (audit_requirements_complete p)"

definition adapter_replay_batch_wf :: "adapter_replay_batch_projection \<Rightarrow> bool" where
  "adapter_replay_batch_wf p \<longleftrightarrow>
     id_ok (batch_session_id p) \<and> id_ok (batch_project_id p) \<and>
     i64_ok (batch_raw_update_count p) \<and> i64_ok (batch_imported_count p) \<and>
     i64_ok (batch_duplicate_count p) \<and> i64_ok (batch_ambiguous_count p) \<and>
     opt_all i64_ok (batch_normalized_sequence_start p) \<and>
     opt_all i64_ok (batch_normalized_sequence_end p)"

definition adapter_raw_update_wf :: "adapter_raw_update_projection \<Rightarrow> bool" where
  "adapter_raw_update_wf p \<longleftrightarrow>
     id_ok (raw_project_id p) \<and> i64_ok (raw_batch_index p)"

definition adapter_timeline_key_wf :: "adapter_timeline_key_projection \<Rightarrow> bool" where
  "adapter_timeline_key_wf p \<longleftrightarrow>
     id_ok (tkey_session_id p) \<and> id_ok (tkey_project_id p) \<and>
     opt_all i64_ok (tkey_first_sequence p) \<and> opt_all i64_ok (tkey_last_sequence p)"

fun record_wf :: "projection_record \<Rightarrow> bool" where
  "record_wf (Project p) = project_wf p"
| "record_wf (Task p) = task_wf p"
| "record_wf (Agent p) = agent_wf p"
| "record_wf (Session p) = session_wf p"
| "record_wf (Run p) = run_wf p"
| "record_wf (CapabilityGrant p) = capability_grant_wf p"
| "record_wf (WorkspaceLease p) = workspace_lease_wf p"
| "record_wf (PermissionApproval p) = permission_approval_wf p"
| "record_wf (ConnectivityExposure p) = connectivity_exposure_wf p"
| "record_wf (RuntimeTarget p) = runtime_target_wf p"
| "record_wf (AdapterReadiness p) = adapter_readiness_wf p"
| "record_wf (AdapterSmokeReport p) = adapter_smoke_report_wf p"
| "record_wf (AdapterDispatchPlan p) = adapter_dispatch_plan_wf p"
| "record_wf (AdapterDispatchGate p) = adapter_dispatch_gate_wf p"
| "record_wf (AdapterDispatchReplay p) = adapter_dispatch_replay_wf p"
| "record_wf (AdapterDispatchExecutionRequest p) = adapter_dispatch_execution_request_wf p"
| "record_wf (AdapterDispatchExecution p) = adapter_dispatch_execution_wf p"
| "record_wf (AdapterDispatchPromptSource p) = adapter_dispatch_prompt_source_wf p"
| "record_wf (AdapterDispatchPromptMaterialization p) = adapter_dispatch_prompt_materialization_wf p"
| "record_wf (ToolCall p) = tool_call_wf p"
| "record_wf (ToolObservation p) = tool_observation_wf p"
| "record_wf (MemoryPacketRef p) = memory_packet_ref_wf p"
| "record_wf (MemoryRecord p) = memory_record_wf p"
| "record_wf (MemorySource p) = memory_source_wf p"
| "record_wf (TaskOutcomeReport p) = task_outcome_report_wf p"
| "record_wf (ReviewFinding p) = review_finding_wf p"
| "record_wf (Evidence p) = evidence_wf p"
| "record_wf (RunScore p) = run_score_wf p"
| "record_wf (Checkpoint p) = checkpoint_wf p"
| "record_wf (Worktree p) = worktree_wf p"
| "record_wf (SourceBinding p) = source_binding_wf p"
| "record_wf (WorkpadIndexReset p) = workpad_index_reset_wf p"
| "record_wf (WorkpadFile p) = workpad_file_wf p"
| "record_wf (WorkpadTask p) = workpad_task_wf p"
| "record_wf (Goal p) = goal_wf p"
| "record_wf (RequirementLedger p) = requirement_ledger_wf p"
| "record_wf (GoalReport p) = goal_report_wf p"
| "record_wf (GoalContinuation p) = goal_continuation_wf p"
| "record_wf (DelegatedProviderGoal p) = delegated_provider_goal_wf p"
| "record_wf (GoalAuditDecision p) = goal_audit_decision_wf p"
| "record_wf (AdapterReplayBatch p) = adapter_replay_batch_wf p"
| "record_wf (AdapterRawUpdate p) = adapter_raw_update_wf p"
| "record_wf (AdapterTimelineKey p) = adapter_timeline_key_wf p"

lemmas [wf_simps] =
  project_wf_def
  task_wf_def
  agent_wf_def
  session_wf_def
  run_wf_def
  capability_grant_wf_def
  workspace_lease_wf_def
  permission_approval_wf_def
  connectivity_exposure_wf_def
  runtime_target_wf_def
  adapter_readiness_wf_def
  adapter_smoke_report_wf_def
  adapter_dispatch_plan_wf_def
  adapter_dispatch_gate_wf_def
  adapter_dispatch_replay_wf_def
  adapter_dispatch_execution_request_wf_def
  adapter_dispatch_execution_wf_def
  adapter_dispatch_prompt_source_wf_def
  adapter_dispatch_prompt_materialization_wf_def
  tool_call_wf_def
  tool_observation_wf_def
  memory_packet_ref_wf_def
  memory_record_wf_def
  memory_source_wf_def
  task_outcome_report_wf_def
  review_finding_wf_def
  evidence_wf_def
  run_score_wf_def
  checkpoint_wf_def
  worktree_wf_def
  source_binding_wf_def
  workpad_index_reset_wf_def
  workpad_file_wf_def
  workpad_task_wf_def
  goal_wf_def
  requirement_ledger_wf_def
  goal_report_wf_def
  goal_continuation_wf_def
  delegated_provider_goal_wf_def
  goal_audit_decision_wf_def
  adapter_replay_batch_wf_def
  adapter_raw_update_wf_def
  adapter_timeline_key_wf_def

text \<open>The row a projection leaves in its table carries the sequence of the event that wrote it.\<close>

fun with_sequence :: "int \<Rightarrow> projection_record \<Rightarrow> projection_record" where
  "with_sequence n (Project p) = Project (p\<lparr>prj_updated_sequence := n\<rparr>)"
| "with_sequence n (Task p) = Task (p\<lparr>tsk_updated_sequence := n\<rparr>)"
| "with_sequence n (Agent p) = Agent (p\<lparr>agt_updated_sequence := n\<rparr>)"
| "with_sequence n (Session p) = Session (p\<lparr>ses_updated_sequence := n\<rparr>)"
| "with_sequence n (Run p) = Run (p\<lparr>run_updated_sequence := n\<rparr>)"
| "with_sequence n (CapabilityGrant p) = CapabilityGrant (p\<lparr>grant_updated_sequence := n\<rparr>)"
| "with_sequence n (WorkspaceLease p) = WorkspaceLease (p\<lparr>lease_updated_sequence := n\<rparr>)"
| "with_sequence n (PermissionApproval p) = PermissionApproval (p\<lparr>appr_updated_sequence := n\<rparr>)"
| "with_sequence n (ConnectivityExposure p) = ConnectivityExposure (p\<lparr>expo_updated_sequence := n\<rparr>)"
| "with_sequence n (RuntimeTarget p) = RuntimeTarget (p\<lparr>rtt_updated_sequence := n\<rparr>)"
| "with_sequence n (AdapterReadiness p) = AdapterReadiness (p\<lparr>ardy_updated_sequence := n\<rparr>)"
| "with_sequence n (AdapterSmokeReport p) = AdapterSmokeReport (p\<lparr>asmk_updated_sequence := n\<rparr>)"
| "with_sequence n (AdapterDispatchPlan p) = AdapterDispatchPlan (p\<lparr>plan_updated_sequence := n\<rparr>)"
| "with_sequence n (AdapterDispatchGate p) = AdapterDispatchGate (p\<lparr>gate_updated_sequence := n\<rparr>)"
| "with_sequence n (AdapterDispatchReplay p) = AdapterDispatchReplay (p\<lparr>rply_updated_sequence := n\<rparr>)"
| "with_sequence n (AdapterDispatchExecutionRequest p) = AdapterDispatchExecutionRequest (p\<lparr>xreq_updated_sequence := n\<rparr>)"
| "with_sequence n (AdapterDispatchExecution p) = AdapterDispatchExecution (p\<lparr>exec_updated_sequence := n\<rparr>)"
| "with_sequence n (AdapterDispatchPromptSource p) = AdapterDispatchPromptSource (p\<lparr>psrc_updated_sequence := n\<rparr>)"
| "with_sequence n (AdapterDispatchPromptMaterialization p) = AdapterDispatchPromptMaterialization (p\<lparr>pmat_updated_sequence := n\<rparr>)"
| "with_sequence n (ToolCall p) = ToolCall (p\<lparr>call_updated_sequence := n\<rparr>)"
| "with_sequence n (ToolObservation p) = ToolObservation (p\<lparr>obs_updated_sequence := n\<rparr>)"
| "with_sequence n (MemoryPacketRef p) = MemoryPacketRef (p\<lparr>mpkt_updated_sequence := n\<rparr>)"
| "with_sequence n (MemoryRecord p) = MemoryRecord (p\<lparr>mrec_updated_sequence := n\<rparr>)"
| "with_sequence n (MemorySource p) = MemorySource (p\<lparr>msrc_updated_sequence := n\<rparr>)"
| "with_sequence n (TaskOutcomeReport p) = TaskOutcomeReport (p\<lparr>tout_updated_sequence := n\<rparr>)"
| "with_sequence n (ReviewFinding p) = ReviewFinding (p\<lparr>find_updated_sequence := n\<rparr>)"
| "with_sequence n (Evidence p) = Evidence (p\<lparr>evid_updated_sequence := n\<rparr>)"
| "with_sequence n (RunScore p) = RunScore (p\<lparr>score_updated_sequence := n\<rparr>)"
| "with_sequence n (Checkpoint p) = Checkpoint (p\<lparr>ckpt_updated_sequence := n\<rparr>)"
| "with_sequence n (Worktree p) = Worktree (p\<lparr>wtree_updated_sequence := n\<rparr>)"
| "with_sequence n (SourceBinding p) = SourceBinding (p\<lparr>bind_updated_sequence := n\<rparr>)"
| "with_sequence n (WorkpadIndexReset p) = WorkpadIndexReset (p\<lparr>wreset_updated_sequence := n\<rparr>)"
| "with_sequence n (WorkpadFile p) = WorkpadFile (p\<lparr>wfile_updated_sequence := n\<rparr>)"
| "with_sequence n (WorkpadTask p) = WorkpadTask (p\<lparr>wtask_updated_sequence := n\<rparr>)"
| "with_sequence n (Goal p) = Goal (p\<lparr>goal_updated_sequence := n\<rparr>)"
| "with_sequence n (RequirementLedger p) = RequirementLedger (p\<lparr>req_updated_sequence := n\<rparr>)"
| "with_sequence n (GoalReport p) = GoalReport (p\<lparr>grpt_updated_sequence := n\<rparr>)"
| "with_sequence n (GoalContinuation p) = GoalContinuation (p\<lparr>cont_updated_sequence := n\<rparr>)"
| "with_sequence n (DelegatedProviderGoal p) = DelegatedProviderGoal (p\<lparr>dpg_updated_sequence := n\<rparr>)"
| "with_sequence n (GoalAuditDecision p) = GoalAuditDecision (p\<lparr>audit_updated_sequence := n\<rparr>)"
| "with_sequence n (AdapterReplayBatch p) = AdapterReplayBatch (p\<lparr>batch_updated_sequence := n\<rparr>)"
| "with_sequence n (AdapterRawUpdate p) = AdapterRawUpdate (p\<lparr>raw_updated_sequence := n\<rparr>)"
| "with_sequence n (AdapterTimelineKey p) = AdapterTimelineKey (p\<lparr>tkey_updated_sequence := n\<rparr>)"


end
