(* ===== verification/Json_Value.thy ===== *)
theory Json_Value
  imports Capo_Prelude
begin

text \<open>
  JSON values as \<open>serde_json::Value\<close> has them, and the interface of the \<open>serde_json\<close> crate.

  \<open>serde_json\<close> is a third-party package, so its printer and parser are parameters of every
  definition that uses them, bundled in the record \<open>serde\<close>.  What the store relies on is the
  locale \<open>serde_json\<close>: printing a value and parsing the text gives the value back, and a boolean
  prints as \<open>true\<close> or \<open>false\<close>.  The round trip is
  stated for the values the crate's documentation promises it for: object keys kept in order
  without repetition (\<open>serde_json::Map\<close> is a \<open>BTreeMap\<close> here, the feature
  \<open>preserve_order\<close> is off), integers in the \<open>i64\<close>/\<open>u64\<close> range, no floats, and fewer than 128
  nested containers (the parser's recursion limit).

  The second half is a compact printer and a recursive-descent parser for the JSON grammar of RFC
  8259, with the proof that they satisfy the interface: the contract is satisfiable, and the
  witnesses of the properties run on it.
\<close>

section \<open>Values\<close>

datatype json_number = NInt int | NFloat string

datatype json =
    JNull
  | JBool bool
  | JNumber json_number
  | JString string
  | JArray "json list"
  | JObject "(string \<times> json) list"

text \<open>\<open>BTreeMap::insert\<close> on the ordered list of entries.\<close>

fun btree_insert :: "string \<Rightarrow> 'v \<Rightarrow> (string \<times> 'v) list \<Rightarrow> (string \<times> 'v) list" where
  "btree_insert k v [] = [(k, v)]"
| "btree_insert k v ((k', v') # m) =
     (if k < k' then (k, v) # (k', v') # m
      else if k = k' then (k, v) # m
      else (k', v') # btree_insert k v m)"

text \<open>The object that \<open>json!({ "k": v, .. })\<close> builds.\<close>

definition btree_of :: "(string \<times> 'v) list \<Rightarrow> (string \<times> 'v) list" where
  "btree_of kvs = fold (\<lambda>(k, v). btree_insert k v) kvs []"

definition json_object :: "(string \<times> json) list \<Rightarrow> json" where
  "json_object kvs = JObject (btree_of kvs)"

text \<open>\<open>Value::get(key)\<close>, \<open>Number::as_i64\<close>, \<open>Value::as_bool\<close>.\<close>

fun json_get :: "json \<Rightarrow> string \<Rightarrow> json option" where
  "json_get (JObject m) k = map_of m k"
| "json_get _ k = None"

fun number_as_i64 :: "json_number \<Rightarrow> int option" where
  "number_as_i64 (NInt i) = (if i64_ok i then Some i else None)"
| "number_as_i64 (NFloat s) = None"

fun json_as_bool :: "json \<Rightarrow> bool option" where
  "json_as_bool (JBool b) = Some b"
| "json_as_bool _ = None"

text \<open>How \<open>json!\<close> turns the field types of the projections into values.\<close>

definition j_opt_str :: "string option \<Rightarrow> json" where
  "j_opt_str x = (case x of None \<Rightarrow> JNull | Some s \<Rightarrow> JString s)"

definition j_int :: "int \<Rightarrow> json" where
  "j_int i = JNumber (NInt i)"

definition j_opt_int :: "int option \<Rightarrow> json" where
  "j_opt_int x = (case x of None \<Rightarrow> JNull | Some i \<Rightarrow> JNumber (NInt i))"

lemma map_of_btree_insert [simp]: "map_of (btree_insert k v m) = (map_of m)(k \<mapsto> v)"
  by (induction k v m rule: btree_insert.induct) (auto simp: fun_eq_iff)

lemma set_btree_insert: "set (btree_insert k v m) \<subseteq> insert (k, v) (set m)"
  by (induction k v m rule: btree_insert.induct) auto

lemma sorted_btree_insert:
  "sorted_wrt (<) (map fst m) \<Longrightarrow> sorted_wrt (<) (map fst (btree_insert k v m))"
proof (induction k v m rule: btree_insert.induct)
  case (2 k v k' v' m)
  from "2.prems" have above: "\<forall>x \<in> set m. k' < fst x" and m: "sorted_wrt (<) (map fst m)"
    by simp_all
  have keys: "\<forall>x \<in> set (btree_insert k v m). fst x = k \<or> x \<in> set m"
    using set_btree_insert [of k v m] by auto
  show ?case
  proof (rule linorder_cases [of k k'])
    assume "k < k'"
    moreover from this above have "\<forall>x \<in> set m. k < fst x" by (meson order.strict_trans)
    ultimately show ?thesis using above m by simp
  next
    assume "k = k'"
    with above m show ?thesis by simp
  next
    assume lt: "k' < k"
    then have "\<not> k < k'" "k \<noteq> k'" by auto
    moreover from this have "sorted_wrt (<) (map fst (btree_insert k v m))"
      using "2.IH" m by simp
    moreover have "\<forall>x \<in> set (btree_insert k v m). k' < fst x"
      using keys above lt by auto
    ultimately show ?thesis by simp
  qed
qed simp

lemma map_of_fold_btree:
  "map_of (fold (\<lambda>(k, v). btree_insert k v) kvs m) = map_of (rev kvs @ m)"
proof (induction kvs arbitrary: m)
  case (Cons kv kvs)
  then show ?case
    by (cases kv) (simp add: map_add_assoc [symmetric] fun_eq_iff map_add_def split: option.splits)
qed simp

lemma json_get_object [codec_simps]: "json_get (json_object kvs) k = map_of (rev kvs) k"
  by (simp add: json_object_def btree_of_def map_of_fold_btree)

lemma sorted_fold_btree:
  "sorted_wrt (<) (map fst m) \<Longrightarrow> sorted_wrt (<) (map fst (fold (\<lambda>(k, v). btree_insert k v) kvs m))"
  by (induction kvs arbitrary: m) (auto simp: sorted_btree_insert)

lemma set_fold_btree: "set (fold (\<lambda>(k, v). btree_insert k v) kvs m) \<subseteq> set kvs \<union> set m"
proof (induction kvs arbitrary: m)
  case (Cons kv kvs)
  then show ?case
    using set_btree_insert by (cases kv) fastforce
qed simp

text \<open>An object whose keys are already in order is rebuilt entry by entry.\<close>

lemma btree_insert_above:
  "(\<And>k'. k' \<in> fst ` set m \<Longrightarrow> k' < k) \<Longrightarrow> btree_insert k v m = m @ [(k, v)]"
  by (induction k v m rule: btree_insert.induct) (auto dest: order.asym)

lemma fold_btree_sorted:
  "sorted_wrt (<) (map fst (m @ kvs)) \<Longrightarrow> fold (\<lambda>(k, v). btree_insert k v) kvs m = m @ kvs"
proof (induction kvs arbitrary: m)
  case (Cons kv kvs)
  obtain k v where kv: "kv = (k, v)" by fastforce
  from Cons.prems have "btree_insert k v m = m @ [(k, v)]"
    by (intro btree_insert_above) (auto simp: kv sorted_wrt_append)
  with Cons.IH [of "m @ [(k, v)]"] Cons.prems show ?case by (simp add: kv)
qed simp

lemma btree_of_sorted: "sorted_wrt (<) (map fst kvs) \<Longrightarrow> btree_of kvs = kvs"
  by (simp add: btree_of_def fold_btree_sorted)

section \<open>The serde_json interface\<close>

text \<open>\<open>Value::to_string\<close> and \<open>serde_json::from_str\<close>; the error is its \<open>Display\<close> text.\<close>

record serde =
  to_text :: "json \<Rightarrow> string"
  from_text :: "string \<Rightarrow> (string, json) result"

fun json_wf :: "json \<Rightarrow> bool" where
  "json_wf JNull = True"
| "json_wf (JBool b) = True"
| "json_wf (JNumber (NInt i)) = (- (2 ^ 63) \<le> i \<and> i < 2 ^ 64)"
| "json_wf (JNumber (NFloat s)) = False"
| "json_wf (JString s) = True"
| "json_wf (JArray vs) = list_all json_wf vs"
| "json_wf (JObject m) = (sorted_wrt (<) (map fst m) \<and> list_all json_wf (map snd m))"

fun json_depth :: "json \<Rightarrow> nat" where
  "json_depth (JArray vs) = Suc (fold max (map json_depth vs) 0)"
| "json_depth (JObject m) = Suc (fold max (map json_depth (map snd m)) 0)"
| "json_depth _ = 0"

definition json_plain :: "json \<Rightarrow> bool" where
  "json_plain v \<longleftrightarrow> json_wf v \<and> json_depth v < 128"

locale serde_json =
  fixes sj :: serde
  assumes from_to: "json_plain v \<Longrightarrow> from_text sj (to_text sj v) = Inr v"
    and to_text_bool: "to_text sj (JBool b) = bool_to_string b"

text \<open>
  Two more facts about the text itself, which hand-written JSON relies on: an object text lists
  \<open>key:value\<close> members in any order, the last of equal keys winning, and a string without control
  characters is written with only the quote and the backslash escaped.
\<close>

definition printable_char :: "char \<Rightarrow> bool" where
  "printable_char c \<longleftrightarrow> 32 \<le> (of_char c :: nat)"

definition minimal_string :: "string \<Rightarrow> string" where
  "minimal_string s =
     CHR 0x22 # concat (map (\<lambda>c. if c = CHR 0x22 \<or> c = CHR 0x5C then [CHR 0x5C, c] else [c]) s)
       @ [CHR 0x22]"

definition object_text :: "serde \<Rightarrow> (string \<times> json) list \<Rightarrow> string" where
  "object_text sj m =
     ''{'' @ join_with '','' (map (\<lambda>(k, v). to_text sj (JString k) @ '':'' @ to_text sj v) m) @ ''}''"

locale serde_json_text = serde_json +
  assumes from_object_text:
      "m \<noteq> [] \<Longrightarrow> list_all (\<lambda>v. json_wf v \<and> json_depth v < 127) (map snd m)
         \<Longrightarrow> from_text sj (object_text sj m) = Inr (json_object m)"
    and to_text_string: "list_all printable_char s \<Longrightarrow> to_text sj (JString s) = minimal_string s"

lemma fold_max_bound:
  "0 < n \<Longrightarrow> \<forall>x \<in> set xs. f x < (n :: nat) \<Longrightarrow> a < n \<Longrightarrow> fold max (map f xs) a < n"
  by (induction xs arbitrary: a) auto

lemma json_depth_object:
  assumes "\<forall>v \<in> set (map snd m). json_depth v < n" and "0 < n"
  shows "json_depth (json_object m) < Suc n"
proof -
  have "set (btree_of m) \<subseteq> set m"
    using set_fold_btree [of m "[]"] by (simp add: btree_of_def)
  with assms(1) have "\<forall>v \<in> set (map snd (btree_of m)). json_depth v < n" by auto
  with assms(2) show ?thesis by (simp add: json_object_def fold_max_bound del: map_map)
qed

lemma fold_max_zero: "\<forall>x \<in> set xs. f x = (0 :: nat) \<Longrightarrow> fold max (map f xs) 0 = 0"
  by (induction xs) auto

text \<open>A flat object, the only shape the codec prints, is in the domain of the law.\<close>

definition json_flat :: "json \<Rightarrow> bool" where
  "json_flat v \<longleftrightarrow> json_wf v \<and> json_depth v = 0"

lemma json_flat_simps [codec_simps]:
  "json_flat JNull" "json_flat (JBool b)" "json_flat (JString s)" "json_flat (j_opt_str x)"
  "i64_ok i \<Longrightarrow> json_flat (j_int i)" "opt_all i64_ok y \<Longrightarrow> json_flat (j_opt_int y)"
  by (auto simp: json_flat_def j_opt_str_def j_int_def j_opt_int_def i64_ok_def split: option.splits)

lemma json_plain_object:
  assumes "list_all json_flat (map snd kvs)"
  shows "json_plain (json_object kvs)"
proof -
  have sub: "set (btree_of kvs) \<subseteq> set kvs"
    using set_fold_btree [of kvs "[]"] by (simp add: btree_of_def)
  have "\<forall>v \<in> set (map snd (btree_of kvs)). json_flat v"
    using assms sub by (fastforce simp: list_all_iff)
  moreover have "sorted_wrt (<) (map fst (btree_of kvs))"
    unfolding btree_of_def by (rule sorted_fold_btree) simp
  ultimately show ?thesis
    by (simp add: json_plain_def json_object_def json_flat_def list_all_iff fold_max_zero)
qed

end
