(* ===== verification/Codec_Encode.thy ===== *)
theory Codec_Encode
  imports Projections Json_Value
begin

text \<open>
  \<open>capo-state/src/codec_encode.rs\<close>: a projection record as a row of the append-only table
  \<open>projection_records\<close>.  A row has a kind, a record id, eight positional text columns and a JSON
  payload for what does not fit in them.  One definition per arm of
  \<open>projection_record_to_row\<close>.
\<close>

record projection_record_row =
  row_kind :: string
  row_record_id :: string
  row_a :: "string option"
  row_b :: "string option"
  row_c :: "string option"
  row_d :: "string option"
  row_e :: "string option"
  row_f :: "string option"
  row_g :: "string option"
  row_h :: "string option"
  row_payload_json :: string

text \<open>The only escaping the hand-written payload of an approval gets: backslashes, then quotes.\<close>

definition escape_json :: "string \<Rightarrow> string" where
  "escape_json value = replace_char CHR 0x22 [CHR 0x5C, CHR 0x22] (replace_char CHR 0x5C [CHR 0x5C, CHR 0x5C] value)"

definition quoted :: "string \<Rightarrow> string" where
  "quoted s = CHR 0x22 # s @ [CHR 0x22]"

definition project_to_row :: "serde \<Rightarrow> project_projection \<Rightarrow> projection_record_row" where
  "project_to_row sj p =
     \<lparr>row_kind = ''project'',
      row_record_id = prj_project_id p,
      row_a = Some (prj_name p),
      row_b = Some (prj_status p),
      row_c = None,
      row_d = None,
      row_e = None,
      row_f = None,
      row_g = None,
      row_h = None,
      row_payload_json = ''{}''\<rparr>"

definition task_to_row :: "serde \<Rightarrow> task_projection \<Rightarrow> projection_record_row" where
  "task_to_row sj p =
     \<lparr>row_kind = ''task'',
      row_record_id = tsk_task_id p,
      row_a = Some (tsk_project_id p),
      row_b = Some (tsk_title p),
      row_c = Some (tsk_capo_execution_status p),
      row_d = tsk_active_session_id p,
      row_e = tsk_latest_summary p,
      row_f = tsk_evidence_id p,
      row_g = None,
      row_h = None,
      row_payload_json = ''{}''\<rparr>"

definition agent_to_row :: "serde \<Rightarrow> agent_projection \<Rightarrow> projection_record_row" where
  "agent_to_row sj p =
     \<lparr>row_kind = ''agent'',
      row_record_id = agt_agent_id p,
      row_a = Some (agt_project_id p),
      row_b = Some (agt_name p),
      row_c = Some (agt_status p),
      row_d = agt_current_session_id p,
      row_e = None,
      row_f = None,
      row_g = None,
      row_h = None,
      row_payload_json = ''{}''\<rparr>"

definition session_to_row :: "serde \<Rightarrow> session_projection \<Rightarrow> projection_record_row" where
  "session_to_row sj p =
     \<lparr>row_kind = ''session'',
      row_record_id = ses_session_id p,
      row_a = Some (ses_project_id p),
      row_b = ses_task_id p,
      row_c = Some (ses_agent_id p),
      row_d = Some (ses_title p),
      row_e = Some (ses_status p),
      row_f = Some (ses_current_goal p),
      row_g = ses_latest_summary p,
      row_h = map_option int_to_string (ses_latest_confidence p),
      row_payload_json = to_text sj (json_object
         [(''external_session_ref'', j_opt_str (ses_external_session_ref p))])\<rparr>"

definition run_to_row :: "serde \<Rightarrow> run_projection \<Rightarrow> projection_record_row" where
  "run_to_row sj p =
     \<lparr>row_kind = ''run'',
      row_record_id = run_run_id p,
      row_a = Some (run_session_id p),
      row_b = Some (run_status p),
      row_c = run_recovery_of_run_id p,
      row_d = None,
      row_e = None,
      row_f = None,
      row_g = None,
      row_h = None,
      row_payload_json = ''{}''\<rparr>"

definition capability_grant_to_row :: "serde \<Rightarrow> capability_grant_projection \<Rightarrow> projection_record_row" where
  "capability_grant_to_row sj p =
     \<lparr>row_kind = ''capability_grant'',
      row_record_id = grant_capability_grant_id p,
      row_a = Some (grant_capability_profile_id p),
      row_b = Some (grant_scope_json p),
      row_c = Some (grant_effect p),
      row_d = Some (grant_subject_json p),
      row_e = Some (grant_decision_source p),
      row_f = Some (grant_persistence p),
      row_g = Some (grant_explanation p),
      row_h = None,
      row_payload_json = to_text sj (json_object
         [(''created_at'', j_opt_str (grant_created_at p)),
          (''expires_at'', j_opt_str (grant_expires_at p)),
          (''revoked_at'', j_opt_str (grant_revoked_at p))])\<rparr>"

definition workspace_lease_to_row :: "serde \<Rightarrow> workspace_lease_projection \<Rightarrow> projection_record_row" where
  "workspace_lease_to_row sj p =
     \<lparr>row_kind = ''workspace_lease'',
      row_record_id = lease_workspace_lease_id p,
      row_a = Some (lease_project_id p),
      row_b = Some (lease_holder_session_id p),
      row_c = lease_holder_run_id p,
      row_d = Some (lease_status p),
      row_e = lease_acquired_at p,
      row_f = lease_released_at p,
      row_g = Some (lease_release_reason p),
      row_h = None,
      row_payload_json = ''{}''\<rparr>"

definition permission_approval_to_row :: "serde \<Rightarrow> permission_approval_projection \<Rightarrow> projection_record_row" where
  "permission_approval_to_row sj p =
     \<lparr>row_kind = ''permission_approval'',
      row_record_id = appr_approval_id p,
      row_a = Some (appr_project_id p),
      row_b = appr_session_id p,
      row_c = appr_tool_call_id p,
      row_d = Some (appr_capability_profile_id p),
      row_e = Some (appr_status p),
      row_f = appr_decision p,
      row_g = appr_capability_grant_id p,
      row_h = Some (appr_scope_json p),
      row_payload_json = ''{'' @ quoted ''subject_json'' @ '':'' @ appr_subject_json p
         @ '','' @ quoted ''requested_by'' @ '':'' @ quoted (escape_json (appr_requested_by p))
         @ '','' @ quoted ''reason'' @ '':'' @ quoted (escape_json (appr_reason p)) @ ''}''\<rparr>"

definition connectivity_exposure_to_row :: "serde \<Rightarrow> connectivity_exposure_projection \<Rightarrow> projection_record_row" where
  "connectivity_exposure_to_row sj p =
     \<lparr>row_kind = ''connectivity_exposure'',
      row_record_id = expo_exposure_id p,
      row_a = Some (expo_project_id p),
      row_b = Some (expo_connectivity_endpoint_id p),
      row_c = Some (expo_status p),
      row_d = expo_capability_grant_id p,
      row_e = Some (expo_health_status p),
      row_f = Some (bool_to_string (expo_reachable p)),
      row_g = expo_revoked_at p,
      row_h = Some (expo_permission_scope p),
      row_payload_json = to_text sj (json_object
         [(''owner_kind'', JString (expo_owner_kind p)),
          (''owner_id'', JString (expo_owner_id p)),
          (''channel_kind'', JString (expo_channel_kind p)),
          (''exposure'', JString (expo_exposure p)),
          (''auth_ref'', j_opt_str (expo_auth_ref p)),
          (''identity_ref'', j_opt_str (expo_identity_ref p)),
          (''identity_fingerprint'', j_opt_str (expo_identity_fingerprint p)),
          (''expires_at'', j_opt_str (expo_expires_at p)),
          (''last_heartbeat_at'', j_opt_str (expo_last_heartbeat_at p))])\<rparr>"

definition runtime_target_to_row :: "serde \<Rightarrow> runtime_target_projection \<Rightarrow> projection_record_row" where
  "runtime_target_to_row sj p =
     \<lparr>row_kind = ''runtime_target'',
      row_record_id = rtt_runtime_target_id p,
      row_a = Some (rtt_project_id p),
      row_b = Some (rtt_name p),
      row_c = Some (rtt_runner_kind p),
      row_d = Some (rtt_status p),
      row_e = rtt_connectivity_endpoint_id p,
      row_f = Some (rtt_capability_profile_id p),
      row_g = Some (rtt_workspace_root p),
      row_h = Some (rtt_artifact_root p),
      row_payload_json = to_text sj (json_object
         [(''default_cwd'', JString (rtt_default_cwd p))])\<rparr>"

definition adapter_readiness_to_row :: "serde \<Rightarrow> adapter_readiness_projection \<Rightarrow> projection_record_row" where
  "adapter_readiness_to_row sj p =
     \<lparr>row_kind = ''adapter_readiness'',
      row_record_id = ardy_adapter_kind p,
      row_a = Some (ardy_project_id p),
      row_b = Some (ardy_program p),
      row_c = Some (ardy_opt_in_env p),
      row_d = Some (bool_to_string (ardy_opted_in p)),
      row_e = Some (ardy_smoke_status p),
      row_f = Some (ardy_credential_policy p),
      row_g = Some (ardy_expected_marker p),
      row_h = ardy_dogfood_blocker p,
      row_payload_json = to_text sj (json_object
         [(''env_allowlist_count'', j_int (ardy_env_allowlist_count p)),
          (''redaction_rule_count'', j_int (ardy_redaction_rule_count p)),
          (''output_limit_bytes'', j_int (ardy_output_limit_bytes p))])\<rparr>"

definition adapter_smoke_report_to_row :: "serde \<Rightarrow> adapter_smoke_report_projection \<Rightarrow> projection_record_row" where
  "adapter_smoke_report_to_row sj p =
     \<lparr>row_kind = ''adapter_smoke_report'',
      row_record_id = asmk_smoke_report_id p,
      row_a = Some (asmk_project_id p),
      row_b = Some (asmk_adapter_kind p),
      row_c = Some (asmk_smoke_status p),
      row_d = Some (asmk_credential_scan_status p),
      row_e = Some (bool_to_string (asmk_marker_found p)),
      row_f = asmk_artifact_root p,
      row_g = Some (asmk_dogfood_readiness_effect p),
      row_h = None,
      row_payload_json = to_text sj (json_object
         [(''reason'', JString (asmk_reason p))])\<rparr>"

definition adapter_dispatch_plan_to_row :: "serde \<Rightarrow> adapter_dispatch_plan_projection \<Rightarrow> projection_record_row" where
  "adapter_dispatch_plan_to_row sj p =
     \<lparr>row_kind = ''adapter_dispatch_plan'',
      row_record_id = plan_dispatch_plan_id p,
      row_a = Some (plan_project_id p),
      row_b = Some (plan_adapter_kind p),
      row_c = Some (plan_agent_id p),
      row_d = Some (plan_session_id p),
      row_e = Some (plan_run_id p),
      row_f = Some (plan_status p),
      row_g = Some (bool_to_string (plan_provider_cli_executed p)),
      row_h = Some (plan_runtime_prompt_policy p),
      row_payload_json = to_text sj (json_object
         [(''provider_kind'', JString (plan_provider_kind p)),
          (''credential_scope'', JString (plan_credential_scope p)),
          (''agent_name'', JString (plan_agent_name p)),
          (''runtime_program'', JString (plan_runtime_program p)),
          (''runtime_arg_count'', j_int (plan_runtime_arg_count p)),
          (''runtime_cwd'', JString (plan_runtime_cwd p)),
          (''artifact_root'', JString (plan_artifact_root p)),
          (''request_env_count'', j_int (plan_request_env_count p)),
          (''env_allowlist_count'', j_int (plan_env_allowlist_count p)),
          (''redaction_rule_count'', j_int (plan_redaction_rule_count p)),
          (''stdout_format'', JString (plan_stdout_format p)),
          (''stderr_policy'', JString (plan_stderr_policy p))])\<rparr>"

definition adapter_dispatch_gate_to_row :: "serde \<Rightarrow> adapter_dispatch_gate_projection \<Rightarrow> projection_record_row" where
  "adapter_dispatch_gate_to_row sj p =
     \<lparr>row_kind = ''adapter_dispatch_gate'',
      row_record_id = gate_dispatch_gate_id p,
      row_a = Some (gate_project_id p),
      row_b = Some (gate_dispatch_plan_id p),
      row_c = Some (gate_adapter_kind p),
      row_d = Some (bool_to_string (gate_provider_cli_execution_allowed p)),
      row_e = Some (gate_status p),
      row_f = Some (gate_required_dogfood_gate p),
      row_g = Some (bool_to_string (gate_provider_cli_executed p)),
      row_h = Some (gate_runtime_prompt_policy p),
      row_payload_json = to_text sj (json_object
         [(''reason_codes'', JString (gate_reason_codes p))])\<rparr>"

definition adapter_dispatch_replay_to_row :: "serde \<Rightarrow> adapter_dispatch_replay_projection \<Rightarrow> projection_record_row" where
  "adapter_dispatch_replay_to_row sj p =
     \<lparr>row_kind = ''adapter_dispatch_replay'',
      row_record_id = rply_dispatch_replay_id p,
      row_a = Some (rply_project_id p),
      row_b = Some (rply_dispatch_plan_id p),
      row_c = Some (rply_dispatch_gate_id p),
      row_d = Some (rply_adapter_kind p),
      row_e = Some (rply_session_id p),
      row_f = Some (rply_run_id p),
      row_g = Some (bool_to_string (rply_provider_cli_executed p)),
      row_h = Some (rply_raw_content_policy p),
      row_payload_json = to_text sj (json_object
         [(''fixture_path'', JString (rply_fixture_path p)),
          (''fixture_hash'', JString (rply_fixture_hash p)),
          (''input_event_count'', j_int (rply_input_event_count p)),
          (''appended_event_count'', j_int (rply_appended_event_count p)),
          (''tool_event_count'', j_int (rply_tool_event_count p)),
          (''summary_event_count'', j_int (rply_summary_event_count p)),
          (''completed_turn_count'', j_int (rply_completed_turn_count p))])\<rparr>"

definition adapter_dispatch_execution_request_to_row :: "serde \<Rightarrow> adapter_dispatch_execution_request_projection \<Rightarrow> projection_record_row" where
  "adapter_dispatch_execution_request_to_row sj p =
     \<lparr>row_kind = ''adapter_dispatch_execution_request'',
      row_record_id = xreq_execution_request_id p,
      row_a = Some (xreq_project_id p),
      row_b = Some (xreq_dispatch_plan_id p),
      row_c = Some (xreq_dispatch_gate_id p),
      row_d = Some (xreq_adapter_kind p),
      row_e = Some (bool_to_string (xreq_provider_cli_execution_allowed p)),
      row_f = Some (xreq_status p),
      row_g = Some (bool_to_string (xreq_provider_cli_executed p)),
      row_h = Some (xreq_runtime_prompt_policy p),
      row_payload_json = to_text sj (json_object
         [(''opt_in_env'', JString (xreq_opt_in_env p)),
          (''reason_codes'', JString (xreq_reason_codes p))])\<rparr>"

definition adapter_dispatch_execution_to_row :: "serde \<Rightarrow> adapter_dispatch_execution_projection \<Rightarrow> projection_record_row" where
  "adapter_dispatch_execution_to_row sj p =
     \<lparr>row_kind = ''adapter_dispatch_execution'',
      row_record_id = exec_dispatch_execution_id p,
      row_a = Some (exec_project_id p),
      row_b = Some (exec_dispatch_plan_id p),
      row_c = Some (exec_execution_request_id p),
      row_d = Some (exec_adapter_kind p),
      row_e = Some (exec_session_id p),
      row_f = Some (exec_run_id p),
      row_g = Some (bool_to_string (exec_provider_cli_executed p)),
      row_h = Some (exec_status p),
      row_payload_json = to_text sj (json_object
         [(''provider_cli_execution_allowed'', JBool (exec_provider_cli_execution_allowed p)),
          (''exit_code'', j_opt_int (exec_exit_code p)),
          (''runtime_process_ref'', j_opt_str (exec_runtime_process_ref p)),
          (''stdout_artifact_id'', j_opt_str (exec_stdout_artifact_id p)),
          (''stderr_artifact_id'', j_opt_str (exec_stderr_artifact_id p)),
          (''artifact_root'', JString (exec_artifact_root p)),
          (''credential_scan_status'', JString (exec_credential_scan_status p)),
          (''raw_prompt_policy'', JString (exec_raw_prompt_policy p)),
          (''raw_output_policy'', JString (exec_raw_output_policy p)),
          (''reason_codes'', JString (exec_reason_codes p))])\<rparr>"

definition adapter_dispatch_prompt_source_to_row :: "serde \<Rightarrow> adapter_dispatch_prompt_source_projection \<Rightarrow> projection_record_row" where
  "adapter_dispatch_prompt_source_to_row sj p =
     \<lparr>row_kind = ''adapter_dispatch_prompt_source'',
      row_record_id = psrc_prompt_source_id p,
      row_a = Some (psrc_project_id p),
      row_b = Some (psrc_dispatch_plan_id p),
      row_c = Some (psrc_prompt_hash p),
      row_d = Some (psrc_source_kind p),
      row_e = psrc_source_ref p,
      row_f = psrc_source_hash p,
      row_g = Some (psrc_materialization_status p),
      row_h = Some (psrc_raw_prompt_policy p),
      row_payload_json = ''{}''\<rparr>"

definition adapter_dispatch_prompt_materialization_to_row :: "serde \<Rightarrow> adapter_dispatch_prompt_materialization_projection \<Rightarrow> projection_record_row" where
  "adapter_dispatch_prompt_materialization_to_row sj p =
     \<lparr>row_kind = ''adapter_dispatch_prompt_materialization'',
      row_record_id = pmat_materialization_id p,
      row_a = Some (pmat_project_id p),
      row_b = Some (pmat_dispatch_plan_id p),
      row_c = Some (pmat_prompt_source_id p),
      row_d = Some (pmat_source_kind p),
      row_e = Some (pmat_expected_prompt_hash p),
      row_f = pmat_materialized_prompt_hash p,
      row_g = Some (pmat_status p),
      row_h = Some (pmat_raw_prompt_policy p),
      row_payload_json = to_text sj (json_object
         [(''source_ref'', j_opt_str (pmat_source_ref p)),
          (''expected_source_hash'', j_opt_str (pmat_expected_source_hash p)),
          (''observed_source_hash'', j_opt_str (pmat_observed_source_hash p)),
          (''reason_codes'', JString (pmat_reason_codes p))])\<rparr>"

definition tool_call_to_row :: "serde \<Rightarrow> tool_call_projection \<Rightarrow> projection_record_row" where
  "tool_call_to_row sj p =
     \<lparr>row_kind = ''tool_call'',
      row_record_id = call_tool_call_id p,
      row_a = Some (call_session_id p),
      row_b = call_turn_id p,
      row_c = Some (call_tool_name p),
      row_d = Some (call_tool_origin p),
      row_e = Some (call_status p),
      row_f = call_input_artifact_id p,
      row_g = call_output_artifact_id p,
      row_h = None,
      row_payload_json = to_text sj (json_object
         [(''correlation_id'', j_opt_str (prov_correlation_id (call_provenance p))),
          (''permission_decision_id'', j_opt_str (prov_permission_decision_id (call_provenance p))),
          (''capability_grant_use_id'', j_opt_str (prov_capability_grant_use_id (call_provenance p))),
          (''started_at'', j_opt_int (prov_started_at (call_provenance p))),
          (''completed_at'', j_opt_int (prov_completed_at (call_provenance p)))])\<rparr>"

definition tool_observation_to_row :: "serde \<Rightarrow> tool_observation_projection \<Rightarrow> projection_record_row" where
  "tool_observation_to_row sj p =
     \<lparr>row_kind = ''tool_observation'',
      row_record_id = obs_tool_observation_id p,
      row_a = Some (obs_session_id p),
      row_b = obs_tool_call_id p,
      row_c = Some (obs_source p),
      row_d = obs_external_tool_ref p,
      row_e = Some (obs_tool_name p),
      row_f = Some (obs_observed_status p),
      row_g = Some (obs_instrumentation_level p),
      row_h = Some (obs_confidence p),
      row_payload_json = to_text sj (json_object
         [(''raw_event_hash'', JString (obs_raw_event_hash p)),
          (''artifact_id'', j_opt_str (obs_artifact_id p))])\<rparr>"

definition memory_packet_ref_to_row :: "serde \<Rightarrow> memory_packet_projection \<Rightarrow> projection_record_row" where
  "memory_packet_ref_to_row sj p =
     \<lparr>row_kind = ''memory_packet'',
      row_record_id = mpkt_memory_packet_id p,
      row_a = Some (mpkt_project_id p),
      row_b = mpkt_task_id p,
      row_c = mpkt_agent_id p,
      row_d = mpkt_session_id p,
      row_e = mpkt_run_id p,
      row_f = mpkt_turn_id p,
      row_g = mpkt_packet_artifact_id p,
      row_h = Some (mpkt_purpose p),
      row_payload_json = ''{}''\<rparr>"

definition memory_record_to_row :: "serde \<Rightarrow> memory_record_projection \<Rightarrow> projection_record_row" where
  "memory_record_to_row sj p =
     \<lparr>row_kind = ''memory_record'',
      row_record_id = mrec_memory_record_id p,
      row_a = Some (mrec_project_id p),
      row_b = Some (mrec_scope p),
      row_c = Some (mrec_scope_owner_ref p),
      row_d = mrec_subject_ref p,
      row_e = Some (mrec_sensitivity_classification p),
      row_f = Some (mrec_record_kind p),
      row_g = Some (mrec_review_state p),
      row_h = Some (int_to_string (mrec_source_count p)),
      row_payload_json = to_text sj (json_object
         [(''subject'', JString (mrec_subject p)),
          (''predicate'', JString (mrec_predicate p)),
          (''object'', JString (mrec_object p)),
          (''body'', JString (mrec_body p)),
          (''confidence'', JString (mrec_confidence p)),
          (''valid_from'', j_opt_str (mrec_valid_from p)),
          (''valid_until'', j_opt_str (mrec_valid_until p)),
          (''supersedes_memory_record_id'', j_opt_str (mrec_supersedes_memory_record_id p)),
          (''revoked_by_memory_record_id'', j_opt_str (mrec_revoked_by_memory_record_id p)),
          (''redaction_state'', JString (mrec_redaction_state p)),
          (''invalidated_at'', j_opt_str (mrec_invalidated_at p)),
          (''invalidation_reason'', j_opt_str (mrec_invalidation_reason p)),
          (''packet_item_ref'', j_opt_str (mrec_packet_item_ref p))])\<rparr>"

definition memory_source_to_row :: "serde \<Rightarrow> memory_source_projection \<Rightarrow> projection_record_row" where
  "memory_source_to_row sj p =
     \<lparr>row_kind = ''memory_source'',
      row_record_id = msrc_memory_source_id p,
      row_a = Some (msrc_memory_record_id p),
      row_b = Some (msrc_source_kind p),
      row_c = msrc_source_event_id p,
      row_d = msrc_source_artifact_id p,
      row_e = msrc_source_path p,
      row_f = msrc_source_anchor p,
      row_g = msrc_source_content_hash p,
      row_h = map_option int_to_string (msrc_source_sequence p),
      row_payload_json = to_text sj (json_object
         [(''quote_artifact_id'', j_opt_str (msrc_quote_artifact_id p)),
          (''observed_at'', j_opt_str (msrc_observed_at p))])\<rparr>"

definition task_outcome_report_to_row :: "serde \<Rightarrow> task_outcome_report_projection \<Rightarrow> projection_record_row" where
  "task_outcome_report_to_row sj p =
     \<lparr>row_kind = ''task_outcome_report'',
      row_record_id = tout_task_outcome_report_id p,
      row_a = Some (tout_project_id p),
      row_b = Some (tout_task_id p),
      row_c = Some (tout_session_id p),
      row_d = Some (tout_run_id p),
      row_e = Some (tout_outcome_status p),
      row_f = Some (int_to_string (tout_started_sequence p)),
      row_g = Some (int_to_string (tout_completed_sequence p)),
      row_h = Some (int_to_string (tout_duration_sequence_span p)),
      row_payload_json = to_text sj (json_object
         [(''action_count'', j_int (tout_action_count p)),
          (''tool_call_count'', j_int (tout_tool_call_count p)),
          (''evidence_count'', j_int (tout_evidence_count p)),
          (''memory_packet_count'', j_int (tout_memory_packet_count p)),
          (''confidence'', j_opt_int (tout_confidence p)),
          (''blocker'', j_opt_str (tout_blocker p)),
          (''review_outcome'', JString (tout_review_outcome p)),
          (''report_artifact_id'', j_opt_str (tout_report_artifact_id p))])\<rparr>"

definition review_finding_to_row :: "serde \<Rightarrow> review_finding_projection \<Rightarrow> projection_record_row" where
  "review_finding_to_row sj p =
     \<lparr>row_kind = ''review_finding'',
      row_record_id = find_review_finding_id p,
      row_a = Some (find_project_id p),
      row_b = Some (find_task_id p),
      row_c = Some (find_session_id p),
      row_d = find_run_id p,
      row_e = find_tool_call_id p,
      row_f = find_workpad_task_id p,
      row_g = Some (find_finding_kind p),
      row_h = Some (find_status p),
      row_payload_json = to_text sj (json_object
         [(''reviewer'', JString (find_reviewer p)),
          (''severity'', JString (find_severity p)),
          (''summary'', JString (find_summary p)),
          (''evidence_artifact_id'', j_opt_str (find_evidence_artifact_id p)),
          (''follow_up'', j_opt_str (find_follow_up p))])\<rparr>"

definition evidence_to_row :: "serde \<Rightarrow> evidence_projection \<Rightarrow> projection_record_row" where
  "evidence_to_row sj p =
     \<lparr>row_kind = ''evidence'',
      row_record_id = evid_evidence_id p,
      row_a = Some (evid_project_id p),
      row_b = evid_task_id p,
      row_c = evid_session_id p,
      row_d = evid_run_id p,
      row_e = Some (evid_kind p),
      row_f = evid_artifact_id p,
      row_g = Some (int_to_string (evid_confidence p)),
      row_h = None,
      row_payload_json = ''{}''\<rparr>"

definition run_score_to_row :: "serde \<Rightarrow> run_score_projection \<Rightarrow> projection_record_row" where
  "run_score_to_row sj p =
     \<lparr>row_kind = ''run_score'',
      row_record_id = score_run_score_id p,
      row_a = Some (score_project_id p),
      row_b = Some (score_session_id p),
      row_c = Some (score_run_id p),
      row_d = score_task_id p,
      row_e = Some (score_outcome p),
      row_f = Some (int_to_string (score_started_at p)),
      row_g = Some (int_to_string (score_completed_at p)),
      row_h = Some (score_score_inputs_json p),
      row_payload_json = to_text sj (json_object
         [(''passed'', JBool (score_passed p)),
          (''criteria_total'', j_int (score_criteria_total p)),
          (''criteria_met'', j_int (score_criteria_met p)),
          (''observed_evidence_count'', j_int (score_observed_evidence_count p)),
          (''duration_millis'', j_int (score_duration_millis p))])\<rparr>"

definition checkpoint_to_row :: "serde \<Rightarrow> checkpoint_projection \<Rightarrow> projection_record_row" where
  "checkpoint_to_row sj p =
     \<lparr>row_kind = ''checkpoint'',
      row_record_id = ckpt_checkpoint_id p,
      row_a = Some (ckpt_project_id p),
      row_b = Some (ckpt_session_id p),
      row_c = Some (ckpt_run_id p),
      row_d = ckpt_turn_id p,
      row_e = Some (ckpt_kind p),
      row_f = Some (ckpt_commit_ref p),
      row_g = Some (ckpt_workspace_root p),
      row_h = Some (ckpt_content_hash p),
      row_payload_json = to_text sj (json_object
         [(''shadow_git_dir'', JString (ckpt_shadow_git_dir p)),
          (''created_at'', j_opt_str (ckpt_created_at p)),
          (''restored_at'', j_opt_str (ckpt_restored_at p))])\<rparr>"

definition worktree_to_row :: "serde \<Rightarrow> worktree_projection \<Rightarrow> projection_record_row" where
  "worktree_to_row sj p =
     \<lparr>row_kind = ''worktree'',
      row_record_id = wtree_worktree_id p,
      row_a = Some (wtree_project_id p),
      row_b = Some (wtree_session_id p),
      row_c = Some (wtree_repo_root p),
      row_d = Some (wtree_worktree_path p),
      row_e = Some (wtree_branch p),
      row_f = Some (wtree_status p),
      row_g = None,
      row_h = None,
      row_payload_json = to_text sj (json_object
         [(''run_id'', j_opt_str (wtree_run_id p)),
          (''goal_id'', j_opt_str (wtree_goal_id p)),
          (''created_at'', j_opt_str (wtree_created_at p)),
          (''reconciled_at'', j_opt_str (wtree_reconciled_at p)),
          (''torn_down_at'', j_opt_str (wtree_torn_down_at p))])\<rparr>"

definition source_binding_to_row :: "serde \<Rightarrow> source_binding_projection \<Rightarrow> projection_record_row" where
  "source_binding_to_row sj p =
     \<lparr>row_kind = ''source_binding'',
      row_record_id = bind_source_binding_id p,
      row_a = Some (bind_project_id p),
      row_b = Some (bind_task_id p),
      row_c = Some (bind_source_kind p),
      row_d = Some (bind_source_task_id p),
      row_e = Some (bind_source_path p),
      row_f = Some (bind_source_anchor p),
      row_g = Some (bind_source_hash p),
      row_h = Some (bind_binding_status p),
      row_payload_json = ''{}''\<rparr>"

definition workpad_index_reset_to_row :: "serde \<Rightarrow> workpad_index_reset_projection \<Rightarrow> projection_record_row" where
  "workpad_index_reset_to_row sj p =
     \<lparr>row_kind = ''workpad_index_reset'',
      row_record_id = wreset_project_id p,
      row_a = Some (int_to_string (wreset_observed_unix p)),
      row_b = None,
      row_c = None,
      row_d = None,
      row_e = None,
      row_f = None,
      row_g = None,
      row_h = None,
      row_payload_json = ''{}''\<rparr>"

definition workpad_file_to_row :: "serde \<Rightarrow> workpad_file_projection \<Rightarrow> projection_record_row" where
  "workpad_file_to_row sj p =
     \<lparr>row_kind = ''workpad_file'',
      row_record_id = wfile_path p,
      row_a = Some (wfile_project_id p),
      row_b = Some (wfile_content_hash p),
      row_c = Some (wfile_headings p),
      row_d = wfile_objective p,
      row_e = Some (int_to_string (wfile_observed_unix p)),
      row_f = None,
      row_g = None,
      row_h = None,
      row_payload_json = ''{}''\<rparr>"

definition workpad_task_to_row :: "serde \<Rightarrow> workpad_task_projection \<Rightarrow> projection_record_row" where
  "workpad_task_to_row sj p =
     \<lparr>row_kind = ''workpad_task'',
      row_record_id = wtask_workpad_task_id p,
      row_a = Some (wtask_project_id p),
      row_b = Some (wtask_path p),
      row_c = Some (wtask_source_anchor p),
      row_d = Some (wtask_title p),
      row_e = Some (wtask_observed_status p),
      row_f = Some (wtask_capo_execution_status p),
      row_g = Some (int_to_string (wtask_observed_unix p)),
      row_h = None,
      row_payload_json = ''{}''\<rparr>"

definition goal_to_row :: "serde \<Rightarrow> goal_projection \<Rightarrow> projection_record_row" where
  "goal_to_row sj p =
     \<lparr>row_kind = ''goal'',
      row_record_id = goal_goal_id p,
      row_a = Some (goal_project_id p),
      row_b = Some (goal_status p),
      row_c = Some (goal_objective p),
      row_d = goal_parent_goal_id p,
      row_e = goal_attempt_run_id p,
      row_f = goal_task_id p,
      row_g = goal_agent_id p,
      row_h = goal_session_id p,
      row_payload_json = to_text sj (json_object
         [(''success_criteria_json'', JString (goal_success_criteria_json p)),
          (''constraints_json'', JString (goal_constraints_json p)),
          (''verification_surface_json'', JString (goal_verification_surface_json p)),
          (''budget_json'', JString (goal_budget_json p)),
          (''stop_conditions_json'', JString (goal_stop_conditions_json p)),
          (''blocker_reason'', JString (goal_blocker_reason p))])\<rparr>"

definition requirement_ledger_to_row :: "serde \<Rightarrow> requirement_ledger_projection \<Rightarrow> projection_record_row" where
  "requirement_ledger_to_row sj p =
     \<lparr>row_kind = ''requirement_ledger'',
      row_record_id = req_requirement_id p,
      row_a = Some (req_goal_id p),
      row_b = Some (req_project_id p),
      row_c = Some (req_summary p),
      row_d = Some (req_status p),
      row_e = Some (req_last_status_source p),
      row_f = None,
      row_g = None,
      row_h = None,
      row_payload_json = ''{}''\<rparr>"

definition goal_report_to_row :: "serde \<Rightarrow> goal_report_projection \<Rightarrow> projection_record_row" where
  "goal_report_to_row sj p =
     \<lparr>row_kind = ''goal_report'',
      row_record_id = grpt_goal_report_id p,
      row_a = Some (grpt_goal_id p),
      row_b = Some (grpt_project_id p),
      row_c = Some (grpt_report_kind p),
      row_d = Some (grpt_source p),
      row_e = Some (grpt_summary p),
      row_f = grpt_session_id p,
      row_g = grpt_requirement_id p,
      row_h = map_option int_to_string (grpt_confidence p),
      row_payload_json = to_text sj (json_object
         [(''body_artifact_id'', j_opt_str (grpt_body_artifact_id p)),
          (''evidence_id'', j_opt_str (grpt_evidence_id p))])\<rparr>"

definition goal_continuation_to_row :: "serde \<Rightarrow> goal_continuation_projection \<Rightarrow> projection_record_row" where
  "goal_continuation_to_row sj p =
     \<lparr>row_kind = ''goal_continuation'',
      row_record_id = cont_continuation_id p,
      row_a = Some (cont_goal_id p),
      row_b = Some (cont_project_id p),
      row_c = Some (cont_decision p),
      row_d = Some (cont_reason p),
      row_e = cont_attempt_run_id p,
      row_f = None,
      row_g = None,
      row_h = None,
      row_payload_json = ''{}''\<rparr>"

definition delegated_provider_goal_to_row :: "serde \<Rightarrow> delegated_provider_goal_projection \<Rightarrow> projection_record_row" where
  "delegated_provider_goal_to_row sj p =
     \<lparr>row_kind = ''delegated_provider_goal'',
      row_record_id = dpg_delegated_goal_id p,
      row_a = Some (dpg_goal_id p),
      row_b = Some (dpg_project_id p),
      row_c = Some (dpg_provider_kind p),
      row_d = Some (dpg_provider_state p),
      row_e = Some (dpg_source p),
      row_f = dpg_session_id p,
      row_g = dpg_provider_goal_ref p,
      row_h = None,
      row_payload_json = to_text sj (json_object
         [(''body_artifact_id'', j_opt_str (dpg_body_artifact_id p))])\<rparr>"

definition goal_audit_decision_to_row :: "serde \<Rightarrow> goal_audit_decision_projection \<Rightarrow> projection_record_row" where
  "goal_audit_decision_to_row sj p =
     \<lparr>row_kind = ''goal_audit_decision'',
      row_record_id = audit_audit_id p,
      row_a = Some (audit_goal_id p),
      row_b = Some (audit_project_id p),
      row_c = Some (audit_verdict p),
      row_d = Some (audit_reason p),
      row_e = audit_attempt_run_id p,
      row_f = None,
      row_g = None,
      row_h = None,
      row_payload_json = to_text sj (json_object
         [(''requirements_total'', j_int (audit_requirements_total p)),
          (''requirements_complete'', j_int (audit_requirements_complete p)),
          (''requirement_detail_json'', JString (audit_requirement_detail_json p))])\<rparr>"

definition adapter_replay_batch_to_row :: "serde \<Rightarrow> adapter_replay_batch_projection \<Rightarrow> projection_record_row" where
  "adapter_replay_batch_to_row sj p =
     \<lparr>row_kind = ''adapter_replay_batch'',
      row_record_id = batch_acp_replay_batch_id p,
      row_a = Some (batch_session_id p),
      row_b = Some (batch_project_id p),
      row_c = Some (batch_external_session_ref p),
      row_d = Some (batch_source p),
      row_e = Some (batch_status p),
      row_f = batch_load_request_id p,
      row_g = batch_prompt_request_id p,
      row_h = batch_recovery_attempt_id p,
      row_payload_json = to_text sj (json_object
         [(''raw_update_count'', j_int (batch_raw_update_count p)),
          (''imported_count'', j_int (batch_imported_count p)),
          (''duplicate_count'', j_int (batch_duplicate_count p)),
          (''ambiguous_count'', j_int (batch_ambiguous_count p)),
          (''normalized_sequence_start'', j_opt_int (batch_normalized_sequence_start p)),
          (''normalized_sequence_end'', j_opt_int (batch_normalized_sequence_end p)),
          (''started_at'', j_opt_str (batch_started_at p)),
          (''completed_at'', j_opt_str (batch_completed_at p))])\<rparr>"

definition adapter_raw_update_to_row :: "serde \<Rightarrow> adapter_raw_update_projection \<Rightarrow> projection_record_row" where
  "adapter_raw_update_to_row sj p =
     \<lparr>row_kind = ''adapter_raw_update'',
      row_record_id = raw_acp_raw_update_id p,
      row_a = Some (raw_acp_replay_batch_id p),
      row_b = Some (raw_project_id p),
      row_c = Some (raw_external_session_ref p),
      row_d = Some (int_to_string (raw_batch_index p)),
      row_e = Some (raw_jsonrpc_method p),
      row_f = raw_session_update_kind p,
      row_g = raw_external_item_ref p,
      row_h = raw_acp_timeline_key p,
      row_payload_json = to_text sj (json_object
         [(''payload_hash'', JString (raw_payload_hash p)),
          (''payload_artifact_id'', j_opt_str (raw_payload_artifact_id p)),
          (''replay_source'', JString (raw_replay_source p)),
          (''dedupe_confidence'', JString (raw_dedupe_confidence p)),
          (''observed_at'', j_opt_str (raw_observed_at p))])\<rparr>"

definition adapter_timeline_key_to_row :: "serde \<Rightarrow> adapter_timeline_key_projection \<Rightarrow> projection_record_row" where
  "adapter_timeline_key_to_row sj p =
     \<lparr>row_kind = ''adapter_timeline_key'',
      row_record_id = tkey_adapter_timeline_key_id p,
      row_a = Some (tkey_session_id p),
      row_b = Some (tkey_project_id p),
      row_c = Some (tkey_external_session_ref p),
      row_d = Some (tkey_kind p),
      row_e = tkey_stable_ref p,
      row_f = tkey_synthetic_ref p,
      row_g = Some (tkey_confidence p),
      row_h = None,
      row_payload_json = to_text sj (json_object
         [(''first_sequence'', j_opt_int (tkey_first_sequence p)),
          (''last_sequence'', j_opt_int (tkey_last_sequence p))])\<rparr>"

fun projection_record_to_row :: "serde \<Rightarrow> projection_record \<Rightarrow> projection_record_row" where
  "projection_record_to_row sj (Project p) = project_to_row sj p"
| "projection_record_to_row sj (Task p) = task_to_row sj p"
| "projection_record_to_row sj (Agent p) = agent_to_row sj p"
| "projection_record_to_row sj (Session p) = session_to_row sj p"
| "projection_record_to_row sj (Run p) = run_to_row sj p"
| "projection_record_to_row sj (CapabilityGrant p) = capability_grant_to_row sj p"
| "projection_record_to_row sj (WorkspaceLease p) = workspace_lease_to_row sj p"
| "projection_record_to_row sj (PermissionApproval p) = permission_approval_to_row sj p"
| "projection_record_to_row sj (ConnectivityExposure p) = connectivity_exposure_to_row sj p"
| "projection_record_to_row sj (RuntimeTarget p) = runtime_target_to_row sj p"
| "projection_record_to_row sj (AdapterReadiness p) = adapter_readiness_to_row sj p"
| "projection_record_to_row sj (AdapterSmokeReport p) = adapter_smoke_report_to_row sj p"
| "projection_record_to_row sj (AdapterDispatchPlan p) = adapter_dispatch_plan_to_row sj p"
| "projection_record_to_row sj (AdapterDispatchGate p) = adapter_dispatch_gate_to_row sj p"
| "projection_record_to_row sj (AdapterDispatchReplay p) = adapter_dispatch_replay_to_row sj p"
| "projection_record_to_row sj (AdapterDispatchExecutionRequest p) = adapter_dispatch_execution_request_to_row sj p"
| "projection_record_to_row sj (AdapterDispatchExecution p) = adapter_dispatch_execution_to_row sj p"
| "projection_record_to_row sj (AdapterDispatchPromptSource p) = adapter_dispatch_prompt_source_to_row sj p"
| "projection_record_to_row sj (AdapterDispatchPromptMaterialization p) = adapter_dispatch_prompt_materialization_to_row sj p"
| "projection_record_to_row sj (ToolCall p) = tool_call_to_row sj p"
| "projection_record_to_row sj (ToolObservation p) = tool_observation_to_row sj p"
| "projection_record_to_row sj (MemoryPacketRef p) = memory_packet_ref_to_row sj p"
| "projection_record_to_row sj (MemoryRecord p) = memory_record_to_row sj p"
| "projection_record_to_row sj (MemorySource p) = memory_source_to_row sj p"
| "projection_record_to_row sj (TaskOutcomeReport p) = task_outcome_report_to_row sj p"
| "projection_record_to_row sj (ReviewFinding p) = review_finding_to_row sj p"
| "projection_record_to_row sj (Evidence p) = evidence_to_row sj p"
| "projection_record_to_row sj (RunScore p) = run_score_to_row sj p"
| "projection_record_to_row sj (Checkpoint p) = checkpoint_to_row sj p"
| "projection_record_to_row sj (Worktree p) = worktree_to_row sj p"
| "projection_record_to_row sj (SourceBinding p) = source_binding_to_row sj p"
| "projection_record_to_row sj (WorkpadIndexReset p) = workpad_index_reset_to_row sj p"
| "projection_record_to_row sj (WorkpadFile p) = workpad_file_to_row sj p"
| "projection_record_to_row sj (WorkpadTask p) = workpad_task_to_row sj p"
| "projection_record_to_row sj (Goal p) = goal_to_row sj p"
| "projection_record_to_row sj (RequirementLedger p) = requirement_ledger_to_row sj p"
| "projection_record_to_row sj (GoalReport p) = goal_report_to_row sj p"
| "projection_record_to_row sj (GoalContinuation p) = goal_continuation_to_row sj p"
| "projection_record_to_row sj (DelegatedProviderGoal p) = delegated_provider_goal_to_row sj p"
| "projection_record_to_row sj (GoalAuditDecision p) = goal_audit_decision_to_row sj p"
| "projection_record_to_row sj (AdapterReplayBatch p) = adapter_replay_batch_to_row sj p"
| "projection_record_to_row sj (AdapterRawUpdate p) = adapter_raw_update_to_row sj p"
| "projection_record_to_row sj (AdapterTimelineKey p) = adapter_timeline_key_to_row sj p"

end
