(* ===== verification/Codec_Decode.thy ===== *)
theory Codec_Decode
  imports Codec_Encode
begin

text \<open>
  \<open>capo-state/src/codec.rs\<close> and \<open>codec_adapter.rs\<close>: rebuilding a projection record from its row.
  One definition per arm of \<open>projection_record_from_row\<close> and \<open>decode_adapter_projection\<close>.  The
  fallible field readers run in the order in which the source evaluates the fields of the struct
  literal, so the first error is the one the code reports.  Constructing a typed identifier from a
  blank string panics in the source; the model returns \<open>DecodePanic\<close> there.
\<close>

datatype decode_fail = ProjectionDecodeError string | DecodePanic

section \<open>Field readers\<close>

definition new_id :: "string \<Rightarrow> (decode_fail, string) result" where
  "new_id s = map_err (\<lambda>_. DecodePanic) (typed_id_new s)"

definition optional_id :: "string option \<Rightarrow> (decode_fail, string option) result" where
  "optional_id value =
     (case value of None \<Rightarrow> Inr None | Some s \<Rightarrow> and_then (new_id s) (\<lambda>i. Inr (Some i)))"

definition unwrap_or :: "'a \<Rightarrow> 'a option \<Rightarrow> 'a" where
  "unwrap_or d x = (case x of None \<Rightarrow> d | Some a \<Rightarrow> a)"

definition missing_field :: "string \<Rightarrow> string \<Rightarrow> string \<Rightarrow> decode_fail" where
  "missing_field projection_kind record_id field =
     ProjectionDecodeError (projection_kind @ ''.'' @ record_id @ '' missing '' @ field)"

definition invalid_field :: "string \<Rightarrow> string \<Rightarrow> string \<Rightarrow> string \<Rightarrow> decode_fail" where
  "invalid_field projection_kind record_id field error =
     ProjectionDecodeError (projection_kind @ ''.'' @ record_id @ '' invalid '' @ field @ '': '' @ error)"

definition required_field ::
  "string \<Rightarrow> string \<Rightarrow> string option \<Rightarrow> string \<Rightarrow> (decode_fail, string) result" where
  "required_field projection_kind record_id value field =
     (case value of Some s \<Rightarrow> Inr s | None \<Rightarrow> Inl (missing_field projection_kind record_id field))"

definition parse_projection_payload ::
  "serde \<Rightarrow> string \<Rightarrow> string \<Rightarrow> string \<Rightarrow> (decode_fail, json) result" where
  "parse_projection_payload sj projection_kind record_id payload_json =
     map_err (\<lambda>error. invalid_field projection_kind record_id ''payload_json'' error)
       (from_text sj payload_json)"

fun value_string :: "serde \<Rightarrow> json \<Rightarrow> string option" where
  "value_string sj JNull = None"
| "value_string sj (JString s) = Some s"
| "value_string sj v = Some (to_text sj v)"

definition payload_string :: "serde \<Rightarrow> json \<Rightarrow> string \<Rightarrow> string option" where
  "payload_string sj payload key = Option.bind (json_get payload key) (value_string sj)"

definition required_payload_string ::
  "serde \<Rightarrow> string \<Rightarrow> string \<Rightarrow> json \<Rightarrow> string \<Rightarrow> (decode_fail, string) result" where
  "required_payload_string sj projection_kind record_id payload key =
     (case payload_string sj payload key of
        Some s \<Rightarrow> Inr s | None \<Rightarrow> Inl (missing_field projection_kind record_id key))"

fun value_i64 ::
  "string \<Rightarrow> string \<Rightarrow> string \<Rightarrow> json option \<Rightarrow> (decode_fail, int option) result" where
  "value_i64 kind rid key None = Inr None"
| "value_i64 kind rid key (Some JNull) = Inr None"
| "value_i64 kind rid key (Some (JNumber n)) =
     (case number_as_i64 n of
        Some i \<Rightarrow> Inr (Some i) | None \<Rightarrow> Inl (invalid_field kind rid key ''not an i64''))"
| "value_i64 kind rid key (Some (JString s)) =
     and_then (map_err (invalid_field kind rid key) (parse_i64 s)) (\<lambda>i. Inr (Some i))"
| "value_i64 kind rid key (Some v) = Inl (invalid_field kind rid key ''not a number'')"

definition payload_optional_i64 ::
  "string \<Rightarrow> string \<Rightarrow> json \<Rightarrow> string \<Rightarrow> (decode_fail, int option) result" where
  "payload_optional_i64 projection_kind record_id payload key =
     value_i64 projection_kind record_id key (json_get payload key)"

definition required_payload_i64 ::
  "string \<Rightarrow> string \<Rightarrow> json \<Rightarrow> string \<Rightarrow> (decode_fail, int) result" where
  "required_payload_i64 projection_kind record_id payload key =
     and_then (payload_optional_i64 projection_kind record_id payload key)
       (\<lambda>x. case x of Some i \<Rightarrow> Inr i | None \<Rightarrow> Inl (missing_field projection_kind record_id key))"

definition optional_i64 ::
  "string \<Rightarrow> string \<Rightarrow> string option \<Rightarrow> string \<Rightarrow> (decode_fail, int option) result" where
  "optional_i64 projection_kind record_id value field =
     (case value of
        None \<Rightarrow> Inr None
      | Some s \<Rightarrow> and_then (map_err (invalid_field projection_kind record_id field) (parse_i64 s))
                   (\<lambda>i. Inr (Some i)))"

definition required_i64 ::
  "string \<Rightarrow> string \<Rightarrow> string option \<Rightarrow> string \<Rightarrow> (decode_fail, int) result" where
  "required_i64 projection_kind record_id value field =
     and_then (required_field projection_kind record_id value field)
       (\<lambda>s. map_err (invalid_field projection_kind record_id field) (parse_i64 s))"

section \<open>Rows to records\<close>

definition project_from_row :: "serde \<Rightarrow> projection_record_row \<Rightarrow> (decode_fail, projection_record) result" where
  "project_from_row sj r =
     and_then (new_id (row_record_id r)) (\<lambda>x_project_id.
     and_then (required_field (row_kind r) ''project'' (row_a r) ''name'') (\<lambda>x_name.
     and_then (required_field (row_kind r) ''project'' (row_b r) ''status'') (\<lambda>x_status.
     Inr (Project
       \<lparr>prj_project_id = x_project_id,
        prj_name = x_name,
        prj_status = x_status,
        prj_updated_sequence = 0\<rparr>))))"

definition task_from_row :: "serde \<Rightarrow> projection_record_row \<Rightarrow> (decode_fail, projection_record) result" where
  "task_from_row sj r =
     and_then (new_id (row_record_id r)) (\<lambda>x_task_id.
     and_then (and_then (required_field (row_kind r) ''task'' (row_a r) ''project_id'') new_id) (\<lambda>x_project_id.
     and_then (required_field (row_kind r) ''task'' (row_b r) ''title'') (\<lambda>x_title.
     and_then (required_field (row_kind r) ''task'' (row_c r) ''capo_execution_status'') (\<lambda>x_capo_execution_status.
     and_then (optional_id (row_d r)) (\<lambda>x_active_session_id.
     and_then (optional_id (row_f r)) (\<lambda>x_evidence_id.
     Inr (Task
       \<lparr>tsk_task_id = x_task_id,
        tsk_project_id = x_project_id,
        tsk_title = x_title,
        tsk_capo_execution_status = x_capo_execution_status,
        tsk_active_session_id = x_active_session_id,
        tsk_latest_summary = row_e r,
        tsk_evidence_id = x_evidence_id,
        tsk_updated_sequence = 0\<rparr>)))))))"

definition agent_from_row :: "serde \<Rightarrow> projection_record_row \<Rightarrow> (decode_fail, projection_record) result" where
  "agent_from_row sj r =
     and_then (new_id (row_record_id r)) (\<lambda>x_agent_id.
     and_then (and_then (required_field (row_kind r) ''agent'' (row_a r) ''project_id'') new_id) (\<lambda>x_project_id.
     and_then (required_field (row_kind r) ''agent'' (row_b r) ''name'') (\<lambda>x_name.
     and_then (required_field (row_kind r) ''agent'' (row_c r) ''status'') (\<lambda>x_status.
     and_then (optional_id (row_d r)) (\<lambda>x_current_session_id.
     Inr (Agent
       \<lparr>agt_agent_id = x_agent_id,
        agt_project_id = x_project_id,
        agt_name = x_name,
        agt_status = x_status,
        agt_current_session_id = x_current_session_id,
        agt_updated_sequence = 0\<rparr>))))))"

definition session_from_row :: "serde \<Rightarrow> projection_record_row \<Rightarrow> (decode_fail, projection_record) result" where
  "session_from_row sj r =
     and_then (parse_projection_payload sj (row_kind r) (row_record_id r) (row_payload_json r)) (\<lambda>payload.
     and_then (new_id (row_record_id r)) (\<lambda>x_session_id.
     and_then (and_then (required_field (row_kind r) ''session'' (row_a r) ''project_id'') new_id) (\<lambda>x_project_id.
     and_then (optional_id (row_b r)) (\<lambda>x_task_id.
     and_then (and_then (required_field (row_kind r) ''session'' (row_c r) ''agent_id'') new_id) (\<lambda>x_agent_id.
     and_then (required_field (row_kind r) ''session'' (row_d r) ''title'') (\<lambda>x_title.
     and_then (required_field (row_kind r) ''session'' (row_e r) ''status'') (\<lambda>x_status.
     and_then (required_field (row_kind r) ''session'' (row_f r) ''current_goal'') (\<lambda>x_current_goal.
     and_then (optional_i64 (row_kind r) ''session'' (row_h r) ''latest_confidence'') (\<lambda>x_latest_confidence.
     Inr (Session
       \<lparr>ses_session_id = x_session_id,
        ses_project_id = x_project_id,
        ses_task_id = x_task_id,
        ses_agent_id = x_agent_id,
        ses_title = x_title,
        ses_status = x_status,
        ses_current_goal = x_current_goal,
        ses_latest_summary = row_g r,
        ses_latest_confidence = x_latest_confidence,
        ses_latest_blocker = None,
        ses_external_session_ref = payload_string sj payload ''external_session_ref'',
        ses_updated_sequence = 0\<rparr>))))))))))"

definition run_from_row :: "serde \<Rightarrow> projection_record_row \<Rightarrow> (decode_fail, projection_record) result" where
  "run_from_row sj r =
     and_then (new_id (row_record_id r)) (\<lambda>x_run_id.
     and_then (and_then (required_field (row_kind r) ''run'' (row_a r) ''session_id'') new_id) (\<lambda>x_session_id.
     and_then (required_field (row_kind r) ''run'' (row_b r) ''status'') (\<lambda>x_status.
     and_then (optional_id (row_c r)) (\<lambda>x_recovery_of_run_id.
     Inr (Run
       \<lparr>run_run_id = x_run_id,
        run_session_id = x_session_id,
        run_status = x_status,
        run_recovery_of_run_id = x_recovery_of_run_id,
        run_updated_sequence = 0\<rparr>)))))"

definition capability_grant_from_row :: "serde \<Rightarrow> projection_record_row \<Rightarrow> (decode_fail, projection_record) result" where
  "capability_grant_from_row sj r =
     and_then (parse_projection_payload sj (row_kind r) (row_record_id r) (row_payload_json r)) (\<lambda>payload.
     and_then (required_field (row_kind r) ''capability_grant'' (row_a r) ''capability_profile_id'') (\<lambda>x_capability_profile_id.
     and_then (required_field (row_kind r) ''capability_grant'' (row_b r) ''scope_json'') (\<lambda>x_scope_json.
     and_then (required_field (row_kind r) ''capability_grant'' (row_c r) ''effect'') (\<lambda>x_effect.
     and_then (required_field (row_kind r) ''capability_grant'' (row_d r) ''subject_json'') (\<lambda>x_subject_json.
     Inr (CapabilityGrant
       \<lparr>grant_capability_grant_id = row_record_id r,
        grant_capability_profile_id = x_capability_profile_id,
        grant_scope_json = x_scope_json,
        grant_effect = x_effect,
        grant_subject_json = x_subject_json,
        grant_decision_source = unwrap_or ''unknown'' (row_e r),
        grant_persistence = unwrap_or ''unknown'' (row_f r),
        grant_explanation = unwrap_or [] (row_g r),
        grant_created_at = payload_string sj payload ''created_at'',
        grant_expires_at = payload_string sj payload ''expires_at'',
        grant_revoked_at = payload_string sj payload ''revoked_at'',
        grant_updated_sequence = 0\<rparr>))))))"

definition workspace_lease_from_row :: "serde \<Rightarrow> projection_record_row \<Rightarrow> (decode_fail, projection_record) result" where
  "workspace_lease_from_row sj r =
     and_then (and_then (required_field (row_kind r) ''workspace_lease'' (row_a r) ''project_id'') new_id) (\<lambda>x_project_id.
     and_then (and_then (required_field (row_kind r) ''workspace_lease'' (row_b r) ''holder_session_id'') new_id) (\<lambda>x_holder_session_id.
     and_then (optional_id (row_c r)) (\<lambda>x_holder_run_id.
     and_then (required_field (row_kind r) ''workspace_lease'' (row_d r) ''status'') (\<lambda>x_status.
     Inr (WorkspaceLease
       \<lparr>lease_workspace_lease_id = row_record_id r,
        lease_project_id = x_project_id,
        lease_holder_session_id = x_holder_session_id,
        lease_holder_run_id = x_holder_run_id,
        lease_status = x_status,
        lease_acquired_at = row_e r,
        lease_released_at = row_f r,
        lease_release_reason = unwrap_or [] (row_g r),
        lease_updated_sequence = 0\<rparr>)))))"

definition permission_approval_from_row :: "serde \<Rightarrow> projection_record_row \<Rightarrow> (decode_fail, projection_record) result" where
  "permission_approval_from_row sj r =
     and_then (parse_projection_payload sj (row_kind r) (row_record_id r) (row_payload_json r)) (\<lambda>payload.
     and_then (and_then (required_field (row_kind r) ''permission_approval'' (row_a r) ''project_id'') new_id) (\<lambda>x_project_id.
     and_then (optional_id (row_b r)) (\<lambda>x_session_id.
     and_then (optional_id (row_c r)) (\<lambda>x_tool_call_id.
     and_then (required_field (row_kind r) ''permission_approval'' (row_d r) ''capability_profile_id'') (\<lambda>x_capability_profile_id.
     and_then (required_field (row_kind r) ''permission_approval'' (row_h r) ''scope_json'') (\<lambda>x_scope_json.
     and_then (required_field (row_kind r) ''permission_approval'' (row_e r) ''status'') (\<lambda>x_status.
     Inr (PermissionApproval
       \<lparr>appr_approval_id = row_record_id r,
        appr_project_id = x_project_id,
        appr_session_id = x_session_id,
        appr_tool_call_id = x_tool_call_id,
        appr_capability_profile_id = x_capability_profile_id,
        appr_scope_json = x_scope_json,
        appr_subject_json = unwrap_or ''{}'' (payload_string sj payload ''subject_json''),
        appr_status = x_status,
        appr_requested_by = unwrap_or ''unknown'' (payload_string sj payload ''requested_by''),
        appr_reason = unwrap_or [] (payload_string sj payload ''reason''),
        appr_decision = row_f r,
        appr_capability_grant_id = row_g r,
        appr_updated_sequence = 0\<rparr>))))))))"

definition connectivity_exposure_from_row :: "serde \<Rightarrow> projection_record_row \<Rightarrow> (decode_fail, projection_record) result" where
  "connectivity_exposure_from_row sj r =
     and_then (parse_projection_payload sj (row_kind r) (row_record_id r) (row_payload_json r)) (\<lambda>payload.
     and_then (and_then (required_field (row_kind r) ''connectivity_exposure'' (row_a r) ''project_id'') new_id) (\<lambda>x_project_id.
     and_then (required_field (row_kind r) ''connectivity_exposure'' (row_b r) ''connectivity_endpoint_id'') (\<lambda>x_connectivity_endpoint_id.
     and_then (required_payload_string sj (row_kind r) ''connectivity_exposure'' payload ''owner_kind'') (\<lambda>x_owner_kind.
     and_then (required_payload_string sj (row_kind r) ''connectivity_exposure'' payload ''owner_id'') (\<lambda>x_owner_id.
     and_then (required_payload_string sj (row_kind r) ''connectivity_exposure'' payload ''channel_kind'') (\<lambda>x_channel_kind.
     and_then (required_payload_string sj (row_kind r) ''connectivity_exposure'' payload ''exposure'') (\<lambda>x_exposure.
     and_then (required_field (row_kind r) ''connectivity_exposure'' (row_h r) ''permission_scope'') (\<lambda>x_permission_scope.
     and_then (required_field (row_kind r) ''connectivity_exposure'' (row_c r) ''status'') (\<lambda>x_status.
     and_then (required_field (row_kind r) ''connectivity_exposure'' (row_e r) ''health_status'') (\<lambda>x_health_status.
     and_then (and_then (required_field (row_kind r) ''connectivity_exposure'' (row_f r) ''reachable'')
       (\<lambda>s. map_err (\<lambda>e. ProjectionDecodeError (''invalid bool for connectivity_exposure '' @ row_record_id r @ '' reachable: '' @ e)) (parse_bool s))) (\<lambda>x_reachable.
     Inr (ConnectivityExposure
       \<lparr>expo_exposure_id = row_record_id r,
        expo_project_id = x_project_id,
        expo_connectivity_endpoint_id = x_connectivity_endpoint_id,
        expo_owner_kind = x_owner_kind,
        expo_owner_id = x_owner_id,
        expo_channel_kind = x_channel_kind,
        expo_exposure = x_exposure,
        expo_permission_scope = x_permission_scope,
        expo_status = x_status,
        expo_capability_grant_id = row_d r,
        expo_health_status = x_health_status,
        expo_reachable = x_reachable,
        expo_revoked_at = row_g r,
        expo_auth_ref = payload_string sj payload ''auth_ref'',
        expo_identity_ref = payload_string sj payload ''identity_ref'',
        expo_identity_fingerprint = payload_string sj payload ''identity_fingerprint'',
        expo_expires_at = payload_string sj payload ''expires_at'',
        expo_last_heartbeat_at = payload_string sj payload ''last_heartbeat_at'',
        expo_updated_sequence = 0\<rparr>))))))))))))"

definition runtime_target_from_row :: "serde \<Rightarrow> projection_record_row \<Rightarrow> (decode_fail, projection_record) result" where
  "runtime_target_from_row sj r =
     and_then (parse_projection_payload sj (row_kind r) (row_record_id r) (row_payload_json r)) (\<lambda>payload.
     and_then (and_then (required_field (row_kind r) ''runtime_target'' (row_a r) ''project_id'') new_id) (\<lambda>x_project_id.
     and_then (required_field (row_kind r) ''runtime_target'' (row_b r) ''name'') (\<lambda>x_name.
     and_then (required_field (row_kind r) ''runtime_target'' (row_c r) ''runner_kind'') (\<lambda>x_runner_kind.
     and_then (required_field (row_kind r) ''runtime_target'' (row_g r) ''workspace_root'') (\<lambda>x_workspace_root.
     and_then (required_field (row_kind r) ''runtime_target'' (row_h r) ''artifact_root'') (\<lambda>x_artifact_root.
     and_then (required_payload_string sj (row_kind r) ''runtime_target'' payload ''default_cwd'') (\<lambda>x_default_cwd.
     and_then (required_field (row_kind r) ''runtime_target'' (row_f r) ''capability_profile_id'') (\<lambda>x_capability_profile_id.
     and_then (required_field (row_kind r) ''runtime_target'' (row_d r) ''status'') (\<lambda>x_status.
     Inr (RuntimeTarget
       \<lparr>rtt_runtime_target_id = row_record_id r,
        rtt_project_id = x_project_id,
        rtt_name = x_name,
        rtt_runner_kind = x_runner_kind,
        rtt_workspace_root = x_workspace_root,
        rtt_artifact_root = x_artifact_root,
        rtt_default_cwd = x_default_cwd,
        rtt_capability_profile_id = x_capability_profile_id,
        rtt_connectivity_endpoint_id = row_e r,
        rtt_status = x_status,
        rtt_updated_sequence = 0\<rparr>))))))))))"

definition adapter_readiness_from_row :: "serde \<Rightarrow> projection_record_row \<Rightarrow> (decode_fail, projection_record) result" where
  "adapter_readiness_from_row sj r =
     and_then (parse_projection_payload sj (row_kind r) (row_record_id r) (row_payload_json r)) (\<lambda>payload.
     and_then (and_then (required_field (row_kind r) ''adapter_readiness'' (row_a r) ''project_id'') new_id) (\<lambda>x_project_id.
     and_then (required_field (row_kind r) ''adapter_readiness'' (row_b r) ''program'') (\<lambda>x_program.
     and_then (required_field (row_kind r) ''adapter_readiness'' (row_c r) ''opt_in_env'') (\<lambda>x_opt_in_env.
     and_then (and_then (required_field (row_kind r) ''adapter_readiness'' (row_d r) ''opted_in'')
       (\<lambda>s. map_err (\<lambda>e. ProjectionDecodeError (''invalid bool for adapter_readiness opted_in: '' @ e)) (parse_bool s))) (\<lambda>x_opted_in.
     and_then (required_field (row_kind r) ''adapter_readiness'' (row_e r) ''smoke_status'') (\<lambda>x_smoke_status.
     and_then (required_field (row_kind r) ''adapter_readiness'' (row_f r) ''credential_policy'') (\<lambda>x_credential_policy.
     and_then (required_field (row_kind r) ''adapter_readiness'' (row_g r) ''expected_marker'') (\<lambda>x_expected_marker.
     and_then (required_payload_i64 (row_kind r) ''adapter_readiness'' payload ''env_allowlist_count'') (\<lambda>x_env_allowlist_count.
     and_then (required_payload_i64 (row_kind r) ''adapter_readiness'' payload ''redaction_rule_count'') (\<lambda>x_redaction_rule_count.
     and_then (required_payload_i64 (row_kind r) ''adapter_readiness'' payload ''output_limit_bytes'') (\<lambda>x_output_limit_bytes.
     Inr (AdapterReadiness
       \<lparr>ardy_adapter_kind = row_record_id r,
        ardy_project_id = x_project_id,
        ardy_program = x_program,
        ardy_opt_in_env = x_opt_in_env,
        ardy_opted_in = x_opted_in,
        ardy_smoke_status = x_smoke_status,
        ardy_credential_policy = x_credential_policy,
        ardy_expected_marker = x_expected_marker,
        ardy_env_allowlist_count = x_env_allowlist_count,
        ardy_redaction_rule_count = x_redaction_rule_count,
        ardy_output_limit_bytes = x_output_limit_bytes,
        ardy_dogfood_blocker = row_h r,
        ardy_updated_sequence = 0\<rparr>))))))))))))"

definition adapter_smoke_report_from_row :: "serde \<Rightarrow> projection_record_row \<Rightarrow> (decode_fail, projection_record) result" where
  "adapter_smoke_report_from_row sj r =
     and_then (parse_projection_payload sj (row_kind r) (row_record_id r) (row_payload_json r)) (\<lambda>payload.
     and_then (and_then (required_field (row_kind r) ''adapter_smoke_report'' (row_a r) ''project_id'') new_id) (\<lambda>x_project_id.
     and_then (required_field (row_kind r) ''adapter_smoke_report'' (row_b r) ''adapter_kind'') (\<lambda>x_adapter_kind.
     and_then (required_field (row_kind r) ''adapter_smoke_report'' (row_c r) ''smoke_status'') (\<lambda>x_smoke_status.
     and_then (required_field (row_kind r) ''adapter_smoke_report'' (row_d r) ''credential_scan_status'') (\<lambda>x_credential_scan_status.
     and_then (and_then (required_field (row_kind r) ''adapter_smoke_report'' (row_e r) ''marker_found'')
       (\<lambda>s. map_err (\<lambda>e. ProjectionDecodeError (''invalid bool for adapter_smoke_report marker_found: '' @ e)) (parse_bool s))) (\<lambda>x_marker_found.
     and_then (required_payload_string sj (row_kind r) ''adapter_smoke_report'' payload ''reason'') (\<lambda>x_reason.
     and_then (required_field (row_kind r) ''adapter_smoke_report'' (row_g r) ''dogfood_readiness_effect'') (\<lambda>x_dogfood_readiness_effect.
     Inr (AdapterSmokeReport
       \<lparr>asmk_smoke_report_id = row_record_id r,
        asmk_project_id = x_project_id,
        asmk_adapter_kind = x_adapter_kind,
        asmk_smoke_status = x_smoke_status,
        asmk_credential_scan_status = x_credential_scan_status,
        asmk_marker_found = x_marker_found,
        asmk_artifact_root = row_f r,
        asmk_reason = x_reason,
        asmk_dogfood_readiness_effect = x_dogfood_readiness_effect,
        asmk_updated_sequence = 0\<rparr>)))))))))"

definition adapter_dispatch_plan_from_row :: "serde \<Rightarrow> projection_record_row \<Rightarrow> (decode_fail, projection_record) result" where
  "adapter_dispatch_plan_from_row sj r =
     and_then (parse_projection_payload sj (row_kind r) (row_record_id r) (row_payload_json r)) (\<lambda>payload.
     and_then (and_then (required_field (row_kind r) ''adapter_dispatch_plan'' (row_a r) ''project_id'') new_id) (\<lambda>x_project_id.
     and_then (required_field (row_kind r) ''adapter_dispatch_plan'' (row_b r) ''adapter_kind'') (\<lambda>x_adapter_kind.
     and_then (required_payload_string sj (row_kind r) ''adapter_dispatch_plan'' payload ''provider_kind'') (\<lambda>x_provider_kind.
     and_then (required_payload_string sj (row_kind r) ''adapter_dispatch_plan'' payload ''credential_scope'') (\<lambda>x_credential_scope.
     and_then (and_then (required_field (row_kind r) ''adapter_dispatch_plan'' (row_c r) ''agent_id'') new_id) (\<lambda>x_agent_id.
     and_then (required_payload_string sj (row_kind r) ''adapter_dispatch_plan'' payload ''agent_name'') (\<lambda>x_agent_name.
     and_then (and_then (required_field (row_kind r) ''adapter_dispatch_plan'' (row_d r) ''session_id'') new_id) (\<lambda>x_session_id.
     and_then (and_then (required_field (row_kind r) ''adapter_dispatch_plan'' (row_e r) ''run_id'') new_id) (\<lambda>x_run_id.
     and_then (required_payload_string sj (row_kind r) ''adapter_dispatch_plan'' payload ''runtime_program'') (\<lambda>x_runtime_program.
     and_then (required_payload_i64 (row_kind r) ''adapter_dispatch_plan'' payload ''runtime_arg_count'') (\<lambda>x_runtime_arg_count.
     and_then (required_field (row_kind r) ''adapter_dispatch_plan'' (row_h r) ''runtime_prompt_policy'') (\<lambda>x_runtime_prompt_policy.
     and_then (required_payload_string sj (row_kind r) ''adapter_dispatch_plan'' payload ''runtime_cwd'') (\<lambda>x_runtime_cwd.
     and_then (required_payload_string sj (row_kind r) ''adapter_dispatch_plan'' payload ''artifact_root'') (\<lambda>x_artifact_root.
     and_then (required_payload_i64 (row_kind r) ''adapter_dispatch_plan'' payload ''request_env_count'') (\<lambda>x_request_env_count.
     and_then (required_payload_i64 (row_kind r) ''adapter_dispatch_plan'' payload ''env_allowlist_count'') (\<lambda>x_env_allowlist_count.
     and_then (required_payload_i64 (row_kind r) ''adapter_dispatch_plan'' payload ''redaction_rule_count'') (\<lambda>x_redaction_rule_count.
     and_then (required_payload_string sj (row_kind r) ''adapter_dispatch_plan'' payload ''stdout_format'') (\<lambda>x_stdout_format.
     and_then (required_payload_string sj (row_kind r) ''adapter_dispatch_plan'' payload ''stderr_policy'') (\<lambda>x_stderr_policy.
     and_then (and_then (required_field (row_kind r) ''adapter_dispatch_plan'' (row_g r) ''provider_cli_executed'')
       (\<lambda>s. map_err (\<lambda>e. ProjectionDecodeError (''invalid bool for adapter_dispatch_plan provider_cli_executed: '' @ e)) (parse_bool s))) (\<lambda>x_provider_cli_executed.
     and_then (required_field (row_kind r) ''adapter_dispatch_plan'' (row_f r) ''status'') (\<lambda>x_status.
     Inr (AdapterDispatchPlan
       \<lparr>plan_dispatch_plan_id = row_record_id r,
        plan_project_id = x_project_id,
        plan_adapter_kind = x_adapter_kind,
        plan_provider_kind = x_provider_kind,
        plan_credential_scope = x_credential_scope,
        plan_agent_id = x_agent_id,
        plan_agent_name = x_agent_name,
        plan_session_id = x_session_id,
        plan_run_id = x_run_id,
        plan_runtime_program = x_runtime_program,
        plan_runtime_arg_count = x_runtime_arg_count,
        plan_runtime_prompt_policy = x_runtime_prompt_policy,
        plan_runtime_cwd = x_runtime_cwd,
        plan_artifact_root = x_artifact_root,
        plan_request_env_count = x_request_env_count,
        plan_env_allowlist_count = x_env_allowlist_count,
        plan_redaction_rule_count = x_redaction_rule_count,
        plan_stdout_format = x_stdout_format,
        plan_stderr_policy = x_stderr_policy,
        plan_provider_cli_executed = x_provider_cli_executed,
        plan_status = x_status,
        plan_updated_sequence = 0\<rparr>))))))))))))))))))))))"

definition adapter_dispatch_gate_from_row :: "serde \<Rightarrow> projection_record_row \<Rightarrow> (decode_fail, projection_record) result" where
  "adapter_dispatch_gate_from_row sj r =
     and_then (parse_projection_payload sj (row_kind r) (row_record_id r) (row_payload_json r)) (\<lambda>payload.
     and_then (and_then (required_field (row_kind r) ''adapter_dispatch_gate'' (row_a r) ''project_id'') new_id) (\<lambda>x_project_id.
     and_then (required_field (row_kind r) ''adapter_dispatch_gate'' (row_b r) ''dispatch_plan_id'') (\<lambda>x_dispatch_plan_id.
     and_then (required_field (row_kind r) ''adapter_dispatch_gate'' (row_c r) ''adapter_kind'') (\<lambda>x_adapter_kind.
     and_then (and_then (required_field (row_kind r) ''adapter_dispatch_gate'' (row_d r) ''provider_cli_execution_allowed'')
       (\<lambda>s. map_err (\<lambda>e. ProjectionDecodeError (''invalid bool for adapter_dispatch_gate provider_cli_execution_allowed: '' @ e)) (parse_bool s))) (\<lambda>x_provider_cli_execution_allowed.
     and_then (required_field (row_kind r) ''adapter_dispatch_gate'' (row_e r) ''status'') (\<lambda>x_status.
     and_then (required_field (row_kind r) ''adapter_dispatch_gate'' (row_f r) ''required_dogfood_gate'') (\<lambda>x_required_dogfood_gate.
     and_then (required_payload_string sj (row_kind r) ''adapter_dispatch_gate'' payload ''reason_codes'') (\<lambda>x_reason_codes.
     and_then (and_then (required_field (row_kind r) ''adapter_dispatch_gate'' (row_g r) ''provider_cli_executed'')
       (\<lambda>s. map_err (\<lambda>e. ProjectionDecodeError (''invalid bool for adapter_dispatch_gate provider_cli_executed: '' @ e)) (parse_bool s))) (\<lambda>x_provider_cli_executed.
     and_then (required_field (row_kind r) ''adapter_dispatch_gate'' (row_h r) ''runtime_prompt_policy'') (\<lambda>x_runtime_prompt_policy.
     Inr (AdapterDispatchGate
       \<lparr>gate_dispatch_gate_id = row_record_id r,
        gate_project_id = x_project_id,
        gate_dispatch_plan_id = x_dispatch_plan_id,
        gate_adapter_kind = x_adapter_kind,
        gate_provider_cli_execution_allowed = x_provider_cli_execution_allowed,
        gate_status = x_status,
        gate_required_dogfood_gate = x_required_dogfood_gate,
        gate_reason_codes = x_reason_codes,
        gate_provider_cli_executed = x_provider_cli_executed,
        gate_runtime_prompt_policy = x_runtime_prompt_policy,
        gate_updated_sequence = 0\<rparr>)))))))))))"

definition adapter_dispatch_replay_from_row :: "serde \<Rightarrow> projection_record_row \<Rightarrow> (decode_fail, projection_record) result" where
  "adapter_dispatch_replay_from_row sj r =
     and_then (parse_projection_payload sj (row_kind r) (row_record_id r) (row_payload_json r)) (\<lambda>payload.
     and_then (and_then (required_field (row_kind r) ''adapter_dispatch_replay'' (row_a r) ''project_id'') new_id) (\<lambda>x_project_id.
     and_then (required_field (row_kind r) ''adapter_dispatch_replay'' (row_b r) ''dispatch_plan_id'') (\<lambda>x_dispatch_plan_id.
     and_then (required_field (row_kind r) ''adapter_dispatch_replay'' (row_c r) ''dispatch_gate_id'') (\<lambda>x_dispatch_gate_id.
     and_then (required_field (row_kind r) ''adapter_dispatch_replay'' (row_d r) ''adapter_kind'') (\<lambda>x_adapter_kind.
     and_then (and_then (required_field (row_kind r) ''adapter_dispatch_replay'' (row_e r) ''session_id'') new_id) (\<lambda>x_session_id.
     and_then (and_then (required_field (row_kind r) ''adapter_dispatch_replay'' (row_f r) ''run_id'') new_id) (\<lambda>x_run_id.
     and_then (required_payload_string sj (row_kind r) ''adapter_dispatch_replay'' payload ''fixture_path'') (\<lambda>x_fixture_path.
     and_then (required_payload_string sj (row_kind r) ''adapter_dispatch_replay'' payload ''fixture_hash'') (\<lambda>x_fixture_hash.
     and_then (required_payload_i64 (row_kind r) ''adapter_dispatch_replay'' payload ''input_event_count'') (\<lambda>x_input_event_count.
     and_then (required_payload_i64 (row_kind r) ''adapter_dispatch_replay'' payload ''appended_event_count'') (\<lambda>x_appended_event_count.
     and_then (required_payload_i64 (row_kind r) ''adapter_dispatch_replay'' payload ''tool_event_count'') (\<lambda>x_tool_event_count.
     and_then (required_payload_i64 (row_kind r) ''adapter_dispatch_replay'' payload ''summary_event_count'') (\<lambda>x_summary_event_count.
     and_then (required_payload_i64 (row_kind r) ''adapter_dispatch_replay'' payload ''completed_turn_count'') (\<lambda>x_completed_turn_count.
     and_then (and_then (required_field (row_kind r) ''adapter_dispatch_replay'' (row_g r) ''provider_cli_executed'')
       (\<lambda>s. map_err (\<lambda>e. ProjectionDecodeError (''invalid bool for adapter_dispatch_replay provider_cli_executed: '' @ e)) (parse_bool s))) (\<lambda>x_provider_cli_executed.
     and_then (required_field (row_kind r) ''adapter_dispatch_replay'' (row_h r) ''raw_content_policy'') (\<lambda>x_raw_content_policy.
     Inr (AdapterDispatchReplay
       \<lparr>rply_dispatch_replay_id = row_record_id r,
        rply_project_id = x_project_id,
        rply_dispatch_plan_id = x_dispatch_plan_id,
        rply_dispatch_gate_id = x_dispatch_gate_id,
        rply_adapter_kind = x_adapter_kind,
        rply_session_id = x_session_id,
        rply_run_id = x_run_id,
        rply_fixture_path = x_fixture_path,
        rply_fixture_hash = x_fixture_hash,
        rply_input_event_count = x_input_event_count,
        rply_appended_event_count = x_appended_event_count,
        rply_tool_event_count = x_tool_event_count,
        rply_summary_event_count = x_summary_event_count,
        rply_completed_turn_count = x_completed_turn_count,
        rply_provider_cli_executed = x_provider_cli_executed,
        rply_raw_content_policy = x_raw_content_policy,
        rply_updated_sequence = 0\<rparr>)))))))))))))))))"

definition adapter_dispatch_execution_request_from_row :: "serde \<Rightarrow> projection_record_row \<Rightarrow> (decode_fail, projection_record) result" where
  "adapter_dispatch_execution_request_from_row sj r =
     and_then (parse_projection_payload sj (row_kind r) (row_record_id r) (row_payload_json r)) (\<lambda>payload.
     and_then (and_then (required_field (row_kind r) ''adapter_dispatch_execution_request'' (row_a r) ''project_id'') new_id) (\<lambda>x_project_id.
     and_then (required_field (row_kind r) ''adapter_dispatch_execution_request'' (row_b r) ''dispatch_plan_id'') (\<lambda>x_dispatch_plan_id.
     and_then (required_field (row_kind r) ''adapter_dispatch_execution_request'' (row_c r) ''dispatch_gate_id'') (\<lambda>x_dispatch_gate_id.
     and_then (required_field (row_kind r) ''adapter_dispatch_execution_request'' (row_d r) ''adapter_kind'') (\<lambda>x_adapter_kind.
     and_then (and_then (required_field (row_kind r) ''adapter_dispatch_execution_request'' (row_e r) ''provider_cli_execution_allowed'')
       (\<lambda>s. map_err (\<lambda>e. ProjectionDecodeError (''invalid bool for adapter_dispatch_execution_request provider_cli_execution_allowed: '' @ e)) (parse_bool s))) (\<lambda>x_provider_cli_execution_allowed.
     and_then (and_then (required_field (row_kind r) ''adapter_dispatch_execution_request'' (row_g r) ''provider_cli_executed'')
       (\<lambda>s. map_err (\<lambda>e. ProjectionDecodeError (''invalid bool for adapter_dispatch_execution_request provider_cli_executed: '' @ e)) (parse_bool s))) (\<lambda>x_provider_cli_executed.
     and_then (required_field (row_kind r) ''adapter_dispatch_execution_request'' (row_f r) ''status'') (\<lambda>x_status.
     and_then (required_payload_string sj (row_kind r) ''adapter_dispatch_execution_request'' payload ''opt_in_env'') (\<lambda>x_opt_in_env.
     and_then (required_field (row_kind r) ''adapter_dispatch_execution_request'' (row_h r) ''runtime_prompt_policy'') (\<lambda>x_runtime_prompt_policy.
     and_then (required_payload_string sj (row_kind r) ''adapter_dispatch_execution_request'' payload ''reason_codes'') (\<lambda>x_reason_codes.
     Inr (AdapterDispatchExecutionRequest
       \<lparr>xreq_execution_request_id = row_record_id r,
        xreq_project_id = x_project_id,
        xreq_dispatch_plan_id = x_dispatch_plan_id,
        xreq_dispatch_gate_id = x_dispatch_gate_id,
        xreq_adapter_kind = x_adapter_kind,
        xreq_provider_cli_execution_allowed = x_provider_cli_execution_allowed,
        xreq_provider_cli_executed = x_provider_cli_executed,
        xreq_status = x_status,
        xreq_opt_in_env = x_opt_in_env,
        xreq_runtime_prompt_policy = x_runtime_prompt_policy,
        xreq_reason_codes = x_reason_codes,
        xreq_updated_sequence = 0\<rparr>))))))))))))"

definition adapter_dispatch_execution_from_row :: "serde \<Rightarrow> projection_record_row \<Rightarrow> (decode_fail, projection_record) result" where
  "adapter_dispatch_execution_from_row sj r =
     and_then (parse_projection_payload sj (row_kind r) (row_record_id r) (row_payload_json r)) (\<lambda>payload.
     and_then (and_then (required_field (row_kind r) ''adapter_dispatch_execution'' (row_a r) ''project_id'') new_id) (\<lambda>x_project_id.
     and_then (required_field (row_kind r) ''adapter_dispatch_execution'' (row_b r) ''dispatch_plan_id'') (\<lambda>x_dispatch_plan_id.
     and_then (required_field (row_kind r) ''adapter_dispatch_execution'' (row_c r) ''execution_request_id'') (\<lambda>x_execution_request_id.
     and_then (required_field (row_kind r) ''adapter_dispatch_execution'' (row_d r) ''adapter_kind'') (\<lambda>x_adapter_kind.
     and_then (and_then (required_field (row_kind r) ''adapter_dispatch_execution'' (row_e r) ''session_id'') new_id) (\<lambda>x_session_id.
     and_then (and_then (required_field (row_kind r) ''adapter_dispatch_execution'' (row_f r) ''run_id'') new_id) (\<lambda>x_run_id.
     and_then (and_then (required_payload_string sj (row_kind r) ''adapter_dispatch_execution'' payload ''provider_cli_execution_allowed'')
       (\<lambda>s. map_err (\<lambda>e. ProjectionDecodeError (''invalid bool for adapter_dispatch_execution provider_cli_execution_allowed: '' @ e)) (parse_bool s))) (\<lambda>x_provider_cli_execution_allowed.
     and_then (and_then (required_field (row_kind r) ''adapter_dispatch_execution'' (row_g r) ''provider_cli_executed'')
       (\<lambda>s. map_err (\<lambda>e. ProjectionDecodeError (''invalid bool for adapter_dispatch_execution provider_cli_executed: '' @ e)) (parse_bool s))) (\<lambda>x_provider_cli_executed.
     and_then (required_field (row_kind r) ''adapter_dispatch_execution'' (row_h r) ''status'') (\<lambda>x_status.
     and_then (payload_optional_i64 (row_kind r) ''adapter_dispatch_execution'' payload ''exit_code'') (\<lambda>x_exit_code.
     and_then (required_payload_string sj (row_kind r) ''adapter_dispatch_execution'' payload ''artifact_root'') (\<lambda>x_artifact_root.
     and_then (required_payload_string sj (row_kind r) ''adapter_dispatch_execution'' payload ''credential_scan_status'') (\<lambda>x_credential_scan_status.
     and_then (required_payload_string sj (row_kind r) ''adapter_dispatch_execution'' payload ''raw_prompt_policy'') (\<lambda>x_raw_prompt_policy.
     and_then (required_payload_string sj (row_kind r) ''adapter_dispatch_execution'' payload ''raw_output_policy'') (\<lambda>x_raw_output_policy.
     and_then (required_payload_string sj (row_kind r) ''adapter_dispatch_execution'' payload ''reason_codes'') (\<lambda>x_reason_codes.
     Inr (AdapterDispatchExecution
       \<lparr>exec_dispatch_execution_id = row_record_id r,
        exec_project_id = x_project_id,
        exec_dispatch_plan_id = x_dispatch_plan_id,
        exec_execution_request_id = x_execution_request_id,
        exec_adapter_kind = x_adapter_kind,
        exec_session_id = x_session_id,
        exec_run_id = x_run_id,
        exec_provider_cli_execution_allowed = x_provider_cli_execution_allowed,
        exec_provider_cli_executed = x_provider_cli_executed,
        exec_status = x_status,
        exec_exit_code = x_exit_code,
        exec_runtime_process_ref = payload_string sj payload ''runtime_process_ref'',
        exec_stdout_artifact_id = payload_string sj payload ''stdout_artifact_id'',
        exec_stderr_artifact_id = payload_string sj payload ''stderr_artifact_id'',
        exec_artifact_root = x_artifact_root,
        exec_credential_scan_status = x_credential_scan_status,
        exec_raw_prompt_policy = x_raw_prompt_policy,
        exec_raw_output_policy = x_raw_output_policy,
        exec_reason_codes = x_reason_codes,
        exec_updated_sequence = 0\<rparr>)))))))))))))))))"

definition adapter_dispatch_prompt_source_from_row :: "serde \<Rightarrow> projection_record_row \<Rightarrow> (decode_fail, projection_record) result" where
  "adapter_dispatch_prompt_source_from_row sj r =
     and_then (and_then (required_field (row_kind r) ''adapter_dispatch_prompt_source'' (row_a r) ''project_id'') new_id) (\<lambda>x_project_id.
     and_then (required_field (row_kind r) ''adapter_dispatch_prompt_source'' (row_b r) ''dispatch_plan_id'') (\<lambda>x_dispatch_plan_id.
     and_then (required_field (row_kind r) ''adapter_dispatch_prompt_source'' (row_c r) ''prompt_hash'') (\<lambda>x_prompt_hash.
     and_then (required_field (row_kind r) ''adapter_dispatch_prompt_source'' (row_d r) ''source_kind'') (\<lambda>x_source_kind.
     and_then (required_field (row_kind r) ''adapter_dispatch_prompt_source'' (row_g r) ''materialization_status'') (\<lambda>x_materialization_status.
     and_then (required_field (row_kind r) ''adapter_dispatch_prompt_source'' (row_h r) ''raw_prompt_policy'') (\<lambda>x_raw_prompt_policy.
     Inr (AdapterDispatchPromptSource
       \<lparr>psrc_prompt_source_id = row_record_id r,
        psrc_project_id = x_project_id,
        psrc_dispatch_plan_id = x_dispatch_plan_id,
        psrc_prompt_hash = x_prompt_hash,
        psrc_source_kind = x_source_kind,
        psrc_source_ref = row_e r,
        psrc_source_hash = row_f r,
        psrc_materialization_status = x_materialization_status,
        psrc_raw_prompt_policy = x_raw_prompt_policy,
        psrc_updated_sequence = 0\<rparr>)))))))"

definition adapter_dispatch_prompt_materialization_from_row :: "serde \<Rightarrow> projection_record_row \<Rightarrow> (decode_fail, projection_record) result" where
  "adapter_dispatch_prompt_materialization_from_row sj r =
     and_then (parse_projection_payload sj (row_kind r) (row_record_id r) (row_payload_json r)) (\<lambda>payload.
     and_then (and_then (required_field (row_kind r) ''adapter_dispatch_prompt_materialization'' (row_a r) ''project_id'') new_id) (\<lambda>x_project_id.
     and_then (required_field (row_kind r) ''adapter_dispatch_prompt_materialization'' (row_b r) ''dispatch_plan_id'') (\<lambda>x_dispatch_plan_id.
     and_then (required_field (row_kind r) ''adapter_dispatch_prompt_materialization'' (row_c r) ''prompt_source_id'') (\<lambda>x_prompt_source_id.
     and_then (required_field (row_kind r) ''adapter_dispatch_prompt_materialization'' (row_d r) ''source_kind'') (\<lambda>x_source_kind.
     and_then (required_field (row_kind r) ''adapter_dispatch_prompt_materialization'' (row_e r) ''expected_prompt_hash'') (\<lambda>x_expected_prompt_hash.
     and_then (required_field (row_kind r) ''adapter_dispatch_prompt_materialization'' (row_g r) ''status'') (\<lambda>x_status.
     and_then (required_field (row_kind r) ''adapter_dispatch_prompt_materialization'' (row_h r) ''raw_prompt_policy'') (\<lambda>x_raw_prompt_policy.
     and_then (required_payload_string sj (row_kind r) ''adapter_dispatch_prompt_materialization'' payload ''reason_codes'') (\<lambda>x_reason_codes.
     Inr (AdapterDispatchPromptMaterialization
       \<lparr>pmat_materialization_id = row_record_id r,
        pmat_project_id = x_project_id,
        pmat_dispatch_plan_id = x_dispatch_plan_id,
        pmat_prompt_source_id = x_prompt_source_id,
        pmat_source_kind = x_source_kind,
        pmat_source_ref = payload_string sj payload ''source_ref'',
        pmat_expected_source_hash = payload_string sj payload ''expected_source_hash'',
        pmat_observed_source_hash = payload_string sj payload ''observed_source_hash'',
        pmat_expected_prompt_hash = x_expected_prompt_hash,
        pmat_materialized_prompt_hash = row_f r,
        pmat_status = x_status,
        pmat_raw_prompt_policy = x_raw_prompt_policy,
        pmat_reason_codes = x_reason_codes,
        pmat_updated_sequence = 0\<rparr>))))))))))"

definition tool_call_from_row :: "serde \<Rightarrow> projection_record_row \<Rightarrow> (decode_fail, projection_record) result" where
  "tool_call_from_row sj r =
     and_then (parse_projection_payload sj (row_kind r) (row_record_id r) (row_payload_json r)) (\<lambda>payload.
     and_then (payload_optional_i64 (row_kind r) (row_record_id r) payload ''started_at'') (\<lambda>x_started_at.
     and_then (payload_optional_i64 (row_kind r) (row_record_id r) payload ''completed_at'') (\<lambda>x_completed_at.
     and_then (new_id (row_record_id r)) (\<lambda>x_tool_call_id.
     and_then (and_then (required_field (row_kind r) ''tool_call'' (row_a r) ''session_id'') new_id) (\<lambda>x_session_id.
     and_then (required_field (row_kind r) ''tool_call'' (row_c r) ''tool_name'') (\<lambda>x_tool_name.
     and_then (required_field (row_kind r) ''tool_call'' (row_d r) ''tool_origin'') (\<lambda>x_tool_origin.
     and_then (required_field (row_kind r) ''tool_call'' (row_e r) ''status'') (\<lambda>x_status.
     Inr (ToolCall
       \<lparr>call_tool_call_id = x_tool_call_id,
        call_session_id = x_session_id,
        call_turn_id = row_b r,
        call_tool_name = x_tool_name,
        call_tool_origin = x_tool_origin,
        call_status = x_status,
        call_input_artifact_id = row_f r,
        call_output_artifact_id = row_g r,
        call_provenance = \<lparr>prov_correlation_id = payload_string sj payload ''correlation_id'', prov_permission_decision_id = payload_string sj payload ''permission_decision_id'', prov_capability_grant_use_id = payload_string sj payload ''capability_grant_use_id'', prov_started_at = x_started_at, prov_completed_at = x_completed_at\<rparr>,
        call_updated_sequence = 0\<rparr>)))))))))"

definition tool_observation_from_row :: "serde \<Rightarrow> projection_record_row \<Rightarrow> (decode_fail, projection_record) result" where
  "tool_observation_from_row sj r =
     and_then (parse_projection_payload sj (row_kind r) (row_record_id r) (row_payload_json r)) (\<lambda>payload.
     and_then (and_then (required_field (row_kind r) ''tool_observation'' (row_a r) ''session_id'') new_id) (\<lambda>x_session_id.
     and_then (optional_id (row_b r)) (\<lambda>x_tool_call_id.
     and_then (required_field (row_kind r) ''tool_observation'' (row_c r) ''source'') (\<lambda>x_source.
     and_then (required_field (row_kind r) ''tool_observation'' (row_e r) ''tool_name'') (\<lambda>x_tool_name.
     and_then (required_field (row_kind r) ''tool_observation'' (row_f r) ''observed_status'') (\<lambda>x_observed_status.
     and_then (required_field (row_kind r) ''tool_observation'' (row_g r) ''instrumentation_level'') (\<lambda>x_instrumentation_level.
     and_then (required_field (row_kind r) ''tool_observation'' (row_h r) ''confidence'') (\<lambda>x_confidence.
     and_then (required_payload_string sj (row_kind r) ''tool_observation'' payload ''raw_event_hash'') (\<lambda>x_raw_event_hash.
     Inr (ToolObservation
       \<lparr>obs_tool_observation_id = row_record_id r,
        obs_session_id = x_session_id,
        obs_tool_call_id = x_tool_call_id,
        obs_source = x_source,
        obs_external_tool_ref = row_d r,
        obs_tool_name = x_tool_name,
        obs_observed_status = x_observed_status,
        obs_instrumentation_level = x_instrumentation_level,
        obs_confidence = x_confidence,
        obs_raw_event_hash = x_raw_event_hash,
        obs_artifact_id = payload_string sj payload ''artifact_id'',
        obs_updated_sequence = 0\<rparr>))))))))))"

definition memory_packet_ref_from_row :: "serde \<Rightarrow> projection_record_row \<Rightarrow> (decode_fail, projection_record) result" where
  "memory_packet_ref_from_row sj r =
     and_then (new_id (row_record_id r)) (\<lambda>x_memory_packet_id.
     and_then (and_then (required_field (row_kind r) ''memory_packet'' (row_a r) ''project_id'') new_id) (\<lambda>x_project_id.
     and_then (optional_id (row_b r)) (\<lambda>x_task_id.
     and_then (optional_id (row_c r)) (\<lambda>x_agent_id.
     and_then (optional_id (row_d r)) (\<lambda>x_session_id.
     and_then (optional_id (row_e r)) (\<lambda>x_run_id.
     and_then (required_field (row_kind r) ''memory_packet'' (row_h r) ''purpose'') (\<lambda>x_purpose.
     Inr (MemoryPacketRef
       \<lparr>mpkt_memory_packet_id = x_memory_packet_id,
        mpkt_project_id = x_project_id,
        mpkt_task_id = x_task_id,
        mpkt_agent_id = x_agent_id,
        mpkt_session_id = x_session_id,
        mpkt_run_id = x_run_id,
        mpkt_turn_id = row_f r,
        mpkt_packet_artifact_id = row_g r,
        mpkt_purpose = x_purpose,
        mpkt_updated_sequence = 0\<rparr>))))))))"

definition memory_record_from_row :: "serde \<Rightarrow> projection_record_row \<Rightarrow> (decode_fail, projection_record) result" where
  "memory_record_from_row sj r =
     and_then (parse_projection_payload sj (row_kind r) (row_record_id r) (row_payload_json r)) (\<lambda>payload.
     and_then (and_then (required_field (row_kind r) ''memory_record'' (row_a r) ''project_id'') new_id) (\<lambda>x_project_id.
     and_then (required_field (row_kind r) ''memory_record'' (row_b r) ''scope'') (\<lambda>x_scope.
     and_then (required_field (row_kind r) ''memory_record'' (row_c r) ''scope_owner_ref'') (\<lambda>x_scope_owner_ref.
     and_then (required_field (row_kind r) ''memory_record'' (row_e r) ''sensitivity_classification'') (\<lambda>x_sensitivity_classification.
     and_then (required_field (row_kind r) ''memory_record'' (row_f r) ''record_kind'') (\<lambda>x_record_kind.
     and_then (required_field (row_kind r) ''memory_record'' (row_g r) ''review_state'') (\<lambda>x_review_state.
     and_then (required_i64 (row_kind r) ''memory_record'' (row_h r) ''source_count'') (\<lambda>x_source_count.
     and_then (required_payload_string sj (row_kind r) ''memory_record'' payload ''subject'') (\<lambda>x_subject.
     and_then (required_payload_string sj (row_kind r) ''memory_record'' payload ''predicate'') (\<lambda>x_predicate.
     and_then (required_payload_string sj (row_kind r) ''memory_record'' payload ''object'') (\<lambda>x_object.
     and_then (required_payload_string sj (row_kind r) ''memory_record'' payload ''body'') (\<lambda>x_body.
     and_then (required_payload_string sj (row_kind r) ''memory_record'' payload ''confidence'') (\<lambda>x_confidence.
     and_then (required_payload_string sj (row_kind r) ''memory_record'' payload ''redaction_state'') (\<lambda>x_redaction_state.
     Inr (MemoryRecord
       \<lparr>mrec_memory_record_id = row_record_id r,
        mrec_project_id = x_project_id,
        mrec_scope = x_scope,
        mrec_scope_owner_ref = x_scope_owner_ref,
        mrec_subject_ref = row_d r,
        mrec_sensitivity_classification = x_sensitivity_classification,
        mrec_record_kind = x_record_kind,
        mrec_subject = x_subject,
        mrec_predicate = x_predicate,
        mrec_object = x_object,
        mrec_body = x_body,
        mrec_confidence = x_confidence,
        mrec_review_state = x_review_state,
        mrec_source_count = x_source_count,
        mrec_valid_from = payload_string sj payload ''valid_from'',
        mrec_valid_until = payload_string sj payload ''valid_until'',
        mrec_supersedes_memory_record_id = payload_string sj payload ''supersedes_memory_record_id'',
        mrec_revoked_by_memory_record_id = payload_string sj payload ''revoked_by_memory_record_id'',
        mrec_redaction_state = x_redaction_state,
        mrec_invalidated_at = payload_string sj payload ''invalidated_at'',
        mrec_invalidation_reason = payload_string sj payload ''invalidation_reason'',
        mrec_packet_item_ref = payload_string sj payload ''packet_item_ref'',
        mrec_updated_sequence = 0\<rparr>)))))))))))))))"

definition memory_source_from_row :: "serde \<Rightarrow> projection_record_row \<Rightarrow> (decode_fail, projection_record) result" where
  "memory_source_from_row sj r =
     and_then (parse_projection_payload sj (row_kind r) (row_record_id r) (row_payload_json r)) (\<lambda>payload.
     and_then (required_field (row_kind r) ''memory_source'' (row_a r) ''memory_record_id'') (\<lambda>x_memory_record_id.
     and_then (required_field (row_kind r) ''memory_source'' (row_b r) ''source_kind'') (\<lambda>x_source_kind.
     and_then (optional_i64 (row_kind r) ''memory_source'' (row_h r) ''source_sequence'') (\<lambda>x_source_sequence.
     Inr (MemorySource
       \<lparr>msrc_memory_source_id = row_record_id r,
        msrc_memory_record_id = x_memory_record_id,
        msrc_source_kind = x_source_kind,
        msrc_source_event_id = row_c r,
        msrc_source_artifact_id = row_d r,
        msrc_source_path = row_e r,
        msrc_source_anchor = row_f r,
        msrc_source_content_hash = row_g r,
        msrc_source_sequence = x_source_sequence,
        msrc_quote_artifact_id = payload_string sj payload ''quote_artifact_id'',
        msrc_observed_at = payload_string sj payload ''observed_at'',
        msrc_updated_sequence = 0\<rparr>)))))"

definition task_outcome_report_from_row :: "serde \<Rightarrow> projection_record_row \<Rightarrow> (decode_fail, projection_record) result" where
  "task_outcome_report_from_row sj r =
     and_then (parse_projection_payload sj (row_kind r) (row_record_id r) (row_payload_json r)) (\<lambda>payload.
     and_then (and_then (required_field (row_kind r) ''task_outcome_report'' (row_a r) ''project_id'') new_id) (\<lambda>x_project_id.
     and_then (and_then (required_field (row_kind r) ''task_outcome_report'' (row_b r) ''task_id'') new_id) (\<lambda>x_task_id.
     and_then (and_then (required_field (row_kind r) ''task_outcome_report'' (row_c r) ''session_id'') new_id) (\<lambda>x_session_id.
     and_then (and_then (required_field (row_kind r) ''task_outcome_report'' (row_d r) ''run_id'') new_id) (\<lambda>x_run_id.
     and_then (required_field (row_kind r) ''task_outcome_report'' (row_e r) ''outcome_status'') (\<lambda>x_outcome_status.
     and_then (required_i64 (row_kind r) ''task_outcome_report'' (row_f r) ''started_sequence'') (\<lambda>x_started_sequence.
     and_then (required_i64 (row_kind r) ''task_outcome_report'' (row_g r) ''completed_sequence'') (\<lambda>x_completed_sequence.
     and_then (required_i64 (row_kind r) ''task_outcome_report'' (row_h r) ''duration_sequence_span'') (\<lambda>x_duration_sequence_span.
     and_then (required_payload_i64 (row_kind r) ''task_outcome_report'' payload ''action_count'') (\<lambda>x_action_count.
     and_then (required_payload_i64 (row_kind r) ''task_outcome_report'' payload ''tool_call_count'') (\<lambda>x_tool_call_count.
     and_then (required_payload_i64 (row_kind r) ''task_outcome_report'' payload ''evidence_count'') (\<lambda>x_evidence_count.
     and_then (required_payload_i64 (row_kind r) ''task_outcome_report'' payload ''memory_packet_count'') (\<lambda>x_memory_packet_count.
     and_then (payload_optional_i64 (row_kind r) ''task_outcome_report'' payload ''confidence'') (\<lambda>x_confidence.
     and_then (required_payload_string sj (row_kind r) ''task_outcome_report'' payload ''review_outcome'') (\<lambda>x_review_outcome.
     Inr (TaskOutcomeReport
       \<lparr>tout_task_outcome_report_id = row_record_id r,
        tout_project_id = x_project_id,
        tout_task_id = x_task_id,
        tout_session_id = x_session_id,
        tout_run_id = x_run_id,
        tout_outcome_status = x_outcome_status,
        tout_started_sequence = x_started_sequence,
        tout_completed_sequence = x_completed_sequence,
        tout_duration_sequence_span = x_duration_sequence_span,
        tout_action_count = x_action_count,
        tout_tool_call_count = x_tool_call_count,
        tout_evidence_count = x_evidence_count,
        tout_memory_packet_count = x_memory_packet_count,
        tout_confidence = x_confidence,
        tout_blocker = payload_string sj payload ''blocker'',
        tout_review_outcome = x_review_outcome,
        tout_report_artifact_id = payload_string sj payload ''report_artifact_id'',
        tout_updated_sequence = 0\<rparr>))))))))))))))))"

definition review_finding_from_row :: "serde \<Rightarrow> projection_record_row \<Rightarrow> (decode_fail, projection_record) result" where
  "review_finding_from_row sj r =
     and_then (parse_projection_payload sj (row_kind r) (row_record_id r) (row_payload_json r)) (\<lambda>payload.
     and_then (and_then (required_field (row_kind r) ''review_finding'' (row_a r) ''project_id'') new_id) (\<lambda>x_project_id.
     and_then (and_then (required_field (row_kind r) ''review_finding'' (row_b r) ''task_id'') new_id) (\<lambda>x_task_id.
     and_then (and_then (required_field (row_kind r) ''review_finding'' (row_c r) ''session_id'') new_id) (\<lambda>x_session_id.
     and_then (optional_id (row_d r)) (\<lambda>x_run_id.
     and_then (optional_id (row_e r)) (\<lambda>x_tool_call_id.
     and_then (required_field (row_kind r) ''review_finding'' (row_g r) ''finding_kind'') (\<lambda>x_finding_kind.
     and_then (required_field (row_kind r) ''review_finding'' (row_h r) ''status'') (\<lambda>x_status.
     and_then (required_payload_string sj (row_kind r) ''review_finding'' payload ''reviewer'') (\<lambda>x_reviewer.
     and_then (required_payload_string sj (row_kind r) ''review_finding'' payload ''severity'') (\<lambda>x_severity.
     and_then (required_payload_string sj (row_kind r) ''review_finding'' payload ''summary'') (\<lambda>x_summary.
     Inr (ReviewFinding
       \<lparr>find_review_finding_id = row_record_id r,
        find_project_id = x_project_id,
        find_task_id = x_task_id,
        find_session_id = x_session_id,
        find_run_id = x_run_id,
        find_tool_call_id = x_tool_call_id,
        find_workpad_task_id = row_f r,
        find_reviewer = x_reviewer,
        find_finding_kind = x_finding_kind,
        find_severity = x_severity,
        find_summary = x_summary,
        find_status = x_status,
        find_evidence_artifact_id = payload_string sj payload ''evidence_artifact_id'',
        find_follow_up = payload_string sj payload ''follow_up'',
        find_updated_sequence = 0\<rparr>))))))))))))"

definition evidence_from_row :: "serde \<Rightarrow> projection_record_row \<Rightarrow> (decode_fail, projection_record) result" where
  "evidence_from_row sj r =
     and_then (new_id (row_record_id r)) (\<lambda>x_evidence_id.
     and_then (and_then (required_field (row_kind r) ''evidence'' (row_a r) ''project_id'') new_id) (\<lambda>x_project_id.
     and_then (optional_id (row_b r)) (\<lambda>x_task_id.
     and_then (optional_id (row_c r)) (\<lambda>x_session_id.
     and_then (optional_id (row_d r)) (\<lambda>x_run_id.
     and_then (required_field (row_kind r) ''evidence'' (row_e r) ''kind'') (\<lambda>x_kind.
     and_then (required_i64 (row_kind r) ''evidence'' (row_g r) ''confidence'') (\<lambda>x_confidence.
     Inr (Evidence
       \<lparr>evid_evidence_id = x_evidence_id,
        evid_project_id = x_project_id,
        evid_task_id = x_task_id,
        evid_session_id = x_session_id,
        evid_run_id = x_run_id,
        evid_kind = x_kind,
        evid_artifact_id = row_f r,
        evid_confidence = x_confidence,
        evid_updated_sequence = 0\<rparr>))))))))"

definition run_score_from_row :: "serde \<Rightarrow> projection_record_row \<Rightarrow> (decode_fail, projection_record) result" where
  "run_score_from_row sj r =
     and_then (parse_projection_payload sj (row_kind r) (row_record_id r) (row_payload_json r)) (\<lambda>payload.
     and_then (and_then (required_field (row_kind r) ''run_score'' (row_a r) ''project_id'') new_id) (\<lambda>x_project_id.
     and_then (and_then (required_field (row_kind r) ''run_score'' (row_b r) ''session_id'') new_id) (\<lambda>x_session_id.
     and_then (and_then (required_field (row_kind r) ''run_score'' (row_c r) ''run_id'') new_id) (\<lambda>x_run_id.
     and_then (optional_id (row_d r)) (\<lambda>x_task_id.
     and_then (required_field (row_kind r) ''run_score'' (row_e r) ''outcome'') (\<lambda>x_outcome.
     and_then (required_i64 (row_kind r) ''run_score'' (row_f r) ''started_at'') (\<lambda>x_started_at.
     and_then (required_i64 (row_kind r) ''run_score'' (row_g r) ''completed_at'') (\<lambda>x_completed_at.
     and_then (required_payload_i64 (row_kind r) (row_record_id r) payload ''criteria_total'') (\<lambda>x_criteria_total.
     and_then (required_payload_i64 (row_kind r) (row_record_id r) payload ''criteria_met'') (\<lambda>x_criteria_met.
     and_then (required_payload_i64 (row_kind r) (row_record_id r) payload ''observed_evidence_count'') (\<lambda>x_observed_evidence_count.
     and_then (required_payload_i64 (row_kind r) (row_record_id r) payload ''duration_millis'') (\<lambda>x_duration_millis.
     and_then (required_field (row_kind r) ''run_score'' (row_h r) ''score_inputs_json'') (\<lambda>x_score_inputs_json.
     Inr (RunScore
       \<lparr>score_run_score_id = row_record_id r,
        score_project_id = x_project_id,
        score_task_id = x_task_id,
        score_session_id = x_session_id,
        score_run_id = x_run_id,
        score_outcome = x_outcome,
        score_passed = unwrap_or False (Option.bind (json_get payload ''passed'') json_as_bool),
        score_criteria_total = x_criteria_total,
        score_criteria_met = x_criteria_met,
        score_observed_evidence_count = x_observed_evidence_count,
        score_started_at = x_started_at,
        score_completed_at = x_completed_at,
        score_duration_millis = x_duration_millis,
        score_score_inputs_json = x_score_inputs_json,
        score_updated_sequence = 0\<rparr>))))))))))))))"

definition checkpoint_from_row :: "serde \<Rightarrow> projection_record_row \<Rightarrow> (decode_fail, projection_record) result" where
  "checkpoint_from_row sj r =
     and_then (parse_projection_payload sj (row_kind r) (row_record_id r) (row_payload_json r)) (\<lambda>payload.
     and_then (and_then (required_field (row_kind r) ''checkpoint'' (row_a r) ''project_id'') new_id) (\<lambda>x_project_id.
     and_then (and_then (required_field (row_kind r) ''checkpoint'' (row_b r) ''session_id'') new_id) (\<lambda>x_session_id.
     and_then (and_then (required_field (row_kind r) ''checkpoint'' (row_c r) ''run_id'') new_id) (\<lambda>x_run_id.
     and_then (required_field (row_kind r) ''checkpoint'' (row_e r) ''kind'') (\<lambda>x_kind.
     and_then (required_field (row_kind r) ''checkpoint'' (row_f r) ''commit_ref'') (\<lambda>x_commit_ref.
     and_then (required_field (row_kind r) ''checkpoint'' (row_g r) ''workspace_root'') (\<lambda>x_workspace_root.
     and_then (required_field (row_kind r) ''checkpoint'' (row_h r) ''content_hash'') (\<lambda>x_content_hash.
     Inr (Checkpoint
       \<lparr>ckpt_checkpoint_id = row_record_id r,
        ckpt_project_id = x_project_id,
        ckpt_session_id = x_session_id,
        ckpt_run_id = x_run_id,
        ckpt_turn_id = row_d r,
        ckpt_kind = x_kind,
        ckpt_commit_ref = x_commit_ref,
        ckpt_workspace_root = x_workspace_root,
        ckpt_shadow_git_dir = unwrap_or [] (payload_string sj payload ''shadow_git_dir''),
        ckpt_content_hash = x_content_hash,
        ckpt_created_at = payload_string sj payload ''created_at'',
        ckpt_restored_at = payload_string sj payload ''restored_at'',
        ckpt_updated_sequence = 0\<rparr>)))))))))"

definition worktree_from_row :: "serde \<Rightarrow> projection_record_row \<Rightarrow> (decode_fail, projection_record) result" where
  "worktree_from_row sj r =
     and_then (parse_projection_payload sj (row_kind r) (row_record_id r) (row_payload_json r)) (\<lambda>payload.
     and_then (and_then (required_field (row_kind r) ''worktree'' (row_a r) ''project_id'') new_id) (\<lambda>x_project_id.
     and_then (and_then (required_field (row_kind r) ''worktree'' (row_b r) ''session_id'') new_id) (\<lambda>x_session_id.
     and_then (required_field (row_kind r) ''worktree'' (row_c r) ''repo_root'') (\<lambda>x_repo_root.
     and_then (required_field (row_kind r) ''worktree'' (row_d r) ''worktree_path'') (\<lambda>x_worktree_path.
     and_then (required_field (row_kind r) ''worktree'' (row_e r) ''branch'') (\<lambda>x_branch.
     and_then (required_field (row_kind r) ''worktree'' (row_f r) ''status'') (\<lambda>x_status.
     and_then (optional_id (payload_string sj payload ''run_id'')) (\<lambda>x_run_id.
     and_then (optional_id (payload_string sj payload ''goal_id'')) (\<lambda>x_goal_id.
     Inr (Worktree
       \<lparr>wtree_worktree_id = row_record_id r,
        wtree_project_id = x_project_id,
        wtree_session_id = x_session_id,
        wtree_run_id = x_run_id,
        wtree_goal_id = x_goal_id,
        wtree_repo_root = x_repo_root,
        wtree_worktree_path = x_worktree_path,
        wtree_branch = x_branch,
        wtree_status = x_status,
        wtree_created_at = payload_string sj payload ''created_at'',
        wtree_reconciled_at = payload_string sj payload ''reconciled_at'',
        wtree_torn_down_at = payload_string sj payload ''torn_down_at'',
        wtree_updated_sequence = 0\<rparr>))))))))))"

definition source_binding_from_row :: "serde \<Rightarrow> projection_record_row \<Rightarrow> (decode_fail, projection_record) result" where
  "source_binding_from_row sj r =
     and_then (and_then (required_field (row_kind r) ''source_binding'' (row_a r) ''project_id'') new_id) (\<lambda>x_project_id.
     and_then (and_then (required_field (row_kind r) ''source_binding'' (row_b r) ''task_id'') new_id) (\<lambda>x_task_id.
     and_then (required_field (row_kind r) ''source_binding'' (row_c r) ''source_kind'') (\<lambda>x_source_kind.
     and_then (required_field (row_kind r) ''source_binding'' (row_d r) ''source_task_id'') (\<lambda>x_source_task_id.
     and_then (required_field (row_kind r) ''source_binding'' (row_e r) ''source_path'') (\<lambda>x_source_path.
     and_then (required_field (row_kind r) ''source_binding'' (row_f r) ''source_anchor'') (\<lambda>x_source_anchor.
     and_then (required_field (row_kind r) ''source_binding'' (row_g r) ''source_hash'') (\<lambda>x_source_hash.
     and_then (required_field (row_kind r) ''source_binding'' (row_h r) ''binding_status'') (\<lambda>x_binding_status.
     Inr (SourceBinding
       \<lparr>bind_source_binding_id = row_record_id r,
        bind_project_id = x_project_id,
        bind_task_id = x_task_id,
        bind_source_kind = x_source_kind,
        bind_source_task_id = x_source_task_id,
        bind_source_path = x_source_path,
        bind_source_anchor = x_source_anchor,
        bind_source_hash = x_source_hash,
        bind_binding_status = x_binding_status,
        bind_updated_sequence = 0\<rparr>)))))))))"

definition workpad_index_reset_from_row :: "serde \<Rightarrow> projection_record_row \<Rightarrow> (decode_fail, projection_record) result" where
  "workpad_index_reset_from_row sj r =
     and_then (new_id (row_record_id r)) (\<lambda>x_project_id.
     and_then (required_i64 (row_kind r) ''workpad_index_reset'' (row_a r) ''observed_unix'') (\<lambda>x_observed_unix.
     Inr (WorkpadIndexReset
       \<lparr>wreset_project_id = x_project_id,
        wreset_observed_unix = x_observed_unix,
        wreset_updated_sequence = 0\<rparr>)))"

definition workpad_file_from_row :: "serde \<Rightarrow> projection_record_row \<Rightarrow> (decode_fail, projection_record) result" where
  "workpad_file_from_row sj r =
     and_then (and_then (required_field (row_kind r) ''workpad_file'' (row_a r) ''project_id'') new_id) (\<lambda>x_project_id.
     and_then (required_field (row_kind r) ''workpad_file'' (row_b r) ''content_hash'') (\<lambda>x_content_hash.
     and_then (required_field (row_kind r) ''workpad_file'' (row_c r) ''headings'') (\<lambda>x_headings.
     and_then (required_i64 (row_kind r) ''workpad_file'' (row_e r) ''observed_unix'') (\<lambda>x_observed_unix.
     Inr (WorkpadFile
       \<lparr>wfile_path = row_record_id r,
        wfile_project_id = x_project_id,
        wfile_content_hash = x_content_hash,
        wfile_headings = x_headings,
        wfile_objective = row_d r,
        wfile_observed_unix = x_observed_unix,
        wfile_updated_sequence = 0\<rparr>)))))"

definition workpad_task_from_row :: "serde \<Rightarrow> projection_record_row \<Rightarrow> (decode_fail, projection_record) result" where
  "workpad_task_from_row sj r =
     and_then (and_then (required_field (row_kind r) ''workpad_task'' (row_a r) ''project_id'') new_id) (\<lambda>x_project_id.
     and_then (required_field (row_kind r) ''workpad_task'' (row_b r) ''path'') (\<lambda>x_path.
     and_then (required_field (row_kind r) ''workpad_task'' (row_c r) ''source_anchor'') (\<lambda>x_source_anchor.
     and_then (required_field (row_kind r) ''workpad_task'' (row_d r) ''title'') (\<lambda>x_title.
     and_then (required_field (row_kind r) ''workpad_task'' (row_e r) ''observed_status'') (\<lambda>x_observed_status.
     and_then (required_field (row_kind r) ''workpad_task'' (row_f r) ''capo_execution_status'') (\<lambda>x_capo_execution_status.
     and_then (required_i64 (row_kind r) ''workpad_task'' (row_g r) ''observed_unix'') (\<lambda>x_observed_unix.
     Inr (WorkpadTask
       \<lparr>wtask_workpad_task_id = row_record_id r,
        wtask_project_id = x_project_id,
        wtask_path = x_path,
        wtask_source_anchor = x_source_anchor,
        wtask_title = x_title,
        wtask_observed_status = x_observed_status,
        wtask_capo_execution_status = x_capo_execution_status,
        wtask_observed_unix = x_observed_unix,
        wtask_updated_sequence = 0\<rparr>))))))))"

definition goal_from_row :: "serde \<Rightarrow> projection_record_row \<Rightarrow> (decode_fail, projection_record) result" where
  "goal_from_row sj r =
     and_then (parse_projection_payload sj (row_kind r) (row_record_id r) (row_payload_json r)) (\<lambda>payload.
     and_then (new_id (row_record_id r)) (\<lambda>x_goal_id.
     and_then (and_then (required_field (row_kind r) ''goal'' (row_a r) ''project_id'') new_id) (\<lambda>x_project_id.
     and_then (optional_id (row_f r)) (\<lambda>x_task_id.
     and_then (optional_id (row_g r)) (\<lambda>x_agent_id.
     and_then (optional_id (row_h r)) (\<lambda>x_session_id.
     and_then (optional_id (row_d r)) (\<lambda>x_parent_goal_id.
     and_then (optional_id (row_e r)) (\<lambda>x_attempt_run_id.
     and_then (required_field (row_kind r) ''goal'' (row_c r) ''objective'') (\<lambda>x_objective.
     and_then (required_field (row_kind r) ''goal'' (row_b r) ''status'') (\<lambda>x_status.
     Inr (Goal
       \<lparr>goal_goal_id = x_goal_id,
        goal_project_id = x_project_id,
        goal_task_id = x_task_id,
        goal_agent_id = x_agent_id,
        goal_session_id = x_session_id,
        goal_parent_goal_id = x_parent_goal_id,
        goal_attempt_run_id = x_attempt_run_id,
        goal_objective = x_objective,
        goal_status = x_status,
        goal_success_criteria_json = unwrap_or [] (payload_string sj payload ''success_criteria_json''),
        goal_constraints_json = unwrap_or [] (payload_string sj payload ''constraints_json''),
        goal_verification_surface_json = unwrap_or [] (payload_string sj payload ''verification_surface_json''),
        goal_budget_json = unwrap_or [] (payload_string sj payload ''budget_json''),
        goal_stop_conditions_json = unwrap_or [] (payload_string sj payload ''stop_conditions_json''),
        goal_blocker_reason = unwrap_or [] (payload_string sj payload ''blocker_reason''),
        goal_updated_sequence = 0\<rparr>)))))))))))"

definition requirement_ledger_from_row :: "serde \<Rightarrow> projection_record_row \<Rightarrow> (decode_fail, projection_record) result" where
  "requirement_ledger_from_row sj r =
     and_then (new_id (row_record_id r)) (\<lambda>x_requirement_id.
     and_then (and_then (required_field (row_kind r) ''requirement_ledger'' (row_a r) ''goal_id'') new_id) (\<lambda>x_goal_id.
     and_then (and_then (required_field (row_kind r) ''requirement_ledger'' (row_b r) ''project_id'') new_id) (\<lambda>x_project_id.
     and_then (required_field (row_kind r) ''requirement_ledger'' (row_c r) ''summary'') (\<lambda>x_summary.
     and_then (required_field (row_kind r) ''requirement_ledger'' (row_d r) ''status'') (\<lambda>x_status.
     and_then (required_field (row_kind r) ''requirement_ledger'' (row_e r) ''last_status_source'') (\<lambda>x_last_status_source.
     Inr (RequirementLedger
       \<lparr>req_requirement_id = x_requirement_id,
        req_goal_id = x_goal_id,
        req_project_id = x_project_id,
        req_summary = x_summary,
        req_status = x_status,
        req_last_status_source = x_last_status_source,
        req_updated_sequence = 0\<rparr>)))))))"

definition goal_report_from_row :: "serde \<Rightarrow> projection_record_row \<Rightarrow> (decode_fail, projection_record) result" where
  "goal_report_from_row sj r =
     and_then (parse_projection_payload sj (row_kind r) (row_record_id r) (row_payload_json r)) (\<lambda>payload.
     and_then (and_then (required_field (row_kind r) ''goal_report'' (row_a r) ''goal_id'') new_id) (\<lambda>x_goal_id.
     and_then (and_then (required_field (row_kind r) ''goal_report'' (row_b r) ''project_id'') new_id) (\<lambda>x_project_id.
     and_then (optional_id (row_f r)) (\<lambda>x_session_id.
     and_then (optional_id (row_g r)) (\<lambda>x_requirement_id.
     and_then (required_field (row_kind r) ''goal_report'' (row_c r) ''report_kind'') (\<lambda>x_report_kind.
     and_then (required_field (row_kind r) ''goal_report'' (row_d r) ''source'') (\<lambda>x_source.
     and_then (optional_i64 (row_kind r) ''goal_report'' (row_h r) ''confidence'') (\<lambda>x_confidence.
     and_then (required_field (row_kind r) ''goal_report'' (row_e r) ''summary'') (\<lambda>x_summary.
     and_then (optional_id (payload_string sj payload ''evidence_id'')) (\<lambda>x_evidence_id.
     Inr (GoalReport
       \<lparr>grpt_goal_report_id = row_record_id r,
        grpt_goal_id = x_goal_id,
        grpt_project_id = x_project_id,
        grpt_session_id = x_session_id,
        grpt_requirement_id = x_requirement_id,
        grpt_report_kind = x_report_kind,
        grpt_source = x_source,
        grpt_confidence = x_confidence,
        grpt_summary = x_summary,
        grpt_body_artifact_id = payload_string sj payload ''body_artifact_id'',
        grpt_evidence_id = x_evidence_id,
        grpt_updated_sequence = 0\<rparr>)))))))))))"

definition goal_continuation_from_row :: "serde \<Rightarrow> projection_record_row \<Rightarrow> (decode_fail, projection_record) result" where
  "goal_continuation_from_row sj r =
     and_then (and_then (required_field (row_kind r) ''goal_continuation'' (row_a r) ''goal_id'') new_id) (\<lambda>x_goal_id.
     and_then (and_then (required_field (row_kind r) ''goal_continuation'' (row_b r) ''project_id'') new_id) (\<lambda>x_project_id.
     and_then (optional_id (row_e r)) (\<lambda>x_attempt_run_id.
     and_then (required_field (row_kind r) ''goal_continuation'' (row_c r) ''decision'') (\<lambda>x_decision.
     and_then (required_field (row_kind r) ''goal_continuation'' (row_d r) ''reason'') (\<lambda>x_reason.
     Inr (GoalContinuation
       \<lparr>cont_continuation_id = row_record_id r,
        cont_goal_id = x_goal_id,
        cont_project_id = x_project_id,
        cont_attempt_run_id = x_attempt_run_id,
        cont_decision = x_decision,
        cont_reason = x_reason,
        cont_updated_sequence = 0\<rparr>))))))"

definition delegated_provider_goal_from_row :: "serde \<Rightarrow> projection_record_row \<Rightarrow> (decode_fail, projection_record) result" where
  "delegated_provider_goal_from_row sj r =
     and_then (parse_projection_payload sj (row_kind r) (row_record_id r) (row_payload_json r)) (\<lambda>payload.
     and_then (and_then (required_field (row_kind r) ''delegated_provider_goal'' (row_a r) ''goal_id'') new_id) (\<lambda>x_goal_id.
     and_then (and_then (required_field (row_kind r) ''delegated_provider_goal'' (row_b r) ''project_id'') new_id) (\<lambda>x_project_id.
     and_then (optional_id (row_f r)) (\<lambda>x_session_id.
     and_then (required_field (row_kind r) ''delegated_provider_goal'' (row_c r) ''provider_kind'') (\<lambda>x_provider_kind.
     and_then (required_field (row_kind r) ''delegated_provider_goal'' (row_d r) ''provider_state'') (\<lambda>x_provider_state.
     and_then (required_field (row_kind r) ''delegated_provider_goal'' (row_e r) ''source'') (\<lambda>x_source.
     Inr (DelegatedProviderGoal
       \<lparr>dpg_delegated_goal_id = row_record_id r,
        dpg_goal_id = x_goal_id,
        dpg_project_id = x_project_id,
        dpg_session_id = x_session_id,
        dpg_provider_kind = x_provider_kind,
        dpg_provider_goal_ref = row_g r,
        dpg_provider_state = x_provider_state,
        dpg_source = x_source,
        dpg_body_artifact_id = payload_string sj payload ''body_artifact_id'',
        dpg_updated_sequence = 0\<rparr>))))))))"

definition goal_audit_decision_from_row :: "serde \<Rightarrow> projection_record_row \<Rightarrow> (decode_fail, projection_record) result" where
  "goal_audit_decision_from_row sj r =
     and_then (parse_projection_payload sj (row_kind r) (row_record_id r) (row_payload_json r)) (\<lambda>payload.
     and_then (and_then (required_field (row_kind r) ''goal_audit_decision'' (row_a r) ''goal_id'') new_id) (\<lambda>x_goal_id.
     and_then (and_then (required_field (row_kind r) ''goal_audit_decision'' (row_b r) ''project_id'') new_id) (\<lambda>x_project_id.
     and_then (optional_id (row_e r)) (\<lambda>x_attempt_run_id.
     and_then (required_field (row_kind r) ''goal_audit_decision'' (row_c r) ''verdict'') (\<lambda>x_verdict.
     and_then (required_field (row_kind r) ''goal_audit_decision'' (row_d r) ''reason'') (\<lambda>x_reason.
     and_then (required_payload_i64 (row_kind r) (row_record_id r) payload ''requirements_total'') (\<lambda>x_requirements_total.
     and_then (required_payload_i64 (row_kind r) (row_record_id r) payload ''requirements_complete'') (\<lambda>x_requirements_complete.
     and_then (required_payload_string sj (row_kind r) (row_record_id r) payload ''requirement_detail_json'') (\<lambda>x_requirement_detail_json.
     Inr (GoalAuditDecision
       \<lparr>audit_audit_id = row_record_id r,
        audit_goal_id = x_goal_id,
        audit_project_id = x_project_id,
        audit_attempt_run_id = x_attempt_run_id,
        audit_verdict = x_verdict,
        audit_reason = x_reason,
        audit_requirements_total = x_requirements_total,
        audit_requirements_complete = x_requirements_complete,
        audit_requirement_detail_json = x_requirement_detail_json,
        audit_updated_sequence = 0\<rparr>))))))))))"

definition adapter_replay_batch_from_row :: "serde \<Rightarrow> projection_record_row \<Rightarrow> (decode_fail, projection_record) result" where
  "adapter_replay_batch_from_row sj r =
     and_then (parse_projection_payload sj (row_kind r) (row_record_id r) (row_payload_json r)) (\<lambda>payload.
     and_then (and_then (required_field (row_kind r) ''adapter_replay_batch'' (row_a r) ''session_id'') new_id) (\<lambda>x_session_id.
     and_then (and_then (required_field (row_kind r) ''adapter_replay_batch'' (row_b r) ''project_id'') new_id) (\<lambda>x_project_id.
     and_then (required_field (row_kind r) ''adapter_replay_batch'' (row_c r) ''external_session_ref'') (\<lambda>x_external_session_ref.
     and_then (required_field (row_kind r) ''adapter_replay_batch'' (row_d r) ''source'') (\<lambda>x_source.
     and_then (required_field (row_kind r) ''adapter_replay_batch'' (row_e r) ''status'') (\<lambda>x_status.
     and_then (required_payload_i64 (row_kind r) ''adapter_replay_batch'' payload ''raw_update_count'') (\<lambda>x_raw_update_count.
     and_then (required_payload_i64 (row_kind r) ''adapter_replay_batch'' payload ''imported_count'') (\<lambda>x_imported_count.
     and_then (required_payload_i64 (row_kind r) ''adapter_replay_batch'' payload ''duplicate_count'') (\<lambda>x_duplicate_count.
     and_then (required_payload_i64 (row_kind r) ''adapter_replay_batch'' payload ''ambiguous_count'') (\<lambda>x_ambiguous_count.
     and_then (payload_optional_i64 (row_kind r) ''adapter_replay_batch'' payload ''normalized_sequence_start'') (\<lambda>x_normalized_sequence_start.
     and_then (payload_optional_i64 (row_kind r) ''adapter_replay_batch'' payload ''normalized_sequence_end'') (\<lambda>x_normalized_sequence_end.
     Inr (AdapterReplayBatch
       \<lparr>batch_acp_replay_batch_id = row_record_id r,
        batch_session_id = x_session_id,
        batch_project_id = x_project_id,
        batch_external_session_ref = x_external_session_ref,
        batch_source = x_source,
        batch_status = x_status,
        batch_load_request_id = row_f r,
        batch_prompt_request_id = row_g r,
        batch_recovery_attempt_id = row_h r,
        batch_raw_update_count = x_raw_update_count,
        batch_imported_count = x_imported_count,
        batch_duplicate_count = x_duplicate_count,
        batch_ambiguous_count = x_ambiguous_count,
        batch_normalized_sequence_start = x_normalized_sequence_start,
        batch_normalized_sequence_end = x_normalized_sequence_end,
        batch_started_at = payload_string sj payload ''started_at'',
        batch_completed_at = payload_string sj payload ''completed_at'',
        batch_updated_sequence = 0\<rparr>)))))))))))))"

definition adapter_raw_update_from_row :: "serde \<Rightarrow> projection_record_row \<Rightarrow> (decode_fail, projection_record) result" where
  "adapter_raw_update_from_row sj r =
     and_then (parse_projection_payload sj (row_kind r) (row_record_id r) (row_payload_json r)) (\<lambda>payload.
     and_then (and_then (required_field (row_kind r) ''adapter_raw_update'' (row_d r) ''batch_index'')
       (\<lambda>s. map_err (\<lambda>e. ProjectionDecodeError (''invalid i64 for adapter_raw_update batch_index: '' @ e)) (parse_i64 s))) (\<lambda>x_batch_index.
     and_then (required_field (row_kind r) ''adapter_raw_update'' (row_a r) ''acp_replay_batch_id'') (\<lambda>x_acp_replay_batch_id.
     and_then (and_then (required_field (row_kind r) ''adapter_raw_update'' (row_b r) ''project_id'') new_id) (\<lambda>x_project_id.
     and_then (required_field (row_kind r) ''adapter_raw_update'' (row_c r) ''external_session_ref'') (\<lambda>x_external_session_ref.
     and_then (required_field (row_kind r) ''adapter_raw_update'' (row_e r) ''jsonrpc_method'') (\<lambda>x_jsonrpc_method.
     and_then (required_payload_string sj (row_kind r) ''adapter_raw_update'' payload ''payload_hash'') (\<lambda>x_payload_hash.
     and_then (required_payload_string sj (row_kind r) ''adapter_raw_update'' payload ''replay_source'') (\<lambda>x_replay_source.
     and_then (required_payload_string sj (row_kind r) ''adapter_raw_update'' payload ''dedupe_confidence'') (\<lambda>x_dedupe_confidence.
     Inr (AdapterRawUpdate
       \<lparr>raw_acp_raw_update_id = row_record_id r,
        raw_acp_replay_batch_id = x_acp_replay_batch_id,
        raw_project_id = x_project_id,
        raw_external_session_ref = x_external_session_ref,
        raw_batch_index = x_batch_index,
        raw_jsonrpc_method = x_jsonrpc_method,
        raw_session_update_kind = row_f r,
        raw_external_item_ref = row_g r,
        raw_acp_timeline_key = row_h r,
        raw_payload_hash = x_payload_hash,
        raw_payload_artifact_id = payload_string sj payload ''payload_artifact_id'',
        raw_replay_source = x_replay_source,
        raw_dedupe_confidence = x_dedupe_confidence,
        raw_observed_at = payload_string sj payload ''observed_at'',
        raw_updated_sequence = 0\<rparr>))))))))))"

definition adapter_timeline_key_from_row :: "serde \<Rightarrow> projection_record_row \<Rightarrow> (decode_fail, projection_record) result" where
  "adapter_timeline_key_from_row sj r =
     and_then (parse_projection_payload sj (row_kind r) (row_record_id r) (row_payload_json r)) (\<lambda>payload.
     and_then (and_then (required_field (row_kind r) ''adapter_timeline_key'' (row_a r) ''session_id'') new_id) (\<lambda>x_session_id.
     and_then (and_then (required_field (row_kind r) ''adapter_timeline_key'' (row_b r) ''project_id'') new_id) (\<lambda>x_project_id.
     and_then (required_field (row_kind r) ''adapter_timeline_key'' (row_c r) ''external_session_ref'') (\<lambda>x_external_session_ref.
     and_then (required_field (row_kind r) ''adapter_timeline_key'' (row_d r) ''kind'') (\<lambda>x_kind.
     and_then (required_field (row_kind r) ''adapter_timeline_key'' (row_g r) ''confidence'') (\<lambda>x_confidence.
     and_then (payload_optional_i64 (row_kind r) ''adapter_timeline_key'' payload ''first_sequence'') (\<lambda>x_first_sequence.
     and_then (payload_optional_i64 (row_kind r) ''adapter_timeline_key'' payload ''last_sequence'') (\<lambda>x_last_sequence.
     Inr (AdapterTimelineKey
       \<lparr>tkey_adapter_timeline_key_id = row_record_id r,
        tkey_session_id = x_session_id,
        tkey_project_id = x_project_id,
        tkey_external_session_ref = x_external_session_ref,
        tkey_kind = x_kind,
        tkey_stable_ref = row_e r,
        tkey_synthetic_ref = row_f r,
        tkey_confidence = x_confidence,
        tkey_first_sequence = x_first_sequence,
        tkey_last_sequence = x_last_sequence,
        tkey_updated_sequence = 0\<rparr>)))))))))"

definition decode_adapter_projection :: "serde \<Rightarrow> projection_record_row \<Rightarrow> (decode_fail, projection_record) result" where
  "decode_adapter_projection sj r =
     (let kind = row_kind r in
      if kind = ''adapter_readiness'' then adapter_readiness_from_row sj r
      else if kind = ''adapter_smoke_report'' then adapter_smoke_report_from_row sj r
      else if kind = ''adapter_dispatch_plan'' then adapter_dispatch_plan_from_row sj r
      else if kind = ''adapter_dispatch_gate'' then adapter_dispatch_gate_from_row sj r
      else if kind = ''adapter_dispatch_replay'' then adapter_dispatch_replay_from_row sj r
      else if kind = ''adapter_dispatch_execution_request'' then adapter_dispatch_execution_request_from_row sj r
      else if kind = ''adapter_dispatch_execution'' then adapter_dispatch_execution_from_row sj r
      else if kind = ''adapter_dispatch_prompt_source'' then adapter_dispatch_prompt_source_from_row sj r
      else if kind = ''adapter_dispatch_prompt_materialization'' then adapter_dispatch_prompt_materialization_from_row sj r
      else if kind = ''adapter_replay_batch'' then adapter_replay_batch_from_row sj r
      else if kind = ''adapter_raw_update'' then adapter_raw_update_from_row sj r
      else if kind = ''adapter_timeline_key'' then adapter_timeline_key_from_row sj r
      else Inl (ProjectionDecodeError (''unknown projection kind: '' @ kind)))"

definition projection_record_from_row :: "serde \<Rightarrow> projection_record_row \<Rightarrow> (decode_fail, projection_record) result" where
  "projection_record_from_row sj r =
     (let kind = row_kind r in
      if kind = ''project'' then project_from_row sj r
      else if kind = ''task'' then task_from_row sj r
      else if kind = ''agent'' then agent_from_row sj r
      else if kind = ''session'' then session_from_row sj r
      else if kind = ''run'' then run_from_row sj r
      else if kind = ''capability_grant'' then capability_grant_from_row sj r
      else if kind = ''workspace_lease'' then workspace_lease_from_row sj r
      else if kind = ''permission_approval'' then permission_approval_from_row sj r
      else if kind = ''connectivity_exposure'' then connectivity_exposure_from_row sj r
      else if kind = ''runtime_target'' then runtime_target_from_row sj r
      else if starts_with ''adapter_'' kind then decode_adapter_projection sj r
      else if kind = ''tool_call'' then tool_call_from_row sj r
      else if kind = ''tool_observation'' then tool_observation_from_row sj r
      else if kind = ''memory_packet'' then memory_packet_ref_from_row sj r
      else if kind = ''memory_record'' then memory_record_from_row sj r
      else if kind = ''memory_source'' then memory_source_from_row sj r
      else if kind = ''evidence'' then evidence_from_row sj r
      else if kind = ''run_score'' then run_score_from_row sj r
      else if kind = ''checkpoint'' then checkpoint_from_row sj r
      else if kind = ''worktree'' then worktree_from_row sj r
      else if kind = ''task_outcome_report'' then task_outcome_report_from_row sj r
      else if kind = ''review_finding'' then review_finding_from_row sj r
      else if kind = ''workpad_index_reset'' then workpad_index_reset_from_row sj r
      else if kind = ''source_binding'' then source_binding_from_row sj r
      else if kind = ''workpad_file'' then workpad_file_from_row sj r
      else if kind = ''workpad_task'' then workpad_task_from_row sj r
      else if kind = ''goal'' then goal_from_row sj r
      else if kind = ''requirement_ledger'' then requirement_ledger_from_row sj r
      else if kind = ''goal_report'' then goal_report_from_row sj r
      else if kind = ''goal_continuation'' then goal_continuation_from_row sj r
      else if kind = ''delegated_provider_goal'' then delegated_provider_goal_from_row sj r
      else if kind = ''goal_audit_decision'' then goal_audit_decision_from_row sj r
      else Inl (ProjectionDecodeError (''unknown projection kind: '' @ kind)))"

end
