(* ===== verification/Codec_Roundtrip.thy ===== *)
theory Codec_Roundtrip
  imports Codec_Decode
begin

text \<open>
  What survives the journey through the projection log.  For every kind but two, decoding the
  encoded row gives the record back (with the sequence reset to 0, which the store overwrites when
  it applies the record).  The two exceptions are stated as what really comes back: a session loses
  its \<open>latest_blocker\<close>, for which the row has no column, and a permission approval depends on the
  text of its hand-formatted payload.
\<close>

section \<open>Field readers on encoded fields\<close>

lemma new_id_ok [codec_simps]: "id_ok s \<Longrightarrow> new_id s = Inr s"
  by (simp add: new_id_def)

lemma optional_id_ok [codec_simps]: "opt_all id_ok x \<Longrightarrow> optional_id x = Inr x"
  by (cases x) (simp_all add: optional_id_def new_id_ok)

lemma required_field_Some [codec_simps]: "required_field k r (Some s) f = Inr s"
  by (simp add: required_field_def)

lemma value_string_str [codec_simps]:
  "value_string sj (j_opt_str x) = x"
  by (cases x) (simp_all add: j_opt_str_def)

lemma value_i64_int [codec_simps]:
  "i64_ok i \<Longrightarrow> value_i64 k r f (Some (j_int i)) = Inr (Some i)"
  by (simp add: j_int_def)

lemma value_i64_opt_int [codec_simps]:
  "opt_all i64_ok x \<Longrightarrow> value_i64 k r f (Some (j_opt_int x)) = Inr x"
  by (cases x) (simp_all add: j_opt_int_def)

lemma optional_i64_text [codec_simps]:
  "opt_all i64_ok x \<Longrightarrow> optional_i64 k r (map_option int_to_string x) f = Inr x"
  by (cases x) (simp_all add: optional_i64_def)

lemma required_i64_text [codec_simps]:
  "i64_ok i \<Longrightarrow> required_i64 k r (Some (int_to_string i)) f = Inr i"
  by (simp add: required_i64_def required_field_Some)

lemma unwrap_or_Some [codec_simps]: "unwrap_or d (Some a) = a"
  by (simp add: unwrap_or_def)

lemmas reader_defs = payload_string_def required_payload_string_def payload_optional_i64_def
  required_payload_i64_def

lemma payload_parses:
  assumes "serde_json sj" and "list_all json_flat (map snd kvs)"
  shows "parse_projection_payload sj k r (to_text sj (json_object kvs)) = Inr (json_object kvs)"
  using assms by (simp add: parse_projection_payload_def serde_json.from_to json_plain_object)

section \<open>One round trip per kind\<close>

lemma project_roundtrip [codec_simps]:
  assumes "project_wf p"
  shows "project_from_row sj (project_to_row sj p) = Inr (Project (p\<lparr>prj_updated_sequence := 0\<rparr>))"
  using assms
  by (cases p) (simp add: project_wf_def project_from_row_def project_to_row_def codec_simps)

lemma task_roundtrip [codec_simps]:
  assumes "task_wf p"
  shows "task_from_row sj (task_to_row sj p) = Inr (Task (p\<lparr>tsk_updated_sequence := 0\<rparr>))"
  using assms
  by (cases p) (simp add: task_wf_def task_from_row_def task_to_row_def codec_simps)

lemma agent_roundtrip [codec_simps]:
  assumes "agent_wf p"
  shows "agent_from_row sj (agent_to_row sj p) = Inr (Agent (p\<lparr>agt_updated_sequence := 0\<rparr>))"
  using assms
  by (cases p) (simp add: agent_wf_def agent_from_row_def agent_to_row_def codec_simps)

lemma run_roundtrip [codec_simps]:
  assumes "run_wf p"
  shows "run_from_row sj (run_to_row sj p) = Inr (Run (p\<lparr>run_updated_sequence := 0\<rparr>))"
  using assms
  by (cases p) (simp add: run_wf_def run_from_row_def run_to_row_def codec_simps)

lemma capability_grant_roundtrip [codec_simps]:
  assumes "serde_json sj" and "capability_grant_wf p"
  shows "capability_grant_from_row sj (capability_grant_to_row sj p) = Inr (CapabilityGrant (p\<lparr>grant_updated_sequence := 0\<rparr>))"
  using assms(2)
  by (cases p)
    (simp add: capability_grant_wf_def capability_grant_from_row_def capability_grant_to_row_def reader_defs codec_simps
      payload_parses [OF assms(1)] serde_json.to_text_bool [OF assms(1)])

lemma workspace_lease_roundtrip [codec_simps]:
  assumes "workspace_lease_wf p"
  shows "workspace_lease_from_row sj (workspace_lease_to_row sj p) = Inr (WorkspaceLease (p\<lparr>lease_updated_sequence := 0\<rparr>))"
  using assms
  by (cases p) (simp add: workspace_lease_wf_def workspace_lease_from_row_def workspace_lease_to_row_def codec_simps)

lemma connectivity_exposure_roundtrip [codec_simps]:
  assumes "serde_json sj" and "connectivity_exposure_wf p"
  shows "connectivity_exposure_from_row sj (connectivity_exposure_to_row sj p) = Inr (ConnectivityExposure (p\<lparr>expo_updated_sequence := 0\<rparr>))"
  using assms(2)
  by (cases p)
    (simp add: connectivity_exposure_wf_def connectivity_exposure_from_row_def connectivity_exposure_to_row_def reader_defs codec_simps
      payload_parses [OF assms(1)] serde_json.to_text_bool [OF assms(1)])

lemma runtime_target_roundtrip [codec_simps]:
  assumes "serde_json sj" and "runtime_target_wf p"
  shows "runtime_target_from_row sj (runtime_target_to_row sj p) = Inr (RuntimeTarget (p\<lparr>rtt_updated_sequence := 0\<rparr>))"
  using assms(2)
  by (cases p)
    (simp add: runtime_target_wf_def runtime_target_from_row_def runtime_target_to_row_def reader_defs codec_simps
      payload_parses [OF assms(1)] serde_json.to_text_bool [OF assms(1)])

lemma adapter_readiness_roundtrip [codec_simps]:
  assumes "serde_json sj" and "adapter_readiness_wf p"
  shows "adapter_readiness_from_row sj (adapter_readiness_to_row sj p) = Inr (AdapterReadiness (p\<lparr>ardy_updated_sequence := 0\<rparr>))"
  using assms(2)
  by (cases p)
    (simp add: adapter_readiness_wf_def adapter_readiness_from_row_def adapter_readiness_to_row_def reader_defs codec_simps
      payload_parses [OF assms(1)] serde_json.to_text_bool [OF assms(1)])

lemma adapter_smoke_report_roundtrip [codec_simps]:
  assumes "serde_json sj" and "adapter_smoke_report_wf p"
  shows "adapter_smoke_report_from_row sj (adapter_smoke_report_to_row sj p) = Inr (AdapterSmokeReport (p\<lparr>asmk_updated_sequence := 0\<rparr>))"
  using assms(2)
  by (cases p)
    (simp add: adapter_smoke_report_wf_def adapter_smoke_report_from_row_def adapter_smoke_report_to_row_def reader_defs codec_simps
      payload_parses [OF assms(1)] serde_json.to_text_bool [OF assms(1)])

lemma adapter_dispatch_plan_roundtrip [codec_simps]:
  assumes "serde_json sj" and "adapter_dispatch_plan_wf p"
  shows "adapter_dispatch_plan_from_row sj (adapter_dispatch_plan_to_row sj p) = Inr (AdapterDispatchPlan (p\<lparr>plan_updated_sequence := 0\<rparr>))"
  using assms(2)
  by (cases p)
    (simp add: adapter_dispatch_plan_wf_def adapter_dispatch_plan_from_row_def adapter_dispatch_plan_to_row_def reader_defs codec_simps
      payload_parses [OF assms(1)] serde_json.to_text_bool [OF assms(1)])

lemma adapter_dispatch_gate_roundtrip [codec_simps]:
  assumes "serde_json sj" and "adapter_dispatch_gate_wf p"
  shows "adapter_dispatch_gate_from_row sj (adapter_dispatch_gate_to_row sj p) = Inr (AdapterDispatchGate (p\<lparr>gate_updated_sequence := 0\<rparr>))"
  using assms(2)
  by (cases p)
    (simp add: adapter_dispatch_gate_wf_def adapter_dispatch_gate_from_row_def adapter_dispatch_gate_to_row_def reader_defs codec_simps
      payload_parses [OF assms(1)] serde_json.to_text_bool [OF assms(1)])

lemma adapter_dispatch_replay_roundtrip [codec_simps]:
  assumes "serde_json sj" and "adapter_dispatch_replay_wf p"
  shows "adapter_dispatch_replay_from_row sj (adapter_dispatch_replay_to_row sj p) = Inr (AdapterDispatchReplay (p\<lparr>rply_updated_sequence := 0\<rparr>))"
  using assms(2)
  by (cases p)
    (simp add: adapter_dispatch_replay_wf_def adapter_dispatch_replay_from_row_def adapter_dispatch_replay_to_row_def reader_defs codec_simps
      payload_parses [OF assms(1)] serde_json.to_text_bool [OF assms(1)])

lemma adapter_dispatch_execution_request_roundtrip [codec_simps]:
  assumes "serde_json sj" and "adapter_dispatch_execution_request_wf p"
  shows "adapter_dispatch_execution_request_from_row sj (adapter_dispatch_execution_request_to_row sj p) = Inr (AdapterDispatchExecutionRequest (p\<lparr>xreq_updated_sequence := 0\<rparr>))"
  using assms(2)
  by (cases p)
    (simp add: adapter_dispatch_execution_request_wf_def adapter_dispatch_execution_request_from_row_def adapter_dispatch_execution_request_to_row_def reader_defs codec_simps
      payload_parses [OF assms(1)] serde_json.to_text_bool [OF assms(1)])

lemma adapter_dispatch_execution_roundtrip [codec_simps]:
  assumes "serde_json sj" and "adapter_dispatch_execution_wf p"
  shows "adapter_dispatch_execution_from_row sj (adapter_dispatch_execution_to_row sj p) = Inr (AdapterDispatchExecution (p\<lparr>exec_updated_sequence := 0\<rparr>))"
  using assms(2)
  by (cases p)
    (simp add: adapter_dispatch_execution_wf_def adapter_dispatch_execution_from_row_def adapter_dispatch_execution_to_row_def reader_defs codec_simps
      payload_parses [OF assms(1)] serde_json.to_text_bool [OF assms(1)])

lemma adapter_dispatch_prompt_source_roundtrip [codec_simps]:
  assumes "adapter_dispatch_prompt_source_wf p"
  shows "adapter_dispatch_prompt_source_from_row sj (adapter_dispatch_prompt_source_to_row sj p) = Inr (AdapterDispatchPromptSource (p\<lparr>psrc_updated_sequence := 0\<rparr>))"
  using assms
  by (cases p) (simp add: adapter_dispatch_prompt_source_wf_def adapter_dispatch_prompt_source_from_row_def adapter_dispatch_prompt_source_to_row_def codec_simps)

lemma adapter_dispatch_prompt_materialization_roundtrip [codec_simps]:
  assumes "serde_json sj" and "adapter_dispatch_prompt_materialization_wf p"
  shows "adapter_dispatch_prompt_materialization_from_row sj (adapter_dispatch_prompt_materialization_to_row sj p) = Inr (AdapterDispatchPromptMaterialization (p\<lparr>pmat_updated_sequence := 0\<rparr>))"
  using assms(2)
  by (cases p)
    (simp add: adapter_dispatch_prompt_materialization_wf_def adapter_dispatch_prompt_materialization_from_row_def adapter_dispatch_prompt_materialization_to_row_def reader_defs codec_simps
      payload_parses [OF assms(1)] serde_json.to_text_bool [OF assms(1)])

lemma tool_call_roundtrip [codec_simps]:
  assumes "serde_json sj" and "tool_call_wf p"
  shows "tool_call_from_row sj (tool_call_to_row sj p) = Inr (ToolCall (p\<lparr>call_updated_sequence := 0\<rparr>))"
  using assms(2)
  by (cases p)
    (simp add: tool_call_wf_def tool_call_from_row_def tool_call_to_row_def reader_defs codec_simps
      payload_parses [OF assms(1)] serde_json.to_text_bool [OF assms(1)])

lemma tool_observation_roundtrip [codec_simps]:
  assumes "serde_json sj" and "tool_observation_wf p"
  shows "tool_observation_from_row sj (tool_observation_to_row sj p) = Inr (ToolObservation (p\<lparr>obs_updated_sequence := 0\<rparr>))"
  using assms(2)
  by (cases p)
    (simp add: tool_observation_wf_def tool_observation_from_row_def tool_observation_to_row_def reader_defs codec_simps
      payload_parses [OF assms(1)] serde_json.to_text_bool [OF assms(1)])

lemma memory_packet_ref_roundtrip [codec_simps]:
  assumes "memory_packet_ref_wf p"
  shows "memory_packet_ref_from_row sj (memory_packet_ref_to_row sj p) = Inr (MemoryPacketRef (p\<lparr>mpkt_updated_sequence := 0\<rparr>))"
  using assms
  by (cases p) (simp add: memory_packet_ref_wf_def memory_packet_ref_from_row_def memory_packet_ref_to_row_def codec_simps)

lemma memory_record_roundtrip [codec_simps]:
  assumes "serde_json sj" and "memory_record_wf p"
  shows "memory_record_from_row sj (memory_record_to_row sj p) = Inr (MemoryRecord (p\<lparr>mrec_updated_sequence := 0\<rparr>))"
  using assms(2)
  by (cases p)
    (simp add: memory_record_wf_def memory_record_from_row_def memory_record_to_row_def reader_defs codec_simps
      payload_parses [OF assms(1)] serde_json.to_text_bool [OF assms(1)])

lemma memory_source_roundtrip [codec_simps]:
  assumes "serde_json sj" and "memory_source_wf p"
  shows "memory_source_from_row sj (memory_source_to_row sj p) = Inr (MemorySource (p\<lparr>msrc_updated_sequence := 0\<rparr>))"
  using assms(2)
  by (cases p)
    (simp add: memory_source_wf_def memory_source_from_row_def memory_source_to_row_def reader_defs codec_simps
      payload_parses [OF assms(1)] serde_json.to_text_bool [OF assms(1)])

lemma task_outcome_report_roundtrip [codec_simps]:
  assumes "serde_json sj" and "task_outcome_report_wf p"
  shows "task_outcome_report_from_row sj (task_outcome_report_to_row sj p) = Inr (TaskOutcomeReport (p\<lparr>tout_updated_sequence := 0\<rparr>))"
  using assms(2)
  by (cases p)
    (simp add: task_outcome_report_wf_def task_outcome_report_from_row_def task_outcome_report_to_row_def reader_defs codec_simps
      payload_parses [OF assms(1)] serde_json.to_text_bool [OF assms(1)])

lemma review_finding_roundtrip [codec_simps]:
  assumes "serde_json sj" and "review_finding_wf p"
  shows "review_finding_from_row sj (review_finding_to_row sj p) = Inr (ReviewFinding (p\<lparr>find_updated_sequence := 0\<rparr>))"
  using assms(2)
  by (cases p)
    (simp add: review_finding_wf_def review_finding_from_row_def review_finding_to_row_def reader_defs codec_simps
      payload_parses [OF assms(1)] serde_json.to_text_bool [OF assms(1)])

lemma evidence_roundtrip [codec_simps]:
  assumes "evidence_wf p"
  shows "evidence_from_row sj (evidence_to_row sj p) = Inr (Evidence (p\<lparr>evid_updated_sequence := 0\<rparr>))"
  using assms
  by (cases p) (simp add: evidence_wf_def evidence_from_row_def evidence_to_row_def codec_simps)

lemma run_score_roundtrip [codec_simps]:
  assumes "serde_json sj" and "run_score_wf p"
  shows "run_score_from_row sj (run_score_to_row sj p) = Inr (RunScore (p\<lparr>score_updated_sequence := 0\<rparr>))"
  using assms(2)
  by (cases p)
    (simp add: run_score_wf_def run_score_from_row_def run_score_to_row_def reader_defs codec_simps
      payload_parses [OF assms(1)] serde_json.to_text_bool [OF assms(1)])

lemma checkpoint_roundtrip [codec_simps]:
  assumes "serde_json sj" and "checkpoint_wf p"
  shows "checkpoint_from_row sj (checkpoint_to_row sj p) = Inr (Checkpoint (p\<lparr>ckpt_updated_sequence := 0\<rparr>))"
  using assms(2)
  by (cases p)
    (simp add: checkpoint_wf_def checkpoint_from_row_def checkpoint_to_row_def reader_defs codec_simps
      payload_parses [OF assms(1)] serde_json.to_text_bool [OF assms(1)])

lemma worktree_roundtrip [codec_simps]:
  assumes "serde_json sj" and "worktree_wf p"
  shows "worktree_from_row sj (worktree_to_row sj p) = Inr (Worktree (p\<lparr>wtree_updated_sequence := 0\<rparr>))"
  using assms(2)
  by (cases p)
    (simp add: worktree_wf_def worktree_from_row_def worktree_to_row_def reader_defs codec_simps
      payload_parses [OF assms(1)] serde_json.to_text_bool [OF assms(1)])

lemma source_binding_roundtrip [codec_simps]:
  assumes "source_binding_wf p"
  shows "source_binding_from_row sj (source_binding_to_row sj p) = Inr (SourceBinding (p\<lparr>bind_updated_sequence := 0\<rparr>))"
  using assms
  by (cases p) (simp add: source_binding_wf_def source_binding_from_row_def source_binding_to_row_def codec_simps)

lemma workpad_index_reset_roundtrip [codec_simps]:
  assumes "workpad_index_reset_wf p"
  shows "workpad_index_reset_from_row sj (workpad_index_reset_to_row sj p) = Inr (WorkpadIndexReset (p\<lparr>wreset_updated_sequence := 0\<rparr>))"
  using assms
  by (cases p) (simp add: workpad_index_reset_wf_def workpad_index_reset_from_row_def workpad_index_reset_to_row_def codec_simps)

lemma workpad_file_roundtrip [codec_simps]:
  assumes "workpad_file_wf p"
  shows "workpad_file_from_row sj (workpad_file_to_row sj p) = Inr (WorkpadFile (p\<lparr>wfile_updated_sequence := 0\<rparr>))"
  using assms
  by (cases p) (simp add: workpad_file_wf_def workpad_file_from_row_def workpad_file_to_row_def codec_simps)

lemma workpad_task_roundtrip [codec_simps]:
  assumes "workpad_task_wf p"
  shows "workpad_task_from_row sj (workpad_task_to_row sj p) = Inr (WorkpadTask (p\<lparr>wtask_updated_sequence := 0\<rparr>))"
  using assms
  by (cases p) (simp add: workpad_task_wf_def workpad_task_from_row_def workpad_task_to_row_def codec_simps)

lemma goal_roundtrip [codec_simps]:
  assumes "serde_json sj" and "goal_wf p"
  shows "goal_from_row sj (goal_to_row sj p) = Inr (Goal (p\<lparr>goal_updated_sequence := 0\<rparr>))"
  using assms(2)
  by (cases p)
    (simp add: goal_wf_def goal_from_row_def goal_to_row_def reader_defs codec_simps
      payload_parses [OF assms(1)] serde_json.to_text_bool [OF assms(1)])

lemma requirement_ledger_roundtrip [codec_simps]:
  assumes "requirement_ledger_wf p"
  shows "requirement_ledger_from_row sj (requirement_ledger_to_row sj p) = Inr (RequirementLedger (p\<lparr>req_updated_sequence := 0\<rparr>))"
  using assms
  by (cases p) (simp add: requirement_ledger_wf_def requirement_ledger_from_row_def requirement_ledger_to_row_def codec_simps)

lemma goal_report_roundtrip [codec_simps]:
  assumes "serde_json sj" and "goal_report_wf p"
  shows "goal_report_from_row sj (goal_report_to_row sj p) = Inr (GoalReport (p\<lparr>grpt_updated_sequence := 0\<rparr>))"
  using assms(2)
  by (cases p)
    (simp add: goal_report_wf_def goal_report_from_row_def goal_report_to_row_def reader_defs codec_simps
      payload_parses [OF assms(1)] serde_json.to_text_bool [OF assms(1)])

lemma goal_continuation_roundtrip [codec_simps]:
  assumes "goal_continuation_wf p"
  shows "goal_continuation_from_row sj (goal_continuation_to_row sj p) = Inr (GoalContinuation (p\<lparr>cont_updated_sequence := 0\<rparr>))"
  using assms
  by (cases p) (simp add: goal_continuation_wf_def goal_continuation_from_row_def goal_continuation_to_row_def codec_simps)

lemma delegated_provider_goal_roundtrip [codec_simps]:
  assumes "serde_json sj" and "delegated_provider_goal_wf p"
  shows "delegated_provider_goal_from_row sj (delegated_provider_goal_to_row sj p) = Inr (DelegatedProviderGoal (p\<lparr>dpg_updated_sequence := 0\<rparr>))"
  using assms(2)
  by (cases p)
    (simp add: delegated_provider_goal_wf_def delegated_provider_goal_from_row_def delegated_provider_goal_to_row_def reader_defs codec_simps
      payload_parses [OF assms(1)] serde_json.to_text_bool [OF assms(1)])

lemma goal_audit_decision_roundtrip [codec_simps]:
  assumes "serde_json sj" and "goal_audit_decision_wf p"
  shows "goal_audit_decision_from_row sj (goal_audit_decision_to_row sj p) = Inr (GoalAuditDecision (p\<lparr>audit_updated_sequence := 0\<rparr>))"
  using assms(2)
  by (cases p)
    (simp add: goal_audit_decision_wf_def goal_audit_decision_from_row_def goal_audit_decision_to_row_def reader_defs codec_simps
      payload_parses [OF assms(1)] serde_json.to_text_bool [OF assms(1)])

lemma adapter_replay_batch_roundtrip [codec_simps]:
  assumes "serde_json sj" and "adapter_replay_batch_wf p"
  shows "adapter_replay_batch_from_row sj (adapter_replay_batch_to_row sj p) = Inr (AdapterReplayBatch (p\<lparr>batch_updated_sequence := 0\<rparr>))"
  using assms(2)
  by (cases p)
    (simp add: adapter_replay_batch_wf_def adapter_replay_batch_from_row_def adapter_replay_batch_to_row_def reader_defs codec_simps
      payload_parses [OF assms(1)] serde_json.to_text_bool [OF assms(1)])

lemma adapter_raw_update_roundtrip [codec_simps]:
  assumes "serde_json sj" and "adapter_raw_update_wf p"
  shows "adapter_raw_update_from_row sj (adapter_raw_update_to_row sj p) = Inr (AdapterRawUpdate (p\<lparr>raw_updated_sequence := 0\<rparr>))"
  using assms(2)
  by (cases p)
    (simp add: adapter_raw_update_wf_def adapter_raw_update_from_row_def adapter_raw_update_to_row_def reader_defs codec_simps
      payload_parses [OF assms(1)] serde_json.to_text_bool [OF assms(1)])

lemma adapter_timeline_key_roundtrip [codec_simps]:
  assumes "serde_json sj" and "adapter_timeline_key_wf p"
  shows "adapter_timeline_key_from_row sj (adapter_timeline_key_to_row sj p) = Inr (AdapterTimelineKey (p\<lparr>tkey_updated_sequence := 0\<rparr>))"
  using assms(2)
  by (cases p)
    (simp add: adapter_timeline_key_wf_def adapter_timeline_key_from_row_def adapter_timeline_key_to_row_def reader_defs codec_simps
      payload_parses [OF assms(1)] serde_json.to_text_bool [OF assms(1)])


section \<open>Sessions: the blocker has no column\<close>

lemma session_roundtrip [codec_simps]:
  assumes "serde_json sj" and "session_wf p"
  shows "session_from_row sj (session_to_row sj p) =
    Inr (Session (p\<lparr>ses_latest_blocker := None, ses_updated_sequence := 0\<rparr>))"
  using assms(2)
  by (cases p)
    (simp add: session_wf_def session_from_row_def session_to_row_def reader_defs codec_simps
      payload_parses [OF assms(1)])

section \<open>Approvals: a payload formatted by hand\<close>

lemma escape_json_minimal: "quoted (escape_json s) = minimal_string s"
proof -
  have "escape_json s = concat (map (\<lambda>c. if c = CHR 0x22 \<or> c = CHR 0x5C then [CHR 0x5C, c] else [c]) s)"
    by (induction s) (auto simp: escape_json_def)
  then show ?thesis by (simp add: quoted_def minimal_string_def)
qed

text \<open>
  When the approval survives: the free texts hold no control character, and the subject is the
  canonical text of a value that is neither \<open>null\<close> (decoded as an absent field) nor a string
  (decoded without its quotes).
\<close>

definition subject_text_ok :: "serde \<Rightarrow> string \<Rightarrow> bool" where
  "subject_text_ok sj t =
     (case from_text sj t of
        Inl e \<Rightarrow> False
      | Inr v \<Rightarrow> json_wf v \<and> json_depth v < 127 \<and> to_text sj v = t \<and>
          (case v of JNull \<Rightarrow> False | JString s \<Rightarrow> False | _ \<Rightarrow> True))"

definition approval_text_ok :: "serde \<Rightarrow> permission_approval_projection \<Rightarrow> bool" where
  "approval_text_ok sj p \<longleftrightarrow>
     subject_text_ok sj (appr_subject_json p) \<and>
     list_all printable_char (appr_requested_by p) \<and> list_all printable_char (appr_reason p)"

lemma subject_text_okE:
  assumes "subject_text_ok sj t"
  obtains v where "json_wf v" "json_depth v < 127" "to_text sj v = t" "value_string sj v = Some t"
proof -
  obtain v where v: "from_text sj t = Inr v"
    using assms by (cases "from_text sj t") (simp_all add: subject_text_ok_def)
  with assms have "json_wf v" "json_depth v < 127" "to_text sj v = t"
    and "case v of JNull \<Rightarrow> False | JString s \<Rightarrow> False | _ \<Rightarrow> True"
    by (simp_all add: subject_text_ok_def)
  moreover from this have "value_string sj v = Some t" by (cases v) simp_all
  ultimately show thesis using that by blast
qed

lemma approval_payload_text:
  assumes "serde_json_text sj" and "to_text sj v = appr_subject_json p"
    and "list_all printable_char (appr_requested_by p)" "list_all printable_char (appr_reason p)"
  shows "row_payload_json (permission_approval_to_row sj p) =
    object_text sj [(''subject_json'', v), (''requested_by'', JString (appr_requested_by p)),
                    (''reason'', JString (appr_reason p))]"
proof -
  have keys: "to_text sj (JString k) = quoted k"
    if "k \<in> {''subject_json'', ''requested_by'', ''reason''}" for k
    using that by (subst serde_json_text.to_text_string [OF assms(1)])
      (auto simp: printable_char_def minimal_string_def quoted_def)
  show ?thesis
    by (simp add: permission_approval_to_row_def object_text_def keys assms(2)
        escape_json_minimal serde_json_text.to_text_string [OF assms(1) assms(3)]
        serde_json_text.to_text_string [OF assms(1) assms(4)])
qed

lemma permission_approval_roundtrip [codec_simps]:
  assumes "serde_json_text sj" and "permission_approval_wf p" and "approval_text_ok sj p"
  shows "permission_approval_from_row sj (permission_approval_to_row sj p) =
    Inr (PermissionApproval (p\<lparr>appr_updated_sequence := 0\<rparr>))"
proof -
  from assms(3) have "subject_text_ok sj (appr_subject_json p)"
    and pr: "list_all printable_char (appr_requested_by p)" "list_all printable_char (appr_reason p)"
    by (simp_all add: approval_text_ok_def)
  then obtain v where v: "json_wf v" "json_depth v < 127" "to_text sj v = appr_subject_json p"
      "value_string sj v = Some (appr_subject_json p)"
    by (blast elim: subject_text_okE)
  let ?m = "[(''subject_json'', v), (''requested_by'', JString (appr_requested_by p)),
             (''reason'', JString (appr_reason p))]"
  have payload: "parse_projection_payload sj k r (row_payload_json (permission_approval_to_row sj p))
      = Inr (json_object ?m)" for k r
    using serde_json_text.from_object_text [OF assms(1), of ?m] v
    by (simp add: approval_payload_text [OF assms(1) v(3) pr] parse_projection_payload_def)
  show ?thesis
    using assms(2) v(4)
    by (simp add: permission_approval_from_row_def payload)
      (cases p, simp add: permission_approval_wf_def permission_approval_to_row_def
        reader_defs codec_simps)
qed

section \<open>Every kind\<close>

lemma to_row_kind [codec_simps]:
  "row_kind (project_to_row sj p0) = ''project''"
  "row_kind (task_to_row sj p1) = ''task''"
  "row_kind (agent_to_row sj p2) = ''agent''"
  "row_kind (session_to_row sj p3) = ''session''"
  "row_kind (run_to_row sj p4) = ''run''"
  "row_kind (capability_grant_to_row sj p5) = ''capability_grant''"
  "row_kind (workspace_lease_to_row sj p6) = ''workspace_lease''"
  "row_kind (permission_approval_to_row sj p7) = ''permission_approval''"
  "row_kind (connectivity_exposure_to_row sj p8) = ''connectivity_exposure''"
  "row_kind (runtime_target_to_row sj p9) = ''runtime_target''"
  "row_kind (adapter_readiness_to_row sj p10) = ''adapter_readiness''"
  "row_kind (adapter_smoke_report_to_row sj p11) = ''adapter_smoke_report''"
  "row_kind (adapter_dispatch_plan_to_row sj p12) = ''adapter_dispatch_plan''"
  "row_kind (adapter_dispatch_gate_to_row sj p13) = ''adapter_dispatch_gate''"
  "row_kind (adapter_dispatch_replay_to_row sj p14) = ''adapter_dispatch_replay''"
  "row_kind (adapter_dispatch_execution_request_to_row sj p15) = ''adapter_dispatch_execution_request''"
  "row_kind (adapter_dispatch_execution_to_row sj p16) = ''adapter_dispatch_execution''"
  "row_kind (adapter_dispatch_prompt_source_to_row sj p17) = ''adapter_dispatch_prompt_source''"
  "row_kind (adapter_dispatch_prompt_materialization_to_row sj p18) = ''adapter_dispatch_prompt_materialization''"
  "row_kind (tool_call_to_row sj p19) = ''tool_call''"
  "row_kind (tool_observation_to_row sj p20) = ''tool_observation''"
  "row_kind (memory_packet_ref_to_row sj p21) = ''memory_packet''"
  "row_kind (memory_record_to_row sj p22) = ''memory_record''"
  "row_kind (memory_source_to_row sj p23) = ''memory_source''"
  "row_kind (task_outcome_report_to_row sj p24) = ''task_outcome_report''"
  "row_kind (review_finding_to_row sj p25) = ''review_finding''"
  "row_kind (evidence_to_row sj p26) = ''evidence''"
  "row_kind (run_score_to_row sj p27) = ''run_score''"
  "row_kind (checkpoint_to_row sj p28) = ''checkpoint''"
  "row_kind (worktree_to_row sj p29) = ''worktree''"
  "row_kind (source_binding_to_row sj p30) = ''source_binding''"
  "row_kind (workpad_index_reset_to_row sj p31) = ''workpad_index_reset''"
  "row_kind (workpad_file_to_row sj p32) = ''workpad_file''"
  "row_kind (workpad_task_to_row sj p33) = ''workpad_task''"
  "row_kind (goal_to_row sj p34) = ''goal''"
  "row_kind (requirement_ledger_to_row sj p35) = ''requirement_ledger''"
  "row_kind (goal_report_to_row sj p36) = ''goal_report''"
  "row_kind (goal_continuation_to_row sj p37) = ''goal_continuation''"
  "row_kind (delegated_provider_goal_to_row sj p38) = ''delegated_provider_goal''"
  "row_kind (goal_audit_decision_to_row sj p39) = ''goal_audit_decision''"
  "row_kind (adapter_replay_batch_to_row sj p40) = ''adapter_replay_batch''"
  "row_kind (adapter_raw_update_to_row sj p41) = ''adapter_raw_update''"
  "row_kind (adapter_timeline_key_to_row sj p42) = ''adapter_timeline_key''"
  by (simp_all only: project_to_row_def
    task_to_row_def
    agent_to_row_def
    session_to_row_def
    run_to_row_def
    capability_grant_to_row_def
    workspace_lease_to_row_def
    permission_approval_to_row_def
    connectivity_exposure_to_row_def
    runtime_target_to_row_def
    adapter_readiness_to_row_def
    adapter_smoke_report_to_row_def
    adapter_dispatch_plan_to_row_def
    adapter_dispatch_gate_to_row_def
    adapter_dispatch_replay_to_row_def
    adapter_dispatch_execution_request_to_row_def
    adapter_dispatch_execution_to_row_def
    adapter_dispatch_prompt_source_to_row_def
    adapter_dispatch_prompt_materialization_to_row_def
    tool_call_to_row_def
    tool_observation_to_row_def
    memory_packet_ref_to_row_def
    memory_record_to_row_def
    memory_source_to_row_def
    task_outcome_report_to_row_def
    review_finding_to_row_def
    evidence_to_row_def
    run_score_to_row_def
    checkpoint_to_row_def
    worktree_to_row_def
    source_binding_to_row_def
    workpad_index_reset_to_row_def
    workpad_file_to_row_def
    workpad_task_to_row_def
    goal_to_row_def
    requirement_ledger_to_row_def
    goal_report_to_row_def
    goal_continuation_to_row_def
    delegated_provider_goal_to_row_def
    goal_audit_decision_to_row_def
    adapter_replay_batch_to_row_def
    adapter_raw_update_to_row_def
    adapter_timeline_key_to_row_def projection_record_row.select_convs)

text \<open>
  The records a rebuild restores exactly.
\<close>

definition replay_faithful :: "serde \<Rightarrow> projection_record \<Rightarrow> bool" where
  "replay_faithful sj r \<longleftrightarrow> record_wf r \<and>
     (case r of
        Session s \<Rightarrow> ses_latest_blocker s = None
      | PermissionApproval a \<Rightarrow> approval_text_ok sj a
      | _ \<Rightarrow> True)"

lemma serde_json_textD: "serde_json_text sj \<Longrightarrow> serde_json sj"
  by (simp add: serde_json_text_def)

lemma projection_record_roundtrip:
  assumes sj: "serde_json_text sj" and r: "replay_faithful sj r"
  shows "projection_record_from_row sj (projection_record_to_row sj r) = Inr (with_sequence 0 r)"
proof (cases r)
  case (Session s)
  with r show ?thesis
    by (cases s) (simp add: projection_record_from_row_def Let_def codec_simps replay_faithful_def
        serde_json_textD [OF sj])
next
  case (PermissionApproval a)
  with r show ?thesis
    by (simp add: projection_record_from_row_def Let_def codec_simps replay_faithful_def sj)
qed (use r in \<open>simp add: projection_record_from_row_def decode_adapter_projection_def Let_def
  codec_simps replay_faithful_def serde_json_textD [OF sj]\<close>)+

end
