(* ===== verification/Event_Kinds.thy ===== *)
theory Event_Kinds
  imports Capo_Core
begin

text \<open>
  \<open>capo-state/src/event.rs\<close>: the vocabulary of the event log.  The 113 variants of
  \<open>EventKind\<close> are grouped by the family their wire name starts with (one datatype per family, wrapped
  by \<open>event_kind\<close>); the wire names, the lookup table and the classifications are the source's.
  The main result is that \<open>from_wire\<close> inverts \<open>as_str\<close>, so that no kind of the enumeration is
  forgotten in the lookup table and no two kinds share a wire name.
\<close>

section \<open>Kinds and their wire names\<close>

datatype (plugins only: code size) task_event_kind =
    TaskDiscovered
  | TaskOutcomeReportGenerated

datatype (plugins only: code size) session_event_kind =
    SessionStarted
  | SessionRedirected
  | SessionSummaryUpdated
  | SessionInterrupted
  | SessionStopped

datatype (plugins only: code size) run_event_kind =
    RunStarted
  | RunExited
  | RunScored
  | RunHardKilled
  | RunAborted
  | RunOrphaned
  | RunRecovered

datatype (plugins only: code size) permission_event_kind =
    PermissionRequested
  | PermissionDecided
  | PermissionApprovalQueued

datatype (plugins only: code size) capability_event_kind =
    CapabilityGrantCreated
  | CapabilityGrantUsed
  | CapabilityGrantRevoked
  | CapabilityGrantExpired

datatype (plugins only: code size) workspace_event_kind =
    WorkspaceLeaseAcquired
  | WorkspaceLeaseReleased

datatype (plugins only: code size) connectivity_event_kind =
    ConnectivityExposureRequested
  | ConnectivityExposureChanged
  | ConnectivityExposureRevoked
  | ConnectivityHealthChanged
  | ConnectivityPolicyChanged

datatype (plugins only: code size) adapter_event_kind =
    AdapterReadinessChecked
  | AdapterSmokeRecorded
  | AdapterDispatchPlanned
  | AdapterDispatchGateChecked
  | AdapterDispatchReplayed
  | AdapterDispatchExecutionRequested
  | AdapterDispatchExecuted
  | AdapterDispatchPromptSourceRecorded
  | AdapterDispatchPromptMaterialized
  | AdapterAttachStarted
  | AdapterAttachCompleted
  | AdapterAttachFailed
  | AdapterReplayStarted
  | AdapterRawUpdateObserved
  | AdapterReplayDuplicateDetected
  | AdapterReplayAmbiguous
  | AdapterReplayCompleted

datatype (plugins only: code size) tool_event_kind =
    ToolCallRequested
  | ToolInvocationStarted
  | ToolObservationRecorded
  | ToolOutputArtifactRecorded
  | ToolOutputObserved
  | ToolCallCompleted
  | ToolResultDelivered

datatype (plugins only: code size) memory_event_kind =
    MemoryPacketBuilt
  | MemoryRecordIngested
  | MemoryRecordInvalidated
  | MemoryJobRequested
  | MemoryJobCompleted
  | MemoryRecordSuperseded
  | MemoryRecordPromoted

datatype (plugins only: code size) workpad_event_kind =
    WorkpadIndexed
  | WorkpadTaskImported
  | WorkpadProposalWritten

datatype (plugins only: code size) recovery_event_kind =
    RecoveryStarted
  | RecoveryCompleted

datatype (plugins only: code size) checkpoint_event_kind =
    CheckpointCreated
  | CheckpointRestored

datatype (plugins only: code size) worktree_event_kind =
    WorktreeCreated
  | WorktreeReconciled
  | WorktreeTornDown

datatype (plugins only: code size) goal_event_kind =
    GoalCreated
  | GoalUpdated
  | GoalPaused
  | GoalResumed
  | GoalBlocked
  | GoalCleared
  | RequirementStatusChanged
  | GoalReportRecorded
  | ContinuationDecisionRecorded
  | DelegatedProviderGoalObserved
  | GoalAuditDecisionRecorded

datatype (plugins only: code size) sandbox_event_kind =
    SandboxEnforced
  | SandboxUnenforced
  | SandboxLaunchRefused

datatype (plugins only: code size) runtime_local_event_kind =
    RuntimeTargetRegistered
  | RuntimeTargetStatusChanged
  | RuntimeConnectorEnvScrubbed

datatype (plugins only: code size) remote_process_event_kind =
    RuntimeRemoteStartRequested
  | RuntimeRemoteTargetResolved
  | RuntimeRemoteProcessStarted
  | RuntimeRemoteProcessStartFailed
  | RuntimeRemoteInterruptSent
  | RuntimeRemoteTerminateSent
  | RuntimeRemoteKillSent
  | RuntimeRemoteCleanupCompleted
  | RuntimeRemoteControlRevoked
  | RuntimeRemoteRollbackPerformed
  | RuntimeRemoteOutputDelta
  | RuntimeRemoteStdinWritten
  | RuntimeRemoteStreamFinalized

datatype (plugins only: code size) remote_recovery_event_kind =
    RuntimeRemoteRecoveryAttempted
  | RuntimeRemoteRunRecovered
  | RuntimeRemoteRunOrphaned
  | RuntimeRemoteRunExited
  | RuntimeRemoteRecoveryPending
  | RuntimeRemoteWorkspaceMaterialized
  | RuntimeRemoteWorkspaceReconciled
  | RuntimeRemoteWorkspaceTornDown
  | RuntimeRemoteWorkspaceMaterializationFailed

datatype (plugins only: code size) event_kind =
    ProjectRegistered
  | AgentRegistered
  | ReviewFindingRecorded
  | EvidenceRecorded
  | ServerRequestHandled
  | TaskEvent task_event_kind
  | SessionEvent session_event_kind
  | RunEvent run_event_kind
  | PermissionEvent permission_event_kind
  | CapabilityEvent capability_event_kind
  | WorkspaceEvent workspace_event_kind
  | ConnectivityEvent connectivity_event_kind
  | AdapterEvent adapter_event_kind
  | ToolEvent tool_event_kind
  | MemoryEvent memory_event_kind
  | WorkpadEvent workpad_event_kind
  | RecoveryEvent recovery_event_kind
  | CheckpointEvent checkpoint_event_kind
  | WorktreeEvent worktree_event_kind
  | GoalEvent goal_event_kind
  | SandboxEvent sandbox_event_kind
  | RuntimeLocalEvent runtime_local_event_kind
  | RemoteProcessEvent remote_process_event_kind
  | RemoteRecoveryEvent remote_recovery_event_kind

fun task_event_as_str :: "task_event_kind \<Rightarrow> string" where
  "task_event_as_str TaskDiscovered = ''task.discovered''"
| "task_event_as_str TaskOutcomeReportGenerated = ''task.outcome_report_generated''"

fun session_event_as_str :: "session_event_kind \<Rightarrow> string" where
  "session_event_as_str SessionStarted = ''session.started''"
| "session_event_as_str SessionRedirected = ''session.redirected''"
| "session_event_as_str SessionSummaryUpdated = ''session.summary_updated''"
| "session_event_as_str SessionInterrupted = ''session.interrupted''"
| "session_event_as_str SessionStopped = ''session.stopped''"

fun run_event_as_str :: "run_event_kind \<Rightarrow> string" where
  "run_event_as_str RunStarted = ''run.started''"
| "run_event_as_str RunExited = ''run.exited''"
| "run_event_as_str RunScored = ''run.scored''"
| "run_event_as_str RunHardKilled = ''run.hard_killed''"
| "run_event_as_str RunAborted = ''run.aborted''"
| "run_event_as_str RunOrphaned = ''run.orphaned''"
| "run_event_as_str RunRecovered = ''run.recovered''"

fun permission_event_as_str :: "permission_event_kind \<Rightarrow> string" where
  "permission_event_as_str PermissionRequested = ''permission.requested''"
| "permission_event_as_str PermissionDecided = ''permission.decided''"
| "permission_event_as_str PermissionApprovalQueued = ''permission.approval_queued''"

fun capability_event_as_str :: "capability_event_kind \<Rightarrow> string" where
  "capability_event_as_str CapabilityGrantCreated = ''capability.grant_created''"
| "capability_event_as_str CapabilityGrantUsed = ''capability.grant_used''"
| "capability_event_as_str CapabilityGrantRevoked = ''capability.grant_revoked''"
| "capability_event_as_str CapabilityGrantExpired = ''capability.grant_expired''"

fun workspace_event_as_str :: "workspace_event_kind \<Rightarrow> string" where
  "workspace_event_as_str WorkspaceLeaseAcquired = ''workspace.lease_acquired''"
| "workspace_event_as_str WorkspaceLeaseReleased = ''workspace.lease_released''"

fun connectivity_event_as_str :: "connectivity_event_kind \<Rightarrow> string" where
  "connectivity_event_as_str ConnectivityExposureRequested = ''connectivity.exposure_requested''"
| "connectivity_event_as_str ConnectivityExposureChanged = ''connectivity.exposure_changed''"
| "connectivity_event_as_str ConnectivityExposureRevoked = ''connectivity.exposure_revoked''"
| "connectivity_event_as_str ConnectivityHealthChanged = ''connectivity.health_changed''"
| "connectivity_event_as_str ConnectivityPolicyChanged = ''connectivity.policy_changed''"

fun adapter_event_as_str :: "adapter_event_kind \<Rightarrow> string" where
  "adapter_event_as_str AdapterReadinessChecked = ''adapter.readiness_checked''"
| "adapter_event_as_str AdapterSmokeRecorded = ''adapter.smoke_recorded''"
| "adapter_event_as_str AdapterDispatchPlanned = ''adapter.dispatch_planned''"
| "adapter_event_as_str AdapterDispatchGateChecked = ''adapter.dispatch_gate_checked''"
| "adapter_event_as_str AdapterDispatchReplayed = ''adapter.dispatch_replayed''"
| "adapter_event_as_str AdapterDispatchExecutionRequested = ''adapter.dispatch_execution_requested''"
| "adapter_event_as_str AdapterDispatchExecuted = ''adapter.dispatch_executed''"
| "adapter_event_as_str AdapterDispatchPromptSourceRecorded = ''adapter.dispatch_prompt_source_recorded''"
| "adapter_event_as_str AdapterDispatchPromptMaterialized = ''adapter.dispatch_prompt_materialized''"
| "adapter_event_as_str AdapterAttachStarted = ''adapter.attach_started''"
| "adapter_event_as_str AdapterAttachCompleted = ''adapter.attach_completed''"
| "adapter_event_as_str AdapterAttachFailed = ''adapter.attach_failed''"
| "adapter_event_as_str AdapterReplayStarted = ''adapter.replay_started''"
| "adapter_event_as_str AdapterRawUpdateObserved = ''adapter.raw_update_observed''"
| "adapter_event_as_str AdapterReplayDuplicateDetected = ''adapter.replay_duplicate_detected''"
| "adapter_event_as_str AdapterReplayAmbiguous = ''adapter.replay_ambiguous''"
| "adapter_event_as_str AdapterReplayCompleted = ''adapter.replay_completed''"

fun tool_event_as_str :: "tool_event_kind \<Rightarrow> string" where
  "tool_event_as_str ToolCallRequested = ''tool.call_requested''"
| "tool_event_as_str ToolInvocationStarted = ''tool.invocation_started''"
| "tool_event_as_str ToolObservationRecorded = ''tool.observation_recorded''"
| "tool_event_as_str ToolOutputArtifactRecorded = ''tool.output_artifact_recorded''"
| "tool_event_as_str ToolOutputObserved = ''tool.output_observed''"
| "tool_event_as_str ToolCallCompleted = ''tool.call_completed''"
| "tool_event_as_str ToolResultDelivered = ''tool.result_delivered''"

fun memory_event_as_str :: "memory_event_kind \<Rightarrow> string" where
  "memory_event_as_str MemoryPacketBuilt = ''memory.packet_built''"
| "memory_event_as_str MemoryRecordIngested = ''memory.record_ingested''"
| "memory_event_as_str MemoryRecordInvalidated = ''memory.record_invalidated''"
| "memory_event_as_str MemoryJobRequested = ''memory.job_requested''"
| "memory_event_as_str MemoryJobCompleted = ''memory.job_completed''"
| "memory_event_as_str MemoryRecordSuperseded = ''memory.record_superseded''"
| "memory_event_as_str MemoryRecordPromoted = ''memory.record_promoted''"

fun workpad_event_as_str :: "workpad_event_kind \<Rightarrow> string" where
  "workpad_event_as_str WorkpadIndexed = ''workpad.indexed''"
| "workpad_event_as_str WorkpadTaskImported = ''workpad.task_imported''"
| "workpad_event_as_str WorkpadProposalWritten = ''workpad.proposal_written''"

fun recovery_event_as_str :: "recovery_event_kind \<Rightarrow> string" where
  "recovery_event_as_str RecoveryStarted = ''recovery.started''"
| "recovery_event_as_str RecoveryCompleted = ''recovery.completed''"

fun checkpoint_event_as_str :: "checkpoint_event_kind \<Rightarrow> string" where
  "checkpoint_event_as_str CheckpointCreated = ''checkpoint.created''"
| "checkpoint_event_as_str CheckpointRestored = ''checkpoint.restored''"

fun worktree_event_as_str :: "worktree_event_kind \<Rightarrow> string" where
  "worktree_event_as_str WorktreeCreated = ''worktree.created''"
| "worktree_event_as_str WorktreeReconciled = ''worktree.reconciled''"
| "worktree_event_as_str WorktreeTornDown = ''worktree.torn_down''"

fun goal_event_as_str :: "goal_event_kind \<Rightarrow> string" where
  "goal_event_as_str GoalCreated = ''goal.created''"
| "goal_event_as_str GoalUpdated = ''goal.updated''"
| "goal_event_as_str GoalPaused = ''goal.paused''"
| "goal_event_as_str GoalResumed = ''goal.resumed''"
| "goal_event_as_str GoalBlocked = ''goal.blocked''"
| "goal_event_as_str GoalCleared = ''goal.cleared''"
| "goal_event_as_str RequirementStatusChanged = ''goal.requirement_status_changed''"
| "goal_event_as_str GoalReportRecorded = ''goal.report_recorded''"
| "goal_event_as_str ContinuationDecisionRecorded = ''goal.continuation_decision_recorded''"
| "goal_event_as_str DelegatedProviderGoalObserved = ''goal.delegated_provider_observed''"
| "goal_event_as_str GoalAuditDecisionRecorded = ''goal.audit_decision_recorded''"

fun sandbox_event_as_str :: "sandbox_event_kind \<Rightarrow> string" where
  "sandbox_event_as_str SandboxEnforced = ''sandbox.enforced''"
| "sandbox_event_as_str SandboxUnenforced = ''sandbox.unenforced''"
| "sandbox_event_as_str SandboxLaunchRefused = ''sandbox.launch_refused''"

fun runtime_local_event_as_str :: "runtime_local_event_kind \<Rightarrow> string" where
  "runtime_local_event_as_str RuntimeTargetRegistered = ''runtime.target_registered''"
| "runtime_local_event_as_str RuntimeTargetStatusChanged = ''runtime.target_status_changed''"
| "runtime_local_event_as_str RuntimeConnectorEnvScrubbed = ''runtime.connector_env_scrubbed''"

fun remote_process_event_as_str :: "remote_process_event_kind \<Rightarrow> string" where
  "remote_process_event_as_str RuntimeRemoteStartRequested = ''runtime.remote_start_requested''"
| "remote_process_event_as_str RuntimeRemoteTargetResolved = ''runtime.remote_target_resolved''"
| "remote_process_event_as_str RuntimeRemoteProcessStarted = ''runtime.remote_process_started''"
| "remote_process_event_as_str RuntimeRemoteProcessStartFailed = ''runtime.remote_process_start_failed''"
| "remote_process_event_as_str RuntimeRemoteInterruptSent = ''runtime.remote_interrupt_sent''"
| "remote_process_event_as_str RuntimeRemoteTerminateSent = ''runtime.remote_terminate_sent''"
| "remote_process_event_as_str RuntimeRemoteKillSent = ''runtime.remote_kill_sent''"
| "remote_process_event_as_str RuntimeRemoteCleanupCompleted = ''runtime.remote_cleanup_completed''"
| "remote_process_event_as_str RuntimeRemoteControlRevoked = ''runtime.remote_control_revoked''"
| "remote_process_event_as_str RuntimeRemoteRollbackPerformed = ''runtime.remote_rollback_performed''"
| "remote_process_event_as_str RuntimeRemoteOutputDelta = ''runtime.remote_output_delta''"
| "remote_process_event_as_str RuntimeRemoteStdinWritten = ''runtime.remote_stdin_written''"
| "remote_process_event_as_str RuntimeRemoteStreamFinalized = ''runtime.remote_stream_finalized''"

fun remote_recovery_event_as_str :: "remote_recovery_event_kind \<Rightarrow> string" where
  "remote_recovery_event_as_str RuntimeRemoteRecoveryAttempted = ''runtime.remote_recovery_attempted''"
| "remote_recovery_event_as_str RuntimeRemoteRunRecovered = ''runtime.remote_run_recovered''"
| "remote_recovery_event_as_str RuntimeRemoteRunOrphaned = ''runtime.remote_run_orphaned''"
| "remote_recovery_event_as_str RuntimeRemoteRunExited = ''runtime.remote_run_exited''"
| "remote_recovery_event_as_str RuntimeRemoteRecoveryPending = ''runtime.remote_recovery_pending''"
| "remote_recovery_event_as_str RuntimeRemoteWorkspaceMaterialized = ''runtime.remote_workspace_materialized''"
| "remote_recovery_event_as_str RuntimeRemoteWorkspaceReconciled = ''runtime.remote_workspace_reconciled''"
| "remote_recovery_event_as_str RuntimeRemoteWorkspaceTornDown = ''runtime.remote_workspace_torn_down''"
| "remote_recovery_event_as_str RuntimeRemoteWorkspaceMaterializationFailed = ''runtime.remote_workspace_materialization_failed''"

fun as_str :: "event_kind \<Rightarrow> string" where
  "as_str ProjectRegistered = ''project.registered''"
| "as_str AgentRegistered = ''agent.registered''"
| "as_str ReviewFindingRecorded = ''review.finding_recorded''"
| "as_str EvidenceRecorded = ''evidence.recorded''"
| "as_str ServerRequestHandled = ''server.request_handled''"
| "as_str (TaskEvent k) = task_event_as_str k"
| "as_str (SessionEvent k) = session_event_as_str k"
| "as_str (RunEvent k) = run_event_as_str k"
| "as_str (PermissionEvent k) = permission_event_as_str k"
| "as_str (CapabilityEvent k) = capability_event_as_str k"
| "as_str (WorkspaceEvent k) = workspace_event_as_str k"
| "as_str (ConnectivityEvent k) = connectivity_event_as_str k"
| "as_str (AdapterEvent k) = adapter_event_as_str k"
| "as_str (ToolEvent k) = tool_event_as_str k"
| "as_str (MemoryEvent k) = memory_event_as_str k"
| "as_str (WorkpadEvent k) = workpad_event_as_str k"
| "as_str (RecoveryEvent k) = recovery_event_as_str k"
| "as_str (CheckpointEvent k) = checkpoint_event_as_str k"
| "as_str (WorktreeEvent k) = worktree_event_as_str k"
| "as_str (GoalEvent k) = goal_event_as_str k"
| "as_str (SandboxEvent k) = sandbox_event_as_str k"
| "as_str (RuntimeLocalEvent k) = runtime_local_event_as_str k"
| "as_str (RemoteProcessEvent k) = remote_process_event_as_str k"
| "as_str (RemoteRecoveryEvent k) = remote_recovery_event_as_str k"

definition all_event_kinds :: "event_kind list" where
  "all_event_kinds =
    [ProjectRegistered,
     TaskEvent TaskDiscovered,
     AgentRegistered,
     SessionEvent SessionStarted,
     SessionEvent SessionRedirected,
     SessionEvent SessionSummaryUpdated,
     RunEvent RunStarted,
     RunEvent RunExited,
     PermissionEvent PermissionRequested,
     PermissionEvent PermissionDecided,
     PermissionEvent PermissionApprovalQueued,
     CapabilityEvent CapabilityGrantCreated,
     CapabilityEvent CapabilityGrantUsed,
     CapabilityEvent CapabilityGrantRevoked,
     CapabilityEvent CapabilityGrantExpired,
     WorkspaceEvent WorkspaceLeaseAcquired,
     WorkspaceEvent WorkspaceLeaseReleased,
     ConnectivityEvent ConnectivityExposureRequested,
     ConnectivityEvent ConnectivityExposureChanged,
     ConnectivityEvent ConnectivityExposureRevoked,
     ConnectivityEvent ConnectivityHealthChanged,
     ConnectivityEvent ConnectivityPolicyChanged,
     RuntimeLocalEvent RuntimeTargetRegistered,
     RuntimeLocalEvent RuntimeTargetStatusChanged,
     AdapterEvent AdapterReadinessChecked,
     AdapterEvent AdapterSmokeRecorded,
     AdapterEvent AdapterDispatchPlanned,
     AdapterEvent AdapterDispatchGateChecked,
     AdapterEvent AdapterDispatchReplayed,
     AdapterEvent AdapterDispatchExecutionRequested,
     AdapterEvent AdapterDispatchExecuted,
     AdapterEvent AdapterDispatchPromptSourceRecorded,
     AdapterEvent AdapterDispatchPromptMaterialized,
     ToolEvent ToolCallRequested,
     ToolEvent ToolInvocationStarted,
     ToolEvent ToolObservationRecorded,
     ToolEvent ToolOutputArtifactRecorded,
     ToolEvent ToolOutputObserved,
     ToolEvent ToolCallCompleted,
     ToolEvent ToolResultDelivered,
     MemoryEvent MemoryPacketBuilt,
     MemoryEvent MemoryRecordIngested,
     MemoryEvent MemoryRecordInvalidated,
     MemoryEvent MemoryJobRequested,
     MemoryEvent MemoryJobCompleted,
     MemoryEvent MemoryRecordSuperseded,
     MemoryEvent MemoryRecordPromoted,
     TaskEvent TaskOutcomeReportGenerated,
     ReviewFindingRecorded,
     EvidenceRecorded,
     RunEvent RunScored,
     WorkpadEvent WorkpadIndexed,
     WorkpadEvent WorkpadTaskImported,
     WorkpadEvent WorkpadProposalWritten,
     ServerRequestHandled,
     RecoveryEvent RecoveryStarted,
     RecoveryEvent RecoveryCompleted,
     SessionEvent SessionInterrupted,
     SessionEvent SessionStopped,
     CheckpointEvent CheckpointCreated,
     CheckpointEvent CheckpointRestored,
     WorktreeEvent WorktreeCreated,
     WorktreeEvent WorktreeReconciled,
     WorktreeEvent WorktreeTornDown,
     RunEvent RunHardKilled,
     RunEvent RunAborted,
     RunEvent RunOrphaned,
     RunEvent RunRecovered,
     GoalEvent GoalCreated,
     GoalEvent GoalUpdated,
     GoalEvent GoalPaused,
     GoalEvent GoalResumed,
     GoalEvent GoalBlocked,
     GoalEvent GoalCleared,
     GoalEvent RequirementStatusChanged,
     GoalEvent GoalReportRecorded,
     GoalEvent ContinuationDecisionRecorded,
     GoalEvent DelegatedProviderGoalObserved,
     GoalEvent GoalAuditDecisionRecorded,
     AdapterEvent AdapterAttachStarted,
     AdapterEvent AdapterAttachCompleted,
     AdapterEvent AdapterAttachFailed,
     AdapterEvent AdapterReplayStarted,
     AdapterEvent AdapterRawUpdateObserved,
     AdapterEvent AdapterReplayDuplicateDetected,
     AdapterEvent AdapterReplayAmbiguous,
     AdapterEvent AdapterReplayCompleted,
     RemoteProcessEvent RuntimeRemoteStartRequested,
     RemoteProcessEvent RuntimeRemoteTargetResolved,
     RemoteProcessEvent RuntimeRemoteProcessStarted,
     RemoteProcessEvent RuntimeRemoteProcessStartFailed,
     RemoteProcessEvent RuntimeRemoteInterruptSent,
     RemoteProcessEvent RuntimeRemoteTerminateSent,
     RemoteProcessEvent RuntimeRemoteKillSent,
     RemoteProcessEvent RuntimeRemoteCleanupCompleted,
     RemoteRecoveryEvent RuntimeRemoteRecoveryAttempted,
     RemoteRecoveryEvent RuntimeRemoteRunRecovered,
     RemoteRecoveryEvent RuntimeRemoteRunOrphaned,
     RemoteRecoveryEvent RuntimeRemoteRunExited,
     RemoteRecoveryEvent RuntimeRemoteRecoveryPending,
     RemoteRecoveryEvent RuntimeRemoteWorkspaceMaterialized,
     RemoteRecoveryEvent RuntimeRemoteWorkspaceReconciled,
     RemoteRecoveryEvent RuntimeRemoteWorkspaceTornDown,
     RemoteRecoveryEvent RuntimeRemoteWorkspaceMaterializationFailed,
     RemoteProcessEvent RuntimeRemoteOutputDelta,
     RemoteProcessEvent RuntimeRemoteStdinWritten,
     RemoteProcessEvent RuntimeRemoteStreamFinalized,
     SandboxEvent SandboxEnforced,
     SandboxEvent SandboxUnenforced,
     SandboxEvent SandboxLaunchRefused,
     RemoteProcessEvent RuntimeRemoteControlRevoked,
     RemoteProcessEvent RuntimeRemoteRollbackPerformed,
     RuntimeLocalEvent RuntimeConnectorEnvScrubbed]"

definition from_wire :: "string \<Rightarrow> event_kind option" where
  "from_wire kind = find (\<lambda>candidate. as_str candidate = kind) all_event_kinds"

definition is_tool_event :: "event_kind \<Rightarrow> bool" where
  "is_tool_event k =
     (case k of
        ToolEvent t \<Rightarrow>
          (case t of
             ToolCallRequested \<Rightarrow> True
           | ToolInvocationStarted \<Rightarrow> True
           | ToolObservationRecorded \<Rightarrow> True
           | ToolOutputObserved \<Rightarrow> True
           | ToolOutputArtifactRecorded \<Rightarrow> True
           | ToolCallCompleted \<Rightarrow> True
           | ToolResultDelivered \<Rightarrow> True)
      | _ \<Rightarrow> False)"

definition is_summary_event :: "event_kind \<Rightarrow> bool" where
  "is_summary_event k =
     (case k of SessionEvent t \<Rightarrow> (case t of SessionSummaryUpdated \<Rightarrow> True | _ \<Rightarrow> False) | _ \<Rightarrow> False)"

datatype projected_turn_outcome = TurnCompleted | TurnInterrupted | TurnStopped | TurnFailed

definition terminal_turn_outcome :: "event_kind \<Rightarrow> projected_turn_outcome option" where
  "terminal_turn_outcome k =
     (case k of
        EvidenceRecorded \<Rightarrow> Some TurnCompleted
      | SessionEvent t \<Rightarrow>
          (case t of
             SessionInterrupted \<Rightarrow> Some TurnInterrupted
           | SessionStopped \<Rightarrow> Some TurnStopped
           | _ \<Rightarrow> None)
      | RunEvent t \<Rightarrow> (case t of RunExited \<Rightarrow> Some TurnFailed | _ \<Rightarrow> None)
      | _ \<Rightarrow> None)"

section \<open>Redaction states\<close>

datatype redaction_state = Safe | Redacted | Unknown | ContainsSensitive

fun redaction_as_str :: "redaction_state \<Rightarrow> string" where
  "redaction_as_str Safe = ''safe''"
| "redaction_as_str Redacted = ''redacted''"
| "redaction_as_str Unknown = ''unknown''"
| "redaction_as_str ContainsSensitive = ''contains_sensitive''"

definition redaction_from_wire :: "string \<Rightarrow> redaction_state option" where
  "redaction_from_wire value =
     (if value = ''safe'' then Some Safe
      else if value = ''redacted'' then Some Redacted
      else if value = ''unknown'' then Some Unknown
      else if value = ''contains_sensitive'' then Some ContainsSensitive
      else None)"

fun is_persistable_artifact :: "redaction_state \<Rightarrow> bool" where
  "is_persistable_artifact Safe = True"
| "is_persistable_artifact Redacted = True"
| "is_persistable_artifact _ = False"

section \<open>Event, artifact and recovery rows\<close>

record new_event =
  nev_event_id :: string
  nev_kind :: event_kind
  nev_actor :: string
  nev_project_id :: "string option"
  nev_task_id :: "string option"
  nev_agent_id :: "string option"
  nev_session_id :: "string option"
  nev_run_id :: "string option"
  nev_turn_id :: "string option"
  nev_item_id :: "string option"
  nev_payload_json :: string
  nev_idempotency_key :: "string option"
  nev_redaction_state :: redaction_state

definition new_event_new :: "string \<Rightarrow> event_kind \<Rightarrow> string \<Rightarrow> new_event" where
  "new_event_new event_id kind actor =
     \<lparr>nev_event_id = event_id, nev_kind = kind, nev_actor = actor, nev_project_id = None,
      nev_task_id = None, nev_agent_id = None, nev_session_id = None, nev_run_id = None,
      nev_turn_id = None, nev_item_id = None, nev_payload_json = ''{}'',
      nev_idempotency_key = None, nev_redaction_state = Safe\<rparr>"

record event_record =
  ev_sequence :: int
  ev_event_id :: string
  ev_kind :: string
  ev_actor :: string
  ev_project_id :: "string option"
  ev_task_id :: "string option"
  ev_agent_id :: "string option"
  ev_session_id :: "string option"
  ev_run_id :: "string option"
  ev_turn_id :: "string option"
  ev_item_id :: "string option"
  ev_payload_json :: string
  ev_idempotency_key :: "string option"
  ev_redaction_state :: string

text \<open>The row of the \<open>artifacts\<close> table keeps the redaction state as its wire string.\<close>

record artifact_record =
  art_artifact_id :: string
  art_project_id :: "string option"
  art_session_id :: "string option"
  art_run_id :: "string option"
  art_kind :: string
  art_uri :: string
  art_content_hash :: string
  art_size_bytes :: int
  art_redaction_state :: redaction_state

record recovery_attempt =
  rec_recovery_attempt_id :: string
  rec_status :: string
  rec_started_sequence :: int
  rec_completed_sequence :: "int option"

section \<open>The wire names identify the kinds\<close>

lemma find_of_distinct:
  "distinct (map f xs) \<Longrightarrow> x \<in> set xs \<Longrightarrow> find (\<lambda>y. f y = f x) xs = Some x"
  by (induction xs) (auto simp: image_iff)

lemma all_event_kinds_complete: "k \<in> set all_event_kinds"
  by (cases k; simp add: all_event_kinds_def;
      (rename_tac t, case_tac t; simp; fail)?)

lemma wire_names_distinct: "distinct (map as_str all_event_kinds)"
  by (simp add: all_event_kinds_def)

lemma event_kind_from_wire_as_str: "from_wire (as_str k) = Some k"
  by (simp add: from_wire_def find_of_distinct wire_names_distinct all_event_kinds_complete)

lemma event_kind_as_str_inject: "as_str k = as_str l \<longleftrightarrow> k = l"
  using event_kind_from_wire_as_str by (metis option.inject)

lemma redaction_from_wire_as_str: "redaction_from_wire (redaction_as_str s) = Some s"
  by (cases s) (simp_all add: redaction_from_wire_def)

lemma redaction_from_wire_Some: "redaction_from_wire v = Some s \<longleftrightarrow> v = redaction_as_str s"
  by (cases s) (auto simp: redaction_from_wire_def split: if_splits)

end
