(* ===== verification/Projection_Methods.thy ===== *)
theory Projection_Methods
  imports Projections Event_Kinds
begin

text \<open>
  The read-model methods of \<open>capo-state/src/projections.rs\<close> (is this grant active, is this lease
  held, may this memory record enter a packet, is this row observed evidence) and the two restart
  classifications with the observations that carry them.
\<close>

section \<open>Capability grants\<close>

definition is_revoked :: "capability_grant_projection \<Rightarrow> bool" where
  "is_revoked g \<longleftrightarrow> grant_revoked_at g \<noteq> None"

definition is_expired :: "capability_grant_projection \<Rightarrow> string \<Rightarrow> bool" where
  "is_expired g now =
     (case grant_expires_at g of
        Some expires_at \<Rightarrow>
          (case (parse_i64 now, parse_i64 expires_at) of
             (Inr n, Inr e) \<Rightarrow> n \<ge> e
           | _ \<Rightarrow> now \<ge> expires_at)
      | None \<Rightarrow> False)"

definition is_active_allow :: "capability_grant_projection \<Rightarrow> string \<Rightarrow> bool" where
  "is_active_allow g now \<longleftrightarrow> grant_effect g = ''allow'' \<and> \<not> is_revoked g \<and> \<not> is_expired g now"

text \<open>Once a grant that is dated by epoch timestamps has expired, it stays expired.\<close>

lemma is_expired_epoch:
  assumes "grant_expires_at g = Some (int_to_string e)" "i64_ok e" "i64_ok n"
  shows "is_expired g (int_to_string n) \<longleftrightarrow> e \<le> n"
  using assms by (simp add: is_expired_def)

lemma is_expired_mono:
  assumes "grant_expires_at g = Some (int_to_string e)" "i64_ok e" "i64_ok n" "i64_ok m" "n \<le> m"
    and "is_expired g (int_to_string n)"
  shows "is_expired g (int_to_string m)"
  using assms is_expired_epoch [of g e n] is_expired_epoch [of g e m] by simp

section \<open>Workspace leases\<close>

definition LEASE_HELD :: string where "LEASE_HELD = ''held''"
definition LEASE_RELEASED :: string where "LEASE_RELEASED = ''released''"

definition is_held :: "workspace_lease_projection \<Rightarrow> bool" where
  "is_held l \<longleftrightarrow> lease_status l = LEASE_HELD \<and> lease_released_at l = None"

definition is_held_by :: "workspace_lease_projection \<Rightarrow> string \<Rightarrow> bool" where
  "is_held_by l session_id \<longleftrightarrow> is_held l \<and> lease_holder_session_id l = session_id"

section \<open>Memory, checkpoints, worktrees\<close>

definition is_packet_eligible :: "memory_record_projection \<Rightarrow> bool" where
  "is_packet_eligible m \<longleftrightarrow>
     mrec_review_state m = ''reviewed''
     \<and> mrec_invalidated_at m = None
     \<and> mrec_valid_until m = None
     \<and> mrec_revoked_by_memory_record_id m = None
     \<and> mrec_redaction_state m \<noteq> redaction_as_str ContainsSensitive
     \<and> mrec_redaction_state m \<noteq> redaction_as_str Unknown
     \<and> mrec_sensitivity_classification m \<noteq> ''secret_derived''"

definition is_restored :: "checkpoint_projection \<Rightarrow> bool" where
  "is_restored c \<longleftrightarrow> ckpt_restored_at c \<noteq> None"

definition WORKTREE_TORN_DOWN :: string where "WORKTREE_TORN_DOWN = ''torn_down''"

definition is_live :: "worktree_projection \<Rightarrow> bool" where
  "is_live w \<longleftrightarrow> wtree_status w \<noteq> WORKTREE_TORN_DOWN \<and> wtree_torn_down_at w = None"

section \<open>Goals\<close>

definition goal_is_active :: "goal_projection \<Rightarrow> bool" where
  "goal_is_active g \<longleftrightarrow> goal_status g = ''active''"

definition ledger_is_observed_evidence :: "requirement_ledger_projection \<Rightarrow> bool" where
  "ledger_is_observed_evidence r \<longleftrightarrow> source_is_observed_evidence (req_last_status_source r)"

definition report_is_observed_evidence :: "goal_report_projection \<Rightarrow> bool" where
  "report_is_observed_evidence r \<longleftrightarrow> source_is_observed_evidence (grpt_source r)"

definition report_is_agent_reported :: "goal_report_projection \<Rightarrow> bool" where
  "report_is_agent_reported r \<longleftrightarrow> grpt_source r = ''agent_reported''"

definition audit_is_complete :: "goal_audit_decision_projection \<Rightarrow> bool" where
  "audit_is_complete d \<longleftrightarrow> audit_verdict d = ''complete''"

text \<open>A report is never both a claim and observed evidence.\<close>

lemma report_claim_not_observed:
  "report_is_agent_reported r \<Longrightarrow> \<not> report_is_observed_evidence r"
  using agent_report_is_not_observed
  by (simp add: report_is_agent_reported_def report_is_observed_evidence_def
      EVIDENCE_SOURCE_AGENT_REPORTED_def)

section \<open>Restart observations\<close>

datatype run_reap_kind = AliveReaped | AlreadyGone | NoProcess

fun reap_observation_kind :: "run_reap_kind \<Rightarrow> string" where
  "reap_observation_kind AliveReaped = ''alive_reaped''"
| "reap_observation_kind AlreadyGone = ''already_gone''"
| "reap_observation_kind NoProcess = ''no_process''"

record run_reap_observation =
  reap_run_id :: string
  reap_session_id :: string
  reap_previous_status :: string
  reap_kind :: run_reap_kind
  reap_external_pid :: "int option"
  reap_observed_runtime_state_hash :: string

datatype run_recovery_kind = Reattached | Orphaned | Exited

fun recovery_observation_kind :: "run_recovery_kind \<Rightarrow> string" where
  "recovery_observation_kind Reattached = ''reattached''"
| "recovery_observation_kind Orphaned = ''orphaned''"
| "recovery_observation_kind Exited = ''exited''"

fun recovery_run_status :: "run_recovery_kind \<Rightarrow> string" where
  "recovery_run_status Reattached = ''recovered''"
| "recovery_run_status Orphaned = ''recovered''"
| "recovery_run_status Exited = ''recovered''"

record run_recovery_observation =
  rcv_run_id :: string
  rcv_session_id :: string
  rcv_previous_status :: string
  rcv_kind :: run_recovery_kind
  rcv_external_pid :: "int option"
  rcv_runtime_process_ref :: "string option"
  rcv_observed_runtime_state_hash :: string

record in_flight_run =
  ifr_run_id :: string
  ifr_session_id :: string
  ifr_status :: string
  ifr_external_pid :: "int option"
  ifr_boot_id :: "string option"
  ifr_runtime_process_ref :: "string option"

end
