(* ===== verification/Projection_Tables.thy ===== *)
theory Projection_Tables
  imports Codec_Roundtrip Projection_Methods "HOL-Library.AList"
begin

text \<open>
  The read-model tables and \<open>capo-state/src/apply.rs\<close>, which folds projection records into
  them.  A table is the list of its rows in row-id order, keyed by its primary key columns; an
  \<open>INSERT ... ON CONFLICT DO UPDATE\<close> replaces the row in place or appends it.  Every arm of
  \<open>apply_projection_record\<close> sets every column of its table, so the new row is the record with its
  \<open>updated_sequence\<close> set to the sequence of the event.

  The tables are shown to meet the contract of a keyed store (a lookup after an upsert), to be
  well typed after every application, and \<open>apply\<close> is characterised by one equation per outcome.
\<close>

section \<open>Errors\<close>

text \<open>
  \<open>StateError\<close>.  The causes of \<open>Sql\<close> are the ones the modelled statements can have: a
  violated \<open>UNIQUE\<close> or primary key, an exhausted row-id counter, and a row the decoder rejects
  during a rebuild.
  \<open>StatePanic\<close> is not a value of the enum: it stands for the unwinding of a blank typed identifier.
\<close>

datatype sql_error = UniqueViolation string | DatabaseFull | RowConversion string

datatype state_error =
    IoError string
  | Sql sql_error
  | MissingRecoveryAttempt string
  | MissingReadModel string string
  | PermissionApprovalNotPending string string
  | InvalidProjectionJson string string string string
  | UnsafeArtifactRedactionState redaction_state
  | CodexLiveChat string
  | AcpLiveDrive string
  | MemoryRetrieval string
  | UnclassifiableReportSource string
  | StatePanic

section \<open>A keyed store\<close>

locale keyed_store =
  fixes empty :: 's
    and put :: "'k \<Rightarrow> 'v \<Rightarrow> 's \<Rightarrow> 's"
    and look :: "'s \<Rightarrow> 'k \<Rightarrow> 'v option"
  assumes look_empty: "look empty k = None"
    and look_put: "look (put k v s) k' = (if k' = k then Some v else look s k')"
begin

lemma look_fold:
  "look (fold (\<lambda>(k, v). put k v) kvs s) k =
     (case map_of (rev kvs) k of Some v \<Rightarrow> Some v | None \<Rightarrow> look s k)"
proof (induction kvs arbitrary: s)
  case (Cons kv kvs)
  then show ?case
    by (cases kv) (auto simp: look_put map_add_def split: option.splits)
qed simp

lemma look_fold_empty: "look (fold (\<lambda>(k, v). put k v) kvs empty) = map_of (rev kvs)"
  by (rule ext) (simp add: look_fold look_empty split: option.splits)

end

type_synonym table = "(string list \<times> projection_record) list"
type_synonym tables = "string \<Rightarrow> table"

definition upsert :: "string \<Rightarrow> string list \<Rightarrow> projection_record \<Rightarrow> tables \<Rightarrow> tables" where
  "upsert t k row db = db(t := AList.update k row (db t))"

definition delete_where :: "string \<Rightarrow> (projection_record \<Rightarrow> bool) \<Rightarrow> tables \<Rightarrow> tables" where
  "delete_where t P db = db(t := filter (\<lambda>(k, row). \<not> P row) (db t))"

definition lookup :: "tables \<Rightarrow> string \<Rightarrow> string list \<Rightarrow> projection_record option" where
  "lookup db t k = map_of (db t) k"

definition rows :: "tables \<Rightarrow> string \<Rightarrow> projection_record list" where
  "rows db t = map snd (db t)"

definition in_project :: "string \<Rightarrow> projection_record \<Rightarrow> bool" where
  "in_project project_id row =
     (case row of
        WorkpadFile p \<Rightarrow> wfile_project_id p = project_id
      | WorkpadTask p \<Rightarrow> wtask_project_id p = project_id
      | _ \<Rightarrow> False)"

definition validate_projection_json ::
  "serde \<Rightarrow> string \<Rightarrow> string \<Rightarrow> string \<Rightarrow> string \<Rightarrow> (state_error, unit) result" where
  "validate_projection_json sj kind id_text field value =
     (case from_text sj value of
        Inr _ \<Rightarrow> Inr ()
      | Inl error \<Rightarrow> Inl (InvalidProjectionJson kind id_text field error))"

section \<open>apply_projection_record\<close>

definition apply_project :: "int \<Rightarrow> project_projection \<Rightarrow> tables \<Rightarrow> (state_error, tables) result" where
  "apply_project sequence p db =
     Inr (upsert ''projects'' [prj_project_id p] (Project (p\<lparr>prj_updated_sequence := sequence\<rparr>)) db)"

definition apply_task :: "int \<Rightarrow> task_projection \<Rightarrow> tables \<Rightarrow> (state_error, tables) result" where
  "apply_task sequence p db =
     Inr (upsert ''tasks'' [tsk_task_id p] (Task (p\<lparr>tsk_updated_sequence := sequence\<rparr>)) db)"

definition apply_agent :: "int \<Rightarrow> agent_projection \<Rightarrow> tables \<Rightarrow> (state_error, tables) result" where
  "apply_agent sequence p db =
     Inr (upsert ''agents'' [agt_agent_id p] (Agent (p\<lparr>agt_updated_sequence := sequence\<rparr>)) db)"

definition apply_session :: "int \<Rightarrow> session_projection \<Rightarrow> tables \<Rightarrow> (state_error, tables) result" where
  "apply_session sequence p db =
     Inr (upsert ''sessions'' [ses_session_id p] (Session (p\<lparr>ses_updated_sequence := sequence\<rparr>)) db)"

definition apply_run :: "int \<Rightarrow> run_projection \<Rightarrow> tables \<Rightarrow> (state_error, tables) result" where
  "apply_run sequence p db =
     Inr (upsert ''runs'' [run_run_id p] (Run (p\<lparr>run_updated_sequence := sequence\<rparr>)) db)"

definition apply_capability_grant :: "serde \<Rightarrow> int \<Rightarrow> capability_grant_projection \<Rightarrow> tables \<Rightarrow> (state_error, tables) result" where
  "apply_capability_grant sj sequence p db =
     and_then (validate_projection_json sj ''capability_grant'' (grant_capability_grant_id p) ''scope_json'' (grant_scope_json p)) (\<lambda>_.
     and_then (validate_projection_json sj ''capability_grant'' (grant_capability_grant_id p) ''subject_json'' (grant_subject_json p)) (\<lambda>_.
     Inr (upsert ''capability_grants'' [grant_capability_grant_id p] (CapabilityGrant (p\<lparr>grant_updated_sequence := sequence\<rparr>)) db)))"

definition apply_workspace_lease :: "int \<Rightarrow> workspace_lease_projection \<Rightarrow> tables \<Rightarrow> (state_error, tables) result" where
  "apply_workspace_lease sequence p db =
     Inr (upsert ''workspace_leases'' [lease_workspace_lease_id p] (WorkspaceLease (p\<lparr>lease_updated_sequence := sequence\<rparr>)) db)"

definition apply_permission_approval :: "serde \<Rightarrow> int \<Rightarrow> permission_approval_projection \<Rightarrow> tables \<Rightarrow> (state_error, tables) result" where
  "apply_permission_approval sj sequence p db =
     and_then (validate_projection_json sj ''permission_approval'' (appr_approval_id p) ''scope_json'' (appr_scope_json p)) (\<lambda>_.
     and_then (validate_projection_json sj ''permission_approval'' (appr_approval_id p) ''subject_json'' (appr_subject_json p)) (\<lambda>_.
     Inr (upsert ''permission_approvals'' [appr_approval_id p] (PermissionApproval (p\<lparr>appr_updated_sequence := sequence\<rparr>)) db)))"

definition apply_connectivity_exposure :: "int \<Rightarrow> connectivity_exposure_projection \<Rightarrow> tables \<Rightarrow> (state_error, tables) result" where
  "apply_connectivity_exposure sequence p db =
     Inr (upsert ''connectivity_exposures'' [expo_exposure_id p] (ConnectivityExposure (p\<lparr>expo_updated_sequence := sequence\<rparr>)) db)"

definition apply_runtime_target :: "int \<Rightarrow> runtime_target_projection \<Rightarrow> tables \<Rightarrow> (state_error, tables) result" where
  "apply_runtime_target sequence p db =
     Inr (upsert ''runtime_targets'' [rtt_runtime_target_id p] (RuntimeTarget (p\<lparr>rtt_updated_sequence := sequence\<rparr>)) db)"

definition apply_adapter_readiness :: "int \<Rightarrow> adapter_readiness_projection \<Rightarrow> tables \<Rightarrow> (state_error, tables) result" where
  "apply_adapter_readiness sequence p db =
     Inr (upsert ''adapter_readiness'' [ardy_adapter_kind p, ardy_project_id p] (AdapterReadiness (p\<lparr>ardy_updated_sequence := sequence\<rparr>)) db)"

definition apply_adapter_smoke_report :: "int \<Rightarrow> adapter_smoke_report_projection \<Rightarrow> tables \<Rightarrow> (state_error, tables) result" where
  "apply_adapter_smoke_report sequence p db =
     Inr (upsert ''adapter_smoke_reports'' [asmk_smoke_report_id p] (AdapterSmokeReport (p\<lparr>asmk_updated_sequence := sequence\<rparr>)) db)"

definition apply_adapter_dispatch_plan :: "int \<Rightarrow> adapter_dispatch_plan_projection \<Rightarrow> tables \<Rightarrow> (state_error, tables) result" where
  "apply_adapter_dispatch_plan sequence p db =
     Inr (upsert ''adapter_dispatch_plans'' [plan_dispatch_plan_id p] (AdapterDispatchPlan (p\<lparr>plan_updated_sequence := sequence\<rparr>)) db)"

definition apply_adapter_dispatch_gate :: "int \<Rightarrow> adapter_dispatch_gate_projection \<Rightarrow> tables \<Rightarrow> (state_error, tables) result" where
  "apply_adapter_dispatch_gate sequence p db =
     Inr (upsert ''adapter_dispatch_gates'' [gate_dispatch_gate_id p] (AdapterDispatchGate (p\<lparr>gate_updated_sequence := sequence\<rparr>)) db)"

definition apply_adapter_dispatch_replay :: "int \<Rightarrow> adapter_dispatch_replay_projection \<Rightarrow> tables \<Rightarrow> (state_error, tables) result" where
  "apply_adapter_dispatch_replay sequence p db =
     Inr (upsert ''adapter_dispatch_replays'' [rply_dispatch_replay_id p] (AdapterDispatchReplay (p\<lparr>rply_updated_sequence := sequence\<rparr>)) db)"

definition apply_adapter_dispatch_execution_request :: "int \<Rightarrow> adapter_dispatch_execution_request_projection \<Rightarrow> tables \<Rightarrow> (state_error, tables) result" where
  "apply_adapter_dispatch_execution_request sequence p db =
     Inr (upsert ''adapter_dispatch_execution_requests'' [xreq_execution_request_id p] (AdapterDispatchExecutionRequest (p\<lparr>xreq_updated_sequence := sequence\<rparr>)) db)"

definition apply_adapter_dispatch_execution :: "int \<Rightarrow> adapter_dispatch_execution_projection \<Rightarrow> tables \<Rightarrow> (state_error, tables) result" where
  "apply_adapter_dispatch_execution sequence p db =
     Inr (upsert ''adapter_dispatch_executions'' [exec_dispatch_execution_id p] (AdapterDispatchExecution (p\<lparr>exec_updated_sequence := sequence\<rparr>)) db)"

definition apply_adapter_dispatch_prompt_source :: "int \<Rightarrow> adapter_dispatch_prompt_source_projection \<Rightarrow> tables \<Rightarrow> (state_error, tables) result" where
  "apply_adapter_dispatch_prompt_source sequence p db =
     Inr (upsert ''adapter_dispatch_prompt_sources'' [psrc_prompt_source_id p] (AdapterDispatchPromptSource (p\<lparr>psrc_updated_sequence := sequence\<rparr>)) db)"

definition apply_adapter_dispatch_prompt_materialization :: "int \<Rightarrow> adapter_dispatch_prompt_materialization_projection \<Rightarrow> tables \<Rightarrow> (state_error, tables) result" where
  "apply_adapter_dispatch_prompt_materialization sequence p db =
     Inr (upsert ''adapter_dispatch_prompt_materializations'' [pmat_materialization_id p] (AdapterDispatchPromptMaterialization (p\<lparr>pmat_updated_sequence := sequence\<rparr>)) db)"

definition apply_tool_call :: "int \<Rightarrow> tool_call_projection \<Rightarrow> tables \<Rightarrow> (state_error, tables) result" where
  "apply_tool_call sequence p db =
     Inr (upsert ''tool_calls'' [call_tool_call_id p] (ToolCall (p\<lparr>call_updated_sequence := sequence\<rparr>)) db)"

definition apply_tool_observation :: "int \<Rightarrow> tool_observation_projection \<Rightarrow> tables \<Rightarrow> (state_error, tables) result" where
  "apply_tool_observation sequence p db =
     Inr (upsert ''tool_observations'' [obs_tool_observation_id p] (ToolObservation (p\<lparr>obs_updated_sequence := sequence\<rparr>)) db)"

definition apply_memory_packet_ref :: "int \<Rightarrow> memory_packet_projection \<Rightarrow> tables \<Rightarrow> (state_error, tables) result" where
  "apply_memory_packet_ref sequence p db =
     Inr (upsert ''memory_packet_refs'' [mpkt_memory_packet_id p] (MemoryPacketRef (p\<lparr>mpkt_updated_sequence := sequence\<rparr>)) db)"

definition apply_memory_record :: "int \<Rightarrow> memory_record_projection \<Rightarrow> tables \<Rightarrow> (state_error, tables) result" where
  "apply_memory_record sequence p db =
     Inr (upsert ''memory_records'' [mrec_memory_record_id p] (MemoryRecord (p\<lparr>mrec_updated_sequence := sequence\<rparr>)) db)"

definition apply_memory_source :: "int \<Rightarrow> memory_source_projection \<Rightarrow> tables \<Rightarrow> (state_error, tables) result" where
  "apply_memory_source sequence p db =
     Inr (upsert ''memory_sources'' [msrc_memory_source_id p] (MemorySource (p\<lparr>msrc_updated_sequence := sequence\<rparr>)) db)"

definition apply_evidence :: "int \<Rightarrow> evidence_projection \<Rightarrow> tables \<Rightarrow> (state_error, tables) result" where
  "apply_evidence sequence p db =
     Inr (upsert ''evidence'' [evid_evidence_id p] (Evidence (p\<lparr>evid_updated_sequence := sequence\<rparr>)) db)"

definition apply_run_score :: "serde \<Rightarrow> int \<Rightarrow> run_score_projection \<Rightarrow> tables \<Rightarrow> (state_error, tables) result" where
  "apply_run_score sj sequence p db =
     and_then (validate_projection_json sj ''run_score'' (score_run_score_id p) ''score_inputs_json'' (score_score_inputs_json p)) (\<lambda>_.
     Inr (upsert ''run_scores'' [score_run_score_id p] (RunScore (p\<lparr>score_updated_sequence := sequence\<rparr>)) db))"

definition apply_checkpoint :: "int \<Rightarrow> checkpoint_projection \<Rightarrow> tables \<Rightarrow> (state_error, tables) result" where
  "apply_checkpoint sequence p db =
     Inr (upsert ''checkpoints'' [ckpt_checkpoint_id p] (Checkpoint (p\<lparr>ckpt_updated_sequence := sequence\<rparr>)) db)"

definition apply_worktree :: "int \<Rightarrow> worktree_projection \<Rightarrow> tables \<Rightarrow> (state_error, tables) result" where
  "apply_worktree sequence p db =
     Inr (upsert ''session_worktrees'' [wtree_worktree_id p] (Worktree (p\<lparr>wtree_updated_sequence := sequence\<rparr>)) db)"

definition apply_task_outcome_report :: "int \<Rightarrow> task_outcome_report_projection \<Rightarrow> tables \<Rightarrow> (state_error, tables) result" where
  "apply_task_outcome_report sequence p db =
     Inr (upsert ''task_outcome_reports'' [tout_task_outcome_report_id p] (TaskOutcomeReport (p\<lparr>tout_updated_sequence := sequence\<rparr>)) db)"

definition apply_review_finding :: "int \<Rightarrow> review_finding_projection \<Rightarrow> tables \<Rightarrow> (state_error, tables) result" where
  "apply_review_finding sequence p db =
     Inr (upsert ''review_findings'' [find_review_finding_id p] (ReviewFinding (p\<lparr>find_updated_sequence := sequence\<rparr>)) db)"

definition apply_source_binding :: "int \<Rightarrow> source_binding_projection \<Rightarrow> tables \<Rightarrow> (state_error, tables) result" where
  "apply_source_binding sequence p db =
     Inr (upsert ''source_bindings'' [bind_source_binding_id p] (SourceBinding (p\<lparr>bind_updated_sequence := sequence\<rparr>)) db)"

definition apply_workpad_index_reset :: "int \<Rightarrow> workpad_index_reset_projection \<Rightarrow> tables \<Rightarrow> (state_error, tables) result" where
  "apply_workpad_index_reset sequence p db =
     Inr (delete_where ''workpad_tasks'' (in_project (wreset_project_id p))
           (delete_where ''workpad_files'' (in_project (wreset_project_id p)) db))"

definition apply_workpad_file :: "int \<Rightarrow> workpad_file_projection \<Rightarrow> tables \<Rightarrow> (state_error, tables) result" where
  "apply_workpad_file sequence p db =
     Inr (upsert ''workpad_files'' [wfile_path p] (WorkpadFile (p\<lparr>wfile_updated_sequence := sequence\<rparr>)) db)"

definition apply_workpad_task :: "int \<Rightarrow> workpad_task_projection \<Rightarrow> tables \<Rightarrow> (state_error, tables) result" where
  "apply_workpad_task sequence p db =
     Inr (upsert ''workpad_tasks'' [wtask_workpad_task_id p] (WorkpadTask (p\<lparr>wtask_updated_sequence := sequence\<rparr>)) db)"

definition apply_goal :: "serde \<Rightarrow> int \<Rightarrow> goal_projection \<Rightarrow> tables \<Rightarrow> (state_error, tables) result" where
  "apply_goal sj sequence p db =
     and_then (validate_projection_json sj ''goal'' (goal_goal_id p) ''success_criteria_json'' (goal_success_criteria_json p)) (\<lambda>_.
     and_then (validate_projection_json sj ''goal'' (goal_goal_id p) ''constraints_json'' (goal_constraints_json p)) (\<lambda>_.
     and_then (validate_projection_json sj ''goal'' (goal_goal_id p) ''verification_surface_json'' (goal_verification_surface_json p)) (\<lambda>_.
     and_then (validate_projection_json sj ''goal'' (goal_goal_id p) ''budget_json'' (goal_budget_json p)) (\<lambda>_.
     and_then (validate_projection_json sj ''goal'' (goal_goal_id p) ''stop_conditions_json'' (goal_stop_conditions_json p)) (\<lambda>_.
     Inr (upsert ''goals'' [goal_goal_id p] (Goal (p\<lparr>goal_updated_sequence := sequence\<rparr>)) db))))))"

definition apply_requirement_ledger :: "int \<Rightarrow> requirement_ledger_projection \<Rightarrow> tables \<Rightarrow> (state_error, tables) result" where
  "apply_requirement_ledger sequence p db =
     Inr (upsert ''requirement_ledgers'' [req_requirement_id p] (RequirementLedger (p\<lparr>req_updated_sequence := sequence\<rparr>)) db)"

definition apply_goal_report :: "int \<Rightarrow> goal_report_projection \<Rightarrow> tables \<Rightarrow> (state_error, tables) result" where
  "apply_goal_report sequence p db =
     Inr (upsert ''goal_reports'' [grpt_goal_report_id p] (GoalReport (p\<lparr>grpt_updated_sequence := sequence\<rparr>)) db)"

definition apply_goal_continuation :: "int \<Rightarrow> goal_continuation_projection \<Rightarrow> tables \<Rightarrow> (state_error, tables) result" where
  "apply_goal_continuation sequence p db =
     Inr (upsert ''goal_continuations'' [cont_continuation_id p] (GoalContinuation (p\<lparr>cont_updated_sequence := sequence\<rparr>)) db)"

definition apply_delegated_provider_goal :: "int \<Rightarrow> delegated_provider_goal_projection \<Rightarrow> tables \<Rightarrow> (state_error, tables) result" where
  "apply_delegated_provider_goal sequence p db =
     Inr (upsert ''delegated_provider_goals'' [dpg_delegated_goal_id p] (DelegatedProviderGoal (p\<lparr>dpg_updated_sequence := sequence\<rparr>)) db)"

definition apply_goal_audit_decision :: "int \<Rightarrow> goal_audit_decision_projection \<Rightarrow> tables \<Rightarrow> (state_error, tables) result" where
  "apply_goal_audit_decision sequence p db =
     Inr (upsert ''goal_audit_decisions'' [audit_audit_id p] (GoalAuditDecision (p\<lparr>audit_updated_sequence := sequence\<rparr>)) db)"

definition apply_adapter_replay_batch :: "int \<Rightarrow> adapter_replay_batch_projection \<Rightarrow> tables \<Rightarrow> (state_error, tables) result" where
  "apply_adapter_replay_batch sequence p db =
     Inr (upsert ''adapter_replay_batches'' [batch_acp_replay_batch_id p] (AdapterReplayBatch (p\<lparr>batch_updated_sequence := sequence\<rparr>)) db)"

definition apply_adapter_raw_update :: "int \<Rightarrow> adapter_raw_update_projection \<Rightarrow> tables \<Rightarrow> (state_error, tables) result" where
  "apply_adapter_raw_update sequence p db =
     Inr (upsert ''adapter_raw_updates'' [raw_acp_raw_update_id p] (AdapterRawUpdate (p\<lparr>raw_updated_sequence := sequence\<rparr>)) db)"

definition apply_adapter_timeline_key :: "int \<Rightarrow> adapter_timeline_key_projection \<Rightarrow> tables \<Rightarrow> (state_error, tables) result" where
  "apply_adapter_timeline_key sequence p db =
     Inr (upsert ''adapter_timeline_keys'' [tkey_adapter_timeline_key_id p] (AdapterTimelineKey (p\<lparr>tkey_updated_sequence := sequence\<rparr>)) db)"

fun apply_projection_record :: "serde \<Rightarrow> int \<Rightarrow> projection_record \<Rightarrow> tables \<Rightarrow> (state_error, tables) result" where
  "apply_projection_record sj n (Project p) db = apply_project n p db"
| "apply_projection_record sj n (Task p) db = apply_task n p db"
| "apply_projection_record sj n (Agent p) db = apply_agent n p db"
| "apply_projection_record sj n (Session p) db = apply_session n p db"
| "apply_projection_record sj n (Run p) db = apply_run n p db"
| "apply_projection_record sj n (CapabilityGrant p) db = apply_capability_grant sj n p db"
| "apply_projection_record sj n (WorkspaceLease p) db = apply_workspace_lease n p db"
| "apply_projection_record sj n (PermissionApproval p) db = apply_permission_approval sj n p db"
| "apply_projection_record sj n (ConnectivityExposure p) db = apply_connectivity_exposure n p db"
| "apply_projection_record sj n (RuntimeTarget p) db = apply_runtime_target n p db"
| "apply_projection_record sj n (AdapterReadiness p) db = apply_adapter_readiness n p db"
| "apply_projection_record sj n (AdapterSmokeReport p) db = apply_adapter_smoke_report n p db"
| "apply_projection_record sj n (AdapterDispatchPlan p) db = apply_adapter_dispatch_plan n p db"
| "apply_projection_record sj n (AdapterDispatchGate p) db = apply_adapter_dispatch_gate n p db"
| "apply_projection_record sj n (AdapterDispatchReplay p) db = apply_adapter_dispatch_replay n p db"
| "apply_projection_record sj n (AdapterDispatchExecutionRequest p) db = apply_adapter_dispatch_execution_request n p db"
| "apply_projection_record sj n (AdapterDispatchExecution p) db = apply_adapter_dispatch_execution n p db"
| "apply_projection_record sj n (AdapterDispatchPromptSource p) db = apply_adapter_dispatch_prompt_source n p db"
| "apply_projection_record sj n (AdapterDispatchPromptMaterialization p) db = apply_adapter_dispatch_prompt_materialization n p db"
| "apply_projection_record sj n (ToolCall p) db = apply_tool_call n p db"
| "apply_projection_record sj n (ToolObservation p) db = apply_tool_observation n p db"
| "apply_projection_record sj n (MemoryPacketRef p) db = apply_memory_packet_ref n p db"
| "apply_projection_record sj n (MemoryRecord p) db = apply_memory_record n p db"
| "apply_projection_record sj n (MemorySource p) db = apply_memory_source n p db"
| "apply_projection_record sj n (TaskOutcomeReport p) db = apply_task_outcome_report n p db"
| "apply_projection_record sj n (ReviewFinding p) db = apply_review_finding n p db"
| "apply_projection_record sj n (Evidence p) db = apply_evidence n p db"
| "apply_projection_record sj n (RunScore p) db = apply_run_score sj n p db"
| "apply_projection_record sj n (Checkpoint p) db = apply_checkpoint n p db"
| "apply_projection_record sj n (Worktree p) db = apply_worktree n p db"
| "apply_projection_record sj n (SourceBinding p) db = apply_source_binding n p db"
| "apply_projection_record sj n (WorkpadIndexReset p) db = apply_workpad_index_reset n p db"
| "apply_projection_record sj n (WorkpadFile p) db = apply_workpad_file n p db"
| "apply_projection_record sj n (WorkpadTask p) db = apply_workpad_task n p db"
| "apply_projection_record sj n (Goal p) db = apply_goal sj n p db"
| "apply_projection_record sj n (RequirementLedger p) db = apply_requirement_ledger n p db"
| "apply_projection_record sj n (GoalReport p) db = apply_goal_report n p db"
| "apply_projection_record sj n (GoalContinuation p) db = apply_goal_continuation n p db"
| "apply_projection_record sj n (DelegatedProviderGoal p) db = apply_delegated_provider_goal n p db"
| "apply_projection_record sj n (GoalAuditDecision p) db = apply_goal_audit_decision n p db"
| "apply_projection_record sj n (AdapterReplayBatch p) db = apply_adapter_replay_batch n p db"
| "apply_projection_record sj n (AdapterRawUpdate p) db = apply_adapter_raw_update n p db"
| "apply_projection_record sj n (AdapterTimelineKey p) db = apply_adapter_timeline_key n p db"


section \<open>Where a record goes\<close>

fun table_of :: "projection_record \<Rightarrow> string" where
  "table_of (Project p) = ''projects''"
| "table_of (Task p) = ''tasks''"
| "table_of (Agent p) = ''agents''"
| "table_of (Session p) = ''sessions''"
| "table_of (Run p) = ''runs''"
| "table_of (CapabilityGrant p) = ''capability_grants''"
| "table_of (WorkspaceLease p) = ''workspace_leases''"
| "table_of (PermissionApproval p) = ''permission_approvals''"
| "table_of (ConnectivityExposure p) = ''connectivity_exposures''"
| "table_of (RuntimeTarget p) = ''runtime_targets''"
| "table_of (AdapterReadiness p) = ''adapter_readiness''"
| "table_of (AdapterSmokeReport p) = ''adapter_smoke_reports''"
| "table_of (AdapterDispatchPlan p) = ''adapter_dispatch_plans''"
| "table_of (AdapterDispatchGate p) = ''adapter_dispatch_gates''"
| "table_of (AdapterDispatchReplay p) = ''adapter_dispatch_replays''"
| "table_of (AdapterDispatchExecutionRequest p) = ''adapter_dispatch_execution_requests''"
| "table_of (AdapterDispatchExecution p) = ''adapter_dispatch_executions''"
| "table_of (AdapterDispatchPromptSource p) = ''adapter_dispatch_prompt_sources''"
| "table_of (AdapterDispatchPromptMaterialization p) = ''adapter_dispatch_prompt_materializations''"
| "table_of (ToolCall p) = ''tool_calls''"
| "table_of (ToolObservation p) = ''tool_observations''"
| "table_of (MemoryPacketRef p) = ''memory_packet_refs''"
| "table_of (MemoryRecord p) = ''memory_records''"
| "table_of (MemorySource p) = ''memory_sources''"
| "table_of (TaskOutcomeReport p) = ''task_outcome_reports''"
| "table_of (ReviewFinding p) = ''review_findings''"
| "table_of (Evidence p) = ''evidence''"
| "table_of (RunScore p) = ''run_scores''"
| "table_of (Checkpoint p) = ''checkpoints''"
| "table_of (Worktree p) = ''session_worktrees''"
| "table_of (SourceBinding p) = ''source_bindings''"
| "table_of (WorkpadIndexReset p) = ''''"
| "table_of (WorkpadFile p) = ''workpad_files''"
| "table_of (WorkpadTask p) = ''workpad_tasks''"
| "table_of (Goal p) = ''goals''"
| "table_of (RequirementLedger p) = ''requirement_ledgers''"
| "table_of (GoalReport p) = ''goal_reports''"
| "table_of (GoalContinuation p) = ''goal_continuations''"
| "table_of (DelegatedProviderGoal p) = ''delegated_provider_goals''"
| "table_of (GoalAuditDecision p) = ''goal_audit_decisions''"
| "table_of (AdapterReplayBatch p) = ''adapter_replay_batches''"
| "table_of (AdapterRawUpdate p) = ''adapter_raw_updates''"
| "table_of (AdapterTimelineKey p) = ''adapter_timeline_keys''"

fun key_of :: "projection_record \<Rightarrow> string list" where
  "key_of (Project p) = [prj_project_id p]"
| "key_of (Task p) = [tsk_task_id p]"
| "key_of (Agent p) = [agt_agent_id p]"
| "key_of (Session p) = [ses_session_id p]"
| "key_of (Run p) = [run_run_id p]"
| "key_of (CapabilityGrant p) = [grant_capability_grant_id p]"
| "key_of (WorkspaceLease p) = [lease_workspace_lease_id p]"
| "key_of (PermissionApproval p) = [appr_approval_id p]"
| "key_of (ConnectivityExposure p) = [expo_exposure_id p]"
| "key_of (RuntimeTarget p) = [rtt_runtime_target_id p]"
| "key_of (AdapterReadiness p) = [ardy_adapter_kind p, ardy_project_id p]"
| "key_of (AdapterSmokeReport p) = [asmk_smoke_report_id p]"
| "key_of (AdapterDispatchPlan p) = [plan_dispatch_plan_id p]"
| "key_of (AdapterDispatchGate p) = [gate_dispatch_gate_id p]"
| "key_of (AdapterDispatchReplay p) = [rply_dispatch_replay_id p]"
| "key_of (AdapterDispatchExecutionRequest p) = [xreq_execution_request_id p]"
| "key_of (AdapterDispatchExecution p) = [exec_dispatch_execution_id p]"
| "key_of (AdapterDispatchPromptSource p) = [psrc_prompt_source_id p]"
| "key_of (AdapterDispatchPromptMaterialization p) = [pmat_materialization_id p]"
| "key_of (ToolCall p) = [call_tool_call_id p]"
| "key_of (ToolObservation p) = [obs_tool_observation_id p]"
| "key_of (MemoryPacketRef p) = [mpkt_memory_packet_id p]"
| "key_of (MemoryRecord p) = [mrec_memory_record_id p]"
| "key_of (MemorySource p) = [msrc_memory_source_id p]"
| "key_of (TaskOutcomeReport p) = [tout_task_outcome_report_id p]"
| "key_of (ReviewFinding p) = [find_review_finding_id p]"
| "key_of (Evidence p) = [evid_evidence_id p]"
| "key_of (RunScore p) = [score_run_score_id p]"
| "key_of (Checkpoint p) = [ckpt_checkpoint_id p]"
| "key_of (Worktree p) = [wtree_worktree_id p]"
| "key_of (SourceBinding p) = [bind_source_binding_id p]"
| "key_of (WorkpadIndexReset p) = []"
| "key_of (WorkpadFile p) = [wfile_path p]"
| "key_of (WorkpadTask p) = [wtask_workpad_task_id p]"
| "key_of (Goal p) = [goal_goal_id p]"
| "key_of (RequirementLedger p) = [req_requirement_id p]"
| "key_of (GoalReport p) = [grpt_goal_report_id p]"
| "key_of (GoalContinuation p) = [cont_continuation_id p]"
| "key_of (DelegatedProviderGoal p) = [dpg_delegated_goal_id p]"
| "key_of (GoalAuditDecision p) = [audit_audit_id p]"
| "key_of (AdapterReplayBatch p) = [batch_acp_replay_batch_id p]"
| "key_of (AdapterRawUpdate p) = [raw_acp_raw_update_id p]"
| "key_of (AdapterTimelineKey p) = [tkey_adapter_timeline_key_id p]"

fun is_reset :: "projection_record \<Rightarrow> bool" where
  "is_reset (WorkpadIndexReset p) = True"
| "is_reset _ = False"

text \<open>The records whose JSON columns are checked before the row is written.\<close>

definition is_json :: "serde \<Rightarrow> string \<Rightarrow> bool" where
  "is_json sj s = (case from_text sj s of Inr _ \<Rightarrow> True | Inl _ \<Rightarrow> False)"

definition json_columns_ok :: "serde \<Rightarrow> projection_record \<Rightarrow> bool" where
  "json_columns_ok sj r =
     (case r of
        CapabilityGrant p \<Rightarrow> is_json sj (grant_scope_json p) \<and> is_json sj (grant_subject_json p)
      | PermissionApproval p \<Rightarrow> is_json sj (appr_scope_json p) \<and> is_json sj (appr_subject_json p)
      | RunScore p \<Rightarrow> is_json sj (score_score_inputs_json p)
      | Goal p \<Rightarrow> is_json sj (goal_success_criteria_json p) \<and> is_json sj (goal_constraints_json p)
          \<and> is_json sj (goal_verification_surface_json p) \<and> is_json sj (goal_budget_json p)
          \<and> is_json sj (goal_stop_conditions_json p)
      | _ \<Rightarrow> True)"

definition row_effect :: "int \<Rightarrow> projection_record \<Rightarrow> tables \<Rightarrow> tables" where
  "row_effect n r db =
     (case r of
        WorkpadIndexReset p \<Rightarrow>
          delete_where ''workpad_tasks'' (in_project (wreset_project_id p))
            (delete_where ''workpad_files'' (in_project (wreset_project_id p)) db)
      | _ \<Rightarrow> upsert (table_of r) (key_of r) (with_sequence n r) db)"

lemma validate_ok [simp]:
  "validate_projection_json sj k i f v = Inr u \<longleftrightarrow> is_json sj v"
  by (simp add: validate_projection_json_def is_json_def split: sum.splits)

lemma validate_and_then:
  "and_then (validate_projection_json sj k i f v) g =
     (case from_text sj v of Inr _ \<Rightarrow> g () | Inl e \<Rightarrow> Inl (InvalidProjectionJson k i f e))"
  by (simp add: validate_projection_json_def split: sum.splits)

lemmas apply_defs =
  apply_project_def
  apply_task_def
  apply_agent_def
  apply_session_def
  apply_run_def
  apply_capability_grant_def
  apply_workspace_lease_def
  apply_permission_approval_def
  apply_connectivity_exposure_def
  apply_runtime_target_def
  apply_adapter_readiness_def
  apply_adapter_smoke_report_def
  apply_adapter_dispatch_plan_def
  apply_adapter_dispatch_gate_def
  apply_adapter_dispatch_replay_def
  apply_adapter_dispatch_execution_request_def
  apply_adapter_dispatch_execution_def
  apply_adapter_dispatch_prompt_source_def
  apply_adapter_dispatch_prompt_materialization_def
  apply_tool_call_def
  apply_tool_observation_def
  apply_memory_packet_ref_def
  apply_memory_record_def
  apply_memory_source_def
  apply_task_outcome_report_def
  apply_review_finding_def
  apply_evidence_def
  apply_run_score_def
  apply_checkpoint_def
  apply_worktree_def
  apply_source_binding_def
  apply_workpad_index_reset_def
  apply_workpad_file_def
  apply_workpad_task_def
  apply_goal_def
  apply_requirement_ledger_def
  apply_goal_report_def
  apply_goal_continuation_def
  apply_delegated_provider_goal_def
  apply_goal_audit_decision_def
  apply_adapter_replay_batch_def
  apply_adapter_raw_update_def
  apply_adapter_timeline_key_def

lemma apply_Inr_iff:
  "apply_projection_record sj n r db = Inr db' \<longleftrightarrow> json_columns_ok sj r \<and> db' = row_effect n r db"
  by (cases r) (auto simp: apply_defs json_columns_ok_def row_effect_def and_then_Inr_iff)

lemma apply_ok: "json_columns_ok sj r \<Longrightarrow> apply_projection_record sj n r db = Inr (row_effect n r db)"
  by (simp add: apply_Inr_iff)

lemma apply_Inl:
  assumes "apply_projection_record sj n r db = Inl e"
  shows "\<exists>k i f t. e = InvalidProjectionJson k i f t"
  using assms
  by (cases r) (auto simp: apply_defs validate_and_then split: sum.splits)

lemma apply_error_indep:
  assumes "apply_projection_record sj n r db = Inl e"
  shows "apply_projection_record sj m r db2 = Inl e"
  using assms
  by (cases r) (auto simp: apply_defs validate_and_then split: sum.splits)

section \<open>Clearing\<close>

text \<open>
  The tables \<open>clear_projection_tables\<close> empties; the last entry of the source's list, the
  watermarks, is a field of its own in the store.
\<close>

definition projection_table_names :: "string list" where
  "projection_table_names =
    [''projects'',
     ''tasks'',
     ''agents'',
     ''sessions'',
     ''runs'',
     ''capability_grants'',
     ''workspace_leases'',
     ''permission_approvals'',
     ''connectivity_exposures'',
     ''runtime_targets'',
     ''adapter_readiness'',
     ''adapter_smoke_reports'',
     ''adapter_dispatch_plans'',
     ''adapter_dispatch_gates'',
     ''adapter_dispatch_replays'',
     ''adapter_dispatch_execution_requests'',
     ''adapter_dispatch_executions'',
     ''adapter_dispatch_prompt_sources'',
     ''adapter_dispatch_prompt_materializations'',
     ''tool_calls'',
     ''tool_observations'',
     ''memory_packet_refs'',
     ''memory_records'',
     ''memory_sources'',
     ''evidence'',
     ''run_scores'',
     ''checkpoints'',
     ''session_worktrees'',
     ''task_outcome_reports'',
     ''review_findings'',
     ''source_bindings'',
     ''workpad_files'',
     ''workpad_tasks'',
     ''goals'',
     ''requirement_ledgers'',
     ''goal_reports'',
     ''goal_continuations'',
     ''delegated_provider_goals'',
     ''goal_audit_decisions'',
     ''adapter_replay_batches'',
     ''adapter_raw_updates'',
     ''adapter_timeline_keys'']"

definition clear_tables :: "tables \<Rightarrow> tables" where
  "clear_tables db = fold (\<lambda>t d. d(t := [])) projection_table_names db"

lemma clear_tables_apply: "clear_tables db t = (if t \<in> set projection_table_names then [] else db t)"
proof -
  have "fold (\<lambda>t d. d(t := [])) ts db t = (if t \<in> set ts then [] else db t)" for ts :: "string list"
    by (induction ts arbitrary: db) auto
  then show ?thesis by (simp only: clear_tables_def)
qed

lemma table_of_listed: "\<not> is_reset r \<Longrightarrow> table_of r \<in> set projection_table_names"
  by (cases r) (simp_all add: projection_table_names_def)

section \<open>The tables are a keyed store\<close>

lemma lookup_upsert:
  "lookup (upsert t k v db) t' k' = (if t' = t \<and> k' = k then Some v else lookup db t' k')"
  by (simp add: lookup_def upsert_def update_conv')

interpretation dbs: keyed_store
    "\<lambda>_. []" "\<lambda>tk. upsert (fst tk) (snd tk)" "\<lambda>db tk. lookup db (fst tk) (snd tk)"
  by unfold_locales (simp add: lookup_def, simp add: lookup_upsert prod_eq_iff)

lemma with_sequence_place [simp]:
  "table_of (with_sequence n r) = table_of r" "key_of (with_sequence n r) = key_of r"
  "is_reset (with_sequence n r) = is_reset r"
  by (cases r; simp)+

lemma row_effect_upsert:
  "\<not> is_reset r \<Longrightarrow> row_effect n r db = upsert (table_of r) (key_of r) (with_sequence n r) db"
  by (cases r) (simp_all add: row_effect_def)

lemma row_effect_cong: "row_effect n (with_sequence m r) db = row_effect n r db"
  by (cases r) (simp_all add: row_effect_def)

lemma json_columns_ok_sequence [simp]: "json_columns_ok sj (with_sequence m r) = json_columns_ok sj r"
  by (cases r) (simp_all add: json_columns_ok_def)

section \<open>Well-typed tables\<close>

definition row_ok :: "string \<Rightarrow> string list \<Rightarrow> projection_record \<Rightarrow> bool" where
  "row_ok t k r \<longleftrightarrow> \<not> is_reset r \<and> table_of r = t \<and> key_of r = k"

definition typed_tables :: "tables \<Rightarrow> bool" where
  "typed_tables db \<longleftrightarrow>
     (\<forall>t. distinct (map fst (db t)) \<and> list_all (\<lambda>(k, r). row_ok t k r) (db t))"

lemma set_update_subset: "set (AList.update k v al) \<subseteq> insert (k, v) (set al)"
  by (induction al) auto

lemma typed_tables_empty [wf_simps]: "typed_tables (\<lambda>_. [])"
  by (simp add: typed_tables_def)

lemma typed_tables_upsert:
  assumes "typed_tables db" "row_ok t k r"
  shows "typed_tables (upsert t k r db)"
proof -
  have "list_all (\<lambda>(k, r). row_ok t k r) (AList.update k r (db t))"
    using assms set_update_subset [of k r "db t"]
    by (auto simp: typed_tables_def list_all_iff)
  with assms show ?thesis by (auto simp: typed_tables_def upsert_def distinct_update)
qed

lemma typed_tables_delete:
  "typed_tables db \<Longrightarrow> typed_tables (delete_where t P db)"
  by (auto simp: typed_tables_def delete_where_def list_all_iff distinct_map_filter)

lemma typed_tables_row_effect: "typed_tables db \<Longrightarrow> typed_tables (row_effect n r db)"
proof (cases "is_reset r")
  case True
  then obtain p where "r = WorkpadIndexReset p" by (cases r) simp_all
  then show "typed_tables db \<Longrightarrow> ?thesis"
    by (simp add: row_effect_def typed_tables_delete)
next
  case False
  then show "typed_tables db \<Longrightarrow> ?thesis"
    by (simp add: row_effect_upsert typed_tables_upsert row_ok_def)
qed

lemma typed_lookup:
  assumes "typed_tables db" "lookup db t k = Some r"
  shows "row_ok t k r"
proof -
  have "(k, r) \<in> set (db t)"
    using assms(2) by (simp add: lookup_def map_of_SomeD)
  moreover have "list_all (\<lambda>(k, r). row_ok t k r) (db t)"
    using assms(1) by (simp add: typed_tables_def)
  ultimately show ?thesis by (auto simp: list_all_iff)
qed

end
