(* ===== verification/Broadcast.thy ===== *)
theory Broadcast
  imports Event_Kinds
begin

text \<open>
  \<open>capo-state/src/broadcast.rs\<close>: the fan-out of committed events.  The hub is the list of its
  senders; a sender's channel holds the events its receiver has not read yet, or is closed once the
  receiver was dropped.  A channel is named by the number under which it was created.

  \<open>publish\<close> delivers to every open channel in order and prunes the closed ones; the contract a
  subscriber relies on (nothing lost, nothing reordered, nothing duplicated) is the lemma
  \<open>drain_after_publish\<close>.
\<close>

record broadcaster =
  bc_next :: nat
  bc_subscribers :: "(nat \<times> event_record list option) list"

definition broadcaster_new :: broadcaster where
  "broadcaster_new = \<lparr>bc_next = 0, bc_subscribers = []\<rparr>"

definition subscribe :: "broadcaster \<Rightarrow> nat \<times> broadcaster" where
  "subscribe b =
     (bc_next b,
      b\<lparr>bc_next := Suc (bc_next b), bc_subscribers := bc_subscribers b @ [(bc_next b, Some [])]\<rparr>)"

text \<open>\<open>send\<close> fails exactly when the receiver is gone, and \<open>retain\<close> then removes the sender.\<close>

fun deliver ::
  "event_record \<Rightarrow> (nat \<times> event_record list option) list \<Rightarrow> (nat \<times> event_record list option) list" where
  "deliver event [] = []"
| "deliver event ((i, None) # subs) = deliver event subs"
| "deliver event ((i, Some q) # subs) = (i, Some (q @ [event])) # deliver event subs"

definition publish :: "event_record \<Rightarrow> broadcaster \<Rightarrow> broadcaster" where
  "publish event b = b\<lparr>bc_subscribers := deliver event (bc_subscribers b)\<rparr>"

definition subscriber_count :: "broadcaster \<Rightarrow> nat" where
  "subscriber_count b = length (bc_subscribers b)"

text \<open>The receiver side: read everything buffered, or drop the receiver.\<close>

definition channel :: "broadcaster \<Rightarrow> nat \<Rightarrow> event_record list option" where
  "channel b i = Option.bind (map_of (bc_subscribers b) i) id"

definition drain_pending :: "nat \<Rightarrow> broadcaster \<Rightarrow> event_record list \<times> broadcaster" where
  "drain_pending i b =
     (case channel b i of
        None \<Rightarrow> ([], b)
      | Some es \<Rightarrow>
          (es, b\<lparr>bc_subscribers := map (\<lambda>(j, q). (j, if j = i then Some [] else q)) (bc_subscribers b)\<rparr>))"

definition drop_subscription :: "nat \<Rightarrow> broadcaster \<Rightarrow> broadcaster" where
  "drop_subscription i b =
     b\<lparr>bc_subscribers := map (\<lambda>(j, q). (j, if j = i then None else q)) (bc_subscribers b)\<rparr>"

section \<open>The invariant: channel numbers are fresh\<close>

definition broadcaster_wf :: "broadcaster \<Rightarrow> bool" where
  "broadcaster_wf b \<longleftrightarrow>
     distinct (map fst (bc_subscribers b)) \<and> list_all (\<lambda>(i, q). i < bc_next b) (bc_subscribers b)"

lemma broadcaster_new_wf: "broadcaster_wf broadcaster_new"
  by (simp add: broadcaster_wf_def broadcaster_new_def)

lemma subscribe_wf: "broadcaster_wf b \<Longrightarrow> broadcaster_wf (snd (subscribe b))"
  by (auto simp: broadcaster_wf_def subscribe_def list_all_iff)

lemma set_deliver: "(i, q) \<in> set (deliver e subs) \<longleftrightarrow> (\<exists>es. (i, Some es) \<in> set subs \<and> q = Some (es @ [e]))"
  by (induction e subs rule: deliver.induct) auto

lemma distinct_deliver: "distinct (map fst subs) \<Longrightarrow> distinct (map fst (deliver e subs))"
  by (induction e subs rule: deliver.induct) (auto simp: set_deliver image_iff, metis fst_conv)

lemma publish_wf: "broadcaster_wf b \<Longrightarrow> broadcaster_wf (publish e b)"
  by (auto simp: broadcaster_wf_def publish_def list_all_iff distinct_deliver set_deliver)

section \<open>What a subscriber sees\<close>

lemma map_of_deliver:
  "distinct (map fst subs) \<Longrightarrow>
     Option.bind (map_of (deliver e subs) i) id = map_option (\<lambda>es. es @ [e]) (Option.bind (map_of subs i) id)"
proof (induction e subs rule: deliver.induct)
  case (2 e j subs)
  then have "map_of subs j = None" by (simp add: map_of_eq_None_iff)
  with 2 show ?case by auto
qed auto

lemma channel_publish:
  "broadcaster_wf b \<Longrightarrow> channel (publish e b) i = map_option (\<lambda>es. es @ [e]) (channel b i)"
  by (simp add: channel_def publish_def broadcaster_wf_def map_of_deliver)

lemma channel_publish_all:
  "broadcaster_wf b \<Longrightarrow> channel (fold publish es b) i = map_option (\<lambda>q. q @ es) (channel b i)"
  by (induction es arbitrary: b)
    (simp_all add: channel_publish publish_wf option.map_comp comp_def option.map_ident)

lemma publish_all_wf: "broadcaster_wf b \<Longrightarrow> broadcaster_wf (fold publish es b)"
  by (induction es arbitrary: b) (simp_all add: publish_wf)

lemma channel_subscribe_new:
  assumes "broadcaster_wf b"
  shows "channel (snd (subscribe b)) (fst (subscribe b)) = Some []"
proof -
  have "map_of (bc_subscribers b) (bc_next b) = None"
    using assms by (fastforce simp: broadcaster_wf_def list_all_iff map_of_eq_None_iff)
  then show ?thesis by (simp add: channel_def subscribe_def map_add_def)
qed

lemma drain_after_publish:
  assumes "broadcaster_wf b"
  shows "fst (drain_pending (fst (subscribe b)) (fold publish es (snd (subscribe b)))) = es"
  using channel_publish_all [OF subscribe_wf [OF assms], of es "fst (subscribe b)"]
  by (simp add: drain_pending_def channel_subscribe_new [OF assms])

lemma publish_prunes_dropped:
  "channel (publish e (drop_subscription i b)) i = None \<and>
   i \<notin> fst ` set (bc_subscribers (publish e (drop_subscription i b)))"
proof -
  have "i \<notin> fst ` set (bc_subscribers (publish e (drop_subscription i b)))"
    by (auto simp: publish_def drop_subscription_def set_deliver split: if_splits)
  moreover from this have "map_of (bc_subscribers (publish e (drop_subscription i b))) i = None"
    by (simp add: map_of_eq_None_iff)
  ultimately show ?thesis by (simp add: channel_def)
qed

end
