(* ===== verification/Event_Store.thy ===== *)
theory Event_Store
  imports Projection_Tables Broadcast "HOL-Library.Product_Lexorder"
begin

text \<open>
  \<open>capo-state/src/lib.rs\<close>: the event store.  The state is the contents of the SQLite file
  (events, projection log, read-model tables, watermarks, artifacts, recovery attempts, and the
  \<open>AUTOINCREMENT\<close> counter) together with the broadcast hub of the process.

  An operation maps a store to a result and a store.  A transaction whose body fails is rolled back
  (\<open>in_transaction\<close>), so a failed transaction leaves the store as it was; an operation made of
  several transactions keeps those that committed before the failing one (\<open>op_bind\<close>).

  Operations are taken one at a time.  In particular \<open>append_event\<close> and the decision of an approval
  commit and publish in one step here, while the code publishes after its transaction has committed and
  holds no lock in between.  The two are equal as long as one thread writes; \<^verbatim>\<open>Concurrent_Writers\<close> makes
  them separate steps and shows what then depends on the order of publication.
\<close>

section \<open>State and effects\<close>

record store =
  st_events :: "event_record list"
  st_sequence :: int
  st_log :: "(int \<times> projection_record_row) list"
  st_tables :: tables
  st_watermarks :: "(string \<times> int) list"
  st_artifacts :: "(string \<times> artifact_record) list"
  st_recoveries :: "(string \<times> recovery_attempt) list"
  st_hub :: broadcaster

definition store_open :: store where
  "store_open =
     \<lparr>st_events = [], st_sequence = 0, st_log = [], st_tables = (\<lambda>_. []), st_watermarks = [],
      st_artifacts = [], st_recoveries = [], st_hub = broadcaster_new\<rparr>"

type_synonym 'a op = "store \<Rightarrow> (state_error, 'a) result \<times> store"

definition op_return :: "'a \<Rightarrow> 'a op" where
  "op_return a s = (Inr a, s)"

definition op_bind :: "'a op \<Rightarrow> ('a \<Rightarrow> 'b op) \<Rightarrow> 'b op" where
  "op_bind m f s = (case m s of (Inl e, s') \<Rightarrow> (Inl e, s') | (Inr a, s') \<Rightarrow> f a s')"

fun op_map :: "('x \<Rightarrow> 'a op) \<Rightarrow> 'x list \<Rightarrow> 'a list op" where
  "op_map f [] = op_return []"
| "op_map f (x # xs) = op_bind (f x) (\<lambda>a. op_bind (op_map f xs) (\<lambda>as. op_return (a # as)))"

definition in_transaction :: "(store \<Rightarrow> (state_error, 'a \<times> store) result) \<Rightarrow> 'a op" where
  "in_transaction body s =
     (case body s of Inl e \<Rightarrow> (Inl e, s) | Inr (a, s') \<Rightarrow> (Inr a, s'))"

section \<open>Rows\<close>

definition committed_event_record :: "int \<Rightarrow> new_event \<Rightarrow> event_record" where
  "committed_event_record sequence event =
     \<lparr>ev_sequence = sequence,
      ev_event_id = nev_event_id event,
      ev_kind = as_str (nev_kind event),
      ev_actor = nev_actor event,
      ev_project_id = nev_project_id event,
      ev_task_id = nev_task_id event,
      ev_agent_id = nev_agent_id event,
      ev_session_id = nev_session_id event,
      ev_run_id = nev_run_id event,
      ev_turn_id = nev_turn_id event,
      ev_item_id = nev_item_id event,
      ev_payload_json = nev_payload_json event,
      ev_idempotency_key = nev_idempotency_key event,
      ev_redaction_state = redaction_as_str (nev_redaction_state event)\<rparr>"

definition same_idempotency :: "string option \<Rightarrow> string option \<Rightarrow> event_record \<Rightarrow> bool" where
  "same_idempotency project_id key e \<longleftrightarrow>
     project_id \<noteq> None \<and> key \<noteq> None \<and> ev_project_id e = project_id \<and> ev_idempotency_key e = key"

definition find_idempotent :: "new_event \<Rightarrow> store \<Rightarrow> int option" where
  "find_idempotent event s =
     map_option ev_sequence
       (find (same_idempotency (nev_project_id event) (nev_idempotency_key event)) (st_events s))"

text \<open>
  \<open>INSERT INTO events\<close>: the event id is \<open>UNIQUE\<close>, so is the pair of project and idempotency
  key where both are present, and the next \<open>AUTOINCREMENT\<close> key must exist.
\<close>

definition insert_event :: "new_event \<Rightarrow> store \<Rightarrow> (state_error, int \<times> store) result" where
  "insert_event event s =
     (if find (\<lambda>e. ev_event_id e = nev_event_id event) (st_events s) \<noteq> None
         \<or> find_idempotent event s \<noteq> None then Inl (Sql (UniqueViolation ''events''))
      else if st_sequence s + 1 \<ge> 2 ^ 63 then Inl (Sql DatabaseFull)
      else
        let sequence = st_sequence s + 1 in
        Inr (sequence,
             s\<lparr>st_events := st_events s @ [committed_event_record sequence event],
               st_sequence := sequence\<rparr>))"

definition insert_projection_record :: "serde \<Rightarrow> int \<Rightarrow> projection_record \<Rightarrow> store \<Rightarrow> store" where
  "insert_projection_record sj sequence r s =
     s\<lparr>st_log := st_log s @ [(sequence, projection_record_to_row sj r)]\<rparr>"

definition project_record ::
  "serde \<Rightarrow> int \<Rightarrow> store \<Rightarrow> projection_record \<Rightarrow> (state_error, store) result" where
  "project_record sj sequence s r =
     (let s1 = insert_projection_record sj sequence r s in
      and_then (apply_projection_record sj sequence r (st_tables s1)) (\<lambda>db.
      Inr (s1\<lparr>st_tables := db\<rparr>)))"

definition update_watermark :: "string \<Rightarrow> int \<Rightarrow> store \<Rightarrow> store" where
  "update_watermark name sequence s =
     s\<lparr>st_watermarks := AList.update name sequence (st_watermarks s)\<rparr>"

definition watermark :: "string \<Rightarrow> store \<Rightarrow> int option" where
  "watermark name s = map_of (st_watermarks s) name"

definition publish_events :: "event_record list \<Rightarrow> store \<Rightarrow> store" where
  "publish_events es s = s\<lparr>st_hub := fold publish es (st_hub s)\<rparr>"

section \<open>append_event\<close>

text \<open>The result of the transaction says which events were committed, for the fan-out after it.\<close>

definition append_transaction ::
  "serde \<Rightarrow> new_event \<Rightarrow> projection_record list \<Rightarrow> store
     \<Rightarrow> (state_error, (int \<times> event_record list) \<times> store) result" where
  "append_transaction sj event projection_records s =
     (case find_idempotent event s of
        Some existing \<Rightarrow> Inr ((existing, []), s)
      | None \<Rightarrow>
          and_then (insert_event event s) (\<lambda>(sequence, s1).
          and_then (try_fold (project_record sj sequence) s1 projection_records) (\<lambda>s2.
          Inr ((sequence, [committed_event_record sequence event]),
               update_watermark ''default'' sequence s2))))"

definition publish_committed :: "(int \<times> event_record list) op \<Rightarrow> int op" where
  "publish_committed m = op_bind m (\<lambda>(sequence, committed) s. (Inr sequence, publish_events committed s))"

definition append_event :: "serde \<Rightarrow> new_event \<Rightarrow> projection_record list \<Rightarrow> int op" where
  "append_event sj event projection_records =
     publish_committed (in_transaction (append_transaction sj event projection_records))"

section \<open>decide_permission_approval\<close>

definition approval_row ::
  "store \<Rightarrow> string \<Rightarrow> string \<Rightarrow> permission_approval_projection option" where
  "approval_row s approval_id project_id =
     (case lookup (st_tables s) ''permission_approvals'' [approval_id] of
        Some (PermissionApproval p) \<Rightarrow> if appr_project_id p = project_id then Some p else None
      | _ \<Rightarrow> None)"

definition commit_one ::
  "serde \<Rightarrow> new_event \<Rightarrow> projection_record \<Rightarrow> store
     \<Rightarrow> (state_error, (int \<times> event_record) \<times> store) result" where
  "commit_one sj event r s =
     and_then (insert_event event s) (\<lambda>(sequence, s1).
     and_then (project_record sj sequence s1 r) (\<lambda>s2.
     Inr ((sequence, committed_event_record sequence event), s2)))"

definition decide_transaction ::
  "serde \<Rightarrow> string \<Rightarrow> new_event \<Rightarrow> new_event option \<Rightarrow> permission_approval_projection
     \<Rightarrow> capability_grant_projection option \<Rightarrow> store
     \<Rightarrow> (state_error, (int \<times> event_record list) \<times> store) result" where
  "decide_transaction sj approval_id decided_event grant_event decided_approval grant s =
     (case approval_row s approval_id (appr_project_id decided_approval) of
        None \<Rightarrow> Inl (MissingReadModel ''permission_approval'' approval_id)
      | Some p \<Rightarrow>
          if appr_status p \<noteq> ''pending'' then
            Inl (PermissionApprovalNotPending approval_id (appr_status p))
          else
            and_then (commit_one sj decided_event (PermissionApproval decided_approval) s)
              (\<lambda>((sequence, committed), s1).
            case (grant_event, grant) of
              (Some ge, Some g) \<Rightarrow>
                and_then (commit_one sj ge (CapabilityGrant g) s1) (\<lambda>((grant_sequence, granted), s2).
                Inr ((grant_sequence, [committed, granted]),
                     update_watermark ''default'' grant_sequence s2))
            | _ \<Rightarrow> Inr ((sequence, [committed]), update_watermark ''default'' sequence s1)))"

definition decide_permission_approval ::
  "serde \<Rightarrow> string \<Rightarrow> new_event \<Rightarrow> new_event option \<Rightarrow> permission_approval_projection
     \<Rightarrow> capability_grant_projection option \<Rightarrow> int op" where
  "decide_permission_approval sj approval_id decided_event grant_event decided_approval grant =
     publish_committed
       (in_transaction (decide_transaction sj approval_id decided_event grant_event decided_approval grant))"

section \<open>Restart recovery\<close>

definition is_active_looking :: "string \<Rightarrow> bool" where
  "is_active_looking status \<longleftrightarrow> status \<in> set [''starting'', ''running'', ''stopping'', ''active'']"

fun run_of_row :: "projection_record \<Rightarrow> run_projection list" where
  "run_of_row (Run p) = [p]"
| "run_of_row _ = []"

definition active_looking_runs :: "store \<Rightarrow> run_projection list" where
  "active_looking_runs s =
     sort_key (\<lambda>p. (run_updated_sequence p, run_run_id p))
       (filter (\<lambda>p. is_active_looking (run_status p))
         (concat (map run_of_row (rows (st_tables s) ''runs''))))"

definition active_looking_runs_for_project :: "string \<Rightarrow> store \<Rightarrow> run_projection list" where
  "active_looking_runs_for_project project_id s =
     sort_key (\<lambda>p. (run_updated_sequence p, run_run_id p))
       (filter
         (\<lambda>p. is_active_looking (run_status p) \<and>
           (case lookup (st_tables s) ''sessions'' [run_session_id p] of
              Some (Session ses) \<Rightarrow> ses_project_id ses = project_id
            | _ \<Rightarrow> False))
         (concat (map run_of_row (rows (st_tables s) ''runs''))))"

definition recovery_event ::
  "string \<Rightarrow> event_kind \<Rightarrow> string \<Rightarrow> string \<Rightarrow> string \<Rightarrow> string \<Rightarrow> string \<Rightarrow> new_event" where
  "recovery_event project_id kind event_id session_id run_id payload idempotency_key =
     \<lparr>nev_event_id = event_id,
      nev_kind = kind,
      nev_actor = ''capo-recovery'',
      nev_project_id = Some project_id,
      nev_task_id = None,
      nev_agent_id = None,
      nev_session_id = Some session_id,
      nev_run_id = Some run_id,
      nev_turn_id = None,
      nev_item_id = None,
      nev_payload_json = payload,
      nev_idempotency_key = Some idempotency_key,
      nev_redaction_state = Safe\<rparr>"

definition mark_run_exited_unknown ::
  "serde \<Rightarrow> string \<Rightarrow> string \<Rightarrow> run_projection \<Rightarrow> run_projection op" where
  "mark_run_exited_unknown sj project_id recovery_attempt_id run =
     (let recovered_run = run\<lparr>run_status := ''exited_unknown''\<rparr> in
      op_bind
        (append_event sj
          (recovery_event project_id (RunEvent RunExited)
            (''event-'' @ recovery_attempt_id @ ''-exited-'' @ run_run_id run)
            (run_session_id run) (run_run_id run)
            (''{'' @ quoted ''recovery_attempt_id'' @ '':'' @ quoted (escape_json recovery_attempt_id)
              @ '','' @ quoted ''previous_status'' @ '':'' @ quoted (escape_json (run_status run))
              @ '','' @ quoted ''status'' @ '':'' @ quoted ''exited_unknown'' @ ''}'')
            (''recovery:'' @ recovery_attempt_id @ '':run:'' @ run_run_id run @ '':exited_unknown''))
          [Run recovered_run])
        (\<lambda>_. op_return recovered_run))"

definition mark_active_runs_exited_unknown ::
  "serde \<Rightarrow> string \<Rightarrow> string \<Rightarrow> run_projection list op" where
  "mark_active_runs_exited_unknown sj project_id recovery_attempt_id s =
     op_map (mark_run_exited_unknown sj project_id recovery_attempt_id)
       (active_looking_runs_for_project project_id s) s"

text \<open>\<open>strip_prefix("fnv1a64:").unwrap_or(hash)\<close>\<close>

definition hash_suffix :: "string \<Rightarrow> string" where
  "hash_suffix h = unwrap_or h (strip_prefix ''fnv1a64:'' h)"

definition recovery_idempotency_key :: "string \<Rightarrow> string \<Rightarrow> string \<Rightarrow> string \<Rightarrow> string" where
  "recovery_idempotency_key run_id event_slug observation_kind state_hash =
     ''recovery:run:'' @ run_id @ '':'' @ event_slug @ '':'' @ observation_kind @ '':'' @ state_hash"

definition append_recovery_event ::
  "serde \<Rightarrow> string \<Rightarrow> string \<Rightarrow> event_kind \<Rightarrow> string \<Rightarrow> string \<Rightarrow> run_reap_observation \<Rightarrow> int op" where
  "append_recovery_event sj project_id recovery_attempt_id kind status event_slug obs =
     (let observation_kind = reap_observation_kind (reap_kind obs);
          state_hash = reap_observed_runtime_state_hash obs;
          run = \<lparr>run_run_id = reap_run_id obs, run_session_id = reap_session_id obs,
                 run_status = status, run_recovery_of_run_id = None, run_updated_sequence = 0\<rparr>;
          payload = to_text sj (json_object
            [(''recovery_attempt_id'', JString recovery_attempt_id),
             (''previous_status'', JString (reap_previous_status obs)),
             (''status'', JString status),
             (''recovery_observation_kind'', JString observation_kind),
             (''observed_runtime_state_hash'', JString state_hash),
             (''external_pid'', j_opt_int (reap_external_pid obs))])
      in append_event sj
           (recovery_event project_id kind
             (''event-recovery-'' @ event_slug @ ''-'' @ reap_run_id obs @ ''-'' @ hash_suffix state_hash)
             (reap_session_id obs) (reap_run_id obs) payload
             (recovery_idempotency_key (reap_run_id obs) event_slug observation_kind state_hash))
           [Run run])"

definition reap_orphaned_run ::
  "serde \<Rightarrow> string \<Rightarrow> string \<Rightarrow> run_reap_observation \<Rightarrow> run_projection op" where
  "reap_orphaned_run sj project_id recovery_attempt_id obs =
     op_bind
       (if reap_kind obs = AliveReaped
        then append_recovery_event sj project_id recovery_attempt_id (RunEvent RunOrphaned)
               ''orphaned'' ''orphaned'' obs
        else op_return 0)
       (\<lambda>_.
     op_bind
       (append_recovery_event sj project_id recovery_attempt_id (RunEvent RunExited)
          ''exited_unknown'' ''exited_unknown'' obs)
       (\<lambda>_.
     op_bind
       (append_recovery_event sj project_id recovery_attempt_id (RunEvent RunRecovered)
          ''recovered'' ''recovered'' obs)
       (\<lambda>_.
     op_return \<lparr>run_run_id = reap_run_id obs, run_session_id = reap_session_id obs,
                run_status = ''recovered'', run_recovery_of_run_id = None,
                run_updated_sequence = 0\<rparr>)))"

definition reap_orphaned_runs ::
  "serde \<Rightarrow> string \<Rightarrow> string \<Rightarrow> run_reap_observation list \<Rightarrow> run_projection list op" where
  "reap_orphaned_runs sj project_id recovery_attempt_id observations =
     op_map (reap_orphaned_run sj project_id recovery_attempt_id) observations"

definition append_run_recovery_event ::
  "serde \<Rightarrow> string \<Rightarrow> string \<Rightarrow> event_kind \<Rightarrow> string \<Rightarrow> string \<Rightarrow> run_recovery_observation \<Rightarrow> int op" where
  "append_run_recovery_event sj project_id recovery_attempt_id kind status event_slug obs =
     (let observation_kind = recovery_observation_kind (rcv_kind obs);
          state_hash = rcv_observed_runtime_state_hash obs;
          run = \<lparr>run_run_id = rcv_run_id obs, run_session_id = rcv_session_id obs,
                 run_status = status, run_recovery_of_run_id = None, run_updated_sequence = 0\<rparr>;
          payload = to_text sj (json_object
            [(''recovery_attempt_id'', JString recovery_attempt_id),
             (''previous_status'', JString (rcv_previous_status obs)),
             (''status'', JString status),
             (''recovery_observation_kind'', JString observation_kind),
             (''observed_runtime_state_hash'', JString state_hash),
             (''external_pid'', j_opt_int (rcv_external_pid obs)),
             (''runtime_process_ref'', j_opt_str (rcv_runtime_process_ref obs)),
             (''reattached'', JBool (kind = RunEvent RunRecovered \<and> rcv_kind obs = Reattached))])
      in append_event sj
           (recovery_event project_id kind
             (''event-recovery-'' @ event_slug @ ''-'' @ rcv_run_id obs @ ''-'' @ observation_kind
               @ ''-'' @ hash_suffix state_hash)
             (rcv_session_id obs) (rcv_run_id obs) payload
             (recovery_idempotency_key (rcv_run_id obs) event_slug observation_kind state_hash))
           [Run run])"

text \<open>The events of one observation, in the order in which the match arms append them.\<close>

fun recovery_plan :: "run_recovery_kind \<Rightarrow> (event_kind \<times> string) list" where
  "recovery_plan Reattached = [(RunEvent RunRecovered, ''recovered'')]"
| "recovery_plan Orphaned =
     [(RunEvent RunOrphaned, ''orphaned''), (RunEvent RunExited, ''exited''),
      (RunEvent RunRecovered, ''recovered'')]"
| "recovery_plan Exited =
     [(RunEvent RunExited, ''exited''), (RunEvent RunRecovered, ''recovered'')]"

definition recover_inflight_run ::
  "serde \<Rightarrow> string \<Rightarrow> string \<Rightarrow> run_recovery_observation \<Rightarrow> run_projection op" where
  "recover_inflight_run sj project_id recovery_attempt_id obs =
     op_bind
       (op_map
         (\<lambda>(kind, slug). append_run_recovery_event sj project_id recovery_attempt_id kind slug slug obs)
         (recovery_plan (rcv_kind obs)))
       (\<lambda>_.
     op_return \<lparr>run_run_id = rcv_run_id obs, run_session_id = rcv_session_id obs,
                run_status = recovery_run_status (rcv_kind obs), run_recovery_of_run_id = None,
                run_updated_sequence = 0\<rparr>)"

definition recover_inflight_runs ::
  "serde \<Rightarrow> string \<Rightarrow> string \<Rightarrow> run_recovery_observation list \<Rightarrow> run_projection list op" where
  "recover_inflight_runs sj project_id recovery_attempt_id observations =
     op_map (recover_inflight_run sj project_id recovery_attempt_id) observations"

section \<open>Artifacts\<close>

definition record_artifact :: "artifact_record \<Rightarrow> unit op" where
  "record_artifact artifact s =
     (if \<not> is_persistable_artifact (art_redaction_state artifact)
      then (Inl (UnsafeArtifactRedactionState (art_redaction_state artifact)), s)
      else (Inr (),
            s\<lparr>st_artifacts :=
                filter (\<lambda>(i, a). i \<noteq> art_artifact_id artifact) (st_artifacts s)
                @ [(art_artifact_id artifact, artifact)]\<rparr>))"

section \<open>Rebuild\<close>

definition last_sequence :: "store \<Rightarrow> int" where
  "last_sequence s = fold max (map ev_sequence (st_events s)) 0"

definition event_count :: "store \<Rightarrow> int" where
  "event_count s = int (length (st_events s))"

definition decode_logged :: "serde \<Rightarrow> projection_record_row \<Rightarrow> (state_error, projection_record) result" where
  "decode_logged sj row =
     map_err (\<lambda>e. case e of ProjectionDecodeError m \<Rightarrow> Sql (RowConversion m) | DecodePanic \<Rightarrow> StatePanic)
       (projection_record_from_row sj row)"

definition replay_row ::
  "serde \<Rightarrow> store \<Rightarrow> int \<times> projection_record_row \<Rightarrow> (state_error, store) result" where
  "replay_row sj s sr =
     (case sr of (sequence, row) \<Rightarrow>
        and_then (decode_logged sj row) (\<lambda>r.
        and_then (apply_projection_record sj sequence r (st_tables s)) (\<lambda>db.
        Inr (update_watermark ''default'' sequence (s\<lparr>st_tables := db\<rparr>)))))"

definition clear_projection_tables :: "store \<Rightarrow> store" where
  "clear_projection_tables s = s\<lparr>st_tables := clear_tables (st_tables s), st_watermarks := []\<rparr>"

definition rebuild_transaction :: "serde \<Rightarrow> store \<Rightarrow> (state_error, unit \<times> store) result" where
  "rebuild_transaction sj s =
     and_then (try_fold (replay_row sj) (clear_projection_tables s) (sort_key fst (st_log s))) (\<lambda>s1.
     Inr ((), update_watermark ''default'' (last_sequence s1) s1))"

definition rebuild_projections :: "serde \<Rightarrow> unit op" where
  "rebuild_projections sj = in_transaction (rebuild_transaction sj)"

section \<open>Recovery attempts\<close>

definition begin_recovery :: "string \<Rightarrow> recovery_attempt op" where
  "begin_recovery recovery_attempt_id s =
     (let attempt = \<lparr>rec_recovery_attempt_id = recovery_attempt_id, rec_status = ''started'',
                     rec_started_sequence = last_sequence s, rec_completed_sequence = None\<rparr>
      in if map_of (st_recoveries s) recovery_attempt_id \<noteq> None
         then (Inl (Sql (UniqueViolation ''recovery_attempts'')), s)
         else (Inr attempt, s\<lparr>st_recoveries := st_recoveries s @ [(recovery_attempt_id, attempt)]\<rparr>))"

definition complete_recovery :: "string \<Rightarrow> recovery_attempt op" where
  "complete_recovery recovery_attempt_id s =
     (case map_of (st_recoveries s) recovery_attempt_id of
        None \<Rightarrow> (Inl (MissingRecoveryAttempt recovery_attempt_id), s)
      | Some started \<Rightarrow>
          let attempt = \<lparr>rec_recovery_attempt_id = recovery_attempt_id,
                         rec_status = ''completed'',
                         rec_started_sequence = rec_started_sequence started,
                         rec_completed_sequence = Some (last_sequence s)\<rparr>
          in (Inr attempt,
              s\<lparr>st_recoveries := AList.update recovery_attempt_id attempt (st_recoveries s)\<rparr>))"

end
