(* ===== verification/Store_Append.thy ===== *)
theory Store_Append
  imports Event_Store
begin

text \<open>
  What \<open>append_event\<close> does, on every branch: a known idempotency key returns the sequence of
  the first append, a rejected event or record leaves the store untouched, and otherwise the store
  becomes \<open>committed_store\<close>.  The other operations of the store are built on this.
\<close>

section \<open>Projecting the records of one event\<close>

lemma project_record_Inr:
  "project_record sj n s r = Inr s' \<longleftrightarrow> json_columns_ok sj r \<and>
     s' = s\<lparr>st_log := st_log s @ [(n, projection_record_to_row sj r)],
            st_tables := row_effect n r (st_tables s)\<rparr>"
  by (auto simp: project_record_def insert_projection_record_def and_then_Inr_iff apply_Inr_iff Let_def)

lemma project_records_Inr:
  "try_fold (project_record sj n) s rs = Inr s' \<longleftrightarrow> list_all (json_columns_ok sj) rs \<and>
     s' = s\<lparr>st_log := st_log s @ map (\<lambda>r. (n, projection_record_to_row sj r)) rs,
            st_tables := fold (row_effect n) rs (st_tables s)\<rparr>"
  by (induction rs arbitrary: s) (auto simp: and_then_Inr_iff project_record_Inr)

lemma project_record_Inl:
  "project_record sj n s r = Inl e \<Longrightarrow> \<exists>k i f t. e = InvalidProjectionJson k i f t"
  by (auto simp: project_record_def and_then_Inl_iff Let_def dest: apply_Inl)

lemma project_records_Inl:
  "try_fold (project_record sj n) s rs = Inl e \<Longrightarrow> \<exists>k i f t. e = InvalidProjectionJson k i f t"
  by (induction rs arbitrary: s) (auto simp: and_then_Inl_iff dest: project_record_Inl)

section \<open>append_event\<close>

definition event_id_taken :: "string \<Rightarrow> store \<Rightarrow> bool" where
  "event_id_taken i s \<longleftrightarrow> find (\<lambda>e. ev_event_id e = i) (st_events s) \<noteq> None"

definition committed_store :: "serde \<Rightarrow> new_event \<Rightarrow> projection_record list \<Rightarrow> store \<Rightarrow> store" where
  "committed_store sj event rs s =
     (let n = st_sequence s + 1; e = committed_event_record n event in
      s\<lparr>st_events := st_events s @ [e],
        st_sequence := n,
        st_log := st_log s @ map (\<lambda>r. (n, projection_record_to_row sj r)) rs,
        st_tables := fold (row_effect n) rs (st_tables s),
        st_watermarks := AList.update ''default'' n (st_watermarks s),
        st_hub := publish e (st_hub s)\<rparr>)"

definition append_admissible :: "serde \<Rightarrow> new_event \<Rightarrow> projection_record list \<Rightarrow> store \<Rightarrow> bool" where
  "append_admissible sj event rs s \<longleftrightarrow>
     find_idempotent event s = None \<and> \<not> event_id_taken (nev_event_id event) s \<and>
     st_sequence s + 1 < 2 ^ 63 \<and> list_all (json_columns_ok sj) rs"

lemma insert_event_cases:
  "insert_event event s =
     (if event_id_taken (nev_event_id event) s \<or> find_idempotent event s \<noteq> None
      then Inl (Sql (UniqueViolation ''events''))
      else if st_sequence s + 1 \<ge> 2 ^ 63 then Inl (Sql DatabaseFull)
      else Inr (st_sequence s + 1,
             s\<lparr>st_events := st_events s @ [committed_event_record (st_sequence s + 1) event],
               st_sequence := st_sequence s + 1\<rparr>))"
  by (simp add: insert_event_def event_id_taken_def Let_def)

lemma append_event_known:
  "find_idempotent event s = Some n \<Longrightarrow> append_event sj event rs s = (Inr n, s)"
  by (simp add: append_event_def publish_committed_def op_bind_def in_transaction_def
      append_transaction_def publish_events_def)

lemma append_event_commits:
  assumes "append_admissible sj event rs s"
  shows "append_event sj event rs s = (Inr (st_sequence s + 1), committed_store sj event rs s)"
proof -
  let ?n = "st_sequence s + 1"
  let ?s1 = "s\<lparr>st_events := st_events s @ [committed_event_record ?n event], st_sequence := ?n\<rparr>"
  have ins: "insert_event event s = Inr (?n, ?s1)"
    using assms by (simp add: insert_event_cases append_admissible_def)
  have rec: "try_fold (project_record sj ?n) ?s1 rs =
      Inr (?s1\<lparr>st_log := st_log s @ map (\<lambda>r. (?n, projection_record_to_row sj r)) rs,
               st_tables := fold (row_effect ?n) rs (st_tables s)\<rparr>)"
    using assms by (simp add: project_records_Inr append_admissible_def)
  show ?thesis
    using assms
    by (simp add: append_event_def publish_committed_def op_bind_def in_transaction_def
        append_transaction_def append_admissible_def ins rec update_watermark_def publish_events_def
        committed_store_def Let_def)
qed

lemma append_event_rejects:
  assumes "find_idempotent event s = None" "\<not> append_admissible sj event rs s"
  obtains e where "append_event sj event rs s = (Inl e, s)"
    "e = Sql (UniqueViolation ''events'') \<and> event_id_taken (nev_event_id event) s
     \<or> e = Sql DatabaseFull \<or> (\<exists>k i f t. e = InvalidProjectionJson k i f t)"
proof (cases "insert_event event s")
  case (Inl e)
  with assms(1) have "append_event sj event rs s = (Inl e, s)"
    by (simp add: append_event_def publish_committed_def op_bind_def in_transaction_def
        append_transaction_def)
  moreover from Inl assms(1)
  have "e = Sql (UniqueViolation ''events'') \<and> event_id_taken (nev_event_id event) s \<or> e = Sql DatabaseFull"
    by (auto simp: insert_event_cases split: if_splits)
  ultimately show thesis using that by blast
next
  case (Inr p)
  obtain n s1 where p: "p = (n, s1)" by fastforce
  with Inr assms have "\<not> list_all (json_columns_ok sj) rs"
    by (auto simp: insert_event_cases append_admissible_def split: if_splits)
  then obtain e where e: "try_fold (project_record sj n) s1 rs = Inl e"
    using project_records_Inr [of sj n s1 rs] by (cases "try_fold (project_record sj n) s1 rs") auto
  with Inr p assms(1) have "append_event sj event rs s = (Inl e, s)"
    by (simp add: append_event_def publish_committed_def op_bind_def in_transaction_def
        append_transaction_def)
  with project_records_Inl [OF e] show thesis using that by blast
qed

text \<open>The three outcomes at once, the case rule of the proofs below.\<close>

lemma append_event_outcome:
  obtains (known) n where "find_idempotent event s = Some n" "append_event sj event rs s = (Inr n, s)"
  | (committed) "append_admissible sj event rs s"
      "append_event sj event rs s = (Inr (st_sequence s + 1), committed_store sj event rs s)"
  | (rejected) e where "find_idempotent event s = None" "append_event sj event rs s = (Inl e, s)"
proof (cases "find_idempotent event s")
  case (Some n)
  then show thesis by (intro known append_event_known)
next
  case None
  then show thesis
  proof (cases "append_admissible sj event rs s")
    case True
    then show thesis by (intro committed append_event_commits)
  next
    case False
    with None obtain e where "append_event sj event rs s = (Inl e, s)"
      by (rule append_event_rejects)
    with None show thesis by (rule rejected)
  qed
qed

section \<open>A second append of the same event\<close>

lemma find_idempotent_committed:
  assumes "nev_project_id event = Some p" "nev_idempotency_key event = Some k"
    and "find_idempotent event s = None"
  shows "find_idempotent event (committed_store sj event rs s) = Some (st_sequence s + 1)"
proof -
  let ?P = "same_idempotency (nev_project_id event) (nev_idempotency_key event)"
  have "find ?P (st_events s) = None"
    using assms(3) by (simp add: find_idempotent_def)
  moreover have "?P (committed_event_record (st_sequence s + 1) event)"
    using assms(1,2) by (simp add: same_idempotency_def committed_event_record_def)
  moreover have "find ?P (xs @ ys) = (case find ?P xs of None \<Rightarrow> find ?P ys | Some x \<Rightarrow> Some x)"
    for xs ys by (induction xs) auto
  ultimately show ?thesis
    by (simp add: find_idempotent_def committed_store_def committed_event_record_def Let_def)
qed

lemma append_event_again:
  assumes "nev_project_id event = Some p" "nev_idempotency_key event = Some k"
    and "append_event sj event rs s = (Inr n, s')"
    and "nev_project_id event2 = Some p" "nev_idempotency_key event2 = Some k"
  shows "append_event sj event2 rs2 s' = (Inr n, s')"
proof -
  have eq: "find_idempotent event2 t = find_idempotent event t" for t
    using assms by (simp add: find_idempotent_def)
  show ?thesis
  proof (rule append_event_outcome [of event s sj rs])
    fix m assume "find_idempotent event s = Some m" "append_event sj event rs s = (Inr m, s)"
    with assms(3) show ?thesis by (simp add: append_event_known eq)
  next
    assume "append_admissible sj event rs s"
      "append_event sj event rs s = (Inr (st_sequence s + 1), committed_store sj event rs s)"
    with assms show ?thesis
      by (auto simp: append_event_known eq find_idempotent_committed append_admissible_def)
  next
    fix e assume "append_event sj event rs s = (Inl e, s)"
    with assms(3) show ?thesis by simp
  qed
qed

section \<open>An approval decision is two appends in one transaction\<close>

lemma commit_one_Inr:
  "commit_one sj event r s = Inr ((n, c), s1) \<longleftrightarrow>
     append_admissible sj event [r] s \<and> n = st_sequence s + 1 \<and> c = committed_event_record n event \<and>
     s1 = s\<lparr>st_events := st_events s @ [c], st_sequence := n,
            st_log := st_log s @ [(n, projection_record_to_row sj r)],
            st_tables := row_effect n r (st_tables s)\<rparr>"
proof (cases "insert_event event s")
  case (Inl e)
  then have "\<not> append_admissible sj event [r] s"
    by (auto simp: insert_event_cases append_admissible_def split: if_splits)
  with Inl show ?thesis by (simp add: commit_one_def)
next
  case (Inr p)
  then have "p = (st_sequence s + 1,
      s\<lparr>st_events := st_events s @ [committed_event_record (st_sequence s + 1) event],
        st_sequence := st_sequence s + 1\<rparr>)"
    and "append_admissible sj event [r] s \<longleftrightarrow> json_columns_ok sj r"
    by (auto simp: insert_event_cases append_admissible_def split: if_splits)
  with Inr show ?thesis
    by (auto simp: commit_one_def and_then_Inr_iff project_record_Inr)
qed

lemma update_update: "AList.update k v (AList.update k w al) = AList.update k v al"
  by (induction al) auto

lemma admissible_congr:
  "st_events s = st_events t \<Longrightarrow> st_sequence s = st_sequence t \<Longrightarrow>
     append_admissible sj event rs s = append_admissible sj event rs t"
  by (simp add: append_admissible_def find_idempotent_def event_id_taken_def)

lemma decide_Inr_one:
  assumes "decide_permission_approval sj i de ge a g s = (Inr n, s')" and "ge = None \<or> g = None"
  shows "append_event sj de [PermissionApproval a] s = (Inr n, s')"
proof -
  from assms have "append_admissible sj de [PermissionApproval a] s" "n = st_sequence s + 1"
      "s' = committed_store sj de [PermissionApproval a] s"
    by (auto simp: decide_permission_approval_def publish_committed_def op_bind_def in_transaction_def
        decide_transaction_def and_then_Inr_iff commit_one_Inr committed_store_def publish_events_def
        update_watermark_def Let_def split: option.splits if_splits sum.splits prod.splits)
  then show ?thesis by (simp add: append_event_commits)
qed

lemma decide_Inr_two:
  assumes "decide_permission_approval sj i de (Some ge) a (Some g) s = (Inr n, s')"
  shows "append_event sj ge [CapabilityGrant g] (snd (append_event sj de [PermissionApproval a] s))
      = (Inr n, s')"
    and "fst (append_event sj de [PermissionApproval a] s) = Inr (n - 1)"
proof -
  let ?s1 = "committed_store sj de [PermissionApproval a] s"
  from assms obtain n1 c1 s1 c2 s2 where
      one: "commit_one sj de (PermissionApproval a) s = Inr ((n1, c1), s1)"
    and two: "commit_one sj ge (CapabilityGrant g) s1 = Inr ((n, c2), s2)"
    and s': "s' = publish_events [c1, c2] (update_watermark ''default'' n s2)"
    by (auto simp: decide_permission_approval_def publish_committed_def op_bind_def in_transaction_def
        decide_transaction_def and_then_Inr_iff split: option.splits if_splits sum.splits prod.splits)
  from one have adm1: "append_admissible sj de [PermissionApproval a] s"
    and s1: "st_events s1 = st_events ?s1" "st_sequence s1 = st_sequence ?s1" "n1 = st_sequence s + 1"
    by (auto simp: commit_one_Inr committed_store_def Let_def)
  from two s1 have adm2: "append_admissible sj ge [CapabilityGrant g] ?s1" and n: "n = st_sequence ?s1 + 1"
    using admissible_congr [of s1 ?s1] by (simp_all add: commit_one_Inr)
  have "s' = committed_store sj ge [CapabilityGrant g] ?s1"
    using one two by (simp add: s' commit_one_Inr committed_store_def Let_def publish_events_def
        update_watermark_def update_update)
  with adm1 adm2 n show "append_event sj ge [CapabilityGrant g]
      (snd (append_event sj de [PermissionApproval a] s)) = (Inr n, s')"
    by (simp add: append_event_commits)
  from adm1 n show "fst (append_event sj de [PermissionApproval a] s) = Inr (n - 1)"
    by (simp add: append_event_commits committed_store_def Let_def)
qed

lemma decide_Inl:
  "decide_permission_approval sj i de ge a g s = (Inl e, s') \<Longrightarrow> s' = s"
  by (auto simp: decide_permission_approval_def publish_committed_def op_bind_def in_transaction_def
      split: option.splits if_splits sum.splits prod.splits)

lemma decide_guard:
  assumes "decide_permission_approval sj i de ge a g s = (Inr n, s')"
  obtains p where "lookup (st_tables s) ''permission_approvals'' [i] = Some (PermissionApproval p)"
    "appr_project_id p = appr_project_id a" "appr_status p = ''pending''"
proof -
  from assms obtain p where "approval_row s i (appr_project_id a) = Some p" "appr_status p = ''pending''"
    by (auto simp: decide_permission_approval_def publish_committed_def op_bind_def in_transaction_def
        decide_transaction_def split: option.splits if_splits sum.splits prod.splits)
  then have "lookup (st_tables s) ''permission_approvals'' [i] = Some (PermissionApproval p)
    \<and> appr_project_id p = appr_project_id a"
    by (auto simp: approval_row_def split: option.splits projection_record.splits if_splits)
  with \<open>appr_status p = ''pending''\<close> that show thesis by blast
qed

end
