(* ===== verification/Store_Invariants.thy ===== *)
theory Store_Invariants
  imports Store_Append
begin

text \<open>
  The invariant of the store and its preservation by every operation.  The recovery operations
  use the store only through \<open>append_event\<close>; the locale \<open>store_client\<close> states what they rely on
  and derives, once, that they keep any invariant \<open>append_event\<close> keeps.  It is interpreted twice:
  for the well-formedness invariant here, and for the agreement of the tables with the log in
  \<open>Store_Rebuild\<close>.
\<close>

section \<open>The invariant\<close>

fun idempotency_pair :: "event_record \<Rightarrow> (string \<times> string) list" where
  "idempotency_pair e =
     (case (ev_project_id e, ev_idempotency_key e) of (Some p, Some k) \<Rightarrow> [(p, k)] | _ \<Rightarrow> [])"

definition events_wf :: "store \<Rightarrow> bool" where
  "events_wf s \<longleftrightarrow>
     map ev_sequence (st_events s) = map int [1..<Suc (length (st_events s))]
     \<and> st_sequence s = int (length (st_events s))
     \<and> st_sequence s < 2 ^ 63
     \<and> distinct (map ev_event_id (st_events s))
     \<and> distinct (concat (map idempotency_pair (st_events s)))"

definition log_wf :: "store \<Rightarrow> bool" where
  "log_wf s \<longleftrightarrow>
     sorted (map fst (st_log s)) \<and> list_all (\<lambda>(n, row). 1 \<le> n \<and> n \<le> st_sequence s) (st_log s)"

definition watermark_wf :: "store \<Rightarrow> bool" where
  "watermark_wf s \<longleftrightarrow>
     st_watermarks s = [(''default'', st_sequence s)] \<or> (st_watermarks s = [] \<and> st_events s = [])"

definition artifacts_wf :: "store \<Rightarrow> bool" where
  "artifacts_wf s \<longleftrightarrow>
     distinct (map fst (st_artifacts s)) \<and>
     list_all (\<lambda>(i, a). art_artifact_id a = i \<and> is_persistable_artifact (art_redaction_state a))
       (st_artifacts s)"

definition attempt_ok :: "int \<Rightarrow> string \<Rightarrow> recovery_attempt \<Rightarrow> bool" where
  "attempt_ok hi i a \<longleftrightarrow>
     rec_recovery_attempt_id a = i \<and> 0 \<le> rec_started_sequence a \<and> rec_started_sequence a \<le> hi
     \<and> (case rec_completed_sequence a of
          None \<Rightarrow> rec_status a = ''started''
        | Some c \<Rightarrow> rec_status a = ''completed'' \<and> rec_started_sequence a \<le> c \<and> c \<le> hi)"

definition recoveries_wf :: "store \<Rightarrow> bool" where
  "recoveries_wf s \<longleftrightarrow>
     distinct (map fst (st_recoveries s)) \<and>
     list_all (\<lambda>(i, a). attempt_ok (st_sequence s) i a) (st_recoveries s)"

definition store_wf :: "store \<Rightarrow> bool" where
  "store_wf s \<longleftrightarrow>
     events_wf s \<and> log_wf s \<and> typed_tables (st_tables s) \<and> watermark_wf s \<and> artifacts_wf s
     \<and> recoveries_wf s \<and> broadcaster_wf (st_hub s)"

text \<open>What each part of the invariant does not depend on.\<close>

lemma store_wf_frame [simp]:
  "events_wf (s\<lparr>st_artifacts := x\<rparr>) = events_wf s" "events_wf (s\<lparr>st_recoveries := y\<rparr>) = events_wf s"
  "log_wf (s\<lparr>st_artifacts := x\<rparr>) = log_wf s" "log_wf (s\<lparr>st_recoveries := y\<rparr>) = log_wf s"
  "watermark_wf (s\<lparr>st_artifacts := x\<rparr>) = watermark_wf s"
  "watermark_wf (s\<lparr>st_recoveries := y\<rparr>) = watermark_wf s"
  "artifacts_wf (s\<lparr>st_recoveries := y\<rparr>) = artifacts_wf s"
  "recoveries_wf (s\<lparr>st_artifacts := x\<rparr>) = recoveries_wf s"
  "events_wf (s\<lparr>st_tables := t, st_watermarks := w\<rparr>) = events_wf s"
  "log_wf (s\<lparr>st_tables := t, st_watermarks := w\<rparr>) = log_wf s"
  "artifacts_wf (s\<lparr>st_tables := t, st_watermarks := w\<rparr>) = artifacts_wf s"
  "recoveries_wf (s\<lparr>st_tables := t, st_watermarks := w\<rparr>) = recoveries_wf s"
  by (simp_all add: events_wf_def log_wf_def watermark_wf_def artifacts_wf_def recoveries_wf_def)

lemma store_open_wf: "store_wf store_open"
  by (simp add: store_wf_def store_open_def events_wf_def log_wf_def watermark_wf_def artifacts_wf_def
      recoveries_wf_def broadcaster_new_wf typed_tables_empty)

section \<open>Facts that follow from the invariant\<close>

lemma fold_max_upto: "fold max (map int [Suc 0..<Suc n]) (0 :: int) = int n"
  by (induction n) auto

lemma last_sequence_eq: "events_wf s \<Longrightarrow> last_sequence s = st_sequence s"
  by (simp add: events_wf_def last_sequence_def fold_max_upto del: upt_Suc)

lemma sequences_below: "events_wf s \<Longrightarrow> e \<in> set (st_events s) \<Longrightarrow> 1 \<le> ev_sequence e \<and> ev_sequence e \<le> st_sequence s"
proof -
  assume wf: "events_wf s" and "e \<in> set (st_events s)"
  then have "ev_sequence e \<in> set (map ev_sequence (st_events s))" by simp
  also have "\<dots> = set (map int [1..<Suc (length (st_events s))])"
    using wf by (simp only: events_wf_def)
  finally show ?thesis using wf by (auto simp: events_wf_def simp del: upt_Suc)
qed

lemma taken_iff: "event_id_taken i s \<longleftrightarrow> i \<in> ev_event_id ` set (st_events s)"
  by (auto simp: event_id_taken_def find_None_iff)

lemma idempotent_None_iff:
  "find_idempotent event s = None \<longleftrightarrow>
     (\<forall>p k. nev_project_id event = Some p \<longrightarrow> nev_idempotency_key event = Some k \<longrightarrow>
        (p, k) \<notin> set (concat (map idempotency_pair (st_events s))))"
proof -
  have "find_idempotent event s = None \<longleftrightarrow>
    (\<forall>e \<in> set (st_events s). \<not> same_idempotency (nev_project_id event) (nev_idempotency_key event) e)"
    by (auto simp: find_idempotent_def find_None_iff)
  then show ?thesis
    by (fastforce simp: same_idempotency_def split: option.splits)
qed

section \<open>append_event keeps it\<close>

lemma events_wf_commit:
  assumes wf: "events_wf s" and adm: "append_admissible sj event rs s"
  shows "events_wf (committed_store sj event rs s)"
proof -
  let ?e = "committed_event_record (st_sequence s + 1) event"
  have ev: "st_events (committed_store sj event rs s) = st_events s @ [?e]"
    "st_sequence (committed_store sj event rs s) = st_sequence s + 1"
    by (simp_all add: committed_store_def Let_def)
  have "ev_event_id ?e \<notin> ev_event_id ` set (st_events s)"
    using adm by (simp add: append_admissible_def taken_iff committed_event_record_def)
  moreover have "distinct (concat (map idempotency_pair (st_events s @ [?e])))"
    using adm wf idempotent_None_iff [of event s]
    by (auto simp: append_admissible_def events_wf_def committed_event_record_def
        simp del: upt_Suc split: option.splits)
  moreover have "ev_sequence ?e = int (Suc (length (st_events s)))"
    using wf by (simp add: events_wf_def committed_event_record_def)
  ultimately show ?thesis
    using wf adm unfolding events_wf_def ev by (simp add: append_admissible_def)
qed

lemma log_wf_commit:
  assumes "log_wf s" "events_wf s"
  shows "log_wf (committed_store sj event rs s)"
proof -
  let ?n = "st_sequence s + 1"
  let ?new = "map (\<lambda>r. (?n, projection_record_to_row sj r)) rs"
  have log: "st_log (committed_store sj event rs s) = st_log s @ ?new"
    "st_sequence (committed_store sj event rs s) = ?n"
    by (simp_all add: committed_store_def Let_def)
  have "sorted (map fst ?new)" by (induction rs) auto
  moreover have "\<forall>x \<in> set (map fst (st_log s)). x \<le> ?n"
    using assms(1) by (fastforce simp: log_wf_def list_all_iff)
  ultimately have "sorted (map fst (st_log s @ ?new))"
    using assms(1) by (simp add: log_wf_def sorted_append)
  moreover have "list_all (\<lambda>(n, row). 1 \<le> n \<and> n \<le> ?n) (st_log s @ ?new)"
    using assms by (fastforce simp: log_wf_def events_wf_def list_all_iff simp del: upt_Suc)
  ultimately show ?thesis by (simp only: log_wf_def log)
qed

lemma typed_tables_fold: "typed_tables db \<Longrightarrow> typed_tables (fold (row_effect n) rs db)"
  by (induction rs arbitrary: db) (simp_all add: typed_tables_row_effect)

lemma attempt_ok_mono: "attempt_ok n i a \<Longrightarrow> n \<le> m \<Longrightarrow> attempt_ok m i a"
  by (auto simp: attempt_ok_def split: option.splits)

lemma recoveries_wf_mono:
  assumes "recoveries_wf s" "st_recoveries s' = st_recoveries s" "st_sequence s \<le> st_sequence s'"
  shows "recoveries_wf s'"
proof -
  have "\<forall>(i, a) \<in> set (st_recoveries s). attempt_ok (st_sequence s') i a"
    using assms(1,3) attempt_ok_mono by (auto simp: recoveries_wf_def list_all_iff)
  with assms(1,2) show ?thesis by (simp add: recoveries_wf_def list_all_iff)
qed

lemma store_wf_commit:
  assumes "store_wf s" and "append_admissible sj event rs s"
  shows "store_wf (committed_store sj event rs s)"
proof -
  from assms(1) have wf: "watermark_wf s" "artifacts_wf s" "recoveries_wf s"
      "typed_tables (st_tables s)" "broadcaster_wf (st_hub s)"
    by (simp_all add: store_wf_def)
  have "watermark_wf (committed_store sj event rs s)"
    using wf(1) by (auto simp: watermark_wf_def committed_store_def Let_def)
  moreover have "artifacts_wf (committed_store sj event rs s)"
    using wf(2) by (simp add: artifacts_wf_def committed_store_def Let_def)
  moreover have "recoveries_wf (committed_store sj event rs s)"
    by (rule recoveries_wf_mono [OF wf(3)]) (simp_all add: committed_store_def Let_def)
  moreover have "typed_tables (st_tables (committed_store sj event rs s))"
    using wf(4) by (simp add: committed_store_def Let_def typed_tables_fold)
  moreover have "broadcaster_wf (st_hub (committed_store sj event rs s))"
    using wf(5) by (simp add: committed_store_def Let_def publish_wf)
  ultimately show ?thesis
    using assms by (simp add: store_wf_def events_wf_commit log_wf_commit)
qed

lemma store_wf_append: "store_wf s \<Longrightarrow> store_wf (snd (append_event sj event rs s))"
  by (rule append_event_outcome [of event s sj rs]) (simp_all add: store_wf_commit)

section \<open>Clients of append_event\<close>

lemma op_bind_keeps:
  assumes "I (snd (m s))" and "\<And>a t. I t \<Longrightarrow> I (snd (f a t))"
  shows "I (snd (op_bind m f s))"
  using assms by (auto simp: op_bind_def split: prod.splits sum.splits)

lemma op_return_keeps: "I s \<Longrightarrow> I (snd (op_return a s))"
  by (simp add: op_return_def)

lemma op_map_keeps:
  assumes "\<And>x t. x \<in> set xs \<Longrightarrow> I t \<Longrightarrow> I (snd (f x t))" and "I s"
  shows "I (snd (op_map f xs s))"
  using assms
proof (induction xs arbitrary: s)
  case (Cons x xs)
  then show ?case
    by (auto intro!: op_bind_keeps [where I = I] op_return_keeps [where I = I])
qed (simp add: op_return_def)

definition run_row :: "string \<Rightarrow> string \<Rightarrow> string \<Rightarrow> run_projection" where
  "run_row run_id session_id status =
     \<lparr>run_run_id = run_id, run_session_id = session_id, run_status = status,
      run_recovery_of_run_id = None, run_updated_sequence = 0\<rparr>"

locale store_client =
  fixes sj :: serde and inv :: "store \<Rightarrow> bool" and ok :: "projection_record \<Rightarrow> bool"
  assumes append_keeps: "inv s \<Longrightarrow> list_all ok rs \<Longrightarrow> inv (snd (append_event sj event rs s))"
    and fresh_run_ok: "id_ok i \<Longrightarrow> id_ok j \<Longrightarrow> ok (Run (run_row i j status))"
    and stored_run_ok:
      "inv s \<Longrightarrow> (k, Run r) \<in> set (st_tables s ''runs'') \<Longrightarrow> ok (Run (r\<lparr>run_status := status\<rparr>))"
begin

lemma reap_event_keeps:
  assumes "id_ok (reap_run_id obs)" "id_ok (reap_session_id obs)" "inv s"
  shows "inv (snd (append_recovery_event sj p a kind status slug obs s))"
  using assms fresh_run_ok [of "reap_run_id obs" "reap_session_id obs" status]
  by (simp add: append_recovery_event_def Let_def append_keeps run_row_def)

lemma reap_keeps:
  assumes "list_all (\<lambda>obs. id_ok (reap_run_id obs) \<and> id_ok (reap_session_id obs)) observations"
    and "inv s"
  shows "inv (snd (reap_orphaned_runs sj p a observations s))"
  unfolding reap_orphaned_runs_def
proof (rule op_map_keeps [where I = inv])
  fix obs t
  assume "obs \<in> set observations" "inv t"
  with assms(1) show "inv (snd (reap_orphaned_run sj p a obs t))"
    unfolding reap_orphaned_run_def
    by (intro op_bind_keeps [where I = inv] op_return_keeps [where I = inv])
      (auto simp: list_all_iff reap_event_keeps op_return_def)
qed (fact assms(2))

lemma recovery_event_keeps:
  assumes "id_ok (rcv_run_id obs)" "id_ok (rcv_session_id obs)" "inv s"
  shows "inv (snd (append_run_recovery_event sj p a kind status slug obs s))"
  using assms fresh_run_ok [of "rcv_run_id obs" "rcv_session_id obs" status]
  by (simp add: append_run_recovery_event_def Let_def append_keeps run_row_def)

lemma recover_keeps:
  assumes "list_all (\<lambda>obs. id_ok (rcv_run_id obs) \<and> id_ok (rcv_session_id obs)) observations"
    and "inv s"
  shows "inv (snd (recover_inflight_runs sj p a observations s))"
  unfolding recover_inflight_runs_def
proof (rule op_map_keeps [where I = inv])
  fix obs t
  assume "obs \<in> set observations" "inv t"
  with assms(1) show "inv (snd (recover_inflight_run sj p a obs t))"
    unfolding recover_inflight_run_def
    by (intro op_bind_keeps [where I = inv] op_return_keeps [where I = inv] op_map_keeps [where I = inv])
      (auto simp: list_all_iff recovery_event_keeps)
qed (fact assms(2))

lemma active_runs_stored:
  assumes "r \<in> set (active_looking_runs_for_project p s)"
  shows "\<exists>k. (k, Run r) \<in> set (st_tables s ''runs'')"
proof -
  from assms obtain row where "row \<in> set (rows (st_tables s) ''runs'')" "r \<in> set (run_of_row row)"
    by (auto simp: active_looking_runs_for_project_def)
  moreover from this(2) have "row = Run r" by (cases row) simp_all
  ultimately show ?thesis by (auto simp: rows_def)
qed

lemma mark_keeps:
  assumes "inv s"
  shows "inv (snd (mark_active_runs_exited_unknown sj p a s))"
  unfolding mark_active_runs_exited_unknown_def
proof (rule op_map_keeps [where I = inv])
  fix r t
  assume "r \<in> set (active_looking_runs_for_project p s)" "inv t"
  moreover from this(1) have "ok (Run (r\<lparr>run_status := ''exited_unknown''\<rparr>))"
    using active_runs_stored stored_run_ok [OF assms] by blast
  ultimately show "inv (snd (mark_run_exited_unknown sj p a r t))"
    unfolding mark_run_exited_unknown_def Let_def
    by (intro op_bind_keeps [where I = inv] op_return_keeps [where I = inv]) (simp_all add: append_keeps)
qed (fact assms)

lemma decide_keeps:
  assumes "inv s" "ok (PermissionApproval a)" "opt_all (\<lambda>gr. ok (CapabilityGrant gr)) g"
  shows "inv (snd (decide_permission_approval sj i de ge a g s))"
proof (cases "decide_permission_approval sj i de ge a g s")
  case (Pair r s')
  have one: "inv (snd (append_event sj de [PermissionApproval a] s))"
    using assms by (simp add: append_keeps)
  show ?thesis
  proof (cases r)
    case (Inl e)
    with Pair decide_Inl [of sj i de ge a g s e s'] assms(1) show ?thesis by simp
  next
    case (Inr n)
    show ?thesis
    proof (cases "ge = None \<or> g = None")
      case True
      with Pair Inr decide_Inr_one [of sj i de ge a g s n s'] one show ?thesis by simp
    next
      case False
      then obtain ge' g' where "ge = Some ge'" "g = Some g'" by auto
      with Pair Inr decide_Inr_two(1) [of sj i de ge' a g' s n s'] assms(3)
        append_keeps [OF one, of "[CapabilityGrant g']" ge'] show ?thesis by simp
    qed
  qed
qed

end

interpretation wfc: store_client sj store_wf "\<lambda>_. True" for sj
  by unfold_locales (simp_all add: store_wf_append)

section \<open>The other operations\<close>

lemma record_artifact_wf:
  assumes "store_wf s"
  shows "store_wf (snd (record_artifact a s))"
proof -
  from assms have "artifacts_wf s" by (simp add: store_wf_def)
  then have "artifacts_wf (snd (record_artifact a s))"
    by (auto simp: artifacts_wf_def record_artifact_def list_all_iff distinct_map_filter)
  with assms show ?thesis by (simp add: store_wf_def record_artifact_def)
qed

lemma recoveries_only_wf:
  assumes "store_wf s" and "distinct (map fst rs)"
    and "list_all (\<lambda>(i, a). attempt_ok (st_sequence s) i a) rs"
  shows "store_wf (s\<lparr>st_recoveries := rs\<rparr>)"
proof -
  have "recoveries_wf (s\<lparr>st_recoveries := rs\<rparr>)"
    using assms(2,3) by (simp add: recoveries_wf_def)
  with assms(1) show ?thesis by (simp add: store_wf_def)
qed

lemma events_wf_nonneg: "events_wf s \<Longrightarrow> 0 \<le> st_sequence s"
  by (simp add: events_wf_def)

lemma begin_recovery_wf: "store_wf s \<Longrightarrow> store_wf (snd (begin_recovery i s))"
proof (cases "map_of (st_recoveries s) i")
  case None
  assume wf: "store_wf s"
  then have "events_wf s" "recoveries_wf s" by (simp_all add: store_wf_def)
  with wf None show ?thesis
    by (auto simp: begin_recovery_def Let_def recoveries_wf_def attempt_ok_def last_sequence_eq
        events_wf_nonneg map_of_eq_None_iff intro!: recoveries_only_wf)
qed (simp add: begin_recovery_def Let_def)

lemma complete_recovery_wf: "store_wf s \<Longrightarrow> store_wf (snd (complete_recovery i s))"
proof (cases "map_of (st_recoveries s) i")
  case (Some a)
  assume wf: "store_wf s"
  then have ev: "events_wf s" and rec: "recoveries_wf s" by (simp_all add: store_wf_def)
  have "attempt_ok (st_sequence s) i a"
    using rec map_of_SomeD [OF Some] by (auto simp: recoveries_wf_def list_all_iff)
  then have new: "attempt_ok (st_sequence s) i
      \<lparr>rec_recovery_attempt_id = i, rec_status = ''completed'',
       rec_started_sequence = rec_started_sequence a, rec_completed_sequence = Some (st_sequence s)\<rparr>"
    by (simp add: attempt_ok_def)
  have "list_all (\<lambda>(i, a). attempt_ok (st_sequence s) i a) (AList.update i b (st_recoveries s))"
    if "attempt_ok (st_sequence s) i b" for b
    using rec that set_update_subset [of i b "st_recoveries s"]
    by (auto simp: recoveries_wf_def list_all_iff)
  with wf rec new show ?thesis
    by (simp add: complete_recovery_def Let_def Some last_sequence_eq [OF ev] recoveries_only_wf
        recoveries_wf_def distinct_update)
qed (simp add: complete_recovery_def)

end
