(* ===== verification/Store_Rebuild.thy ===== *)
theory Store_Rebuild
  imports Store_Invariants
begin

text \<open>
  Rebuilding the read models from the projection log, and the step relation of the whole store.
  The tables a store has accumulated by applying records one event at a time are exactly the tables a
  replay of its log computes (\<open>replay_inv\<close>), as long as every record appended is one the codec
  restores (\<open>replay_faithful\<close>); then \<open>rebuild_projections\<close> changes nothing.
\<close>

section \<open>What a rebuild computes\<close>

definition replay_tables ::
  "serde \<Rightarrow> (int \<times> projection_record_row) list \<Rightarrow> tables \<Rightarrow> (state_error, tables) result" where
  "replay_tables sj log db =
     try_fold (\<lambda>db (n, row). and_then (decode_logged sj row) (\<lambda>r. apply_projection_record sj n r db)) db log"

lemma replay_tables_simps [store_simps]:
  "replay_tables sj [] db = Inr db"
  "replay_tables sj ((n, row) # log) db =
     and_then (decode_logged sj row) (\<lambda>r.
     and_then (apply_projection_record sj n r db) (replay_tables sj log))"
  "replay_tables sj (log1 @ log2) db = and_then (replay_tables sj log1 db) (replay_tables sj log2)"
proof -
  show "replay_tables sj ((n, row) # log) db =
     and_then (decode_logged sj row) (\<lambda>r.
     and_then (apply_projection_record sj n r db) (replay_tables sj log))"
  proof (cases "decode_logged sj row")
    case (Inr r)
    then show ?thesis
      by (cases "apply_projection_record sj n r db") (simp_all add: replay_tables_def)
  qed (simp add: replay_tables_def)
  show "replay_tables sj (log1 @ log2) db = and_then (replay_tables sj log1 db) (replay_tables sj log2)"
    by (cases "replay_tables sj log1 db") (simp_all add: replay_tables_def try_fold_append)
qed (simp add: replay_tables_def)

lemma replay_rows:
  "try_fold (replay_row sj) s log =
     and_then (replay_tables sj log (st_tables s)) (\<lambda>db.
     Inr (s\<lparr>st_tables := db,
            st_watermarks := fold (\<lambda>(n, row). AList.update ''default'' n) log (st_watermarks s)\<rparr>))"
proof (induction log arbitrary: s)
  case (Cons x log)
  obtain n row where x: "x = (n, row)" by fastforce
  show ?case
  proof (cases "decode_logged sj row")
    case (Inr r)
    then show ?thesis
      by (cases "apply_projection_record sj n r (st_tables s)")
        (simp_all add: x Cons.IH replay_row_def [of sj s] store_simps update_watermark_def)
  qed (simp add: x replay_row_def [of sj s] store_simps)
qed (simp add: store_simps)

lemma watermark_fold:
  "AList.update k m (fold (\<lambda>(n, row). AList.update k n) log []) = [(k, m)]"
proof -
  have "fold (\<lambda>(n, row). AList.update k n) log w \<in> {w, []} \<union> range (\<lambda>n. [(k, n)])"
    if "w \<in> {[]} \<union> range (\<lambda>n. [(k, n)])" for w
    using that
  proof (induction log arbitrary: w)
    case (Cons x log)
    obtain n row where "x = (n, row)" by fastforce
    with Cons.prems Cons.IH [of "AList.update k n w"] show ?case by auto
  qed simp
  from this [of "[]"] show ?thesis by auto
qed

lemma rebuild_cases:
  "rebuild_projections sj s =
     (case replay_tables sj (sort_key fst (st_log s)) (clear_tables (st_tables s)) of
        Inl e \<Rightarrow> (Inl e, s)
      | Inr db \<Rightarrow> (Inr (), s\<lparr>st_tables := db, st_watermarks := [(''default'', last_sequence s)]\<rparr>))"
proof -
  have last: "last_sequence (s\<lparr>st_tables := db, st_watermarks := w\<rparr>) = last_sequence s" for db w
    by (simp add: last_sequence_def)
  show ?thesis
    by (cases "replay_tables sj (sort_key fst (st_log s)) (clear_tables (st_tables s))")
      (simp_all add: rebuild_projections_def in_transaction_def rebuild_transaction_def replay_rows
        clear_projection_tables_def update_watermark_def watermark_fold last)
qed

lemma clear_typed: "typed_tables db \<Longrightarrow> clear_tables db = (\<lambda>_. [])"
proof (rule ext)
  fix t
  assume typed: "typed_tables db"
  show "clear_tables db t = []"
  proof (cases "db t")
    case (Cons x xs)
    with typed obtain k r where "(k, r) \<in> set (db t)" "row_ok t k r"
      by (cases x) (fastforce simp: typed_tables_def list_all_iff)
    then have "t \<in> set projection_table_names"
      using table_of_listed by (auto simp: row_ok_def)
    then show ?thesis by (simp add: clear_tables_apply)
  qed (simp add: clear_tables_apply)
qed

section \<open>A rebuild keeps the invariant\<close>

lemma typed_replay: "typed_tables db \<Longrightarrow> replay_tables sj log db = Inr db' \<Longrightarrow> typed_tables db'"
proof (induction log arbitrary: db)
  case (Cons x log)
  then show ?case
    by (cases x)
      (auto simp: store_simps and_then_Inr_iff apply_Inr_iff intro: Cons.IH [OF typed_tables_row_effect])
qed (simp add: store_simps)

lemma rebuild_wf: 
  assumes "store_wf s"
  shows "store_wf (snd (rebuild_projections sj s))"
proof (cases "replay_tables sj (sort_key fst (st_log s)) (clear_tables (st_tables s))")
  case (Inr db)
  from assms have "typed_tables (st_tables s)" "last_sequence s = st_sequence s"
    by (simp_all add: store_wf_def last_sequence_eq)
  with Inr have "typed_tables db"
    using typed_replay [OF typed_tables_empty] by (simp add: clear_typed)
  moreover have "watermark_wf (s\<lparr>st_tables := db, st_watermarks := [(''default'', st_sequence s)]\<rparr>)"
    by (simp add: watermark_wf_def)
  ultimately show ?thesis
    using assms \<open>last_sequence s = st_sequence s\<close> by (simp add: rebuild_cases Inr store_wf_def)
qed (simp add: rebuild_cases assms)

section \<open>The tables agree with the log\<close>

definition rows_faithful :: "serde \<Rightarrow> tables \<Rightarrow> bool" where
  "rows_faithful sj db \<longleftrightarrow> (\<forall>t. list_all (\<lambda>(k, r). replay_faithful sj r) (db t))"

definition replay_inv :: "serde \<Rightarrow> store \<Rightarrow> bool" where
  "replay_inv sj s \<longleftrightarrow>
     replay_tables sj (st_log s) (\<lambda>_. []) = Inr (st_tables s) \<and> rows_faithful sj (st_tables s)"

lemma replay_faithful_sequence [simp]: "replay_faithful sj (with_sequence n r) = replay_faithful sj r"
  by (cases r) (simp_all add: replay_faithful_def wf_simps approval_text_ok_def)

lemma rows_faithful_effect:
  assumes "rows_faithful sj db" "replay_faithful sj r"
  shows "rows_faithful sj (row_effect n r db)"
proof (cases "is_reset r")
  case True
  then obtain p where "r = WorkpadIndexReset p" by (cases r) simp_all
  with assms(1) show ?thesis
    by (auto simp: row_effect_def rows_faithful_def delete_where_def list_all_iff)
next
  case False
  have "set (AList.update (key_of r) (with_sequence n r) (db (table_of r)))
      \<subseteq> insert (key_of r, with_sequence n r) (set (db (table_of r)))"
    by (rule set_update_subset)
  moreover have "\<forall>(k, x) \<in> insert (key_of r, with_sequence n r) (set (db (table_of r))). replay_faithful sj x"
    using assms by (auto simp: rows_faithful_def list_all_iff)
  ultimately have "list_all (\<lambda>(k, x). replay_faithful sj x)
      (AList.update (key_of r) (with_sequence n r) (db (table_of r)))"
    unfolding list_all_iff by blast
  with assms False show ?thesis
    by (simp add: row_effect_upsert upsert_def rows_faithful_def)
qed

lemma replay_encoded:
  assumes sj: "serde_json_text sj"
  shows "list_all (replay_faithful sj) rs \<Longrightarrow> list_all (json_columns_ok sj) rs \<Longrightarrow>
    replay_tables sj (map (\<lambda>r. (n, projection_record_to_row sj r)) rs) db = Inr (fold (row_effect n) rs db)"
proof (induction rs arbitrary: db)
  case (Cons r rs)
  then have "decode_logged sj (projection_record_to_row sj r) = Inr (with_sequence 0 r)"
    by (simp add: decode_logged_def projection_record_roundtrip [OF sj])
  with Cons show ?case by (simp add: store_simps apply_ok row_effect_cong)
qed (simp add: store_simps)

lemma rows_faithful_fold:
  "rows_faithful sj db \<Longrightarrow> list_all (replay_faithful sj) rs \<Longrightarrow>
     rows_faithful sj (fold (row_effect n) rs db)"
  by (induction rs arbitrary: db) (simp_all add: rows_faithful_effect)

lemma replay_inv_append:
  assumes sj: "serde_json_text sj" and "replay_inv sj s" "list_all (replay_faithful sj) rs"
  shows "replay_inv sj (snd (append_event sj event rs s))"
proof (rule append_event_outcome [of event s sj rs])
  assume adm: "append_admissible sj event rs s"
    and eq: "append_event sj event rs s = (Inr (st_sequence s + 1), committed_store sj event rs s)"
  from adm have "list_all (json_columns_ok sj) rs" by (simp add: append_admissible_def)
  with assms eq show ?thesis
    by (simp add: replay_inv_def committed_store_def Let_def store_simps replay_encoded [OF sj]
        rows_faithful_fold)
qed (use assms in simp_all)

lemma run_faithful: "replay_faithful sj (Run r) \<longleftrightarrow> run_wf r"
  by (simp add: replay_faithful_def)

lemma replay_client: "serde_json_text sj \<Longrightarrow> store_client sj (replay_inv sj) (replay_faithful sj)"
proof
  fix s :: store and k r status
  assume "replay_inv sj s" "(k, Run r) \<in> set (st_tables s ''runs'')"
  then have "replay_faithful sj (Run r)"
    by (fastforce simp: replay_inv_def rows_faithful_def list_all_iff)
  then show "replay_faithful sj (Run (r\<lparr>run_status := status\<rparr>))"
    by (simp add: run_faithful run_wf_def)
qed (simp_all add: replay_inv_append run_faithful run_wf_def run_row_def)

lemma replay_inv_frame [simp]:
  "replay_inv sj (s\<lparr>st_artifacts := x\<rparr>) = replay_inv sj s"
  "replay_inv sj (s\<lparr>st_recoveries := y\<rparr>) = replay_inv sj s"
  "replay_inv sj (s\<lparr>st_watermarks := w\<rparr>) = replay_inv sj s"
  "replay_inv sj (s\<lparr>st_hub := b\<rparr>) = replay_inv sj s"
  by (simp_all add: replay_inv_def)

lemma rebuild_exact:
  assumes "store_wf s" "replay_inv sj s"
  shows "rebuild_projections sj s = (Inr (), s\<lparr>st_watermarks := [(''default'', st_sequence s)]\<rparr>)"
proof -
  have "sort_key fst (st_log s) = st_log s"
    using assms(1) by (simp add: store_wf_def log_wf_def sort_key_id_if_sorted)
  moreover have "clear_tables (st_tables s) = (\<lambda>_. [])" "last_sequence s = st_sequence s"
    using assms(1) by (simp_all add: store_wf_def clear_typed last_sequence_eq)
  ultimately show ?thesis
    using assms(2) by (simp add: rebuild_cases replay_inv_def)
qed

lemma rebuild_identity:
  assumes "store_wf s" "replay_inv sj s" "st_events s \<noteq> []"
  shows "rebuild_projections sj s = (Inr (), s)"
proof -
  have "st_watermarks s = [(''default'', st_sequence s)]"
    using assms(1,3) by (simp add: store_wf_def watermark_wf_def)
  then have "s\<lparr>st_watermarks := [(''default'', st_sequence s)]\<rparr> = s" by simp
  with rebuild_exact [OF assms(1,2)] show ?thesis by simp
qed

end
