(* ===== verification/Store_Machine.thy ===== *)
theory Store_Machine
  imports Store_Rebuild "HOL-Library.Sublist"
begin

text \<open>
  The store as a state machine: one rule per operation of \<open>SqliteStateStore\<close> that changes
  state and per operation of its broadcast hub, and what holds of every reachable store.  The
  parameter \<open>P\<close> of the relation restricts the projection records that callers hand in: \<open>\<lambda>_. True\<close>
  for the invariants that need nothing of them, \<open>replay_faithful sj\<close> for those about rebuilding.
  The recovery rules ask only for the non-blank identifiers that a typed identifier guarantees.
\<close>

section \<open>Steps\<close>

inductive store_step :: "serde \<Rightarrow> (projection_record \<Rightarrow> bool) \<Rightarrow> store \<Rightarrow> store \<Rightarrow> bool"
  for sj :: serde and P :: "projection_record \<Rightarrow> bool" where
  step_append:
    "list_all P rs \<Longrightarrow> store_step sj P s (snd (append_event sj event rs s))"
| step_decide:
    "P (PermissionApproval a) \<Longrightarrow> opt_all (\<lambda>g. P (CapabilityGrant g)) g \<Longrightarrow>
     store_step sj P s (snd (decide_permission_approval sj i de ge a g s))"
| step_mark: "store_step sj P s (snd (mark_active_runs_exited_unknown sj p attempt s))"
| step_reap:
    "list_all (\<lambda>obs. id_ok (reap_run_id obs) \<and> id_ok (reap_session_id obs)) reaps \<Longrightarrow>
     store_step sj P s (snd (reap_orphaned_runs sj p attempt reaps s))"
| step_recover:
    "list_all (\<lambda>obs. id_ok (rcv_run_id obs) \<and> id_ok (rcv_session_id obs)) recoveries \<Longrightarrow>
     store_step sj P s (snd (recover_inflight_runs sj p attempt recoveries s))"
| step_artifact: "store_step sj P s (snd (record_artifact artifact s))"
| step_rebuild: "store_step sj P s (snd (rebuild_projections sj s))"
| step_begin: "store_step sj P s (snd (begin_recovery attempt s))"
| step_complete: "store_step sj P s (snd (complete_recovery attempt s))"
| step_subscribe: "store_step sj P s (s\<lparr>st_hub := snd (subscribe (st_hub s))\<rparr>)"
| step_drain: "store_step sj P s (s\<lparr>st_hub := snd (drain_pending c (st_hub s))\<rparr>)"
| step_drop: "store_step sj P s (s\<lparr>st_hub := drop_subscription c (st_hub s)\<rparr>)"

inductive_cases store_stepE: "store_step sj P s s'"

inductive store_reachable :: "serde \<Rightarrow> (projection_record \<Rightarrow> bool) \<Rightarrow> store \<Rightarrow> bool"
  for sj :: serde and P :: "projection_record \<Rightarrow> bool" where
  reach_open: "store_reachable sj P store_open"
| reach_step: "store_reachable sj P s \<Longrightarrow> store_step sj P s s' \<Longrightarrow> store_reachable sj P s'"

section \<open>The invariant holds in every reachable store\<close>

lemma drain_wf: "broadcaster_wf b \<Longrightarrow> broadcaster_wf (snd (drain_pending c b))"
  by (auto simp: broadcaster_wf_def drain_pending_def list_all_iff comp_def case_prod_beta
      split: option.splits)

lemma drop_wf: "broadcaster_wf b \<Longrightarrow> broadcaster_wf (drop_subscription c b)"
  by (auto simp: broadcaster_wf_def drop_subscription_def list_all_iff comp_def case_prod_beta)

lemma store_wf_hub: "store_wf s \<Longrightarrow> broadcaster_wf b \<Longrightarrow> store_wf (s\<lparr>st_hub := b\<rparr>)"
proof -
  have "events_wf (s\<lparr>st_hub := b\<rparr>) = events_wf s" "log_wf (s\<lparr>st_hub := b\<rparr>) = log_wf s"
    "watermark_wf (s\<lparr>st_hub := b\<rparr>) = watermark_wf s" "artifacts_wf (s\<lparr>st_hub := b\<rparr>) = artifacts_wf s"
    "recoveries_wf (s\<lparr>st_hub := b\<rparr>) = recoveries_wf s"
    by (simp_all add: events_wf_def log_wf_def watermark_wf_def artifacts_wf_def recoveries_wf_def)
  then show "store_wf s \<Longrightarrow> broadcaster_wf b \<Longrightarrow> ?thesis" by (simp add: store_wf_def)
qed

lemma store_wf_broadcaster: "store_wf s \<Longrightarrow> broadcaster_wf (st_hub s)"
  by (simp add: store_wf_def)

lemma store_step_wf: "store_step sj P s s' \<Longrightarrow> store_wf s \<Longrightarrow> store_wf s'"
proof (induction rule: store_step.induct)
  case (step_decide a g s i de ge)
  then show ?case
    by (intro wfc.decide_keeps) (simp_all add: opt_all_def split: option.splits)
qed (simp_all add: store_wf_append wfc.mark_keeps wfc.reap_keeps wfc.recover_keeps record_artifact_wf
  rebuild_wf begin_recovery_wf complete_recovery_wf store_wf_hub subscribe_wf drain_wf drop_wf
  store_wf_broadcaster)

lemma reachable_wf: "store_reachable sj P s \<Longrightarrow> store_wf s"
  by (induction rule: store_reachable.induct) (auto simp: store_open_wf store_step_wf)

section \<open>The log only grows\<close>

definition extends_log :: "store \<Rightarrow> store \<Rightarrow> bool" where
  "extends_log s t \<longleftrightarrow>
     prefix (st_events s) (st_events t) \<and> prefix (st_log s) (st_log t) \<and> st_sequence s \<le> st_sequence t"

lemma extends_log_refl [simp]: "extends_log s s"
  by (simp add: extends_log_def)

lemma extends_log_trans [trans]: "extends_log s t \<Longrightarrow> extends_log t u \<Longrightarrow> extends_log s u"
  by (auto simp: extends_log_def intro: prefix_order.trans)

lemma append_extends: "extends_log s (snd (append_event sj event rs s))"
  by (rule append_event_outcome [of event s sj rs])
    (simp_all add: extends_log_def committed_store_def Let_def)

interpretation ext: store_client sj "extends_log s0" "\<lambda>_. True" for sj s0
  by unfold_locales (auto intro: extends_log_trans append_extends)

lemma step_extends: "store_step sj P s s' \<Longrightarrow> extends_log s s'"
proof (induction rule: store_step.induct)
  case (step_append rs s event)
  show ?case by (rule append_extends)
next
  case (step_decide a g s i de ge)
  show ?case by (rule ext.decide_keeps) (simp_all add: opt_all_def split: option.splits)
next
  case (step_reap reaps s p attempt)
  then show ?case by (intro ext.reap_keeps) simp_all
next
  case (step_recover recoveries s p attempt)
  then show ?case by (intro ext.recover_keeps) simp_all
next
  case (step_mark s p attempt)
  show ?case by (rule ext.mark_keeps) simp
qed (auto simp: extends_log_def record_artifact_def begin_recovery_def complete_recovery_def
  rebuild_cases Let_def split: option.splits sum.splits)

section \<open>Rebuilding a reachable store\<close>

lemma step_replay:
  assumes sj: "serde_json_text sj" and "store_step sj (replay_faithful sj) s s'"
    and "store_wf s" "replay_inv sj s"
  shows "replay_inv sj s'"
  using assms(2-4)
proof (induction rule: store_step.induct)
  case (step_append rs s event)
  then show ?case by (simp add: replay_inv_append [OF sj])
next
  case (step_decide a g s i de ge)
  then show ?case by (intro store_client.decide_keeps [OF replay_client [OF sj]])
next
  case (step_mark s p attempt)
  then show ?case by (intro store_client.mark_keeps [OF replay_client [OF sj]])
next
  case (step_reap reaps s p attempt)
  then show ?case by (intro store_client.reap_keeps [OF replay_client [OF sj]])
next
  case (step_recover recoveries s p attempt)
  then show ?case by (intro store_client.recover_keeps [OF replay_client [OF sj]])
next
  case (step_rebuild s)
  then show ?case by (simp add: rebuild_exact)
qed (simp_all add: record_artifact_def begin_recovery_def complete_recovery_def Let_def split: option.splits)

lemma reachable_replay:
  assumes sj: "serde_json_text sj" and "store_reachable sj (replay_faithful sj) s"
  shows "store_wf s \<and> replay_inv sj s"
  using assms(2)
proof (induction rule: store_reachable.induct)
  case reach_open
  have "replay_inv sj store_open"
    by (simp add: replay_inv_def store_open_def store_simps rows_faithful_def)
  then show ?case by (simp add: store_open_wf)
next
  case (reach_step s s')
  then show ?case using store_step_wf step_replay [OF sj] by blast
qed

end
