(* ===== verification/Store_Recovery.thy ===== *)
theory Store_Recovery
  imports Store_Machine
begin

text \<open>
  Restart recovery is idempotent and ends where it says it does.  \<open>replays m m'\<close> relates an
  operation to one that repeats it: whenever \<open>m\<close> has succeeded, \<open>m'\<close>, run at any later time, returns
  the same value and changes nothing.  Appends with the same idempotency key are so related, and the
  relation is closed under sequencing, so it carries over to a whole recovery sweep.
\<close>

section \<open>Repeating an operation\<close>

definition replays :: "'a op \<Rightarrow> 'a op \<Rightarrow> bool" where
  "replays m m' \<longleftrightarrow>
     (\<forall>s a s'. m s = (Inr a, s') \<longrightarrow> extends_log s s' \<and> (\<forall>t. extends_log s' t \<longrightarrow> m' t = (Inr a, t)))"

lemma replaysI:
  assumes "\<And>s a s'. m s = (Inr a, s') \<Longrightarrow> extends_log s s'"
    and "\<And>s a s' t. m s = (Inr a, s') \<Longrightarrow> extends_log s' t \<Longrightarrow> m' t = (Inr a, t)"
  shows "replays m m'"
  using assms by (auto simp: replays_def)

lemma replaysD:
  assumes "replays m m'" "m s = (Inr a, s')"
  shows "extends_log s s'" and "extends_log s' t \<Longrightarrow> m' t = (Inr a, t)"
  using assms by (auto simp: replays_def)

lemma replays_return: "replays (op_return a) (op_return a)"
  by (auto simp: replays_def op_return_def)

lemma op_bind_Inr:
  "op_bind m f s = (Inr b, s') \<longleftrightarrow> (\<exists>a t. m s = (Inr a, t) \<and> f a t = (Inr b, s'))"
  by (auto simp: op_bind_def split: prod.splits sum.splits)

lemma replays_bind:
  assumes m: "replays m m'" and f: "\<And>a. replays (f a) (f' a)"
  shows "replays (op_bind m f) (op_bind m' f')"
proof (rule replaysI)
  fix s b s'
  assume "op_bind m f s = (Inr b, s')"
  then obtain a u where a: "m s = (Inr a, u)" "f a u = (Inr b, s')" by (auto simp: op_bind_Inr)
  then have su: "extends_log s u" and us: "extends_log u s'"
    using replaysD(1) [OF m] replaysD(1) [OF f] by blast+
  then show "extends_log s s'" by (rule extends_log_trans)
  fix t
  assume "extends_log s' t"
  with us have "m' t = (Inr a, t)" "f' a t = (Inr b, t)"
    using a replaysD(2) [OF m] replaysD(2) [OF f] extends_log_trans by blast+
  then show "op_bind m' f' t = (Inr b, t)" by (simp add: op_bind_def)
qed

lemma replays_map:
  assumes "\<And>x. x \<in> set xs \<Longrightarrow> replays (f x) (f' x)"
  shows "replays (op_map f xs) (op_map f' xs)"
  using assms by (induction xs) (auto intro!: replays_bind replays_return)

lemma find_prefix: "prefix xs ys \<Longrightarrow> find P xs = Some x \<Longrightarrow> find P ys = Some x"
proof -
  have "find P xs = Some x \<Longrightarrow> find P (xs @ zs) = Some x" for zs
    by (induction xs) (auto split: if_splits)
  then show "prefix xs ys \<Longrightarrow> find P xs = Some x \<Longrightarrow> ?thesis" by (auto simp: prefix_def)
qed

lemma find_idempotent_extends:
  assumes "find_idempotent event s = Some n" "extends_log s t"
  shows "find_idempotent event t = Some n"
  using assms find_prefix by (fastforce simp: find_idempotent_def extends_log_def)

lemma replays_append:
  assumes "nev_project_id e = Some p" "nev_idempotency_key e = Some k"
    and "nev_project_id e2 = Some p" "nev_idempotency_key e2 = Some k"
  shows "replays (append_event sj e rs) (append_event sj e2 rs2)"
proof (rule replaysI)
  fix s n s'
  assume app: "append_event sj e rs s = (Inr n, s')"
  then show "extends_log s s'" using append_extends [of s sj e rs] by simp
  fix t
  assume ext: "extends_log s' t"
  have known: "find_idempotent e s' = Some n"
  proof (rule append_event_outcome [of e s sj rs])
    assume "append_admissible sj e rs s"
      "append_event sj e rs s = (Inr (st_sequence s + 1), committed_store sj e rs s)"
    with app assms show ?thesis
      using find_idempotent_committed [of e p k s sj rs] by (simp add: append_admissible_def)
  qed (use app in auto)
  have "find_idempotent e2 t = find_idempotent e t"
    using assms by (simp add: find_idempotent_def)
  with find_idempotent_extends [OF known ext] show "append_event sj e2 rs2 t = (Inr n, t)"
    by (simp add: append_event_known)
qed

section \<open>Recovery sweeps repeat\<close>

lemma reap_replays:
  "replays (reap_orphaned_runs sj p a observations) (reap_orphaned_runs sj p a' observations)"
proof -
  have ev: "replays (append_recovery_event sj p a kind status slug obs)
      (append_recovery_event sj p a' kind status slug obs)" for kind status slug obs
    unfolding append_recovery_event_def Let_def
    by (rule replays_append) (simp_all add: recovery_event_def)
  show ?thesis
    unfolding reap_orphaned_runs_def reap_orphaned_run_def
    by (intro replays_map replays_bind replays_return ev) (simp add: ev replays_return)
qed

lemma recover_replays:
  "replays (recover_inflight_runs sj p a observations) (recover_inflight_runs sj p a' observations)"
proof -
  have ev: "replays (append_run_recovery_event sj p a kind status slug obs)
      (append_run_recovery_event sj p a' kind status slug obs)" for kind status slug obs
    unfolding append_run_recovery_event_def Let_def
    by (rule replays_append) (simp_all add: recovery_event_def)
  show ?thesis
    unfolding recover_inflight_runs_def recover_inflight_run_def
    by (intro replays_map replays_bind replays_return) (simp add: ev split: prod.splits)
qed

section \<open>The run ends recovered\<close>

definition no_key :: "string \<Rightarrow> store \<Rightarrow> bool" where
  "no_key k s \<longleftrightarrow> list_all (\<lambda>e. ev_idempotency_key e \<noteq> Some k) (st_events s)"

lemma no_key_unknown: "no_key k s \<Longrightarrow> nev_idempotency_key e = Some k \<Longrightarrow> find_idempotent e s = None"
  by (auto simp: no_key_def find_idempotent_def find_None_iff list_all_iff same_idempotency_def)

lemma no_key_append:
  assumes "no_key k s" "nev_idempotency_key e \<noteq> Some k"
  shows "no_key k (snd (append_event sj e rs s))"
proof (rule append_event_outcome [of e s sj rs])
  assume "append_event sj e rs s = (Inr (st_sequence s + 1), committed_store sj e rs s)"
  with assms show ?thesis
    by (simp add: no_key_def committed_store_def committed_event_record_def Let_def)
qed (use assms in simp_all)

lemma lookup_row_effect:
  "\<not> is_reset r \<Longrightarrow> lookup (row_effect n r db) (table_of r) (key_of r) = Some (with_sequence n r)"
  by (simp add: row_effect_upsert lookup_upsert)

lemma append_fresh_row:
  assumes "append_event sj e [r] s = (Inr n, s')" "find_idempotent e s = None" "\<not> is_reset r"
  shows "n = st_sequence s' \<and> lookup (st_tables s') (table_of r) (key_of r) = Some (with_sequence n r)"
proof (rule append_event_outcome [of e s sj "[r]"])
  assume "append_event sj e [r] s = (Inr (st_sequence s + 1), committed_store sj e [r] s)"
  with assms show ?thesis
    by (auto simp: committed_store_def Let_def lookup_row_effect)
qed (use assms in simp_all)

definition recovered_key :: "run_recovery_observation \<Rightarrow> string" where
  "recovered_key obs =
     recovery_idempotency_key (rcv_run_id obs) ''recovered'' (recovery_observation_kind (rcv_kind obs))
       (rcv_observed_runtime_state_hash obs)"

lemma recovery_no_key:
  assumes "no_key (recovered_key obs) s" "slug = ''orphaned'' \<or> slug = ''exited''"
  shows "no_key (recovered_key obs) (snd (append_run_recovery_event sj p a kind status slug obs s))"
  using assms
  by (auto simp: append_run_recovery_event_def Let_def recovery_event_def recovered_key_def
      recovery_idempotency_key_def intro!: no_key_append)

lemma last_recovery_event:
  assumes "append_run_recovery_event sj p a kind ''recovered'' ''recovered'' obs s = (Inr n, s')"
    and "no_key (recovered_key obs) s"
  shows "lookup (st_tables s') ''runs'' [rcv_run_id obs] =
    Some (Run ((run_row (rcv_run_id obs) (rcv_session_id obs) ''recovered'')\<lparr>run_updated_sequence := st_sequence s'\<rparr>))"
proof -
  let ?r = "Run (run_row (rcv_run_id obs) (rcv_session_id obs) ''recovered'')"
  from assms(1) obtain e where e: "append_event sj e [?r] s = (Inr n, s')"
      "nev_idempotency_key e = Some (recovered_key obs)"
    by (auto simp: append_run_recovery_event_def Let_def recovery_event_def recovered_key_def run_row_def)
  from append_fresh_row [OF e(1)] no_key_unknown [OF assms(2) e(2)] show ?thesis
    by (auto simp: run_row_def)
qed

lemma recover_run_ends_recovered:
  assumes "recover_inflight_run sj p a obs s = (Inr r, s')" "no_key (recovered_key obs) s"
  shows "lookup (st_tables s') ''runs'' [rcv_run_id obs] =
      Some (Run (r\<lparr>run_updated_sequence := st_sequence s'\<rparr>)) \<and> run_status r = ''recovered''"
proof -
  have ret: "r = run_row (rcv_run_id obs) (rcv_session_id obs) ''recovered''"
    using assms(1) by (cases "rcv_kind obs") (auto simp: recover_inflight_run_def op_bind_Inr op_return_def run_row_def)
  have nk: "no_key (recovered_key obs) t'"
    if "append_run_recovery_event sj p a kind slug slug obs t = (x, t')"
      "slug = ''orphaned'' \<or> slug = ''exited''" "no_key (recovered_key obs) t" for kind slug t t' x
    using recovery_no_key [OF that(3,2), of sj p a kind slug] that(1) by simp
  have "\<exists>kind n t. no_key (recovered_key obs) t \<and>
      append_run_recovery_event sj p a kind ''recovered'' ''recovered'' obs t = (Inr n, s')"
  proof (cases "rcv_kind obs")
    case Reattached
    with assms show ?thesis
      by (auto simp: recover_inflight_run_def op_bind_Inr op_return_def)
  next
    case Orphaned
    with assms(1) obtain x1 t1 x2 t2 x3 where ev:
        "append_run_recovery_event sj p a (RunEvent RunOrphaned) ''orphaned'' ''orphaned'' obs s = (Inr x1, t1)"
        "append_run_recovery_event sj p a (RunEvent RunExited) ''exited'' ''exited'' obs t1 = (Inr x2, t2)"
        "append_run_recovery_event sj p a (RunEvent RunRecovered) ''recovered'' ''recovered'' obs t2 = (Inr x3, s')"
      by (auto simp: recover_inflight_run_def op_bind_Inr op_return_def)
    have "no_key (recovered_key obs) t2"
      by (rule nk [OF ev(2)], simp, rule nk [OF ev(1)], simp, rule assms(2))
    with ev(3) show ?thesis by blast
  next
    case Exited
    with assms(1) obtain x2 t2 x3 where ev:
        "append_run_recovery_event sj p a (RunEvent RunExited) ''exited'' ''exited'' obs s = (Inr x2, t2)"
        "append_run_recovery_event sj p a (RunEvent RunRecovered) ''recovered'' ''recovered'' obs t2 = (Inr x3, s')"
      by (auto simp: recover_inflight_run_def op_bind_Inr op_return_def)
    have "no_key (recovered_key obs) t2"
      by (rule nk [OF ev(1)], simp, rule assms(2))
    with ev(2) show ?thesis by blast
  qed
  with last_recovery_event ret show ?thesis by (auto simp: run_row_def)
qed

section \<open>An approval is decided once\<close>

lemma approval_after_append:
  assumes "append_event sj e [PermissionApproval a] s = (Inr n, s')" "find_idempotent e s = None"
  shows "approval_row s' (appr_approval_id a) (appr_project_id a) = Some (a\<lparr>appr_updated_sequence := n\<rparr>)"
  using append_fresh_row [OF assms] by (simp add: approval_row_def)

lemma approval_row_grant:
  "approval_row (snd (append_event sj e [CapabilityGrant g] s)) i p = approval_row s i p"
proof (rule append_event_outcome [of e s sj "[CapabilityGrant g]"])
  assume eq: "append_event sj e [CapabilityGrant g] s =
      (Inr (st_sequence s + 1), committed_store sj e [CapabilityGrant g] s)"
  then show ?thesis
    by (simp add: approval_row_def committed_store_def Let_def row_effect_upsert lookup_upsert)
qed simp_all

lemma decide_fresh:
  assumes "decide_permission_approval sj i de ge a g s = (Inr n, s')"
  shows "find_idempotent de s = None"
  using assms
  by (auto simp: decide_permission_approval_def publish_committed_def op_bind_def in_transaction_def
      decide_transaction_def and_then_Inr_iff commit_one_Inr append_admissible_def
      split: option.splits if_splits sum.splits prod.splits)

lemma decide_row:
  assumes "decide_permission_approval sj i de ge a g s = (Inr n, s')"
  obtains m where
    "approval_row s' (appr_approval_id a) (appr_project_id a) = Some (a\<lparr>appr_updated_sequence := m\<rparr>)"
proof (cases "ge = None \<or> g = None")
  case True
  from approval_after_append [OF decide_Inr_one [OF assms True] decide_fresh [OF assms]]
  show thesis by (rule that)
next
  case False
  then obtain ge' g' where g: "ge = Some ge'" "g = Some g'" by auto
  let ?t = "snd (append_event sj de [PermissionApproval a] s)"
  have two: "append_event sj ge' [CapabilityGrant g'] ?t = (Inr n, s')"
    and one: "append_event sj de [PermissionApproval a] s = (Inr (n - 1), ?t)"
    using decide_Inr_two [of sj i de ge' a g' s n s'] assms g by (simp_all add: prod_eq_iff)
  have "approval_row s' (appr_approval_id a) (appr_project_id a) =
      approval_row ?t (appr_approval_id a) (appr_project_id a)"
    using approval_row_grant [of sj ge' g' ?t] two by simp
  with approval_after_append [OF one decide_fresh [OF assms]] that show thesis by simp
qed

lemma decide_not_pending:
  assumes "approval_row s i (appr_project_id a) = Some p" "appr_status p \<noteq> ''pending''"
  shows "decide_permission_approval sj i de ge a g s =
    (Inl (PermissionApprovalNotPending i (appr_status p)), s)"
  using assms by (simp add: decide_permission_approval_def publish_committed_def op_bind_def
      in_transaction_def decide_transaction_def)

text \<open>
  A decision stays: \<open>decided i p s\<close> says that the row of approval \<open>i\<close> of project \<open>p\<close> carries a final
  status.  Every operation of the store keeps it as long as no caller hands in a row for that approval
  that is pending again or belongs to another project (\<open>keeps_decision\<close>): the table write itself has
  no guard, it overwrites the status with whatever the record says.
\<close>

definition decided :: "string \<Rightarrow> string \<Rightarrow> store \<Rightarrow> bool" where
  "decided i p s \<longleftrightarrow> (\<exists>q. approval_row s i p = Some q \<and> appr_status q \<noteq> ''pending'')"

definition keeps_decision :: "string \<Rightarrow> string \<Rightarrow> projection_record \<Rightarrow> bool" where
  "keeps_decision i p r \<longleftrightarrow>
     (\<forall>q. r = PermissionApproval q \<longrightarrow> appr_approval_id q = i \<longrightarrow>
        appr_project_id q = p \<and> appr_status q \<noteq> ''pending'')"

lemma keeps_decision_simps [simp]:
  "keeps_decision i p (PermissionApproval q) \<longleftrightarrow>
     (appr_approval_id q = i \<longrightarrow> appr_project_id q = p \<and> appr_status q \<noteq> ''pending'')"
  "keeps_decision i p (Run x)" "keeps_decision i p (CapabilityGrant g)" "keeps_decision i p (Project x')"
  by (simp_all add: keeps_decision_def)

definition decided_row :: "string \<Rightarrow> string \<Rightarrow> projection_record option \<Rightarrow> bool" where
  "decided_row i p row \<longleftrightarrow>
     (\<exists>q. row = Some (PermissionApproval q) \<and> appr_project_id q = p \<and> appr_status q \<noteq> ''pending'')"

lemma decided_lookup:
  "decided i p s \<longleftrightarrow> decided_row i p (lookup (st_tables s) ''permission_approvals'' [i])"
  by (auto simp: decided_def decided_row_def approval_row_def
      split: option.splits projection_record.splits if_splits)

lemma lookup_other_record:
  assumes "\<nexists>q. r = PermissionApproval q"
  shows "lookup (row_effect n r db) ''permission_approvals'' k = lookup db ''permission_approvals'' k"
proof (cases "is_reset r")
  case True
  then obtain p where "r = WorkpadIndexReset p" by (cases r) simp_all
  then show ?thesis by (simp add: row_effect_def lookup_def delete_where_def)
next
  case False
  then have "table_of r \<noteq> ''permission_approvals''" using assms by (cases r) simp_all
  with False show ?thesis by (simp add: row_effect_upsert lookup_upsert)
qed

lemma decided_row_effect:
  assumes "decided_row i p (lookup db ''permission_approvals'' [i])" "keeps_decision i p r"
  shows "decided_row i p (lookup (row_effect n r db) ''permission_approvals'' [i])"
proof (cases "\<exists>q. r = PermissionApproval q")
  case True
  with assms show ?thesis by (auto simp: row_effect_upsert lookup_upsert decided_row_def)
next
  case False
  with assms(1) show ?thesis by (subst lookup_other_record) auto
qed

lemma decided_fold:
  assumes "decided_row i p (lookup db ''permission_approvals'' [i])" "list_all (keeps_decision i p) rs"
  shows "decided_row i p (lookup (fold (row_effect n) rs db) ''permission_approvals'' [i])"
  using assms by (induction rs arbitrary: db) (simp_all add: decided_row_effect)

lemma decided_append:
  assumes "decided i p s" "list_all (keeps_decision i p) rs"
  shows "decided i p (snd (append_event sj event rs s))"
proof (rule append_event_outcome [of event s sj rs])
  assume "append_event sj event rs s = (Inr (st_sequence s + 1), committed_store sj event rs s)"
  with assms show ?thesis by (simp add: decided_lookup committed_store_def Let_def decided_fold)
qed (use assms in simp_all)

interpretation dec: store_client sj "decided i p" "keeps_decision i p" for sj i p
  by unfold_locales (simp_all add: decided_append)

lemma decided_frame [simp]:
  "decided i p (s\<lparr>st_artifacts := x\<rparr>) = decided i p s"
  "decided i p (s\<lparr>st_recoveries := y\<rparr>) = decided i p s"
  "decided i p (s\<lparr>st_watermarks := w\<rparr>) = decided i p s"
  "decided i p (s\<lparr>st_hub := b\<rparr>) = decided i p s"
  by (simp_all add: decided_lookup)

lemma decided_step:
  assumes "store_step sj P s s'" and P: "\<And>r. P r \<Longrightarrow> keeps_decision i p r"
    and "store_wf s" "replay_inv sj s" "decided i p s"
  shows "decided i p s'"
  using assms(1,3-)
proof (induction rule: store_step.induct)
  case (step_append rs s event)
  then show ?case using P by (intro dec.append_keeps) (auto simp: list_all_iff)
next
  case (step_decide a g s j de ge)
  then show ?case using P [of "PermissionApproval a"]
    by (intro dec.decide_keeps) (simp_all add: opt_all_def split: option.splits)
next
  case (step_reap reaps s q attempt)
  then show ?case by (intro dec.reap_keeps)
next
  case (step_recover recoveries s q attempt)
  then show ?case by (intro dec.recover_keeps)
next
  case (step_mark s q attempt)
  then show ?case by (intro dec.mark_keeps)
next
  case (step_rebuild s)
  then show ?case by (simp add: rebuild_exact)
qed (simp_all add: record_artifact_def begin_recovery_def complete_recovery_def Let_def split: option.splits)

lemma store_step_mono:
  "store_step sj P s s' \<Longrightarrow> (\<And>r. P r \<Longrightarrow> Q r) \<Longrightarrow> store_step sj Q s s'"
proof (induction rule: store_step.induct)
  case (step_append rs s event)
  then show ?case by (intro store_step.step_append) (auto simp: list_all_iff)
next
  case (step_decide a g s i de ge)
  then show ?case by (intro store_step.step_decide) (auto simp: opt_all_def split: option.splits)
qed (blast intro: store_step.intros)+

lemma decided_steps:
  assumes sj: "serde_json_text sj"
    and "(store_step sj (\<lambda>r. replay_faithful sj r \<and> keeps_decision i p r))\<^sup>*\<^sup>* s t"
    and "store_reachable sj (replay_faithful sj) s" "decided i p s"
  shows "decided i p t"
  using assms(2)
proof (induction rule: rtranclp_induct)
  case base
  show ?case by (fact assms(4))
next
  case (step u v)
  have "store_reachable sj (replay_faithful sj) u"
    using step(1) by induction (auto intro: assms(3) reach_step store_step_mono)
  from reachable_replay [OF sj this] show ?case
    using decided_step [OF step(2) _ _ _ step.IH] by blast
qed

end
