(* ===== verification/Json_Text.thy ===== *)
theory Json_Text
  imports Json_Value
begin

text \<open>
  A printer and a parser for JSON text that satisfy the interface \<open>serde_json\<close>.  The printer
  writes the compact form (no blanks, the short escapes, lower-case \<open>\u00xx\<close> for the other
  control characters); the parser is a recursive descent over the grammar of RFC 8259 that rejects
  control characters inside strings.  A unit of fuel is spent per nested call, and the length of the
  text is always enough.
\<close>

section \<open>Printing\<close>

definition hex_digit :: "nat \<Rightarrow> char" where
  "hex_digit d = (if d < 10 then char_of (48 + d) else char_of (87 + d))"

abbreviation quote_char :: char where "quote_char \<equiv> CHR 0x22"
abbreviation backslash :: char where "backslash \<equiv> CHR 0x5C"

definition short_escape :: "char \<Rightarrow> char option" where
  "short_escape c =
     (if c = quote_char then Some quote_char else if c = backslash then Some backslash
      else if c = CHR 0x08 then Some CHR ''b'' else if c = CHR 0x0C then Some CHR ''f''
      else if c = CHR 0x0A then Some CHR ''n'' else if c = CHR 0x0D then Some CHR ''r''
      else if c = CHR 0x09 then Some CHR ''t'' else None)"

definition escape_char :: "char \<Rightarrow> string" where
  "escape_char c =
     (let n = of_char c :: nat in
      case short_escape c of
        Some e \<Rightarrow> [backslash, e]
      | None \<Rightarrow> if n < 32 then backslash # CHR ''u'' # CHR ''0'' # CHR ''0''
                                # hex_digit (n div 16) # [hex_digit (n mod 16)]
                else [c])"

definition print_string :: "string \<Rightarrow> string" where
  "print_string s = quote_char # concat (map escape_char s) @ [quote_char]"

fun print_number :: "json_number \<Rightarrow> string" where
  "print_number (NInt i) = int_to_string i"
| "print_number (NFloat s) = s"

fun print_json :: "json \<Rightarrow> string"
and print_elems :: "json list \<Rightarrow> string"
and print_members :: "(string \<times> json) list \<Rightarrow> string" where
  "print_json JNull = ''null''"
| "print_json (JBool b) = bool_to_string b"
| "print_json (JNumber n) = print_number n"
| "print_json (JString s) = print_string s"
| "print_json (JArray vs) = CHR ''['' # print_elems vs @ '']''"
| "print_json (JObject m) = CHR ''{'' # print_members m @ ''}''"
| "print_elems [] = []"
| "print_elems [v] = print_json v"
| "print_elems (v # w # vs) = print_json v @ CHR '','' # print_elems (w # vs)"
| "print_members [] = []"
| "print_members [(k, v)] = print_string k @ CHR '':'' # print_json v"
| "print_members ((k, v) # kv # kvs) =
     print_string k @ CHR '':'' # print_json v @ CHR '','' # print_members (kv # kvs)"

section \<open>Parsing\<close>

definition is_ws :: "char \<Rightarrow> bool" where
  "is_ws c = (let n = of_char c :: nat in n = 32 \<or> n = 9 \<or> n = 10 \<or> n = 13)"

fun skip_ws :: "string \<Rightarrow> string" where
  "skip_ws [] = []"
| "skip_ws (c # cs) = (if is_ws c then skip_ws cs else c # cs)"

definition hex_value :: "char \<Rightarrow> nat option" where
  "hex_value c =
     (let n = of_char c :: nat in
      if 48 \<le> n \<and> n \<le> 57 then Some (n - 48)
      else if 97 \<le> n \<and> n \<le> 102 then Some (n - 87)
      else if 65 \<le> n \<and> n \<le> 70 then Some (n - 55) else None)"

definition unescape :: "char \<Rightarrow> char option" where
  "unescape c =
     (if c = quote_char \<or> c = backslash \<or> c = CHR ''/'' then Some c
      else if c = CHR ''b'' then Some CHR 0x08
      else if c = CHR ''f'' then Some CHR 0x0C
      else if c = CHR ''n'' then Some CHR 0x0A
      else if c = CHR ''r'' then Some CHR 0x0D
      else if c = CHR ''t'' then Some CHR 0x09 else None)"

text \<open>The four hexadecimal digits of an escape, restricted to the code points of one byte.\<close>

definition unicode_escape :: "string \<Rightarrow> (char \<times> string) option" where
  "unicode_escape s =
     (case s of a # b # c # d # r \<Rightarrow>
        (case (hex_value a, hex_value b, hex_value c, hex_value d) of
           (Some 0, Some 0, Some x, Some y) \<Rightarrow>
             if x < 8 then Some (char_of (16 * x + y), r) else None
         | _ \<Rightarrow> None)
      | _ \<Rightarrow> None)"

text \<open>The characters of a string literal after its opening quote.\<close>

fun parse_chars :: "nat \<Rightarrow> string \<Rightarrow> (string \<times> string) option" where
  "parse_chars 0 s = None"
| "parse_chars (Suc n) [] = None"
| "parse_chars (Suc n) (c # cs) =
     (if c = quote_char then Some ([], cs)
      else if c = backslash then
        (case cs of
           [] \<Rightarrow> None
         | e # r \<Rightarrow>
             (if e = CHR ''u'' then
                (case unicode_escape r of
                   None \<Rightarrow> None
                 | Some (x, r') \<Rightarrow> map_option (\<lambda>(s, t). (x # s, t)) (parse_chars n r'))
              else
                (case unescape e of
                   None \<Rightarrow> None
                 | Some x \<Rightarrow> map_option (\<lambda>(s, t). (x # s, t)) (parse_chars n r))))
      else if (of_char c :: nat) < 32 then None
      else map_option (\<lambda>(s, t). (c # s, t)) (parse_chars n cs))"

definition is_number_char :: "char \<Rightarrow> bool" where
  "is_number_char c \<longleftrightarrow> digit_value c \<noteq> None \<or> c \<in> set ''+-.eE''"

definition all_digits :: "string \<Rightarrow> bool" where
  "all_digits s \<longleftrightarrow> s \<noteq> [] \<and> list_all (\<lambda>c. digit_value c \<noteq> None) s"

text \<open>The integer part of a number: no leading zero unless it is the only digit.\<close>

definition int_part_ok :: "string \<Rightarrow> bool" where
  "int_part_ok s \<longleftrightarrow> all_digits s \<and> (hd s = CHR ''0'' \<longrightarrow> tl s = [])"

definition exp_ok :: "string \<Rightarrow> bool" where
  "exp_ok s =
     (case s of [] \<Rightarrow> True
      | e # r \<Rightarrow> (e = CHR ''e'' \<or> e = CHR ''E'') \<and>
          all_digits (if r \<noteq> [] \<and> (hd r = CHR ''+'' \<or> hd r = CHR ''-'') then tl r else r))"

definition float_ok :: "string \<Rightarrow> bool" where
  "float_ok s =
     (let u = (if s \<noteq> [] \<and> hd s = CHR ''-'' then tl s else s);
          ip = takeWhile (\<lambda>c. digit_value c \<noteq> None) u;
          r = dropWhile (\<lambda>c. digit_value c \<noteq> None) u
      in int_part_ok ip \<and>
         (if r \<noteq> [] \<and> hd r = CHR ''.'' then
            all_digits (takeWhile (\<lambda>c. digit_value c \<noteq> None) (tl r)) \<and>
            exp_ok (dropWhile (\<lambda>c. digit_value c \<noteq> None) (tl r))
          else exp_ok r))"

fun digits_value :: "nat \<Rightarrow> string \<Rightarrow> nat" where
  "digits_value acc [] = acc"
| "digits_value acc (c # cs) =
     digits_value (10 * acc + (case digit_value c of Some d \<Rightarrow> d | None \<Rightarrow> 0)) cs"

definition number_of_token :: "string \<Rightarrow> json_number option" where
  "number_of_token s =
     (let neg = (s \<noteq> [] \<and> hd s = CHR ''-''); u = (if neg then tl s else s);
          i = (if neg then - int (digits_value 0 u) else int (digits_value 0 u))
      in if int_part_ok u \<and> - (2 ^ 63) \<le> i \<and> i < 2 ^ 64 \<and> (neg \<longrightarrow> i \<noteq> 0) then Some (NInt i)
         else if float_ok s then Some (NFloat s) else None)"

definition parse_number :: "string \<Rightarrow> (json \<times> string) option" where
  "parse_number s =
     (case number_of_token (takeWhile is_number_char s) of
        None \<Rightarrow> None
      | Some n \<Rightarrow> Some (JNumber n, dropWhile is_number_char s))"

definition parse_literal :: "string \<Rightarrow> json \<Rightarrow> string \<Rightarrow> (json \<times> string) option" where
  "parse_literal w v s = (case strip_prefix w s of None \<Rightarrow> None | Some r \<Rightarrow> Some (v, r))"

fun parse_value :: "nat \<Rightarrow> string \<Rightarrow> (json \<times> string) option"
and parse_elems :: "nat \<Rightarrow> string \<Rightarrow> (json list \<times> string) option"
and parse_members :: "nat \<Rightarrow> string \<Rightarrow> ((string \<times> json) list \<times> string) option" where
  "parse_value 0 s = None"
| "parse_value (Suc n) s =
     (let u = skip_ws s in
      if u = [] then None
      else if hd u = CHR ''{'' then
        (if skip_ws (tl u) \<noteq> [] \<and> hd (skip_ws (tl u)) = CHR ''}''
         then Some (JObject [], tl (skip_ws (tl u)))
         else map_option (\<lambda>(m, r). (json_object m, r)) (parse_members n (tl u)))
      else if hd u = CHR ''['' then
        (if skip_ws (tl u) \<noteq> [] \<and> hd (skip_ws (tl u)) = CHR '']''
         then Some (JArray [], tl (skip_ws (tl u)))
         else map_option (\<lambda>(vs, r). (JArray vs, r)) (parse_elems n (tl u)))
      else if hd u = quote_char then
        map_option (\<lambda>(t, r). (JString t, r)) (parse_chars (length u) (tl u))
      else if hd u = CHR ''n'' then parse_literal ''null'' JNull u
      else if hd u = CHR ''t'' then parse_literal ''true'' (JBool True) u
      else if hd u = CHR ''f'' then parse_literal ''false'' (JBool False) u
      else parse_number u)"
| "parse_elems 0 s = None"
| "parse_elems (Suc n) s =
     (case parse_value n s of
        None \<Rightarrow> None
      | Some (v, r) \<Rightarrow>
          (let u = skip_ws r in
           if u = [] then None
           else if hd u = CHR '']'' then Some ([v], tl u)
           else if hd u = CHR '','' then map_option (\<lambda>(vs, t). (v # vs, t)) (parse_elems n (tl u))
           else None))"
| "parse_members 0 s = None"
| "parse_members (Suc n) s =
     (let u = skip_ws s in
      if u = [] \<or> hd u \<noteq> quote_char then None
      else case parse_chars (length u) (tl u) of
        None \<Rightarrow> None
      | Some (k, r) \<Rightarrow>
          (let w = skip_ws r in
           if w = [] \<or> hd w \<noteq> CHR '':'' then None
           else (case parse_value n (tl w) of
             None \<Rightarrow> None
           | Some (v, r2) \<Rightarrow>
               (let x = skip_ws r2 in
                if x = [] then None
                else if hd x = CHR ''}'' then Some ([(k, v)], tl x)
                else if hd x = CHR '','' then
                  map_option (\<lambda>(m, t). ((k, v) # m, t)) (parse_members n (tl x))
                else None))))"

definition parse_json :: "string \<Rightarrow> (string, json) result" where
  "parse_json s =
     (case parse_value (Suc (length s)) s of
        Some (v, r) \<Rightarrow>
          if skip_ws r \<noteq> [] then Inl ''trailing characters''
          else if json_depth v < 128 then Inr v else Inl ''recursion limit exceeded''
      | None \<Rightarrow> Inl ''expected value'')"

definition rfc8259 :: serde where
  "rfc8259 = \<lparr>to_text = print_json, from_text = parse_json\<rparr>"

section \<open>The printer and the parser satisfy the interface\<close>

lemma hex_value_hex_digit: "d < 16 \<Longrightarrow> hex_value (hex_digit d) = Some d"
  by (auto simp: hex_value_def hex_digit_def Let_def)

lemma escape_char_cases:
  obtains
    (raw) "escape_char c = [c]" "32 \<le> (of_char c :: nat)" "c \<noteq> quote_char" "c \<noteq> backslash"
  | (short) e where "escape_char c = [backslash, e]" "e \<noteq> CHR ''u''" "unescape e = Some c"
  | (unicode) x y where "escape_char c = backslash # CHR ''u'' # CHR ''0'' # CHR ''0'' # x # [y]"
      "\<And>r. unicode_escape (CHR ''0'' # CHR ''0'' # x # y # r) = Some (c, r)"
proof -
  define n where "n = (of_char c :: nat)"
  have c: "c = char_of n" by (simp add: n_def)
  show thesis
  proof (cases "short_escape c")
    case (Some e)
    then have esc: "escape_char c = [backslash, e]"
      by (simp add: escape_char_def Let_def)
    moreover from Some have "e \<noteq> CHR ''u'' \<and> unescape e = Some c"
      by (auto simp: short_escape_def unescape_def split: if_splits)
    ultimately show ?thesis using short by blast
  next
    case None
    then have ne: "c \<noteq> quote_char" "c \<noteq> backslash"
      by (auto simp: short_escape_def split: if_splits)
    show ?thesis
    proof (cases "n < 32")
      case True
      let ?x = "hex_digit (n div 16)" and ?y = "hex_digit (n mod 16)"
      have "escape_char c = backslash # CHR ''u'' # CHR ''0'' # CHR ''0'' # ?x # [?y]"
        using None True by (simp add: escape_char_def n_def [symmetric] Let_def)
      moreover have "unicode_escape (CHR ''0'' # CHR ''0'' # ?x # ?y # r) = Some (c, r)" for r
      proof -
        have "hex_value CHR ''0'' = Some 0" by (simp add: hex_value_def)
        moreover have "n div 16 < 8" "n div 16 < 16" using True by simp_all
        ultimately show ?thesis
          by (simp add: unicode_escape_def hex_value_hex_digit c)
      qed
      ultimately show ?thesis using unicode by blast
    next
      case False
      have "escape_char c = [c]" "32 \<le> (of_char c :: nat)"
        using None False by (simp_all add: escape_char_def n_def [symmetric] Let_def)
      with ne show ?thesis using raw by blast
    qed
  qed
qed

lemma parse_chars_escape:
  "length s < n \<Longrightarrow> parse_chars n (concat (map escape_char s) @ quote_char # r) = Some (s, r)"
proof (induction s arbitrary: n)
  case Nil
  then show ?case by (cases n) simp_all
next
  case (Cons c s)
  then obtain m where n: "n = Suc m" and IH:
    "parse_chars m (concat (map escape_char s) @ quote_char # r) = Some (s, r)"
    by (cases n) auto
  show ?case
  proof (cases c rule: escape_char_cases)
    case raw
    with n IH show ?thesis by simp
  next
    case (short e)
    with short n IH show ?thesis by simp
  next
    case (unicode x y)
    with unicode n IH show ?thesis by simp
  qed
qed

lemma length_escape: "length s \<le> length (concat (map escape_char s))"
proof (induction s)
  case (Cons c s)
  have "1 \<le> length (escape_char c)"
    by (cases c rule: escape_char_cases) auto
  with Cons show ?case by simp
qed simp

lemma parse_chars_print_string:
  "parse_chars (length (print_string s @ r)) (tl (print_string s @ r)) = Some (s, r)"
proof -
  have "tl (print_string s @ r) = concat (map escape_char s) @ quote_char # r"
    by (simp add: print_string_def)
  moreover have "length s < length (print_string s @ r)"
    using length_escape [of s] by (simp add: print_string_def)
  ultimately show ?thesis using parse_chars_escape by metis
qed

subsection \<open>Numbers\<close>

definition stops_number :: "string \<Rightarrow> bool" where
  "stops_number r \<longleftrightarrow> r = [] \<or> \<not> is_number_char (hd r)"

lemma stops_number_simps [simp]:
  "stops_number []" "stops_number (CHR '','' # r)" "stops_number (CHR '']'' # r)"
  "stops_number (CHR ''}'' # r)"
  by (simp_all add: stops_number_def is_number_char_def digit_value_def)

lemma digits_value_append: "digits_value a (s @ t) = digits_value (digits_value a s) t"
  by (induction a s rule: digits_value.induct) simp_all

lemma digits_value_nat: "digits_value 0 (nat_to_string n) = n"
proof (induction n rule: nat_to_string.induct)
  case (1 n)
  then show ?case
    by (subst nat_to_string.simps) (auto simp: digits_value_append)
qed

lemma all_digits_nat: "all_digits (nat_to_string n)"
proof (induction n rule: nat_to_string.induct)
  case (1 n)
  then show ?case
    by (subst nat_to_string.simps) (auto simp: all_digits_def)
qed

lemma hd_nat_to_string_pos: "0 < n \<Longrightarrow> hd (nat_to_string n) \<noteq> CHR ''0''"
proof (induction n rule: nat_to_string.induct)
  case (1 n)
  show ?case
  proof (cases "n < 10")
    case True
    with "1.prems" have "digit_value (digit_char n) \<noteq> digit_value CHR ''0''"
      by (simp add: digit_value_def [of "CHR ''0''"])
    then have "digit_char n \<noteq> CHR ''0''" by metis
    with True show ?thesis by (subst nat_to_string.simps) simp
  next
    case False
    with "1.IH" show ?thesis by (subst nat_to_string.simps) (simp add: hd_append)
  qed
qed

lemma int_part_nat: "int_part_ok (nat_to_string n)"
proof (cases "n = 0")
  case True
  then show ?thesis
    using all_digits_nat [of 0] by (simp add: int_part_ok_def nat_to_string.simps [of 0])
next
  case False
  then show ?thesis by (simp add: int_part_ok_def all_digits_nat hd_nat_to_string_pos)
qed

lemma hd_nat_not_minus: "hd (nat_to_string n) \<noteq> CHR ''-''"
  using hd_nat_to_string [of n] digit_char_neq(1) by metis

lemma number_of_int:
  assumes "- (2 ^ 63) \<le> i" "i < 2 ^ 64"
  shows "number_of_token (int_to_string i) = Some (NInt i)"
  using assms
  by (auto simp: number_of_token_def int_to_string_def int_part_nat digits_value_nat
      hd_nat_not_minus Let_def)

lemma list_all_number_char: "list_all is_number_char (int_to_string i)"
  using all_digits_nat
  by (auto simp: int_to_string_def all_digits_def list_all_iff is_number_char_def)

lemma takeWhile_number:
  "list_all is_number_char t \<Longrightarrow> stops_number r \<Longrightarrow>
     takeWhile is_number_char (t @ r) = t \<and> dropWhile is_number_char (t @ r) = r"
  by (cases r) (auto simp: list_all_iff stops_number_def takeWhile_append dropWhile_append)

lemma parse_number_int:
  assumes "- (2 ^ 63) \<le> i" "i < 2 ^ 64" "stops_number r"
  shows "parse_number (int_to_string i @ r) = Some (JNumber (NInt i), r)"
  using takeWhile_number [OF list_all_number_char assms(3)] number_of_int [OF assms(1,2)]
  by (simp add: parse_number_def)

subsection \<open>Values\<close>

lemma is_ws_chars [simp]:
  "\<not> is_ws CHR '',''" "\<not> is_ws CHR '':''" "\<not> is_ws CHR '']''" "\<not> is_ws CHR ''}''"
  "\<not> is_ws CHR ''[''" "\<not> is_ws CHR ''{''" "\<not> is_ws quote_char" "\<not> is_ws CHR ''n''"
  "\<not> is_ws CHR ''t''" "\<not> is_ws CHR ''f''"
  by (simp_all add: is_ws_def)

lemma number_head:
  assumes "is_number_char c"
  shows "\<not> is_ws c \<and> c \<noteq> CHR ''{'' \<and> c \<noteq> CHR ''['' \<and> c \<noteq> quote_char \<and> c \<noteq> CHR ''n''
    \<and> c \<noteq> CHR ''t'' \<and> c \<noteq> CHR ''f'' \<and> c \<noteq> CHR '']'' \<and> c \<noteq> CHR ''}''"
proof -
  have "\<not> is_ws c"
    using assms by (auto simp: is_number_char_def is_ws_def digit_value_def Let_def split: if_splits)
  with assms show ?thesis
    by (auto simp: is_number_char_def digit_value_def)
qed

lemma int_to_string_head:
  obtains c cs where "int_to_string i = c # cs" "is_number_char c"
proof -
  have "int_to_string i \<noteq> []" by (simp add: int_to_string_def)
  with that list_all_number_char [of i] show thesis by (cases "int_to_string i") auto
qed

lemma print_json_head:
  assumes "json_wf v"
  obtains c cs where "print_json v = c # cs" "\<not> is_ws c" "c \<noteq> CHR '']''" "c \<noteq> CHR ''}''"
proof (cases v)
  case (JNumber n)
  then obtain i where "n = NInt i" using assms by (cases n) auto
  with JNumber that show thesis
    using int_to_string_head [of i] number_head by (metis print_json.simps(3) print_number.simps(1))
next
  case (JBool b)
  with that show thesis by (cases b) (simp_all add: bool_to_string_def)
qed (use that in \<open>auto simp: print_string_def\<close>)

lemma skip_ws_head: "\<not> is_ws c \<Longrightarrow> skip_ws (c # cs) = c # cs"
  by simp

lemma strip_prefix_append: "strip_prefix w (w @ r) = Some r"
  by (induction w) simp_all

lemma parse_value_number:
  assumes "- (2 ^ 63) \<le> i" "i < 2 ^ 64" "stops_number r"
  shows "parse_value (Suc n) (int_to_string i @ r) = Some (JNumber (NInt i), r)"
proof -
  obtain c cs where c: "int_to_string i = c # cs" "is_number_char c"
    by (rule int_to_string_head)
  from number_head [OF c(2)] parse_number_int [OF assms] show ?thesis
    by (simp add: c(1) Let_def)
qed

lemma parse_value_string: "parse_value (Suc n) (print_string s @ r) = Some (JString s, r)"
proof -
  have "skip_ws (print_string s @ r) = print_string s @ r" "hd (print_string s @ r) = quote_char"
    by (simp_all add: print_string_def)
  moreover have "quote_char \<noteq> CHR ''{''" "quote_char \<noteq> CHR ''[''" "print_string s @ r \<noteq> []"
    by (simp_all add: print_string_def)
  ultimately show ?thesis
    using parse_chars_print_string [of s r] by (simp add: Let_def del: append_is_Nil_conv)
qed

lemma parse_print:
  "json_wf v \<Longrightarrow> length (print_json v) \<le> n \<Longrightarrow> stops_number r \<Longrightarrow>
     parse_value n (print_json v @ r) = Some (v, r)"
  "list_all json_wf vs \<Longrightarrow> vs \<noteq> [] \<Longrightarrow> length (print_elems vs) < n \<Longrightarrow>
     parse_elems n (print_elems vs @ CHR '']'' # r) = Some (vs, r)"
  "list_all json_wf (map snd m) \<Longrightarrow> m \<noteq> [] \<Longrightarrow> length (print_members m) < n \<Longrightarrow>
     parse_members n (print_members m @ CHR ''}'' # r) = Some (m, r)"
proof (induction v and vs and m arbitrary: n r and n r and n r
    rule: print_json_print_elems_print_members.induct)
  case 1
  then show ?case
    by (cases n) (auto simp: Let_def parse_literal_def)
next
  case (2 b)
  then show ?case
    by (cases n) (auto simp: Let_def parse_literal_def bool_to_string_def split: if_splits)
next
  case (3 num)
  then obtain i where i: "num = NInt i" "- (2 ^ 63) \<le> i" "i < 2 ^ 64"
    by (cases num) auto
  obtain n' where "n = Suc n'"
    using "3.prems"(2) int_to_string_head [of i] i(1) by (cases n) auto
  with i "3.prems" show ?case by (simp only: print_json.simps print_number.simps parse_value_number)
next
  case (4 s)
  obtain n' where "n = Suc n'"
    using "4.prems"(2) by (cases n) (auto simp: print_string_def)
  then show ?case by (simp only: print_json.simps parse_value_string)
next
  case (5 vs)
  then obtain n' where n: "n = Suc n'" by (cases n) auto
  show ?case
  proof (cases "vs = []")
    case True
    with n show ?thesis by (simp add: Let_def)
  next
    case False
    then obtain v ws where vs: "vs = v # ws" by (cases vs) auto
    with "5.prems" have "json_wf v" by simp
    then obtain c cs where c: "print_json v = c # cs" "\<not> is_ws c" "c \<noteq> CHR '']''"
      by (rule print_json_head)
    have hd: "\<exists>t. print_elems vs = c # t"
      using c(1) vs by (cases ws) auto
    have "parse_elems n' (print_elems vs @ CHR '']'' # r) = Some (vs, r)"
      using "5.IH" "5.prems" False n by simp
    with hd c n show ?thesis by (auto simp: Let_def)
  qed
next
  case (6 m)
  then obtain n' where n: "n = Suc n'" by (cases n) auto
  show ?case
  proof (cases "m = []")
    case True
    with n show ?thesis by (simp add: Let_def)
  next
    case False
    then obtain k v ms where m: "m = (k, v) # ms" by (cases m) auto
    have hd: "\<exists>t. print_members m = quote_char # t"
      using m by (cases ms) (auto simp: print_string_def)
    have "parse_members n' (print_members m @ CHR ''}'' # r) = Some (m, r)"
      using "6.IH" "6.prems" False n by simp
    moreover have "json_object m = JObject m"
      using "6.prems" by (simp add: json_object_def btree_of_sorted)
    ultimately show ?thesis using hd n
      by (auto simp: Let_def)
  qed
next
  case 7
  then show ?case by simp
next
  case (8 v)
  then show ?case by (cases n) (auto simp: Let_def)
next
  case (9 v w vs)
  then show ?case by (cases n) (auto simp: Let_def)
next
  case 10
  then show ?case by simp
next
  case (11 k v)
  then obtain n' where n: "n = Suc n'" by (cases n) auto
  let ?t = "CHR '':'' # print_json v @ CHR ''}'' # r"
  have k: "parse_chars (length (print_string k @ ?t)) (tl (print_string k @ ?t)) = Some (k, ?t)"
    by (rule parse_chars_print_string)
  have v: "parse_value n' (print_json v @ CHR ''}'' # r) = Some (v, CHR ''}'' # r)"
    using 11 n by simp
  have "skip_ws (print_string k @ ?t) = print_string k @ ?t" "hd (print_string k @ ?t) = quote_char"
    "print_string k @ ?t \<noteq> []"
    by (simp_all add: print_string_def)
  with k v n show ?case by (simp add: Let_def)
next
  case (12 k v kv kvs)
  then obtain n' where n: "n = Suc n'" by (cases n) auto
  let ?u = "CHR '','' # print_members (kv # kvs) @ CHR ''}'' # r"
  let ?t = "CHR '':'' # print_json v @ ?u"
  have k: "parse_chars (length (print_string k @ ?t)) (tl (print_string k @ ?t)) = Some (k, ?t)"
    by (rule parse_chars_print_string)
  have v: "parse_value n' (print_json v @ ?u) = Some (v, ?u)"
    using 12 n by simp
  have m: "parse_members n' (print_members (kv # kvs) @ CHR ''}'' # r) = Some (kv # kvs, r)"
    using 12 n by simp
  have "skip_ws (print_string k @ ?t) = print_string k @ ?t" "hd (print_string k @ ?t) = quote_char"
    "print_string k @ ?t \<noteq> []"
    by (simp_all add: print_string_def)
  with k v m n show ?case by (simp add: Let_def)
qed

lemma parse_json_print:
  assumes "json_plain v"
  shows "parse_json (print_json v) = Inr v"
proof -
  have "parse_value (Suc (length (print_json v))) (print_json v @ []) = Some (v, [])"
    using assms by (intro parse_print(1)) (simp_all add: json_plain_def)
  with assms show ?thesis by (simp add: parse_json_def json_plain_def)
qed

lemma object_text_members:
  "object_text rfc8259 m = CHR ''{'' # print_members m @ ''}''"
proof -
  have "join_with '','' (map (\<lambda>(k, v). print_string k @ '':'' @ print_json v) m) = print_members m"
    by (induction m rule: induct_list012) (auto split: prod.splits)
  then show ?thesis by (simp add: object_text_def rfc8259_def)
qed

lemma parse_object_text:
  assumes "m \<noteq> []" and "list_all (\<lambda>v. json_wf v \<and> json_depth v < 127) (map snd m)"
  shows "parse_json (CHR ''{'' # print_members m @ ''}'') = Inr (json_object m)"
proof -
  let ?s = "CHR ''{'' # print_members m @ ''}''"
  have wf: "list_all json_wf (map snd m)"
    using assms(2) by (auto simp: list_all_iff)
  obtain k v ms where m: "m = (k, v) # ms" using assms(1) by (cases m) auto
  have hd: "\<exists>t. print_members m = quote_char # t"
    using m by (cases ms) (auto simp: print_string_def)
  define n where "n = length ?s"
  have "parse_members n (print_members m @ CHR ''}'' # []) = Some (m, [])"
    by (rule parse_print(3) [OF wf assms(1)]) (simp add: n_def)
  with hd have "parse_value (Suc n) ?s = Some (json_object m, [])"
    by (auto simp: Let_def)
  moreover have "json_depth (json_object m) < 128"
    using json_depth_object [of m 127] assms(2) by (auto simp: list_all_iff)
  ultimately show ?thesis by (simp only: parse_json_def n_def) simp
qed

lemma print_minimal_string:
  assumes "list_all printable_char s"
  shows "print_string s = minimal_string s"
proof -
  have "escape_char c = (if c = CHR 0x22 \<or> c = CHR 0x5C then [CHR 0x5C, c] else [c])"
    if "c \<in> set s" for c
  proof -
    have "32 \<le> (of_char c :: nat)"
      using assms that by (auto simp: list_all_iff printable_char_def)
    then have "c \<noteq> CHR 0x08" "c \<noteq> CHR 0x0C" "c \<noteq> CHR 0x0A" "c \<noteq> CHR 0x0D" "c \<noteq> CHR 0x09" 
      by auto
    with \<open>32 \<le> of_char c\<close> show ?thesis by (simp add: escape_char_def short_escape_def)
  qed
  then have "map escape_char s = map (\<lambda>c. if c = CHR 0x22 \<or> c = CHR 0x5C then [CHR 0x5C, c] else [c]) s"
    by (rule map_cong [OF refl])
  then show ?thesis by (simp only: print_string_def minimal_string_def)
qed

interpretation rfc: serde_json_text rfc8259
proof unfold_locales
  fix m :: "(string \<times> json) list"
  assume "m \<noteq> []" "list_all (\<lambda>v. json_wf v \<and> json_depth v < 127) (map snd m)"
  then show "from_text rfc8259 (object_text rfc8259 m) = Inr (json_object m)"
    unfolding object_text_members by (simp add: rfc8259_def parse_object_text)
qed (simp_all add: rfc8259_def parse_json_print print_minimal_string)

end
