(* ===== verification/Store_Properties.thy ===== *)
theory Store_Properties
  imports Store_Recovery Json_Text
begin

text \<open>
  The properties of the event store, each with the instance that shows its hypotheses can hold.
  The instances use the concrete JSON reader and printer of \<open>Json_Text\<close>, a project row, a session and
  a run, and stores reached by appending them.
\<close>

section \<open>Sample records and stores\<close>

definition sample_project :: project_projection where
  "sample_project =
     \<lparr>prj_project_id = ''p1'', prj_name = ''capo'', prj_status = ''active'', prj_updated_sequence = 0\<rparr>"

definition sample_session :: "string option \<Rightarrow> session_projection" where
  "sample_session blocker =
     \<lparr>ses_session_id = ''s1'', ses_project_id = ''p1'', ses_task_id = None, ses_agent_id = ''a1'',
      ses_title = ''t'', ses_status = ''running'', ses_current_goal = ''g'', ses_latest_summary = None,
      ses_latest_confidence = None, ses_latest_blocker = blocker, ses_external_session_ref = None,
      ses_updated_sequence = 0\<rparr>"

definition sample_event :: "string \<Rightarrow> new_event" where
  "sample_event i =
     (new_event_new i ProjectRegistered ''capo'')
       \<lparr>nev_project_id := Some ''p1'', nev_idempotency_key := Some i\<rparr>"

definition sample_store :: store where
  "sample_store = snd (append_event rfc8259 (sample_event ''e1'') [Project sample_project] store_open)"

lemma sample_admissible: "append_admissible rfc8259 (sample_event ''e1'') [Project sample_project] store_open"
  by (simp add: append_admissible_def find_idempotent_def event_id_taken_def store_open_def
      json_columns_ok_def)

lemma sample_store_eq:
  "sample_store = committed_store rfc8259 (sample_event ''e1'') [Project sample_project] store_open"
  by (simp add: sample_store_def append_event_commits [OF sample_admissible])

lemma sample_append:
  "append_event rfc8259 (sample_event ''e1'') [Project sample_project] store_open = (Inr 1, sample_store)"
  by (simp add: append_event_commits [OF sample_admissible] sample_store_eq) (simp add: store_open_def)

lemma sample_event_keys [simp]:
  "nev_project_id (sample_event i) = Some ''p1''" "nev_idempotency_key (sample_event i) = Some i"
  "nev_event_id (sample_event i) = i"
  by (simp_all add: sample_event_def new_event_new_def)

lemma sample_faithful: "replay_faithful rfc8259 (Project sample_project)"
  by (simp add: replay_faithful_def sample_project_def project_wf_def id_ok_def) code_simp

lemma sample_reachable: "store_reachable rfc8259 (replay_faithful rfc8259) sample_store"
  unfolding sample_store_def
  by (intro reach_step [OF reach_open] step_append) (simp add: sample_faithful)

lemma sample_events: "st_events sample_store \<noteq> []"
  by (simp add: sample_store_eq committed_store_def Let_def)

section \<open>Rebuilding\<close>

text \<open>
  C1. Rebuilding the read models of a store that was reached through any sequence of operations,
  every appended record of which is one the codec restores, succeeds and changes nothing: the tables
  and the watermark computed from the projection log are those accumulated incrementally.
\<close>

theorem rebuild_reproduces_read_models:
  assumes "serde_json_text sj" and "store_reachable sj (replay_faithful sj) s" and "st_events s \<noteq> []"
  shows "rebuild_projections sj s = (Inr (), s)"
  using reachable_replay [OF assms(1,2)] rebuild_identity assms(3) by blast

theorem rebuild_reproduces_read_models_witness:
  "rebuild_projections rfc8259 sample_store = (Inr (), sample_store)"
  by (rule rebuild_reproduces_read_models [OF rfc.serde_json_text_axioms sample_reachable sample_events])


text \<open>
  C2. What an operation on the store can never do: in every store reached by any sequence of
  operations, whatever records callers hand in, the sequence numbers are exactly 1, 2, ..., n without
  a gap, event ids are pairwise different, and no project uses an idempotency key twice.
\<close>

theorem event_log_gap_free:
  assumes "store_reachable sj P s"
  shows "map ev_sequence (st_events s) = map int [1..<Suc (length (st_events s))]
    \<and> distinct (map ev_event_id (st_events s))
    \<and> distinct (concat (map idempotency_pair (st_events s)))"
  using reachable_wf [OF assms] by (simp only: store_wf_def events_wf_def)

theorem event_log_gap_free_witness:
  "map ev_sequence (st_events sample_store) = map int [1..<Suc (length (st_events sample_store))]
    \<and> distinct (map ev_event_id (st_events sample_store))
    \<and> distinct (concat (map idempotency_pair (st_events sample_store)))"
  by (rule event_log_gap_free [OF sample_reachable])

section \<open>Appending\<close>

text \<open>
  C3. A committed append: the event gets the next sequence number, its row is added to the log,
  every record is logged under that sequence and applied to the tables in order, the default
  watermark moves to the sequence, and every live subscriber receives the committed row after what it
  had not yet read.
\<close>

theorem append_event_committed:
  assumes "append_admissible sj event rs s" and "broadcaster_wf (st_hub s)"
    and "append_event sj event rs s = (r, s')"
  shows "r = Inr (st_sequence s + 1)
    \<and> st_sequence s' = st_sequence s + 1
    \<and> st_events s' = st_events s @ [committed_event_record (st_sequence s + 1) event]
    \<and> st_log s' = st_log s @ map (\<lambda>x. (st_sequence s + 1, projection_record_to_row sj x)) rs
    \<and> st_tables s' = fold (row_effect (st_sequence s + 1)) rs (st_tables s)
    \<and> watermark ''default'' s' = Some (st_sequence s + 1)
    \<and> channel (st_hub s') c =
        map_option (\<lambda>q. q @ [committed_event_record (st_sequence s + 1) event]) (channel (st_hub s) c)"
  using assms append_event_commits [OF assms(1)]
  by (auto simp: committed_store_def Let_def watermark_def update_conv' channel_publish)

theorem append_event_committed_witness:
  "channel (st_hub (snd (append_event rfc8259 (sample_event ''e1'') [Project sample_project] store_open))) 0 = None
   \<and> watermark ''default'' (snd (append_event rfc8259 (sample_event ''e1'') [Project sample_project] store_open)) = Some 1"
  using append_event_committed
    [OF sample_admissible _ surjective_pairing, of 0] broadcaster_new_wf
  by (simp add: store_open_def channel_def broadcaster_new_def)

text \<open>
  A rejected append leaves the store as it was, subscribers included, and says why: the event
  id is taken, the sequence counter is exhausted, or a record carries text that is not JSON in a JSON
  column.  There is no other way to fail.
\<close>

theorem append_event_rejected:
  assumes "append_event sj event rs s = (Inl e, s')"
  shows "s' = s \<and> find_idempotent event s = None
    \<and> (e = Sql (UniqueViolation ''events'') \<and> event_id_taken (nev_event_id event) s
       \<or> e = Sql DatabaseFull
       \<or> (\<exists>kind i field t. e = InvalidProjectionJson kind i field t))"
proof -
  have none: "find_idempotent event s = None"
    using assms append_event_known [of event s _ sj rs] by (cases "find_idempotent event s") auto
  moreover have "\<not> append_admissible sj event rs s"
    using assms append_event_commits [of sj event rs s] by auto
  ultimately show ?thesis
    using assms by (auto elim!: append_event_rejects [of event s sj rs])
qed

lemma sample_duplicate_id:
  "append_event rfc8259 (new_event_new ''e1'' ProjectRegistered ''x'') [] sample_store =
     (Inl (Sql (UniqueViolation ''events'')), sample_store)"
  by (simp add: append_event_def publish_committed_def op_bind_def in_transaction_def
      append_transaction_def sample_store_eq committed_store_def Let_def insert_event_def store_open_def
      sample_event_def new_event_new_def committed_event_record_def find_idempotent_def same_idempotency_def)

theorem append_event_rejected_witness:
  "event_id_taken ''e1'' sample_store"
  using append_event_rejected [OF sample_duplicate_id] by (simp add: new_event_new_def)

text \<open>
  C4. Appending is idempotent per project and key: once an event with an idempotency key was
  appended, appending any event with the same project and key, whatever its other fields and records,
  returns the sequence of the first and changes nothing, at once or after any further operations.
\<close>

theorem append_event_idempotent:
  assumes "nev_project_id event = Some p" "nev_idempotency_key event = Some k"
    and "append_event sj event rs s = (Inr n, s')"
    and "nev_project_id event2 = Some p" "nev_idempotency_key event2 = Some k"
    and "(store_step sj P)\<^sup>*\<^sup>* s' t"
  shows "append_event sj event2 rs2 t = (Inr n, t)"
proof -
  have "extends_log s' t"
    using assms(6) by induction (auto intro: extends_log_trans step_extends)
  with replaysD(2) [OF replays_append [OF assms(1,2,4,5)] assms(3)] show ?thesis .
qed

theorem append_event_idempotent_witness:
  "append_event rfc8259 (sample_event ''e1'') [] sample_store = (Inr 1, sample_store)"
  by (rule append_event_idempotent [OF _ _ sample_append, where P = "\<lambda>_. True"]) simp_all

text \<open>
  C5. The log is append only: no operation removes, reorders or rewrites an event or a logged
  projection record.
\<close>

theorem log_append_only:
  assumes "store_step sj P s s'"
  shows "prefix (st_events s) (st_events s') \<and> prefix (st_log s) (st_log s')"
  using step_extends [OF assms] by (simp add: extends_log_def)

theorem log_append_only_witness:
  "prefix (st_events sample_store) (st_events (snd (rebuild_projections rfc8259 sample_store)))
   \<and> prefix (st_log sample_store) (st_log (snd (rebuild_projections rfc8259 sample_store)))"
  by (rule log_append_only [OF step_rebuild [where P = "\<lambda>_. True"]])

section \<open>What every reachable store looks like\<close>

text \<open>
  The default watermark of a reachable store that has events is its last sequence number, so a
  subscriber that resumes from the watermark misses nothing that was committed.
\<close>

theorem watermark_is_last_sequence:
  assumes "store_reachable sj P s" and "st_events s \<noteq> []"
  shows "watermark ''default'' s = Some (last_sequence s) \<and> last_sequence s = event_count s"
proof -
  have wf: "store_wf s" by (rule reachable_wf [OF assms(1)])
  then have "st_watermarks s = [(''default'', st_sequence s)]"
    using assms(2) by (simp add: store_wf_def watermark_wf_def)
  moreover have "last_sequence s = st_sequence s"
    using wf by (simp add: store_wf_def last_sequence_eq)
  moreover have "st_sequence s = event_count s"
    using wf by (simp only: store_wf_def events_wf_def event_count_def)
  ultimately show ?thesis by (simp add: watermark_def)
qed

theorem watermark_is_last_sequence_witness:
  "watermark ''default'' sample_store = Some (last_sequence sample_store)
   \<and> last_sequence sample_store = event_count sample_store"
  by (rule watermark_is_last_sequence [OF sample_reachable sample_events])

text \<open>
  C6. Every row of every read-model table of a reachable store is a record of that table's kind,
  stored under its own primary key, and no key occurs twice.
\<close>

theorem tables_stay_typed:
  assumes "store_reachable sj P s"
  shows "distinct (map fst (st_tables s t))
    \<and> (lookup (st_tables s) t k = Some r \<longrightarrow> table_of r = t \<and> key_of r = k)"
proof -
  have "typed_tables (st_tables s)"
    using reachable_wf [OF assms] by (simp add: store_wf_def)
  then show ?thesis
    using typed_lookup [of "st_tables s" t k r] by (auto simp: typed_tables_def row_ok_def)
qed

lemma sample_lookup:
  "lookup (st_tables sample_store) ''projects'' [''p1''] = Some (with_sequence 1 (Project sample_project))"
  by (simp add: sample_store_eq committed_store_def Let_def store_open_def row_effect_upsert
      lookup_upsert sample_project_def)

theorem tables_stay_typed_witness:
  "distinct (map fst (st_tables sample_store ''projects''))
    \<and> table_of (with_sequence 1 (Project sample_project)) = ''projects''
    \<and> key_of (with_sequence 1 (Project sample_project)) = [''p1'']"
  using tables_stay_typed [OF sample_reachable, of "''projects''" "[''p1'']"] sample_lookup by blast

text \<open>
  C7. No reachable store holds an artifact whose content was not classified as safe or redacted,
  and recording one that was not is refused without a trace.
\<close>

theorem artifacts_are_persistable:
  assumes "store_reachable sj P s"
  shows "list_all (\<lambda>(i, a). art_redaction_state a = Safe \<or> art_redaction_state a = Redacted) (st_artifacts s)
    \<and> (art_redaction_state b = Unknown \<or> art_redaction_state b = ContainsSensitive \<longrightarrow>
        record_artifact b s = (Inl (UnsafeArtifactRedactionState (art_redaction_state b)), s))"
proof -
  have "is_persistable_artifact x \<longleftrightarrow> x = Safe \<or> x = Redacted" for x by (cases x) simp_all
  moreover have "artifacts_wf s" using reachable_wf [OF assms] by (simp add: store_wf_def)
  ultimately show ?thesis
    by (auto simp: artifacts_wf_def list_all_iff record_artifact_def)
qed

text \<open>A store that holds a redacted artifact, and two artifacts offered to it.\<close>

definition sample_artifact :: "string \<Rightarrow> redaction_state \<Rightarrow> artifact_record" where
  "sample_artifact i redaction =
     \<lparr>art_artifact_id = i, art_project_id = Some ''p1'', art_session_id = None, art_run_id = None,
      art_kind = ''stdout'', art_uri = ''file:///w/art/stdout.txt'', art_content_hash = ''h1'',
      art_size_bytes = 7, art_redaction_state = redaction\<rparr>"

definition artifact_store :: store where
  "artifact_store = snd (record_artifact (sample_artifact ''x1'' Redacted) sample_store)"

lemma artifact_store_reachable: "store_reachable rfc8259 (replay_faithful rfc8259) artifact_store"
  unfolding artifact_store_def by (rule reach_step [OF sample_reachable step_artifact])

lemma artifact_store_holds: "st_artifacts artifact_store = [(''x1'', sample_artifact ''x1'' Redacted)]"
  by (simp add: artifact_store_def record_artifact_def sample_artifact_def sample_store_eq committed_store_def
      Let_def store_open_def)

theorem artifacts_are_persistable_witness:
  "(case st_artifacts artifact_store of [(i, a)] \<Rightarrow> i = ''x1'' \<and> (art_redaction_state a = Safe \<or> art_redaction_state a = Redacted)
      | _ \<Rightarrow> False)
   \<and> record_artifact (sample_artifact ''x2'' ContainsSensitive) artifact_store
       = (Inl (UnsafeArtifactRedactionState ContainsSensitive), artifact_store)
   \<and> record_artifact (sample_artifact ''x1'' Unknown) artifact_store
       = (Inl (UnsafeArtifactRedactionState Unknown), artifact_store)"
  using artifacts_are_persistable [OF artifact_store_reachable, of "sample_artifact ''x2'' ContainsSensitive"]
    artifacts_are_persistable [OF artifact_store_reachable, of "sample_artifact ''x1'' Unknown"]
  by (simp add: artifact_store_holds sample_artifact_def)

section \<open>Approvals\<close>

definition sample_approval :: "string \<Rightarrow> string \<Rightarrow> permission_approval_projection" where
  "sample_approval status reason =
     \<lparr>appr_approval_id = ''ap1'', appr_project_id = ''p1'', appr_session_id = None,
      appr_tool_call_id = None, appr_capability_profile_id = ''trusted'', appr_scope_json = ''[]'',
      appr_subject_json = ''{}'', appr_status = status, appr_requested_by = ''agent'',
      appr_reason = reason, appr_decision = None, appr_capability_grant_id = None,
      appr_updated_sequence = 0\<rparr>"



lemma sample_json: "is_json rfc8259 ''[]''" "is_json rfc8259 ''{}''"
  by (code_simp, code_simp)









text \<open>What that exception is about: appending a pending row over the decided one reopens it.\<close>

lemma pending_append_reopens:
  assumes "append_event sj e [PermissionApproval a] s = (Inr n, s')" "find_idempotent e s = None"
    and "appr_status a = ''pending''"
  shows "\<not> decided (appr_approval_id a) (appr_project_id a) s'"
  using approval_after_append [OF assms(1,2)] assms(3) by (simp add: decided_def)

text \<open>
  A decision that also creates a grant is atomic: if it succeeds, the store is the one two
  consecutive appends (the decision with its approval row, then the grant) would have produced; if it
  fails, the store is unchanged, so there is never a decision without its grant.
\<close>

theorem decision_is_atomic:
  assumes "decide_permission_approval sj i de (Some ge) a (Some g) s = (r, s')"
  shows "case r of
      Inl e \<Rightarrow> s' = s
    | Inr n \<Rightarrow> op_bind (append_event sj de [PermissionApproval a])
                 (\<lambda>_. append_event sj ge [CapabilityGrant g]) s = (Inr n, s')"
proof (cases r)
  case (Inl e)
  with assms decide_Inl show ?thesis by auto
next
  case (Inr n)
  with assms decide_Inr_two [of sj i de ge a g s n s'] show ?thesis
    by (auto simp: op_bind_def split: prod.splits)
qed

lemma sample_decide_missing:
  "decide_permission_approval rfc8259 ''ap1'' (sample_event ''d1'') (Some (sample_event ''d2''))
     (sample_approval ''approved'' ''r'') (Some g) store_open =
   (Inl (MissingReadModel ''permission_approval'' ''ap1''), store_open)"
  by (simp add: decide_permission_approval_def publish_committed_def op_bind_def in_transaction_def
      decide_transaction_def approval_row_def lookup_def store_open_def)

theorem decision_is_atomic_witness:
  "snd (decide_permission_approval rfc8259 ''ap1'' (sample_event ''d1'') (Some (sample_event ''d2''))
     (sample_approval ''approved'' ''r'')
     (Some \<lparr>grant_capability_grant_id = ''g1'', grant_capability_profile_id = ''trusted'',
            grant_scope_json = ''[]'', grant_effect = ''allow'', grant_subject_json = ''{}'',
            grant_decision_source = ''user'', grant_persistence = ''session'', grant_explanation = [],
            grant_created_at = None, grant_expires_at = None, grant_revoked_at = None,
            grant_updated_sequence = 0\<rparr>) store_open) = store_open"
  using decision_is_atomic [OF sample_decide_missing] by (simp add: sample_decide_missing)

section \<open>Restart recovery\<close>

text \<open>
  C9. A liveness-aware recovery sweep is idempotent: after a sweep over some observations
  succeeded, a sweep over the same observations under any other recovery attempt id, now or after
  further operations, returns the same reconciled runs and appends nothing.
\<close>

theorem recovery_sweep_idempotent:
  assumes "recover_inflight_runs sj p attempt observations s = (Inr runs, s')"
    and "(store_step sj P)\<^sup>*\<^sup>* s' t"
  shows "recover_inflight_runs sj p attempt2 observations t = (Inr runs, t)"
proof -
  have "extends_log s' t"
    using assms(2) by induction (auto intro: extends_log_trans step_extends)
  with replaysD(2) [OF recover_replays assms(1)] show ?thesis .
qed

definition sample_observation :: run_recovery_observation where
  "sample_observation =
     \<lparr>rcv_run_id = ''r1'', rcv_session_id = ''s1'', rcv_previous_status = ''running'',
      rcv_kind = Reattached, rcv_external_pid = Some 42, rcv_runtime_process_ref = Some ''ref'',
      rcv_observed_runtime_state_hash = ''fnv1a64:00''\<rparr>"

lemma append_run_ok:
  assumes "list_all (\<lambda>x. ev_idempotency_key x \<noteq> nev_idempotency_key e \<and> ev_event_id x \<noteq> nev_event_id e)
      (st_events s)"
    and "st_sequence s + 1 < 2 ^ 63"
  shows "append_event sj e [Run r] s = (Inr (st_sequence s + 1), committed_store sj e [Run r] s)"
proof -
  have "find_idempotent e s = None" "\<not> event_id_taken (nev_event_id e) s"
    using assms(1) by (auto simp: find_idempotent_def event_id_taken_def find_None_iff list_all_iff
        same_idempotency_def)
  with assms(2) show ?thesis
    by (intro append_event_commits) (simp add: append_admissible_def json_columns_ok_def)
qed

definition sample_recovered :: run_projection where
  "sample_recovered =
     \<lparr>run_run_id = ''r1'', run_session_id = ''s1'', run_status = ''recovered'',
      run_recovery_of_run_id = None, run_updated_sequence = 0\<rparr>"

lemma sample_recover_one:
  "\<exists>s'. recover_inflight_run rfc8259 ''p1'' ''att1'' sample_observation store_open = (Inr sample_recovered, s')"
  by (simp add: recover_inflight_run_def sample_observation_def op_bind_def op_return_def
      append_run_recovery_event_def Let_def append_run_ok store_open_def recovery_event_def
      sample_recovered_def)

lemma sample_recover:
  obtains s' where "recover_inflight_run rfc8259 ''p1'' ''att1'' sample_observation store_open
      = (Inr sample_recovered, s')"
    "recover_inflight_runs rfc8259 ''p1'' ''att1'' [sample_observation] store_open
      = (Inr [sample_recovered], s')"
  using sample_recover_one by (auto simp: recover_inflight_runs_def op_bind_def op_return_def)

theorem recovery_sweep_idempotent_witness:
  "let s' = snd (recover_inflight_runs rfc8259 ''p1'' ''att1'' [sample_observation] store_open)
   in recover_inflight_runs rfc8259 ''p1'' ''att2'' [sample_observation] s' = (Inr [sample_recovered], s')"
proof (rule sample_recover)
  fix s'
  assume "recover_inflight_runs rfc8259 ''p1'' ''att1'' [sample_observation] store_open
      = (Inr [sample_recovered], s')"
  from recovery_sweep_idempotent [OF this, where P = "\<lambda>_. True" and t = s'] this show ?thesis
    by (simp add: Let_def)
qed

text \<open>
  What recovery returns is what the store holds: after one observation was recovered that
  had not been recovered before, the runs table holds the returned run, with status \<open>recovered\<close> and
  the sequence of the last event, whatever the observation was (reattached, orphaned or exited).
\<close>

theorem recovered_run_is_stored:
  assumes "recover_inflight_run sj p attempt obs s = (Inr r, s')"
    and "no_key (recovered_key obs) s"
  shows "lookup (st_tables s') ''runs'' [rcv_run_id obs] =
      Some (Run (r\<lparr>run_updated_sequence := st_sequence s'\<rparr>))
    \<and> run_status r = ''recovered'' \<and> run_status r = recovery_run_status (rcv_kind obs)"
  using recover_run_ends_recovered [OF assms] by (cases "rcv_kind obs") auto

theorem recovered_run_is_stored_witness:
  "lookup (st_tables (snd (recover_inflight_run rfc8259 ''p1'' ''att1'' sample_observation store_open)))
     ''runs'' [''r1''] \<noteq> None"
proof (rule sample_recover)
  fix s'
  assume "recover_inflight_run rfc8259 ''p1'' ''att1'' sample_observation store_open
      = (Inr sample_recovered, s')"
  from recovered_run_is_stored [OF this] this show ?thesis
    by (simp add: no_key_def store_open_def) (simp add: sample_observation_def)
qed

text \<open>
  The reaping sweep of the first recovery phase is idempotent in the same sense.
\<close>

theorem reap_sweep_idempotent:
  assumes "reap_orphaned_runs sj p attempt observations s = (Inr runs, s')"
    and "(store_step sj P)\<^sup>*\<^sup>* s' t"
  shows "reap_orphaned_runs sj p attempt2 observations t = (Inr runs, t)"
proof -
  have "extends_log s' t"
    using assms(2) by induction (auto intro: extends_log_trans step_extends)
  with replaysD(2) [OF reap_replays assms(1)] show ?thesis .
qed

definition sample_reap :: run_reap_observation where
  "sample_reap =
     \<lparr>reap_run_id = ''r1'', reap_session_id = ''s1'', reap_previous_status = ''running'',
      reap_kind = NoProcess, reap_external_pid = None, reap_observed_runtime_state_hash = ''h''\<rparr>"

lemma sample_reap_one:
  "\<exists>s'. reap_orphaned_runs rfc8259 ''p1'' ''att1'' [sample_reap] store_open = (Inr [sample_recovered], s')"
  by (simp add: reap_orphaned_runs_def reap_orphaned_run_def sample_reap_def op_bind_def op_return_def
      append_recovery_event_def Let_def append_run_ok store_open_def recovery_event_def
      sample_recovered_def committed_store_def committed_event_record_def
      recovery_idempotency_key_def hash_suffix_def unwrap_or_def)

theorem reap_sweep_idempotent_witness:
  "let s' = snd (reap_orphaned_runs rfc8259 ''p1'' ''att1'' [sample_reap] store_open)
   in reap_orphaned_runs rfc8259 ''p1'' ''att2'' [sample_reap] s' = (Inr [sample_recovered], s')"
proof -
  obtain s' where s': "reap_orphaned_runs rfc8259 ''p1'' ''att1'' [sample_reap] store_open
      = (Inr [sample_recovered], s')"
    using sample_reap_one by blast
  from reap_sweep_idempotent [OF s', where P = "\<lambda>_. True" and t = s'] s' show ?thesis
    by (simp add: Let_def)
qed

section \<open>The codec\<close>

text \<open>
  C10. The projection log restores what it was given: decoding the encoded row of any record whose
  identifiers and integers are in range, that is not a session with a blocker and not an approval
  whose payload text is not canonical, gives the record back, with the sequence number reset (the
  store sets it from the row's own sequence).  All 43 kinds are covered.
\<close>

theorem projection_codec_roundtrip:
  assumes "serde_json_text sj" and "replay_faithful sj r"
  shows "projection_record_from_row sj (projection_record_to_row sj r) = Inr (with_sequence 0 r)"
  by (rule projection_record_roundtrip [OF assms])

lemma approval_sample_faithful:
  "replay_faithful rfc8259 (PermissionApproval (sample_approval ''pending'' ''r''))"
proof -
  have "approval_text_ok rfc8259 (sample_approval ''pending'' ''r'')" by code_simp
  moreover have "permission_approval_wf (sample_approval ''pending'' ''r'')"
    by (simp add: permission_approval_wf_def sample_approval_def id_ok_def) code_simp
  ultimately show ?thesis by (simp add: replay_faithful_def)
qed

theorem projection_codec_roundtrip_witness:
  "projection_record_from_row rfc8259
     (projection_record_to_row rfc8259 (PermissionApproval (sample_approval ''pending'' ''r''))) =
   Inr (PermissionApproval (sample_approval ''pending'' ''r''))"
  using projection_codec_roundtrip [OF rfc.serde_json_text_axioms approval_sample_faithful]
  by (simp add: sample_approval_def)

text \<open>
  A session's \<open>latest_blocker\<close> does not survive the log: every session row decodes with no
  blocker, whatever was appended, because the encoder has no column for it.  Rebuilding a store that
  holds a blocked session therefore succeeds and erases the blocker.
\<close>

theorem session_blocker_not_logged:
  assumes "serde_json sj" and "session_wf p"
  shows "projection_record_from_row sj (projection_record_to_row sj (Session p)) =
    Inr (Session (p\<lparr>ses_latest_blocker := None, ses_updated_sequence := 0\<rparr>))"
  using session_roundtrip [OF assms] by (simp add: projection_record_from_row_def Let_def to_row_kind)

theorem session_blocker_not_logged_witness:
  "projection_record_from_row rfc8259
     (projection_record_to_row rfc8259 (Session (sample_session (Some ''needs review'')))) =
   Inr (Session (sample_session None))"
proof -
  have "session_wf (sample_session (Some ''needs review''))"
    by (simp add: session_wf_def sample_session_def id_ok_def) code_simp
  from session_blocker_not_logged [OF rfc.serde_json_axioms this] show ?thesis
    by (simp add: sample_session_def)
qed

definition line_break_approval :: projection_record where
  "line_break_approval = PermissionApproval (sample_approval ''pending'' [CHR ''a'', CHR 0x0A, CHR ''b''])"

definition line_break_store :: store where
  "line_break_store = snd (append_event rfc8259 (sample_event ''q1'') [line_break_approval] store_open)"

text \<open>
  An approval whose reason holds a line break is accepted by the store but its log row is not
  JSON: after appending it every rebuild fails, and the store can never be rebuilt again.
\<close>

theorem approval_line_break_blocks_rebuild:
  "fst (append_event rfc8259 (sample_event ''q1'') [line_break_approval] store_open) = Inr 1
   \<and> (\<exists>m. rebuild_projections rfc8259 line_break_store = (Inl (Sql (RowConversion m)), line_break_store))"
proof -
  have adm: "append_admissible rfc8259 (sample_event ''q1'') [line_break_approval] store_open"
    by (simp add: append_admissible_def find_idempotent_def event_id_taken_def store_open_def
        json_columns_ok_def line_break_approval_def sample_approval_def sample_json)
  have bad: "\<exists>m. decode_logged rfc8259 (projection_record_to_row rfc8259 line_break_approval)
      = Inl (Sql (RowConversion m))"
  proof -
    have "from_text rfc8259 (row_payload_json (projection_record_to_row rfc8259 line_break_approval))
        = Inl ''expected value''"
      by code_simp
    then show ?thesis
      by (simp add: decode_logged_def projection_record_from_row_def line_break_approval_def Let_def
          to_row_kind permission_approval_from_row_def parse_projection_payload_def invalid_field_def)
  qed
  have log: "st_log line_break_store = [(1, projection_record_to_row rfc8259 line_break_approval)]"
    by (simp add: line_break_store_def append_event_commits [OF adm] committed_store_def Let_def)
      (simp add: store_open_def)
  show ?thesis
    using bad by (auto simp: rebuild_cases log store_simps append_event_commits [OF adm])
      (simp add: store_open_def)
qed

text \<open>
  The read models are last-write-wins: after applying any sequence of records that holds no
  workpad reset, the row under a key of a table is the last record written there, stamped with the
  sequence of its event, and keys never written are absent.
\<close>

theorem tables_last_write_wins:
  assumes "list_all (\<lambda>(n, r). \<not> is_reset r \<and> json_columns_ok sj r) nrs"
  shows "\<exists>db. try_fold (\<lambda>db (n, r). apply_projection_record sj n r db) (\<lambda>_. []) nrs = Inr db
    \<and> (\<forall>t k. lookup db t k =
          map_of (rev (map (\<lambda>(n, r). ((table_of r, key_of r), with_sequence n r)) nrs)) (t, k))"
proof -
  let ?w = "\<lambda>(n, r). ((table_of r, key_of r), with_sequence n r)"
  have "try_fold (\<lambda>db (n, r). apply_projection_record sj n r db) db nrs =
      Inr (fold (\<lambda>(tk, v). upsert (fst tk) (snd tk) v) (map ?w nrs) db)" for db
    using assms
    by (induction nrs arbitrary: db) (auto simp: apply_ok row_effect_upsert)
  then show ?thesis
    using dbs.look_fold_empty [of "map ?w nrs"] by (auto simp: fun_eq_iff split_def)
qed

theorem tables_last_write_wins_witness:
  "\<exists>db. try_fold (\<lambda>db (n, r). apply_projection_record rfc8259 n r db) (\<lambda>_. [])
       [(1, Project sample_project), (2, Project sample_project)] = Inr db
    \<and> lookup db ''projects'' [''p1''] = Some (with_sequence 2 (Project sample_project))"
  using tables_last_write_wins [of rfc8259 "[(1, Project sample_project), (2, Project sample_project)]"]
  by (auto simp: json_columns_ok_def sample_project_def)

text \<open>
  The wire names of the event kinds are unambiguous: the lookup table of \<open>from_wire\<close> holds
  every one of the 113 kinds, finds each by its own name, and two kinds never share a name.
\<close>

theorem event_kind_wire_roundtrip:
  "from_wire (as_str k) = Some k \<and> (as_str k = as_str l \<longleftrightarrow> k = l)"
  by (simp add: event_kind_from_wire_as_str event_kind_as_str_inject)

end
