(* ===== verification/Queries.thy ===== *)
theory Queries
  imports Store_Invariants "HOL-Library.Option_ord"
begin

text \<open>
  \<open>capo-state/src/queries.rs\<close>: the read side of the store.  A \<open>SELECT\<close> is the filtered and sorted
  list of the rows of its table, each read back as the record it was written from (rows hold records
  with non-blank identifiers, so wrapping a column in an identifier cannot panic); a \<open>SELECT\<close> by
  primary key is a lookup.  Text columns compare byte-wise and \<open>NULL\<close> sorts first.  Where a statement
  orders by the sequence alone and takes one row, the earliest row of the newest sequence is taken.

  The results are characterised once, for an arbitrary query of this form, in the locale
  \<open>row_query\<close>; reading the event log page by page is shown to deliver every event exactly once.
\<close>

section \<open>Rows as records\<close>

definition first_row :: "'a list \<Rightarrow> 'a option" where
  "first_row rs = (case rs of [] \<Rightarrow> None | r # _ \<Rightarrow> Some r)"

definition agent_of_row :: "projection_record \<Rightarrow> agent_projection list" where
  "agent_of_row r = (case r of Agent p \<Rightarrow> [p] | _ \<Rightarrow> [])"

definition grant_of_row :: "projection_record \<Rightarrow> capability_grant_projection list" where
  "grant_of_row r = (case r of CapabilityGrant p \<Rightarrow> [p] | _ \<Rightarrow> [])"

definition workspace_lease_of_row :: "projection_record \<Rightarrow> workspace_lease_projection list" where
  "workspace_lease_of_row r = (case r of WorkspaceLease p \<Rightarrow> [p] | _ \<Rightarrow> [])"

definition checkpoint_of_row :: "projection_record \<Rightarrow> checkpoint_projection list" where
  "checkpoint_of_row r = (case r of Checkpoint p \<Rightarrow> [p] | _ \<Rightarrow> [])"

definition worktree_of_row :: "projection_record \<Rightarrow> worktree_projection list" where
  "worktree_of_row r = (case r of Worktree p \<Rightarrow> [p] | _ \<Rightarrow> [])"

definition permission_approval_of_row :: "projection_record \<Rightarrow> permission_approval_projection list" where
  "permission_approval_of_row r = (case r of PermissionApproval p \<Rightarrow> [p] | _ \<Rightarrow> [])"

definition connectivity_exposure_of_row :: "projection_record \<Rightarrow> connectivity_exposure_projection list" where
  "connectivity_exposure_of_row r = (case r of ConnectivityExposure p \<Rightarrow> [p] | _ \<Rightarrow> [])"

definition runtime_target_of_row :: "projection_record \<Rightarrow> runtime_target_projection list" where
  "runtime_target_of_row r = (case r of RuntimeTarget p \<Rightarrow> [p] | _ \<Rightarrow> [])"

definition adapter_readiness_of_row :: "projection_record \<Rightarrow> adapter_readiness_projection list" where
  "adapter_readiness_of_row r = (case r of AdapterReadiness p \<Rightarrow> [p] | _ \<Rightarrow> [])"

definition adapter_smoke_report_of_row :: "projection_record \<Rightarrow> adapter_smoke_report_projection list" where
  "adapter_smoke_report_of_row r = (case r of AdapterSmokeReport p \<Rightarrow> [p] | _ \<Rightarrow> [])"

definition adapter_dispatch_plan_of_row :: "projection_record \<Rightarrow> adapter_dispatch_plan_projection list" where
  "adapter_dispatch_plan_of_row r = (case r of AdapterDispatchPlan p \<Rightarrow> [p] | _ \<Rightarrow> [])"

definition adapter_dispatch_gate_of_row :: "projection_record \<Rightarrow> adapter_dispatch_gate_projection list" where
  "adapter_dispatch_gate_of_row r = (case r of AdapterDispatchGate p \<Rightarrow> [p] | _ \<Rightarrow> [])"

definition adapter_dispatch_replay_of_row :: "projection_record \<Rightarrow> adapter_dispatch_replay_projection list" where
  "adapter_dispatch_replay_of_row r = (case r of AdapterDispatchReplay p \<Rightarrow> [p] | _ \<Rightarrow> [])"

definition adapter_dispatch_execution_request_of_row :: "projection_record \<Rightarrow> adapter_dispatch_execution_request_projection list" where
  "adapter_dispatch_execution_request_of_row r = (case r of AdapterDispatchExecutionRequest p \<Rightarrow> [p] | _ \<Rightarrow> [])"

definition adapter_dispatch_execution_of_row :: "projection_record \<Rightarrow> adapter_dispatch_execution_projection list" where
  "adapter_dispatch_execution_of_row r = (case r of AdapterDispatchExecution p \<Rightarrow> [p] | _ \<Rightarrow> [])"

definition adapter_dispatch_prompt_source_of_row :: "projection_record \<Rightarrow> adapter_dispatch_prompt_source_projection list" where
  "adapter_dispatch_prompt_source_of_row r = (case r of AdapterDispatchPromptSource p \<Rightarrow> [p] | _ \<Rightarrow> [])"

definition adapter_dispatch_prompt_materialization_of_row :: "projection_record \<Rightarrow> adapter_dispatch_prompt_materialization_projection list" where
  "adapter_dispatch_prompt_materialization_of_row r = (case r of AdapterDispatchPromptMaterialization p \<Rightarrow> [p] | _ \<Rightarrow> [])"

definition evidence_of_row :: "projection_record \<Rightarrow> evidence_projection list" where
  "evidence_of_row r = (case r of Evidence p \<Rightarrow> [p] | _ \<Rightarrow> [])"

definition run_score_of_row :: "projection_record \<Rightarrow> run_score_projection list" where
  "run_score_of_row r = (case r of RunScore p \<Rightarrow> [p] | _ \<Rightarrow> [])"

definition memory_packet_ref_of_row :: "projection_record \<Rightarrow> memory_packet_projection list" where
  "memory_packet_ref_of_row r = (case r of MemoryPacketRef p \<Rightarrow> [p] | _ \<Rightarrow> [])"

definition memory_record_of_row :: "projection_record \<Rightarrow> memory_record_projection list" where
  "memory_record_of_row r = (case r of MemoryRecord p \<Rightarrow> [p] | _ \<Rightarrow> [])"

definition memory_source_of_row :: "projection_record \<Rightarrow> memory_source_projection list" where
  "memory_source_of_row r = (case r of MemorySource p \<Rightarrow> [p] | _ \<Rightarrow> [])"

definition task_outcome_report_of_row :: "projection_record \<Rightarrow> task_outcome_report_projection list" where
  "task_outcome_report_of_row r = (case r of TaskOutcomeReport p \<Rightarrow> [p] | _ \<Rightarrow> [])"

definition review_finding_of_row :: "projection_record \<Rightarrow> review_finding_projection list" where
  "review_finding_of_row r = (case r of ReviewFinding p \<Rightarrow> [p] | _ \<Rightarrow> [])"

definition tool_call_of_row :: "projection_record \<Rightarrow> tool_call_projection list" where
  "tool_call_of_row r = (case r of ToolCall p \<Rightarrow> [p] | _ \<Rightarrow> [])"

definition tool_observation_of_row :: "projection_record \<Rightarrow> tool_observation_projection list" where
  "tool_observation_of_row r = (case r of ToolObservation p \<Rightarrow> [p] | _ \<Rightarrow> [])"

definition adapter_replay_batch_of_row :: "projection_record \<Rightarrow> adapter_replay_batch_projection list" where
  "adapter_replay_batch_of_row r = (case r of AdapterReplayBatch p \<Rightarrow> [p] | _ \<Rightarrow> [])"

definition adapter_raw_update_of_row :: "projection_record \<Rightarrow> adapter_raw_update_projection list" where
  "adapter_raw_update_of_row r = (case r of AdapterRawUpdate p \<Rightarrow> [p] | _ \<Rightarrow> [])"

definition adapter_timeline_key_of_row :: "projection_record \<Rightarrow> adapter_timeline_key_projection list" where
  "adapter_timeline_key_of_row r = (case r of AdapterTimelineKey p \<Rightarrow> [p] | _ \<Rightarrow> [])"

definition workpad_file_of_row :: "projection_record \<Rightarrow> workpad_file_projection list" where
  "workpad_file_of_row r = (case r of WorkpadFile p \<Rightarrow> [p] | _ \<Rightarrow> [])"

definition workpad_task_of_row :: "projection_record \<Rightarrow> workpad_task_projection list" where
  "workpad_task_of_row r = (case r of WorkpadTask p \<Rightarrow> [p] | _ \<Rightarrow> [])"

definition source_binding_of_row :: "projection_record \<Rightarrow> source_binding_projection list" where
  "source_binding_of_row r = (case r of SourceBinding p \<Rightarrow> [p] | _ \<Rightarrow> [])"

definition goal_of_row :: "projection_record \<Rightarrow> goal_projection list" where
  "goal_of_row r = (case r of Goal p \<Rightarrow> [p] | _ \<Rightarrow> [])"

definition requirement_ledger_of_row :: "projection_record \<Rightarrow> requirement_ledger_projection list" where
  "requirement_ledger_of_row r = (case r of RequirementLedger p \<Rightarrow> [p] | _ \<Rightarrow> [])"

definition goal_report_of_row :: "projection_record \<Rightarrow> goal_report_projection list" where
  "goal_report_of_row r = (case r of GoalReport p \<Rightarrow> [p] | _ \<Rightarrow> [])"

definition goal_continuation_of_row :: "projection_record \<Rightarrow> goal_continuation_projection list" where
  "goal_continuation_of_row r = (case r of GoalContinuation p \<Rightarrow> [p] | _ \<Rightarrow> [])"

definition delegated_provider_goal_of_row :: "projection_record \<Rightarrow> delegated_provider_goal_projection list" where
  "delegated_provider_goal_of_row r = (case r of DelegatedProviderGoal p \<Rightarrow> [p] | _ \<Rightarrow> [])"

definition goal_audit_decision_of_row :: "projection_record \<Rightarrow> goal_audit_decision_projection list" where
  "goal_audit_decision_of_row r = (case r of GoalAuditDecision p \<Rightarrow> [p] | _ \<Rightarrow> [])"

section \<open>Single tables\<close>

definition query_session :: "string \<Rightarrow> store \<Rightarrow> session_projection option" where
  "query_session session_id s =
     (case lookup (st_tables s) ''sessions'' [session_id] of
        Some (Session p) \<Rightarrow> Some p
      | _ \<Rightarrow> None)"

definition query_task :: "string \<Rightarrow> store \<Rightarrow> task_projection option" where
  "query_task task_id s =
     (case lookup (st_tables s) ''tasks'' [task_id] of
        Some (Task p) \<Rightarrow> Some p
      | _ \<Rightarrow> None)"

definition query_agent :: "string \<Rightarrow> store \<Rightarrow> agent_projection option" where
  "query_agent agent_id s =
     (case lookup (st_tables s) ''agents'' [agent_id] of
        Some (Agent p) \<Rightarrow> Some p
      | _ \<Rightarrow> None)"

definition agent_by_name :: "string \<Rightarrow> store \<Rightarrow> agent_projection option" where
  "agent_by_name name s =
     first_row (sort_key (\<lambda>p. - agt_updated_sequence p)
       (filter (\<lambda>p. agt_name p = name)
         (concat (map agent_of_row (rows (st_tables s) ''agents'')))))"

definition query_agents :: "store \<Rightarrow> agent_projection list" where
  "query_agents s =
     sort_key (\<lambda>p. (agt_name p, agt_agent_id p))
       (concat (map agent_of_row (rows (st_tables s) ''agents'')))"

definition query_run :: "string \<Rightarrow> store \<Rightarrow> run_projection option" where
  "query_run run_id s =
     (case lookup (st_tables s) ''runs'' [run_id] of
        Some (Run p) \<Rightarrow> Some p
      | _ \<Rightarrow> None)"

definition run_for_session :: "string \<Rightarrow> store \<Rightarrow> run_projection option" where
  "run_for_session session_id s =
     first_row (sort_key (\<lambda>p. - run_updated_sequence p)
       (filter (\<lambda>p. run_session_id p = session_id)
         (concat (map run_of_row (rows (st_tables s) ''runs'')))))"

definition capability_grants :: "store \<Rightarrow> capability_grant_projection list" where
  "capability_grants s =
     sort_key (\<lambda>p. (grant_updated_sequence p, grant_capability_grant_id p))
       (concat (map grant_of_row (rows (st_tables s) ''capability_grants'')))"

definition capability_grant_by_id :: "string \<Rightarrow> store \<Rightarrow> capability_grant_projection option" where
  "capability_grant_by_id capability_grant_id s =
     (case lookup (st_tables s) ''capability_grants'' [capability_grant_id] of
        Some (CapabilityGrant p) \<Rightarrow> Some p
      | _ \<Rightarrow> None)"

definition workspace_lease_by_id :: "string \<Rightarrow> store \<Rightarrow> workspace_lease_projection option" where
  "workspace_lease_by_id workspace_lease_id s =
     (case lookup (st_tables s) ''workspace_leases'' [workspace_lease_id] of
        Some (WorkspaceLease p) \<Rightarrow> Some p
      | _ \<Rightarrow> None)"

definition workspace_leases :: "string \<Rightarrow> store \<Rightarrow> workspace_lease_projection list" where
  "workspace_leases project_id s =
     sort_key (\<lambda>p. (lease_updated_sequence p, lease_workspace_lease_id p))
       (filter (\<lambda>p. lease_project_id p = project_id)
         (concat (map workspace_lease_of_row (rows (st_tables s) ''workspace_leases''))))"

definition checkpoint_by_id :: "string \<Rightarrow> store \<Rightarrow> checkpoint_projection option" where
  "checkpoint_by_id checkpoint_id s =
     (case lookup (st_tables s) ''checkpoints'' [checkpoint_id] of
        Some (Checkpoint p) \<Rightarrow> Some p
      | _ \<Rightarrow> None)"

definition checkpoints_for_run :: "string \<Rightarrow> store \<Rightarrow> checkpoint_projection list" where
  "checkpoints_for_run run_id s =
     sort_key (\<lambda>p. (ckpt_updated_sequence p, ckpt_checkpoint_id p))
       (filter (\<lambda>p. ckpt_run_id p = run_id)
         (concat (map checkpoint_of_row (rows (st_tables s) ''checkpoints''))))"

definition worktree_by_id :: "string \<Rightarrow> store \<Rightarrow> worktree_projection option" where
  "worktree_by_id worktree_id s =
     (case lookup (st_tables s) ''session_worktrees'' [worktree_id] of
        Some (Worktree p) \<Rightarrow> Some p
      | _ \<Rightarrow> None)"

definition worktrees_for_goal :: "string \<Rightarrow> store \<Rightarrow> worktree_projection list" where
  "worktrees_for_goal goal_id s =
     sort_key (\<lambda>p. (- wtree_updated_sequence p, wtree_worktree_id p))
       (filter (\<lambda>p. wtree_goal_id p = Some goal_id)
         (concat (map worktree_of_row (rows (st_tables s) ''session_worktrees''))))"

definition worktrees_for_session :: "string \<Rightarrow> store \<Rightarrow> worktree_projection list" where
  "worktrees_for_session session_id s =
     sort_key (\<lambda>p. (wtree_updated_sequence p, wtree_worktree_id p))
       (filter (\<lambda>p. wtree_session_id p = session_id)
         (concat (map worktree_of_row (rows (st_tables s) ''session_worktrees''))))"

definition permission_approvals :: "string \<Rightarrow> store \<Rightarrow> permission_approval_projection list" where
  "permission_approvals project_id s =
     sort_key (\<lambda>p. (appr_updated_sequence p, appr_approval_id p))
       (filter (\<lambda>p. appr_project_id p = project_id)
         (concat (map permission_approval_of_row (rows (st_tables s) ''permission_approvals''))))"

definition connectivity_exposures :: "string \<Rightarrow> store \<Rightarrow> connectivity_exposure_projection list" where
  "connectivity_exposures project_id s =
     sort_key (\<lambda>p. (expo_updated_sequence p, expo_exposure_id p))
       (filter (\<lambda>p. expo_project_id p = project_id)
         (concat (map connectivity_exposure_of_row (rows (st_tables s) ''connectivity_exposures''))))"

definition runtime_targets :: "string \<Rightarrow> store \<Rightarrow> runtime_target_projection list" where
  "runtime_targets project_id s =
     sort_key (\<lambda>p. (rtt_updated_sequence p, rtt_runtime_target_id p))
       (filter (\<lambda>p. rtt_project_id p = project_id)
         (concat (map runtime_target_of_row (rows (st_tables s) ''runtime_targets''))))"

definition adapter_readiness :: "string \<Rightarrow> store \<Rightarrow> adapter_readiness_projection list" where
  "adapter_readiness project_id s =
     sort_key (\<lambda>p. (ardy_updated_sequence p, ardy_adapter_kind p))
       (filter (\<lambda>p. ardy_project_id p = project_id)
         (concat (map adapter_readiness_of_row (rows (st_tables s) ''adapter_readiness''))))"

definition adapter_smoke_reports :: "string \<Rightarrow> store \<Rightarrow> adapter_smoke_report_projection list" where
  "adapter_smoke_reports project_id s =
     sort_key (\<lambda>p. (asmk_updated_sequence p, asmk_smoke_report_id p))
       (filter (\<lambda>p. asmk_project_id p = project_id)
         (concat (map adapter_smoke_report_of_row (rows (st_tables s) ''adapter_smoke_reports''))))"

definition adapter_dispatch_plans :: "string \<Rightarrow> store \<Rightarrow> adapter_dispatch_plan_projection list" where
  "adapter_dispatch_plans project_id s =
     sort_key (\<lambda>p. (plan_updated_sequence p, plan_dispatch_plan_id p))
       (filter (\<lambda>p. plan_project_id p = project_id)
         (concat (map adapter_dispatch_plan_of_row (rows (st_tables s) ''adapter_dispatch_plans''))))"

definition adapter_dispatch_gates :: "string \<Rightarrow> store \<Rightarrow> adapter_dispatch_gate_projection list" where
  "adapter_dispatch_gates project_id s =
     sort_key (\<lambda>p. (gate_updated_sequence p, gate_dispatch_gate_id p))
       (filter (\<lambda>p. gate_project_id p = project_id)
         (concat (map adapter_dispatch_gate_of_row (rows (st_tables s) ''adapter_dispatch_gates''))))"

definition adapter_dispatch_replays :: "string \<Rightarrow> store \<Rightarrow> adapter_dispatch_replay_projection list" where
  "adapter_dispatch_replays project_id s =
     sort_key (\<lambda>p. (rply_updated_sequence p, rply_dispatch_replay_id p))
       (filter (\<lambda>p. rply_project_id p = project_id)
         (concat (map adapter_dispatch_replay_of_row (rows (st_tables s) ''adapter_dispatch_replays''))))"

definition adapter_dispatch_execution_requests :: "string \<Rightarrow> store \<Rightarrow> adapter_dispatch_execution_request_projection list" where
  "adapter_dispatch_execution_requests project_id s =
     sort_key (\<lambda>p. (xreq_updated_sequence p, xreq_execution_request_id p))
       (filter (\<lambda>p. xreq_project_id p = project_id)
         (concat (map adapter_dispatch_execution_request_of_row (rows (st_tables s) ''adapter_dispatch_execution_requests''))))"

definition adapter_dispatch_executions :: "string \<Rightarrow> store \<Rightarrow> adapter_dispatch_execution_projection list" where
  "adapter_dispatch_executions project_id s =
     sort_key (\<lambda>p. (exec_updated_sequence p, exec_dispatch_execution_id p))
       (filter (\<lambda>p. exec_project_id p = project_id)
         (concat (map adapter_dispatch_execution_of_row (rows (st_tables s) ''adapter_dispatch_executions''))))"

definition adapter_dispatch_prompt_sources :: "string \<Rightarrow> store \<Rightarrow> adapter_dispatch_prompt_source_projection list" where
  "adapter_dispatch_prompt_sources project_id s =
     sort_key (\<lambda>p. (psrc_updated_sequence p, psrc_prompt_source_id p))
       (filter (\<lambda>p. psrc_project_id p = project_id)
         (concat (map adapter_dispatch_prompt_source_of_row (rows (st_tables s) ''adapter_dispatch_prompt_sources''))))"

definition adapter_dispatch_prompt_materializations :: "string \<Rightarrow> store \<Rightarrow> adapter_dispatch_prompt_materialization_projection list" where
  "adapter_dispatch_prompt_materializations project_id s =
     sort_key (\<lambda>p. (pmat_updated_sequence p, pmat_materialization_id p))
       (filter (\<lambda>p. pmat_project_id p = project_id)
         (concat (map adapter_dispatch_prompt_materialization_of_row (rows (st_tables s) ''adapter_dispatch_prompt_materializations''))))"

definition evidence_for_session :: "string \<Rightarrow> store \<Rightarrow> evidence_projection list" where
  "evidence_for_session session_id s =
     sort_key (\<lambda>p. (evid_updated_sequence p, evid_evidence_id p))
       (filter (\<lambda>p. evid_session_id p = Some session_id)
         (concat (map evidence_of_row (rows (st_tables s) ''evidence''))))"

definition evidence_for_task :: "string \<Rightarrow> store \<Rightarrow> evidence_projection list" where
  "evidence_for_task task_id s =
     sort_key (\<lambda>p. (evid_updated_sequence p, evid_evidence_id p))
       (filter (\<lambda>p. evid_task_id p = Some task_id)
         (concat (map evidence_of_row (rows (st_tables s) ''evidence''))))"

definition project_evidence :: "string \<Rightarrow> store \<Rightarrow> evidence_projection list" where
  "project_evidence project_id s =
     sort_key (\<lambda>p. (evid_updated_sequence p, evid_evidence_id p))
       (filter (\<lambda>p. evid_project_id p = project_id \<and> evid_session_id p = None)
         (concat (map evidence_of_row (rows (st_tables s) ''evidence''))))"

definition run_score_by_id :: "string \<Rightarrow> store \<Rightarrow> run_score_projection option" where
  "run_score_by_id run_score_id s =
     (case lookup (st_tables s) ''run_scores'' [run_score_id] of
        Some (RunScore p) \<Rightarrow> Some p
      | _ \<Rightarrow> None)"

definition run_scores_for_session :: "string \<Rightarrow> store \<Rightarrow> run_score_projection list" where
  "run_scores_for_session session_id s =
     sort_key (\<lambda>p. (score_updated_sequence p, score_run_score_id p))
       (filter (\<lambda>p. score_session_id p = session_id)
         (concat (map run_score_of_row (rows (st_tables s) ''run_scores''))))"

definition memory_packets_for_session :: "string \<Rightarrow> store \<Rightarrow> memory_packet_projection list" where
  "memory_packets_for_session session_id s =
     sort_key (\<lambda>p. (mpkt_updated_sequence p, mpkt_memory_packet_id p))
       (filter (\<lambda>p. mpkt_session_id p = Some session_id)
         (concat (map memory_packet_ref_of_row (rows (st_tables s) ''memory_packet_refs''))))"

definition memory_packets_for_task :: "string \<Rightarrow> store \<Rightarrow> memory_packet_projection list" where
  "memory_packets_for_task task_id s =
     sort_key (\<lambda>p. (mpkt_updated_sequence p, mpkt_memory_packet_id p))
       (filter (\<lambda>p. mpkt_task_id p = Some task_id)
         (concat (map memory_packet_ref_of_row (rows (st_tables s) ''memory_packet_refs''))))"

definition memory_records_for_project :: "string \<Rightarrow> store \<Rightarrow> memory_record_projection list" where
  "memory_records_for_project project_id s =
     sort_key (\<lambda>p. (mrec_updated_sequence p, mrec_memory_record_id p))
       (filter (\<lambda>p. mrec_project_id p = project_id)
         (concat (map memory_record_of_row (rows (st_tables s) ''memory_records''))))"

definition memory_sources_for_record :: "string \<Rightarrow> store \<Rightarrow> memory_source_projection list" where
  "memory_sources_for_record memory_record_id s =
     sort_key (\<lambda>p. (msrc_source_sequence p, msrc_memory_source_id p))
       (filter (\<lambda>p. msrc_memory_record_id p = memory_record_id)
         (concat (map memory_source_of_row (rows (st_tables s) ''memory_sources''))))"

definition task_outcome_reports_for_task :: "string \<Rightarrow> store \<Rightarrow> task_outcome_report_projection list" where
  "task_outcome_reports_for_task task_id s =
     sort_key (\<lambda>p. (tout_updated_sequence p, tout_task_outcome_report_id p))
       (filter (\<lambda>p. tout_task_id p = task_id)
         (concat (map task_outcome_report_of_row (rows (st_tables s) ''task_outcome_reports''))))"

definition task_outcome_reports :: "string \<Rightarrow> store \<Rightarrow> task_outcome_report_projection list" where
  "task_outcome_reports project_id s =
     sort_key (\<lambda>p. (tout_updated_sequence p, tout_task_outcome_report_id p))
       (filter (\<lambda>p. tout_project_id p = project_id)
         (concat (map task_outcome_report_of_row (rows (st_tables s) ''task_outcome_reports''))))"

definition task_outcome_reports_for_session :: "string \<Rightarrow> store \<Rightarrow> task_outcome_report_projection list" where
  "task_outcome_reports_for_session session_id s =
     sort_key (\<lambda>p. (tout_updated_sequence p, tout_task_outcome_report_id p))
       (filter (\<lambda>p. tout_session_id p = session_id)
         (concat (map task_outcome_report_of_row (rows (st_tables s) ''task_outcome_reports''))))"

definition review_findings_for_session :: "string \<Rightarrow> store \<Rightarrow> review_finding_projection list" where
  "review_findings_for_session session_id s =
     sort_key (\<lambda>p. (find_updated_sequence p, find_review_finding_id p))
       (filter (\<lambda>p. find_session_id p = session_id)
         (concat (map review_finding_of_row (rows (st_tables s) ''review_findings''))))"

definition review_findings_for_task :: "string \<Rightarrow> store \<Rightarrow> review_finding_projection list" where
  "review_findings_for_task task_id s =
     sort_key (\<lambda>p. (find_updated_sequence p, find_review_finding_id p))
       (filter (\<lambda>p. find_task_id p = task_id)
         (concat (map review_finding_of_row (rows (st_tables s) ''review_findings''))))"

definition review_findings :: "string \<Rightarrow> store \<Rightarrow> review_finding_projection list" where
  "review_findings project_id s =
     sort_key (\<lambda>p. (find_updated_sequence p, find_review_finding_id p))
       (filter (\<lambda>p. find_project_id p = project_id)
         (concat (map review_finding_of_row (rows (st_tables s) ''review_findings''))))"

definition tool_calls_for_session :: "string \<Rightarrow> store \<Rightarrow> tool_call_projection list" where
  "tool_calls_for_session session_id s =
     sort_key (\<lambda>p. (call_updated_sequence p, call_tool_call_id p))
       (filter (\<lambda>p. call_session_id p = session_id)
         (concat (map tool_call_of_row (rows (st_tables s) ''tool_calls''))))"

definition tool_observations_for_session :: "string \<Rightarrow> store \<Rightarrow> tool_observation_projection list" where
  "tool_observations_for_session session_id s =
     sort_key (\<lambda>p. (obs_updated_sequence p, obs_tool_observation_id p))
       (filter (\<lambda>p. obs_session_id p = session_id)
         (concat (map tool_observation_of_row (rows (st_tables s) ''tool_observations''))))"

definition adapter_replay_batches_for_session :: "string \<Rightarrow> store \<Rightarrow> adapter_replay_batch_projection list" where
  "adapter_replay_batches_for_session session_id s =
     sort_key (\<lambda>p. (batch_updated_sequence p, batch_acp_replay_batch_id p))
       (filter (\<lambda>p. batch_session_id p = session_id)
         (concat (map adapter_replay_batch_of_row (rows (st_tables s) ''adapter_replay_batches''))))"

definition adapter_raw_updates_for_batch :: "string \<Rightarrow> store \<Rightarrow> adapter_raw_update_projection list" where
  "adapter_raw_updates_for_batch acp_replay_batch_id s =
     sort_key (\<lambda>p. (raw_batch_index p, raw_acp_raw_update_id p))
       (filter (\<lambda>p. raw_acp_replay_batch_id p = acp_replay_batch_id)
         (concat (map adapter_raw_update_of_row (rows (st_tables s) ''adapter_raw_updates''))))"

definition adapter_timeline_keys_for_session :: "string \<Rightarrow> store \<Rightarrow> adapter_timeline_key_projection list" where
  "adapter_timeline_keys_for_session session_id s =
     sort_key (\<lambda>p. (tkey_updated_sequence p, tkey_adapter_timeline_key_id p))
       (filter (\<lambda>p. tkey_session_id p = session_id)
         (concat (map adapter_timeline_key_of_row (rows (st_tables s) ''adapter_timeline_keys''))))"

definition workpad_files :: "string \<Rightarrow> store \<Rightarrow> workpad_file_projection list" where
  "workpad_files project_id s =
     sort_key (\<lambda>p. wfile_path p)
       (filter (\<lambda>p. wfile_project_id p = project_id)
         (concat (map workpad_file_of_row (rows (st_tables s) ''workpad_files''))))"

definition workpad_file :: "string \<Rightarrow> string \<Rightarrow> store \<Rightarrow> workpad_file_projection option" where
  "workpad_file project_id path s =
     (case lookup (st_tables s) ''workpad_files'' [path] of
        Some (WorkpadFile p) \<Rightarrow> if wfile_project_id p = project_id then Some p else None
      | _ \<Rightarrow> None)"

definition workpad_tasks :: "string \<Rightarrow> store \<Rightarrow> workpad_task_projection list" where
  "workpad_tasks project_id s =
     sort_key (\<lambda>p. (wtask_path p, wtask_source_anchor p))
       (filter (\<lambda>p. wtask_project_id p = project_id)
         (concat (map workpad_task_of_row (rows (st_tables s) ''workpad_tasks''))))"

definition workpad_task :: "string \<Rightarrow> string \<Rightarrow> store \<Rightarrow> workpad_task_projection option" where
  "workpad_task project_id workpad_task_id s =
     (case lookup (st_tables s) ''workpad_tasks'' [workpad_task_id] of
        Some (WorkpadTask p) \<Rightarrow> if wtask_project_id p = project_id then Some p else None
      | _ \<Rightarrow> None)"

definition source_bindings :: "string \<Rightarrow> store \<Rightarrow> source_binding_projection list" where
  "source_bindings project_id s =
     sort_key (\<lambda>p. (bind_task_id p, bind_source_path p, bind_source_anchor p))
       (filter (\<lambda>p. bind_project_id p = project_id)
         (concat (map source_binding_of_row (rows (st_tables s) ''source_bindings''))))"

definition source_binding_for_task :: "string \<Rightarrow> store \<Rightarrow> source_binding_projection option" where
  "source_binding_for_task task_id s =
     first_row (sort_key (\<lambda>p. - bind_updated_sequence p)
       (filter (\<lambda>p. bind_task_id p = task_id)
         (concat (map source_binding_of_row (rows (st_tables s) ''source_bindings'')))))"

definition query_goal :: "string \<Rightarrow> store \<Rightarrow> goal_projection option" where
  "query_goal goal_id s =
     (case lookup (st_tables s) ''goals'' [goal_id] of
        Some (Goal p) \<Rightarrow> Some p
      | _ \<Rightarrow> None)"

definition goals_for_project :: "string \<Rightarrow> store \<Rightarrow> goal_projection list" where
  "goals_for_project project_id s =
     sort_key (\<lambda>p. (- goal_updated_sequence p, goal_goal_id p))
       (filter (\<lambda>p. goal_project_id p = project_id)
         (concat (map goal_of_row (rows (st_tables s) ''goals''))))"

definition child_goals_for_parent :: "string \<Rightarrow> store \<Rightarrow> goal_projection list" where
  "child_goals_for_parent parent_goal_id s =
     sort_key (\<lambda>p. (- goal_updated_sequence p, goal_goal_id p))
       (filter (\<lambda>p. goal_parent_goal_id p = Some parent_goal_id)
         (concat (map goal_of_row (rows (st_tables s) ''goals''))))"

definition requirement_ledgers_for_goal :: "string \<Rightarrow> store \<Rightarrow> requirement_ledger_projection list" where
  "requirement_ledgers_for_goal goal_id s =
     sort_key (\<lambda>p. req_requirement_id p)
       (filter (\<lambda>p. req_goal_id p = goal_id)
         (concat (map requirement_ledger_of_row (rows (st_tables s) ''requirement_ledgers''))))"

definition goal_reports_for_goal :: "string \<Rightarrow> store \<Rightarrow> goal_report_projection list" where
  "goal_reports_for_goal goal_id s =
     sort_key (\<lambda>p. (grpt_updated_sequence p, grpt_goal_report_id p))
       (filter (\<lambda>p. grpt_goal_id p = goal_id)
         (concat (map goal_report_of_row (rows (st_tables s) ''goal_reports''))))"

definition goal_continuations_for_goal :: "string \<Rightarrow> store \<Rightarrow> goal_continuation_projection list" where
  "goal_continuations_for_goal goal_id s =
     sort_key (\<lambda>p. (cont_updated_sequence p, cont_continuation_id p))
       (filter (\<lambda>p. cont_goal_id p = goal_id)
         (concat (map goal_continuation_of_row (rows (st_tables s) ''goal_continuations''))))"

definition delegated_provider_goals_for_goal :: "string \<Rightarrow> store \<Rightarrow> delegated_provider_goal_projection list" where
  "delegated_provider_goals_for_goal goal_id s =
     sort_key (\<lambda>p. (dpg_updated_sequence p, dpg_delegated_goal_id p))
       (filter (\<lambda>p. dpg_goal_id p = goal_id)
         (concat (map delegated_provider_goal_of_row (rows (st_tables s) ''delegated_provider_goals''))))"

definition goal_audit_decisions_for_goal :: "string \<Rightarrow> store \<Rightarrow> goal_audit_decision_projection list" where
  "goal_audit_decisions_for_goal goal_id s =
     sort_key (\<lambda>p. (audit_updated_sequence p, audit_audit_id p))
       (filter (\<lambda>p. audit_goal_id p = goal_id)
         (concat (map goal_audit_decision_of_row (rows (st_tables s) ''goal_audit_decisions''))))"

section \<open>Queries built on other queries\<close>

definition permission_approval :: "string \<Rightarrow> string \<Rightarrow> store \<Rightarrow> permission_approval_projection option" where
  "permission_approval project_id approval_id s =
     find (\<lambda>p. appr_approval_id p = approval_id) (permission_approvals project_id s)"

text \<open>\<open>Vec::pop\<close>\<close>

definition latest_goal_audit_decision :: "string \<Rightarrow> store \<Rightarrow> goal_audit_decision_projection option" where
  "latest_goal_audit_decision goal_id s =
     (let decisions = goal_audit_decisions_for_goal goal_id s in
      if decisions = [] then None else Some (last decisions))"

definition has_bound_source :: "store \<Rightarrow> memory_record_projection \<Rightarrow> bool" where
  "has_bound_source s m \<longleftrightarrow>
     list_ex (\<lambda>src. msrc_memory_record_id src = mrec_memory_record_id m
         \<and> msrc_source_content_hash src \<noteq> None
         \<and> (msrc_source_anchor src \<noteq> None \<or> msrc_source_event_id src \<noteq> None
            \<or> msrc_source_artifact_id src \<noteq> None))
       (concat (map memory_source_of_row (rows (st_tables s) ''memory_sources'')))"

definition packet_eligible_memory_records :: "string \<Rightarrow> store \<Rightarrow> memory_record_projection list" where
  "packet_eligible_memory_records project_id s =
     sort_key (\<lambda>p. (mrec_updated_sequence p, mrec_memory_record_id p))
       (filter (\<lambda>p. mrec_project_id p = project_id
           \<and> mrec_review_state p = ''reviewed''
           \<and> mrec_source_count p > 0
           \<and> mrec_valid_until p = None
           \<and> mrec_revoked_by_memory_record_id p = None
           \<and> mrec_invalidated_at p = None
           \<and> mrec_packet_item_ref p \<noteq> None
           \<and> mrec_sensitivity_classification p \<noteq> ''secret_derived''
           \<and> mrec_redaction_state p \<notin> set [''unknown'', ''contains_sensitive'']
           \<and> has_bound_source s p)
         (concat (map memory_record_of_row (rows (st_tables s) ''memory_records''))))"

definition artifact_by_id :: "string \<Rightarrow> store \<Rightarrow> artifact_record option" where
  "artifact_by_id artifact_id s =
     map_option
       (\<lambda>a. a\<lparr>art_redaction_state :=
          unwrap_or Unknown (redaction_from_wire (redaction_as_str (art_redaction_state a)))\<rparr>)
       (map_of (st_artifacts s) artifact_id)"

section \<open>The event log\<close>

text \<open>\<open>LIMIT\<close> with a \<open>usize\<close> cast to \<open>i64\<close>: a negative value means no limit.\<close>

definition limit_rows :: "nat \<Rightarrow> 'a list \<Rightarrow> 'a list" where
  "limit_rows limit rs =
     (let n = (int limit + 2 ^ 63) mod 2 ^ 64 - 2 ^ 63 in if n < 0 then rs else take (nat n) rs)"

definition recent_events_for_session :: "string \<Rightarrow> nat \<Rightarrow> store \<Rightarrow> event_record list" where
  "recent_events_for_session session_id limit s =
     rev (limit_rows limit
       (sort_key (\<lambda>e. - ev_sequence e)
         (filter (\<lambda>e. ev_session_id e = Some session_id) (st_events s))))"

definition events_after :: "int \<Rightarrow> nat \<Rightarrow> store \<Rightarrow> event_record list" where
  "events_after since_sequence limit s =
     limit_rows limit
       (sort_key ev_sequence (filter (\<lambda>e. ev_sequence e > since_sequence) (st_events s)))"

definition latest_sequence :: "store \<Rightarrow> int" where
  "latest_sequence s = fold max (map ev_sequence (st_events s)) 0"

definition events_after_for_session :: "string \<Rightarrow> int \<Rightarrow> nat \<Rightarrow> store \<Rightarrow> event_record list" where
  "events_after_for_session session_id since_sequence limit s =
     limit_rows limit
       (sort_key ev_sequence
         (filter (\<lambda>e. ev_sequence e > since_sequence \<and> ev_session_id e = Some session_id) (st_events s)))"

definition events_for_session_turn :: "string \<Rightarrow> string \<Rightarrow> store \<Rightarrow> event_record list" where
  "events_for_session_turn session_id turn_id s =
     sort_key ev_sequence
       (filter (\<lambda>e. ev_session_id e = Some session_id \<and> ev_turn_id e = Some turn_id) (st_events s))"

definition evidence_events_for_run :: "string \<Rightarrow> store \<Rightarrow> event_record list" where
  "evidence_events_for_run run_id s =
     sort_key ev_sequence
       (filter (\<lambda>e. ev_run_id e = Some run_id \<and> ev_kind e = as_str EvidenceRecorded) (st_events s))"

definition events_for_items :: "string list \<Rightarrow> store \<Rightarrow> event_record list" where
  "events_for_items item_ids s =
     (if item_ids = [] then []
      else sort_key ev_sequence
        (filter (\<lambda>e. case ev_item_id e of Some i \<Rightarrow> i \<in> set item_ids | None \<Rightarrow> False) (st_events s)))"

definition latest_turn_for_session :: "string \<Rightarrow> store \<Rightarrow> string option" where
  "latest_turn_for_session session_id s =
     Option.bind
       (first_row
         (sort_key (\<lambda>e. - ev_sequence e)
           (filter (\<lambda>e. ev_session_id e = Some session_id \<and> ev_turn_id e \<noteq> None) (st_events s))))
       ev_turn_id"

section \<open>Runs to recover after a restart\<close>

record in_flight_marker =
  ifm_external_pid :: "int option"
  ifm_boot_id :: "string option"
  ifm_runtime_process_ref :: "string option"

fun json_as_str :: "json \<Rightarrow> string option" where
  "json_as_str (JString s) = Some s"
| "json_as_str _ = None"

text \<open>\<open>as_u64\<close> followed by \<open>u32::try_from\<close>, zero excluded.\<close>

fun json_pid :: "json \<Rightarrow> int option" where
  "json_pid (JNumber (NInt i)) = (if 0 \<le> i \<and> i < 2 ^ 32 \<and> i \<noteq> 0 then Some i else None)"
| "json_pid _ = None"

definition parse_inflight_marker :: "serde \<Rightarrow> string \<Rightarrow> in_flight_marker option" where
  "parse_inflight_marker sj payload_json =
     (case from_text sj payload_json of
        Inr (JObject m) \<Rightarrow>
          (let external_pid = Option.bind (map_of m ''external_pid'') json_pid;
               boot_id = Option.bind (map_of m ''boot_id'') json_as_str;
               runtime_process_ref = Option.bind (map_of m ''runtime_process_ref'') json_as_str
           in if external_pid = None \<and> runtime_process_ref = None then None
              else Some \<lparr>ifm_external_pid = external_pid, ifm_boot_id = boot_id,
                         ifm_runtime_process_ref = runtime_process_ref\<rparr>)
      | _ \<Rightarrow> None)"

text \<open>The loop over the payloads, newest first; it stops at the first one with a process id.\<close>

fun scan_markers :: "serde \<Rightarrow> in_flight_marker \<Rightarrow> string list \<Rightarrow> in_flight_marker" where
  "scan_markers sj found [] = found"
| "scan_markers sj found (payload # payloads) =
     (case parse_inflight_marker sj payload of
        None \<Rightarrow> scan_markers sj found payloads
      | Some marker \<Rightarrow>
          if ifm_external_pid marker \<noteq> None then marker else scan_markers sj marker payloads)"

definition inflight_run_of :: "serde \<Rightarrow> store \<Rightarrow> run_projection \<Rightarrow> in_flight_run" where
  "inflight_run_of sj s run =
     (let payloads = map ev_payload_json
            (sort_key (\<lambda>e. - ev_sequence e)
              (filter (\<lambda>e. ev_run_id e = Some (run_run_id run) \<and> ev_kind e = ''run.started'') (st_events s)));
          marker = scan_markers sj
            \<lparr>ifm_external_pid = None, ifm_boot_id = None, ifm_runtime_process_ref = None\<rparr> payloads
      in \<lparr>ifr_run_id = run_run_id run, ifr_session_id = run_session_id run, ifr_status = run_status run,
          ifr_external_pid = ifm_external_pid marker, ifr_boot_id = ifm_boot_id marker,
          ifr_runtime_process_ref = ifm_runtime_process_ref marker\<rparr>)"

definition inflight_runs_for_project :: "serde \<Rightarrow> string \<Rightarrow> store \<Rightarrow> in_flight_run list" where
  "inflight_runs_for_project sj project_id s =
     map (inflight_run_of sj s) (active_looking_runs_for_project project_id s)"

section \<open>What a query returns\<close>

locale row_query =
  fixes reader :: "projection_record \<Rightarrow> 'a list"
    and wrap :: "'a \<Rightarrow> projection_record"
    and table_name :: string
  assumes reader_iff: "reader r = [a] \<longleftrightarrow> r = wrap a"
    and reader_other: "reader r = [] \<or> (\<exists>a. reader r = [a])"
begin

lemma in_reader: "a \<in> set (reader r) \<longleftrightarrow> r = wrap a"
proof
  assume "a \<in> set (reader r)"
  then have "reader r = [a]" using reader_other [of r] by auto
  then show "r = wrap a" by (simp add: reader_iff)
next
  assume "r = wrap a"
  then have "reader r = [a]" by (simp add: reader_iff)
  then show "a \<in> set (reader r)" by simp
qed

lemma select_set:
  "a \<in> set (sort_key f (filter P (concat (map reader (rows db table_name))))) \<longleftrightarrow>
     P a \<and> (\<exists>k. (k, wrap a) \<in> set (db table_name))"
  by (auto simp: in_reader rows_def) force

text \<open>In well-typed tables a query returns exactly the records stored under their own key.\<close>

lemma select_lookup:
  assumes "typed_tables db"
  shows "a \<in> set (sort_key f (filter P (concat (map reader (rows db table_name))))) \<longleftrightarrow>
     P a \<and> lookup db table_name (key_of (wrap a)) = Some (wrap a)"
proof -
  have "(\<exists>k. (k, wrap a) \<in> set (db table_name)) \<longleftrightarrow> lookup db table_name (key_of (wrap a)) = Some (wrap a)"
    using assms
    by (auto simp: typed_tables_def lookup_def list_all_iff row_ok_def dest: map_of_SomeD)
  then show ?thesis by (simp only: select_set)
qed

lemma reader_distinct:
  "distinct (map fst krs) \<Longrightarrow> list_all (\<lambda>(k, r). key_of r = k) krs \<Longrightarrow>
     distinct (concat (map reader (map snd krs)))"
proof (induction krs)
  case (Cons kr krs)
  obtain k r where kr: "kr = (k, r)" by fastforce
  have "a \<notin> set (concat (map reader (map snd krs)))" if "reader r = [a]" for a
  proof
    assume "a \<in> set (concat (map reader (map snd krs)))"
    then obtain k' where k': "(k', wrap a) \<in> set krs" by (auto simp: in_reader)
    moreover from that have "r = wrap a" by (simp add: reader_iff)
    ultimately have "k' = k" using Cons.prems(2) kr by (fastforce simp: list_all_iff)
    with k' Cons.prems(1) kr show False by force
  qed
  with Cons reader_other [of r] kr show ?case by fastforce
qed simp

lemma select_distinct:
  assumes "typed_tables db"
  shows "distinct (sort_key f (filter P (concat (map reader (rows db table_name)))))"
proof -
  have "distinct (map fst (db table_name))" "list_all (\<lambda>(k, r). key_of r = k) (db table_name)"
    using assms by (auto simp: typed_tables_def list_all_iff row_ok_def)
  then have "distinct (concat (map reader (rows db table_name)))"
    unfolding rows_def by (rule reader_distinct)
  then show ?thesis by simp
qed

end

interpretation q_grants: row_query grant_of_row CapabilityGrant "''capability_grants''"
  by unfold_locales (auto simp: grant_of_row_def split: projection_record.splits)

interpretation q_leases: row_query workspace_lease_of_row WorkspaceLease "''workspace_leases''"
  by unfold_locales (auto simp: workspace_lease_of_row_def split: projection_record.splits)

interpretation q_memory: row_query memory_record_of_row MemoryRecord "''memory_records''"
  by unfold_locales (auto simp: memory_record_of_row_def split: projection_record.splits)

section \<open>Reading the log page by page\<close>

lemma limit_rows_take: "int limit < 2 ^ 63 \<Longrightarrow> limit_rows limit rs = take limit rs"
  by (simp add: limit_rows_def Let_def)

lemma sort_key_sorted: "sorted (map f xs) \<Longrightarrow> sort_key f xs = xs"
proof (induction xs)
  case (Cons x xs)
  then have "insort_key f x xs = x # xs" by (cases xs) auto
  with Cons show ?case by simp
qed simp

lemma sequence_nth:
  assumes "events_wf s" "i < length (st_events s)"
  shows "ev_sequence (st_events s ! i) = int (Suc i)"
proof -
  have "map ev_sequence (st_events s) ! i = map int [1..<Suc (length (st_events s))] ! i"
    using assms(1) by (simp only: events_wf_def)
  with assms(2) show ?thesis by (simp del: upt_Suc)
qed

lemma events_sorted:
  assumes "events_wf s"
  shows "sorted (map ev_sequence (filter P (st_events s)))"
proof -
  have "sorted (map ev_sequence (st_events s))"
    using sequence_nth [OF assms] by (auto simp: sorted_iff_nth_mono)
  then show ?thesis by (rule sorted_filter)
qed

lemma events_above:
  assumes "events_wf s"
  shows "filter (\<lambda>e. ev_sequence e > c) (st_events s) = drop (nat c) (st_events s)"
proof -
  let ?es = "st_events s"
  have below: "\<not> ev_sequence e > c" if e: "e \<in> set (take (nat c) ?es)" for e
  proof -
    from e obtain i where i: "i < length (take (nat c) ?es)" "e = take (nat c) ?es ! i"
      by (metis in_set_conv_nth)
    then have "i < nat c" "i < length ?es" "e = ?es ! i" by simp_all
    with sequence_nth [OF assms, of i] show ?thesis by simp
  qed
  have above: "ev_sequence e > c" if e: "e \<in> set (drop (nat c) ?es)" for e
  proof -
    from e obtain i where i: "i < length (drop (nat c) ?es)" "e = drop (nat c) ?es ! i"
      by (metis in_set_conv_nth)
    then have "nat c + i < length ?es" "e = ?es ! (nat c + i)" by simp_all
    with sequence_nth [OF assms, of "nat c + i"] show ?thesis by simp
  qed
  have "filter (\<lambda>e. ev_sequence e > c) (take (nat c) ?es @ drop (nat c) ?es) = drop (nat c) ?es"
    unfolding filter_append using below above by (simp add: filter_False filter_True)
  then show ?thesis by simp
qed

lemma events_after_eq:
  assumes "events_wf s" "int limit < 2 ^ 63"
  shows "events_after c limit s = take limit (drop (nat c) (st_events s))"
proof -
  have "sort_key ev_sequence (filter (\<lambda>e. ev_sequence e > c) (st_events s)) =
      filter (\<lambda>e. ev_sequence e > c) (st_events s)"
    by (rule sort_key_sorted [OF events_sorted [OF assms(1)]])
  with assms show ?thesis by (simp only: events_after_def limit_rows_take events_above)
qed

text \<open>The cursor of a page is the sequence of its last event.\<close>

lemma page_cursor:
  assumes "events_wf s" "int limit < 2 ^ 63" "events_after c limit s \<noteq> []"
  shows "nat (ev_sequence (last (events_after c limit s))) = nat c + length (events_after c limit s)"
proof -
  let ?page = "events_after c limit s"
  have page: "?page = take limit (drop (nat c) (st_events s))" by (rule events_after_eq [OF assms(1,2)])
  let ?i = "nat c + (length ?page - 1)"
  have len: "length ?page > 0" "length ?page \<le> length (st_events s) - nat c" "length ?page \<le> limit"
    using assms(3) by (simp, simp add: page, simp add: page)
  have "last ?page = ?page ! (length ?page - 1)" using assms(3) by (rule last_conv_nth)
  also have "\<dots> = take limit (drop (nat c) (st_events s)) ! (length ?page - 1)" by (simp only: page)
  also have "\<dots> = drop (nat c) (st_events s) ! (length ?page - 1)"
    by (rule nth_take) (use len in linarith)
  also have "\<dots> = st_events s ! ?i" by (rule nth_drop) (use len in linarith)
  finally have "last ?page = st_events s ! ?i" .
  moreover have "?i < length (st_events s)" using len by linarith
  ultimately have "ev_sequence (last ?page) = int (Suc ?i)" using sequence_nth [OF assms(1)] by simp
  with len show ?thesis by linarith
qed

lemma pages_compose:
  assumes "events_wf s" "int (n + m) < 2 ^ 63" "events_after c n s \<noteq> []"
  shows "events_after c n s @ events_after (ev_sequence (last (events_after c n s))) m s = events_after c (n + m) s"
proof -
  have small: "int n < 2 ^ 63" "int m < 2 ^ 63" using assms(2) by linarith+
  let ?rest = "drop (nat c) (st_events s)"
  have page: "events_after c n s = take n ?rest" by (rule events_after_eq [OF assms(1) small(1)])
  have "nat (ev_sequence (last (events_after c n s))) = nat c + length (take n ?rest)"
    using page_cursor [OF assms(1) small(1) assms(3)] page by simp
  then have "events_after (ev_sequence (last (events_after c n s))) m s = take m (drop (length (take n ?rest)) ?rest)"
    by (simp add: events_after_eq [OF assms(1) small(2)] add.commute)
  also have "\<dots> = take m (drop n ?rest)" by (cases "n \<le> length ?rest") simp_all
  finally show ?thesis
    using events_after_eq [OF assms(1,2)] page by (simp add: take_add)
qed

section \<open>Memory for a packet\<close>

lemma packet_query_eligible:
  "m \<in> set (packet_eligible_memory_records p s) \<Longrightarrow> is_packet_eligible m \<and> mrec_project_id m = p"
  by (auto simp: packet_eligible_memory_records_def is_packet_eligible_def redaction_as_str.simps)

end
