(* ===== verification/Permission_Policy.thy ===== *)
theory Permission_Policy
  imports Json_Value Capo_Core "HOL-Library.Word"
begin

unbundle bit_operations_syntax

text \<open>
  \<open>capo-tools/src/permission.rs\<close>: the four permission policies and the decision they return.  A
  decision names a deterministic grant id, an FNV-1a hash over profile, scope text and effect, which
  is modelled on 64-bit words.

  The locale \<open>policy_contract\<close> is what a caller of \<open>decide\<close> may rely on whatever the policy:
  the decision repeats the request's profile, scope and session.  \<open>fail_closed_policy\<close> adds that a
  request whose scope text is not an array of strings is denied, and that an allowed request asked
  only for scopes the policy admits.
\<close>

section \<open>Requests and decisions\<close>

record permission_request =
  preq_session_id :: string
  preq_capability_profile_id :: string
  preq_scope_json :: string

record permission_decision =
  dec_capability_grant_id :: string
  dec_capability_profile_id :: string
  dec_effect :: string
  dec_scope_json :: string
  dec_subject_json :: string
  dec_decision_source :: string
  dec_persistence :: string
  dec_explanation :: string

definition subject_json_of :: "string \<Rightarrow> string" where
  "subject_json_of session_id =
     ''{'' @ CHR 0x22 # ''session_id'' @ CHR 0x22 # '':'' @ CHR 0x22 # session_id @ CHR 0x22 # ''}''"

section \<open>Scopes\<close>

fun string_items :: "json list \<Rightarrow> (string, string list) result" where
  "string_items [] = Inr []"
| "string_items (JString scope # items) =
     and_then (string_items items) (\<lambda>scopes. Inr (scope # scopes))"
| "string_items (_ # items) = Inl ''static policy rejected non-string scope item''"

definition scope_items :: "serde \<Rightarrow> string \<Rightarrow> (string, string list) result" where
  "scope_items sj scope_json =
     and_then
       (map_err (\<lambda>error. ''static policy rejected malformed scope json: '' @ error)
         (from_text sj scope_json))
       (\<lambda>value. case value of
          JArray items \<Rightarrow> string_items items
        | _ \<Rightarrow> Inl ''static policy rejected non-array scope json'')"

section \<open>Grant identifiers\<close>

definition fnv_step :: "64 word \<Rightarrow> char \<Rightarrow> 64 word" where
  "fnv_step hash byte = (hash XOR of_nat (of_char byte)) * 0x100000001b3"

definition fnv_hash :: "string \<Rightarrow> 64 word" where
  "fnv_hash value = foldl fnv_step 0xcbf29ce484222325 value"

definition hex_char :: "nat \<Rightarrow> char" where
  "hex_char d = (if d < 10 then char_of (48 + d) else char_of (87 + d))"

text \<open>\<open>format!("{hash:016x}")\<close>\<close>

definition hex16 :: "64 word \<Rightarrow> string" where
  "hex16 w = map (\<lambda>i. hex_char (unat (drop_bit (4 * i) w AND 15))) (rev [0..<16])"

definition stable_hash :: "string \<Rightarrow> string" where
  "stable_hash value = hex16 (fnv_hash value)"

definition scoped_grant_id :: "permission_request \<Rightarrow> string \<Rightarrow> string" where
  "scoped_grant_id request effect =
     ''grant-'' @ preq_session_id request @ ''-'' @ effect @ ''-''
     @ stable_hash (preq_capability_profile_id request @ '':'' @ preq_scope_json request @ '':'' @ effect)"

definition decision_for ::
  "permission_request \<Rightarrow> string \<Rightarrow> string \<Rightarrow> string \<Rightarrow> string \<Rightarrow> permission_decision" where
  "decision_for request effect decision_source persistence explanation =
     \<lparr>dec_capability_grant_id = scoped_grant_id request effect,
      dec_capability_profile_id = preq_capability_profile_id request,
      dec_effect = effect,
      dec_scope_json = preq_scope_json request,
      dec_subject_json = subject_json_of (preq_session_id request),
      dec_decision_source = decision_source,
      dec_persistence = persistence,
      dec_explanation = explanation\<rparr>"

section \<open>The fake and the durable-grant policy\<close>

definition fake_decide :: "permission_request \<Rightarrow> permission_decision" where
  "fake_decide request =
     decision_for request ''allow'' ''fake'' ''once'' ''fake policy allows all requests''"

definition durable_grant_decide :: "permission_decision \<Rightarrow> permission_request \<Rightarrow> permission_decision" where
  "durable_grant_decide decision request =
     \<lparr>dec_capability_grant_id = dec_capability_grant_id decision,
      dec_capability_profile_id = preq_capability_profile_id request,
      dec_effect = dec_effect decision,
      dec_scope_json = preq_scope_json request,
      dec_subject_json = subject_json_of (preq_session_id request),
      dec_decision_source = dec_decision_source decision,
      dec_persistence = dec_persistence decision,
      dec_explanation = dec_explanation decision\<rparr>"

section \<open>Critical scopes and the trusted-local policy\<close>

datatype critical_scope =
    SourceWriteOutsideWorkspace | NetworkEgress | SecretRead | SecretWrite | RawVoiceTranscriptRead
  | ExternalMemorySync | RemoteBrowserControl | ArbitraryShell

fun critical_label :: "critical_scope \<Rightarrow> string" where
  "critical_label SourceWriteOutsideWorkspace = ''source-write outside workspace''"
| "critical_label NetworkEgress = ''network egress''"
| "critical_label SecretRead = ''secret/credential read''"
| "critical_label SecretWrite = ''secret/credential write''"
| "critical_label RawVoiceTranscriptRead = ''raw voice transcript read''"
| "critical_label ExternalMemorySync = ''external memory sync/export''"
| "critical_label RemoteBrowserControl = ''remote browser control''"
| "critical_label ArbitraryShell = ''arbitrary shell''"

definition critical_scope_kind :: "string \<Rightarrow> critical_scope option" where
  "critical_scope_kind scope =
     (if scope = ''filesystem:write:path'' then Some SourceWriteOutsideWorkspace
      else if scope \<in> set [''network:connect:internet'', ''network:expose:public'',
                           ''network:connect:private_tunnel''] then Some NetworkEgress
      else if scope = ''secret:read:credential_material'' then Some SecretRead
      else if scope = ''secret:write:credential_material'' then Some SecretWrite
      else if scope = ''voice:read:raw_transcript'' then Some RawVoiceTranscriptRead
      else if scope \<in> set [''memory:export:project'', ''memory:sync:external''] then Some ExternalMemorySync
      else if scope = ''browser:control:remote_page'' then Some RemoteBrowserControl
      else if scope = ''shell:execute:path'' then Some ArbitraryShell
      else None)"

definition ungranted_critical :: "string list \<Rightarrow> string list \<Rightarrow> (string \<times> critical_scope) list" where
  "ungranted_critical granted scopes =
     List.map_filter
       (\<lambda>scope. case critical_scope_kind scope of
          None \<Rightarrow> None
        | Some kind \<Rightarrow> if scope \<in> set granted then None else Some (scope, kind))
       scopes"

definition trusted_local_decide ::
  "serde \<Rightarrow> string list \<Rightarrow> permission_request \<Rightarrow> permission_decision" where
  "trusted_local_decide sj granted request =
     (case scope_items sj (preq_scope_json request) of
        Inl explanation \<Rightarrow>
          decision_for request ''deny'' ''allow_trusted_local_profile'' ''once'' explanation
      | Inr scopes \<Rightarrow>
          (let ungranted = ungranted_critical granted scopes in
           if ungranted \<noteq> [] then
             decision_for request ''deny'' ''allow_trusted_local_profile'' ''once''
               (''trusted local profile denies critical scope without an explicit grant: ''
                @ join_with '', ''
                    (map (\<lambda>(scope, kind). scope @ '' ('' @ critical_label kind @ '')'') ungranted))
           else
             decision_for request ''allow'' ''allow_trusted_local_profile'' ''until_session_end''
               ''trusted local profile allows audited local prototype request''))"

section \<open>Static policies\<close>

record static_policy =
  stp_profile_id :: string
  stp_allowed_scopes :: "string list"

definition read_only_local :: static_policy where
  "read_only_local =
     \<lparr>stp_profile_id = ''read-only-local'',
      stp_allowed_scopes =
        [''tool:invoke:capo.task_status'',
         ''tool:invoke:capo.agent_status'',
         ''tool:invoke:capo.session_summary'',
         ''tool:invoke:capo.project_memory_read'',
         ''tool:invoke:capo.workpad_read'',
         ''tool:invoke:capo.file_read'',
         ''tool:invoke:capo.git_status'',
         ''tool:invoke:capo.git_diff'',
         ''state:read:task'',
         ''state:read:agent'',
         ''state:read:session'',
         ''state:read:runtime'',
         ''state:read:provider'',
         ''state:read:tool'',
         ''state:read:evidence'',
         ''state:read:permission_queue'',
         ''filesystem:read:workspace'',
         ''git:status:workspace'',
         ''git:diff:workspace'']\<rparr>"

definition reviewer :: static_policy where
  "reviewer =
     \<lparr>stp_profile_id = ''reviewer'',
      stp_allowed_scopes =
        [''tool:invoke:capo.task_status'',
         ''tool:invoke:capo.agent_status'',
         ''tool:invoke:capo.session_summary'',
         ''tool:invoke:capo.project_memory_read'',
         ''tool:invoke:capo.workpad_read'',
         ''tool:invoke:capo.file_read'',
         ''tool:invoke:capo.git_status'',
         ''tool:invoke:capo.git_diff'',
         ''state:read:task'',
         ''state:read:agent'',
         ''state:read:session'',
         ''state:read:runtime'',
         ''state:read:provider'',
         ''state:read:tool'',
         ''state:read:evidence'',
         ''state:read:permission_queue'',
         ''state:read:capability'',
         ''filesystem:read:workspace'',
         ''git:status:workspace'',
         ''git:diff:workspace'']\<rparr>"

definition static_profile_id :: "static_policy \<Rightarrow> string" where
  "static_profile_id p =
     (if stp_profile_id p = ''read-only-local'' then ''read-only-local''
      else if stp_profile_id p = ''reviewer'' then ''reviewer'' else ''static'')"

definition static_decide :: "serde \<Rightarrow> static_policy \<Rightarrow> permission_request \<Rightarrow> permission_decision" where
  "static_decide sj p request =
     (case scope_items sj (preq_scope_json request) of
        Inl explanation \<Rightarrow>
          decision_for request ''deny'' (''static_policy:'' @ stp_profile_id p) ''once'' explanation
      | Inr requested \<Rightarrow>
          (let missing = filter (\<lambda>scope. scope \<notin> set (stp_allowed_scopes p)) requested;
               allowed = (requested \<noteq> [] \<and> missing = [])
           in decision_for request (if allowed then ''allow'' else ''deny'')
                (''static_policy:'' @ stp_profile_id p) ''once''
                (if allowed then
                   ''static profile `'' @ stp_profile_id p @ ''` allows all requested scopes''
                 else if requested = [] then
                   ''static policy rejected request with no parseable scopes''
                 else
                   ''static profile `'' @ stp_profile_id p @ ''` rejects missing scopes: ''
                   @ join_with '','' missing)))"

section \<open>PermissionPolicy\<close>

datatype permission_policy =
    FakePolicy
  | TrustedLocal "string list"
  | StaticPolicy static_policy
  | DurableGrant permission_decision

fun decide :: "serde \<Rightarrow> permission_policy \<Rightarrow> permission_request \<Rightarrow> permission_decision" where
  "decide sj FakePolicy request = fake_decide request"
| "decide sj (TrustedLocal granted) request = trusted_local_decide sj granted request"
| "decide sj (StaticPolicy p) request = static_decide sj p request"
| "decide sj (DurableGrant d) request = durable_grant_decide d request"

fun default_profile_id :: "permission_policy \<Rightarrow> string" where
  "default_profile_id FakePolicy = ''fake''"
| "default_profile_id (TrustedLocal _) = ''trusted-local-dev''"
| "default_profile_id (StaticPolicy p) = static_profile_id p"
| "default_profile_id (DurableGrant _) = ''durable-grant''"

fun policy_binding :: "permission_policy \<Rightarrow> boundary_binding" where
  "policy_binding FakePolicy = boundary_fake PermissionPolicy ''fake-permission''"
| "policy_binding (TrustedLocal _) =
     \<lparr>bb_kind = PermissionPolicy, bb_variant = ''trusted-local'', bb_fake = False\<rparr>"
| "policy_binding (StaticPolicy _) =
     \<lparr>bb_kind = PermissionPolicy, bb_variant = ''static'', bb_fake = False\<rparr>"
| "policy_binding (DurableGrant _) =
     \<lparr>bb_kind = PermissionPolicy, bb_variant = ''durable-grant'', bb_fake = False\<rparr>"

section \<open>The contract of a policy\<close>

locale policy_contract =
  fixes dec :: "permission_request \<Rightarrow> permission_decision"
  assumes echo_profile: "dec_capability_profile_id (dec r) = preq_capability_profile_id r"
    and echo_scope: "dec_scope_json (dec r) = preq_scope_json r"
    and echo_subject: "dec_subject_json (dec r) = subject_json_of (preq_session_id r)"

locale fail_closed_policy = policy_contract dec for dec +
  fixes sj :: serde and admits :: "string \<Rightarrow> bool"
  assumes effect_cases: "dec_effect (dec r) = ''allow'' \<or> dec_effect (dec r) = ''deny''"
    and allow_admits:
      "dec_effect (dec r) = ''allow'' \<Longrightarrow>
         \<exists>scopes. scope_items sj (preq_scope_json r) = Inr scopes \<and> list_all admits scopes"
begin

text \<open>A malformed request, or one with a scope the policy does not admit, is denied.\<close>

lemma malformed_denied: "scope_items sj (preq_scope_json r) = Inl e \<Longrightarrow> dec_effect (dec r) = ''deny''"
  using allow_admits [of r] effect_cases [of r] by auto

lemma inadmissible_denied:
  assumes "scope_items sj (preq_scope_json r) = Inr scopes" "s \<in> set scopes" "\<not> admits s"
  shows "dec_effect (dec r) = ''deny''"
  using allow_admits [of r] effect_cases [of r] assms by (auto simp: list_all_iff)

end

lemma decision_for_simps [simp]:
  "dec_capability_profile_id (decision_for r e src p x) = preq_capability_profile_id r"
  "dec_scope_json (decision_for r e src p x) = preq_scope_json r"
  "dec_subject_json (decision_for r e src p x) = subject_json_of (preq_session_id r)"
  "dec_effect (decision_for r e src p x) = e"
  "dec_persistence (decision_for r e src p x) = p"
  "dec_capability_grant_id (decision_for r e src p x) = scoped_grant_id r e"
  by (simp_all add: decision_for_def)

lemma ungranted_empty_iff:
  "ungranted_critical granted scopes = [] \<longleftrightarrow>
     list_all (\<lambda>s. critical_scope_kind s = None \<or> s \<in> set granted) scopes"
  by (induction scopes) (auto simp: ungranted_critical_def List.map_filter_def split: option.splits)

lemma trusted_local_allow_iff:
  "dec_effect (trusted_local_decide sj granted r) = ''allow'' \<longleftrightarrow>
     (\<exists>scopes. scope_items sj (preq_scope_json r) = Inr scopes \<and>
        list_all (\<lambda>s. critical_scope_kind s = None \<or> s \<in> set granted) scopes)"
  by (auto simp: trusted_local_decide_def Let_def ungranted_empty_iff split: sum.splits)

lemma static_allow_iff:
  "dec_effect (static_decide sj p r) = ''allow'' \<longleftrightarrow>
     (\<exists>scopes. scope_items sj (preq_scope_json r) = Inr scopes \<and> scopes \<noteq> [] \<and>
        list_all (\<lambda>s. s \<in> set (stp_allowed_scopes p)) scopes)"
  by (auto simp: static_decide_def Let_def filter_empty_conv list_all_iff split: sum.splits)

lemma trusted_local_echo:
  "dec_capability_profile_id (trusted_local_decide sj granted r) = preq_capability_profile_id r"
  "dec_scope_json (trusted_local_decide sj granted r) = preq_scope_json r"
  "dec_subject_json (trusted_local_decide sj granted r) = subject_json_of (preq_session_id r)"
  by (auto simp: trusted_local_decide_def Let_def split: sum.splits)

lemma static_echo:
  "dec_capability_profile_id (static_decide sj p r) = preq_capability_profile_id r"
  "dec_scope_json (static_decide sj p r) = preq_scope_json r"
  "dec_subject_json (static_decide sj p r) = subject_json_of (preq_session_id r)"
  by (auto simp: static_decide_def Let_def split: sum.splits)

interpretation tl: fail_closed_policy "trusted_local_decide sj granted" sj
    "\<lambda>s. critical_scope_kind s = None \<or> s \<in> set granted" for sj granted
proof unfold_locales
  show "dec_effect (trusted_local_decide sj granted r) = ''allow''
      \<or> dec_effect (trusted_local_decide sj granted r) = ''deny''" for r
    by (simp add: trusted_local_decide_def Let_def split: sum.splits)
qed (simp_all only: trusted_local_echo trusted_local_allow_iff)

interpretation st: fail_closed_policy "static_decide sj p" sj "\<lambda>s. s \<in> set (stp_allowed_scopes p)" for sj p
proof unfold_locales
  show "dec_effect (static_decide sj p r) = ''allow'' \<or> dec_effect (static_decide sj p r) = ''deny''" for r
    by (simp add: static_decide_def Let_def split: sum.splits)
qed (auto simp: static_echo static_allow_iff)

interpretation pol: policy_contract "decide sj policy" for sj policy
  by unfold_locales
    (cases policy, simp_all add: fake_decide_def durable_grant_decide_def tl.echo_profile st.echo_profile
      tl.echo_scope st.echo_scope tl.echo_subject st.echo_subject)+

section \<open>What the built-in profiles admit\<close>

lemma static_profiles_admit_no_critical_scope:
  assumes "p = read_only_local \<or> p = reviewer" "s \<in> set (stp_allowed_scopes p)"
  shows "critical_scope_kind s = None"
proof -
  have "list_all (\<lambda>s. critical_scope_kind s = None) (stp_allowed_scopes read_only_local)"
    "list_all (\<lambda>s. critical_scope_kind s = None) (stp_allowed_scopes reviewer)"
    by (code_simp, code_simp)
  with assms show ?thesis by (auto simp: list_all_iff)
qed

lemma reviewer_extends_read_only: "set (stp_allowed_scopes read_only_local) \<subseteq> set (stp_allowed_scopes reviewer)"
  by (simp add: read_only_local_def reviewer_def)

text \<open>No profile policy ever denies durably, so a denial leaves no standing grant behind.\<close>

lemma profile_deny_is_transient:
  assumes "dec_effect (decide sj policy r) = ''deny''" "\<forall>d. policy \<noteq> DurableGrant d"
  shows "dec_persistence (decide sj policy r) = ''once''"
  using assms
  by (cases policy)
    (auto simp: fake_decide_def trusted_local_decide_def static_decide_def Let_def split: sum.splits if_splits)

section \<open>The hash\<close>

lemma stable_hash_length: "length (stable_hash v) = 16"
  by (simp add: stable_hash_def hex16_def)

lemma stable_hash_test_vectors:
  "stable_hash [] = ''cbf29ce484222325''" "stable_hash ''a'' = ''af63dc4c8601ec8c''"
  "stable_hash ''foobar'' = ''85944171f73967e8''"
  by (code_simp, code_simp, code_simp)

end
