(* ===== verification/Controller_Base.thy ===== *)
theory Controller_Base
  imports Store_Recovery Queries Permission_Policy
begin

text \<open>
  What the controller components share: the controller itself (its project and its permission policy;
  the store is the state of the operations), the event builders of \<open>capo-controller/src/lib.rs\<close>,
  and the facts about appending such an event.  An event built here carries its own id as idempotency
  key, so appending it twice is the same as appending it once.

  The wall clock is a parameter \<open>now\<close> of the operations that read it: epoch milliseconds, an
  \<open>i64\<close>.
\<close>

record controller =
  ctl_project_id :: string
  ctl_permission_policy :: permission_policy

section \<open>Event builders\<close>

definition event :: "string \<Rightarrow> event_kind \<Rightarrow> string \<Rightarrow> new_event" where
  "event event_id kind project_id =
     (new_event_new event_id kind ''capo-controller'')
       \<lparr>nev_project_id := Some project_id, nev_idempotency_key := Some event_id\<rparr>"

definition scoped_event ::
  "string \<Rightarrow> event_kind \<Rightarrow> string \<Rightarrow> string \<Rightarrow> string \<Rightarrow> string \<Rightarrow> string \<Rightarrow> new_event" where
  "scoped_event event_id kind project_id task_id agent_id session_id run_id =
     (event event_id kind project_id)
       \<lparr>nev_task_id := Some task_id, nev_agent_id := Some agent_id,
        nev_session_id := Some session_id, nev_run_id := Some run_id\<rparr>"

definition with_payload :: "string \<Rightarrow> new_event \<Rightarrow> new_event" where
  "with_payload payload_json e = e\<lparr>nev_payload_json := payload_json\<rparr>"

definition with_turn :: "string \<Rightarrow> new_event \<Rightarrow> new_event" where
  "with_turn turn_id e = e\<lparr>nev_turn_id := Some turn_id\<rparr>"

definition with_item :: "string \<Rightarrow> new_event \<Rightarrow> new_event" where
  "with_item item_id e = e\<lparr>nev_item_id := Some item_id\<rparr>"

lemmas event_builders = event_def scoped_event_def with_payload_def with_turn_def with_item_def new_event_new_def

lemma builder_simps [simp]:
  "nev_event_id (with_payload x e) = nev_event_id e" "nev_event_id (with_turn y e) = nev_event_id e"
  "nev_event_id (with_item z e) = nev_event_id e" "nev_event_id (scoped_event i k p a b c d) = i"
  "nev_kind (with_payload x e) = nev_kind e" "nev_kind (with_turn y e) = nev_kind e"
  "nev_kind (with_item z e) = nev_kind e" "nev_kind (scoped_event i k p a b c d) = k"
  "nev_project_id (with_payload x e) = nev_project_id e" "nev_project_id (with_turn y e) = nev_project_id e"
  "nev_project_id (with_item z e) = nev_project_id e" "nev_project_id (scoped_event i k p a b c d) = Some p"
  "nev_idempotency_key (with_payload x e) = nev_idempotency_key e"
  "nev_idempotency_key (with_turn y e) = nev_idempotency_key e"
  "nev_idempotency_key (with_item z e) = nev_idempotency_key e"
  "nev_idempotency_key (scoped_event i k p a b c d) = Some i"
  "nev_event_id (event i k p) = i" "nev_kind (event i k p) = k"
  "nev_project_id (event i k p) = Some p" "nev_idempotency_key (event i k p) = Some i"
  by (simp_all add: event_builders)

section \<open>Machine integers\<close>

text \<open>Addition on \<open>i64\<close>, wrapping as in a release build.\<close>

definition wrap_i64 :: "int \<Rightarrow> int" where
  "wrap_i64 i = (i + 2 ^ 63) mod 2 ^ 64 - 2 ^ 63"

lemma wrap_i64_id: "i64_ok i \<Longrightarrow> wrap_i64 i = i"
  by (simp add: wrap_i64_def i64_ok_def)

lemma wrap_i64_ok: "i64_ok (wrap_i64 i)"
  using pos_mod_bound [of "2 ^ 64" "i + 2 ^ 63"] pos_mod_sign [of "2 ^ 64" "i + 2 ^ 63"]
  by (simp add: wrap_i64_def i64_ok_def del: pos_mod_bound pos_mod_sign)

section \<open>Events that are not on the log yet\<close>

text \<open>
  An event of the controller is fresh when neither its id nor, within the project, its idempotency
  key is taken.
\<close>

definition fresh_event :: "string \<Rightarrow> string \<Rightarrow> store \<Rightarrow> bool" where
  "fresh_event project_id event_id s \<longleftrightarrow>
     list_all (\<lambda>e. ev_event_id e \<noteq> event_id \<and>
       (ev_project_id e \<noteq> Some project_id \<or> ev_idempotency_key e \<noteq> Some event_id)) (st_events s)"

lemma fresh_open [simp]: "fresh_event p i store_open"
  by (simp add: fresh_event_def store_open_def)

lemma fresh_unknown:
  assumes "fresh_event p i s" "nev_project_id e = Some p" "nev_idempotency_key e = Some i" "nev_event_id e = i"
  shows "find_idempotent e s = None" "\<not> event_id_taken (nev_event_id e) s"
  using assms
  by (auto simp: fresh_event_def list_all_iff find_idempotent_def find_None_iff same_idempotency_def
      event_id_taken_def)

lemma fresh_append_admissible:
  assumes "fresh_event p i s" "nev_project_id e = Some p" "nev_idempotency_key e = Some i" "nev_event_id e = i"
    and "st_sequence s + 1 < 2 ^ 63" "list_all (json_columns_ok sj) rs"
  shows "append_admissible sj e rs s"
  using assms fresh_unknown [OF assms(1-4)] by (simp add: append_admissible_def)

lemma fresh_committed:
  assumes "fresh_event p i s" "nev_event_id e \<noteq> i" "nev_idempotency_key e \<noteq> Some i"
  shows "fresh_event p i (committed_store sj e rs s)"
  using assms by (simp add: fresh_event_def committed_store_def committed_event_record_def Let_def)

lemma committed_simps [simp]:
  "st_sequence (committed_store sj e rs s) = st_sequence s + 1"
  "st_events (committed_store sj e rs s) = st_events s @ [committed_event_record (st_sequence s + 1) e]"
  "st_tables (committed_store sj e rs s) = fold (row_effect (st_sequence s + 1)) rs (st_tables s)"
  by (simp_all add: committed_store_def Let_def)

text \<open>An append without records leaves the tables alone.\<close>

lemma append_no_records: "st_tables (snd (append_event sj e [] s)) = st_tables s"
  by (rule append_event_outcome [of e s sj "[]"]) simp_all

lemma fresh_append_other:
  assumes "fresh_event p i s" "nev_event_id e \<noteq> i" "nev_idempotency_key e \<noteq> Some i"
  shows "fresh_event p i (snd (append_event sj e rs s))"
  by (rule append_event_outcome [of e s sj rs]) (use assms in \<open>simp_all add: fresh_committed\<close>)

lemma op_bind_return_snd [simp]: "snd (op_bind m (\<lambda>_. op_return a) s) = snd (m s)"
  by (simp add: op_bind_def op_return_def split: prod.splits sum.splits)

lemma store_wf_typed: "store_wf s \<Longrightarrow> typed_tables (st_tables s)"
  by (simp add: store_wf_def)

section \<open>Log entries stay\<close>

lemma append_sequence_le: "st_sequence (snd (append_event sj e rs s)) \<le> st_sequence s + 1"
  by (rule append_event_outcome [of e s sj rs]) simp_all

lemma find_idempotent_stays:
  "find_idempotent e s = Some n \<Longrightarrow> find_idempotent e (snd (append_event sj f rs s)) = Some n"
proof (rule append_event_outcome [of f s sj rs])
  have later: "find P xs = Some x \<Longrightarrow> find P (xs @ ys) = Some x" for P xs ys and x :: event_record
    by (induction xs) auto
  assume "find_idempotent e s = Some n"
    "append_event sj f rs s = (Inr (st_sequence s + 1), committed_store sj f rs s)"
  then show ?thesis by (auto simp: find_idempotent_def later)
qed simp_all

lemma append_event_recorded:
  assumes "nev_project_id e = Some p" "nev_idempotency_key e = Some k" "append_event sj e rs s = (Inr n, t)"
  shows "find_idempotent e t = Some n"
  by (rule append_event_outcome [of e s sj rs])
    (use assms find_idempotent_committed [OF assms(1,2)] in \<open>auto simp: append_admissible_def\<close>)

section \<open>Rows an append does not touch\<close>

text \<open>A row keeps its value under an append none of whose records is stored under its key.\<close>

lemma lookup_row_effect_other:
  assumes "\<not> row_ok t k r" "t \<notin> {''workpad_files'', ''workpad_tasks''}"
  shows "lookup (row_effect n r db) t k = lookup db t k"
proof (cases "is_reset r")
  case True
  then obtain p where "r = WorkpadIndexReset p" by (cases r) simp_all
  with assms(2) show ?thesis by (simp add: row_effect_def lookup_def delete_where_def)
next
  case False
  with assms(1) show ?thesis by (auto simp: row_effect_upsert lookup_upsert row_ok_def)
qed

lemma lookup_append_other:
  assumes "list_all (\<lambda>r. \<not> row_ok t k r) rs" "t \<notin> {''workpad_files'', ''workpad_tasks''}"
  shows "lookup (st_tables (snd (append_event sj e rs s))) t k = lookup (st_tables s) t k"
proof -
  have same: "lookup (fold (row_effect n) rs db) t k = lookup db t k" for n db
    using assms by (induction rs arbitrary: db) (simp_all add: lookup_row_effect_other)
  show ?thesis
    by (rule append_event_outcome [of e s sj rs]) (simp_all add: same)
qed

end
