(* ===== verification/Grant_Lifecycle.thy ===== *)
theory Grant_Lifecycle
  imports Controller_Base
begin

text \<open>
  \<open>capo-controller/src/grant_lifecycle.rs\<close> and the grant half of \<open>tool_dispatch.rs\<close>: the
  durable grant store, its read-back in the decide step, the single writer of
  \<open>capability.grant_created\<close> and the revocation.

  The decision procedure is shown to depend only on the grants in force for the request's own
  subject and scope, and a revoked grant is shown to stay revoked under every operation of this
  component.
\<close>

section \<open>Read-back\<close>

definition grant_subject_session :: "serde \<Rightarrow> string \<Rightarrow> string option" where
  "grant_subject_session sj subject_json =
     (case from_text sj subject_json of
        Inl _ \<Rightarrow> None
      | Inr v \<Rightarrow> Option.bind (json_get v ''session_id'') json_as_str)"

definition grant_matches_subject ::
  "serde \<Rightarrow> capability_grant_projection \<Rightarrow> permission_request \<Rightarrow> bool" where
  "grant_matches_subject sj g request \<longleftrightarrow>
     grant_capability_profile_id g = preq_capability_profile_id request \<and>
     grant_subject_session sj (grant_subject_json g) = Some (preq_session_id request)"

definition active_allow_grant_for_request ::
  "serde \<Rightarrow> permission_request \<Rightarrow> string \<Rightarrow> store \<Rightarrow> capability_grant_projection option" where
  "active_allow_grant_for_request sj request now s =
     find (\<lambda>g. grant_scope_json g = preq_scope_json request
         \<and> grant_matches_subject sj g request
         \<and> is_active_allow g now)
       (capability_grants s)"

definition active_deny_grant_for_request ::
  "serde \<Rightarrow> permission_request \<Rightarrow> string \<Rightarrow> store \<Rightarrow> capability_grant_projection option" where
  "active_deny_grant_for_request sj request now s =
     find (\<lambda>g. grant_effect g = ''deny''
         \<and> grant_scope_json g = preq_scope_json request
         \<and> grant_matches_subject sj g request
         \<and> \<not> is_revoked g
         \<and> \<not> is_expired g now)
       (capability_grants s)"

datatype grant_read_back_source = ByDurableGrant | ByDurableDenyGrant | ByPolicy

record grant_read_back_decision =
  rb_allowed :: bool
  rb_source :: grant_read_back_source
  rb_authorizing_grant_id :: "string option"
  rb_policy_decision :: permission_decision

definition decide_with_grant_read_back ::
  "serde \<Rightarrow> controller \<Rightarrow> int \<Rightarrow> permission_request \<Rightarrow> store \<Rightarrow> grant_read_back_decision" where
  "decide_with_grant_read_back sj ctl clock request s =
     (let now = int_to_string clock;
          denying = active_deny_grant_for_request sj request now s;
          authorizing = (case denying of
              Some _ \<Rightarrow> None
            | None \<Rightarrow> active_allow_grant_for_request sj request now s);
          policy_decision = decide sj (ctl_permission_policy ctl) request
      in case denying of
           Some deny \<Rightarrow>
             \<lparr>rb_allowed = False, rb_source = ByDurableDenyGrant,
              rb_authorizing_grant_id = Some (grant_capability_grant_id deny),
              rb_policy_decision = policy_decision\<rparr>
         | None \<Rightarrow>
             (case authorizing of
                Some grant \<Rightarrow>
                  \<lparr>rb_allowed = True, rb_source = ByDurableGrant,
                   rb_authorizing_grant_id = Some (grant_capability_grant_id grant),
                   rb_policy_decision = policy_decision\<rparr>
              | None \<Rightarrow>
                  \<lparr>rb_allowed = (dec_effect policy_decision = ''allow''), rb_source = ByPolicy,
                   rb_authorizing_grant_id = None, rb_policy_decision = policy_decision\<rparr>))"

section \<open>The gate of a live dispatch\<close>

definition grant_read_back_decision_of :: "capability_grant_projection \<Rightarrow> permission_decision" where
  "grant_read_back_decision_of g =
     \<lparr>dec_capability_grant_id = grant_capability_grant_id g,
      dec_capability_profile_id = grant_capability_profile_id g,
      dec_effect = grant_effect g,
      dec_scope_json = grant_scope_json g,
      dec_subject_json = grant_subject_json g,
      dec_decision_source = grant_decision_source g,
      dec_persistence = grant_persistence g,
      dec_explanation = grant_explanation g\<rparr>"

text \<open>The permission request is \<open>None\<close> for an exposure without a permission lifecycle.\<close>

definition read_back_effective_policy ::
  "serde \<Rightarrow> controller \<Rightarrow> int \<Rightarrow> permission_request option \<Rightarrow> store
     \<Rightarrow> permission_policy \<times> grant_read_back_source" where
  "read_back_effective_policy sj ctl clock request_opt s =
     (case request_opt of
        None \<Rightarrow> (ctl_permission_policy ctl, ByPolicy)
      | Some request \<Rightarrow>
          (let now = int_to_string clock in
           case active_deny_grant_for_request sj request now s of
             Some deny \<Rightarrow> (DurableGrant (grant_read_back_decision_of deny), ByDurableDenyGrant)
           | None \<Rightarrow>
               (case active_allow_grant_for_request sj request now s of
                  Some allow \<Rightarrow> (DurableGrant (grant_read_back_decision_of allow), ByDurableGrant)
                | None \<Rightarrow> (ctl_permission_policy ctl, ByPolicy))))"

section \<open>Which decisions create a grant\<close>

definition persistence_is_observational :: "string \<Rightarrow> bool" where
  "persistence_is_observational persistence \<longleftrightarrow> persistence \<in> set [''observational'', ''none'']"

definition persistence_is_durable :: "string \<Rightarrow> bool" where
  "persistence_is_durable persistence \<longleftrightarrow> persistence \<in> set [''until_revoked'', ''until_time'']"

definition decision_creates_grant :: "permission_decision \<Rightarrow> string option \<Rightarrow> bool" where
  "decision_creates_grant decision grant_id =
     (if grant_id = None \<or> persistence_is_observational (dec_persistence decision) then False
      else if dec_effect decision = ''allow'' then True
      else if dec_effect decision = ''deny'' then persistence_is_durable (dec_persistence decision)
      else False)"

section \<open>The grant writer\<close>

definition GRANT_UNTIL_TIME_WINDOW_MILLIS :: int where
  "GRANT_UNTIL_TIME_WINDOW_MILLIS = 60 * 60 * 1000"

definition grant_expiry :: "string \<Rightarrow> string \<Rightarrow> string option" where
  "grant_expiry persistence created_at =
     (if persistence \<noteq> ''until_time'' then None
      else (case parse_i64 created_at of
              Inl _ \<Rightarrow> None
            | Inr created \<Rightarrow>
                Some (int_to_string (wrap_i64 (created + GRANT_UNTIL_TIME_WINDOW_MILLIS)))))"

record grant_event_keys =
  gek_event_id :: string
  gek_task_id :: string
  gek_agent_id :: string
  gek_session_id :: string
  gek_run_id :: string
  gek_turn_id :: string
  gek_item_ref :: string

text \<open>The row the writer stores: a grant that was revoked keeps its revocation and creation time.\<close>

definition created_grant_row ::
  "int \<Rightarrow> permission_decision \<Rightarrow> capability_grant_projection option \<Rightarrow> capability_grant_projection" where
  "created_grant_row clock decision existing =
     (let created_at = int_to_string clock;
          revoked_row = (case existing of Some g \<Rightarrow> if is_revoked g then Some g else None | None \<Rightarrow> None)
      in \<lparr>grant_capability_grant_id = dec_capability_grant_id decision,
          grant_capability_profile_id = dec_capability_profile_id decision,
          grant_scope_json = dec_scope_json decision,
          grant_effect = dec_effect decision,
          grant_subject_json = dec_subject_json decision,
          grant_decision_source = dec_decision_source decision,
          grant_persistence = dec_persistence decision,
          grant_explanation = dec_explanation decision,
          grant_created_at =
            Some (case Option.bind revoked_row grant_created_at of Some t \<Rightarrow> t | None \<Rightarrow> created_at),
          grant_expires_at = grant_expiry (dec_persistence decision) created_at,
          grant_revoked_at = Option.bind revoked_row grant_revoked_at,
          grant_updated_sequence = 0\<rparr>)"

definition grant_created_payload ::
  "serde \<Rightarrow> int \<Rightarrow> permission_decision \<Rightarrow> (string \<times> json) list \<Rightarrow> string" where
  "grant_created_payload sj clock decision extra_payload =
     to_text sj (json_object (
       [(''capability_grant_id'', JString (dec_capability_grant_id decision)),
        (''effect'', JString (dec_effect decision)),
        (''decision_source'', JString (dec_decision_source decision)),
        (''persistence'', JString (dec_persistence decision)),
        (''explanation'', JString (dec_explanation decision)),
        (''created_at'', JString (int_to_string clock)),
        (''expires_at'', j_opt_str (grant_expiry (dec_persistence decision) (int_to_string clock)))]
       @ extra_payload))"

definition append_capability_grant_created_event ::
  "serde \<Rightarrow> controller \<Rightarrow> int \<Rightarrow> grant_event_keys \<Rightarrow> permission_decision \<Rightarrow> (string \<times> json) list \<Rightarrow> unit op" where
  "append_capability_grant_created_event sj ctl clock keys decision extra_payload s =
     (let existing = capability_grant_by_id (dec_capability_grant_id decision) s in
      op_bind
        (append_event sj
          (with_payload (grant_created_payload sj clock decision extra_payload)
            (with_item (gek_item_ref keys)
              (with_turn (gek_turn_id keys)
                (scoped_event (gek_event_id keys) (CapabilityEvent CapabilityGrantCreated)
                  (ctl_project_id ctl) (gek_task_id keys) (gek_agent_id keys)
                  (gek_session_id keys) (gek_run_id keys)))))
          [CapabilityGrant (created_grant_row clock decision existing)])
        (\<lambda>_. op_return ()) s)"

section \<open>Revocation\<close>

record grant_revocation_scope =
  grs_task_id :: string
  grs_agent_id :: string
  grs_session_id :: string
  grs_run_id :: string
  grs_turn_id :: string

record grant_revocation =
  grev_capability_grant_id :: string
  grev_reason :: string
  grev_revoked_at :: string

definition revoked_grant_row :: "int \<Rightarrow> string \<Rightarrow> capability_grant_projection \<Rightarrow> capability_grant_projection" where
  "revoked_grant_row clock reason g =
     g\<lparr>grant_revoked_at := Some (int_to_string clock),
       grant_explanation := ''revoked: '' @ reason,
       grant_updated_sequence := 0\<rparr>"

definition revoke_capability_grant ::
  "serde \<Rightarrow> controller \<Rightarrow> int \<Rightarrow> grant_revocation_scope \<Rightarrow> string \<Rightarrow> string \<Rightarrow> grant_revocation op" where
  "revoke_capability_grant sj ctl clock scope grant_id reason s =
     (case capability_grant_by_id grant_id s of
        None \<Rightarrow> (Inl (MissingReadModel ''capability_grant'' grant_id), s)
      | Some existing \<Rightarrow>
          (let revoked_at = int_to_string clock;
               payload = to_text sj (json_object
                 [(''capability_grant_id'', JString grant_id),
                  (''reason'', JString reason),
                  (''revoked_at'', JString revoked_at),
                  (''previous_effect'', JString (grant_effect existing)),
                  (''scope_json'', JString (grant_scope_json existing))])
           in op_bind
                (append_event sj
                  (with_payload payload
                    (with_item grant_id
                      (with_turn (grs_turn_id scope)
                        (scoped_event
                          (''event-grant-revoked-'' @ grs_session_id scope @ ''-'' @ grant_id)
                          (CapabilityEvent CapabilityGrantRevoked) (ctl_project_id ctl)
                          (grs_task_id scope) (grs_agent_id scope) (grs_session_id scope)
                          (grs_run_id scope)))))
                  [CapabilityGrant (revoked_grant_row clock reason existing)])
                (\<lambda>_. op_return
                  \<lparr>grev_capability_grant_id = grant_id, grev_reason = reason,
                   grev_revoked_at = revoked_at\<rparr>) s))"

section \<open>The grant table\<close>

lemma by_id_lookup:
  "capability_grant_by_id i s = Some g \<longleftrightarrow>
     lookup (st_tables s) ''capability_grants'' [i] = Some (CapabilityGrant g)"
  by (auto simp: capability_grant_by_id_def split: option.splits projection_record.splits)

lemma grants_by_id:
  assumes "typed_tables (st_tables s)"
  shows "g \<in> set (capability_grants s) \<longleftrightarrow> capability_grant_by_id (grant_capability_grant_id g) s = Some g"
  using q_grants.select_lookup [OF assms, of g _ "\<lambda>_. True"]
  by (simp add: capability_grants_def by_id_lookup)

text \<open>The records of an event, seen from the grant table.\<close>

definition touches_grant :: "string \<Rightarrow> projection_record \<Rightarrow> bool" where
  "touches_grant i r = (case r of CapabilityGrant g \<Rightarrow> grant_capability_grant_id g = i | _ \<Rightarrow> False)"

lemma touches_grant_iff: "touches_grant i r \<longleftrightarrow> row_ok ''capability_grants'' [i] r"
  by (cases r) (auto simp: touches_grant_def row_ok_def)

lemma by_id_append_other:
  assumes "list_all (\<lambda>r. \<not> touches_grant i r) rs"
  shows "capability_grant_by_id i (snd (append_event sj e rs s)) = capability_grant_by_id i s"
  using lookup_append_other [of "''capability_grants''" "[i]" rs sj e s] assms
  by (simp add: capability_grant_by_id_def touches_grant_iff)

lemma by_id_append_grant:
  assumes "append_event sj e [CapabilityGrant g] s = (Inr n, s')" "find_idempotent e s = None"
  shows "capability_grant_by_id i s' =
    (if i = grant_capability_grant_id g then Some (g\<lparr>grant_updated_sequence := n\<rparr>)
     else capability_grant_by_id i s)"
proof (cases "i = grant_capability_grant_id g")
  case True
  then show ?thesis
    using append_fresh_row [OF assms] by (simp add: capability_grant_by_id_def)
next
  case False
  then show ?thesis
    using assms(1) by_id_append_other [of i "[CapabilityGrant g]" sj e s] by (simp add: touches_grant_def)
qed

section \<open>The decision\<close>

definition grant_in_force ::
  "serde \<Rightarrow> permission_request \<Rightarrow> string \<Rightarrow> capability_grant_projection \<Rightarrow> bool" where
  "grant_in_force sj request now g \<longleftrightarrow>
     grant_scope_json g = preq_scope_json request \<and> grant_matches_subject sj g request \<and>
     \<not> is_revoked g \<and> \<not> is_expired g now"

lemma active_grants_in_force:
  "active_allow_grant_for_request sj request now s =
     find (\<lambda>g. grant_effect g = ''allow'') (filter (grant_in_force sj request now) (capability_grants s))"
  "active_deny_grant_for_request sj request now s =
     find (\<lambda>g. grant_effect g = ''deny'') (filter (grant_in_force sj request now) (capability_grants s))"
proof -
  have "find P (filter Q xs) = find (\<lambda>x. Q x \<and> P x) xs" for P Q and xs :: "capability_grant_projection list"
    by (induction xs) auto
  then show "active_allow_grant_for_request sj request now s =
      find (\<lambda>g. grant_effect g = ''allow'') (filter (grant_in_force sj request now) (capability_grants s))"
    "active_deny_grant_for_request sj request now s =
      find (\<lambda>g. grant_effect g = ''deny'') (filter (grant_in_force sj request now) (capability_grants s))"
    by (auto simp: active_allow_grant_for_request_def active_deny_grant_for_request_def grant_in_force_def
        is_active_allow_def intro!: arg_cong [of _ _ "\<lambda>P. find P _"])
qed

lemma active_allow_Some:
  "active_allow_grant_for_request sj request now s = Some g \<Longrightarrow>
     g \<in> set (capability_grants s) \<and> grant_in_force sj request now g \<and> grant_effect g = ''allow''"
  by (auto simp: active_grants_in_force find_Some_iff) (metis mem_Collect_eq nth_mem set_filter)+

lemma active_deny_Some:
  "active_deny_grant_for_request sj request now s = Some g \<Longrightarrow>
     g \<in> set (capability_grants s) \<and> grant_in_force sj request now g \<and> grant_effect g = ''deny''"
  by (auto simp: active_grants_in_force find_Some_iff) (metis mem_Collect_eq nth_mem set_filter)+

definition has_in_force :: "serde \<Rightarrow> permission_request \<Rightarrow> string \<Rightarrow> string \<Rightarrow> store \<Rightarrow> bool" where
  "has_in_force sj request now effect s \<longleftrightarrow>
     list_ex (\<lambda>g. grant_in_force sj request now g \<and> grant_effect g = effect) (capability_grants s)"

lemma active_None_iff:
  "active_allow_grant_for_request sj request now s = None \<longleftrightarrow> \<not> has_in_force sj request now ''allow'' s"
  "active_deny_grant_for_request sj request now s = None \<longleftrightarrow> \<not> has_in_force sj request now ''deny'' s"
  by (auto simp: active_grants_in_force find_None_iff has_in_force_def list_ex_iff)

lemma read_back_allowed_iff:
  "rb_allowed (decide_with_grant_read_back sj ctl clock request s) \<longleftrightarrow>
     \<not> has_in_force sj request (int_to_string clock) ''deny'' s \<and>
     (has_in_force sj request (int_to_string clock) ''allow'' s
      \<or> dec_effect (decide sj (ctl_permission_policy ctl) request) = ''allow'')"
  using active_None_iff [of sj request "int_to_string clock" s]
  by (auto simp: decide_with_grant_read_back_def Let_def split: option.splits)

lemma read_back_authority:
  assumes "rb_authorizing_grant_id (decide_with_grant_read_back sj ctl clock request s) = Some i"
  obtains g where "g \<in> set (capability_grants s)" "grant_capability_grant_id g = i"
    "grant_in_force sj request (int_to_string clock) g"
    "grant_effect g =
      (if rb_allowed (decide_with_grant_read_back sj ctl clock request s) then ''allow'' else ''deny'')"
  using assms that
  by (auto simp: decide_with_grant_read_back_def Let_def split: option.splits
      dest!: active_allow_Some active_deny_Some)

text \<open>The gate of the live path and the standalone decision agree.\<close>

lemma gate_agrees:
  "let (policy, source) = read_back_effective_policy sj ctl clock (Some request) s;
       standalone = decide_with_grant_read_back sj ctl clock request s
   in source = rb_source standalone
      \<and> (dec_effect (decide sj policy request) = ''allow'' \<longleftrightarrow> rb_allowed standalone)"
  by (auto simp: read_back_effective_policy_def decide_with_grant_read_back_def Let_def
      durable_grant_decide_def grant_read_back_decision_of_def split: option.splits
      dest!: active_allow_Some active_deny_Some)

section \<open>Revocation is sticky\<close>

definition revoked_in :: "string \<Rightarrow> store \<Rightarrow> bool" where
  "revoked_in i s = (case capability_grant_by_id i s of Some g \<Rightarrow> is_revoked g | None \<Rightarrow> False)"

text \<open>
  The operations of this component, and the appends of the others, which carry no grant record.
\<close>

inductive grant_step :: "serde \<Rightarrow> controller \<Rightarrow> store \<Rightarrow> store \<Rightarrow> bool" for sj ctl where
  grant_create:
    "grant_step sj ctl s (snd (append_capability_grant_created_event sj ctl clock keys decision extra s))"
| grant_revoke: "grant_step sj ctl s (snd (revoke_capability_grant sj ctl clock scope i reason s))"
| grant_other:
    "list_all (\<lambda>r. \<forall>i. \<not> touches_grant i r) rs \<Longrightarrow> grant_step sj ctl s (snd (append_event sj e rs s))"

inductive grant_steps :: "serde \<Rightarrow> controller \<Rightarrow> store \<Rightarrow> store \<Rightarrow> bool" for sj ctl where
  grant_done: "grant_steps sj ctl s s"
| grant_more: "grant_steps sj ctl s t \<Longrightarrow> grant_step sj ctl t u \<Longrightarrow> grant_steps sj ctl s u"

lemma grant_steps_trans:
  assumes "grant_steps sj ctl t u" "grant_steps sj ctl s t"
  shows "grant_steps sj ctl s u"
  using assms by (induction rule: grant_steps.induct) (auto intro: grant_more)

text \<open>An append of one grant record keeps a revocation if the record does.\<close>

lemma revoked_append_grant:
  assumes "revoked_in i s" "i = grant_capability_grant_id g \<Longrightarrow> is_revoked g"
  shows "revoked_in i (snd (append_event sj e [CapabilityGrant g] s))"
proof (rule append_event_outcome [of e s sj "[CapabilityGrant g]"])
  assume adm: "append_admissible sj e [CapabilityGrant g] s"
    and app: "append_event sj e [CapabilityGrant g] s
      = (Inr (st_sequence s + 1), committed_store sj e [CapabilityGrant g] s)"
  from adm have "find_idempotent e s = None" by (simp add: append_admissible_def)
  from by_id_append_grant [OF app this, of i] app assms show ?thesis
    by (auto simp: revoked_in_def is_revoked_def)
qed (use assms in simp_all)

lemma grant_step_revoked:
  assumes "grant_step sj ctl s t" "revoked_in i s"
  shows "revoked_in i t"
  using assms
proof (induction rule: grant_step.induct)
  case (grant_create s clock keys decision extra)
  then show ?case
    unfolding append_capability_grant_created_event_def Let_def op_bind_return_snd
    by (intro revoked_append_grant)
      (auto simp: created_grant_row_def Let_def revoked_in_def is_revoked_def split: option.splits)
next
  case (grant_revoke s clock scope j reason)
  then show ?case
    by (auto simp: revoke_capability_grant_def Let_def is_revoked_def revoked_grant_row_def
        intro!: revoked_append_grant split: option.splits)
next
  case (grant_other rs s e)
  then show ?case
    using by_id_append_other [of i rs sj e s] by (simp add: revoked_in_def list_all_iff)
qed

lemma grant_steps_revoked: "grant_steps sj ctl s t \<Longrightarrow> revoked_in i s \<Longrightarrow> revoked_in i t"
  by (induction rule: grant_steps.induct) (auto intro: grant_step_revoked)

lemma grant_step_wf: "grant_step sj ctl s t \<Longrightarrow> store_wf s \<Longrightarrow> store_wf t"
  by (induction rule: grant_step.induct)
    (auto simp: append_capability_grant_created_event_def revoke_capability_grant_def Let_def store_wf_append
      split: option.splits)

lemma grant_steps_wf: "grant_steps sj ctl s t \<Longrightarrow> store_wf s \<Longrightarrow> store_wf t"
  by (induction rule: grant_steps.induct) (auto intro: grant_step_wf)

lemma revoked_never_decides:
  assumes "store_wf s" "revoked_in i s"
  shows "rb_authorizing_grant_id (decide_with_grant_read_back sj ctl clock request s) \<noteq> Some i"
proof
  assume "rb_authorizing_grant_id (decide_with_grant_read_back sj ctl clock request s) = Some i"
  then obtain g where "g \<in> set (capability_grants s)" "grant_capability_grant_id g = i"
    "grant_in_force sj request (int_to_string clock) g"
    by (rule read_back_authority)
  with assms show False
    by (auto simp: grants_by_id [OF store_wf_typed] revoked_in_def grant_in_force_def)
qed

lemma revoke_revokes:
  assumes "revoke_capability_grant sj ctl clock scope i reason s = (Inr r, s')" "store_wf s"
    and "fresh_event (ctl_project_id ctl) (''event-grant-revoked-'' @ grs_session_id scope @ ''-'' @ i) s"
  shows "revoked_in i s'"
proof -
  from assms(1) obtain g n e where g: "capability_grant_by_id i s = Some g"
    and app: "append_event sj e [CapabilityGrant (revoked_grant_row clock reason g)] s = (Inr n, s')"
    and e: "nev_event_id e = ''event-grant-revoked-'' @ grs_session_id scope @ ''-'' @ i"
      "nev_project_id e = Some (ctl_project_id ctl)" "nev_idempotency_key e = Some (nev_event_id e)"
    by (auto simp: revoke_capability_grant_def op_bind_Inr op_return_def Let_def split: option.splits)
  have "grant_capability_grant_id g = i"
  proof -
    from g have "lookup (st_tables s) ''capability_grants'' [i] = Some (CapabilityGrant g)"
      by (simp add: by_id_lookup)
    from typed_lookup [OF store_wf_typed [OF assms(2)] this] show ?thesis by (simp add: row_ok_def)
  qed
  moreover have "find_idempotent e s = None"
    using fresh_unknown(1) [OF assms(3) e(2)] e by simp
  ultimately show ?thesis
    using by_id_append_grant [OF app, of i]
    by (simp add: revoked_in_def is_revoked_def revoked_grant_row_def)
qed

section \<open>A created grant authorizes\<close>

text \<open>
  The subject text is written by hand, so it names the session only if the session id needs no
  escaping.
\<close>

definition plain_text :: "string \<Rightarrow> bool" where
  "plain_text s \<longleftrightarrow> list_all (\<lambda>c. printable_char c \<and> c \<noteq> CHR 0x22 \<and> c \<noteq> CHR 0x5C) s"

lemma plain_minimal:
  assumes "plain_text s"
  shows "minimal_string s = CHR 0x22 # s @ [CHR 0x22]"
proof -
  have "concat (map (\<lambda>c. if c = CHR 0x22 \<or> c = CHR 0x5C then [CHR 0x5C, c] else [c]) s) = s"
    using assms by (induction s) (auto simp: plain_text_def)
  then show ?thesis by (simp add: minimal_string_def)
qed

lemma plain_printable: "plain_text s \<Longrightarrow> list_all printable_char s"
  by (auto simp: plain_text_def list_all_iff)

lemma subject_session_of:
  assumes "serde_json_text sj" "plain_text sid"
  shows "grant_subject_session sj (subject_json_of sid) = Some sid"
proof -
  note texts = serde_json_text.to_text_string [OF assms(1)] plain_minimal plain_printable
  have "plain_text ''session_id''" by code_simp
  then have "to_text sj (JString ''session_id'') = CHR 0x22 # ''session_id'' @ [CHR 0x22]"
    by (simp only: texts)
  moreover have "to_text sj (JString sid) = CHR 0x22 # sid @ [CHR 0x22]"
    using assms(2) by (simp only: texts)
  ultimately have "subject_json_of sid = object_text sj [(''session_id'', JString sid)]"
    by (simp add: subject_json_of_def object_text_def)
  then show ?thesis
    by (simp add: grant_subject_session_def serde_json_text.from_object_text [OF assms(1)] json_get_object)
qed

lemma writer_Inr:
  assumes "append_capability_grant_created_event sj ctl clock keys decision extra s = (Inr (), s')"
    and "fresh_event (ctl_project_id ctl) (gek_event_id keys) s"
  obtains n where "capability_grant_by_id i s' =
    (if i = dec_capability_grant_id decision
     then Some ((created_grant_row clock decision
            (capability_grant_by_id (dec_capability_grant_id decision) s))\<lparr>grant_updated_sequence := n\<rparr>)
     else capability_grant_by_id i s)"
proof -
  let ?g = "created_grant_row clock decision (capability_grant_by_id (dec_capability_grant_id decision) s)"
  from assms(1) obtain n e where app: "append_event sj e [CapabilityGrant ?g] s = (Inr n, s')"
    and e: "nev_event_id e = gek_event_id keys" "nev_project_id e = Some (ctl_project_id ctl)"
      "nev_idempotency_key e = Some (nev_event_id e)"
    by (auto simp: append_capability_grant_created_event_def op_bind_Inr op_return_def Let_def)
  have "find_idempotent e s = None"
    using fresh_unknown(1) [OF assms(2) e(2)] e by simp
  from by_id_append_grant [OF app this, of i] that show thesis
    by (simp add: created_grant_row_def Let_def)
qed

text \<open>The row is in force for the request that led to it, until its expiry.\<close>

lemma created_row_in_force:
  assumes "serde_json_text sj" "plain_text (preq_session_id request)"
    and "dec_scope_json decision = preq_scope_json request"
    and "dec_capability_profile_id decision = preq_capability_profile_id request"
    and "dec_subject_json decision = subject_json_of (preq_session_id request)"
    and "opt_all (\<lambda>g. \<not> is_revoked g) existing"
    and "i64_ok clock" "i64_ok later" "i64_ok (clock + GRANT_UNTIL_TIME_WINDOW_MILLIS)"
  shows "grant_in_force sj request (int_to_string later)
      ((created_grant_row clock decision existing)\<lparr>grant_updated_sequence := n\<rparr>) \<longleftrightarrow>
    (dec_persistence decision = ''until_time'' \<longrightarrow> later < clock + GRANT_UNTIL_TIME_WINDOW_MILLIS)"
  using assms
  by (auto simp: grant_in_force_def grant_matches_subject_def subject_session_of created_grant_row_def Let_def
      is_revoked_def is_expired_def grant_expiry_def wrap_i64_id split: option.splits)

lemma created_grant_in_force:
  assumes "serde_json_text sj" "plain_text (preq_session_id request)" "store_wf s"
    and "append_capability_grant_created_event sj ctl clock keys decision extra s = (Inr (), s')"
    and "fresh_event (ctl_project_id ctl) (gek_event_id keys) s"
    and "dec_scope_json decision = preq_scope_json request"
    and "dec_capability_profile_id decision = preq_capability_profile_id request"
    and "dec_subject_json decision = subject_json_of (preq_session_id request)"
    and "\<not> revoked_in (dec_capability_grant_id decision) s"
    and "i64_ok clock" "i64_ok later" "i64_ok (clock + GRANT_UNTIL_TIME_WINDOW_MILLIS)"
    and "dec_persistence decision = ''until_time'' \<Longrightarrow> later < clock + GRANT_UNTIL_TIME_WINDOW_MILLIS"
  shows "has_in_force sj request (int_to_string later) (dec_effect decision) s'"
proof -
  let ?i = "dec_capability_grant_id decision"
  let ?old = "capability_grant_by_id ?i s"
  obtain n where n: "capability_grant_by_id ?i s' =
      Some ((created_grant_row clock decision ?old)\<lparr>grant_updated_sequence := n\<rparr>)"
    using writer_Inr [OF assms(4,5), of ?i] by auto
  let ?g = "(created_grant_row clock decision ?old)\<lparr>grant_updated_sequence := n\<rparr>"
  have wf': "store_wf s'"
    using grant_step_wf [OF grant_create assms(3), of sj ctl clock keys decision extra] assms(4) by simp
  have "grant_capability_grant_id ?g = ?i" "grant_effect ?g = dec_effect decision"
    by (simp_all add: created_grant_row_def Let_def)
  with n have "?g \<in> set (capability_grants s')"
    by (simp add: grants_by_id [OF store_wf_typed [OF wf']])
  moreover have "opt_all (\<lambda>g. \<not> is_revoked g) ?old"
    using assms(9) by (simp add: revoked_in_def opt_all_def split: option.splits)
  then have "grant_in_force sj request (int_to_string later) ?g"
    using created_row_in_force assms by blast
  ultimately show ?thesis
    using \<open>grant_effect ?g = _\<close> by (auto simp: has_in_force_def list_ex_iff)
qed

section \<open>Grants of another subject do not interfere\<close>

text \<open>
  The view of a request: the grants in force for it.  Two stores with the same view give the same
  decision; writing a grant for another session or profile leaves the view alone.
\<close>

lemma decision_depends_on_view:
  assumes "filter (grant_in_force sj request (int_to_string clock)) (capability_grants s) =
    filter (grant_in_force sj request (int_to_string clock)) (capability_grants t)"
  shows "decide_with_grant_read_back sj ctl clock request s = decide_with_grant_read_back sj ctl clock request t"
  unfolding decide_with_grant_read_back_def active_grants_in_force Let_def by (simp only: assms)

text \<open>A policy's grant id determines the session and the effect.\<close>

lemma scoped_grant_id_session:
  assumes "scoped_grant_id r e = scoped_grant_id r' e'" "e \<in> {''allow'', ''deny''}" "e' \<in> {''allow'', ''deny''}"
  shows "preq_session_id r = preq_session_id r' \<and> e = e'"
proof -
  let ?h = "\<lambda>r e. stable_hash (preq_capability_profile_id r @ '':'' @ preq_scope_json r @ '':'' @ e)"
  have "(preq_session_id r @ ''-'' @ e @ ''-'') @ ?h r e = (preq_session_id r' @ ''-'' @ e' @ ''-'') @ ?h r' e'"
    using assms(1) by (simp add: scoped_grant_id_def)
  then have "preq_session_id r @ ''-'' @ e @ ''-'' = preq_session_id r' @ ''-'' @ e' @ ''-''"
    by (subst (asm) append_eq_append_conv) (simp_all add: stable_hash_length)
  then have main: "(preq_session_id r @ ''-'' @ e) @ ''-'' = (preq_session_id r' @ ''-'' @ e') @ ''-''" by simp
  then have main: "preq_session_id r @ ''-'' @ e = preq_session_id r' @ ''-'' @ e'" by (simp only: append_same_eq)
  have "e = e'"
  proof (rule ccontr)
    assume "e \<noteq> e'"
    with assms(2,3) have "last e \<noteq> last e' \<and> e \<noteq> [] \<and> e' \<noteq> []" by auto
    moreover from main have "last (preq_session_id r @ ''-'' @ e) = last (preq_session_id r' @ ''-'' @ e')"
      by (simp only:)
    ultimately show False by (simp add: last_append)
  qed
  with main show ?thesis by simp
qed

text \<open>Replacing a row that is out of view by another that is out of view.\<close>

lemma filter_grants_update:
  assumes "\<And>g. lookup_old = Some (CapabilityGrant g) \<Longrightarrow> \<not> V g" "map_of rs k = lookup_old"
    and "\<not> V new"
  shows "filter V (concat (map grant_of_row (map snd (AList.update k (CapabilityGrant new) rs)))) =
    filter V (concat (map grant_of_row (map snd rs)))"
  using assms
proof (induction rs arbitrary: lookup_old)
  case (Cons kr rs)
  obtain k' r where kr: "kr = (k', r)" by fastforce
  show ?case
  proof (cases "k' = k")
    case True
    with Cons.prems have "\<not> V g" if "r = CapabilityGrant g" for g
      using that by (auto simp: kr)
    then have "filter V (grant_of_row r) = []" by (auto simp: filter_empty_conv q_grants.in_reader)
    with True Cons.prems(3) show ?thesis by (simp add: kr grant_of_row_def)
  next
    case False
    with Cons.prems Cons.IH [of lookup_old] show ?thesis by (simp add: kr)
  qed
qed (simp add: grant_of_row_def)

lemma view_append_grant:
  assumes "opt_all (\<lambda>old. \<not> V old) (capability_grant_by_id (grant_capability_grant_id g) s)"
    and "\<And>n. \<not> V (g\<lparr>grant_updated_sequence := n\<rparr>)"
  shows "filter V (capability_grants (snd (append_event sj e [CapabilityGrant g] s))) =
    filter V (capability_grants s)"
proof (rule append_event_outcome [of e s sj "[CapabilityGrant g]"])
  let ?k = "[grant_capability_grant_id g]" and ?n = "st_sequence s + 1"
  let ?rs = "st_tables s ''capability_grants''"
  assume app: "append_event sj e [CapabilityGrant g] s = (Inr ?n, committed_store sj e [CapabilityGrant g] s)"
  have "filter V (concat (map grant_of_row (map snd
      (AList.update ?k (CapabilityGrant (g\<lparr>grant_updated_sequence := ?n\<rparr>)) ?rs)))) =
    filter V (concat (map grant_of_row (map snd ?rs)))"
    by (rule filter_grants_update [OF _ refl])
      (use assms in \<open>auto simp: capability_grant_by_id_def lookup_def\<close>)
  with app show ?thesis
    by (simp add: capability_grants_def rows_def filter_sort row_effect_def upsert_def del: map_map)
qed (use assms in simp_all)

section \<open>Fresh events are accepted\<close>

lemma writer_fresh:
  "fresh_event p i s \<Longrightarrow> gek_event_id keys \<noteq> i \<Longrightarrow>
     fresh_event p i (snd (append_capability_grant_created_event sj ctl clock keys d extra s))"
  by (simp add: append_capability_grant_created_event_def Let_def fresh_append_other)

lemma revoke_commits:
  assumes "fresh_event (ctl_project_id ctl) (''event-grant-revoked-'' @ grs_session_id scope @ ''-'' @ i) s"
    and "st_sequence s + 1 < 2 ^ 63" "capability_grant_by_id i s = Some g"
    and "is_json sj (grant_scope_json g)" "is_json sj (grant_subject_json g)"
  shows "\<exists>s'. revoke_capability_grant sj ctl clock scope i reason s =
    (Inr \<lparr>grev_capability_grant_id = i, grev_reason = reason, grev_revoked_at = int_to_string clock\<rparr>, s')"
proof -
  have "\<exists>s'. append_event sj e [CapabilityGrant (revoked_grant_row clock reason g)] s = (Inr (st_sequence s + 1), s')"
    if "nev_event_id e = ''event-grant-revoked-'' @ grs_session_id scope @ ''-'' @ i"
      "nev_project_id e = Some (ctl_project_id ctl)" "nev_idempotency_key e = Some (nev_event_id e)" for e
  proof -
    have "append_admissible sj e [CapabilityGrant (revoked_grant_row clock reason g)] s"
      using assms that
      by (intro fresh_append_admissible [OF assms(1)])
        (simp_all add: json_columns_ok_def revoked_grant_row_def)
    then show ?thesis by (simp add: append_event_commits)
  qed
  from this [of "with_payload payload (with_item i (with_turn (grs_turn_id scope)
      (scoped_event (''event-grant-revoked-'' @ grs_session_id scope @ ''-'' @ i)
        (CapabilityEvent CapabilityGrantRevoked) (ctl_project_id ctl) (grs_task_id scope) (grs_agent_id scope)
        (grs_session_id scope) (grs_run_id scope))))" for payload]
  show ?thesis
    using assms(3)
    by (auto simp: revoke_capability_grant_def Let_def op_bind_def op_return_def split: prod.splits sum.splits)
      (metis Inr_inject Inl_Inr_False Pair_inject)+
qed

end
