(* ===== verification/Adapter_Permission.thy ===== *)
theory Adapter_Permission
  imports Capo_Prelude
begin

text \<open>
  \<open>capo-adapters/src/permission_request.rs\<close>: the permission options an ACP agent offers, the table
  that maps them onto a Capo decision, and the response the adapter receives.  \<open>may_proceed\<close> is the
  only signal on which an adapter runs the requested tool call.
\<close>

section \<open>Options and outcomes\<close>

datatype acp_permission_option_kind = AllowOnce | AllowAlways | RejectOnce | RejectAlways

fun option_kind_as_str :: "acp_permission_option_kind \<Rightarrow> string" where
  "option_kind_as_str AllowOnce = ''allow_once''"
| "option_kind_as_str AllowAlways = ''allow_always''"
| "option_kind_as_str RejectOnce = ''reject_once''"
| "option_kind_as_str RejectAlways = ''reject_always''"

fun option_kind_is_allow :: "acp_permission_option_kind \<Rightarrow> bool" where
  "option_kind_is_allow AllowOnce = True"
| "option_kind_is_allow AllowAlways = True"
| "option_kind_is_allow _ = False"

definition option_kind_parse :: "string \<Rightarrow> acp_permission_option_kind option" where
  "option_kind_parse value =
     (if value = ''allow_once'' then Some AllowOnce
      else if value = ''allow_always'' then Some AllowAlways
      else if value = ''reject_once'' then Some RejectOnce
      else if value = ''reject_always'' then Some RejectAlways
      else None)"

record acp_permission_option =
  opt_option_id :: string
  opt_name :: string
  opt_kind :: acp_permission_option_kind

record adapter_permission_request =
  areq_tool_name :: string
  areq_scope :: string
  areq_capability_profile_id :: string
  areq_options :: "acp_permission_option list"

definition option_ids :: "adapter_permission_request \<Rightarrow> string list" where
  "option_ids r = map opt_option_id (areq_options r)"

definition first_of_kind ::
  "acp_permission_option_kind \<Rightarrow> acp_permission_option list \<Rightarrow> acp_permission_option option" where
  "first_of_kind k options = find (\<lambda>option. opt_kind option = k) options"

definition first_reject_option :: "adapter_permission_request \<Rightarrow> acp_permission_option option" where
  "first_reject_option r =
     (case first_of_kind RejectOnce (areq_options r) of
        Some option \<Rightarrow> Some option
      | None \<Rightarrow> first_of_kind RejectAlways (areq_options r))"

datatype acp_permission_outcome = OutcomeSelected string | OutcomeCancelled

datatype cancel_reason = CancelledByOperator | NoSelectableOption

fun cancel_reason_as_str :: "cancel_reason \<Rightarrow> string" where
  "cancel_reason_as_str CancelledByOperator = ''cancelled''"
| "cancel_reason_as_str NoSelectableOption = ''no_selectable_option''"

section \<open>The option table\<close>

record acp_option_mapping =
  map_selected :: "acp_permission_option option"
  map_outcome :: acp_permission_outcome
  map_capo_decision :: string
  map_capo_persistence :: "string option"
  map_cancel_reason :: "cancel_reason option"

definition mapping_selected :: "acp_permission_option \<Rightarrow> string \<Rightarrow> string \<Rightarrow> acp_option_mapping" where
  "mapping_selected option capo_decision capo_persistence =
     \<lparr>map_selected = Some option,
      map_outcome = OutcomeSelected (opt_option_id option),
      map_capo_decision = capo_decision,
      map_capo_persistence = Some capo_persistence,
      map_cancel_reason = None\<rparr>"

definition no_selectable_option :: acp_option_mapping where
  "no_selectable_option =
     \<lparr>map_selected = None, map_outcome = OutcomeCancelled, map_capo_decision = ''cancel'',
      map_capo_persistence = None, map_cancel_reason = Some NoSelectableOption\<rparr>"

definition mapping_cancelled :: acp_option_mapping where
  "mapping_cancelled =
     \<lparr>map_selected = None, map_outcome = OutcomeCancelled, map_capo_decision = ''cancel'',
      map_capo_persistence = None, map_cancel_reason = Some CancelledByOperator\<rparr>"

definition map_acp_options_trusted_local :: "acp_permission_option list \<Rightarrow> acp_option_mapping" where
  "map_acp_options_trusted_local options =
     (case first_of_kind AllowOnce options of
        Some option \<Rightarrow> mapping_selected option ''allow'' ''until_turn_end''
      | None \<Rightarrow>
     (case first_of_kind AllowAlways options of
        Some option \<Rightarrow> mapping_selected option ''allow'' ''until_session_end''
      | None \<Rightarrow>
     (case first_of_kind RejectOnce options of
        Some option \<Rightarrow> mapping_selected option ''reject'' ''once''
      | None \<Rightarrow>
     (case first_of_kind RejectAlways options of
        Some option \<Rightarrow> mapping_selected option ''reject'' ''until_revoked''
      | None \<Rightarrow> no_selectable_option))))"

section \<open>The response\<close>

record adapter_permission_response =
  resp_outcome :: acp_permission_outcome
  resp_capo_decision :: string
  resp_capo_persistence :: "string option"
  resp_permission_decision_id :: string
  resp_capability_grant_id :: "string option"
  resp_adapter_error :: bool
  resp_must_not_proceed :: bool

definition allowed :: "adapter_permission_response \<Rightarrow> bool" where
  "allowed r \<longleftrightarrow> resp_capo_decision r = ''allow''"

definition may_proceed :: "adapter_permission_response \<Rightarrow> bool" where
  "may_proceed r \<longleftrightarrow> allowed r \<and> \<not> resp_must_not_proceed r"

definition fail_closed :: "string \<Rightarrow> adapter_permission_response" where
  "fail_closed reason =
     \<lparr>resp_outcome = OutcomeCancelled, resp_capo_decision = ''cancel'', resp_capo_persistence = None,
      resp_permission_decision_id = reason, resp_capability_grant_id = None,
      resp_adapter_error = False, resp_must_not_proceed = True\<rparr>"

definition fail_closed_decider :: "adapter_permission_request \<Rightarrow> adapter_permission_response" where
  "fail_closed_decider request =
     fail_closed ''no controller permission seam injected: wire client fails closed''"

record permission_delivery_ack =
  ack_proceeded :: bool
  ack_adapter_error :: bool

definition deliver_permission_response :: "adapter_permission_response \<Rightarrow> permission_delivery_ack" where
  "deliver_permission_response response =
     \<lparr>ack_proceeded = may_proceed response, ack_adapter_error = resp_adapter_error response\<rparr>"

section \<open>What the table can produce\<close>

lemma option_kind_roundtrip: "option_kind_parse (option_kind_as_str k) = Some k"
  by (cases k) (simp_all add: option_kind_parse_def)

lemma first_of_kind_Some: "first_of_kind k options = Some x \<Longrightarrow> x \<in> set options \<and> opt_kind x = k"
  by (auto simp: first_of_kind_def find_Some_iff)

lemma first_reject_is_reject:
  "first_reject_option r = Some x \<Longrightarrow> x \<in> set (areq_options r) \<and> \<not> option_kind_is_allow (opt_kind x)"
  by (auto simp: first_reject_option_def split: option.splits dest: first_of_kind_Some)

text \<open>Every outcome of the table, with the option it answers for.\<close>

lemma mapping_cases:
  obtains (allow) x p where "map_acp_options_trusted_local options = mapping_selected x ''allow'' p"
      "x \<in> set options" "option_kind_is_allow (opt_kind x)" "p \<in> {''until_turn_end'', ''until_session_end''}"
  | (reject) x p where "map_acp_options_trusted_local options = mapping_selected x ''reject'' p"
      "x \<in> set options" "\<not> option_kind_is_allow (opt_kind x)" "p \<in> {''once'', ''until_revoked''}"
  | (none) "map_acp_options_trusted_local options = no_selectable_option" "options = []"
proof -
  consider x k where "first_of_kind k options = Some x" | "\<forall>k. first_of_kind k options = None"
    by (metis not_None_eq)
  then show thesis
  proof cases
    case 2
    then have "options = []"
      by (cases options) (auto simp: first_of_kind_def split: if_splits)
    with 2 none show thesis by (simp add: map_acp_options_trusted_local_def)
  next
    case (1 x k)
    then have "map_acp_options_trusted_local options \<noteq> no_selectable_option"
      by (cases k) (auto simp: map_acp_options_trusted_local_def mapping_selected_def
          no_selectable_option_def split: option.splits)
    then show thesis
      using allow reject
      by (auto simp: map_acp_options_trusted_local_def split: option.splits dest!: first_of_kind_Some)
  qed
qed

end
