(* ===== verification/Permission_Round_Trip.thy ===== *)
theory Permission_Round_Trip
  imports Grant_Lifecycle Adapter_Permission
begin

text \<open>
  \<open>capo-controller/src/permission_round_trip.rs\<close>: an adapter raises a permission request with the
  options it offers, the controller decides it against its policy, records the lifecycle events and
  returns the response.  The central fact is that an adapter is told to proceed only when the policy
  allows the scope and the response names an allow option that was offered.
\<close>

section \<open>Resolving the decision\<close>

record resolved_decision =
  res_effect :: string
  res_outcome :: acp_permission_outcome
  res_persistence :: "string option"
  res_decision_source :: string
  res_explanation :: string

definition cancel_explanation :: "acp_option_mapping \<Rightarrow> string" where
  "cancel_explanation mapping =
     (if map_cancel_reason mapping = Some NoSelectableOption
      then ''no selectable ACP option offered; recorded cancel and failed the adapter request''
      else ''permission request canceled'')"

definition selected_kind_text :: "acp_option_mapping \<Rightarrow> string \<Rightarrow> string" where
  "selected_kind_text mapping default_text =
     (case map_selected mapping of
        Some option \<Rightarrow> option_kind_as_str (opt_kind option)
      | None \<Rightarrow> default_text)"

definition resolve_decision ::
  "permission_policy \<Rightarrow> permission_decision \<Rightarrow> acp_option_mapping \<Rightarrow> adapter_permission_request \<Rightarrow> resolved_decision" where
  "resolve_decision policy policy_decision mapping request =
     (if map_capo_decision mapping = ''cancel'' then
        \<lparr>res_effect = ''cancel'', res_outcome = map_outcome mapping, res_persistence = None,
         res_decision_source = dec_decision_source policy_decision,
         res_explanation = cancel_explanation mapping\<rparr>
      else if map_capo_decision mapping = ''allow'' then
        (if dec_effect policy_decision = ''allow'' then
           (let persistence = unwrap_or ''until_turn_end'' (map_capo_persistence mapping) in
            \<lparr>res_effect = ''allow'', res_outcome = map_outcome mapping,
             res_persistence = Some persistence,
             res_decision_source = dec_decision_source policy_decision,
             res_explanation =
               ''policy `'' @ default_profile_id policy @ ''` permits scope; ACP `''
               @ selected_kind_text mapping ''allow'' @ ''` mapped to allow ('' @ persistence @ '')''\<rparr>)
         else
           (let (outcome, outcome_note) =
              (case first_reject_option request of
                 Some reject \<Rightarrow>
                   (OutcomeSelected (opt_option_id reject),
                    ''returned reject option `'' @ opt_option_id reject @ ''`'')
               | None \<Rightarrow>
                   (OutcomeCancelled, ''no reject option offered; returned `cancelled`''))
            in \<lparr>res_effect = ''deny'', res_outcome = outcome, res_persistence = None,
                res_decision_source = dec_decision_source policy_decision,
                res_explanation =
                  ''policy denied the scope ('' @ dec_explanation policy_decision
                  @ ''); the ACP allow option cannot over-rule it; '' @ outcome_note\<rparr>))
      else
        (let durable = (map_capo_persistence mapping = Some ''until_revoked'') in
         \<lparr>res_effect = ''deny'', res_outcome = map_outcome mapping,
          res_persistence = map_capo_persistence mapping,
          res_decision_source = dec_decision_source policy_decision,
          res_explanation =
            ''ACP `'' @ selected_kind_text mapping ''reject'' @ ''` mapped to a Capo reject''
            @ (if durable then '' (durable deny grant)'' else '' (transient, no grant)'')\<rparr>))"

definition to_permission_decision ::
  "serde \<Rightarrow> resolved_decision \<Rightarrow> adapter_permission_request \<Rightarrow> string \<Rightarrow> string \<Rightarrow> string \<Rightarrow> permission_decision" where
  "to_permission_decision sj resolved request session_id scope_json capability_grant_id =
     \<lparr>dec_capability_grant_id = capability_grant_id,
      dec_capability_profile_id = areq_capability_profile_id request,
      dec_effect = res_effect resolved,
      dec_scope_json = scope_json,
      dec_subject_json = to_text sj (json_object [(''session_id'', JString session_id)]),
      dec_decision_source = res_decision_source resolved,
      dec_persistence = unwrap_or ''none'' (res_persistence resolved),
      dec_explanation = res_explanation resolved\<rparr>"

section \<open>The lifecycle events\<close>

record permission_round_trip_scope =
  prt_task_id :: string
  prt_agent_id :: string
  prt_session_id :: string
  prt_run_id :: string
  prt_turn_id :: string
  prt_request_ref :: string

definition round_trip_requested_payload ::
  "serde \<Rightarrow> permission_round_trip_scope \<Rightarrow> adapter_permission_request \<Rightarrow> string \<Rightarrow> string" where
  "round_trip_requested_payload sj scope request permission_decision_id =
     to_text sj (json_object
       [(''request_ref'', JString (prt_request_ref scope)),
        (''permission_decision_id'', JString permission_decision_id),
        (''tool'', JString (areq_tool_name request)),
        (''scope'', JString (areq_scope request)),
        (''capability_profile_id'', JString (areq_capability_profile_id request)),
        (''adapter_options'', JArray (map (\<lambda>option. json_object
           [(''option_id'', JString (opt_option_id option)),
            (''name'', JString (opt_name option)),
            (''kind'', JString (option_kind_as_str (opt_kind option)))]) (areq_options request)))])"

definition round_trip_decided_payload ::
  "serde \<Rightarrow> permission_round_trip_scope \<Rightarrow> adapter_permission_request \<Rightarrow> acp_option_mapping
     \<Rightarrow> resolved_decision \<Rightarrow> string \<Rightarrow> string option \<Rightarrow> string" where
  "round_trip_decided_payload sj scope request mapping resolved permission_decision_id capability_grant_id =
     (let decision = (if res_effect resolved = ''deny'' then ''reject'' else res_effect resolved);
          adapter_response =
            (case res_outcome resolved of
               OutcomeSelected option_id \<Rightarrow>
                 json_object [(''outcome'', JString ''selected''), (''option_id'', JString option_id)]
             | OutcomeCancelled \<Rightarrow>
                 json_object
                   [(''outcome'', JString ''cancelled''),
                    (''reason'', JString (case map_cancel_reason mapping of
                         Some reason \<Rightarrow> cancel_reason_as_str reason
                       | None \<Rightarrow> ''cancelled''))])
      in to_text sj (json_object
        [(''request_ref'', JString (prt_request_ref scope)),
         (''permission_decision_id'', JString permission_decision_id),
         (''tool'', JString (areq_tool_name request)),
         (''scope'', JString (areq_scope request)),
         (''decision'', JString decision),
         (''effect'', JString (res_effect resolved)),
         (''capability_grant_id'', j_opt_str capability_grant_id),
         (''decision_source'', JString (res_decision_source resolved)),
         (''persistence'', j_opt_str (res_persistence resolved)),
         (''explanation'', JString (res_explanation resolved)),
         (''adapter_options'', JArray (map JString (option_ids request))),
         (''adapter_response'', adapter_response)]))"

definition round_trip_event_id :: "permission_round_trip_scope \<Rightarrow> string \<Rightarrow> string" where
  "round_trip_event_id scope suffix_text =
     ''event-permission-round-trip-'' @ prt_session_id scope @ ''-'' @ prt_request_ref scope @ ''-'' @ suffix_text"

definition append_round_trip_event ::
  "serde \<Rightarrow> controller \<Rightarrow> permission_round_trip_scope \<Rightarrow> event_kind \<Rightarrow> string \<Rightarrow> string \<Rightarrow> unit op" where
  "append_round_trip_event sj ctl scope kind suffix_text payload =
     op_bind
       (append_event sj
         (with_payload payload
           (with_item (prt_request_ref scope)
             (with_turn (prt_turn_id scope)
               (scoped_event (round_trip_event_id scope suffix_text) kind (ctl_project_id ctl)
                 (prt_task_id scope) (prt_agent_id scope) (prt_session_id scope) (prt_run_id scope)))))
         [])
       (\<lambda>_. op_return ())"

section \<open>The round trip\<close>

definition round_trip_scope_json :: "serde \<Rightarrow> adapter_permission_request \<Rightarrow> string" where
  "round_trip_scope_json sj request = to_text sj (JArray [JString (areq_scope request)])"

definition round_trip_policy_request ::
  "serde \<Rightarrow> permission_round_trip_scope \<Rightarrow> adapter_permission_request \<Rightarrow> permission_request" where
  "round_trip_policy_request sj scope request =
     \<lparr>preq_session_id = prt_session_id scope,
      preq_capability_profile_id = areq_capability_profile_id request,
      preq_scope_json = round_trip_scope_json sj request\<rparr>"

definition record_round_trip ::
  "serde \<Rightarrow> controller \<Rightarrow> int \<Rightarrow> permission_round_trip_scope \<Rightarrow> adapter_permission_request
     \<Rightarrow> acp_option_mapping \<Rightarrow> adapter_permission_response op" where
  "record_round_trip sj ctl clock scope request mapping =
     (let scope_json = round_trip_scope_json sj request;
          policy_decision = decide sj (ctl_permission_policy ctl) (round_trip_policy_request sj scope request);
          resolved = resolve_decision (ctl_permission_policy ctl) policy_decision mapping request;
          permission_decision_id = ''decision-round-trip-'' @ prt_request_ref scope;
          candidate_grant_id = ''grant-round-trip-'' @ prt_request_ref scope @ ''-'' @ res_effect resolved;
          canonical_decision =
            to_permission_decision sj resolved request (prt_session_id scope) scope_json candidate_grant_id;
          creates_grant = decision_creates_grant canonical_decision (Some candidate_grant_id);
          capability_grant_id =
            (if creates_grant then Some (dec_capability_grant_id canonical_decision) else None)
      in
      op_bind
        (append_round_trip_event sj ctl scope (PermissionEvent PermissionRequested) ''requested''
          (round_trip_requested_payload sj scope request permission_decision_id)) (\<lambda>_.
      op_bind
        (append_round_trip_event sj ctl scope (PermissionEvent PermissionDecided) ''decided''
          (round_trip_decided_payload sj scope request mapping resolved permission_decision_id
            capability_grant_id)) (\<lambda>_.
      op_bind
        (if capability_grant_id \<noteq> None then
           append_capability_grant_created_event sj ctl clock
             \<lparr>gek_event_id = round_trip_event_id scope ''grant'',
              gek_task_id = prt_task_id scope, gek_agent_id = prt_agent_id scope,
              gek_session_id = prt_session_id scope, gek_run_id = prt_run_id scope,
              gek_turn_id = prt_turn_id scope, gek_item_ref = prt_request_ref scope\<rparr>
             canonical_decision
             [(''request_ref'', JString (prt_request_ref scope)),
              (''permission_decision_id'', JString permission_decision_id)]
         else op_return ()) (\<lambda>_.
      op_return
        \<lparr>resp_outcome = res_outcome resolved,
         resp_capo_decision = res_effect resolved,
         resp_capo_persistence = res_persistence resolved,
         resp_permission_decision_id = permission_decision_id,
         resp_capability_grant_id = capability_grant_id,
         resp_adapter_error = (map_cancel_reason mapping = Some NoSelectableOption),
         resp_must_not_proceed = (res_effect resolved \<noteq> ''allow'')\<rparr>))))"

definition decide_adapter_permission ::
  "serde \<Rightarrow> controller \<Rightarrow> int \<Rightarrow> permission_round_trip_scope \<Rightarrow> adapter_permission_request
     \<Rightarrow> adapter_permission_response op" where
  "decide_adapter_permission sj ctl clock scope request =
     record_round_trip sj ctl clock scope request (map_acp_options_trusted_local (areq_options request))"

definition cancel_adapter_permission ::
  "serde \<Rightarrow> controller \<Rightarrow> int \<Rightarrow> permission_round_trip_scope \<Rightarrow> adapter_permission_request
     \<Rightarrow> adapter_permission_response op" where
  "cancel_adapter_permission sj ctl clock scope request =
     record_round_trip sj ctl clock scope request mapping_cancelled"

text \<open>The adapter is given by the requests its script raises, one per reference at most.\<close>

definition run_adapter_permission_round_trip ::
  "serde \<Rightarrow> controller \<Rightarrow> int \<Rightarrow> (string \<Rightarrow> adapter_permission_request option)
     \<Rightarrow> permission_round_trip_scope \<Rightarrow> (adapter_permission_response \<times> permission_delivery_ack) option op" where
  "run_adapter_permission_round_trip sj ctl clock scripted scope =
     (case scripted (prt_request_ref scope) of
        None \<Rightarrow> op_return None
      | Some request \<Rightarrow>
          op_bind (decide_adapter_permission sj ctl clock scope request) (\<lambda>response.
          op_return (Some (response, deliver_permission_response response))))"

section \<open>What the response says\<close>

text \<open>The response is a function of the policy, the options and the scope, whatever the store holds.\<close>

definition round_trip_resolved ::
  "serde \<Rightarrow> controller \<Rightarrow> permission_round_trip_scope \<Rightarrow> adapter_permission_request \<Rightarrow> acp_option_mapping
     \<Rightarrow> resolved_decision" where
  "round_trip_resolved sj ctl scope request mapping =
     resolve_decision (ctl_permission_policy ctl)
       (decide sj (ctl_permission_policy ctl) (round_trip_policy_request sj scope request)) mapping request"

definition round_trip_decision ::
  "serde \<Rightarrow> controller \<Rightarrow> permission_round_trip_scope \<Rightarrow> adapter_permission_request \<Rightarrow> acp_option_mapping
     \<Rightarrow> permission_decision" where
  "round_trip_decision sj ctl scope request mapping =
     (let resolved = round_trip_resolved sj ctl scope request mapping in
      to_permission_decision sj resolved request (prt_session_id scope) (round_trip_scope_json sj request)
        (''grant-round-trip-'' @ prt_request_ref scope @ ''-'' @ res_effect resolved))"

definition round_trip_creates ::
  "serde \<Rightarrow> controller \<Rightarrow> permission_round_trip_scope \<Rightarrow> adapter_permission_request \<Rightarrow> acp_option_mapping \<Rightarrow> bool" where
  "round_trip_creates sj ctl scope request mapping =
     (let d = round_trip_decision sj ctl scope request mapping
      in decision_creates_grant d (Some (dec_capability_grant_id d)))"

definition round_trip_response ::
  "serde \<Rightarrow> controller \<Rightarrow> permission_round_trip_scope \<Rightarrow> adapter_permission_request \<Rightarrow> acp_option_mapping
     \<Rightarrow> adapter_permission_response" where
  "round_trip_response sj ctl scope request mapping =
     (let resolved = round_trip_resolved sj ctl scope request mapping in
      \<lparr>resp_outcome = res_outcome resolved,
       resp_capo_decision = res_effect resolved,
       resp_capo_persistence = res_persistence resolved,
       resp_permission_decision_id = ''decision-round-trip-'' @ prt_request_ref scope,
       resp_capability_grant_id =
         (if round_trip_creates sj ctl scope request mapping
          then Some (dec_capability_grant_id (round_trip_decision sj ctl scope request mapping)) else None),
       resp_adapter_error = (map_cancel_reason mapping = Some NoSelectableOption),
       resp_must_not_proceed = (res_effect resolved \<noteq> ''allow'')\<rparr>)"

lemma record_round_trip_eq:
  "record_round_trip sj ctl clock scope request mapping =
     op_bind
       (append_round_trip_event sj ctl scope (PermissionEvent PermissionRequested) ''requested''
         (round_trip_requested_payload sj scope request (''decision-round-trip-'' @ prt_request_ref scope))) (\<lambda>_.
     op_bind
       (append_round_trip_event sj ctl scope (PermissionEvent PermissionDecided) ''decided''
         (round_trip_decided_payload sj scope request mapping (round_trip_resolved sj ctl scope request mapping)
           (''decision-round-trip-'' @ prt_request_ref scope)
           (resp_capability_grant_id (round_trip_response sj ctl scope request mapping)))) (\<lambda>_.
     op_bind
       (if round_trip_creates sj ctl scope request mapping then
          append_capability_grant_created_event sj ctl clock
            \<lparr>gek_event_id = round_trip_event_id scope ''grant'',
             gek_task_id = prt_task_id scope, gek_agent_id = prt_agent_id scope,
             gek_session_id = prt_session_id scope, gek_run_id = prt_run_id scope,
             gek_turn_id = prt_turn_id scope, gek_item_ref = prt_request_ref scope\<rparr>
            (round_trip_decision sj ctl scope request mapping)
            [(''request_ref'', JString (prt_request_ref scope)),
             (''permission_decision_id'', JString (''decision-round-trip-'' @ prt_request_ref scope))]
        else op_return ()) (\<lambda>_.
     op_return (round_trip_response sj ctl scope request mapping))))"
  by (simp add: record_round_trip_def round_trip_response_def round_trip_resolved_def round_trip_decision_def
      round_trip_creates_def to_permission_decision_def Let_def)

lemma record_round_trip_response:
  "record_round_trip sj ctl clock scope request mapping s = (Inr r, s') \<Longrightarrow>
     r = round_trip_response sj ctl scope request mapping"
  by (auto simp: record_round_trip_eq op_bind_Inr op_return_def)

lemma resolved_allow:
  assumes "res_effect (resolve_decision policy d mapping request) = ''allow''"
  shows "dec_effect d = ''allow'' \<and> map_capo_decision mapping = ''allow'' \<and>
    res_outcome (resolve_decision policy d mapping request) = map_outcome mapping"
  using assms
  by (auto simp: resolve_decision_def Let_def split: if_splits option.splits prod.splits)

lemma resolved_not_allow_option:
  assumes "mapping = map_acp_options_trusted_local (areq_options request)"
    and "res_effect (resolve_decision policy d mapping request) \<noteq> ''allow''"
    and "res_outcome (resolve_decision policy d mapping request) = OutcomeSelected i"
  shows "\<exists>x \<in> set (areq_options request). opt_option_id x = i \<and> \<not> option_kind_is_allow (opt_kind x)"
proof (rule mapping_cases [of "areq_options request"])
  fix x p
  assume "map_acp_options_trusted_local (areq_options request) = mapping_selected x ''allow'' p"
  with assms show ?thesis
    by (auto simp: resolve_decision_def mapping_selected_def Let_def
        split: if_splits option.splits dest!: first_reject_is_reject)
next
  fix x p
  assume "map_acp_options_trusted_local (areq_options request) = mapping_selected x ''reject'' p"
    "x \<in> set (areq_options request)" "\<not> option_kind_is_allow (opt_kind x)"
  with assms show ?thesis
    by (auto simp: resolve_decision_def mapping_selected_def Let_def split: if_splits)
next
  assume "map_acp_options_trusted_local (areq_options request) = no_selectable_option"
  with assms show ?thesis
    by (auto simp: resolve_decision_def no_selectable_option_def)
qed

lemma resolved_allow_option:
  assumes "mapping = map_acp_options_trusted_local (areq_options request)"
    and "res_effect (resolve_decision policy d mapping request) = ''allow''"
  shows "\<exists>x \<in> set (areq_options request). option_kind_is_allow (opt_kind x) \<and>
    res_outcome (resolve_decision policy d mapping request) = OutcomeSelected (opt_option_id x)"
proof (rule mapping_cases [of "areq_options request"])
  fix x p
  assume "map_acp_options_trusted_local (areq_options request) = mapping_selected x ''allow'' p"
    "x \<in> set (areq_options request)" "option_kind_is_allow (opt_kind x)"
  with assms resolved_allow [OF assms(2)] show ?thesis by (auto simp: mapping_selected_def)
qed (use assms resolved_allow [OF assms(2)] in \<open>auto simp: mapping_selected_def no_selectable_option_def\<close>)

section \<open>Its effect on the store\<close>

lemma round_trip_event_steps:
  "grant_step sj ctl s (snd (append_round_trip_event sj ctl scope kind suffix_text payload s))"
  unfolding append_round_trip_event_def op_bind_return_snd by (rule grant_other) simp

lemma op_bind_steps:
  assumes "grant_steps sj ctl s (snd (m s))" "\<And>a t. grant_steps sj ctl t (snd (f a t))"
  shows "grant_steps sj ctl s (snd (op_bind m f s))"
  using assms grant_steps_trans
  by (fastforce simp: op_bind_def split: prod.splits sum.splits)

lemma round_trip_steps: "grant_steps sj ctl s (snd (record_round_trip sj ctl clock scope request mapping s))"
  unfolding record_round_trip_eq
  by (intro op_bind_steps)
    (auto intro: grant_more [OF grant_done] round_trip_event_steps grant_create
      simp: op_return_def grant_done)

lemma round_trip_event_tables:
  "st_tables (snd (append_round_trip_event sj ctl scope kind suffix_text payload s)) = st_tables s"
  unfolding append_round_trip_event_def op_bind_return_snd by (rule append_no_records)

text \<open>A decision that creates no grant leaves every read model as it was.\<close>

lemma record_without_grant:
  assumes "resp_capability_grant_id r = None" "record_round_trip sj ctl clock scope request mapping s = (Inr r, s')"
  shows "st_tables s' = st_tables s"
proof -
  from record_round_trip_response [OF assms(2)] assms(1)
  have "\<not> round_trip_creates sj ctl scope request mapping"
    by (auto simp: round_trip_response_def Let_def split: if_splits)
  then have "st_tables (snd (record_round_trip sj ctl clock scope request mapping s)) = st_tables s"
    unfolding record_round_trip_eq
    by (intro op_bind_keeps [where I = "\<lambda>t. st_tables t = st_tables s"])
      (simp_all add: round_trip_event_tables op_return_def)
  with assms(2) show ?thesis by simp
qed

lemma creates_grant_iff:
  "round_trip_creates sj ctl scope request mapping \<longleftrightarrow>
    (let r = round_trip_resolved sj ctl scope request mapping;
         p = unwrap_or ''none'' (res_persistence r)
     in p \<noteq> ''none'' \<and> p \<noteq> ''observational'' \<and>
        (res_effect r = ''allow'' \<or> res_effect r = ''deny'' \<and> p \<in> {''until_revoked'', ''until_time''}))"
  by (auto simp: round_trip_creates_def round_trip_decision_def decision_creates_grant_def Let_def
      to_permission_decision_def persistence_is_observational_def persistence_is_durable_def)

section \<open>It succeeds\<close>

text \<open>With fresh event ids and room in the log, the round trip ends with a response.\<close>

lemma append_round_trip_fresh:
  assumes "fresh_event (ctl_project_id ctl) (round_trip_event_id scope x) s" "st_sequence s + 1 < 2 ^ 63"
  obtains e where "append_round_trip_event sj ctl scope kind x payload s = (Inr (), committed_store sj e [] s)"
    "nev_event_id e = round_trip_event_id scope x" "nev_kind e = kind"
    "nev_project_id e = Some (ctl_project_id ctl)"
    "nev_idempotency_key e = Some (round_trip_event_id scope x)"
proof -
  let ?e = "with_payload payload (with_item (prt_request_ref scope) (with_turn (prt_turn_id scope)
    (scoped_event (round_trip_event_id scope x) kind (ctl_project_id ctl)
      (prt_task_id scope) (prt_agent_id scope) (prt_session_id scope) (prt_run_id scope))))"
  have "append_admissible sj ?e [] s"
    using assms by (intro fresh_append_admissible [of "ctl_project_id ctl" "round_trip_event_id scope x"]) simp_all
  then show thesis
    using that [of ?e]
    by (simp add: append_round_trip_event_def append_event_commits op_bind_def op_return_def)
qed

lemma round_trip_ids_distinct:
  "round_trip_event_id scope ''decided'' \<noteq> round_trip_event_id scope ''requested''"
  "round_trip_event_id scope ''grant'' \<noteq> round_trip_event_id scope ''requested''"
  "round_trip_event_id scope ''grant'' \<noteq> round_trip_event_id scope ''decided''"
  by (simp_all add: round_trip_event_id_def)

lemma is_json_to_text: "serde_json sj \<Longrightarrow> json_plain v \<Longrightarrow> is_json sj (to_text sj v)"
  by (simp add: is_json_def serde_json.from_to)

lemma grant_writer_commits:
  assumes "serde_json sj"
    and "fresh_event (ctl_project_id ctl) (gek_event_id keys) s" "st_sequence s + 1 < 2 ^ 63"
    and "is_json sj (dec_scope_json d)" "is_json sj (dec_subject_json d)"
  obtains e g where "append_capability_grant_created_event sj ctl clock keys d extra s
      = (Inr (), committed_store sj e [CapabilityGrant g] s)"
    "nev_event_id e = gek_event_id keys" "nev_kind e = CapabilityEvent CapabilityGrantCreated"
    "grant_capability_grant_id g = dec_capability_grant_id d" "grant_effect g = dec_effect d"
proof -
  let ?g = "created_grant_row clock d (capability_grant_by_id (dec_capability_grant_id d) s)"
  let ?e = "with_payload (grant_created_payload sj clock d extra)
    (with_item (gek_item_ref keys) (with_turn (gek_turn_id keys)
      (scoped_event (gek_event_id keys) (CapabilityEvent CapabilityGrantCreated) (ctl_project_id ctl)
        (gek_task_id keys) (gek_agent_id keys) (gek_session_id keys) (gek_run_id keys))))"
  have "append_admissible sj ?e [CapabilityGrant ?g] s"
    using assms
    by (intro fresh_append_admissible [of "ctl_project_id ctl" "gek_event_id keys"])
      (simp_all add: json_columns_ok_def created_grant_row_def Let_def)
  then show thesis
    using that [of ?e ?g]
    by (simp add: append_capability_grant_created_event_def append_event_commits op_bind_def op_return_def Let_def
        created_grant_row_def)
qed

lemma round_trip_columns_ok:
  assumes "serde_json sj"
  shows "is_json sj (dec_scope_json (round_trip_decision sj ctl scope request mapping))"
    "is_json sj (dec_subject_json (round_trip_decision sj ctl scope request mapping))"
proof -
  have "json_plain (JArray [JString (areq_scope request)])" by (simp add: json_plain_def)
  with assms show "is_json sj (dec_scope_json (round_trip_decision sj ctl scope request mapping))"
    by (simp add: round_trip_decision_def to_permission_decision_def round_trip_scope_json_def Let_def
        is_json_to_text)
  have "json_plain (json_object [(''session_id'', JString (prt_session_id scope))])"
    by (rule json_plain_object) (simp add: codec_simps)
  with assms show "is_json sj (dec_subject_json (round_trip_decision sj ctl scope request mapping))"
    by (simp add: round_trip_decision_def to_permission_decision_def Let_def is_json_to_text)
qed

lemma round_trip_succeeds:
  assumes sj: "serde_json sj"
    and fresh: "list_all (\<lambda>x. fresh_event (ctl_project_id ctl) (round_trip_event_id scope x) s)
      [''requested'', ''decided'', ''grant'']"
    and room: "st_sequence s + 3 < 2 ^ 63"
  shows "\<exists>r s'. record_round_trip sj ctl clock scope request mapping s = (Inr r, s') \<and>
    map ev_kind (st_events s') = map ev_kind (st_events s) @ [''permission.requested'', ''permission.decided'']
      @ (if resp_capability_grant_id r = None then [] else [''capability.grant_created''])"
proof -
  let ?d = "round_trip_decision sj ctl scope request mapping"
  let ?req = "append_round_trip_event sj ctl scope (PermissionEvent PermissionRequested) ''requested''
    (round_trip_requested_payload sj scope request (''decision-round-trip-'' @ prt_request_ref scope))"
  let ?dec = "append_round_trip_event sj ctl scope (PermissionEvent PermissionDecided) ''decided''
    (round_trip_decided_payload sj scope request mapping (round_trip_resolved sj ctl scope request mapping)
      (''decision-round-trip-'' @ prt_request_ref scope)
      (resp_capability_grant_id (round_trip_response sj ctl scope request mapping)))"
  let ?keys = "\<lparr>gek_event_id = round_trip_event_id scope ''grant'',
      gek_task_id = prt_task_id scope, gek_agent_id = prt_agent_id scope,
      gek_session_id = prt_session_id scope, gek_run_id = prt_run_id scope,
      gek_turn_id = prt_turn_id scope, gek_item_ref = prt_request_ref scope\<rparr>"
  have room': "st_sequence s + 1 < 2 ^ 63" "st_sequence s + 1 + 1 < 2 ^ 63" "st_sequence s + 1 + 1 + 1 < 2 ^ 63"
    using room by simp_all
  from fresh have fresh0: "fresh_event (ctl_project_id ctl) (round_trip_event_id scope ''requested'') s" by simp
  obtain e1 where e1: "?req s = (Inr (), committed_store sj e1 [] s)"
      "nev_event_id e1 = round_trip_event_id scope ''requested''" "nev_kind e1 = PermissionEvent PermissionRequested"
      "nev_idempotency_key e1 = Some (round_trip_event_id scope ''requested'')"
    using append_round_trip_fresh [OF fresh0 room'(1)] by metis
  let ?s1 = "committed_store sj e1 [] s"
  have fresh1: "fresh_event (ctl_project_id ctl) (round_trip_event_id scope x) ?s1" if "x \<in> {''decided'', ''grant''}" for x
    using that fresh e1 round_trip_ids_distinct [of scope] by (auto intro!: fresh_committed)
  have room1: "st_sequence ?s1 + 1 < 2 ^ 63" using room'(2) by simp
  have fresh1d: "fresh_event (ctl_project_id ctl) (round_trip_event_id scope ''decided'') ?s1"
    by (rule fresh1) simp
  obtain e2 where e2: "?dec ?s1 = (Inr (), committed_store sj e2 [] ?s1)"
      "nev_event_id e2 = round_trip_event_id scope ''decided''" "nev_kind e2 = PermissionEvent PermissionDecided"
      "nev_idempotency_key e2 = Some (round_trip_event_id scope ''decided'')"
    using append_round_trip_fresh [OF fresh1d room1] by metis
  let ?s2 = "committed_store sj e2 [] ?s1"
  have fresh2: "fresh_event (ctl_project_id ctl) (gek_event_id ?keys) ?s2"
    using fresh1 [of "''grant''"] e2 round_trip_ids_distinct [of scope] by (auto intro!: fresh_committed)
  have room2: "st_sequence ?s2 + 1 < 2 ^ 63" using room'(3) by simp
  obtain e3 g where e3: "append_capability_grant_created_event sj ctl clock ?keys ?d
       [(''request_ref'', JString (prt_request_ref scope)),
        (''permission_decision_id'', JString (''decision-round-trip-'' @ prt_request_ref scope))] ?s2
      = (Inr (), committed_store sj e3 [CapabilityGrant g] ?s2)"
      "nev_kind e3 = CapabilityEvent CapabilityGrantCreated"
    using grant_writer_commits [OF sj fresh2 room2 round_trip_columns_ok [OF sj]] by metis
  show ?thesis
  proof (cases "round_trip_creates sj ctl scope request mapping")
    case True
    with e1 e2 e3 show ?thesis
      by (simp add: record_round_trip_eq op_bind_def op_return_def committed_event_record_def
          round_trip_response_def Let_def)
  next
    case False
    with e1 e2 show ?thesis
      by (simp add: record_round_trip_eq op_bind_def op_return_def committed_event_record_def
          round_trip_response_def Let_def)
  qed
qed

end
