(* ===== verification/Fake_Session_Grants.thy ===== *)
theory Fake_Session_Grants
  imports Grant_Lifecycle
begin

text \<open>
  The grant writer of the scripted session path, \<open>record_permission_decision\<close> in
  \<open>capo-controller/src/fake_session.rs\<close>.  It records request, decision and grant in three events.
  Unlike the writer of \<open>tool_dispatch.rs\<close> it does not look at the grant that is already stored, so it
  replaces a revoked row by one that is not revoked.
\<close>

definition decision_event ::
  "controller \<Rightarrow> string \<Rightarrow> string \<Rightarrow> string \<Rightarrow> string \<Rightarrow> string \<Rightarrow> event_kind \<Rightarrow> string \<Rightarrow> string \<Rightarrow> new_event" where
  "decision_event ctl agent_id task_id session_id run_id turn_id kind event_id payload =
     with_payload payload
       (with_turn turn_id
         (scoped_event event_id kind (ctl_project_id ctl) task_id agent_id session_id run_id))"

definition fake_session_grant_row :: "permission_decision \<Rightarrow> capability_grant_projection" where
  "fake_session_grant_row permission =
     \<lparr>grant_capability_grant_id = dec_capability_grant_id permission,
      grant_capability_profile_id = dec_capability_profile_id permission,
      grant_scope_json = dec_scope_json permission,
      grant_effect = dec_effect permission,
      grant_subject_json = dec_subject_json permission,
      grant_decision_source = dec_decision_source permission,
      grant_persistence = dec_persistence permission,
      grant_explanation = dec_explanation permission,
      grant_created_at = None,
      grant_expires_at = None,
      grant_revoked_at = None,
      grant_updated_sequence = 0\<rparr>"

definition record_permission_decision ::
  "serde \<Rightarrow> controller \<Rightarrow> string \<Rightarrow> string \<Rightarrow> string \<Rightarrow> string \<Rightarrow> string \<Rightarrow> string
     \<Rightarrow> permission_decision \<Rightarrow> string \<Rightarrow> unit op" where
  "record_permission_decision sj ctl agent_id task_id session_id run_id turn_id tool_call_id permission
       permission_event_suffix =
     (let build = decision_event ctl agent_id task_id session_id run_id turn_id;
          field = (\<lambda>name value. quoted name @ '':'' @ quoted value)
      in
      op_bind
        (append_event sj
          (build (PermissionEvent PermissionRequested)
            (''event-permission-requested-'' @ session_id @ ''-'' @ permission_event_suffix)
            (''{'' @ field ''tool_call_id'' tool_call_id @ '',''
              @ quoted ''scope_json'' @ '':'' @ dec_scope_json permission @ ''}'')) []) (\<lambda>_.
      op_bind
        (append_event sj
          (build (PermissionEvent PermissionDecided)
            (''event-permission-decided-'' @ session_id @ ''-'' @ permission_event_suffix)
            (''{'' @ field ''tool_call_id'' tool_call_id
              @ '','' @ field ''effect'' (dec_effect permission)
              @ '','' @ field ''capability_grant_id'' (dec_capability_grant_id permission)
              @ '','' @ field ''decision_source'' (dec_decision_source permission)
              @ '','' @ field ''persistence'' (dec_persistence permission)
              @ '','' @ field ''explanation'' (escape_json (dec_explanation permission)) @ ''}'')) []) (\<lambda>_.
      op_bind
        (append_event sj
          (build (CapabilityEvent CapabilityGrantCreated)
            (''event-capability-grant-'' @ session_id @ ''-'' @ permission_event_suffix)
            (''{'' @ field ''capability_grant_id'' (dec_capability_grant_id permission)
              @ '','' @ field ''effect'' (dec_effect permission)
              @ '','' @ field ''decision_source'' (dec_decision_source permission)
              @ '','' @ field ''persistence'' (dec_persistence permission) @ ''}''))
          [CapabilityGrant (fake_session_grant_row permission)]) (\<lambda>_.
      op_return ()))))"

lemma decision_event_keys [simp]:
  "nev_event_id (decision_event ctl a t s r u k i p) = i"
  "nev_project_id (decision_event ctl a t s r u k i p) = Some (ctl_project_id ctl)"
  "nev_idempotency_key (decision_event ctl a t s r u k i p) = Some i"
  by (simp_all add: decision_event_def)

lemma fake_session_row_stored:
  assumes "record_permission_decision sj ctl a t sid r u c permission x s = (Inr (), s')"
    and "fresh_event (ctl_project_id ctl) (''event-capability-grant-'' @ sid @ ''-'' @ x) s"
  shows "\<exists>n. capability_grant_by_id (dec_capability_grant_id permission) s' =
    Some ((fake_session_grant_row permission)\<lparr>grant_updated_sequence := n\<rparr>)"
proof -
  let ?i = "''event-capability-grant-'' @ sid @ ''-'' @ x"
  from assms(1) obtain e1 e2 e3 s1 s2 n1 n2 n where
      app: "append_event sj e1 [] s = (Inr n1, s1)" "append_event sj e2 [] s1 = (Inr n2, s2)"
        "append_event sj e3 [CapabilityGrant (fake_session_grant_row permission)] s2 = (Inr n, s')"
    and ids: "nev_event_id e1 = ''event-permission-requested-'' @ sid @ ''-'' @ x"
      "nev_event_id e2 = ''event-permission-decided-'' @ sid @ ''-'' @ x" "nev_event_id e3 = ?i"
    and keys: "nev_idempotency_key e1 = Some (nev_event_id e1)" "nev_idempotency_key e2 = Some (nev_event_id e2)"
      "nev_idempotency_key e3 = Some (nev_event_id e3)" "nev_project_id e3 = Some (ctl_project_id ctl)"
    unfolding record_permission_decision_def Let_def op_bind_Inr op_return_def by (elim exE conjE) simp
  have "fresh_event (ctl_project_id ctl) ?i s1"
    using fresh_append_other [OF assms(2), of e1 sj "[]"] ids keys app by simp
  then have "fresh_event (ctl_project_id ctl) ?i s2"
    using fresh_append_other [of "ctl_project_id ctl" ?i s1 e2 sj "[]"] ids keys app by simp
  then have "find_idempotent e3 s2 = None"
    using fresh_unknown(1) keys ids by simp
  from by_id_append_grant [OF app(3) this, of "dec_capability_grant_id permission"]
  show ?thesis by (auto simp: fake_session_grant_row_def)
qed

lemma fake_session_wf:
  "store_wf s \<Longrightarrow> store_wf (snd (record_permission_decision sj ctl a t sid r u c permission x s))"
  unfolding record_permission_decision_def Let_def
  by (intro op_bind_keeps [where I = store_wf] op_return_keeps [where I = store_wf]) (simp_all add: store_wf_append)

lemma append_decision_event:
  assumes "fresh_event (ctl_project_id ctl) i s" "st_sequence s + 1 < 2 ^ 63" "list_all (json_columns_ok sj) rs"
  shows "append_event sj (decision_event ctl a t sid r u k i p) rs s =
    (Inr (st_sequence s + 1), committed_store sj (decision_event ctl a t sid r u k i p) rs s)"
  by (intro append_event_commits fresh_append_admissible [OF assms(1)]) (use assms in simp_all)

lemma fake_session_succeeds:
  assumes "list_all (\<lambda>k. fresh_event (ctl_project_id ctl) (k @ sid @ ''-'' @ x) s)
      [''event-permission-requested-'', ''event-permission-decided-'', ''event-capability-grant-'']"
    and "st_sequence s + 3 < 2 ^ 63"
    and "is_json sj (dec_scope_json permission)" "is_json sj (dec_subject_json permission)"
  shows "\<exists>s'. record_permission_decision sj ctl a t sid r u c permission x s = (Inr (), s')"
proof -
  have "json_columns_ok sj (CapabilityGrant (fake_session_grant_row permission))"
    using assms(3,4) by (simp add: json_columns_ok_def fake_session_grant_row_def)
  with assms(1,2) show ?thesis
    by (simp add: record_permission_decision_def Let_def op_bind_def op_return_def append_decision_event
        fresh_committed)
qed

end
