(* ===== verification/Grant_Properties.thy ===== *)
theory Grant_Properties
  imports Permission_Round_Trip Fake_Session_Grants Json_Text
begin

text \<open>
  The properties of the permission policies, the grant store and the adapter round trip, each with an
  instance on a concrete store.
\<close>

section \<open>Sample data\<close>

definition ctl0 :: controller where
  "ctl0 = \<lparr>ctl_project_id = ''p1'', ctl_permission_policy = TrustedLocal []\<rparr>"

definition ctl1 :: controller where
  "ctl1 = \<lparr>ctl_project_id = ''p1'', ctl_permission_policy = StaticPolicy read_only_local\<rparr>"

text \<open>The scope texts \<open>["shell:execute:path"]\<close> and \<open>["git:diff:workspace"]\<close>.\<close>

definition shell_scope :: string where
  "shell_scope = CHR ''['' # quoted ''shell:execute:path'' @ '']''"

definition diff_scope :: string where
  "diff_scope = CHR ''['' # quoted ''git:diff:workspace'' @ '']''"

definition req0 :: permission_request where
  "req0 = \<lparr>preq_session_id = ''s1'', preq_capability_profile_id = ''dev'', preq_scope_json = shell_scope\<rparr>"

definition dec0 :: "string \<Rightarrow> permission_decision" where
  "dec0 persistence = decision_for req0 ''allow'' ''operator'' persistence ''ok''"

definition keys0 :: "string \<Rightarrow> grant_event_keys" where
  "keys0 i = \<lparr>gek_event_id = i, gek_task_id = ''t1'', gek_agent_id = ''a1'', gek_session_id = ''s1'',
     gek_run_id = ''r1'', gek_turn_id = ''u1'', gek_item_ref = ''x1''\<rparr>"

definition granted0 :: store where
  "granted0 =
     snd (append_capability_grant_created_event rfc8259 ctl1 1000 (keys0 ''g1'') (dec0 ''until_time'') [] store_open)"

lemma shell_scope_json: "is_json rfc8259 shell_scope" "is_json rfc8259 (subject_json_of ''s1'')"
  "is_json rfc8259 diff_scope"
  by (code_simp, code_simp, code_simp)

lemma granted0_eq:
  "append_capability_grant_created_event rfc8259 ctl1 1000 (keys0 ''g1'') (dec0 ''until_time'') [] store_open
     = (Inr (), granted0)"
proof -
  have "st_sequence store_open + 1 < 2 ^ 63" by (simp add: store_open_def)
  moreover have "is_json rfc8259 (dec_scope_json (dec0 ''until_time''))"
    "is_json rfc8259 (dec_subject_json (dec0 ''until_time''))"
    using shell_scope_json by (simp_all add: dec0_def req0_def)
  ultimately obtain t where
    "append_capability_grant_created_event rfc8259 ctl1 1000 (keys0 ''g1'') (dec0 ''until_time'') [] store_open
      = (Inr (), t)"
    using grant_writer_commits [OF rfc.serde_json_axioms fresh_open,
        where keys = "keys0 ''g1''" and d = "dec0 ''until_time''" and ctl = ctl1] by blast
  then show ?thesis by (simp add: granted0_def)
qed

lemma by_id_open [simp]: "capability_grant_by_id i store_open = None"
  by (simp add: capability_grant_by_id_def lookup_def store_open_def)

lemma granted0_wf: "store_wf granted0"
  using grant_step_wf [OF grant_create store_open_wf] by (simp add: granted0_def)

lemma granted0_row: "\<exists>n. capability_grant_by_id (scoped_grant_id req0 ''allow'') granted0 =
    Some ((created_grant_row 1000 (dec0 ''until_time'') None)\<lparr>grant_updated_sequence := n\<rparr>)"
  using writer_Inr [OF granted0_eq fresh_open, of "scoped_grant_id req0 ''allow''"]
  by (simp only: by_id_open) (force simp: dec0_def)

lemma granted0_only:
  assumes "g \<in> set (capability_grants granted0)"
  shows "\<exists>n. g = (created_grant_row 1000 (dec0 ''until_time'') None)\<lparr>grant_updated_sequence := n\<rparr>"
proof -
  from assms have g: "capability_grant_by_id (grant_capability_grant_id g) granted0 = Some g"
    by (simp add: grants_by_id [OF store_wf_typed [OF granted0_wf]])
  obtain n where "capability_grant_by_id (grant_capability_grant_id g) granted0 =
      (if grant_capability_grant_id g = dec_capability_grant_id (dec0 ''until_time'')
       then Some ((created_grant_row 1000 (dec0 ''until_time'') None)\<lparr>grant_updated_sequence := n\<rparr>) else None)"
    using writer_Inr [OF granted0_eq fresh_open, of "grant_capability_grant_id g"] by (simp only: by_id_open) blast
  with g show ?thesis by (simp split: if_splits) blast
qed

section \<open>Reading grants back\<close>

text \<open>
  C11. The decision of a permission request, by precedence: a deny grant in force for the request
  blocks it whatever the policy says; otherwise an allow grant in force authorizes it whatever the
  policy says; otherwise the policy decides.  In force means: same scope text, same profile, a
  subject naming the same session, not revoked and not expired.
\<close>

theorem read_back_precedence:
  "rb_allowed (decide_with_grant_read_back sj ctl clock request s) \<longleftrightarrow>
     \<not> has_in_force sj request (int_to_string clock) ''deny'' s \<and>
     (has_in_force sj request (int_to_string clock) ''allow'' s
      \<or> dec_effect (decide sj (ctl_permission_policy ctl) request) = ''allow'')"
  by (rule read_back_allowed_iff)

text \<open>
  Grants of another subject do not interfere: storing a grant whose profile or session is not
  the request's, under an id that no grant in force for the request has, leaves the decision of the
  request as it was, at every later time.
\<close>

theorem other_subject_does_not_interfere:
  assumes "\<not> grant_matches_subject sj g request"
    and "opt_all (\<lambda>old. \<not> grant_in_force sj request (int_to_string clock) old)
      (capability_grant_by_id (grant_capability_grant_id g) s)"
  shows "decide_with_grant_read_back sj ctl clock request (snd (append_event sj e [CapabilityGrant g] s))
    = decide_with_grant_read_back sj ctl clock request s"
proof (rule decision_depends_on_view, rule view_append_grant)
  show "\<not> grant_in_force sj request (int_to_string clock) (g\<lparr>grant_updated_sequence := n\<rparr>)" for n
    using assms(1) by (auto simp: grant_in_force_def grant_matches_subject_def)
qed (rule assms(2))

theorem other_subject_does_not_interfere_witness:
  "decide_with_grant_read_back rfc8259 ctl0 5 (req0\<lparr>preq_session_id := ''s2''\<rparr>)
     (snd (append_event rfc8259 (event ''e9'' (CapabilityEvent CapabilityGrantCreated) ''p1'')
       [CapabilityGrant (created_grant_row 1 (dec0 ''once'') None)] store_open))
   = decide_with_grant_read_back rfc8259 ctl0 5 (req0\<lparr>preq_session_id := ''s2''\<rparr>) store_open"
proof (rule other_subject_does_not_interfere)
  have "plain_text ''s1''" by code_simp
  then show "\<not> grant_matches_subject rfc8259 (created_grant_row 1 (dec0 ''once'') None)
      (req0\<lparr>preq_session_id := ''s2''\<rparr>)"
    using subject_session_of [OF rfc.serde_json_text_axioms, of "''s1''"]
    by (simp add: grant_matches_subject_def created_grant_row_def dec0_def req0_def Let_def)
qed simp

text \<open>
  C12. Revocation is final for the grant lifecycle: once a revocation has been recorded, no
  sequence of grant creations, further revocations and appends without grant records (among them every
  adapter round trip) leads to a store in which the grant decides a request, whether it allowed or
  denied.
\<close>

theorem revocation_is_final:
  assumes "store_wf s"
    and "revoke_capability_grant sj ctl clock scope i reason s = (Inr r, s')"
    and "fresh_event (ctl_project_id ctl) (''event-grant-revoked-'' @ grs_session_id scope @ ''-'' @ i) s"
    and "grant_steps sj ctl s' t"
  shows "rb_authorizing_grant_id (decide_with_grant_read_back sj ctl later request t) \<noteq> Some i"
proof -
  have "store_wf s'"
    using grant_step_wf [OF grant_revoke assms(1), of sj ctl clock scope i reason] assms(2) by simp
  then show ?thesis
    using revoke_revokes [OF assms(2,1,3)] grant_steps_revoked [OF assms(4)] grant_steps_wf [OF assms(4)]
    by (intro revoked_never_decides) simp_all
qed

definition scope0 :: grant_revocation_scope where
  "scope0 = \<lparr>grs_task_id = ''t1'', grs_agent_id = ''a1'', grs_session_id = ''s1'', grs_run_id = ''r1'',
     grs_turn_id = ''u1''\<rparr>"

abbreviation grant0_id :: string where "grant0_id \<equiv> scoped_grant_id req0 ''allow''"

definition revoked0 :: store where
  "revoked0 = snd (revoke_capability_grant rfc8259 ctl1 2000 scope0 grant0_id ''stale'' granted0)"

lemma revoke0_fresh:
  "fresh_event (ctl_project_id ctl1) (''event-grant-revoked-'' @ grs_session_id scope0 @ ''-'' @ i) granted0"
  unfolding granted0_def by (intro writer_fresh) (simp_all add: keys0_def)

lemma granted0_sequence_1: "st_sequence granted0 \<le> 1"
proof -
  have "st_sequence (snd (append_event sj e rs s)) \<le> st_sequence s + 1" for sj e rs s
    by (rule append_event_outcome [of e s sj rs]) simp_all
  from this [of rfc8259 _ _ store_open] have "st_sequence granted0 \<le> st_sequence store_open + 1"
    by (simp add: granted0_def append_capability_grant_created_event_def Let_def)
  then show ?thesis by (simp add: store_open_def)
qed

lemma granted0_sequence: "st_sequence granted0 + 1 < 2 ^ 63"
  using granted0_sequence_1 by simp

lemma revoked0_eq: "\<exists>r. revoke_capability_grant rfc8259 ctl1 2000 scope0 grant0_id ''stale'' granted0 = (Inr r, revoked0)"
proof -
  obtain n where row: "capability_grant_by_id grant0_id granted0 =
      Some ((created_grant_row 1000 (dec0 ''until_time'') None)\<lparr>grant_updated_sequence := n\<rparr>)"
    using granted0_row by blast
  have "\<exists>t. revoke_capability_grant rfc8259 ctl1 2000 scope0 grant0_id ''stale'' granted0 =
      (Inr \<lparr>grev_capability_grant_id = grant0_id, grev_reason = ''stale'',
            grev_revoked_at = int_to_string 2000\<rparr>, t)"
    by (rule revoke_commits [OF revoke0_fresh granted0_sequence row])
      (simp_all add: created_grant_row_def Let_def dec0_def req0_def shell_scope_json)
  then show ?thesis by (auto simp: revoked0_def)
qed

theorem revocation_is_final_witness:
  "rb_authorizing_grant_id (decide_with_grant_read_back rfc8259 ctl1 3000 req0
     (snd (append_capability_grant_created_event rfc8259 ctl1 2500 (keys0 ''g2'') (dec0 ''until_time'') [] revoked0)))
   \<noteq> Some grant0_id"
proof -
  obtain r where "revoke_capability_grant rfc8259 ctl1 2000 scope0 grant0_id ''stale'' granted0 = (Inr r, revoked0)"
    using revoked0_eq by blast
  from revocation_is_final [OF granted0_wf this revoke0_fresh grant_more [OF grant_done grant_create]]
  show ?thesis .
qed

text \<open>
  A created grant authorizes, for as long as it lasts: after the writer has stored an allow
  decision for a request, the request is allowed by it whatever the policy says, unless a deny grant
  is in force; a grant of persistence \<open>until_time\<close> lasts exactly one hour, any other until it is
  revoked.
\<close>

theorem created_grant_authorizes:
  assumes "serde_json_text sj" "plain_text (preq_session_id request)" "store_wf s"
    and "append_capability_grant_created_event sj ctl clock keys decision extra s = (Inr (), s')"
    and "fresh_event (ctl_project_id ctl) (gek_event_id keys) s"
    and "dec_scope_json decision = preq_scope_json request"
    and "dec_capability_profile_id decision = preq_capability_profile_id request"
    and "dec_subject_json decision = subject_json_of (preq_session_id request)"
    and "dec_effect decision = ''allow''" "\<not> revoked_in (dec_capability_grant_id decision) s"
    and "i64_ok clock" "i64_ok later" "i64_ok (clock + GRANT_UNTIL_TIME_WINDOW_MILLIS)"
    and "\<not> has_in_force sj request (int_to_string later) ''deny'' s'"
    and "dec_persistence decision = ''until_time'' \<Longrightarrow> later < clock + GRANT_UNTIL_TIME_WINDOW_MILLIS"
  shows "rb_allowed (decide_with_grant_read_back sj ctl2 later request s')"
proof -
  have "has_in_force sj request (int_to_string later) (dec_effect decision) s'"
    using assms by (intro created_grant_in_force [OF assms(1-8,10-13)])
  with assms(9,14) show ?thesis by (simp add: read_back_allowed_iff)
qed

lemma granted0_no_deny: "\<not> has_in_force sj r now ''deny'' granted0"
  using granted0_only by (fastforce simp: has_in_force_def list_ex_iff created_grant_row_def Let_def dec0_def)

theorem created_grant_authorizes_witness:
  "rb_allowed (decide_with_grant_read_back rfc8259 ctl1 3600999 req0 granted0)"
proof (rule created_grant_authorizes [OF rfc.serde_json_text_axioms _ store_open_wf granted0_eq fresh_open])
  show "plain_text (preq_session_id req0)" by (simp add: req0_def) code_simp
qed (simp_all add: dec0_def revoked_in_def i64_ok_def GRANT_UNTIL_TIME_WINDOW_MILLIS_def granted0_no_deny)

text \<open>
  C13. An expired grant decides nothing: from one hour after its creation on, a grant of
  persistence \<open>until_time\<close> neither authorizes nor denies any request, whether or not it was revoked.
\<close>

theorem expired_grant_decides_nothing:
  assumes "store_wf s"
    and "append_capability_grant_created_event sj ctl clock keys decision extra s = (Inr (), s')"
    and "fresh_event (ctl_project_id ctl) (gek_event_id keys) s"
    and "dec_persistence decision = ''until_time''"
    and "i64_ok clock" "i64_ok later" "i64_ok (clock + GRANT_UNTIL_TIME_WINDOW_MILLIS)"
    and "clock + GRANT_UNTIL_TIME_WINDOW_MILLIS \<le> later"
  shows "rb_authorizing_grant_id (decide_with_grant_read_back sj ctl2 later request s')
    \<noteq> Some (dec_capability_grant_id decision)"
proof
  let ?i = "dec_capability_grant_id decision"
  assume "rb_authorizing_grant_id (decide_with_grant_read_back sj ctl2 later request s') = Some ?i"
  then obtain g where g: "g \<in> set (capability_grants s')" "grant_capability_grant_id g = ?i"
      "grant_in_force sj request (int_to_string later) g"
    by (rule read_back_authority)
  have "store_wf s'"
    using grant_step_wf [OF grant_create assms(1), of sj ctl clock keys decision extra] assms(2) by simp
  with g have row: "capability_grant_by_id ?i s' = Some g"
    by (simp add: grants_by_id [OF store_wf_typed])
  obtain n where "capability_grant_by_id ?i s' =
      Some ((created_grant_row clock decision (capability_grant_by_id ?i s))\<lparr>grant_updated_sequence := n\<rparr>)"
    using writer_Inr [OF assms(2,3), of ?i] by auto
  with row have "grant_expires_at g = Some (int_to_string (clock + GRANT_UNTIL_TIME_WINDOW_MILLIS))"
    using assms(4-7) by (auto simp: created_grant_row_def Let_def grant_expiry_def wrap_i64_id)
  with g(3) assms(6-8) show False by (simp add: grant_in_force_def is_expired_epoch)
qed

theorem expired_grant_decides_nothing_witness:
  "rb_authorizing_grant_id (decide_with_grant_read_back rfc8259 ctl1 3601000 req0 granted0) \<noteq> Some grant0_id"
  using expired_grant_decides_nothing [OF store_open_wf granted0_eq fresh_open, of 3601000 ctl1 req0]
  by (simp add: dec0_def i64_ok_def GRANT_UNTIL_TIME_WINDOW_MILLIS_def)

text \<open>
  C14. The gate of a live tool dispatch is the same decision procedure: the policy it hands to the
  tool layer allows the request exactly when the standalone decision does, and names the same
  authority.
\<close>

theorem live_gate_agrees:
  "let (policy, source) = read_back_effective_policy sj ctl clock (Some request) s;
       standalone = decide_with_grant_read_back sj ctl clock request s
   in source = rb_source standalone
      \<and> (dec_effect (decide sj policy request) = ''allow'' \<longleftrightarrow> rb_allowed standalone)"
  by (rule gate_agrees)

section \<open>Policies\<close>

text \<open>
  C15. The built-in profiles fail closed: whatever the request, the read-only and the reviewer
  profile allow it only if its scope text is a non-empty array of strings none of which is a critical
  scope, and the trusted-local profile allows a critical scope only if it was granted explicitly.
\<close>

theorem profiles_fail_closed:
  assumes "policy = StaticPolicy read_only_local \<or> policy = StaticPolicy reviewer \<or> policy = TrustedLocal granted"
    and "dec_effect (decide sj policy request) = ''allow''"
  shows "\<exists>scopes. scope_items sj (preq_scope_json request) = Inr scopes
    \<and> list_all (\<lambda>x. critical_scope_kind x = None \<or> policy = TrustedLocal granted \<and> x \<in> set granted) scopes
    \<and> (scopes = [] \<longrightarrow> policy = TrustedLocal granted)"
  using assms static_profiles_admit_no_critical_scope
  by (auto simp: static_allow_iff trusted_local_allow_iff list_all_iff) blast+

theorem profiles_fail_closed_witness:
  "\<exists>scopes. scope_items rfc8259 diff_scope = Inr scopes
    \<and> list_all (\<lambda>x. critical_scope_kind x = None \<or> StaticPolicy reviewer = TrustedLocal [] \<and> x \<in> set []) scopes
    \<and> (scopes = [] \<longrightarrow> StaticPolicy reviewer = TrustedLocal [])"
proof -
  have "dec_effect (decide rfc8259 (StaticPolicy reviewer) (req0\<lparr>preq_scope_json := diff_scope\<rparr>)) = ''allow''"
    by code_simp
  from profiles_fail_closed [OF _ this, of "[]"] show ?thesis by simp
qed

text \<open>
  The grant id of a policy decision identifies the session and the effect: two decisions with
  the same id are for the same session and agree on allow or deny, so an id collision of the hash can
  only join scopes within one session.
\<close>

theorem grant_id_names_session:
  assumes "scoped_grant_id r e = scoped_grant_id r' e'"
    and "e \<in> {''allow'', ''deny''}" "e' \<in> {''allow'', ''deny''}"
  shows "preq_session_id r = preq_session_id r' \<and> e = e'"
  using assms by (rule scoped_grant_id_session)

theorem grant_id_names_session_witness:
  "preq_session_id req0 = preq_session_id (req0\<lparr>preq_scope_json := shell_scope\<rparr>) \<and> ''allow'' = ''allow''"
  by (rule grant_id_names_session [of req0 "''allow''"]) (simp_all add: req0_def)

section \<open>The adapter round trip\<close>

text \<open>
  C16. An adapter is told to proceed only with permission: if the delivered response lets it
  proceed, the policy allows the requested scope and the response selects an allow option that the
  adapter had offered.
\<close>

theorem adapter_proceeds_only_if_allowed:
  assumes "run_adapter_permission_round_trip sj ctl clock scripted scope s = (Inr (Some (r, ack)), s')"
    and "ack_proceeded ack"
  shows "\<exists>request. scripted (prt_request_ref scope) = Some request
    \<and> dec_effect (decide sj (ctl_permission_policy ctl) (round_trip_policy_request sj scope request)) = ''allow''
    \<and> (\<exists>x \<in> set (areq_options request). option_kind_is_allow (opt_kind x)
         \<and> resp_outcome r = OutcomeSelected (opt_option_id x))"
proof -
  from assms(1) obtain request where req: "scripted (prt_request_ref scope) = Some request"
    and dec: "decide_adapter_permission sj ctl clock scope request s = (Inr r, s')"
    and ack: "ack = deliver_permission_response r"
    by (auto simp: run_adapter_permission_round_trip_def op_bind_Inr op_return_def split: option.splits)
  let ?m = "map_acp_options_trusted_local (areq_options request)"
  from dec have r: "r = round_trip_response sj ctl scope request ?m"
    unfolding decide_adapter_permission_def by (rule record_round_trip_response)
  with ack assms(2) have allow: "res_effect (round_trip_resolved sj ctl scope request ?m) = ''allow''"
    by (simp add: deliver_permission_response_def may_proceed_def allowed_def round_trip_response_def Let_def)
  from resolved_allow_option [OF refl allow [unfolded round_trip_resolved_def]]
    resolved_allow [OF allow [unfolded round_trip_resolved_def]] req r
  show ?thesis by (auto simp: round_trip_response_def round_trip_resolved_def Let_def)
qed

definition rt_scope :: permission_round_trip_scope where
  "rt_scope = \<lparr>prt_task_id = ''t1'', prt_agent_id = ''a1'', prt_session_id = ''s1'', prt_run_id = ''r1'',
     prt_turn_id = ''u1'', prt_request_ref = ''q1''\<rparr>"

definition rt_request :: "string \<Rightarrow> adapter_permission_request" where
  "rt_request scope_text =
     \<lparr>areq_tool_name = ''edit'', areq_scope = scope_text, areq_capability_profile_id = ''dev'',
      areq_options =
        [\<lparr>opt_option_id = ''yes'', opt_name = ''Allow'', opt_kind = AllowOnce\<rparr>,
         \<lparr>opt_option_id = ''no'', opt_name = ''Reject'', opt_kind = RejectOnce\<rparr>]\<rparr>"

lemma rt_succeeds:
  "\<exists>s'. record_round_trip rfc8259 ctl clock rt_scope request m store_open
     = (Inr (round_trip_response rfc8259 ctl rt_scope request m), s')"
proof -
  have "st_sequence store_open + 3 < 2 ^ 63" by (simp add: store_open_def)
  then obtain r s' where run: "record_round_trip rfc8259 ctl clock rt_scope request m store_open = (Inr r, s')"
    using round_trip_succeeds [OF rfc.serde_json_axioms, of ctl rt_scope store_open clock request m] by auto
  from record_round_trip_response [OF run] run show ?thesis by blast
qed

lemma rt_run:
  "\<exists>s'. run_adapter_permission_round_trip rfc8259 ctl clock (\<lambda>_. Some request) rt_scope store_open
     = (Inr (Some (round_trip_response rfc8259 ctl rt_scope request
          (map_acp_options_trusted_local (areq_options request)),
        deliver_permission_response (round_trip_response rfc8259 ctl rt_scope request
          (map_acp_options_trusted_local (areq_options request))))), s')"
  using rt_succeeds [of ctl clock request "map_acp_options_trusted_local (areq_options request)"]
  by (auto simp: run_adapter_permission_round_trip_def decide_adapter_permission_def op_bind_def op_return_def)

lemma rt_proceeds:
  "ack_proceeded (deliver_permission_response (round_trip_response rfc8259 ctl1 rt_scope
     (rt_request ''git:diff:workspace'')
     (map_acp_options_trusted_local (areq_options (rt_request ''git:diff:workspace'')))))"
  by code_simp

theorem adapter_proceeds_only_if_allowed_witness:
  "dec_effect (decide rfc8259 (ctl_permission_policy ctl1)
     (round_trip_policy_request rfc8259 rt_scope (rt_request ''git:diff:workspace''))) = ''allow''"
proof -
  obtain s' where "run_adapter_permission_round_trip rfc8259 ctl1 7 (\<lambda>_. Some (rt_request ''git:diff:workspace''))
      rt_scope store_open
    = (Inr (Some (round_trip_response rfc8259 ctl1 rt_scope (rt_request ''git:diff:workspace'')
         (map_acp_options_trusted_local (areq_options (rt_request ''git:diff:workspace''))),
       deliver_permission_response (round_trip_response rfc8259 ctl1 rt_scope (rt_request ''git:diff:workspace'')
         (map_acp_options_trusted_local (areq_options (rt_request ''git:diff:workspace'')))))), s')"
    using rt_run by blast
  from adapter_proceeds_only_if_allowed [OF this rt_proceeds] show ?thesis by auto
qed

text \<open>
  A refusal never reads as consent on the wire: when the adapter must not proceed and the
  response still selects an option, the selected option is one the adapter offered as a reject option.
\<close>

theorem refusal_selects_no_allow_option:
  assumes "decide_adapter_permission sj ctl clock scope request s = (Inr r, s')"
    and "\<not> may_proceed r" "resp_outcome r = OutcomeSelected i"
  shows "\<exists>x \<in> set (areq_options request). opt_option_id x = i \<and> \<not> option_kind_is_allow (opt_kind x)"
proof -
  let ?m = "map_acp_options_trusted_local (areq_options request)"
  have r: "r = round_trip_response sj ctl scope request ?m"
    using assms(1) unfolding decide_adapter_permission_def by (rule record_round_trip_response)
  with assms(2,3) have "res_effect (round_trip_resolved sj ctl scope request ?m) \<noteq> ''allow''"
      "res_outcome (round_trip_resolved sj ctl scope request ?m) = OutcomeSelected i"
    by (simp_all add: may_proceed_def allowed_def round_trip_response_def Let_def)
  then show ?thesis unfolding round_trip_resolved_def by (rule resolved_not_allow_option [OF refl])
qed

lemma rt_refuses:
  "\<not> may_proceed (round_trip_response rfc8259 ctl1 rt_scope (rt_request ''shell:execute:path'')
     (map_acp_options_trusted_local (areq_options (rt_request ''shell:execute:path''))))"
  "resp_outcome (round_trip_response rfc8259 ctl1 rt_scope (rt_request ''shell:execute:path'')
     (map_acp_options_trusted_local (areq_options (rt_request ''shell:execute:path'')))) = OutcomeSelected ''no''"
  by (code_simp, code_simp)

theorem refusal_selects_no_allow_option_witness:
  "\<exists>x \<in> set (areq_options (rt_request ''shell:execute:path'')).
     opt_option_id x = ''no'' \<and> \<not> option_kind_is_allow (opt_kind x)"
proof -
  let ?q = "rt_request ''shell:execute:path''"
  obtain s' where "decide_adapter_permission rfc8259 ctl1 7 rt_scope ?q store_open
      = (Inr (round_trip_response rfc8259 ctl1 rt_scope ?q (map_acp_options_trusted_local (areq_options ?q))), s')"
    unfolding decide_adapter_permission_def using rt_succeeds by blast
  from refusal_selects_no_allow_option [OF this rt_refuses] show ?thesis .
qed

text \<open>
  An operator's cancellation grants nothing: the answer is a cancel that halts the adapter,
  names no grant and is no adapter error, and every read model stays as it was.
\<close>

theorem cancel_grants_nothing:
  assumes "cancel_adapter_permission sj ctl clock scope request s = (Inr r, s')"
  shows "resp_outcome r = OutcomeCancelled \<and> resp_capo_decision r = ''cancel'' \<and> \<not> may_proceed r
    \<and> resp_capability_grant_id r = None \<and> \<not> resp_adapter_error r \<and> st_tables s' = st_tables s"
proof -
  have r: "r = round_trip_response sj ctl scope request mapping_cancelled"
    using assms unfolding cancel_adapter_permission_def by (rule record_round_trip_response)
  have res: "round_trip_resolved sj ctl scope request mapping_cancelled =
      \<lparr>res_effect = ''cancel'', res_outcome = OutcomeCancelled, res_persistence = None,
       res_decision_source = dec_decision_source (decide sj (ctl_permission_policy ctl)
         (round_trip_policy_request sj scope request)),
       res_explanation = ''permission request canceled''\<rparr>"
    by (simp add: round_trip_resolved_def resolve_decision_def mapping_cancelled_def cancel_explanation_def)
  then have none: "resp_capability_grant_id r = None"
    by (simp add: r round_trip_response_def creates_grant_iff unwrap_or_def Let_def)
  with record_without_grant [OF none assms [unfolded cancel_adapter_permission_def]] show ?thesis
    by (simp add: r round_trip_response_def res may_proceed_def allowed_def Let_def)
      (simp add: mapping_cancelled_def)
qed

theorem cancel_grants_nothing_witness:
  "\<exists>r s'. cancel_adapter_permission rfc8259 ctl0 7 rt_scope (rt_request ''git:diff:workspace'') store_open = (Inr r, s')
    \<and> resp_capo_decision r = ''cancel'' \<and> \<not> may_proceed r \<and> st_tables s' = st_tables store_open"
proof -
  obtain r s' where run:
    "cancel_adapter_permission rfc8259 ctl0 7 rt_scope (rt_request ''git:diff:workspace'') store_open = (Inr r, s')"
    unfolding cancel_adapter_permission_def using rt_succeeds by blast
  from cancel_grants_nothing [OF run] run show ?thesis by blast
qed

text \<open>
  The round trip ends with an answer and a complete audit trail: if its event ids are not on
  the log yet and the log has room, it returns a response, and the log gains exactly the request, the
  decision and, when the response names a grant, the creation of that grant, in this order.
\<close>

theorem round_trip_answers:
  assumes "serde_json sj"
    and "list_all (\<lambda>x. fresh_event (ctl_project_id ctl) (round_trip_event_id scope x) s)
      [''requested'', ''decided'', ''grant'']"
    and "st_sequence s + 3 < 2 ^ 63"
  shows "\<exists>r s'. record_round_trip sj ctl clock scope request mapping s = (Inr r, s') \<and>
    map ev_kind (st_events s') = map ev_kind (st_events s) @ [''permission.requested'', ''permission.decided'']
      @ (if resp_capability_grant_id r = None then [] else [''capability.grant_created''])"
  using assms by (rule round_trip_succeeds)

theorem round_trip_answers_witness:
  "\<exists>r s'. record_round_trip rfc8259 ctl0 7 rt_scope (rt_request ''git:diff:workspace'') mapping_cancelled store_open
      = (Inr r, s') \<and>
    map ev_kind (st_events s') = map ev_kind (st_events store_open) @ [''permission.requested'', ''permission.decided'']
      @ (if resp_capability_grant_id r = None then [] else [''capability.grant_created''])"
  by (rule round_trip_answers [OF rfc.serde_json_axioms]) (simp_all, simp add: store_open_def)

section \<open>The scripted session writer\<close>

text \<open>
  The writer of the scripted session path does not follow the grant lifecycle: whatever the
  persistence of the decision (also a transient denial, for which the lifecycle creates no grant) and
  whether or not a grant of that id was revoked before, the grant it stores is in force for the
  request from then on and at all times.
\<close>

theorem fake_session_grant_always_in_force:
  assumes "serde_json_text sj" "plain_text (preq_session_id request)" "store_wf s"
    and "record_permission_decision sj ctl agent task sid run turn call
      (decision_for request effect source persistence explanation) x s = (Inr (), s')"
    and "fresh_event (ctl_project_id ctl) (''event-capability-grant-'' @ sid @ ''-'' @ x) s"
  shows "has_in_force sj request now effect s' \<and> \<not> revoked_in (scoped_grant_id request effect) s'"
proof -
  let ?d = "decision_for request effect source persistence explanation"
  have wf': "store_wf s'"
    using fake_session_wf [OF assms(3), of sj ctl agent task sid run turn call ?d x] assms(4) by simp
  obtain n where row: "capability_grant_by_id (scoped_grant_id request effect) s' =
      Some ((fake_session_grant_row ?d)\<lparr>grant_updated_sequence := n\<rparr>)"
    using fake_session_row_stored [OF assms(4,5)] by (auto simp: decision_for_def)
  let ?g = "(fake_session_grant_row ?d)\<lparr>grant_updated_sequence := n\<rparr>"
  have "grant_capability_grant_id ?g = scoped_grant_id request effect"
    by (simp add: fake_session_grant_row_def)
  with row have "?g \<in> set (capability_grants s')"
    by (simp add: grants_by_id [OF store_wf_typed [OF wf']])
  moreover have "grant_in_force sj request now ?g" "grant_effect ?g = effect"
    using subject_session_of [OF assms(1,2)]
    by (simp_all add: grant_in_force_def grant_matches_subject_def fake_session_grant_row_def is_revoked_def
        is_expired_def)
  ultimately show ?thesis
    using row by (auto simp: has_in_force_def list_ex_iff revoked_in_def fake_session_grant_row_def is_revoked_def)
qed

theorem fake_session_grant_always_in_force_witness:
  "\<exists>s'. record_permission_decision rfc8259 ctl1 ''a1'' ''t1'' ''s1'' ''r1'' ''u1'' ''c1''
      (decision_for req0 ''deny'' ''static_policy:read-only-local'' ''once'' ''missing scopes'') ''1'' granted0 = (Inr (), s')
    \<and> has_in_force rfc8259 req0 ''999999999999'' ''deny'' s'"
proof -
  let ?d = "decision_for req0 ''deny'' ''static_policy:read-only-local'' ''once'' ''missing scopes''"
  have fresh: "fresh_event (ctl_project_id ctl1) (k @ ''s1'' @ ''-'' @ ''1'') granted0"
    if "k \<in> {''event-permission-requested-'', ''event-permission-decided-'', ''event-capability-grant-''}" for k
    unfolding granted0_def using that by (intro writer_fresh) (auto simp: keys0_def)
  have all: "list_all (\<lambda>k. fresh_event (ctl_project_id ctl1) (k @ ''s1'' @ ''-'' @ ''1'') granted0)
      [''event-permission-requested-'', ''event-permission-decided-'', ''event-capability-grant-'']"
    using fresh by (simp only: list_all_iff) simp
  have room: "st_sequence granted0 + 3 < 2 ^ 63" using granted0_sequence_1 by simp
  have "is_json rfc8259 (dec_scope_json ?d)" "is_json rfc8259 (dec_subject_json ?d)"
    using shell_scope_json by (simp_all add: req0_def)
  then obtain s' where run: "record_permission_decision rfc8259 ctl1 ''a1'' ''t1'' ''s1'' ''r1'' ''u1'' ''c1'' ?d ''1''
      granted0 = (Inr (), s')"
    using fake_session_succeeds [OF all room] by blast
  have "plain_text (preq_session_id req0)" by (simp add: req0_def) code_simp
  from fake_session_grant_always_in_force [OF rfc.serde_json_text_axioms this granted0_wf run fresh] run
  show ?thesis by blast
qed

end
