(* ===== verification/Unix_Path.thy ===== *)
theory Unix_Path
  imports Capo_Prelude
begin

text \<open>
  \<open>std::path\<close> on Unix, as far as the code uses it: a path is the list of its components, a \<open>PathBuf\<close> is
  built from components and has a text.
\<close>

section \<open>Components\<close>

text \<open>\<open>std::path::Component\<close> and \<open>Path::components\<close> on Unix: empty segments and inner dots vanish.\<close>

datatype path_component = RootDir | CurDir | ParentDir | Normal string

fun split_slash :: "string \<Rightarrow> string list" where
  "split_slash [] = [[]]"
| "split_slash (c # cs) =
     (if c = CHR ''/'' then [] # split_slash cs
      else (case split_slash cs of [] \<Rightarrow> [[c]] | p # ps \<Rightarrow> (c # p) # ps))"

definition segment_component :: "string \<Rightarrow> path_component list" where
  "segment_component seg =
     (if seg = [] \<or> seg = ''.'' then [] else if seg = ''..'' then [ParentDir] else [Normal seg])"

definition path_components :: "string \<Rightarrow> path_component list" where
  "path_components path =
     (let segs = split_slash path in
      (if path \<noteq> [] \<and> hd path = CHR ''/'' then [RootDir]
       else if hd segs = ''.'' then [CurDir] else [])
      @ concat (map segment_component segs))"

text \<open>A \<open>PathBuf\<close> built by pushing components, and its text.\<close>

fun component_text :: "path_component \<Rightarrow> string" where
  "component_text RootDir = []"
| "component_text CurDir = ''.''"
| "component_text ParentDir = ''..''"
| "component_text (Normal name) = name"

definition path_text :: "path_component list \<Rightarrow> string" where
  "path_text cs =
     (if cs = [RootDir] then ''/'' else join_with ''/'' (map component_text cs))"

fun is_normal :: "path_component \<Rightarrow> bool" where
  "is_normal (Normal _) = True"
| "is_normal _ = False"

definition plain_segment :: "string \<Rightarrow> bool" where
  "plain_segment seg \<longleftrightarrow> seg \<noteq> [] \<and> seg \<noteq> ''.'' \<and> seg \<noteq> ''..'' \<and> CHR ''/'' \<notin> set seg"

fun component_ok :: "path_component \<Rightarrow> bool" where
  "component_ok (Normal name) = plain_segment name"
| "component_ok c = (c = ParentDir)"

section \<open>The components of a text\<close>

lemma split_slash_no_slash: "CHR ''/'' \<notin> set seg \<Longrightarrow> split_slash seg = [seg]"
  by (induction seg) auto

lemma split_slash_append:
  "CHR ''/'' \<notin> set seg \<Longrightarrow> split_slash (seg @ CHR ''/'' # rest) = seg # split_slash rest"
  by (induction seg) auto

lemma split_join:
  "segs \<noteq> [] \<Longrightarrow> list_all (\<lambda>seg. CHR ''/'' \<notin> set seg) segs \<Longrightarrow> split_slash (join_with ''/'' segs) = segs"
  by (induction "''/''" segs rule: join_with.induct) (simp_all add: split_slash_no_slash split_slash_append)

lemma split_slash_segments: "seg \<in> set (split_slash path) \<Longrightarrow> CHR ''/'' \<notin> set seg"
  by (induction path arbitrary: seg) (auto split: if_splits list.splits)

lemma components_shape:
  "\<exists>pre rest. path_components path = pre @ rest \<and> pre \<in> {[], [RootDir], [CurDir]} \<and> list_all component_ok rest"
proof -
  have "list_all component_ok (concat (map segment_component (split_slash path)))"
    using split_slash_segments [of _ path]
    by (auto simp: list_all_iff segment_component_def plain_segment_def split: if_splits)
  then show ?thesis
    unfolding path_components_def Let_def by (intro exI conjI) (rule refl, auto)
qed

section \<open>Operations on paths\<close>

type_synonym path_buf = "path_component list"

definition is_absolute :: "path_buf \<Rightarrow> bool" where
  "is_absolute p \<longleftrightarrow> p \<noteq> [] \<and> hd p = RootDir"

text \<open>\<open>Path::join\<close>: an absolute path replaces the base; a dot in front of the other one vanishes.\<close>

definition path_join :: "path_buf \<Rightarrow> path_buf \<Rightarrow> path_buf" where
  "path_join base p = (if is_absolute p \<or> base = [] then p else base @ filter (\<lambda>c. c \<noteq> CurDir) p)"

definition path_parent :: "path_buf \<Rightarrow> path_buf option" where
  "path_parent p = (if p = [] \<or> last p = RootDir then None else Some (butlast p))"

definition path_starts_with :: "path_buf \<Rightarrow> path_buf \<Rightarrow> bool" where
  "path_starts_with p base \<longleftrightarrow> take (length base) p = base"

text \<open>The absolute path with the given names, which is what \<open>canonicalize\<close> returns.\<close>

definition abs_path :: "string list \<Rightarrow> path_buf" where
  "abs_path names = RootDir # map Normal names"

lemma path_starts_with_append: "path_starts_with p base \<longleftrightarrow> (\<exists>rest. p = base @ rest)"
  by (auto simp: path_starts_with_def) (metis append_take_drop_id)

lemma map_Normal_inj [simp]: "map Normal a = map Normal b \<longleftrightarrow> a = b"
  by (rule inj_map_eq_map) (simp add: inj_def)

lemma abs_path_inj [simp]: "abs_path a = abs_path b \<longleftrightarrow> a = b"
  by (simp add: abs_path_def)

lemma abs_path_starts [simp]: "path_starts_with (abs_path a) (abs_path b) \<longleftrightarrow> (\<exists>rest. a = b @ rest)"
proof
  assume "path_starts_with (abs_path a) (abs_path b)"
  then obtain rest where "map Normal a = map Normal b @ rest" by (auto simp: path_starts_with_append abs_path_def)
  then show "\<exists>rest. a = b @ rest" by (auto simp: map_eq_append_conv)
qed (auto simp: path_starts_with_append abs_path_def)

lemma is_absolute_abs_path [simp]: "is_absolute (abs_path names)"
  by (simp add: is_absolute_def abs_path_def)

lemma path_parent_abs [simp]: "path_parent (abs_path names) = (if names = [] then None else Some (abs_path (butlast names)))"
  by (auto simp: path_parent_def abs_path_def last_map map_butlast)

end
