(* ===== verification/Workspace_Lock.thy ===== *)
theory Workspace_Lock
  imports Controller_Base Unix_Path
begin

text \<open>
  \<open>capo-controller/src/workspace_lock.rs\<close>: the single-writer lease of a workspace.  A lease row is
  keyed by the hexadecimal text of the lexically normalised workspace root; it is taken, released and
  reclaimed by events.

  Shown here: the key is a normal form (spellings of one root agree, different roots never collide);
  while a session holds the lease, every write of another session is denied, as long as the operations
  run one at a time; a release frees it; two acquisitions that read before either writes both succeed.
\<close>

section \<open>Workspace roots\<close>

fun normalize_step :: "path_component list \<Rightarrow> path_component \<Rightarrow> path_component list" where
  "normalize_step acc CurDir = acc"
| "normalize_step acc ParentDir =
     (if acc \<noteq> [] \<and> is_normal (last acc) then butlast acc else acc @ [ParentDir])"
| "normalize_step acc RootDir = [RootDir]"
| "normalize_step acc (Normal name) = acc @ [Normal name]"

definition normalize_workspace_root :: "string \<Rightarrow> path_component list" where
  "normalize_workspace_root workspace_root =
     (let normalized = foldl normalize_step [] (path_components workspace_root) in
      if normalized = [] then [CurDir] else normalized)"

definition byte_hex :: "char \<Rightarrow> string" where
  "byte_hex c = [hex_char (of_char c div 16), hex_char (of_char c mod 16)]"

definition lease_key_segment :: "string \<Rightarrow> string" where
  "lease_key_segment workspace_root =
     concat (map byte_hex (path_text (normalize_workspace_root workspace_root)))"

section \<open>Leases\<close>

record workspace_lease_scope =
  wls_task_id :: string
  wls_agent_id :: string
  wls_session_id :: string
  wls_run_id :: string
  wls_turn_id :: string
  wls_workspace_root :: string

definition lease_id :: "string \<Rightarrow> workspace_lease_scope \<Rightarrow> string" where
  "lease_id project_id scope =
     ''workspace-lease-'' @ project_id @ ''-'' @ lease_key_segment (wls_workspace_root scope)"

record workspace_lock_conflict =
  wlc_held_by_session_id :: string
  wlc_held_by_run_id :: "string option"
  wlc_held_since :: "string option"
  wlc_workspace_lease_id :: string
  wlc_message :: string

definition workspace_conflict :: "workspace_lease_projection \<Rightarrow> string \<Rightarrow> workspace_lock_conflict" where
  "workspace_conflict existing lease_key =
     \<lparr>wlc_held_by_session_id = lease_holder_session_id existing,
      wlc_held_by_run_id = lease_holder_run_id existing,
      wlc_held_since = lease_acquired_at existing,
      wlc_workspace_lease_id = lease_key,
      wlc_message = ''workspace write lease is held by session '' @ lease_holder_session_id existing
        @ ''; a second concurrent writer is rejected (single-writer lock)''\<rparr>"

datatype workspace_write_lease_outcome =
    Acquired string
  | AlreadyHeldBySelf string
  | Conflict workspace_lock_conflict

fun may_write :: "workspace_write_lease_outcome \<Rightarrow> bool" where
  "may_write (Acquired _) = True"
| "may_write (AlreadyHeldBySelf _) = True"
| "may_write (Conflict _) = False"

datatype workspace_write_gate =
    ReadAllowed
  | WriteAllowed workspace_write_lease_outcome
  | WriteDenied workspace_lock_conflict

fun gate_allowed :: "workspace_write_gate \<Rightarrow> bool" where
  "gate_allowed ReadAllowed = True"
| "gate_allowed (WriteAllowed _) = True"
| "gate_allowed (WriteDenied _) = False"

definition lease_event ::
  "controller \<Rightarrow> workspace_lease_scope \<Rightarrow> event_kind \<Rightarrow> string \<Rightarrow> string \<Rightarrow> string \<Rightarrow> new_event" where
  "lease_event ctl scope kind event_id item payload =
     with_payload payload
       (with_item item
         (with_turn (wls_turn_id scope)
           (scoped_event event_id kind (ctl_project_id ctl) (wls_task_id scope) (wls_agent_id scope)
             (wls_session_id scope) (wls_run_id scope))))"

definition acquired_lease_row :: "controller \<Rightarrow> int \<Rightarrow> workspace_lease_scope \<Rightarrow> workspace_lease_projection" where
  "acquired_lease_row ctl clock scope =
     \<lparr>lease_workspace_lease_id = lease_id (ctl_project_id ctl) scope,
      lease_project_id = ctl_project_id ctl,
      lease_holder_session_id = wls_session_id scope,
      lease_holder_run_id = Some (wls_run_id scope),
      lease_status = LEASE_HELD,
      lease_acquired_at = Some (int_to_string clock),
      lease_released_at = None,
      lease_release_reason = [],
      lease_updated_sequence = 0\<rparr>"

definition acquired_event_id :: "controller \<Rightarrow> int \<Rightarrow> workspace_lease_scope \<Rightarrow> string" where
  "acquired_event_id ctl clock scope =
     ''event-lease-acquired-'' @ lease_id (ctl_project_id ctl) scope @ ''-'' @ wls_session_id scope
     @ ''-'' @ int_to_string clock"

text \<open>
  Acquiring is a read of the lease row followed by an append, each on a connection of its own and with
  no transaction around them.  \<open>acquire_after_read\<close> is what happens once the row has been read.  The
  operation itself takes the row from the store it then writes to: the two run without another writer in
  between, as they do when the transport serializes the writers of one process.  Across processes, or
  for a writer that bypasses the serializer, nothing enforces that; \<open>stale_read_acquires_twice\<close> shows
  what happens then.
\<close>

definition acquire_after_read ::
  "serde \<Rightarrow> controller \<Rightarrow> int \<Rightarrow> workspace_lease_scope \<Rightarrow> workspace_lease_projection option
    \<Rightarrow> workspace_write_lease_outcome op" where
  "acquire_after_read sj ctl clock scope row s =
     (let key = lease_id (ctl_project_id ctl) scope;
          take_it = op_bind
            (append_event sj
              (lease_event ctl scope (WorkspaceEvent WorkspaceLeaseAcquired) (acquired_event_id ctl clock scope) key
                (to_text sj (json_object
                  [(''workspace_lease_id'', JString key),
                   (''workspace_root'', JString (wls_workspace_root scope)),
                   (''holder_session_id'', JString (wls_session_id scope)),
                   (''holder_run_id'', JString (wls_run_id scope)),
                   (''acquired_at'', JString (int_to_string clock))])))
              [WorkspaceLease (acquired_lease_row ctl clock scope)])
            (\<lambda>_. op_return (Acquired key))
      in case row of
           Some existing \<Rightarrow>
             if is_held existing then
               if lease_holder_session_id existing = wls_session_id scope
               then op_return (AlreadyHeldBySelf key) s
               else op_return (Conflict (workspace_conflict existing key)) s
             else take_it s
         | None \<Rightarrow> take_it s)"

definition acquire_workspace_write_lease ::
  "serde \<Rightarrow> controller \<Rightarrow> int \<Rightarrow> workspace_lease_scope \<Rightarrow> workspace_write_lease_outcome op" where
  "acquire_workspace_write_lease sj ctl clock scope s =
     acquire_after_read sj ctl clock scope (workspace_lease_by_id (lease_id (ctl_project_id ctl) scope) s) s"

lemmas acquire_defs = acquire_workspace_write_lease_def acquire_after_read_def

definition released_lease_row :: "int \<Rightarrow> string \<Rightarrow> workspace_lease_projection \<Rightarrow> workspace_lease_projection" where
  "released_lease_row clock reason l =
     l\<lparr>lease_status := LEASE_RELEASED,
       lease_released_at := Some (int_to_string clock),
       lease_release_reason := reason,
       lease_updated_sequence := 0\<rparr>"

definition released_event_id :: "int \<Rightarrow> string \<Rightarrow> string" where
  "released_event_id clock key = ''event-lease-released-'' @ key @ ''-'' @ int_to_string clock"

definition release_workspace_write_lease ::
  "serde \<Rightarrow> controller \<Rightarrow> int \<Rightarrow> workspace_lease_scope \<Rightarrow> string \<Rightarrow> workspace_write_lease_outcome op" where
  "release_workspace_write_lease sj ctl clock scope reason s =
     (let key = lease_id (ctl_project_id ctl) scope in
      case workspace_lease_by_id key s of
        None \<Rightarrow> op_return (AlreadyHeldBySelf key) s
      | Some existing \<Rightarrow>
          if \<not> is_held existing then op_return (AlreadyHeldBySelf key) s
          else if lease_holder_session_id existing \<noteq> wls_session_id scope
          then op_return (Conflict (workspace_conflict existing key)) s
          else op_bind
            (append_event sj
              (lease_event ctl scope (WorkspaceEvent WorkspaceLeaseReleased) (released_event_id clock key) key
                (to_text sj (json_object
                  [(''workspace_lease_id'', JString key),
                   (''workspace_root'', JString (wls_workspace_root scope)),
                   (''holder_session_id'', JString (wls_session_id scope)),
                   (''released_at'', JString (int_to_string clock)),
                   (''reason'', JString reason)])))
              [WorkspaceLease (released_lease_row clock reason existing)])
            (\<lambda>_. op_return (Acquired key)) s)"

definition gate_workspace_write ::
  "serde \<Rightarrow> controller \<Rightarrow> int \<Rightarrow> workspace_lease_scope \<Rightarrow> bool \<Rightarrow> workspace_write_gate op" where
  "gate_workspace_write sj ctl clock scope is_write =
     (if \<not> is_write then op_return ReadAllowed
      else op_bind (acquire_workspace_write_lease sj ctl clock scope) (\<lambda>outcome.
        case outcome of
          Conflict conflict \<Rightarrow> op_return (WriteDenied conflict)
        | allowed_outcome \<Rightarrow> op_return (WriteAllowed allowed_outcome)))"

definition workspace_lease_holder ::
  "controller \<Rightarrow> workspace_lease_scope \<Rightarrow> store \<Rightarrow> workspace_lease_projection option" where
  "workspace_lease_holder ctl scope s =
     (case workspace_lease_by_id (lease_id (ctl_project_id ctl) scope) s of
        Some l \<Rightarrow> if is_held l then Some l else None
      | None \<Rightarrow> None)"

section \<open>Reclaiming leases of dead runs\<close>

text \<open>The clock is read once per lease; \<open>clock\<close> gives the reading for each lease id.\<close>

definition reclaim_lease ::
  "serde \<Rightarrow> controller \<Rightarrow> (string \<Rightarrow> int) \<Rightarrow> string \<Rightarrow> workspace_lease_projection \<Rightarrow> string op" where
  "reclaim_lease sj ctl clock reason l =
     (let key = lease_workspace_lease_id l;
          released_at = int_to_string (clock key);
          holder = unwrap_or ''no-run'' (lease_holder_run_id l);
          payload = to_text sj (json_object
            [(''workspace_lease_id'', JString key),
             (''holder_session_id'', JString (lease_holder_session_id l)),
             (''holder_run_id'', j_opt_str (lease_holder_run_id l)),
             (''released_at'', JString released_at),
             (''reason'', JString reason),
             (''reclaimed_from_dead_holder'', JBool True)]);
          e = \<lparr>nev_event_id = ''event-lease-reclaimed-'' @ key @ ''-'' @ holder,
               nev_kind = WorkspaceEvent WorkspaceLeaseReleased,
               nev_actor = ''capo-recovery'',
               nev_project_id = Some (ctl_project_id ctl),
               nev_task_id = None,
               nev_agent_id = None,
               nev_session_id = Some (lease_holder_session_id l),
               nev_run_id = lease_holder_run_id l,
               nev_turn_id = None,
               nev_item_id = Some key,
               nev_payload_json = payload,
               nev_idempotency_key = Some (''recovery:lease-reclaim:'' @ key @ '':'' @ holder),
               nev_redaction_state = Safe\<rparr>
      in op_bind (append_event sj e [WorkspaceLease (released_lease_row (clock key) reason l)])
           (\<lambda>_. op_return key))"

definition holder_is_dead :: "string list \<Rightarrow> workspace_lease_projection \<Rightarrow> bool" where
  "holder_is_dead dead_run_ids l =
     (case lease_holder_run_id l of Some run_id \<Rightarrow> run_id \<in> set dead_run_ids | None \<Rightarrow> False)"

definition reclaim_stale_workspace_leases ::
  "serde \<Rightarrow> controller \<Rightarrow> (string \<Rightarrow> int) \<Rightarrow> string list \<Rightarrow> string \<Rightarrow> string list op" where
  "reclaim_stale_workspace_leases sj ctl clock dead_run_ids reason s =
     op_map (reclaim_lease sj ctl clock reason)
       (filter (\<lambda>l. is_held l \<and> holder_is_dead dead_run_ids l)
         (workspace_leases (ctl_project_id ctl) s)) s"

section \<open>The key is a normal form\<close>

text \<open>An optional root, then parents, then names.\<close>

definition normal_path :: "path_component list \<Rightarrow> bool" where
  "normal_path cs \<longleftrightarrow>
     (\<exists>root ups names. cs = root @ ups @ names \<and> root \<in> {[], [RootDir]}
        \<and> list_all (\<lambda>c. c = ParentDir) ups \<and> list_all (\<lambda>c. is_normal c \<and> component_ok c) names)"

lemma normal_step:
  assumes "normal_path acc" "component_ok c"
  shows "normal_path (normalize_step acc c)"
proof -
  from assms(1) obtain root ups names where acc: "acc = root @ ups @ names" "root \<in> {[], [RootDir]}"
      "list_all (\<lambda>c. c = ParentDir) ups" "list_all (\<lambda>c. is_normal c \<and> component_ok c) names"
    unfolding normal_path_def by blast
  show ?thesis
  proof (cases c)
    case (Normal name)
    with acc assms(2) show ?thesis
      unfolding normal_path_def
      by (intro exI [of _ root] exI [of _ ups] exI [of _ "names @ [c]"]) simp
  next
    case ParentDir
    show ?thesis
    proof (cases "names = []")
      case True
      then have "normalize_step acc c = root @ (ups @ [ParentDir]) @ []"
        using acc ParentDir by (cases ups rule: rev_cases) auto
      with acc show ?thesis
        unfolding normal_path_def
        by (intro exI [of _ root] exI [of _ "ups @ [ParentDir]"] exI [of _ "[]"]) simp
    next
      case False
      then have "is_normal (last names)" using acc(4) by (simp add: list_all_iff)
      with False acc ParentDir have "normalize_step acc c = root @ ups @ butlast names"
        by (simp add: butlast_append)
      moreover have "list_all (\<lambda>c. is_normal c \<and> component_ok c) (butlast names)"
        using acc(4) by (auto simp: list_all_iff dest: in_set_butlastD)
      ultimately show ?thesis using acc unfolding normal_path_def by blast
    qed
  qed (use assms(2) in simp_all)
qed

lemma normal_fold: "normal_path acc \<Longrightarrow> list_all component_ok cs \<Longrightarrow> normal_path (foldl normalize_step acc cs)"
  by (induction cs arbitrary: acc) (simp_all add: normal_step)

lemma normal_path_roots: "normal_path []" "normal_path [RootDir]"
  unfolding normal_path_def by (rule exI [of _ "[]"], simp) (rule exI [of _ "[RootDir]"], simp)

lemma normalize_normal:
  obtains (dot) "normalize_workspace_root w = [CurDir]"
  | (normal) "normal_path (normalize_workspace_root w)" "normalize_workspace_root w \<noteq> []"
proof -
  obtain pre rest where shape: "path_components w = pre @ rest" "pre \<in> {[], [RootDir], [CurDir]}"
      "list_all component_ok rest"
    using components_shape by blast
  then have "normal_path (foldl normalize_step [] (path_components w))"
    using normal_fold [of "[]"] normal_fold [of "[RootDir]"] normal_path_roots by auto
  with that show thesis by (cases "foldl normalize_step [] (path_components w) = []")
      (simp_all add: normalize_workspace_root_def Let_def)
qed

lemma fold_normal:
  assumes "normal_path cs"
  shows "foldl normalize_step [] cs = cs"
proof -
  have ups: "foldl normalize_step acc ups = acc @ ups"
    if "list_all (\<lambda>c. c = ParentDir) ups" "acc = [] \<or> \<not> is_normal (last acc)" for acc ups
    using that by (induction ups arbitrary: acc) auto
  have names: "foldl normalize_step acc names = acc @ names" if "list_all is_normal names" for acc names
    using that
  proof (induction names arbitrary: acc)
    case (Cons c names)
    then show ?case by (cases c) auto
  qed simp
  from assms obtain root us ns where cs: "cs = root @ us @ ns" "root \<in> {[], [RootDir]}"
      "list_all (\<lambda>c. c = ParentDir) us" and ns: "list_all (\<lambda>c. is_normal c \<and> component_ok c) ns"
    unfolding normal_path_def by blast
  from ns have ns: "list_all is_normal ns" by (simp add: list_all_iff)
  from cs have "foldl normalize_step [] root = root" "root = [] \<or> \<not> is_normal (last root)" by auto
  with cs ns ups names show ?thesis by simp
qed

lemma path_text_segments:
  assumes "list_all component_ok cs"
  shows "list_all (\<lambda>seg. CHR ''/'' \<notin> set seg \<and> seg \<noteq> [] \<and> seg \<noteq> ''.'') (map component_text cs)"
    and "concat (map segment_component (map component_text cs)) = cs"
proof -
  have each: "CHR ''/'' \<notin> set (component_text c) \<and> component_text c \<noteq> [] \<and> component_text c \<noteq> ''.''
      \<and> segment_component (component_text c) = [c]" if "component_ok c" for c
    using that by (cases c) (auto simp: plain_segment_def segment_component_def)
  with assms show "list_all (\<lambda>seg. CHR ''/'' \<notin> set seg \<and> seg \<noteq> [] \<and> seg \<noteq> ''.'') (map component_text cs)"
    by (auto simp: list_all_iff)
  from assms each show "concat (map segment_component (map component_text cs)) = cs"
    by (induction cs) auto
qed

lemma hd_join: "segs \<noteq> [] \<Longrightarrow> hd segs \<noteq> [] \<Longrightarrow> join_with sep segs \<noteq> [] \<and> hd (join_with sep segs) = hd (hd segs)"
  by (cases "(sep, segs)" rule: join_with.cases) auto

text \<open>Reading the text of a normal path gives the path back.\<close>

lemma components_of_text:
  assumes "list_all component_ok cs" "cs \<noteq> []"
  shows "path_components (path_text cs) = cs" "path_components (path_text (RootDir # cs)) = RootDir # cs"
proof -
  let ?segs = "map component_text cs"
  note segs = path_text_segments [OF assms(1)]
  have ne: "?segs \<noteq> []" "cs \<noteq> [RootDir]" "RootDir # cs \<noteq> [RootDir]" using assms by auto
  have split: "split_slash (join_with ''/'' ?segs) = ?segs"
    using segs(1) ne(1) by (intro split_join) (auto simp: list_all_iff)
  have first: "hd ?segs \<noteq> []" "hd (hd ?segs) \<noteq> CHR ''/''" "hd ?segs \<noteq> ''.''"
    using segs(1) ne(1) by (cases cs; auto simp: list_all_iff dest: hd_in_set)+
  show "path_components (path_text cs) = cs"
    using ne first segs(2) hd_join [OF ne(1) first(1), of "''/''"] split
    by (simp add: path_components_def path_text_def Let_def)
  have "join_with ''/'' (map component_text (RootDir # cs)) = CHR ''/'' # join_with ''/'' ?segs"
    using ne(1) by (cases cs) simp_all
  with ne segs(2) split show "path_components (path_text (RootDir # cs)) = RootDir # cs"
    by (simp add: path_components_def path_text_def Let_def segment_component_def)
qed

lemma text_roundtrip: "path_components (path_text (normalize_workspace_root w)) = normalize_workspace_root w"
proof (cases rule: normalize_normal [of w])
  case dot
  then show ?thesis by (simp add: path_text_def path_components_def segment_component_def)
next
  case normal
  then obtain root us ns where parts: "normalize_workspace_root w = root @ us @ ns" "root \<in> {[], [RootDir]}"
      "list_all (\<lambda>c. c = ParentDir) us" "list_all (\<lambda>c. is_normal c \<and> component_ok c) ns"
    unfolding normal_path_def by blast
  define cs where "cs = us @ ns"
  with parts have cs: "normalize_workspace_root w = root @ cs" "root \<in> {[], [RootDir]}" "list_all component_ok cs"
    by (auto simp: list_all_iff)
  show ?thesis
  proof (cases "cs = []")
    case True
    with cs normal have "normalize_workspace_root w = [RootDir]" by auto
    then show ?thesis by (simp add: path_text_def path_components_def segment_component_def)
  next
    case False
    from cs(2) components_of_text [OF cs(3) False] show ?thesis by (auto simp: cs(1))
  qed
qed

lemma normalize_idempotent:
  "normalize_workspace_root (path_text (normalize_workspace_root w)) = normalize_workspace_root w"
proof (cases rule: normalize_normal [of w])
  case dot
  then show ?thesis by (simp add: path_text_def normalize_workspace_root_def path_components_def segment_component_def)
next
  case normal
  then show ?thesis
    using fold_normal text_roundtrip by (metis normalize_workspace_root_def)
qed

lemma byte_hex_inj: "byte_hex c = byte_hex d \<Longrightarrow> c = d"
proof -
  have code: "of_char (hex_char i) = (if i < 10 then 48 + i else 87 + i)" if "i < 16" for i :: nat
    using that by (simp add: hex_char_def of_char_of)
  have digit: "i = j" if "hex_char i = hex_char j" "i < 16" "j < 16" for i j :: nat
  proof -
    have "(if i < 10 then 48 + i else 87 + i) = (if j < 10 then 48 + j else 87 + j)"
      by (simp only: code [OF that(2), symmetric] code [OF that(3), symmetric] that(1))
    then show ?thesis by (simp split: if_splits)
  qed
  assume "byte_hex c = byte_hex d"
  then have eq: "hex_char (of_char c div 16) = hex_char (of_char d div 16)"
    "hex_char (of_char c mod 16) = hex_char (of_char d mod 16)" by (simp_all add: byte_hex_def)
  have "(of_char x :: nat) div 16 < 16" for x :: char
    using nat_of_char_less_256 [of x] by linarith
  then have "of_char c div 16 = (of_char d div 16 :: nat)" "of_char c mod 16 = (of_char d mod 16 :: nat)"
    using digit [OF eq(1)] digit [OF eq(2)] by simp_all
  then have "of_char c = (of_char d :: nat)" by (metis div_mult_mod_eq)
  then show "c = d" by simp
qed

lemma hex_text_inj: "concat (map byte_hex u) = concat (map byte_hex v) \<Longrightarrow> u = v"
proof (induction u arbitrary: v)
  case Nil
  then show ?case by (cases v) (auto simp: byte_hex_def)
next
  case (Cons c u)
  then obtain d v' where v: "v = d # v'" by (cases v) (auto simp: byte_hex_def)
  with Cons.prems have "byte_hex c @ concat (map byte_hex u) = byte_hex d @ concat (map byte_hex v')" by simp
  then have "byte_hex c = byte_hex d" "concat (map byte_hex u) = concat (map byte_hex v')"
    by (auto simp: byte_hex_def)
  with Cons.IH v byte_hex_inj show ?case by blast
qed

lemma lease_key_iff:
  "lease_key_segment a = lease_key_segment b \<longleftrightarrow> normalize_workspace_root a = normalize_workspace_root b"
proof
  assume "lease_key_segment a = lease_key_segment b"
  then have "path_text (normalize_workspace_root a) = path_text (normalize_workspace_root b)"
    by (simp add: lease_key_segment_def hex_text_inj)
  then show "normalize_workspace_root a = normalize_workspace_root b"
    using text_roundtrip by metis
qed (simp add: lease_key_segment_def)

section \<open>Holding the lease\<close>

definition holds :: "string \<Rightarrow> string \<Rightarrow> string \<Rightarrow> store \<Rightarrow> bool" where
  "holds session_id run_id key s =
     (case workspace_lease_by_id key s of
        Some l \<Rightarrow> is_held l \<and> lease_holder_session_id l = session_id \<and> lease_holder_run_id l = Some run_id
      | None \<Rightarrow> False)"

lemma lease_lookup:
  "workspace_lease_by_id i s = Some l \<longleftrightarrow>
     lookup (st_tables s) ''workspace_leases'' [i] = Some (WorkspaceLease l)"
  by (auto simp: workspace_lease_by_id_def split: option.splits projection_record.splits)

lemma lease_append_other:
  assumes "list_all (\<lambda>r. \<not> row_ok ''workspace_leases'' [i] r) rs"
  shows "workspace_lease_by_id i (snd (append_event sj e rs s)) = workspace_lease_by_id i s"
  using lookup_append_other [OF assms] by (simp add: workspace_lease_by_id_def)

lemma lease_append_row:
  assumes "append_event sj e [WorkspaceLease l] s = (Inr n, s')" "find_idempotent e s = None"
  shows "workspace_lease_by_id (lease_workspace_lease_id l) s' = Some (l\<lparr>lease_updated_sequence := n\<rparr>)"
  using append_fresh_row [OF assms] by (simp add: workspace_lease_by_id_def)

lemma lease_event_keys [simp]:
  "nev_event_id (lease_event ctl scope k i x p) = i"
  "nev_project_id (lease_event ctl scope k i x p) = Some (ctl_project_id ctl)"
  "nev_idempotency_key (lease_event ctl scope k i x p) = Some i"
  by (simp_all add: lease_event_def)

text \<open>While the lease is held, acquiring it changes nothing, whoever asks.\<close>

lemma acquire_held:
  assumes "holds session_id run_id key s" "lease_id (ctl_project_id ctl) scope = key"
  shows "\<exists>outcome. acquire_workspace_write_lease sj ctl clock scope s = (Inr outcome, s)
    \<and> (if wls_session_id scope = session_id then outcome = AlreadyHeldBySelf key
       else \<exists>c. outcome = Conflict c \<and> wlc_held_by_session_id c = session_id)"
  using assms
  by (auto simp: holds_def acquire_defs op_return_def workspace_conflict_def Let_def
      split: option.splits)

lemma gate_held:
  assumes "holds session_id run_id key s" "lease_id (ctl_project_id ctl) scope = key"
  shows "\<exists>gate. gate_workspace_write sj ctl clock scope True s = (Inr gate, s)
    \<and> (gate_allowed gate \<longleftrightarrow> wls_session_id scope = session_id)
    \<and> (\<forall>c. gate = WriteDenied c \<longrightarrow> wlc_held_by_session_id c = session_id)"
  using acquire_held [OF assms, of sj clock]
  by (auto simp: gate_workspace_write_def op_bind_def op_return_def split: if_splits)

text \<open>
  What the other parties may do while a session holds the lease: acquire or gate as anyone, release
  as anyone but the holder (or another workspace), reclaim the leases of runs that do not include the
  holder's, and append anything that is no lease record.  Each is one step: the parties' operations
  follow one another, their reads and writes do not interleave.
\<close>

inductive lease_step :: "serde \<Rightarrow> controller \<Rightarrow> string \<Rightarrow> string \<Rightarrow> string \<Rightarrow> store \<Rightarrow> store \<Rightarrow> bool"
  for sj ctl session_id run_id key where
  lease_acquire: "lease_step sj ctl session_id run_id key s (snd (acquire_workspace_write_lease sj ctl clock scope s))"
| lease_gate: "lease_step sj ctl session_id run_id key s (snd (gate_workspace_write sj ctl clock scope w s))"
| lease_release:
    "wls_session_id scope \<noteq> session_id \<or> lease_id (ctl_project_id ctl) scope \<noteq> key \<Longrightarrow>
     lease_step sj ctl session_id run_id key s (snd (release_workspace_write_lease sj ctl clock scope reason s))"
| lease_reclaim:
    "run_id \<notin> set dead \<Longrightarrow>
     lease_step sj ctl session_id run_id key s (snd (reclaim_stale_workspace_leases sj ctl clocks dead reason s))"
| lease_other:
    "list_all (\<lambda>r. \<forall>i. \<not> row_ok ''workspace_leases'' [i] r) rs \<Longrightarrow>
     lease_step sj ctl session_id run_id key s (snd (append_event sj e rs s))"

inductive lease_steps :: "serde \<Rightarrow> controller \<Rightarrow> string \<Rightarrow> string \<Rightarrow> string \<Rightarrow> store \<Rightarrow> store \<Rightarrow> bool"
  for sj ctl session_id run_id key where
  lease_done: "lease_steps sj ctl session_id run_id key s s"
| lease_more: "lease_steps sj ctl session_id run_id key s t \<Longrightarrow> lease_step sj ctl session_id run_id key t u
    \<Longrightarrow> lease_steps sj ctl session_id run_id key s u"

lemma holds_other_row:
  assumes "holds a r key s" "lease_workspace_lease_id l \<noteq> key"
  shows "holds a r key (snd (append_event sj e [WorkspaceLease l] s))"
  using assms lease_append_other [of key "[WorkspaceLease l]" sj e s] by (simp add: holds_def row_ok_def)

lemma lease_row_key:
  assumes "typed_tables (st_tables s)" "workspace_lease_by_id i s = Some l"
  shows "lease_workspace_lease_id l = i"
proof -
  from assms(2) have "lookup (st_tables s) ''workspace_leases'' [i] = Some (WorkspaceLease l)"
    by (simp add: lease_lookup)
  from typed_lookup [OF assms(1) this] show ?thesis by (simp add: row_ok_def)
qed

lemma acquire_keeps:
  assumes "holds a r key s"
  shows "holds a r key (snd (acquire_workspace_write_lease sj ctl clock scope s))"
proof (cases "lease_id (ctl_project_id ctl) scope = key")
  case True
  with acquire_held [OF assms] assms show ?thesis by (metis snd_conv)
next
  case False
  then show ?thesis
    using assms holds_other_row [OF assms, of "acquired_lease_row ctl clock scope"]
    by (simp add: acquire_defs Let_def op_return_def acquired_lease_row_def split: option.splits)
qed

lemma gate_snd:
  "snd (gate_workspace_write sj ctl clock scope w s) =
     (if w then snd (acquire_workspace_write_lease sj ctl clock scope s) else s)"
  by (auto simp: gate_workspace_write_def op_bind_def op_return_def
      split: prod.splits sum.splits workspace_write_lease_outcome.splits)

lemma release_keeps:
  assumes "holds a r key s" "store_wf s" "wls_session_id scope \<noteq> a \<or> lease_id (ctl_project_id ctl) scope \<noteq> key"
  shows "holds a r key (snd (release_workspace_write_lease sj ctl clock scope reason s))"
proof (cases "lease_id (ctl_project_id ctl) scope = key")
  case True
  with assms show ?thesis
    by (auto simp: release_workspace_write_lease_def Let_def op_return_def holds_def split: option.splits)
next
  case False
  have "holds a r key (snd (append_event sj e [WorkspaceLease (released_lease_row clock reason l)] s))"
    if "workspace_lease_by_id (lease_id (ctl_project_id ctl) scope) s = Some l" for e l
    using holds_other_row [OF assms(1)] lease_row_key [OF store_wf_typed [OF assms(2)] that] False
    by (simp add: released_lease_row_def)
  with assms(1) show ?thesis
    by (simp add: release_workspace_write_lease_def Let_def op_return_def split: option.splits)
qed

lemma leases_by_id:
  assumes "typed_tables (st_tables s)" "l \<in> set (workspace_leases p s)"
  shows "workspace_lease_by_id (lease_workspace_lease_id l) s = Some l"
  using q_leases.select_lookup [OF assms(1), of l _ "\<lambda>l. lease_project_id l = p"] assms(2)
  by (simp add: workspace_leases_def lease_lookup)

lemma reclaim_keeps:
  assumes "holds a r key s" "store_wf s" "r \<notin> set dead"
  shows "holds a r key (snd (reclaim_stale_workspace_leases sj ctl clocks dead reason s))"
  unfolding reclaim_stale_workspace_leases_def
proof (rule op_map_keeps [where I = "holds a r key"])
  fix l t
  assume l: "l \<in> set (filter (\<lambda>l. is_held l \<and> holder_is_dead dead l) (workspace_leases (ctl_project_id ctl) s))"
    and t: "holds a r key t"
  then have row: "workspace_lease_by_id (lease_workspace_lease_id l) s = Some l"
    by (intro leases_by_id [OF store_wf_typed [OF assms(2)]]) auto
  have "lease_workspace_lease_id l \<noteq> key"
    using l row assms(1,3) by (auto simp: holds_def holder_is_dead_def)
  with t show "holds a r key (snd (reclaim_lease sj ctl clocks reason l t))"
    by (simp add: reclaim_lease_def Let_def holds_other_row released_lease_row_def)
qed (fact assms(1))

lemma lease_step_wf: "lease_step sj ctl a r key s t \<Longrightarrow> store_wf s \<Longrightarrow> store_wf t"
proof (induction rule: lease_step.induct)
  case (lease_reclaim dead s clocks reason)
  then show ?case
    unfolding reclaim_stale_workspace_leases_def
    by (intro op_map_keeps [where I = store_wf]) (simp_all add: reclaim_lease_def Let_def store_wf_append)
qed (auto simp: gate_snd acquire_defs release_workspace_write_lease_def Let_def op_return_def
  store_wf_append split: option.splits)

lemma lease_step_holds:
  assumes "lease_step sj ctl a r key s t" "store_wf s" "holds a r key s"
  shows "holds a r key t"
  using assms
proof (induction rule: lease_step.induct)
  case (lease_other rs s e)
  then show ?case
    using lease_append_other [of key rs sj e s] by (simp add: holds_def list_all_iff)
qed (simp_all add: acquire_keeps gate_snd release_keeps reclaim_keeps)

lemma lease_steps_holds:
  "lease_steps sj ctl a r key s t \<Longrightarrow> store_wf s \<Longrightarrow> holds a r key s \<Longrightarrow> store_wf t \<and> holds a r key t"
  by (induction rule: lease_steps.induct) (auto intro: lease_step_wf lease_step_holds)

section \<open>Taking and giving back\<close>

lemma acquire_after_free_read:
  assumes "case row of Some l \<Rightarrow> \<not> is_held l | None \<Rightarrow> True"
    and "fresh_event (ctl_project_id ctl) (acquired_event_id ctl clock scope) s" "st_sequence s + 1 < 2 ^ 63"
  shows "\<exists>s'. acquire_after_read sj ctl clock scope row s = (Inr (Acquired (lease_id (ctl_project_id ctl) scope)), s')
    \<and> holds (wls_session_id scope) (wls_run_id scope) (lease_id (ctl_project_id ctl) scope) s'
    \<and> st_sequence s' = st_sequence s + 1"
proof -
  let ?key = "lease_id (ctl_project_id ctl) scope"
  let ?row = "WorkspaceLease (acquired_lease_row ctl clock scope)"
  have app: "\<exists>s'. append_event sj (lease_event ctl scope k (acquired_event_id ctl clock scope) x p) [?row] s
      = (Inr (st_sequence s + 1), s') \<and> holds (wls_session_id scope) (wls_run_id scope) ?key s'
      \<and> st_sequence s' = st_sequence s + 1" for k x p
  proof -
    let ?e = "lease_event ctl scope k (acquired_event_id ctl clock scope) x p"
    have adm: "append_admissible sj ?e [?row] s"
      using assms(3) by (intro fresh_append_admissible [OF assms(2)]) (simp_all add: json_columns_ok_def)
    then have "find_idempotent ?e s = None" by (simp add: append_admissible_def)
    from lease_append_row [OF append_event_commits [OF adm] this] append_event_commits [OF adm]
    show ?thesis
      by (simp add: holds_def acquired_lease_row_def is_held_def committed_store_def Let_def)
  qed
  from assms(1) have "acquire_after_read sj ctl clock scope row s = op_bind (append_event sj (lease_event ctl scope
      (WorkspaceEvent WorkspaceLeaseAcquired) (acquired_event_id ctl clock scope) ?key (to_text sj (json_object
        [(''workspace_lease_id'', JString ?key), (''workspace_root'', JString (wls_workspace_root scope)),
         (''holder_session_id'', JString (wls_session_id scope)), (''holder_run_id'', JString (wls_run_id scope)),
         (''acquired_at'', JString (int_to_string clock))]))) [?row]) (\<lambda>_. op_return (Acquired ?key)) s"
    by (cases row) (simp_all add: acquire_after_read_def Let_def)
  moreover obtain s' where "append_event sj (lease_event ctl scope (WorkspaceEvent WorkspaceLeaseAcquired)
      (acquired_event_id ctl clock scope) ?key (to_text sj (json_object
        [(''workspace_lease_id'', JString ?key), (''workspace_root'', JString (wls_workspace_root scope)),
         (''holder_session_id'', JString (wls_session_id scope)), (''holder_run_id'', JString (wls_run_id scope)),
         (''acquired_at'', JString (int_to_string clock))]))) [?row] s = (Inr (st_sequence s + 1), s')"
      "holds (wls_session_id scope) (wls_run_id scope) ?key s'" "st_sequence s' = st_sequence s + 1"
    using app by blast
  ultimately show ?thesis by (simp add: op_bind_def op_return_def)
qed

lemma free_row:
  "workspace_lease_holder ctl scope s = None \<Longrightarrow>
     case workspace_lease_by_id (lease_id (ctl_project_id ctl) scope) s of Some l \<Rightarrow> \<not> is_held l | None \<Rightarrow> True"
  by (auto simp: workspace_lease_holder_def split: option.splits if_splits)

lemma acquire_free:
  assumes "workspace_lease_holder ctl scope s = None"
    and "fresh_event (ctl_project_id ctl) (acquired_event_id ctl clock scope) s" "st_sequence s + 1 < 2 ^ 63"
  shows "\<exists>s'. acquire_workspace_write_lease sj ctl clock scope s
      = (Inr (Acquired (lease_id (ctl_project_id ctl) scope)), s')
    \<and> holds (wls_session_id scope) (wls_run_id scope) (lease_id (ctl_project_id ctl) scope) s'"
  using acquire_after_free_read [OF free_row [OF assms(1)] assms(2,3), of sj]
  by (auto simp: acquire_workspace_write_lease_def)

text \<open>
  Without serialization the lock does not exclude: two sessions read the free lease, then both write.
  Each is told that it acquired the lease; the row names the second.
\<close>

lemma fresh_after_other:
  assumes "fresh_event p i s" "i \<noteq> acquired_event_id ctl clock scope"
  shows "fresh_event p i (snd (acquire_after_read sj ctl clock scope row s))"
  using assms
  by (auto simp: acquire_after_read_def Let_def op_return_def fresh_append_other split: option.splits)

lemma stale_read_acquires_twice:
  assumes "workspace_lease_holder ctl scope s = None" "wls_workspace_root scope2 = wls_workspace_root scope"
    and "fresh_event (ctl_project_id ctl) (acquired_event_id ctl clock scope) s"
    and "fresh_event (ctl_project_id ctl) (acquired_event_id ctl clock2 scope2) s"
    and "acquired_event_id ctl clock2 scope2 \<noteq> acquired_event_id ctl clock scope" "st_sequence s + 2 < 2 ^ 63"
  defines "key \<equiv> lease_id (ctl_project_id ctl) scope"
  shows "\<exists>s1 s2. acquire_after_read sj ctl clock scope (workspace_lease_by_id key s) s = (Inr (Acquired key), s1)
    \<and> holds (wls_session_id scope) (wls_run_id scope) key s1
    \<and> acquire_after_read sj ctl clock2 scope2 (workspace_lease_by_id key s) s1 = (Inr (Acquired key), s2)
    \<and> holds (wls_session_id scope2) (wls_run_id scope2) key s2"
proof -
  have key2: "lease_id (ctl_project_id ctl) scope2 = key" using assms(2) by (simp add: key_def lease_id_def)
  have free: "case workspace_lease_by_id key s of Some l \<Rightarrow> \<not> is_held l | None \<Rightarrow> True"
    using free_row [OF assms(1)] by (simp add: key_def)
  have "st_sequence s + 1 < 2 ^ 63" using assms(6) by simp
  from acquire_after_free_read [OF free assms(3) this, of sj, folded key_def]
  obtain s1 where s1: "acquire_after_read sj ctl clock scope (workspace_lease_by_id key s) s = (Inr (Acquired key), s1)"
    "holds (wls_session_id scope) (wls_run_id scope) key s1" "st_sequence s1 = st_sequence s + 1" by blast
  have "fresh_event (ctl_project_id ctl) (acquired_event_id ctl clock2 scope2) s1"
    using fresh_after_other [OF assms(4,5), of sj "workspace_lease_by_id key s"] s1(1) by simp
  moreover have "st_sequence s1 + 1 < 2 ^ 63" using s1(3) assms(6) by simp
  ultimately obtain s2 where "acquire_after_read sj ctl clock2 scope2 (workspace_lease_by_id key s) s1 = (Inr (Acquired key), s2)"
    "holds (wls_session_id scope2) (wls_run_id scope2) key s2"
    using acquire_after_free_read [OF free, of ctl clock2 scope2 s1 sj] by (auto simp: key2)
  with s1 show ?thesis by blast
qed

lemma release_frees:
  assumes "holds (wls_session_id scope) r (lease_id (ctl_project_id ctl) scope) s" "store_wf s"
    and "fresh_event (ctl_project_id ctl) (released_event_id clock (lease_id (ctl_project_id ctl) scope)) s"
    and "st_sequence s + 1 < 2 ^ 63"
  shows "\<exists>s'. release_workspace_write_lease sj ctl clock scope reason s
      = (Inr (Acquired (lease_id (ctl_project_id ctl) scope)), s') \<and> workspace_lease_holder ctl scope s' = None"
proof -
  let ?key = "lease_id (ctl_project_id ctl) scope"
  from assms(1) obtain l where l: "workspace_lease_by_id ?key s = Some l" "is_held l"
      "lease_holder_session_id l = wls_session_id scope"
    by (auto simp: holds_def split: option.splits)
  let ?row = "WorkspaceLease (released_lease_row clock reason l)"
  have key: "lease_workspace_lease_id (released_lease_row clock reason l) = ?key"
    using lease_row_key [OF store_wf_typed [OF assms(2)] l(1)] by (simp add: released_lease_row_def)
  have app: "\<exists>s'. append_event sj (lease_event ctl scope k (released_event_id clock ?key) x p) [?row] s
      = (Inr (st_sequence s + 1), s') \<and> workspace_lease_holder ctl scope s' = None" for k x p
  proof -
    let ?e = "lease_event ctl scope k (released_event_id clock ?key) x p"
    have adm: "append_admissible sj ?e [?row] s"
      using assms(4) by (intro fresh_append_admissible [OF assms(3)]) (simp_all add: json_columns_ok_def)
    then have "find_idempotent ?e s = None" by (simp add: append_admissible_def)
    from lease_append_row [OF append_event_commits [OF adm] this] append_event_commits [OF adm]
    show ?thesis
      by (simp add: key workspace_lease_holder_def is_held_def)
        (simp add: released_lease_row_def LEASE_HELD_def LEASE_RELEASED_def)
  qed
  show ?thesis
    using l app [of "WorkspaceEvent WorkspaceLeaseReleased" ?key]
    by (auto simp: release_workspace_write_lease_def Let_def op_bind_def op_return_def
        split: prod.splits sum.splits) (metis Inr_inject Inl_Inr_False Pair_inject)+
qed

end
