(* ===== verification/Lock_Properties.thy ===== *)
theory Lock_Properties
  imports Workspace_Lock Json_Text
begin

text \<open>
  The properties of the workspace lock and of reading the event log, with their instances.
\<close>

section \<open>Sample data\<close>

definition lock_ctl :: controller where
  "lock_ctl = \<lparr>ctl_project_id = ''p1'', ctl_permission_policy = FakePolicy\<rparr>"

definition lock_scope :: "string \<Rightarrow> string \<Rightarrow> string \<Rightarrow> workspace_lease_scope" where
  "lock_scope session run root =
     \<lparr>wls_task_id = ''t1'', wls_agent_id = ''a1'', wls_session_id = session, wls_run_id = run,
      wls_turn_id = ''u1'', wls_workspace_root = root\<rparr>"

abbreviation key0 :: string where "key0 \<equiv> lease_id ''p1'' (lock_scope ''s1'' ''r1'' ''/w/capo'')"

definition locked0 :: store where
  "locked0 = snd (acquire_workspace_write_lease rfc8259 lock_ctl 5 (lock_scope ''s1'' ''r1'' ''/w/capo'') store_open)"

lemma lock_sample [simp]:
  "ctl_project_id lock_ctl = ''p1''" "wls_session_id (lock_scope a b c) = a" "wls_run_id (lock_scope a b c) = b"
  "wls_workspace_root (lock_scope a b c) = c"
  by (simp_all add: lock_ctl_def lock_scope_def)

lemma locked0_holds:
  "acquire_workspace_write_lease rfc8259 lock_ctl 5 (lock_scope ''s1'' ''r1'' ''/w/capo'') store_open
     = (Inr (Acquired key0), locked0)"
  "holds ''s1'' ''r1'' key0 locked0" "store_wf locked0"
proof -
  have "workspace_lease_holder lock_ctl (lock_scope ''s1'' ''r1'' ''/w/capo'') store_open = None"
    by (simp add: workspace_lease_holder_def workspace_lease_by_id_def lookup_def store_open_def)
  moreover have "st_sequence store_open + 1 < 2 ^ 63" by (simp add: store_open_def)
  ultimately obtain s' where
    "acquire_workspace_write_lease rfc8259 lock_ctl 5 (lock_scope ''s1'' ''r1'' ''/w/capo'') store_open
       = (Inr (Acquired key0), s')" "holds ''s1'' ''r1'' key0 s'"
    using acquire_free [OF _ fresh_open, of lock_ctl "lock_scope ''s1'' ''r1'' ''/w/capo''" rfc8259 5] by auto
  then show "acquire_workspace_write_lease rfc8259 lock_ctl 5 (lock_scope ''s1'' ''r1'' ''/w/capo'') store_open
     = (Inr (Acquired key0), locked0)" "holds ''s1'' ''r1'' key0 locked0"
    by (simp_all add: locked0_def)
  show "store_wf locked0"
    unfolding locked0_def using lease_step_wf [OF lease_acquire store_open_wf] .
qed

section \<open>Acquiring a free lease\<close>

lemma release_keeps_known:
  "find_idempotent e s = Some n \<Longrightarrow>
     find_idempotent e (snd (release_workspace_write_lease sj ctl clock scope reason s)) = Some n"
  by (simp add: release_workspace_write_lease_def Let_def op_return_def find_idempotent_stays split: option.splits)

lemma acquire_when_free:
  "\<exists>e rs. nev_project_id e = Some (ctl_project_id ctl) \<and> nev_idempotency_key e = Some (acquired_event_id ctl clock scope)
     \<and> (\<forall>t. workspace_lease_holder ctl scope t = None \<longrightarrow> acquire_workspace_write_lease sj ctl clock scope t
          = op_bind (append_event sj e rs) (\<lambda>_. op_return (Acquired (lease_id (ctl_project_id ctl) scope))) t)"
proof -
  let ?key = "lease_id (ctl_project_id ctl) scope"
  let ?e = "lease_event ctl scope (WorkspaceEvent WorkspaceLeaseAcquired) (acquired_event_id ctl clock scope) ?key
    (to_text sj (json_object
       [(''workspace_lease_id'', JString ?key), (''workspace_root'', JString (wls_workspace_root scope)),
        (''holder_session_id'', JString (wls_session_id scope)), (''holder_run_id'', JString (wls_run_id scope)),
        (''acquired_at'', JString (int_to_string clock))]))"
  have "acquire_workspace_write_lease sj ctl clock scope t
      = op_bind (append_event sj ?e [WorkspaceLease (acquired_lease_row ctl clock scope)])
          (\<lambda>_. op_return (Acquired ?key)) t"
    if "workspace_lease_holder ctl scope t = None" for t
    using that
    by (cases "workspace_lease_by_id ?key t")
      (auto simp: acquire_defs workspace_lease_holder_def Let_def split: if_splits)
  then show ?thesis
    by (intro exI [of _ ?e] exI [of _ "[WorkspaceLease (acquired_lease_row ctl clock scope)]"]) simp
qed

section \<open>The lock\<close>

text \<open>
  C17. Single writer, for writers that run one at a time: once a session holds the lease of a workspace,
  and as long as neither it releases the lease nor its run is declared dead, every write of another
  session to that workspace is denied with a conflict that names the holder, every write of the holder is
  allowed, and neither changes the store; this is so after any sequence of acquisitions, releases,
  reclaims and other appends of the other parties, at any time and for every spelling of the workspace
  root.

  Assumed: each operation runs to its end before the next one starts.  The code reads the lease row and
  appends on separate connections, and says that this is safe only because the transport serializes the
  writers of the process; it is no mutual exclusion across processes.  Two acquisitions that both read
  before either writes both succeed (\<open>stale_read_acquires_twice\<close>).
\<close>

theorem single_writer:
  assumes "store_wf s" "holds session_id run_id key s"
    and "lease_steps sj ctl session_id run_id key s t"
    and "lease_id (ctl_project_id ctl) scope = key"
  shows "\<exists>gate. gate_workspace_write sj ctl clock scope True t = (Inr gate, t)
    \<and> (gate_allowed gate \<longleftrightarrow> wls_session_id scope = session_id)
    \<and> (\<forall>c. gate = WriteDenied c \<longrightarrow> wlc_held_by_session_id c = session_id)"
proof -
  from lease_steps_holds [OF assms(3,1,2)] have "holds session_id run_id key t" by simp
  from gate_held [OF this assms(4), of sj clock] show ?thesis .
qed

theorem single_writer_witness:
  "\<exists>gate. gate_workspace_write rfc8259 lock_ctl 9 (lock_scope ''s2'' ''r2'' ''/w/x/../capo/'') True locked0 = (Inr gate, locked0)
    \<and> \<not> gate_allowed gate"
proof -
  have "lease_id (ctl_project_id lock_ctl) (lock_scope ''s2'' ''r2'' ''/w/x/../capo/'') = key0"
    by (simp add: lease_id_def lease_key_iff) code_simp
  from single_writer [OF locked0_holds(3,2) lease_done this, of rfc8259 9] show ?thesis by auto
qed

text \<open>
  One workspace, one key: two spellings of a workspace root get the same lease key exactly if
  they are lexically the same path (after resolving dots, parents and repeated or trailing
  separators), and normalising a normalised root changes nothing.
\<close>

theorem lease_key_is_normal_form:
  "(lease_key_segment a = lease_key_segment b \<longleftrightarrow> normalize_workspace_root a = normalize_workspace_root b)
    \<and> normalize_workspace_root (path_text (normalize_workspace_root a)) = normalize_workspace_root a"
  using lease_key_iff normalize_idempotent by blast

text \<open>
  A released lease is free for the next writer: after the holder's release has been recorded,
  any session's acquisition under a fresh event id succeeds, and that session holds the lease.
\<close>

theorem release_then_acquire:
  assumes "store_wf s" "holds (wls_session_id scope) run_id (lease_id (ctl_project_id ctl) scope) s"
    and "fresh_event (ctl_project_id ctl) (released_event_id clock (lease_id (ctl_project_id ctl) scope)) s"
    and "st_sequence s + 2 < 2 ^ 63"
    and "wls_workspace_root scope2 = wls_workspace_root scope"
    and "release_workspace_write_lease sj ctl clock scope reason s = (Inr outcome, s')"
    and "fresh_event (ctl_project_id ctl) (acquired_event_id ctl clock2 scope2) s'"
  shows "\<exists>s''. acquire_workspace_write_lease sj ctl clock2 scope2 s'
      = (Inr (Acquired (lease_id (ctl_project_id ctl) scope)), s'')
    \<and> holds (wls_session_id scope2) (wls_run_id scope2) (lease_id (ctl_project_id ctl) scope) s''"
proof -
  have same: "lease_id (ctl_project_id ctl) scope2 = lease_id (ctl_project_id ctl) scope"
    using assms(5) by (simp add: lease_id_def)
  have room: "st_sequence s + 1 < 2 ^ 63" using assms(4) by simp
  have "workspace_lease_holder ctl scope s' = None"
    using release_frees [OF assms(2,1,3) room, of sj reason] assms(6) by auto
  then have free: "workspace_lease_holder ctl scope2 s' = None" by (simp add: workspace_lease_holder_def same)
  have "st_sequence (snd (release_workspace_write_lease sj ctl clock scope reason s)) \<le> st_sequence s + 1"
    by (simp add: release_workspace_write_lease_def Let_def op_return_def append_sequence_le split: option.splits)
  with assms(4,6) have "st_sequence s' + 1 < 2 ^ 63" by simp
  from acquire_free [OF free assms(7) this, of sj] show ?thesis by (simp add: same)
qed

lemma acquire_keeps_fresh:
  assumes "fresh_event p i s" "i \<noteq> acquired_event_id ctl clock scope"
  shows "fresh_event p i (snd (acquire_workspace_write_lease sj ctl clock scope s))"
  using assms
  by (auto simp: acquire_defs Let_def op_return_def fresh_append_other split: option.splits)

lemma release_keeps_fresh:
  assumes "fresh_event p i s" "i \<noteq> released_event_id clock (lease_id (ctl_project_id ctl) scope)"
  shows "fresh_event p i (snd (release_workspace_write_lease sj ctl clock scope reason s))"
  using assms
  by (auto simp: release_workspace_write_lease_def Let_def op_return_def fresh_append_other split: option.splits)

lemma locked0_fresh: "i \<noteq> acquired_event_id lock_ctl 5 (lock_scope ''s1'' ''r1'' ''/w/capo'') \<Longrightarrow> fresh_event p i locked0"
  unfolding locked0_def by (rule acquire_keeps_fresh [OF fresh_open])

definition freed0 :: store where
  "freed0 = snd (release_workspace_write_lease rfc8259 lock_ctl 6 (lock_scope ''s1'' ''r1'' ''/w/capo'') ''done'' locked0)"

lemma locked0_sequence: "st_sequence locked0 \<le> 1"
proof -
  have "st_sequence (snd (append_event sj e rs store_open)) \<le> 1" for sj e rs
    by (rule append_event_outcome [of e store_open sj rs]) (simp_all add: store_open_def)
  then show ?thesis
    by (simp add: locked0_def acquire_defs Let_def op_return_def store_open_def
        split: option.splits)
qed

lemma freed0_released:
  "release_workspace_write_lease rfc8259 lock_ctl 6 (lock_scope ''s1'' ''r1'' ''/w/capo'') ''done'' locked0
     = (Inr (Acquired key0), freed0)"
  "fresh_event (ctl_project_id lock_ctl) (released_event_id 6 (lease_id (ctl_project_id lock_ctl)
     (lock_scope ''s1'' ''r1'' ''/w/capo''))) locked0"
proof -
  show fresh: "fresh_event (ctl_project_id lock_ctl) (released_event_id 6 (lease_id (ctl_project_id lock_ctl)
     (lock_scope ''s1'' ''r1'' ''/w/capo''))) locked0"
    by (rule locked0_fresh) (simp add: released_event_id_def acquired_event_id_def)
  have "st_sequence locked0 + 1 < 2 ^ 63" using locked0_sequence by simp
  from release_frees [OF _ locked0_holds(3) fresh this, of "''r1''" rfc8259 "''done''"] locked0_holds(2)
  show "release_workspace_write_lease rfc8259 lock_ctl 6 (lock_scope ''s1'' ''r1'' ''/w/capo'') ''done'' locked0
     = (Inr (Acquired key0), freed0)"
    by (auto simp: freed0_def)
qed

theorem release_then_acquire_witness:
  "\<exists>s''. acquire_workspace_write_lease rfc8259 lock_ctl 7 (lock_scope ''s2'' ''r2'' ''/w/capo'') freed0
      = (Inr (Acquired key0), s'') \<and> holds ''s2'' ''r2'' key0 s''"
proof -
  let ?mine = "lock_scope ''s1'' ''r1'' ''/w/capo''" and ?theirs = "lock_scope ''s2'' ''r2'' ''/w/capo''"
  have "acquired_event_id lock_ctl 7 ?theirs \<noteq> acquired_event_id lock_ctl 5 ?mine"
    by (simp add: acquired_event_id_def lease_id_def)
  then have "fresh_event (ctl_project_id lock_ctl) (acquired_event_id lock_ctl 7 ?theirs) locked0"
    by (rule locked0_fresh)
  then have "fresh_event (ctl_project_id lock_ctl) (acquired_event_id lock_ctl 7 ?theirs) freed0"
    unfolding freed0_def
    by (rule release_keeps_fresh) (simp add: released_event_id_def acquired_event_id_def)
  moreover have "st_sequence locked0 + 2 < 2 ^ 63" using locked0_sequence by simp
  moreover have "holds (wls_session_id ?mine) ''r1'' (lease_id (ctl_project_id lock_ctl) ?mine) locked0"
    using locked0_holds(2) by simp
  ultimately show ?thesis
    using release_then_acquire [of locked0 ?mine "''r1''" lock_ctl 6 ?theirs rfc8259 "''done''" "Acquired key0" freed0 7]
      locked0_holds(3) freed0_released by simp
qed

text \<open>
  A second acquisition in the same millisecond is a phantom: when a session acquires, releases and
  acquires again with the same clock reading, the second acquisition hits the idempotency key of the
  first.  It reports the lease as acquired, appends nothing, and nobody holds the lease.
\<close>

theorem same_millisecond_acquire_is_phantom:
  assumes "store_wf s" "workspace_lease_holder ctl scope s = None" "st_sequence s + 2 < 2 ^ 63"
    and "fresh_event (ctl_project_id ctl) (acquired_event_id ctl clock scope) s"
    and "fresh_event (ctl_project_id ctl) (released_event_id clock2 (lease_id (ctl_project_id ctl) scope)) s"
    and "acquire_workspace_write_lease sj ctl clock scope s = (Inr outcome, s1)"
    and "release_workspace_write_lease sj ctl clock2 scope reason s1 = (Inr outcome2, s2)"
  shows "acquire_workspace_write_lease sj ctl clock scope s2 = (Inr (Acquired (lease_id (ctl_project_id ctl) scope)), s2)
    \<and> workspace_lease_holder ctl scope s2 = None"
proof -
  let ?key = "lease_id (ctl_project_id ctl) scope"
  obtain e rs where e: "nev_project_id e = Some (ctl_project_id ctl)" "nev_idempotency_key e = Some (acquired_event_id ctl clock scope)"
    and take_it: "\<And>t. workspace_lease_holder ctl scope t = None \<Longrightarrow>
      acquire_workspace_write_lease sj ctl clock scope t = op_bind (append_event sj e rs) (\<lambda>_. op_return (Acquired ?key)) t"
    using acquire_when_free by blast
  from assms(6) obtain n where n: "append_event sj e rs s = (Inr n, s1)"
    by (auto simp: take_it [OF assms(2)] op_bind_def op_return_def split: prod.splits sum.splits)
  have known: "find_idempotent e s1 = Some n" by (rule append_event_recorded [OF e n])
  have "holds (wls_session_id scope) (wls_run_id scope) ?key s1"
    using acquire_free [OF assms(2,4), of sj] assms(3,6) by auto
  moreover have "store_wf s1" using lease_step_wf [OF lease_acquire assms(1)] assms(6) by (metis snd_conv)
  moreover have "fresh_event (ctl_project_id ctl) (released_event_id clock2 ?key) s1"
    using acquire_keeps_fresh [OF assms(5), of ctl clock scope sj] assms(6)
    by (simp add: released_event_id_def acquired_event_id_def)
  moreover have "st_sequence s1 + 1 < 2 ^ 63" using append_sequence_le [of sj e rs s] n assms(3) by simp
  ultimately have free: "workspace_lease_holder ctl scope s2 = None"
    using release_frees [of scope "wls_run_id scope" ctl s1 clock2 sj reason] assms(7) by auto
  have "find_idempotent e s2 = Some n"
    using release_keeps_known [OF known, of sj ctl clock2 scope reason] assms(7) by simp
  then show ?thesis using free by (simp add: take_it append_event_known op_bind_def op_return_def)
qed

theorem same_millisecond_acquire_is_phantom_witness:
  "\<exists>s. acquire_workspace_write_lease rfc8259 lock_ctl 5 (lock_scope ''s1'' ''r1'' ''/w/capo'') freed0 = (Inr (Acquired s), freed0)
    \<and> workspace_lease_holder lock_ctl (lock_scope ''s1'' ''r1'' ''/w/capo'') freed0 = None"
proof -
  let ?mine = "lock_scope ''s1'' ''r1'' ''/w/capo''"
  have "workspace_lease_holder lock_ctl ?mine store_open = None" "st_sequence store_open + 2 < 2 ^ 63"
    by (simp_all add: workspace_lease_holder_def workspace_lease_by_id_def lookup_def store_open_def)
  from same_millisecond_acquire_is_phantom [OF store_open_wf this fresh_open fresh_open locked0_holds(1) freed0_released(1)]
  show ?thesis by blast
qed

text \<open>
  Reading the log in pages loses nothing and repeats nothing: a page and the page that starts at
  the sequence of its last event are together the page of the summed size.
\<close>

theorem event_pages_compose:
  assumes "store_wf s" "int (n + m) < 2 ^ 63" "events_after c n s \<noteq> []"
  shows "events_after c n s @ events_after (ev_sequence (last (events_after c n s))) m s = events_after c (n + m) s"
  using assms by (intro pages_compose) (simp_all add: store_wf_def)

definition two_events0 :: store where
  "two_events0 = committed_store rfc8259 (event ''e2'' (SessionEvent SessionStarted) ''p1'') []
     (committed_store rfc8259 (event ''e1'' (SessionEvent SessionStarted) ''p1'') [] store_open)"

lemma two_events0:
  "store_wf two_events0"
  "st_events two_events0 = [committed_event_record 1 (event ''e1'' (SessionEvent SessionStarted) ''p1''),
     committed_event_record 2 (event ''e2'' (SessionEvent SessionStarted) ''p1'')]"
proof -
  have fresh: "fresh_event ''p1'' ''e2'' (committed_store rfc8259 (event ''e1'' (SessionEvent SessionStarted) ''p1'') [] store_open)"
    by (simp add: fresh_committed [OF fresh_open])
  have "append_admissible rfc8259 (event ''e1'' (SessionEvent SessionStarted) ''p1'') [] store_open"
    by (rule fresh_append_admissible [OF fresh_open]) (simp_all add: store_open_def)
  moreover have "append_admissible rfc8259 (event ''e2'' (SessionEvent SessionStarted) ''p1'') []
      (committed_store rfc8259 (event ''e1'' (SessionEvent SessionStarted) ''p1'') [] store_open)"
    by (rule fresh_append_admissible [OF fresh]) (simp_all add: store_open_def)
  ultimately show "store_wf two_events0"
    unfolding two_events0_def
    using store_wf_append [OF store_wf_append [OF store_open_wf]] append_event_commits by (metis snd_conv)
  show "st_events two_events0 = [committed_event_record 1 (event ''e1'' (SessionEvent SessionStarted) ''p1''),
     committed_event_record 2 (event ''e2'' (SessionEvent SessionStarted) ''p1'')]"
    by (simp add: two_events0_def store_open_def)
qed

theorem event_pages_compose_witness:
  "events_after 0 1 two_events0 @ events_after 1 1 two_events0 = events_after 0 2 two_events0
    \<and> map ev_event_id (events_after 0 2 two_events0) = [''e1'', ''e2'']"
proof -
  have wf: "events_wf two_events0" using two_events0(1) by (simp add: store_wf_def)
  have page: "events_after 0 1 two_events0 = [committed_event_record 1 (event ''e1'' (SessionEvent SessionStarted) ''p1'')]"
    by (simp add: events_after_eq [OF wf] two_events0(2))
  then have "ev_sequence (last (events_after 0 1 two_events0)) = 1" by (simp add: committed_event_record_def)
  with page event_pages_compose [OF two_events0(1), of 1 1 0]
  show ?thesis by (simp add: events_after_eq [OF wf] two_events0(2) committed_event_record_def numeral_2_eq_2)
qed

end
