(* ===== verification/Completion_Auditor.thy ===== *)
theory Completion_Auditor
  imports Controller_Base
begin

text \<open>
  \<open>capo-controller/src/completion_auditor.rs\<close>: whether a goal is complete.  The verdict is a pure
  function of the goal's requirement ledger, its reports and the evidence rows of its task; the
  recording variant stores it.

  Shown here: what a complete verdict needs of every requirement, that it depends on nothing else in
  the store, and that claims of an agent never make a goal complete.
\<close>

section \<open>The pure auditor\<close>

datatype requirement_audit_state =
    AuditValidated | AuditReviewed | AuditClaimOnly | AuditSupported | AuditWeak | AuditUnverified
  | AuditBlocked | AuditContradicted

fun audit_state_as_str :: "requirement_audit_state \<Rightarrow> string" where
  "audit_state_as_str AuditValidated = ''validated''"
| "audit_state_as_str AuditReviewed = ''reviewed''"
| "audit_state_as_str AuditClaimOnly = ''claim_only''"
| "audit_state_as_str AuditSupported = ''supported''"
| "audit_state_as_str AuditWeak = ''weak''"
| "audit_state_as_str AuditUnverified = ''unverified''"
| "audit_state_as_str AuditBlocked = ''blocked''"
| "audit_state_as_str AuditContradicted = ''contradicted''"

definition counts_complete :: "requirement_audit_state \<Rightarrow> bool" where
  "counts_complete state \<longleftrightarrow> state = AuditValidated \<or> state = AuditReviewed"

definition is_blocking :: "requirement_audit_state \<Rightarrow> bool" where
  "is_blocking state \<longleftrightarrow> state = AuditBlocked \<or> state = AuditContradicted"

record requirement_input =
  rin_requirement_id :: string
  rin_ledger_status :: string
  rin_observed_evidence :: bool
  rin_weak_validation :: bool

record requirement_audit =
  raud_requirement_id :: string
  raud_state :: requirement_audit_state
  raud_observed_evidence :: bool
  raud_reason :: string

datatype audit_verdict_kind = VerdictComplete | VerdictIncomplete

fun verdict_as_str :: "audit_verdict_kind \<Rightarrow> string" where
  "verdict_as_str VerdictComplete = ''complete''"
| "verdict_as_str VerdictIncomplete = ''incomplete''"

record audit_decision =
  adec_verdict :: audit_verdict_kind
  adec_reason :: string
  adec_requirements :: "requirement_audit list"

definition audit_requirement :: "requirement_input \<Rightarrow> requirement_audit" where
  "audit_requirement input =
     (let status = rin_ledger_status input;
          (state, reason) =
            (if status = ''blocked'' then (AuditBlocked, ''requirement_blocked'')
             else if status = ''contradicted'' then (AuditContradicted, ''requirement_contradicted'')
             else if status = ''validated'' \<or> status = ''reviewed'' then
               (if \<not> rin_observed_evidence input then (AuditClaimOnly, ''requirement_claim_only'')
                else if rin_weak_validation input then (AuditWeak, ''requirement_weak_validation'')
                else if status = ''reviewed'' then (AuditReviewed, ''requirement_reviewed'')
                else (AuditValidated, ''requirement_validated''))
             else if status = ''supported'' then
               (if rin_observed_evidence input then (AuditSupported, ''requirement_supported_only'')
                else (AuditClaimOnly, ''requirement_claim_only''))
             else (AuditUnverified, ''requirement_unverified''))
      in \<lparr>raud_requirement_id = rin_requirement_id input, raud_state = state,
          raud_observed_evidence = rin_observed_evidence input, raud_reason = reason\<rparr>)"

definition audit :: "requirement_input list \<Rightarrow> audit_decision" where
  "audit inputs =
     (let requirements = map audit_requirement inputs;
          decision = (\<lambda>verdict reason. \<lparr>adec_verdict = verdict, adec_reason = reason,
            adec_requirements = requirements\<rparr>)
      in if requirements = [] then decision VerdictIncomplete ''no_requirements''
         else case find (\<lambda>r. is_blocking (raud_state r)) requirements of
           Some blocker \<Rightarrow> decision VerdictIncomplete (raud_reason blocker)
         | None \<Rightarrow>
             (case find (\<lambda>r. \<not> counts_complete (raud_state r)) requirements of
                Some incomplete \<Rightarrow> decision VerdictIncomplete (raud_reason incomplete)
              | None \<Rightarrow> decision VerdictComplete ''all_requirements_met''))"

definition requirements_complete :: "audit_decision \<Rightarrow> nat" where
  "requirements_complete decision =
     length (filter (\<lambda>r. counts_complete (raud_state r)) (adec_requirements decision))"

section \<open>The inputs of an audit\<close>

definition is_weak_validation_summary :: "string \<Rightarrow> bool" where
  "is_weak_validation_summary summary =
     (let lower = to_ascii_lowercase summary in
      str_contains lower ''weak'' \<or> str_contains lower ''skipped'' \<or> str_contains lower ''skip'')"

text \<open>
  The report may have any source, and only its summary is read.  \<open>capo-state/src/schema.rs\<close> describes
  a structured \<open>outcome\<close> column of the reports and says that the downgrade is keyed on it and not on the
  prose of the summary; no code writes or reads that column.
\<close>

definition requirement_has_weak_validation ::
  "requirement_ledger_projection \<Rightarrow> goal_report_projection list \<Rightarrow> bool" where
  "requirement_has_weak_validation requirement reports =
     list_ex (\<lambda>report. grpt_requirement_id report = Some (req_requirement_id requirement)
       \<and> grpt_report_kind report = ''capo.record_validation''
       \<and> is_weak_validation_summary (grpt_summary report)) reports"

definition requirement_has_observed_evidence ::
  "requirement_ledger_projection \<Rightarrow> goal_report_projection list \<Rightarrow> bool \<Rightarrow> bool" where
  "requirement_has_observed_evidence requirement reports single_requirement_task_evidence =
     (if source_is_observed_evidence (req_last_status_source requirement) then True
      else if list_ex (\<lambda>report. report_is_observed_evidence report
        \<and> grpt_requirement_id report = Some (req_requirement_id requirement)) reports then True
      else single_requirement_task_evidence)"

definition goal_evidence :: "goal_projection \<Rightarrow> store \<Rightarrow> evidence_projection list" where
  "goal_evidence goal s =
     (case goal_task_id goal of
        Some task_id \<Rightarrow> evidence_for_task task_id s
      | None \<Rightarrow>
          (case goal_session_id goal of
             Some session_id \<Rightarrow> evidence_for_session session_id s
           | None \<Rightarrow> []))"

definition build_audit_inputs :: "goal_projection \<Rightarrow> store \<Rightarrow> requirement_input list" where
  "build_audit_inputs goal s =
     (let requirements = requirement_ledgers_for_goal (goal_goal_id goal) s;
          reports = goal_reports_for_goal (goal_goal_id goal) s;
          evidence = goal_evidence goal s;
          single_requirement = (length requirements = 1);
          goal_has_task_scoped_observed_evidence =
            (evidence \<noteq> []
             \<or> list_ex (\<lambda>report. report_is_observed_evidence report \<and> grpt_requirement_id report = None) reports)
      in map (\<lambda>requirement.
           \<lparr>rin_requirement_id = req_requirement_id requirement,
            rin_ledger_status = req_status requirement,
            rin_observed_evidence = requirement_has_observed_evidence requirement reports
              (single_requirement \<and> goal_has_task_scoped_observed_evidence),
            rin_weak_validation = requirement_has_weak_validation requirement reports\<rparr>) requirements)"

section \<open>Auditing a goal of the store\<close>

definition audit_goal_completion :: "string \<Rightarrow> store \<Rightarrow> (state_error, audit_decision) result" where
  "audit_goal_completion goal_id s =
     (case query_goal goal_id s of
        None \<Rightarrow> Inl (MissingReadModel ''goal'' goal_id)
      | Some goal \<Rightarrow> Inr (audit (build_audit_inputs goal s)))"

definition requirement_detail_json :: "serde \<Rightarrow> audit_decision \<Rightarrow> string" where
  "requirement_detail_json sj decision =
     to_text sj (JArray (map (\<lambda>r. json_object
       [(''requirement_id'', JString (raud_requirement_id r)),
        (''state'', JString (audit_state_as_str (raud_state r))),
        (''observed_evidence'', JBool (raud_observed_evidence r)),
        (''reason'', JString (raud_reason r))]) (adec_requirements decision)))"

definition audit_row ::
  "serde \<Rightarrow> controller \<Rightarrow> goal_projection \<Rightarrow> string \<Rightarrow> string \<Rightarrow> audit_decision \<Rightarrow> goal_audit_decision_projection" where
  "audit_row sj ctl goal goal_id audit_id decision =
     \<lparr>audit_audit_id = audit_id,
      audit_goal_id = goal_id,
      audit_project_id = ctl_project_id ctl,
      audit_attempt_run_id = goal_attempt_run_id goal,
      audit_verdict = verdict_as_str (adec_verdict decision),
      audit_reason = adec_reason decision,
      audit_requirements_total = int (length (adec_requirements decision)),
      audit_requirements_complete = int (requirements_complete decision),
      audit_requirement_detail_json = requirement_detail_json sj decision,
      audit_updated_sequence = 0\<rparr>"

definition audit_event ::
  "serde \<Rightarrow> controller \<Rightarrow> goal_projection \<Rightarrow> string \<Rightarrow> string \<Rightarrow> audit_decision \<Rightarrow> new_event" where
  "audit_event sj ctl goal goal_id audit_id decision =
     \<lparr>nev_event_id = ''event-audit-'' @ audit_id,
      nev_kind = GoalEvent GoalAuditDecisionRecorded,
      nev_actor = ''capo-controller-auditor'',
      nev_project_id = Some (ctl_project_id ctl),
      nev_task_id = goal_task_id goal,
      nev_agent_id = goal_agent_id goal,
      nev_session_id = goal_session_id goal,
      nev_run_id = goal_attempt_run_id goal,
      nev_turn_id = None,
      nev_item_id = Some audit_id,
      nev_payload_json = to_text sj (json_object
        [(''audit_id'', JString audit_id),
         (''goal_id'', JString goal_id),
         (''verdict'', JString (verdict_as_str (adec_verdict decision))),
         (''reason'', JString (adec_reason decision)),
         (''requirements_total'', j_int (int (length (adec_requirements decision)))),
         (''requirements_complete'', j_int (int (requirements_complete decision))),
         (''requirement_detail'', JString (requirement_detail_json sj decision)),
         (''attempt_run_id'', j_opt_str (goal_attempt_run_id goal))]),
      nev_idempotency_key = Some (''audit:'' @ goal_id @ '':'' @ audit_id),
      nev_redaction_state = Safe\<rparr>"

definition audit_and_record_goal_completion ::
  "serde \<Rightarrow> controller \<Rightarrow> string \<Rightarrow> string \<Rightarrow> audit_decision op" where
  "audit_and_record_goal_completion sj ctl goal_id audit_id s =
     (case query_goal goal_id s of
        None \<Rightarrow> (Inl (MissingReadModel ''goal'' goal_id), s)
      | Some goal \<Rightarrow>
          (let decision = audit (build_audit_inputs goal s) in
           op_bind
             (append_event sj (audit_event sj ctl goal goal_id audit_id decision)
               [GoalAuditDecision (audit_row sj ctl goal goal_id audit_id decision)])
             (\<lambda>_. op_return decision) s))"

section \<open>What a complete verdict needs\<close>

lemma counts_complete_iff:
  "counts_complete (raud_state (audit_requirement i)) \<longleftrightarrow>
     rin_ledger_status i \<in> {''validated'', ''reviewed''} \<and> rin_observed_evidence i \<and> \<not> rin_weak_validation i"
  by (auto simp: counts_complete_def audit_requirement_def Let_def)

lemma complete_not_blocking: "counts_complete st \<Longrightarrow> \<not> is_blocking st"
  by (auto simp: counts_complete_def is_blocking_def)

lemma audit_requirements [simp]: "adec_requirements (audit inputs) = map audit_requirement inputs"
  by (simp add: audit_def Let_def split: option.splits)

lemma audit_complete_iff:
  "adec_verdict (audit inputs) = VerdictComplete \<longleftrightarrow>
     inputs \<noteq> [] \<and> (\<forall>i\<in>set inputs. counts_complete (raud_state (audit_requirement i)))"
proof (cases "\<forall>i\<in>set inputs. counts_complete (raud_state (audit_requirement i))")
  case True
  then have "find (\<lambda>r. is_blocking (raud_state r)) (map audit_requirement inputs) = None"
    "find (\<lambda>r. \<not> counts_complete (raud_state r)) (map audit_requirement inputs) = None"
    using complete_not_blocking by (auto simp: find_None_iff)
  with True show ?thesis by (simp add: audit_def Let_def)
next
  case False
  then have "find (\<lambda>r. \<not> counts_complete (raud_state r)) (map audit_requirement inputs) \<noteq> None"
    by (auto simp: find_None_iff)
  with False show ?thesis by (auto simp: audit_def Let_def split: option.splits)
qed

text \<open>The reason of a verdict is the reason of one of the requirements, blockers first.\<close>

lemma audit_incomplete_reason:
  assumes "adec_verdict (audit inputs) = VerdictIncomplete" "inputs \<noteq> []"
  obtains i where "i \<in> set inputs" "adec_reason (audit inputs) = raud_reason (audit_requirement i)"
    "\<not> counts_complete (raud_state (audit_requirement i))"
    "(\<exists>j\<in>set inputs. is_blocking (raud_state (audit_requirement j))) \<Longrightarrow> is_blocking (raud_state (audit_requirement i))"
proof (cases "find (\<lambda>r. is_blocking (raud_state r)) (map audit_requirement inputs)")
  case (Some r)
  then have "r \<in> audit_requirement ` set inputs" "is_blocking (raud_state r)"
    by (auto simp: find_Some_iff)
  moreover have "adec_reason (audit inputs) = raud_reason r"
    using Some assms(2) by (simp add: audit_def Let_def)
  ultimately show thesis using that complete_not_blocking by blast
next
  case None
  with assms obtain r where r: "find (\<lambda>r. \<not> counts_complete (raud_state r)) (map audit_requirement inputs) = Some r"
    "adec_reason (audit inputs) = raud_reason r"
    by (auto simp: audit_def Let_def split: option.splits)
  then have "r \<in> audit_requirement ` set inputs" "\<not> counts_complete (raud_state r)"
    by (auto simp: find_Some_iff)
  with None r(2) that show thesis by (auto simp: find_None_iff)
qed

text \<open>The observed evidence of a requirement, read off the store.\<close>

definition observed_backing :: "goal_projection \<Rightarrow> store \<Rightarrow> requirement_ledger_projection \<Rightarrow> bool" where
  "observed_backing goal s r \<longleftrightarrow>
     source_is_observed_evidence (req_last_status_source r)
     \<or> (\<exists>report \<in> set (goal_reports_for_goal (goal_goal_id goal) s). report_is_observed_evidence report
          \<and> grpt_requirement_id report = Some (req_requirement_id r))
     \<or> length (requirement_ledgers_for_goal (goal_goal_id goal) s) = 1
        \<and> (goal_evidence goal s \<noteq> []
           \<or> (\<exists>report \<in> set (goal_reports_for_goal (goal_goal_id goal) s). report_is_observed_evidence report
                \<and> grpt_requirement_id report = None))"

lemma audit_store_complete_iff:
  "adec_verdict (audit (build_audit_inputs goal s)) = VerdictComplete \<longleftrightarrow>
     requirement_ledgers_for_goal (goal_goal_id goal) s \<noteq> []
     \<and> (\<forall>r \<in> set (requirement_ledgers_for_goal (goal_goal_id goal) s).
          req_status r \<in> {''validated'', ''reviewed''} \<and> observed_backing goal s r
          \<and> \<not> requirement_has_weak_validation r (goal_reports_for_goal (goal_goal_id goal) s))"
  unfolding audit_complete_iff counts_complete_iff
  by (auto simp: build_audit_inputs_def Let_def observed_backing_def requirement_has_observed_evidence_def
      list_ex_iff)

text \<open>
  The downgrade follows the prose: the same report, claimed or observed, blocks completion when its summary
  says that nothing was skipped, and does not when it says that the tests were not executed.
\<close>

lemma weak_summary_iff:
  "is_weak_validation_summary t \<longleftrightarrow>
     str_contains (to_ascii_lowercase t) ''weak'' \<or> str_contains (to_ascii_lowercase t) ''skip''"
proof -
  have "str_contains (to_ascii_lowercase t) ''skip''" if "str_contains (to_ascii_lowercase t) ''skipped''"
  proof -
    from that obtain u v where "to_ascii_lowercase t = u @ ''skip'' @ ''ped'' @ v" by (auto simp: str_contains_iff)
    then show ?thesis unfolding str_contains_iff by blast
  qed
  then show ?thesis by (auto simp: is_weak_validation_summary_def Let_def)
qed

lemma prose_decides_weakness:
  assumes "grpt_requirement_id report = Some (req_requirement_id r)" "grpt_report_kind report = ''capo.record_validation''"
  shows "requirement_has_weak_validation r (report\<lparr>grpt_summary := ''passed, no test skipped''\<rparr> # reports)"
    and "requirement_has_weak_validation r (report\<lparr>grpt_summary := ''tests not executed''\<rparr> # reports)
      = requirement_has_weak_validation r reports"
proof -
  have "is_weak_validation_summary ''passed, no test skipped''" "\<not> is_weak_validation_summary ''tests not executed''"
    by code_simp+
  then show "requirement_has_weak_validation r (report\<lparr>grpt_summary := ''passed, no test skipped''\<rparr> # reports)"
    "requirement_has_weak_validation r (report\<lparr>grpt_summary := ''tests not executed''\<rparr> # reports)
      = requirement_has_weak_validation r reports"
    using assms by (simp_all add: requirement_has_weak_validation_def)
qed

end
