(* ===== verification/Resource_Ceiling.thy ===== *)
theory Resource_Ceiling
  imports Controller_Base
begin

text \<open>
  \<open>capo-controller/src/resource_ceiling.rs\<close>: the ceiling of a run, the single classifier of usage
  against it, and the durable abort of a run that exceeded it.  A \<open>Duration\<close> is its number of
  nanoseconds.
\<close>

type_synonym duration = nat

abbreviation from_secs :: "nat \<Rightarrow> duration" where "from_secs secs \<equiv> secs * 1000000000"

definition as_secs :: "duration \<Rightarrow> nat" where
  "as_secs d = d div 1000000000"

record run_resource_ceiling =
  rc_max_turns :: "nat option"
  rc_max_wall_clock :: "duration option"
  rc_max_token_cost :: "nat option"

definition ceiling_unbounded :: run_resource_ceiling where
  "ceiling_unbounded = \<lparr>rc_max_turns = None, rc_max_wall_clock = None, rc_max_token_cost = None\<rparr>"

definition ceiling_max_turns :: "nat \<Rightarrow> run_resource_ceiling" where
  "ceiling_max_turns n = \<lparr>rc_max_turns = Some n, rc_max_wall_clock = None, rc_max_token_cost = None\<rparr>"

definition for_live_provider :: "nat \<Rightarrow> duration \<Rightarrow> nat \<Rightarrow> run_resource_ceiling" where
  "for_live_provider turns wall_clock token_cost =
     \<lparr>rc_max_turns = Some turns, rc_max_wall_clock = Some wall_clock, rc_max_token_cost = Some token_cost\<rparr>"

definition bounds_wall_clock :: "run_resource_ceiling \<Rightarrow> bool" where
  "bounds_wall_clock c \<longleftrightarrow> rc_max_wall_clock c \<noteq> None"

definition wall_clock_timeout_seconds :: "run_resource_ceiling \<Rightarrow> nat option" where
  "wall_clock_timeout_seconds c = map_option (\<lambda>d. max (as_secs d) 1) (rc_max_wall_clock c)"

record run_resource_usage =
  ru_turns_taken :: nat
  ru_wall_clock_elapsed :: duration
  ru_token_cost :: nat

datatype ceiling_breach =
    MaxTurns nat nat
  | WallClock duration duration
  | TokenCost nat nat

fun breach_code :: "ceiling_breach \<Rightarrow> string" where
  "breach_code (MaxTurns _ _) = ''max_turns_exceeded''"
| "breach_code (WallClock _ _) = ''max_wall_clock_exceeded''"
| "breach_code (TokenCost _ _) = ''max_token_cost_exceeded''"

fun limit_value :: "ceiling_breach \<Rightarrow> nat" where
  "limit_value (MaxTurns limit _) = limit"
| "limit_value (WallClock limit _) = as_secs limit"
| "limit_value (TokenCost limit _) = limit"

fun observed_value :: "ceiling_breach \<Rightarrow> nat" where
  "observed_value (MaxTurns _ observed) = observed"
| "observed_value (WallClock _ observed) = as_secs observed"
| "observed_value (TokenCost _ observed) = observed"

definition exceeds :: "nat option \<Rightarrow> nat \<Rightarrow> bool" where
  "exceeds limit observed = (case limit of Some bound \<Rightarrow> observed > bound | None \<Rightarrow> False)"

definition breach :: "run_resource_ceiling \<Rightarrow> run_resource_usage \<Rightarrow> ceiling_breach option" where
  "breach c usage =
     (if exceeds (rc_max_turns c) (ru_turns_taken usage)
      then Some (MaxTurns (the (rc_max_turns c)) (ru_turns_taken usage))
      else if exceeds (rc_max_wall_clock c) (ru_wall_clock_elapsed usage)
      then Some (WallClock (the (rc_max_wall_clock c)) (ru_wall_clock_elapsed usage))
      else if exceeds (rc_max_token_cost c) (ru_token_cost usage)
      then Some (TokenCost (the (rc_max_token_cost c)) (ru_token_cost usage))
      else None)"

section \<open>Aborting a run\<close>

text \<open>\<open>stable_hash\<close> of the controller: the FNV hash with its name in front.\<close>

definition controller_hash :: "string \<Rightarrow> string" where
  "controller_hash bytes = ''fnv1a64:'' @ stable_hash bytes"

record fake_run_refs =
  refs_task_id :: string
  refs_agent_id :: string
  refs_session_id :: string
  refs_run_id :: string
  refs_runtime_process_ref :: string
  refs_external_session_ref :: string

definition aborted_event ::
  "controller \<Rightarrow> fake_run_refs \<Rightarrow> string \<Rightarrow> ceiling_breach \<Rightarrow> new_event" where
  "aborted_event ctl refs turn_id b =
     with_payload
       (''{\"reason_code\":\"'' @ breach_code b @ ''\",\"limit\":'' @ nat_to_string (limit_value b)
        @ '',\"observed\":'' @ nat_to_string (observed_value b)
        @ '',\"status\":\"aborted\",\"enforced_by\":\"controller_resource_ceiling\"}'')
       ((with_turn turn_id
          (scoped_event
            (''event-run-aborted-'' @ refs_run_id refs @ ''-''
             @ controller_hash (refs_run_id refs @ '':'' @ breach_code b))
            (RunEvent RunAborted) (ctl_project_id ctl) (refs_task_id refs) (refs_agent_id refs)
            (refs_session_id refs) (refs_run_id refs)))
        \<lparr>nev_item_id := Some (refs_run_id refs),
         nev_idempotency_key := Some (''run-aborted:'' @ ctl_project_id ctl @ '':'' @ refs_run_id refs
           @ '':'' @ breach_code b)\<rparr>)"

definition aborted_records ::
  "controller \<Rightarrow> fake_run_refs \<Rightarrow> ceiling_breach \<Rightarrow> session_projection \<Rightarrow> task_projection \<Rightarrow> agent_projection
     \<Rightarrow> projection_record list" where
  "aborted_records ctl refs b session task agent =
     (let summary = ''Aborted by resource ceiling: '' @ breach_code b in
      [Task \<lparr>tsk_task_id = refs_task_id refs,
             tsk_project_id = ctl_project_id ctl,
             tsk_title = ses_title session,
             tsk_capo_execution_status = ''aborted'',
             tsk_active_session_id = Some (refs_session_id refs),
             tsk_latest_summary = Some summary,
             tsk_evidence_id = tsk_evidence_id task,
             tsk_updated_sequence = 0\<rparr>,
       Agent \<lparr>agt_agent_id = refs_agent_id refs,
              agt_project_id = ctl_project_id ctl,
              agt_name = agt_name agent,
              agt_status = ''available'',
              agt_current_session_id = None,
              agt_updated_sequence = 0\<rparr>,
       Session \<lparr>ses_session_id = refs_session_id refs,
                ses_project_id = ctl_project_id ctl,
                ses_task_id = Some (refs_task_id refs),
                ses_agent_id = refs_agent_id refs,
                ses_title = ses_title session,
                ses_status = ''aborted'',
                ses_current_goal = ses_current_goal session,
                ses_latest_summary = Some summary,
                ses_latest_confidence = None,
                ses_latest_blocker = None,
                ses_external_session_ref = ses_external_session_ref session,
                ses_updated_sequence = 0\<rparr>,
       Run \<lparr>run_run_id = refs_run_id refs,
            run_session_id = refs_session_id refs,
            run_status = ''aborted'',
            run_recovery_of_run_id = None,
            run_updated_sequence = 0\<rparr>])"

definition require_row :: "string \<Rightarrow> string \<Rightarrow> (string \<Rightarrow> store \<Rightarrow> 'a option) \<Rightarrow> 'a op" where
  "require_row kind row_id query s =
     (case query row_id s of
        None \<Rightarrow> (Inl (MissingReadModel kind row_id), s)
      | Some row \<Rightarrow> (Inr row, s))"

definition abort_run_for_ceiling ::
  "serde \<Rightarrow> controller \<Rightarrow> fake_run_refs \<Rightarrow> string \<Rightarrow> ceiling_breach \<Rightarrow> unit op" where
  "abort_run_for_ceiling sj ctl refs turn_id b =
     op_bind (require_row ''session'' (refs_session_id refs) query_session) (\<lambda>session.
     op_bind (require_row ''task'' (refs_task_id refs) query_task) (\<lambda>task.
     op_bind (require_row ''agent'' (refs_agent_id refs) query_agent) (\<lambda>agent.
     op_bind (append_event sj (aborted_event ctl refs turn_id b)
       (aborted_records ctl refs b session task agent))
     (\<lambda>_. op_return ()))))"

section \<open>The classifier\<close>

text \<open>Usage breaches a ceiling exactly if some bounded dimension is over its bound.\<close>

lemma exceeds_iff: "exceeds limit n \<longleftrightarrow> (\<exists>m. limit = Some m \<and> m < n)"
  by (auto simp: exceeds_def split: option.splits)

lemma breach_None_iff:
  "breach c u = None \<longleftrightarrow>
     (\<forall>m. rc_max_turns c = Some m \<longrightarrow> ru_turns_taken u \<le> m)
     \<and> (\<forall>m. rc_max_wall_clock c = Some m \<longrightarrow> ru_wall_clock_elapsed u \<le> m)
     \<and> (\<forall>m. rc_max_token_cost c = Some m \<longrightarrow> ru_token_cost u \<le> m)"
  by (auto simp: breach_def exceeds_def not_less split: option.splits)

text \<open>More usage never un-breaches.\<close>

lemma breach_mono:
  assumes "breach c u \<noteq> None" "ru_turns_taken u \<le> ru_turns_taken v"
    "ru_wall_clock_elapsed u \<le> ru_wall_clock_elapsed v" "ru_token_cost u \<le> ru_token_cost v"
  shows "breach c v \<noteq> None"
  using assms unfolding breach_None_iff by (meson le_trans)

lemma breach_over_limit: "breach c u = Some b \<Longrightarrow> limit_value b \<le> observed_value b"
  by (auto simp: breach_def exceeds_iff as_secs_def div_le_mono split: if_splits)

lemma timeout_positive: "wall_clock_timeout_seconds c = Some t \<Longrightarrow> t > 0"
  by (auto simp: wall_clock_timeout_seconds_def)

end
