(* ===== verification/Continuation_Scheduler.thy ===== *)
theory Continuation_Scheduler
  imports Resource_Ceiling Workspace_Lock
begin

text \<open>
  \<open>capo-controller/src/continuation_scheduler.rs\<close>: whether a goal gets another automatic turn.  The
  decision is a pure function of a snapshot; the controller builds the snapshot from the goal row, the
  workspace lease and the caller's conditions, records the decision, and aborts the attempt run when
  the goal's budget is exhausted.
\<close>

section \<open>The decision\<close>

datatype continuation_decision = Continue | Pause | Block | BudgetLimit | NoProgressSuppress

fun continuation_as_str :: "continuation_decision \<Rightarrow> string" where
  "continuation_as_str Continue = ''continue''"
| "continuation_as_str Pause = ''pause''"
| "continuation_as_str Block = ''block''"
| "continuation_as_str BudgetLimit = ''budget-limit''"
| "continuation_as_str NoProgressSuppress = ''no-progress-suppress''"

record goal_budget =
  gb_ceiling :: run_resource_ceiling
  gb_usage :: run_resource_usage

definition budget_unbounded :: goal_budget where
  "budget_unbounded = \<lparr>gb_ceiling = ceiling_unbounded,
     gb_usage = \<lparr>ru_turns_taken = 0, ru_wall_clock_elapsed = 0, ru_token_cost = 0\<rparr>\<rparr>"

definition budget_breach :: "goal_budget \<Rightarrow> ceiling_breach option" where
  "budget_breach b = breach (gb_ceiling b) (gb_usage b)"

definition budget_available :: "goal_budget \<Rightarrow> bool" where
  "budget_available b \<longleftrightarrow> budget_breach b = None"

record scheduler_inputs =
  si_enabled :: bool
  si_goal_active :: bool
  si_goal_blocked :: bool
  si_runtime_idle :: bool
  si_session_idle :: bool
  si_user_input_queued :: bool
  si_permission_pending :: bool
  si_capability_profile_valid :: bool
  si_next_step_writes_source :: bool
  si_checkpoint_boundary_available :: bool
  si_verification_runner_available :: bool
  si_conflicting_workspace_lock :: bool
  si_last_continuation_made_no_progress :: bool
  si_strategy_changed_since_suppression :: bool
  si_budget :: goal_budget

definition ready_to_continue :: scheduler_inputs where
  "ready_to_continue =
     \<lparr>si_enabled = True, si_goal_active = True, si_goal_blocked = False, si_runtime_idle = True,
      si_session_idle = True, si_user_input_queued = False, si_permission_pending = False,
      si_capability_profile_valid = True, si_next_step_writes_source = False,
      si_checkpoint_boundary_available = True, si_verification_runner_available = True,
      si_conflicting_workspace_lock = False, si_last_continuation_made_no_progress = False,
      si_strategy_changed_since_suppression = False, si_budget = budget_unbounded\<rparr>"

record continuation_outcome =
  co_decision :: continuation_decision
  co_reason :: string

definition outcome :: "continuation_decision \<Rightarrow> string \<Rightarrow> continuation_outcome" where
  "outcome decision reason = \<lparr>co_decision = decision, co_reason = reason\<rparr>"

definition decide_continuation :: "scheduler_inputs \<Rightarrow> continuation_outcome" where
  "decide_continuation inputs =
     (if si_goal_blocked inputs then outcome Block ''goal_blocked''
      else if \<not> budget_available (si_budget inputs) then outcome BudgetLimit ''budget_exhausted''
      else if si_last_continuation_made_no_progress inputs \<and> \<not> si_strategy_changed_since_suppression inputs
        then outcome NoProgressSuppress ''no_material_progress''
      else if \<not> si_enabled inputs then outcome Pause ''not_enabled''
      else if \<not> si_goal_active inputs then outcome Pause ''goal_not_active''
      else if si_user_input_queued inputs then outcome Pause ''input_queued''
      else if si_permission_pending inputs then outcome Pause ''permission_pending''
      else if \<not> si_runtime_idle inputs then outcome Pause ''runtime_busy''
      else if \<not> si_session_idle inputs then outcome Pause ''session_busy''
      else if \<not> si_capability_profile_valid inputs then outcome Pause ''capability_profile_invalid''
      else if si_conflicting_workspace_lock inputs then outcome Pause ''workspace_lock_conflict''
      else if si_next_step_writes_source inputs \<and> \<not> si_checkpoint_boundary_available inputs
        then outcome Pause ''writes_source_without_checkpoint''
      else if si_next_step_writes_source inputs \<and> \<not> si_verification_runner_available inputs
        then outcome Pause ''writes_source_without_verification''
      else outcome Continue ''safe_boundary'')"

section \<open>The controller around it\<close>

record continuation_conditions =
  cc_enabled :: bool
  cc_runtime_idle :: bool
  cc_session_idle :: bool
  cc_user_input_queued :: bool
  cc_permission_pending :: bool
  cc_capability_profile_valid :: bool
  cc_next_step_writes_source :: bool
  cc_checkpoint_boundary_available :: bool
  cc_verification_runner_available :: bool
  cc_last_continuation_made_no_progress :: bool
  cc_strategy_changed_since_suppression :: bool
  cc_budget :: goal_budget

definition conflicting_workspace_lock ::
  "controller \<Rightarrow> workspace_lease_scope option \<Rightarrow> store \<Rightarrow> bool" where
  "conflicting_workspace_lock ctl workspace_scope s =
     (case workspace_scope of
        Some scope \<Rightarrow>
          (case workspace_lease_holder ctl scope s of
             Some l \<Rightarrow> lease_holder_session_id l \<noteq> wls_session_id scope
           | None \<Rightarrow> False)
      | None \<Rightarrow> False)"

definition scheduler_inputs_of ::
  "controller \<Rightarrow> goal_projection \<Rightarrow> continuation_conditions \<Rightarrow> workspace_lease_scope option \<Rightarrow> store
     \<Rightarrow> scheduler_inputs" where
  "scheduler_inputs_of ctl goal conditions workspace_scope s =
     \<lparr>si_enabled = cc_enabled conditions,
      si_goal_active = goal_is_active goal,
      si_goal_blocked = (goal_status goal = ''blocked''),
      si_runtime_idle = cc_runtime_idle conditions,
      si_session_idle = cc_session_idle conditions,
      si_user_input_queued = cc_user_input_queued conditions,
      si_permission_pending = cc_permission_pending conditions,
      si_capability_profile_valid = cc_capability_profile_valid conditions,
      si_next_step_writes_source = cc_next_step_writes_source conditions,
      si_checkpoint_boundary_available = cc_checkpoint_boundary_available conditions,
      si_verification_runner_available = cc_verification_runner_available conditions,
      si_conflicting_workspace_lock = conflicting_workspace_lock ctl workspace_scope s,
      si_last_continuation_made_no_progress = cc_last_continuation_made_no_progress conditions,
      si_strategy_changed_since_suppression = cc_strategy_changed_since_suppression conditions,
      si_budget = cc_budget conditions\<rparr>"

definition evaluate_continuation ::
  "controller \<Rightarrow> string \<Rightarrow> continuation_conditions \<Rightarrow> workspace_lease_scope option \<Rightarrow> continuation_outcome op" where
  "evaluate_continuation ctl goal_id conditions workspace_scope =
     op_bind (require_row ''goal'' goal_id query_goal) (\<lambda>goal s.
       (Inr (decide_continuation (scheduler_inputs_of ctl goal conditions workspace_scope s)), s))"

definition continuation_row ::
  "controller \<Rightarrow> goal_projection \<Rightarrow> string \<Rightarrow> string \<Rightarrow> continuation_outcome \<Rightarrow> goal_continuation_projection" where
  "continuation_row ctl goal goal_id continuation_id out =
     \<lparr>cont_continuation_id = continuation_id,
      cont_goal_id = goal_id,
      cont_project_id = ctl_project_id ctl,
      cont_attempt_run_id = goal_attempt_run_id goal,
      cont_decision = continuation_as_str (co_decision out),
      cont_reason = co_reason out,
      cont_updated_sequence = 0\<rparr>"

definition continuation_event ::
  "serde \<Rightarrow> controller \<Rightarrow> goal_projection \<Rightarrow> string \<Rightarrow> string \<Rightarrow> continuation_outcome \<Rightarrow> new_event" where
  "continuation_event sj ctl goal goal_id continuation_id out =
     \<lparr>nev_event_id = ''event-continuation-'' @ continuation_id,
      nev_kind = GoalEvent ContinuationDecisionRecorded,
      nev_actor = ''capo-controller'',
      nev_project_id = Some (ctl_project_id ctl),
      nev_task_id = goal_task_id goal,
      nev_agent_id = goal_agent_id goal,
      nev_session_id = goal_session_id goal,
      nev_run_id = goal_attempt_run_id goal,
      nev_turn_id = None,
      nev_item_id = Some continuation_id,
      nev_payload_json = to_text sj (json_object
        [(''continuation_id'', JString continuation_id),
         (''goal_id'', JString goal_id),
         (''decision'', JString (continuation_as_str (co_decision out))),
         (''reason'', JString (co_reason out)),
         (''attempt_run_id'', j_opt_str (goal_attempt_run_id goal))]),
      nev_idempotency_key = Some (''continuation:'' @ goal_id @ '':'' @ continuation_id),
      nev_redaction_state = Safe\<rparr>"

definition abort_if_exhausted ::
  "serde \<Rightarrow> controller \<Rightarrow> continuation_conditions \<Rightarrow> (fake_run_refs \<times> string) option \<Rightarrow> continuation_outcome \<Rightarrow> unit op" where
  "abort_if_exhausted sj ctl conditions abort_refs out =
     (if co_decision out = BudgetLimit then
        (case (abort_refs, budget_breach (cc_budget conditions)) of
           (Some (refs, turn_id), Some b) \<Rightarrow> abort_run_for_ceiling sj ctl refs turn_id b
         | _ \<Rightarrow> op_return ())
      else op_return ())"

definition evaluate_and_record_continuation ::
  "serde \<Rightarrow> controller \<Rightarrow> string \<Rightarrow> string \<Rightarrow> continuation_conditions \<Rightarrow> workspace_lease_scope option
     \<Rightarrow> (fake_run_refs \<times> string) option \<Rightarrow> continuation_outcome op" where
  "evaluate_and_record_continuation sj ctl goal_id continuation_id conditions workspace_scope abort_refs =
     op_bind (evaluate_continuation ctl goal_id conditions workspace_scope) (\<lambda>out.
     op_bind (require_row ''goal'' goal_id query_goal) (\<lambda>goal.
     op_bind (append_event sj (continuation_event sj ctl goal goal_id continuation_id out)
       [GoalContinuation (continuation_row ctl goal goal_id continuation_id out)]) (\<lambda>_.
     op_bind (abort_if_exhausted sj ctl conditions abort_refs out) (\<lambda>_.
     op_return out))))"

section \<open>When a goal continues\<close>

lemma outcome_simps [simp]: "co_decision (outcome d r) = d" "co_reason (outcome d r) = r"
  by (simp_all add: outcome_def)

lemma continue_iff:
  "co_decision (decide_continuation i) = Continue \<longleftrightarrow>
     si_enabled i \<and> si_goal_active i \<and> \<not> si_goal_blocked i \<and> si_runtime_idle i \<and> si_session_idle i
     \<and> \<not> si_user_input_queued i \<and> \<not> si_permission_pending i \<and> si_capability_profile_valid i
     \<and> \<not> si_conflicting_workspace_lock i \<and> budget_available (si_budget i)
     \<and> (si_last_continuation_made_no_progress i \<longrightarrow> si_strategy_changed_since_suppression i)
     \<and> (si_next_step_writes_source i \<longrightarrow>
          si_checkpoint_boundary_available i \<and> si_verification_runner_available i)"
  by (simp add: decide_continuation_def)

lemma budget_limit_iff:
  "co_decision (decide_continuation i) = BudgetLimit \<longleftrightarrow> \<not> si_goal_blocked i \<and> \<not> budget_available (si_budget i)"
  by (simp add: decide_continuation_def)

lemma evaluate_continuation_eq:
  "evaluate_continuation ctl goal_id cond scope s =
     (case query_goal goal_id s of
        None \<Rightarrow> (Inl (MissingReadModel ''goal'' goal_id), s)
      | Some goal \<Rightarrow> (Inr (decide_continuation (scheduler_inputs_of ctl goal cond scope s)), s))"
  by (simp add: evaluate_continuation_def op_bind_def require_row_def split: option.splits)

lemma held_is_conflict:
  assumes "holds a r (lease_id (ctl_project_id ctl) scope) s" "wls_session_id scope \<noteq> a"
  shows "conflicting_workspace_lock ctl (Some scope) s"
  using assms
  by (auto simp: conflicting_workspace_lock_def workspace_lease_holder_def holds_def split: option.splits)

end
