(* ===== verification/Goal_Report.thy ===== *)
theory Goal_Report
  imports Queries
begin

text \<open>
  \<open>capo-state/src/goal_report.rs\<close>: the historical report of a goal, as markdown and as JSON, rendered
  from read-model rows and events.  Text is UTF-8; the dash of the headings is its three bytes.

  Shown here: a report depends on its events only through what it may show of them, so no payload and
  no identifier of a subject reaches either rendering, and both renderings are marked degraded in the
  same cases.
\<close>

record goal_report_inputs =
  gri_goal :: goal_projection
  gri_requirements :: "requirement_ledger_projection list"
  gri_reports :: "goal_report_projection list"
  gri_continuations :: "goal_continuation_projection list"
  gri_delegated_provider_goals :: "delegated_provider_goal_projection list"
  gri_evidence :: "evidence_projection list"
  gri_audit :: "goal_audit_decision_projection option"
  gri_timeline :: "event_record list"

record requirement_counts_t =
  rcnt_supported :: nat
  rcnt_blocked :: nat
  rcnt_contradicted :: nat

definition count_status :: "string list \<Rightarrow> requirement_ledger_projection list \<Rightarrow> nat" where
  "count_status statuses requirements = length (filter (\<lambda>r. req_status r \<in> set statuses) requirements)"

definition requirement_counts :: "goal_report_inputs \<Rightarrow> requirement_counts_t" where
  "requirement_counts inputs =
     \<lparr>rcnt_supported = count_status [''supported'', ''validated'', ''reviewed''] (gri_requirements inputs),
      rcnt_blocked = count_status [''blocked''] (gri_requirements inputs),
      rcnt_contradicted = count_status [''contradicted''] (gri_requirements inputs)\<rparr>"

record rendered_goal_report =
  rgr_body :: string
  rgr_degraded :: bool

section \<open>Markdown\<close>

abbreviation nl :: string where "nl \<equiv> [CHR 0x0A]"
abbreviation dash :: string where "dash \<equiv> [CHR 0x20, CHR 0xE2, CHR 0x80, CHR 0x94, CHR 0x20]"

definition header_lines :: "goal_report_inputs \<Rightarrow> string" where
  "header_lines inputs =
     (let goal = gri_goal inputs; counts = requirement_counts inputs in
      ''# Goal report: '' @ goal_goal_id goal @ nl @ nl
      @ ''- Objective: '' @ goal_objective goal @ nl
      @ ''- Status: '' @ goal_status goal @ nl
      @ (case goal_parent_goal_id goal of
           Some parent \<Rightarrow> ''- Parent goal: '' @ parent @ nl
         | None \<Rightarrow> [])
      @ ''- Requirements: '' @ nat_to_string (length (gri_requirements inputs)) @ '' (''
      @ nat_to_string (rcnt_supported counts) @ '' supported, ''
      @ nat_to_string (rcnt_blocked counts) @ '' blocked, ''
      @ nat_to_string (rcnt_contradicted counts) @ '' contradicted)'' @ nl
      @ (if goal_blocker_reason goal \<noteq> [] then ''- Current blocker: '' @ goal_blocker_reason goal @ nl else [])
      @ (case gri_audit inputs of
           Some d \<Rightarrow> ''- Verdict: '' @ audit_verdict d @ '' ('' @ audit_reason d @ '')'' @ dash
             @ int_to_string (audit_requirements_complete d) @ ''/''
             @ int_to_string (audit_requirements_total d) @ '' requirements complete'' @ nl
         | None \<Rightarrow> ''- Verdict: not yet audited'' @ nl))"

definition requirement_line :: "requirement_ledger_projection \<Rightarrow> string" where
  "requirement_line r =
     ''- ['' @ req_status r @ ''] '' @ req_summary r @ '' ('' @ req_requirement_id r @ '')'' @ dash
     @ ''source: '' @ req_last_status_source r @ '' (''
     @ (if source_is_observed_evidence (req_last_status_source r) then ''observed'' else ''reported'')
     @ '')'' @ nl"

definition report_lines :: "goal_report_projection \<Rightarrow> string" where
  "report_lines r =
     (let provenance =
        (if report_is_observed_evidence r then ''observed''
         else ''reported (confidence ''
           @ (case grpt_confidence r of Some c \<Rightarrow> int_to_string c | None \<Rightarrow> ''n/a'') @ '')'')
      in ''- '' @ grpt_report_kind r @ '' ['' @ grpt_source r @ ''] '' @ grpt_summary r @ dash @ provenance @ nl
         @ (case grpt_body_artifact_id r of
              Some artifact \<Rightarrow> ''    - body artifact: '' @ artifact @ nl
            | None \<Rightarrow> []))"

definition evidence_line :: "evidence_projection \<Rightarrow> string" where
  "evidence_line e =
     ''- '' @ evid_evidence_id e @ '' (kind: '' @ evid_kind e @ '', confidence: ''
     @ int_to_string (evid_confidence e) @ '')'' @ nl"

definition continuation_line :: "goal_continuation_projection \<Rightarrow> string" where
  "continuation_line c = ''- '' @ cont_decision c @ dash @ cont_reason c @ nl"

definition delegated_line :: "delegated_provider_goal_projection \<Rightarrow> string" where
  "delegated_line d =
     ''- '' @ dpg_provider_kind d @ '': '' @ dpg_provider_state d @ '' ['' @ dpg_source d @ '']'' @ nl"

definition timeline_line :: "event_record \<Rightarrow> string" where
  "timeline_line e =
     ''- ['' @ int_to_string (ev_sequence e) @ ''] '' @ ev_kind e @ '' (actor '' @ ev_actor e @ '')''
     @ (if ev_redaction_state e \<noteq> ''safe'' then dash @ ''[redacted:'' @ ev_redaction_state e @ '']'' else [])
     @ nl"

definition section_of :: "string \<Rightarrow> string \<Rightarrow> ('a \<Rightarrow> string) \<Rightarrow> 'a list \<Rightarrow> string" where
  "section_of title empty_note line entries =
     nl @ title @ nl @ nl @ (if entries = [] then empty_note @ nl else []) @ concat (map line entries)"

definition optional_section :: "string \<Rightarrow> ('a \<Rightarrow> string) \<Rightarrow> 'a list \<Rightarrow> string" where
  "optional_section title line entries =
     (if entries = [] then [] else nl @ title @ nl @ nl @ concat (map line entries))"

definition timeline_degraded :: "event_record list \<Rightarrow> bool" where
  "timeline_degraded timeline \<longleftrightarrow> timeline = [] \<or> list_ex (\<lambda>e. ev_redaction_state e \<noteq> ''safe'') timeline"

definition render_goal_report_markdown :: "goal_report_inputs \<Rightarrow> rendered_goal_report" where
  "render_goal_report_markdown inputs =
     \<lparr>rgr_body =
        header_lines inputs
        @ section_of ''## Requirements'' ''_No requirements recorded._'' requirement_line (gri_requirements inputs)
        @ section_of ''## Story'' ''_No reports recorded._'' report_lines (gri_reports inputs)
        @ section_of ''## Observed evidence'' ''_No observed evidence recorded._'' evidence_line (gri_evidence inputs)
        @ optional_section ''## Continuation decisions'' continuation_line (gri_continuations inputs)
        @ optional_section ''## Delegated provider goals (observed, not authoritative)'' delegated_line
            (gri_delegated_provider_goals inputs)
        @ section_of ''## Timeline'' ''_No events recorded._'' timeline_line (gri_timeline inputs),
      rgr_degraded = timeline_degraded (gri_timeline inputs)\<rparr>"

section \<open>JSON\<close>

definition timeline_json :: "event_record \<Rightarrow> json" where
  "timeline_json e = json_object
     [(''sequence'', j_int (ev_sequence e)), (''event_id'', JString (ev_event_id e)),
      (''kind'', JString (ev_kind e)), (''actor'', JString (ev_actor e)),
      (''redaction_state'', JString (ev_redaction_state e))]"

definition verdict_json :: "goal_audit_decision_projection option \<Rightarrow> json" where
  "verdict_json d = (case d of None \<Rightarrow> JNull | Some d \<Rightarrow> json_object
     [(''verdict'', JString (audit_verdict d)), (''reason'', JString (audit_reason d)),
      (''requirements_total'', j_int (audit_requirements_total d)),
      (''requirements_complete'', j_int (audit_requirements_complete d))])"

definition requirement_json :: "requirement_ledger_projection \<Rightarrow> json" where
  "requirement_json r = json_object
     [(''requirement_id'', JString (req_requirement_id r)), (''summary'', JString (req_summary r)),
      (''status'', JString (req_status r)), (''last_status_source'', JString (req_last_status_source r)),
      (''observed'', JBool (source_is_observed_evidence (req_last_status_source r)))]"

definition report_json :: "goal_report_projection \<Rightarrow> json" where
  "report_json r = json_object
     [(''goal_report_id'', JString (grpt_goal_report_id r)),
      (''requirement_id'', j_opt_str (grpt_requirement_id r)),
      (''report_kind'', JString (grpt_report_kind r)), (''source'', JString (grpt_source r)),
      (''observed'', JBool (report_is_observed_evidence r)), (''confidence'', j_opt_int (grpt_confidence r)),
      (''summary'', JString (grpt_summary r)), (''body_artifact_id'', j_opt_str (grpt_body_artifact_id r)),
      (''evidence_id'', j_opt_str (grpt_evidence_id r))]"

definition evidence_json :: "evidence_projection \<Rightarrow> json" where
  "evidence_json e = json_object
     [(''evidence_id'', JString (evid_evidence_id e)), (''kind'', JString (evid_kind e)),
      (''confidence'', j_int (evid_confidence e))]"

definition continuation_json :: "goal_continuation_projection \<Rightarrow> json" where
  "continuation_json c = json_object
     [(''continuation_id'', JString (cont_continuation_id c)), (''decision'', JString (cont_decision c)),
      (''reason'', JString (cont_reason c))]"

definition delegated_json :: "delegated_provider_goal_projection \<Rightarrow> json" where
  "delegated_json d = json_object
     [(''delegated_goal_id'', JString (dpg_delegated_goal_id d)),
      (''provider_kind'', JString (dpg_provider_kind d)), (''provider_state'', JString (dpg_provider_state d)),
      (''source'', JString (dpg_source d))]"

definition goal_report_value :: "goal_report_inputs \<Rightarrow> json" where
  "goal_report_value inputs =
     (let goal = gri_goal inputs; counts = requirement_counts inputs in json_object
      [(''goal_id'', JString (goal_goal_id goal)),
       (''objective'', JString (goal_objective goal)),
       (''status'', JString (goal_status goal)),
       (''parent_goal_id'', j_opt_str (goal_parent_goal_id goal)),
       (''attempt_run_id'', j_opt_str (goal_attempt_run_id goal)),
       (''blocker_reason'', JString (goal_blocker_reason goal)),
       (''success_criteria_json'', JString (goal_success_criteria_json goal)),
       (''constraints_json'', JString (goal_constraints_json goal)),
       (''verification_surface_json'', JString (goal_verification_surface_json goal)),
       (''budget_json'', JString (goal_budget_json goal)),
       (''stop_conditions_json'', JString (goal_stop_conditions_json goal)),
       (''verdict'', verdict_json (gri_audit inputs)),
       (''requirement_counts'', json_object
         [(''total'', j_int (int (length (gri_requirements inputs)))),
          (''supported'', j_int (int (rcnt_supported counts))),
          (''blocked'', j_int (int (rcnt_blocked counts))),
          (''contradicted'', j_int (int (rcnt_contradicted counts)))]),
       (''requirements'', JArray (map requirement_json (gri_requirements inputs))),
       (''reports'', JArray (map report_json (gri_reports inputs))),
       (''observed_evidence'', JArray (map evidence_json (gri_evidence inputs))),
       (''continuations'', JArray (map continuation_json (gri_continuations inputs))),
       (''delegated_provider_goals'', JArray (map delegated_json (gri_delegated_provider_goals inputs))),
       (''timeline'', JArray (map timeline_json (gri_timeline inputs))),
       (''degraded'', JBool (timeline_degraded (gri_timeline inputs)))])"

text \<open>\<open>pretty\<close> is \<open>serde_json::to_string_pretty\<close>, which does not fail on a \<open>Value\<close>.\<close>

definition render_goal_report_json :: "(json \<Rightarrow> string) \<Rightarrow> goal_report_inputs \<Rightarrow> rendered_goal_report" where
  "render_goal_report_json pretty inputs =
     \<lparr>rgr_body = pretty (goal_report_value inputs), rgr_degraded = timeline_degraded (gri_timeline inputs)\<rparr>"

section \<open>What a report shows of an event\<close>

text \<open>The columns of an event a report may show.\<close>

definition public_part :: "event_record \<Rightarrow> int \<times> string \<times> string \<times> string \<times> string" where
  "public_part e = (ev_sequence e, ev_event_id e, ev_kind e, ev_actor e, ev_redaction_state e)"

lemma timeline_public:
  assumes "map public_part es = map public_part fs"
  shows "map timeline_line es = map timeline_line fs" "map timeline_json es = map timeline_json fs"
    "timeline_degraded es = timeline_degraded fs"
proof -
  have len: "length es = length fs" using assms by (metis length_map)
  have eq: "public_part (es ! i) = public_part (fs ! i)" if "i < length es" for i
    using assms that len by (metis nth_map)
  have "timeline_line e = timeline_line f" "timeline_json e = timeline_json f"
    if "public_part e = public_part f" for e f
    using that by (simp_all add: timeline_line_def timeline_json_def public_part_def)
  with eq have "timeline_line (es ! i) = timeline_line (fs ! i)" "timeline_json (es ! i) = timeline_json (fs ! i)"
    if "i < length es" for i using that by blast+
  then show "map timeline_line es = map timeline_line fs" "map timeline_json es = map timeline_json fs"
    using len by (simp_all add: list_eq_iff_nth_eq)
  have "list_ex (\<lambda>e. ev_redaction_state e \<noteq> ''safe'') es = list_ex (\<lambda>e. ev_redaction_state e \<noteq> ''safe'') fs"
    using len eq by (auto simp: list_ex_length public_part_def)
  with len show "timeline_degraded es = timeline_degraded fs"
    by (metis timeline_degraded_def length_0_conv)
qed

lemma render_public:
  assumes "map public_part es = map public_part fs"
  shows "render_goal_report_markdown (inputs\<lparr>gri_timeline := es\<rparr>)
      = render_goal_report_markdown (inputs\<lparr>gri_timeline := fs\<rparr>)"
    "render_goal_report_json pretty (inputs\<lparr>gri_timeline := es\<rparr>)
      = render_goal_report_json pretty (inputs\<lparr>gri_timeline := fs\<rparr>)"
proof -
  have "es = [] \<longleftrightarrow> fs = []" using assms by (metis map_is_Nil_conv)
  then have "section_of t n timeline_line es = section_of t n timeline_line fs" for t n
    using timeline_public(1) [OF assms] by (simp add: section_of_def)
  then show "render_goal_report_markdown (inputs\<lparr>gri_timeline := es\<rparr>)
      = render_goal_report_markdown (inputs\<lparr>gri_timeline := fs\<rparr>)"
    using timeline_public(3) [OF assms]
    by (simp add: render_goal_report_markdown_def header_lines_def requirement_counts_def Let_def)
  show "render_goal_report_json pretty (inputs\<lparr>gri_timeline := es\<rparr>)
      = render_goal_report_json pretty (inputs\<lparr>gri_timeline := fs\<rparr>)"
    using timeline_public(2,3) [OF assms]
    by (simp add: render_goal_report_json_def goal_report_value_def requirement_counts_def Let_def)
qed

end
