(* ===== verification/Text_Tools.thy ===== *)
theory Text_Tools
  imports Capo_Prelude
begin

text \<open>
  Text operations of the Rust standard library that several components share: character classes,
  white space at the front of UTF-8 text, trimming, splitting and replacing.
\<close>

section \<open>Character classes\<close>

definition byte_of :: "char \<Rightarrow> nat" where
  "byte_of c = of_char c"

definition is_ascii_digit :: "char \<Rightarrow> bool" where
  "is_ascii_digit c = (let n = byte_of c in 48 \<le> n \<and> n \<le> 57)"

definition is_ascii_uppercase :: "char \<Rightarrow> bool" where
  "is_ascii_uppercase c = (let n = byte_of c in 65 \<le> n \<and> n \<le> 90)"

definition is_ascii_lowercase :: "char \<Rightarrow> bool" where
  "is_ascii_lowercase c = (let n = byte_of c in 97 \<le> n \<and> n \<le> 122)"

definition is_ascii_alphabetic :: "char \<Rightarrow> bool" where
  "is_ascii_alphabetic c \<longleftrightarrow> is_ascii_uppercase c \<or> is_ascii_lowercase c"

definition is_ascii_alphanumeric :: "char \<Rightarrow> bool" where
  "is_ascii_alphanumeric c \<longleftrightarrow> is_ascii_digit c \<or> is_ascii_alphabetic c"

definition is_ascii_hexdigit :: "char \<Rightarrow> bool" where
  "is_ascii_hexdigit c =
     (let n = byte_of c in 48 \<le> n \<and> n \<le> 57 \<or> 65 \<le> n \<and> n \<le> 70 \<or> 97 \<le> n \<and> n \<le> 102)"

definition eq_ignore_ascii_case :: "string \<Rightarrow> string \<Rightarrow> bool" where
  "eq_ignore_ascii_case a b \<longleftrightarrow> to_ascii_lowercase a = to_ascii_lowercase b"

section \<open>White space\<close>

text \<open>
  \<open>char::is_whitespace\<close> on the first character of UTF-8 text: the number of bytes of that character
  if it has the Unicode property \<open>White_Space\<close>, and 0 otherwise.
\<close>

definition space1 :: "nat \<Rightarrow> bool" where
  "space1 b \<longleftrightarrow> b = 32 \<or> (9 \<le> b \<and> b \<le> 13)"

definition space2 :: "nat \<Rightarrow> nat \<Rightarrow> bool" where
  "space2 b c \<longleftrightarrow> b = 194 \<and> (c = 133 \<or> c = 160)"

definition space3 :: "nat \<Rightarrow> nat \<Rightarrow> nat \<Rightarrow> bool" where
  "space3 b c d \<longleftrightarrow>
     (b = 225 \<and> c = 154 \<and> d = 128)
     \<or> (b = 226 \<and> c = 128 \<and> ((128 \<le> d \<and> d \<le> 138) \<or> d = 168 \<or> d = 169 \<or> d = 175))
     \<or> (b = 226 \<and> c = 129 \<and> d = 159)
     \<or> (b = 227 \<and> c = 128 \<and> d = 128)"

fun space_bytes :: "nat list \<Rightarrow> nat" where
  "space_bytes [] = 0"
| "space_bytes [b] = (if space1 b then 1 else 0)"
| "space_bytes [b, c] = (if space1 b then 1 else if space2 b c then 2 else 0)"
| "space_bytes (b # c # d # bs) =
     (if space1 b then 1 else if space2 b c then 2 else if space3 b c d then 3 else 0)"

definition space_len :: "string \<Rightarrow> nat" where
  "space_len s = space_bytes (map byte_of s)"

lemma space_len_Nil [simp]: "space_len [] = 0"
  by (simp add: space_len_def)

lemma space_bytes_le: "space_bytes bs \<le> length bs"
  by (induction bs rule: space_bytes.induct) auto

lemma space_len_le: "space_len s \<le> length s"
  using space_bytes_le [of "map byte_of s"] by (simp add: space_len_def)

text \<open>More text behind a white-space character does not change it.\<close>

lemma space_bytes_append: "space_bytes bs > 0 \<Longrightarrow> space_bytes (bs @ cs) = space_bytes bs"
proof (induction bs rule: space_bytes.induct)
  case (2 b)
  then show ?case by (cases cs rule: space_bytes.cases) (auto split: if_splits)
next
  case (3 b c)
  then show ?case by (cases cs) (auto split: if_splits)
qed simp_all

lemma space_len_append: "space_len s > 0 \<Longrightarrow> space_len (s @ t) = space_len s"
  by (simp add: space_len_def space_bytes_append)

text \<open>
  The first byte of a white-space character is never a later byte of one, so text in front of white
  space is white space only on its own.
\<close>

definition space_start :: "nat \<Rightarrow> bool" where
  "space_start b \<longleftrightarrow> space1 b \<or> b \<in> {194, 225, 226, 227}"

lemma space_starts: "space_bytes (b # bs) > 0 \<Longrightarrow> space_start b"
  by (cases "b # bs" rule: space_bytes.cases)
    (auto simp: space_start_def space2_def space3_def split: if_splits)

lemma space_start_inside:
  assumes "space_start c"
  shows "\<not> space2 b c" "\<not> space3 b c d" "\<not> space3 a b c"
  using assms by (auto simp: space_start_def space1_def space2_def space3_def)

lemma space_bytes_before_space:
  assumes "space_bytes cs > 0" "bs \<noteq> []"
  shows "space_bytes (bs @ cs) = space_bytes bs"
proof -
  obtain c cs' where c: "cs = c # cs'" using assms(1) by (cases cs) auto
  then have "space_start c" using assms(1) space_starts by blast
  note inside = space_start_inside [OF this]
  show ?thesis
    using assms(2) unfolding c
  proof (induction bs rule: space_bytes.induct)
    case (2 b)
    then show ?case by (cases cs') (simp_all add: inside)
  qed (simp_all add: inside)
qed

lemma space_len_before_space: "space_len t > 0 \<Longrightarrow> s \<noteq> [] \<Longrightarrow> space_len (s @ t) = space_len s"
  by (simp add: space_len_def space_bytes_before_space)

text \<open>\<open>str::trim\<close>.\<close>

function trim_start :: "string \<Rightarrow> string" where
  "trim_start s = (if space_len s = 0 then s else trim_start (drop (space_len s) s))"
  by pat_completeness auto
termination
proof (relation "measure length")
  fix s :: string assume "space_len s \<noteq> 0"
  then show "(drop (space_len s) s, s) \<in> measure length" using space_len_le [of s] by simp
qed simp

declare trim_start.simps [simp del]

text \<open>The bytes of the white-space character a text ends with.\<close>

definition end_space_len :: "string \<Rightarrow> nat" where
  "end_space_len s =
     (case find (\<lambda>n. n \<le> length s \<and> space_len (drop (length s - n) s) = n) [1, 2, 3] of
        Some n \<Rightarrow> n | None \<Rightarrow> 0)"

lemma end_space_len_le: "end_space_len s \<le> length s"
  by (auto simp: end_space_len_def split: option.splits if_splits)

function trim_end :: "string \<Rightarrow> string" where
  "trim_end s = (if end_space_len s = 0 then s else trim_end (take (length s - end_space_len s) s))"
  by pat_completeness auto
termination
proof (relation "measure length")
  fix s :: string assume "end_space_len s \<noteq> 0"
  then show "(take (length s - end_space_len s) s, s) \<in> measure length" using end_space_len_le [of s] by simp
qed simp

declare trim_end.simps [simp del]

definition str_trim :: "string \<Rightarrow> string" where
  "str_trim s = trim_end (trim_start s)"

section \<open>Splitting\<close>

text \<open>\<open>str::trim_matches\<close> and \<open>str::split\<close> with a predicate on single bytes.\<close>

definition trim_matches :: "(char \<Rightarrow> bool) \<Rightarrow> string \<Rightarrow> string" where
  "trim_matches p s = rev (dropWhile p (rev (dropWhile p s)))"

fun split_on :: "(char \<Rightarrow> bool) \<Rightarrow> string \<Rightarrow> string list" where
  "split_on p [] = [[]]"
| "split_on p (c # cs) =
     (if p c then [] # split_on p cs
      else (case split_on p cs of [] \<Rightarrow> [[c]] | s # ss \<Rightarrow> (c # s) # ss))"

fun split_once :: "char \<Rightarrow> string \<Rightarrow> (string \<times> string) option" where
  "split_once p [] = None"
| "split_once p (c # cs) =
     (if c = p then Some ([], cs) else map_option (\<lambda>(a, b). (c # a, b)) (split_once p cs))"

lemma split_on_not_Nil [simp]: "split_on p s \<noteq> []"
  by (induction s) (auto split: list.splits)

lemma join_split:
  "join_with [d] (split_on (\<lambda>c. c = d) s) = s"
proof (induction s)
  case (Cons c cs)
  obtain t ts where ts: "split_on (\<lambda>c. c = d) cs = t # ts" by (cases "split_on (\<lambda>c. c = d) cs") auto
  with Cons show ?case by (cases ts) auto
qed simp

text \<open>\<open>str::replace\<close>: the occurrences of the pattern from the left, which do not overlap; the empty
  pattern occurs in front of every character and at the end.\<close>

definition is_continuation :: "char \<Rightarrow> bool" where
  "is_continuation c = (let n = byte_of c in 128 \<le> n \<and> n < 192)"

function replace_found :: "string \<Rightarrow> string \<Rightarrow> string \<Rightarrow> string" where
  "replace_found p t [] = []"
| "replace_found p t (c # cs) =
     (if p \<noteq> [] \<and> starts_with p (c # cs) then t @ replace_found p t (drop (length p) (c # cs))
      else c # replace_found p t cs)"
  by pat_completeness auto
termination
proof (relation "measure (\<lambda>(_, _, s). length s)")
  fix p t :: string and c cs assume "p \<noteq> [] \<and> starts_with p (c # cs)"
  then show "((p, t, drop (length p) (c # cs)), (p, t, c # cs)) \<in> measure (\<lambda>(_, _, s). length s)" by (cases p) auto
qed auto

definition str_replace :: "string \<Rightarrow> string \<Rightarrow> string \<Rightarrow> string" where
  "str_replace p t s =
     (if p = [] then concat (map (\<lambda>c. if is_continuation c then [c] else t @ [c]) s) @ t
      else replace_found p t s)"

end
