(* ===== verification/Server_Types.thy ===== *)
theory Server_Types
  imports Text_Tools Capo_Core Projection_Tables Permission_Policy
begin

text \<open>
  \<open>capo-server/src/types.rs\<close>: the commands a client sends, the responses it gets, and the errors in
  between, field by field; with the slug of \<open>util.rs\<close> that request ids are made of.  \<open>usize\<close>, \<open>u32\<close>
  and \<open>u64\<close> are natural numbers, whose bounds the codec states; typed ids are their strings.
\<close>

section \<open>Errors and origins\<close>

text \<open>A panic on a blank typed id is an error value of its own.\<close>

datatype (plugins only: code size) server_error =
    ServerState state_error
  | AdapterFixture string
  | UnknownAgent string
  | AgentHasNoActiveSession string
  | AgentAlreadyHasSession string string "string option"
  | SessionAlreadyExists string
  | RunAlreadyExists string
  | UnknownDispatchPlan string
  | UnknownSession string
  | RunSessionMismatch string string string
  | AdapterSessionMismatch string string string
  | UnsupportedChatAdapter string
  | UnknownGoal string
  | GoalCompleteNotALifecycleCommand string
  | IllegalGoalStatusTransition string string
  | ServerUnclassifiableReportSource string
  | InvalidRuntimeTargetField string string string
  | SubscribeFromSequenceAheadOfLog int int
  | InvalidRunnerReplayFrame string string string string
  | ServerPanic

datatype server_input_origin = FromCli | FromDashboard | FromMobile | FromVoice | FromApi | FromSystem

fun into_input_origin :: "server_input_origin \<Rightarrow> input_origin" where
  "into_input_origin FromCli = Cli"
| "into_input_origin FromDashboard = Dashboard"
| "into_input_origin FromMobile = Mobile"
| "into_input_origin FromVoice = Voice"
| "into_input_origin FromApi = Api"
| "into_input_origin FromSystem = System"

record server_client_origin =
  orig_client_id :: string
  orig_actor_id :: string
  orig_input_origin :: server_input_origin

section \<open>Commands\<close>

record runner_replay_frame =
  rrf_event_id :: string
  rrf_kind :: string
  rrf_session_id :: string
  rrf_idempotency_key :: string
  rrf_payload_json :: string
  rrf_redaction_state :: string

record continue_goal_conditions =
  cgc_enabled :: bool
  cgc_runtime_idle :: bool
  cgc_session_idle :: bool
  cgc_user_input_queued :: bool
  cgc_permission_pending :: bool
  cgc_capability_profile_valid :: bool
  cgc_next_step_writes_source :: bool
  cgc_checkpoint_boundary_available :: bool
  cgc_verification_runner_available :: bool
  cgc_last_continuation_made_no_progress :: bool
  cgc_strategy_changed_since_suppression :: bool
  cgc_budget_max_turns :: nat
  cgc_budget_timeout_seconds :: nat
  cgc_budget_max_token_cost :: nat
  cgc_budget_turns_taken :: nat
  cgc_budget_token_cost :: nat

record continue_goal_turn =
  cgt_agent_name :: string
  cgt_adapter :: string
  cgt_goal :: string
  cgt_workspace :: string
  cgt_artifacts :: string
  cgt_session_id :: string
  cgt_run_id :: string
  cgt_turn_id :: string
  cgt_capability_profile :: string
  cgt_runtime_scope :: string
  cgt_credential_scan_policy :: string
  cgt_raw_prompt_policy :: string
  cgt_raw_output_policy :: string
  cgt_tool_wrapper_policy :: string
  cgt_live_provider_opt_in :: bool
  cgt_live_execution_opt_in :: bool
  cgt_mock_runtime_opt_in :: bool
  cgt_mock_provider_output_name :: "string option"
  cgt_mock_provider_output_jsonl :: "string option"
  cgt_timeout_seconds :: nat
  cgt_max_turns :: nat
  cgt_max_token_cost :: nat
  cgt_turns_taken_before :: nat
  cgt_token_cost_before :: nat
  cgt_turn_token_cost :: nat
  cgt_unattended :: bool

record goal_requirement_spec =
  grs_requirement_id :: string
  grs_summary :: string

record goal_spec =
  gs_goal_id :: string
  gs_objective :: string
  gs_task_id :: "string option"
  gs_agent_id :: "string option"
  gs_session_id :: "string option"
  gs_parent_goal_id :: "string option"
  gs_attempt_run_id :: "string option"
  gs_requirements :: "goal_requirement_spec list"
  gs_success_criteria_json :: string
  gs_constraints_json :: string
  gs_verification_surface_json :: string
  gs_budget_json :: string
  gs_stop_conditions_json :: string

record requirement_status_record =
  rsr_requirement_id :: string
  rsr_goal_id :: string
  rsr_summary :: string
  rsr_status :: string
  rsr_source :: string

record goal_report_record =
  grc_goal_report_id :: string
  grc_goal_id :: string
  grc_session_id :: "string option"
  grc_requirement_id :: "string option"
  grc_report_kind :: string
  grc_source :: string
  grc_confidence :: "int option"
  grc_summary :: string
  grc_body_artifact_id :: "string option"
  grc_evidence_id :: "string option"

datatype goal_report_format = Markdown | JsonFormat

fun format_as_str :: "goal_report_format \<Rightarrow> string" where
  "format_as_str Markdown = ''markdown''"
| "format_as_str JsonFormat = ''json''"

text \<open>The variants with more than five fields carry them in a record.\<close>

record register_runtime_target_command =
  rrt_runtime_target_id :: string
  rrt_name :: string
  rrt_runner_kind :: string
  rrt_workspace_root :: string
  rrt_artifact_root :: string
  rrt_default_cwd :: string
  rrt_capability_profile_id :: string
  rrt_connectivity_endpoint_id :: "string option"
  rrt_status :: string

record replay_adapter_fixture_command =
  raf_adapter :: string
  raf_session_id :: string
  raf_run_id :: string
  raf_turn_id :: string
  raf_fixture_name :: string
  raf_fixture_jsonl :: string

record plan_dispatch_command =
  pld_agent_name :: string
  pld_adapter :: string
  pld_goal :: string
  pld_workspace :: string
  pld_artifacts :: string
  pld_session_id :: string
  pld_run_id :: string
  pld_turn_id :: string
  pld_deterministic_opt_in :: bool

record preflight_live_provider_command =
  plp_agent_name :: string
  plp_adapter :: string
  plp_goal :: string
  plp_workspace :: string
  plp_artifacts :: string
  plp_session_id :: string
  plp_run_id :: string
  plp_turn_id :: string
  plp_capability_profile :: string
  plp_runtime_scope :: string
  plp_credential_scan_policy :: string
  plp_raw_prompt_policy :: string
  plp_raw_output_policy :: string
  plp_tool_wrapper_policy :: string
  plp_live_provider_opt_in :: bool

record run_live_provider_local_command =
  rll_dispatch_plan_id :: string
  rll_goal :: string
  rll_live_execution_opt_in :: bool
  rll_mock_runtime_opt_in :: bool
  rll_mock_provider_output_name :: "string option"
  rll_mock_provider_output_jsonl :: "string option"
  rll_timeout_seconds :: nat
  rll_codex_program_override :: "string option"
  rll_unattended :: bool

record run_dispatch_turn_command =
  rdt_agent_name :: string
  rdt_adapter :: string
  rdt_goal :: string
  rdt_workspace :: string
  rdt_artifacts :: string
  rdt_session_id :: string
  rdt_run_id :: string
  rdt_turn_id :: string
  rdt_capability_profile :: string
  rdt_runtime_scope :: string
  rdt_credential_scan_policy :: string
  rdt_raw_prompt_policy :: string
  rdt_raw_output_policy :: string
  rdt_tool_wrapper_policy :: string
  rdt_live_provider_opt_in :: bool
  rdt_live_execution_opt_in :: bool
  rdt_mock_runtime_opt_in :: bool
  rdt_mock_provider_output_name :: "string option"
  rdt_mock_provider_output_jsonl :: "string option"
  rdt_timeout_seconds :: nat
  rdt_max_turns :: nat
  rdt_max_token_cost :: nat
  rdt_turns_taken_before :: nat
  rdt_token_cost_before :: nat
  rdt_turn_token_cost :: nat
  rdt_unattended :: bool

record run_acp_live_turn_local_command =
  rat_session_id :: string
  rat_run_id :: string
  rat_goal :: string
  rat_turn_id :: string
  rat_acp_program :: string
  rat_acp_argv :: "string list"
  rat_workspace_root :: "string option"
  rat_live_acp_opt_in :: bool
  rat_acp_session_mode :: "string option"
  rat_mcp_url :: "string option"
  rat_mcp_headers :: "(string \<times> string) list"
  rat_steer_window_secs :: nat

record run_conductor_turn_local_command =
  rct_session_id :: string
  rct_run_id :: string
  rct_turn_id :: string
  rct_user_message :: string
  rct_conductor_goal :: string
  rct_mcp_url :: string
  rct_mcp_headers :: "(string \<times> string) list"
  rct_acp_program :: string
  rct_acp_argv :: "string list"
  rct_acp_session_mode :: "string option"
  rct_live_acp_opt_in :: bool
  rct_conductor_lockdown :: bool

datatype (plugins only: code size) server_command =
    CmdRegisterAgent string string
  | CmdSendTask string string string
  | CmdSteerAgent string string
  | CmdInterruptAgent string string
  | CmdStopAgent string string
  | CmdListAgents
  | CmdAgentStatus string
  | CmdRegisterRuntimeTarget register_runtime_target_command
  | CmdDashboard nat
  | CmdStartSession string string string "string option" "string option"
  | CmdReplayAdapterFixture replay_adapter_fixture_command
  | CmdPlanDispatch plan_dispatch_command
  | CmdPreflightLiveProvider preflight_live_provider_command
  | CmdGateDispatch string
  | CmdRunDispatchLocal string string string
  | CmdRunLiveProviderLocal run_live_provider_local_command
  | CmdRunDispatchTurn run_dispatch_turn_command
  | CmdRunAcpLiveTurnLocal run_acp_live_turn_local_command
  | CmdRunConductorTurnLocal run_conductor_turn_local_command
  | CmdRecover
  | CmdSubscribe "string option" int
  | CmdReadThread string int
  | CmdSetGoal goal_spec
  | CmdPauseGoal string
  | CmdResumeGoal string
  | CmdBlockGoal string string
  | CmdClearGoal string string
  | CmdSetRequirementStatus requirement_status_record
  | CmdRecordGoalReport goal_report_record
  | CmdMarkGoalComplete string
  | CmdListGoals
  | CmdViewGoal string
  | CmdGoalStory string
  | CmdGoalTimeline string
  | CmdGoalEvidence string
  | CmdGoalValidations string
  | CmdGoalReviews string
  | CmdGoalRisks string
  | CmdGoalReport string goal_report_format
  | CmdContinueGoal string string continue_goal_conditions continue_goal_turn
  | CmdReplayRunnerEvents "runner_replay_frame list"

record server_request =
  sreq_request_id :: string
  sreq_origin :: server_client_origin
  sreq_command :: server_command

section \<open>Responses\<close>

record server_event =
  sev_sequence :: int
  sev_event_id :: string
  sev_kind :: string
  sev_actor :: string
  sev_project_id :: "string option"
  sev_task_id :: "string option"
  sev_agent_id :: "string option"
  sev_session_id :: "string option"
  sev_run_id :: "string option"
  sev_turn_id :: "string option"
  sev_item_id :: "string option"
  sev_payload_json :: string
  sev_redaction_state :: string

record subscription_backlog =
  sbl_session_id :: "string option"
  sbl_from_sequence :: int
  sbl_next_sequence :: int
  sbl_events :: "server_event list"

record server_thread_item =
  sti_sequence :: int
  sti_event_id :: string
  sti_kind :: string
  sti_event_kind :: string
  sti_item_ref :: "string option"
  sti_text :: "string option"
  sti_redaction_state :: string

record server_thread_turn =
  stt_turn_id :: string
  stt_status :: string
  stt_first_sequence :: int
  stt_last_sequence :: int
  stt_items :: "server_thread_item list"

record server_thread =
  sth_session_id :: string
  sth_from_sequence :: int
  sth_next_sequence :: int
  sth_turns :: "server_thread_turn list"

record runner_events_replayed_summary =
  rers_appended_sequences :: "int list"

record server_runtime_target_summary =
  srts_runtime_target_id :: string
  srts_name :: string
  srts_runner_kind :: string
  srts_status :: string
  srts_connectivity_endpoint_id :: "string option"
  srts_sequence :: int

record task_run_summary =
  trsm_task_id :: string
  trsm_agent_id :: string
  trsm_session_id :: string
  trsm_run_id :: string
  trsm_runtime_process_ref :: string
  trsm_external_session_ref :: string

record adapter_replay_summary =
  arsm_adapter :: string
  arsm_fixture_name :: string
  arsm_fixture_hash :: string
  arsm_agent_name :: string
  arsm_task_id :: string
  arsm_session_id :: string
  arsm_run_id :: string
  arsm_turn_id :: string
  arsm_provider_cli_executed :: bool
  arsm_raw_content_policy :: string
  arsm_input_event_count :: nat
  arsm_appended_event_count :: nat
  arsm_tool_event_count :: nat
  arsm_summary_event_count :: nat
  arsm_completed_turn_count :: nat

record acp_live_turn_summary =
  altm_session_id :: string
  altm_run_id :: string
  altm_turn_id :: string
  altm_workspace_root :: string
  altm_event_count :: nat
  altm_appended_event_count :: nat
  altm_stop_reason :: "string option"
  altm_reply_text :: "string option"

record recovery_summary =
  rcsm_recovery_attempt_id :: string
  rcsm_recovered_run_count :: nat
  rcsm_watermark :: "int option"

record live_provider_preflight_summary =
  lpps_dispatch_plan_id :: string
  lpps_dispatch_gate_id :: string
  lpps_execution_request_id :: string
  lpps_adapter :: string
  lpps_provider_kind :: string
  lpps_agent_name :: string
  lpps_session_id :: string
  lpps_run_id :: string
  lpps_capability_profile :: string
  lpps_runtime_scope :: string
  lpps_credential_scan_policy :: string
  lpps_raw_prompt_policy :: string
  lpps_raw_output_policy :: string
  lpps_tool_wrapper_policy :: string
  lpps_provider_cli_execution_allowed :: bool
  lpps_provider_cli_executed :: bool
  lpps_status :: string
  lpps_reasons :: string
  lpps_next_action :: string

record dispatch_plan_summary =
  dpls_dispatch_plan_id :: string
  dpls_prompt_source_id :: string
  dpls_adapter :: string
  dpls_agent_name :: string
  dpls_session_id :: string
  dpls_run_id :: string
  dpls_runtime_program :: string
  dpls_runtime_prompt_policy :: string
  dpls_raw_prompt_policy :: string
  dpls_provider_cli_executed :: bool
  dpls_status :: string

record dispatch_gate_summary =
  dgsm_dispatch_plan_id :: string
  dgsm_dispatch_gate_id :: string
  dgsm_execution_request_id :: string
  dgsm_materialization_id :: string
  dgsm_adapter :: string
  dgsm_provider_cli_execution_allowed :: bool
  dgsm_provider_cli_executed :: bool
  dgsm_status :: string
  dgsm_reasons :: string
  dgsm_raw_prompt_policy :: string

record dispatch_run_summary =
  drsm_dispatch_plan_id :: string
  drsm_dispatch_execution_id :: string
  drsm_adapter :: string
  drsm_session_id :: string
  drsm_run_id :: string
  drsm_provider_cli_execution_allowed :: bool
  drsm_provider_cli_executed :: bool
  drsm_status :: string
  drsm_runtime_process_ref :: "string option"
  drsm_credential_scan_status :: string
  drsm_raw_prompt_policy :: string
  drsm_raw_output_policy :: string
  drsm_reason_codes :: string
  drsm_input_event_count :: nat
  drsm_appended_event_count :: nat
  drsm_tool_event_count :: nat
  drsm_summary_event_count :: nat
  drsm_completed_turn_count :: nat
  drsm_observed_token_cost :: "nat option"

record turn_finished_summary =
  tfsm_turn_id :: string
  tfsm_stop_reason :: string
  tfsm_observed_terminal_event :: bool
  tfsm_summary_refs :: "string list"
  tfsm_observed_tool_refs :: "string list"

record dispatch_turn_summary =
  dtsm_run :: dispatch_run_summary
  dtsm_finished :: turn_finished_summary
  dtsm_ceiling_breach_code :: "string option"

record continuation_evaluated_summary =
  ces_goal_id :: string
  ces_continuation_id :: string
  ces_decision :: string
  ces_reason :: string
  ces_dispatched :: "dispatch_turn_summary option"

record session_summary =
  sesm_session_id :: string
  sesm_status :: string
  sesm_run_id :: "string option"
  sesm_run_status :: "string option"
  sesm_adapter_kind :: "string option"
  sesm_current_goal :: string
  sesm_latest_summary :: "string option"
  sesm_latest_blocker :: "string option"
  sesm_latest_confidence :: "int option"
  sesm_recent_event_count :: nat
  sesm_evidence_count :: nat
  sesm_evidence_refs :: "string list"
  sesm_review_finding_count :: nat
  sesm_task_outcome_report_count :: nat
  sesm_turn_count :: nat
  sesm_turn_ids :: "string list"
  sesm_latest_dispatch_plan_id :: "string option"
  sesm_latest_dispatch_gate_id :: "string option"
  sesm_latest_dispatch_execution_id :: "string option"
  sesm_dispatch_gate_status :: "string option"
  sesm_dispatch_gate_reasons :: "string option"
  sesm_dispatch_next_action :: "string option"
  sesm_dispatch_execution_status :: "string option"
  sesm_dispatch_runtime_process_ref :: "string option"
  sesm_dispatch_provider_cli_execution_allowed :: "bool option"
  sesm_dispatch_provider_cli_executed :: "bool option"
  sesm_dispatch_credential_scan_status :: "string option"
  sesm_dispatch_raw_prompt_policy :: "string option"
  sesm_dispatch_raw_output_policy :: "string option"
  sesm_tool_call_count :: nat
  sesm_tool_observation_count :: nat
  sesm_memory_packet_count :: nat

record agent_summary =
  agsm_agent_id :: string
  agsm_name :: string
  agsm_status :: string
  agsm_current_session_id :: "string option"
  agsm_session :: "session_summary option"

record server_dashboard_snapshot =
  sds_project_id :: string
  sds_agent_count :: nat
  sds_active_session_count :: nat
  sds_agents :: "agent_summary list"

record goal_status_summary =
  gss_goal_id :: string
  gss_objective :: string
  gss_status :: string
  gss_parent_goal_id :: "string option"
  gss_attempt_run_id :: "string option"
  gss_requirement_count :: nat
  gss_requirements_supported :: nat
  gss_blocked_requirement_count :: nat
  gss_contradicted_requirement_count :: nat
  gss_report_count :: nat
  gss_blocker_reason :: string
  gss_updated_sequence :: int

record goal_requirement_view =
  grv_requirement_id :: string
  grv_summary :: string
  grv_status :: string
  grv_last_status_source :: string
  grv_observed :: bool

record goal_report_view =
  gpv_goal_report_id :: string
  gpv_requirement_id :: "string option"
  gpv_report_kind :: string
  gpv_source :: string
  gpv_observed :: bool
  gpv_confidence :: "int option"
  gpv_summary :: string
  gpv_body_artifact_id :: "string option"
  gpv_evidence_id :: "string option"

record goal_continuation_view =
  gcv_continuation_id :: string
  gcv_decision :: string
  gcv_reason :: string
  gcv_attempt_run_id :: "string option"

record delegated_provider_goal_view =
  dpv_delegated_goal_id :: string
  dpv_provider_kind :: string
  dpv_provider_goal_ref :: "string option"
  dpv_provider_state :: string
  dpv_source :: string

record goal_view =
  gv_summary :: goal_status_summary
  gv_success_criteria_json :: string
  gv_constraints_json :: string
  gv_verification_surface_json :: string
  gv_budget_json :: string
  gv_stop_conditions_json :: string
  gv_task_id :: "string option"
  gv_agent_id :: "string option"
  gv_session_id :: "string option"
  gv_requirements :: "goal_requirement_view list"
  gv_reports :: "goal_report_view list"
  gv_continuations :: "goal_continuation_view list"
  gv_delegated_provider_goals :: "delegated_provider_goal_view list"

record goal_report_listing =
  grl_goal_id :: string
  grl_surface :: string
  grl_blocker_reason :: string
  grl_reports :: "goal_report_view list"

record goal_timeline_entry =
  gte_sequence :: int
  gte_event_id :: string
  gte_kind :: string
  gte_actor :: string
  gte_redaction_state :: string

record goal_timeline_view =
  gtv_goal_id :: string
  gtv_entries :: "goal_timeline_entry list"

record goal_report_rendering =
  grr_goal_id :: string
  grr_format :: string
  grr_body :: string
  grr_degraded :: bool

datatype (plugins only: code size) server_response_payload =
    PayAgentRegistered agent_summary
  | PayTaskSent task_run_summary
  | PayAgents "agent_summary list"
  | PayAgentStatus agent_summary
  | PayRuntimeTargetRegistered server_runtime_target_summary
  | PayDashboard server_dashboard_snapshot
  | PaySessionStarted task_run_summary
  | PayAdapterFixtureReplayed adapter_replay_summary
  | PayDispatchPlanned dispatch_plan_summary
  | PayLiveProviderPreflighted live_provider_preflight_summary
  | PayDispatchGated dispatch_gate_summary
  | PayDispatchRun dispatch_run_summary
  | PayDispatchTurn dispatch_turn_summary
  | PayAcpLiveTurn acp_live_turn_summary
  | PayRecovery recovery_summary
  | PaySubscribed subscription_backlog
  | PayThread server_thread
  | PayGoals "goal_status_summary list"
  | PayGoalView goal_view
  | PayGoalReports goal_report_listing
  | PayGoalTimeline goal_timeline_view
  | PayGoalReport goal_report_rendering
  | PayContinuationEvaluated continuation_evaluated_summary
  | PayRunnerEventsReplayed runner_events_replayed_summary

record server_response =
  rsp_request_id :: string
  rsp_client_id :: string
  rsp_actor_id :: string
  rsp_input_origin :: server_input_origin
  rsp_payload :: server_response_payload

section \<open>Slugs\<close>

text \<open>\<open>slug\<close>: runs of other characters become one dash, dashes at the ends are cut.\<close>

fun slug_chars :: "string \<Rightarrow> string \<Rightarrow> string" where
  "slug_chars acc [] = acc"
| "slug_chars acc (c # cs) =
     (if is_ascii_alphanumeric c then slug_chars (acc @ [ascii_lower c]) cs
      else if acc \<noteq> [] \<and> last acc = CHR ''-'' then slug_chars acc cs
      else slug_chars (acc @ ''-'') cs)"

definition trim_dashes :: "string \<Rightarrow> string" where
  "trim_dashes v = rev (dropWhile (\<lambda>c. c = CHR ''-'') (rev (dropWhile (\<lambda>c. c = CHR ''-'') v)))"

definition slug :: "string \<Rightarrow> string" where
  "slug value = trim_dashes (slug_chars [] value)"

end
