(* ===== verification/Goal_Commands.thy ===== *)
theory Goal_Commands
  imports Completion_Auditor Continuation_Scheduler Goal_Report Server_Types
begin

text \<open>
  \<open>capo-server/src/goal_commands.rs\<close>: the commands that create goals, move them through their
  lifecycle, record requirement statuses and reports, and the read surfaces built on them; with the
  pieces of \<open>util.rs\<close> and \<open>server_core.rs\<close> they use.  A command that panics on a
  blank identifier is an error value of its own.

  Continuing a goal drives a turn through the dispatch pipeline, which is not modelled; its decision is
  \<open>evaluate_and_record_continuation\<close>.
\<close>

section \<open>Server vocabulary\<close>

type_synonym 'a server_op = "store \<Rightarrow> (server_error, 'a) result \<times> store"

definition srv_return :: "'a \<Rightarrow> 'a server_op" where
  "srv_return a s = (Inr a, s)"

definition srv_fail :: "server_error \<Rightarrow> 'a server_op" where
  "srv_fail e s = (Inl e, s)"

definition srv_bind :: "'a server_op \<Rightarrow> ('a \<Rightarrow> 'b server_op) \<Rightarrow> 'b server_op" where
  "srv_bind m f s = (case m s of (Inl e, s') \<Rightarrow> (Inl e, s') | (Inr a, s') \<Rightarrow> f a s')"

definition srv_state :: "'a op \<Rightarrow> 'a server_op" where
  "srv_state m s = (case m s of (Inl e, s') \<Rightarrow> (Inl (ServerState e), s') | (Inr a, s') \<Rightarrow> (Inr a, s'))"

definition srv_read :: "(store \<Rightarrow> 'a) \<Rightarrow> 'a server_op" where
  "srv_read f s = (Inr (f s), s)"

definition srv_id :: "string \<Rightarrow> string server_op" where
  "srv_id value = (case typed_id_new value of Inl _ \<Rightarrow> srv_fail ServerPanic | Inr v \<Rightarrow> srv_return v)"

definition srv_opt_id :: "string option \<Rightarrow> string option server_op" where
  "srv_opt_id value = (case value of None \<Rightarrow> srv_return None
     | Some v \<Rightarrow> srv_bind (srv_id v) (\<lambda>i. srv_return (Some i)))"

record capo_server =
  srv_project_id :: string
  srv_controller :: controller

section \<open>Text helpers\<close>

text \<open>
  \<open>{:?}\<close> of an \<open>Option<String>\<close>: quotes, backslashes and control characters are escaped.  Bytes of
  non-ASCII characters are kept, as for every printable character.
\<close>

fun hex_digits :: "nat \<Rightarrow> string" where
  "hex_digits n = (if n < 16 then [hex_char n] else hex_digits (n div 16) @ [hex_char (n mod 16)])"

definition debug_char :: "char \<Rightarrow> string" where
  "debug_char c =
     (let n = of_char c :: nat in
      if n = 0x22 then [CHR 0x5C, CHR 0x22]
      else if n = 0x5C then [CHR 0x5C, CHR 0x5C]
      else if n = 0 then [CHR 0x5C, CHR ''0'']
      else if n = 9 then [CHR 0x5C, CHR ''t'']
      else if n = 10 then [CHR 0x5C, CHR ''n'']
      else if n = 13 then [CHR 0x5C, CHR ''r'']
      else if n < 32 \<or> n = 127 then [CHR 0x5C] @ ''u{'' @ hex_digits n @ ''}''
      else [c])"

definition debug_str :: "string \<Rightarrow> string" where
  "debug_str v = [CHR 0x22] @ concat (map debug_char v) @ [CHR 0x22]"

definition debug_opt_str :: "string option \<Rightarrow> string" where
  "debug_opt_str v = (case v of None \<Rightarrow> ''None'' | Some t \<Rightarrow> ''Some('' @ debug_str t @ '')'')"

definition debug_opt_int :: "int option \<Rightarrow> string" where
  "debug_opt_int v = (case v of None \<Rightarrow> ''None'' | Some i \<Rightarrow> ''Some('' @ int_to_string i @ '')'')"

section \<open>Recording that a request was handled\<close>

definition server_command_envelope ::
  "capo_server \<Rightarrow> string \<Rightarrow> server_client_origin \<Rightarrow> string \<Rightarrow> command_target \<Rightarrow> command_intent \<Rightarrow> string option
     \<Rightarrow> command_envelope" where
  "server_command_envelope srv request_id origin command_hash target intent opt_text =
     (let command = (command_envelope_new request_id (into_input_origin (orig_input_origin origin))
            (orig_actor_id origin) (srv_project_id srv) target intent)
            \<lparr>cmd_idempotency_key := ''server:'' @ orig_client_id origin @ '':'' @ orig_actor_id origin
               @ '':'' @ request_id @ '':'' @ command_hash\<rparr>
      in case opt_text of Some t \<Rightarrow> with_text command t | None \<Rightarrow> command)"

definition request_handled_event ::
  "serde \<Rightarrow> capo_server \<Rightarrow> command_envelope \<Rightarrow> server_client_origin \<Rightarrow> string \<Rightarrow> fake_run_refs option
     \<Rightarrow> (string \<times> json) list \<Rightarrow> new_event" where
  "request_handled_event sj srv command origin command_kind run extra_payload =
     (let event_id = ''event-server-request-'' @ slug (cmd_command_id command) @ ''-''
            @ stable_hash (cmd_idempotency_key command);
          payload = json_object
            ([(''request_id'', JString (cmd_command_id command)),
              (''client_id'', JString (orig_client_id origin)),
              (''actor_id'', JString (orig_actor_id origin)),
              (''input_origin'', JString (origin_debug (into_input_origin (orig_input_origin origin)))),
              (''command_kind'', JString command_kind),
              (''idempotency_key'', JString (cmd_idempotency_key command))] @ extra_payload)
      in (new_event_new event_id ServerRequestHandled (orig_actor_id origin))
           \<lparr>nev_project_id := Some (srv_project_id srv),
            nev_item_id := Some (cmd_command_id command),
            nev_idempotency_key := Some (cmd_idempotency_key command),
            nev_task_id := map_option refs_task_id run,
            nev_agent_id := map_option refs_agent_id run,
            nev_session_id := map_option refs_session_id run,
            nev_run_id := map_option refs_run_id run,
            nev_payload_json := to_text sj payload\<rparr>)"

definition record_server_request_handled ::
  "serde \<Rightarrow> capo_server \<Rightarrow> command_envelope \<Rightarrow> server_client_origin \<Rightarrow> string \<Rightarrow> fake_run_refs option
     \<Rightarrow> (string \<times> json) list \<Rightarrow> int op" where
  "record_server_request_handled sj srv command origin command_kind run extra_payload =
     append_event sj (request_handled_event sj srv command origin command_kind run extra_payload) []"

section \<open>Appending a goal event\<close>

definition goal_event ::
  "serde \<Rightarrow> capo_server \<Rightarrow> server_client_origin \<Rightarrow> event_kind \<Rightarrow> string \<Rightarrow> string option \<Rightarrow> string option \<Rightarrow> string
     \<Rightarrow> string \<Rightarrow> new_event" where
  "goal_event sj srv origin kind item_id session_id agent_id event_label discriminator =
     (new_event_new
        (''event-'' @ slug event_label @ ''-'' @ stable_hash (item_id @ '':'' @ discriminator))
        kind (orig_actor_id origin))
       \<lparr>nev_project_id := Some (srv_project_id srv),
        nev_agent_id := agent_id,
        nev_session_id := session_id,
        nev_item_id := Some item_id,
        nev_payload_json := to_text sj (json_object [(''kind'', JString event_label), (''item_id'', JString item_id)]),
        nev_idempotency_key := Some (event_label @ '':'' @ item_id @ '':'' @ discriminator),
        nev_redaction_state := Safe\<rparr>"

definition goal_request ::
  "capo_server \<Rightarrow> server_client_origin \<Rightarrow> string \<Rightarrow> string \<Rightarrow> string \<Rightarrow> command_envelope" where
  "goal_request srv origin item_id event_label discriminator =
     server_command_envelope srv
       (''goal-'' @ slug event_label @ ''-'' @ stable_hash (item_id @ '':'' @ discriminator)) origin
       (stable_hash (event_label @ '':'' @ item_id @ '':'' @ discriminator))
       (TargetProject (srv_project_id srv)) SendTask None"

definition append_goal_event ::
  "serde \<Rightarrow> capo_server \<Rightarrow> server_client_origin \<Rightarrow> event_kind \<Rightarrow> string \<Rightarrow> string option \<Rightarrow> string option \<Rightarrow> string
     \<Rightarrow> string \<Rightarrow> projection_record list \<Rightarrow> unit server_op" where
  "append_goal_event sj srv origin kind item_id session_id agent_id event_label discriminator records =
     srv_bind (srv_opt_id agent_id) (\<lambda>agent_id.
     srv_bind (srv_opt_id session_id) (\<lambda>session_id.
     srv_bind (srv_state (append_event sj
       (goal_event sj srv origin kind item_id session_id agent_id event_label discriminator) records)) (\<lambda>_.
     srv_bind (srv_state (record_server_request_handled sj srv
       (goal_request srv origin item_id event_label discriminator) origin event_label None [])) (\<lambda>_.
     srv_return ()))))"

section \<open>Reading goals\<close>

definition require_goal :: "string \<Rightarrow> goal_projection server_op" where
  "require_goal goal_id =
     srv_bind (srv_id goal_id) (\<lambda>i. srv_bind (srv_read (query_goal i)) (\<lambda>found.
       case found of Some goal \<Rightarrow> srv_return goal | None \<Rightarrow> srv_fail (UnknownGoal goal_id)))"

definition goal_status_summary_of :: "goal_projection \<Rightarrow> store \<Rightarrow> goal_status_summary" where
  "goal_status_summary_of goal s =
     (let requirements = requirement_ledgers_for_goal (goal_goal_id goal) s;
          reports = goal_reports_for_goal (goal_goal_id goal) s
      in \<lparr>gss_goal_id = goal_goal_id goal,
          gss_objective = goal_objective goal,
          gss_status = goal_status goal,
          gss_parent_goal_id = goal_parent_goal_id goal,
          gss_attempt_run_id = goal_attempt_run_id goal,
          gss_requirement_count = length requirements,
          gss_requirements_supported = count_status [''supported'', ''validated'', ''reviewed''] requirements,
          gss_blocked_requirement_count = count_status [''blocked''] requirements,
          gss_contradicted_requirement_count = count_status [''contradicted''] requirements,
          gss_report_count = length reports,
          gss_blocker_reason = goal_blocker_reason goal,
          gss_updated_sequence = goal_updated_sequence goal\<rparr>)"

definition source_is_observed :: "string \<Rightarrow> (server_error, bool) result" where
  "source_is_observed source =
     (if source_is_observed_evidence source then Inr True
      else if source = EVIDENCE_SOURCE_AGENT_REPORTED then Inr False
      else Inl (ServerUnclassifiableReportSource source))"

definition goal_requirement_view_of :: "requirement_ledger_projection \<Rightarrow> goal_requirement_view" where
  "goal_requirement_view_of l =
     \<lparr>grv_requirement_id = req_requirement_id l, grv_summary = req_summary l, grv_status = req_status l,
      grv_last_status_source = req_last_status_source l,
      grv_observed = (case source_is_observed (req_last_status_source l) of Inr b \<Rightarrow> b | Inl _ \<Rightarrow> False)\<rparr>"

definition goal_report_view_of :: "goal_report_projection \<Rightarrow> goal_report_view" where
  "goal_report_view_of r =
     \<lparr>gpv_goal_report_id = grpt_goal_report_id r, gpv_requirement_id = grpt_requirement_id r,
      gpv_report_kind = grpt_report_kind r, gpv_source = grpt_source r,
      gpv_observed = report_is_observed_evidence r, gpv_confidence = grpt_confidence r,
      gpv_summary = grpt_summary r, gpv_body_artifact_id = grpt_body_artifact_id r,
      gpv_evidence_id = grpt_evidence_id r\<rparr>"

definition goal_continuation_view_of :: "goal_continuation_projection \<Rightarrow> goal_continuation_view" where
  "goal_continuation_view_of c =
     \<lparr>gcv_continuation_id = cont_continuation_id c, gcv_decision = cont_decision c,
      gcv_reason = cont_reason c, gcv_attempt_run_id = cont_attempt_run_id c\<rparr>"

definition delegated_provider_goal_view_of :: "delegated_provider_goal_projection \<Rightarrow> delegated_provider_goal_view" where
  "delegated_provider_goal_view_of d =
     \<lparr>dpv_delegated_goal_id = dpg_delegated_goal_id d, dpv_provider_kind = dpg_provider_kind d,
      dpv_provider_goal_ref = dpg_provider_goal_ref d, dpv_provider_state = dpg_provider_state d,
      dpv_source = dpg_source d\<rparr>"

definition assemble_goal_view :: "string \<Rightarrow> goal_view server_op" where
  "assemble_goal_view goal_id =
     srv_bind (require_goal goal_id) (\<lambda>goal. srv_read (\<lambda>s.
       \<lparr>gv_summary = goal_status_summary_of goal s,
        gv_success_criteria_json = goal_success_criteria_json goal,
        gv_constraints_json = goal_constraints_json goal,
        gv_verification_surface_json = goal_verification_surface_json goal,
        gv_budget_json = goal_budget_json goal,
        gv_stop_conditions_json = goal_stop_conditions_json goal,
        gv_task_id = goal_task_id goal,
        gv_agent_id = goal_agent_id goal,
        gv_session_id = goal_session_id goal,
        gv_requirements = map goal_requirement_view_of (requirement_ledgers_for_goal goal_id s),
        gv_reports = map goal_report_view_of (goal_reports_for_goal goal_id s),
        gv_continuations = map goal_continuation_view_of (goal_continuations_for_goal goal_id s),
        gv_delegated_provider_goals =
          map delegated_provider_goal_view_of (delegated_provider_goals_for_goal goal_id s)\<rparr>))"

section \<open>Responses\<close>

definition response :: "string \<Rightarrow> server_client_origin \<Rightarrow> server_response_payload \<Rightarrow> server_response server_op" where
  "response request_id origin payload = srv_return
     \<lparr>rsp_request_id = request_id, rsp_client_id = orig_client_id origin, rsp_actor_id = orig_actor_id origin,
      rsp_input_origin = orig_input_origin origin, rsp_payload = payload\<rparr>"

definition goal_view_response :: "string \<Rightarrow> server_client_origin \<Rightarrow> string \<Rightarrow> server_response server_op" where
  "goal_view_response request_id origin goal_id =
     srv_bind (assemble_goal_view goal_id) (\<lambda>view. response request_id origin (PayGoalView view))"

section \<open>Commands that change goals\<close>

definition LIFECYCLE_STATUSES :: "string list" where
  "LIFECYCLE_STATUSES = [''active'', ''paused'', ''blocked'', ''cleared'']"

definition reject_complete_status :: "string \<Rightarrow> string \<Rightarrow> unit server_op" where
  "reject_complete_status goal_id status =
     (if status = ''complete'' then srv_fail (GoalCompleteNotALifecycleCommand goal_id)
      else if status \<notin> set LIFECYCLE_STATUSES then srv_fail (IllegalGoalStatusTransition goal_id status)
      else srv_return ())"

definition spec_content_fingerprint :: "goal_spec \<Rightarrow> string" where
  "spec_content_fingerprint spec =
     ''obj='' @ gs_objective spec
     @ ''|task='' @ debug_opt_str (gs_task_id spec)
     @ ''|agent='' @ debug_opt_str (gs_agent_id spec)
     @ ''|session='' @ debug_opt_str (gs_session_id spec)
     @ ''|parent='' @ debug_opt_str (gs_parent_goal_id spec)
     @ ''|run='' @ debug_opt_str (gs_attempt_run_id spec)
     @ ''|success='' @ gs_success_criteria_json spec
     @ ''|constraints='' @ gs_constraints_json spec
     @ ''|verification='' @ gs_verification_surface_json spec
     @ ''|budget='' @ gs_budget_json spec
     @ ''|stop='' @ gs_stop_conditions_json spec
     @ ''|reqs='' @ join_with '',''
         (sort (map (\<lambda>r. grs_requirement_id r @ ''='' @ grs_summary r) (gs_requirements spec)))"

definition existing_status_or_active :: "string \<Rightarrow> store \<Rightarrow> string" where
  "existing_status_or_active goal_id s =
     (case query_goal goal_id s of Some goal \<Rightarrow> goal_status goal | None \<Rightarrow> ''active'')"

definition goal_of_spec :: "capo_server \<Rightarrow> goal_spec \<Rightarrow> string \<Rightarrow> goal_projection" where
  "goal_of_spec srv spec status =
     \<lparr>goal_goal_id = gs_goal_id spec, goal_project_id = srv_project_id srv, goal_task_id = gs_task_id spec,
      goal_agent_id = gs_agent_id spec, goal_session_id = gs_session_id spec,
      goal_parent_goal_id = gs_parent_goal_id spec, goal_attempt_run_id = gs_attempt_run_id spec,
      goal_objective = gs_objective spec, goal_status = status,
      goal_success_criteria_json = gs_success_criteria_json spec,
      goal_constraints_json = gs_constraints_json spec,
      goal_verification_surface_json = gs_verification_surface_json spec,
      goal_budget_json = gs_budget_json spec, goal_stop_conditions_json = gs_stop_conditions_json spec,
      goal_blocker_reason = [], goal_updated_sequence = 0\<rparr>"

definition seeded_requirement ::
  "capo_server \<Rightarrow> goal_spec \<Rightarrow> goal_requirement_spec \<Rightarrow> requirement_ledger_projection" where
  "seeded_requirement srv spec requirement =
     \<lparr>req_requirement_id = grs_requirement_id requirement, req_goal_id = gs_goal_id spec,
      req_project_id = srv_project_id srv, req_summary = grs_summary requirement,
      req_status = ''unverified'', req_last_status_source = ''controller'', req_updated_sequence = 0\<rparr>"

definition unseeded_requirements :: "goal_spec \<Rightarrow> store \<Rightarrow> goal_requirement_spec list" where
  "unseeded_requirements spec s =
     filter (\<lambda>requirement. list_all (\<lambda>l. req_requirement_id l \<noteq> grs_requirement_id requirement)
         (requirement_ledgers_for_goal (gs_goal_id spec) s))
       (gs_requirements spec)"

fun srv_ids :: "string list \<Rightarrow> unit server_op" where
  "srv_ids [] = srv_return ()"
| "srv_ids (v # vs) = srv_bind (srv_id v) (\<lambda>_. srv_ids vs)"

definition handle_goal_command_set ::
  "serde \<Rightarrow> capo_server \<Rightarrow> string \<Rightarrow> server_client_origin \<Rightarrow> goal_spec \<Rightarrow> server_response server_op" where
  "handle_goal_command_set sj srv request_id origin spec =
     srv_bind (reject_complete_status (gs_goal_id spec) ''active'') (\<lambda>_.
     srv_bind (srv_id (gs_goal_id spec)) (\<lambda>_.
     srv_bind (srv_opt_id (gs_task_id spec)) (\<lambda>_.
     srv_bind (srv_opt_id (gs_agent_id spec)) (\<lambda>_.
     srv_bind (srv_opt_id (gs_session_id spec)) (\<lambda>_.
     srv_bind (srv_opt_id (gs_parent_goal_id spec)) (\<lambda>_.
     srv_bind (srv_opt_id (gs_attempt_run_id spec)) (\<lambda>_.
     srv_bind (srv_read (existing_status_or_active (gs_goal_id spec))) (\<lambda>status.
     srv_bind (srv_read (unseeded_requirements spec)) (\<lambda>new_requirements.
     srv_bind (srv_ids (map grs_requirement_id new_requirements)) (\<lambda>_.
     srv_bind (append_goal_event sj srv origin (GoalEvent GoalCreated) (gs_goal_id spec)
       (gs_session_id spec) (gs_agent_id spec) ''goal.created''
       (stable_hash (spec_content_fingerprint spec))
       (Goal (goal_of_spec srv spec status)
        # map (\<lambda>r. RequirementLedger (seeded_requirement srv spec r)) new_requirements)) (\<lambda>_.
     goal_view_response request_id origin (gs_goal_id spec))))))))))))"

definition handle_goal_lifecycle ::
  "serde \<Rightarrow> capo_server \<Rightarrow> string \<Rightarrow> server_client_origin \<Rightarrow> string \<Rightarrow> string \<Rightarrow> string \<Rightarrow> event_kind \<Rightarrow> string
     \<Rightarrow> server_response server_op" where
  "handle_goal_lifecycle sj srv request_id origin goal_id status blocker_reason kind event_label =
     srv_bind (require_goal goal_id) (\<lambda>goal.
     srv_bind (append_goal_event sj srv origin kind goal_id (goal_session_id goal) (goal_agent_id goal)
       event_label (status @ '':'' @ blocker_reason)
       [Goal (goal\<lparr>goal_status := status, goal_blocker_reason := blocker_reason, goal_updated_sequence := 0\<rparr>)])
     (\<lambda>_. goal_view_response request_id origin goal_id))"

text \<open>The four lifecycle commands, as the command router calls the handler.\<close>

datatype lifecycle_command = PauseGoal | ResumeGoal | BlockGoal string | ClearGoal string

fun lifecycle_status :: "lifecycle_command \<Rightarrow> string" where
  "lifecycle_status PauseGoal = ''paused''"
| "lifecycle_status ResumeGoal = ''active''"
| "lifecycle_status (BlockGoal _) = ''blocked''"
| "lifecycle_status (ClearGoal _) = ''cleared''"

fun lifecycle_reason :: "lifecycle_command \<Rightarrow> string" where
  "lifecycle_reason PauseGoal = []"
| "lifecycle_reason ResumeGoal = []"
| "lifecycle_reason (BlockGoal reason) = reason"
| "lifecycle_reason (ClearGoal reason) = reason"

fun lifecycle_kind :: "lifecycle_command \<Rightarrow> event_kind" where
  "lifecycle_kind PauseGoal = GoalEvent GoalPaused"
| "lifecycle_kind ResumeGoal = GoalEvent GoalResumed"
| "lifecycle_kind (BlockGoal _) = GoalEvent GoalBlocked"
| "lifecycle_kind (ClearGoal _) = GoalEvent GoalCleared"

fun lifecycle_label :: "lifecycle_command \<Rightarrow> string" where
  "lifecycle_label PauseGoal = ''goal.paused''"
| "lifecycle_label ResumeGoal = ''goal.resumed''"
| "lifecycle_label (BlockGoal _) = ''goal.blocked''"
| "lifecycle_label (ClearGoal _) = ''goal.cleared''"

definition run_lifecycle ::
  "serde \<Rightarrow> capo_server \<Rightarrow> string \<Rightarrow> server_client_origin \<Rightarrow> string \<Rightarrow> lifecycle_command \<Rightarrow> server_response server_op" where
  "run_lifecycle sj srv request_id origin goal_id command =
     handle_goal_lifecycle sj srv request_id origin goal_id (lifecycle_status command)
       (lifecycle_reason command) (lifecycle_kind command) (lifecycle_label command)"

definition is_known_requirement_status :: "string \<Rightarrow> bool" where
  "is_known_requirement_status status \<longleftrightarrow>
     status \<in> {''unverified'', ''supported'', ''validated'', ''reviewed'', ''blocked'', ''contradicted''}"

definition srv_result :: "(server_error, 'a) result \<Rightarrow> 'a server_op" where
  "srv_result r = (case r of Inl e \<Rightarrow> srv_fail e | Inr a \<Rightarrow> srv_return a)"

definition ledger_of_record :: "capo_server \<Rightarrow> requirement_status_record \<Rightarrow> requirement_ledger_projection" where
  "ledger_of_record srv rcd =
     \<lparr>req_requirement_id = rsr_requirement_id rcd, req_goal_id = rsr_goal_id rcd,
      req_project_id = srv_project_id srv, req_summary = rsr_summary rcd, req_status = rsr_status rcd,
      req_last_status_source = rsr_source rcd, req_updated_sequence = 0\<rparr>"

definition handle_set_requirement_status ::
  "serde \<Rightarrow> capo_server \<Rightarrow> string \<Rightarrow> server_client_origin \<Rightarrow> requirement_status_record \<Rightarrow> server_response server_op" where
  "handle_set_requirement_status sj srv request_id origin rcd =
     srv_bind (require_goal (rsr_goal_id rcd)) (\<lambda>_.
     srv_bind (srv_result (source_is_observed (rsr_source rcd))) (\<lambda>observed.
     if \<not> observed \<and> rsr_status rcd \<in> {''validated'', ''reviewed''}
     then srv_fail (IllegalGoalStatusTransition (rsr_goal_id rcd) (rsr_status rcd @ '':agent_reported''))
     else if \<not> is_known_requirement_status (rsr_status rcd)
     then srv_fail (IllegalGoalStatusTransition (rsr_goal_id rcd) (rsr_status rcd))
     else
       srv_bind (srv_id (rsr_requirement_id rcd)) (\<lambda>_.
       srv_bind (append_goal_event sj srv origin (GoalEvent RequirementStatusChanged)
         (rsr_requirement_id rcd) None None ''goal.requirement_status_changed''
         (rsr_status rcd @ '':'' @ rsr_source rcd) [RequirementLedger (ledger_of_record srv rcd)]) (\<lambda>_.
       goal_view_response request_id origin (rsr_goal_id rcd)))))"

definition report_content_fingerprint :: "goal_report_record \<Rightarrow> string" where
  "report_content_fingerprint report =
     ''goal='' @ grc_goal_id report
     @ ''|session='' @ debug_opt_str (grc_session_id report)
     @ ''|requirement='' @ debug_opt_str (grc_requirement_id report)
     @ ''|kind='' @ grc_report_kind report
     @ ''|source='' @ grc_source report
     @ ''|confidence='' @ debug_opt_int (grc_confidence report)
     @ ''|summary='' @ grc_summary report
     @ ''|artifact='' @ debug_opt_str (grc_body_artifact_id report)
     @ ''|evidence='' @ debug_opt_str (grc_evidence_id report)"

definition report_of_record :: "capo_server \<Rightarrow> bool \<Rightarrow> goal_report_record \<Rightarrow> goal_report_projection" where
  "report_of_record srv observed report =
     \<lparr>grpt_goal_report_id = grc_goal_report_id report, grpt_goal_id = grc_goal_id report,
      grpt_project_id = srv_project_id srv, grpt_session_id = grc_session_id report,
      grpt_requirement_id = grc_requirement_id report, grpt_report_kind = grc_report_kind report,
      grpt_source = grc_source report,
      grpt_confidence = (if observed then None else grc_confidence report),
      grpt_summary = grc_summary report, grpt_body_artifact_id = grc_body_artifact_id report,
      grpt_evidence_id = grc_evidence_id report, grpt_updated_sequence = 0\<rparr>"

definition handle_record_goal_report ::
  "serde \<Rightarrow> capo_server \<Rightarrow> string \<Rightarrow> server_client_origin \<Rightarrow> goal_report_record \<Rightarrow> server_response server_op" where
  "handle_record_goal_report sj srv request_id origin report =
     srv_bind (require_goal (grc_goal_id report)) (\<lambda>_.
     srv_bind (srv_result (source_is_observed (grc_source report))) (\<lambda>observed.
     srv_bind (srv_opt_id (grc_session_id report)) (\<lambda>_.
     srv_bind (srv_opt_id (grc_requirement_id report)) (\<lambda>_.
     srv_bind (srv_opt_id (grc_evidence_id report)) (\<lambda>_.
     srv_bind (append_goal_event sj srv origin (GoalEvent GoalReportRecorded) (grc_goal_report_id report)
       (grc_session_id report) None ''goal.report_recorded''
       (stable_hash (report_content_fingerprint report))
       [GoalReport (report_of_record srv observed report)]) (\<lambda>_.
     goal_view_response request_id origin (grc_goal_id report)))))))"

definition reject_mark_goal_complete :: "string \<Rightarrow> server_response server_op" where
  "reject_mark_goal_complete goal_id = srv_fail (GoalCompleteNotALifecycleCommand goal_id)"

section \<open>Commands that read goals\<close>

definition handle_list_goals :: "capo_server \<Rightarrow> string \<Rightarrow> server_client_origin \<Rightarrow> server_response server_op" where
  "handle_list_goals srv request_id origin =
     srv_bind (srv_read (\<lambda>s. map (\<lambda>goal. goal_status_summary_of goal s) (goals_for_project (srv_project_id srv) s)))
       (\<lambda>summaries. response request_id origin (PayGoals summaries))"

definition handle_view_goal :: "string \<Rightarrow> server_client_origin \<Rightarrow> string \<Rightarrow> server_response server_op" where
  "handle_view_goal request_id origin goal_id = goal_view_response request_id origin goal_id"

datatype goal_report_surface = Story | EvidenceSurface | Validations | Reviews | Risks

fun surface_label :: "goal_report_surface \<Rightarrow> string" where
  "surface_label Story = ''story''"
| "surface_label EvidenceSurface = ''evidence''"
| "surface_label Validations = ''validations''"
| "surface_label Reviews = ''reviews''"
| "surface_label Risks = ''risks''"

definition surface_matches :: "goal_report_surface \<Rightarrow> goal_report_projection \<Rightarrow> bool" where
  "surface_matches surface report =
     (let kind = to_ascii_lowercase (grpt_report_kind report) in
      case surface of
        Story \<Rightarrow> True
      | EvidenceSurface \<Rightarrow> report_is_observed_evidence report
      | Validations \<Rightarrow> str_contains kind ''validation'' \<or> str_contains kind ''validate''
      | Reviews \<Rightarrow> str_contains kind ''review''
      | Risks \<Rightarrow> str_contains kind ''blocker'' \<or> str_contains kind ''risk'' \<or> str_contains kind ''contradict'')"

definition handle_goal_report_listing ::
  "string \<Rightarrow> server_client_origin \<Rightarrow> string \<Rightarrow> goal_report_surface \<Rightarrow> server_response server_op" where
  "handle_goal_report_listing request_id origin goal_id surface =
     srv_bind (require_goal goal_id) (\<lambda>goal.
     srv_bind (srv_read (goal_reports_for_goal goal_id)) (\<lambda>reports.
     response request_id origin (PayGoalReports
       \<lparr>grl_goal_id = goal_id, grl_surface = surface_label surface,
        grl_blocker_reason = goal_blocker_reason goal,
        grl_reports = map goal_report_view_of (filter (surface_matches surface) reports)\<rparr>)))"

fun push_unseen :: "event_record list \<Rightarrow> event_record list \<Rightarrow> event_record list" where
  "push_unseen records [] = records"
| "push_unseen records (e # es) =
     (if list_ex (\<lambda>seen. ev_sequence seen = ev_sequence e) records then push_unseen records es
      else push_unseen (records @ [e]) es)"

definition goal_timeline_entries :: "goal_projection \<Rightarrow> store \<Rightarrow> event_record list" where
  "goal_timeline_entries goal s =
     (let records = (case goal_attempt_run_id goal of
            Some run_id \<Rightarrow> evidence_events_for_run run_id s
          | None \<Rightarrow> []);
          item_ids = goal_goal_id goal
            # map req_requirement_id (requirement_ledgers_for_goal (goal_goal_id goal) s)
            @ map grpt_goal_report_id (goal_reports_for_goal (goal_goal_id goal) s)
            @ map cont_continuation_id (goal_continuations_for_goal (goal_goal_id goal) s)
      in sort_key ev_sequence (push_unseen records (events_for_items item_ids s)))"

definition handle_goal_timeline :: "string \<Rightarrow> server_client_origin \<Rightarrow> string \<Rightarrow> server_response server_op" where
  "handle_goal_timeline request_id origin goal_id =
     srv_bind (require_goal goal_id) (\<lambda>goal.
     srv_bind (srv_read (goal_timeline_entries goal)) (\<lambda>records.
     response request_id origin (PayGoalTimeline \<lparr>gtv_goal_id = goal_id, gtv_entries =
       map (\<lambda>e. \<lparr>gte_sequence = ev_sequence e, gte_event_id = ev_event_id e, gte_kind = ev_kind e,
          gte_actor = ev_actor e, gte_redaction_state = ev_redaction_state e\<rparr>) records\<rparr>)))"

definition goal_report_inputs_of :: "goal_projection \<Rightarrow> string \<Rightarrow> store \<Rightarrow> goal_report_inputs" where
  "goal_report_inputs_of goal goal_id s =
     \<lparr>gri_goal = goal,
      gri_requirements = requirement_ledgers_for_goal goal_id s,
      gri_reports = goal_reports_for_goal goal_id s,
      gri_continuations = goal_continuations_for_goal goal_id s,
      gri_delegated_provider_goals = delegated_provider_goals_for_goal goal_id s,
      gri_evidence = (case goal_task_id goal of Some t \<Rightarrow> evidence_for_task t s | None \<Rightarrow> []),
      gri_audit = latest_goal_audit_decision goal_id s,
      gri_timeline = goal_timeline_entries goal s\<rparr>"

definition handle_goal_report_rendering ::
  "(json \<Rightarrow> string) \<Rightarrow> string \<Rightarrow> server_client_origin \<Rightarrow> string \<Rightarrow> goal_report_format \<Rightarrow> server_response server_op" where
  "handle_goal_report_rendering pretty request_id origin goal_id fmt =
     srv_bind (require_goal goal_id) (\<lambda>goal.
     srv_bind (srv_read (goal_report_inputs_of goal goal_id)) (\<lambda>inputs.
     (let rendered = (case fmt of
            Markdown \<Rightarrow> render_goal_report_markdown inputs
          | JsonFormat \<Rightarrow> render_goal_report_json pretty inputs)
      in response request_id origin (PayGoalReport
           \<lparr>grr_goal_id = goal_id, grr_format = format_as_str fmt, grr_body = rgr_body rendered,
            grr_degraded = rgr_degraded rendered\<rparr>))))"

end
