(* ===== verification/Goal_Ledger.thy ===== *)
theory Goal_Ledger
  imports Goal_Commands
begin

text \<open>
  Invariants of the goal commands.  The locale \<open>goal_client\<close> collects what an invariant of the store
  must satisfy to be kept by every goal command, the auditor and the scheduler; it is interpreted on
  well-formedness, on growth of the log and on the ledger invariant: goals are only ever active,
  paused, blocked or cleared, and a requirement is validated or reviewed only on an observed source.
\<close>

section \<open>Server operations\<close>

lemma srv_bind_Inr:
  "srv_bind m f s = (Inr b, t) \<longleftrightarrow> (\<exists>a u. m s = (Inr a, u) \<and> f a u = (Inr b, t))"
  by (auto simp: srv_bind_def split: prod.splits sum.splits)

lemma srv_simps [simp]:
  "srv_return a s = (Inr a, s)" "srv_fail e s = (Inl e, s)" "srv_read f s = (Inr (f s), s)"
  by (simp_all add: srv_return_def srv_fail_def srv_read_def)

lemma srv_bind_simps [simp]:
  "m s = (Inr a, u) \<Longrightarrow> srv_bind m f s = f a u"
  "m s = (Inl e, u) \<Longrightarrow> srv_bind m f s = (Inl e, u)"
  by (simp_all add: srv_bind_def)

lemma srv_id_cases: "srv_id v s = (if id_ok v then (Inr v, s) else (Inl ServerPanic, s))"
  by (simp add: srv_id_def typed_id_new_def id_ok_def)

lemma srv_opt_id_cases: "srv_opt_id v s = (if opt_all id_ok v then (Inr v, s) else (Inl ServerPanic, s))"
  by (cases v) (simp_all add: srv_opt_id_def srv_bind_def srv_id_cases)

lemma srv_id_keeps [simp]: "snd (srv_id v s) = s"
  by (simp add: srv_id_cases)

lemma srv_opt_id_keeps [simp]: "snd (srv_opt_id v s) = s"
  by (simp add: srv_opt_id_cases)

lemma srv_ids_keeps [simp]: "snd (srv_ids vs s) = s"
  by (induction vs arbitrary: s) (auto simp: srv_bind_def srv_id_cases)

lemma srv_result_keeps [simp]: "snd (srv_result r s) = s"
  by (simp add: srv_result_def split: sum.splits)

lemma srv_state_keeps [simp]: "snd (srv_state m s) = snd (m s)"
  by (simp add: srv_state_def split: prod.splits sum.splits)

text \<open>A property of the state is kept by a sequence when it is kept by its parts.\<close>

lemma srv_bind_keeps:
  assumes "P (snd (m s))" "\<And>a t. m s = (Inr a, t) \<Longrightarrow> P t \<Longrightarrow> P (snd (f a t))"
  shows "P (snd (srv_bind m f s))"
  using assms by (auto simp: srv_bind_def split: prod.splits sum.splits)

lemma require_goal_keeps [simp]: "snd (require_goal i s) = s"
  by (simp add: require_goal_def srv_bind_def srv_id_cases split: option.splits)

lemma require_goal_Inr: "require_goal i s = (Inr g, t) \<longleftrightarrow> t = s \<and> id_ok i \<and> query_goal i s = Some g"
  by (auto simp: require_goal_def srv_bind_def srv_id_cases split: option.splits if_splits)

lemma goal_view_keeps [simp]: "snd (goal_view_response r o' i s) = s"
  by (simp add: goal_view_response_def assemble_goal_view_def response_def srv_bind_def split: prod.splits sum.splits)
    (metis require_goal_keeps snd_conv)

section \<open>What every goal command keeps\<close>

locale goal_client =
  fixes sj :: serde and inv :: "store \<Rightarrow> bool" and ok :: "projection_record \<Rightarrow> bool"
  assumes append_keeps: "inv s \<Longrightarrow> list_all ok rs \<Longrightarrow> inv (snd (append_event sj e rs s))"
    and lifecycle_ok:
      "inv s \<Longrightarrow> query_goal i s = Some g \<Longrightarrow> status \<in> set LIFECYCLE_STATUSES \<Longrightarrow>
         ok (Goal (g\<lparr>goal_status := status, goal_blocker_reason := reason, goal_updated_sequence := 0\<rparr>))"
    and spec_ok: "inv s \<Longrightarrow> ok (Goal (goal_of_spec srv spec (existing_status_or_active i s)))"
    and seeded_ok: "ok (RequirementLedger (seeded_requirement srv spec r))"
    and ledger_ok:
      "(rsr_status rcd \<in> {''validated'', ''reviewed''} \<Longrightarrow> source_is_observed_evidence (rsr_source rcd)) \<Longrightarrow>
         ok (RequirementLedger (ledger_of_record srv rcd))"
    and report_ok: "ok (GoalReport p)"
    and decision_ok: "ok (GoalAuditDecision d)" "ok (GoalContinuation c)"
    and run_ok: "ok (Task t)" "ok (Agent a)" "ok (Session ss)" "ok (Run r')"
begin

lemma append_goal_event_keeps:
  assumes "inv s" "list_all ok rs"
  shows "inv (snd (append_goal_event sj srv org kind item ses agt label disc rs s))"
proof -
  have handled: "inv t \<Longrightarrow> inv (snd (record_server_request_handled sj srv c org k r x t))" for c k r x t
    by (simp add: record_server_request_handled_def append_keeps)
  show ?thesis
    unfolding append_goal_event_def
    by (intro srv_bind_keeps [where P = inv]) (simp_all add: assms append_keeps handled)
qed

lemma set_goal_keeps:
  assumes "inv s"
  shows "inv (snd (handle_goal_command_set sj srv rid org spec s))"
  unfolding handle_goal_command_set_def
proof (intro srv_bind_keeps [where P = inv])
  show "inv (snd (reject_complete_status (gs_goal_id spec) ''active'' s))"
    using assms by (simp add: reject_complete_status_def)
qed (auto simp: append_goal_event_keeps spec_ok seeded_ok list_all_iff)


lemma lifecycle_keeps:
  assumes "inv s"
  shows "inv (snd (run_lifecycle sj srv rid org i c s))"
proof -
  have "lifecycle_status c \<in> set LIFECYCLE_STATUSES" by (cases c) (simp_all add: LIFECYCLE_STATUSES_def)
  then show ?thesis
    unfolding run_lifecycle_def handle_goal_lifecycle_def
    by (intro srv_bind_keeps [where P = inv]) (auto simp: assms require_goal_Inr intro!: append_goal_event_keeps lifecycle_ok [OF assms])
qed

lemma source_is_observed_Inr:
  "source_is_observed src = Inr b \<Longrightarrow> b \<longleftrightarrow> source_is_observed_evidence src"
  by (simp add: source_is_observed_def split: if_splits)

lemma requirement_keeps:
  assumes "inv s"
  shows "inv (snd (handle_set_requirement_status sj srv rid org rcd s))"
proof -
  have ok: "ok (RequirementLedger (ledger_of_record srv rcd))"
    if "srv_result (source_is_observed (rsr_source rcd)) t = (Inr b, u)"
      "b \<or> rsr_status rcd \<notin> {''validated'', ''reviewed''}" for b t u
    using that source_is_observed_Inr [of "rsr_source rcd" b]
    by (intro ledger_ok) (auto simp: srv_result_def split: sum.splits)
  show ?thesis
    unfolding handle_set_requirement_status_def
    by (intro srv_bind_keeps [where P = inv])
      (auto simp: assms intro!: srv_bind_keeps [where P = inv] append_goal_event_keeps intro: ok)
qed

lemma record_report_keeps:
  "inv s \<Longrightarrow> inv (snd (handle_record_goal_report sj srv rid org rcd s))"
  unfolding handle_record_goal_report_def
  by (intro srv_bind_keeps [where P = inv]) (auto simp: append_goal_event_keeps report_ok)

lemma audit_keeps: "inv s \<Longrightarrow> inv (snd (audit_and_record_goal_completion sj ctl i a s))"
  by (simp add: audit_and_record_goal_completion_def Let_def append_keeps decision_ok split: option.splits)

lemma require_row_keeps: "snd (require_row k i q s) = s"
  by (simp add: require_row_def split: option.splits)

lemma abort_keeps: "inv s \<Longrightarrow> inv (snd (abort_run_for_ceiling sj ctl refs turn b s))"
  unfolding abort_run_for_ceiling_def
  by (intro op_bind_keeps [where I = inv])
    (simp_all add: require_row_keeps append_keeps aborted_records_def run_ok Let_def op_return_def)

lemma continuation_keeps:
  "inv s \<Longrightarrow> inv (snd (evaluate_and_record_continuation sj ctl i c cond scope refs s))"
  unfolding evaluate_and_record_continuation_def evaluate_continuation_def
  by (intro op_bind_keeps [where I = inv])
    (auto simp: require_row_keeps append_keeps decision_ok op_return_def abort_if_exhausted_def abort_keeps
      split: option.splits prod.splits)

end

interpretation wfg: goal_client sj store_wf "\<lambda>_. True" for sj
  by unfold_locales (simp_all add: store_wf_append)

interpretation extg: goal_client sj "extends_log s0" "\<lambda>_. True" for sj s0
  by unfold_locales (auto intro: extends_log_trans [OF _ append_extends])

section \<open>The ledger invariant\<close>

definition ledger_record_ok :: "projection_record \<Rightarrow> bool" where
  "ledger_record_ok r =
     (case r of
        Goal g \<Rightarrow> goal_status g \<in> set LIFECYCLE_STATUSES
      | RequirementLedger q \<Rightarrow>
          req_status q \<in> {''validated'', ''reviewed''} \<longrightarrow> source_is_observed_evidence (req_last_status_source q)
      | _ \<Rightarrow> True)"

definition ledger_inv :: "store \<Rightarrow> bool" where
  "ledger_inv s \<longleftrightarrow> store_wf s \<and> (\<forall>t k r. (k, r) \<in> set (st_tables s t) \<longrightarrow> ledger_record_ok r)"

text \<open>After applying records, a row is an old one or one of the records.\<close>

lemma row_effect_cases:
  assumes "(k, x) \<in> set (row_effect n r db t)"
  shows "(k, x) \<in> set (db t) \<or> x = with_sequence n r"
proof (cases "is_reset r")
  case True
  then obtain p where "r = WorkpadIndexReset p" by (cases r) simp_all
  with assms show ?thesis by (auto simp: row_effect_def delete_where_def split: if_splits)
next
  case False
  with assms set_update_subset [of "key_of r" "with_sequence n r" "db t"] show ?thesis
    by (auto simp: row_effect_upsert upsert_def split: if_splits)
qed

lemma fold_effect_cases:
  "(k, x) \<in> set (fold (row_effect n) rs db t) \<Longrightarrow>
     (k, x) \<in> set (db t) \<or> (\<exists>r\<in>set rs. x = with_sequence n r)"
proof (induction rs arbitrary: db)
  case (Cons r rs)
  then have "(k, x) \<in> set (row_effect n r db t) \<or> (\<exists>r\<in>set rs. x = with_sequence n r)" by simp
  then show ?case using row_effect_cases [of k x n r db t] by auto
qed simp

lemma append_row_cases:
  assumes "(k, x) \<in> set (st_tables (snd (append_event sj e rs s)) t)"
  shows "(k, x) \<in> set (st_tables s t) \<or> (\<exists>r\<in>set rs. x = with_sequence (st_sequence s + 1) r)"
  by (rule append_event_outcome [of e s sj rs]) (use assms fold_effect_cases in \<open>auto\<close>)

lemma ledger_record_ok_sequence [simp]: "ledger_record_ok (with_sequence n r) = ledger_record_ok r"
  by (cases r) (simp_all add: ledger_record_ok_def)

lemma ledger_append:
  assumes "ledger_inv s" "list_all ledger_record_ok rs"
  shows "ledger_inv (snd (append_event sj e rs s))"
  unfolding ledger_inv_def
proof (intro conjI allI impI)
  show "store_wf (snd (append_event sj e rs s))" using assms(1) by (simp add: ledger_inv_def store_wf_append)
next
  fix t k r assume "(k, r) \<in> set (st_tables (snd (append_event sj e rs s)) t)"
  from append_row_cases [OF this] assms show "ledger_record_ok r"
    by (auto simp: ledger_inv_def list_all_iff)
qed

lemma goal_lookup: "query_goal i s = Some g \<longleftrightarrow> lookup (st_tables s) ''goals'' [i] = Some (Goal g)"
  by (auto simp: query_goal_def split: option.splits projection_record.splits)

lemma ledger_goal_status:
  assumes "ledger_inv s" "query_goal i s = Some g"
  shows "goal_status g \<in> set LIFECYCLE_STATUSES"
proof -
  have "([i], Goal g) \<in> set (st_tables s ''goals'')"
    using assms(2) by (simp add: goal_lookup lookup_def map_of_SomeD)
  with assms(1) have "ledger_record_ok (Goal g)" by (auto simp: ledger_inv_def)
  then show ?thesis by (simp add: ledger_record_ok_def)
qed

interpretation ledg: goal_client sj ledger_inv ledger_record_ok for sj
proof unfold_locales
  fix s i srv spec
  assume "ledger_inv s"
  then have "existing_status_or_active i s \<in> set LIFECYCLE_STATUSES"
    using ledger_goal_status [of s i] by (auto simp: existing_status_or_active_def LIFECYCLE_STATUSES_def split: option.splits)
  then show "ledger_record_ok (Goal (goal_of_spec srv spec (existing_status_or_active i s)))"
    by (simp add: ledger_record_ok_def goal_of_spec_def)
qed (simp_all add: ledger_append ledger_record_ok_def seeded_requirement_def ledger_of_record_def)

end
