(* ===== verification/Goal_Effects.thy ===== *)
theory Goal_Effects
  imports Goal_Ledger
begin

text \<open>
  What the goal commands do to the store: the two appends of a command, what happens when a command is
  issued again, how reports enter the audit, and the rows an aborted run leaves.
\<close>

section \<open>The two appends of a goal command\<close>

abbreviation handled_event ::
  "serde \<Rightarrow> capo_server \<Rightarrow> server_client_origin \<Rightarrow> string \<Rightarrow> string \<Rightarrow> string \<Rightarrow> new_event" where
  "handled_event sj srv org item label disc \<equiv>
     request_handled_event sj srv (goal_request srv org item label disc) org label None []"

lemma goal_event_keys [simp]:
  "nev_project_id (goal_event sj srv org kind item ses agt label disc) = Some (srv_project_id srv)"
  "nev_idempotency_key (goal_event sj srv org kind item ses agt label disc) = Some (label @ '':'' @ item @ '':'' @ disc)"
  "nev_event_id (goal_event sj srv org kind item ses agt label disc)
     = ''event-'' @ slug label @ ''-'' @ stable_hash (item @ '':'' @ disc)"
  by (simp_all add: goal_event_def new_event_new_def)

lemma handled_event_keys [simp]:
  "nev_project_id (handled_event sj srv org item label disc) = Some (srv_project_id srv)"
  "nev_idempotency_key (handled_event sj srv org item label disc) =
     Some (''server:'' @ orig_client_id org @ '':'' @ orig_actor_id org @ '':''
       @ (''goal-'' @ slug label @ ''-'' @ stable_hash (item @ '':'' @ disc)) @ '':''
       @ stable_hash (label @ '':'' @ item @ '':'' @ disc))"
  "\<exists>x. nev_event_id (handled_event sj srv org item label disc) = ''event-server-request-'' @ x"
  by (simp_all add: request_handled_event_def goal_request_def server_command_envelope_def command_envelope_new_def
      new_event_new_def Let_def)

lemma srv_state_Inr: "srv_state m s = (Inr a, t) \<longleftrightarrow> m s = (Inr a, t)"
  by (simp add: srv_state_def split: prod.splits sum.splits)

lemma append_goal_event_Inr:
  "append_goal_event sj srv org kind item ses agt label disc rs s = (Inr x, t) \<longleftrightarrow>
     opt_all id_ok agt \<and> opt_all id_ok ses
     \<and> (\<exists>n u m. append_event sj (goal_event sj srv org kind item ses agt label disc) rs s = (Inr n, u)
          \<and> append_event sj (handled_event sj srv org item label disc) [] u = (Inr m, t))"
  unfolding append_goal_event_def srv_bind_Inr
  by (auto simp: srv_opt_id_cases srv_state_Inr record_server_request_handled_def split: if_splits)

lemma same_key_known:
  assumes "find_idempotent e s = Some n" "nev_project_id f = nev_project_id e"
    "nev_idempotency_key f = nev_idempotency_key e"
  shows "find_idempotent f s = Some n"
  using assms by (simp add: find_idempotent_def)

text \<open>Issued again, a command whose discriminator was seen before appends nothing.\<close>

lemma append_goal_event_again:
  assumes "append_goal_event sj srv org kind item ses agt label disc rs s = (Inr x, t)" "extends_log t u"
    and "opt_all id_ok agt'" "opt_all id_ok ses'"
  shows "append_goal_event sj srv org kind' item ses' agt' label disc rs' u = (Inr (), u)"
proof -
  obtain n m v where one: "append_event sj (goal_event sj srv org kind item ses agt label disc) rs s = (Inr n, v)"
    and two: "append_event sj (handled_event sj srv org item label disc) [] v = (Inr m, t)"
    using assms(1) by (auto simp: append_goal_event_Inr)
  have vu: "extends_log v u"
    using extends_log_trans [OF append_extends] assms(2) two by (metis snd_conv)
  have "find_idempotent (goal_event sj srv org kind item ses agt label disc) u = Some n"
    by (rule find_idempotent_extends [OF append_event_recorded [OF _ _ one] vu]) simp_all
  then have "find_idempotent (goal_event sj srv org kind' item ses' agt' label disc) u = Some n"
    by (rule same_key_known) simp_all
  moreover have "find_idempotent (handled_event sj srv org item label disc) u = Some m"
    by (rule find_idempotent_extends [OF append_event_recorded [OF _ _ two] assms(2)]) simp_all
  ultimately show ?thesis
    using assms(3,4) by (auto simp: append_goal_event_Inr append_event_known)
qed

text \<open>A command with a new discriminator commits its records.\<close>

definition unrecorded :: "new_event \<Rightarrow> store \<Rightarrow> bool" where
  "unrecorded e s \<longleftrightarrow> find_idempotent e s = None \<and> \<not> event_id_taken (nev_event_id e) s"

lemma unrecorded_open [simp]: "unrecorded e store_open"
  by (simp add: unrecorded_def find_idempotent_def event_id_taken_def store_open_def)

lemma unrecorded_committed:
  assumes "unrecorded e s" "nev_event_id e \<noteq> nev_event_id f" "nev_idempotency_key e \<noteq> nev_idempotency_key f"
  shows "unrecorded e (committed_store sj f rs s)"
proof -
  have "find P (xs @ [y]) = None \<longleftrightarrow> find P xs = None \<and> \<not> P y" for P and xs :: "event_record list" and y
    by (auto simp: find_None_iff)
  with assms show ?thesis
    by (auto simp: unrecorded_def find_idempotent_def event_id_taken_def same_idempotency_def
        committed_event_record_def split: option.splits)
qed

definition goal_command_store ::
  "serde \<Rightarrow> capo_server \<Rightarrow> server_client_origin \<Rightarrow> event_kind \<Rightarrow> string \<Rightarrow> string option \<Rightarrow> string option \<Rightarrow> string
     \<Rightarrow> string \<Rightarrow> projection_record list \<Rightarrow> store \<Rightarrow> store" where
  "goal_command_store sj srv org kind item ses agt label disc rs s =
     committed_store sj (handled_event sj srv org item label disc) []
       (committed_store sj (goal_event sj srv org kind item ses agt label disc) rs s)"

lemma append_goal_event_commits:
  assumes "opt_all id_ok agt" "opt_all id_ok ses"
    and "unrecorded (goal_event sj srv org kind item ses agt label disc) s"
    and "unrecorded (handled_event sj srv org item label disc) s"
    and "starts_with ''goal'' (slug label)" "starts_with ''goal'' label"
    and "st_sequence s + 2 < 2 ^ 63" "list_all (json_columns_ok sj) rs"
  shows "append_goal_event sj srv org kind item ses agt label disc rs s
      = (Inr (), goal_command_store sj srv org kind item ses agt label disc rs s)"
proof -
  let ?g = "goal_event sj srv org kind item ses agt label disc" and ?h = "handled_event sj srv org item label disc"
  obtain x where x: "nev_event_id ?h = ''event-server-request-'' @ x" using handled_event_keys(3) by blast
  obtain y z where yz: "slug label = ''goal'' @ y" "label = ''goal'' @ z" using assms(5,6) by (auto simp: starts_with_iff)
  have "append_admissible sj ?g rs s"
    using assms(3,7,8) by (simp add: append_admissible_def unrecorded_def)
  then have one: "append_event sj ?g rs s = (Inr (st_sequence s + 1), committed_store sj ?g rs s)"
    by (rule append_event_commits)
  have "unrecorded ?h (committed_store sj ?g rs s)"
    using assms(4) by (rule unrecorded_committed) (simp_all add: x yz(1), simp add: yz(2))
  then have "append_admissible sj ?h [] (committed_store sj ?g rs s)"
    using assms(7) by (simp add: append_admissible_def unrecorded_def)
  then have "append_event sj ?h [] (committed_store sj ?g rs s)
      = (Inr (st_sequence s + 2), goal_command_store sj srv org kind item ses agt label disc rs s)"
    by (simp add: append_event_commits goal_command_store_def)
  with one assms(1,2) show ?thesis by (auto simp: append_goal_event_Inr)
qed

lemma goal_command_tables [simp]:
  "st_tables (goal_command_store sj srv org kind item ses agt label disc rs s)
     = fold (row_effect (st_sequence s + 1)) rs (st_tables s)"
  "st_sequence (goal_command_store sj srv org kind item ses agt label disc rs s) = st_sequence s + 2"
  by (simp_all add: goal_command_store_def)

lemma unrecorded_goal_command:
  assumes "unrecorded e s"
    and "nev_event_id e \<noteq> nev_event_id (goal_event sj srv org kind item ses agt label disc)"
    and "nev_idempotency_key e \<noteq> Some (label @ '':'' @ item @ '':'' @ disc)"
    and "nev_event_id e \<noteq> nev_event_id (handled_event sj srv org item label disc)"
    and "nev_idempotency_key e \<noteq> nev_idempotency_key (handled_event sj srv org item label disc)"
  shows "unrecorded e (goal_command_store sj srv org kind item ses agt label disc rs s)"
  unfolding goal_command_store_def using assms by (intro unrecorded_committed) simp_all

text \<open>The event ids of commands with different labels differ.\<close>

lemma slug_chars_append: "slug_chars acc (xs @ ys) = slug_chars (slug_chars acc xs) ys"
  by (induction xs arbitrary: acc) simp_all

lemma slug_chars_extends: "\<exists>z. slug_chars acc xs = acc @ z"
proof (induction xs arbitrary: acc)
  case (Cons c cs)
  then show ?case by simp (metis append.assoc)
qed simp

lemma slug_starts:
  assumes "slug_chars [] p = q @ d" "q \<noteq> []" "hd q \<noteq> CHR ''-''" "last q \<noteq> CHR ''-''"
  shows "\<exists>z. slug (p @ r) = q @ z"
proof -
  obtain z where z: "slug_chars [] (p @ r) = q @ z"
    using slug_chars_extends [of "q @ d" r] by (auto simp: slug_chars_append assms(1))
  have "dropWhile (\<lambda>c. c = CHR ''-'') (q @ z) = q @ z" using assms(2,3) by (cases q) simp_all
  moreover have "dropWhile (\<lambda>c. c = CHR ''-'') (rev z @ rev q) = dropWhile (\<lambda>c. c = CHR ''-'') (rev z) @ rev q"
  proof -
    have "dropWhile (\<lambda>c. c = CHR ''-'') (rev q) = rev q" using assms(2,4) by (simp add: dropWhile_eq_self_iff hd_rev)
    moreover have "dropWhile (\<lambda>c. c = CHR ''-'') (rev z) = []" if "\<forall>c\<in>set (rev z). c = CHR ''-''"
      using that by (simp only: dropWhile_eq_Nil_conv)
    ultimately show ?thesis by (simp only: dropWhile_append append_Nil split: if_split) blast
  qed
  ultimately show ?thesis by (simp add: slug_def trim_dashes_def z)
qed

definition plain_label :: "string \<Rightarrow> bool" where
  "plain_label l \<longleftrightarrow> starts_with ''goal'' l \<and> starts_with ''goal'' (slug l)
     \<and> slug_chars [] (''goal-'' @ slug l @ ''-'') = ''goal-'' @ slug l @ ''-'' \<and> last (slug l) \<noteq> CHR ''-''"

lemma handled_event_id:
  assumes "plain_label label"
  shows "\<exists>z. nev_event_id (handled_event sj srv org item label disc) = ''event-server-request-goal-'' @ slug label @ z"
proof -
  have "slug label \<noteq> []" using assms by (auto simp: plain_label_def starts_with_iff)
  then have "\<exists>z. slug ((''goal-'' @ slug label @ ''-'') @ r) = (''goal-'' @ slug label) @ z" for r
    using assms by (intro slug_starts [where d = "''-''"]) (simp_all add: plain_label_def)
  then have "\<exists>z. slug (''goal-'' @ slug label @ ''-'' @ r) = ''goal-'' @ slug label @ z" for r by simp
  then obtain z where "slug (''goal-'' @ slug label @ ''-'' @ stable_hash (item @ '':'' @ disc)) = ''goal-'' @ slug label @ z"
    by blast
  then show ?thesis
    by (simp add: request_handled_event_def goal_request_def server_command_envelope_def command_envelope_new_def
        new_event_new_def Let_def)
qed

text \<open>Whatever one command appended, a command with another label is still unrecorded.\<close>

definition labels_apart :: "string \<Rightarrow> string \<Rightarrow> bool" where
  "labels_apart l m \<longleftrightarrow> (\<forall>x y. l @ '':'' @ x \<noteq> m @ '':'' @ y) \<and> (\<forall>x y. slug l @ x \<noteq> slug m @ y)"

lemma unrecorded_other_label:
  assumes "plain_label l" "plain_label m" "labels_apart l m"
  shows "unrecorded (goal_event sj srv org k i ses agt l d) s \<Longrightarrow>
      unrecorded (goal_event sj srv org k i ses agt l d) (goal_command_store sj srv org k' i' ses' agt' m d' rs s)"
    and "unrecorded (handled_event sj srv org i l d) s \<Longrightarrow>
      unrecorded (handled_event sj srv org i l d) (goal_command_store sj srv org k' i' ses' agt' m d' rs s)"
proof -
  obtain x y where ids: "nev_event_id (handled_event sj srv org i l d) = ''event-server-request-goal-'' @ slug l @ x"
    "nev_event_id (handled_event sj srv org i' m d') = ''event-server-request-goal-'' @ slug m @ y"
    using handled_event_id assms(1,2) by meson
  obtain a b where slugs: "slug l = ''goal'' @ a" "slug m = ''goal'' @ b" using assms(1,2) by (auto simp: plain_label_def starts_with_iff)
  obtain e f where labels: "l = ''goal'' @ e" "m = ''goal'' @ f" using assms(1,2) by (auto simp: plain_label_def starts_with_iff)
  show "unrecorded (goal_event sj srv org k i ses agt l d) s \<Longrightarrow>
      unrecorded (goal_event sj srv org k i ses agt l d) (goal_command_store sj srv org k' i' ses' agt' m d' rs s)"
    by (rule unrecorded_goal_command)
      (use assms(3) in \<open>simp_all add: labels_apart_def ids\<close>, simp_all add: slugs, simp add: labels)
  show "unrecorded (handled_event sj srv org i l d) s \<Longrightarrow>
      unrecorded (handled_event sj srv org i l d) (goal_command_store sj srv org k' i' ses' agt' m d' rs s)"
    by (rule unrecorded_goal_command)
      (use assms(3) in \<open>simp_all add: labels_apart_def ids\<close>, simp_all add: slugs, simp add: labels)
qed

section \<open>Lifecycle commands\<close>

definition view_status :: "server_response \<Rightarrow> string" where
  "view_status r = (case rsp_payload r of PayGoalView v \<Rightarrow> gss_status (gv_summary v) | _ \<Rightarrow> [])"

lemma goal_view_shows:
  assumes "id_ok i" "query_goal i s = Some g"
  shows "\<exists>v. goal_view_response rid org i s = (Inr v, s) \<and> view_status v = goal_status g"
proof -
  have "require_goal i s = (Inr g, s)" using assms by (simp add: require_goal_Inr)
  then show ?thesis
    by (simp add: goal_view_response_def assemble_goal_view_def response_def view_status_def goal_status_summary_of_def
        srv_bind_def Let_def)
qed

lemma lifecycle_again:
  assumes "run_lifecycle sj srv rid org i c s = (Inr v, s1)" "extends_log s1 s2"
    and "query_goal i s2 = Some goal" "opt_all id_ok (goal_session_id goal)" "opt_all id_ok (goal_agent_id goal)"
  shows "\<exists>v'. run_lifecycle sj srv rid' org i c s2 = (Inr v', s2) \<and> view_status v' = goal_status goal"
proof -
  let ?disc = "lifecycle_status c @ '':'' @ lifecycle_reason c"
  obtain g t x where g: "require_goal i s = (Inr g, s)" and i: "id_ok i"
    and first: "append_goal_event sj srv org (lifecycle_kind c) i (goal_session_id g) (goal_agent_id g)
      (lifecycle_label c) ?disc [Goal (g\<lparr>goal_status := lifecycle_status c, goal_blocker_reason := lifecycle_reason c,
        goal_updated_sequence := 0\<rparr>)] s = (Inr x, t)"
    and view: "goal_view_response rid org i t = (Inr v, s1)"
    using assms(1) by (auto simp: run_lifecycle_def handle_goal_lifecycle_def srv_bind_Inr require_goal_Inr)
  have "t = s1" using view goal_view_keeps [of rid org i t] by simp
  with append_goal_event_again [OF first, of s2] assms(2,4,5)
  have again: "append_goal_event sj srv org (lifecycle_kind c) i (goal_session_id goal) (goal_agent_id goal)
      (lifecycle_label c) ?disc rs s2 = (Inr (), s2)" for rs by simp
  have "require_goal i s2 = (Inr goal, s2)" using assms(3) i by (simp add: require_goal_Inr)
  then have "run_lifecycle sj srv rid' org i c s2 = goal_view_response rid' org i s2"
    using again by (simp add: run_lifecycle_def handle_goal_lifecycle_def srv_bind_def)
  with goal_view_shows [OF i assms(3), of rid' org] show ?thesis by simp
qed

lemma lifecycle_commits:
  assumes "id_ok i" "query_goal i s = Some g" "opt_all id_ok (goal_session_id g)" "opt_all id_ok (goal_agent_id g)"
    and "unrecorded (goal_event sj srv org (lifecycle_kind c) i (goal_session_id g) (goal_agent_id g)
      (lifecycle_label c) (lifecycle_status c @ '':'' @ lifecycle_reason c)) s"
    and "unrecorded (handled_event sj srv org i (lifecycle_label c) (lifecycle_status c @ '':'' @ lifecycle_reason c)) s"
    and "st_sequence s + 2 < 2 ^ 63" "json_columns_ok sj (Goal g)" "store_wf s"
  shows "\<exists>v. run_lifecycle sj srv rid org i c s = (Inr v, goal_command_store sj srv org (lifecycle_kind c) i
      (goal_session_id g) (goal_agent_id g) (lifecycle_label c) (lifecycle_status c @ '':'' @ lifecycle_reason c)
      [Goal (g\<lparr>goal_status := lifecycle_status c, goal_blocker_reason := lifecycle_reason c, goal_updated_sequence := 0\<rparr>)] s)
    \<and> view_status v = lifecycle_status c"
proof -
  let ?g' = "g\<lparr>goal_status := lifecycle_status c, goal_blocker_reason := lifecycle_reason c, goal_updated_sequence := 0\<rparr>"
  let ?t = "goal_command_store sj srv org (lifecycle_kind c) i (goal_session_id g) (goal_agent_id g)
    (lifecycle_label c) (lifecycle_status c @ '':'' @ lifecycle_reason c) [Goal ?g'] s"
  have labels: "starts_with ''goal'' (slug (lifecycle_label c))" "starts_with ''goal'' (lifecycle_label c)"
    by (cases c; simp; code_simp)+
  have "append_goal_event sj srv org (lifecycle_kind c) i (goal_session_id g) (goal_agent_id g)
      (lifecycle_label c) (lifecycle_status c @ '':'' @ lifecycle_reason c) [Goal ?g'] s = (Inr (), ?t)"
    by (rule append_goal_event_commits [OF assms(4,3,5,6) labels assms(7)])
      (use assms(8) in \<open>simp add: json_columns_ok_def\<close>)
  moreover have "require_goal i s = (Inr g, s)" using assms(1,2) by (simp add: require_goal_Inr)
  ultimately have eq: "run_lifecycle sj srv rid org i c s = goal_view_response rid org i ?t"
    by (simp add: run_lifecycle_def handle_goal_lifecycle_def srv_bind_def)
  have "row_ok ''goals'' [i] (Goal g)"
    using typed_lookup [OF store_wf_typed [OF assms(9)]] assms(2) by (simp add: goal_lookup)
  then have "goal_goal_id g = i" by (simp add: row_ok_def)
  then have "query_goal i ?t = Some (?g'\<lparr>goal_updated_sequence := st_sequence s + 1\<rparr>)"
    by (simp add: goal_lookup row_effect_def lookup_upsert)
  from goal_view_shows [OF assms(1) this, of rid org] eq show ?thesis by auto
qed

section \<open>Sequences of goal commands\<close>

definition no_goal_record :: "projection_record \<Rightarrow> bool" where
  "no_goal_record r = (case r of Goal _ \<Rightarrow> False | RequirementLedger _ \<Rightarrow> False | _ \<Rightarrow> True)"

text \<open>
  The commands of the goal surface, the auditor, the scheduler, and every append of another component,
  none of which writes goals or requirements.
\<close>

inductive goal_step :: "serde \<Rightarrow> capo_server \<Rightarrow> store \<Rightarrow> store \<Rightarrow> bool" for sj srv where
  step_set: "goal_step sj srv s (snd (handle_goal_command_set sj srv rid org spec s))"
| step_lifecycle: "goal_step sj srv s (snd (run_lifecycle sj srv rid org i c s))"
| step_requirement: "goal_step sj srv s (snd (handle_set_requirement_status sj srv rid org rcd s))"
| step_report: "goal_step sj srv s (snd (handle_record_goal_report sj srv rid org rpt s))"
| step_audit: "goal_step sj srv s (snd (audit_and_record_goal_completion sj (srv_controller srv) i a s))"
| step_continue:
    "goal_step sj srv s (snd (evaluate_and_record_continuation sj (srv_controller srv) i c cond scope refs s))"
| step_other: "list_all no_goal_record rs \<Longrightarrow> goal_step sj srv s (snd (append_event sj e rs s))"

inductive goal_steps :: "serde \<Rightarrow> capo_server \<Rightarrow> store \<Rightarrow> store \<Rightarrow> bool" for sj srv where
  steps_none: "goal_steps sj srv s s"
| steps_more: "goal_steps sj srv s t \<Longrightarrow> goal_step sj srv t u \<Longrightarrow> goal_steps sj srv s u"

lemma goal_step_ledger: "goal_step sj srv s t \<Longrightarrow> ledger_inv s \<Longrightarrow> ledger_inv t"
proof (induction rule: goal_step.induct)
  case (step_other rs s e)
  then have "list_all ledger_record_ok rs"
    by (auto simp: list_all_iff no_goal_record_def ledger_record_ok_def split: projection_record.splits)
  with step_other show ?case by (simp add: ledger_append)
qed (simp_all add: ledg.set_goal_keeps ledg.lifecycle_keeps ledg.requirement_keeps ledg.record_report_keeps
    ledg.audit_keeps ledg.continuation_keeps)

lemma ledger_open: "ledger_inv store_open"
  by (simp add: ledger_inv_def store_open_wf) (simp add: store_open_def)

lemma goal_steps_ledger: "goal_steps sj srv s t \<Longrightarrow> ledger_inv s \<Longrightarrow> ledger_inv t"
  by (induction rule: goal_steps.induct) (auto intro: goal_step_ledger)

lemma goal_step_extends: "goal_step sj srv s t \<Longrightarrow> extends_log s t"
  by (induction rule: goal_step.induct)
    (simp_all add: extg.set_goal_keeps extg.lifecycle_keeps extg.requirement_keeps extg.record_report_keeps
      extg.audit_keeps extg.continuation_keeps append_extends)

lemma goal_steps_extends: "goal_steps sj srv s t \<Longrightarrow> extends_log s t"
  by (induction rule: goal_steps.induct) (auto intro: extends_log_trans goal_step_extends)

section \<open>Reading the ledger\<close>

interpretation q_requirements: row_query requirement_ledger_of_row RequirementLedger "''requirement_ledgers''"
  by unfold_locales (auto simp: requirement_ledger_of_row_def split: projection_record.splits)

interpretation q_reports: row_query goal_report_of_row GoalReport "''goal_reports''"
  by unfold_locales (auto simp: goal_report_of_row_def split: projection_record.splits)

interpretation q_goals: row_query goal_of_row Goal "''goals''"
  by unfold_locales (auto simp: goal_of_row_def split: projection_record.splits)

lemma ledger_requirement_source:
  assumes "ledger_inv s" "r \<in> set (requirement_ledgers_for_goal g s)" "req_status r \<in> {''validated'', ''reviewed''}"
  shows "source_is_observed_evidence (req_last_status_source r)"
proof -
  obtain k where "(k, RequirementLedger r) \<in> set (st_tables s ''requirement_ledgers'')"
    using assms(2) unfolding requirement_ledgers_for_goal_def q_requirements.select_set by blast
  with assms(1) have "ledger_record_ok (RequirementLedger r)" by (auto simp: ledger_inv_def)
  with assms(3) show ?thesis by (simp add: ledger_record_ok_def)
qed

lemma ledger_goals_status:
  assumes "ledger_inv s" "g \<in> set (goals_for_project p s)"
  shows "goal_status g \<in> set LIFECYCLE_STATUSES"
proof -
  obtain k where "(k, Goal g) \<in> set (st_tables s ''goals'')"
    using assms(2) unfolding goals_for_project_def q_goals.select_set by blast
  with assms(1) have "ledger_record_ok (Goal g)" by (auto simp: ledger_inv_def)
  then show ?thesis by (simp add: ledger_record_ok_def)
qed

lemma report_in_goal:
  assumes "store_wf s"
  shows "p \<in> set (goal_reports_for_goal g s) \<longleftrightarrow>
     grpt_goal_id p = g \<and> lookup (st_tables s) ''goal_reports'' [grpt_goal_report_id p] = Some (GoalReport p)"
  unfolding goal_reports_for_goal_def q_reports.select_lookup [OF store_wf_typed [OF assms]] by simp

section \<open>A claim in the audit\<close>

text \<open>A table no record belongs to is not touched.\<close>

lemma table_append_other:
  assumes "list_all (\<lambda>r. table_of r \<noteq> t) rs" "t \<notin> {''workpad_files'', ''workpad_tasks''}"
  shows "st_tables (snd (append_event sj e rs s)) t = st_tables s t"
proof -
  have one: "row_effect n r db t = db t" if "table_of r \<noteq> t" for n r db
  proof (cases "is_reset r")
    case True
    then obtain p where "r = WorkpadIndexReset p" by (cases r) simp_all
    with assms(2) show ?thesis by (simp add: row_effect_def delete_where_def)
  qed (use that in \<open>simp add: row_effect_upsert upsert_def\<close>)
  have "fold (row_effect n) rs db t = db t" for n db
    using assms(1) by (induction rs arbitrary: db) (simp_all add: one)
  then show ?thesis by - (rule append_event_outcome [of e s sj rs], simp_all)
qed

text \<open>What recording a report appends.\<close>

lemma record_report_induct:
  assumes "P s"
    and "\<And>u e b. P u \<Longrightarrow> P (snd (append_event sj e [GoalReport (report_of_record srv b rpt)] u))"
    and "\<And>u e. P u \<Longrightarrow> P (snd (append_event sj e [] u))"
  shows "P (snd (handle_record_goal_report sj srv rid org rpt s))"
proof -
  have "P (snd (append_goal_event sj srv org kind item ses agt label disc [GoalReport (report_of_record srv b rpt)] u))"
    if "P u" for kind item ses agt label disc b u
    unfolding append_goal_event_def record_server_request_handled_def
    by (intro srv_bind_keeps [where P = P]) (simp_all add: that assms(2,3))
  then show ?thesis
    unfolding handle_record_goal_report_def
    by (intro srv_bind_keeps [where P = P]) (simp_all add: assms(1))
qed

lemma report_tables:
  assumes "t \<notin> {''workpad_files'', ''workpad_tasks'', ''goal_reports''}"
  shows "st_tables (snd (handle_record_goal_report sj srv rid org rpt s)) t = st_tables s t"
proof -
  have t: "''goal_reports'' \<noteq> t" "t \<noteq> ''workpad_files''" "t \<noteq> ''workpad_tasks''" using assms by auto
  show ?thesis
    by (rule record_report_induct [where P = "\<lambda>v. st_tables v t = st_tables s t"]) (simp_all add: table_append_other t)
qed

lemma report_other_rows:
  assumes "k \<noteq> [grc_goal_report_id rpt]"
  shows "lookup (st_tables (snd (handle_record_goal_report sj srv rid org rpt s))) ''goal_reports'' k
      = lookup (st_tables s) ''goal_reports'' k"
proof -
  have k: "[grc_goal_report_id rpt] \<noteq> k" using assms by simp
  show ?thesis
    by (rule record_report_induct [where P = "\<lambda>v. lookup (st_tables v) ''goal_reports'' k = lookup (st_tables s) ''goal_reports'' k"])
      (simp_all add: lookup_append_other row_ok_def report_of_record_def k)
qed

lemma report_new_row:
  assumes "(k, GoalReport p) \<in> set (st_tables (snd (handle_record_goal_report sj srv rid org rpt s)) ''goal_reports'')"
  shows "(k, GoalReport p) \<in> set (st_tables s ''goal_reports'') \<or> grpt_source p = grc_source rpt"
proof -
  define P where "P v \<longleftrightarrow> (\<forall>k p. (k, GoalReport p) \<in> set (st_tables v ''goal_reports'') \<longrightarrow>
    (k, GoalReport p) \<in> set (st_tables s ''goal_reports'') \<or> grpt_source p = grc_source rpt)" for v :: store
  have "P (snd (handle_record_goal_report sj srv rid org rpt s))"
  proof (rule record_report_induct)
    fix u e b assume "P u"
    then show "P (snd (append_event sj e [GoalReport (report_of_record srv b rpt)] u))"
      unfolding P_def using append_row_cases [of _ _ sj e "[GoalReport (report_of_record srv b rpt)]" u]
      by (fastforce simp: report_of_record_def)
  next
    fix u e assume "P u"
    then show "P (snd (append_event sj e [] u))" by (simp add: P_def append_no_records)
  qed (simp add: P_def)
  with assms show ?thesis by (auto simp: P_def)
qed

text \<open>A claim under a new report id leaves the audit of every goal where it was or takes it back.\<close>

lemma claim_keeps_incomplete:
  assumes wf: "store_wf s" and claim: "grc_source rpt = EVIDENCE_SOURCE_AGENT_REPORTED"
    and new: "lookup (st_tables s) ''goal_reports'' [grc_goal_report_id rpt] = None"
    and complete: "adec_verdict (audit (build_audit_inputs goal (snd (handle_record_goal_report sj srv rid org rpt s)))) = VerdictComplete"
  shows "adec_verdict (audit (build_audit_inputs goal s)) = VerdictComplete"
proof -
  let ?t = "snd (handle_record_goal_report sj srv rid org rpt s)" and ?g = "goal_goal_id goal"
  have wf': "store_wf ?t" by (rule wfg.record_report_keeps [OF wf])
  have reqs: "requirement_ledgers_for_goal ?g ?t = requirement_ledgers_for_goal ?g s"
    by (simp add: requirement_ledgers_for_goal_def rows_def report_tables)
  have evid: "goal_evidence goal ?t = goal_evidence goal s"
    by (simp add: goal_evidence_def evidence_for_task_def evidence_for_session_def rows_def report_tables split: option.splits)
  have old: "p \<in> set (goal_reports_for_goal ?g ?t)" if p: "p \<in> set (goal_reports_for_goal ?g s)" for p
  proof -
    have row: "grpt_goal_id p = ?g" "lookup (st_tables s) ''goal_reports'' [grpt_goal_report_id p] = Some (GoalReport p)"
      using p by (simp_all add: report_in_goal [OF wf])
    then have "[grpt_goal_report_id p] \<noteq> [grc_goal_report_id rpt]" using new by auto
    from report_other_rows [OF this] row show ?thesis by (simp add: report_in_goal [OF wf'])
  qed
  have obs: "p \<in> set (goal_reports_for_goal ?g s)"
    if p: "p \<in> set (goal_reports_for_goal ?g ?t)" "report_is_observed_evidence p" for p
  proof -
    obtain k where "(k, GoalReport p) \<in> set (st_tables ?t ''goal_reports'')" and g: "grpt_goal_id p = ?g"
      using p(1) unfolding goal_reports_for_goal_def q_reports.select_set by blast
    moreover have "grpt_source p \<noteq> grc_source rpt"
      using p(2) claim agent_report_is_not_observed by (auto simp: report_is_observed_evidence_def)
    ultimately show ?thesis
      using report_new_row unfolding goal_reports_for_goal_def q_reports.select_set by blast
  qed
  have bk: "observed_backing goal s r" if "observed_backing goal ?t r" for r
    using that obs unfolding observed_backing_def reqs evid by blast
  have weak: "requirement_has_weak_validation r (goal_reports_for_goal ?g ?t)"
    if "requirement_has_weak_validation r (goal_reports_for_goal ?g s)" for r
    using that old by (auto simp: requirement_has_weak_validation_def list_ex_iff)
  show ?thesis
    using complete bk weak unfolding audit_store_complete_iff reqs by blast
qed

section \<open>An exhausted goal\<close>

lemma require_row_Inr: "require_row k i q s = (Inr a, t) \<longleftrightarrow> t = s \<and> q i s = Some a"
  by (auto simp: require_row_def split: option.splits)

lemma abort_commits:
  assumes "query_session (refs_session_id refs) s = Some ses" "query_task (refs_task_id refs) s = Some tsk"
    and "query_agent (refs_agent_id refs) s = Some agt"
    and "unrecorded (aborted_event ctl refs turn_id b) s" "st_sequence s + 1 < 2 ^ 63"
  shows "abort_run_for_ceiling sj ctl refs turn_id b s
      = (Inr (), committed_store sj (aborted_event ctl refs turn_id b) (aborted_records ctl refs b ses tsk agt) s)"
proof -
  have "append_admissible sj (aborted_event ctl refs turn_id b) (aborted_records ctl refs b ses tsk agt) s"
    using assms(4,5) by (simp add: append_admissible_def unrecorded_def aborted_records_def Let_def json_columns_ok_def)
  then show ?thesis
    using assms(1-3)
    by (simp add: abort_run_for_ceiling_def op_bind_def require_row_def op_return_def append_event_commits)
qed

lemma abort_rows:
  fixes s sj ctl e refs b ses tsk agt
  defines "t \<equiv> committed_store sj e (aborted_records ctl refs b ses tsk agt) s"
  shows "\<exists>r. query_run (refs_run_id refs) t = Some r \<and> run_status r = ''aborted''"
    "\<exists>r. query_session (refs_session_id refs) t = Some r \<and> ses_status r = ''aborted''"
    "\<exists>r. query_task (refs_task_id refs) t = Some r \<and> tsk_capo_execution_status r = ''aborted''"
    "\<exists>r. query_agent (refs_agent_id refs) t = Some r \<and> agt_status r = ''available'' \<and> agt_current_session_id r = None"
  by (simp_all add: t_def aborted_records_def Let_def row_effect_def query_run_def query_session_def query_task_def
      query_agent_def lookup_upsert)

end
