(* ===== verification/Goal_Properties.thy ===== *)
theory Goal_Properties
  imports Goal_Effects Lock_Properties
begin

text \<open>
  The properties of goals: their ledger, the completion audit, the continuation scheduler, the abort of
  an exhausted run, and what a goal report shows; with their instances.
\<close>

section \<open>Sample data\<close>

definition goal_srv :: capo_server where
  "goal_srv = \<lparr>srv_project_id = ''p1'', srv_controller = lock_ctl\<rparr>"

definition goal_org :: server_client_origin where
  "goal_org = \<lparr>orig_client_id = ''c1'', orig_actor_id = ''op'', orig_input_origin = FromCli\<rparr>"

definition goal_spec0 :: goal_spec where
  "goal_spec0 = \<lparr>gs_goal_id = ''g1'', gs_objective = ''ship'', gs_task_id = None, gs_agent_id = None,
     gs_session_id = None, gs_parent_goal_id = None, gs_attempt_run_id = None,
     gs_requirements = [\<lparr>grs_requirement_id = ''q1'', grs_summary = ''tests''\<rparr>],
     gs_success_criteria_json = ''{}'', gs_constraints_json = ''{}'', gs_verification_surface_json = ''{}'',
     gs_budget_json = ''{}'', gs_stop_conditions_json = ''{}''\<rparr>"

definition goal0 :: store where
  "goal0 = snd (handle_goal_command_set rfc8259 goal_srv ''r1'' goal_org goal_spec0 store_open)"

lemma goal_sample [simp]:
  "srv_project_id goal_srv = ''p1''" "srv_controller goal_srv = lock_ctl"
  "gs_goal_id goal_spec0 = ''g1''" "gs_agent_id goal_spec0 = None" "gs_session_id goal_spec0 = None"
  "gs_task_id goal_spec0 = None" "gs_parent_goal_id goal_spec0 = None" "gs_attempt_run_id goal_spec0 = None"
  "gs_requirements goal_spec0 = [\<lparr>grs_requirement_id = ''q1'', grs_summary = ''tests''\<rparr>]"
  "goal_goal_id (goal_of_spec srv spec st) = gs_goal_id spec" "goal_status (goal_of_spec srv spec st) = st"
  "goal_session_id (goal_of_spec srv spec st) = gs_session_id spec" "goal_agent_id (goal_of_spec srv spec st) = gs_agent_id spec"
  by (simp_all add: goal_srv_def goal_spec0_def goal_of_spec_def)

abbreviation goal_row0 :: goal_projection where "goal_row0 \<equiv> goal_of_spec goal_srv goal_spec0 ''active''"

abbreviation set_fingerprint0 :: string where
  "set_fingerprint0 \<equiv> stable_hash (spec_content_fingerprint goal_spec0)"

lemma open_sequence [simp]: "st_sequence store_open = 0"
  by (simp add: store_open_def)

lemma rfc8259_empty_object: "json_columns_ok rfc8259 (Goal goal_row0)"
  by (simp add: json_columns_ok_def goal_of_spec_def goal_spec0_def) code_simp

lemma goal0_store:
  "goal0 = goal_command_store rfc8259 goal_srv goal_org (GoalEvent GoalCreated) ''g1'' None None ''goal.created''
     set_fingerprint0 [Goal goal_row0, RequirementLedger (seeded_requirement goal_srv goal_spec0 \<lparr>grs_requirement_id = ''q1'', grs_summary = ''tests''\<rparr>)] store_open"
proof -
  have labels: "starts_with ''goal'' (slug ''goal.created'')" "starts_with ''goal'' ''goal.created''" by code_simp+
  have empty: "existing_status_or_active ''g1'' store_open = ''active''"
    "unseeded_requirements goal_spec0 store_open = gs_requirements goal_spec0"
    by (simp_all add: existing_status_or_active_def query_goal_def lookup_def store_open_def unseeded_requirements_def
        requirement_ledgers_for_goal_def rows_def)
  let ?rs = "[Goal goal_row0, RequirementLedger (seeded_requirement goal_srv goal_spec0 \<lparr>grs_requirement_id = ''q1'', grs_summary = ''tests''\<rparr>)]"
  have ids: "id_ok ''g1''" "id_ok ''q1''" by code_simp+
  have "append_goal_event rfc8259 goal_srv goal_org (GoalEvent GoalCreated) ''g1'' None None ''goal.created''
      set_fingerprint0 ?rs store_open = (Inr (), goal_command_store rfc8259 goal_srv goal_org (GoalEvent GoalCreated) ''g1''
      None None ''goal.created'' set_fingerprint0 ?rs store_open)"
    by (rule append_goal_event_commits [OF _ _ _ _ labels]) (simp_all add: rfc8259_empty_object open_sequence,
      simp add: json_columns_ok_def)
  then show ?thesis
    unfolding goal0_def handle_goal_command_set_def goal_sample
    by (simp add: srv_bind_def reject_complete_status_def LIFECYCLE_STATUSES_def srv_id_cases srv_opt_id_cases ids empty)
qed

lemma goal_names: "store_wf s \<Longrightarrow> query_goal i s = Some g \<Longrightarrow> goal_goal_id g = i"
  using typed_lookup [OF store_wf_typed] by (fastforce simp: goal_lookup row_ok_def)

lemma goal0_row: "query_goal ''g1'' goal0 = Some (goal_row0\<lparr>goal_updated_sequence := 1\<rparr>)"
  by (simp add: goal0_store goal_lookup row_effect_def lookup_upsert goal_of_spec_def)

lemma goal0_wf: "store_wf goal0" "st_sequence goal0 = 2"
proof -
  show "store_wf goal0" unfolding goal0_def by (rule wfg.set_goal_keeps [OF store_open_wf])
  show "st_sequence goal0 = 2" by (simp add: goal0_store open_sequence)
qed


section \<open>The ledger\<close>

text \<open>
  C19. Goals have no way to complete themselves and claims no way to validate: after any sequence of
  goal commands, audits, continuation decisions and appends of other components, every goal is active,
  paused, blocked or cleared, and a requirement is validated or reviewed only on the word of an observed
  source.
\<close>

theorem goal_ledger_invariant:
  assumes "goal_steps sj srv store_open s"
  shows "(\<forall>p. list_all (\<lambda>g. goal_status g \<in> {''active'', ''paused'', ''blocked'', ''cleared''}) (goals_for_project p s))
    \<and> (\<forall>g. list_all (\<lambda>r. req_status r \<in> {''validated'', ''reviewed''} \<longrightarrow>
          source_is_observed_evidence (req_last_status_source r)) (requirement_ledgers_for_goal g s))"
proof -
  have inv: "ledger_inv s" by (rule goal_steps_ledger [OF assms ledger_open])
  have "goal_status g \<in> {''active'', ''paused'', ''blocked'', ''cleared''}" if "g \<in> set (goals_for_project p s)" for g p
    using ledger_goals_status [OF inv that] by (simp add: LIFECYCLE_STATUSES_def)
  with ledger_requirement_source [OF inv] show ?thesis unfolding list_all_iff by blast
qed

lemma goal0_reached: "goal_steps rfc8259 goal_srv store_open goal0"
  unfolding goal0_def by (rule steps_more [OF steps_none step_set])

theorem goal_ledger_invariant_witness:
  "map goal_status (goals_for_project ''p1'' goal0) = [''active'']
    \<and> list_all (\<lambda>g. goal_status g \<in> {''active'', ''paused'', ''blocked'', ''cleared''}) (goals_for_project ''p1'' goal0)"
  using goal_ledger_invariant [OF goal0_reached]
  by (simp add: goals_for_project_def goal0_store rows_def row_effect_def upsert_def store_open_def goal_of_row_def goal_of_spec_def)

text \<open>
  C18. What a complete verdict takes: in every store the goal commands can produce, the auditor calls a
  goal complete exactly if it has requirements and each of them is validated or reviewed by an observed
  source, and no validation report for it, of whatever source, has a summary that contains \<open>weak\<close> or
  \<open>skip\<close> in any case.

  The last condition is what the code does.  A comment of \<open>schema.rs\<close> says otherwise, that the downgrade is
  keyed on a structured outcome and not on the prose of the summary (\<open>prose_decides_weakness\<close>).
\<close>

theorem complete_needs_observed_evidence:
  assumes "goal_steps sj srv store_open s" "audit_goal_completion i s = Inr d"
  shows "adec_verdict d = VerdictComplete \<longleftrightarrow>
     requirement_ledgers_for_goal i s \<noteq> []
     \<and> list_all (\<lambda>r. req_status r \<in> {''validated'', ''reviewed''}
          \<and> source_is_observed_evidence (req_last_status_source r)
          \<and> \<not> list_ex (\<lambda>report. grpt_requirement_id report = Some (req_requirement_id r)
                \<and> grpt_report_kind report = ''capo.record_validation''
                \<and> (str_contains (to_ascii_lowercase (grpt_summary report)) ''weak''
                  \<or> str_contains (to_ascii_lowercase (grpt_summary report)) ''skip'')) (goal_reports_for_goal i s))
        (requirement_ledgers_for_goal i s)"
proof -
  have inv: "ledger_inv s" by (rule goal_steps_ledger [OF assms(1) ledger_open])
  obtain goal where goal: "query_goal i s = Some goal" and d: "d = audit (build_audit_inputs goal s)"
    using assms(2) by (auto simp: audit_goal_completion_def split: option.splits)
  have i: "goal_goal_id goal = i" by (rule goal_names [OF _ goal]) (use inv in \<open>simp add: ledger_inv_def\<close>)
  show ?thesis
    unfolding d audit_store_complete_iff i list_all_iff requirement_has_weak_validation_def weak_summary_iff
    using ledger_requirement_source [OF inv] by (auto simp: observed_backing_def)
qed

definition validated0 :: requirement_status_record where
  "validated0 = \<lparr>rsr_requirement_id = ''q1'', rsr_goal_id = ''g1'', rsr_summary = ''tests'', rsr_status = ''validated'',
     rsr_source = ''runtime_output''\<rparr>"

definition goal1 :: store where
  "goal1 = snd (handle_set_requirement_status rfc8259 goal_srv ''r2'' goal_org validated0 goal0)"

lemma goal_slugs [simp]:
  "slug ''goal.created'' = ''goal-created''" "slug ''goal.paused'' = ''goal-paused''" "slug ''goal.resumed'' = ''goal-resumed''"
  "slug ''goal.requirement_status_changed'' = ''goal-requirement-status-changed''"
  by code_simp+

lemma goal_labels:
  "plain_label ''goal.created''" "plain_label ''goal.paused''" "plain_label ''goal.resumed''"
  "plain_label ''goal.requirement_status_changed''"
  by code_simp+

lemma goal0_unrecorded:
  assumes "plain_label l" "labels_apart l ''goal.created''"
  shows "unrecorded (goal_event rfc8259 goal_srv goal_org k i ses agt l d) goal0"
    "unrecorded (handled_event rfc8259 goal_srv goal_org i l d) goal0"
  using unrecorded_other_label [OF assms(1) goal_labels(1) assms(2)] by (simp_all add: goal0_store)

lemma goal1_store:
  "goal1 = goal_command_store rfc8259 goal_srv goal_org (GoalEvent RequirementStatusChanged) ''q1'' None None
     ''goal.requirement_status_changed'' ''validated:runtime_output'' [RequirementLedger (ledger_of_record goal_srv validated0)] goal0"
proof -
  have apart: "labels_apart ''goal.requirement_status_changed'' ''goal.created''" by (simp add: labels_apart_def)
  have "append_goal_event rfc8259 goal_srv goal_org (GoalEvent RequirementStatusChanged) ''q1'' None None
     ''goal.requirement_status_changed'' ''validated:runtime_output'' [RequirementLedger (ledger_of_record goal_srv validated0)] goal0
     = (Inr (), goal_command_store rfc8259 goal_srv goal_org (GoalEvent RequirementStatusChanged) ''q1'' None None
     ''goal.requirement_status_changed'' ''validated:runtime_output'' [RequirementLedger (ledger_of_record goal_srv validated0)] goal0)"
    by (rule append_goal_event_commits)
      (simp_all add: goal0_unrecorded goal0_wf goal_labels apart json_columns_ok_def)
  moreover have "id_ok ''q1''" "require_goal ''g1'' goal0 = (Inr (goal_row0\<lparr>goal_updated_sequence := 1\<rparr>), goal0)"
    by (simp_all add: require_goal_Inr goal0_row) code_simp+
  ultimately show ?thesis
    by (simp add: goal1_def handle_set_requirement_status_def srv_bind_def validated0_def srv_result_def source_is_observed_def
      source_is_observed_evidence_def EVIDENCE_SOURCE_RUNTIME_OUTPUT_def is_known_requirement_status_def srv_id_cases)
qed

lemma goal1_ledger:
  "requirement_ledgers_for_goal ''g1'' goal1 = [(ledger_of_record goal_srv validated0)\<lparr>req_updated_sequence := 3\<rparr>]"
  "goal_reports_for_goal ''g1'' goal1 = []"
  by (simp_all add: requirement_ledgers_for_goal_def goal_reports_for_goal_def goal1_store goal0_store goal0_wf rows_def row_effect_def
      upsert_def store_open_def requirement_ledger_of_row_def ledger_of_record_def validated0_def seeded_requirement_def)

theorem complete_needs_observed_evidence_witness:
  "\<exists>d. audit_goal_completion ''g1'' goal1 = Inr d \<and> adec_verdict d = VerdictComplete"
proof -
  have "goal_steps rfc8259 goal_srv store_open goal1"
    unfolding goal1_def by (rule steps_more [OF goal0_reached step_requirement])
  moreover obtain d where d: "audit_goal_completion ''g1'' goal1 = Inr d"
    by (simp add: audit_goal_completion_def query_goal_def goal1_store goal0_store row_effect_def lookup_upsert)
  ultimately have "adec_verdict d = VerdictComplete"
    using complete_needs_observed_evidence [of rfc8259 goal_srv goal1 "''g1''" d]
    by (simp add: goal1_ledger)
      (simp add: ledger_of_record_def validated0_def source_is_observed_evidence_def EVIDENCE_SOURCE_RUNTIME_OUTPUT_def)
  with d show ?thesis by blast
qed

lemma not_complete: "v \<noteq> VerdictComplete \<longleftrightarrow> v = VerdictIncomplete"
  by (cases v) simp_all

text \<open>
  Claims never complete a goal: recording a report whose source is the agent, under a report id not
  used before, leaves every goal that was not complete not complete.
\<close>

theorem claims_never_complete:
  assumes "store_wf s" "grc_source rpt = EVIDENCE_SOURCE_AGENT_REPORTED"
    and "lookup (st_tables s) ''goal_reports'' [grc_goal_report_id rpt] = None"
    and "audit_goal_completion i s = Inr d" "adec_verdict d = VerdictIncomplete"
  shows "\<exists>d'. audit_goal_completion i (snd (handle_record_goal_report sj srv rid org rpt s)) = Inr d'
    \<and> adec_verdict d' = VerdictIncomplete"
proof -
  let ?t = "snd (handle_record_goal_report sj srv rid org rpt s)"
  obtain goal where goal: "query_goal i s = Some goal" and d: "d = audit (build_audit_inputs goal s)"
    using assms(4) by (auto simp: audit_goal_completion_def split: option.splits)
  have "query_goal i ?t = Some goal" using goal by (simp add: query_goal_def lookup_def report_tables)
  moreover have "adec_verdict (audit (build_audit_inputs goal ?t)) \<noteq> VerdictComplete"
    using claim_keeps_incomplete [OF assms(1-3), of goal sj srv rid org] assms(5) d by auto
  ultimately show ?thesis by (simp add: audit_goal_completion_def not_complete)
qed

definition claim0 :: goal_report_record where
  "claim0 = \<lparr>grc_goal_report_id = ''rep1'', grc_goal_id = ''g1'', grc_session_id = None, grc_requirement_id = Some ''q1'',
     grc_report_kind = ''capo.record_validation'', grc_source = EVIDENCE_SOURCE_AGENT_REPORTED, grc_confidence = Some 99,
     grc_summary = ''all green'', grc_body_artifact_id = None, grc_evidence_id = None\<rparr>"

lemma goal0_incomplete: "\<exists>d. audit_goal_completion ''g1'' goal0 = Inr d \<and> adec_verdict d = VerdictIncomplete"
proof -
  have "requirement_ledgers_for_goal ''g1'' goal0 =
      [(seeded_requirement goal_srv goal_spec0 \<lparr>grs_requirement_id = ''q1'', grs_summary = ''tests''\<rparr>)\<lparr>req_updated_sequence := 1\<rparr>]"
    by (simp add: requirement_ledgers_for_goal_def goal0_store rows_def row_effect_def
      upsert_def store_open_def requirement_ledger_of_row_def seeded_requirement_def)
  then have "adec_verdict (audit (build_audit_inputs (goal_row0\<lparr>goal_updated_sequence := 1\<rparr>) goal0)) \<noteq> VerdictComplete"
    unfolding audit_store_complete_iff by (simp add: seeded_requirement_def)
  then show ?thesis by (simp add: audit_goal_completion_def goal0_row not_complete)
qed

theorem claims_never_complete_witness:
  "\<exists>d. audit_goal_completion ''g1'' (snd (handle_record_goal_report rfc8259 goal_srv ''r3'' goal_org claim0 goal0)) = Inr d
    \<and> adec_verdict d = VerdictIncomplete"
proof -
  obtain d where d: "audit_goal_completion ''g1'' goal0 = Inr d" "adec_verdict d = VerdictIncomplete"
    using goal0_incomplete by blast
  have "lookup (st_tables goal0) ''goal_reports'' [grc_goal_report_id claim0] = None"
    by (simp add: goal0_store row_effect_def lookup_upsert) (simp add: lookup_def store_open_def)
  from claims_never_complete [OF goal0_wf(1) _ this d] show ?thesis by (simp add: claim0_def)
qed

section \<open>Lifecycle commands\<close>

text \<open>
  C20. A lifecycle command works once: when a client issues one it has issued before for the same goal
  with the same reason, whatever happened since, nothing is appended and the goal keeps its status,
  although the command is answered like the first time.  A goal that was paused and resumed cannot be
  paused again.
\<close>

theorem repeated_lifecycle_command_is_lost:
  assumes "run_lifecycle sj srv rid org i c s = (Inr v, s1)" "goal_steps sj srv s1 s2"
    and "query_goal i s2 = Some goal" "opt_all id_ok (goal_session_id goal)" "opt_all id_ok (goal_agent_id goal)"
  shows "\<exists>v'. run_lifecycle sj srv rid' org i c s2 = (Inr v', s2) \<and> view_status v' = goal_status goal"
  by (rule lifecycle_again [OF assms(1) goal_steps_extends [OF assms(2)] assms(3-5)])

theorem repeated_lifecycle_command_is_lost_witness:
  "\<exists>v1 v2 v3 s1 s2. run_lifecycle rfc8259 goal_srv ''r4'' goal_org ''g1'' PauseGoal goal0 = (Inr v1, s1)
     \<and> view_status v1 = ''paused''
     \<and> run_lifecycle rfc8259 goal_srv ''r5'' goal_org ''g1'' ResumeGoal s1 = (Inr v2, s2) \<and> view_status v2 = ''active''
     \<and> run_lifecycle rfc8259 goal_srv ''r6'' goal_org ''g1'' PauseGoal s2 = (Inr v3, s2) \<and> view_status v3 = ''active''"
proof -
  let ?run = "run_lifecycle rfc8259 goal_srv" and ?g = "goal_row0\<lparr>goal_updated_sequence := 1\<rparr>"
  have apart: "labels_apart ''goal.paused'' ''goal.created''" "labels_apart ''goal.resumed'' ''goal.created''"
    "labels_apart ''goal.resumed'' ''goal.paused''" by (simp_all add: labels_apart_def)
  have g1: "id_ok ''g1''" by code_simp
  have columns: "json_columns_ok rfc8259 (Goal (goal_row0\<lparr>goal_status := st, goal_blocker_reason := b, goal_updated_sequence := n\<rparr>))"
    "json_columns_ok rfc8259 (Goal ?g)" for st b n
    using rfc8259_empty_object by (simp_all add: json_columns_ok_def)
  let ?s1 = "goal_command_store rfc8259 goal_srv goal_org (GoalEvent GoalPaused) ''g1'' None None ''goal.paused'' ''paused:''
    [Goal (?g\<lparr>goal_status := ''paused'', goal_blocker_reason := [], goal_updated_sequence := 0\<rparr>)] goal0"
  obtain v1 where v1: "?run ''r4'' goal_org ''g1'' PauseGoal goal0 = (Inr v1, ?s1)" "view_status v1 = ''paused''"
    using lifecycle_commits [OF g1 goal0_row, of rfc8259 goal_srv goal_org PauseGoal "''r4''"] goal0_wf columns
    by (auto simp: goal0_unrecorded goal_labels apart)
  have row1: "query_goal ''g1'' ?s1 = Some (?g\<lparr>goal_status := ''paused'', goal_blocker_reason := [], goal_updated_sequence := 3\<rparr>)"
    by (simp add: goal_lookup row_effect_def lookup_upsert goal0_wf)
  have wf1: "store_wf ?s1" using wfg.lifecycle_keeps [OF goal0_wf(1), of rfc8259 goal_srv "''r4''" goal_org "''g1''" PauseGoal] v1(1) by simp
  obtain v2 s2 where v2: "?run ''r5'' goal_org ''g1'' ResumeGoal ?s1 = (Inr v2, s2)" "view_status v2 = ''active''"
    and row2: "\<exists>h. query_goal ''g1'' s2 = Some h \<and> goal_status h = ''active'' \<and> goal_session_id h = None \<and> goal_agent_id h = None"
    using lifecycle_commits [OF g1 row1, of rfc8259 goal_srv goal_org ResumeGoal "''r5''"] goal0_wf(2) wf1 columns
    by (auto simp: goal0_unrecorded unrecorded_other_label goal_labels apart goal_lookup row_effect_def lookup_upsert)
  have "goal_steps rfc8259 goal_srv ?s1 s2"
    using steps_more [OF steps_none step_lifecycle, of rfc8259 goal_srv ?s1 "''r5''" goal_org "''g1''" ResumeGoal] v2(1) by simp
  from repeated_lifecycle_command_is_lost [OF v1(1) this, of _ "''r6''"] row2 v1 v2 show ?thesis by fastforce
qed

section \<open>Continuing a goal\<close>

text \<open>
  C21. A goal continues only at a safe boundary: while a session holds the write lease of the workspace,
  whatever the other parties do, the scheduler's decision for any scope of that workspace changes
  nothing, and it is to continue exactly if the caller is the holder, the goal is active, automation is
  enabled and idle with a valid profile, no input or permission waits, the budget is not breached, the
  last turn made progress or the strategy changed, and a step that writes source has a checkpoint
  and a verification runner.
\<close>

theorem continues_only_at_safe_boundary:
  assumes "store_wf s" "holds session_id run_id key s" "lease_steps sj ctl session_id run_id key s t"
    and "lease_id (ctl_project_id ctl) scope = key" "query_goal i t = Some goal"
  shows "\<exists>out. evaluate_continuation ctl i c (Some scope) t = (Inr out, t)
    \<and> (co_decision out = Continue \<longleftrightarrow>
         wls_session_id scope = session_id \<and> goal_status goal = ''active'' \<and> cc_enabled c
         \<and> cc_runtime_idle c \<and> cc_session_idle c \<and> cc_capability_profile_valid c
         \<and> \<not> cc_user_input_queued c \<and> \<not> cc_permission_pending c
         \<and> breach (gb_ceiling (cc_budget c)) (gb_usage (cc_budget c)) = None
         \<and> (\<not> cc_last_continuation_made_no_progress c \<or> cc_strategy_changed_since_suppression c)
         \<and> (\<not> cc_next_step_writes_source c
             \<or> cc_checkpoint_boundary_available c \<and> cc_verification_runner_available c))"
proof -
  have held: "holds session_id run_id key t" using lease_steps_holds [OF assms(3,1,2)] by simp
  then have "conflicting_workspace_lock ctl (Some scope) t \<longleftrightarrow> wls_session_id scope \<noteq> session_id"
    using assms(4)
    by (auto simp: conflicting_workspace_lock_def workspace_lease_holder_def holds_def split: option.splits)
  then show ?thesis
    by (simp add: evaluate_continuation_eq assms(5) continue_iff scheduler_inputs_of_def goal_is_active_def
        budget_available_def budget_breach_def) auto
qed

definition ready0 :: continuation_conditions where
  "ready0 = \<lparr>cc_enabled = True, cc_runtime_idle = True, cc_session_idle = True, cc_user_input_queued = False,
     cc_permission_pending = False, cc_capability_profile_valid = True, cc_next_step_writes_source = False,
     cc_checkpoint_boundary_available = True, cc_verification_runner_available = True,
     cc_last_continuation_made_no_progress = False, cc_strategy_changed_since_suppression = False,
     cc_budget = budget_unbounded\<rparr>"

text \<open>The leased workspace of the lock's sample, with the goal row added.\<close>

definition locked_goal0 :: store where
  "locked_goal0 = snd (append_event rfc8259 (event ''e9'' (GoalEvent GoalCreated) ''p1'') [Goal goal_row0] locked0)"

theorem continues_only_at_safe_boundary_witness:
  "\<exists>out. evaluate_continuation lock_ctl ''g1'' ready0 (Some (lock_scope ''s2'' ''r2'' ''/w/capo'')) locked_goal0 = (Inr out, locked_goal0)
     \<and> co_decision out \<noteq> Continue"
proof -
  have row: "query_goal ''g1'' locked_goal0 = Some (goal_row0\<lparr>goal_updated_sequence := st_sequence locked0 + 1\<rparr>)"
  proof -
    have "fresh_event ''p1'' ''e9'' locked0" by (rule locked0_fresh) (simp add: acquired_event_id_def)
    then have "append_admissible rfc8259 (event ''e9'' (GoalEvent GoalCreated) ''p1'') [Goal goal_row0] locked0"
      by (rule fresh_append_admissible) (use locked0_sequence rfc8259_empty_object in simp_all)
    then show ?thesis
      by (simp add: locked_goal0_def append_event_commits goal_lookup row_effect_def lookup_upsert)
  qed
  have "lease_step rfc8259 lock_ctl ''s1'' ''r1'' key0 locked0 locked_goal0"
    unfolding locked_goal0_def by (rule lease_other) (simp add: row_ok_def)
  then have steps: "lease_steps rfc8259 lock_ctl ''s1'' ''r1'' key0 locked0 locked_goal0" by (rule lease_more [OF lease_done])
  have "lease_id (ctl_project_id lock_ctl) (lock_scope ''s2'' ''r2'' ''/w/capo'') = key0" by (simp add: lease_id_def)
  from continues_only_at_safe_boundary [OF locked0_holds(3,2) steps this row, of ready0] show ?thesis by auto
qed

interpretation q_continuations: row_query goal_continuation_of_row GoalContinuation "''goal_continuations''"
  by unfold_locales (auto simp: goal_continuation_of_row_def split: projection_record.splits)

text \<open>
  C22. An exhausted goal stops its run: when the goal is not blocked, its budget is breached and the
  evaluation is given the attempt to abort, it returns the budget limit, records the decision, and
  leaves the attempt's run, session and task aborted and its agent available without a session.  The
  session, task and agent of the attempt have rows, the two event ids are new, and the sequence has room
  for two events.  A blocked goal is blocked before its budget is looked at, and without an attempt to
  abort only the decision is recorded; neither case aborts a run.
\<close>

theorem exhausted_goal_aborts_run:
  assumes "query_goal i s = Some goal" "goal_status goal \<noteq> ''blocked''"
    and "breach (gb_ceiling (cc_budget c)) (gb_usage (cc_budget c)) = Some b"
    and "query_session (refs_session_id refs) s = Some ses" "query_task (refs_task_id refs) s = Some tsk"
      "query_agent (refs_agent_id refs) s = Some agt"
    and "unrecorded (continuation_event sj ctl goal i cid (outcome BudgetLimit ''budget_exhausted'')) s"
    and "unrecorded (aborted_event ctl refs turn_id b) s" "st_sequence s + 2 < 2 ^ 63"
  shows "\<exists>t. evaluate_and_record_continuation sj ctl i cid c scope (Some (refs, turn_id)) s
        = (Inr (outcome BudgetLimit ''budget_exhausted''), t)
    \<and> map_option run_status (query_run (refs_run_id refs) t) = Some ''aborted''
    \<and> map_option ses_status (query_session (refs_session_id refs) t) = Some ''aborted''
    \<and> map_option tsk_capo_execution_status (query_task (refs_task_id refs) t) = Some ''aborted''
    \<and> map_option (\<lambda>a. (agt_status a, agt_current_session_id a)) (query_agent (refs_agent_id refs) t) = Some (''available'', None)
    \<and> (\<exists>k \<in> set (goal_continuations_for_goal i t). cont_continuation_id k = cid \<and> cont_decision k = ''budget-limit'')"
proof -
  let ?out = "outcome BudgetLimit ''budget_exhausted''"
  let ?e = "continuation_event sj ctl goal i cid ?out" and ?rs = "[GoalContinuation (continuation_row ctl goal i cid ?out)]"
  let ?u = "committed_store sj ?e ?rs s"
  let ?t = "committed_store sj (aborted_event ctl refs turn_id b) (aborted_records ctl refs b ses tsk agt) ?u"
  have "decide_continuation (scheduler_inputs_of ctl goal c scope s) = ?out"
    using assms(2,3) by (simp add: decide_continuation_def scheduler_inputs_of_def budget_available_def budget_breach_def)
  then have decided: "evaluate_continuation ctl i c scope s = (Inr ?out, s)"
    by (simp add: evaluate_continuation_eq assms(1))
  have "append_admissible sj ?e ?rs s"
    using assms(7,9) by (simp add: append_admissible_def unrecorded_def json_columns_ok_def)
  then have recorded: "append_event sj ?e ?rs s = (Inr (st_sequence s + 1), ?u)" by (rule append_event_commits)
  have "unrecorded (aborted_event ctl refs turn_id b) ?u"
    by (rule unrecorded_committed [OF assms(8)]) (simp_all add: continuation_event_def aborted_event_def)
  then have "abort_run_for_ceiling sj ctl refs turn_id b ?u = (Inr (), ?t)"
    using assms(4-6,9)
    by (intro abort_commits) (simp_all add: query_session_def query_task_def query_agent_def row_effect_def lookup_upsert)
  then have "evaluate_and_record_continuation sj ctl i cid c scope (Some (refs, turn_id)) s = (Inr ?out, ?t)"
    using assms(3) by (simp add: evaluate_and_record_continuation_def op_bind_def decided require_row_def assms(1) recorded
      abort_if_exhausted_def budget_breach_def op_return_def)
  moreover have "\<exists>k \<in> set (goal_continuations_for_goal i ?t). cont_continuation_id k = cid \<and> cont_decision k = ''budget-limit''"
  proof -
    let ?k = "(continuation_row ctl goal i cid ?out)\<lparr>cont_updated_sequence := st_sequence s + 1\<rparr>"
    have "lookup (st_tables ?t) ''goal_continuations'' [cid] = Some (GoalContinuation ?k)"
      by (simp add: aborted_records_def Let_def row_effect_def lookup_upsert continuation_row_def)
    then have "([cid], GoalContinuation ?k) \<in> set (st_tables ?t ''goal_continuations'')" by (simp add: lookup_def map_of_SomeD)
    then have "?k \<in> set (goal_continuations_for_goal i ?t)"
      unfolding goal_continuations_for_goal_def q_continuations.select_set by (auto simp: continuation_row_def)
    then show ?thesis by (rule bexI [rotated]) (simp add: continuation_row_def)
  qed
  ultimately show ?thesis using abort_rows [of refs sj _ ctl b ses tsk agt] by (intro exI [of _ ?t]) fastforce
qed

definition run_store0 :: store where
  "run_store0 = committed_store rfc8259 (event ''e1'' (GoalEvent GoalCreated) ''p1'')
     [Goal goal_row0,
      Task \<lparr>tsk_task_id = ''t1'', tsk_project_id = ''p1'', tsk_title = ''ship'', tsk_capo_execution_status = ''running'',
        tsk_active_session_id = Some ''s1'', tsk_latest_summary = None, tsk_evidence_id = None, tsk_updated_sequence = 0\<rparr>,
      Agent \<lparr>agt_agent_id = ''a1'', agt_project_id = ''p1'', agt_name = ''fake'', agt_status = ''busy'',
        agt_current_session_id = Some ''s1'', agt_updated_sequence = 0\<rparr>,
      Session \<lparr>ses_session_id = ''s1'', ses_project_id = ''p1'', ses_task_id = Some ''t1'', ses_agent_id = ''a1'',
        ses_title = ''ship'', ses_status = ''running'', ses_current_goal = ''ship'', ses_latest_summary = None,
        ses_latest_confidence = None, ses_latest_blocker = None, ses_external_session_ref = None, ses_updated_sequence = 0\<rparr>]
     store_open"

definition refs0 :: fake_run_refs where
  "refs0 = \<lparr>refs_task_id = ''t1'', refs_agent_id = ''a1'', refs_session_id = ''s1'', refs_run_id = ''r1'',
     refs_runtime_process_ref = ''proc'', refs_external_session_ref = ''ext''\<rparr>"

definition spent0 :: continuation_conditions where
  "spent0 = ready0\<lparr>cc_budget := \<lparr>gb_ceiling = ceiling_max_turns 3,
     gb_usage = \<lparr>ru_turns_taken = 4, ru_wall_clock_elapsed = 0, ru_token_cost = 0\<rparr>\<rparr>\<rparr>"

theorem exhausted_goal_aborts_run_witness:
  "\<exists>t. evaluate_and_record_continuation rfc8259 lock_ctl ''g1'' ''k1'' spent0 None (Some (refs0, ''u1'')) run_store0
       = (Inr (outcome BudgetLimit ''budget_exhausted''), t)
    \<and> map_option run_status (query_run ''r1'' t) = Some ''aborted''"
proof -
  have rows: "query_goal ''g1'' run_store0 = Some (goal_row0\<lparr>goal_updated_sequence := 1\<rparr>)"
    "\<exists>ses. query_session (refs_session_id refs0) run_store0 = Some ses"
    "\<exists>tsk. query_task (refs_task_id refs0) run_store0 = Some tsk" "\<exists>agt. query_agent (refs_agent_id refs0) run_store0 = Some agt"
    by (simp_all add: run_store0_def refs0_def query_goal_def query_session_def query_task_def query_agent_def row_effect_def lookup_upsert)
  have budget: "breach (gb_ceiling (cc_budget spent0)) (gb_usage (cc_budget spent0)) = Some (MaxTurns 3 4)"
    by (simp add: spent0_def breach_def exceeds_def ceiling_max_turns_def)
  have unrec: "unrecorded e run_store0" if "nev_event_id e \<noteq> ''e1''" "nev_idempotency_key e \<noteq> Some ''e1''" for e
    unfolding run_store0_def using that by (intro unrecorded_committed) simp_all
  have "st_sequence run_store0 + 2 < 2 ^ 63" by (simp add: run_store0_def)
  with exhausted_goal_aborts_run [OF rows(1) _ budget, of refs0 _ _ _ rfc8259 lock_ctl "''k1''" "''u1''" None] rows(2-4)
  show ?thesis by (fastforce simp: unrec continuation_event_def aborted_event_def refs0_def)
qed

section \<open>Reports\<close>

definition with_payloads :: "(event_record \<Rightarrow> string) \<Rightarrow> store \<Rightarrow> store" where
  "with_payloads f s = s\<lparr>st_events := map (\<lambda>e. e\<lparr>ev_payload_json := f e\<rparr>) (st_events s)\<rparr>"

lemma insort_key_map: "(\<And>x. k (g x) = k x) \<Longrightarrow> insort_key k (g y) (map g xs) = map g (insort_key k y xs)"
  by (induction xs) simp_all

lemma sort_key_map: "(\<And>x. k (g x) = k x) \<Longrightarrow> sort_key k (map g xs) = map g (sort_key k xs)"
  by (induction xs) (simp_all add: insort_key_map)

lemma push_unseen_map:
  "(\<And>e. ev_sequence (g e) = ev_sequence e) \<Longrightarrow> push_unseen (map g rs) (map g es) = map g (push_unseen rs es)"
proof (induction es arbitrary: rs)
  case (Cons e es)
  have "list_ex (\<lambda>seen. ev_sequence seen = ev_sequence (g e)) (map g rs) \<longleftrightarrow> list_ex (\<lambda>seen. ev_sequence seen = ev_sequence e) rs"
    using Cons.prems by (simp add: list_ex_iff)
  with Cons.IH [of rs] Cons.IH [of "rs @ [e]"] Cons.prems show ?case by simp
qed simp

lemma timeline_with_payloads:
  "goal_timeline_entries goal (with_payloads f s) = map (\<lambda>e. e\<lparr>ev_payload_json := f e\<rparr>) (goal_timeline_entries goal s)"
proof -
  let ?g = "\<lambda>e. e\<lparr>ev_payload_json := f e\<rparr>"
  have "evidence_events_for_run r (with_payloads f s) = map ?g (evidence_events_for_run r s)" for r
    by (simp add: evidence_events_for_run_def with_payloads_def filter_map comp_def sort_key_map)
  moreover have "events_for_items is (with_payloads f s) = map ?g (events_for_items is s)" for "is"
    by (simp add: events_for_items_def with_payloads_def filter_map comp_def sort_key_map)
  moreover have "requirement_ledgers_for_goal g (with_payloads f s) = requirement_ledgers_for_goal g s"
    "goal_reports_for_goal g (with_payloads f s) = goal_reports_for_goal g s"
    "goal_continuations_for_goal g (with_payloads f s) = goal_continuations_for_goal g s" for g
    by (simp_all add: requirement_ledgers_for_goal_def goal_reports_for_goal_def goal_continuations_for_goal_def with_payloads_def)
  ultimately show ?thesis
    using push_unseen_map [of ?g "[]"]
    by (simp add: goal_timeline_entries_def Let_def push_unseen_map sort_key_map split: option.splits)
qed

text \<open>
  Reports show no payloads: whatever the payloads of the events in the log are, the rendered
  report and the timeline of a goal are the same.
\<close>

theorem goal_report_shows_no_payload:
  "fst (handle_goal_report_rendering pretty rid org i fmt (with_payloads f s))
     = fst (handle_goal_report_rendering pretty rid org i fmt s)
   \<and> fst (handle_goal_timeline rid org i (with_payloads f s)) = fst (handle_goal_timeline rid org i s)"
proof -
  let ?s = "with_payloads f s"
  have keep: "st_tables ?s = st_tables s" by (simp add: with_payloads_def)
  have goal: "require_goal i ?s = (case require_goal i s of (r, _) \<Rightarrow> (r, ?s))"
    by (simp add: require_goal_def srv_bind_def srv_id_cases query_goal_def keep split: option.splits)
  have pub: "map public_part (goal_timeline_entries goal ?s) = map public_part (goal_timeline_entries goal s)" for goal
    by (simp add: timeline_with_payloads public_part_def)
  have inputs: "goal_report_inputs_of goal i ?s = (goal_report_inputs_of goal i s)\<lparr>gri_timeline := goal_timeline_entries goal ?s\<rparr>" for goal
    by (simp add: goal_report_inputs_of_def requirement_ledgers_for_goal_def goal_reports_for_goal_def goal_continuations_for_goal_def
      delegated_provider_goals_for_goal_def evidence_for_task_def latest_goal_audit_decision_def
      goal_audit_decisions_for_goal_def keep cong: option.case_cong)
  have same: "goal_report_inputs_of goal i s = (goal_report_inputs_of goal i s)\<lparr>gri_timeline := goal_timeline_entries goal s\<rparr>" for goal
    by (simp add: goal_report_inputs_of_def)
  have md: "render_goal_report_markdown (goal_report_inputs_of goal i ?s) = render_goal_report_markdown (goal_report_inputs_of goal i s)"
    and js: "render_goal_report_json pretty (goal_report_inputs_of goal i ?s) = render_goal_report_json pretty (goal_report_inputs_of goal i s)" for goal
    using render_public [OF pub] same inputs by metis+
  obtain r where r: "require_goal i s = (r, s)" using require_goal_keeps [of i s] by (metis prod.collapse)
  show ?thesis
    by (cases r; cases fmt)
      (simp_all add: handle_goal_report_rendering_def handle_goal_timeline_def srv_bind_def goal r md js timeline_with_payloads
        response_def Let_def comp_def)
qed

end
