(* ===== verification/Transport_Wire.thy ===== *)
theory Transport_Wire
  imports Server_Types Codec_Decode
begin

text \<open>
  \<open>capo-server/src/transport/wire.rs\<close> and the error type of \<open>transport.rs\<close>: the field readers of the
  transport codec, the names of input origins, and how an error is shown to a client.

  The \<open>Display\<close> text of an I/O or JSON error is kept in the error; the \<open>Debug\<close> text of a state
  error, which prints errors of SQLite, is the argument \<open>dbg\<close>.
\<close>

datatype (plugins only: code size) transport_error =
    TransportIo string
  | TransportJson string
  | Protocol string
  | TransportServer server_error
  | Remote string string
  | Cancelled string
  | Interrupted string string
  | TransportPanic

type_synonym 'a transport_result = "(transport_error, 'a) result"

section \<open>Input origins\<close>

fun input_origin_name :: "server_input_origin \<Rightarrow> string" where
  "input_origin_name FromCli = ''cli''"
| "input_origin_name FromDashboard = ''dashboard''"
| "input_origin_name FromMobile = ''mobile''"
| "input_origin_name FromVoice = ''voice''"
| "input_origin_name FromApi = ''api''"
| "input_origin_name FromSystem = ''system''"

definition parse_input_origin :: "string \<Rightarrow> server_input_origin transport_result" where
  "parse_input_origin value =
     (if value = ''cli'' then Inr FromCli
      else if value = ''dashboard'' then Inr FromDashboard
      else if value = ''mobile'' then Inr FromMobile
      else if value = ''voice'' then Inr FromVoice
      else if value = ''api'' then Inr FromApi
      else if value = ''system'' then Inr FromSystem
      else Inl (Protocol (''unknown input origin: '' @ value)))"

section \<open>Field readers\<close>

text \<open>\<open>Value::as_str\<close>, \<open>as_i64\<close>, \<open>as_u64\<close> and \<open>as_array\<close>.\<close>

fun value_as_str :: "json \<Rightarrow> string option" where
  "value_as_str (JString s) = Some s"
| "value_as_str _ = None"

fun value_as_i64 :: "json \<Rightarrow> int option" where
  "value_as_i64 (JNumber n) = number_as_i64 n"
| "value_as_i64 _ = None"

fun value_as_u64 :: "json \<Rightarrow> nat option" where
  "value_as_u64 (JNumber (NInt i)) = (if 0 \<le> i \<and> i < 2 ^ 64 then Some (nat i) else None)"
| "value_as_u64 _ = None"

fun value_as_array :: "json \<Rightarrow> json list option" where
  "value_as_array (JArray vs) = Some vs"
| "value_as_array _ = None"

definition ok_or :: "transport_error \<Rightarrow> 'a option \<Rightarrow> 'a transport_result" where
  "ok_or e x = (case x of Some a \<Rightarrow> Inr a | None \<Rightarrow> Inl e)"

definition wire_value :: "json \<Rightarrow> string \<Rightarrow> json transport_result" where
  "wire_value value key = ok_or (Protocol (''missing '' @ key)) (json_get value key)"

definition wire_string :: "json \<Rightarrow> string \<Rightarrow> string transport_result" where
  "wire_string value key =
     ok_or (Protocol (''missing '' @ key @ '' string'')) (Option.bind (json_get value key) value_as_str)"

definition wire_optional :: "string \<Rightarrow> (json \<Rightarrow> 'a option) \<Rightarrow> json \<Rightarrow> string \<Rightarrow> 'a option transport_result" where
  "wire_optional what read_it value key =
     (case json_get value key of
        None \<Rightarrow> Inr None
      | Some JNull \<Rightarrow> Inr None
      | Some v \<Rightarrow> (case read_it v of
            Some a \<Rightarrow> Inr (Some a)
          | None \<Rightarrow> Inl (Protocol (key @ '' must be '' @ what))))"

definition wire_optional_string :: "json \<Rightarrow> string \<Rightarrow> string option transport_result" where
  "wire_optional_string = wire_optional ''a string'' value_as_str"

definition wire_optional_bool :: "json \<Rightarrow> string \<Rightarrow> bool option transport_result" where
  "wire_optional_bool = wire_optional ''a boolean'' json_as_bool"

definition wire_optional_i64 :: "json \<Rightarrow> string \<Rightarrow> int option transport_result" where
  "wire_optional_i64 = wire_optional ''an integer'' value_as_i64"

definition wire_i64 :: "json \<Rightarrow> string \<Rightarrow> int transport_result" where
  "wire_i64 value key =
     ok_or (Protocol (''missing '' @ key @ '' integer'')) (Option.bind (json_get value key) value_as_i64)"

definition wire_bool :: "json \<Rightarrow> string \<Rightarrow> bool transport_result" where
  "wire_bool value key =
     ok_or (Protocol (''missing '' @ key @ '' boolean'')) (Option.bind (json_get value key) json_as_bool)"

text \<open>On a 64-bit target every \<open>u64\<close> is a \<open>usize\<close>.\<close>

definition wire_usize :: "json \<Rightarrow> string \<Rightarrow> nat transport_result" where
  "wire_usize value key =
     ok_or (Protocol (''missing '' @ key @ '' integer'')) (Option.bind (json_get value key) value_as_u64)"

text \<open>\<open>iter().map(f).collect::<Result<Vec<_>, _>>()\<close>.\<close>

fun collect :: "('a \<Rightarrow> ('e, 'b) result) \<Rightarrow> 'a list \<Rightarrow> ('e, 'b list) result" where
  "collect f [] = Inr []"
| "collect f (x # xs) = and_then (f x) (\<lambda>y. and_then (collect f xs) (\<lambda>ys. Inr (y # ys)))"

definition wire_string_array :: "json \<Rightarrow> string \<Rightarrow> string list transport_result" where
  "wire_string_array value key =
     and_then (ok_or (Protocol (''missing '' @ key @ '' array'')) (Option.bind (json_get value key) value_as_array))
       (collect (\<lambda>v. ok_or (Protocol (key @ '' must contain strings'')) (value_as_str v)))"

text \<open>\<open>required_value(value, key)?.as_array()\<close>, decoding every entry.\<close>

definition wire_items :: "(json \<Rightarrow> 'a transport_result) \<Rightarrow> json \<Rightarrow> string \<Rightarrow> 'a list transport_result" where
  "wire_items decode value key =
     and_then (wire_value value key) (\<lambda>v.
     and_then (ok_or (Protocol (key @ '' must be an array'')) (value_as_array v)) (collect decode))"

text \<open>A typed id read from the wire: the constructor panics on a blank string.\<close>

definition wire_id :: "string \<Rightarrow> string transport_result" where
  "wire_id value = (case typed_id_new value of Inl _ \<Rightarrow> Inl TransportPanic | Inr v \<Rightarrow> Inr v)"

definition wire_optional_id :: "string option \<Rightarrow> string option transport_result" where
  "wire_optional_id value =
     (case value of None \<Rightarrow> Inr None | Some v \<Rightarrow> and_then (wire_id v) (\<lambda>i. Inr (Some i)))"

text \<open>\<open>as u32\<close> keeps the low 32 bits.\<close>

definition as_u32 :: "nat \<Rightarrow> nat" where
  "as_u32 n = n mod 2 ^ 32"

section \<open>Errors on the wire\<close>

fun server_error_wire :: "(state_error \<Rightarrow> string) \<Rightarrow> server_error \<Rightarrow> string \<times> string" where
  "server_error_wire dbg (ServerState e) = (''state'', dbg e)"
| "server_error_wire dbg (AdapterFixture message) = (''adapter_fixture'', message)"
| "server_error_wire dbg (UnknownAgent agent_name) = (''unknown_agent'', ''unknown agent: '' @ agent_name)"
| "server_error_wire dbg (AgentHasNoActiveSession agent_name) =
     (''agent_has_no_active_session'', ''agent has no active session: '' @ agent_name)"
| "server_error_wire dbg (AgentAlreadyHasSession agent_name session_id st) =
     (''agent_already_has_session'',
      ''agent '' @ agent_name @ '' already has session '' @ session_id @ '' with run_status=''
      @ (case st of Some r \<Rightarrow> r | None \<Rightarrow> ''none''))"
| "server_error_wire dbg (SessionAlreadyExists session_id) =
     (''session_already_exists'', ''session already exists: '' @ session_id)"
| "server_error_wire dbg (RunAlreadyExists run_id) = (''run_already_exists'', ''run already exists: '' @ run_id)"
| "server_error_wire dbg (UnknownDispatchPlan dispatch_plan_id) =
     (''unknown_dispatch_plan'', ''unknown dispatch plan: '' @ dispatch_plan_id)"
| "server_error_wire dbg (UnknownSession session_id) = (''unknown_session'', ''unknown session: '' @ session_id)"
| "server_error_wire dbg (RunSessionMismatch session_id run_id actual_session_id) =
     (''run_session_mismatch'',
      ''run '' @ run_id @ '' belongs to session '' @ actual_session_id @ '', not requested session '' @ session_id)"
| "server_error_wire dbg (AdapterSessionMismatch session_id session_adapter requested_adapter) =
     (''adapter_session_mismatch'',
      ''session '' @ session_id @ '' uses adapter '' @ session_adapter @ '', not requested adapter ''
      @ requested_adapter)"
| "server_error_wire dbg (UnsupportedChatAdapter adapter) =
     (''unsupported_chat_adapter'',
      ''unsupported chat adapter `'' @ adapter @ ''`; expected `fake` (default) or `codex`'')"
| "server_error_wire dbg (UnknownGoal goal_id) = (''unknown_goal'', ''unknown goal: '' @ goal_id)"
| "server_error_wire dbg (GoalCompleteNotALifecycleCommand goal_id) =
     (''goal_complete_not_a_lifecycle_command'',
      ''goal '' @ goal_id @ '' cannot be completed via a lifecycle command; completion is reachable only through the evidence-gated auditor'')"
| "server_error_wire dbg (IllegalGoalStatusTransition goal_id requested_status) =
     (''illegal_goal_status_transition'',
      ''goal '' @ goal_id @ '' cannot transition to `'' @ requested_status
      @ ''`; lifecycle statuses are active/paused/blocked/cleared'')"
| "server_error_wire dbg (ServerUnclassifiableReportSource source) =
     (''unclassifiable_report_source'',
      ''report source `'' @ source @ ''` is neither an agent claim nor a recognized observed-evidence source'')"
| "server_error_wire dbg (InvalidRuntimeTargetField field value expected) =
     (''invalid_runtime_target_field'',
      ''invalid runtime target '' @ field @ '' `'' @ value @ ''`; expected '' @ expected)"
| "server_error_wire dbg (SubscribeFromSequenceAheadOfLog from_sequence latest_sequence) =
     (''subscribe_from_sequence_ahead_of_log'',
      ''subscribe from_sequence '' @ int_to_string from_sequence @ '' is ahead of the log head ''
      @ int_to_string latest_sequence
      @ ''; a resume cursor must be at or below the latest committed sequence'')"
| "server_error_wire dbg (InvalidRunnerReplayFrame event_id field value expected) =
     (''invalid_runner_replay_frame'',
      ''runner replay frame '' @ event_id @ '' has invalid '' @ field @ '' `'' @ value @ ''`; expected '' @ expected)"
| "server_error_wire dbg ServerPanic = ([], [])"

fun transport_error_wire :: "(state_error \<Rightarrow> string) \<Rightarrow> transport_error \<Rightarrow> string \<times> string" where
  "transport_error_wire dbg (TransportIo e) = (''io'', e)"
| "transport_error_wire dbg (TransportJson e) = (''json'', e)"
| "transport_error_wire dbg (Protocol message) = (''protocol'', message)"
| "transport_error_wire dbg (TransportServer e) = server_error_wire dbg e"
| "transport_error_wire dbg (Remote kind message) = (''remote'', kind @ '': '' @ message)"
| "transport_error_wire dbg (Cancelled request_id) =
     (''cancelled'', ''request '' @ request_id @ '' cancelled by in-band cancel'')"
| "transport_error_wire dbg (Interrupted session_id reason) =
     (''interrupted'', ''turn for session '' @ session_id @ '' interrupted mid-turn: '' @ reason)"
| "transport_error_wire dbg TransportPanic = ([], [])"

section \<open>Reading what was written\<close>

text \<open>How \<open>json!\<close> turns the field types of the server into values.\<close>

definition j_nat :: "nat \<Rightarrow> json" where
  "j_nat n = JNumber (NInt (int n))"

definition j_opt :: "('a \<Rightarrow> json) \<Rightarrow> 'a option \<Rightarrow> json" where
  "j_opt f x = (case x of None \<Rightarrow> JNull | Some a \<Rightarrow> f a)"

definition j_strings :: "string list \<Rightarrow> json" where
  "j_strings ss = JArray (map JString ss)"

named_theorems wire_simps \<open>reading a field of an object that was just built\<close>

lemma parse_input_origin_name [wire_simps]: "parse_input_origin (input_origin_name i) = Inr i"
  by (cases i) (simp_all add: parse_input_origin_def)

lemma wire_value_found [wire_simps]: "json_get v k = Some x \<Longrightarrow> wire_value v k = Inr x"
  by (simp add: wire_value_def ok_or_def)

lemma wire_string_found [wire_simps]: "json_get v k = Some (JString s) \<Longrightarrow> wire_string v k = Inr s"
  by (simp add: wire_string_def ok_or_def)

lemma wire_optional_string_found [wire_simps]:
  "json_get v k = Some (j_opt_str x) \<Longrightarrow> wire_optional_string v k = Inr x"
  "json_get v k = Some (JString s) \<Longrightarrow> wire_optional_string v k = Inr (Some s)"
  by (auto simp: wire_optional_string_def wire_optional_def j_opt_str_def split: option.splits)

lemma wire_optional_bool_found [wire_simps]:
  "json_get v k = Some (j_opt JBool x) \<Longrightarrow> wire_optional_bool v k = Inr x"
  "json_get v k = Some (JBool b) \<Longrightarrow> wire_optional_bool v k = Inr (Some b)"
  by (auto simp: wire_optional_bool_def wire_optional_def j_opt_def split: option.splits)

lemma wire_optional_i64_found [wire_simps]:
  "json_get v k = Some (j_opt_int x) \<Longrightarrow> opt_all i64_ok x \<Longrightarrow> wire_optional_i64 v k = Inr x"
  by (auto simp: wire_optional_i64_def wire_optional_def j_opt_int_def split: option.splits)

lemma wire_i64_found [wire_simps]: "json_get v k = Some (j_int i) \<Longrightarrow> i64_ok i \<Longrightarrow> wire_i64 v k = Inr i"
  by (simp add: wire_i64_def ok_or_def j_int_def)

lemma wire_bool_found [wire_simps]: "json_get v k = Some (JBool b) \<Longrightarrow> wire_bool v k = Inr b"
  by (simp add: wire_bool_def ok_or_def)

lemma value_as_u64_nat [wire_simps]: "n < 2 ^ 64 \<Longrightarrow> value_as_u64 (j_nat n) = Some n"
  by (simp add: j_nat_def)

lemma value_as_opt [wire_simps]:
  "opt_all (\<lambda>m. m < 2 ^ 64) w \<Longrightarrow> value_as_u64 (j_opt j_nat w) = w"
  "opt_all i64_ok x \<Longrightarrow> value_as_i64 (j_opt_int x) = x"
  by (cases w, simp_all add: j_opt_def value_as_u64_nat) (cases x, simp_all add: j_opt_int_def)

lemma wire_usize_found [wire_simps]: "json_get v k = Some (j_nat n) \<Longrightarrow> n < 2 ^ 64 \<Longrightarrow> wire_usize v k = Inr n"
  by (simp add: wire_usize_def ok_or_def value_as_u64_nat)

lemma collect_map [wire_simps]:
  "(\<And>x. x \<in> set xs \<Longrightarrow> f (g x) = Inr (h x)) \<Longrightarrow> collect f (map g xs) = Inr (map h xs)"
  by (induction xs) auto

lemma wire_string_array_found [wire_simps]: "json_get v k = Some (j_strings ss) \<Longrightarrow> wire_string_array v k = Inr ss"
  using collect_map [of ss "\<lambda>v. ok_or (Protocol (k @ '' must contain strings'')) (value_as_str v)" JString "\<lambda>s. s"]
  by (simp add: wire_string_array_def ok_or_def j_strings_def)

lemma wire_items_found:
  assumes "json_get v k = Some (JArray (map g xs))" "\<forall>x \<in> set xs. f (g x) = Inr (h x)"
  shows "wire_items f v k = Inr (map h xs)"
  using assms collect_map [of xs f g h] by (simp add: wire_items_def wire_value_def ok_or_def)

lemma wire_id_ok [wire_simps]: "id_ok v \<Longrightarrow> wire_id v = Inr v"
  by (simp add: wire_id_def)

lemma wire_optional_id_ok [wire_simps]: "opt_all id_ok v \<Longrightarrow> wire_optional_id v = Inr v"
  by (cases v) (simp_all add: wire_optional_id_def wire_id_ok)

lemma as_u32_small [wire_simps]: "n < 2 ^ 32 \<Longrightarrow> as_u32 n = n"
  by (simp add: as_u32_def)

lemma and_then_weak_cong: "x = y \<Longrightarrow> and_then x f = and_then y f"
  by simp

text \<open>Objects built by \<open>json!\<close> are well formed and as deep as their fields.\<close>

definition json_ok :: "nat \<Rightarrow> json \<Rightarrow> bool" where
  "json_ok n v \<longleftrightarrow> json_wf v \<and> json_depth v < n"

named_theorems json_oks \<open>what an encoder builds is well formed, and how deep it is\<close>

lemma json_ok_objectI:
  assumes "list_all (json_ok (n - 1)) (map snd kvs)" "1 < n"
  shows "json_ok n (json_object kvs)"
proof -
  have "set (btree_of kvs) \<subseteq> set kvs" using set_fold_btree [of kvs "[]"] by (simp add: btree_of_def)
  then have "list_all json_wf (map snd (btree_of kvs))"
    using assms(1) by (fastforce simp: list_all_iff json_ok_def)
  moreover have "sorted_wrt (<) (map fst (btree_of kvs))" unfolding btree_of_def by (rule sorted_fold_btree) simp
  ultimately have "json_wf (json_object kvs)" by (simp add: json_object_def)
  moreover have "json_depth (json_object kvs) < Suc (n - 1)"
    using assms by (intro json_depth_object) (simp_all add: list_all_iff json_ok_def)
  ultimately show ?thesis using assms(2) by (simp add: json_ok_def)
qed

lemma json_ok_arrayI:
  assumes "list_all (json_ok (n - 1)) vs" "1 < n"
  shows "json_ok n (JArray vs)"
proof -
  have "fold max (map json_depth vs) 0 < n - 1"
    using assms by (intro fold_max_bound) (auto simp: json_ok_def list_all_iff)
  then show ?thesis using assms by (simp add: json_ok_def list_all_iff)
qed

lemma json_ok_leaf [json_oks]:
  assumes "0 < n"
  shows "json_ok n JNull" "json_ok n (JBool b)" "json_ok n (JString s)" "json_ok n (j_opt_str x)"
    "i64_ok i \<Longrightarrow> json_ok n (j_int i)" "opt_all i64_ok y \<Longrightarrow> json_ok n (j_opt_int y)"
    "m < 2 ^ 64 \<Longrightarrow> json_ok n (j_nat m)" "json_ok n (j_opt JBool z)"
    "opt_all (\<lambda>m. m < 2 ^ 64) w \<Longrightarrow> json_ok n (j_opt j_nat w)"
  using assms
  by (auto simp: json_ok_def j_opt_str_def j_int_def j_opt_int_def j_nat_def j_opt_def i64_ok_def split: option.splits)

lemma json_ok_u32 [json_oks]: "0 < n \<Longrightarrow> m < 2 ^ 32 \<Longrightarrow> json_ok n (j_nat m)"
  by (rule json_ok_leaf) simp_all

lemma json_ok_strings [json_oks]: "1 < n \<Longrightarrow> json_ok n (j_strings ss)"
  unfolding j_strings_def by (rule json_ok_arrayI) (auto simp: list_all_iff json_ok_leaf)

lemma json_ok_ints [json_oks]: "1 < n \<Longrightarrow> list_all i64_ok is \<Longrightarrow> json_ok n (JArray (map j_int is))"
  by (rule json_ok_arrayI) (auto simp: list_all_iff json_ok_leaf)

lemma json_ok_plain: "json_ok n v \<Longrightarrow> n \<le> 128 \<Longrightarrow> json_plain v"
  by (simp add: json_ok_def json_plain_def)

end
