(* ===== verification/Transport_Command.thy ===== *)
theory Transport_Command
  imports Transport_Wire
begin

text \<open>
  \<open>capo-server/src/transport/codec.rs\<close>, requests: \<open>encode_origin\<close>, \<open>encode_command\<close> and their readers.
  One pair of definitions per arm that has more than a few fields; the readers take the fields in the
  order the code does, so the first missing field decides the error.

  Shown here: what the encoder writes, the decoder reads back unchanged (\<open>decode_command_roundtrip\<close>),
  as long as every number fits its type; and what it writes is JSON that a parser accepts.
\<close>

section \<open>The parts of a command\<close>


definition encode_origin :: "server_client_origin \<Rightarrow> json" where
  "encode_origin origin =
     json_object [(''client_id'', JString (orig_client_id origin)),
       (''actor_id'', JString (orig_actor_id origin)),
       (''input_origin'', JString (input_origin_name (orig_input_origin origin)))]"

definition decode_origin :: "json \<Rightarrow> server_client_origin transport_result" where
  "decode_origin origin =
     and_then (wire_string origin ''client_id'') (\<lambda>client_id.
     and_then (wire_string origin ''actor_id'') (\<lambda>actor_id.
     and_then (and_then (wire_string origin ''input_origin'') parse_input_origin) (\<lambda>input_origin.
     Inr \<lparr>orig_client_id = client_id, orig_actor_id = actor_id, orig_input_origin = input_origin\<rparr>)))"

lemma decode_origin_roundtrip [wire_simps]: "decode_origin (encode_origin r) = Inr r"
  by (cases r) (simp add: decode_origin_def encode_origin_def wire_simps json_get_object)

lemma encode_origin_json [json_oks]: "2 \<le> n \<Longrightarrow> json_ok n (encode_origin r)"
  unfolding encode_origin_def by (rule json_ok_objectI) (simp_all add: json_oks)

definition encode_runner_replay_frame :: "runner_replay_frame \<Rightarrow> json" where
  "encode_runner_replay_frame r =
     json_object [(''event_id'', JString (rrf_event_id r)),
       (''kind'', JString (rrf_kind r)),
       (''session_id'', JString (rrf_session_id r)),
       (''idempotency_key'', JString (rrf_idempotency_key r)),
       (''payload_json'', JString (rrf_payload_json r)),
       (''redaction_state'', JString (rrf_redaction_state r))]"

definition decode_runner_replay_frame :: "json \<Rightarrow> runner_replay_frame transport_result" where
  "decode_runner_replay_frame value =
     and_then (wire_string value ''event_id'') (\<lambda>event_id.
     and_then (wire_string value ''kind'') (\<lambda>kind.
     and_then (wire_string value ''session_id'') (\<lambda>session_id.
     and_then (wire_string value ''idempotency_key'') (\<lambda>idempotency_key.
     and_then (wire_string value ''payload_json'') (\<lambda>payload_json.
     and_then (wire_string value ''redaction_state'') (\<lambda>redaction_state.
     Inr \<lparr>rrf_event_id = event_id, rrf_kind = kind, rrf_session_id = session_id,
       rrf_idempotency_key = idempotency_key, rrf_payload_json = payload_json,
       rrf_redaction_state = redaction_state\<rparr>))))))"

lemma decode_runner_replay_frame_roundtrip [wire_simps]:
  "decode_runner_replay_frame (encode_runner_replay_frame r) = Inr r"
  by (cases r) (simp add: decode_runner_replay_frame_def encode_runner_replay_frame_def wire_simps json_get_object unwrap_or_def cong: and_then_weak_cong)

lemma encode_runner_replay_frame_json [json_oks]:
  "2 \<le> n \<Longrightarrow> json_ok n (encode_runner_replay_frame r)"
  unfolding encode_runner_replay_frame_def by (rule json_ok_objectI) (simp_all add: json_oks)

lemma json_ok_items_runner_replay_frame [json_oks]:
  "3 \<le> n \<Longrightarrow> json_ok n (JArray (map encode_runner_replay_frame xs))"
  by (rule json_ok_arrayI) (auto simp: json_oks list_all_iff)

lemma wire_items_runner_replay_frame [wire_simps]:
  "json_get v k = Some (JArray (map encode_runner_replay_frame xs)) \<Longrightarrow> wire_items decode_runner_replay_frame v k = Inr (xs)"
  using wire_items_found [of v k encode_runner_replay_frame xs decode_runner_replay_frame "\<lambda>x. x"]
  by (simp add: wire_simps list_all_iff)

definition encode_continue_goal_conditions :: "continue_goal_conditions \<Rightarrow> json" where
  "encode_continue_goal_conditions r =
     json_object [(''enabled'', JBool (cgc_enabled r)),
       (''runtime_idle'', JBool (cgc_runtime_idle r)),
       (''session_idle'', JBool (cgc_session_idle r)),
       (''user_input_queued'', JBool (cgc_user_input_queued r)),
       (''permission_pending'', JBool (cgc_permission_pending r)),
       (''capability_profile_valid'', JBool (cgc_capability_profile_valid r)),
       (''next_step_writes_source'', JBool (cgc_next_step_writes_source r)),
       (''checkpoint_boundary_available'', JBool (cgc_checkpoint_boundary_available r)),
       (''verification_runner_available'', JBool (cgc_verification_runner_available r)),
       (''last_continuation_made_no_progress'', JBool (cgc_last_continuation_made_no_progress r)),
       (''strategy_changed_since_suppression'', JBool (cgc_strategy_changed_since_suppression r)),
       (''budget_max_turns'', j_nat (cgc_budget_max_turns r)),
       (''budget_timeout_seconds'', j_nat (cgc_budget_timeout_seconds r)),
       (''budget_max_token_cost'', j_nat (cgc_budget_max_token_cost r)),
       (''budget_turns_taken'', j_nat (cgc_budget_turns_taken r)),
       (''budget_token_cost'', j_nat (cgc_budget_token_cost r))]"

definition decode_continue_goal_conditions :: "json \<Rightarrow> continue_goal_conditions transport_result" where
  "decode_continue_goal_conditions value =
     and_then (wire_bool value ''enabled'') (\<lambda>enabled.
     and_then (wire_bool value ''runtime_idle'') (\<lambda>runtime_idle.
     and_then (wire_bool value ''session_idle'') (\<lambda>session_idle.
     and_then (wire_bool value ''user_input_queued'') (\<lambda>user_input_queued.
     and_then (wire_bool value ''permission_pending'') (\<lambda>permission_pending.
     and_then (wire_bool value ''capability_profile_valid'') (\<lambda>capability_profile_valid.
     and_then (wire_bool value ''next_step_writes_source'') (\<lambda>next_step_writes_source.
     and_then (wire_bool value ''checkpoint_boundary_available'') (\<lambda>checkpoint_boundary_available.
     and_then (wire_bool value ''verification_runner_available'') (\<lambda>verification_runner_available.
     and_then (wire_bool value ''last_continuation_made_no_progress'') (\<lambda>last_continuation_made_no_progress.
     and_then (wire_bool value ''strategy_changed_since_suppression'') (\<lambda>strategy_changed_since_suppression.
     and_then (and_then (wire_usize value ''budget_max_turns'') (\<lambda>n. Inr (as_u32 n))) (\<lambda>budget_max_turns.
     and_then (wire_usize value ''budget_timeout_seconds'') (\<lambda>budget_timeout_seconds.
     and_then (wire_usize value ''budget_max_token_cost'') (\<lambda>budget_max_token_cost.
     and_then (and_then (wire_usize value ''budget_turns_taken'') (\<lambda>n. Inr (as_u32 n))) (\<lambda>budget_turns_taken.
     and_then (wire_usize value ''budget_token_cost'') (\<lambda>budget_token_cost.
     Inr \<lparr>cgc_enabled = enabled, cgc_runtime_idle = runtime_idle, cgc_session_idle = session_idle,
       cgc_user_input_queued = user_input_queued, cgc_permission_pending = permission_pending,
       cgc_capability_profile_valid = capability_profile_valid,
       cgc_next_step_writes_source = next_step_writes_source,
       cgc_checkpoint_boundary_available = checkpoint_boundary_available,
       cgc_verification_runner_available = verification_runner_available,
       cgc_last_continuation_made_no_progress = last_continuation_made_no_progress,
       cgc_strategy_changed_since_suppression = strategy_changed_since_suppression,
       cgc_budget_max_turns = budget_max_turns, cgc_budget_timeout_seconds = budget_timeout_seconds,
       cgc_budget_max_token_cost = budget_max_token_cost, cgc_budget_turns_taken = budget_turns_taken,
       cgc_budget_token_cost = budget_token_cost\<rparr>))))))))))))))))"

definition continue_goal_conditions_ok :: "continue_goal_conditions \<Rightarrow> bool" where
  "continue_goal_conditions_ok r \<longleftrightarrow> cgc_budget_max_turns r < 2 ^ 32
     \<and> cgc_budget_timeout_seconds r < 2 ^ 64
     \<and> cgc_budget_max_token_cost r < 2 ^ 64
     \<and> cgc_budget_turns_taken r < 2 ^ 32
     \<and> cgc_budget_token_cost r < 2 ^ 64"

lemma decode_continue_goal_conditions_roundtrip [wire_simps]:
  "continue_goal_conditions_ok r \<Longrightarrow> decode_continue_goal_conditions (encode_continue_goal_conditions r) = Inr r"
  by (cases r) (simp add: decode_continue_goal_conditions_def encode_continue_goal_conditions_def continue_goal_conditions_ok_def wire_simps json_get_object unwrap_or_def cong: and_then_weak_cong)

lemma encode_continue_goal_conditions_json [json_oks]:
  "continue_goal_conditions_ok r \<Longrightarrow> 2 \<le> n \<Longrightarrow> json_ok n (encode_continue_goal_conditions r)"
  unfolding encode_continue_goal_conditions_def by (rule json_ok_objectI) (simp_all add: continue_goal_conditions_ok_def json_oks)

definition encode_continue_goal_turn :: "continue_goal_turn \<Rightarrow> json" where
  "encode_continue_goal_turn r =
     json_object [(''agent_name'', JString (cgt_agent_name r)),
       (''adapter'', JString (cgt_adapter r)),
       (''goal'', JString (cgt_goal r)),
       (''workspace'', JString (cgt_workspace r)),
       (''artifacts'', JString (cgt_artifacts r)),
       (''session_id'', JString (cgt_session_id r)),
       (''run_id'', JString (cgt_run_id r)),
       (''turn_id'', JString (cgt_turn_id r)),
       (''capability_profile'', JString (cgt_capability_profile r)),
       (''runtime_scope'', JString (cgt_runtime_scope r)),
       (''credential_scan_policy'', JString (cgt_credential_scan_policy r)),
       (''raw_prompt_policy'', JString (cgt_raw_prompt_policy r)),
       (''raw_output_policy'', JString (cgt_raw_output_policy r)),
       (''tool_wrapper_policy'', JString (cgt_tool_wrapper_policy r)),
       (''live_provider_opt_in'', JBool (cgt_live_provider_opt_in r)),
       (''live_execution_opt_in'', JBool (cgt_live_execution_opt_in r)),
       (''mock_runtime_opt_in'', JBool (cgt_mock_runtime_opt_in r)),
       (''mock_provider_output_name'', j_opt_str (cgt_mock_provider_output_name r)),
       (''mock_provider_output_jsonl'', j_opt_str (cgt_mock_provider_output_jsonl r)),
       (''timeout_seconds'', j_nat (cgt_timeout_seconds r)),
       (''max_turns'', j_nat (cgt_max_turns r)),
       (''max_token_cost'', j_nat (cgt_max_token_cost r)),
       (''turns_taken_before'', j_nat (cgt_turns_taken_before r)),
       (''token_cost_before'', j_nat (cgt_token_cost_before r)),
       (''turn_token_cost'', j_nat (cgt_turn_token_cost r)),
       (''unattended'', JBool (cgt_unattended r))]"

definition decode_continue_goal_turn :: "json \<Rightarrow> continue_goal_turn transport_result" where
  "decode_continue_goal_turn value =
     and_then (wire_string value ''agent_name'') (\<lambda>agent_name.
     and_then (wire_string value ''adapter'') (\<lambda>adapter.
     and_then (wire_string value ''goal'') (\<lambda>goal.
     and_then (wire_string value ''workspace'') (\<lambda>workspace.
     and_then (wire_string value ''artifacts'') (\<lambda>artifacts.
     and_then (wire_string value ''session_id'') (\<lambda>session_id.
     and_then (wire_string value ''run_id'') (\<lambda>run_id.
     and_then (wire_string value ''turn_id'') (\<lambda>turn_id.
     and_then (wire_string value ''capability_profile'') (\<lambda>capability_profile.
     and_then (wire_string value ''runtime_scope'') (\<lambda>runtime_scope.
     and_then (wire_string value ''credential_scan_policy'') (\<lambda>credential_scan_policy.
     and_then (wire_string value ''raw_prompt_policy'') (\<lambda>raw_prompt_policy.
     and_then (wire_string value ''raw_output_policy'') (\<lambda>raw_output_policy.
     and_then (wire_string value ''tool_wrapper_policy'') (\<lambda>tool_wrapper_policy.
     and_then (wire_bool value ''live_provider_opt_in'') (\<lambda>live_provider_opt_in.
     and_then (wire_bool value ''live_execution_opt_in'') (\<lambda>live_execution_opt_in.
     and_then (wire_bool value ''mock_runtime_opt_in'') (\<lambda>mock_runtime_opt_in.
     and_then (wire_optional_string value ''mock_provider_output_name'') (\<lambda>mock_provider_output_name.
     and_then (wire_optional_string value ''mock_provider_output_jsonl'') (\<lambda>mock_provider_output_jsonl.
     and_then (wire_usize value ''timeout_seconds'') (\<lambda>timeout_seconds.
     and_then (and_then (wire_usize value ''max_turns'') (\<lambda>n. Inr (as_u32 n))) (\<lambda>max_turns.
     and_then (wire_usize value ''max_token_cost'') (\<lambda>max_token_cost.
     and_then (and_then (wire_usize value ''turns_taken_before'') (\<lambda>n. Inr (as_u32 n))) (\<lambda>turns_taken_before.
     and_then (wire_usize value ''token_cost_before'') (\<lambda>token_cost_before.
     and_then (wire_usize value ''turn_token_cost'') (\<lambda>turn_token_cost.
     and_then (and_then (wire_optional_bool value ''unattended'') (\<lambda>b. Inr (unwrap_or True b))) (\<lambda>unattended.
     Inr \<lparr>cgt_agent_name = agent_name, cgt_adapter = adapter, cgt_goal = goal, cgt_workspace = workspace,
       cgt_artifacts = artifacts, cgt_session_id = session_id, cgt_run_id = run_id,
       cgt_turn_id = turn_id, cgt_capability_profile = capability_profile,
       cgt_runtime_scope = runtime_scope, cgt_credential_scan_policy = credential_scan_policy,
       cgt_raw_prompt_policy = raw_prompt_policy, cgt_raw_output_policy = raw_output_policy,
       cgt_tool_wrapper_policy = tool_wrapper_policy, cgt_live_provider_opt_in = live_provider_opt_in,
       cgt_live_execution_opt_in = live_execution_opt_in,
       cgt_mock_runtime_opt_in = mock_runtime_opt_in,
       cgt_mock_provider_output_name = mock_provider_output_name,
       cgt_mock_provider_output_jsonl = mock_provider_output_jsonl,
       cgt_timeout_seconds = timeout_seconds, cgt_max_turns = max_turns,
       cgt_max_token_cost = max_token_cost, cgt_turns_taken_before = turns_taken_before,
       cgt_token_cost_before = token_cost_before, cgt_turn_token_cost = turn_token_cost,
       cgt_unattended = unattended\<rparr>))))))))))))))))))))))))))"

definition continue_goal_turn_ok :: "continue_goal_turn \<Rightarrow> bool" where
  "continue_goal_turn_ok r \<longleftrightarrow> cgt_timeout_seconds r < 2 ^ 64
     \<and> cgt_max_turns r < 2 ^ 32
     \<and> cgt_max_token_cost r < 2 ^ 64
     \<and> cgt_turns_taken_before r < 2 ^ 32
     \<and> cgt_token_cost_before r < 2 ^ 64
     \<and> cgt_turn_token_cost r < 2 ^ 64"

lemma decode_continue_goal_turn_roundtrip [wire_simps]:
  "continue_goal_turn_ok r \<Longrightarrow> decode_continue_goal_turn (encode_continue_goal_turn r) = Inr r"
  by (cases r) (simp add: decode_continue_goal_turn_def encode_continue_goal_turn_def continue_goal_turn_ok_def wire_simps json_get_object unwrap_or_def cong: and_then_weak_cong)

lemma encode_continue_goal_turn_json [json_oks]:
  "continue_goal_turn_ok r \<Longrightarrow> 2 \<le> n \<Longrightarrow> json_ok n (encode_continue_goal_turn r)"
  unfolding encode_continue_goal_turn_def by (rule json_ok_objectI) (simp_all add: continue_goal_turn_ok_def json_oks)

definition encode_goal_requirement_spec :: "goal_requirement_spec \<Rightarrow> json" where
  "encode_goal_requirement_spec r =
     json_object [(''requirement_id'', JString (grs_requirement_id r)),
       (''summary'', JString (grs_summary r))]"

definition decode_goal_requirement_spec :: "json \<Rightarrow> goal_requirement_spec transport_result" where
  "decode_goal_requirement_spec value =
     and_then (wire_string value ''requirement_id'') (\<lambda>requirement_id.
     and_then (wire_string value ''summary'') (\<lambda>summary.
     Inr \<lparr>grs_requirement_id = requirement_id, grs_summary = summary\<rparr>))"

lemma decode_goal_requirement_spec_roundtrip [wire_simps]:
  "decode_goal_requirement_spec (encode_goal_requirement_spec r) = Inr r"
  by (cases r) (simp add: decode_goal_requirement_spec_def encode_goal_requirement_spec_def wire_simps json_get_object unwrap_or_def cong: and_then_weak_cong)

lemma encode_goal_requirement_spec_json [json_oks]:
  "2 \<le> n \<Longrightarrow> json_ok n (encode_goal_requirement_spec r)"
  unfolding encode_goal_requirement_spec_def by (rule json_ok_objectI) (simp_all add: json_oks)

lemma json_ok_items_goal_requirement_spec [json_oks]:
  "3 \<le> n \<Longrightarrow> json_ok n (JArray (map encode_goal_requirement_spec xs))"
  by (rule json_ok_arrayI) (auto simp: json_oks list_all_iff)

lemma wire_items_goal_requirement_spec [wire_simps]:
  "json_get v k = Some (JArray (map encode_goal_requirement_spec xs)) \<Longrightarrow> wire_items decode_goal_requirement_spec v k = Inr (xs)"
  using wire_items_found [of v k encode_goal_requirement_spec xs decode_goal_requirement_spec "\<lambda>x. x"]
  by (simp add: wire_simps list_all_iff)

definition encode_goal_spec :: "goal_spec \<Rightarrow> json" where
  "encode_goal_spec r =
     json_object [(''goal_id'', JString (gs_goal_id r)),
       (''objective'', JString (gs_objective r)),
       (''task_id'', j_opt_str (gs_task_id r)),
       (''agent_id'', j_opt_str (gs_agent_id r)),
       (''session_id'', j_opt_str (gs_session_id r)),
       (''parent_goal_id'', j_opt_str (gs_parent_goal_id r)),
       (''attempt_run_id'', j_opt_str (gs_attempt_run_id r)),
       (''requirements'', JArray (map encode_goal_requirement_spec (gs_requirements r))),
       (''success_criteria_json'', JString (gs_success_criteria_json r)),
       (''constraints_json'', JString (gs_constraints_json r)),
       (''verification_surface_json'', JString (gs_verification_surface_json r)),
       (''budget_json'', JString (gs_budget_json r)),
       (''stop_conditions_json'', JString (gs_stop_conditions_json r))]"

definition decode_goal_spec :: "json \<Rightarrow> goal_spec transport_result" where
  "decode_goal_spec value =
     and_then (wire_string value ''goal_id'') (\<lambda>goal_id.
     and_then (wire_string value ''objective'') (\<lambda>objective.
     and_then (wire_optional_string value ''task_id'') (\<lambda>task_id.
     and_then (wire_optional_string value ''agent_id'') (\<lambda>agent_id.
     and_then (wire_optional_string value ''session_id'') (\<lambda>session_id.
     and_then (wire_optional_string value ''parent_goal_id'') (\<lambda>parent_goal_id.
     and_then (wire_optional_string value ''attempt_run_id'') (\<lambda>attempt_run_id.
     and_then (wire_items decode_goal_requirement_spec value ''requirements'') (\<lambda>requirements.
     and_then (wire_string value ''success_criteria_json'') (\<lambda>success_criteria_json.
     and_then (wire_string value ''constraints_json'') (\<lambda>constraints_json.
     and_then (wire_string value ''verification_surface_json'') (\<lambda>verification_surface_json.
     and_then (wire_string value ''budget_json'') (\<lambda>budget_json.
     and_then (wire_string value ''stop_conditions_json'') (\<lambda>stop_conditions_json.
     Inr \<lparr>gs_goal_id = goal_id, gs_objective = objective, gs_task_id = task_id, gs_agent_id = agent_id,
       gs_session_id = session_id, gs_parent_goal_id = parent_goal_id,
       gs_attempt_run_id = attempt_run_id, gs_requirements = requirements,
       gs_success_criteria_json = success_criteria_json, gs_constraints_json = constraints_json,
       gs_verification_surface_json = verification_surface_json, gs_budget_json = budget_json,
       gs_stop_conditions_json = stop_conditions_json\<rparr>)))))))))))))"

lemma decode_goal_spec_roundtrip [wire_simps]:
  "decode_goal_spec (encode_goal_spec r) = Inr r"
  by (cases r) (simp add: decode_goal_spec_def encode_goal_spec_def wire_simps json_get_object unwrap_or_def cong: and_then_weak_cong)

lemma encode_goal_spec_json [json_oks]:
  "4 \<le> n \<Longrightarrow> json_ok n (encode_goal_spec r)"
  unfolding encode_goal_spec_def by (rule json_ok_objectI) (simp_all add: json_oks)

text \<open>Argument lists and headers: entries of the wrong shape are dropped, a missing list is empty.\<close>

definition decode_acp_argv :: "json \<Rightarrow> string list" where
  "decode_acp_argv value =
     (case Option.bind (json_get value ''acp_argv'') value_as_array of
        None \<Rightarrow> []
      | Some items \<Rightarrow> List.map_filter value_as_str items)"

definition encode_mcp_headers :: "(string \<times> string) list \<Rightarrow> json" where
  "encode_mcp_headers headers =
     JArray (map (\<lambda>(name, value). json_object [(''name'', JString name), (''value'', JString value)]) headers)"

definition decode_mcp_header :: "json \<Rightarrow> (string \<times> string) option" where
  "decode_mcp_header item =
     Option.bind (Option.bind (json_get item ''name'') value_as_str) (\<lambda>name.
     Option.bind (Option.bind (json_get item ''value'') value_as_str) (\<lambda>val. Some (name, val)))"

definition decode_mcp_headers :: "json \<Rightarrow> (string \<times> string) list" where
  "decode_mcp_headers value =
     (case Option.bind (json_get value ''mcp_headers'') value_as_array of
        None \<Rightarrow> []
      | Some items \<Rightarrow> List.map_filter decode_mcp_header items)"

definition decode_goal_report_format :: "string \<Rightarrow> goal_report_format transport_result" where
  "decode_goal_report_format value =
     (if value = ''markdown'' then Inr Markdown
      else if value = ''json'' then Inr JsonFormat
      else Inl (Protocol (''unknown goal report format: '' @ value)))"

lemma map_filter_map: "(\<And>x. f (g x) = Some (h x)) \<Longrightarrow> List.map_filter f (map g xs) = map h xs"
  by (induction xs) (simp_all add: List.map_filter_def)

lemma decode_acp_argv_found [wire_simps]: "json_get v ''acp_argv'' = Some (j_strings ss) \<Longrightarrow> decode_acp_argv v = ss"
  using map_filter_map [of value_as_str JString "\<lambda>s. s"] by (simp add: decode_acp_argv_def j_strings_def)

lemma decode_mcp_headers_found [wire_simps]:
  "json_get v ''mcp_headers'' = Some (encode_mcp_headers hs) \<Longrightarrow> decode_mcp_headers v = hs"
  using map_filter_map [of decode_mcp_header "\<lambda>(name, value). json_object [(''name'', JString name), (''value'', JString value)]" "\<lambda>h. h"]
  by (simp add: decode_mcp_headers_def encode_mcp_headers_def decode_mcp_header_def json_get_object split_beta)

lemma encode_mcp_headers_json [json_oks]: "3 \<le> n \<Longrightarrow> json_ok n (encode_mcp_headers hs)"
  unfolding encode_mcp_headers_def
  by (rule json_ok_arrayI) (auto simp: list_all_iff json_ok_leaf intro!: json_ok_objectI)

lemma decode_goal_report_format_name [wire_simps]: "decode_goal_report_format (format_as_str f) = Inr f"
  by (cases f) (simp_all add: decode_goal_report_format_def)

section \<open>The arms with many fields\<close>

definition register_runtime_target_fields :: "register_runtime_target_command \<Rightarrow> (string \<times> json) list" where
  "register_runtime_target_fields r =
     [(''runtime_target_id'', JString (rrt_runtime_target_id r)),
      (''name'', JString (rrt_name r)),
      (''runner_kind'', JString (rrt_runner_kind r)),
      (''workspace_root'', JString (rrt_workspace_root r)),
      (''artifact_root'', JString (rrt_artifact_root r)),
      (''default_cwd'', JString (rrt_default_cwd r)),
      (''capability_profile_id'', JString (rrt_capability_profile_id r)),
      (''connectivity_endpoint_id'', j_opt_str (rrt_connectivity_endpoint_id r)),
      (''status'', JString (rrt_status r))]"

definition decode_register_runtime_target :: "json \<Rightarrow> register_runtime_target_command transport_result" where
  "decode_register_runtime_target value =
     and_then (wire_string value ''runtime_target_id'') (\<lambda>runtime_target_id.
     and_then (wire_string value ''name'') (\<lambda>name.
     and_then (wire_string value ''runner_kind'') (\<lambda>runner_kind.
     and_then (wire_string value ''workspace_root'') (\<lambda>workspace_root.
     and_then (wire_string value ''artifact_root'') (\<lambda>artifact_root.
     and_then (wire_string value ''default_cwd'') (\<lambda>default_cwd.
     and_then (wire_string value ''capability_profile_id'') (\<lambda>capability_profile_id.
     and_then (wire_optional_string value ''connectivity_endpoint_id'') (\<lambda>connectivity_endpoint_id.
     and_then (wire_string value ''status'') (\<lambda>status.
     Inr \<lparr>rrt_runtime_target_id = runtime_target_id, rrt_name = name, rrt_runner_kind = runner_kind,
       rrt_workspace_root = workspace_root, rrt_artifact_root = artifact_root,
       rrt_default_cwd = default_cwd, rrt_capability_profile_id = capability_profile_id,
       rrt_connectivity_endpoint_id = connectivity_endpoint_id, rrt_status = status\<rparr>)))))))))"

lemma decode_register_runtime_target_roundtrip [wire_simps]:
  "decode_register_runtime_target (json_object ((''type'', t) # register_runtime_target_fields r)) = Inr r"
  by (cases r) (simp add: decode_register_runtime_target_def register_runtime_target_fields_def wire_simps json_get_object unwrap_or_def cong: and_then_weak_cong)

lemma register_runtime_target_fields_type [wire_simps]:
  "wire_string (json_object ((''type'', JString t) # register_runtime_target_fields r)) ''type'' = Inr t"
  by (simp add: register_runtime_target_fields_def wire_simps json_get_object)

lemma register_runtime_target_fields_json [json_oks]:
  "1 \<le> n \<Longrightarrow> list_all (json_ok n) (map snd (register_runtime_target_fields r))"
  by (simp add: register_runtime_target_fields_def json_oks)

definition replay_adapter_fixture_fields :: "replay_adapter_fixture_command \<Rightarrow> (string \<times> json) list" where
  "replay_adapter_fixture_fields r =
     [(''adapter'', JString (raf_adapter r)),
      (''session_id'', JString (raf_session_id r)),
      (''run_id'', JString (raf_run_id r)),
      (''turn_id'', JString (raf_turn_id r)),
      (''fixture_name'', JString (raf_fixture_name r)),
      (''fixture_jsonl'', JString (raf_fixture_jsonl r))]"

definition decode_replay_adapter_fixture :: "json \<Rightarrow> replay_adapter_fixture_command transport_result" where
  "decode_replay_adapter_fixture value =
     and_then (wire_string value ''adapter'') (\<lambda>adapter.
     and_then (wire_string value ''session_id'') (\<lambda>session_id.
     and_then (wire_string value ''run_id'') (\<lambda>run_id.
     and_then (wire_string value ''turn_id'') (\<lambda>turn_id.
     and_then (wire_string value ''fixture_name'') (\<lambda>fixture_name.
     and_then (wire_string value ''fixture_jsonl'') (\<lambda>fixture_jsonl.
     Inr \<lparr>raf_adapter = adapter, raf_session_id = session_id, raf_run_id = run_id, raf_turn_id = turn_id,
       raf_fixture_name = fixture_name, raf_fixture_jsonl = fixture_jsonl\<rparr>))))))"

lemma decode_replay_adapter_fixture_roundtrip [wire_simps]:
  "decode_replay_adapter_fixture (json_object ((''type'', t) # replay_adapter_fixture_fields r)) = Inr r"
  by (cases r) (simp add: decode_replay_adapter_fixture_def replay_adapter_fixture_fields_def wire_simps json_get_object unwrap_or_def cong: and_then_weak_cong)

lemma replay_adapter_fixture_fields_type [wire_simps]:
  "wire_string (json_object ((''type'', JString t) # replay_adapter_fixture_fields r)) ''type'' = Inr t"
  by (simp add: replay_adapter_fixture_fields_def wire_simps json_get_object)

lemma replay_adapter_fixture_fields_json [json_oks]:
  "1 \<le> n \<Longrightarrow> list_all (json_ok n) (map snd (replay_adapter_fixture_fields r))"
  by (simp add: replay_adapter_fixture_fields_def json_oks)

definition plan_dispatch_fields :: "plan_dispatch_command \<Rightarrow> (string \<times> json) list" where
  "plan_dispatch_fields r =
     [(''agent_name'', JString (pld_agent_name r)),
      (''adapter'', JString (pld_adapter r)),
      (''goal'', JString (pld_goal r)),
      (''workspace'', JString (pld_workspace r)),
      (''artifacts'', JString (pld_artifacts r)),
      (''session_id'', JString (pld_session_id r)),
      (''run_id'', JString (pld_run_id r)),
      (''turn_id'', JString (pld_turn_id r)),
      (''deterministic_opt_in'', JBool (pld_deterministic_opt_in r))]"

definition decode_plan_dispatch :: "json \<Rightarrow> plan_dispatch_command transport_result" where
  "decode_plan_dispatch value =
     and_then (wire_string value ''agent_name'') (\<lambda>agent_name.
     and_then (wire_string value ''adapter'') (\<lambda>adapter.
     and_then (wire_string value ''goal'') (\<lambda>goal.
     and_then (wire_string value ''workspace'') (\<lambda>workspace.
     and_then (wire_string value ''artifacts'') (\<lambda>artifacts.
     and_then (wire_string value ''session_id'') (\<lambda>session_id.
     and_then (wire_string value ''run_id'') (\<lambda>run_id.
     and_then (wire_string value ''turn_id'') (\<lambda>turn_id.
     and_then (wire_bool value ''deterministic_opt_in'') (\<lambda>deterministic_opt_in.
     Inr \<lparr>pld_agent_name = agent_name, pld_adapter = adapter, pld_goal = goal, pld_workspace = workspace,
       pld_artifacts = artifacts, pld_session_id = session_id, pld_run_id = run_id,
       pld_turn_id = turn_id, pld_deterministic_opt_in = deterministic_opt_in\<rparr>)))))))))"

lemma decode_plan_dispatch_roundtrip [wire_simps]:
  "decode_plan_dispatch (json_object ((''type'', t) # plan_dispatch_fields r)) = Inr r"
  by (cases r) (simp add: decode_plan_dispatch_def plan_dispatch_fields_def wire_simps json_get_object unwrap_or_def cong: and_then_weak_cong)

lemma plan_dispatch_fields_type [wire_simps]:
  "wire_string (json_object ((''type'', JString t) # plan_dispatch_fields r)) ''type'' = Inr t"
  by (simp add: plan_dispatch_fields_def wire_simps json_get_object)

lemma plan_dispatch_fields_json [json_oks]:
  "1 \<le> n \<Longrightarrow> list_all (json_ok n) (map snd (plan_dispatch_fields r))"
  by (simp add: plan_dispatch_fields_def json_oks)

definition preflight_live_provider_fields :: "preflight_live_provider_command \<Rightarrow> (string \<times> json) list" where
  "preflight_live_provider_fields r =
     [(''agent_name'', JString (plp_agent_name r)),
      (''adapter'', JString (plp_adapter r)),
      (''goal'', JString (plp_goal r)),
      (''workspace'', JString (plp_workspace r)),
      (''artifacts'', JString (plp_artifacts r)),
      (''session_id'', JString (plp_session_id r)),
      (''run_id'', JString (plp_run_id r)),
      (''turn_id'', JString (plp_turn_id r)),
      (''capability_profile'', JString (plp_capability_profile r)),
      (''runtime_scope'', JString (plp_runtime_scope r)),
      (''credential_scan_policy'', JString (plp_credential_scan_policy r)),
      (''raw_prompt_policy'', JString (plp_raw_prompt_policy r)),
      (''raw_output_policy'', JString (plp_raw_output_policy r)),
      (''tool_wrapper_policy'', JString (plp_tool_wrapper_policy r)),
      (''live_provider_opt_in'', JBool (plp_live_provider_opt_in r))]"

definition decode_preflight_live_provider :: "json \<Rightarrow> preflight_live_provider_command transport_result" where
  "decode_preflight_live_provider value =
     and_then (wire_string value ''agent_name'') (\<lambda>agent_name.
     and_then (wire_string value ''adapter'') (\<lambda>adapter.
     and_then (wire_string value ''goal'') (\<lambda>goal.
     and_then (wire_string value ''workspace'') (\<lambda>workspace.
     and_then (wire_string value ''artifacts'') (\<lambda>artifacts.
     and_then (wire_string value ''session_id'') (\<lambda>session_id.
     and_then (wire_string value ''run_id'') (\<lambda>run_id.
     and_then (wire_string value ''turn_id'') (\<lambda>turn_id.
     and_then (wire_string value ''capability_profile'') (\<lambda>capability_profile.
     and_then (wire_string value ''runtime_scope'') (\<lambda>runtime_scope.
     and_then (wire_string value ''credential_scan_policy'') (\<lambda>credential_scan_policy.
     and_then (wire_string value ''raw_prompt_policy'') (\<lambda>raw_prompt_policy.
     and_then (wire_string value ''raw_output_policy'') (\<lambda>raw_output_policy.
     and_then (wire_string value ''tool_wrapper_policy'') (\<lambda>tool_wrapper_policy.
     and_then (wire_bool value ''live_provider_opt_in'') (\<lambda>live_provider_opt_in.
     Inr \<lparr>plp_agent_name = agent_name, plp_adapter = adapter, plp_goal = goal, plp_workspace = workspace,
       plp_artifacts = artifacts, plp_session_id = session_id, plp_run_id = run_id,
       plp_turn_id = turn_id, plp_capability_profile = capability_profile,
       plp_runtime_scope = runtime_scope, plp_credential_scan_policy = credential_scan_policy,
       plp_raw_prompt_policy = raw_prompt_policy, plp_raw_output_policy = raw_output_policy,
       plp_tool_wrapper_policy = tool_wrapper_policy, plp_live_provider_opt_in = live_provider_opt_in\<rparr>)))))))))))))))"

lemma decode_preflight_live_provider_roundtrip [wire_simps]:
  "decode_preflight_live_provider (json_object ((''type'', t) # preflight_live_provider_fields r)) = Inr r"
  by (cases r) (simp add: decode_preflight_live_provider_def preflight_live_provider_fields_def wire_simps json_get_object unwrap_or_def cong: and_then_weak_cong)

lemma preflight_live_provider_fields_type [wire_simps]:
  "wire_string (json_object ((''type'', JString t) # preflight_live_provider_fields r)) ''type'' = Inr t"
  by (simp add: preflight_live_provider_fields_def wire_simps json_get_object)

lemma preflight_live_provider_fields_json [json_oks]:
  "1 \<le> n \<Longrightarrow> list_all (json_ok n) (map snd (preflight_live_provider_fields r))"
  by (simp add: preflight_live_provider_fields_def json_oks)

definition run_live_provider_local_fields :: "run_live_provider_local_command \<Rightarrow> (string \<times> json) list" where
  "run_live_provider_local_fields r =
     [(''dispatch_plan_id'', JString (rll_dispatch_plan_id r)),
      (''goal'', JString (rll_goal r)),
      (''live_execution_opt_in'', JBool (rll_live_execution_opt_in r)),
      (''mock_runtime_opt_in'', JBool (rll_mock_runtime_opt_in r)),
      (''mock_provider_output_name'', j_opt_str (rll_mock_provider_output_name r)),
      (''mock_provider_output_jsonl'', j_opt_str (rll_mock_provider_output_jsonl r)),
      (''timeout_seconds'', j_nat (rll_timeout_seconds r)),
      (''codex_program_override'', j_opt_str (rll_codex_program_override r)),
      (''unattended'', JBool (rll_unattended r))]"

definition decode_run_live_provider_local :: "json \<Rightarrow> run_live_provider_local_command transport_result" where
  "decode_run_live_provider_local value =
     and_then (wire_string value ''dispatch_plan_id'') (\<lambda>dispatch_plan_id.
     and_then (wire_string value ''goal'') (\<lambda>goal.
     and_then (wire_bool value ''live_execution_opt_in'') (\<lambda>live_execution_opt_in.
     and_then (wire_bool value ''mock_runtime_opt_in'') (\<lambda>mock_runtime_opt_in.
     and_then (wire_optional_string value ''mock_provider_output_name'') (\<lambda>mock_provider_output_name.
     and_then (wire_optional_string value ''mock_provider_output_jsonl'') (\<lambda>mock_provider_output_jsonl.
     and_then (wire_usize value ''timeout_seconds'') (\<lambda>timeout_seconds.
     and_then (wire_optional_string value ''codex_program_override'') (\<lambda>codex_program_override.
     and_then (and_then (wire_optional_bool value ''unattended'') (\<lambda>b. Inr (unwrap_or True b))) (\<lambda>unattended.
     Inr \<lparr>rll_dispatch_plan_id = dispatch_plan_id, rll_goal = goal,
       rll_live_execution_opt_in = live_execution_opt_in,
       rll_mock_runtime_opt_in = mock_runtime_opt_in,
       rll_mock_provider_output_name = mock_provider_output_name,
       rll_mock_provider_output_jsonl = mock_provider_output_jsonl,
       rll_timeout_seconds = timeout_seconds, rll_codex_program_override = codex_program_override,
       rll_unattended = unattended\<rparr>)))))))))"

definition run_live_provider_local_ok :: "run_live_provider_local_command \<Rightarrow> bool" where
  "run_live_provider_local_ok r \<longleftrightarrow> rll_timeout_seconds r < 2 ^ 64"

lemma decode_run_live_provider_local_roundtrip [wire_simps]:
  "run_live_provider_local_ok r \<Longrightarrow> decode_run_live_provider_local (json_object ((''type'', t) # run_live_provider_local_fields r)) = Inr r"
  by (cases r) (simp add: decode_run_live_provider_local_def run_live_provider_local_fields_def run_live_provider_local_ok_def wire_simps json_get_object unwrap_or_def cong: and_then_weak_cong)

lemma run_live_provider_local_fields_type [wire_simps]:
  "wire_string (json_object ((''type'', JString t) # run_live_provider_local_fields r)) ''type'' = Inr t"
  by (simp add: run_live_provider_local_fields_def wire_simps json_get_object)

lemma run_live_provider_local_fields_json [json_oks]:
  "run_live_provider_local_ok r \<Longrightarrow> 1 \<le> n \<Longrightarrow> list_all (json_ok n) (map snd (run_live_provider_local_fields r))"
  by (simp add: run_live_provider_local_fields_def run_live_provider_local_ok_def json_oks)

definition run_dispatch_turn_fields :: "run_dispatch_turn_command \<Rightarrow> (string \<times> json) list" where
  "run_dispatch_turn_fields r =
     [(''agent_name'', JString (rdt_agent_name r)),
      (''adapter'', JString (rdt_adapter r)),
      (''goal'', JString (rdt_goal r)),
      (''workspace'', JString (rdt_workspace r)),
      (''artifacts'', JString (rdt_artifacts r)),
      (''session_id'', JString (rdt_session_id r)),
      (''run_id'', JString (rdt_run_id r)),
      (''turn_id'', JString (rdt_turn_id r)),
      (''capability_profile'', JString (rdt_capability_profile r)),
      (''runtime_scope'', JString (rdt_runtime_scope r)),
      (''credential_scan_policy'', JString (rdt_credential_scan_policy r)),
      (''raw_prompt_policy'', JString (rdt_raw_prompt_policy r)),
      (''raw_output_policy'', JString (rdt_raw_output_policy r)),
      (''tool_wrapper_policy'', JString (rdt_tool_wrapper_policy r)),
      (''live_provider_opt_in'', JBool (rdt_live_provider_opt_in r)),
      (''live_execution_opt_in'', JBool (rdt_live_execution_opt_in r)),
      (''mock_runtime_opt_in'', JBool (rdt_mock_runtime_opt_in r)),
      (''mock_provider_output_name'', j_opt_str (rdt_mock_provider_output_name r)),
      (''mock_provider_output_jsonl'', j_opt_str (rdt_mock_provider_output_jsonl r)),
      (''timeout_seconds'', j_nat (rdt_timeout_seconds r)),
      (''max_turns'', j_nat (rdt_max_turns r)),
      (''max_token_cost'', j_nat (rdt_max_token_cost r)),
      (''turns_taken_before'', j_nat (rdt_turns_taken_before r)),
      (''token_cost_before'', j_nat (rdt_token_cost_before r)),
      (''turn_token_cost'', j_nat (rdt_turn_token_cost r)),
      (''unattended'', JBool (rdt_unattended r))]"

definition decode_run_dispatch_turn :: "json \<Rightarrow> run_dispatch_turn_command transport_result" where
  "decode_run_dispatch_turn value =
     and_then (wire_string value ''agent_name'') (\<lambda>agent_name.
     and_then (wire_string value ''adapter'') (\<lambda>adapter.
     and_then (wire_string value ''goal'') (\<lambda>goal.
     and_then (wire_string value ''workspace'') (\<lambda>workspace.
     and_then (wire_string value ''artifacts'') (\<lambda>artifacts.
     and_then (wire_string value ''session_id'') (\<lambda>session_id.
     and_then (wire_string value ''run_id'') (\<lambda>run_id.
     and_then (wire_string value ''turn_id'') (\<lambda>turn_id.
     and_then (wire_string value ''capability_profile'') (\<lambda>capability_profile.
     and_then (wire_string value ''runtime_scope'') (\<lambda>runtime_scope.
     and_then (wire_string value ''credential_scan_policy'') (\<lambda>credential_scan_policy.
     and_then (wire_string value ''raw_prompt_policy'') (\<lambda>raw_prompt_policy.
     and_then (wire_string value ''raw_output_policy'') (\<lambda>raw_output_policy.
     and_then (wire_string value ''tool_wrapper_policy'') (\<lambda>tool_wrapper_policy.
     and_then (wire_bool value ''live_provider_opt_in'') (\<lambda>live_provider_opt_in.
     and_then (wire_bool value ''live_execution_opt_in'') (\<lambda>live_execution_opt_in.
     and_then (wire_bool value ''mock_runtime_opt_in'') (\<lambda>mock_runtime_opt_in.
     and_then (wire_optional_string value ''mock_provider_output_name'') (\<lambda>mock_provider_output_name.
     and_then (wire_optional_string value ''mock_provider_output_jsonl'') (\<lambda>mock_provider_output_jsonl.
     and_then (wire_usize value ''timeout_seconds'') (\<lambda>timeout_seconds.
     and_then (and_then (wire_usize value ''max_turns'') (\<lambda>n. Inr (as_u32 n))) (\<lambda>max_turns.
     and_then (wire_usize value ''max_token_cost'') (\<lambda>max_token_cost.
     and_then (and_then (wire_usize value ''turns_taken_before'') (\<lambda>n. Inr (as_u32 n))) (\<lambda>turns_taken_before.
     and_then (wire_usize value ''token_cost_before'') (\<lambda>token_cost_before.
     and_then (wire_usize value ''turn_token_cost'') (\<lambda>turn_token_cost.
     and_then (and_then (wire_optional_bool value ''unattended'') (\<lambda>b. Inr (unwrap_or True b))) (\<lambda>unattended.
     Inr \<lparr>rdt_agent_name = agent_name, rdt_adapter = adapter, rdt_goal = goal, rdt_workspace = workspace,
       rdt_artifacts = artifacts, rdt_session_id = session_id, rdt_run_id = run_id,
       rdt_turn_id = turn_id, rdt_capability_profile = capability_profile,
       rdt_runtime_scope = runtime_scope, rdt_credential_scan_policy = credential_scan_policy,
       rdt_raw_prompt_policy = raw_prompt_policy, rdt_raw_output_policy = raw_output_policy,
       rdt_tool_wrapper_policy = tool_wrapper_policy, rdt_live_provider_opt_in = live_provider_opt_in,
       rdt_live_execution_opt_in = live_execution_opt_in,
       rdt_mock_runtime_opt_in = mock_runtime_opt_in,
       rdt_mock_provider_output_name = mock_provider_output_name,
       rdt_mock_provider_output_jsonl = mock_provider_output_jsonl,
       rdt_timeout_seconds = timeout_seconds, rdt_max_turns = max_turns,
       rdt_max_token_cost = max_token_cost, rdt_turns_taken_before = turns_taken_before,
       rdt_token_cost_before = token_cost_before, rdt_turn_token_cost = turn_token_cost,
       rdt_unattended = unattended\<rparr>))))))))))))))))))))))))))"

definition run_dispatch_turn_ok :: "run_dispatch_turn_command \<Rightarrow> bool" where
  "run_dispatch_turn_ok r \<longleftrightarrow> rdt_timeout_seconds r < 2 ^ 64
     \<and> rdt_max_turns r < 2 ^ 32
     \<and> rdt_max_token_cost r < 2 ^ 64
     \<and> rdt_turns_taken_before r < 2 ^ 32
     \<and> rdt_token_cost_before r < 2 ^ 64
     \<and> rdt_turn_token_cost r < 2 ^ 64"

lemma decode_run_dispatch_turn_roundtrip [wire_simps]:
  "run_dispatch_turn_ok r \<Longrightarrow> decode_run_dispatch_turn (json_object ((''type'', t) # run_dispatch_turn_fields r)) = Inr r"
  by (cases r) (simp add: decode_run_dispatch_turn_def run_dispatch_turn_fields_def run_dispatch_turn_ok_def wire_simps json_get_object unwrap_or_def cong: and_then_weak_cong)

lemma run_dispatch_turn_fields_type [wire_simps]:
  "wire_string (json_object ((''type'', JString t) # run_dispatch_turn_fields r)) ''type'' = Inr t"
  by (simp add: run_dispatch_turn_fields_def wire_simps json_get_object)

lemma run_dispatch_turn_fields_json [json_oks]:
  "run_dispatch_turn_ok r \<Longrightarrow> 1 \<le> n \<Longrightarrow> list_all (json_ok n) (map snd (run_dispatch_turn_fields r))"
  by (simp add: run_dispatch_turn_fields_def run_dispatch_turn_ok_def json_oks)

definition run_acp_live_turn_local_fields :: "run_acp_live_turn_local_command \<Rightarrow> (string \<times> json) list" where
  "run_acp_live_turn_local_fields r =
     [(''session_id'', JString (rat_session_id r)),
      (''run_id'', JString (rat_run_id r)),
      (''goal'', JString (rat_goal r)),
      (''turn_id'', JString (rat_turn_id r)),
      (''acp_program'', JString (rat_acp_program r)),
      (''acp_argv'', j_strings (rat_acp_argv r)),
      (''workspace_root'', j_opt_str (rat_workspace_root r)),
      (''live_acp_opt_in'', JBool (rat_live_acp_opt_in r)),
      (''acp_session_mode'', j_opt_str (rat_acp_session_mode r)),
      (''mcp_url'', j_opt_str (rat_mcp_url r)),
      (''mcp_headers'', encode_mcp_headers (rat_mcp_headers r)),
      (''steer_window_secs'', j_nat (rat_steer_window_secs r))]"

definition decode_run_acp_live_turn_local :: "json \<Rightarrow> run_acp_live_turn_local_command transport_result" where
  "decode_run_acp_live_turn_local value =
     and_then (wire_string value ''session_id'') (\<lambda>session_id.
     and_then (wire_string value ''run_id'') (\<lambda>run_id.
     and_then (wire_string value ''goal'') (\<lambda>goal.
     and_then (wire_string value ''turn_id'') (\<lambda>turn_id.
     and_then (wire_string value ''acp_program'') (\<lambda>acp_program.
     and_then (Inr (decode_acp_argv value)) (\<lambda>acp_argv.
     and_then (wire_optional_string value ''workspace_root'') (\<lambda>workspace_root.
     and_then (wire_bool value ''live_acp_opt_in'') (\<lambda>live_acp_opt_in.
     and_then (wire_optional_string value ''acp_session_mode'') (\<lambda>acp_session_mode.
     and_then (wire_optional_string value ''mcp_url'') (\<lambda>mcp_url.
     and_then (Inr (decode_mcp_headers value)) (\<lambda>mcp_headers.
     and_then (Inr (unwrap_or 0 (Option.bind (json_get value ''steer_window_secs'') value_as_u64))) (\<lambda>steer_window_secs.
     Inr \<lparr>rat_session_id = session_id, rat_run_id = run_id, rat_goal = goal, rat_turn_id = turn_id,
       rat_acp_program = acp_program, rat_acp_argv = acp_argv, rat_workspace_root = workspace_root,
       rat_live_acp_opt_in = live_acp_opt_in, rat_acp_session_mode = acp_session_mode,
       rat_mcp_url = mcp_url, rat_mcp_headers = mcp_headers, rat_steer_window_secs = steer_window_secs\<rparr>))))))))))))"

definition run_acp_live_turn_local_ok :: "run_acp_live_turn_local_command \<Rightarrow> bool" where
  "run_acp_live_turn_local_ok r \<longleftrightarrow> rat_steer_window_secs r < 2 ^ 64"

lemma decode_run_acp_live_turn_local_roundtrip [wire_simps]:
  "run_acp_live_turn_local_ok r \<Longrightarrow> decode_run_acp_live_turn_local (json_object ((''type'', t) # run_acp_live_turn_local_fields r)) = Inr r"
  by (cases r) (simp add: decode_run_acp_live_turn_local_def run_acp_live_turn_local_fields_def run_acp_live_turn_local_ok_def wire_simps json_get_object unwrap_or_def cong: and_then_weak_cong)

lemma run_acp_live_turn_local_fields_type [wire_simps]:
  "wire_string (json_object ((''type'', JString t) # run_acp_live_turn_local_fields r)) ''type'' = Inr t"
  by (simp add: run_acp_live_turn_local_fields_def wire_simps json_get_object)

lemma run_acp_live_turn_local_fields_json [json_oks]:
  "run_acp_live_turn_local_ok r \<Longrightarrow> 3 \<le> n \<Longrightarrow> list_all (json_ok n) (map snd (run_acp_live_turn_local_fields r))"
  by (simp add: run_acp_live_turn_local_fields_def run_acp_live_turn_local_ok_def json_oks)

definition run_conductor_turn_local_fields :: "run_conductor_turn_local_command \<Rightarrow> (string \<times> json) list" where
  "run_conductor_turn_local_fields r =
     [(''session_id'', JString (rct_session_id r)),
      (''run_id'', JString (rct_run_id r)),
      (''turn_id'', JString (rct_turn_id r)),
      (''user_message'', JString (rct_user_message r)),
      (''conductor_goal'', JString (rct_conductor_goal r)),
      (''mcp_url'', JString (rct_mcp_url r)),
      (''mcp_headers'', encode_mcp_headers (rct_mcp_headers r)),
      (''acp_program'', JString (rct_acp_program r)),
      (''acp_argv'', j_strings (rct_acp_argv r)),
      (''acp_session_mode'', j_opt_str (rct_acp_session_mode r)),
      (''live_acp_opt_in'', JBool (rct_live_acp_opt_in r)),
      (''conductor_lockdown'', JBool (rct_conductor_lockdown r))]"

definition decode_run_conductor_turn_local :: "json \<Rightarrow> run_conductor_turn_local_command transport_result" where
  "decode_run_conductor_turn_local value =
     and_then (wire_string value ''session_id'') (\<lambda>session_id.
     and_then (wire_string value ''run_id'') (\<lambda>run_id.
     and_then (wire_string value ''turn_id'') (\<lambda>turn_id.
     and_then (wire_string value ''user_message'') (\<lambda>user_message.
     and_then (wire_string value ''conductor_goal'') (\<lambda>conductor_goal.
     and_then (wire_string value ''mcp_url'') (\<lambda>mcp_url.
     and_then (Inr (decode_mcp_headers value)) (\<lambda>mcp_headers.
     and_then (wire_string value ''acp_program'') (\<lambda>acp_program.
     and_then (Inr (decode_acp_argv value)) (\<lambda>acp_argv.
     and_then (wire_optional_string value ''acp_session_mode'') (\<lambda>acp_session_mode.
     and_then (wire_bool value ''live_acp_opt_in'') (\<lambda>live_acp_opt_in.
     and_then (and_then (wire_optional_bool value ''conductor_lockdown'') (\<lambda>b. Inr (unwrap_or False b))) (\<lambda>conductor_lockdown.
     Inr \<lparr>rct_session_id = session_id, rct_run_id = run_id, rct_turn_id = turn_id,
       rct_user_message = user_message, rct_conductor_goal = conductor_goal, rct_mcp_url = mcp_url,
       rct_mcp_headers = mcp_headers, rct_acp_program = acp_program, rct_acp_argv = acp_argv,
       rct_acp_session_mode = acp_session_mode, rct_live_acp_opt_in = live_acp_opt_in,
       rct_conductor_lockdown = conductor_lockdown\<rparr>))))))))))))"

lemma decode_run_conductor_turn_local_roundtrip [wire_simps]:
  "decode_run_conductor_turn_local (json_object ((''type'', t) # run_conductor_turn_local_fields r)) = Inr r"
  by (cases r) (simp add: decode_run_conductor_turn_local_def run_conductor_turn_local_fields_def wire_simps json_get_object unwrap_or_def cong: and_then_weak_cong)

lemma run_conductor_turn_local_fields_type [wire_simps]:
  "wire_string (json_object ((''type'', JString t) # run_conductor_turn_local_fields r)) ''type'' = Inr t"
  by (simp add: run_conductor_turn_local_fields_def wire_simps json_get_object)

lemma run_conductor_turn_local_fields_json [json_oks]:
  "3 \<le> n \<Longrightarrow> list_all (json_ok n) (map snd (run_conductor_turn_local_fields r))"
  by (simp add: run_conductor_turn_local_fields_def json_oks)

definition requirement_status_fields :: "requirement_status_record \<Rightarrow> (string \<times> json) list" where
  "requirement_status_fields r =
     [(''requirement_id'', JString (rsr_requirement_id r)),
      (''goal_id'', JString (rsr_goal_id r)),
      (''summary'', JString (rsr_summary r)),
      (''status'', JString (rsr_status r)),
      (''source'', JString (rsr_source r))]"

definition decode_requirement_status :: "json \<Rightarrow> requirement_status_record transport_result" where
  "decode_requirement_status value =
     and_then (wire_string value ''requirement_id'') (\<lambda>requirement_id.
     and_then (wire_string value ''goal_id'') (\<lambda>goal_id.
     and_then (wire_string value ''summary'') (\<lambda>summary.
     and_then (wire_string value ''status'') (\<lambda>status.
     and_then (wire_string value ''source'') (\<lambda>source.
     Inr \<lparr>rsr_requirement_id = requirement_id, rsr_goal_id = goal_id, rsr_summary = summary,
       rsr_status = status, rsr_source = source\<rparr>)))))"

lemma decode_requirement_status_roundtrip [wire_simps]:
  "decode_requirement_status (json_object ((''type'', t) # requirement_status_fields r)) = Inr r"
  by (cases r) (simp add: decode_requirement_status_def requirement_status_fields_def wire_simps json_get_object unwrap_or_def cong: and_then_weak_cong)

lemma requirement_status_fields_type [wire_simps]:
  "wire_string (json_object ((''type'', JString t) # requirement_status_fields r)) ''type'' = Inr t"
  by (simp add: requirement_status_fields_def wire_simps json_get_object)

lemma requirement_status_fields_json [json_oks]:
  "1 \<le> n \<Longrightarrow> list_all (json_ok n) (map snd (requirement_status_fields r))"
  by (simp add: requirement_status_fields_def json_oks)

definition goal_report_record_fields :: "goal_report_record \<Rightarrow> (string \<times> json) list" where
  "goal_report_record_fields r =
     [(''goal_report_id'', JString (grc_goal_report_id r)),
      (''goal_id'', JString (grc_goal_id r)),
      (''session_id'', j_opt_str (grc_session_id r)),
      (''requirement_id'', j_opt_str (grc_requirement_id r)),
      (''report_kind'', JString (grc_report_kind r)),
      (''source'', JString (grc_source r)),
      (''confidence'', j_opt_int (grc_confidence r)),
      (''summary'', JString (grc_summary r)),
      (''body_artifact_id'', j_opt_str (grc_body_artifact_id r)),
      (''evidence_id'', j_opt_str (grc_evidence_id r))]"

definition decode_goal_report_record :: "json \<Rightarrow> goal_report_record transport_result" where
  "decode_goal_report_record value =
     and_then (wire_string value ''goal_report_id'') (\<lambda>goal_report_id.
     and_then (wire_string value ''goal_id'') (\<lambda>goal_id.
     and_then (wire_optional_string value ''session_id'') (\<lambda>session_id.
     and_then (wire_optional_string value ''requirement_id'') (\<lambda>requirement_id.
     and_then (wire_string value ''report_kind'') (\<lambda>report_kind.
     and_then (wire_string value ''source'') (\<lambda>source.
     and_then (wire_optional_i64 value ''confidence'') (\<lambda>confidence.
     and_then (wire_string value ''summary'') (\<lambda>summary.
     and_then (wire_optional_string value ''body_artifact_id'') (\<lambda>body_artifact_id.
     and_then (wire_optional_string value ''evidence_id'') (\<lambda>evidence_id.
     Inr \<lparr>grc_goal_report_id = goal_report_id, grc_goal_id = goal_id, grc_session_id = session_id,
       grc_requirement_id = requirement_id, grc_report_kind = report_kind, grc_source = source,
       grc_confidence = confidence, grc_summary = summary, grc_body_artifact_id = body_artifact_id,
       grc_evidence_id = evidence_id\<rparr>))))))))))"

definition goal_report_record_ok :: "goal_report_record \<Rightarrow> bool" where
  "goal_report_record_ok r \<longleftrightarrow> opt_all i64_ok (grc_confidence r)"

lemma decode_goal_report_record_roundtrip [wire_simps]:
  "goal_report_record_ok r \<Longrightarrow> decode_goal_report_record (json_object ((''type'', t) # goal_report_record_fields r)) = Inr r"
  by (cases r) (simp add: decode_goal_report_record_def goal_report_record_fields_def goal_report_record_ok_def wire_simps json_get_object unwrap_or_def cong: and_then_weak_cong)

lemma goal_report_record_fields_type [wire_simps]:
  "wire_string (json_object ((''type'', JString t) # goal_report_record_fields r)) ''type'' = Inr t"
  by (simp add: goal_report_record_fields_def wire_simps json_get_object)

lemma goal_report_record_fields_json [json_oks]:
  "goal_report_record_ok r \<Longrightarrow> 1 \<le> n \<Longrightarrow> list_all (json_ok n) (map snd (goal_report_record_fields r))"
  by (simp add: goal_report_record_fields_def goal_report_record_ok_def json_oks)

section \<open>Commands\<close>

fun encode_command :: "server_command \<Rightarrow> json" where
  "encode_command (CmdRegisterAgent name adapter) =
     json_object [(''type'', JString ''register_agent''),
       (''name'', JString name), (''adapter'', JString adapter)]"
| "encode_command (CmdRegisterRuntimeTarget r) =
     json_object ((''type'', JString ''register_runtime_target'') # register_runtime_target_fields r)"
| "encode_command (CmdSendTask agent_name goal scenario) =
     json_object [(''type'', JString ''send_task''),
       (''agent_name'', JString agent_name), (''goal'', JString goal), (''scenario'', JString scenario)]"
| "encode_command (CmdSteerAgent agent_name goal) =
     json_object [(''type'', JString ''steer_agent''),
       (''agent_name'', JString agent_name), (''goal'', JString goal)]"
| "encode_command (CmdInterruptAgent agent_name reason) =
     json_object [(''type'', JString ''interrupt_agent''),
       (''agent_name'', JString agent_name), (''reason'', JString reason)]"
| "encode_command (CmdStopAgent agent_name reason) =
     json_object [(''type'', JString ''stop_agent''),
       (''agent_name'', JString agent_name), (''reason'', JString reason)]"
| "encode_command CmdListAgents =
     json_object [(''type'', JString ''list_agents'')]"
| "encode_command (CmdAgentStatus agent_name) =
     json_object [(''type'', JString ''agent_status''),
       (''agent_name'', JString agent_name)]"
| "encode_command (CmdDashboard recent_event_limit) =
     json_object [(''type'', JString ''dashboard''),
       (''recent_event_limit'', j_nat recent_event_limit)]"
| "encode_command (CmdStartSession agent_name goal adapter session_id run_id) =
     json_object [(''type'', JString ''start_session''),
       (''agent_name'', JString agent_name), (''goal'', JString goal), (''adapter'', JString adapter),
       (''session_id'', j_opt_str session_id), (''run_id'', j_opt_str run_id)]"
| "encode_command (CmdReplayAdapterFixture r) =
     json_object ((''type'', JString ''replay_adapter_fixture'') # replay_adapter_fixture_fields r)"
| "encode_command (CmdPlanDispatch r) =
     json_object ((''type'', JString ''plan_dispatch'') # plan_dispatch_fields r)"
| "encode_command (CmdPreflightLiveProvider r) =
     json_object ((''type'', JString ''preflight_live_provider'') # preflight_live_provider_fields r)"
| "encode_command (CmdGateDispatch dispatch_plan_id) =
     json_object [(''type'', JString ''gate_dispatch''),
       (''dispatch_plan_id'', JString dispatch_plan_id)]"
| "encode_command (CmdRunDispatchLocal dispatch_plan_id fixture_name fixture_jsonl) =
     json_object [(''type'', JString ''run_dispatch_local''),
       (''dispatch_plan_id'', JString dispatch_plan_id), (''fixture_name'', JString fixture_name),
       (''fixture_jsonl'', JString fixture_jsonl)]"
| "encode_command (CmdRunLiveProviderLocal r) =
     json_object ((''type'', JString ''run_live_provider_local'') # run_live_provider_local_fields r)"
| "encode_command (CmdRunDispatchTurn r) =
     json_object ((''type'', JString ''run_dispatch_turn'') # run_dispatch_turn_fields r)"
| "encode_command (CmdRunAcpLiveTurnLocal r) =
     json_object ((''type'', JString ''run_acp_live_turn_local'') # run_acp_live_turn_local_fields r)"
| "encode_command (CmdRunConductorTurnLocal r) =
     json_object ((''type'', JString ''run_conductor_turn_local'') # run_conductor_turn_local_fields r)"
| "encode_command CmdRecover =
     json_object [(''type'', JString ''recover'')]"
| "encode_command (CmdSubscribe session_id from_sequence) =
     json_object [(''type'', JString ''subscribe''),
       (''session_id'', j_opt_str session_id), (''from_sequence'', j_int from_sequence)]"
| "encode_command (CmdReadThread session_id from_sequence) =
     json_object [(''type'', JString ''read_thread''),
       (''session_id'', JString session_id), (''from_sequence'', j_int from_sequence)]"
| "encode_command (CmdSetGoal spec) =
     json_object [(''type'', JString ''set_goal''),
       (''spec'', encode_goal_spec spec)]"
| "encode_command (CmdPauseGoal goal_id) =
     json_object [(''type'', JString ''pause_goal''),
       (''goal_id'', JString goal_id)]"
| "encode_command (CmdResumeGoal goal_id) =
     json_object [(''type'', JString ''resume_goal''),
       (''goal_id'', JString goal_id)]"
| "encode_command (CmdBlockGoal goal_id reason) =
     json_object [(''type'', JString ''block_goal''),
       (''goal_id'', JString goal_id), (''reason'', JString reason)]"
| "encode_command (CmdClearGoal goal_id reason) =
     json_object [(''type'', JString ''clear_goal''),
       (''goal_id'', JString goal_id), (''reason'', JString reason)]"
| "encode_command (CmdSetRequirementStatus r) =
     json_object ((''type'', JString ''set_requirement_status'') # requirement_status_fields r)"
| "encode_command (CmdRecordGoalReport r) =
     json_object ((''type'', JString ''record_goal_report'') # goal_report_record_fields r)"
| "encode_command (CmdMarkGoalComplete goal_id) =
     json_object [(''type'', JString ''mark_goal_complete''),
       (''goal_id'', JString goal_id)]"
| "encode_command CmdListGoals =
     json_object [(''type'', JString ''list_goals'')]"
| "encode_command (CmdViewGoal goal_id) =
     json_object [(''type'', JString ''view_goal''),
       (''goal_id'', JString goal_id)]"
| "encode_command (CmdGoalStory goal_id) =
     json_object [(''type'', JString ''goal_story''),
       (''goal_id'', JString goal_id)]"
| "encode_command (CmdGoalTimeline goal_id) =
     json_object [(''type'', JString ''goal_timeline''),
       (''goal_id'', JString goal_id)]"
| "encode_command (CmdGoalEvidence goal_id) =
     json_object [(''type'', JString ''goal_evidence''),
       (''goal_id'', JString goal_id)]"
| "encode_command (CmdGoalValidations goal_id) =
     json_object [(''type'', JString ''goal_validations''),
       (''goal_id'', JString goal_id)]"
| "encode_command (CmdGoalReviews goal_id) =
     json_object [(''type'', JString ''goal_reviews''),
       (''goal_id'', JString goal_id)]"
| "encode_command (CmdGoalRisks goal_id) =
     json_object [(''type'', JString ''goal_risks''),
       (''goal_id'', JString goal_id)]"
| "encode_command (CmdGoalReport goal_id fmt) =
     json_object [(''type'', JString ''goal_report''),
       (''goal_id'', JString goal_id), (''format'', JString (format_as_str fmt))]"
| "encode_command (CmdContinueGoal goal_id continuation_id conditions turn) =
     json_object [(''type'', JString ''continue_goal''),
       (''goal_id'', JString goal_id), (''continuation_id'', JString continuation_id),
       (''conditions'', encode_continue_goal_conditions conditions), (''turn'', encode_continue_goal_turn turn)]"
| "encode_command (CmdReplayRunnerEvents frames) =
     json_object [(''type'', JString ''replay_runner_events''),
       (''frames'', JArray (map encode_runner_replay_frame frames))]"

definition decode_command :: "json \<Rightarrow> server_command transport_result" where
  "decode_command value =
     and_then (wire_string value ''type'') (\<lambda>ty.
     if ty = ''register_agent'' then
       and_then (wire_string value ''name'') (\<lambda>name.
       and_then (and_then (wire_optional_string value ''adapter'') (\<lambda>a. Inr (unwrap_or ''fake'' a))) (\<lambda>adapter.
       Inr (CmdRegisterAgent name adapter)))
     else if ty = ''register_runtime_target'' then
       and_then (decode_register_runtime_target value) (\<lambda>r. Inr (CmdRegisterRuntimeTarget r))
     else if ty = ''send_task'' then
       and_then (wire_string value ''agent_name'') (\<lambda>agent_name.
       and_then (wire_string value ''goal'') (\<lambda>goal.
       and_then (wire_string value ''scenario'') (\<lambda>scenario.
       Inr (CmdSendTask agent_name goal scenario))))
     else if ty = ''steer_agent'' then
       and_then (wire_string value ''agent_name'') (\<lambda>agent_name.
       and_then (wire_string value ''goal'') (\<lambda>goal.
       Inr (CmdSteerAgent agent_name goal)))
     else if ty = ''interrupt_agent'' then
       and_then (wire_string value ''agent_name'') (\<lambda>agent_name.
       and_then (wire_string value ''reason'') (\<lambda>reason.
       Inr (CmdInterruptAgent agent_name reason)))
     else if ty = ''stop_agent'' then
       and_then (wire_string value ''agent_name'') (\<lambda>agent_name.
       and_then (wire_string value ''reason'') (\<lambda>reason.
       Inr (CmdStopAgent agent_name reason)))
     else if ty = ''list_agents'' then
       Inr CmdListAgents
     else if ty = ''agent_status'' then
       and_then (wire_string value ''agent_name'') (\<lambda>agent_name. Inr (CmdAgentStatus agent_name))
     else if ty = ''dashboard'' then
       and_then (wire_usize value ''recent_event_limit'') (\<lambda>recent_event_limit. Inr (CmdDashboard recent_event_limit))
     else if ty = ''start_session'' then
       and_then (wire_string value ''agent_name'') (\<lambda>agent_name.
       and_then (wire_string value ''goal'') (\<lambda>goal.
       and_then (wire_string value ''adapter'') (\<lambda>adapter.
       and_then (wire_optional_string value ''session_id'') (\<lambda>session_id.
       and_then (wire_optional_string value ''run_id'') (\<lambda>run_id.
       Inr (CmdStartSession agent_name goal adapter session_id run_id))))))
     else if ty = ''replay_adapter_fixture'' then
       and_then (decode_replay_adapter_fixture value) (\<lambda>r. Inr (CmdReplayAdapterFixture r))
     else if ty = ''plan_dispatch'' then
       and_then (decode_plan_dispatch value) (\<lambda>r. Inr (CmdPlanDispatch r))
     else if ty = ''preflight_live_provider'' then
       and_then (decode_preflight_live_provider value) (\<lambda>r. Inr (CmdPreflightLiveProvider r))
     else if ty = ''gate_dispatch'' then
       and_then (wire_string value ''dispatch_plan_id'') (\<lambda>dispatch_plan_id. Inr (CmdGateDispatch dispatch_plan_id))
     else if ty = ''run_dispatch_local'' then
       and_then (wire_string value ''dispatch_plan_id'') (\<lambda>dispatch_plan_id.
       and_then (wire_string value ''fixture_name'') (\<lambda>fixture_name.
       and_then (wire_string value ''fixture_jsonl'') (\<lambda>fixture_jsonl.
       Inr (CmdRunDispatchLocal dispatch_plan_id fixture_name fixture_jsonl))))
     else if ty = ''run_live_provider_local'' then
       and_then (decode_run_live_provider_local value) (\<lambda>r. Inr (CmdRunLiveProviderLocal r))
     else if ty = ''run_dispatch_turn'' then
       and_then (decode_run_dispatch_turn value) (\<lambda>r. Inr (CmdRunDispatchTurn r))
     else if ty = ''run_acp_live_turn_local'' then
       and_then (decode_run_acp_live_turn_local value) (\<lambda>r. Inr (CmdRunAcpLiveTurnLocal r))
     else if ty = ''run_conductor_turn_local'' then
       and_then (decode_run_conductor_turn_local value) (\<lambda>r. Inr (CmdRunConductorTurnLocal r))
     else if ty = ''recover'' then
       Inr CmdRecover
     else if ty = ''subscribe'' then
       and_then (wire_optional_string value ''session_id'') (\<lambda>session_id.
       and_then (wire_i64 value ''from_sequence'') (\<lambda>from_sequence.
       Inr (CmdSubscribe session_id from_sequence)))
     else if ty = ''read_thread'' then
       and_then (wire_string value ''session_id'') (\<lambda>session_id.
       and_then (wire_i64 value ''from_sequence'') (\<lambda>from_sequence.
       Inr (CmdReadThread session_id from_sequence)))
     else if ty = ''set_goal'' then
       and_then (and_then (wire_value value ''spec'') decode_goal_spec) (\<lambda>spec. Inr (CmdSetGoal spec))
     else if ty = ''pause_goal'' then
       and_then (wire_string value ''goal_id'') (\<lambda>goal_id. Inr (CmdPauseGoal goal_id))
     else if ty = ''resume_goal'' then
       and_then (wire_string value ''goal_id'') (\<lambda>goal_id. Inr (CmdResumeGoal goal_id))
     else if ty = ''block_goal'' then
       and_then (wire_string value ''goal_id'') (\<lambda>goal_id.
       and_then (wire_string value ''reason'') (\<lambda>reason.
       Inr (CmdBlockGoal goal_id reason)))
     else if ty = ''clear_goal'' then
       and_then (wire_string value ''goal_id'') (\<lambda>goal_id.
       and_then (wire_string value ''reason'') (\<lambda>reason.
       Inr (CmdClearGoal goal_id reason)))
     else if ty = ''set_requirement_status'' then
       and_then (decode_requirement_status value) (\<lambda>r. Inr (CmdSetRequirementStatus r))
     else if ty = ''record_goal_report'' then
       and_then (decode_goal_report_record value) (\<lambda>r. Inr (CmdRecordGoalReport r))
     else if ty = ''mark_goal_complete'' then
       and_then (wire_string value ''goal_id'') (\<lambda>goal_id. Inr (CmdMarkGoalComplete goal_id))
     else if ty = ''list_goals'' then
       Inr CmdListGoals
     else if ty = ''view_goal'' then
       and_then (wire_string value ''goal_id'') (\<lambda>goal_id. Inr (CmdViewGoal goal_id))
     else if ty = ''goal_story'' then
       and_then (wire_string value ''goal_id'') (\<lambda>goal_id. Inr (CmdGoalStory goal_id))
     else if ty = ''goal_timeline'' then
       and_then (wire_string value ''goal_id'') (\<lambda>goal_id. Inr (CmdGoalTimeline goal_id))
     else if ty = ''goal_evidence'' then
       and_then (wire_string value ''goal_id'') (\<lambda>goal_id. Inr (CmdGoalEvidence goal_id))
     else if ty = ''goal_validations'' then
       and_then (wire_string value ''goal_id'') (\<lambda>goal_id. Inr (CmdGoalValidations goal_id))
     else if ty = ''goal_reviews'' then
       and_then (wire_string value ''goal_id'') (\<lambda>goal_id. Inr (CmdGoalReviews goal_id))
     else if ty = ''goal_risks'' then
       and_then (wire_string value ''goal_id'') (\<lambda>goal_id. Inr (CmdGoalRisks goal_id))
     else if ty = ''goal_report'' then
       and_then (wire_string value ''goal_id'') (\<lambda>goal_id.
       and_then (and_then (wire_string value ''format'') decode_goal_report_format) (\<lambda>fmt.
       Inr (CmdGoalReport goal_id fmt)))
     else if ty = ''continue_goal'' then
       and_then (wire_string value ''goal_id'') (\<lambda>goal_id.
       and_then (wire_string value ''continuation_id'') (\<lambda>continuation_id.
       and_then (and_then (wire_value value ''conditions'') decode_continue_goal_conditions) (\<lambda>conditions.
       and_then (and_then (wire_value value ''turn'') decode_continue_goal_turn) (\<lambda>turn.
       Inr (CmdContinueGoal goal_id continuation_id conditions turn)))))
     else if ty = ''replay_runner_events'' then
       and_then (wire_items decode_runner_replay_frame value ''frames'') (\<lambda>frames. Inr (CmdReplayRunnerEvents frames))
     else Inl (Protocol (''unknown command type: '' @ ty)))"

text \<open>Every number fits its Rust type.\<close>

fun command_ok :: "server_command \<Rightarrow> bool" where
  "command_ok (CmdDashboard recent_event_limit) \<longleftrightarrow> recent_event_limit < 2 ^ 64"
| "command_ok (CmdRunLiveProviderLocal r) \<longleftrightarrow> run_live_provider_local_ok r"
| "command_ok (CmdRunDispatchTurn r) \<longleftrightarrow> run_dispatch_turn_ok r"
| "command_ok (CmdRunAcpLiveTurnLocal r) \<longleftrightarrow> run_acp_live_turn_local_ok r"
| "command_ok (CmdSubscribe _ from_sequence) \<longleftrightarrow> i64_ok from_sequence"
| "command_ok (CmdReadThread _ from_sequence) \<longleftrightarrow> i64_ok from_sequence"
| "command_ok (CmdRecordGoalReport r) \<longleftrightarrow> goal_report_record_ok r"
| "command_ok (CmdContinueGoal _ _ conditions turn) \<longleftrightarrow> continue_goal_conditions_ok conditions \<and> continue_goal_turn_ok turn"
| "command_ok _ \<longleftrightarrow> True"

lemma decode_command_roundtrip:
  assumes "command_ok c"
  shows "decode_command (encode_command c) = Inr c"
  using assms
  by (cases c) (simp_all add: decode_command_def wire_simps json_get_object unwrap_or_def cong: and_then_weak_cong)

lemma encode_command_json [json_oks]: "command_ok c \<Longrightarrow> 5 \<le> n \<Longrightarrow> json_ok n (encode_command c)"
  by (cases c) (auto simp: json_oks intro!: json_ok_objectI)

end
