(* ===== verification/Redaction.thy ===== *)
theory Redaction
  imports Text_Tools
begin

text \<open>
  The credential scan of \<open>capo-runtime/src/lib.rs\<close> (\<open>RedactionPolicy\<close>, \<open>scan_credential_shapes\<close> and
  the environment scrub), which every text that leaves the process goes through.

  A Rust \<open>String\<close> is valid UTF-8 and \<open>from_utf8_lossy\<close> keeps it, so the policy is modelled on text.

  Shown here: the scan works token by token, keeps the white space, and scanning again changes
  nothing; what it leaves is not credential shaped.
\<close>

section \<open>Credential shapes\<close>

definition CREDENTIAL_REDACTION_PLACEHOLDER :: string where
  "CREDENTIAL_REDACTION_PLACEHOLDER = ''[REDACTED:credential]''"

definition is_credential_boundary :: "char \<Rightarrow> bool" where
  "is_credential_boundary c \<longleftrightarrow>
     c \<in> {CHR 0x22, CHR 0x27, CHR 0x60, CHR ''('', CHR '')'', CHR ''['', CHR '']'', CHR ''{'', CHR ''}'', CHR '','',
       CHR '';'', CHR '':'', CHR ''?'', CHR ''&'', CHR ''<'', CHR ''>'', CHR ''|''}"

definition is_credential_char :: "char \<Rightarrow> bool" where
  "is_credential_char c \<longleftrightarrow>
     is_ascii_alphanumeric c \<or> c \<in> {CHR ''_'', CHR ''-'', CHR ''+'', CHR ''/'', CHR ''='', CHR ''.''}"

definition is_hex_digest :: "string \<Rightarrow> bool" where
  "is_hex_digest value =
     (let core = filter (\<lambda>c. c \<noteq> CHR ''-'') value in length core \<ge> 12 \<and> list_all is_ascii_hexdigit core)"

definition is_uuid_shaped :: "string \<Rightarrow> bool" where
  "is_uuid_shaped value =
     (let groups = split_on (\<lambda>c. c = CHR ''-'') value in
      length groups = 5
      \<and> list_all (\<lambda>(group, len). length group = len \<and> list_all is_ascii_hexdigit group)
          (zip groups [8, 4, 4, 4, 12]))"

definition KNOWN_PREFIXES :: "string list" where
  "KNOWN_PREFIXES = [''AKIA'', ''ASIA'', ''sk-'', ''ghp_'', ''gho_'', ''ghu_'', ''ghs_'', ''github_pat_'',
     ''xoxb-'', ''xoxp-'', ''xoxa-'', ''AIza'', ''glpat-'']"

definition high_entropy :: "string \<Rightarrow> bool" where
  "high_entropy value =
     (let has_digit = list_ex is_ascii_digit value;
          has_upper = list_ex is_ascii_uppercase value;
          has_lower = list_ex is_ascii_lowercase value;
          has_base64_symbol = list_ex (\<lambda>c. c = CHR ''+'' \<or> c = CHR ''='') value;
          distinct_count = length (remdups (filter (\<lambda>c. byte_of c < 128) value));
          diverse = has_digit \<and> (has_upper \<and> has_lower \<or> has_base64_symbol)
      in diverse \<and> distinct_count \<ge> 12)"

definition candidate_is_credential :: "string \<Rightarrow> bool \<Rightarrow> bool" where
  "candidate_is_credential value after_bearer =
     (if value = [] then False
      else if list_ex (\<lambda>prefix. starts_with prefix value \<and> length value > length prefix + 4) KNOWN_PREFIXES
      then True
      else if after_bearer \<and> length value \<ge> 8 \<and> list_all is_credential_char value then True
      else if length value \<ge> 20 \<and> list_all is_credential_char value then
        (if is_hex_digest value \<or> is_uuid_shaped value then False else high_entropy value)
      else False)"

definition assignment_value :: "string \<Rightarrow> string option" where
  "assignment_value token =
     (case split_once (CHR ''='') token of
        None \<Rightarrow> None
      | Some (key, rest) \<Rightarrow>
          if key \<noteq> [] \<and> list_all (\<lambda>c. is_ascii_alphanumeric c \<or> c = CHR ''_'' \<or> c = CHR ''-'') key
            \<and> list_ex is_ascii_alphabetic key
          then Some rest else None)"

definition push_candidate :: "string \<Rightarrow> string list \<Rightarrow> string list" where
  "push_candidate s candidates = (if s \<noteq> [] \<and> s \<notin> set candidates then candidates @ [s] else candidates)"

definition push_assignment :: "string \<Rightarrow> string list \<Rightarrow> string list" where
  "push_assignment s candidates =
     (case assignment_value s of
        Some value \<Rightarrow> push_candidate (trim_matches is_credential_boundary value) candidates
      | None \<Rightarrow> candidates)"

definition credential_candidates :: "string \<Rightarrow> string list" where
  "credential_candidates raw =
     (let trimmed = trim_matches is_credential_boundary raw;
          candidates = push_assignment trimmed (push_candidate trimmed [])
      in fold (\<lambda>piece candidates.
           let piece_trimmed = trim_matches is_credential_boundary piece in
           push_candidate piece_trimmed (push_assignment piece_trimmed candidates))
         (split_on is_credential_boundary raw) candidates)"

definition is_credential_shaped :: "string \<Rightarrow> bool \<Rightarrow> bool" where
  "is_credential_shaped raw after_bearer =
     list_ex (\<lambda>candidate. candidate_is_credential candidate after_bearer) (credential_candidates raw)"

section \<open>The scan\<close>

record scan_state =
  sc_token :: string
  sc_prev_token :: "string option"
  sc_out :: string
  sc_redacted :: bool

definition after_bearer :: "string option \<Rightarrow> bool" where
  "after_bearer prev = (case prev of Some p \<Rightarrow> eq_ignore_ascii_case p ''bearer'' | None \<Rightarrow> False)"

definition flush_token :: "scan_state \<Rightarrow> scan_state" where
  "flush_token st =
     (if sc_token st = [] then st
      else if is_credential_shaped (sc_token st) (after_bearer (sc_prev_token st)) then
        st\<lparr>sc_out := sc_out st @ CREDENTIAL_REDACTION_PLACEHOLDER, sc_redacted := True,
           sc_prev_token := Some (sc_token st), sc_token := []\<rparr>
      else st\<lparr>sc_out := sc_out st @ sc_token st, sc_prev_token := Some (sc_token st), sc_token := []\<rparr>)"

definition push_space :: "string \<Rightarrow> scan_state \<Rightarrow> scan_state" where
  "push_space w st =
     st\<lparr>sc_out := sc_out st @ w,
        sc_prev_token := (if w = [CHR 0x0A] then None else sc_prev_token st)\<rparr>"

function scan_chars :: "scan_state \<Rightarrow> string \<Rightarrow> scan_state" where
  "scan_chars st [] = flush_token st"
| "scan_chars st (c # cs) =
     (let n = space_len (c # cs) in
      if n > 0 then scan_chars (push_space (take n (c # cs)) (flush_token st)) (drop n (c # cs))
      else scan_chars (st\<lparr>sc_token := sc_token st @ [c]\<rparr>) cs)"
  by pat_completeness auto
termination by (relation "measure (\<lambda>(_, s). length s)") auto

declare scan_chars.simps(2) [simp del]

definition scan_credential_shapes :: "string \<Rightarrow> string \<times> bool" where
  "scan_credential_shapes t =
     (let st = scan_chars \<lparr>sc_token = [], sc_prev_token = None, sc_out = [], sc_redacted = False\<rparr> t
      in (sc_out st, sc_redacted st))"

section \<open>The policy\<close>

record redaction_rule =
  rr_pattern :: string
  rr_replacement :: string

record redaction_policy =
  rp_rules :: "redaction_rule list"
  rp_scan_credentials :: bool

definition policy_new :: "redaction_rule list \<Rightarrow> redaction_policy" where
  "policy_new rules = \<lparr>rp_rules = rules, rp_scan_credentials = True\<rparr>"

definition policy_rules_only :: "redaction_rule list \<Rightarrow> redaction_policy" where
  "policy_rules_only rules = \<lparr>rp_rules = rules, rp_scan_credentials = False\<rparr>"

definition apply_rule :: "redaction_rule \<Rightarrow> string \<times> bool \<Rightarrow> string \<times> bool" where
  "apply_rule rule acc =
     (if str_contains (fst acc) (rr_pattern rule)
      then (str_replace (rr_pattern rule) (rr_replacement rule) (fst acc), True) else acc)"

definition apply_policy :: "redaction_policy \<Rightarrow> string \<Rightarrow> string \<times> string" where
  "apply_policy policy t =
     (let (t1, redacted1) = fold apply_rule (rp_rules policy) (t, False);
          (t2, redacted2) =
            (if rp_scan_credentials policy then
               (let (scanned, scanned_any) = scan_credential_shapes t1 in
                if scanned_any then (scanned, True) else (t1, redacted1))
             else (t1, redacted1))
      in (t2, if redacted2 then ''redacted'' else ''safe''))"

definition PRIVILEGED_CONNECTOR_ENV_VARS :: "string list" where
  "PRIVILEGED_CONNECTOR_ENV_VARS =
     [''ANTHROPIC_API_KEY'', ''ANTHROPIC_AUTH_TOKEN'', ''ANTHROPIC_SESSION_KEY'', ''CLAUDE_CODE_OAUTH_TOKEN'',
      ''OPENAI_API_KEY'', ''CODEX_AUTH_TOKEN'', ''CAPO_CONNECTOR_TOKEN'']"

text \<open>The environment as a list of its entries, in the order the map yields them.\<close>

definition is_privileged_entry :: "string \<times> string \<Rightarrow> bool" where
  "is_privileged_entry entry =
     (list_ex (\<lambda>known. eq_ignore_ascii_case known (fst entry)) PRIVILEGED_CONNECTOR_ENV_VARS
      \<or> snd (scan_credential_shapes (snd entry)))"

definition scrub_privileged_connector_env ::
  "(string \<times> string) list \<Rightarrow> (string \<times> string) list \<times> string list" where
  "scrub_privileged_connector_env env =
     (filter (\<lambda>entry. \<not> is_privileged_entry entry) env,
      sort (map fst (filter is_privileged_entry env)))"

section \<open>Tokens and white space\<close>

text \<open>A text as its white-space characters and the tokens between them.\<close>

datatype piece = Space string | Token string

fun piece_text :: "piece \<Rightarrow> string" where
  "piece_text (Space w) = w"
| "piece_text (Token t) = t"

definition unparse :: "piece list \<Rightarrow> string" where
  "unparse ps = concat (map piece_text ps)"

lemma unparse_simps [simp]: "unparse [] = []" "unparse (p # ps) = piece_text p @ unparse ps"
  by (simp_all add: unparse_def)

fun space_free :: "string \<Rightarrow> bool" where
  "space_free [] = True"
| "space_free (c # cs) = (space_len (c # cs) = 0 \<and> space_free cs)"

fun pieces_ok :: "piece list \<Rightarrow> bool" where
  "pieces_ok [] = True"
| "pieces_ok (Space w # ps) = (w \<noteq> [] \<and> space_len w = length w \<and> pieces_ok ps)"
| "pieces_ok (Token t # ps) =
     (t \<noteq> [] \<and> space_free t \<and> (case ps of Token _ # _ \<Rightarrow> False | _ \<Rightarrow> True) \<and> pieces_ok ps)"

text \<open>Every text has such a reading.\<close>

lemma space_free_prefix: "space_free (s @ t) \<Longrightarrow> space_free s"
proof (induction s)
  case (Cons c s)
  then have "space_len ((c # s) @ t) = 0" by simp
  then have "space_len (c # s) = 0" using space_len_append [of "c # s" t] by (metis gr0I)
  with Cons show ?case by simp
qed simp

fun add_char :: "char \<Rightarrow> piece list \<Rightarrow> piece list" where
  "add_char c (Token t # ps) = Token (c # t) # ps"
| "add_char c ps = Token [c] # ps"

function pieces :: "string \<Rightarrow> piece list" where
  "pieces [] = []"
| "pieces (c # cs) =
     (let n = space_len (c # cs) in
      if n > 0 then Space (take n (c # cs)) # pieces (drop n (c # cs)) else add_char c (pieces cs))"
  by pat_completeness auto
termination by (relation "measure length") auto

declare pieces.simps(2) [simp del]

lemma unparse_add_char [simp]: "unparse (add_char c ps) = c # unparse ps"
  by (cases "(c, ps)" rule: add_char.cases) simp_all

lemma unparse_pieces [simp]: "unparse (pieces s) = s"
proof (induction s rule: pieces.induct)
  case (2 c cs)
  then show ?case
    using append_take_drop_id [of "space_len (c # cs)" "c # cs"]
    by (cases "space_len (c # cs) > 0") (simp_all add: pieces.simps(2) Let_def)
qed simp

lemma space_len_take: "space_len (take (space_len s) s) = space_len s"
proof -
  have "space_bytes (take (space_bytes b) b) = space_bytes b" for b
    by (cases b rule: space_bytes.cases) simp_all
  then show ?thesis by (simp add: space_len_def take_map [symmetric])
qed

lemma pieces_ok_add_char:
  assumes "pieces_ok ps" "space_len (c # unparse ps) = 0"
  shows "pieces_ok (add_char c ps)"
proof -
  have "space_len (c # t) = 0" if "unparse ps = t @ u" for t u
    using assms(2) that space_len_append [of "c # t" u] by (metis append_Cons gr0I)
  then have "space_len [c] = 0" "\<And>t qs. ps = Token t # qs \<Longrightarrow> space_len (c # t) = 0" by auto
  with assms(1) show ?thesis by (cases "(c, ps)" rule: add_char.cases) auto
qed

lemma pieces_ok: "pieces_ok (pieces s)"
proof (induction s rule: pieces.induct)
  case (2 c cs)
  show ?case
  proof (cases "space_len (c # cs) > 0")
    case True
    then show ?thesis
      using 2 space_len_le [of "c # cs"] space_len_take [of "c # cs"] by (auto simp: pieces.simps(2) Let_def)
  next
    case False
    then show ?thesis using 2 by (simp add: pieces.simps(2) Let_def pieces_ok_add_char)
  qed
qed simp

text \<open>The scan, read as a map over the pieces.\<close>

fun redact_pieces :: "string option \<Rightarrow> piece list \<Rightarrow> piece list" where
  "redact_pieces prev [] = []"
| "redact_pieces prev (Space w # ps) = Space w # redact_pieces (if w = [CHR 0x0A] then None else prev) ps"
| "redact_pieces prev (Token t # ps) =
     Token (if is_credential_shaped t (after_bearer prev) then CREDENTIAL_REDACTION_PLACEHOLDER else t)
     # redact_pieces (Some t) ps"

fun any_shaped :: "string option \<Rightarrow> piece list \<Rightarrow> bool" where
  "any_shaped prev [] = False"
| "any_shaped prev (Space w # ps) = any_shaped (if w = [CHR 0x0A] then None else prev) ps"
| "any_shaped prev (Token t # ps) = (is_credential_shaped t (after_bearer prev) \<or> any_shaped (Some t) ps)"

lemma scan_token:
  assumes "space_free t" "r = [] \<or> space_len r > 0"
  shows "scan_chars st (t @ r) = scan_chars (st\<lparr>sc_token := sc_token st @ t\<rparr>) r"
  using assms(1)
proof (induction t arbitrary: st)
  case (Cons c t)
  then have "space_len (c # t @ r) = 0"
    using assms(2) space_len_before_space [of r "c # t"] by auto
  with Cons show ?case by (simp add: scan_chars.simps(2))
qed simp

lemma scan_pieces:
  assumes "pieces_ok ps" "sc_token st = []"
  shows "sc_out (scan_chars st (unparse ps)) = sc_out st @ unparse (redact_pieces (sc_prev_token st) ps)
    \<and> sc_redacted (scan_chars st (unparse ps)) = (sc_redacted st \<or> any_shaped (sc_prev_token st) ps)"
  using assms
proof (induction ps arbitrary: st rule: pieces_ok.induct)
  case 1
  then show ?case by (simp add: flush_token_def)
next
  case (2 w ps)
  have w: "space_len (w @ unparse ps) = length w" "w \<noteq> []" using 2 space_len_append [of w] by auto
  then have "scan_chars st (w @ unparse ps) = scan_chars (push_space w st) (unparse ps)"
    using 2 by (cases w) (simp_all add: scan_chars.simps(2) flush_token_def)
  moreover have "sc_token (push_space w st) = []" using 2 by (simp add: push_space_def)
  ultimately show ?case using 2(1) [of "push_space w st"] 2(2) by (simp add: push_space_def)
next
  case (3 t ps)
  let ?st = "flush_token (st\<lparr>sc_token := t\<rparr>)"
  have tail: "unparse ps = [] \<or> space_len (unparse ps) > 0"
    using 3 space_len_append by (cases ps rule: pieces_ok.cases) auto
  have "scan_chars st (t @ unparse ps) = scan_chars (st\<lparr>sc_token := t\<rparr>) (unparse ps)"
    using 3 tail by (simp add: scan_token)
  also have "\<dots> = scan_chars ?st (unparse ps)"
    using tail by (cases "unparse ps") (auto simp: scan_chars.simps(2) flush_token_def Let_def)
  finally have step: "scan_chars st (t @ unparse ps) = scan_chars ?st (unparse ps)" .
  have "sc_token ?st = []" by (simp add: flush_token_def)
  with 3(1) [of ?st] 3(2) show ?case by (simp add: step flush_token_def)
qed

lemma scan_eq:
  assumes "pieces_ok ps"
  shows "scan_credential_shapes (unparse ps) = (unparse (redact_pieces None ps), any_shaped None ps)"
  using scan_pieces [OF assms, of "\<lparr>sc_token = [], sc_prev_token = None, sc_out = [], sc_redacted = False\<rparr>"]
  by (simp add: scan_credential_shapes_def Let_def)

section \<open>Scanning again\<close>

lemma placeholder_plain:
  "space_free CREDENTIAL_REDACTION_PLACEHOLDER" "CREDENTIAL_REDACTION_PLACEHOLDER \<noteq> []"
  "\<not> is_credential_shaped CREDENTIAL_REDACTION_PLACEHOLDER False"
  "\<not> eq_ignore_ascii_case CREDENTIAL_REDACTION_PLACEHOLDER ''bearer''"
  by code_simp+

text \<open>The word \<open>Bearer\<close>, in any case, is never taken for a credential: candidates are parts of the token,
  and a credential has at least eight bytes.\<close>

lemma trim_matches_length: "length (trim_matches p s) \<le> length s"
  unfolding trim_matches_def by (metis length_dropWhile_le length_rev order_trans)

lemma split_on_length: "t \<in> set (split_on p s) \<Longrightarrow> length t \<le> length s"
  by (induction s arbitrary: t) (fastforce split: list.splits if_splits)+

lemma split_once_length: "split_once p s = Some (a, b) \<Longrightarrow> length b \<le> length s"
  by (induction s arbitrary: a b) (auto split: if_splits) 

lemma assignment_value_length: "assignment_value s = Some v \<Longrightarrow> length v \<le> length s"
  by (auto simp: assignment_value_def dest: split_once_length split: option.splits if_splits)

lemma push_short:
  assumes "\<forall>c\<in>set cs. length c \<le> n" "length s \<le> n"
  shows "\<forall>c\<in>set (push_candidate s cs). length c \<le> n" "\<forall>c\<in>set (push_assignment s cs). length c \<le> n"
proof -
  show push: "\<forall>c\<in>set (push_candidate s cs). length c \<le> n" using assms by (auto simp: push_candidate_def)
  show "\<forall>c\<in>set (push_assignment s cs). length c \<le> n"
  proof (cases "assignment_value s")
    case (Some v)
    then have "length (trim_matches is_credential_boundary v) \<le> n"
      using assignment_value_length [OF Some] trim_matches_length [of is_credential_boundary v] assms(2) by linarith
    with assms(1) Some show ?thesis by (auto simp: push_assignment_def push_candidate_def)
  qed (use assms in \<open>simp add: push_assignment_def\<close>)
qed

lemma candidates_short: "c \<in> set (credential_candidates raw) \<Longrightarrow> length c \<le> length raw"
proof -
  let ?f = "\<lambda>piece cs. let u = trim_matches is_credential_boundary piece in push_candidate u (push_assignment u cs)"
  have step: "\<forall>c\<in>set (?f piece cs). length c \<le> length raw"
    if "\<forall>c\<in>set cs. length c \<le> length raw" "length piece \<le> length raw" for piece cs
  proof -
    have "length (trim_matches is_credential_boundary piece) \<le> length raw"
      using that(2) trim_matches_length [of is_credential_boundary piece] by linarith
    with that(1) show ?thesis unfolding Let_def by (intro push_short)
  qed
  have "\<forall>c\<in>set (fold ?f ps cs). length c \<le> length raw"
    if "\<forall>c\<in>set cs. length c \<le> length raw" "\<forall>p\<in>set ps. length p \<le> length raw" for ps cs
    using that
  proof (induction ps arbitrary: cs)
    case (Cons p ps)
    have "\<forall>c\<in>set (?f p cs). length c \<le> length raw" using Cons.prems by (intro step) auto
    with Cons show ?case by simp
  qed simp
  moreover have "\<forall>c\<in>set (push_assignment u (push_candidate u [])). length c \<le> length raw"
    if "length u \<le> length raw" for u using that by (intro push_short) simp_all
  ultimately have "\<forall>c\<in>set (credential_candidates raw). length c \<le> length raw"
    unfolding credential_candidates_def Let_def using trim_matches_length split_on_length by blast
  then show "c \<in> set (credential_candidates raw) \<Longrightarrow> length c \<le> length raw" by blast
qed

lemma short_candidate: "length v < 8 \<Longrightarrow> \<not> candidate_is_credential v b"
  by (auto simp: candidate_is_credential_def KNOWN_PREFIXES_def)

lemma bearer_not_shaped:
  assumes "eq_ignore_ascii_case t ''bearer''"
  shows "\<not> is_credential_shaped t b"
proof -
  have "length (to_ascii_lowercase t) = length (to_ascii_lowercase ''bearer'')"
    using assms by (simp add: eq_ignore_ascii_case_def)
  then have "length t = 6" by (simp add: to_ascii_lowercase_def)
  then have "length c < 8" if "c \<in> set (credential_candidates t)" for c using candidates_short [OF that] by simp
  then show ?thesis using short_candidate by (auto simp: is_credential_shaped_def list_ex_iff)
qed

lemma after_bearer_iff: "after_bearer (Some t) = eq_ignore_ascii_case t ''bearer''"
  by (simp add: after_bearer_def)

lemma redact_again:
  assumes "after_bearer q = after_bearer p"
  shows "redact_pieces q (redact_pieces p ps) = redact_pieces p ps"
  using assms
proof (induction p ps arbitrary: q rule: redact_pieces.induct)
  case (3 prev t ps)
  show ?case
  proof (cases "is_credential_shaped t (after_bearer prev)")
    case True
    have "after_bearer (Some CREDENTIAL_REDACTION_PLACEHOLDER) = after_bearer (Some t)"
      using True bearer_not_shaped placeholder_plain(4) by (auto simp: after_bearer_iff)
    with True 3 show ?thesis by simp
  qed (use 3 in simp)
qed simp_all

lemma redact_pieces_ok: "pieces_ok ps \<Longrightarrow> pieces_ok (redact_pieces p ps)"
proof (induction p ps rule: redact_pieces.induct)
  case (3 prev t ps)
  then show ?case
    using placeholder_plain by (cases ps rule: pieces_ok.cases) auto
qed auto

lemma scan_idempotent:
  "fst (scan_credential_shapes (fst (scan_credential_shapes t))) = fst (scan_credential_shapes t)"
proof -
  have "scan_credential_shapes t = (unparse (redact_pieces None (pieces t)), any_shaped None (pieces t))"
    using scan_eq [OF pieces_ok, of t] by simp
  moreover have "scan_credential_shapes (unparse (redact_pieces None (pieces t)))
      = (unparse (redact_pieces None (redact_pieces None (pieces t))), any_shaped None (redact_pieces None (pieces t)))"
    by (rule scan_eq) (rule redact_pieces_ok [OF pieces_ok])
  ultimately show ?thesis by (simp add: redact_again)
qed

lemma redact_unshaped: "\<not> any_shaped p ps \<Longrightarrow> redact_pieces p ps = ps"
  by (induction p ps rule: redact_pieces.induct) auto

lemma scan_clean: "\<not> snd (scan_credential_shapes t) \<Longrightarrow> fst (scan_credential_shapes t) = t"
  using scan_eq [OF pieces_ok, of t] by (auto simp: redact_unshaped)

text \<open>What the scan leaves: the tokens of the output that are credential shaped are placeholders.\<close>

fun only_placeholders :: "string option \<Rightarrow> piece list \<Rightarrow> bool" where
  "only_placeholders prev [] = True"
| "only_placeholders prev (Space w # ps) = only_placeholders (if w = [CHR 0x0A] then None else prev) ps"
| "only_placeholders prev (Token t # ps) =
     ((is_credential_shaped t (after_bearer prev) \<longrightarrow> t = CREDENTIAL_REDACTION_PLACEHOLDER)
      \<and> only_placeholders (Some t) ps)"

lemma redact_only_placeholders: "redact_pieces p ps = ps \<Longrightarrow> only_placeholders p ps"
  by (induction p ps rule: redact_pieces.induct) (auto split: if_splits)

text \<open>Reading the output again gives the pieces it was made of.\<close>

lemma pieces_unparse: "pieces_ok ps \<Longrightarrow> pieces (unparse ps) = ps"
proof (induction ps rule: pieces_ok.induct)
  case (2 w ps)
  then have "space_len (w @ unparse ps) = length w" using space_len_append [of w] by auto
  with 2 show ?case by (cases w) (simp_all add: pieces.simps(2))
next
  case (3 t ps)
  have tail: "unparse ps = [] \<or> space_len (unparse ps) > 0"
    using 3 space_len_append by (cases ps rule: pieces_ok.cases) auto
  have "t \<noteq> [] \<Longrightarrow> space_free t \<Longrightarrow> pieces (t @ unparse ps) = Token t # ps"
  proof (induction t)
    case (Cons c t)
    then have "space_len (c # t @ unparse ps) = 0" using tail space_len_before_space [of "unparse ps" "c # t"] by auto
    then have "pieces ((c # t) @ unparse ps) = add_char c (pieces (t @ unparse ps))" by (simp add: pieces.simps(2))
    with Cons 3 show ?case by (cases t) (cases ps rule: pieces_ok.cases, auto)
  qed simp
  with 3 show ?case by simp
qed simp

lemma scan_leaves_placeholders: "only_placeholders None (pieces (fst (scan_credential_shapes t)))"
proof -
  have "pieces (fst (scan_credential_shapes t)) = redact_pieces None (pieces t)"
    using scan_eq [OF pieces_ok, of t] pieces_unparse [OF redact_pieces_ok [OF pieces_ok]] by simp
  then show ?thesis by (simp add: redact_only_placeholders redact_again)
qed

text \<open>The environment of a remote agent.\<close>

lemma scrubbed_env_unprivileged: "e \<in> set (fst (scrub_privileged_connector_env env)) \<Longrightarrow> \<not> is_privileged_entry e"
  by (simp add: scrub_privileged_connector_env_def)

end
