(* ===== verification/Transport_Response.thy ===== *)
theory Transport_Response
  imports Transport_Wire Redaction
begin

text \<open>
  \<open>capo-server/src/transport/codec.rs\<close>, responses: \<open>encode_payload\<close>, \<open>encode_response_result\<close> and
  their readers.  The text an agent wrote passes the credential scan on its way out, so a client reads
  back the scrubbed response and not the response.

  Shown here: the decoder reads back exactly the scrubbed response, as long as every number fits its
  type and no typed id is blank; and what the encoder writes is JSON that a parser accepts.
\<close>

definition redact_egress_text :: "string \<Rightarrow> string" where
  "redact_egress_text t = fst (apply_policy (policy_new []) t)"

section \<open>The parts of a response\<close>


definition encode_thread_item :: "server_thread_item \<Rightarrow> json" where
  "encode_thread_item r =
     json_object [(''sequence'', j_int (sti_sequence r)),
       (''event_id'', JString (sti_event_id r)),
       (''kind'', JString (sti_kind r)),
       (''event_kind'', JString (sti_event_kind r)),
       (''item_ref'', j_opt_str (sti_item_ref r)),
       (''text'', j_opt_str (sti_text r)),
       (''redaction_state'', JString (sti_redaction_state r))]"

definition decode_thread_item :: "json \<Rightarrow> server_thread_item transport_result" where
  "decode_thread_item value =
     and_then (wire_i64 value ''sequence'') (\<lambda>sequence.
     and_then (wire_string value ''event_id'') (\<lambda>event_id.
     and_then (wire_string value ''kind'') (\<lambda>kind.
     and_then (wire_string value ''event_kind'') (\<lambda>event_kind.
     and_then (wire_optional_string value ''item_ref'') (\<lambda>item_ref.
     and_then (wire_optional_string value ''text'') (\<lambda>text.
     and_then (wire_string value ''redaction_state'') (\<lambda>redaction_state.
     Inr \<lparr>sti_sequence = sequence, sti_event_id = event_id, sti_kind = kind, sti_event_kind = event_kind,
       sti_item_ref = item_ref, sti_text = text, sti_redaction_state = redaction_state\<rparr>)))))))"

definition thread_item_ok :: "server_thread_item \<Rightarrow> bool" where
  "thread_item_ok r \<longleftrightarrow> i64_ok (sti_sequence r)"

lemma decode_thread_item_roundtrip [wire_simps]:
  "thread_item_ok r \<Longrightarrow> decode_thread_item (encode_thread_item r) = Inr r"
  by (cases r) (simp add: decode_thread_item_def encode_thread_item_def thread_item_ok_def wire_simps json_get_object unwrap_or_def cong: and_then_weak_cong)

lemma encode_thread_item_json [json_oks]:
  "thread_item_ok r \<Longrightarrow> 2 \<le> n \<Longrightarrow> json_ok n (encode_thread_item r)"
  unfolding encode_thread_item_def by (rule json_ok_objectI) (simp_all add: thread_item_ok_def json_oks)

lemma json_ok_items_thread_item [json_oks]:
  "list_all thread_item_ok xs \<Longrightarrow> 3 \<le> n \<Longrightarrow> json_ok n (JArray (map encode_thread_item xs))"
  by (rule json_ok_arrayI) (auto simp: json_oks list_all_iff)

lemma wire_items_thread_item [wire_simps]:
  "json_get v k = Some (JArray (map encode_thread_item xs)) \<Longrightarrow> list_all thread_item_ok xs \<Longrightarrow> wire_items decode_thread_item v k = Inr (xs)"
  using wire_items_found [of v k encode_thread_item xs decode_thread_item "\<lambda>x. x"]
  by (simp add: wire_simps list_all_iff)

definition encode_thread_turn :: "server_thread_turn \<Rightarrow> json" where
  "encode_thread_turn r =
     json_object [(''turn_id'', JString (stt_turn_id r)),
       (''status'', JString (stt_status r)),
       (''first_sequence'', j_int (stt_first_sequence r)),
       (''last_sequence'', j_int (stt_last_sequence r)),
       (''items'', JArray (map encode_thread_item (stt_items r)))]"

definition decode_thread_turn :: "json \<Rightarrow> server_thread_turn transport_result" where
  "decode_thread_turn value =
     and_then (wire_string value ''turn_id'') (\<lambda>turn_id.
     and_then (wire_string value ''status'') (\<lambda>status.
     and_then (wire_i64 value ''first_sequence'') (\<lambda>first_sequence.
     and_then (wire_i64 value ''last_sequence'') (\<lambda>last_sequence.
     and_then (wire_items decode_thread_item value ''items'') (\<lambda>items.
     Inr \<lparr>stt_turn_id = turn_id, stt_status = status, stt_first_sequence = first_sequence,
       stt_last_sequence = last_sequence, stt_items = items\<rparr>)))))"

definition thread_turn_ok :: "server_thread_turn \<Rightarrow> bool" where
  "thread_turn_ok r \<longleftrightarrow> i64_ok (stt_first_sequence r)
     \<and> i64_ok (stt_last_sequence r)
     \<and> list_all thread_item_ok (stt_items r)"

lemma decode_thread_turn_roundtrip [wire_simps]:
  "thread_turn_ok r \<Longrightarrow> decode_thread_turn (encode_thread_turn r) = Inr r"
  by (cases r) (simp add: decode_thread_turn_def encode_thread_turn_def thread_turn_ok_def wire_simps json_get_object unwrap_or_def cong: and_then_weak_cong)

lemma encode_thread_turn_json [json_oks]:
  "thread_turn_ok r \<Longrightarrow> 4 \<le> n \<Longrightarrow> json_ok n (encode_thread_turn r)"
  unfolding encode_thread_turn_def by (rule json_ok_objectI) (simp_all add: thread_turn_ok_def json_oks)

lemma json_ok_items_thread_turn [json_oks]:
  "list_all thread_turn_ok xs \<Longrightarrow> 5 \<le> n \<Longrightarrow> json_ok n (JArray (map encode_thread_turn xs))"
  by (rule json_ok_arrayI) (auto simp: json_oks list_all_iff)

lemma wire_items_thread_turn [wire_simps]:
  "json_get v k = Some (JArray (map encode_thread_turn xs)) \<Longrightarrow> list_all thread_turn_ok xs \<Longrightarrow> wire_items decode_thread_turn v k = Inr (xs)"
  using wire_items_found [of v k encode_thread_turn xs decode_thread_turn "\<lambda>x. x"]
  by (simp add: wire_simps list_all_iff)

definition encode_event :: "server_event \<Rightarrow> json" where
  "encode_event r =
     json_object [(''sequence'', j_int (sev_sequence r)),
       (''event_id'', JString (sev_event_id r)),
       (''kind'', JString (sev_kind r)),
       (''actor'', JString (sev_actor r)),
       (''project_id'', j_opt_str (sev_project_id r)),
       (''task_id'', j_opt_str (sev_task_id r)),
       (''agent_id'', j_opt_str (sev_agent_id r)),
       (''session_id'', j_opt_str (sev_session_id r)),
       (''run_id'', j_opt_str (sev_run_id r)),
       (''turn_id'', j_opt_str (sev_turn_id r)),
       (''item_id'', j_opt_str (sev_item_id r)),
       (''payload_json'', JString (sev_payload_json r)),
       (''redaction_state'', JString (sev_redaction_state r))]"

definition decode_event :: "json \<Rightarrow> server_event transport_result" where
  "decode_event value =
     and_then (wire_i64 value ''sequence'') (\<lambda>sequence.
     and_then (wire_string value ''event_id'') (\<lambda>event_id.
     and_then (wire_string value ''kind'') (\<lambda>kind.
     and_then (wire_string value ''actor'') (\<lambda>actor.
     and_then (wire_optional_string value ''project_id'') (\<lambda>project_id.
     and_then (wire_optional_string value ''task_id'') (\<lambda>task_id.
     and_then (wire_optional_string value ''agent_id'') (\<lambda>agent_id.
     and_then (wire_optional_string value ''session_id'') (\<lambda>session_id.
     and_then (wire_optional_string value ''run_id'') (\<lambda>run_id.
     and_then (wire_optional_string value ''turn_id'') (\<lambda>turn_id.
     and_then (wire_optional_string value ''item_id'') (\<lambda>item_id.
     and_then (wire_string value ''payload_json'') (\<lambda>payload_json.
     and_then (wire_string value ''redaction_state'') (\<lambda>redaction_state.
     Inr \<lparr>sev_sequence = sequence, sev_event_id = event_id, sev_kind = kind, sev_actor = actor,
       sev_project_id = project_id, sev_task_id = task_id, sev_agent_id = agent_id,
       sev_session_id = session_id, sev_run_id = run_id, sev_turn_id = turn_id, sev_item_id = item_id,
       sev_payload_json = payload_json, sev_redaction_state = redaction_state\<rparr>)))))))))))))"

definition event_ok :: "server_event \<Rightarrow> bool" where
  "event_ok r \<longleftrightarrow> i64_ok (sev_sequence r)"

lemma decode_event_roundtrip [wire_simps]:
  "event_ok r \<Longrightarrow> decode_event (encode_event r) = Inr r"
  by (cases r) (simp add: decode_event_def encode_event_def event_ok_def wire_simps json_get_object unwrap_or_def cong: and_then_weak_cong)

lemma encode_event_json [json_oks]:
  "event_ok r \<Longrightarrow> 2 \<le> n \<Longrightarrow> json_ok n (encode_event r)"
  unfolding encode_event_def by (rule json_ok_objectI) (simp_all add: event_ok_def json_oks)

lemma json_ok_items_event [json_oks]:
  "list_all event_ok xs \<Longrightarrow> 3 \<le> n \<Longrightarrow> json_ok n (JArray (map encode_event xs))"
  by (rule json_ok_arrayI) (auto simp: json_oks list_all_iff)

lemma wire_items_event [wire_simps]:
  "json_get v k = Some (JArray (map encode_event xs)) \<Longrightarrow> list_all event_ok xs \<Longrightarrow> wire_items decode_event v k = Inr (xs)"
  using wire_items_found [of v k encode_event xs decode_event "\<lambda>x. x"]
  by (simp add: wire_simps list_all_iff)

definition dispatch_run_fields :: "dispatch_run_summary \<Rightarrow> (string \<times> json) list" where
  "dispatch_run_fields r =
     [(''dispatch_plan_id'', JString (drsm_dispatch_plan_id r)),
      (''dispatch_execution_id'', JString (drsm_dispatch_execution_id r)),
      (''adapter'', JString (drsm_adapter r)),
      (''session_id'', JString (drsm_session_id r)),
      (''run_id'', JString (drsm_run_id r)),
      (''provider_cli_execution_allowed'', JBool (drsm_provider_cli_execution_allowed r)),
      (''provider_cli_executed'', JBool (drsm_provider_cli_executed r)),
      (''status'', JString (drsm_status r)),
      (''runtime_process_ref'', j_opt_str (drsm_runtime_process_ref r)),
      (''credential_scan_status'', JString (drsm_credential_scan_status r)),
      (''raw_prompt_policy'', JString (drsm_raw_prompt_policy r)),
      (''raw_output_policy'', JString (drsm_raw_output_policy r)),
      (''reason_codes'', JString (drsm_reason_codes r)),
      (''input_event_count'', j_nat (drsm_input_event_count r)),
      (''appended_event_count'', j_nat (drsm_appended_event_count r)),
      (''tool_event_count'', j_nat (drsm_tool_event_count r)),
      (''summary_event_count'', j_nat (drsm_summary_event_count r)),
      (''completed_turn_count'', j_nat (drsm_completed_turn_count r)),
      (''observed_token_cost'', j_opt j_nat (drsm_observed_token_cost r))]"

definition decode_dispatch_run :: "json \<Rightarrow> dispatch_run_summary transport_result" where
  "decode_dispatch_run value =
     and_then (wire_string value ''dispatch_plan_id'') (\<lambda>dispatch_plan_id.
     and_then (wire_string value ''dispatch_execution_id'') (\<lambda>dispatch_execution_id.
     and_then (wire_string value ''adapter'') (\<lambda>adapter.
     and_then (and_then (wire_string value ''session_id'') wire_id) (\<lambda>session_id.
     and_then (and_then (wire_string value ''run_id'') wire_id) (\<lambda>run_id.
     and_then (wire_bool value ''provider_cli_execution_allowed'') (\<lambda>provider_cli_execution_allowed.
     and_then (wire_bool value ''provider_cli_executed'') (\<lambda>provider_cli_executed.
     and_then (wire_string value ''status'') (\<lambda>status.
     and_then (wire_optional_string value ''runtime_process_ref'') (\<lambda>runtime_process_ref.
     and_then (wire_string value ''credential_scan_status'') (\<lambda>credential_scan_status.
     and_then (wire_string value ''raw_prompt_policy'') (\<lambda>raw_prompt_policy.
     and_then (wire_string value ''raw_output_policy'') (\<lambda>raw_output_policy.
     and_then (wire_string value ''reason_codes'') (\<lambda>reason_codes.
     and_then (wire_usize value ''input_event_count'') (\<lambda>input_event_count.
     and_then (wire_usize value ''appended_event_count'') (\<lambda>appended_event_count.
     and_then (wire_usize value ''tool_event_count'') (\<lambda>tool_event_count.
     and_then (wire_usize value ''summary_event_count'') (\<lambda>summary_event_count.
     and_then (wire_usize value ''completed_turn_count'') (\<lambda>completed_turn_count.
     and_then (Inr (Option.bind (json_get value ''observed_token_cost'') value_as_u64)) (\<lambda>observed_token_cost.
     Inr \<lparr>drsm_dispatch_plan_id = dispatch_plan_id, drsm_dispatch_execution_id = dispatch_execution_id,
       drsm_adapter = adapter, drsm_session_id = session_id, drsm_run_id = run_id,
       drsm_provider_cli_execution_allowed = provider_cli_execution_allowed,
       drsm_provider_cli_executed = provider_cli_executed, drsm_status = status,
       drsm_runtime_process_ref = runtime_process_ref,
       drsm_credential_scan_status = credential_scan_status,
       drsm_raw_prompt_policy = raw_prompt_policy, drsm_raw_output_policy = raw_output_policy,
       drsm_reason_codes = reason_codes, drsm_input_event_count = input_event_count,
       drsm_appended_event_count = appended_event_count, drsm_tool_event_count = tool_event_count,
       drsm_summary_event_count = summary_event_count,
       drsm_completed_turn_count = completed_turn_count,
       drsm_observed_token_cost = observed_token_cost\<rparr>)))))))))))))))))))"

definition dispatch_run_ok :: "dispatch_run_summary \<Rightarrow> bool" where
  "dispatch_run_ok r \<longleftrightarrow> id_ok (drsm_session_id r)
     \<and> id_ok (drsm_run_id r)
     \<and> drsm_input_event_count r < 2 ^ 64
     \<and> drsm_appended_event_count r < 2 ^ 64
     \<and> drsm_tool_event_count r < 2 ^ 64
     \<and> drsm_summary_event_count r < 2 ^ 64
     \<and> drsm_completed_turn_count r < 2 ^ 64
     \<and> opt_all (\<lambda>m. m < 2 ^ 64) (drsm_observed_token_cost r)"

lemma decode_dispatch_run_roundtrip [wire_simps]:
  "dispatch_run_ok r \<Longrightarrow> decode_dispatch_run (json_object (dispatch_run_fields r @ [(''type'', t)])) = Inr r"
  by (cases r) (simp add: decode_dispatch_run_def dispatch_run_fields_def dispatch_run_ok_def wire_simps json_get_object unwrap_or_def cong: and_then_weak_cong)

lemma dispatch_run_fields_type [wire_simps]:
  "wire_string (json_object (dispatch_run_fields r @ [(''type'', JString t)])) ''type'' = Inr t"
  by (simp add: dispatch_run_fields_def wire_simps json_get_object)

lemma dispatch_run_fields_json [json_oks]:
  "dispatch_run_ok r \<Longrightarrow> 1 \<le> n \<Longrightarrow> list_all (json_ok n) (map snd (dispatch_run_fields r))"
  by (simp add: dispatch_run_fields_def dispatch_run_ok_def json_oks)

definition encode_dispatch_run :: "dispatch_run_summary \<Rightarrow> json" where
  "encode_dispatch_run r = json_object (dispatch_run_fields r)"

lemma decode_encode_dispatch_run [wire_simps]: "dispatch_run_ok r \<Longrightarrow> decode_dispatch_run (encode_dispatch_run r) = Inr r"
  by (cases r)
    (simp add: decode_dispatch_run_def dispatch_run_fields_def encode_dispatch_run_def dispatch_run_ok_def wire_simps
      json_get_object unwrap_or_def cong: and_then_weak_cong)

lemma encode_dispatch_run_json [json_oks]: "dispatch_run_ok r \<Longrightarrow> 2 \<le> n \<Longrightarrow> json_ok n (encode_dispatch_run r)"
  unfolding encode_dispatch_run_def by (rule json_ok_objectI) (simp_all add: json_oks)

definition encode_turn_finished :: "turn_finished_summary \<Rightarrow> json" where
  "encode_turn_finished r =
     json_object [(''turn_id'', JString (tfsm_turn_id r)),
       (''stop_reason'', JString (tfsm_stop_reason r)),
       (''observed_terminal_event'', JBool (tfsm_observed_terminal_event r)),
       (''summary_refs'', j_strings (tfsm_summary_refs r)),
       (''observed_tool_refs'', j_strings (tfsm_observed_tool_refs r))]"

definition decode_turn_finished :: "json \<Rightarrow> turn_finished_summary transport_result" where
  "decode_turn_finished value =
     and_then (wire_string value ''turn_id'') (\<lambda>turn_id.
     and_then (wire_string value ''stop_reason'') (\<lambda>stop_reason.
     and_then (wire_bool value ''observed_terminal_event'') (\<lambda>observed_terminal_event.
     and_then (wire_string_array value ''summary_refs'') (\<lambda>summary_refs.
     and_then (wire_string_array value ''observed_tool_refs'') (\<lambda>observed_tool_refs.
     Inr \<lparr>tfsm_turn_id = turn_id, tfsm_stop_reason = stop_reason,
       tfsm_observed_terminal_event = observed_terminal_event, tfsm_summary_refs = summary_refs,
       tfsm_observed_tool_refs = observed_tool_refs\<rparr>)))))"

lemma decode_turn_finished_roundtrip [wire_simps]:
  "decode_turn_finished (encode_turn_finished r) = Inr r"
  by (cases r) (simp add: decode_turn_finished_def encode_turn_finished_def wire_simps json_get_object unwrap_or_def cong: and_then_weak_cong)

lemma encode_turn_finished_json [json_oks]:
  "3 \<le> n \<Longrightarrow> json_ok n (encode_turn_finished r)"
  unfolding encode_turn_finished_def by (rule json_ok_objectI) (simp_all add: json_oks)

definition dispatch_turn_fields :: "dispatch_turn_summary \<Rightarrow> (string \<times> json) list" where
  "dispatch_turn_fields r =
     [(''run'', encode_dispatch_run (dtsm_run r)),
      (''finished'', encode_turn_finished (dtsm_finished r)),
      (''ceiling_breach_code'', j_opt_str (dtsm_ceiling_breach_code r))]"

definition encode_dispatch_turn :: "dispatch_turn_summary \<Rightarrow> json" where
  "encode_dispatch_turn r = json_object (dispatch_turn_fields r)"

text \<open>The \<open>finished\<close> object is looked up first and read after the run.\<close>

definition decode_dispatch_turn :: "json \<Rightarrow> dispatch_turn_summary transport_result" where
  "decode_dispatch_turn value =
     and_then (wire_value value ''finished'') (\<lambda>finished.
     and_then (and_then (wire_value value ''run'') decode_dispatch_run) (\<lambda>run.
     and_then (decode_turn_finished finished) (\<lambda>finished.
     and_then (wire_optional_string value ''ceiling_breach_code'') (\<lambda>ceiling_breach_code.
     Inr \<lparr>dtsm_run = run, dtsm_finished = finished, dtsm_ceiling_breach_code = ceiling_breach_code\<rparr>))))"

definition decode_dispatched :: "json option \<Rightarrow> dispatch_turn_summary option transport_result" where
  "decode_dispatched value =
     (case value of
        None \<Rightarrow> Inr None
      | Some JNull \<Rightarrow> Inr None
      | Some turn \<Rightarrow> and_then (decode_dispatch_turn turn) (\<lambda>t. Inr (Some t)))"

definition dispatch_turn_ok :: "dispatch_turn_summary \<Rightarrow> bool" where
  "dispatch_turn_ok r \<longleftrightarrow> dispatch_run_ok (dtsm_run r)"

lemma decode_dispatch_turn_roundtrip [wire_simps]:
  "dispatch_turn_ok r \<Longrightarrow> decode_dispatch_turn (json_object (dispatch_turn_fields r @ [(''type'', t)])) = Inr r"
  "dispatch_turn_ok r \<Longrightarrow> decode_dispatch_turn (encode_dispatch_turn r) = Inr r"
  by (cases r, simp add: decode_dispatch_turn_def dispatch_turn_fields_def encode_dispatch_turn_def dispatch_turn_ok_def
      wire_simps json_get_object cong: and_then_weak_cong)+

lemma dispatch_turn_fields_type [wire_simps]:
  "wire_string (json_object (dispatch_turn_fields r @ [(''type'', JString t)])) ''type'' = Inr t"
  by (simp add: dispatch_turn_fields_def wire_simps json_get_object)

lemma dispatch_turn_fields_json [json_oks]:
  "dispatch_turn_ok r \<Longrightarrow> 3 \<le> n \<Longrightarrow> list_all (json_ok n) (map snd (dispatch_turn_fields r))"
  by (simp add: dispatch_turn_fields_def dispatch_turn_ok_def json_oks)

lemma encode_dispatch_turn_json [json_oks]: "dispatch_turn_ok r \<Longrightarrow> 4 \<le> n \<Longrightarrow> json_ok n (encode_dispatch_turn r)"
  unfolding encode_dispatch_turn_def by (rule json_ok_objectI) (simp_all add: json_oks)

lemma decode_dispatched_found [wire_simps]:
  "opt_all dispatch_turn_ok x \<Longrightarrow> decode_dispatched (Some (j_opt encode_dispatch_turn x)) = Inr x"
proof (cases x)
  case (Some a)
  moreover obtain m where "encode_dispatch_turn a = JObject m" by (simp add: encode_dispatch_turn_def json_object_def)
  moreover assume "opt_all dispatch_turn_ok x"
  ultimately show ?thesis
    using decode_dispatch_turn_roundtrip(2) [of a] by (simp add: decode_dispatched_def j_opt_def)
qed (simp add: decode_dispatched_def j_opt_def)

lemma json_ok_opt_dispatch_turn [json_oks]:
  "opt_all dispatch_turn_ok x \<Longrightarrow> 4 \<le> n \<Longrightarrow> json_ok n (j_opt encode_dispatch_turn x)"
  by (cases x) (simp_all add: j_opt_def json_oks)

definition encode_session :: "session_summary \<Rightarrow> json" where
  "encode_session r =
     json_object [(''session_id'', JString (sesm_session_id r)),
       (''status'', JString (sesm_status r)),
       (''run_id'', j_opt_str (sesm_run_id r)),
       (''run_status'', j_opt_str (sesm_run_status r)),
       (''adapter_kind'', j_opt_str (sesm_adapter_kind r)),
       (''current_goal'', JString (sesm_current_goal r)),
       (''latest_summary'', j_opt_str (sesm_latest_summary r)),
       (''latest_blocker'', j_opt_str (sesm_latest_blocker r)),
       (''latest_confidence'', j_opt_int (sesm_latest_confidence r)),
       (''recent_event_count'', j_nat (sesm_recent_event_count r)),
       (''evidence_count'', j_nat (sesm_evidence_count r)),
       (''evidence_refs'', j_strings (sesm_evidence_refs r)),
       (''review_finding_count'', j_nat (sesm_review_finding_count r)),
       (''task_outcome_report_count'', j_nat (sesm_task_outcome_report_count r)),
       (''turn_count'', j_nat (sesm_turn_count r)),
       (''turn_ids'', j_strings (sesm_turn_ids r)),
       (''latest_dispatch_plan_id'', j_opt_str (sesm_latest_dispatch_plan_id r)),
       (''latest_dispatch_gate_id'', j_opt_str (sesm_latest_dispatch_gate_id r)),
       (''latest_dispatch_execution_id'', j_opt_str (sesm_latest_dispatch_execution_id r)),
       (''dispatch_gate_status'', j_opt_str (sesm_dispatch_gate_status r)),
       (''dispatch_gate_reasons'', j_opt_str (sesm_dispatch_gate_reasons r)),
       (''dispatch_next_action'', j_opt_str (sesm_dispatch_next_action r)),
       (''dispatch_execution_status'', j_opt_str (sesm_dispatch_execution_status r)),
       (''dispatch_runtime_process_ref'', j_opt_str (sesm_dispatch_runtime_process_ref r)),
       (''dispatch_provider_cli_execution_allowed'', j_opt JBool (sesm_dispatch_provider_cli_execution_allowed r)),
       (''dispatch_provider_cli_executed'', j_opt JBool (sesm_dispatch_provider_cli_executed r)),
       (''dispatch_credential_scan_status'', j_opt_str (sesm_dispatch_credential_scan_status r)),
       (''dispatch_raw_prompt_policy'', j_opt_str (sesm_dispatch_raw_prompt_policy r)),
       (''dispatch_raw_output_policy'', j_opt_str (sesm_dispatch_raw_output_policy r)),
       (''tool_call_count'', j_nat (sesm_tool_call_count r)),
       (''tool_observation_count'', j_nat (sesm_tool_observation_count r)),
       (''memory_packet_count'', j_nat (sesm_memory_packet_count r))]"

definition decode_session :: "json \<Rightarrow> session_summary transport_result" where
  "decode_session value =
     and_then (and_then (wire_string value ''session_id'') wire_id) (\<lambda>session_id.
     and_then (wire_string value ''status'') (\<lambda>status.
     and_then (and_then (wire_optional_string value ''run_id'') wire_optional_id) (\<lambda>run_id.
     and_then (wire_optional_string value ''run_status'') (\<lambda>run_status.
     and_then (wire_optional_string value ''adapter_kind'') (\<lambda>adapter_kind.
     and_then (wire_string value ''current_goal'') (\<lambda>current_goal.
     and_then (wire_optional_string value ''latest_summary'') (\<lambda>latest_summary.
     and_then (wire_optional_string value ''latest_blocker'') (\<lambda>latest_blocker.
     and_then (wire_optional_i64 value ''latest_confidence'') (\<lambda>latest_confidence.
     and_then (wire_usize value ''recent_event_count'') (\<lambda>recent_event_count.
     and_then (wire_usize value ''evidence_count'') (\<lambda>evidence_count.
     and_then (wire_string_array value ''evidence_refs'') (\<lambda>evidence_refs.
     and_then (wire_usize value ''review_finding_count'') (\<lambda>review_finding_count.
     and_then (wire_usize value ''task_outcome_report_count'') (\<lambda>task_outcome_report_count.
     and_then (wire_usize value ''turn_count'') (\<lambda>turn_count.
     and_then (wire_string_array value ''turn_ids'') (\<lambda>turn_ids.
     and_then (wire_optional_string value ''latest_dispatch_plan_id'') (\<lambda>latest_dispatch_plan_id.
     and_then (wire_optional_string value ''latest_dispatch_gate_id'') (\<lambda>latest_dispatch_gate_id.
     and_then (wire_optional_string value ''latest_dispatch_execution_id'') (\<lambda>latest_dispatch_execution_id.
     and_then (wire_optional_string value ''dispatch_gate_status'') (\<lambda>dispatch_gate_status.
     and_then (wire_optional_string value ''dispatch_gate_reasons'') (\<lambda>dispatch_gate_reasons.
     and_then (wire_optional_string value ''dispatch_next_action'') (\<lambda>dispatch_next_action.
     and_then (wire_optional_string value ''dispatch_execution_status'') (\<lambda>dispatch_execution_status.
     and_then (wire_optional_string value ''dispatch_runtime_process_ref'') (\<lambda>dispatch_runtime_process_ref.
     and_then (wire_optional_bool value ''dispatch_provider_cli_execution_allowed'') (\<lambda>dispatch_provider_cli_execution_allowed.
     and_then (wire_optional_bool value ''dispatch_provider_cli_executed'') (\<lambda>dispatch_provider_cli_executed.
     and_then (wire_optional_string value ''dispatch_credential_scan_status'') (\<lambda>dispatch_credential_scan_status.
     and_then (wire_optional_string value ''dispatch_raw_prompt_policy'') (\<lambda>dispatch_raw_prompt_policy.
     and_then (wire_optional_string value ''dispatch_raw_output_policy'') (\<lambda>dispatch_raw_output_policy.
     and_then (wire_usize value ''tool_call_count'') (\<lambda>tool_call_count.
     and_then (wire_usize value ''tool_observation_count'') (\<lambda>tool_observation_count.
     and_then (wire_usize value ''memory_packet_count'') (\<lambda>memory_packet_count.
     Inr \<lparr>sesm_session_id = session_id, sesm_status = status, sesm_run_id = run_id,
       sesm_run_status = run_status, sesm_adapter_kind = adapter_kind,
       sesm_current_goal = current_goal, sesm_latest_summary = latest_summary,
       sesm_latest_blocker = latest_blocker, sesm_latest_confidence = latest_confidence,
       sesm_recent_event_count = recent_event_count, sesm_evidence_count = evidence_count,
       sesm_evidence_refs = evidence_refs, sesm_review_finding_count = review_finding_count,
       sesm_task_outcome_report_count = task_outcome_report_count, sesm_turn_count = turn_count,
       sesm_turn_ids = turn_ids, sesm_latest_dispatch_plan_id = latest_dispatch_plan_id,
       sesm_latest_dispatch_gate_id = latest_dispatch_gate_id,
       sesm_latest_dispatch_execution_id = latest_dispatch_execution_id,
       sesm_dispatch_gate_status = dispatch_gate_status,
       sesm_dispatch_gate_reasons = dispatch_gate_reasons,
       sesm_dispatch_next_action = dispatch_next_action,
       sesm_dispatch_execution_status = dispatch_execution_status,
       sesm_dispatch_runtime_process_ref = dispatch_runtime_process_ref,
       sesm_dispatch_provider_cli_execution_allowed = dispatch_provider_cli_execution_allowed,
       sesm_dispatch_provider_cli_executed = dispatch_provider_cli_executed,
       sesm_dispatch_credential_scan_status = dispatch_credential_scan_status,
       sesm_dispatch_raw_prompt_policy = dispatch_raw_prompt_policy,
       sesm_dispatch_raw_output_policy = dispatch_raw_output_policy,
       sesm_tool_call_count = tool_call_count, sesm_tool_observation_count = tool_observation_count,
       sesm_memory_packet_count = memory_packet_count\<rparr>))))))))))))))))))))))))))))))))"

definition session_ok :: "session_summary \<Rightarrow> bool" where
  "session_ok r \<longleftrightarrow> id_ok (sesm_session_id r)
     \<and> opt_all id_ok (sesm_run_id r)
     \<and> opt_all i64_ok (sesm_latest_confidence r)
     \<and> sesm_recent_event_count r < 2 ^ 64
     \<and> sesm_evidence_count r < 2 ^ 64
     \<and> sesm_review_finding_count r < 2 ^ 64
     \<and> sesm_task_outcome_report_count r < 2 ^ 64
     \<and> sesm_turn_count r < 2 ^ 64
     \<and> sesm_tool_call_count r < 2 ^ 64
     \<and> sesm_tool_observation_count r < 2 ^ 64
     \<and> sesm_memory_packet_count r < 2 ^ 64"

lemma decode_session_roundtrip [wire_simps]:
  "session_ok r \<Longrightarrow> decode_session (encode_session r) = Inr r"
  by (cases r) (simp add: decode_session_def encode_session_def session_ok_def wire_simps json_get_object unwrap_or_def cong: and_then_weak_cong)

lemma encode_session_json [json_oks]:
  "session_ok r \<Longrightarrow> 3 \<le> n \<Longrightarrow> json_ok n (encode_session r)"
  unfolding encode_session_def by (rule json_ok_objectI) (simp_all add: session_ok_def json_oks)

lemma json_ok_opt_session [json_oks]:
  "opt_all session_ok x \<Longrightarrow> 3 \<le> n \<Longrightarrow> json_ok n (j_opt encode_session x)"
  by (cases x) (simp_all add: j_opt_def json_oks)

definition decode_optional_session :: "json option \<Rightarrow> session_summary option transport_result" where
  "decode_optional_session value =
     (case value of
        None \<Rightarrow> Inr None
      | Some JNull \<Rightarrow> Inr None
      | Some v \<Rightarrow> and_then (decode_session v) (\<lambda>s. Inr (Some s)))"

lemma decode_optional_session_found [wire_simps]:
  "opt_all session_ok x \<Longrightarrow> decode_optional_session (Some (j_opt encode_session x)) = Inr x"
proof (cases x)
  case (Some a)
  moreover obtain m where "encode_session a = JObject m" by (simp add: encode_session_def json_object_def)
  moreover assume "opt_all session_ok x"
  ultimately show ?thesis
    using decode_session_roundtrip [of a] by (simp add: decode_optional_session_def j_opt_def)
qed (simp add: decode_optional_session_def j_opt_def)

definition encode_agent :: "agent_summary \<Rightarrow> json" where
  "encode_agent r =
     json_object [(''agent_id'', JString (agsm_agent_id r)),
       (''name'', JString (agsm_name r)),
       (''status'', JString (agsm_status r)),
       (''current_session_id'', j_opt_str (agsm_current_session_id r)),
       (''session'', j_opt encode_session (agsm_session r))]"

definition decode_agent :: "json \<Rightarrow> agent_summary transport_result" where
  "decode_agent value =
     and_then (and_then (wire_string value ''agent_id'') wire_id) (\<lambda>agent_id.
     and_then (wire_string value ''name'') (\<lambda>name.
     and_then (wire_string value ''status'') (\<lambda>status.
     and_then (and_then (wire_optional_string value ''current_session_id'') wire_optional_id) (\<lambda>current_session_id.
     and_then (decode_optional_session (json_get value ''session'')) (\<lambda>session.
     Inr \<lparr>agsm_agent_id = agent_id, agsm_name = name, agsm_status = status,
       agsm_current_session_id = current_session_id, agsm_session = session\<rparr>)))))"

definition agent_ok :: "agent_summary \<Rightarrow> bool" where
  "agent_ok r \<longleftrightarrow> id_ok (agsm_agent_id r)
     \<and> opt_all id_ok (agsm_current_session_id r)
     \<and> opt_all session_ok (agsm_session r)"

lemma decode_agent_roundtrip [wire_simps]:
  "agent_ok r \<Longrightarrow> decode_agent (encode_agent r) = Inr r"
  by (cases r) (simp add: decode_agent_def encode_agent_def agent_ok_def wire_simps json_get_object unwrap_or_def cong: and_then_weak_cong)

lemma encode_agent_json [json_oks]:
  "agent_ok r \<Longrightarrow> 4 \<le> n \<Longrightarrow> json_ok n (encode_agent r)"
  unfolding encode_agent_def by (rule json_ok_objectI) (simp_all add: agent_ok_def json_oks)

lemma json_ok_items_agent [json_oks]:
  "list_all agent_ok xs \<Longrightarrow> 5 \<le> n \<Longrightarrow> json_ok n (JArray (map encode_agent xs))"
  by (rule json_ok_arrayI) (auto simp: json_oks list_all_iff)

definition decode_agents :: "json \<Rightarrow> string \<Rightarrow> agent_summary list transport_result" where
  "decode_agents value key =
     and_then (ok_or (Protocol (''missing '' @ key @ '' array'')) (Option.bind (json_get value key) value_as_array))
       (collect decode_agent)"

lemma decode_agents_found [wire_simps]:
  "json_get v k = Some (JArray (map encode_agent xs)) \<Longrightarrow> list_all agent_ok xs \<Longrightarrow> decode_agents v k = Inr xs"
  using collect_map [of xs decode_agent encode_agent "\<lambda>x. x"]
  by (simp add: decode_agents_def ok_or_def wire_simps list_all_iff)

definition encode_run :: "task_run_summary \<Rightarrow> json" where
  "encode_run r =
     json_object [(''task_id'', JString (trsm_task_id r)),
       (''agent_id'', JString (trsm_agent_id r)),
       (''session_id'', JString (trsm_session_id r)),
       (''run_id'', JString (trsm_run_id r)),
       (''runtime_process_ref'', JString (trsm_runtime_process_ref r)),
       (''external_session_ref'', JString (trsm_external_session_ref r))]"

definition decode_run :: "json \<Rightarrow> task_run_summary transport_result" where
  "decode_run value =
     and_then (and_then (wire_string value ''task_id'') wire_id) (\<lambda>task_id.
     and_then (and_then (wire_string value ''agent_id'') wire_id) (\<lambda>agent_id.
     and_then (and_then (wire_string value ''session_id'') wire_id) (\<lambda>session_id.
     and_then (and_then (wire_string value ''run_id'') wire_id) (\<lambda>run_id.
     and_then (wire_string value ''runtime_process_ref'') (\<lambda>runtime_process_ref.
     and_then (wire_string value ''external_session_ref'') (\<lambda>external_session_ref.
     Inr \<lparr>trsm_task_id = task_id, trsm_agent_id = agent_id, trsm_session_id = session_id,
       trsm_run_id = run_id, trsm_runtime_process_ref = runtime_process_ref,
       trsm_external_session_ref = external_session_ref\<rparr>))))))"

definition run_ok :: "task_run_summary \<Rightarrow> bool" where
  "run_ok r \<longleftrightarrow> id_ok (trsm_task_id r)
     \<and> id_ok (trsm_agent_id r)
     \<and> id_ok (trsm_session_id r)
     \<and> id_ok (trsm_run_id r)"

lemma decode_run_roundtrip [wire_simps]:
  "run_ok r \<Longrightarrow> decode_run (encode_run r) = Inr r"
  by (cases r) (simp add: decode_run_def encode_run_def run_ok_def wire_simps json_get_object unwrap_or_def cong: and_then_weak_cong)

lemma encode_run_json [json_oks]:
  "run_ok r \<Longrightarrow> 2 \<le> n \<Longrightarrow> json_ok n (encode_run r)"
  unfolding encode_run_def by (rule json_ok_objectI) (simp_all add: run_ok_def json_oks)

definition encode_goal_summary :: "goal_status_summary \<Rightarrow> json" where
  "encode_goal_summary r =
     json_object [(''goal_id'', JString (gss_goal_id r)),
       (''objective'', JString (redact_egress_text (gss_objective r))),
       (''status'', JString (gss_status r)),
       (''parent_goal_id'', j_opt_str (gss_parent_goal_id r)),
       (''attempt_run_id'', j_opt_str (gss_attempt_run_id r)),
       (''requirement_count'', j_nat (gss_requirement_count r)),
       (''requirements_supported'', j_nat (gss_requirements_supported r)),
       (''blocked_requirement_count'', j_nat (gss_blocked_requirement_count r)),
       (''contradicted_requirement_count'', j_nat (gss_contradicted_requirement_count r)),
       (''report_count'', j_nat (gss_report_count r)),
       (''blocker_reason'', JString (redact_egress_text (gss_blocker_reason r))),
       (''updated_sequence'', j_int (gss_updated_sequence r))]"

definition decode_goal_summary :: "json \<Rightarrow> goal_status_summary transport_result" where
  "decode_goal_summary value =
     and_then (wire_string value ''goal_id'') (\<lambda>goal_id.
     and_then (wire_string value ''objective'') (\<lambda>objective.
     and_then (wire_string value ''status'') (\<lambda>status.
     and_then (wire_optional_string value ''parent_goal_id'') (\<lambda>parent_goal_id.
     and_then (wire_optional_string value ''attempt_run_id'') (\<lambda>attempt_run_id.
     and_then (wire_usize value ''requirement_count'') (\<lambda>requirement_count.
     and_then (wire_usize value ''requirements_supported'') (\<lambda>requirements_supported.
     and_then (wire_usize value ''blocked_requirement_count'') (\<lambda>blocked_requirement_count.
     and_then (wire_usize value ''contradicted_requirement_count'') (\<lambda>contradicted_requirement_count.
     and_then (wire_usize value ''report_count'') (\<lambda>report_count.
     and_then (wire_string value ''blocker_reason'') (\<lambda>blocker_reason.
     and_then (wire_i64 value ''updated_sequence'') (\<lambda>updated_sequence.
     Inr \<lparr>gss_goal_id = goal_id, gss_objective = objective, gss_status = status,
       gss_parent_goal_id = parent_goal_id, gss_attempt_run_id = attempt_run_id,
       gss_requirement_count = requirement_count, gss_requirements_supported = requirements_supported,
       gss_blocked_requirement_count = blocked_requirement_count,
       gss_contradicted_requirement_count = contradicted_requirement_count,
       gss_report_count = report_count, gss_blocker_reason = blocker_reason,
       gss_updated_sequence = updated_sequence\<rparr>))))))))))))"

definition goal_summary_ok :: "goal_status_summary \<Rightarrow> bool" where
  "goal_summary_ok r \<longleftrightarrow> gss_requirement_count r < 2 ^ 64
     \<and> gss_requirements_supported r < 2 ^ 64
     \<and> gss_blocked_requirement_count r < 2 ^ 64
     \<and> gss_contradicted_requirement_count r < 2 ^ 64
     \<and> gss_report_count r < 2 ^ 64
     \<and> i64_ok (gss_updated_sequence r)"

definition scrub_goal_summary :: "goal_status_summary \<Rightarrow> goal_status_summary" where
  "scrub_goal_summary r =
     r\<lparr>gss_objective := redact_egress_text (gss_objective r),
       gss_blocker_reason := redact_egress_text (gss_blocker_reason r)\<rparr>"

lemma decode_goal_summary_roundtrip [wire_simps]:
  "goal_summary_ok r \<Longrightarrow> decode_goal_summary (encode_goal_summary r) = Inr (scrub_goal_summary r)"
  by (cases r) (simp add: decode_goal_summary_def encode_goal_summary_def goal_summary_ok_def scrub_goal_summary_def wire_simps json_get_object unwrap_or_def cong: and_then_weak_cong)

lemma encode_goal_summary_json [json_oks]:
  "goal_summary_ok r \<Longrightarrow> 2 \<le> n \<Longrightarrow> json_ok n (encode_goal_summary r)"
  unfolding encode_goal_summary_def by (rule json_ok_objectI) (simp_all add: goal_summary_ok_def json_oks)

lemma json_ok_items_goal_summary [json_oks]:
  "list_all goal_summary_ok xs \<Longrightarrow> 3 \<le> n \<Longrightarrow> json_ok n (JArray (map encode_goal_summary xs))"
  by (rule json_ok_arrayI) (auto simp: json_oks list_all_iff)

lemma wire_items_goal_summary [wire_simps]:
  "json_get v k = Some (JArray (map encode_goal_summary xs)) \<Longrightarrow> list_all goal_summary_ok xs \<Longrightarrow> wire_items decode_goal_summary v k = Inr (map scrub_goal_summary xs)"
  using wire_items_found [of v k encode_goal_summary xs decode_goal_summary scrub_goal_summary]
  by (simp add: wire_simps list_all_iff)

definition encode_goal_requirement_view :: "goal_requirement_view \<Rightarrow> json" where
  "encode_goal_requirement_view r =
     json_object [(''requirement_id'', JString (grv_requirement_id r)),
       (''summary'', JString (redact_egress_text (grv_summary r))),
       (''status'', JString (grv_status r)),
       (''last_status_source'', JString (grv_last_status_source r)),
       (''observed'', JBool (grv_observed r))]"

definition decode_goal_requirement_view :: "json \<Rightarrow> goal_requirement_view transport_result" where
  "decode_goal_requirement_view value =
     and_then (wire_string value ''requirement_id'') (\<lambda>requirement_id.
     and_then (wire_string value ''summary'') (\<lambda>summary.
     and_then (wire_string value ''status'') (\<lambda>status.
     and_then (wire_string value ''last_status_source'') (\<lambda>last_status_source.
     and_then (wire_bool value ''observed'') (\<lambda>observed.
     Inr \<lparr>grv_requirement_id = requirement_id, grv_summary = summary, grv_status = status,
       grv_last_status_source = last_status_source, grv_observed = observed\<rparr>)))))"

definition scrub_goal_requirement_view :: "goal_requirement_view \<Rightarrow> goal_requirement_view" where
  "scrub_goal_requirement_view r =
     r\<lparr>grv_summary := redact_egress_text (grv_summary r)\<rparr>"

lemma decode_goal_requirement_view_roundtrip [wire_simps]:
  "decode_goal_requirement_view (encode_goal_requirement_view r) = Inr (scrub_goal_requirement_view r)"
  by (cases r) (simp add: decode_goal_requirement_view_def encode_goal_requirement_view_def scrub_goal_requirement_view_def wire_simps json_get_object unwrap_or_def cong: and_then_weak_cong)

lemma encode_goal_requirement_view_json [json_oks]:
  "2 \<le> n \<Longrightarrow> json_ok n (encode_goal_requirement_view r)"
  unfolding encode_goal_requirement_view_def by (rule json_ok_objectI) (simp_all add: json_oks)

lemma json_ok_items_goal_requirement_view [json_oks]:
  "3 \<le> n \<Longrightarrow> json_ok n (JArray (map encode_goal_requirement_view xs))"
  by (rule json_ok_arrayI) (auto simp: json_oks list_all_iff)

lemma wire_items_goal_requirement_view [wire_simps]:
  "json_get v k = Some (JArray (map encode_goal_requirement_view xs)) \<Longrightarrow> wire_items decode_goal_requirement_view v k = Inr (map scrub_goal_requirement_view xs)"
  using wire_items_found [of v k encode_goal_requirement_view xs decode_goal_requirement_view scrub_goal_requirement_view]
  by (simp add: wire_simps list_all_iff)

definition encode_goal_report_view :: "goal_report_view \<Rightarrow> json" where
  "encode_goal_report_view r =
     json_object [(''goal_report_id'', JString (gpv_goal_report_id r)),
       (''requirement_id'', j_opt_str (gpv_requirement_id r)),
       (''report_kind'', JString (gpv_report_kind r)),
       (''source'', JString (gpv_source r)),
       (''observed'', JBool (gpv_observed r)),
       (''confidence'', j_opt_int (gpv_confidence r)),
       (''summary'', JString (redact_egress_text (gpv_summary r))),
       (''body_artifact_id'', j_opt_str (gpv_body_artifact_id r)),
       (''evidence_id'', j_opt_str (gpv_evidence_id r))]"

definition decode_goal_report_view :: "json \<Rightarrow> goal_report_view transport_result" where
  "decode_goal_report_view value =
     and_then (wire_string value ''goal_report_id'') (\<lambda>goal_report_id.
     and_then (wire_optional_string value ''requirement_id'') (\<lambda>requirement_id.
     and_then (wire_string value ''report_kind'') (\<lambda>report_kind.
     and_then (wire_string value ''source'') (\<lambda>source.
     and_then (wire_bool value ''observed'') (\<lambda>observed.
     and_then (wire_optional_i64 value ''confidence'') (\<lambda>confidence.
     and_then (wire_string value ''summary'') (\<lambda>summary.
     and_then (wire_optional_string value ''body_artifact_id'') (\<lambda>body_artifact_id.
     and_then (wire_optional_string value ''evidence_id'') (\<lambda>evidence_id.
     Inr \<lparr>gpv_goal_report_id = goal_report_id, gpv_requirement_id = requirement_id,
       gpv_report_kind = report_kind, gpv_source = source, gpv_observed = observed,
       gpv_confidence = confidence, gpv_summary = summary, gpv_body_artifact_id = body_artifact_id,
       gpv_evidence_id = evidence_id\<rparr>)))))))))"

definition goal_report_view_ok :: "goal_report_view \<Rightarrow> bool" where
  "goal_report_view_ok r \<longleftrightarrow> opt_all i64_ok (gpv_confidence r)"

definition scrub_goal_report_view :: "goal_report_view \<Rightarrow> goal_report_view" where
  "scrub_goal_report_view r =
     r\<lparr>gpv_summary := redact_egress_text (gpv_summary r)\<rparr>"

lemma decode_goal_report_view_roundtrip [wire_simps]:
  "goal_report_view_ok r \<Longrightarrow> decode_goal_report_view (encode_goal_report_view r) = Inr (scrub_goal_report_view r)"
  by (cases r) (simp add: decode_goal_report_view_def encode_goal_report_view_def goal_report_view_ok_def scrub_goal_report_view_def wire_simps json_get_object unwrap_or_def cong: and_then_weak_cong)

lemma encode_goal_report_view_json [json_oks]:
  "goal_report_view_ok r \<Longrightarrow> 2 \<le> n \<Longrightarrow> json_ok n (encode_goal_report_view r)"
  unfolding encode_goal_report_view_def by (rule json_ok_objectI) (simp_all add: goal_report_view_ok_def json_oks)

lemma json_ok_items_goal_report_view [json_oks]:
  "list_all goal_report_view_ok xs \<Longrightarrow> 3 \<le> n \<Longrightarrow> json_ok n (JArray (map encode_goal_report_view xs))"
  by (rule json_ok_arrayI) (auto simp: json_oks list_all_iff)

lemma wire_items_goal_report_view [wire_simps]:
  "json_get v k = Some (JArray (map encode_goal_report_view xs)) \<Longrightarrow> list_all goal_report_view_ok xs \<Longrightarrow> wire_items decode_goal_report_view v k = Inr (map scrub_goal_report_view xs)"
  using wire_items_found [of v k encode_goal_report_view xs decode_goal_report_view scrub_goal_report_view]
  by (simp add: wire_simps list_all_iff)

definition encode_goal_continuation_view :: "goal_continuation_view \<Rightarrow> json" where
  "encode_goal_continuation_view r =
     json_object [(''continuation_id'', JString (gcv_continuation_id r)),
       (''decision'', JString (gcv_decision r)),
       (''reason'', JString (redact_egress_text (gcv_reason r))),
       (''attempt_run_id'', j_opt_str (gcv_attempt_run_id r))]"

definition decode_goal_continuation_view :: "json \<Rightarrow> goal_continuation_view transport_result" where
  "decode_goal_continuation_view value =
     and_then (wire_string value ''continuation_id'') (\<lambda>continuation_id.
     and_then (wire_string value ''decision'') (\<lambda>decision.
     and_then (wire_string value ''reason'') (\<lambda>reason.
     and_then (wire_optional_string value ''attempt_run_id'') (\<lambda>attempt_run_id.
     Inr \<lparr>gcv_continuation_id = continuation_id, gcv_decision = decision, gcv_reason = reason,
       gcv_attempt_run_id = attempt_run_id\<rparr>))))"

definition scrub_goal_continuation_view :: "goal_continuation_view \<Rightarrow> goal_continuation_view" where
  "scrub_goal_continuation_view r =
     r\<lparr>gcv_reason := redact_egress_text (gcv_reason r)\<rparr>"

lemma decode_goal_continuation_view_roundtrip [wire_simps]:
  "decode_goal_continuation_view (encode_goal_continuation_view r) = Inr (scrub_goal_continuation_view r)"
  by (cases r) (simp add: decode_goal_continuation_view_def encode_goal_continuation_view_def scrub_goal_continuation_view_def wire_simps json_get_object unwrap_or_def cong: and_then_weak_cong)

lemma encode_goal_continuation_view_json [json_oks]:
  "2 \<le> n \<Longrightarrow> json_ok n (encode_goal_continuation_view r)"
  unfolding encode_goal_continuation_view_def by (rule json_ok_objectI) (simp_all add: json_oks)

lemma json_ok_items_goal_continuation_view [json_oks]:
  "3 \<le> n \<Longrightarrow> json_ok n (JArray (map encode_goal_continuation_view xs))"
  by (rule json_ok_arrayI) (auto simp: json_oks list_all_iff)

lemma wire_items_goal_continuation_view [wire_simps]:
  "json_get v k = Some (JArray (map encode_goal_continuation_view xs)) \<Longrightarrow> wire_items decode_goal_continuation_view v k = Inr (map scrub_goal_continuation_view xs)"
  using wire_items_found [of v k encode_goal_continuation_view xs decode_goal_continuation_view scrub_goal_continuation_view]
  by (simp add: wire_simps list_all_iff)

definition encode_delegated_provider_goal_view :: "delegated_provider_goal_view \<Rightarrow> json" where
  "encode_delegated_provider_goal_view r =
     json_object [(''delegated_goal_id'', JString (dpv_delegated_goal_id r)),
       (''provider_kind'', JString (dpv_provider_kind r)),
       (''provider_goal_ref'', j_opt_str (dpv_provider_goal_ref r)),
       (''provider_state'', JString (dpv_provider_state r)),
       (''source'', JString (dpv_source r))]"

definition decode_delegated_provider_goal_view :: "json \<Rightarrow> delegated_provider_goal_view transport_result" where
  "decode_delegated_provider_goal_view value =
     and_then (wire_string value ''delegated_goal_id'') (\<lambda>delegated_goal_id.
     and_then (wire_string value ''provider_kind'') (\<lambda>provider_kind.
     and_then (wire_optional_string value ''provider_goal_ref'') (\<lambda>provider_goal_ref.
     and_then (wire_string value ''provider_state'') (\<lambda>provider_state.
     and_then (wire_string value ''source'') (\<lambda>source.
     Inr \<lparr>dpv_delegated_goal_id = delegated_goal_id, dpv_provider_kind = provider_kind,
       dpv_provider_goal_ref = provider_goal_ref, dpv_provider_state = provider_state,
       dpv_source = source\<rparr>)))))"

lemma decode_delegated_provider_goal_view_roundtrip [wire_simps]:
  "decode_delegated_provider_goal_view (encode_delegated_provider_goal_view r) = Inr r"
  by (cases r) (simp add: decode_delegated_provider_goal_view_def encode_delegated_provider_goal_view_def wire_simps json_get_object unwrap_or_def cong: and_then_weak_cong)

lemma encode_delegated_provider_goal_view_json [json_oks]:
  "2 \<le> n \<Longrightarrow> json_ok n (encode_delegated_provider_goal_view r)"
  unfolding encode_delegated_provider_goal_view_def by (rule json_ok_objectI) (simp_all add: json_oks)

lemma json_ok_items_delegated_provider_goal_view [json_oks]:
  "3 \<le> n \<Longrightarrow> json_ok n (JArray (map encode_delegated_provider_goal_view xs))"
  by (rule json_ok_arrayI) (auto simp: json_oks list_all_iff)

lemma wire_items_delegated_provider_goal_view [wire_simps]:
  "json_get v k = Some (JArray (map encode_delegated_provider_goal_view xs)) \<Longrightarrow> wire_items decode_delegated_provider_goal_view v k = Inr (xs)"
  using wire_items_found [of v k encode_delegated_provider_goal_view xs decode_delegated_provider_goal_view "\<lambda>x. x"]
  by (simp add: wire_simps list_all_iff)

definition encode_goal_view :: "goal_view \<Rightarrow> json" where
  "encode_goal_view r =
     json_object [(''summary'', encode_goal_summary (gv_summary r)),
       (''success_criteria_json'', JString (redact_egress_text (gv_success_criteria_json r))),
       (''constraints_json'', JString (redact_egress_text (gv_constraints_json r))),
       (''verification_surface_json'', JString (redact_egress_text (gv_verification_surface_json r))),
       (''budget_json'', JString (redact_egress_text (gv_budget_json r))),
       (''stop_conditions_json'', JString (redact_egress_text (gv_stop_conditions_json r))),
       (''task_id'', j_opt_str (gv_task_id r)),
       (''agent_id'', j_opt_str (gv_agent_id r)),
       (''session_id'', j_opt_str (gv_session_id r)),
       (''requirements'', JArray (map encode_goal_requirement_view (gv_requirements r))),
       (''reports'', JArray (map encode_goal_report_view (gv_reports r))),
       (''continuations'', JArray (map encode_goal_continuation_view (gv_continuations r))),
       (''delegated_provider_goals'', JArray (map encode_delegated_provider_goal_view (gv_delegated_provider_goals r)))]"

definition decode_goal_view :: "json \<Rightarrow> goal_view transport_result" where
  "decode_goal_view value =
     and_then (and_then (wire_value value ''summary'') decode_goal_summary) (\<lambda>summary.
     and_then (wire_string value ''success_criteria_json'') (\<lambda>success_criteria_json.
     and_then (wire_string value ''constraints_json'') (\<lambda>constraints_json.
     and_then (wire_string value ''verification_surface_json'') (\<lambda>verification_surface_json.
     and_then (wire_string value ''budget_json'') (\<lambda>budget_json.
     and_then (wire_string value ''stop_conditions_json'') (\<lambda>stop_conditions_json.
     and_then (wire_optional_string value ''task_id'') (\<lambda>task_id.
     and_then (wire_optional_string value ''agent_id'') (\<lambda>agent_id.
     and_then (wire_optional_string value ''session_id'') (\<lambda>session_id.
     and_then (wire_items decode_goal_requirement_view value ''requirements'') (\<lambda>requirements.
     and_then (wire_items decode_goal_report_view value ''reports'') (\<lambda>reports.
     and_then (wire_items decode_goal_continuation_view value ''continuations'') (\<lambda>continuations.
     and_then (wire_items decode_delegated_provider_goal_view value ''delegated_provider_goals'') (\<lambda>delegated_provider_goals.
     Inr \<lparr>gv_summary = summary, gv_success_criteria_json = success_criteria_json,
       gv_constraints_json = constraints_json,
       gv_verification_surface_json = verification_surface_json, gv_budget_json = budget_json,
       gv_stop_conditions_json = stop_conditions_json, gv_task_id = task_id, gv_agent_id = agent_id,
       gv_session_id = session_id, gv_requirements = requirements, gv_reports = reports,
       gv_continuations = continuations, gv_delegated_provider_goals = delegated_provider_goals\<rparr>)))))))))))))"

definition goal_view_ok :: "goal_view \<Rightarrow> bool" where
  "goal_view_ok r \<longleftrightarrow> goal_summary_ok (gv_summary r)
     \<and> list_all goal_report_view_ok (gv_reports r)"

definition scrub_goal_view :: "goal_view \<Rightarrow> goal_view" where
  "scrub_goal_view r =
     r\<lparr>gv_summary := scrub_goal_summary (gv_summary r),
       gv_success_criteria_json := redact_egress_text (gv_success_criteria_json r),
       gv_constraints_json := redact_egress_text (gv_constraints_json r),
       gv_verification_surface_json := redact_egress_text (gv_verification_surface_json r),
       gv_budget_json := redact_egress_text (gv_budget_json r),
       gv_stop_conditions_json := redact_egress_text (gv_stop_conditions_json r),
       gv_requirements := map scrub_goal_requirement_view (gv_requirements r),
       gv_reports := map scrub_goal_report_view (gv_reports r),
       gv_continuations := map scrub_goal_continuation_view (gv_continuations r)\<rparr>"

lemma decode_goal_view_roundtrip [wire_simps]:
  "goal_view_ok r \<Longrightarrow> decode_goal_view (encode_goal_view r) = Inr (scrub_goal_view r)"
  by (cases r) (simp add: decode_goal_view_def encode_goal_view_def goal_view_ok_def scrub_goal_view_def wire_simps json_get_object unwrap_or_def cong: and_then_weak_cong)

lemma encode_goal_view_json [json_oks]:
  "goal_view_ok r \<Longrightarrow> 4 \<le> n \<Longrightarrow> json_ok n (encode_goal_view r)"
  unfolding encode_goal_view_def by (rule json_ok_objectI) (simp_all add: goal_view_ok_def json_oks)

definition encode_timeline_entry :: "goal_timeline_entry \<Rightarrow> json" where
  "encode_timeline_entry r =
     json_object [(''sequence'', j_int (gte_sequence r)),
       (''event_id'', JString (gte_event_id r)),
       (''kind'', JString (gte_kind r)),
       (''actor'', JString (gte_actor r)),
       (''redaction_state'', JString (gte_redaction_state r))]"

definition decode_timeline_entry :: "json \<Rightarrow> goal_timeline_entry transport_result" where
  "decode_timeline_entry value =
     and_then (wire_i64 value ''sequence'') (\<lambda>sequence.
     and_then (wire_string value ''event_id'') (\<lambda>event_id.
     and_then (wire_string value ''kind'') (\<lambda>kind.
     and_then (wire_string value ''actor'') (\<lambda>actor.
     and_then (wire_string value ''redaction_state'') (\<lambda>redaction_state.
     Inr \<lparr>gte_sequence = sequence, gte_event_id = event_id, gte_kind = kind, gte_actor = actor,
       gte_redaction_state = redaction_state\<rparr>)))))"

definition timeline_entry_ok :: "goal_timeline_entry \<Rightarrow> bool" where
  "timeline_entry_ok r \<longleftrightarrow> i64_ok (gte_sequence r)"

lemma decode_timeline_entry_roundtrip [wire_simps]:
  "timeline_entry_ok r \<Longrightarrow> decode_timeline_entry (encode_timeline_entry r) = Inr r"
  by (cases r) (simp add: decode_timeline_entry_def encode_timeline_entry_def timeline_entry_ok_def wire_simps json_get_object unwrap_or_def cong: and_then_weak_cong)

lemma encode_timeline_entry_json [json_oks]:
  "timeline_entry_ok r \<Longrightarrow> 2 \<le> n \<Longrightarrow> json_ok n (encode_timeline_entry r)"
  unfolding encode_timeline_entry_def by (rule json_ok_objectI) (simp_all add: timeline_entry_ok_def json_oks)

lemma json_ok_items_timeline_entry [json_oks]:
  "list_all timeline_entry_ok xs \<Longrightarrow> 3 \<le> n \<Longrightarrow> json_ok n (JArray (map encode_timeline_entry xs))"
  by (rule json_ok_arrayI) (auto simp: json_oks list_all_iff)

lemma wire_items_timeline_entry [wire_simps]:
  "json_get v k = Some (JArray (map encode_timeline_entry xs)) \<Longrightarrow> list_all timeline_entry_ok xs \<Longrightarrow> wire_items decode_timeline_entry v k = Inr (xs)"
  using wire_items_found [of v k encode_timeline_entry xs decode_timeline_entry "\<lambda>x. x"]
  by (simp add: wire_simps list_all_iff)

definition decode_appended_sequences :: "json \<Rightarrow> int list transport_result" where
  "decode_appended_sequences value =
     and_then (wire_value value ''appended_sequences'') (\<lambda>v.
     and_then (ok_or (Protocol ''appended_sequences must be an array'') (value_as_array v))
       (collect (\<lambda>seq. ok_or (Protocol ''appended_sequences entries must be integers'') (value_as_i64 seq))))"

lemma decode_appended_sequences_found [wire_simps]:
  assumes "json_get v ''appended_sequences'' = Some (JArray (map j_int is))" "list_all i64_ok is"
  shows "decode_appended_sequences v = Inr is"
proof -
  have "collect (\<lambda>seq. ok_or e (value_as_i64 seq)) (map j_int is) = Inr (map (\<lambda>i. i) is)" for e
    using assms(2) by (intro collect_map) (auto simp: list_all_iff ok_or_def j_int_def)
  then show ?thesis using assms(1) by (simp add: decode_appended_sequences_def wire_value_def ok_or_def)
qed

section \<open>The arms with many fields\<close>

definition runtime_target_registered_fields :: "server_runtime_target_summary \<Rightarrow> (string \<times> json) list" where
  "runtime_target_registered_fields r =
     [(''runtime_target_id'', JString (srts_runtime_target_id r)),
      (''name'', JString (srts_name r)),
      (''runner_kind'', JString (srts_runner_kind r)),
      (''status'', JString (srts_status r)),
      (''connectivity_endpoint_id'', j_opt_str (srts_connectivity_endpoint_id r)),
      (''sequence'', j_int (srts_sequence r))]"

definition decode_runtime_target_registered :: "json \<Rightarrow> server_runtime_target_summary transport_result" where
  "decode_runtime_target_registered value =
     and_then (wire_string value ''runtime_target_id'') (\<lambda>runtime_target_id.
     and_then (wire_string value ''name'') (\<lambda>name.
     and_then (wire_string value ''runner_kind'') (\<lambda>runner_kind.
     and_then (wire_string value ''status'') (\<lambda>status.
     and_then (wire_optional_string value ''connectivity_endpoint_id'') (\<lambda>connectivity_endpoint_id.
     and_then (wire_i64 value ''sequence'') (\<lambda>sequence.
     Inr \<lparr>srts_runtime_target_id = runtime_target_id, srts_name = name, srts_runner_kind = runner_kind,
       srts_status = status, srts_connectivity_endpoint_id = connectivity_endpoint_id,
       srts_sequence = sequence\<rparr>))))))"

definition runtime_target_registered_ok :: "server_runtime_target_summary \<Rightarrow> bool" where
  "runtime_target_registered_ok r \<longleftrightarrow> i64_ok (srts_sequence r)"

lemma decode_runtime_target_registered_roundtrip [wire_simps]:
  "runtime_target_registered_ok r \<Longrightarrow> decode_runtime_target_registered (json_object ((''type'', t) # runtime_target_registered_fields r)) = Inr r"
  by (cases r) (simp add: decode_runtime_target_registered_def runtime_target_registered_fields_def runtime_target_registered_ok_def wire_simps json_get_object unwrap_or_def cong: and_then_weak_cong)

lemma runtime_target_registered_fields_type [wire_simps]:
  "wire_string (json_object ((''type'', JString t) # runtime_target_registered_fields r)) ''type'' = Inr t"
  by (simp add: runtime_target_registered_fields_def wire_simps json_get_object)

lemma runtime_target_registered_fields_json [json_oks]:
  "runtime_target_registered_ok r \<Longrightarrow> 1 \<le> n \<Longrightarrow> list_all (json_ok n) (map snd (runtime_target_registered_fields r))"
  by (simp add: runtime_target_registered_fields_def runtime_target_registered_ok_def json_oks)

definition dashboard_fields :: "server_dashboard_snapshot \<Rightarrow> (string \<times> json) list" where
  "dashboard_fields r =
     [(''project_id'', JString (sds_project_id r)),
      (''agent_count'', j_nat (sds_agent_count r)),
      (''active_session_count'', j_nat (sds_active_session_count r)),
      (''agents'', JArray (map encode_agent (sds_agents r)))]"

definition decode_dashboard :: "json \<Rightarrow> server_dashboard_snapshot transport_result" where
  "decode_dashboard value =
     and_then (and_then (wire_string value ''project_id'') wire_id) (\<lambda>project_id.
     and_then (wire_usize value ''agent_count'') (\<lambda>agent_count.
     and_then (wire_usize value ''active_session_count'') (\<lambda>active_session_count.
     and_then (decode_agents value ''agents'') (\<lambda>agents.
     Inr \<lparr>sds_project_id = project_id, sds_agent_count = agent_count,
       sds_active_session_count = active_session_count, sds_agents = agents\<rparr>))))"

definition dashboard_ok :: "server_dashboard_snapshot \<Rightarrow> bool" where
  "dashboard_ok r \<longleftrightarrow> id_ok (sds_project_id r)
     \<and> sds_agent_count r < 2 ^ 64
     \<and> sds_active_session_count r < 2 ^ 64
     \<and> list_all agent_ok (sds_agents r)"

lemma decode_dashboard_roundtrip [wire_simps]:
  "dashboard_ok r \<Longrightarrow> decode_dashboard (json_object ((''type'', t) # dashboard_fields r)) = Inr r"
  by (cases r) (simp add: decode_dashboard_def dashboard_fields_def dashboard_ok_def wire_simps json_get_object unwrap_or_def cong: and_then_weak_cong)

lemma dashboard_fields_type [wire_simps]:
  "wire_string (json_object ((''type'', JString t) # dashboard_fields r)) ''type'' = Inr t"
  by (simp add: dashboard_fields_def wire_simps json_get_object)

lemma dashboard_fields_json [json_oks]:
  "dashboard_ok r \<Longrightarrow> 5 \<le> n \<Longrightarrow> list_all (json_ok n) (map snd (dashboard_fields r))"
  by (simp add: dashboard_fields_def dashboard_ok_def json_oks)

definition adapter_fixture_replayed_fields :: "adapter_replay_summary \<Rightarrow> (string \<times> json) list" where
  "adapter_fixture_replayed_fields r =
     [(''adapter'', JString (arsm_adapter r)),
      (''fixture_name'', JString (arsm_fixture_name r)),
      (''fixture_hash'', JString (arsm_fixture_hash r)),
      (''agent_name'', JString (arsm_agent_name r)),
      (''task_id'', JString (arsm_task_id r)),
      (''session_id'', JString (arsm_session_id r)),
      (''run_id'', JString (arsm_run_id r)),
      (''turn_id'', JString (arsm_turn_id r)),
      (''provider_cli_executed'', JBool (arsm_provider_cli_executed r)),
      (''raw_content_policy'', JString (arsm_raw_content_policy r)),
      (''input_event_count'', j_nat (arsm_input_event_count r)),
      (''appended_event_count'', j_nat (arsm_appended_event_count r)),
      (''tool_event_count'', j_nat (arsm_tool_event_count r)),
      (''summary_event_count'', j_nat (arsm_summary_event_count r)),
      (''completed_turn_count'', j_nat (arsm_completed_turn_count r))]"

definition decode_adapter_fixture_replayed :: "json \<Rightarrow> adapter_replay_summary transport_result" where
  "decode_adapter_fixture_replayed value =
     and_then (wire_string value ''adapter'') (\<lambda>adapter.
     and_then (wire_string value ''fixture_name'') (\<lambda>fixture_name.
     and_then (wire_string value ''fixture_hash'') (\<lambda>fixture_hash.
     and_then (wire_string value ''agent_name'') (\<lambda>agent_name.
     and_then (and_then (wire_string value ''task_id'') wire_id) (\<lambda>task_id.
     and_then (and_then (wire_string value ''session_id'') wire_id) (\<lambda>session_id.
     and_then (and_then (wire_string value ''run_id'') wire_id) (\<lambda>run_id.
     and_then (wire_string value ''turn_id'') (\<lambda>turn_id.
     and_then (wire_bool value ''provider_cli_executed'') (\<lambda>provider_cli_executed.
     and_then (wire_string value ''raw_content_policy'') (\<lambda>raw_content_policy.
     and_then (wire_usize value ''input_event_count'') (\<lambda>input_event_count.
     and_then (wire_usize value ''appended_event_count'') (\<lambda>appended_event_count.
     and_then (wire_usize value ''tool_event_count'') (\<lambda>tool_event_count.
     and_then (wire_usize value ''summary_event_count'') (\<lambda>summary_event_count.
     and_then (wire_usize value ''completed_turn_count'') (\<lambda>completed_turn_count.
     Inr \<lparr>arsm_adapter = adapter, arsm_fixture_name = fixture_name, arsm_fixture_hash = fixture_hash,
       arsm_agent_name = agent_name, arsm_task_id = task_id, arsm_session_id = session_id,
       arsm_run_id = run_id, arsm_turn_id = turn_id,
       arsm_provider_cli_executed = provider_cli_executed,
       arsm_raw_content_policy = raw_content_policy, arsm_input_event_count = input_event_count,
       arsm_appended_event_count = appended_event_count, arsm_tool_event_count = tool_event_count,
       arsm_summary_event_count = summary_event_count,
       arsm_completed_turn_count = completed_turn_count\<rparr>)))))))))))))))"

definition adapter_fixture_replayed_ok :: "adapter_replay_summary \<Rightarrow> bool" where
  "adapter_fixture_replayed_ok r \<longleftrightarrow> id_ok (arsm_task_id r)
     \<and> id_ok (arsm_session_id r)
     \<and> id_ok (arsm_run_id r)
     \<and> arsm_input_event_count r < 2 ^ 64
     \<and> arsm_appended_event_count r < 2 ^ 64
     \<and> arsm_tool_event_count r < 2 ^ 64
     \<and> arsm_summary_event_count r < 2 ^ 64
     \<and> arsm_completed_turn_count r < 2 ^ 64"

lemma decode_adapter_fixture_replayed_roundtrip [wire_simps]:
  "adapter_fixture_replayed_ok r \<Longrightarrow> decode_adapter_fixture_replayed (json_object ((''type'', t) # adapter_fixture_replayed_fields r)) = Inr r"
  by (cases r) (simp add: decode_adapter_fixture_replayed_def adapter_fixture_replayed_fields_def adapter_fixture_replayed_ok_def wire_simps json_get_object unwrap_or_def cong: and_then_weak_cong)

lemma adapter_fixture_replayed_fields_type [wire_simps]:
  "wire_string (json_object ((''type'', JString t) # adapter_fixture_replayed_fields r)) ''type'' = Inr t"
  by (simp add: adapter_fixture_replayed_fields_def wire_simps json_get_object)

lemma adapter_fixture_replayed_fields_json [json_oks]:
  "adapter_fixture_replayed_ok r \<Longrightarrow> 1 \<le> n \<Longrightarrow> list_all (json_ok n) (map snd (adapter_fixture_replayed_fields r))"
  by (simp add: adapter_fixture_replayed_fields_def adapter_fixture_replayed_ok_def json_oks)

definition dispatch_planned_fields :: "dispatch_plan_summary \<Rightarrow> (string \<times> json) list" where
  "dispatch_planned_fields r =
     [(''dispatch_plan_id'', JString (dpls_dispatch_plan_id r)),
      (''prompt_source_id'', JString (dpls_prompt_source_id r)),
      (''adapter'', JString (dpls_adapter r)),
      (''agent_name'', JString (dpls_agent_name r)),
      (''session_id'', JString (dpls_session_id r)),
      (''run_id'', JString (dpls_run_id r)),
      (''runtime_program'', JString (dpls_runtime_program r)),
      (''runtime_prompt_policy'', JString (dpls_runtime_prompt_policy r)),
      (''raw_prompt_policy'', JString (dpls_raw_prompt_policy r)),
      (''provider_cli_executed'', JBool (dpls_provider_cli_executed r)),
      (''status'', JString (dpls_status r))]"

definition decode_dispatch_planned :: "json \<Rightarrow> dispatch_plan_summary transport_result" where
  "decode_dispatch_planned value =
     and_then (wire_string value ''dispatch_plan_id'') (\<lambda>dispatch_plan_id.
     and_then (wire_string value ''prompt_source_id'') (\<lambda>prompt_source_id.
     and_then (wire_string value ''adapter'') (\<lambda>adapter.
     and_then (wire_string value ''agent_name'') (\<lambda>agent_name.
     and_then (and_then (wire_string value ''session_id'') wire_id) (\<lambda>session_id.
     and_then (and_then (wire_string value ''run_id'') wire_id) (\<lambda>run_id.
     and_then (wire_string value ''runtime_program'') (\<lambda>runtime_program.
     and_then (wire_string value ''runtime_prompt_policy'') (\<lambda>runtime_prompt_policy.
     and_then (wire_string value ''raw_prompt_policy'') (\<lambda>raw_prompt_policy.
     and_then (wire_bool value ''provider_cli_executed'') (\<lambda>provider_cli_executed.
     and_then (wire_string value ''status'') (\<lambda>status.
     Inr \<lparr>dpls_dispatch_plan_id = dispatch_plan_id, dpls_prompt_source_id = prompt_source_id,
       dpls_adapter = adapter, dpls_agent_name = agent_name, dpls_session_id = session_id,
       dpls_run_id = run_id, dpls_runtime_program = runtime_program,
       dpls_runtime_prompt_policy = runtime_prompt_policy, dpls_raw_prompt_policy = raw_prompt_policy,
       dpls_provider_cli_executed = provider_cli_executed, dpls_status = status\<rparr>)))))))))))"

definition dispatch_planned_ok :: "dispatch_plan_summary \<Rightarrow> bool" where
  "dispatch_planned_ok r \<longleftrightarrow> id_ok (dpls_session_id r)
     \<and> id_ok (dpls_run_id r)"

lemma decode_dispatch_planned_roundtrip [wire_simps]:
  "dispatch_planned_ok r \<Longrightarrow> decode_dispatch_planned (json_object ((''type'', t) # dispatch_planned_fields r)) = Inr r"
  by (cases r) (simp add: decode_dispatch_planned_def dispatch_planned_fields_def dispatch_planned_ok_def wire_simps json_get_object unwrap_or_def cong: and_then_weak_cong)

lemma dispatch_planned_fields_type [wire_simps]:
  "wire_string (json_object ((''type'', JString t) # dispatch_planned_fields r)) ''type'' = Inr t"
  by (simp add: dispatch_planned_fields_def wire_simps json_get_object)

lemma dispatch_planned_fields_json [json_oks]:
  "dispatch_planned_ok r \<Longrightarrow> 1 \<le> n \<Longrightarrow> list_all (json_ok n) (map snd (dispatch_planned_fields r))"
  by (simp add: dispatch_planned_fields_def dispatch_planned_ok_def json_oks)

definition live_provider_preflighted_fields :: "live_provider_preflight_summary \<Rightarrow> (string \<times> json) list" where
  "live_provider_preflighted_fields r =
     [(''dispatch_plan_id'', JString (lpps_dispatch_plan_id r)),
      (''dispatch_gate_id'', JString (lpps_dispatch_gate_id r)),
      (''execution_request_id'', JString (lpps_execution_request_id r)),
      (''adapter'', JString (lpps_adapter r)),
      (''provider_kind'', JString (lpps_provider_kind r)),
      (''agent_name'', JString (lpps_agent_name r)),
      (''session_id'', JString (lpps_session_id r)),
      (''run_id'', JString (lpps_run_id r)),
      (''capability_profile'', JString (lpps_capability_profile r)),
      (''runtime_scope'', JString (lpps_runtime_scope r)),
      (''credential_scan_policy'', JString (lpps_credential_scan_policy r)),
      (''raw_prompt_policy'', JString (lpps_raw_prompt_policy r)),
      (''raw_output_policy'', JString (lpps_raw_output_policy r)),
      (''tool_wrapper_policy'', JString (lpps_tool_wrapper_policy r)),
      (''provider_cli_execution_allowed'', JBool (lpps_provider_cli_execution_allowed r)),
      (''provider_cli_executed'', JBool (lpps_provider_cli_executed r)),
      (''status'', JString (lpps_status r)),
      (''reasons'', JString (lpps_reasons r)),
      (''next_action'', JString (lpps_next_action r))]"

definition decode_live_provider_preflighted :: "json \<Rightarrow> live_provider_preflight_summary transport_result" where
  "decode_live_provider_preflighted value =
     and_then (wire_string value ''dispatch_plan_id'') (\<lambda>dispatch_plan_id.
     and_then (wire_string value ''dispatch_gate_id'') (\<lambda>dispatch_gate_id.
     and_then (wire_string value ''execution_request_id'') (\<lambda>execution_request_id.
     and_then (wire_string value ''adapter'') (\<lambda>adapter.
     and_then (wire_string value ''provider_kind'') (\<lambda>provider_kind.
     and_then (wire_string value ''agent_name'') (\<lambda>agent_name.
     and_then (and_then (wire_string value ''session_id'') wire_id) (\<lambda>session_id.
     and_then (and_then (wire_string value ''run_id'') wire_id) (\<lambda>run_id.
     and_then (wire_string value ''capability_profile'') (\<lambda>capability_profile.
     and_then (wire_string value ''runtime_scope'') (\<lambda>runtime_scope.
     and_then (wire_string value ''credential_scan_policy'') (\<lambda>credential_scan_policy.
     and_then (wire_string value ''raw_prompt_policy'') (\<lambda>raw_prompt_policy.
     and_then (wire_string value ''raw_output_policy'') (\<lambda>raw_output_policy.
     and_then (wire_string value ''tool_wrapper_policy'') (\<lambda>tool_wrapper_policy.
     and_then (wire_bool value ''provider_cli_execution_allowed'') (\<lambda>provider_cli_execution_allowed.
     and_then (wire_bool value ''provider_cli_executed'') (\<lambda>provider_cli_executed.
     and_then (wire_string value ''status'') (\<lambda>status.
     and_then (wire_string value ''reasons'') (\<lambda>reasons.
     and_then (wire_string value ''next_action'') (\<lambda>next_action.
     Inr \<lparr>lpps_dispatch_plan_id = dispatch_plan_id, lpps_dispatch_gate_id = dispatch_gate_id,
       lpps_execution_request_id = execution_request_id, lpps_adapter = adapter,
       lpps_provider_kind = provider_kind, lpps_agent_name = agent_name, lpps_session_id = session_id,
       lpps_run_id = run_id, lpps_capability_profile = capability_profile,
       lpps_runtime_scope = runtime_scope, lpps_credential_scan_policy = credential_scan_policy,
       lpps_raw_prompt_policy = raw_prompt_policy, lpps_raw_output_policy = raw_output_policy,
       lpps_tool_wrapper_policy = tool_wrapper_policy,
       lpps_provider_cli_execution_allowed = provider_cli_execution_allowed,
       lpps_provider_cli_executed = provider_cli_executed, lpps_status = status,
       lpps_reasons = reasons, lpps_next_action = next_action\<rparr>)))))))))))))))))))"

definition live_provider_preflighted_ok :: "live_provider_preflight_summary \<Rightarrow> bool" where
  "live_provider_preflighted_ok r \<longleftrightarrow> id_ok (lpps_session_id r)
     \<and> id_ok (lpps_run_id r)"

lemma decode_live_provider_preflighted_roundtrip [wire_simps]:
  "live_provider_preflighted_ok r \<Longrightarrow> decode_live_provider_preflighted (json_object ((''type'', t) # live_provider_preflighted_fields r)) = Inr r"
  by (cases r) (simp add: decode_live_provider_preflighted_def live_provider_preflighted_fields_def live_provider_preflighted_ok_def wire_simps json_get_object unwrap_or_def cong: and_then_weak_cong)

lemma live_provider_preflighted_fields_type [wire_simps]:
  "wire_string (json_object ((''type'', JString t) # live_provider_preflighted_fields r)) ''type'' = Inr t"
  by (simp add: live_provider_preflighted_fields_def wire_simps json_get_object)

lemma live_provider_preflighted_fields_json [json_oks]:
  "live_provider_preflighted_ok r \<Longrightarrow> 1 \<le> n \<Longrightarrow> list_all (json_ok n) (map snd (live_provider_preflighted_fields r))"
  by (simp add: live_provider_preflighted_fields_def live_provider_preflighted_ok_def json_oks)

definition dispatch_gated_fields :: "dispatch_gate_summary \<Rightarrow> (string \<times> json) list" where
  "dispatch_gated_fields r =
     [(''dispatch_plan_id'', JString (dgsm_dispatch_plan_id r)),
      (''dispatch_gate_id'', JString (dgsm_dispatch_gate_id r)),
      (''execution_request_id'', JString (dgsm_execution_request_id r)),
      (''materialization_id'', JString (dgsm_materialization_id r)),
      (''adapter'', JString (dgsm_adapter r)),
      (''provider_cli_execution_allowed'', JBool (dgsm_provider_cli_execution_allowed r)),
      (''provider_cli_executed'', JBool (dgsm_provider_cli_executed r)),
      (''status'', JString (dgsm_status r)),
      (''reasons'', JString (dgsm_reasons r)),
      (''raw_prompt_policy'', JString (dgsm_raw_prompt_policy r))]"

definition decode_dispatch_gated :: "json \<Rightarrow> dispatch_gate_summary transport_result" where
  "decode_dispatch_gated value =
     and_then (wire_string value ''dispatch_plan_id'') (\<lambda>dispatch_plan_id.
     and_then (wire_string value ''dispatch_gate_id'') (\<lambda>dispatch_gate_id.
     and_then (wire_string value ''execution_request_id'') (\<lambda>execution_request_id.
     and_then (wire_string value ''materialization_id'') (\<lambda>materialization_id.
     and_then (wire_string value ''adapter'') (\<lambda>adapter.
     and_then (wire_bool value ''provider_cli_execution_allowed'') (\<lambda>provider_cli_execution_allowed.
     and_then (wire_bool value ''provider_cli_executed'') (\<lambda>provider_cli_executed.
     and_then (wire_string value ''status'') (\<lambda>status.
     and_then (wire_string value ''reasons'') (\<lambda>reasons.
     and_then (wire_string value ''raw_prompt_policy'') (\<lambda>raw_prompt_policy.
     Inr \<lparr>dgsm_dispatch_plan_id = dispatch_plan_id, dgsm_dispatch_gate_id = dispatch_gate_id,
       dgsm_execution_request_id = execution_request_id, dgsm_materialization_id = materialization_id,
       dgsm_adapter = adapter, dgsm_provider_cli_execution_allowed = provider_cli_execution_allowed,
       dgsm_provider_cli_executed = provider_cli_executed, dgsm_status = status,
       dgsm_reasons = reasons, dgsm_raw_prompt_policy = raw_prompt_policy\<rparr>))))))))))"

lemma decode_dispatch_gated_roundtrip [wire_simps]:
  "decode_dispatch_gated (json_object ((''type'', t) # dispatch_gated_fields r)) = Inr r"
  by (cases r) (simp add: decode_dispatch_gated_def dispatch_gated_fields_def wire_simps json_get_object unwrap_or_def cong: and_then_weak_cong)

lemma dispatch_gated_fields_type [wire_simps]:
  "wire_string (json_object ((''type'', JString t) # dispatch_gated_fields r)) ''type'' = Inr t"
  by (simp add: dispatch_gated_fields_def wire_simps json_get_object)

lemma dispatch_gated_fields_json [json_oks]:
  "1 \<le> n \<Longrightarrow> list_all (json_ok n) (map snd (dispatch_gated_fields r))"
  by (simp add: dispatch_gated_fields_def json_oks)

definition continuation_evaluated_fields :: "continuation_evaluated_summary \<Rightarrow> (string \<times> json) list" where
  "continuation_evaluated_fields r =
     [(''goal_id'', JString (ces_goal_id r)),
      (''continuation_id'', JString (ces_continuation_id r)),
      (''decision'', JString (ces_decision r)),
      (''reason'', JString (ces_reason r)),
      (''dispatched'', j_opt encode_dispatch_turn (ces_dispatched r))]"

definition decode_continuation_evaluated :: "json \<Rightarrow> continuation_evaluated_summary transport_result" where
  "decode_continuation_evaluated value =
     and_then (wire_string value ''goal_id'') (\<lambda>goal_id.
     and_then (wire_string value ''continuation_id'') (\<lambda>continuation_id.
     and_then (wire_string value ''decision'') (\<lambda>decision.
     and_then (wire_string value ''reason'') (\<lambda>reason.
     and_then (decode_dispatched (json_get value ''dispatched'')) (\<lambda>dispatched.
     Inr \<lparr>ces_goal_id = goal_id, ces_continuation_id = continuation_id, ces_decision = decision,
       ces_reason = reason, ces_dispatched = dispatched\<rparr>)))))"

definition continuation_evaluated_ok :: "continuation_evaluated_summary \<Rightarrow> bool" where
  "continuation_evaluated_ok r \<longleftrightarrow> opt_all dispatch_turn_ok (ces_dispatched r)"

lemma decode_continuation_evaluated_roundtrip [wire_simps]:
  "continuation_evaluated_ok r \<Longrightarrow> decode_continuation_evaluated (json_object ((''type'', t) # continuation_evaluated_fields r)) = Inr r"
  by (cases r) (simp add: decode_continuation_evaluated_def continuation_evaluated_fields_def continuation_evaluated_ok_def wire_simps json_get_object unwrap_or_def cong: and_then_weak_cong)

lemma continuation_evaluated_fields_type [wire_simps]:
  "wire_string (json_object ((''type'', JString t) # continuation_evaluated_fields r)) ''type'' = Inr t"
  by (simp add: continuation_evaluated_fields_def wire_simps json_get_object)

lemma continuation_evaluated_fields_json [json_oks]:
  "continuation_evaluated_ok r \<Longrightarrow> 4 \<le> n \<Longrightarrow> list_all (json_ok n) (map snd (continuation_evaluated_fields r))"
  by (simp add: continuation_evaluated_fields_def continuation_evaluated_ok_def json_oks)

definition runner_events_replayed_fields :: "runner_events_replayed_summary \<Rightarrow> (string \<times> json) list" where
  "runner_events_replayed_fields r =
     [(''appended_sequences'', JArray (map j_int (rers_appended_sequences r)))]"

definition decode_runner_events_replayed :: "json \<Rightarrow> runner_events_replayed_summary transport_result" where
  "decode_runner_events_replayed value =
     and_then (decode_appended_sequences value) (\<lambda>appended_sequences.
     Inr \<lparr>rers_appended_sequences = appended_sequences\<rparr>)"

definition runner_events_replayed_ok :: "runner_events_replayed_summary \<Rightarrow> bool" where
  "runner_events_replayed_ok r \<longleftrightarrow> list_all i64_ok (rers_appended_sequences r)"

lemma decode_runner_events_replayed_roundtrip [wire_simps]:
  "runner_events_replayed_ok r \<Longrightarrow> decode_runner_events_replayed (json_object ((''type'', t) # runner_events_replayed_fields r)) = Inr r"
  by (cases r) (simp add: decode_runner_events_replayed_def runner_events_replayed_fields_def runner_events_replayed_ok_def wire_simps json_get_object unwrap_or_def cong: and_then_weak_cong)

lemma runner_events_replayed_fields_type [wire_simps]:
  "wire_string (json_object ((''type'', JString t) # runner_events_replayed_fields r)) ''type'' = Inr t"
  by (simp add: runner_events_replayed_fields_def wire_simps json_get_object)

lemma runner_events_replayed_fields_json [json_oks]:
  "runner_events_replayed_ok r \<Longrightarrow> 2 \<le> n \<Longrightarrow> list_all (json_ok n) (map snd (runner_events_replayed_fields r))"
  by (simp add: runner_events_replayed_fields_def runner_events_replayed_ok_def json_oks)

definition acp_live_turn_fields :: "acp_live_turn_summary \<Rightarrow> (string \<times> json) list" where
  "acp_live_turn_fields r =
     [(''session_id'', JString (altm_session_id r)),
      (''run_id'', JString (altm_run_id r)),
      (''turn_id'', JString (altm_turn_id r)),
      (''workspace_root'', JString (altm_workspace_root r)),
      (''event_count'', j_nat (altm_event_count r)),
      (''appended_event_count'', j_nat (altm_appended_event_count r)),
      (''stop_reason'', j_opt_str (altm_stop_reason r)),
      (''reply_text'', j_opt_str (altm_reply_text r))]"

definition decode_acp_live_turn :: "json \<Rightarrow> acp_live_turn_summary transport_result" where
  "decode_acp_live_turn value =
     and_then (wire_string value ''session_id'') (\<lambda>session_id.
     and_then (wire_string value ''run_id'') (\<lambda>run_id.
     and_then (wire_string value ''turn_id'') (\<lambda>turn_id.
     and_then (wire_string value ''workspace_root'') (\<lambda>workspace_root.
     and_then (wire_usize value ''event_count'') (\<lambda>event_count.
     and_then (wire_usize value ''appended_event_count'') (\<lambda>appended_event_count.
     and_then (wire_optional_string value ''stop_reason'') (\<lambda>stop_reason.
     and_then (wire_optional_string value ''reply_text'') (\<lambda>reply_text.
     Inr \<lparr>altm_session_id = session_id, altm_run_id = run_id, altm_turn_id = turn_id,
       altm_workspace_root = workspace_root, altm_event_count = event_count,
       altm_appended_event_count = appended_event_count, altm_stop_reason = stop_reason,
       altm_reply_text = reply_text\<rparr>))))))))"

definition acp_live_turn_ok :: "acp_live_turn_summary \<Rightarrow> bool" where
  "acp_live_turn_ok r \<longleftrightarrow> altm_event_count r < 2 ^ 64
     \<and> altm_appended_event_count r < 2 ^ 64"

lemma decode_acp_live_turn_roundtrip [wire_simps]:
  "acp_live_turn_ok r \<Longrightarrow> decode_acp_live_turn (json_object ((''type'', t) # acp_live_turn_fields r)) = Inr r"
  by (cases r) (simp add: decode_acp_live_turn_def acp_live_turn_fields_def acp_live_turn_ok_def wire_simps json_get_object unwrap_or_def cong: and_then_weak_cong)

lemma acp_live_turn_fields_type [wire_simps]:
  "wire_string (json_object ((''type'', JString t) # acp_live_turn_fields r)) ''type'' = Inr t"
  by (simp add: acp_live_turn_fields_def wire_simps json_get_object)

lemma acp_live_turn_fields_json [json_oks]:
  "acp_live_turn_ok r \<Longrightarrow> 1 \<le> n \<Longrightarrow> list_all (json_ok n) (map snd (acp_live_turn_fields r))"
  by (simp add: acp_live_turn_fields_def acp_live_turn_ok_def json_oks)

definition recovery_fields :: "recovery_summary \<Rightarrow> (string \<times> json) list" where
  "recovery_fields r =
     [(''recovery_attempt_id'', JString (rcsm_recovery_attempt_id r)),
      (''recovered_run_count'', j_nat (rcsm_recovered_run_count r)),
      (''watermark'', j_opt_int (rcsm_watermark r))]"

definition decode_recovery :: "json \<Rightarrow> recovery_summary transport_result" where
  "decode_recovery value =
     and_then (wire_string value ''recovery_attempt_id'') (\<lambda>recovery_attempt_id.
     and_then (wire_usize value ''recovered_run_count'') (\<lambda>recovered_run_count.
     and_then (Inr (Option.bind (json_get value ''watermark'') value_as_i64)) (\<lambda>watermark.
     Inr \<lparr>rcsm_recovery_attempt_id = recovery_attempt_id, rcsm_recovered_run_count = recovered_run_count,
       rcsm_watermark = watermark\<rparr>)))"

definition recovery_ok :: "recovery_summary \<Rightarrow> bool" where
  "recovery_ok r \<longleftrightarrow> rcsm_recovered_run_count r < 2 ^ 64
     \<and> opt_all i64_ok (rcsm_watermark r)"

lemma decode_recovery_roundtrip [wire_simps]:
  "recovery_ok r \<Longrightarrow> decode_recovery (json_object ((''type'', t) # recovery_fields r)) = Inr r"
  by (cases r) (simp add: decode_recovery_def recovery_fields_def recovery_ok_def wire_simps json_get_object unwrap_or_def cong: and_then_weak_cong)

lemma recovery_fields_type [wire_simps]:
  "wire_string (json_object ((''type'', JString t) # recovery_fields r)) ''type'' = Inr t"
  by (simp add: recovery_fields_def wire_simps json_get_object)

lemma recovery_fields_json [json_oks]:
  "recovery_ok r \<Longrightarrow> 1 \<le> n \<Longrightarrow> list_all (json_ok n) (map snd (recovery_fields r))"
  by (simp add: recovery_fields_def recovery_ok_def json_oks)

definition subscribed_fields :: "subscription_backlog \<Rightarrow> (string \<times> json) list" where
  "subscribed_fields r =
     [(''session_id'', j_opt_str (sbl_session_id r)),
      (''from_sequence'', j_int (sbl_from_sequence r)),
      (''next_sequence'', j_int (sbl_next_sequence r)),
      (''events'', JArray (map encode_event (sbl_events r)))]"

definition decode_subscribed :: "json \<Rightarrow> subscription_backlog transport_result" where
  "decode_subscribed value =
     and_then (wire_optional_string value ''session_id'') (\<lambda>session_id.
     and_then (wire_i64 value ''from_sequence'') (\<lambda>from_sequence.
     and_then (wire_i64 value ''next_sequence'') (\<lambda>next_sequence.
     and_then (wire_items decode_event value ''events'') (\<lambda>events.
     Inr \<lparr>sbl_session_id = session_id, sbl_from_sequence = from_sequence,
       sbl_next_sequence = next_sequence, sbl_events = events\<rparr>))))"

definition subscribed_ok :: "subscription_backlog \<Rightarrow> bool" where
  "subscribed_ok r \<longleftrightarrow> i64_ok (sbl_from_sequence r)
     \<and> i64_ok (sbl_next_sequence r)
     \<and> list_all event_ok (sbl_events r)"

lemma decode_subscribed_roundtrip [wire_simps]:
  "subscribed_ok r \<Longrightarrow> decode_subscribed (json_object ((''type'', t) # subscribed_fields r)) = Inr r"
  by (cases r) (simp add: decode_subscribed_def subscribed_fields_def subscribed_ok_def wire_simps json_get_object unwrap_or_def cong: and_then_weak_cong)

lemma subscribed_fields_type [wire_simps]:
  "wire_string (json_object ((''type'', JString t) # subscribed_fields r)) ''type'' = Inr t"
  by (simp add: subscribed_fields_def wire_simps json_get_object)

lemma subscribed_fields_json [json_oks]:
  "subscribed_ok r \<Longrightarrow> 3 \<le> n \<Longrightarrow> list_all (json_ok n) (map snd (subscribed_fields r))"
  by (simp add: subscribed_fields_def subscribed_ok_def json_oks)

definition thread_fields :: "server_thread \<Rightarrow> (string \<times> json) list" where
  "thread_fields r =
     [(''session_id'', JString (sth_session_id r)),
      (''from_sequence'', j_int (sth_from_sequence r)),
      (''next_sequence'', j_int (sth_next_sequence r)),
      (''turns'', JArray (map encode_thread_turn (sth_turns r)))]"

definition decode_thread :: "json \<Rightarrow> server_thread transport_result" where
  "decode_thread value =
     and_then (wire_string value ''session_id'') (\<lambda>session_id.
     and_then (wire_i64 value ''from_sequence'') (\<lambda>from_sequence.
     and_then (wire_i64 value ''next_sequence'') (\<lambda>next_sequence.
     and_then (wire_items decode_thread_turn value ''turns'') (\<lambda>turns.
     Inr \<lparr>sth_session_id = session_id, sth_from_sequence = from_sequence,
       sth_next_sequence = next_sequence, sth_turns = turns\<rparr>))))"

definition thread_ok :: "server_thread \<Rightarrow> bool" where
  "thread_ok r \<longleftrightarrow> i64_ok (sth_from_sequence r)
     \<and> i64_ok (sth_next_sequence r)
     \<and> list_all thread_turn_ok (sth_turns r)"

lemma decode_thread_roundtrip [wire_simps]:
  "thread_ok r \<Longrightarrow> decode_thread (json_object ((''type'', t) # thread_fields r)) = Inr r"
  by (cases r) (simp add: decode_thread_def thread_fields_def thread_ok_def wire_simps json_get_object unwrap_or_def cong: and_then_weak_cong)

lemma thread_fields_type [wire_simps]:
  "wire_string (json_object ((''type'', JString t) # thread_fields r)) ''type'' = Inr t"
  by (simp add: thread_fields_def wire_simps json_get_object)

lemma thread_fields_json [json_oks]:
  "thread_ok r \<Longrightarrow> 5 \<le> n \<Longrightarrow> list_all (json_ok n) (map snd (thread_fields r))"
  by (simp add: thread_fields_def thread_ok_def json_oks)

definition goal_reports_fields :: "goal_report_listing \<Rightarrow> (string \<times> json) list" where
  "goal_reports_fields r =
     [(''goal_id'', JString (grl_goal_id r)),
      (''surface'', JString (grl_surface r)),
      (''blocker_reason'', JString (redact_egress_text (grl_blocker_reason r))),
      (''reports'', JArray (map encode_goal_report_view (grl_reports r)))]"

definition decode_goal_reports :: "json \<Rightarrow> goal_report_listing transport_result" where
  "decode_goal_reports value =
     and_then (wire_string value ''goal_id'') (\<lambda>goal_id.
     and_then (wire_string value ''surface'') (\<lambda>surface.
     and_then (wire_string value ''blocker_reason'') (\<lambda>blocker_reason.
     and_then (wire_items decode_goal_report_view value ''reports'') (\<lambda>reports.
     Inr \<lparr>grl_goal_id = goal_id, grl_surface = surface, grl_blocker_reason = blocker_reason,
       grl_reports = reports\<rparr>))))"

definition goal_reports_ok :: "goal_report_listing \<Rightarrow> bool" where
  "goal_reports_ok r \<longleftrightarrow> list_all goal_report_view_ok (grl_reports r)"

definition scrub_goal_reports :: "goal_report_listing \<Rightarrow> goal_report_listing" where
  "scrub_goal_reports r =
     r\<lparr>grl_blocker_reason := redact_egress_text (grl_blocker_reason r),
       grl_reports := map scrub_goal_report_view (grl_reports r)\<rparr>"

lemma decode_goal_reports_roundtrip [wire_simps]:
  "goal_reports_ok r \<Longrightarrow> decode_goal_reports (json_object ((''type'', t) # goal_reports_fields r)) = Inr (scrub_goal_reports r)"
  by (cases r) (simp add: decode_goal_reports_def goal_reports_fields_def goal_reports_ok_def scrub_goal_reports_def wire_simps json_get_object unwrap_or_def cong: and_then_weak_cong)

lemma goal_reports_fields_type [wire_simps]:
  "wire_string (json_object ((''type'', JString t) # goal_reports_fields r)) ''type'' = Inr t"
  by (simp add: goal_reports_fields_def wire_simps json_get_object)

lemma goal_reports_fields_json [json_oks]:
  "goal_reports_ok r \<Longrightarrow> 3 \<le> n \<Longrightarrow> list_all (json_ok n) (map snd (goal_reports_fields r))"
  by (simp add: goal_reports_fields_def goal_reports_ok_def json_oks)

definition goal_timeline_fields :: "goal_timeline_view \<Rightarrow> (string \<times> json) list" where
  "goal_timeline_fields r =
     [(''goal_id'', JString (gtv_goal_id r)),
      (''entries'', JArray (map encode_timeline_entry (gtv_entries r)))]"

definition decode_goal_timeline :: "json \<Rightarrow> goal_timeline_view transport_result" where
  "decode_goal_timeline value =
     and_then (wire_string value ''goal_id'') (\<lambda>goal_id.
     and_then (wire_items decode_timeline_entry value ''entries'') (\<lambda>entries.
     Inr \<lparr>gtv_goal_id = goal_id, gtv_entries = entries\<rparr>))"

definition goal_timeline_ok :: "goal_timeline_view \<Rightarrow> bool" where
  "goal_timeline_ok r \<longleftrightarrow> list_all timeline_entry_ok (gtv_entries r)"

lemma decode_goal_timeline_roundtrip [wire_simps]:
  "goal_timeline_ok r \<Longrightarrow> decode_goal_timeline (json_object ((''type'', t) # goal_timeline_fields r)) = Inr r"
  by (cases r) (simp add: decode_goal_timeline_def goal_timeline_fields_def goal_timeline_ok_def wire_simps json_get_object unwrap_or_def cong: and_then_weak_cong)

lemma goal_timeline_fields_type [wire_simps]:
  "wire_string (json_object ((''type'', JString t) # goal_timeline_fields r)) ''type'' = Inr t"
  by (simp add: goal_timeline_fields_def wire_simps json_get_object)

lemma goal_timeline_fields_json [json_oks]:
  "goal_timeline_ok r \<Longrightarrow> 3 \<le> n \<Longrightarrow> list_all (json_ok n) (map snd (goal_timeline_fields r))"
  by (simp add: goal_timeline_fields_def goal_timeline_ok_def json_oks)

definition goal_report_fields :: "goal_report_rendering \<Rightarrow> (string \<times> json) list" where
  "goal_report_fields r =
     [(''goal_id'', JString (grr_goal_id r)),
      (''format'', JString (grr_format r)),
      (''body'', JString (redact_egress_text (grr_body r))),
      (''degraded'', JBool (grr_degraded r))]"

definition decode_goal_report :: "json \<Rightarrow> goal_report_rendering transport_result" where
  "decode_goal_report value =
     and_then (wire_string value ''goal_id'') (\<lambda>goal_id.
     and_then (wire_string value ''format'') (\<lambda>format.
     and_then (wire_string value ''body'') (\<lambda>body.
     and_then (wire_bool value ''degraded'') (\<lambda>degraded.
     Inr \<lparr>grr_goal_id = goal_id, grr_format = format, grr_body = body, grr_degraded = degraded\<rparr>))))"

definition scrub_goal_report :: "goal_report_rendering \<Rightarrow> goal_report_rendering" where
  "scrub_goal_report r =
     r\<lparr>grr_body := redact_egress_text (grr_body r)\<rparr>"

lemma decode_goal_report_roundtrip [wire_simps]:
  "decode_goal_report (json_object ((''type'', t) # goal_report_fields r)) = Inr (scrub_goal_report r)"
  by (cases r) (simp add: decode_goal_report_def goal_report_fields_def scrub_goal_report_def wire_simps json_get_object unwrap_or_def cong: and_then_weak_cong)

lemma goal_report_fields_type [wire_simps]:
  "wire_string (json_object ((''type'', JString t) # goal_report_fields r)) ''type'' = Inr t"
  by (simp add: goal_report_fields_def wire_simps json_get_object)

lemma goal_report_fields_json [json_oks]:
  "1 \<le> n \<Longrightarrow> list_all (json_ok n) (map snd (goal_report_fields r))"
  by (simp add: goal_report_fields_def json_oks)

section \<open>Payloads\<close>

fun encode_payload :: "server_response_payload \<Rightarrow> json" where
  "encode_payload (PayAgentRegistered r) =
     json_object [(''type'', JString ''agent_registered''), (''agent'', encode_agent r)]"
| "encode_payload (PayTaskSent r) =
     json_object [(''type'', JString ''task_sent''), (''run'', encode_run r)]"
| "encode_payload (PayAgents r) =
     json_object [(''type'', JString ''agents''), (''agents'', JArray (map encode_agent r))]"
| "encode_payload (PayAgentStatus r) =
     json_object [(''type'', JString ''agent_status''), (''agent'', encode_agent r)]"
| "encode_payload (PayRuntimeTargetRegistered r) =
     json_object ((''type'', JString ''runtime_target_registered'') # runtime_target_registered_fields r)"
| "encode_payload (PayDashboard r) =
     json_object ((''type'', JString ''dashboard'') # dashboard_fields r)"
| "encode_payload (PaySessionStarted r) =
     json_object [(''type'', JString ''session_started''), (''run'', encode_run r)]"
| "encode_payload (PayAdapterFixtureReplayed r) =
     json_object ((''type'', JString ''adapter_fixture_replayed'') # adapter_fixture_replayed_fields r)"
| "encode_payload (PayDispatchPlanned r) =
     json_object ((''type'', JString ''dispatch_planned'') # dispatch_planned_fields r)"
| "encode_payload (PayLiveProviderPreflighted r) =
     json_object ((''type'', JString ''live_provider_preflighted'') # live_provider_preflighted_fields r)"
| "encode_payload (PayDispatchGated r) =
     json_object ((''type'', JString ''dispatch_gated'') # dispatch_gated_fields r)"
| "encode_payload (PayDispatchRun r) =
     json_object (dispatch_run_fields r @ [(''type'', JString ''dispatch_run'')])"
| "encode_payload (PayDispatchTurn r) =
     json_object (dispatch_turn_fields r @ [(''type'', JString ''dispatch_turn'')])"
| "encode_payload (PayContinuationEvaluated r) =
     json_object ((''type'', JString ''continuation_evaluated'') # continuation_evaluated_fields r)"
| "encode_payload (PayRunnerEventsReplayed r) =
     json_object ((''type'', JString ''runner_events_replayed'') # runner_events_replayed_fields r)"
| "encode_payload (PayAcpLiveTurn r) =
     json_object ((''type'', JString ''acp_live_turn'') # acp_live_turn_fields r)"
| "encode_payload (PayRecovery r) =
     json_object ((''type'', JString ''recovery'') # recovery_fields r)"
| "encode_payload (PaySubscribed r) =
     json_object ((''type'', JString ''subscribed'') # subscribed_fields r)"
| "encode_payload (PayThread r) =
     json_object ((''type'', JString ''thread'') # thread_fields r)"
| "encode_payload (PayGoals r) =
     json_object [(''type'', JString ''goals''), (''goals'', JArray (map encode_goal_summary r))]"
| "encode_payload (PayGoalView r) =
     json_object [(''type'', JString ''goal_view''), (''view'', encode_goal_view r)]"
| "encode_payload (PayGoalReports r) =
     json_object ((''type'', JString ''goal_reports'') # goal_reports_fields r)"
| "encode_payload (PayGoalTimeline r) =
     json_object ((''type'', JString ''goal_timeline'') # goal_timeline_fields r)"
| "encode_payload (PayGoalReport r) =
     json_object ((''type'', JString ''goal_report'') # goal_report_fields r)"

definition decode_payload :: "json \<Rightarrow> server_response_payload transport_result" where
  "decode_payload value =
     and_then (wire_string value ''type'') (\<lambda>ty.
     if ty = ''agent_registered'' then
       and_then (and_then (wire_value value ''agent'') decode_agent) (\<lambda>r. Inr (PayAgentRegistered r))
     else if ty = ''task_sent'' then
       and_then (and_then (wire_value value ''run'') decode_run) (\<lambda>r. Inr (PayTaskSent r))
     else if ty = ''agents'' then
       and_then (decode_agents value ''agents'') (\<lambda>r. Inr (PayAgents r))
     else if ty = ''agent_status'' then
       and_then (and_then (wire_value value ''agent'') decode_agent) (\<lambda>r. Inr (PayAgentStatus r))
     else if ty = ''runtime_target_registered'' then
       and_then (decode_runtime_target_registered value) (\<lambda>r. Inr (PayRuntimeTargetRegistered r))
     else if ty = ''dashboard'' then
       and_then (decode_dashboard value) (\<lambda>r. Inr (PayDashboard r))
     else if ty = ''session_started'' then
       and_then (and_then (wire_value value ''run'') decode_run) (\<lambda>r. Inr (PaySessionStarted r))
     else if ty = ''adapter_fixture_replayed'' then
       and_then (decode_adapter_fixture_replayed value) (\<lambda>r. Inr (PayAdapterFixtureReplayed r))
     else if ty = ''dispatch_planned'' then
       and_then (decode_dispatch_planned value) (\<lambda>r. Inr (PayDispatchPlanned r))
     else if ty = ''live_provider_preflighted'' then
       and_then (decode_live_provider_preflighted value) (\<lambda>r. Inr (PayLiveProviderPreflighted r))
     else if ty = ''dispatch_gated'' then
       and_then (decode_dispatch_gated value) (\<lambda>r. Inr (PayDispatchGated r))
     else if ty = ''dispatch_run'' then
       and_then (decode_dispatch_run value) (\<lambda>r. Inr (PayDispatchRun r))
     else if ty = ''dispatch_turn'' then
       and_then (decode_dispatch_turn value) (\<lambda>r. Inr (PayDispatchTurn r))
     else if ty = ''continuation_evaluated'' then
       and_then (decode_continuation_evaluated value) (\<lambda>r. Inr (PayContinuationEvaluated r))
     else if ty = ''runner_events_replayed'' then
       and_then (decode_runner_events_replayed value) (\<lambda>r. Inr (PayRunnerEventsReplayed r))
     else if ty = ''acp_live_turn'' then
       and_then (decode_acp_live_turn value) (\<lambda>r. Inr (PayAcpLiveTurn r))
     else if ty = ''recovery'' then
       and_then (decode_recovery value) (\<lambda>r. Inr (PayRecovery r))
     else if ty = ''subscribed'' then
       and_then (decode_subscribed value) (\<lambda>r. Inr (PaySubscribed r))
     else if ty = ''thread'' then
       and_then (decode_thread value) (\<lambda>r. Inr (PayThread r))
     else if ty = ''goals'' then
       and_then (wire_items decode_goal_summary value ''goals'') (\<lambda>r. Inr (PayGoals r))
     else if ty = ''goal_view'' then
       and_then (and_then (wire_value value ''view'') decode_goal_view) (\<lambda>r. Inr (PayGoalView r))
     else if ty = ''goal_reports'' then
       and_then (decode_goal_reports value) (\<lambda>r. Inr (PayGoalReports r))
     else if ty = ''goal_timeline'' then
       and_then (decode_goal_timeline value) (\<lambda>r. Inr (PayGoalTimeline r))
     else if ty = ''goal_report'' then
       and_then (decode_goal_report value) (\<lambda>r. Inr (PayGoalReport r))
     else Inl (Protocol (''unknown payload type: '' @ ty)))"

text \<open>Every number fits its Rust type and no typed id is blank.\<close>

fun payload_ok :: "server_response_payload \<Rightarrow> bool" where
  "payload_ok (PayAgentRegistered r) \<longleftrightarrow> agent_ok r"
| "payload_ok (PayTaskSent r) \<longleftrightarrow> run_ok r"
| "payload_ok (PayAgents r) \<longleftrightarrow> list_all agent_ok r"
| "payload_ok (PayAgentStatus r) \<longleftrightarrow> agent_ok r"
| "payload_ok (PayRuntimeTargetRegistered r) \<longleftrightarrow> runtime_target_registered_ok r"
| "payload_ok (PayDashboard r) \<longleftrightarrow> dashboard_ok r"
| "payload_ok (PaySessionStarted r) \<longleftrightarrow> run_ok r"
| "payload_ok (PayAdapterFixtureReplayed r) \<longleftrightarrow> adapter_fixture_replayed_ok r"
| "payload_ok (PayDispatchPlanned r) \<longleftrightarrow> dispatch_planned_ok r"
| "payload_ok (PayLiveProviderPreflighted r) \<longleftrightarrow> live_provider_preflighted_ok r"
| "payload_ok (PayDispatchRun r) \<longleftrightarrow> dispatch_run_ok r"
| "payload_ok (PayDispatchTurn r) \<longleftrightarrow> dispatch_turn_ok r"
| "payload_ok (PayContinuationEvaluated r) \<longleftrightarrow> continuation_evaluated_ok r"
| "payload_ok (PayRunnerEventsReplayed r) \<longleftrightarrow> runner_events_replayed_ok r"
| "payload_ok (PayAcpLiveTurn r) \<longleftrightarrow> acp_live_turn_ok r"
| "payload_ok (PayRecovery r) \<longleftrightarrow> recovery_ok r"
| "payload_ok (PaySubscribed r) \<longleftrightarrow> subscribed_ok r"
| "payload_ok (PayThread r) \<longleftrightarrow> thread_ok r"
| "payload_ok (PayGoals r) \<longleftrightarrow> list_all goal_summary_ok r"
| "payload_ok (PayGoalView r) \<longleftrightarrow> goal_view_ok r"
| "payload_ok (PayGoalReports r) \<longleftrightarrow> goal_reports_ok r"
| "payload_ok (PayGoalTimeline r) \<longleftrightarrow> goal_timeline_ok r"
| "payload_ok _ \<longleftrightarrow> True"

text \<open>What a client gets to see of a payload.\<close>

fun scrub_payload :: "server_response_payload \<Rightarrow> server_response_payload" where
  "scrub_payload (PayGoals r) = PayGoals (map scrub_goal_summary r)"
| "scrub_payload (PayGoalView r) = PayGoalView (scrub_goal_view r)"
| "scrub_payload (PayGoalReports r) = PayGoalReports (scrub_goal_reports r)"
| "scrub_payload (PayGoalReport r) = PayGoalReport (scrub_goal_report r)"
| "scrub_payload p = p"

lemma decode_payload_roundtrip [wire_simps]:
  assumes "payload_ok p"
  shows "decode_payload (encode_payload p) = Inr (scrub_payload p)"
  using assms
  by (cases p) (simp_all add: decode_payload_def wire_simps json_get_object cong: and_then_weak_cong)

lemma encode_payload_json [json_oks]: "payload_ok p \<Longrightarrow> 6 \<le> n \<Longrightarrow> json_ok n (encode_payload p)"
  by (cases p) (auto simp: json_oks intro!: json_ok_objectI)

section \<open>Response results\<close>

definition encode_response_result :: "server_response \<Rightarrow> json" where
  "encode_response_result response =
     json_object [(''client_id'', JString (rsp_client_id response)),
       (''actor_id'', JString (rsp_actor_id response)),
       (''input_origin'', JString (input_origin_name (rsp_input_origin response))),
       (''payload'', encode_payload (rsp_payload response))]"

definition decode_response_result :: "string \<Rightarrow> json \<Rightarrow> server_response transport_result" where
  "decode_response_result request_id result =
     and_then (and_then (ok_or (Protocol ''missing payload'') (json_get result ''payload'')) decode_payload) (\<lambda>payload.
     and_then (wire_string result ''client_id'') (\<lambda>client_id.
     and_then (wire_string result ''actor_id'') (\<lambda>actor_id.
     and_then (and_then (wire_string result ''input_origin'') parse_input_origin) (\<lambda>input_origin.
     Inr \<lparr>rsp_request_id = request_id, rsp_client_id = client_id, rsp_actor_id = actor_id,
       rsp_input_origin = input_origin, rsp_payload = payload\<rparr>))))"

lemma decode_response_result_roundtrip:
  "payload_ok (rsp_payload r) \<Longrightarrow>
   decode_response_result (rsp_request_id r) (encode_response_result r) = Inr (r\<lparr>rsp_payload := scrub_payload (rsp_payload r)\<rparr>)"
  by (cases r)
    (simp add: decode_response_result_def encode_response_result_def wire_simps json_get_object ok_or_def
      cong: and_then_weak_cong)

lemma encode_response_result_json [json_oks]:
  "payload_ok (rsp_payload r) \<Longrightarrow> 7 \<le> n \<Longrightarrow> json_ok n (encode_response_result r)"
  unfolding encode_response_result_def by (rule json_ok_objectI) (simp_all add: json_oks)

end
