(* ===== verification/Jsonrpc.thy ===== *)
theory Jsonrpc
  imports Transport_Command Transport_Response
begin

text \<open>
  \<open>capo-server/src/transport/jsonrpc.rs\<close>, the JSON-RPC 2.0 envelope of requests, responses, errors and
  notifications; with \<open>ServerRequest\<close> and the default request ids of \<open>types.rs\<close>, and the event
  notifications of \<open>transport.rs\<close>.  The text of a frame is written and parsed by \<open>serde_json\<close>, the
  argument \<open>sj\<close>.

  Shown here: a request survives the wire unchanged, a response arrives scrubbed, an error arrives as
  a remote error with its kind, an event notification gives the event back.
\<close>

section \<open>Requests a client makes\<close>

fun default_request_id :: "server_command \<Rightarrow> string" where
  "default_request_id (CmdRegisterAgent name _) =
     ''server-agent-register-'' @ slug name"
| "default_request_id (CmdSendTask agent_name goal _) =
     ''server-task-send-'' @ slug agent_name @ ''-'' @ slug goal"
| "default_request_id (CmdSteerAgent agent_name goal) =
     ''server-agent-steer-'' @ slug agent_name @ ''-'' @ stable_hash goal"
| "default_request_id (CmdInterruptAgent agent_name reason) =
     ''server-agent-interrupt-'' @ slug agent_name @ ''-'' @ stable_hash reason"
| "default_request_id (CmdStopAgent agent_name reason) =
     ''server-agent-stop-'' @ slug agent_name @ ''-'' @ stable_hash reason"
| "default_request_id CmdListAgents =
     ''server-agent-list''"
| "default_request_id (CmdAgentStatus agent_name) =
     ''server-agent-status-'' @ slug agent_name"
| "default_request_id (CmdRegisterRuntimeTarget r) =
     ''server-runtime-target-register-'' @ slug (rrt_runtime_target_id r)"
| "default_request_id (CmdDashboard _) =
     ''server-dashboard''"
| "default_request_id (CmdStartSession agent_name goal adapter session_id run_id) =
     ''server-session-start-'' @ slug adapter @ ''-'' @ slug agent_name @ ''-''
     @ (case session_id of Some s \<Rightarrow> slug s | None \<Rightarrow> ''auto-session'') @ ''-''
     @ (case run_id of Some r \<Rightarrow> slug r | None \<Rightarrow> ''auto-run'') @ ''-'' @ stable_hash goal"
| "default_request_id (CmdReplayAdapterFixture r) =
     ''server-adapter-replay-'' @ slug (raf_adapter r) @ ''-'' @ slug (raf_session_id r) @ ''-''
     @ slug (raf_run_id r) @ ''-'' @ slug (raf_turn_id r) @ ''-'' @ slug (raf_fixture_name r)"
| "default_request_id (CmdPlanDispatch r) =
     ''server-dispatch-plan-'' @ slug (pld_adapter r) @ ''-'' @ slug (pld_agent_name r) @ ''-'' @ slug (pld_goal r)"
| "default_request_id (CmdPreflightLiveProvider r) =
     ''server-dispatch-live-preflight-'' @ slug (plp_adapter r) @ ''-'' @ slug (plp_agent_name r) @ ''-''
     @ slug (plp_session_id r) @ ''-'' @ slug (plp_run_id r) @ ''-'' @ slug (plp_turn_id r) @ ''-'' @ stable_hash (plp_goal r)"
| "default_request_id (CmdGateDispatch dispatch_plan_id) =
     ''server-dispatch-gate-'' @ slug dispatch_plan_id"
| "default_request_id (CmdRunDispatchLocal dispatch_plan_id fixture_name _) =
     ''server-dispatch-run-local-'' @ slug dispatch_plan_id @ ''-'' @ slug fixture_name"
| "default_request_id (CmdRunLiveProviderLocal r) =
     ''server-dispatch-live-run-local-'' @ slug (rll_dispatch_plan_id r) @ ''-'' @ stable_hash (rll_goal r) @ ''-''
     @ (case rll_mock_provider_output_name r of Some n \<Rightarrow> slug n | None \<Rightarrow> ''provider'')"
| "default_request_id (CmdRunDispatchTurn r) =
     ''server-dispatch-turn-'' @ slug (rdt_adapter r) @ ''-'' @ slug (rdt_agent_name r) @ ''-''
     @ slug (rdt_session_id r) @ ''-'' @ slug (rdt_run_id r) @ ''-'' @ slug (rdt_turn_id r) @ ''-'' @ stable_hash (rdt_goal r)"
| "default_request_id (CmdRunAcpLiveTurnLocal r) =
     ''server-acp-live-turn-'' @ slug (rat_session_id r) @ ''-'' @ slug (rat_run_id r) @ ''-''
     @ slug (rat_turn_id r) @ ''-'' @ stable_hash (rat_goal r)"
| "default_request_id (CmdRunConductorTurnLocal r) =
     ''server-conductor-turn-'' @ slug (rct_session_id r) @ ''-'' @ slug (rct_run_id r) @ ''-''
     @ slug (rct_turn_id r) @ ''-'' @ stable_hash (rct_conductor_goal r) @ ''-'' @ stable_hash (rct_user_message r)"
| "default_request_id CmdRecover =
     ''server-recover''"
| "default_request_id (CmdSubscribe session_id from_sequence) =
     ''server-subscribe-'' @ (case session_id of Some s \<Rightarrow> slug s | None \<Rightarrow> ''all'') @ ''-''
     @ int_to_string from_sequence"
| "default_request_id (CmdReadThread session_id from_sequence) =
     ''server-thread-'' @ slug session_id @ ''-'' @ int_to_string from_sequence"
| "default_request_id (CmdSetGoal spec) =
     ''server-goal-set-'' @ slug (gs_goal_id spec)"
| "default_request_id (CmdPauseGoal goal_id) =
     ''server-goal-pause-'' @ slug goal_id"
| "default_request_id (CmdResumeGoal goal_id) =
     ''server-goal-resume-'' @ slug goal_id"
| "default_request_id (CmdBlockGoal goal_id reason) =
     ''server-goal-block-'' @ slug goal_id @ ''-'' @ stable_hash reason"
| "default_request_id (CmdClearGoal goal_id reason) =
     ''server-goal-clear-'' @ slug goal_id @ ''-'' @ stable_hash reason"
| "default_request_id (CmdSetRequirementStatus r) =
     ''server-goal-requirement-'' @ slug (rsr_requirement_id r) @ ''-'' @ slug (rsr_status r)"
| "default_request_id (CmdRecordGoalReport r) =
     ''server-goal-report-'' @ slug (grc_goal_report_id r)"
| "default_request_id (CmdMarkGoalComplete goal_id) =
     ''server-goal-mark-complete-'' @ slug goal_id"
| "default_request_id CmdListGoals =
     ''server-goals-list''"
| "default_request_id (CmdViewGoal goal_id) =
     ''server-goal-view-'' @ slug goal_id"
| "default_request_id (CmdGoalStory goal_id) =
     ''server-goal-story-'' @ slug goal_id"
| "default_request_id (CmdGoalTimeline goal_id) =
     ''server-goal-timeline-'' @ slug goal_id"
| "default_request_id (CmdGoalEvidence goal_id) =
     ''server-goal-evidence-'' @ slug goal_id"
| "default_request_id (CmdGoalValidations goal_id) =
     ''server-goal-validations-'' @ slug goal_id"
| "default_request_id (CmdGoalReviews goal_id) =
     ''server-goal-reviews-'' @ slug goal_id"
| "default_request_id (CmdGoalRisks goal_id) =
     ''server-goal-risks-'' @ slug goal_id"
| "default_request_id (CmdGoalReport goal_id fmt) =
     ''server-goal-report-'' @ slug goal_id @ ''-'' @ format_as_str fmt"
| "default_request_id (CmdContinueGoal goal_id continuation_id _ _) =
     ''server-goal-continue-'' @ slug goal_id @ ''-'' @ slug continuation_id"
| "default_request_id (CmdReplayRunnerEvents frames) =
     ''server-runner-replay-'' @ nat_to_string (length frames) @ ''-''
     @ stable_hash (join_with ''|'' (map rrf_idempotency_key frames))"

definition local_cli :: "string \<Rightarrow> server_command \<Rightarrow> server_request" where
  "local_cli request_id command =
     \<lparr>sreq_request_id = request_id,
      sreq_origin = \<lparr>orig_client_id = ''local-cli'', orig_actor_id = ''local-user'', orig_input_origin = FromCli\<rparr>,
      sreq_command = command\<rparr>"

definition cli :: "server_command \<Rightarrow> server_request" where
  "cli command = local_cli (default_request_id command) command"

fun is_read_only :: "server_command \<Rightarrow> bool" where
  "is_read_only CmdListAgents = True"
| "is_read_only (CmdAgentStatus _) = True"
| "is_read_only (CmdDashboard _) = True"
| "is_read_only (CmdSubscribe _ _) = True"
| "is_read_only (CmdReadThread _ _) = True"
| "is_read_only CmdListGoals = True"
| "is_read_only (CmdViewGoal _) = True"
| "is_read_only (CmdGoalStory _) = True"
| "is_read_only (CmdGoalTimeline _) = True"
| "is_read_only (CmdGoalEvidence _) = True"
| "is_read_only (CmdGoalValidations _) = True"
| "is_read_only (CmdGoalReviews _) = True"
| "is_read_only (CmdGoalRisks _) = True"
| "is_read_only (CmdGoalReport _ _) = True"
| "is_read_only _ = False"

section \<open>Frames\<close>

definition JSONRPC_VERSION :: string where
  "JSONRPC_VERSION = ''2.0''"

definition JSONRPC_INTERNAL_ERROR :: int where
  "JSONRPC_INTERNAL_ERROR = - 32603"

definition parse_wire_value :: "serde \<Rightarrow> string \<Rightarrow> json transport_result" where
  "parse_wire_value sj line = (case from_text sj line of Inl e \<Rightarrow> Inl (TransportJson e) | Inr v \<Rightarrow> Inr v)"

definition expect_version :: "json \<Rightarrow> unit transport_result" where
  "expect_version value =
     (let version = Option.bind (json_get value ''jsonrpc'') value_as_str in
      if version = Some JSONRPC_VERSION then Inr ()
      else Inl (Protocol (''unsupported jsonrpc version: '' @ unwrap_or ''<missing>'' version)))"

definition method_of :: "json \<Rightarrow> string" where
  "method_of command_value = unwrap_or ''unknown'' (Option.bind (json_get command_value ''type'') value_as_str)"

text \<open>\<open>map.remove(key); map.insert(key', v)\<close> on a value that is an object.\<close>

definition btree_remove :: "string \<Rightarrow> (string \<times> 'v) list \<Rightarrow> (string \<times> 'v) list" where
  "btree_remove k m = filter (\<lambda>(k', v). k' \<noteq> k) m"

definition swap_key :: "string \<Rightarrow> string \<Rightarrow> json \<Rightarrow> json \<Rightarrow> json option" where
  "swap_key old new v value =
     (case value of JObject m \<Rightarrow> Some (JObject (btree_insert new v (btree_remove old m))) | _ \<Rightarrow> None)"

definition encode_request :: "serde \<Rightarrow> server_request \<Rightarrow> string" where
  "encode_request sj request =
     (let command_value = encode_command (sreq_command request);
          method = method_of command_value;
          params = unwrap_or command_value
            (swap_key ''type'' ''origin'' (encode_origin (sreq_origin request)) command_value)
      in to_text sj (json_object
           [(''jsonrpc'', JString JSONRPC_VERSION),
            (''id'', JString (sreq_request_id request)),
            (''method'', JString method),
            (''params'', params)]))"

definition decode_request :: "serde \<Rightarrow> string \<Rightarrow> server_request transport_result" where
  "decode_request sj line =
     and_then (parse_wire_value sj line) (\<lambda>value.
     and_then (expect_version value) (\<lambda>_.
     and_then (wire_string value ''method'') (\<lambda>method.
     and_then (wire_value value ''params'') (\<lambda>params.
     and_then (and_then (ok_or (Protocol ''missing params.origin'') (json_get params ''origin'')) decode_origin) (\<lambda>origin.
     and_then (ok_or (Protocol ''params must be a JSON object'')
       (swap_key ''origin'' ''type'' (JString method) params)) (\<lambda>command_value.
     and_then (decode_command command_value) (\<lambda>command.
     and_then (wire_string value ''id'') (\<lambda>request_id.
     Inr \<lparr>sreq_request_id = request_id, sreq_origin = origin, sreq_command = command\<rparr>))))))))"

definition encode_success_response :: "serde \<Rightarrow> server_response \<Rightarrow> string" where
  "encode_success_response sj response =
     to_text sj (json_object
       [(''jsonrpc'', JString JSONRPC_VERSION),
        (''id'', JString (rsp_request_id response)),
        (''result'', encode_response_result response)])"

definition encode_error_response ::
  "serde \<Rightarrow> (state_error \<Rightarrow> string) \<Rightarrow> string option \<Rightarrow> transport_error \<Rightarrow> string" where
  "encode_error_response sj dbg request_id error =
     (let (kind, message) = transport_error_wire dbg error in
      to_text sj (json_object
        [(''jsonrpc'', JString JSONRPC_VERSION),
         (''id'', j_opt_str request_id),
         (''error'', json_object
            [(''code'', j_int JSONRPC_INTERNAL_ERROR),
             (''message'', JString message),
             (''data'', json_object [(''kind'', JString kind)])])]))"

definition decode_response :: "serde \<Rightarrow> string \<Rightarrow> server_response transport_result" where
  "decode_response sj line =
     and_then (parse_wire_value sj line) (\<lambda>value.
     and_then (expect_version value) (\<lambda>_.
     (case (case json_get value ''error'' of Some JNull \<Rightarrow> None | e \<Rightarrow> e) of
        Some error \<Rightarrow>
          and_then (wire_string error ''message'') (\<lambda>message.
          Inl (Remote
            (unwrap_or ''remote'' (Option.bind (Option.bind (json_get error ''data'') (\<lambda>data. json_get data ''kind''))
              value_as_str)) message))
      | None \<Rightarrow>
          and_then (wire_value value ''result'') (\<lambda>result.
          and_then (wire_string value ''id'') (\<lambda>request_id. decode_response_result request_id result)))))"

record notification =
  not_method :: string
  not_params :: json

definition encode_notification :: "serde \<Rightarrow> notification \<Rightarrow> string" where
  "encode_notification sj n =
     to_text sj (json_object
       [(''jsonrpc'', JString JSONRPC_VERSION), (''method'', JString (not_method n)), (''params'', not_params n)])"

definition decode_notification :: "serde \<Rightarrow> string \<Rightarrow> notification transport_result" where
  "decode_notification sj line =
     and_then (parse_wire_value sj line) (\<lambda>value.
     and_then (expect_version value) (\<lambda>_.
     if json_get value ''id'' \<noteq> None then Inl (Protocol ''notification frame must not carry an id'')
     else
       and_then (wire_string value ''method'') (\<lambda>method.
       and_then (wire_value value ''params'') (\<lambda>params.
       Inr \<lparr>not_method = method, not_params = params\<rparr>))))"

section \<open>Event notifications\<close>

definition EVENT_TAIL_METHOD :: string where
  "EVENT_TAIL_METHOD = ''event''"

definition CANCEL_METHOD :: string where
  "CANCEL_METHOD = ''cancel''"

definition INTERRUPT_METHOD :: string where
  "INTERRUPT_METHOD = ''interrupt''"

definition for_event :: "server_event \<Rightarrow> notification" where
  "for_event e = \<lparr>not_method = EVENT_TAIL_METHOD, not_params = json_object [(''event'', encode_event e)]\<rparr>"

definition notification_event :: "notification \<Rightarrow> server_event transport_result" where
  "notification_event n =
     (if not_method n \<noteq> EVENT_TAIL_METHOD
      then Inl (Protocol (''not an event-tail notification: method='' @ not_method n))
      else and_then (ok_or (Protocol ''missing params.event'') (json_get (not_params n) ''event'')) decode_event)"

definition interrupt_frame :: "serde \<Rightarrow> string \<Rightarrow> string \<Rightarrow> string" where
  "interrupt_frame sj session_id reason =
     encode_notification sj
       \<lparr>not_method = INTERRUPT_METHOD,
        not_params = json_object [(''session_id'', JString session_id), (''reason'', JString reason)]\<rparr>"

section \<open>Taking a command apart and putting it together again\<close>

lemma sorted_map_of_eq:
  fixes m m' :: "(string \<times> 'v) list"
  assumes "sorted_wrt (<) (map fst m)" "sorted_wrt (<) (map fst m')" "map_of m = map_of m'"
  shows "m = m'"
proof (rule map_sorted_distinct_set_unique)
  have d: "distinct (map fst m)" "distinct (map fst m')" using assms(1,2) by (simp_all add: strict_sorted_iff)
  then show set: "set m = set m'" using assms(3) by (metis map_of_inject_set)
  show "inj_on fst (set m \<union> set m')" using d set by (simp add: distinct_map)
qed (use assms in \<open>simp_all add: strict_sorted_iff\<close>)

lemma sorted_btree_remove: "sorted_wrt (<) (map fst m) \<Longrightarrow> sorted_wrt (<) (map fst (btree_remove k m))"
  by (induction m) (auto simp: btree_remove_def)

lemma map_of_btree_remove: "map_of (btree_remove k m) = (map_of m)(k := None)"
  by (induction m) (auto simp: btree_remove_def fun_eq_iff)

lemma set_btree_remove: "set (btree_remove k m) \<subseteq> set m"
  by (auto simp: btree_remove_def)

text \<open>Swapping a key away and back restores the object.\<close>

lemma swap_key_back:
  assumes "sorted_wrt (<) (map fst m)" "map_of m old = Some v" "map_of m new = None" "old \<noteq> new"
  shows "btree_insert old v (btree_remove new (btree_insert new w (btree_remove old m))) = m"
proof (rule sorted_map_of_eq)
  show "map_of (btree_insert old v (btree_remove new (btree_insert new w (btree_remove old m)))) = map_of m"
    using assms by (auto simp: map_of_btree_remove fun_eq_iff)
qed (use assms(1) in \<open>simp_all add: sorted_btree_insert sorted_btree_remove\<close>)

lemmas command_fields_defs = register_runtime_target_fields_def replay_adapter_fixture_fields_def
  plan_dispatch_fields_def preflight_live_provider_fields_def run_live_provider_local_fields_def
  run_dispatch_turn_fields_def run_acp_live_turn_local_fields_def run_conductor_turn_local_fields_def
  requirement_status_fields_def goal_report_record_fields_def

lemma command_has_type: "\<exists>t. json_get (encode_command c) ''type'' = Some (JString t)"
  by (cases c) (simp_all add: json_get_object command_fields_defs)

lemma command_has_no_origin: "json_get (encode_command c) ''origin'' = None"
  by (cases c) (simp_all add: json_get_object command_fields_defs)

lemma command_is_object: "\<exists>m. encode_command c = JObject m \<and> sorted_wrt (<) (map fst m)"
proof -
  have "\<exists>kvs. encode_command c = json_object kvs" by (cases c) auto
  then show ?thesis by (auto simp: json_object_def btree_of_def intro!: sorted_fold_btree)
qed

lemma fold_max_upper: "y \<le> a \<or> (\<exists>x \<in> set xs. y \<le> f x) \<Longrightarrow> y \<le> fold max (map f xs) (a :: nat)"
  by (induction xs arbitrary: a) (auto simp: le_max_iff_disj)

lemma json_ok_swap:
  assumes "json_ok n (JObject m)" "json_ok (n - 1) v" "1 < n"
  shows "json_ok n (JObject (btree_insert new v (btree_remove old m)))"
proof -
  let ?m = "btree_insert new v (btree_remove old m)"
  have sub: "set ?m \<subseteq> insert (new, v) (set m)" using set_btree_insert [of new v] set_btree_remove [of old m] by blast
  have "json_depth w < n - 1" if "w \<in> snd ` set m" for w
    using assms(1) that fold_max_upper [of "json_depth w" 0 "map snd m" json_depth] by (fastforce simp: json_ok_def)
  then have "json_depth (snd kv) < n - 1" if "kv \<in> set ?m" for kv
    using sub assms(2) that by (cases "kv = (new, v)") (auto simp: json_ok_def)
  then have "\<forall>w \<in> set (map snd ?m). json_depth w < n - 1" by auto
  then have "fold max (map json_depth (map snd ?m)) 0 < n - 1" using assms(3) by (intro fold_max_bound) auto
  moreover have "list_all json_wf (map snd ?m)" using sub assms(1,2) by (auto simp: json_ok_def list_all_iff)
  moreover have "sorted_wrt (<) (map fst ?m)"
    using assms(1) by (simp add: json_ok_def sorted_btree_insert sorted_btree_remove)
  ultimately show ?thesis by (simp add: json_ok_def)
qed

section \<open>Round trips\<close>

lemma parse_to_text:
  assumes "serde_json sj" "json_ok n v" "n \<le> 128"
  shows "parse_wire_value sj (to_text sj v) = Inr v"
  using serde_json.from_to [OF assms(1) json_ok_plain [OF assms(2,3)]] by (simp add: parse_wire_value_def)

lemma expect_version_ok [wire_simps]:
  "json_get v ''jsonrpc'' = Some (JString JSONRPC_VERSION) \<Longrightarrow> expect_version v = Inr ()"
  by (simp add: expect_version_def)

lemma decode_encode_request:
  assumes "serde_json sj" "command_ok (sreq_command r)"
  shows "decode_request sj (encode_request sj r) = Inr r"
proof -
  let ?c = "sreq_command r" and ?o = "encode_origin (sreq_origin r)"
  obtain m where m: "encode_command ?c = JObject m" "sorted_wrt (<) (map fst m)" using command_is_object by blast
  obtain t where t: "json_get (encode_command ?c) ''type'' = Some (JString t)" using command_has_type by blast
  let ?p = "JObject (btree_insert ''origin'' ?o (btree_remove ''type'' m))"
  let ?f = "json_object [(''jsonrpc'', JString JSONRPC_VERSION), (''id'', JString (sreq_request_id r)),
     (''method'', JString t), (''params'', ?p)]"
  have "json_ok 5 ?p" using assms(2) m(1) json_ok_swap [of 5 m ?o] encode_command_json [of ?c 5] encode_origin_json [of 4] by simp
  then have "json_ok 6 ?f" by (intro json_ok_objectI) (simp_all add: json_oks)
  then have parse: "parse_wire_value sj (to_text sj ?f) = Inr ?f" by (rule parse_to_text [OF assms(1)]) simp
  have enc: "encode_request sj r = to_text sj ?f"
    using t by (simp add: encode_request_def method_of_def swap_key_def m(1) unwrap_or_def Let_def)
  have restored: "swap_key ''origin'' ''type'' (JString t) ?p = Some (encode_command ?c)"
    using swap_key_back [OF m(2), of "''type''" "JString t" "''origin''" ?o] t command_has_no_origin [of ?c] m(1)
    by (simp add: swap_key_def)
  have "json_get ?p ''origin'' = Some ?o" by simp
  then show ?thesis
    using restored decode_command_roundtrip [OF assms(2)]
    by (simp add: decode_request_def enc parse wire_simps json_get_object ok_or_def del: json_get.simps
        cong: and_then_weak_cong)
qed

lemma decode_encode_success:
  assumes "serde_json sj" "payload_ok (rsp_payload r)"
  shows "decode_response sj (encode_success_response sj r) = Inr (r\<lparr>rsp_payload := scrub_payload (rsp_payload r)\<rparr>)"
proof -
  let ?f = "json_object [(''jsonrpc'', JString JSONRPC_VERSION), (''id'', JString (rsp_request_id r)),
     (''result'', encode_response_result r)]"
  have "json_ok 8 ?f" using assms(2) by (intro json_ok_objectI) (simp_all add: json_oks)
  then have "parse_wire_value sj (to_text sj ?f) = Inr ?f" by (rule parse_to_text [OF assms(1)]) simp
  then show ?thesis
    using decode_response_result_roundtrip [OF assms(2)]
    by (simp add: decode_response_def encode_success_response_def wire_simps json_get_object cong: and_then_weak_cong)
qed

lemma json_object_not_null: "json_object kvs \<noteq> JNull"
  by (simp add: json_object_def)

lemma decode_encode_error:
  assumes "serde_json sj"
  shows "decode_response sj (encode_error_response sj dbg rid e)
     = Inl (Remote (fst (transport_error_wire dbg e)) (snd (transport_error_wire dbg e)))"
proof -
  obtain kind message where w: "transport_error_wire dbg e = (kind, message)" by fastforce
  let ?e = "json_object [(''code'', j_int JSONRPC_INTERNAL_ERROR), (''message'', JString message),
     (''data'', json_object [(''kind'', JString kind)])]"
  let ?f = "json_object [(''jsonrpc'', JString JSONRPC_VERSION), (''id'', j_opt_str rid), (''error'', ?e)]"
  have "json_ok 2 (json_object [(''kind'', JString kind)])" by (rule json_ok_objectI) (simp_all add: json_oks)
  then have "json_ok 3 ?e"
    by (intro json_ok_objectI) (simp_all add: json_oks JSONRPC_INTERNAL_ERROR_def i64_ok_def)
  then have "json_ok 4 ?f" by (intro json_ok_objectI) (simp_all add: json_oks)
  then have parse: "parse_wire_value sj (to_text sj ?f) = Inr ?f" by (rule parse_to_text [OF assms(1)]) simp
  have "(case Some ?e of Some JNull \<Rightarrow> None | x \<Rightarrow> x) = Some ?e" by (simp add: json_object_def)
  then show ?thesis
    by (simp add: decode_response_def encode_error_response_def w parse wire_simps json_get_object unwrap_or_def
        cong: and_then_weak_cong)
qed

lemma decode_encode_notification:
  assumes "serde_json sj" "json_ok 127 (not_params n)"
  shows "decode_notification sj (encode_notification sj n) = Inr n"
proof -
  let ?f = "json_object [(''jsonrpc'', JString JSONRPC_VERSION), (''method'', JString (not_method n)), (''params'', not_params n)]"
  have "json_ok 128 ?f" using assms(2) by (intro json_ok_objectI) (simp_all add: json_oks)
  then have "parse_wire_value sj (to_text sj ?f) = Inr ?f" by (rule parse_to_text [OF assms(1)]) simp
  then show ?thesis
    by (cases n)
      (simp add: decode_notification_def encode_notification_def wire_simps json_get_object cong: and_then_weak_cong)
qed

lemma event_notification_roundtrip:
  assumes "serde_json sj" "event_ok e"
  shows "and_then (decode_notification sj (encode_notification sj (for_event e))) notification_event = Inr e"
proof -
  have "json_ok 127 (not_params (for_event e))"
    using assms(2) by (simp add: for_event_def) (intro json_ok_objectI, simp_all add: json_oks)
  then show ?thesis
    using decode_encode_notification [OF assms(1)] assms(2)
    by (simp add: notification_event_def for_event_def json_get_object ok_or_def wire_simps)
qed

end
