(* ===== verification/Frame_Reader.thy ===== *)
theory Frame_Reader
  imports Jsonrpc Json_Text
begin

text \<open>
  The framing of \<open>capo-server/src/transport.rs\<close>: one JSON text per line, read from a buffered socket
  whose bytes arrive in chunks of any size.  \<open>read_bounded_line\<close>, \<open>drain_to_line_end\<close>, \<open>read_frame\<close>,
  \<open>classify_frame\<close> and \<open>write_frame\<close>.

  A reader is the chunks that are still to come and what happens after the last one: the peer closed
  the connection, or reading failed.  An idle timeout is such a failure.  The server reads through
  \<open>BufReader::new\<close>, so a chunk has at most 8 KiB there (\<open>reader_buffered\<close>); the loops are defined, and
  the round trip is shown, for chunks of any size, which covers those.

  Shown here: both loops end; a line is read the same way however its bytes are cut into chunks; the
  frames a client writes are read back one by one; an oversized line costs the frame after it when
  the chunk that crosses the bound holds the end of the line.
\<close>

section \<open>Reading\<close>

definition MAX_TRANSPORT_FRAME_BYTES :: nat where
  "MAX_TRANSPORT_FRAME_BYTES = 384 * 1024"

abbreviation newline :: char where "newline \<equiv> CHR 0x0A"

datatype io_error = IoTimeout | IoFailed string

datatype stream_end = PeerClosed | ReadFails io_error

record reader =
  rd_chunks :: "string list"
  rd_end :: stream_end

definition fill_buf :: "reader \<Rightarrow> (io_error, string) result" where
  "fill_buf rd =
     (case rd_chunks rd of
        available # _ \<Rightarrow> Inr available
      | [] \<Rightarrow> (case rd_end rd of PeerClosed \<Rightarrow> Inr [] | ReadFails e \<Rightarrow> Inl e))"

definition consume :: "nat \<Rightarrow> reader \<Rightarrow> reader" where
  "consume n rd =
     (case rd_chunks rd of
        [] \<Rightarrow> rd
      | c # cs \<Rightarrow> rd\<lparr>rd_chunks := (if n < length c then drop n c # cs else cs)\<rparr>)"

text \<open>\<open>position(newline)\<close>, plus one, or the length of the chunk.\<close>

fun upto_newline :: "string \<Rightarrow> nat" where
  "upto_newline [] = 0"
| "upto_newline (c # cs) = (if c = newline then 1 else Suc (upto_newline cs))"

definition unread :: "reader \<Rightarrow> string" where
  "unread rd = concat (rd_chunks rd)"

datatype line_result = LineRead bool | LineTooLarge | LineIo io_error

lemma upto_newline_le: "upto_newline s \<le> length s"
  by (induction s rule: upto_newline.induct) auto

lemma upto_newline_pos: "s \<noteq> [] \<Longrightarrow> 0 < upto_newline s"
  by (cases s) auto

lemma unread_consume:
  "rd_chunks rd = c # cs \<Longrightarrow> n \<le> length c \<Longrightarrow> unread (consume n rd) = drop n c @ concat cs"
  by (simp add: consume_def unread_def)

lemma consume_shrinks:
  "fill_buf rd = Inr s \<Longrightarrow> s \<noteq> [] \<Longrightarrow> length (unread (consume (upto_newline s) rd)) < length (unread rd)"
  using upto_newline_pos [of s] upto_newline_le [of s]
  by (auto simp: fill_buf_def consume_def unread_def split: list.splits stream_end.splits)

function drain_to_line_end :: "reader \<Rightarrow> (io_error, unit) result \<times> reader" where
  "drain_to_line_end rd =
     (case fill_buf rd of
        Inl e \<Rightarrow> (Inl e, rd)
      | Inr available \<Rightarrow>
          if available = [] then (Inr (), rd)
          else
            (let consumed = upto_newline available;
                 has_newline = newline \<in> set (take consumed available);
                 rd' = consume consumed rd
             in if has_newline then (Inr (), rd') else drain_to_line_end rd'))"
  by auto
termination
  by (relation "measure (\<lambda>rd. length (unread rd))") (auto simp: consume_shrinks)

function read_bounded_line :: "reader \<Rightarrow> string \<Rightarrow> line_result \<times> string \<times> reader" where
  "read_bounded_line rd line =
     (case fill_buf rd of
        Inl e \<Rightarrow> (LineIo e, line, rd)
      | Inr available \<Rightarrow>
          if available = [] then (LineRead (line \<noteq> []), line, rd)
          else
            (let consumed = upto_newline available;
                 rd' = consume consumed rd
             in if length line + consumed > MAX_TRANSPORT_FRAME_BYTES then
                  (case drain_to_line_end rd' of
                     (Inl e, rd'') \<Rightarrow> (LineIo e, line, rd'')
                   | (Inr _, rd'') \<Rightarrow> (LineTooLarge, line, rd''))
                else
                  (let line' = line @ take consumed available in
                   if last line' = newline then (LineRead True, line', rd')
                   else read_bounded_line rd' line')))"
  by auto
termination
  by (relation "measure (\<lambda>(rd, line). length (unread rd))") (auto simp: consume_shrinks)

declare drain_to_line_end.simps [simp del] read_bounded_line.simps [simp del]

section \<open>Frames\<close>

datatype frame =
    FrameRequest server_request
  | FrameCancel "string option"
  | FrameInterrupt "string option" string
  | FrameInvalid "string option" transport_error

definition json_string_at :: "string \<Rightarrow> json option \<Rightarrow> string option" where
  "json_string_at key v = Option.bind (Option.bind v (\<lambda>p. json_get p key)) value_as_str"

definition classify_frame :: "serde \<Rightarrow> string \<Rightarrow> frame transport_result" where
  "classify_frame sj line =
     and_then (parse_wire_value sj line) (\<lambda>value.
     (let is_notification = (json_get value ''id'' = None);
          method = Option.bind (json_get value ''method'') value_as_str;
          params = json_get value ''params''
      in if is_notification \<and> method = Some CANCEL_METHOD then
           Inr (FrameCancel (json_string_at ''request_id'' params))
         else if is_notification \<and> method = Some INTERRUPT_METHOD then
           Inr (FrameInterrupt (json_string_at ''session_id'' params)
             (unwrap_or ''interrupt requested'' (json_string_at ''reason'' params)))
         else and_then (decode_request sj line) (\<lambda>request. Inr (FrameRequest request))))"

text \<open>\<open>String::from_utf8\<close> accepts exactly the well-formed sequences of RFC 3629.\<close>

fun valid_utf8 :: "string \<Rightarrow> bool" where
  "valid_utf8 [] = True"
| "valid_utf8 (a # r) =
     (let n = byte_of a; cont = (\<lambda>lo hi c. lo \<le> byte_of c \<and> byte_of c \<le> hi) in
      if n < 0x80 then valid_utf8 r
      else
        (case r of
           [] \<Rightarrow> False
         | b # r1 \<Rightarrow>
             if 0xC2 \<le> n \<and> n \<le> 0xDF then cont 0x80 0xBF b \<and> valid_utf8 r1
             else
               (case r1 of
                  [] \<Rightarrow> False
                | c # r2 \<Rightarrow>
                    if 0xE0 \<le> n \<and> n \<le> 0xEF then
                      cont (if n = 0xE0 then 0xA0 else 0x80) (if n = 0xED then 0x9F else 0xBF) b
                      \<and> cont 0x80 0xBF c \<and> valid_utf8 r2
                    else
                      (case r2 of
                         [] \<Rightarrow> False
                       | d # r3 \<Rightarrow>
                           0xF0 \<le> n \<and> n \<le> 0xF4
                           \<and> cont (if n = 0xF0 then 0x90 else 0x80) (if n = 0xF4 then 0x8F else 0xBF) b
                           \<and> cont 0x80 0xBF c \<and> cont 0x80 0xBF d \<and> valid_utf8 r3))))"

text \<open>
  \<open>Ok(None)\<close> and \<open>Err(_)\<close> both close the connection, so they are one outcome here; the message of the
  oversized frame names the bound.
\<close>

definition too_large :: transport_error where
  "too_large = Protocol (''request frame is too large: > '' @ nat_to_string MAX_TRANSPORT_FRAME_BYTES @ '' bytes'')"

definition read_frame :: "serde \<Rightarrow> reader \<Rightarrow> frame option \<times> reader" where
  "read_frame sj rd =
     (case read_bounded_line rd [] of
        (LineRead False, line, rd') \<Rightarrow> (None, rd')
      | (LineIo e, line, rd') \<Rightarrow> (None, rd')
      | (LineTooLarge, line, rd') \<Rightarrow> (Some (FrameInvalid None too_large), rd')
      | (LineRead True, line, rd') \<Rightarrow>
          (case (if valid_utf8 line then classify_frame sj line
                 else Inl (Protocol ''request frame is not valid utf-8'')) of
             Inr f \<Rightarrow> (Some f, rd')
           | Inl e \<Rightarrow> (Some (FrameInvalid None e), rd')))"

definition write_frame :: "string \<Rightarrow> string \<Rightarrow> string" where
  "write_frame stream f = stream @ f @ [newline]"

section \<open>Reading does not depend on how the bytes arrive\<close>

text \<open>Chunks are what \<open>fill_buf\<close> returns before the end of the stream: never empty.\<close>

definition reader_wf :: "reader \<Rightarrow> bool" where
  "reader_wf rd \<longleftrightarrow> [] \<notin> set (rd_chunks rd)"

lemma consume_wf: "reader_wf rd \<Longrightarrow> reader_wf (consume n rd)"
  by (auto simp: reader_wf_def consume_def split: list.splits)

lemma consume_end [simp]: "rd_end (consume n rd) = rd_end rd"
  by (simp add: consume_def split: list.splits)

lemma upto_newline_absent: "newline \<notin> set s \<Longrightarrow> upto_newline s = length s"
  by (induction s rule: upto_newline.induct) auto

lemma upto_newline_append: "newline \<in> set s \<Longrightarrow> upto_newline (s @ t) = upto_newline s"
  by (induction s rule: upto_newline.induct) auto

lemma upto_newline_line: "newline \<notin> set f \<Longrightarrow> upto_newline (f @ newline # t) = Suc (length f)"
  by (induction f) auto

text \<open>The specification: the next line of the bytes still to come.\<close>

lemma read_line:
  assumes "reader_wf rd" "unread rd = f @ newline # rest" "newline \<notin> set f" "newline \<notin> set line"
    "length line + Suc (length f) \<le> MAX_TRANSPORT_FRAME_BYTES"
  shows "\<exists>rd'. read_bounded_line rd line = (LineRead True, line @ f @ [newline], rd')
     \<and> reader_wf rd' \<and> unread rd' = rest \<and> rd_end rd' = rd_end rd"
  using assms
proof (induction rd line arbitrary: f rule: read_bounded_line.induct)
  case (1 rd line)
  obtain c cs where chunks: "rd_chunks rd = c # cs" using 1(3) by (cases "rd_chunks rd") (auto simp: unread_def)
  have c: "c \<noteq> []" using 1(2) chunks by (auto simp: reader_wf_def)
  have fill: "fill_buf rd = Inr c" by (simp add: fill_buf_def chunks)
  have bytes: "c @ concat cs = f @ newline # rest" using 1(3) chunks by (simp add: unread_def)
  let ?k = "upto_newline c" and ?rd = "consume (upto_newline c) rd"
  have wf: "reader_wf ?rd" "rd_end ?rd = rd_end rd" using 1(2) by (simp_all add: consume_wf)
  have rest: "unread ?rd = drop ?k c @ concat cs" using unread_consume [OF chunks upto_newline_le] .
  show ?case
  proof (cases "newline \<in> set c")
    case True
    then have k: "?k = Suc (length f)" using upto_newline_append [OF True, of "concat cs"] bytes 1(4)
      by (simp add: upto_newline_line)
    then have "take ?k c = take ?k (c @ concat cs)" using upto_newline_le [of c] by simp
    also have "\<dots> = f @ [newline]" by (simp add: k bytes)
    finally have take: "take ?k c = f @ [newline]" .
    have "drop ?k c @ concat cs = drop ?k (c @ concat cs)" using upto_newline_le [of c] by simp
    also have "\<dots> = rest" by (simp add: k bytes)
    finally show ?thesis
      using wf rest take k 1(6) by (simp add: read_bounded_line.simps [of rd line] fill c Let_def)
  next
    case False
    then have k: "?k = length c" by (simp add: upto_newline_absent)
    obtain g where f: "f = c @ g" "concat cs = g @ newline # rest"
      using bytes False by (auto simp: append_eq_append_conv2 append_eq_Cons_conv)
    have last: "last (line @ c) \<noteq> newline" using c False by (metis last_append last_in_set)
    have short: "\<not> MAX_TRANSPORT_FRAME_BYTES < length line + length c" using 1(6) f(1) by simp
    have "\<exists>rd'. read_bounded_line ?rd (line @ c) = (LineRead True, (line @ c) @ g @ [newline], rd')
        \<and> reader_wf rd' \<and> unread rd' = rest \<and> rd_end rd' = rd_end ?rd"
      using "1.IH" [OF fill c refl refl _ refl, of g] 1(4-6) wf(1) k short last False f rest by simp
    then show ?thesis
      using wf k short last c by (simp add: read_bounded_line.simps [of rd line] fill Let_def f(1))
  qed
qed

section \<open>The reader thread ends\<close>

lemma drain_unread: "length (unread (snd (drain_to_line_end rd))) \<le> length (unread rd)"
proof (induction rd rule: drain_to_line_end.induct)
  case (1 rd)
  show ?case
  proof (cases "fill_buf rd")
    case (Inr s)
    show ?thesis
    proof (cases "s = []")
      case False
      with 1 [OF Inr False refl refl refl] consume_shrinks [OF Inr False] show ?thesis
        by (subst drain_to_line_end.simps) (auto simp: Inr Let_def)
    qed (subst drain_to_line_end.simps, simp add: Inr)
  qed (subst drain_to_line_end.simps, simp)
qed

lemma read_unread:
  assumes "read_bounded_line rd line = (res, line', rd')"
  shows "length (unread rd') \<le> length (unread rd)
    \<and> (res = LineTooLarge \<longrightarrow> length (unread rd') < length (unread rd))
    \<and> (res = LineRead True \<longrightarrow> line = [] \<longrightarrow> length (unread rd') < length (unread rd))"
  using assms
proof (induction rd line arbitrary: res line' rd' rule: read_bounded_line.induct)
  case (1 rd line)
  show ?case
  proof (cases "fill_buf rd")
    case (Inr s)
    show ?thesis
    proof (cases "s = []")
      case False
      note less = consume_shrinks [OF Inr False]
      show ?thesis
      proof (cases "length line + upto_newline s > MAX_TRANSPORT_FRAME_BYTES")
        case True
        then show ?thesis
          using "1.prems" less drain_unread [of "consume (upto_newline s) rd"]
          by (subst (asm) read_bounded_line.simps) (auto simp: Inr False Let_def split: prod.splits sum.splits)
      next
        case small: False
        let ?line = "line @ take (upto_newline s) s" and ?rd = "consume (upto_newline s) rd"
        have "read_bounded_line rd line = (if last ?line = newline then (LineRead True, ?line, ?rd) else read_bounded_line ?rd ?line)"
          using small by (subst read_bounded_line.simps) (simp add: Inr False Let_def)
        then show ?thesis
          using "1.prems" less "1.IH" [OF Inr False refl refl small refl, of res line' rd']
          by (cases "last ?line = newline") auto
      qed
    qed (use "1.prems" in \<open>subst (asm) read_bounded_line.simps, auto simp: Inr\<close>)
  qed (use "1.prems" in \<open>subst (asm) read_bounded_line.simps, auto\<close>)
qed

lemma read_frame_shrinks: "read_frame sj rd = (Some f, rd') \<Longrightarrow> length (unread rd') < length (unread rd)"
proof -
  obtain res line rd1 where r: "read_bounded_line rd [] = (res, line, rd1)" by (cases "read_bounded_line rd []") auto
  show "read_frame sj rd = (Some f, rd') \<Longrightarrow> ?thesis"
    using read_unread [OF r] by (auto simp: read_frame_def r split: line_result.splits bool.splits sum.splits if_splits)
qed

function read_frames :: "serde \<Rightarrow> reader \<Rightarrow> frame list" where
  "read_frames sj rd =
     (case read_frame sj rd of
        (None, _) \<Rightarrow> []
      | (Some f, rd') \<Rightarrow> f # read_frames sj rd')"
  by auto
termination
  by (relation "measure (\<lambda>(sj, rd). length (unread rd))") (auto dest: read_frame_shrinks [OF sym])

declare read_frames.simps [simp del]

section \<open>One JSON text per line\<close>

text \<open>
  What line framing relies on: the text of a value holds no newline, since strings are escaped, and
  white space after a value is ignored.
\<close>

locale serde_json_lines = serde_json +
  assumes one_line: "json_plain v \<Longrightarrow> newline \<notin> set (to_text sj v)"
    and trailing_newline: "json_plain v \<Longrightarrow> from_text sj (to_text sj v @ [newline]) = Inr v"
begin

lemma value_of_line:
  assumes "json_ok n v" "n \<le> 128"
  shows "parse_wire_value sj (to_text sj v @ [newline]) = Inr v" "newline \<notin> set (to_text sj v)"
  using trailing_newline one_line json_ok_plain [OF assms] by (simp_all add: parse_wire_value_def)

end

lemma hex_digit_no_newline: "d < 16 \<Longrightarrow> hex_digit d \<noteq> newline"
  using hex_value_hex_digit [of d] by (auto simp: hex_value_def)

lemma escape_no_newline: "newline \<notin> set (escape_char c)"
proof (cases "short_escape c")
  case None
  then have "c \<noteq> newline" by (auto simp: short_escape_def)
  moreover have "hex_digit (of_char c div 16) \<noteq> newline" "hex_digit (of_char c mod 16) \<noteq> newline"
    if "of_char c < (32 :: nat)"
    using that by (auto intro!: hex_digit_no_newline)
  ultimately show ?thesis using None by (auto simp: escape_char_def Let_def)
next
  case (Some e)
  then have "e \<noteq> newline" by (auto simp: short_escape_def split: if_splits)
  then show ?thesis using Some by (simp add: escape_char_def)
qed

lemma print_string_no_newline: "newline \<notin> set (print_string s)"
  using escape_no_newline by (auto simp: print_string_def)

lemma number_no_newline: "newline \<notin> set (int_to_string i)"
proof
  assume "newline \<in> set (int_to_string i)"
  then have "is_number_char newline" using list_all_number_char [of i] by (auto simp: list_all_iff)
  then show False by (simp add: is_number_char_def digit_value_def)
qed

lemma print_json_no_newline:
  "json_wf v \<Longrightarrow> newline \<notin> set (print_json v)"
  "list_all json_wf vs \<Longrightarrow> newline \<notin> set (print_elems vs)"
  "list_all json_wf (map snd m) \<Longrightarrow> newline \<notin> set (print_members m)"
proof (induction v and vs and m rule: print_json_print_elems_print_members.induct)
  case (3 n)
  then show ?case by (cases n) (simp_all add: number_no_newline)
qed (auto simp: print_string_no_newline bool_to_string_def)

interpretation rfcl: serde_json_lines rfc8259
proof unfold_locales
  fix v assume v: "json_plain v"
  then show "newline \<notin> set (to_text rfc8259 v)"
    by (simp add: rfc8259_def json_plain_def print_json_no_newline)
  have "parse_value (Suc (length (print_json v @ [newline]))) (print_json v @ [newline]) = Some (v, [newline])"
    using v by (intro parse_print(1)) (simp_all add: json_plain_def stops_number_def is_number_char_def digit_value_def)
  then show "from_text rfc8259 (to_text rfc8259 v @ [newline]) = Inr v"
    using v by (simp add: rfc8259_def parse_json_def json_plain_def is_ws_def)
qed

section \<open>What a client writes is what the server reads\<close>

lemma decode_request_line:
  "parse_wire_value sj l = parse_wire_value sj l' \<Longrightarrow> decode_request sj l = decode_request sj l'"
  by (simp add: decode_request_def)

lemma request_text:
  assumes "command_ok (sreq_command r)"
  shows "\<exists>v. encode_request sj r = to_text sj v \<and> json_ok 6 v \<and> json_get v ''id'' = Some (JString (sreq_request_id r))"
proof -
  let ?c = "sreq_command r" and ?o = "encode_origin (sreq_origin r)"
  obtain m where m: "encode_command ?c = JObject m" using command_is_object by blast
  let ?p = "JObject (btree_insert ''origin'' ?o (btree_remove ''type'' m))"
  let ?f = "json_object [(''jsonrpc'', JString JSONRPC_VERSION), (''id'', JString (sreq_request_id r)),
     (''method'', JString (method_of (encode_command ?c))), (''params'', ?p)]"
  have "json_ok 5 ?p" using assms m json_ok_swap [of 5 m ?o] encode_command_json [of ?c 5] encode_origin_json [of 4] by simp
  then have "json_ok 6 ?f" by (intro json_ok_objectI) (simp_all add: json_oks)
  moreover have "encode_request sj r = to_text sj ?f" by (simp add: encode_request_def swap_key_def m unwrap_or_def Let_def)
  moreover have "json_get ?f ''id'' = Some (JString (sreq_request_id r))" by (simp add: json_get_object)
  ultimately show ?thesis by blast
qed

lemma classify_request:
  assumes "serde_json_lines sj" "command_ok (sreq_command r)"
  shows "classify_frame sj (encode_request sj r @ [newline]) = Inr (FrameRequest r)"
    and "newline \<notin> set (encode_request sj r)"
proof -
  have sj: "serde_json sj" using assms(1) by (simp add: serde_json_lines_def)
  obtain v where v: "encode_request sj r = to_text sj v" "json_ok 6 v" "json_get v ''id'' = Some (JString (sreq_request_id r))"
    using request_text [OF assms(2)] by blast
  have parse: "parse_wire_value sj (encode_request sj r @ [newline]) = Inr v"
    using serde_json_lines.value_of_line(1) [OF assms(1) v(2)] by (simp add: v(1))
  also have "\<dots> = parse_wire_value sj (encode_request sj r)" using parse_to_text [OF sj v(2)] by (simp add: v(1))
  finally have "decode_request sj (encode_request sj r @ [newline]) = Inr r"
    using decode_encode_request [OF sj assms(2)] decode_request_line by metis
  then show "classify_frame sj (encode_request sj r @ [newline]) = Inr (FrameRequest r)"
    by (simp add: classify_frame_def parse v(3))
  show "newline \<notin> set (encode_request sj r)"
    using serde_json_lines.value_of_line(2) [OF assms(1) v(2)] by (simp add: v(1))
qed

lemma classify_interrupt:
  assumes "serde_json_lines sj"
  shows "classify_frame sj (interrupt_frame sj sid reason @ [newline]) = Inr (FrameInterrupt (Some sid) reason)"
    and "newline \<notin> set (interrupt_frame sj sid reason)"
proof -
  let ?p = "json_object [(''session_id'', JString sid), (''reason'', JString reason)]"
  let ?f = "json_object [(''jsonrpc'', JString JSONRPC_VERSION), (''method'', JString INTERRUPT_METHOD), (''params'', ?p)]"
  have "json_ok 2 ?p" by (rule json_ok_objectI) (simp_all add: json_oks)
  then have ok: "json_ok 3 ?f" by (intro json_ok_objectI) (simp_all add: json_oks)
  have t: "interrupt_frame sj sid reason = to_text sj ?f" by (simp add: interrupt_frame_def encode_notification_def)
  show "classify_frame sj (interrupt_frame sj sid reason @ [newline]) = Inr (FrameInterrupt (Some sid) reason)"
    using serde_json_lines.value_of_line(1) [OF assms ok]
    by (simp add: classify_frame_def t json_get_object json_string_at_def unwrap_or_def INTERRUPT_METHOD_def CANCEL_METHOD_def)
  show "newline \<notin> set (interrupt_frame sj sid reason)"
    using serde_json_lines.value_of_line(2) [OF assms ok] by (simp add: t)
qed

lemma read_frame_line:
  assumes "reader_wf rd" "unread rd = f @ newline # rest" "newline \<notin> set f"
    and "length f < MAX_TRANSPORT_FRAME_BYTES" "valid_utf8 (f @ [newline])"
    and "classify_frame sj (f @ [newline]) = Inr fr"
  shows "\<exists>rd'. read_frame sj rd = (Some fr, rd') \<and> reader_wf rd' \<and> unread rd' = rest"
  using read_line [OF assms(1-3), of "[]"] assms(4-6) by (auto simp: read_frame_def)

lemma read_frames_end:
  assumes "reader_wf rd" "unread rd = []"
  shows "read_frames sj rd = []"
proof -
  have "rd_chunks rd = []" using assms by (cases "rd_chunks rd") (auto simp: unread_def reader_wf_def)
  then show ?thesis
    by (subst read_frames.simps)
      (auto simp: read_frame_def read_bounded_line.simps [of rd] fill_buf_def split: stream_end.splits)
qed

lemma frames_read_back:
  assumes "reader_wf rd" "unread rd = concat (map (\<lambda>(f, fr). f @ [newline]) fs)"
    and "\<forall>(f, fr) \<in> set fs. newline \<notin> set f \<and> length f < MAX_TRANSPORT_FRAME_BYTES \<and> valid_utf8 (f @ [newline])
      \<and> classify_frame sj (f @ [newline]) = Inr fr"
  shows "read_frames sj rd = map snd fs"
  using assms
proof (induction fs arbitrary: rd)
  case Nil
  then show ?case by (simp add: read_frames_end)
next
  case (Cons x fs)
  obtain f fr where x: "x = (f, fr)" by fastforce
  have first: "unread rd = f @ newline # concat (map (\<lambda>(f, fr). f @ [newline]) fs)" using Cons.prems(2) by (simp add: x)
  have "newline \<notin> set f" "length f < MAX_TRANSPORT_FRAME_BYTES" "valid_utf8 (f @ [newline])"
    "classify_frame sj (f @ [newline]) = Inr fr"
    using Cons.prems(3) by (simp_all add: x)
  then obtain rd' where "read_frame sj rd = (Some fr, rd')" "reader_wf rd'"
    "unread rd' = concat (map (\<lambda>(f, fr). f @ [newline]) fs)"
    using read_frame_line [OF Cons.prems(1) first] by blast
  then show ?case using Cons.IH [of rd'] Cons.prems(3) by (subst read_frames.simps) (simp add: x)
qed

section \<open>An oversized line\<close>

text \<open>The bytes up to the next newline are dropped.\<close>

lemma drain_line:
  assumes "reader_wf rd" "unread rd = f @ newline # rest" "newline \<notin> set f"
  shows "\<exists>rd'. drain_to_line_end rd = (Inr (), rd') \<and> reader_wf rd' \<and> unread rd' = rest"
  using assms
proof (induction rd arbitrary: f rule: drain_to_line_end.induct)
  case (1 rd)
  obtain c cs where chunks: "rd_chunks rd = c # cs" using 1(3) by (cases "rd_chunks rd") (auto simp: unread_def)
  have c: "c \<noteq> []" using 1(2) chunks by (auto simp: reader_wf_def)
  have fill: "fill_buf rd = Inr c" by (simp add: fill_buf_def chunks)
  have bytes: "c @ concat cs = f @ newline # rest" using 1(3) chunks by (simp add: unread_def)
  let ?k = "upto_newline c" and ?rd = "consume (upto_newline c) rd"
  have wf: "reader_wf ?rd" using 1(2) by (simp add: consume_wf)
  have rest: "unread ?rd = drop ?k c @ concat cs" using unread_consume [OF chunks upto_newline_le] .
  show ?case
  proof (cases "newline \<in> set c")
    case True
    then have k: "?k = Suc (length f)" using upto_newline_append [OF True, of "concat cs"] bytes 1(4)
      by (simp add: upto_newline_line)
    have "take ?k c = take ?k (c @ concat cs)" using upto_newline_le [of c] by simp
    then have "newline \<in> set (take ?k c)" by (simp add: k bytes)
    moreover have "drop ?k c @ concat cs = drop ?k (c @ concat cs)" using upto_newline_le [of c] by simp
    ultimately show ?thesis
      using wf rest k bytes by (subst drain_to_line_end.simps) (simp add: fill c Let_def)
  next
    case False
    then have k: "?k = length c" by (simp add: upto_newline_absent)
    obtain g where f: "f = c @ g" "concat cs = g @ newline # rest"
      using bytes False by (auto simp: append_eq_append_conv2 append_eq_Cons_conv)
    show ?thesis
      using "1.IH" [OF fill c refl refl refl, of g] wf k False f rest 1(4)
      by (subst drain_to_line_end.simps) (simp add: fill c Let_def)
  qed
qed

text \<open>What \<open>fill_buf\<close> of a \<open>BufReader\<close> of the default capacity returns.\<close>

definition BUF_CAPACITY :: nat where
  "BUF_CAPACITY = 8 * 1024"

definition reader_buffered :: "reader \<Rightarrow> bool" where
  "reader_buffered rd \<longleftrightarrow> list_all (\<lambda>c. 0 < length c \<and> length c \<le> BUF_CAPACITY) (rd_chunks rd)"

lemma buffered_wf: "reader_buffered rd \<Longrightarrow> reader_wf rd"
  by (auto simp: reader_buffered_def reader_wf_def list_all_iff)

text \<open>Chunks without a line end are collected as long as they fit.\<close>

lemma read_collects:
  assumes "rd_chunks rd = early @ later" "[] \<notin> set early" "newline \<notin> set (concat early)"
    and "length line + length (concat early) \<le> MAX_TRANSPORT_FRAME_BYTES"
  shows "read_bounded_line rd line = read_bounded_line (rd\<lparr>rd_chunks := later\<rparr>) (line @ concat early)"
  using assms
proof (induction early arbitrary: rd line)
  case (Cons c early)
  have k: "upto_newline c = length c" using Cons.prems(3) by (intro upto_newline_absent) simp
  have c: "c \<noteq> []" using Cons.prems(2) by auto
  have "last c \<noteq> newline" using last_in_set [OF c] Cons.prems(3) by auto
  moreover have "fill_buf rd = Inr c" "consume (length c) rd = rd\<lparr>rd_chunks := early @ later\<rparr>"
    using Cons.prems(1) by (simp_all add: fill_buf_def consume_def)
  moreover have "length line + length c \<le> MAX_TRANSPORT_FRAME_BYTES" using Cons.prems(4) by simp
  ultimately have "read_bounded_line rd line = read_bounded_line (rd\<lparr>rd_chunks := early @ later\<rparr>) (line @ c)"
    by (subst read_bounded_line.simps) (simp add: k c Let_def)
  also have "\<dots> = read_bounded_line (rd\<lparr>rd_chunks := later\<rparr>) ((line @ c) @ concat early)"
    using Cons.prems Cons.IH [of "rd\<lparr>rd_chunks := early @ later\<rparr>" "line @ c"] by simp
  finally show ?case by simp
next
  case Nil
  then have "rd\<lparr>rd_chunks := later\<rparr> = rd" by (cases rd) simp
  then show ?case by simp
qed

text \<open>
  The chunk that overflows the bound is consumed up to its newline, and then everything up to the
  \<^emph>\<open>next\<close> newline is drained as well: the frame after an oversized one is lost.
\<close>

lemma overflow_drains_next:
  assumes "rd_chunks rd = (big @ newline # chunk) # cs" "newline \<notin> set big"
    and "length line + length big \<ge> MAX_TRANSPORT_FRAME_BYTES" "reader_wf rd"
    and "chunk @ concat cs = f @ newline # rest" "newline \<notin> set f"
  shows "\<exists>rd'. read_bounded_line rd line = (LineTooLarge, line, rd') \<and> reader_wf rd' \<and> unread rd' = rest"
proof -
  let ?k = "Suc (length big)"
  have k: "upto_newline (big @ newline # chunk) = ?k" by (rule upto_newline_line) fact
  have "unread (consume ?k rd) = f @ newline # rest" using unread_consume [OF assms(1), of ?k] assms(5) by simp
  then obtain rd' where "drain_to_line_end (consume ?k rd) = (Inr (), rd')" "reader_wf rd'" "unread rd' = rest"
    using drain_line [of "consume ?k rd"] assms(4,6) by (auto simp: consume_wf)
  then show ?thesis
    using assms(3) by (simp add: read_bounded_line.simps [of rd] fill_buf_def assms(1) k Let_def)
qed

lemma oversized_swallows_next:
  assumes "rd_chunks rd = early @ (big @ newline # chunk) # cs" "reader_wf rd"
    and "newline \<notin> set (concat early)" "newline \<notin> set big"
    and "length (concat early) \<le> MAX_TRANSPORT_FRAME_BYTES"
    and "length (concat early) + length big \<ge> MAX_TRANSPORT_FRAME_BYTES"
    and "chunk @ concat cs = f @ newline # rest" "newline \<notin> set f"
  shows "\<exists>rd'. read_frame sj rd = (Some (FrameInvalid None too_large), rd') \<and> reader_wf rd' \<and> unread rd' = rest"
proof -
  let ?rd = "rd\<lparr>rd_chunks := (big @ newline # chunk) # cs\<rparr>"
  have "reader_wf ?rd" using assms(1,2) by (auto simp: reader_wf_def)
  from overflow_drains_next [OF _ assms(4,6) this assms(7,8)]
  obtain rd' where "read_bounded_line ?rd (concat early) = (LineTooLarge, concat early, rd')"
    "reader_wf rd'" "unread rd' = rest" by auto
  moreover have "[] \<notin> set early" using assms(1,2) by (auto simp: reader_wf_def)
  then have "read_bounded_line rd [] = read_bounded_line ?rd (concat early)"
    using read_collects [OF assms(1) _ assms(3), of "[]"] assms(5) by simp
  ultimately show ?thesis by (simp add: read_frame_def)
qed

end
