(* ===== verification/Connection.thy ===== *)
theory Connection
  imports Frame_Reader
begin

text \<open>
  One connection of \<open>capo-server/src/transport.rs\<close> as a state machine: the main loop of
  \<open>handle_connection\<close> takes frames from the reader thread and results from detached request workers,
  in whatever order they arrive on its channel, and a pump thread writes event notifications to the
  same socket.  The cancellation tokens, the request handler, the connection gate and the write
  serializer of the same file are here too.

  Shown here: every request that was started is answered exactly once, by its result or by the frame
  that aborted it; a worker nobody waits for any more has been told to stop; a late result changes
  nothing; the number of live connections and of serialized writers stays within its bound.
\<close>

section \<open>Cancellation tokens and the handler\<close>

record cancellation_token =
  tok_stopped :: bool
  tok_interrupt_reason :: "string option"

definition token_new :: cancellation_token where
  "token_new = \<lparr>tok_stopped = False, tok_interrupt_reason = None\<rparr>"

definition token_cancel :: "cancellation_token \<Rightarrow> cancellation_token" where
  "token_cancel t = t\<lparr>tok_stopped := True\<rparr>"

definition token_interrupt :: "string \<Rightarrow> cancellation_token \<Rightarrow> cancellation_token" where
  "token_interrupt reason t = t\<lparr>tok_interrupt_reason := Some reason, tok_stopped := True\<rparr>"

text \<open>\<open>CapoServerHandler::handle\<close>: a request cancelled while it was queued never reaches the server.\<close>

definition capo_handle ::
  "(server_request \<Rightarrow> 's \<Rightarrow> (server_error, server_response) result \<times> 's) \<Rightarrow> server_request \<Rightarrow> cancellation_token \<Rightarrow> 's
    \<Rightarrow> server_response transport_result \<times> 's" where
  "capo_handle server_handle request cancel s =
     (if tok_stopped cancel then (Inl (Cancelled (sreq_request_id request)), s)
      else
        (case server_handle request s of
           (Inl e, s') \<Rightarrow> (Inl (TransportServer e), s')
         | (Inr r, s') \<Rightarrow> (Inr r, s')))"

section \<open>The connection\<close>

datatype (plugins only: code size) written =
    WroteResponse server_response
  | WroteError "string option" transport_error
  | WroteEvent server_event

text \<open>
  The frame that is written, and the generation of the request it answers.  The token of a request is
  shared with its worker, so it is kept with the worker.
\<close>

record connection =
  cn_in_flight :: "(string \<times> nat) option"
  cn_tail :: bool
  cn_generation :: nat
  cn_workers :: "(nat \<times> server_request \<times> cancellation_token) list"
  cn_pumps :: nat
  cn_written :: "(nat option \<times> written) list"
  cn_interrupts :: "(string \<times> string) list"

definition connection_new :: connection where
  "connection_new =
     \<lparr>cn_in_flight = None, cn_tail = False, cn_generation = 0, cn_workers = [], cn_pumps = 0, cn_written = [],
      cn_interrupts = []\<rparr>"

definition frame_text :: "serde \<Rightarrow> (state_error \<Rightarrow> string) \<Rightarrow> written \<Rightarrow> string" where
  "frame_text sj dbg w =
     (case w of
        WroteResponse r \<Rightarrow> encode_success_response sj r
      | WroteError i e \<Rightarrow> encode_error_response sj dbg i e
      | WroteEvent e \<Rightarrow> encode_notification sj (for_event e))"

datatype conn_event =
    Incoming frame
  | ConnClosed
  | ConnResult nat "server_response transport_result"

text \<open>What the step gets from outside: the handler's subscription, and whether the socket takes a write.\<close>

record conn_env =
  env_supports_subscription :: bool
  env_subscribe :: "string option \<Rightarrow> int \<Rightarrow> subscription_backlog transport_result"
  env_write_ok :: bool

datatype conn_outcome = Continue connection | ConnEnded connection

definition write_shared_frame :: "conn_env \<Rightarrow> nat option \<Rightarrow> written \<Rightarrow> connection \<Rightarrow> connection option" where
  "write_shared_frame env g w c = (if env_write_ok env then Some (c\<lparr>cn_written := cn_written c @ [(g, w)]\<rparr>) else None)"

definition then_continue :: "connection \<Rightarrow> connection option \<Rightarrow> (connection \<Rightarrow> connection) \<Rightarrow> conn_outcome" where
  "then_continue c res f = (case res of Some c' \<Rightarrow> Continue (f c') | None \<Rightarrow> ConnEnded c)"

definition signal :: "nat \<Rightarrow> (cancellation_token \<Rightarrow> cancellation_token) \<Rightarrow> connection \<Rightarrow> connection" where
  "signal g f c = c\<lparr>cn_workers := map (\<lambda>(h, r, t). (h, r, if h = g then f t else t)) (cn_workers c)\<rparr>"

definition subscribed_response :: "server_request \<Rightarrow> subscription_backlog \<Rightarrow> server_response" where
  "subscribed_response request backlog =
     \<lparr>rsp_request_id = sreq_request_id request,
      rsp_client_id = orig_client_id (sreq_origin request),
      rsp_actor_id = orig_actor_id (sreq_origin request),
      rsp_input_origin = orig_input_origin (sreq_origin request),
      rsp_payload = PaySubscribed backlog\<rparr>"

text \<open>
  \<open>start_event_tail\<close> and what the loop does with its result.  If writing the backlog fails, the error
  frame is tried on the same socket.
\<close>

definition serve_subscribe :: "conn_env \<Rightarrow> server_request \<Rightarrow> string option \<Rightarrow> int \<Rightarrow> connection \<Rightarrow> conn_outcome" where
  "serve_subscribe env request session_id from_sequence c =
     (let c0 = c\<lparr>cn_tail := False\<rparr> in
      case env_subscribe env session_id from_sequence of
        Inl e \<Rightarrow> then_continue c0 (write_shared_frame env None (WroteError (Some (sreq_request_id request)) e) c0) (\<lambda>c. c)
      | Inr backlog \<Rightarrow>
          then_continue c0 (write_shared_frame env None (WroteResponse (subscribed_response request backlog)) c0)
            (\<lambda>c. c\<lparr>cn_tail := True, cn_pumps := Suc (cn_pumps c)\<rparr>))"

definition serve_request :: "conn_env \<Rightarrow> server_request \<Rightarrow> connection \<Rightarrow> conn_outcome" where
  "serve_request env request c =
     (if cn_in_flight c \<noteq> None then
        then_continue c
          (write_shared_frame env None
            (WroteError (Some (sreq_request_id request))
              (Protocol ''a request is already in flight on this connection'')) c) (\<lambda>c. c)
      else
        (let start =
           (let g = Suc (cn_generation c) in
            Continue (c\<lparr>cn_generation := g, cn_workers := cn_workers c @ [(g, request, token_new)],
              cn_in_flight := Some (sreq_request_id request, g)\<rparr>))
         in case sreq_command request of
              CmdSubscribe session_id from_sequence \<Rightarrow>
                if env_supports_subscription env then serve_subscribe env request session_id from_sequence c else start
            | _ \<Rightarrow> start))"

definition serve_cancel :: "conn_env \<Rightarrow> string option \<Rightarrow> connection \<Rightarrow> conn_outcome" where
  "serve_cancel env target c =
     (case cn_in_flight c of
        Some (request_id, g) \<Rightarrow>
          if (case target of Some i \<Rightarrow> i = request_id | None \<Rightarrow> True) then
            (let c1 = signal g token_cancel c in
             then_continue c1 (write_shared_frame env (Some g) (WroteError (Some request_id) (Cancelled request_id)) c1)
               (\<lambda>c. c\<lparr>cn_in_flight := None\<rparr>))
          else Continue c
      | None \<Rightarrow>
          if cn_tail c then
            (let c1 = c\<lparr>cn_tail := False\<rparr> in
             then_continue c1 (write_shared_frame env None (WroteError None (Cancelled (unwrap_or [] target))) c1) (\<lambda>c. c))
          else Continue c)"

definition serve_interrupt :: "conn_env \<Rightarrow> string option \<Rightarrow> string \<Rightarrow> connection \<Rightarrow> conn_outcome" where
  "serve_interrupt env session_id reason c =
     (let record = (\<lambda>c. case session_id of Some sid \<Rightarrow> c\<lparr>cn_interrupts := cn_interrupts c @ [(sid, reason)]\<rparr> | None \<Rightarrow> c) in
      case cn_in_flight c of
        Some (request_id, g) \<Rightarrow>
          (let c1 = record (signal g (token_interrupt reason) c) in
           then_continue c1
             (write_shared_frame env (Some g) (WroteError (Some request_id) (Interrupted (unwrap_or [] session_id) reason)) c1)
             (\<lambda>c. c\<lparr>cn_in_flight := None\<rparr>))
      | None \<Rightarrow> Continue (record c))"

text \<open>A worker sends its result once and ends.\<close>

definition serve_result :: "conn_env \<Rightarrow> nat \<Rightarrow> server_response transport_result \<Rightarrow> connection \<Rightarrow> conn_outcome" where
  "serve_result env g res c0 =
     (let c = c0\<lparr>cn_workers := filter (\<lambda>(h, _). h \<noteq> g) (cn_workers c0)\<rparr> in
      case cn_in_flight c of
        Some (request_id, current) \<Rightarrow>
          if current = g then
            (let c1 = c\<lparr>cn_in_flight := None\<rparr> in
             then_continue c1
               (write_shared_frame env (Some g)
                 (case res of Inr r \<Rightarrow> WroteResponse r | Inl e \<Rightarrow> WroteError (Some request_id) e) c1) (\<lambda>c. c))
          else Continue c
      | None \<Rightarrow> Continue c)"

definition conn_step :: "conn_env \<Rightarrow> conn_event \<Rightarrow> connection \<Rightarrow> conn_outcome" where
  "conn_step env ev c =
     (case ev of
        ConnClosed \<Rightarrow>
          ConnEnded
            (case cn_in_flight c of
               Some (_, g) \<Rightarrow> (signal g token_cancel c)\<lparr>cn_tail := False\<rparr>
             | None \<Rightarrow> c\<lparr>cn_tail := False\<rparr>)
      | Incoming (FrameRequest request) \<Rightarrow> serve_request env request c
      | Incoming (FrameCancel target) \<Rightarrow> serve_cancel env target c
      | Incoming (FrameInterrupt session_id reason) \<Rightarrow> serve_interrupt env session_id reason c
      | Incoming (FrameInvalid i e) \<Rightarrow> then_continue c (write_shared_frame env None (WroteError i e) c) (\<lambda>c. c)
      | ConnResult g res \<Rightarrow> serve_result env g res c)"

text \<open>
  The reachable states of an open connection: frames may arrive at any time, a running worker may
  finish at any time with any result, and a pump may write event notifications at any time.
\<close>

inductive conn_reachable :: "connection \<Rightarrow> bool" where
  conn_start: "conn_reachable connection_new"
| conn_incoming: "conn_reachable c \<Longrightarrow> conn_step env (Incoming f) c = Continue c' \<Longrightarrow> conn_reachable c'"
| conn_finish:
    "conn_reachable c \<Longrightarrow> g \<in> fst ` set (cn_workers c) \<Longrightarrow> conn_step env (ConnResult g res) c = Continue c' \<Longrightarrow>
     conn_reachable c'"
| conn_pump:
    "conn_reachable c \<Longrightarrow> 0 < cn_pumps c \<Longrightarrow>
     conn_reachable (c\<lparr>cn_written := cn_written c @ map (\<lambda>e. (None, WroteEvent e)) es\<rparr>)"

section \<open>Every request is answered once\<close>

definition answered :: "connection \<Rightarrow> nat list" where
  "answered c = List.map_filter fst (cn_written c)"

definition in_flight_generations :: "connection \<Rightarrow> nat set" where
  "in_flight_generations c = (case cn_in_flight c of Some (_, g) \<Rightarrow> {g} | None \<Rightarrow> {})"

text \<open>Who runs: the request in flight with its own id, and workers that have been told to stop.\<close>

definition worker_ok :: "connection \<Rightarrow> nat \<times> server_request \<times> cancellation_token \<Rightarrow> bool" where
  "worker_ok c w =
     (case w of (g, r, t) \<Rightarrow>
        if g \<in> in_flight_generations c then cn_in_flight c = Some (sreq_request_id r, g) else tok_stopped t)"

definition conn_inv :: "connection \<Rightarrow> bool" where
  "conn_inv c \<longleftrightarrow>
     distinct (answered c)
     \<and> set (answered c) \<inter> in_flight_generations c = {}
     \<and> set (answered c) \<union> in_flight_generations c = {1..cn_generation c}
     \<and> in_flight_generations c \<subseteq> fst ` set (cn_workers c)
     \<and> distinct (map fst (cn_workers c))
     \<and> fst ` set (cn_workers c) \<subseteq> {1..cn_generation c}
     \<and> list_all (worker_ok c) (cn_workers c)"

lemmas conn_inv_defs = conn_inv_def answered_def in_flight_generations_def worker_ok_def

lemma map_filter_append: "List.map_filter f (xs @ ys) = List.map_filter f xs @ List.map_filter f ys"
  by (simp add: List.map_filter_def)

lemma map_filter_Nil [simp]: "List.map_filter f [] = []"
  by (simp add: List.map_filter_def)

lemma map_filter_one [simp]: "List.map_filter f [x] = (case f x of None \<Rightarrow> [] | Some y \<Rightarrow> [y])"
  by (simp add: List.map_filter_def split: option.splits)

lemma write_Some:
  "write_shared_frame env g w c = Some c' \<longleftrightarrow> env_write_ok env \<and> c' = c\<lparr>cn_written := cn_written c @ [(g, w)]\<rparr>"
  by (auto simp: write_shared_frame_def)

lemma then_continue_Continue: "then_continue c res f = Continue c' \<longleftrightarrow> (\<exists>d. res = Some d \<and> c' = f d)"
  by (auto simp: then_continue_def split: option.splits)

text \<open>A frame that answers no request leaves the invariant alone.\<close>

lemma inv_unrelated:
  assumes "conn_inv c" "cn_in_flight c' = cn_in_flight c" "cn_generation c' = cn_generation c"
    "cn_workers c' = cn_workers c" "answered c' = answered c"
  shows "conn_inv c'"
proof -
  have "worker_ok c' = worker_ok c" using assms(2) by (auto simp: worker_ok_def in_flight_generations_def fun_eq_iff)
  then show ?thesis using assms by (simp add: conn_inv_def in_flight_generations_def)
qed

lemma answered_write:
  "answered (c\<lparr>cn_written := cn_written c @ [(g, w)]\<rparr>) = answered c @ (case g of None \<Rightarrow> [] | Some n \<Rightarrow> [n])"
  by (simp add: answered_def map_filter_append split: option.splits)

lemma answered_pump: "answered (c\<lparr>cn_written := cn_written c @ map (\<lambda>e. (None, h e)) es\<rparr>) = answered c"
  by (induction es) (simp_all add: answered_def map_filter_append List.map_filter_def)

lemma inv_start:
  assumes "conn_inv c" "cn_in_flight c = None"
  shows "conn_inv (c\<lparr>cn_generation := Suc (cn_generation c),
     cn_workers := cn_workers c @ [(Suc (cn_generation c), r, token_new)],
     cn_in_flight := Some (sreq_request_id r, Suc (cn_generation c))\<rparr>)"
proof -
  have old: "g \<le> cn_generation c" if "(g, q, t) \<in> set (cn_workers c)" for g q t
    using assms(1) that by (force simp: conn_inv_def)
  have "set (answered c) = {1..cn_generation c}" using assms by (simp add: conn_inv_defs)
  moreover have "fst ` set (cn_workers c) \<subseteq> {1..cn_generation c}" using assms(1) by (simp add: conn_inv_def)
  ultimately show ?thesis
    using assms old by (fastforce simp: conn_inv_defs list_all_iff atLeastAtMostSuc_conv)
qed

lemma inv_abort:
  assumes "conn_inv c" "cn_in_flight c = Some (rid, g)" "\<And>t. tok_stopped (f t)"
    and "cn_in_flight c' = None" "cn_generation c' = cn_generation c" "cn_workers c' = cn_workers (signal g f c)"
    and "answered c' = answered c @ [g]"
  shows "conn_inv c'"
proof -
  have keys: "map fst (cn_workers c') = map fst (cn_workers c)"
    by (simp add: assms(6) signal_def case_prod_beta comp_def)
  then have "fst ` set (cn_workers c') = fst ` set (cn_workers c)" by (metis list.set_map)
  moreover have "list_all (worker_ok c') (cn_workers c')"
    using assms(1-4) by (auto simp: conn_inv_def list_all_iff worker_ok_def in_flight_generations_def assms(6) signal_def)
  ultimately show ?thesis
    using assms(1,2,4,5,7) keys by (auto simp: conn_inv_def in_flight_generations_def)
qed

lemma inv_finish:
  assumes "conn_inv c"
    and "cn_in_flight c' = (if in_flight_generations c = {g} then None else cn_in_flight c)"
    and "cn_generation c' = cn_generation c" "cn_workers c' = filter (\<lambda>(h, _). h \<noteq> g) (cn_workers c)"
    and "answered c' = answered c @ (if in_flight_generations c = {g} then [g] else [])"
  shows "conn_inv c'"
proof -
  have keys: "fst ` set (cn_workers c') = fst ` set (cn_workers c) - {g}" by (force simp: assms(4))
  have "distinct (map fst (cn_workers c'))"
    using assms(1) by (simp add: conn_inv_def assms(4) distinct_map_filter case_prod_beta)
  moreover have "list_all (worker_ok c') (cn_workers c')"
    using assms(1) by (auto simp: conn_inv_def list_all_iff worker_ok_def in_flight_generations_def assms(2,4) split: option.splits if_splits)
  ultimately show ?thesis
    using assms(1,2,3,5) keys by (auto simp: conn_inv_def in_flight_generations_def split: option.splits if_splits)
qed

lemma inv_serve_request: "conn_inv c \<Longrightarrow> serve_request env r c = Continue c' \<Longrightarrow> conn_inv c'"
proof (cases "cn_in_flight c = None")
  case False
  moreover assume "conn_inv c" "serve_request env r c = Continue c'"
  ultimately show ?thesis
    by (auto simp: serve_request_def then_continue_Continue write_Some answered_write intro!: inv_unrelated [of c])
next
  case True
  assume inv: "conn_inv c" and step: "serve_request env r c = Continue c'"
  note start = inv_start [OF inv True, of r]
  have sub: "conn_inv d" if "serve_subscribe env r sid n c = Continue d" for sid n d
    using that inv
    by (auto simp: serve_subscribe_def Let_def then_continue_Continue write_Some answered_def map_filter_append
        intro!: inv_unrelated [of c] split: sum.splits)
  show ?thesis
    using step True start sub by (auto simp: serve_request_def Let_def split: server_command.splits if_splits)
qed

lemma inv_serve_cancel: "conn_inv c \<Longrightarrow> serve_cancel env i c = Continue c' \<Longrightarrow> conn_inv c'"
proof (cases "cn_in_flight c")
  case None
  moreover assume "conn_inv c" "serve_cancel env i c = Continue c'"
  ultimately show ?thesis
    by (auto simp: serve_cancel_def Let_def then_continue_Continue write_Some answered_def map_filter_append
        intro!: inv_unrelated [of c] split: if_splits)
next
  case (Some q)
  obtain rid g where q: "q = (rid, g)" by fastforce
  assume "conn_inv c" "serve_cancel env i c = Continue c'"
  then show ?thesis
    using Some
    by (auto simp: serve_cancel_def Let_def then_continue_Continue write_Some q token_cancel_def answered_def
        map_filter_append signal_def intro!: inv_abort [of c rid g token_cancel] split: if_splits)
qed

lemma inv_serve_interrupt: "conn_inv c \<Longrightarrow> serve_interrupt env sid reason c = Continue c' \<Longrightarrow> conn_inv c'"
proof (cases "cn_in_flight c")
  case None
  moreover assume "conn_inv c" "serve_interrupt env sid reason c = Continue c'"
  ultimately show ?thesis
    by (auto simp: serve_interrupt_def Let_def answered_def intro!: inv_unrelated [of c] split: option.splits)
next
  case (Some q)
  obtain rid g where q: "q = (rid, g)" by fastforce
  assume "conn_inv c" "serve_interrupt env sid reason c = Continue c'"
  then show ?thesis
    using Some
    by (auto simp: serve_interrupt_def Let_def then_continue_Continue write_Some q token_interrupt_def answered_def
        map_filter_append signal_def intro!: inv_abort [of c rid g "token_interrupt reason"] split: option.splits)
qed

lemma inv_serve_result: "conn_inv c \<Longrightarrow> serve_result env g res c = Continue c' \<Longrightarrow> conn_inv c'"
  by (rule inv_finish [of c c' g], assumption)
    (auto simp: serve_result_def Let_def then_continue_Continue write_Some answered_def map_filter_append
      in_flight_generations_def split: option.splits if_splits)

lemma connection_new_inv: "conn_inv connection_new"
  by (simp add: conn_inv_defs connection_new_def)

lemma conn_reachable_inv: "conn_reachable c \<Longrightarrow> conn_inv c"
proof (induction rule: conn_reachable.induct)
  case conn_start
  show ?case by (rule connection_new_inv)
next
  case (conn_incoming c env f c')
  note step = conn_incoming.hyps(2) and inv = conn_incoming.IH
  show ?case
  proof (cases f)
    case (FrameRequest r)
    then show ?thesis using step inv_serve_request [OF inv] by (simp add: conn_step_def)
  next
    case (FrameCancel i)
    then show ?thesis using step inv_serve_cancel [OF inv] by (simp add: conn_step_def)
  next
    case (FrameInterrupt i reason)
    then show ?thesis using step inv_serve_interrupt [OF inv] by (simp add: conn_step_def)
  next
    case (FrameInvalid i e)
    then show ?thesis
      using step by (auto simp: conn_step_def then_continue_Continue write_Some answered_write intro!: inv_unrelated [OF inv])
  qed
next
  case (conn_finish c g env res c')
  then show ?case using inv_serve_result by (auto simp: conn_step_def)
next
  case (conn_pump c es)
  then show ?case by (intro inv_unrelated [OF conn_pump.IH]) (simp_all add: answered_pump)
qed

section \<open>The connection gate and the write serializer\<close>

text \<open>
  The counting gate: \<open>acquire\<close> blocks while all permits are out, here \<^const>\<open>None\<close>; dropping a permit
  gives it back.  The write serializer is the gate with one permit, taken around every command that is
  not read-only.
\<close>

record connection_gate =
  gate_capacity :: nat
  gate_live :: nat

definition gate_new :: "nat \<Rightarrow> connection_gate" where
  "gate_new capacity = \<lparr>gate_capacity = max capacity 1, gate_live = 0\<rparr>"

definition gate_acquire :: "connection_gate \<Rightarrow> connection_gate option" where
  "gate_acquire gate =
     (if gate_live gate \<ge> gate_capacity gate then None else Some (gate\<lparr>gate_live := Suc (gate_live gate)\<rparr>))"

definition gate_release :: "connection_gate \<Rightarrow> connection_gate" where
  "gate_release gate = gate\<lparr>gate_live := gate_live gate - 1\<rparr>"

definition DEFAULT_MAX_CONCURRENT_CONNECTIONS :: nat where
  "DEFAULT_MAX_CONCURRENT_CONNECTIONS = 256"

inductive gate_reachable :: "nat \<Rightarrow> connection_gate \<Rightarrow> bool" for capacity :: nat where
  gate_start: "gate_reachable capacity (gate_new capacity)"
| gate_in: "gate_reachable capacity gate \<Longrightarrow> gate_acquire gate = Some gate' \<Longrightarrow> gate_reachable capacity gate'"
| gate_out: "gate_reachable capacity gate \<Longrightarrow> 0 < gate_live gate \<Longrightarrow> gate_reachable capacity (gate_release gate)"

lemma gate_bound:
  "gate_reachable capacity gate \<Longrightarrow> gate_capacity gate = max capacity 1 \<and> gate_live gate \<le> max capacity 1"
  by (induction rule: gate_reachable.induct)
    (auto simp: gate_new_def gate_acquire_def gate_release_def split: if_splits)

text \<open>A permit given back can be taken again, so a full gate is not stuck.\<close>

lemma gate_reopens: "gate_reachable capacity gate \<Longrightarrow> 0 < gate_live gate \<Longrightarrow> gate_acquire (gate_release gate) \<noteq> None"
  using gate_bound [of capacity gate] by (auto simp: gate_acquire_def gate_release_def)

end
