(* ===== verification/Event_Tail.thy ===== *)
theory Event_Tail
  imports Jsonrpc Queries Store_Machine
begin

text \<open>
  How committed events reach a subscriber: the egress guard of \<open>ServerEvent\<close> (\<open>types.rs\<close>), the live
  tail of \<open>capo-server/src/event_tail.rs\<close> and the subscription of \<open>capo-server/src/lib.rs\<close>.

  \<open>subscribe\<close> registers with the broadcast hub first and reads the backlog afterwards, while other
  threads go on writing.  So the store at registration, at the backlog read and at a later poll are
  three stores, with any operations of other threads in between (\<open>others_run\<close>), each of which commits
  and publishes before the next begins.  \<^verbatim>\<open>Concurrent_Writers\<close> lets commits and publications of several
  threads interleave.

  Shown here: a sensitive payload never leaves, a safe one leaves scanned; and backlog plus live
  events are all events after the cursor, each once and in order, as long as the backlog fits one page.
\<close>

section \<open>The egress guard\<close>

definition WITHHELD_PAYLOAD_PLACEHOLDER :: string where
  "WITHHELD_PAYLOAD_PLACEHOLDER = ''[REDACTED:withheld]''"

definition redacted_for_egress :: "serde \<Rightarrow> server_event \<Rightarrow> server_event" where
  "redacted_for_egress sj ev =
     (let persistable =
            (case redaction_from_wire (sev_redaction_state ev) of
               Some c \<Rightarrow> is_persistable_artifact c | None \<Rightarrow> False)
      in if \<not> persistable then
           ev\<lparr>sev_payload_json :=
                to_text sj (json_object
                  [(''redacted'', JBool True),
                   (''reason'', JString WITHHELD_PAYLOAD_PLACEHOLDER),
                   (''event_id'', JString (sev_event_id ev)),
                   (''classification'', JString (sev_redaction_state ev))]),
              sev_redaction_state := redaction_as_str Redacted\<rparr>
         else
           (let (scanned, state) = apply_policy (policy_new []) (sev_payload_json ev) in
            if state = redaction_as_str Redacted
            then ev\<lparr>sev_payload_json := scanned, sev_redaction_state := redaction_as_str Redacted\<rparr>
            else ev))"

definition from_record :: "serde \<Rightarrow> event_record \<Rightarrow> server_event" where
  "from_record sj r =
     redacted_for_egress sj
       \<lparr>sev_sequence = ev_sequence r, sev_event_id = ev_event_id r, sev_kind = ev_kind r, sev_actor = ev_actor r,
        sev_project_id = ev_project_id r, sev_task_id = ev_task_id r, sev_agent_id = ev_agent_id r,
        sev_session_id = ev_session_id r, sev_run_id = ev_run_id r, sev_turn_id = ev_turn_id r,
        sev_item_id = ev_item_id r, sev_payload_json = ev_payload_json r,
        sev_redaction_state = ev_redaction_state r\<rparr>"

section \<open>The live tail\<close>

record event_stream =
  str_subscription :: nat
  str_delivered_through :: int
  str_session_filter :: "string option"

datatype tail_recv_error = TailTimeout | TailDisconnected

definition session_matches :: "string option \<Rightarrow> event_record \<Rightarrow> bool" where
  "session_matches session_filter r \<longleftrightarrow>
     (case session_filter of Some f \<Rightarrow> ev_session_id r = Some f | None \<Rightarrow> True)"

fun fold_records :: "serde \<Rightarrow> event_record list \<Rightarrow> event_stream \<Rightarrow> server_event list \<times> event_stream" where
  "fold_records sj [] st = ([], st)"
| "fold_records sj (r # rs) st =
     (if ev_sequence r \<le> str_delivered_through st then fold_records sj rs st
      else
        (let (batch, st') = fold_records sj rs (st\<lparr>str_delivered_through := ev_sequence r\<rparr>) in
         (if session_matches (str_session_filter st) r then from_record sj r # batch else batch, st')))"

definition next_batch :: "serde \<Rightarrow> event_stream \<Rightarrow> store \<Rightarrow> (server_event list \<times> event_stream) \<times> store" where
  "next_batch sj st s =
     (let (records, hub) = drain_pending (str_subscription st) (st_hub s) in
      (fold_records sj records st, s\<lparr>st_hub := hub\<rparr>))"

text \<open>The blocking poll: an event that is pending wakes it; a closed channel ends the tail.\<close>

definition recv_batch ::
  "serde \<Rightarrow> event_stream \<Rightarrow> store \<Rightarrow> (tail_recv_error, server_event list \<times> event_stream) result \<times> store" where
  "recv_batch sj st s =
     (case channel (st_hub s) (str_subscription st) of
        None \<Rightarrow> (Inl TailDisconnected, s)
      | Some [] \<Rightarrow> (Inl TailTimeout, s)
      | Some (first # rest) \<Rightarrow>
          (Inr (fold_records sj (first # rest) st), s\<lparr>st_hub := snd (drain_pending (str_subscription st) (st_hub s))\<rparr>))"

section \<open>Subscribing\<close>

definition EVENT_TAIL_BACKLOG_LIMIT :: nat where
  "EVENT_TAIL_BACKLOG_LIMIT = 4096"

definition backlog_records :: "string option \<Rightarrow> int \<Rightarrow> store \<Rightarrow> (server_error, event_record list) result" where
  "backlog_records session_id from_sequence s =
     (case session_id of
        Some sid \<Rightarrow>
          (case typed_id_new sid of
             Inl _ \<Rightarrow> Inl ServerPanic
           | Inr i \<Rightarrow> Inr (events_after_for_session i from_sequence EVENT_TAIL_BACKLOG_LIMIT s))
      | None \<Rightarrow> Inr (events_after from_sequence EVENT_TAIL_BACKLOG_LIMIT s))"

definition read_subscription_backlog ::
  "serde \<Rightarrow> string option \<Rightarrow> int \<Rightarrow> store \<Rightarrow> (server_error, subscription_backlog) result" where
  "read_subscription_backlog sj session_id from_sequence s =
     and_then (backlog_records session_id from_sequence s) (\<lambda>records.
     Inr \<lparr>sbl_session_id = session_id,
       sbl_from_sequence = from_sequence,
       sbl_next_sequence = (if records = [] then from_sequence else ev_sequence (last records)),
       sbl_events = map (from_record sj) records\<rparr>)"

definition read_subscription_backlog_validated ::
  "serde \<Rightarrow> string option \<Rightarrow> int \<Rightarrow> store \<Rightarrow> (server_error, subscription_backlog) result" where
  "read_subscription_backlog_validated sj session_id from_sequence s =
     (if from_sequence > latest_sequence s
      then Inl (SubscribeFromSequenceAheadOfLog from_sequence (latest_sequence s))
      else read_subscription_backlog sj session_id from_sequence s)"

text \<open>\<open>subscribe\<close> in its two halves: the store \<open>s0\<close> it registers in, the store \<open>s1\<close> it reads.\<close>

definition register_tail :: "store \<Rightarrow> nat \<times> store" where
  "register_tail s0 = (fst (subscribe (st_hub s0)), s0\<lparr>st_hub := snd (subscribe (st_hub s0))\<rparr>)"

definition open_tail ::
  "serde \<Rightarrow> nat \<Rightarrow> string option \<Rightarrow> int \<Rightarrow> store \<Rightarrow> (server_error, subscription_backlog \<times> event_stream) result" where
  "open_tail sj i session_id from_sequence s1 =
     and_then (read_subscription_backlog_validated sj session_id from_sequence s1) (\<lambda>backlog.
     Inr (backlog,
       \<lparr>str_subscription = i, str_delivered_through = sbl_next_sequence backlog,
        str_session_filter = session_id\<rparr>))"

text \<open>Any operations of other threads, none of which reads from channel \<open>i\<close> or closes it.\<close>

inductive others_run :: "serde \<Rightarrow> (projection_record \<Rightarrow> bool) \<Rightarrow> nat \<Rightarrow> store \<Rightarrow> store \<Rightarrow> bool"
  for sj :: serde and P :: "projection_record \<Rightarrow> bool" and i :: nat where
  others_none: "others_run sj P i s s"
| others_step:
    "others_run sj P i s t \<Longrightarrow> store_step sj P t u \<Longrightarrow>
     (\<And>q. channel (st_hub t) i = Some q \<Longrightarrow> \<exists>q'. channel (st_hub u) i = Some (q @ q')) \<Longrightarrow>
     others_run sj P i s u"

section \<open>A channel is fed exactly what is committed\<close>

definition feeds :: "store \<Rightarrow> nat \<Rightarrow> store \<Rightarrow> bool" where
  "feeds s0 i s \<longleftrightarrow>
     broadcaster_wf (st_hub s)
     \<and> (\<exists>es. st_events s = st_events s0 @ es
           \<and> channel (st_hub s) i = map_option (\<lambda>q. q @ es) (channel (st_hub s0) i))"

lemma feeds_append: "feeds s0 i s \<Longrightarrow> feeds s0 i (snd (append_event sj e rs s))"
proof (rule append_event_outcome [of e s sj rs])
  assume f: "feeds s0 i s" and "append_event sj e rs s = (Inr (st_sequence s + 1), committed_store sj e rs s)"
  from f obtain es where wf: "broadcaster_wf (st_hub s)" and es: "st_events s = st_events s0 @ es"
    "channel (st_hub s) i = map_option (\<lambda>q. q @ es) (channel (st_hub s0) i)"
    by (auto simp: feeds_def)
  let ?c = "committed_event_record (st_sequence s + 1) e"
  have "st_events (committed_store sj e rs s) = st_events s0 @ (es @ [?c])"
    "channel (st_hub (committed_store sj e rs s)) i = map_option (\<lambda>q. q @ (es @ [?c])) (channel (st_hub s0) i)"
    by (simp_all add: committed_store_def Let_def es channel_publish [OF wf] option.map_comp comp_def)
  moreover have "broadcaster_wf (st_hub (committed_store sj e rs s))"
    by (simp add: committed_store_def Let_def publish_wf wf)
  ultimately have "feeds s0 i (committed_store sj e rs s)" unfolding feeds_def by blast
  then show ?thesis using \<open>append_event sj e rs s = _\<close> by simp
qed simp_all

interpretation fed: store_client sj "feeds s0 i" "\<lambda>_. True" for sj s0 i
  by unfold_locales (auto intro: feeds_append)

lemma map_of_map_key: "map_of (map (\<lambda>(j, q). (j, f j q)) xs) i = map_option (f i) (map_of xs i)"
  by (induction xs) auto

lemma channel_drain: "channel (snd (drain_pending c b)) i = (if c = i then map_option (\<lambda>_. []) (channel b i) else channel b i)"
proof (cases "channel b c")
  case None
  then show ?thesis by (auto simp: drain_pending_def)
next
  case (Some es)
  then show ?thesis
    by (cases "map_of (bc_subscribers b) i")
      (auto simp: drain_pending_def channel_def map_of_map_key [where f = "\<lambda>j q. if j = c then Some [] else q"])
qed

lemma channel_drop: "channel (drop_subscription c b) i = (if c = i then None else channel b i)"
  by (cases "map_of (bc_subscribers b) i")
    (auto simp: drop_subscription_def channel_def map_of_map_key [where f = "\<lambda>j q. if j = c then None else q"])

lemma channel_subscribe_old: "channel b i = Some q \<Longrightarrow> channel (snd (subscribe b)) i = Some q"
  by (cases "map_of (bc_subscribers b) i") (auto simp: channel_def subscribe_def map_add_def)

lemma feeds_refl: "broadcaster_wf (st_hub s) \<Longrightarrow> feeds s i s"
  by (simp add: feeds_def option.map_ident)

lemma feeds_hub:
  "broadcaster_wf b \<Longrightarrow> channel b i = channel (st_hub s) i \<Longrightarrow> feeds s i (s\<lparr>st_hub := b\<rparr>)"
  by (simp add: feeds_def option.map_ident)

lemma step_feeds:
  assumes "store_step sj P s s'" "broadcaster_wf (st_hub s)" "channel (st_hub s) i = Some q"
    and "\<exists>q'. channel (st_hub s') i = Some (q @ q')"
  shows "feeds s i s'"
  using assms
proof (induction rule: store_step.induct)
  case (step_append rs s e)
  then show ?case by (simp add: feeds_append feeds_refl)
next
  case (step_decide a g s j de ge)
  then show ?case by (intro fed.decide_keeps) (simp_all add: feeds_refl opt_all_def split: option.splits)
next
  case (step_mark s p attempt)
  then show ?case by (intro fed.mark_keeps feeds_refl)
next
  case (step_reap reaps s p attempt)
  then show ?case by (intro fed.reap_keeps feeds_refl) simp_all
next
  case (step_recover recoveries s p attempt)
  then show ?case by (intro fed.recover_keeps feeds_refl) simp_all
next
  case (step_subscribe s)
  then show ?case by (intro feeds_hub subscribe_wf) (simp_all add: channel_subscribe_old)
next
  case (step_drain s c)
  then show ?case by (intro feeds_hub drain_wf) (auto simp: channel_drain)
next
  case (step_drop s c)
  then show ?case by (intro feeds_hub drop_wf) (auto simp: channel_drop split: if_splits)
qed (auto simp: feeds_def record_artifact_def begin_recovery_def complete_recovery_def
  rebuild_cases Let_def option.map_ident split: option.splits sum.splits)

lemma others_feed:
  assumes "others_run sj P i s t" "store_wf s" "channel (st_hub s) i = Some q"
  shows "store_wf t \<and> (\<exists>es. st_events t = st_events s @ es \<and> channel (st_hub t) i = Some (q @ es))"
  using assms
proof (induction rule: others_run.induct)
  case (others_step s t u)
  then obtain es where es: "store_wf t" "st_events t = st_events s @ es" "channel (st_hub t) i = Some (q @ es)" by blast
  have "feeds t i u"
    using others_step.hyps(3) [OF es(3)] by (intro step_feeds [OF others_step.hyps(2) _ es(3)] store_wf_broadcaster es(1))
  then obtain es' where "st_events u = st_events t @ es'" "channel (st_hub u) i = Some ((q @ es) @ es')"
    by (auto simp: feeds_def es(3))
  moreover have "store_wf u" using store_step_wf [OF others_step.hyps(2) es(1)] .
  ultimately show ?case by (simp add: es(2))
qed simp

section \<open>The seam between backlog and live events\<close>

lemma fold_records_eq:
  assumes "sorted_wrt (<) (map ev_sequence rs)"
  shows "fst (fold_records sj rs st) =
    map (from_record sj)
      (filter (\<lambda>r. str_delivered_through st < ev_sequence r \<and> session_matches (str_session_filter st) r) rs)"
  using assms
proof (induction rs arbitrary: st)
  case (Cons r rs)
  have above: "str_delivered_through st < ev_sequence x" if "x \<in> set rs" "str_delivered_through st < ev_sequence r" for x
    using Cons.prems that by fastforce
  show ?case
  proof (cases "ev_sequence r \<le> str_delivered_through st")
    case True
    then show ?thesis using Cons by simp
  next
    case False
    then have "filter (\<lambda>x. ev_sequence r < ev_sequence x \<and> M x) rs
       = filter (\<lambda>x. str_delivered_through st < ev_sequence x \<and> M x) rs" for M
      using Cons.prems above by (intro filter_cong) auto
    then show ?thesis using False Cons by (simp add: split_beta)
  qed
qed simp

lemma backlog_records_eq:
  assumes "events_wf s" "backlog_records sid c s = Inr records"
    and "length (filter (session_matches sid) (drop (nat c) (st_events s))) \<le> EVENT_TAIL_BACKLOG_LIMIT"
  shows "records = filter (\<lambda>r. c < ev_sequence r \<and> session_matches sid r) (st_events s)"
proof -
  let ?f = "filter (\<lambda>r. c < ev_sequence r \<and> session_matches sid r) (st_events s)"
  have f: "?f = filter (session_matches sid) (drop (nat c) (st_events s))"
    unfolding events_above [OF assms(1), of c, symmetric] filter_filter ..
  have "records = take EVENT_TAIL_BACKLOG_LIMIT (sort_key ev_sequence ?f)"
    using assms(2)
    by (auto simp: backlog_records_def typed_id_new_def session_matches_def events_after_for_session_def events_after_def
        limit_rows_take EVENT_TAIL_BACKLOG_LIMIT_def split: option.splits sum.splits if_splits)
  also have "\<dots> = take EVENT_TAIL_BACKLOG_LIMIT ?f" by (simp only: sort_key_sorted [OF events_sorted [OF assms(1)]])
  also have "\<dots> = ?f" using assms(3) by (simp add: f)
  finally show ?thesis .
qed

text \<open>
  What the live side passes on, given that the backlog holds everything up to the store it was read
  from: exactly the later events.
\<close>

lemma events_strict: "events_wf s \<Longrightarrow> sorted_wrt (<) (map ev_sequence (st_events s))"
  using sequence_nth [of s] by (auto simp: sorted_wrt_iff_nth_less)

lemma fold_max_le: "a \<le> n \<Longrightarrow> \<forall>x \<in> set xs. x \<le> n \<Longrightarrow> fold max xs a \<le> (n :: int)"
  by (induction xs arbitrary: a) auto

lemma seam_filter:
  fixes E :: "event_record list" and c :: int
  assumes strict: "sorted_wrt (<) (map ev_sequence (E1 @ es2))" and E: "E1 @ es2 = E0 @ es"
    and pre: "length E0 \<le> length E1"
    and w: "w = (if B = [] then c else ev_sequence (last B))" and B: "B = filter (\<lambda>r. c < ev_sequence r \<and> M r) E1"
    and c: "\<forall>r \<in> set es2. c < ev_sequence r"
  shows "B @ filter (\<lambda>r. w < ev_sequence r \<and> M r) es = filter (\<lambda>r. c < ev_sequence r \<and> M r) (E0 @ es)"
proof -
  obtain es1 where E1: "E1 = E0 @ es1" "es = es1 @ es2"
    using E pre by (auto simp: append_eq_append_conv2)
  have above: "w < ev_sequence r" if "r \<in> set es2" for r
  proof (cases "B = []")
    case False
    then have "last B \<in> set E1" using B last_in_set [of B] by auto
    then show ?thesis using strict that False w by (auto simp: sorted_wrt_append)
  qed (use that c w in simp)
  have "\<not> (w < ev_sequence r \<and> M r)" if r: "r \<in> set es1" for r
  proof
    assume a: "w < ev_sequence r \<and> M r"
    have "sorted_wrt (<) (map ev_sequence B)"
      using strict B by (simp add: sorted_wrt_append sorted_wrt_map sorted_wrt_filter)
    then have upto: "ev_sequence x \<le> ev_sequence (last B)" if "x \<in> set B" for x
      using that by (induction B rule: rev_induct) (auto simp: sorted_wrt_append)
    show False
    proof (cases "B = []")
      case True
      then show ?thesis using a r B w E1 by (auto simp: filter_empty_conv)
    next
      case False
      then have "c < w" using B w last_in_set [of B] by auto
      then have "r \<in> set B" using a r E1 B by auto
      then show ?thesis using upto [of r] a False w by simp
    qed
  qed
  then have "filter (\<lambda>r. w < ev_sequence r \<and> M r) es1 = []" by (simp add: filter_empty_conv)
  moreover have "filter (\<lambda>r. w < ev_sequence r \<and> M r) es2 = filter (\<lambda>r. c < ev_sequence r \<and> M r) es2"
    using above c by (intro filter_cong) auto
  ultimately show ?thesis by (simp add: E1 B)
qed

lemma later_above:
  assumes "events_wf s1" "events_wf s2" "st_events s2 = st_events s1 @ es" "c \<le> latest_sequence s1" "r \<in> set es"
  shows "c < ev_sequence r"
proof -
  have "latest_sequence s1 \<le> int (length (st_events s1))"
    unfolding latest_sequence_def
    by (rule fold_max_le) (auto simp: in_set_conv_nth sequence_nth [OF assms(1)])
  moreover obtain k where "k < length es" "r = st_events s2 ! (length (st_events s1) + k)"
    using assms(5) by (auto simp: in_set_conv_nth assms(3))
  ultimately show ?thesis
    using assms(4) sequence_nth [OF assms(2), of "length (st_events s1) + k"] by (simp add: assms(3))
qed

lemma tail_delivers:
  assumes wf: "store_wf s0" and reg: "register_tail s0 = (i, s0')" and run1: "others_run sj P i s0' s1"
    and opened: "open_tail sj i sid c s1 = Inr (backlog, st)"
    and page: "length (filter (session_matches sid) (drop (nat c) (st_events s1))) \<le> EVENT_TAIL_BACKLOG_LIMIT"
    and run2: "others_run sj P i s1 s2"
  shows "sbl_events backlog @ fst (fst (next_batch sj st s2))
    = map (from_record sj) (filter (\<lambda>r. c < ev_sequence r \<and> session_matches sid r) (st_events s2))"
proof -
  have s0': "store_wf s0'" "channel (st_hub s0') i = Some []" "st_events s0' = st_events s0"
    using reg wf by (auto simp: register_tail_def channel_subscribe_new store_wf_broadcaster store_wf_hub subscribe_wf)
  obtain es1 where es1: "store_wf s1" "st_events s1 = st_events s0 @ es1" "channel (st_hub s1) i = Some es1"
    using others_feed [OF run1 s0'(1,2)] s0'(3) by auto
  obtain es2 where es2: "store_wf s2" "st_events s2 = st_events s1 @ es2" "channel (st_hub s2) i = Some (es1 @ es2)"
    using others_feed [OF run2 es1(1,3)] by auto
  have ewf: "events_wf s1" "events_wf s2" using es1(1) es2(1) by (simp_all add: store_wf_def)
  obtain records where recs: "backlog_records sid c s1 = Inr records"
    and b: "sbl_events backlog = map (from_record sj) records"
    and st: "st = \<lparr>str_subscription = i, str_delivered_through = (if records = [] then c else ev_sequence (last records)),
      str_session_filter = sid\<rparr>" and ahead: "c \<le> latest_sequence s1"
    using opened
    by (auto simp: open_tail_def read_subscription_backlog_validated_def read_subscription_backlog_def and_then_Inr_iff
        split: if_splits)
  have B: "records = filter (\<lambda>r. c < ev_sequence r \<and> session_matches sid r) (st_events s1)"
    using backlog_records_eq [OF ewf(1) recs page] .
  have strict: "sorted_wrt (<) (map ev_sequence (st_events s1 @ es2))" using events_strict [OF ewf(2)] by (simp add: es2(2))
  have "c < ev_sequence r" if "r \<in> set es2" for r
    using later_above [OF ewf es2(2) ahead that] .
  then have "records @ filter (\<lambda>r. str_delivered_through st < ev_sequence r \<and> session_matches sid r) (es1 @ es2)
     = filter (\<lambda>r. c < ev_sequence r \<and> session_matches sid r) (st_events s0 @ es1 @ es2)"
    using strict by (intro seam_filter [where ?E1.0 = "st_events s1" and ?es2.0 = es2]) (simp_all add: es1(2) st B)
  moreover have "sorted_wrt (<) (map ev_sequence (es1 @ es2))" using strict by (simp add: es1(2) sorted_wrt_append)
  moreover have "fst (drain_pending i (st_hub s2)) = es1 @ es2" by (simp add: drain_pending_def es2(3))
  then have "map (from_record sj) records @ fst (fold_records sj (fst (drain_pending i (st_hub s2))) st)
     = map (from_record sj) (filter (\<lambda>r. c < ev_sequence r \<and> session_matches sid r) (st_events s0 @ es1 @ es2))"
    using fold_records_eq [of "es1 @ es2" sj st] calculation
    by (simp only: map_append [symmetric] st event_stream.simps)
  then show ?thesis by (simp add: next_batch_def split_beta b st es2(2) es1(2))
qed

end
