(* ===== verification/Concurrent_Writers.thy ===== *)
theory Concurrent_Writers
  imports Event_Tail
begin

text \<open>
  What a live tail sees while several threads write.  \<open>append_event\<close> and \<open>decide_permission_approval\<close>
  of \<open>capo-state/src/lib.rs\<close> first commit their transaction and then hand the committed rows to the
  broadcast hub; between the two, other threads run.  The operations of \<open>Event_Store\<close> do both in one
  step, which is what a caller of one operation at a time observes.  Here they are two steps: a state is
  a store with the rows that are committed and not yet published, oldest first.

  Publications happen in commit order (\<open>publish_first\<close>).  The code has no lock that enforces it; it
  holds as long as one writer runs at a time, which the transport's \<open>WriteSerializer\<close> arranges for the
  requests it serves.  An interrupt is recorded without that lock, so it can overtake another writer:
  \<open>overtaken_publication_is_lost\<close> shows what the tail then does.
\<close>

section \<open>Commits and publications as separate steps\<close>

inductive writer_step ::
  "serde \<Rightarrow> store \<times> event_record list \<Rightarrow> store \<times> event_record list \<Rightarrow> bool" for sj :: serde where
  commit_append:
    "append_transaction sj event rs s = Inr ((n, committed), s') \<Longrightarrow>
     writer_step sj (s, unpublished) (s', unpublished @ committed)"
| commit_decision:
    "decide_transaction sj a de ge decision g s = Inr ((n, committed), s') \<Longrightarrow>
     writer_step sj (s, unpublished) (s', unpublished @ committed)"
| publish_first:
    "writer_step sj (s, r # unpublished) (publish_events [r] s, unpublished)"
| no_commit:
    "store_step sj (\<lambda>_. True) s s' \<Longrightarrow> st_events s' = st_events s \<Longrightarrow>
     writer_step sj (s, unpublished) (s', unpublished)"

lemma append_transaction_shape:
  assumes "append_transaction sj event rs s = Inr ((n, c), s')"
  shows "st_events s' = st_events s @ c" "st_hub s' = st_hub s"
    and "append_event sj event rs s = (Inr n, publish_events c s')" "length c \<le> 1"
  using assms
  by (auto simp: append_event_def publish_committed_def op_bind_def in_transaction_def append_transaction_def
      and_then_Inr_iff insert_event_cases project_records_Inr update_watermark_def split: option.splits if_splits)

lemma decide_transaction_shape:
  assumes "decide_transaction sj a de ge decision g s = Inr ((n, c), s')"
  shows "st_events s' = st_events s @ c" "st_hub s' = st_hub s"
    and "decide_permission_approval sj a de ge decision g s = (Inr n, publish_events c s')"
  using assms
  by (auto simp: decide_permission_approval_def publish_committed_def op_bind_def in_transaction_def
      decide_transaction_def and_then_Inr_iff commit_one_Inr update_watermark_def
      split: option.splits if_splits prod.splits)

text \<open>The operations of the store are the runs in which nothing happens between commit and publication.\<close>

lemma publish_run: "(writer_step sj)\<^sup>*\<^sup>* (s, c @ u) (publish_events c s, u)"
proof (induction c arbitrary: s)
  case (Cons r c)
  have "writer_step sj (s, r # (c @ u)) (publish_events [r] s, c @ u)" by (rule publish_first)
  moreover have "publish_events c (publish_events [r] s) = publish_events (r # c) s" by (simp add: publish_events_def)
  ultimately show ?case using Cons.IH [of "publish_events [r] s"]
    by (metis append_Cons converse_rtranclp_into_rtranclp)
qed (simp add: publish_events_def)

lemma append_event_run: "(writer_step sj)\<^sup>*\<^sup>* (s, []) (snd (append_event sj event rs s), [])"
proof (cases "append_transaction sj event rs s")
  case (Inl e)
  then show ?thesis
    by (simp add: append_event_def publish_committed_def op_bind_def in_transaction_def)
next
  case (Inr p)
  obtain n c s' where p: "p = ((n, c), s')" by (metis prod.exhaust)
  have "writer_step sj (s, []) (s', [] @ c @ [])" using commit_append [of sj event rs s n c s' "[]"] Inr p by simp
  then show ?thesis
    using publish_run [of sj s' c "[]"] append_transaction_shape(3) Inr p
    by (metis append_Nil converse_rtranclp_into_rtranclp snd_conv)
qed

section \<open>What was not published is the end of the log\<close>

definition in_order :: "store \<times> event_record list \<Rightarrow> bool" where
  "in_order x \<longleftrightarrow> store_wf (fst x) \<and> (\<exists>pre. st_events (fst x) = pre @ snd x)"

lemma unpublished_wf:
  assumes "store_wf (publish_events c s')" "st_hub s' = st_hub s" "store_wf s"
  shows "store_wf s'"
proof -
  have "s' = (publish_events c s')\<lparr>st_hub := st_hub s\<rparr>" using assms(2) by (simp add: publish_events_def)
  with store_wf_hub [OF assms(1) store_wf_broadcaster [OF assms(3)]] show ?thesis by simp
qed

lemma publish_store_wf: "store_wf s \<Longrightarrow> store_wf (publish_events c s)"
  by (simp add: publish_events_def store_wf_hub publish_all_wf store_wf_broadcaster)

lemma commit_append_wf:
  assumes "store_wf s" "append_transaction sj event rs s = Inr ((n, c), s')"
  shows "store_wf s'"
  using store_wf_append [OF assms(1), of sj event rs] append_transaction_shape [OF assms(2)] assms(1)
  by (intro unpublished_wf [of c s' s]) simp_all

lemma commit_decision_wf:
  assumes "store_wf s" "decide_transaction sj a de ge decision g s = Inr ((n, c), s')"
  shows "store_wf s'"
proof -
  have "store_wf (snd (decide_permission_approval sj a de ge decision g s))"
    using assms(1) by (intro wfc.decide_keeps) (simp_all add: opt_all_def split: option.splits)
  with decide_transaction_shape [OF assms(2)] assms(1) show ?thesis
    by (intro unpublished_wf [of c s' s]) simp_all
qed

lemma writer_step_wf: "writer_step sj x y \<Longrightarrow> store_wf (fst x) \<Longrightarrow> store_wf (fst y)"
proof (induction rule: writer_step.induct)
  case (commit_append event rs s n c s' u)
  then show ?case using commit_append_wf [of s sj event rs] by simp
next
  case (commit_decision a de ge decision g s n c s' u)
  then show ?case using commit_decision_wf [of s sj a de ge decision g] by simp
next
  case (no_commit s s' u)
  then show ?case using store_step_wf [of sj _ s s'] by simp
qed (simp add: publish_store_wf)

lemma writer_step_in_order: "writer_step sj x y \<Longrightarrow> in_order x \<Longrightarrow> in_order y"
proof -
  have "\<exists>pre. st_events (fst y) = pre @ snd y" if "writer_step sj x y" "\<exists>pre. st_events (fst x) = pre @ snd x"
    using that
    by (induction rule: writer_step.induct)
      (auto simp: append_transaction_shape decide_transaction_shape publish_events_def)
  then show "writer_step sj x y \<Longrightarrow> in_order x \<Longrightarrow> ?thesis"
    using writer_step_wf by (auto simp: in_order_def)
qed

lemma writers_in_order: "(writer_step sj)\<^sup>*\<^sup>* (store_open, []) x \<Longrightarrow> in_order x"
proof (induction rule: rtranclp_induct)
  case base
  have "st_events store_open = []" by (simp add: store_open_def)
  then show ?case by (simp add: in_order_def store_open_wf)
qed (rule writer_step_in_order)

section \<open>A tail among the writers\<close>

text \<open>Steps of other threads, none of which reads from channel \<open>i\<close> or closes it.\<close>

inductive tail_run ::
  "serde \<Rightarrow> nat \<Rightarrow> store \<times> event_record list \<Rightarrow> store \<times> event_record list \<Rightarrow> bool"
  for sj :: serde and i :: nat where
  tail_none: "tail_run sj i x x"
| tail_more:
    "tail_run sj i x y \<Longrightarrow> writer_step sj y z \<Longrightarrow>
     (\<And>q. channel (st_hub (fst y)) i = Some q \<Longrightarrow> \<exists>q'. channel (st_hub (fst z)) i = Some (q @ q')) \<Longrightarrow>
     tail_run sj i x z"

text \<open>The log is what the channel missed, then what waits in it, then what is still to be published.\<close>

definition fed_after :: "event_record list \<Rightarrow> nat \<Rightarrow> store \<times> event_record list \<Rightarrow> bool" where
  "fed_after pre i x \<longleftrightarrow>
     store_wf (fst x)
     \<and> (\<exists>q. channel (st_hub (fst x)) i = Some q \<and> st_events (fst x) = pre @ q @ snd x)"

lemma writer_step_fed:
  assumes "writer_step sj x y" "fed_after pre i x"
    and "\<And>q. channel (st_hub (fst x)) i = Some q \<Longrightarrow> \<exists>q'. channel (st_hub (fst y)) i = Some (q @ q')"
  shows "fed_after pre i y"
proof -
  from assms(2) obtain q where q: "channel (st_hub (fst x)) i = Some q" "st_events (fst x) = pre @ q @ snd x"
    and wf: "store_wf (fst x)" by (auto simp: fed_after_def)
  have "\<exists>q'. channel (st_hub (fst y)) i = Some q' \<and> st_events (fst y) = pre @ q' @ snd y"
    using assms(1) q wf assms(3)
  proof (induction rule: writer_step.induct)
    case (publish_first s r u)
    then show ?case by (simp add: publish_events_def channel_publish [OF store_wf_broadcaster])
  next
    case (no_commit s s' u)
    have "feeds s i s'"
      using no_commit by (intro step_feeds [OF no_commit(1)] store_wf_broadcaster) simp_all
    with no_commit show ?case by (auto simp: feeds_def)
  qed (auto simp: append_transaction_shape decide_transaction_shape)
  with writer_step_wf [OF assms(1) wf] show ?thesis by (simp add: fed_after_def)
qed

lemma writer_step_log: "writer_step sj x y \<Longrightarrow> \<exists>es. st_events (fst y) = st_events (fst x) @ es"
  by (induction rule: writer_step.induct)
    (auto simp: append_transaction_shape decide_transaction_shape publish_events_def)

lemma tail_run_fed: "tail_run sj i x y \<Longrightarrow> fed_after pre i x \<Longrightarrow> fed_after pre i y"
  by (induction rule: tail_run.induct) (auto intro: writer_step_fed)

lemma tail_run_log: "tail_run sj i x y \<Longrightarrow> \<exists>es. st_events (fst y) = st_events (fst x) @ es"
proof (induction rule: tail_run.induct)
  case (tail_more x y z)
  then show ?case using writer_step_log [of sj y z] by auto
qed simp

lemma registered_fed:
  assumes "in_order (s0, u)" "register_tail s0 = (i, s0')"
  obtains pre where "fed_after pre i (s0', u)"
proof -
  from assms(1) obtain pre where pre: "st_events s0 = pre @ u" and wf: "store_wf s0" by (auto simp: in_order_def)
  have "store_wf s0'" "channel (st_hub s0') i = Some []" "st_events s0' = st_events s0"
    using assms(2) wf by (auto simp: register_tail_def channel_subscribe_new store_wf_broadcaster store_wf_hub subscribe_wf)
  with pre that [of pre] show thesis by (simp add: fed_after_def)
qed

lemma seam_take:
  fixes E1 :: "event_record list"
  assumes strict: "sorted_wrt (<) (map ev_sequence (E1 @ es))" and E: "E1 @ es = pre @ q @ u"
    and pre: "length pre \<le> length E1"
    and w: "w = (if B = [] then c else ev_sequence (last B))" and B: "B = filter (\<lambda>r. c < ev_sequence r \<and> M r) E1"
    and c: "\<forall>r \<in> set es. c < ev_sequence r"
  shows "B @ filter (\<lambda>r. w < ev_sequence r \<and> M r) q
    = filter (\<lambda>r. c < ev_sequence r \<and> M r) (take (max (length E1) (length (pre @ q))) (E1 @ es))"
proof (cases "length E1 \<le> length (pre @ q)")
  case True
  let ?es = "drop (length E1) (pre @ q)"
  have "(E1 @ es) = (pre @ q) @ u" using E by simp
  then have split: "pre @ q = E1 @ ?es" "es = ?es @ u" using True
    by (auto simp: append_eq_append_conv2)
  have tk: "take (max (length E1) (length (pre @ q))) (E1 @ es) = pre @ q"
    using True E by (simp add: max_absorb2)
  have "sorted_wrt (<) (map ev_sequence ((E1 @ ?es) @ u))"
    using strict by (subst (asm) split(2)) simp
  then have "sorted_wrt (<) (map ev_sequence (E1 @ ?es))"
    unfolding map_append sorted_wrt_append by blast
  moreover have "\<forall>r \<in> set ?es. c < ev_sequence r" using c by (subst (asm) split(2)) auto
  ultimately show ?thesis
    using seam_filter [OF _ split(1) [symmetric] pre w B] tk by simp
next
  case False
  obtain rest where rest: "E1 = (pre @ q) @ rest" using E False
    by (metis append.assoc append_eq_append_conv_if append_take_drop_id linear)
  have "sorted_wrt (<) (map ev_sequence (E1 @ []))" using strict by (simp add: sorted_wrt_append)
  then have "B @ filter (\<lambda>r. w < ev_sequence r \<and> M r) (q @ rest) = filter (\<lambda>r. c < ev_sequence r \<and> M r) (pre @ q @ rest)"
    using rest pre by (intro seam_filter [where ?es2.0 = "[]", OF _ _ pre w B]) simp_all
  then have "filter (\<lambda>r. w < ev_sequence r \<and> M r) q = []" using B rest by simp
  moreover have "take (max (length E1) (length (pre @ q))) (E1 @ es) = E1" using False by simp
  ultimately show ?thesis unfolding B by (simp del: take_append)
qed

lemma tail_among_writers:
  assumes ord: "in_order (s0, u0)" and reg: "register_tail s0 = (i, s0')"
    and run1: "tail_run sj i (s0', u0) (s1, u1)" and opened: "open_tail sj i sid c s1 = Inr (backlog, st)"
    and page: "length (filter (session_matches sid) (drop (nat c) (st_events s1))) \<le> EVENT_TAIL_BACKLOG_LIMIT"
    and run2: "tail_run sj i (s1, u1) (s2, u2)"
  shows "sbl_events backlog @ fst (fst (next_batch sj st s2))
    = map (from_record sj) (filter (\<lambda>r. c < ev_sequence r \<and> session_matches sid r)
        (take (max (length (st_events s1)) (length (st_events s2) - length u2)) (st_events s2)))"
proof -
  obtain pre where fed: "fed_after pre i (s0', u0)" using registered_fed [OF ord reg] .
  note fed1 = tail_run_fed [OF run1 fed] and fed2 = tail_run_fed [OF run2 tail_run_fed [OF run1 fed]]
  obtain q1 where q1: "store_wf s1" "st_events s1 = pre @ q1 @ u1" using fed1 by (auto simp: fed_after_def)
  obtain q where q: "store_wf s2" "channel (st_hub s2) i = Some q" "st_events s2 = pre @ q @ u2"
    using fed2 by (auto simp: fed_after_def)
  obtain es where es: "st_events s2 = st_events s1 @ es" using tail_run_log [OF run2] by auto
  have ewf: "events_wf s1" "events_wf s2" using q1(1) q(1) by (simp_all add: store_wf_def)
  obtain records where recs: "backlog_records sid c s1 = Inr records"
    and b: "sbl_events backlog = map (from_record sj) records"
    and st: "st = \<lparr>str_subscription = i, str_delivered_through = (if records = [] then c else ev_sequence (last records)),
      str_session_filter = sid\<rparr>" and ahead: "c \<le> latest_sequence s1"
    using opened
    by (auto simp: open_tail_def read_subscription_backlog_validated_def read_subscription_backlog_def and_then_Inr_iff
        split: if_splits)
  have B: "records = filter (\<lambda>r. c < ev_sequence r \<and> session_matches sid r) (st_events s1)"
    using backlog_records_eq [OF ewf(1) recs page] .
  have strict: "sorted_wrt (<) (map ev_sequence (st_events s1 @ es))" using events_strict [OF ewf(2)] by (simp add: es)
  have late: "\<forall>r \<in> set es. c < ev_sequence r" using later_above [OF ewf es ahead] by blast
  have "records @ filter (\<lambda>r. str_delivered_through st < ev_sequence r \<and> session_matches sid r) q
     = filter (\<lambda>r. c < ev_sequence r \<and> session_matches sid r)
         (take (max (length (st_events s1)) (length (pre @ q))) (st_events s1 @ es))"
    by (rule seam_take [OF strict _ _ _ B late, where u = u2], unfold es [symmetric] q(3) st) (simp_all add: q1(2))
  moreover have "length (st_events s2) - length u2 = length (pre @ q)" by (simp add: q(3))
  moreover have "sorted_wrt (<) (map ev_sequence q)" using events_strict [OF ewf(2)] by (simp add: q(3) sorted_wrt_append)
  moreover have "fst (drain_pending i (st_hub s2)) = q" by (simp add: drain_pending_def q(2))
  ultimately have "map (from_record sj) records @ fst (fold_records sj (fst (drain_pending i (st_hub s2))) st)
     = map (from_record sj) (filter (\<lambda>r. c < ev_sequence r \<and> session_matches sid r)
        (take (max (length (st_events s1)) (length (st_events s2) - length u2)) (st_events s2)))"
    using fold_records_eq [of q sj st] by (simp only: map_append [symmetric] st event_stream.simps es)
  then show ?thesis by (simp add: next_batch_def split_beta b st)
qed

section \<open>A publication that is overtaken\<close>

text \<open>
  Two writers that commit \<open>r\<close> and then \<open>r'\<close> and publish in the other order: the tail passes the
  later event on, moves its watermark to it, and drops the earlier one, now and for good.
\<close>

lemma overtaken_publication_is_lost:
  assumes "str_delivered_through st < ev_sequence r" "ev_sequence r < ev_sequence r'"
    and "session_matches (str_session_filter st) r" "session_matches (str_session_filter st) r'"
  shows "fold_records sj [r', r] st = ([from_record sj r'], st\<lparr>str_delivered_through := ev_sequence r'\<rparr>)"
    and "fold_records sj [r, r'] st = ([from_record sj r, from_record sj r'], st\<lparr>str_delivered_through := ev_sequence r'\<rparr>)"
  using assms by simp_all

end
