(* ===== verification/Session_Thread.thy ===== *)
theory Session_Thread
  imports Event_Tail
begin

text \<open>
  The conversation thread of a session: \<open>capo-state/src/thread.rs\<close>, the query \<open>session_thread\<close> of
  \<open>queries.rs\<close>, and \<open>read_thread\<close> with \<open>ServerThread::from_thread\<close> of \<open>capo-server\<close>.

  The code folds the events into a list of turns that it updates in place.  The specification groups
  the events by turn: one turn per turn id, in the order of first appearance, with the items of its
  events in log order, and the status of its last terminal event.

  Shown here: the fold computes that grouping; feeding an event again changes nothing.
\<close>

section \<open>Items and turns\<close>

datatype thread_turn_status = InProgress | ThreadCompleted | ThreadInterrupted | ThreadStopped | ThreadFailed

fun turn_status_as_str :: "thread_turn_status \<Rightarrow> string" where
  "turn_status_as_str InProgress = ''in_progress''"
| "turn_status_as_str ThreadCompleted = ''completed''"
| "turn_status_as_str ThreadInterrupted = ''interrupted''"
| "turn_status_as_str ThreadStopped = ''stopped''"
| "turn_status_as_str ThreadFailed = ''failed''"

fun from_terminal_outcome :: "projected_turn_outcome \<Rightarrow> thread_turn_status" where
  "from_terminal_outcome TurnCompleted = ThreadCompleted"
| "from_terminal_outcome TurnInterrupted = ThreadInterrupted"
| "from_terminal_outcome TurnStopped = ThreadStopped"
| "from_terminal_outcome TurnFailed = ThreadFailed"

datatype thread_item_kind = OutputItem | ToolItem | TerminalItem

fun item_kind_as_str :: "thread_item_kind \<Rightarrow> string" where
  "item_kind_as_str OutputItem = ''output''"
| "item_kind_as_str ToolItem = ''tool''"
| "item_kind_as_str TerminalItem = ''terminal''"

record thread_item =
  itm_sequence :: int
  itm_event_id :: string
  itm_kind :: thread_item_kind
  itm_event_kind :: string
  itm_item_ref :: "string option"
  itm_text :: "string option"
  itm_redaction_state :: string

record thread_turn =
  trn_turn_id :: string
  trn_status :: thread_turn_status
  trn_first_sequence :: int
  trn_last_sequence :: int
  trn_items :: "thread_item list"

record session_thread =
  thr_session_id :: string
  thr_since_sequence :: int
  thr_next_sequence :: int
  thr_turns :: "thread_turn list"

text \<open>The prose keys, in the order they are tried.\<close>

definition text_keys :: "string list" where
  "text_keys = [''content'', ''adapter_summary'', ''latest_summary'', ''detail'', ''latest_blocker'', ''message'', ''reason'']"

fun first_text :: "json \<Rightarrow> string list \<Rightarrow> string option" where
  "first_text object [] = None"
| "first_text object (key # keys) =
     (case Option.bind (json_get object key) value_as_str of
        Some t \<Rightarrow> if t \<noteq> [] then Some t else first_text object keys
      | None \<Rightarrow> first_text object keys)"

definition ref_field :: "json \<Rightarrow> string \<Rightarrow> string option" where
  "ref_field object key =
     (case Option.bind (json_get object key) value_as_str of
        Some t \<Rightarrow> if t \<noteq> [] \<and> t \<noteq> ''none'' then Some t else None
      | None \<Rightarrow> None)"

definition ref_label :: "json \<Rightarrow> string option" where
  "ref_label object =
     (case (ref_field object ''tool_name'', ref_field object ''normalized_kind'', ref_field object ''status'') of
        (Some tool, _, Some status) \<Rightarrow> Some (tool @ '' ('' @ status @ '')'')
      | (Some tool, _, None) \<Rightarrow> Some tool
      | (None, Some normalized, Some status) \<Rightarrow> Some (normalized @ '' ('' @ status @ '')'')
      | (None, Some normalized, None) \<Rightarrow> Some normalized
      | (None, None, _) \<Rightarrow> None)"

definition item_text :: "serde \<Rightarrow> event_record \<Rightarrow> string option" where
  "item_text sj ev =
     (case from_text sj (ev_payload_json ev) of
        Inr (JObject m) \<Rightarrow>
          (case first_text (JObject m) text_keys of Some t \<Rightarrow> Some t | None \<Rightarrow> ref_label (JObject m))
      | _ \<Rightarrow> None)"

definition project_item :: "serde \<Rightarrow> event_record \<Rightarrow> thread_item option" where
  "project_item sj ev =
     Option.bind (from_wire (ev_kind ev)) (\<lambda>event_kind.
     Option.bind
       (if is_summary_event event_kind then Some OutputItem
        else if is_tool_event event_kind then Some ToolItem
        else if terminal_turn_outcome event_kind \<noteq> None then Some TerminalItem
        else None) (\<lambda>kind.
     Some \<lparr>itm_sequence = ev_sequence ev, itm_event_id = ev_event_id ev, itm_kind = kind, itm_event_kind = ev_kind ev,
       itm_item_ref = ev_item_id ev, itm_text = item_text sj ev, itm_redaction_state = ev_redaction_state ev\<rparr>))"

definition terminal_status_for :: "string \<Rightarrow> thread_turn_status option" where
  "terminal_status_for kind =
     Option.bind (from_wire kind) (\<lambda>k. map_option from_terminal_outcome (terminal_turn_outcome k))"

section \<open>The fold\<close>

definition new_turn :: "string \<Rightarrow> event_record \<Rightarrow> thread_turn" where
  "new_turn turn_id ev =
     \<lparr>trn_turn_id = turn_id, trn_status = InProgress, trn_first_sequence = ev_sequence ev,
      trn_last_sequence = ev_sequence ev, trn_items = []\<rparr>"

definition add_item :: "event_record \<Rightarrow> thread_item \<Rightarrow> thread_turn \<Rightarrow> thread_turn" where
  "add_item ev item turn =
     turn\<lparr>trn_last_sequence := ev_sequence ev,
          trn_status := (case terminal_status_for (ev_kind ev) of Some st \<Rightarrow> st | None \<Rightarrow> trn_status turn),
          trn_items := trn_items turn @ [item]\<rparr>"

fun update_turn :: "string \<Rightarrow> event_record \<Rightarrow> thread_item \<Rightarrow> thread_turn list \<Rightarrow> thread_turn list" where
  "update_turn turn_id ev item [] = [add_item ev item (new_turn turn_id ev)]"
| "update_turn turn_id ev item (t # ts) =
     (if trn_turn_id t = turn_id then add_item ev item t # ts else t # update_turn turn_id ev item ts)"

record project_state =
  ps_turns :: "thread_turn list"
  ps_seen :: "string list"
  ps_next :: int

definition project_event :: "serde \<Rightarrow> event_record \<Rightarrow> project_state \<Rightarrow> project_state" where
  "project_event sj ev st0 =
     (let st = st0\<lparr>ps_next := (if ev_sequence ev > ps_next st0 then ev_sequence ev else ps_next st0)\<rparr> in
      if ev_event_id ev \<in> set (ps_seen st) then st
      else
        (case project_item sj ev of
           None \<Rightarrow> st
         | Some item \<Rightarrow>
             (case ev_turn_id ev of
                None \<Rightarrow> st
              | Some turn_id \<Rightarrow>
                  st\<lparr>ps_seen := ps_seen st @ [ev_event_id ev],
                     ps_turns := update_turn turn_id ev item (ps_turns st)\<rparr>)))"

definition project_all :: "serde \<Rightarrow> int \<Rightarrow> event_record list \<Rightarrow> project_state" where
  "project_all sj since es = fold (project_event sj) es \<lparr>ps_turns = [], ps_seen = [], ps_next = since\<rparr>"

definition project_thread :: "serde \<Rightarrow> string \<Rightarrow> int \<Rightarrow> event_record list \<Rightarrow> session_thread" where
  "project_thread sj session_id since es =
     (let st = project_all sj since es in
      \<lparr>thr_session_id = session_id, thr_since_sequence = since, thr_next_sequence = ps_next st, thr_turns = ps_turns st\<rparr>)"

definition item_count :: "session_thread \<Rightarrow> nat" where
  "item_count thread = sum_list (map (\<lambda>t. length (trn_items t)) (thr_turns thread))"

definition query_session_thread :: "serde \<Rightarrow> string \<Rightarrow> int \<Rightarrow> nat \<Rightarrow> store \<Rightarrow> session_thread" where
  "query_session_thread sj session_id since limit s =
     project_thread sj session_id since (events_after_for_session session_id since limit s)"

definition from_thread :: "session_thread \<Rightarrow> server_thread" where
  "from_thread thread =
     \<lparr>sth_session_id = thr_session_id thread,
      sth_from_sequence = thr_since_sequence thread,
      sth_next_sequence = thr_next_sequence thread,
      sth_turns = map (\<lambda>turn.
        \<lparr>stt_turn_id = trn_turn_id turn,
         stt_status = turn_status_as_str (trn_status turn),
         stt_first_sequence = trn_first_sequence turn,
         stt_last_sequence = trn_last_sequence turn,
         stt_items = map (\<lambda>item.
           \<lparr>sti_sequence = itm_sequence item, sti_event_id = itm_event_id item,
            sti_kind = item_kind_as_str (itm_kind item), sti_event_kind = itm_event_kind item,
            sti_item_ref = itm_item_ref item, sti_text = itm_text item,
            sti_redaction_state = itm_redaction_state item\<rparr>) (trn_items turn)\<rparr>) (thr_turns thread)\<rparr>"

definition read_thread :: "serde \<Rightarrow> string \<Rightarrow> int \<Rightarrow> store \<Rightarrow> (server_error, server_thread) result" where
  "read_thread sj session_id from_sequence s =
     (case typed_id_new session_id of
        Inl _ \<Rightarrow> Inl ServerPanic
      | Inr sid \<Rightarrow> Inr (from_thread (query_session_thread sj sid from_sequence EVENT_TAIL_BACKLOG_LIMIT s)))"

section \<open>The specification: events grouped by turn\<close>

definition contributes :: "serde \<Rightarrow> event_record \<Rightarrow> bool" where
  "contributes sj ev \<longleftrightarrow> project_item sj ev \<noteq> None \<and> ev_turn_id ev \<noteq> None"

definition turn_events :: "serde \<Rightarrow> string \<Rightarrow> event_record list \<Rightarrow> event_record list" where
  "turn_events sj t es = filter (\<lambda>ev. contributes sj ev \<and> ev_turn_id ev = Some t) es"

definition turn_of :: "serde \<Rightarrow> event_record list \<Rightarrow> string \<Rightarrow> thread_turn" where
  "turn_of sj es t =
     (let evs = turn_events sj t es; terminal = List.map_filter (\<lambda>ev. terminal_status_for (ev_kind ev)) evs in
      \<lparr>trn_turn_id = t,
       trn_status = (if terminal = [] then InProgress else last terminal),
       trn_first_sequence = ev_sequence (hd evs),
       trn_last_sequence = ev_sequence (last evs),
       trn_items = List.map_filter (project_item sj) evs\<rparr>)"

fun first_seen :: "'a list \<Rightarrow> 'a list" where
  "first_seen [] = []"
| "first_seen (x # xs) = x # filter (\<lambda>y. y \<noteq> x) (first_seen xs)"

definition turn_ids :: "serde \<Rightarrow> event_record list \<Rightarrow> string list" where
  "turn_ids sj es = first_seen (List.map_filter (\<lambda>ev. if contributes sj ev then ev_turn_id ev else None) es)"

section \<open>The fold computes the grouping\<close>

lemma set_first_seen [simp]: "set (first_seen xs) = set xs"
  by (induction xs) auto

lemma distinct_first_seen: "distinct (first_seen xs)"
  by (induction xs) auto

lemma first_seen_snoc: "first_seen (xs @ [x]) = (if x \<in> set xs then first_seen xs else first_seen xs @ [x])"
  by (induction xs) auto

lemma map_filter_snoc: "List.map_filter f (xs @ [x]) = List.map_filter f xs @ (case f x of None \<Rightarrow> [] | Some y \<Rightarrow> [y])"
  by (simp add: List.map_filter_def split: option.splits)

lemma turn_events_snoc:
  "turn_events sj t (es @ [ev]) = turn_events sj t es @ (if contributes sj ev \<and> ev_turn_id ev = Some t then [ev] else [])"
  by (simp add: turn_events_def)

lemma turn_of_other: "\<not> (contributes sj ev \<and> ev_turn_id ev = Some t) \<Longrightarrow> turn_of sj (es @ [ev]) t = turn_of sj es t"
  unfolding turn_of_def turn_events_snoc by auto

lemma turn_of_new:
  assumes "contributes sj ev" "ev_turn_id ev = Some t" "project_item sj ev = Some item" "turn_events sj t es = []"
  shows "turn_of sj (es @ [ev]) t = add_item ev item (new_turn t ev)"
  using assms
  by (simp add: turn_of_def turn_events_snoc add_item_def new_turn_def List.map_filter_def Let_def split: option.splits)

lemma turn_of_more:
  assumes "contributes sj ev" "ev_turn_id ev = Some t" "project_item sj ev = Some item" "turn_events sj t es \<noteq> []"
  shows "turn_of sj (es @ [ev]) t = add_item ev item (turn_of sj es t)"
  using assms by (simp add: turn_of_def turn_events_snoc add_item_def map_filter_snoc Let_def split: option.splits)

lemma turn_id_of [simp]: "trn_turn_id (turn_of sj es t) = t"
  by (simp add: turn_of_def Let_def)

lemma update_absent: "t \<notin> set ts \<Longrightarrow> update_turn t ev item (map (turn_of sj es) ts) = map (turn_of sj es) ts @ [add_item ev item (new_turn t ev)]"
  by (induction ts) auto

lemma update_present:
  "distinct ts \<Longrightarrow> t \<in> set ts \<Longrightarrow>
   update_turn t ev item (map (turn_of sj es) ts) = map (\<lambda>u. if u = t then add_item ev item (turn_of sj es t) else turn_of sj es u) ts"
  by (induction ts) (auto intro!: map_cong)

lemma turn_ids_snoc:
  "turn_ids sj (es @ [ev]) =
     (case (if contributes sj ev then ev_turn_id ev else None) of
        None \<Rightarrow> turn_ids sj es
      | Some t \<Rightarrow> if t \<in> set (turn_ids sj es) then turn_ids sj es else turn_ids sj es @ [t])"
  by (simp add: turn_ids_def map_filter_snoc first_seen_snoc split: option.splits)

lemma turn_ids_iff: "t \<in> set (turn_ids sj es) \<longleftrightarrow> turn_events sj t es \<noteq> []"
  by (induction es rule: rev_induct)
    (auto simp: turn_ids_snoc turn_events_snoc turn_events_def turn_ids_def List.map_filter_def split: option.splits if_splits)

lemma project_all_snoc: "project_all sj since (es @ [ev]) = project_event sj ev (project_all sj since es)"
  by (simp add: project_all_def)

lemma seen_iff: "distinct (map ev_event_id es) \<Longrightarrow> set (ps_seen (project_all sj since es)) = ev_event_id ` set (filter (contributes sj) es)"
proof (induction es rule: rev_induct)
  case (snoc ev es)
  then have "ev_event_id ev \<notin> set (ps_seen (project_all sj since es))" by auto
  then show ?case
    using snoc by (auto simp: project_all_snoc project_event_def Let_def contributes_def split: option.splits)
qed (simp add: project_all_def)

lemma project_groups:
  assumes "distinct (map ev_event_id es)"
  shows "ps_turns (project_all sj since es) = map (turn_of sj es) (turn_ids sj es)"
  using assms
proof (induction es rule: rev_induct)
  case Nil
  show ?case by (simp add: project_all_def turn_ids_def List.map_filter_def)
next
  case (snoc ev es)
  then have IH: "ps_turns (project_all sj since es) = map (turn_of sj es) (turn_ids sj es)" by simp
  have fresh: "ev_event_id ev \<notin> set (ps_seen (project_all sj since es))" using snoc.prems seen_iff [of es] by auto
  show ?case
  proof (cases "contributes sj ev")
    case False
    then have "map (turn_of sj (es @ [ev])) ts = map (turn_of sj es) ts" for ts by (simp add: turn_of_other)
    moreover have "ps_turns (project_all sj since (es @ [ev])) = ps_turns (project_all sj since es)"
      using False fresh by (auto simp: project_all_snoc project_event_def Let_def contributes_def split: option.splits)
    ultimately show ?thesis using False IH by (simp add: turn_ids_snoc)
  next
    case True
    then obtain t item where t: "ev_turn_id ev = Some t" "project_item sj ev = Some item" by (auto simp: contributes_def)
    have step: "ps_turns (project_all sj since (es @ [ev])) = update_turn t ev item (map (turn_of sj es) (turn_ids sj es))"
      using fresh t IH by (simp add: project_all_snoc project_event_def Let_def)
    have other: "turn_of sj (es @ [ev]) u = turn_of sj es u" if "u \<noteq> t" for u using that t by (simp add: turn_of_other)
    show ?thesis
    proof (cases "t \<in> set (turn_ids sj es)")
      case False
      then have "map (turn_of sj (es @ [ev])) (turn_ids sj es) = map (turn_of sj es) (turn_ids sj es)"
        using other by (intro map_cong refl) metis
      moreover have "turn_of sj (es @ [ev]) t = add_item ev item (new_turn t ev)"
        using False by (intro turn_of_new True t) (simp add: turn_ids_iff)
      ultimately show ?thesis using step True t False by (simp add: turn_ids_snoc update_absent)
    next
      case present: True
      have "distinct (turn_ids sj es)" by (simp add: turn_ids_def distinct_first_seen)
      then have "update_turn t ev item (map (turn_of sj es) (turn_ids sj es))
          = map (\<lambda>u. if u = t then add_item ev item (turn_of sj es t) else turn_of sj es u) (turn_ids sj es)"
        using present by (rule update_present)
      also have "\<dots> = map (turn_of sj (es @ [ev])) (turn_ids sj es)"
        using present other turn_of_more [OF True t, of es] by (intro map_cong refl) (auto simp: turn_ids_iff)
      finally have "update_turn t ev item (map (turn_of sj es) (turn_ids sj es)) = \<dots>" .
      then show ?thesis using step True t present by (simp add: turn_ids_snoc)
    qed
  qed
qed

section \<open>Feeding events again\<close>

lemma ps_next_upper: "ev \<in> set es \<Longrightarrow> ev_sequence ev \<le> ps_next (project_all sj since es)"
proof (induction es rule: rev_induct)
  case (snoc x es)
  have "ps_next (project_all sj since (es @ [x])) = max (ps_next (project_all sj since es)) (ev_sequence x)"
    by (simp add: project_all_snoc project_event_def Let_def max_def split: option.splits)
  then show ?case using snoc by fastforce
qed simp

lemma seen_contributing: "ev \<in> set es \<Longrightarrow> contributes sj ev \<Longrightarrow> ev_event_id ev \<in> set (ps_seen (project_all sj since es))"
proof (induction es rule: rev_induct)
  case (snoc x es)
  have mono: "set (ps_seen st) \<subseteq> set (ps_seen (project_event sj x st))" for st
    by (auto simp: project_event_def Let_def split: option.splits)
  show ?case
  proof (cases "ev \<in> set es")
    case True
    then show ?thesis using snoc mono by (auto simp: project_all_snoc)
  next
    case False
    then have "ev = x" using snoc.prems by simp
    then show ?thesis using snoc.prems by (auto simp: project_all_snoc project_event_def Let_def contributes_def)
  qed
qed simp

lemma project_again: "ev \<in> set es \<Longrightarrow> project_event sj ev (project_all sj since es) = project_all sj since es"
  using ps_next_upper [of ev es sj since] seen_contributing [of ev es sj since]
  by (auto simp: project_event_def Let_def contributes_def split: option.splits)

lemma refeed: "set dup \<subseteq> set es \<Longrightarrow> project_all sj since (es @ dup) = project_all sj since es"
proof (induction dup rule: rev_induct)
  case (snoc x dup)
  have "project_all sj since (es @ dup @ [x]) = project_event sj x (project_all sj since (es @ dup))"
    using project_all_snoc [of sj since "es @ dup" x] by simp
  also have "\<dots> = project_event sj x (project_all sj since es)" using snoc by simp
  also have "\<dots> = project_all sj since es" using snoc.prems by (simp add: project_again)
  finally show ?case .
qed simp

section \<open>The thread of a stored session\<close>

lemma session_page:
  assumes "events_wf s" "int limit < 2 ^ 63"
  shows "events_after_for_session sid since limit s
     = take limit (filter (\<lambda>e. since < ev_sequence e \<and> ev_session_id e = Some sid) (st_events s))"
  using sort_key_sorted [OF events_sorted [OF assms(1)]] assms(2)
  by (simp add: events_after_for_session_def limit_rows_take)

lemma session_page_distinct:
  assumes "events_wf s" "int limit < 2 ^ 63"
  shows "distinct (map ev_event_id (events_after_for_session sid since limit s))"
proof -
  have "distinct (map ev_event_id (filter p (st_events s)))" for p
    using assms(1) by (simp add: events_wf_def distinct_map_filter)
  then show ?thesis by (simp add: session_page [OF assms] flip: take_map)
qed

lemma thread_of_page:
  assumes "events_wf s" "int limit < 2 ^ 63"
  shows "thr_turns (query_session_thread sj sid since limit s)
    = map (turn_of sj (events_after_for_session sid since limit s)) (turn_ids sj (events_after_for_session sid since limit s))"
  by (simp add: query_session_thread_def project_thread_def Let_def project_groups session_page_distinct [OF assms])

text \<open>An event on the page that carries an item is shown with its text.\<close>

lemma item_in_thread:
  assumes "events_wf s" "int limit < 2 ^ 63" and "r \<in> set (events_after_for_session sid since limit s)"
    and "ev_turn_id r = Some t" and "project_item sj r = Some item"
  shows "\<exists>turn \<in> set (thr_turns (query_session_thread sj sid since limit s)). trn_turn_id turn = t \<and> item \<in> set (trn_items turn)"
proof -
  let ?es = "events_after_for_session sid since limit s"
  have r: "r \<in> set (turn_events sj t ?es)" using assms(3-5) by (simp add: turn_events_def contributes_def)
  then have "t \<in> set (turn_ids sj ?es)" by (auto simp: turn_ids_iff)
  moreover have "item \<in> set (trn_items (turn_of sj ?es t))"
    using r assms(5) by (force simp: turn_of_def Let_def List.map_filter_def)
  ultimately show ?thesis unfolding thread_of_page [OF assms(1,2)] by (auto intro!: bexI [of _ "turn_of sj ?es t"])
qed

end
