(* ===== verification/Transport_Properties.thy ===== *)
theory Transport_Properties
  imports Connection Concurrent_Writers Session_Thread Store_Properties
begin

text \<open>
  The properties of the server's wire: what a request, a response, an event and a conversation thread
  look like after the journey, and how the connection answers.  The instances use the JSON reader and
  printer of \<open>Json_Text\<close>, a connection that is told to list agents and then to cancel, and stores reached by
  appending events.
\<close>

section \<open>Requests\<close>

text \<open>
  C23. Whatever requests a client writes, one per line, and however the bytes are cut into chunks on the
  way, the reader thread of the server hands exactly these requests to the connection, in order: no
  field is lost, reordered or reinterpreted.  Each number has to fit its Rust type and each line the
  frame bound.
\<close>

theorem server_reads_every_request:
  assumes "serde_json_lines sj" and "reader_wf rd"
    and "unread rd = concat (map (\<lambda>r. encode_request sj r @ [newline]) rs)"
    and "\<forall>r \<in> set rs. command_ok (sreq_command r) \<and> length (encode_request sj r) < MAX_TRANSPORT_FRAME_BYTES
      \<and> valid_utf8 (encode_request sj r @ [newline])"
  shows "read_frames sj rd = map FrameRequest rs"
proof -
  let ?fs = "map (\<lambda>r. (encode_request sj r, FrameRequest r)) rs"
  have "unread rd = concat (map (\<lambda>(f, fr). f @ [newline]) ?fs)" using assms(3) by (simp add: comp_def)
  moreover have "\<forall>(f, fr) \<in> set ?fs. newline \<notin> set f \<and> length f < MAX_TRANSPORT_FRAME_BYTES
      \<and> valid_utf8 (f @ [newline]) \<and> classify_frame sj (f @ [newline]) = Inr fr"
    using assms(4) classify_request [OF assms(1)] by auto
  ultimately have "read_frames sj rd = map snd ?fs" by (rule frames_read_back [OF assms(2)])
  then show ?thesis by (simp add: comp_def)
qed

definition list_request :: server_request where
  "list_request = cli CmdListAgents"

definition list_text :: string where
  "list_text = encode_request rfc8259 list_request"

lemma list_text_ok: "length list_text < MAX_TRANSPORT_FRAME_BYTES" "valid_utf8 (list_text @ [newline])" "newline \<notin> set list_text"
proof -
  have "length list_text < 1000" by code_simp
  then show "length list_text < MAX_TRANSPORT_FRAME_BYTES" by (simp add: MAX_TRANSPORT_FRAME_BYTES_def)
  show "valid_utf8 (list_text @ [newline])" by code_simp
  show "newline \<notin> set list_text"
    unfolding list_text_def
    by (rule classify_request [OF rfcl.serde_json_lines_axioms]) (simp add: list_request_def cli_def local_cli_def)
qed

text \<open>Two requests, arriving byte by byte.\<close>

theorem server_reads_every_request_witness:
  "read_frames rfc8259 \<lparr>rd_chunks = map (\<lambda>c. [c]) (list_text @ [newline] @ list_text @ [newline]), rd_end = PeerClosed\<rparr>
   = [FrameRequest list_request, FrameRequest list_request]"
proof -
  have ok: "command_ok (sreq_command list_request)" by (simp add: list_request_def cli_def local_cli_def)
  have "read_frames rfc8259 \<lparr>rd_chunks = map (\<lambda>c. [c]) (list_text @ [newline] @ list_text @ [newline]), rd_end = PeerClosed\<rparr>
     = map FrameRequest [list_request, list_request]"
    by (rule server_reads_every_request [OF rfcl.serde_json_lines_axioms])
      (use list_text_ok ok in \<open>simp_all add: reader_wf_def unread_def list_text_def\<close>, auto)
  then show ?thesis by simp
qed

text \<open>
  C29. The reader thread ends: on a connection that delivers finitely many bytes it reads at most as many
  frames as there are bytes and then stops, whether the peer closes, a read fails, or frames are
  oversized, not UTF-8 or not JSON.
\<close>

theorem reader_thread_ends: "length (read_frames sj rd) \<le> length (unread rd)"
proof (induction sj rd rule: read_frames.induct)
  case (1 sj rd)
  show ?case
  proof (cases "read_frame sj rd")
    case (Pair fr rd')
    show ?thesis
    proof (cases fr)
      case None
      then show ?thesis using Pair by (subst read_frames.simps) simp
    next
      case (Some f)
      then show ?thesis
        using "1.IH" [OF Pair [symmetric] Some] read_frame_shrinks [of sj rd f rd'] Pair
        by (subst read_frames.simps) simp
    qed
  qed
qed

text \<open>
  C30. An oversized frame costs the client the frame behind it.  The reader hands out chunks of at
  most 8 KiB; the chunks \<open>early\<close> hold no line end and still fit the bound, and the chunk that crosses the
  bound holds the end of the oversized line and the beginning of what follows.  That chunk is consumed
  up to its line end and then the line after it is drained too, so the frame \<open>f\<close>, whatever it is and
  however the rest of it arrives, vanishes without an answer.
\<close>

theorem oversized_frame_swallows_next:
  assumes "reader_buffered rd" and "rd_chunks rd = early @ (big @ newline # chunk) # cs"
    and "newline \<notin> set (concat early)" "newline \<notin> set big"
    and "length (concat early) \<le> MAX_TRANSPORT_FRAME_BYTES"
    and "length (concat early) + length big \<ge> MAX_TRANSPORT_FRAME_BYTES"
    and "chunk @ concat cs = f @ newline # rest" "newline \<notin> set f"
  shows "\<exists>rd'. read_frames sj rd = FrameInvalid None too_large # read_frames sj rd' \<and> unread rd' = rest"
proof -
  from oversized_swallows_next [OF assms(2) buffered_wf [OF assms(1)] assms(3-8)]
  obtain rd' where "read_frame sj rd = (Some (FrameInvalid None too_large), rd')" "unread rd' = rest" by auto
  then show ?thesis by (subst read_frames.simps) auto
qed

text \<open>Forty-eight full chunks of one line, then its end and a request to list the agents.\<close>

definition flood :: reader where
  "flood =
     \<lparr>rd_chunks = replicate 48 (replicate BUF_CAPACITY CHR ''a'') @ [newline # list_text @ [newline]],
      rd_end = PeerClosed\<rparr>"

theorem oversized_frame_swallows_next_witness:
  "\<exists>rd'. read_frames rfc8259 flood = FrameInvalid None too_large # read_frames rfc8259 rd' \<and> unread rd' = []"
proof -
  have len: "length (concat (replicate 48 (replicate BUF_CAPACITY CHR ''a''))) = MAX_TRANSPORT_FRAME_BYTES"
    by (simp add: length_concat sum_list_replicate BUF_CAPACITY_def MAX_TRANSPORT_FRAME_BYTES_def)
  have "length list_text \<le> 200" by code_simp
  then have buffered: "reader_buffered flood"
    by (simp add: reader_buffered_def flood_def list_all_iff BUF_CAPACITY_def)
  show ?thesis
    by (rule oversized_frame_swallows_next [where early = "replicate 48 (replicate BUF_CAPACITY CHR ''a'')"
          and big = "[]" and chunk = "list_text @ [newline]" and cs = "[]" and f = list_text, OF buffered])
      (use list_text_ok len in \<open>simp_all add: flood_def\<close>)
qed

section \<open>Responses\<close>

text \<open>
  A client reads back the response the server sent, with the same request id, origin and payload,
  except that every text an agent wrote on a goal surface has passed the credential scan.
\<close>

theorem response_arrives_scrubbed:
  assumes "serde_json sj" and "payload_ok (rsp_payload r)"
  shows "decode_response sj (encode_success_response sj r) = Inr (r\<lparr>rsp_payload := scrub_payload (rsp_payload r)\<rparr>)"
  using assms by (rule decode_encode_success)

definition leaky_response :: server_response where
  "leaky_response =
     \<lparr>rsp_request_id = ''r1'', rsp_client_id = ''c'', rsp_actor_id = ''a'', rsp_input_origin = FromCli,
      rsp_payload = PayGoalReport
        \<lparr>grr_goal_id = ''g'', grr_format = ''markdown'', grr_body = ''use ghp_0123456789 now'', grr_degraded = False\<rparr>\<rparr>"

lemma leaky_scrubbed:
  "redact_egress_text ''use ghp_0123456789 now'' = ''use [REDACTED:credential] now''"
  by code_simp

theorem response_arrives_scrubbed_witness:
  "decode_response rfc8259 (encode_success_response rfc8259 leaky_response)
   = Inr (leaky_response\<lparr>rsp_payload := PayGoalReport
        \<lparr>grr_goal_id = ''g'', grr_format = ''markdown'', grr_body = ''use [REDACTED:credential] now'', grr_degraded = False\<rparr>\<rparr>)"
  using response_arrives_scrubbed [OF rfc.serde_json_axioms, of leaky_response] leaky_scrubbed
  by (simp add: leaky_response_def scrub_goal_report_def)

text \<open>
  C27. What the credential scan lets out holds no token of a credential shape other than its own
  placeholder, and scanning the text once more changes nothing.
\<close>

theorem scrubbed_text_is_clean:
  "only_placeholders None (pieces (redact_egress_text t)) \<and> redact_egress_text (redact_egress_text t) = redact_egress_text t"
proof -
  have "redact_egress_text t = fst (scan_credential_shapes t)" for t
    using scan_clean [of t]
    by (auto simp: redact_egress_text_def apply_policy_def policy_new_def Let_def split_beta)
  then show ?thesis using scan_leaves_placeholders scan_idempotent by metis
qed

section \<open>Events\<close>

lemma policy_scan: "fst (apply_policy (policy_new []) t) = fst (scan_credential_shapes t)"
  using scan_clean [of t] by (auto simp: apply_policy_def policy_new_def Let_def split_beta)

lemma policy_state:
  "snd (apply_policy (policy_new []) t) = ''redacted'' \<or> fst (scan_credential_shapes t) = t"
  using scan_clean [of t] by (auto simp: apply_policy_def policy_new_def Let_def split_beta)

lemma persistable_states:
  "(case x of Some c \<Rightarrow> is_persistable_artifact c | None \<Rightarrow> False) \<longleftrightarrow> x \<in> {Some Safe, Some Redacted}"
  by (auto split: option.splits elim: is_persistable_artifact.elims)

lemma from_record_withheld:
  assumes "redaction_from_wire (ev_redaction_state r) \<notin> {Some Safe, Some Redacted}"
  shows "from_record sj (r\<lparr>ev_payload_json := p\<rparr>) = from_record sj r"
    and "sev_redaction_state (from_record sj r) = ''redacted''"
  using assms by (simp_all add: from_record_def redacted_for_egress_def persistable_states Let_def)

text \<open>
  C26. An event that is not classified safe or redacted leaves the process without its payload: the frame
  is the same whatever the payload was.  The payload of any other event has passed the credential scan.
  Either way the frame carries the sequence and the event id of the record.
\<close>

theorem withheld_event_shows_no_payload:
  "(redaction_from_wire (ev_redaction_state r) \<in> {Some Safe, Some Redacted}
      \<longrightarrow> only_placeholders None (pieces (sev_payload_json (from_record sj r))))
   \<and> (redaction_from_wire (ev_redaction_state r) \<notin> {Some Safe, Some Redacted}
      \<longrightarrow> from_record sj r = from_record sj (r\<lparr>ev_payload_json := p\<rparr>) \<and> sev_redaction_state (from_record sj r) = ''redacted'')
   \<and> sev_sequence (from_record sj r) = ev_sequence r \<and> sev_event_id (from_record sj r) = ev_event_id r"
proof -
  have scan: "sev_payload_json (from_record sj r) = fst (scan_credential_shapes (ev_payload_json r))"
    if "redaction_from_wire (ev_redaction_state r) \<in> {Some Safe, Some Redacted}"
    using that policy_scan [of "ev_payload_json r"] policy_state [of "ev_payload_json r"]
    by (auto simp: from_record_def redacted_for_egress_def persistable_states Let_def split_beta)
  then have "only_placeholders None (pieces (sev_payload_json (from_record sj r)))"
    if "redaction_from_wire (ev_redaction_state r) \<in> {Some Safe, Some Redacted}"
    using that scan_leaves_placeholders by simp
  moreover have "from_record sj r = from_record sj (r\<lparr>ev_payload_json := p\<rparr>) \<and> sev_redaction_state (from_record sj r) = ''redacted''"
    if "redaction_from_wire (ev_redaction_state r) \<notin> {Some Safe, Some Redacted}"
    using from_record_withheld [OF that] by simp
  moreover have "sev_sequence (from_record sj r) = ev_sequence r \<and> sev_event_id (from_record sj r) = ev_event_id r"
    by (simp add: from_record_def redacted_for_egress_def Let_def split_beta)
  ultimately show ?thesis by blast
qed

definition secret_record :: "string \<Rightarrow> event_record" where
  "secret_record payload =
     \<lparr>ev_sequence = 1, ev_event_id = ''e1'', ev_kind = ''session.summary_updated'', ev_actor = ''a'', ev_project_id = None,
      ev_task_id = None, ev_agent_id = None, ev_session_id = Some ''s1'', ev_run_id = None, ev_turn_id = Some ''t1'',
      ev_item_id = None, ev_payload_json = payload, ev_idempotency_key = None,
      ev_redaction_state = ''contains_sensitive''\<rparr>"

theorem withheld_event_shows_no_payload_witness:
  "from_record rfc8259 (secret_record ''the password'') = from_record rfc8259 (secret_record ''another'')
   \<and> sev_redaction_state (from_record rfc8259 (secret_record ''the password'')) = ''redacted''"
proof -
  have "redaction_from_wire (ev_redaction_state (secret_record ''the password'')) \<notin> {Some Safe, Some Redacted}"
    "(secret_record ''the password'')\<lparr>ev_payload_json := ''another''\<rparr> = secret_record ''another''"
    by (simp_all add: secret_record_def redaction_from_wire_def)
  then show ?thesis
    using withheld_event_shows_no_payload [of "secret_record ''the password''" rfc8259 "''another''"] by metis
qed

section \<open>The live tail\<close>

text \<open>
  C25. A subscriber that resumes after sequence \<open>c\<close> gets every later event of its session exactly once, in
  log order, and nothing else.  Other threads go on committing and publishing, before the registration,
  before the backlog is read and between backlog and poll; a commit and its publication are separate
  steps, so at each of these moments rows may be committed and not yet published (\<open>u0\<close>, \<open>u1\<close>, \<open>u2\<close>).
  Backlog and first live batch together are the matching events above \<open>c\<close> of a prefix of the log: all of
  the log the backlog was read from, and all that was published when the tail was polled, so the whole
  log if nothing is waiting for publication.

  Assumed: publications happen in commit order, which holds while one writer runs at a time (the
  transport's write serializer; recording an interrupt bypasses it, and then an event can be lost, see
  \<open>overtaken_publication_is_lost\<close>), and the matching backlog fits one page of 4096 (a longer one leaves a hole, see below).
\<close>

theorem tail_is_gap_free:
  assumes "(writer_step sj)\<^sup>*\<^sup>* (store_open, []) (s0, u0)" and "register_tail s0 = (i, s0')"
    and "tail_run sj i (s0', u0) (s1, u1)" and "open_tail sj i sid c s1 = Inr (backlog, st)"
    and "length (filter (session_matches sid) (drop (nat c) (st_events s1))) \<le> EVENT_TAIL_BACKLOG_LIMIT"
    and "tail_run sj i (s1, u1) (s2, u2)"
  shows "sbl_events backlog @ fst (fst (next_batch sj st s2))
    = map (from_record sj) (filter (\<lambda>r. c < ev_sequence r \<and> session_matches sid r)
        (take (max (length (st_events s1)) (length (st_events s2) - length u2)) (st_events s2)))"
  using tail_among_writers [OF writers_in_order [OF assms(1)] assms(2-6)] .

lemma reach_append:
  "store_reachable sj (\<lambda>_. True) s \<Longrightarrow> store_reachable sj (\<lambda>_. True) (snd (append_event sj e rs s))"
  by (erule reach_step, rule step_append) (simp add: list_all_iff)

text \<open>
  The instance: event 1 is committed but not published when the subscriber registers; it is
  published and event 2 committed before the backlog is read; event 2 is published, event 3 committed
  and published before the poll.
\<close>

definition commit0 :: "string \<Rightarrow> store \<Rightarrow> (int \<times> event_record list) \<times> store" where
  "commit0 i s =
     (case append_transaction rfc8259 (sample_event i) [] s of Inr p \<Rightarrow> p | Inl _ \<Rightarrow> ((0, []), s))"

definition tail_store0 :: store where
  "tail_store0 = snd (commit0 ''e1'' store_open)"

definition tail_row1 :: event_record where
  "tail_row1 = committed_event_record 1 (sample_event ''e1'')"

definition tail_row2 :: event_record where
  "tail_row2 = committed_event_record 2 (sample_event ''e2'')"

definition tail_row3 :: event_record where
  "tail_row3 = committed_event_record 3 (sample_event ''e3'')"

definition tail_store1 :: store where
  "tail_store1 = snd (commit0 ''e2'' (publish_events [tail_row1] (snd (register_tail tail_store0))))"

definition tail_commit3 :: store where
  "tail_commit3 = snd (commit0 ''e3'' (publish_events [tail_row2] tail_store1))"

definition tail_store2 :: store where
  "tail_store2 = publish_events [tail_row3] tail_commit3"

lemma tail_commits:
  "append_transaction rfc8259 (sample_event ''e1'') [] store_open = Inr ((1, [tail_row1]), tail_store0)"
  "append_transaction rfc8259 (sample_event ''e2'') [] (publish_events [tail_row1] (snd (register_tail tail_store0)))
     = Inr ((2, [tail_row2]), tail_store1)"
  "append_transaction rfc8259 (sample_event ''e3'') [] (publish_events [tail_row2] tail_store1)
     = Inr ((3, [tail_row3]), tail_commit3)"
  by (simp_all add: commit0_def append_transaction_def find_idempotent_def insert_event_def Let_def tail_store0_def
      tail_store1_def tail_commit3_def register_tail_def subscribe_def publish_events_def publish_def update_watermark_def
      tail_row1_def tail_row2_def tail_row3_def sample_event_def new_event_new_def committed_event_record_def
      same_idempotency_def store_open_def broadcaster_new_def)

lemma tail_store_events:
  "st_events tail_store2 = [tail_row1, tail_row2, tail_row3]" "st_events tail_store1 = [tail_row1, tail_row2]"
  using append_transaction_shape(1) [OF tail_commits(1)] append_transaction_shape(1) [OF tail_commits(2)]
    append_transaction_shape(1) [OF tail_commits(3)]
  by (simp_all add: tail_store2_def publish_events_def register_tail_def store_open_def)

lemma tail_latest: "latest_sequence tail_store1 = 2"
  by (simp add: latest_sequence_def tail_store_events tail_row1_def tail_row2_def committed_event_record_def)

lemma tail_store_runs:
  "(writer_step rfc8259)\<^sup>*\<^sup>* (store_open, []) (tail_store0, [tail_row1])"
  "tail_run rfc8259 0 (snd (register_tail tail_store0), [tail_row1]) (tail_store1, [tail_row2])"
  "tail_run rfc8259 0 (tail_store1, [tail_row2]) (tail_store2, [])"
proof -
  show "(writer_step rfc8259)\<^sup>*\<^sup>* (store_open, []) (tail_store0, [tail_row1])"
    using commit_append [OF tail_commits(1), of "[]"] by simp
  let ?r = "snd (register_tail tail_store0)"
  have hubs: "st_hub tail_store1 = st_hub (publish_events [tail_row1] ?r)"
      "st_hub tail_commit3 = st_hub (publish_events [tail_row2] tail_store1)"
    using append_transaction_shape(2) [OF tail_commits(2)] append_transaction_shape(2) [OF tail_commits(3)] by simp_all
  have reg: "channel (st_hub ?r) 0 = Some []" by code_simp
  have wf0: "broadcaster_wf (st_hub ?r)" by code_simp
  then have wf1: "broadcaster_wf (st_hub tail_store1)" and wf2: "broadcaster_wf (st_hub tail_commit3)"
    by (simp_all add: hubs publish_events_def publish_wf)
  have chans: "channel (st_hub (publish_events [tail_row1] ?r)) 0 = Some [tail_row1]"
      "channel (st_hub tail_store1) 0 = Some [tail_row1]"
      "channel (st_hub (publish_events [tail_row2] tail_store1)) 0 = Some [tail_row1, tail_row2]"
      "channel (st_hub tail_commit3) 0 = Some [tail_row1, tail_row2]"
      "channel (st_hub tail_store2) 0 = Some [tail_row1, tail_row2, tail_row3]"
    by (simp_all add: hubs tail_store2_def publish_events_def channel_publish wf0 wf1 wf2 publish_wf reg)
  show "tail_run rfc8259 0 (?r, [tail_row1]) (tail_store1, [tail_row2])"
    using commit_append [OF tail_commits(2), of "[]"]
    by (intro tail_more [OF tail_more [OF tail_none publish_first]]) (simp_all add: chans reg)
  show "tail_run rfc8259 0 (tail_store1, [tail_row2]) (tail_store2, [])"
    using commit_append [OF tail_commits(3), of "[]"] publish_first [of rfc8259 tail_commit3 tail_row3 "[]"]
    by (intro tail_more [OF tail_more [OF tail_more [OF tail_none publish_first]]])
      (auto simp: chans tail_store2_def [symmetric])
qed

theorem tail_is_gap_free_witness:
  "\<exists>backlog st. open_tail rfc8259 0 None 0 tail_store1 = Inr (backlog, st)
     \<and> map sev_sequence (sbl_events backlog @ fst (fst (next_batch rfc8259 st tail_store2))) = [1, 2, 3]"
proof -
  obtain backlog st where o: "open_tail rfc8259 0 None 0 tail_store1 = Inr (backlog, st)"
    by (simp add: open_tail_def read_subscription_backlog_validated_def read_subscription_backlog_def backlog_records_def tail_latest)
  have "fst (register_tail tail_store0) = 0" by code_simp
  then have reg: "register_tail tail_store0 = (0, snd (register_tail tail_store0))" by (metis prod.collapse)
  have "sbl_events backlog @ fst (fst (next_batch rfc8259 st tail_store2))
     = map (from_record rfc8259) (filter (\<lambda>r. 0 < ev_sequence r \<and> session_matches None r)
         (take (max (length (st_events tail_store1)) (length (st_events tail_store2) - length ([] :: event_record list)))
           (st_events tail_store2)))"
    by (rule tail_is_gap_free [OF tail_store_runs(1) reg tail_store_runs(2) o _ tail_store_runs(3)])
      (simp add: session_matches_def tail_store_events(2) EVENT_TAIL_BACKLOG_LIMIT_def)
  moreover have "sev_sequence (from_record sj r) = ev_sequence r" for sj r
    by (simp add: from_record_def redacted_for_egress_def Let_def split_beta)
  moreover have "ev_sequence tail_row1 = 1" "ev_sequence tail_row2 = 2" "ev_sequence tail_row3 = 3"
    by (simp_all add: tail_row1_def tail_row2_def tail_row3_def committed_event_record_def)
  ultimately have "map sev_sequence (sbl_events backlog @ fst (fst (next_batch rfc8259 st tail_store2))) = [1, 2, 3]"
    by (simp add: tail_store_events session_matches_def)
  with o show ?thesis by (intro exI conjI)
qed





text \<open>
  Turn limits are read with \<open>as u32\<close>: a limit that does not fit is not refused, it is reduced, so a budget of
  \<open>2 ^ 32\<close> turns becomes one of none.
\<close>

lemma turn_limit_wraps:
  assumes "continue_goal_conditions_ok r" and "n < 2 ^ 64"
  shows "decode_continue_goal_conditions (encode_continue_goal_conditions (r\<lparr>cgc_budget_max_turns := n\<rparr>))
    = Inr (r\<lparr>cgc_budget_max_turns := n mod 2 ^ 32\<rparr>)"
  using assms
  by (cases r)
    (simp add: decode_continue_goal_conditions_def encode_continue_goal_conditions_def continue_goal_conditions_ok_def
      wire_simps json_get_object unwrap_or_def as_u32_def cong: and_then_weak_cong)

section \<open>The connection\<close>

text \<open>
  C24. However frames, results and event notifications interleave on a connection, each request that was
  started is answered at most once, exactly the requests that are not in flight have been answered, and
  a worker whose request is no longer in flight has been told to stop.
\<close>

theorem every_request_answered_once:
  assumes "conn_reachable c"
  shows "distinct (answered c)
    \<and> set (answered c) = {1..cn_generation c} - in_flight_generations c
    \<and> in_flight_generations c \<subseteq> {1..cn_generation c}
    \<and> (\<forall>(g, r, t) \<in> set (cn_workers c). g \<notin> in_flight_generations c \<longrightarrow> tok_stopped t)"
proof -
  have inv: "conn_inv c" using assms by (rule conn_reachable_inv)
  then have "set (answered c) = {1..cn_generation c} - in_flight_generations c"
    "in_flight_generations c \<subseteq> {1..cn_generation c}"
    unfolding conn_inv_def by blast+
  moreover have "\<forall>(g, r, t) \<in> set (cn_workers c). g \<notin> in_flight_generations c \<longrightarrow> tok_stopped t"
    using inv by (auto simp: conn_inv_def list_all_iff worker_ok_def)
  ultimately show ?thesis using inv by (simp add: conn_inv_def)
qed

text \<open>A request is started and cancelled while its worker still runs.\<close>

definition open_env :: conn_env where
  "open_env = \<lparr>env_supports_subscription = False, env_subscribe = (\<lambda>_ _. Inl (Protocol ''none'')), env_write_ok = True\<rparr>"

definition started_connection :: connection where
  "started_connection = connection_new\<lparr>cn_generation := 1, cn_workers := [(1, list_request, token_new)],
     cn_in_flight := Some (sreq_request_id list_request, 1)\<rparr>"

definition cancelled_connection :: connection where
  "cancelled_connection = started_connection\<lparr>cn_in_flight := None, cn_workers := [(1, list_request, token_cancel token_new)],
     cn_written := [(Some 1, WroteError (Some (sreq_request_id list_request)) (Cancelled (sreq_request_id list_request)))]\<rparr>"

theorem every_request_answered_once_witness:
  "conn_step open_env (Incoming (FrameRequest list_request)) connection_new = Continue started_connection
   \<and> conn_step open_env (Incoming (FrameCancel None)) started_connection = Continue cancelled_connection
   \<and> set (answered cancelled_connection) = {1} \<and> distinct (answered cancelled_connection)"
proof -
  have cmd: "sreq_command list_request = CmdListAgents" by (simp add: list_request_def cli_def local_cli_def)
  have a: "conn_step open_env (Incoming (FrameRequest list_request)) connection_new = Continue started_connection"
    by (simp add: conn_step_def serve_request_def connection_new_def cmd started_connection_def Let_def)
  have b: "conn_step open_env (Incoming (FrameCancel None)) started_connection = Continue cancelled_connection"
    by (simp add: conn_step_def serve_cancel_def started_connection_def cancelled_connection_def connection_new_def Let_def
        then_continue_def write_shared_frame_def open_env_def signal_def)
  have "conn_reachable cancelled_connection" by (rule conn_incoming [OF conn_incoming [OF conn_start a] b])
  moreover have "in_flight_generations cancelled_connection = {}" "cn_generation cancelled_connection = 1"
    by (simp_all add: cancelled_connection_def in_flight_generations_def started_connection_def)
  ultimately show ?thesis using a b every_request_answered_once [of cancelled_connection] by simp
qed

section \<open>Conversation threads\<close>

text \<open>
  C28. The thread of a session is its page of events grouped by turn: one turn per turn id, in the order of
  first appearance, holding the items of exactly the events of this turn, in log order, with the status
  of its last terminal event.  The code gets there by folding over the events and updating a list of
  turns in place.
\<close>

theorem thread_groups_by_turn:
  assumes "store_reachable sj P s" and "int limit < 2 ^ 63"
    and "es = take limit (filter (\<lambda>e. since < ev_sequence e \<and> ev_session_id e = Some sid) (st_events s))"
  shows "thr_turns (query_session_thread sj sid since limit s) = map (turn_of sj es) (turn_ids sj es)"
proof -
  have wf: "events_wf s" using reachable_wf [OF assms(1)] by (simp add: store_wf_def)
  show ?thesis using thread_of_page [OF wf assms(2)] by (simp only: assms(3) session_page [OF wf assms(2)])
qed

text \<open>Two turns whose events interleave; the first one is completed.\<close>

definition turn_event :: "string \<Rightarrow> string \<Rightarrow> event_kind \<Rightarrow> string \<Rightarrow> new_event" where
  "turn_event i t k payload =
     (new_event_new i k ''a'')\<lparr>nev_session_id := Some ''s1'', nev_turn_id := Some t, nev_payload_json := payload\<rparr>"

definition thread_store :: store where
  "thread_store =
     snd (append_event rfc8259 (turn_event ''e3'' ''t1'' EvidenceRecorded ''{}'') []
       (snd (append_event rfc8259 (turn_event ''e2'' ''t2'' (SessionEvent SessionSummaryUpdated) ''{}'') []
         (snd (append_event rfc8259 (turn_event ''e1'' ''t1'' (SessionEvent SessionSummaryUpdated) ''{}'') [] store_open)))))"

theorem thread_groups_by_turn_witness:
  "map (\<lambda>turn. (trn_turn_id turn, trn_status turn, map itm_event_id (trn_items turn)))
     (thr_turns (query_session_thread rfc8259 ''s1'' 0 10 thread_store))
   = [(''t1'', ThreadCompleted, [''e1'', ''e3'']), (''t2'', InProgress, [''e2''])]"
proof -
  have r: "store_reachable rfc8259 (\<lambda>_. True) thread_store"
    unfolding thread_store_def by (intro reach_append reach_open)
  have "map (\<lambda>turn. (trn_turn_id turn, trn_status turn, map itm_event_id (trn_items turn)))
      (map (turn_of rfc8259 es) (turn_ids rfc8259 es))
    = [(''t1'', ThreadCompleted, [''e1'', ''e3'']), (''t2'', InProgress, [''e2''])]"
    if "es = take 10 (filter (\<lambda>e. 0 < ev_sequence e \<and> ev_session_id e = Some ''s1'') (st_events thread_store))" for es
    unfolding that by code_simp
  then show ?thesis using thread_groups_by_turn [OF r, of 10 _ 0 "''s1''"] by simp
qed

lemma filtered_early:
  assumes "j < length xs" "p (xs ! j)"
  shows "xs ! j \<in> set (take (Suc j) (filter p xs))"
proof -
  have "filter p xs = filter p (take j xs) @ xs ! j # filter p (drop (Suc j) xs)"
    using assms by (subst id_take_nth_drop [OF assms(1)]) simp
  moreover have "length (filter p (take j xs)) \<le> j" by (rule le_trans [OF length_filter_le]) simp
  ultimately show ?thesis by (simp add: take_Cons')
qed

text \<open>
  C32. The thread bypasses the egress guard: the text of an event whose class may not be shown, which the
  event tail replaces by a placeholder whatever the payload is, is returned by \<open>read_thread\<close> as it was
  stored.
\<close>

theorem thread_shows_withheld_text:
  assumes "store_reachable sj P s" and "r \<in> set (st_events s)" and "ev_sequence r \<le> int EVENT_TAIL_BACKLOG_LIMIT"
    and "ev_session_id r = Some sid" and "typed_id_new sid = Inr sid" and "ev_turn_id r = Some t"
    and "from_wire (ev_kind r) = Some k" and "is_summary_event k"
    and "from_text sj (ev_payload_json r) = Inr (JObject m)" and "first_text (JObject m) text_keys = Some txt"
    and "redaction_from_wire (ev_redaction_state r) \<notin> {Some Safe, Some Redacted}"
  shows "(\<forall>p. from_record sj (r\<lparr>ev_payload_json := p\<rparr>) = from_record sj r)
    \<and> (\<exists>th turn item. read_thread sj sid 0 s = Inr th \<and> turn \<in> set (sth_turns th) \<and> item \<in> set (stt_items turn)
        \<and> sti_event_id item = ev_event_id r \<and> sti_text item = Some txt)"
proof -
  have wf: "events_wf s" using reachable_wf [OF assms(1)] by (simp add: store_wf_def)
  have lim: "int EVENT_TAIL_BACKLOG_LIMIT < 2 ^ 63" by (simp add: EVENT_TAIL_BACKLOG_LIMIT_def)
  let ?p = "\<lambda>e. 0 < ev_sequence e \<and> ev_session_id e = Some sid"
  obtain j where j: "j < length (st_events s)" "r = st_events s ! j" using assms(2) by (auto simp: in_set_conv_nth)
  then have "Suc j \<le> EVENT_TAIL_BACKLOG_LIMIT" "?p r" using assms(3,4) sequence_nth [OF wf, of j] by auto
  then have "r \<in> set (take EVENT_TAIL_BACKLOG_LIMIT (filter ?p (st_events s)))"
    using filtered_early [of j "st_events s" ?p] j set_take_subset_set_take [of "Suc j" EVENT_TAIL_BACKLOG_LIMIT "filter ?p (st_events s)"]
    by auto
  then have "r \<in> set (events_after_for_session sid 0 EVENT_TAIL_BACKLOG_LIMIT s)" by (simp only: session_page [OF wf lim])
  moreover obtain item where item: "project_item sj r = Some item" "itm_event_id item = ev_event_id r" "itm_text item = Some txt"
    using assms(7-10) by (simp add: project_item_def item_text_def del: first_text.simps)
  ultimately obtain turn where turn: "turn \<in> set (thr_turns (query_session_thread sj sid 0 EVENT_TAIL_BACKLOG_LIMIT s))"
    "item \<in> set (trn_items turn)"
    using item_in_thread [OF wf lim _ assms(6)] by blast
  let ?th = "from_thread (query_session_thread sj sid 0 EVENT_TAIL_BACKLOG_LIMIT s)"
  have "read_thread sj sid 0 s = Inr ?th" using assms(5) by (simp add: read_thread_def)
  moreover have "\<exists>u \<in> set (sth_turns ?th). \<exists>i \<in> set (stt_items u). sti_event_id i = ev_event_id r \<and> sti_text i = Some txt"
    using turn item(2,3) by (force simp: from_thread_def)
  moreover have "from_record sj (r\<lparr>ev_payload_json := p\<rparr>) = from_record sj r" for p
    using assms(11) by (rule from_record_withheld(1))
  ultimately show ?thesis by blast
qed

definition sensitive_store :: store where
  "sensitive_store =
     snd (append_event rfc8259
       ((turn_event ''e1'' ''t1'' (SessionEvent SessionSummaryUpdated)
          (to_text rfc8259 (json_object [(''content'', JString ''private'')])))\<lparr>nev_redaction_state := ContainsSensitive\<rparr>)
       [] store_open)"

theorem thread_shows_withheld_text_witness:
  "\<exists>th turn item. read_thread rfc8259 ''s1'' 0 sensitive_store = Inr th \<and> turn \<in> set (sth_turns th)
     \<and> item \<in> set (stt_items turn) \<and> sti_text item = Some ''private''"
proof -
  have st: "store_reachable rfc8259 (\<lambda>_. True) sensitive_store"
    unfolding sensitive_store_def by (intro reach_append reach_open)
  let ?r = "hd (st_events sensitive_store)"
  have r: "?r \<in> set (st_events sensitive_store)" by code_simp
  have f: "ev_sequence ?r \<le> int EVENT_TAIL_BACKLOG_LIMIT" "ev_session_id ?r = Some ''s1''" "typed_id_new ''s1'' = Inr ''s1''"
    "ev_turn_id ?r = Some ''t1''" "from_wire (ev_kind ?r) = Some (SessionEvent SessionSummaryUpdated)"
    "is_summary_event (SessionEvent SessionSummaryUpdated)"
    "from_text rfc8259 (ev_payload_json ?r) = Inr (JObject [(''content'', JString ''private'')])"
    "first_text (JObject [(''content'', JString ''private'')]) text_keys = Some ''private''"
    "redaction_from_wire (ev_redaction_state ?r) \<notin> {Some Safe, Some Redacted}"
    by code_simp+
  show ?thesis using thread_shows_withheld_text [OF st r f] by blast
qed

end
