(* ===== verification/File_System.thy ===== *)
theory File_System
  imports Unix_Path
begin

text \<open>
  \<open>std::fs\<close> on Unix, as far as the code uses it: a tree of directories, files and symbolic links, and the
  operations that look up, read, write and create.  A lookup follows at most 40 links, as Linux does.
  There are no permissions and no concurrent changes.

  Shown here: \<open>canonicalize\<close> ends at a path without links, which resolves to itself; creating directories
  below an existing directory changes nothing elsewhere.
\<close>

section \<open>Trees\<close>

datatype node = Directory | Regular string | Link string

text \<open>A node has the list of the names on its path; the root is the empty list.\<close>

record file_system =
  fs_cwd :: "string list"
  fs_node :: "string list \<Rightarrow> node option"

definition fs_wf :: "file_system \<Rightarrow> bool" where
  "fs_wf fs \<longleftrightarrow>
     fs_node fs [] = Some Directory \<and> fs_node fs (fs_cwd fs) = Some Directory
     \<and> (\<forall>p s. fs_node fs (p @ [s]) \<noteq> None \<longrightarrow> fs_node fs p = Some Directory)"

section \<open>Looking up\<close>

function walk :: "nat \<Rightarrow> file_system \<Rightarrow> string list \<Rightarrow> path_buf \<Rightarrow> string list option" where
  "walk n fs d [] = Some d"
| "walk n fs d (RootDir # cs) = walk n fs [] cs"
| "walk n fs d (CurDir # cs) = walk n fs d cs"
| "walk n fs d (ParentDir # cs) = walk n fs (butlast d) cs"
| "walk n fs d (Normal s # cs) =
     (case fs_node fs (d @ [s]) of
        None \<Rightarrow> None
      | Some Directory \<Rightarrow> walk n fs (d @ [s]) cs
      | Some (Regular _) \<Rightarrow> if cs = [] then Some (d @ [s]) else None
      | Some (Link t) \<Rightarrow> (case n of 0 \<Rightarrow> None | Suc k \<Rightarrow> walk k fs d (path_components t @ cs)))"
  by pat_completeness auto
termination by (relation "measures [\<lambda>(n, _, _, _). n, \<lambda>(_, _, _, cs). length cs]") auto

definition MAX_LINKS :: nat where
  "MAX_LINKS = 40"

definition fs_lookup :: "file_system \<Rightarrow> path_buf \<Rightarrow> string list option" where
  "fs_lookup fs p = walk MAX_LINKS fs (fs_cwd fs) p"

definition canonicalize :: "file_system \<Rightarrow> path_buf \<Rightarrow> path_buf option" where
  "canonicalize fs p = map_option abs_path (fs_lookup fs p)"

definition fs_exists :: "file_system \<Rightarrow> path_buf \<Rightarrow> bool" where
  "fs_exists fs p \<longleftrightarrow> fs_lookup fs p \<noteq> None"

definition is_dir :: "file_system \<Rightarrow> path_buf \<Rightarrow> bool" where
  "is_dir fs p \<longleftrightarrow> (case fs_lookup fs p of Some d \<Rightarrow> fs_node fs d = Some Directory | None \<Rightarrow> False)"

definition read_file :: "file_system \<Rightarrow> path_buf \<Rightarrow> string option" where
  "read_file fs p =
     Option.bind (fs_lookup fs p) (\<lambda>d. case fs_node fs d of Some (Regular bytes) \<Rightarrow> Some bytes | _ \<Rightarrow> None)"

section \<open>Writing\<close>

text \<open>Opening for writing creates a missing file, also the missing target of a link.\<close>

function create_at :: "nat \<Rightarrow> file_system \<Rightarrow> string list \<Rightarrow> path_buf \<Rightarrow> string list option" where
  "create_at n fs d [] = None"
| "create_at n fs d (RootDir # cs) = create_at n fs [] cs"
| "create_at n fs d (CurDir # cs) = create_at n fs d cs"
| "create_at n fs d (ParentDir # cs) = create_at n fs (butlast d) cs"
| "create_at n fs d (Normal s # cs) =
     (case fs_node fs (d @ [s]) of
        None \<Rightarrow> if cs = [] then Some (d @ [s]) else None
      | Some Directory \<Rightarrow> create_at n fs (d @ [s]) cs
      | Some (Regular _) \<Rightarrow> if cs = [] then Some (d @ [s]) else None
      | Some (Link t) \<Rightarrow> (case n of 0 \<Rightarrow> None | Suc k \<Rightarrow> create_at k fs d (path_components t @ cs)))"
  by pat_completeness auto
termination by (relation "measures [\<lambda>(n, _, _, _). n, \<lambda>(_, _, _, cs). length cs]") auto

definition set_node :: "string list \<Rightarrow> node \<Rightarrow> file_system \<Rightarrow> file_system" where
  "set_node p x fs = fs\<lparr>fs_node := (fs_node fs)(p \<mapsto> x)\<rparr>"

definition write_file :: "path_buf \<Rightarrow> string \<Rightarrow> file_system \<Rightarrow> bool \<times> file_system" where
  "write_file p bytes fs =
     (case create_at MAX_LINKS fs (fs_cwd fs) p of
        Some q \<Rightarrow> (True, set_node q (Regular bytes) fs)
      | None \<Rightarrow> (False, fs))"

datatype mkdir_result = Made file_system | ParentMissing | MkdirFailed

definition mkdir :: "file_system \<Rightarrow> path_buf \<Rightarrow> mkdir_result" where
  "mkdir fs p =
     (if p = [] then ParentMissing
      else
        (case last p of
           Normal s \<Rightarrow>
             (case fs_lookup fs (butlast p) of
                None \<Rightarrow> ParentMissing
              | Some d \<Rightarrow>
                  if fs_node fs d = Some Directory \<and> fs_node fs (d @ [s]) = None
                  then Made (set_node (d @ [s]) Directory fs) else MkdirFailed)
         | _ \<Rightarrow> if fs_exists fs p then MkdirFailed else ParentMissing))"

text \<open>\<open>create_dir_all\<close>; what was created stays when a later step fails.\<close>

function create_dir_all :: "path_buf \<Rightarrow> file_system \<Rightarrow> bool \<times> file_system" where
  "create_dir_all p fs =
     (if p = [] then (True, fs)
      else
        (case mkdir fs p of
           Made fs' \<Rightarrow> (True, fs')
         | MkdirFailed \<Rightarrow> (is_dir fs p, fs)
         | ParentMissing \<Rightarrow>
             if last p = RootDir then (False, fs)
             else
               (let (ok, fs1) = create_dir_all (butlast p) fs in
                if \<not> ok then (False, fs1)
                else (case mkdir fs1 p of Made fs2 \<Rightarrow> (True, fs2) | _ \<Rightarrow> (is_dir fs1 p, fs1)))))"
  by pat_completeness auto
termination by (relation "measure (\<lambda>(p, _). length p)") auto

declare create_dir_all.simps [simp del]

section \<open>Canonical paths\<close>

text \<open>A node that is not a link, under directories.\<close>

definition real_path :: "file_system \<Rightarrow> string list \<Rightarrow> bool" where
  "real_path fs d \<longleftrightarrow> (\<exists>x. fs_node fs d = Some x \<and> (\<forall>t. x \<noteq> Link t))"

lemma parent_directory: "fs_wf fs \<Longrightarrow> fs_node fs d = Some Directory \<Longrightarrow> fs_node fs (butlast d) = Some Directory"
  by (cases d rule: rev_cases) (auto simp: fs_wf_def)

lemma prefix_directory: "fs_wf fs \<Longrightarrow> fs_node fs (d @ e) \<noteq> None \<Longrightarrow> e \<noteq> [] \<Longrightarrow> fs_node fs d = Some Directory"
proof (induction e rule: rev_induct)
  case (snoc s e)
  then have "fs_node fs (d @ e) = Some Directory" by (auto simp: fs_wf_def simp flip: append_assoc)
  then show ?case using snoc by (cases "e = []") auto
qed simp

lemma walk_real: "fs_wf fs \<Longrightarrow> fs_node fs d = Some Directory \<Longrightarrow> walk n fs d cs = Some q \<Longrightarrow> real_path fs q"
proof (induction n fs d cs rule: walk.induct)
  case (5 n fs d s cs)
  then show ?case by (auto simp: real_path_def split: option.splits node.splits nat.splits if_splits)
qed (auto simp: real_path_def fs_wf_def parent_directory)

lemma lookup_real: "fs_wf fs \<Longrightarrow> fs_lookup fs p = Some q \<Longrightarrow> real_path fs q"
  unfolding fs_lookup_def by (rule walk_real) (simp_all add: fs_wf_def)

lemma walk_names: "fs_wf fs \<Longrightarrow> real_path fs (d @ names) \<Longrightarrow> walk n fs d (map Normal names) = Some (d @ names)"
proof (induction names arbitrary: d)
  case (Cons s names)
  show ?case
  proof (cases "names = []")
    case True
    then show ?thesis using Cons.prems by (auto simp: real_path_def split: node.splits)
  next
    case False
    then have "fs_node fs (d @ [s]) = Some Directory"
      using Cons.prems prefix_directory [of fs "d @ [s]" names] by (auto simp: real_path_def)
    then show ?thesis using Cons.IH [of "d @ [s]"] Cons.prems by simp
  qed
qed simp

lemma lookup_abs: "fs_wf fs \<Longrightarrow> real_path fs q \<Longrightarrow> fs_lookup fs (abs_path q) = Some q"
  using walk_names [of fs "[]" q] by (simp add: fs_lookup_def abs_path_def)

lemma canonicalize_idem: "fs_wf fs \<Longrightarrow> canonicalize fs p = Some q \<Longrightarrow> canonicalize fs q = Some q"
  using lookup_abs lookup_real by (auto simp: canonicalize_def)

lemma create_names:
  "fs_wf fs \<Longrightarrow> real_path fs (d @ names) \<Longrightarrow>
   create_at n fs d (map Normal names) = (if fs_node fs (d @ names) = Some Directory \<or> names = [] then None else Some (d @ names))"
proof (induction names arbitrary: d)
  case (Cons s names)
  show ?case
  proof (cases "names = []")
    case True
    then show ?thesis using Cons.prems by (auto simp: real_path_def split: node.splits)
  next
    case False
    then have "fs_node fs (d @ [s]) = Some Directory"
      using Cons.prems prefix_directory [of fs "d @ [s]" names] by (auto simp: real_path_def)
    then show ?thesis using Cons.IH [of "d @ [s]"] Cons.prems False by simp
  qed
qed simp

section \<open>Going on from a directory\<close>

lemma resume:
  assumes "fs_wf fs" "fs_node fs d = Some Directory" "walk n fs d cs = Some q" "fs_node fs q = Some Directory"
  shows "\<exists>k. \<forall>ds. walk n fs d (cs @ ds) = walk k fs q ds \<and> (ds \<noteq> [] \<longrightarrow> create_at n fs d (cs @ ds) = create_at k fs q ds)"
  using assms
proof (induction n fs d cs rule: walk.induct)
  case (5 n fs d s cs)
  show ?case
  proof (cases "fs_node fs (d @ [s])")
    case None
    then show ?thesis using 5 by simp
  next
    case (Some x)
    show ?thesis
    proof (cases x)
      case Directory
      then show ?thesis using 5(1) [OF Some Directory] 5(3-) Some by simp
    next
      case (Regular b)
      then show ?thesis using 5(3-) Some by (auto split: if_splits)
    next
      case (Link t)
      then obtain k where "n = Suc k" using 5(5) Some by (auto split: nat.splits)
      then show ?thesis using 5(2) [OF Some Link] 5(3-) Some Link by simp
    qed
  qed
qed (auto simp: fs_wf_def parent_directory)

lemma walk_prefix:
  assumes "fs_wf fs" "fs_node fs d = Some Directory" "walk n fs d (cs @ c # ds) = Some q"
  shows "\<exists>e. walk n fs d cs = Some e \<and> fs_node fs e = Some Directory"
  using assms
proof (induction n fs d cs rule: walk.induct)
  case (5 n fs d s cs)
  then show ?case
    by (cases "fs_node fs (d @ [s])") (auto split: node.splits nat.splits if_splits)
qed (auto simp: fs_wf_def parent_directory)

lemma walk_mono:
  "\<forall>q x. fs_node fs q = Some x \<longrightarrow> fs_node fs' q = Some x \<Longrightarrow> walk n fs d cs = Some q \<Longrightarrow> walk n fs' d cs = Some q"
proof (induction n fs d cs rule: walk.induct)
  case (5 n fs d s cs)
  obtain x where x: "fs_node fs (d @ [s]) = Some x" using 5(4) by (auto split: option.splits)
  then have "fs_node fs' (d @ [s]) = Some x" using 5(3) by blast
  then show ?case using 5 x by (auto split: node.splits nat.splits if_splits)
qed auto

lemma lookup_below:
  assumes "fs_wf fs" "fs_lookup fs p = Some d" "fs_node fs d = Some Directory" "real_path fs (d @ names)"
  shows "fs_lookup fs (p @ map Normal names) = Some (d @ names)"
proof -
  obtain k where "\<forall>ds. walk MAX_LINKS fs (fs_cwd fs) (p @ ds) = walk k fs d ds"
    using resume [of fs "fs_cwd fs" MAX_LINKS p d] assms by (auto simp: fs_wf_def fs_lookup_def)
  then show ?thesis using walk_names [OF assms(1,4)] by (simp add: fs_lookup_def)
qed

lemma create_below:
  assumes "fs_wf fs" "fs_lookup fs p = Some d" "fs_node fs d = Some Directory" "fs_node fs (d @ [s]) = None"
  shows "create_at MAX_LINKS fs (fs_cwd fs) (p @ [Normal s]) = Some (d @ [s])"
proof -
  obtain k where "create_at MAX_LINKS fs (fs_cwd fs) (p @ [Normal s]) = create_at k fs d [Normal s]"
    using resume [of fs "fs_cwd fs" MAX_LINKS p d] assms by (auto simp: fs_wf_def fs_lookup_def)
  then show ?thesis using assms(4) by simp
qed

section \<open>Creating directories\<close>

lemma create_existing:
  assumes "fs_wf fs" "fs_lookup fs p = Some q"
  shows "create_dir_all p fs = (fs_node fs q = Some Directory, fs)"
proof (cases "p = []")
  case True
  then show ?thesis using assms by (auto simp: create_dir_all.simps fs_lookup_def fs_wf_def)
next
  case False
  have p: "p = butlast p @ [last p]" using False by simp
  then obtain e where e: "fs_lookup fs (butlast p) = Some e" "fs_node fs e = Some Directory"
    using walk_prefix [of fs "fs_cwd fs" MAX_LINKS "butlast p" "last p" "[]" q] assms by (auto simp: fs_lookup_def fs_wf_def)
  have "mkdir fs p = MkdirFailed"
  proof (cases "last p")
    case (Normal s)
    obtain k where "walk MAX_LINKS fs (fs_cwd fs) (butlast p @ [Normal s]) = walk k fs e [Normal s]"
      using resume [of fs "fs_cwd fs" MAX_LINKS "butlast p" e] e assms(1) by (auto simp: fs_wf_def fs_lookup_def)
    then have "walk k fs e [Normal s] = Some q" using assms(2) p Normal by (simp add: fs_lookup_def)
    then have "fs_node fs (e @ [s]) \<noteq> None" by (cases "fs_node fs (e @ [s])") simp_all
    then show ?thesis using False Normal e by (simp add: mkdir_def)
  qed (use False assms(2) in \<open>simp_all add: mkdir_def fs_exists_def\<close>)
  then show ?thesis using False assms(2) by (simp add: create_dir_all.simps is_dir_def)
qed

text \<open>The directories on the way from \<open>d\<close> along \<open>names\<close>, and nothing else, are new.\<close>

definition made :: "string list \<Rightarrow> string list \<Rightarrow> file_system \<Rightarrow> file_system \<Rightarrow> bool" where
  "made d names fs fs' \<longleftrightarrow>
     fs_wf fs' \<and> fs_cwd fs' = fs_cwd fs
     \<and> (\<forall>q. fs_node fs' q = fs_node fs q
          \<or> (fs_node fs q = None \<and> fs_node fs' q = Some Directory \<and> (\<exists>r s. r \<noteq> [] \<and> names = r @ s \<and> q = d @ r)))"

lemma made_refl: "fs_wf fs \<Longrightarrow> made d names fs fs"
  by (simp add: made_def)

lemma made_more: "made d names fs fs' \<Longrightarrow> made d (names @ rest) fs fs'"
  unfolding made_def by (metis append_assoc)

lemma made_lookup: "made d names fs fs' \<Longrightarrow> fs_lookup fs p = Some q \<Longrightarrow> fs_lookup fs' p = Some q"
  unfolding fs_lookup_def made_def by (metis option.discI walk_mono)

lemma made_step:
  assumes "made d names fs fs'" "fs_node fs' (d @ names) = Some Directory" "fs_node fs' (d @ names @ [s]) = None"
  shows "made d (names @ [s]) fs (set_node (d @ names @ [s]) Directory fs')"
proof -
  have "fs_wf (set_node (d @ names @ [s]) Directory fs')"
    using assms by (auto simp: made_def fs_wf_def set_node_def simp flip: append_assoc)
  moreover have "fs_node fs (d @ names @ [s]) = None" using assms(1,3) unfolding made_def by metis
  ultimately show ?thesis using made_more [OF assms(1), of "[s]"] by (auto simp: made_def set_node_def)
qed

lemma made_start: "made d names fs fs' \<Longrightarrow> fs_node fs' d = fs_node fs d"
  unfolding made_def by (metis append_self_conv)

lemma made_beyond: "made d names fs fs' \<Longrightarrow> s \<noteq> [] \<Longrightarrow> fs_node fs' (d @ names @ s) = fs_node fs (d @ names @ s)"
  unfolding made_def by (metis append.assoc append_self_conv same_append_eq append_is_Nil_conv)

lemma create_dirs:
  assumes "fs_wf fs" "fs_lookup fs p = Some d"
    and "\<And>r s. r \<noteq> [] \<Longrightarrow> names = r @ s \<Longrightarrow> fs_lookup fs (p @ map Normal r) = None"
    and "create_dir_all (p @ map Normal names) fs = (ok, fs')"
  shows "made d names fs fs' \<and> (ok \<longrightarrow> fs_node fs' (d @ names) = Some Directory)"
  using assms(3,4)
proof (induction names arbitrary: ok fs' rule: rev_induct)
  case Nil
  then show ?case using create_existing [OF assms(1,2)] assms(1) by (auto simp: made_refl)
next
  case (snoc s r)
  let ?q = "p @ map Normal (r @ [s])"
  have none: "fs_lookup fs ?q = None" using snoc.prems(1) [of "r @ [s]" "[]"] by simp
  then have not_dir: "\<not> is_dir fs ?q" by (simp add: is_dir_def)
  have q: "?q \<noteq> []" "last ?q = Normal s" "butlast ?q = p @ map Normal r" by (simp_all add: butlast_append)
  show ?case
  proof (cases "r = []")
    case True
    let ?free = "fs_node fs d = Some Directory \<and> fs_node fs (d @ [s]) = None"
    have "mkdir fs ?q = (if ?free then Made (set_node (d @ [s]) Directory fs) else MkdirFailed)"
      using q assms(2) True by (simp add: mkdir_def)
    then have "(ok, fs') = (if ?free then (True, set_node (d @ [s]) Directory fs) else (False, fs))"
      using snoc.prems(2) not_dir q by (simp add: create_dir_all.simps split: if_splits)
    then show ?thesis
      using made_step [OF made_refl [OF assms(1)], of d "[]" s] assms(1) True
      by (auto simp: made_refl set_node_def split: if_splits)
  next
    case False
    have gone: "fs_lookup fs (p @ map Normal r) = None" using snoc.prems(1) [of r "[s]"] False by simp
    obtain ok1 fs1 where c: "create_dir_all (p @ map Normal r) fs = (ok1, fs1)" by fastforce
    have IH: "made d r fs fs1" "ok1 \<Longrightarrow> fs_node fs1 (d @ r) = Some Directory"
      using snoc.IH [OF _ c] snoc.prems(1) by auto
    have "mkdir fs ?q = ParentMissing" using q gone by (simp add: mkdir_def)
    then have res: "(ok, fs') = (if \<not> ok1 then (False, fs1) else (case mkdir fs1 ?q of Made fs2 \<Rightarrow> (True, fs2) | _ \<Rightarrow> (is_dir fs1 ?q, fs1)))"
      using snoc.prems(2) q(1,2) c unfolding create_dir_all.simps [of ?q] q(3) by simp
    show ?thesis
    proof (cases ok1)
      case False
      then show ?thesis using res made_more [OF IH(1)] by simp
    next
      case True
      have wf1: "fs_wf fs1" using IH(1) by (simp add: made_def)
      have d1: "fs_lookup fs1 p = Some d" "fs_node fs1 d = Some Directory"
        using made_lookup [OF IH(1) assms(2)] prefix_directory [OF wf1, of d r] IH(2) [OF True] False by simp_all
      have d0: "fs_node fs d = Some Directory" using made_start [OF IH(1)] d1(2) by simp
      have r1: "fs_lookup fs1 (p @ map Normal r) = Some (d @ r)"
        using lookup_below [OF wf1 d1] IH(2) [OF True] by (simp add: real_path_def)
      have "\<not> real_path fs (d @ r)" using lookup_below [OF assms(1,2) d0, of r] gone by auto
      then have "fs_node fs (d @ r @ [s]) = None" using assms(1) by (fastforce simp: fs_wf_def real_path_def simp flip: append_assoc)
      moreover have "fs_node fs1 (d @ r @ [s]) = fs_node fs (d @ r @ [s])" using made_beyond [OF IH(1)] by simp
      ultimately have "mkdir fs1 ?q = Made (set_node (d @ r @ [s]) Directory fs1)" "fs_node fs1 (d @ r @ [s]) = None"
        using q r1 IH(2) [OF True] by (simp_all add: mkdir_def)
      then show ?thesis using res True made_step [OF IH(1) IH(2) [OF True]] by (simp add: set_node_def)
    qed
  qed
qed

end
