(* ===== verification/Workspace_Paths.thy ===== *)
theory Workspace_Paths
  imports File_System Text_Tools
begin

text \<open>
  \<open>capo-tools/src/runtime_wrapper_paths.rs\<close> and \<open>resolve_workspace_path\<close> of \<open>runtime_wrappers.rs\<close>: which
  paths a tool may read and write.  The text of an operating system error is the argument \<open>io\<close>.

  Shown here: a resolved path lies under the workspace root, and so does whatever is written to it,
  unless the path is a dangling link, which the check does not notice.
\<close>

section \<open>Lexical checks\<close>

definition ends_with :: "string \<Rightarrow> string \<Rightarrow> bool" where
  "ends_with p s = starts_with (rev p) (rev s)"

definition leaves_upwards :: "path_buf \<Rightarrow> bool" where
  "leaves_upwards p \<longleftrightarrow> is_absolute p \<or> ParentDir \<in> set p"

definition is_workpad_path :: "string \<Rightarrow> bool" where
  "is_workpad_path path \<longleftrightarrow>
     \<not> leaves_upwards (path_components path)
     \<and> (path = ''TASKS.md'' \<or> path = ''project.md''
        \<or> starts_with ''workpads/'' path \<and> ends_with ''.md'' path
          \<and> \<not> str_contains path ''/research-clones/'' \<and> \<not> str_contains path ''/scratch/'')"

definition workspace_path :: "path_buf \<Rightarrow> string \<Rightarrow> path_buf" where
  "workspace_path workspace_root path = path_join workspace_root (path_components path)"

definition workspace_relative_path :: "string \<Rightarrow> (string, string) result" where
  "workspace_relative_path path =
     (if leaves_upwards (path_components path) then Inl (''git path must be workspace-relative: '' @ path) else Inr path)"

fun sanitize_chars :: "bool \<Rightarrow> string \<Rightarrow> string" where
  "sanitize_chars previous_dash [] = []"
| "sanitize_chars previous_dash (c # cs) =
     (if is_ascii_alphanumeric c then c # sanitize_chars False cs
      else if \<not> previous_dash then CHR ''-'' # sanitize_chars True cs
      else sanitize_chars True cs)"

definition sanitize_path_component :: "string \<Rightarrow> string" where
  "sanitize_path_component value =
     (let trimmed = trim_matches (\<lambda>c. c = CHR ''-'') (sanitize_chars False value) in
      if trimmed = [] then ''tool-call'' else trimmed)"

fun lex_step :: "path_buf \<Rightarrow> path_component \<Rightarrow> path_buf" where
  "lex_step acc CurDir = acc"
| "lex_step acc ParentDir =
     (if acc = [] then [ParentDir]
      else
        (case last acc of
           Normal _ \<Rightarrow> butlast acc
         | ParentDir \<Rightarrow> acc @ [ParentDir]
         | _ \<Rightarrow> acc))"
| "lex_step acc c = acc @ [c]"

definition lexically_normalize :: "path_buf \<Rightarrow> path_buf" where
  "lexically_normalize p = foldl lex_step [] p"

definition is_credential_like_component :: "string \<Rightarrow> bool" where
  "is_credential_like_component name \<longleftrightarrow>
     name \<in> set [''.ssh'', ''.aws'', ''.config'', ''.codex'', ''.claude'', ''.anthropic'', ''credentials'', ''credential'',
       ''secrets'', ''secret'', ''tokens'', ''token'', ''cookies'', ''cookie'', ''oauth'', ''sessions'', ''session'']"

fun reject_credential_like_components :: "path_buf \<Rightarrow> (string, unit) result" where
  "reject_credential_like_components [] = Inr ()"
| "reject_credential_like_components (Normal part # cs) =
     (if is_credential_like_component (to_ascii_lowercase part)
      then Inl (''credential-like path component `'' @ part @ ''`'')
      else reject_credential_like_components cs)"
| "reject_credential_like_components (_ # cs) = reject_credential_like_components cs"

section \<open>Confinement\<close>

definition ensure_under_workspace :: "string \<Rightarrow> file_system \<Rightarrow> path_buf \<Rightarrow> path_buf \<Rightarrow> (string, unit) result" where
  "ensure_under_workspace io fs path workspace_root =
     (case canonicalize fs workspace_root of
        None \<Rightarrow> Inl io
      | Some root \<Rightarrow>
          if path_starts_with path root then Inr ()
          else Inl (''path escapes workspace: '' @ path_text path @ '' not under '' @ path_text root))"

function nearest_existing_ancestor :: "file_system \<Rightarrow> path_buf \<Rightarrow> path_buf option" where
  "nearest_existing_ancestor fs path =
     (case path_parent path of
        None \<Rightarrow> None
      | Some parent \<Rightarrow> if fs_exists fs parent then Some parent else nearest_existing_ancestor fs parent)"
  by pat_completeness auto
termination by (relation "measure (\<lambda>(_, p). length p)") (auto simp: path_parent_def split: if_splits)

declare nearest_existing_ancestor.simps [simp del]

definition ok_or_io :: "string \<Rightarrow> 'a option \<Rightarrow> (string, 'a) result" where
  "ok_or_io io x = (case x of Some a \<Rightarrow> Inr a | None \<Rightarrow> Inl io)"

definition confine_write_path :: "string \<Rightarrow> file_system \<Rightarrow> path_buf \<Rightarrow> path_buf \<Rightarrow> (string, path_buf) result" where
  "confine_write_path io fs target workspace_root0 =
     and_then (ok_or_io (''workspace root does not exist or is unreadable: '' @ io) (canonicalize fs workspace_root0)) (\<lambda>workspace_root.
     and_then (reject_credential_like_components target) (\<lambda>_.
     let normalized = lexically_normalize (path_join workspace_root target) in
     if fs_exists fs normalized then
       and_then (ok_or_io io (canonicalize fs normalized)) (\<lambda>canonical.
       and_then (ensure_under_workspace io fs canonical workspace_root) (\<lambda>_. Inr canonical))
     else
       and_then (ok_or_io (''write path has no existing ancestor: '' @ path_text normalized)
           (nearest_existing_ancestor fs normalized)) (\<lambda>ancestor.
       and_then (ok_or_io io (canonicalize fs ancestor)) (\<lambda>canonical_ancestor.
       and_then (ensure_under_workspace io fs canonical_ancestor workspace_root) (\<lambda>_.
       let candidate = path_join canonical_ancestor (drop (length ancestor) normalized) in
       and_then (ensure_under_workspace io fs candidate workspace_root) (\<lambda>_. Inr candidate))))))"

definition resolve_workspace_path ::
  "string \<Rightarrow> path_buf \<Rightarrow> string \<Rightarrow> bool \<Rightarrow> file_system \<Rightarrow> (string, path_buf) result" where
  "resolve_workspace_path io workspace_root path allow_missing fs =
     and_then (ok_or_io io (canonicalize fs workspace_root)) (\<lambda>root.
     let candidate = lexically_normalize (workspace_path root path) in
     and_then (ensure_under_workspace io fs candidate root) (\<lambda>_.
     if fs_exists fs candidate then
       and_then (ok_or_io io (canonicalize fs candidate)) (\<lambda>canonical.
       and_then (ensure_under_workspace io fs canonical root) (\<lambda>_. Inr canonical))
     else if \<not> allow_missing then Inl (''workspace path does not exist: '' @ path_text candidate)
     else
       and_then (ok_or_io (''workspace path has no existing ancestor: '' @ path_text candidate)
           (nearest_existing_ancestor fs candidate)) (\<lambda>ancestor.
       and_then (ok_or_io io (canonicalize fs ancestor)) (\<lambda>canonical.
       and_then (ensure_under_workspace io fs canonical root) (\<lambda>_. Inr candidate)))))"

text \<open>How the tools write: the missing directories first, then the file.\<close>

definition write_creating :: "string \<Rightarrow> path_buf \<Rightarrow> string \<Rightarrow> file_system \<Rightarrow> (string, unit) result \<times> file_system" where
  "write_creating io path bytes fs =
     (let (made_dirs, fs1) = (case path_parent path of Some parent \<Rightarrow> create_dir_all parent fs | None \<Rightarrow> (True, fs)) in
      if \<not> made_dirs then (Inl io, fs1)
      else (case write_file path bytes fs1 of (True, fs2) \<Rightarrow> (Inr (), fs2) | (False, fs2) \<Rightarrow> (Inl io, fs2)))"

section \<open>Normalised paths are absolute\<close>

lemma lex_step_abs: "c \<noteq> RootDir \<Longrightarrow> \<exists>names'. lex_step (abs_path names) c = abs_path names'"
proof (cases c)
  case ParentDir
  then have "lex_step (abs_path names) c = abs_path (butlast names)"
    by (cases names rule: rev_cases) (simp_all add: abs_path_def butlast_append)
  then show ?thesis ..
next
  case (Normal s)
  then have "lex_step (abs_path names) c = abs_path (names @ [s])" by (simp add: abs_path_def)
  then show ?thesis ..
qed auto

lemma lex_fold_abs: "RootDir \<notin> set cs \<Longrightarrow> \<exists>names'. foldl lex_step (abs_path names) cs = abs_path names'"
proof (induction cs arbitrary: names)
  case (Cons c cs)
  then obtain names1 where "lex_step (abs_path names) c = abs_path names1" using lex_step_abs [of c names] by auto
  then show ?case using Cons by simp
qed auto

lemma lex_normal_names: "foldl lex_step acc (map Normal names) = acc @ map Normal names"
  by (induction names arbitrary: acc) auto

lemma components_root: "RootDir \<notin> set (tl (path_components path))"
proof -
  obtain pre rest where p: "path_components path = pre @ rest" "pre \<in> {[], [RootDir], [CurDir]}" "list_all component_ok rest"
    using components_shape [of path] by blast
  have "RootDir \<notin> set rest" using p(3) by (force simp: list_all_iff)
  then show ?thesis using p(1,2) by (cases rest) auto
qed

lemma relative_root: "\<not> is_absolute (path_components path) \<Longrightarrow> RootDir \<notin> set (path_components path)"
  using components_root [of path] by (cases "path_components path") (auto simp: is_absolute_def)

lemma candidate_abs: "\<exists>names. lexically_normalize (workspace_path (abs_path root) path) = abs_path names"
proof (cases "is_absolute (path_components path)")
  case True
  then obtain cs where cs: "path_components path = RootDir # cs" by (cases "path_components path") (auto simp: is_absolute_def)
  then have "lexically_normalize (workspace_path (abs_path root) path) = foldl lex_step (abs_path []) cs"
    using True by (simp add: workspace_path_def path_join_def lexically_normalize_def abs_path_def)
  then show ?thesis using lex_fold_abs [of cs "[]"] components_root [of path] cs by simp
next
  case False
  let ?cs = "filter (\<lambda>c. c \<noteq> CurDir) (path_components path)"
  have "lexically_normalize (workspace_path (abs_path root) path) = foldl lex_step (foldl lex_step [RootDir] (map Normal root)) ?cs"
    using False by (simp add: workspace_path_def path_join_def lexically_normalize_def abs_path_def)
  also have "\<dots> = foldl lex_step (abs_path root) ?cs" by (simp add: lex_normal_names abs_path_def)
  finally show ?thesis using lex_fold_abs [of ?cs root] relative_root [OF False] by simp
qed

section \<open>Resolved paths\<close>

lemma canonicalize_Some: "canonicalize fs p = Some q \<longleftrightarrow> (\<exists>d. fs_lookup fs p = Some d \<and> q = abs_path d)"
  by (auto simp: canonicalize_def)

lemma ok_or_io_Inr: "ok_or_io io x = Inr a \<longleftrightarrow> x = Some a"
  by (simp add: ok_or_io_def split: option.splits)

lemma under_workspace:
  assumes "fs_wf fs" "fs_lookup fs root = Some r"
  shows "ensure_under_workspace io fs (abs_path names) (abs_path r) = Inr () \<longleftrightarrow> (\<exists>rest. names = r @ rest)"
proof -
  have "fs_lookup fs (abs_path r) = Some r" using lookup_abs [OF assms(1) lookup_real [OF assms]] .
  then show ?thesis by (auto simp: ensure_under_workspace_def canonicalize_def)
qed

lemma nearest_existing:
  assumes "nearest_existing_ancestor fs (abs_path names) = Some a"
  obtains front rest s where "names = front @ rest @ [s]" "a = abs_path front" "fs_exists fs a"
    "\<And>r u. r \<noteq> [] \<Longrightarrow> rest = r @ u \<Longrightarrow> \<not> fs_exists fs (abs_path (front @ r))"
proof -
  have "\<exists>front rest s. names = front @ rest @ [s] \<and> a = abs_path front \<and> fs_exists fs a
     \<and> (\<forall>r u. r \<noteq> [] \<longrightarrow> rest = r @ u \<longrightarrow> \<not> fs_exists fs (abs_path (front @ r)))"
    using assms
  proof (induction names rule: rev_induct)
    case Nil
    then show ?case by (simp add: nearest_existing_ancestor.simps)
  next
    case (snoc s names)
    show ?case
    proof (cases "fs_exists fs (abs_path names)")
      case True
      then have "a = abs_path names" using snoc.prems by (simp add: nearest_existing_ancestor.simps [of fs "abs_path (names @ [s])"])
      then show ?thesis using True by (intro exI [of _ names] exI [of _ "[]"] exI [of _ s]) auto
    next
      case False
      then have "nearest_existing_ancestor fs (abs_path names) = Some a"
        using snoc.prems by (simp add: nearest_existing_ancestor.simps [of fs "abs_path (names @ [s])"])
      then obtain front rest t where f: "names = front @ rest @ [t]" "a = abs_path front" "fs_exists fs a"
        "\<forall>r u. r \<noteq> [] \<longrightarrow> rest = r @ u \<longrightarrow> \<not> fs_exists fs (abs_path (front @ r))"
        using snoc.IH by blast
      have "\<not> fs_exists fs (abs_path (front @ r))" if "r \<noteq> []" "rest @ [t] = r @ u" for r u
        using f False that by (cases u rule: rev_cases) auto
      then show ?thesis using f by (intro exI [of _ front] exI [of _ "rest @ [t]"] exI [of _ s]) auto
    qed
  qed
  then show thesis using that by blast
qed

text \<open>A resolved path is canonical, or new below an existing directory whose canonical form is inside.\<close>

lemma resolved_cases:
  assumes "fs_wf fs" "resolve_workspace_path io root path allow fs = Inr p" "fs_lookup fs root = Some r"
  obtains (existing) d rest where "p = abs_path d" "real_path fs d" "d = r @ rest"
    | (fresh) front rest s d ext where "p = abs_path (front @ rest @ [s])" "\<not> fs_exists fs p" "fs_lookup fs (abs_path front) = Some d"
        "\<And>u v. u \<noteq> [] \<Longrightarrow> rest = u @ v \<Longrightarrow> \<not> fs_exists fs (abs_path (front @ u))" "d = r @ ext"
        "\<exists>rest'. front @ rest @ [s] = r @ rest'"
proof -
  obtain names where n: "lexically_normalize (workspace_path (abs_path r) path) = abs_path names"
    using candidate_abs by blast
  have res: "(if fs_exists fs (abs_path names) then
       and_then (ok_or_io io (canonicalize fs (abs_path names))) (\<lambda>canonical.
       and_then (ensure_under_workspace io fs canonical (abs_path r)) (\<lambda>_. Inr canonical))
     else if \<not> allow then Inl (''workspace path does not exist: '' @ path_text (abs_path names))
     else
       and_then (ok_or_io (''workspace path has no existing ancestor: '' @ path_text (abs_path names))
           (nearest_existing_ancestor fs (abs_path names))) (\<lambda>ancestor.
       and_then (ok_or_io io (canonicalize fs ancestor)) (\<lambda>canonical.
       and_then (ensure_under_workspace io fs canonical (abs_path r)) (\<lambda>_. Inr (abs_path names))))) = Inr p" (is ?r)
    and safe: "ensure_under_workspace io fs (abs_path names) (abs_path r) = Inr ()"
  proof -
    have "canonicalize fs root = Some (abs_path r)" using assms(3) by (simp add: canonicalize_def)
    note eq = assms(2) [unfolded resolve_workspace_path_def this ok_or_io_def [of io "Some _"] option.case and_then.simps Let_def n]
    show safe: "ensure_under_workspace io fs (abs_path names) (abs_path r) = Inr ()" using eq by (auto simp: and_then_Inr_iff)
    show "?r" using eq unfolding safe and_then.simps .
  qed
  have inside: "\<exists>rest. names = r @ rest" using safe under_workspace [OF assms(1,3)] by simp
  show thesis
  proof (cases "fs_exists fs (abs_path names)")
    case True
    then obtain d where "fs_lookup fs (abs_path names) = Some d" "p = abs_path d" "ensure_under_workspace io fs (abs_path d) (abs_path r) = Inr ()"
      using res by (auto simp: and_then_Inr_iff ok_or_io_Inr canonicalize_Some)
    then show thesis using existing lookup_real [OF assms(1)] under_workspace [OF assms(1,3)] by blast
  next
    case False
    then obtain a d where a: "nearest_existing_ancestor fs (abs_path names) = Some a" "fs_lookup fs a = Some d" "p = abs_path names"
      "ensure_under_workspace io fs (abs_path d) (abs_path r) = Inr ()"
      using res by (auto simp: and_then_Inr_iff ok_or_io_Inr canonicalize_Some split: if_splits)
    obtain front rest s where f: "names = front @ rest @ [s]" "a = abs_path front"
      "\<And>u v. u \<noteq> [] \<Longrightarrow> rest = u @ v \<Longrightarrow> \<not> fs_exists fs (abs_path (front @ u))"
      using nearest_existing [OF a(1)] by metis
    then show thesis using fresh [of front rest s d] False a inside under_workspace [OF assms(1,3), of io d] by auto
  qed
qed

section \<open>Writes stay inside\<close>

text \<open>The last component is a link.\<close>

definition final_link :: "file_system \<Rightarrow> path_buf \<Rightarrow> bool" where
  "final_link fs p \<longleftrightarrow>
     p \<noteq> []
     \<and> (case (last p, fs_lookup fs (butlast p)) of
          (Normal s, Some d) \<Rightarrow> (case fs_node fs (d @ [s]) of Some (Link _) \<Rightarrow> True | _ \<Rightarrow> False)
        | _ \<Rightarrow> False)"

definition changes_below :: "string list \<Rightarrow> file_system \<Rightarrow> file_system \<Rightarrow> bool" where
  "changes_below r fs fs' \<longleftrightarrow> (\<forall>q. fs_node fs' q \<noteq> fs_node fs q \<longrightarrow> (\<exists>rest. q = r @ rest))"

lemma changes_refl [simp]: "changes_below r fs fs"
  by (simp add: changes_below_def)

lemma changes_made: "made d names fs fs' \<Longrightarrow> d = r @ ext \<Longrightarrow> changes_below r fs fs'"
  unfolding made_def changes_below_def by (metis append.assoc)

lemma changes_set: "changes_below r fs fs' \<Longrightarrow> changes_below r fs (set_node (r @ ext) x fs')"
  by (auto simp: changes_below_def set_node_def)

lemma write_existing:
  assumes "fs_wf fs" "real_path fs d" "write_creating io (abs_path d) bytes fs = (res, fs')"
  shows "fs' = fs \<or> fs' = set_node d (Regular bytes) fs"
proof -
  have "create_dir_all (abs_path (butlast d)) fs = (True, fs)" if "d \<noteq> []"
  proof -
    have "fs_node fs (butlast d) = Some Directory"
      using prefix_directory [OF assms(1), of "butlast d" "[last d]"] assms(2) that by (auto simp: real_path_def)
    then show ?thesis using create_existing [OF assms(1) lookup_abs [OF assms(1)], of "butlast d"] by (simp add: real_path_def)
  qed
  moreover have "create_at MAX_LINKS fs (fs_cwd fs) (abs_path d) \<in> {None, Some d}"
    using create_names [OF assms(1), of "[]" d] assms(2) by (simp add: abs_path_def)
  ultimately show ?thesis
    using assms(3) by (cases "d = []") (auto simp: write_creating_def write_file_def split: option.splits)
qed

lemma write_fresh:
  assumes wf: "fs_wf fs" and d: "fs_lookup fs (abs_path front) = Some d"
    and gone: "\<And>u v. u \<noteq> [] \<Longrightarrow> rest = u @ v \<Longrightarrow> \<not> fs_exists fs (abs_path (front @ u))"
    and new: "\<not> fs_exists fs (abs_path (front @ rest @ [s]))" "\<not> final_link fs (abs_path (front @ rest @ [s]))"
    and step: "write_creating io (abs_path (front @ rest @ [s])) bytes fs = (res, fs')"
  shows "\<exists>fs1. made d rest fs fs1 \<and> (fs' = fs1 \<or> fs' = set_node (d @ rest @ [s]) (Regular bytes) fs1)"
proof -
  let ?p = "abs_path (front @ rest @ [s])" and ?q = "abs_path front @ map Normal rest"
  have q: "abs_path (front @ rest) = ?q" "?p = ?q @ [Normal s]" by (simp_all add: abs_path_def)
  obtain ok fs1 where c: "create_dir_all ?q fs = (ok, fs1)" by fastforce
  have none: "fs_lookup fs (abs_path front @ map Normal u) = None" if "u \<noteq> []" "rest = u @ v" for u v
    using gone [OF that] by (simp add: fs_exists_def abs_path_def)
  have made: "made d rest fs fs1" "ok \<Longrightarrow> fs_node fs1 (d @ rest) = Some Directory"
    using create_dirs [OF wf d none c] by auto
  have par: "path_parent ?p = Some ?q" using q(1) by (simp add: butlast_append)
  show ?thesis
  proof (cases ok)
    case False
    then show ?thesis using step c par made(1) by (auto simp: write_creating_def)
  next
    case True
    have wf1: "fs_wf fs1" using made(1) by (simp add: made_def)
    have d1: "fs_node fs1 d = Some Directory"
      using made(2) [OF True] prefix_directory [OF wf1, of d rest] by (cases "rest = []") auto
    then have d0: "fs_node fs d = Some Directory" using made_start [OF made(1)] by simp
    have l1: "fs_lookup fs1 ?q = Some (d @ rest)"
      using lookup_below [OF wf1 made_lookup [OF made(1) d] d1] made(2) [OF True] by (simp add: real_path_def)
    have "fs_node fs (d @ rest @ [s]) = None"
    proof (cases "rest = []")
      case True
      have "\<not> real_path fs (d @ [s])" using lookup_below [OF wf d d0, of "[s]"] new(1) True by (auto simp: fs_exists_def abs_path_def)
      moreover have "fs_node fs (d @ [s]) \<noteq> Some (Link t)" for t
        using new(2) d True by (auto simp: final_link_def abs_path_def butlast_append last_map split: if_splits)
      ultimately show ?thesis using True by (cases "fs_node fs (d @ [s])") (auto simp: real_path_def)
    next
      case False
      then have "\<not> real_path fs (d @ rest)" using lookup_below [OF wf d d0, of rest] none [of rest "[]"] by auto
      then have "fs_node fs (d @ rest) \<noteq> Some Directory" by (auto simp: real_path_def)
      then show ?thesis using wf by (force simp: fs_wf_def simp flip: append_assoc)
    qed
    then have "fs_node fs1 ((d @ rest) @ [s]) = None" using made_beyond [OF made(1), of "[s]"] by simp
    then have "create_at MAX_LINKS fs1 (fs_cwd fs1) ?p = Some (d @ rest @ [s])"
      using create_below [OF wf1 l1 made(2) [OF True]] q(2) by simp
    then show ?thesis using step c par made(1) True by (auto simp: write_creating_def write_file_def)
  qed
qed

lemma write_confined:
  assumes "fs_wf fs" "fs_lookup fs root = Some r" "resolve_workspace_path io root path allow fs = Inr p"
    and "\<not> final_link fs p" "write_creating io p bytes fs = (res, fs')"
  shows "changes_below r fs fs'"
  using assms(1,3,2)
proof (cases rule: resolved_cases)
  case (existing d rest)
  then show ?thesis using write_existing [OF assms(1) existing(2), of io bytes res fs'] assms(5) changes_set [OF changes_refl] by auto
next
  case (fresh front rest s d ext)
  note new = fresh(2) [unfolded fresh(1)] assms(4) [unfolded fresh(1)] assms(5) [unfolded fresh(1)]
  obtain fs1 where "made d rest fs fs1" "fs' = fs1 \<or> fs' = set_node (d @ rest @ [s]) (Regular bytes) fs1"
    using write_fresh [OF assms(1) fresh(3) _ new] fresh(4) by blast
  then show ?thesis using changes_made [of d rest fs fs1] fresh(5) changes_set [of r fs fs1 "ext @ rest @ [s]"] by auto
qed

section \<open>The dangling link\<close>

lemma walk_through:
  assumes "fs_wf fs" "fs_node fs (d @ names) = Some Directory"
  shows "walk n fs d (map Normal names @ cs) = walk n fs (d @ names) cs"
    and "create_at n fs d (map Normal names @ cs) = create_at n fs (d @ names) cs"
proof -
  have dirs: "fs_node fs ((d @ u) @ [s]) = Some Directory" if "names = u @ s # v" for u s v
    using prefix_directory [OF assms(1), of "(d @ u) @ [s]" v] assms(2) that by (cases "v = []") auto
  have "walk n fs (d @ u) (map Normal v @ cs) = walk n fs (d @ names) cs
      \<and> create_at n fs (d @ u) (map Normal v @ cs) = create_at n fs (d @ names) cs" if "names = u @ v" for u v
    using that
  proof (induction v arbitrary: u)
    case (Cons s v)
    then show ?case using Cons.IH [of "u @ [s]"] dirs [of u s v] by simp
  qed simp
  from this [of "[]" names]
  show "walk n fs d (map Normal names @ cs) = walk n fs (d @ names) cs"
    and "create_at n fs d (map Normal names @ cs) = create_at n fs (d @ names) cs"
    by simp_all
qed

lemma dangling_escapes:
  assumes wf: "fs_wf fs" and root: "fs_lookup fs root = Some r" "fs_node fs r = Some Directory"
    and link: "fs_node fs (r @ [s]) = Some (Link t)" "plain_segment s"
    and target: "path_components t = abs_path (d @ [x])" "fs_node fs d = Some Directory" "fs_node fs (d @ [x]) = None"
  shows "resolve_workspace_path io root s True fs = Inr (abs_path (r @ [s]))"
    and "write_creating io (abs_path (r @ [s])) bytes fs = (Inr (), set_node (d @ [x]) (Regular bytes) fs)"
proof -
  have real: "real_path fs r" "real_path fs d" using root(2) target(2) by (simp_all add: real_path_def)
  have abs_r: "fs_lookup fs (abs_path r) = Some r" using lookup_abs [OF wf real(1)] .
  have "path_components s = [Normal s]"
    using link(2) by (cases s) (auto simp: plain_segment_def path_components_def Let_def split_slash_no_slash segment_component_def)
  then have cand: "lexically_normalize (workspace_path (abs_path r) s) = abs_path (r @ [s])"
    by (simp add: workspace_path_def path_join_def is_absolute_def lexically_normalize_def abs_path_def lex_normal_names)
  have k: "MAX_LINKS = Suc 39" by (simp add: MAX_LINKS_def)
  have via: "walk MAX_LINKS fs (fs_cwd fs) (abs_path (r @ [s])) = walk 39 fs [] (map Normal d @ [Normal x])"
    "create_at MAX_LINKS fs (fs_cwd fs) (abs_path (r @ [s])) = create_at 39 fs [] (map Normal d @ [Normal x])"
    using walk_through [OF wf, of "[]" r MAX_LINKS "[Normal s]"] root(2) link(1) target(1) by (simp_all add: abs_path_def k)
  then have missing: "\<not> fs_exists fs (abs_path (r @ [s]))"
    using walk_through(1) [OF wf, of "[]" d 39 "[Normal x]"] target by (simp add: fs_exists_def fs_lookup_def)
  have "nearest_existing_ancestor fs (abs_path (r @ [s])) = Some (abs_path r)"
    using abs_r by (simp add: nearest_existing_ancestor.simps [of fs "abs_path (r @ [s])"] fs_exists_def)
  moreover have "ensure_under_workspace io fs (abs_path (r @ rest)) (abs_path r) = Inr ()" for rest
    using under_workspace [OF wf root(1)] by simp
  from this [of "[s]"] this [of "[]"] have "ensure_under_workspace io fs (abs_path (r @ [s])) (abs_path r) = Inr ()"
    "ensure_under_workspace io fs (abs_path r) (abs_path r) = Inr ()" by simp_all
  ultimately show "resolve_workspace_path io root s True fs = Inr (abs_path (r @ [s]))"
    using root(1) cand missing abs_r by (simp add: resolve_workspace_path_def ok_or_io_def canonicalize_def)
  have "create_at MAX_LINKS fs (fs_cwd fs) (abs_path (r @ [s])) = Some (d @ [x])"
    using via(2) walk_through(2) [OF wf, of "[]" d 39 "[Normal x]"] target by simp
  then show "write_creating io (abs_path (r @ [s])) bytes fs = (Inr (), set_node (d @ [x]) (Regular bytes) fs)"
    using create_existing [OF wf abs_r] root(2) by (simp add: write_creating_def write_file_def)
qed

section \<open>Confined write paths\<close>

text \<open>\<open>confine_write_path\<close> answers only with paths under the canonical root.\<close>

lemma confine_under:
  assumes "fs_wf fs" "fs_lookup fs root = Some r" "confine_write_path io fs target root = Inr p"
  shows "path_starts_with p (abs_path r) \<and> reject_credential_like_components target = Inr ()"
proof -
  have c: "canonicalize fs root = Some (abs_path r)" "canonicalize fs (abs_path r) = Some (abs_path r)"
    using assms(2) canonicalize_idem [OF assms(1), of root] by (simp_all add: canonicalize_def)
  have "path_starts_with q (abs_path r)" if "ensure_under_workspace io fs q (abs_path r) = Inr ()" for q
    using that c(2) by (auto simp: ensure_under_workspace_def split: if_splits)
  then show ?thesis
    using assms(3) unfolding confine_write_path_def c(1) ok_or_io_def [of _ "Some _"] option.case and_then.simps Let_def
    by (auto simp: and_then_Inr_iff split: if_splits)
qed

section \<open>Artifact directories\<close>

lemma sanitize_chars_set: "set (sanitize_chars b s) \<subseteq> {c. is_ascii_alphanumeric c} \<union> {CHR ''-''}"
  by (induction b s rule: sanitize_chars.induct) auto

text \<open>The directory of a tool call is one plain name, whatever the call id is.\<close>

lemma sanitized_plain: "plain_segment (sanitize_path_component value)"
proof -
  let ?t = "trim_matches (\<lambda>c. c = CHR ''-'') (sanitize_chars False value)"
  have "set ?t \<subseteq> set (sanitize_chars False value)"
    by (auto simp: trim_matches_def dest!: set_dropWhileD)
  then have "set ?t \<subseteq> {c. is_ascii_alphanumeric c} \<union> {CHR ''-''}" using sanitize_chars_set by blast
  moreover have "\<not> is_ascii_alphanumeric (CHR ''/'')" "\<not> is_ascii_alphanumeric (CHR ''.'')" by code_simp+
  ultimately have "CHR ''/'' \<notin> set ?t" "CHR ''.'' \<notin> set ?t" by auto
  then have "plain_segment ?t" if "?t \<noteq> []" using that by (auto simp: plain_segment_def)
  then show ?thesis by (auto simp: sanitize_path_component_def Let_def plain_segment_def)
qed

end
