(* ===== verification/Local_Process.thy ===== *)
theory Local_Process
  imports Workspace_Paths Permission_Policy Redaction
begin

text \<open>
  The part of \<open>capo-runtime/src/lib.rs\<close> that runs a program to its end: \<open>LocalProcessRunner::start_process\<close>
  and what it calls.  Starting a program is the operating system's: it may change the file system and
  returns the output or an error.  Its description, the environment of this process and the text of an
  operating system error are the fields of \<open>os\<close>.

  Shown here: a program starts with an environment made of allowed names, and a result carries no more
  output than the limit.  Where programs start is the subject of \<open>Program_Confinement\<close>.
\<close>

section \<open>Bytes that need not be text\<close>

text \<open>
  \<open>String::from_utf8_lossy\<close>: how many bytes after the first belong to the character, or to the longest
  beginning of one, which becomes U+FFFD.
\<close>

definition in_bytes :: "nat \<Rightarrow> nat \<Rightarrow> string \<Rightarrow> nat \<Rightarrow> bool" where
  "in_bytes lo hi r i \<longleftrightarrow> i < length r \<and> lo \<le> byte_of (r ! i) \<and> byte_of (r ! i) \<le> hi"

definition utf8_tail :: "nat \<Rightarrow> string \<Rightarrow> nat \<times> bool" where
  "utf8_tail n r =
     (if n < 0x80 then (0, True)
      else if 0xC2 \<le> n \<and> n \<le> 0xDF then (if in_bytes 0x80 0xBF r 0 then (1, True) else (0, False))
      else if 0xE0 \<le> n \<and> n \<le> 0xEF then
        (if \<not> in_bytes (if n = 0xE0 then 0xA0 else 0x80) (if n = 0xED then 0x9F else 0xBF) r 0 then (0, False)
         else if \<not> in_bytes 0x80 0xBF r 1 then (1, False) else (2, True))
      else if 0xF0 \<le> n \<and> n \<le> 0xF4 then
        (if \<not> in_bytes (if n = 0xF0 then 0x90 else 0x80) (if n = 0xF4 then 0x8F else 0xBF) r 0 then (0, False)
         else if \<not> in_bytes 0x80 0xBF r 1 then (1, False)
         else if \<not> in_bytes 0x80 0xBF r 2 then (2, False) else (3, True))
      else (0, False))"

definition REPLACEMENT :: string where
  "REPLACEMENT = [CHR 0xEF, CHR 0xBF, CHR 0xBD]"

function from_utf8_lossy :: "string \<Rightarrow> string" where
  "from_utf8_lossy [] = []"
| "from_utf8_lossy (a # r) =
     (let (k, ok) = utf8_tail (byte_of a) r
      in (if ok then a # take k r else REPLACEMENT) @ from_utf8_lossy (drop k r))"
  by pat_completeness auto
termination by (relation "measure length") (auto simp: less_Suc_eq_le)

section \<open>Programs\<close>

record spawn =
  sp_program :: string
  sp_argv :: "string list"
  sp_cwd :: path_buf
  sp_env :: "(string \<times> string) list"

record process_output =
  po_stdout :: string
  po_stderr :: string
  po_code :: "int option"

record os =
  os_output :: "spawn \<Rightarrow> file_system \<Rightarrow> (string, process_output) result \<times> file_system"
  os_env_var :: "string \<Rightarrow> string option"
  os_io_error :: string

datatype runtime_error =
    RuntimeIo string
  | CwdOutsideWorkspace path_buf "path_buf list"
  | OutputLimitExceeded nat nat
  | DisallowedEnvOverride string

record local_process_config =
  lpc_workspace_roots :: "path_buf list"
  lpc_artifact_root :: path_buf
  lpc_env_allowlist :: "string list"
  lpc_redaction_rules :: "redaction_rule list"
  lpc_output_limit_bytes :: nat

definition config_for_test :: "path_buf \<Rightarrow> path_buf \<Rightarrow> local_process_config" where
  "config_for_test workspace_root artifact_root =
     \<lparr>lpc_workspace_roots = [workspace_root], lpc_artifact_root = artifact_root, lpc_env_allowlist = [],
      lpc_redaction_rules = [], lpc_output_limit_bytes = 64 * 1024\<rparr>"

record local_process_request =
  lpr_run_id :: string
  lpr_turn_id :: "string option"
  lpr_program :: string
  lpr_argv :: "string list"
  lpr_cwd :: path_buf
  lpr_env :: "(string \<times> string) list"

record local_runtime_process_ref =
  prf_run_id :: string
  prf_runtime_process_ref :: string
  prf_external_pid :: "nat option"
  prf_boot_id :: "string option"
  prf_status :: string
  prf_redaction_state :: string

record runtime_output_artifact =
  roa_artifact_id :: string
  roa_path :: path_buf
  roa_size_bytes :: int
  roa_content_hash :: string
  roa_redaction_state :: string
  roa_truncated :: bool

record runtime_event =
  rev_kind :: string
  rev_status :: string
  rev_detail :: string

record local_process_outcome =
  lpo_process :: local_runtime_process_ref
  lpo_stdout :: runtime_output_artifact
  lpo_stderr :: runtime_output_artifact
  lpo_exit_code :: "int option"
  lpo_events :: "runtime_event list"

definition sanitize_artifact_key :: "string \<Rightarrow> string" where
  "sanitize_artifact_key key =
     (let sanitized =
            map (\<lambda>c. if is_ascii_alphanumeric c \<or> c = CHR ''-'' \<or> c = CHR ''_'' then c else CHR ''_'')
              (filter (\<lambda>c. \<not> is_continuation c) key)
      in if sanitized = [] then ''turn'' else sanitized)"

definition run_dir_for :: "local_process_config \<Rightarrow> string \<Rightarrow> string option \<Rightarrow> path_buf" where
  "run_dir_for config run_id turn_id =
     (let run_dir = path_join (lpc_artifact_root config) (path_components run_id) in
      case turn_id of
        Some t \<Rightarrow> path_join (path_join run_dir (path_components ''turns'')) (path_components (sanitize_artifact_key t))
      | None \<Rightarrow> run_dir)"

definition artifact_id_for :: "string \<Rightarrow> string option \<Rightarrow> string \<Rightarrow> string" where
  "artifact_id_for run_id turn_id stream =
     (case turn_id of
        Some t \<Rightarrow> ''artifact-runtime-'' @ run_id @ ''-turn-'' @ sanitize_artifact_key t @ ''-'' @ stream
      | None \<Rightarrow> ''artifact-runtime-'' @ run_id @ ''-'' @ stream)"

definition runtime_content_hash :: "string \<Rightarrow> string" where
  "runtime_content_hash bytes = ''fnv1a64:'' @ hex16 (fnv_hash bytes)"

definition capped_output :: "string \<Rightarrow> nat \<Rightarrow> (runtime_error, string) result" where
  "capped_output bytes limit_bytes =
     (if limit_bytes < length bytes then Inl (OutputLimitExceeded limit_bytes (length bytes)) else Inr bytes)"

definition normalize_path :: "os \<Rightarrow> file_system \<Rightarrow> path_buf \<Rightarrow> (runtime_error, path_buf) result" where
  "normalize_path os fs path =
     (if fs_exists fs path
      then (case canonicalize fs path of Some p \<Rightarrow> Inr p | None \<Rightarrow> Inl (RuntimeIo (os_io_error os)))
      else Inr path)"

definition ensure_cwd_allowed ::
  "os \<Rightarrow> local_process_config \<Rightarrow> file_system \<Rightarrow> path_buf \<Rightarrow> (runtime_error, unit) result" where
  "ensure_cwd_allowed os config fs cwd0 =
     and_then (normalize_path os fs cwd0) (\<lambda>cwd.
     if list_ex (\<lambda>root. case normalize_path os fs root of Inr r \<Rightarrow> path_starts_with cwd r | Inl _ \<Rightarrow> False)
          (lpc_workspace_roots config)
     then Inr () else Inl (CwdOutsideWorkspace cwd (lpc_workspace_roots config)))"

text \<open>\<open>Command::env\<close> sets a name once; a later value replaces an earlier one.\<close>

definition set_env :: "string \<times> string \<Rightarrow> (string \<times> string) list \<Rightarrow> (string \<times> string) list" where
  "set_env entry env = filter (\<lambda>e. fst e \<noteq> fst entry) env @ [entry]"

definition allowed_env :: "os \<Rightarrow> string list \<Rightarrow> (string \<times> string) list" where
  "allowed_env os names =
     fold (\<lambda>name env. case os_env_var os name of Some v \<Rightarrow> set_env (name, v) env | None \<Rightarrow> env) names []"

fun apply_request_env ::
  "string list \<Rightarrow> (string \<times> string) list \<Rightarrow> (string \<times> string) list \<Rightarrow> (runtime_error, (string \<times> string) list) result" where
  "apply_request_env allowlist [] env = Inr env"
| "apply_request_env allowlist (entry # entries) env =
     (if fst entry \<in> set allowlist then apply_request_env allowlist entries (set_env entry env)
      else Inl (DisallowedEnvOverride (fst entry)))"

definition redact_output :: "local_process_config \<Rightarrow> string \<Rightarrow> string \<times> string" where
  "redact_output config bytes = apply_policy (policy_new (lpc_redaction_rules config)) (from_utf8_lossy bytes)"

text \<open>\<open>fs::create_dir_all\<close> and \<open>fs::write\<close> with the question mark.\<close>

definition io_step :: "os \<Rightarrow> bool \<times> file_system \<Rightarrow> (runtime_error, unit) result \<times> file_system" where
  "io_step os r = (if fst r then Inr () else Inl (RuntimeIo (os_io_error os)), snd r)"

definition write_artifact ::
  "os \<Rightarrow> local_process_config \<Rightarrow> string \<Rightarrow> string option \<Rightarrow> string \<Rightarrow> string \<Rightarrow> string \<Rightarrow> file_system
    \<Rightarrow> (runtime_error, runtime_output_artifact) result \<times> file_system" where
  "write_artifact os config run_id turn_id stream bytes redaction_state fs =
     (let run_dir = run_dir_for config run_id turn_id;
          path = path_join run_dir (path_components (stream @ ''.txt''))
      in case io_step os (create_dir_all run_dir fs) of
           (Inl e, fs1) \<Rightarrow> (Inl e, fs1)
         | (Inr _, fs1) \<Rightarrow>
             (case io_step os (write_file path bytes fs1) of
                (Inl e, fs2) \<Rightarrow> (Inl e, fs2)
              | (Inr _, fs2) \<Rightarrow>
                  (Inr \<lparr>roa_artifact_id = artifact_id_for run_id turn_id stream, roa_path = path,
                        roa_size_bytes = int (length bytes), roa_content_hash = runtime_content_hash bytes,
                        roa_redaction_state = redaction_state, roa_truncated = False\<rparr>, fs2)))"

definition exit_detail :: "int option \<Rightarrow> string" where
  "exit_detail code = (case code of Some n \<Rightarrow> int_to_string n | None \<Rightarrow> ''signal'')"

definition run_event :: "string \<Rightarrow> string \<Rightarrow> string \<Rightarrow> runtime_event" where
  "run_event kind status detail = \<lparr>rev_kind = kind, rev_status = status, rev_detail = detail\<rparr>"

text \<open>What \<open>start_process\<close> returns once both artifacts are written.\<close>

definition process_outcome ::
  "local_process_request \<Rightarrow> int option \<Rightarrow> runtime_output_artifact \<Rightarrow> runtime_output_artifact \<Rightarrow> local_process_outcome" where
  "process_outcome request code out err =
     (let exit_status = (if code = Some 0 then ''exited'' else ''failed''); state = roa_redaction_state out in
      \<lparr>lpo_process =
         \<lparr>prf_run_id = lpr_run_id request, prf_runtime_process_ref = ''local-process-'' @ lpr_run_id request,
          prf_external_pid = None, prf_boot_id = None, prf_status = exit_status, prf_redaction_state = state\<rparr>,
       lpo_stdout = out, lpo_stderr = err, lpo_exit_code = code,
       lpo_events =
         [run_event ''runtime.start_requested'' ''pending'' (lpr_program request),
          run_event ''runtime.process_started'' ''started'' (lpr_run_id request),
          run_event ''runtime.output_delta'' state ''stdout,stderr'',
          run_event ''runtime.output_artifact_recorded'' state (roa_artifact_id out @ '','' @ roa_artifact_id err),
          run_event ''runtime.process_exited'' exit_status (exit_detail code)]\<rparr>)"

text \<open>The two streams, bounded and redacted, go to their artifacts.\<close>

definition record_output ::
  "os \<Rightarrow> local_process_config \<Rightarrow> local_process_request \<Rightarrow> process_output \<Rightarrow> file_system
    \<Rightarrow> (runtime_error, local_process_outcome) result \<times> file_system" where
  "record_output os config request output fs =
     (let limit = lpc_output_limit_bytes config; write = write_artifact os config (lpr_run_id request) (lpr_turn_id request) in
      case (capped_output (po_stdout output) limit, capped_output (po_stderr output) limit) of
        (Inl e, _) \<Rightarrow> (Inl e, fs)
      | (Inr _, Inl e) \<Rightarrow> (Inl e, fs)
      | (Inr out, Inr err) \<Rightarrow>
          (let (out_bytes, out_state) = redact_output config out; (err_bytes, err_state) = redact_output config err in
           case write ''stdout'' out_bytes out_state fs of
             (Inl e, fs1) \<Rightarrow> (Inl e, fs1)
           | (Inr a, fs1) \<Rightarrow>
               (case write ''stderr'' err_bytes err_state fs1 of
                  (Inl e, fs2) \<Rightarrow> (Inl e, fs2)
                | (Inr b, fs2) \<Rightarrow> (Inr (process_outcome request (po_code output) a b), fs2))))"

definition start_process ::
  "os \<Rightarrow> local_process_config \<Rightarrow> local_process_request \<Rightarrow> file_system
    \<Rightarrow> (runtime_error, local_process_outcome) result \<times> file_system" where
  "start_process os config request fs =
     (case ensure_cwd_allowed os config fs (lpr_cwd request) of
        Inl e \<Rightarrow> (Inl e, fs)
      | Inr _ \<Rightarrow>
          (case io_step os (create_dir_all (lpc_artifact_root config) fs) of
             (Inl e, fs1) \<Rightarrow> (Inl e, fs1)
           | (Inr _, fs1) \<Rightarrow>
               (case apply_request_env (lpc_env_allowlist config) (lpr_env request) (allowed_env os (lpc_env_allowlist config)) of
                  Inl e \<Rightarrow> (Inl e, fs1)
                | Inr env \<Rightarrow>
                    (case os_output os
                        \<lparr>sp_program = lpr_program request, sp_argv = lpr_argv request, sp_cwd = lpr_cwd request, sp_env = env\<rparr> fs1 of
                       (Inl e, fs2) \<Rightarrow> (Inl (RuntimeIo e), fs2)
                     | (Inr output, fs2) \<Rightarrow> record_output os config request output fs2))))"

section \<open>What a started program sees\<close>

lemma set_env_names: "fst e \<in> A \<Longrightarrow> fst ` set env \<subseteq> A \<Longrightarrow> fst ` set (set_env e env) \<subseteq> A"
  by (auto simp: set_env_def)

lemma allowed_env_names: "fst ` set (allowed_env os names) \<subseteq> set names"
proof -
  let ?step = "\<lambda>name env. case os_env_var os name of Some v \<Rightarrow> set_env (name, v) env | None \<Rightarrow> env"
  have "fst ` set (fold ?step ns env) \<subseteq> A" if "set ns \<subseteq> A" "fst ` set env \<subseteq> A" for ns env A
    using that
  proof (induction ns arbitrary: env)
    case (Cons n ns)
    have "fst ` set (?step n env) \<subseteq> A" using Cons.prems set_env_names [of "(n, v)" A env for v] by (simp split: option.split)
    then show ?case using Cons.IH [of "?step n env"] Cons.prems(1) by simp
  qed simp
  from this [of names "set names" "[]"] show ?thesis by (simp add: allowed_env_def)
qed

lemma request_env_names:
  "apply_request_env allow es env = Inr env' \<Longrightarrow> fst ` set env \<subseteq> set allow \<Longrightarrow> fst ` set env' \<subseteq> set allow"
proof (induction es arbitrary: env)
  case (Cons e es)
  then have "fst e \<in> set allow" "apply_request_env allow es (set_env e env) = Inr env'" by (simp_all split: if_splits)
  then show ?case using Cons.IH [of "set_env e env"] set_env_names [of e "set allow" env] Cons.prems(2) by simp
qed simp

text \<open>Only starting a program uses \<open>os_output\<close>.\<close>

lemma os_update_base:
  "os_io_error (os\<lparr>os_output := f\<rparr>) = os_io_error os" "os_env_var (os\<lparr>os_output := f\<rparr>) = os_env_var os"
  by simp_all

lemma os_update_checks [simp]:
  "normalize_path (os\<lparr>os_output := f\<rparr>) = normalize_path os" "io_step (os\<lparr>os_output := f\<rparr>) = io_step os"
  "allowed_env (os\<lparr>os_output := f\<rparr>) = allowed_env os"
  unfolding fun_eq_iff normalize_path_def io_step_def allowed_env_def os_update_base by simp_all

lemma os_update_writes [simp]:
  "ensure_cwd_allowed (os\<lparr>os_output := f\<rparr>) = ensure_cwd_allowed os" "write_artifact (os\<lparr>os_output := f\<rparr>) = write_artifact os"
  unfolding fun_eq_iff ensure_cwd_allowed_def write_artifact_def os_update_checks by simp_all

lemma os_update_record [simp]: "record_output (os\<lparr>os_output := f\<rparr>) = record_output os"
  unfolding fun_eq_iff record_output_def os_update_writes by simp

text \<open>A recorded run produced no more than the limit on either stream, in an environment of allowed names.\<close>

lemma start_process_output:
  assumes "start_process os config request fs = (Inr outcome', fs')"
  obtains s fs1 res fs2 where "os_output os s fs1 = (Inr res, fs2)" "record_output os config request res fs2 = (Inr outcome', fs')"
    "sp_cwd s = lpr_cwd request" "fst ` set (sp_env s) \<subseteq> set (lpc_env_allowlist config)"
    "length (po_stdout res) \<le> lpc_output_limit_bytes config" "length (po_stderr res) \<le> lpc_output_limit_bytes config"
proof -
  obtain fs1 env where step: "ensure_cwd_allowed os config fs (lpr_cwd request) = Inr ()"
    "io_step os (create_dir_all (lpc_artifact_root config) fs) = (Inr (), fs1)"
    "apply_request_env (lpc_env_allowlist config) (lpr_env request) (allowed_env os (lpc_env_allowlist config)) = Inr env"
    using assms by (auto simp: start_process_def split: sum.splits prod.splits)
  let ?s = "\<lparr>sp_program = lpr_program request, sp_argv = lpr_argv request, sp_cwd = lpr_cwd request, sp_env = env\<rparr>"
  obtain res fs2 where out: "os_output os ?s fs1 = (Inr res, fs2)" "record_output os config request res fs2 = (Inr outcome', fs')"
    using assms step by (auto simp: start_process_def split: sum.splits prod.splits)
  have "fst ` set (sp_env ?s) \<subseteq> set (lpc_env_allowlist config)"
    using request_env_names [OF step(3) allowed_env_names] by simp
  moreover have "length (po_stdout res) \<le> lpc_output_limit_bytes config" "length (po_stderr res) \<le> lpc_output_limit_bytes config"
    using out(2) by (auto simp: record_output_def capped_output_def Let_def split: if_splits)
  ultimately show thesis using that [OF out] by simp
qed

end
