(* ===== verification/Tool_Registry.thy ===== *)
theory Tool_Registry
  imports Permission_Policy Transport_Wire
begin

text \<open>
  \<open>capo-tools/src/lib.rs\<close>: tool definitions with their scopes and schemas, the authorization that ties a
  permission decision to one request, the registry of Capo's own tools, and the capabilities advertised to
  an ACP client.

  The theory \<open>Tool_Properties\<close> shows that a call runs only under an allowing authorization made for exactly
  this call, and that the defaults built from a schema pass the check against it.
\<close>

section \<open>Tool definitions\<close>

definition CAPO_OWNED_TOOLS :: "string list" where
  "CAPO_OWNED_TOOLS = [''capo.task_status'', ''capo.agent_status'', ''capo.session_summary'', ''capo.project_memory_read'',
     ''capo.workpad_read'', ''capo.evidence_record'', ''capo.capability_request'']"

definition CAPO_WRAPPER_TOOLS :: "string list" where
  "CAPO_WRAPPER_TOOLS = [''capo.shell_run'', ''capo.git_status'', ''capo.git_diff'', ''capo.git_commit'', ''capo.file_read'',
     ''capo.file_write'', ''capo.apply_patch'', ''capo.search'', ''capo.test_run'', ''capo.project_memory_read'',
     ''capo.workpad_read'']"

record tool_definition =
  td_tool_id :: string
  td_display_name :: string
  td_origin :: string
  td_handler_kind :: string
  td_schema_json :: string
  td_output_schema :: string
  td_required_scopes_json :: string
  td_risk :: string
  td_redaction_policy_json :: string
  td_exposure :: string
  td_instrumentation_level :: string
  td_status :: string
  td_mutates_state :: bool

definition json_array :: "string list \<Rightarrow> string" where
  "json_array items = ''['' @ join_with '','' (map (\<lambda>item. [CHR 0x22] @ item @ [CHR 0x22]) items) @ '']''"

definition CAPO_REGISTRY_OUTPUT_SCHEMA :: string where
  "CAPO_REGISTRY_OUTPUT_SCHEMA = ''{\"output\":{\"output\":\"string\",\"output_artifact_id\":\"string\"}}''"

definition capo_redaction_policy :: "string \<Rightarrow> string" where
  "capo_redaction_policy tool_id =
     (if tool_id = ''capo.evidence_record'' then ''{\"strategy\":\"credential_scan\",\"fields\":[\"evidence\"]}''
      else if tool_id = ''capo.capability_request'' then ''{\"strategy\":\"credential_scan\",\"fields\":[\"scope\",\"reason\"]}''
      else ''{\"strategy\":\"credential_scan\",\"fields\":[\"output\"]}'')"

text \<open>Display name, whether the tool changes state, scopes and input schema.\<close>

definition capo_tool_row :: "string \<Rightarrow> (string \<times> bool \<times> string list \<times> string) option" where
  "capo_tool_row tool_id = map_of
     [(''capo.task_status'',
        (''Task Status'', False,
         [''tool:invoke:capo.task_status'', ''state:read:task'', ''state:read:session'', ''state:read:evidence''],
         ''{\"input\":{\"task_id\":\"string\"}}'')),
      (''capo.agent_status'',
        (''Agent Status'', False,
         [''tool:invoke:capo.agent_status'', ''state:read:agent'', ''state:read:session'', ''state:read:runtime'',
          ''state:read:provider''],
         ''{\"input\":{\"agent_id\":\"string\"}}'')),
      (''capo.session_summary'',
        (''Session Summary'', False,
         [''tool:invoke:capo.session_summary'', ''state:read:session'', ''state:read:tool'', ''state:read:permission_queue''],
         ''{\"input\":{\"session_id\":\"string\"}}'')),
      (''capo.workpad_read'',
        (''Workpad Read'', False,
         [''tool:invoke:capo.workpad_read'', ''filesystem:read:workspace'', ''state:read:task''],
         ''{\"input\":{\"path\":\"string\",\"heading\":\"string?\"}}'')),
      (''capo.project_memory_read'',
        (''Project Memory Read'', False,
         [''tool:invoke:capo.project_memory_read'', ''filesystem:read:workspace'', ''state:read:task''],
         ''{\"input\":{\"path\":\"string\",\"heading\":\"string?\"}}'')),
      (''capo.evidence_record'',
        (''Evidence Record'', True,
         [''tool:invoke:capo.evidence_record'', ''state:write:evidence'', ''state:read:task''],
         ''{\"input\":{\"evidence\":\"string\",\"confidence\":\"integer\"}}'')),
      (''capo.capability_request'',
        (''Capability Request'', True,
         [''tool:invoke:capo.capability_request'', ''state:read:capability'', ''state:write:capability_request''],
         ''{\"input\":{\"scope\":\"string\",\"reason\":\"string\"}}''))] tool_id"

definition capo_describe_tool :: "string \<Rightarrow> tool_definition option" where
  "capo_describe_tool tool_id =
     map_option (\<lambda>(display_name, mutates_state, required_scopes, schema_json).
       \<lparr>td_tool_id = tool_id, td_display_name = display_name, td_origin = ''capo'', td_handler_kind = ''capo_registry'',
        td_schema_json = schema_json, td_output_schema = CAPO_REGISTRY_OUTPUT_SCHEMA,
        td_required_scopes_json = json_array required_scopes, td_risk = (if mutates_state then ''medium'' else ''low''),
        td_redaction_policy_json = capo_redaction_policy tool_id, td_exposure = ''agent_visible'',
        td_instrumentation_level = ''full'', td_status = ''available'', td_mutates_state = mutates_state\<rparr>)
     (capo_tool_row tool_id)"

definition capo_list_tools :: "tool_definition list" where
  "capo_list_tools = List.map_filter capo_describe_tool CAPO_OWNED_TOOLS"

definition unknown_tool_definition :: "string \<Rightarrow> tool_definition" where
  "unknown_tool_definition tool_id =
     \<lparr>td_tool_id = tool_id, td_display_name = tool_id, td_origin = ''capo'', td_handler_kind = ''capo_registry'',
      td_schema_json = ''{}'', td_output_schema = CAPO_REGISTRY_OUTPUT_SCHEMA,
      td_required_scopes_json = json_array [''tool:invoke:capo''], td_risk = ''medium'',
      td_redaction_policy_json = ''{\"strategy\":\"credential_scan\",\"fields\":[\"output\"]}'', td_exposure = ''internal'',
      td_instrumentation_level = ''none'', td_status = ''unhealthy'', td_mutates_state = False\<rparr>"

section \<open>Schemas\<close>

definition TOOL_RISK_LEVELS :: "string list" where
  "TOOL_RISK_LEVELS = [''low'', ''medium'', ''high'', ''critical'']"

definition risk_is_valid :: "tool_definition \<Rightarrow> bool" where
  "risk_is_valid d \<longleftrightarrow> td_risk d \<in> set TOOL_RISK_LEVELS"

definition RUNTIME_CAPTURE_FIELDS :: "string list" where
  "RUNTIME_CAPTURE_FIELDS = [''stdout'', ''stderr'']"

text \<open>A declared type and whether it is optional.\<close>

definition declared_base :: "string \<Rightarrow> string \<times> bool" where
  "declared_base t = (if t \<noteq> [] \<and> last t = CHR ''?'' then (butlast t, True) else (t, False))"

fun value_is_integer :: "json \<Rightarrow> bool" where
  "value_is_integer (JNumber (NInt i)) = (i64_ok i \<or> 0 \<le> i \<and> i < 2 ^ 64)"
| "value_is_integer _ = False"

fun value_is_string :: "json \<Rightarrow> bool" where
  "value_is_string (JString _) = True"
| "value_is_string _ = False"

definition scalar_type_matches :: "string \<Rightarrow> json \<Rightarrow> bool" where
  "scalar_type_matches declared value =
     (if declared = ''string'' then value_is_string value
      else if declared = ''integer'' then value_is_integer value
      else if declared = ''number'' then (case value of JNumber _ \<Rightarrow> True | _ \<Rightarrow> False)
      else if declared = ''boolean'' then (case value of JBool _ \<Rightarrow> True | _ \<Rightarrow> False)
      else if declared = ''string[]'' then (case value of JArray items \<Rightarrow> list_all value_is_string items | _ \<Rightarrow> False)
      else if declared = ''array'' then (case value of JArray _ \<Rightarrow> True | _ \<Rightarrow> False)
      else if declared = ''object'' then (case value of JObject _ \<Rightarrow> True | _ \<Rightarrow> False)
      else True)"

fun json_type_name :: "json \<Rightarrow> string" where
  "json_type_name JNull = ''null''"
| "json_type_name (JBool _) = ''boolean''"
| "json_type_name (JNumber _) = ''number''"
| "json_type_name (JString _) = ''string''"
| "json_type_name (JArray _) = ''array''"
| "json_type_name (JObject _) = ''object''"

fun as_object :: "json \<Rightarrow> (string \<times> json) list option" where
  "as_object (JObject m) = Some m"
| "as_object _ = None"

definition field_errors :: "(string \<times> json) list \<Rightarrow> string \<times> json \<Rightarrow> string list" where
  "field_errors m entry =
     (case entry of (field, declared) \<Rightarrow>
        (case value_as_str declared of
           None \<Rightarrow> [''schema field `'' @ field @ ''` type must be a string'']
         | Some t \<Rightarrow>
             (let (base, optional) = declared_base t in
              case map_of m field of
                None \<Rightarrow> if optional then [] else [''missing required field `'' @ field @ ''`'']
              | Some actual \<Rightarrow>
                  if scalar_type_matches base actual then []
                  else [''field `'' @ field @ ''` expected `'' @ base @ ''` but found `'' @ json_type_name actual @ ''`''])))"

definition validate_against_schema :: "serde \<Rightarrow> string \<Rightarrow> string \<Rightarrow> json \<Rightarrow> string list" where
  "validate_against_schema sj schema_json root_key value =
     (case from_text sj schema_json of
        Inl e \<Rightarrow> [''schema is not valid json: '' @ e]
      | Inr schema \<Rightarrow>
          (case Option.bind (json_get schema root_key) as_object of
             None \<Rightarrow> [''schema has no `'' @ root_key @ ''` object'']
           | Some decls \<Rightarrow>
               (case as_object value of
                  None \<Rightarrow> [''result is not a json object'']
                | Some m \<Rightarrow> concat (map (field_errors m) decls))))"

definition validate_output :: "serde \<Rightarrow> tool_definition \<Rightarrow> json \<Rightarrow> string list" where
  "validate_output sj d value = validate_against_schema sj (td_output_schema d) ''output'' value"

definition descriptor_field_names :: "serde \<Rightarrow> string \<Rightarrow> string \<Rightarrow> string list" where
  "descriptor_field_names sj schema_json root_key =
     (case from_text sj schema_json of
        Inl _ \<Rightarrow> []
      | Inr schema \<Rightarrow> (case Option.bind (json_get schema root_key) as_object of None \<Rightarrow> [] | Some decls \<Rightarrow> map fst decls))"

definition declared_input_fields :: "serde \<Rightarrow> tool_definition \<Rightarrow> string list" where
  "declared_input_fields sj d = descriptor_field_names sj (td_schema_json d) ''input''"

definition declared_output_fields :: "serde \<Rightarrow> tool_definition \<Rightarrow> string list" where
  "declared_output_fields sj d = descriptor_field_names sj (td_output_schema d) ''output''"

definition redaction_policy_fields :: "serde \<Rightarrow> tool_definition \<Rightarrow> string list" where
  "redaction_policy_fields sj d =
     (case from_text sj (td_redaction_policy_json d) of
        Inl _ \<Rightarrow> []
      | Inr policy \<Rightarrow>
          (case Option.bind (json_get policy ''fields'') value_as_array of
             None \<Rightarrow> []
           | Some decls \<Rightarrow> List.map_filter value_as_str decls))"

definition incoherent_redaction_fields :: "serde \<Rightarrow> tool_definition \<Rightarrow> string list" where
  "incoherent_redaction_fields sj d =
     filter (\<lambda>field. field \<notin> set (declared_input_fields sj d) \<and> field \<notin> set (declared_output_fields sj d)
       \<and> field \<notin> set RUNTIME_CAPTURE_FIELDS) (redaction_policy_fields sj d)"

section \<open>Authorizations\<close>

record tool_audit_event =
  tae_kind :: string
  tae_status :: string

definition audit_event :: "string \<Rightarrow> string \<Rightarrow> tool_audit_event" where
  "audit_event kind status = \<lparr>tae_kind = kind, tae_status = status\<rparr>"

record tool_authorization =
  ta_definition :: tool_definition
  ta_permission :: permission_decision
  ta_events :: "tool_audit_event list"
  ta_session_id :: string
  ta_run_id :: string
  ta_tool_call_id :: string
  ta_capability_profile_id :: string
  ta_input_hash :: string

definition content_hash :: "string \<Rightarrow> string" where
  "content_hash bytes = ''fnv1a64:'' @ hex16 (fnv_hash bytes)"

record capo_tool_context =
  ctc_task_status :: string
  ctc_agent_status :: string
  ctc_session_summary :: string
  ctc_workpad_excerpt :: string
  ctc_evidence_note :: string
  ctc_capability_scope :: string

record capo_tool_request =
  ctr_tool_call_id :: string
  ctr_session_id :: string
  ctr_tool_id :: string
  ctr_capability_profile_id :: string
  ctr_context :: capo_tool_context

record capo_tool_result =
  cts_tool_call_id :: string
  cts_tool_id :: string
  cts_output :: string
  cts_output_artifact_id :: string
  cts_mutates_state :: bool
  cts_permission_decision :: permission_decision
  cts_events :: "tool_audit_event list"

definition context_fields :: "capo_tool_context \<Rightarrow> string list" where
  "context_fields context =
     [ctc_task_status context, ctc_agent_status context, ctc_session_summary context, ctc_workpad_excerpt context,
      ctc_evidence_note context, ctc_capability_scope context]"

definition encode_context :: "string list \<Rightarrow> string" where
  "encode_context parts = concat (map (\<lambda>field. nat_to_string (length field) @ [CHR 0x00] @ field) parts)"

definition capo_tool_context_hash :: "capo_tool_context \<Rightarrow> string" where
  "capo_tool_context_hash context = content_hash (encode_context (context_fields context))"

definition render_tool_output :: "string \<Rightarrow> capo_tool_context \<Rightarrow> string" where
  "render_tool_output tool_id context =
     (if tool_id = ''capo.task_status'' then ctc_task_status context
      else if tool_id = ''capo.agent_status'' then ctc_agent_status context
      else if tool_id = ''capo.session_summary'' then ctc_session_summary context
      else if tool_id = ''capo.project_memory_read'' then ctc_workpad_excerpt context
      else if tool_id = ''capo.workpad_read'' then ctc_workpad_excerpt context
      else if tool_id = ''capo.evidence_record'' then ''evidence recorded: '' @ ctc_evidence_note context
      else if tool_id = ''capo.capability_request'' then ''capability requested: '' @ ctc_capability_scope context
      else ''unsupported tool'')"

definition requested_events :: "string \<Rightarrow> tool_audit_event list" where
  "requested_events effect =
     [audit_event ''tool.call_requested'' ''requested'', audit_event ''permission.requested'' ''pending'', audit_event ''permission.decided'' effect]"

definition capo_authorize_tool_call :: "serde \<Rightarrow> capo_tool_request \<Rightarrow> permission_policy \<Rightarrow> tool_authorization" where
  "capo_authorize_tool_call sj request policy =
     (let d = unwrap_or (unknown_tool_definition (ctr_tool_id request)) (capo_describe_tool (ctr_tool_id request));
          permission = decide sj policy
            \<lparr>preq_session_id = ctr_session_id request, preq_capability_profile_id = ctr_capability_profile_id request,
             preq_scope_json = td_required_scopes_json d\<rparr>
      in \<lparr>ta_definition = d, ta_permission = permission, ta_events = requested_events (dec_effect permission),
          ta_session_id = ctr_session_id request, ta_run_id = ''capo-registry-no-run'',
          ta_tool_call_id = ctr_tool_call_id request, ta_capability_profile_id = ctr_capability_profile_id request,
          ta_input_hash = capo_tool_context_hash (ctr_context request)\<rparr>)"

definition verify_capo_authorization_matches_request :: "capo_tool_request \<Rightarrow> tool_authorization \<Rightarrow> (string, unit) result" where
  "verify_capo_authorization_matches_request request a =
     (if td_tool_id (ta_definition a) \<noteq> ctr_tool_id request then
        Inl (''authorization tool mismatch: authorized '' @ td_tool_id (ta_definition a) @ '' but requested '' @ ctr_tool_id request)
      else if ta_session_id a \<noteq> ctr_session_id request then Inl ''authorization session mismatch''
      else if ta_run_id a \<noteq> ''capo-registry-no-run'' then Inl ''authorization run mismatch''
      else if ta_tool_call_id a \<noteq> ctr_tool_call_id request then Inl ''authorization tool call mismatch''
      else if ta_capability_profile_id a \<noteq> ctr_capability_profile_id request then Inl ''authorization capability profile mismatch''
      else if dec_capability_profile_id (ta_permission a) \<noteq> ctr_capability_profile_id request then Inl ''permission decision profile mismatch''
      else if dec_scope_json (ta_permission a) \<noteq> td_required_scopes_json (ta_definition a) then Inl ''permission decision scope mismatch''
      else if ta_input_hash a \<noteq> capo_tool_context_hash (ctr_context request) then Inl ''authorization input mismatch''
      else Inr ())"

definition capo_canceled :: "capo_tool_request \<Rightarrow> tool_authorization \<Rightarrow> string \<Rightarrow> string \<Rightarrow> capo_tool_result" where
  "capo_canceled request a output reason =
     \<lparr>cts_tool_call_id = ctr_tool_call_id request, cts_tool_id = ctr_tool_id request, cts_output = output,
      cts_output_artifact_id = ''none'', cts_mutates_state = td_mutates_state (ta_definition a),
      cts_permission_decision = ta_permission a, cts_events = ta_events a @ [audit_event ''tool.call_canceled'' reason]\<rparr>"

definition capo_invoke_authorized :: "capo_tool_request \<Rightarrow> tool_authorization \<Rightarrow> capo_tool_result" where
  "capo_invoke_authorized request a =
     (case verify_capo_authorization_matches_request request a of
        Inl e \<Rightarrow> capo_canceled request a e ''authorization_mismatch''
      | Inr _ \<Rightarrow>
          if dec_effect (ta_permission a) \<noteq> ''allow''
          then capo_canceled request a (dec_explanation (ta_permission a)) ''permission_denied''
          else
            \<lparr>cts_tool_call_id = ctr_tool_call_id request, cts_tool_id = ctr_tool_id request,
             cts_output = render_tool_output (ctr_tool_id request) (ctr_context request),
             cts_output_artifact_id = ''artifact-'' @ ctr_tool_call_id request @ ''-''
               @ str_replace ''.'' ''-'' (ctr_tool_id request),
             cts_mutates_state = td_mutates_state (ta_definition a), cts_permission_decision = ta_permission a,
             cts_events = ta_events a @
               [audit_event ''capability.grant_used'' ''used'', audit_event ''tool.invocation_started'' ''running'',
                audit_event ''tool.output_artifact_recorded'' ''safe'', audit_event ''tool.output_observed'' ''observed'',
                audit_event ''tool.call_completed'' ''completed'', audit_event ''tool.result_delivered'' ''delivered'']\<rparr>)"

definition capo_authorize_and_invoke :: "serde \<Rightarrow> capo_tool_request \<Rightarrow> permission_policy \<Rightarrow> capo_tool_result" where
  "capo_authorize_and_invoke sj request policy = capo_invoke_authorized request (capo_authorize_tool_call sj request policy)"

definition capo_narrow_output :: "capo_tool_result \<Rightarrow> json" where
  "capo_narrow_output r =
     json_object [(''output'', JString (cts_output r)), (''output_artifact_id'', JString (cts_output_artifact_id r))]"

section \<open>Capabilities advertised to an ACP client\<close>

record acp_client_capability_decision =
  acd_acp_capability :: string
  acd_backing_tool_id :: string
  acd_advertise :: bool
  acd_reason :: string
  acd_required_scopes_json :: "string option"
  acd_permission_effect :: "string option"

definition acp_capability_decision ::
  "serde \<Rightarrow> tool_definition list \<Rightarrow> permission_policy \<Rightarrow> string \<Rightarrow> string \<Rightarrow> string \<Rightarrow> acp_client_capability_decision" where
  "acp_capability_decision sj tool_definitions policy session_id acp_capability backing_tool_id =
     (case find (\<lambda>d. td_tool_id d = backing_tool_id) tool_definitions of
        None \<Rightarrow>
          \<lparr>acd_acp_capability = acp_capability, acd_backing_tool_id = backing_tool_id, acd_advertise = False,
           acd_reason = ''missing_backing_wrapper_tool'', acd_required_scopes_json = None, acd_permission_effect = None\<rparr>
      | Some d \<Rightarrow>
          (let permission = decide sj policy
                 \<lparr>preq_session_id = session_id, preq_capability_profile_id = default_profile_id policy,
                  preq_scope_json = td_required_scopes_json d\<rparr>;
               advertise = dec_effect permission = ''allow''
           in \<lparr>acd_acp_capability = acp_capability, acd_backing_tool_id = backing_tool_id, acd_advertise = advertise,
               acd_reason = (if advertise then ''backing_wrapper_tool_allowed''
                 else ''permission_policy_rejected:'' @ dec_explanation permission),
               acd_required_scopes_json = Some (td_required_scopes_json d),
               acd_permission_effect = Some (dec_effect permission)\<rparr>))"

record acp_client_capability_plan =
  acp_filesystem_read :: acp_client_capability_decision
  acp_filesystem_write :: acp_client_capability_decision
  acp_terminal :: acp_client_capability_decision

definition acp_plan_from_tool_definitions ::
  "serde \<Rightarrow> tool_definition list \<Rightarrow> permission_policy \<Rightarrow> string \<Rightarrow> acp_client_capability_plan" where
  "acp_plan_from_tool_definitions sj tool_definitions policy session_id =
     \<lparr>acp_filesystem_read =
        acp_capability_decision sj tool_definitions policy session_id ''filesystem.read_text_file'' ''capo.file_read'',
      acp_filesystem_write =
        acp_capability_decision sj tool_definitions policy session_id ''filesystem.write_text_file'' ''capo.file_write'',
      acp_terminal = acp_capability_decision sj tool_definitions policy session_id ''terminal'' ''capo.shell_run''\<rparr>"

definition advertised_capabilities :: "acp_client_capability_plan \<Rightarrow> string list" where
  "advertised_capabilities plan =
     map acd_acp_capability (filter acd_advertise [acp_filesystem_read plan, acp_filesystem_write plan, acp_terminal plan])"

end
