(* ===== verification/Tool_Parsers.thy ===== *)
theory Tool_Parsers
  imports Text_Tools Json_Value Unix_Path Transport_Wire
begin

text \<open>
  How the tools of \<open>capo-tools\<close> read the output of the programs they start: the matches of ripgrep
  (\<open>search.rs\<close>), failing tests (\<open>test_run.rs\<close>) and the findings of rustfmt (\<open>lint.rs\<close>), each cut to a bound.

  Shown here: a search result keeps a prefix of the matches, within both bounds, and says that it is
  partial whenever something was left out.
\<close>

section \<open>String functions\<close>

text \<open>\<open>str::lines\<close>, \<open>split_once\<close>, \<open>rsplit_once\<close>, \<open>trim_end_matches\<close> with a text, \<open>is_char_boundary\<close>.\<close>

definition strip_cr :: "string \<Rightarrow> string" where
  "strip_cr l = (if l \<noteq> [] \<and> last l = CHR 0x0D then butlast l else l)"

definition str_lines :: "string \<Rightarrow> string list" where
  "str_lines s =
     (let ls = split_on (\<lambda>c. c = CHR 0x0A) s; body = map strip_cr (butlast ls) in
      if last ls = [] then body else body @ [last ls])"

fun str_split_once :: "string \<Rightarrow> string \<Rightarrow> (string \<times> string) option" where
  "str_split_once p [] = (if p = [] then Some ([], []) else None)"
| "str_split_once p (c # cs) =
     (if starts_with p (c # cs) then Some ([], drop (length p) (c # cs))
      else map_option (\<lambda>(a, b). (c # a, b)) (str_split_once p cs))"

definition str_rsplit_once :: "string \<Rightarrow> string \<Rightarrow> (string \<times> string) option" where
  "str_rsplit_once p s = map_option (\<lambda>(a, b). (rev b, rev a)) (str_split_once (rev p) (rev s))"

definition str_ends_with :: "string \<Rightarrow> string \<Rightarrow> bool" where
  "str_ends_with p s = starts_with (rev p) (rev s)"

function trim_end_text :: "string \<Rightarrow> string \<Rightarrow> string" where
  "trim_end_text p s =
     (if p \<noteq> [] \<and> length p \<le> length s \<and> str_ends_with p s then trim_end_text p (take (length s - length p) s) else s)"
  by pat_completeness auto
termination
proof (relation "measure (\<lambda>(_, s). length s)")
  fix p s :: string assume "p \<noteq> [] \<and> length p \<le> length s \<and> str_ends_with p s"
  then show "((p, take (length s - length p) s), (p, s)) \<in> measure (\<lambda>(_, s). length s)" by (cases p) auto
qed simp

declare trim_end_text.simps [simp del]

definition trim_end_chars :: "(char \<Rightarrow> bool) \<Rightarrow> string \<Rightarrow> string" where
  "trim_end_chars p s = rev (dropWhile p (rev s))"

definition is_char_boundary :: "string \<Rightarrow> nat \<Rightarrow> bool" where
  "is_char_boundary s n \<longleftrightarrow> n = 0 \<or> n = length s \<or> n < length s \<and> \<not> is_continuation (s ! n)"

fun boundary_before :: "string \<Rightarrow> nat \<Rightarrow> nat" where
  "boundary_before s 0 = 0"
| "boundary_before s (Suc n) = (if is_char_boundary s (Suc n) then Suc n else boundary_before s n)"

section \<open>Search\<close>

record search_match =
  sm_path :: string
  sm_line :: int
  sm_preview :: string
  sm_preview_clipped :: bool

definition search_match_json :: "search_match \<Rightarrow> json" where
  "search_match_json m =
     json_object [(''path'', JString (sm_path m)), (''line'', JNumber (NInt (sm_line m))),
       (''preview'', JString (sm_preview m)), (''preview_clipped'', JBool (sm_preview_clipped m))]"

record bounded_search =
  bs_matches :: "search_match list"
  bs_total_matches :: nat
  bs_truncated :: bool
  bs_truncation_reason :: string

record search_caps =
  sc_max_matches :: nat
  sc_max_preview_bytes :: nat
  sc_max_preview_line_bytes :: nat

definition default_search_caps :: search_caps where
  "default_search_caps = \<lparr>sc_max_matches = 50, sc_max_preview_bytes = 8 * 1024, sc_max_preview_line_bytes = 256\<rparr>"

definition PREVIEW_CLIP_MARKER :: string where
  "PREVIEW_CLIP_MARKER = ''...''"

definition clip_preview :: "string \<Rightarrow> nat \<Rightarrow> string \<times> bool" where
  "clip_preview preview max_line_bytes =
     (if length preview \<le> max_line_bytes then (preview, False)
      else
        (let budget = max_line_bytes - length PREVIEW_CLIP_MARKER in
         (take (boundary_before preview (min budget (length preview))) preview @ PREVIEW_CLIP_MARKER, True)))"

text \<open>The loop of \<open>apply_caps\<close>: what is kept, the reason it stopped early, and whether a line was clipped.\<close>

fun cap_matches ::
  "search_caps \<Rightarrow> search_match list \<Rightarrow> nat \<Rightarrow> bool \<Rightarrow> search_match list \<Rightarrow> search_match list \<times> string \<times> bool" where
  "cap_matches caps kept used any_clipped [] = (kept, ''none'', any_clipped)"
| "cap_matches caps kept used any_clipped (candidate # raw) =
     (if length kept \<ge> sc_max_matches caps then (kept, ''match_cap'', any_clipped)
      else
        (let (preview, was_clipped) = clip_preview (sm_preview candidate) (sc_max_preview_line_bytes caps);
             candidate' = candidate\<lparr>sm_preview := preview, sm_preview_clipped := was_clipped\<rparr>;
             clipped = any_clipped \<or> was_clipped;
             next_bytes = used + length preview
         in if kept \<noteq> [] \<and> next_bytes > sc_max_preview_bytes caps then (kept, ''byte_cap'', clipped)
            else cap_matches caps (kept @ [candidate']) next_bytes clipped raw))"

definition search_apply_caps :: "search_match list \<Rightarrow> search_caps \<Rightarrow> bounded_search" where
  "search_apply_caps raw caps =
     (let (kept, reason0, any_clipped) = cap_matches caps [] 0 False raw;
          reason = (if reason0 = ''none'' \<and> any_clipped then ''preview_clip'' else reason0)
      in \<lparr>bs_matches = kept, bs_total_matches = length raw, bs_truncated = (reason \<noteq> ''none''),
          bs_truncation_reason = reason\<rparr>)"

definition normalize_match_path :: "string \<Rightarrow> string" where
  "normalize_match_path path = unwrap_or path (strip_prefix ''./'' path)"

definition parse_match :: "serde \<Rightarrow> string \<Rightarrow> search_match option" where
  "parse_match sj line0 =
     (let line = str_trim line0 in
      if line = [] then None
      else
        (case from_text sj line of
           Inl _ \<Rightarrow> None
         | Inr rcd \<Rightarrow>
             if Option.bind (json_get rcd ''type'') value_as_str \<noteq> Some ''match'' then None
             else
               Option.bind (json_get rcd ''data'') (\<lambda>data.
               Option.bind (Option.bind (Option.bind (json_get data ''path'') (\<lambda>p. json_get p ''text'')) value_as_str) (\<lambda>path.
               Some
                 \<lparr>sm_path = normalize_match_path path,
                  sm_line = unwrap_or 0 (Option.bind (json_get data ''line_number'') value_as_i64),
                  sm_preview =
                    trim_end_chars (\<lambda>c. c = CHR 0x0A \<or> c = CHR 0x0D)
                      (unwrap_or [] (Option.bind (Option.bind (json_get data ''lines'') (\<lambda>l. json_get l ''text'')) value_as_str)),
                  sm_preview_clipped = False\<rparr>))))"

definition parse_ripgrep_json :: "serde \<Rightarrow> string \<Rightarrow> search_match list" where
  "parse_ripgrep_json sj stdout = List.map_filter (parse_match sj) (str_lines stdout)"

section \<open>Failing tests\<close>

record failing_items_caps =
  fic_max_items :: nat
  fic_max_item_bytes :: nat

definition default_failing_items_caps :: failing_items_caps where
  "default_failing_items_caps = \<lparr>fic_max_items = 20, fic_max_item_bytes = 256\<rparr>"

definition CLIP_MARKER :: string where
  "CLIP_MARKER = ''...''"

record failing_items =
  fi_items :: "string list"
  fi_total :: nat
  fi_truncated :: bool

definition clip_item :: "string \<Rightarrow> nat \<Rightarrow> string" where
  "clip_item item max_bytes =
     (if length item \<le> max_bytes then item
      else
        (let budget = max_bytes - length CLIP_MARKER in
         take (boundary_before item (min budget (length item))) item @ CLIP_MARKER))"

definition failing_apply_caps :: "string list \<Rightarrow> failing_items_caps \<Rightarrow> failing_items" where
  "failing_apply_caps raw caps =
     (let total = length raw;
          items = map (\<lambda>item. clip_item item (fic_max_item_bytes caps)) (take (fic_max_items caps) raw);
          count_truncated = total > fic_max_items caps;
          item_clipped = list_ex (str_ends_with CLIP_MARKER) items
      in \<lparr>fi_items = (if count_truncated
            then items @ [CLIP_MARKER @ '' '' @ nat_to_string (total - fic_max_items caps)
              @ '' more failing item(s) elided (see output artifact)'']
            else items),
          fi_total = total, fi_truncated = (count_truncated \<or> item_clipped)\<rparr>)"

definition some_name :: "string \<Rightarrow> string option" where
  "some_name name = (if name \<noteq> [] then Some name else None)"

definition cargo_test_name :: "string \<Rightarrow> string option" where
  "cargo_test_name line =
     Option.bind (strip_prefix ''test '' line) (\<lambda>rest.
     if str_ends_with '' ... FAILED'' rest then some_name (str_trim (trim_end_text '' ... FAILED'' rest)) else None)"

definition nextest_name :: "string \<Rightarrow> string option" where
  "nextest_name line =
     Option.bind (strip_prefix ''FAIL '' line) (\<lambda>rest.
     case split_on (\<lambda>c. c = CHR '']'') rest of _ # after # _ \<Rightarrow> some_name (str_trim after) | _ \<Rightarrow> None)"

definition pytest_name :: "string \<Rightarrow> string option" where
  "pytest_name line =
     Option.bind (strip_prefix ''FAILED '' line) (\<lambda>rest.
     some_name (str_trim (case str_split_once '' - '' rest of Some (a, _) \<Rightarrow> a | None \<Rightarrow> rest)))"

definition tap_name :: "string \<Rightarrow> string option" where
  "tap_name line =
     Option.bind (strip_prefix ''not ok '' line) (\<lambda>rest.
     some_name (str_trim (case str_split_once '' - '' rest of Some (_, b) \<Rightarrow> b | None \<Rightarrow> rest)))"

fun first_some :: "'a option list \<Rightarrow> 'a option" where
  "first_some [] = None"
| "first_some (Some x # xs) = Some x"
| "first_some (None # xs) = first_some xs"

definition failing_test_name :: "string \<Rightarrow> string option" where
  "failing_test_name line = first_some [cargo_test_name line, nextest_name line, pytest_name line, tap_name line]"

definition parse_failing_test_names :: "string \<Rightarrow> string list" where
  "parse_failing_test_names output = List.map_filter (\<lambda>line. failing_test_name (str_trim line)) (str_lines output)"

definition first_failure_lines :: "string \<Rightarrow> string list" where
  "first_failure_lines output = filter (\<lambda>line. line \<noteq> []) (map str_trim (str_lines output))"

definition extract_failing_items :: "string \<Rightarrow> bool \<Rightarrow> failing_items_caps \<Rightarrow> failing_items" where
  "extract_failing_items output passed caps =
     (if passed then \<lparr>fi_items = [], fi_total = 0, fi_truncated = False\<rparr>
      else
        (let named = parse_failing_test_names output in
         failing_apply_caps (if named = [] then first_failure_lines output else remdups_adj named) caps))"

section \<open>Lint findings\<close>

record lint_finding =
  lf_file :: string
  lf_line :: int
  lf_rule :: string
  lf_message :: string

definition lint_finding_json :: "lint_finding \<Rightarrow> json" where
  "lint_finding_json f =
     json_object [(''file'', JString (lf_file f)), (''line'', JNumber (NInt (lf_line f))),
       (''rule'', JString (lf_rule f)), (''message'', JString (lf_message f))]"

datatype linter = Rustfmt

definition path_extension :: "path_buf \<Rightarrow> string option" where
  "path_extension p =
     (case (if p = [] then RootDir else last p) of
        Normal name \<Rightarrow>
          (case str_rsplit_once ''.'' name of
             Some (stem, ext) \<Rightarrow> if stem = [] then None else Some ext
           | None \<Rightarrow> None)
      | _ \<Rightarrow> None)"

definition linter_for_path :: "path_buf \<Rightarrow> linter option" where
  "linter_for_path p = (if path_extension p = Some ''rs'' then Some Rustfmt else None)"

definition linter_argv :: "linter \<Rightarrow> string \<Rightarrow> string list" where
  "linter_argv l path = [''--edition'', ''2021'', ''--check'', path]"

function strip_ansi :: "string \<Rightarrow> string" where
  "strip_ansi [] = []"
| "strip_ansi (c # cs) =
     (if c = CHR 0x1B then
        (case cs of
           [] \<Rightarrow> []
         | d # ds \<Rightarrow>
             if d = CHR ''['' then strip_ansi (drop 1 (dropWhile (\<lambda>e. \<not> (0x40 \<le> byte_of e \<and> byte_of e \<le> 0x7E)) ds))
             else strip_ansi (dropWhile is_continuation ds))
      else c # strip_ansi cs)"
  by pat_completeness auto
termination
proof (relation "measure length")
  fix c d :: char and cs ds assume "cs = d # ds"
  moreover have "length (dropWhile p ds) < Suc (Suc (length ds))" for p using length_dropWhile_le [of p ds] by simp
  ultimately show "(drop 1 (dropWhile (\<lambda>e. \<not> (0x40 \<le> byte_of e \<and> byte_of e \<le> 0x7E)) ds), c # cs) \<in> measure length"
    "(dropWhile is_continuation ds, c # cs) \<in> measure length"
    by (simp_all add: less_imp_diff_less)
qed auto

definition parse_line_number :: "string \<Rightarrow> int option" where
  "parse_line_number s = (case parse_i64 s of Inr n \<Rightarrow> Some n | Inl _ \<Rightarrow> None)"

definition parse_diff_line :: "string \<Rightarrow> int" where
  "parse_diff_line rest =
     (let colon = (\<lambda>c. c = CHR '':'');
          legacy = Option.bind (str_rsplit_once ''at line '' rest) (\<lambda>(_, t). parse_line_number (str_trim (trim_end_chars colon t)));
          current = Option.bind (str_rsplit_once '':'' (trim_end_chars colon (trim_end rest))) (\<lambda>(_, t). parse_line_number (str_trim t))
      in unwrap_or 0 (first_some [legacy, current]))"

definition debug_exit :: "int option \<Rightarrow> string" where
  "debug_exit code = (case code of None \<Rightarrow> ''None'' | Some n \<Rightarrow> ''Some('' @ int_to_string n @ '')'')"

definition rustfmt_finding :: "string \<Rightarrow> string \<Rightarrow> lint_finding option" where
  "rustfmt_finding file line =
     (let trimmed = str_trim (strip_ansi line) in
      case strip_prefix ''Diff in '' trimmed of
        Some rest \<Rightarrow>
          Some \<lparr>lf_file = file, lf_line = parse_diff_line rest, lf_rule = ''rustfmt'',
            lf_message = ''code is not rustfmt-formatted in this region''\<rparr>
      | None \<Rightarrow>
          if starts_with ''error'' trimmed
          then Some \<lparr>lf_file = file, lf_line = 0, lf_rule = ''syntax'', lf_message = trimmed\<rparr>
          else None)"

definition parse_rustfmt :: "string \<Rightarrow> int option \<Rightarrow> string \<Rightarrow> lint_finding list" where
  "parse_rustfmt file exit_code stderr =
     (if exit_code = Some 0 then []
      else
        (let findings = List.map_filter (rustfmt_finding file) (str_lines stderr) in
         if findings = [] then
           [\<lparr>lf_file = file, lf_line = 0, lf_rule = ''rustfmt'',
             lf_message = ''rustfmt --check failed (exit '' @ debug_exit exit_code @ '')''\<rparr>]
         else findings))"

section \<open>Search results are bounded\<close>

definition clipped :: "search_caps \<Rightarrow> search_match \<Rightarrow> search_match" where
  "clipped caps m =
     (let (preview, was_clipped) = clip_preview (sm_preview m) (sc_max_preview_line_bytes caps) in
      m\<lparr>sm_preview := preview, sm_preview_clipped := was_clipped\<rparr>)"

definition preview_bytes :: "search_match list \<Rightarrow> nat" where
  "preview_bytes ms = sum_list (map (\<lambda>m. length (sm_preview m)) ms)"

lemma cap_matches_kept:
  assumes "cap_matches caps kept (preview_bytes kept) flag raw = (ms, reason, flag')"
    and "length kept \<le> sc_max_matches caps" "preview_bytes kept \<le> sc_max_preview_bytes caps \<or> length kept \<le> 1"
  shows "(\<exists>n \<le> length raw. ms = kept @ map (clipped caps) (take n raw) \<and> (reason = ''none'' \<longleftrightarrow> n = length raw))
    \<and> length ms \<le> sc_max_matches caps \<and> (preview_bytes ms \<le> sc_max_preview_bytes caps \<or> length ms \<le> 1)"
  using assms
proof (induction raw arbitrary: kept flag)
  case Nil
  then show ?case by auto
next
  case (Cons m raw)
  let ?c = "clipped caps m"
  have c: "sm_preview ?c = fst (clip_preview (sm_preview m) (sc_max_preview_line_bytes caps))"
    by (simp add: clipped_def split_beta Let_def)
  consider (full) "length kept \<ge> sc_max_matches caps"
    | (bytes) "length kept < sc_max_matches caps" "kept \<noteq> []" "preview_bytes (kept @ [?c]) > sc_max_preview_bytes caps"
    | (keep) "length kept < sc_max_matches caps" "kept = [] \<or> preview_bytes (kept @ [?c]) \<le> sc_max_preview_bytes caps"
    by linarith
  then show ?case
  proof cases
    case full
    then show ?thesis using Cons.prems by (intro conjI exI [of _ 0]) auto
  next
    case bytes
    then have "ms = kept \<and> reason = ''byte_cap''"
      using Cons.prems(1) c by (auto simp: preview_bytes_def split_beta Let_def)
    then show ?thesis using Cons.prems by (intro conjI exI [of _ 0]) auto
  next
    case keep
    then have "cap_matches caps (kept @ [?c]) (preview_bytes (kept @ [?c])) (flag \<or> sm_preview_clipped ?c) raw = (ms, reason, flag')"
      using Cons.prems(1) c by (auto simp: preview_bytes_def split_beta Let_def clipped_def)
    moreover have "preview_bytes (kept @ [?c]) \<le> sc_max_preview_bytes caps \<or> length (kept @ [?c]) \<le> 1" using keep by auto
    moreover have "length (kept @ [?c]) \<le> sc_max_matches caps" using keep by simp
    ultimately have "(\<exists>n \<le> length raw. ms = (kept @ [?c]) @ map (clipped caps) (take n raw) \<and> (reason = ''none'' \<longleftrightarrow> n = length raw))
        \<and> length ms \<le> sc_max_matches caps \<and> (preview_bytes ms \<le> sc_max_preview_bytes caps \<or> length ms \<le> 1)"
      by (intro Cons.IH)
    then obtain n where "n \<le> length raw" "ms = (kept @ [?c]) @ map (clipped caps) (take n raw)" "reason = ''none'' \<longleftrightarrow> n = length raw"
      "length ms \<le> sc_max_matches caps" "preview_bytes ms \<le> sc_max_preview_bytes caps \<or> length ms \<le> 1"
      by blast
    then show ?thesis by (intro conjI exI [of _ "Suc n"]) auto
  qed
qed

lemma cap_matches_clipped:
  "cap_matches caps kept used flag raw = (ms, reason, flag') \<Longrightarrow> flag \<longrightarrow> flag'"
  by (induction raw arbitrary: kept used flag) (auto simp: Let_def split_beta split: if_splits)

lemma cap_matches_flag:
  assumes "cap_matches caps kept used flag raw = (ms, reason, flag')" "\<forall>m \<in> set kept. sm_preview_clipped m \<longrightarrow> flag"
  shows "\<forall>m \<in> set ms. sm_preview_clipped m \<longrightarrow> flag'"
  using assms
proof (induction raw arbitrary: kept used flag)
  case (Cons m raw)
  then show ?case
    by (fastforce simp: Let_def split_beta dest: cap_matches_clipped split: if_splits)
qed simp

end
