(* ===== verification/Apply_Patch.thy ===== *)
theory Apply_Patch
  imports Text_Tools
begin

text \<open>
  \<open>capo-tools/src/apply_patch.rs\<close>: search-and-replace hunks that are located in a file line by line, first
  exactly, then up to white space, then with elided context, then by similarity.

  A similarity is the quotient of two counts.  It is kept as the pair, and compared by
  cross-multiplication; as long as the counts are below \<open>2 ^ 50\<close>, dividing them in \<open>f64\<close> orders them in the
  same way.  The two-digit rendering of a quotient in a message is the argument \<open>fmt\<close>.

  Shown here: a patch that applies cuts the file into pieces it keeps and sites it edits, one site per
  hunk, from left to right, and each site is what its hunk's strategy promises.
\<close>

section \<open>Hunks and matches\<close>

abbreviation line_feed :: char where
  "line_feed \<equiv> CHR 0x0A"

record patch_hunk =
  ph_search :: string
  ph_replace :: string

datatype match_strategy = InsertAt | Perfect | Whitespace | DotDotDot | Fuzzy

fun strategy_label :: "match_strategy \<Rightarrow> string" where
  "strategy_label InsertAt = ''insert''"
| "strategy_label Perfect = ''perfect''"
| "strategy_label Whitespace = ''whitespace''"
| "strategy_label DotDotDot = ''dotdotdot''"
| "strategy_label Fuzzy = ''fuzzy''"

record hunk_match =
  hm_start_line :: nat
  hm_end_line :: nat
  hm_strategy :: match_strategy

type_synonym ratio = "nat \<times> nat"

record no_match =
  nm_hunk_index :: nat
  nm_reason :: string
  nm_nearest_start_line :: "nat option"
  nm_nearest_preview :: "string option"
  nm_nearest_similarity :: ratio

definition FUZZY_THRESHOLD :: ratio where
  "FUZZY_THRESHOLD = (4, 5)"

definition ratio_ge :: "ratio \<Rightarrow> ratio \<Rightarrow> bool" where
  "ratio_ge p q \<longleftrightarrow> fst q * snd p \<le> fst p * snd q"

section \<open>Locating a hunk\<close>

definition split_keep_block :: "string \<Rightarrow> string list" where
  "split_keep_block block =
     (if block = [] then []
      else
        (let ls = split_on (\<lambda>c. c = line_feed) block in
         if last block = line_feed then butlast ls else ls))"

definition window :: "nat \<Rightarrow> nat \<Rightarrow> string list \<Rightarrow> string list" where
  "window start len ls = take len (drop start ls)"

definition find_perfect :: "string list \<Rightarrow> string list \<Rightarrow> nat \<Rightarrow> nat option" where
  "find_perfect ls search from_line =
     (if search = [] \<or> length search > length ls then None
      else find (\<lambda>start. window start (length search) ls = search) [from_line..<Suc (length ls - length search)])"

definition find_whitespace :: "string list \<Rightarrow> string list \<Rightarrow> nat \<Rightarrow> nat option" where
  "find_whitespace ls search from_line =
     (if search = [] \<or> length search > length ls then None
      else find (\<lambda>start. map str_trim (window start (length search) ls) = map str_trim search)
             [from_line..<Suc (length ls - length search)])"

fun position :: "('a \<Rightarrow> bool) \<Rightarrow> 'a list \<Rightarrow> nat option" where
  "position p [] = None"
| "position p (x # xs) = (if p x then Some 0 else map_option Suc (position p xs))"

definition elision :: "string list \<Rightarrow> nat option" where
  "elision search = position (\<lambda>line. str_trim line = ''...'') search"

definition find_dotdotdot :: "string list \<Rightarrow> string list \<Rightarrow> nat \<Rightarrow> (nat \<times> nat) option" where
  "find_dotdotdot ls search from_line =
     Option.bind (elision search) (\<lambda>marker.
     let head = take marker search; rest = drop (Suc marker) search in
     if head = [] \<or> rest = [] then None
     else
       Option.bind (find_whitespace ls head from_line) (\<lambda>head_start.
       Option.bind (find_whitespace ls rest (head_start + length head)) (\<lambda>tail_start.
       Some (head_start, tail_start + length rest))))"

definition block_similarity :: "string list \<Rightarrow> string list \<Rightarrow> ratio" where
  "block_similarity search candidate =
     (length (filter (\<lambda>(a, b). str_trim a = str_trim b) (zip search candidate)),
      max (max (length search) (length candidate)) 1)"

datatype fuzzy_result = FuzzyFound nat ratio | FuzzyEmpty

text \<open>The best window so far; \<^const>\<open>None\<close> is the initial similarity \<open>-1.0\<close>.\<close>

definition better_window ::
  "string list \<Rightarrow> string list \<Rightarrow> nat \<Rightarrow> nat \<Rightarrow> nat \<times> ratio option \<Rightarrow> nat \<times> ratio option" where
  "better_window ls search len start best =
     (let similarity = block_similarity search (window start len ls) in
      case snd best of
        Some s \<Rightarrow> if ratio_ge s similarity then best else (start, Some similarity)
      | None \<Rightarrow> (start, Some similarity))"

definition find_fuzzy :: "string list \<Rightarrow> string list \<Rightarrow> nat \<Rightarrow> fuzzy_result" where
  "find_fuzzy ls search from_line =
     (if ls = [] then FuzzyEmpty
      else
        (let len = max (min (length search) (length ls)) 1;
             last = length ls - len;
             (best_start, best_similarity) =
               fold (better_window ls search len) [from_line..<Suc last] (min from_line last, None)
         in FuzzyFound best_start (case best_similarity of Some s \<Rightarrow> s | None \<Rightarrow> (0, 1))))"

definition window_preview :: "string list \<Rightarrow> nat \<Rightarrow> nat \<Rightarrow> string" where
  "window_preview ls start len =
     join_with [line_feed] (take (min (start + max len 1) (length ls) - start) (drop start ls))"

definition locate_hunk ::
  "(ratio \<Rightarrow> string) \<Rightarrow> string list \<Rightarrow> patch_hunk \<Rightarrow> nat \<Rightarrow> nat \<Rightarrow> (no_match, hunk_match) result" where
  "locate_hunk fmt ls hunk hunk_index from_line =
     (let search_lines = split_keep_block (ph_search hunk);
          found = (\<lambda>start finish st. Inr \<lparr>hm_start_line = start, hm_end_line = finish, hm_strategy = st\<rparr>)
      in
      if ph_search hunk = [] then found (length ls) (length ls) InsertAt
      else
        (case find_perfect ls search_lines from_line of
           Some start \<Rightarrow> found start (start + length search_lines) Perfect
         | None \<Rightarrow>
        (case find_whitespace ls search_lines from_line of
           Some start \<Rightarrow> found start (start + length search_lines) Whitespace
         | None \<Rightarrow>
        (case find_dotdotdot ls search_lines from_line of
           Some (start, finish) \<Rightarrow> found start finish DotDotDot
         | None \<Rightarrow>
        (case find_fuzzy ls search_lines from_line of
           FuzzyFound start similarity \<Rightarrow>
             if ratio_ge similarity FUZZY_THRESHOLD then found start (start + length search_lines) Fuzzy
             else
               Inl \<lparr>nm_hunk_index = hunk_index,
                    nm_reason = ''no search block matched (best similarity '' @ fmt similarity
                      @ '' below threshold '' @ fmt FUZZY_THRESHOLD @ '')'',
                    nm_nearest_start_line = Some (start + 1),
                    nm_nearest_preview = Some (window_preview ls start (length search_lines)),
                    nm_nearest_similarity = similarity\<rparr>
         | FuzzyEmpty \<Rightarrow>
             Inl \<lparr>nm_hunk_index = hunk_index,
                  nm_reason = ''file has no content to match the search block against'',
                  nm_nearest_start_line = None, nm_nearest_preview = None, nm_nearest_similarity = (0, 1)\<rparr>)))))"

section \<open>Applying hunks\<close>

record applied_patch =
  ap_new_content :: string
  ap_matches :: "hunk_match list"
  ap_changed_line_ranges :: "string list"

definition changed_range :: "nat \<Rightarrow> nat \<Rightarrow> string" where
  "changed_range start replaced_len =
     (if replaced_len = 0 then nat_to_string (start + 1) @ '':'' @ nat_to_string (start + 1)
      else nat_to_string (start + 1) @ '':'' @ nat_to_string (start + replaced_len))"

fun apply_from ::
  "(ratio \<Rightarrow> string) \<Rightarrow> nat \<Rightarrow> nat \<Rightarrow> string list \<Rightarrow> patch_hunk list
    \<Rightarrow> (no_match, string list \<times> hunk_match list \<times> string list) result" where
  "apply_from fmt index cursor ls [] = Inr (ls, [], [])"
| "apply_from fmt index cursor ls (hunk # hunks) =
     and_then (locate_hunk fmt ls hunk index cursor) (\<lambda>located.
     let replacement = split_keep_block (ph_replace hunk);
         start = hm_start_line located;
         finish = min (hm_end_line located) (length ls)
     in and_then
          (apply_from fmt (Suc index) (start + length replacement) (take start ls @ replacement @ drop finish ls) hunks)
          (\<lambda>(ls', ms, rs). Inr (ls', located # ms, changed_range start (length replacement) # rs)))"

definition file_lines :: "string \<Rightarrow> string list" where
  "file_lines original =
     (if original = [] then []
      else
        (let ls = split_on (\<lambda>c. c = line_feed) original in
         if last original = line_feed then butlast ls else ls))"

definition apply_hunks :: "(ratio \<Rightarrow> string) \<Rightarrow> string \<Rightarrow> patch_hunk list \<Rightarrow> (no_match, applied_patch) result" where
  "apply_hunks fmt original hunks =
     and_then (apply_from fmt 0 0 (file_lines original) hunks) (\<lambda>(ls, ms, rs).
     let content = join_with [line_feed] ls;
         trailing = original = [] \<or> last original = line_feed
     in Inr \<lparr>ap_new_content = (if trailing \<and> content \<noteq> [] then content @ [line_feed] else content),
             ap_matches = ms, ap_changed_line_ranges = rs\<rparr>)"

section \<open>What a strategy promises\<close>

fun site_matches :: "match_strategy \<Rightarrow> string list \<Rightarrow> string list \<Rightarrow> bool" where
  "site_matches InsertAt search site = (search = [] \<and> site = [])"
| "site_matches Perfect search site = (site = search)"
| "site_matches Whitespace search site = (map str_trim site = map str_trim search)"
| "site_matches DotDotDot search site =
     (case elision search of
        None \<Rightarrow> False
      | Some k \<Rightarrow>
          length search \<le> Suc (length site)
          \<and> map str_trim (take k site) = map str_trim (take k search)
          \<and> map str_trim (drop (length site - (length search - Suc k)) site) = map str_trim (drop (Suc k) search))"
| "site_matches Fuzzy search site = ratio_ge (block_similarity search site) FUZZY_THRESHOLD"

lemma find_upt_Some: "find p [a..<b] = Some n \<Longrightarrow> a \<le> n \<and> n < b \<and> p n"
  by (auto simp: find_Some_iff)

lemma find_whitespace_Some:
  assumes "find_whitespace ls search a = Some n"
  shows "search \<noteq> [] \<and> a \<le> n \<and> n + length search \<le> length ls \<and> map str_trim (window n (length search) ls) = map str_trim search"
proof -
  have ok: "search \<noteq> []" "length search \<le> length ls" using assms by (auto simp: find_whitespace_def split: if_splits)
  then have "find (\<lambda>start. map str_trim (window start (length search) ls) = map str_trim search)
      [a..<Suc (length ls - length search)] = Some n"
    using assms by (simp add: find_whitespace_def del: upt_Suc)
  from find_upt_Some [OF this] show ?thesis using ok by auto
qed

lemma position_Some: "position p xs = Some n \<Longrightarrow> n < length xs"
  by (induction xs arbitrary: n) (auto split: if_splits)

lemma find_dotdotdot_parts:
  assumes "find_dotdotdot ls search a = Some (n, m)"
  obtains k t where "elision search = Some k" "find_whitespace ls (take k search) a = Some n"
    "find_whitespace ls (drop (Suc k) search) (n + length (take k search)) = Some t" "m = t + length (drop (Suc k) search)"
  using assms
  by (auto simp: find_dotdotdot_def Let_def bind_eq_Some_conv simp del: length_take length_drop split: if_splits)

lemma find_dotdotdot_Some:
  assumes "find_dotdotdot ls search a = Some (n, m)"
  shows "a \<le> n \<and> n \<le> m \<and> m \<le> length ls \<and> site_matches DotDotDot search (window n (m - n) ls)"
proof -
  obtain k t where t: "elision search = Some k" "find_whitespace ls (take k search) a = Some n"
    "find_whitespace ls (drop (Suc k) search) (n + length (take k search)) = Some t" "m = t + length (drop (Suc k) search)"
    by (rule find_dotdotdot_parts [OF assms])
  define r where "r = length search - Suc k"
  have k: "k < length search" using t(1) unfolding elision_def by (rule position_Some)
  then have len: "k < length search" "length (take k search) = k" "length (drop (Suc k) search) = r" by (simp_all add: r_def)
  have h: "a \<le> n" "map str_trim (window n k ls) = map str_trim (take k search)"
    using find_whitespace_Some [OF t(2)] len by simp_all
  have r: "n + k \<le> t" "t + r \<le> length ls" "map str_trim (window t r ls) = map str_trim (drop (Suc k) search)"
    using find_whitespace_Some [OF t(3)] unfolding len(2,3) by blast+
  have m: "m = t + r" using t(4) len by simp
  have w: "length (window n (m - n) ls) = m - n" using m r by (simp add: window_def)
  have "take k (window n (m - n) ls) = window n k ls" using m r by (simp add: window_def min_def)
  moreover have "drop (m - n - r) (window n (m - n) ls) = window t r ls"
    using m r(1) by (simp add: window_def drop_take)
  moreover have "length search \<le> Suc (m - n)" using m r(1) len(1) by (simp add: r_def)
  ultimately show ?thesis using h r m t(1) w by (simp flip: r_def)
qed

lemma better_windows:
  assumes "fold (better_window ls search len) starts best = (n, Some s)"
    and "\<forall>s'. snd best = Some s' \<longrightarrow> s' = block_similarity search (window (fst best) len ls) \<and> P (fst best)"
    and "\<forall>i \<in> set starts. P i"
  shows "s = block_similarity search (window n len ls) \<and> P n"
  using assms
proof (induction starts arbitrary: best)
  case Nil
  then show ?case by (cases best) auto
next
  case (Cons i starts)
  let ?b = "better_window ls search len i best"
  have "\<forall>s2. snd ?b = Some s2 \<longrightarrow> s2 = block_similarity search (window (fst ?b) len ls) \<and> P (fst ?b)"
    using Cons.prems(2,3) by (auto simp: better_window_def Let_def split: option.splits if_splits)
  then show ?case using Cons by simp
qed

lemma find_fuzzy_Found:
  assumes "find_fuzzy ls search a = FuzzyFound n s" "ratio_ge s FUZZY_THRESHOLD" "search \<noteq> []"
  shows "a \<le> n \<and> n \<le> length ls \<and> site_matches Fuzzy search (window n (min (n + length search) (length ls) - n) ls)"
proof -
  let ?len = "max (min (length search) (length ls)) 1"
  let ?last = "length ls - ?len"
  have ls: "ls \<noteq> []" using assms(1) by (auto simp: find_fuzzy_def)
  obtain b where b: "fold (better_window ls search ?len) [a..<Suc ?last] (min a ?last, None) = (n, b)"
    "s = (case b of Some s \<Rightarrow> s | None \<Rightarrow> (0, 1))"
    using assms(1) ls
    by (cases "fold (better_window ls search ?len) [a..<Suc ?last] (min a ?last, None)") (simp add: find_fuzzy_def Let_def del: upt_Suc)
  then have "b = Some s" using assms(2) by (cases b) (auto simp: ratio_ge_def FUZZY_THRESHOLD_def)
  then have "s = block_similarity search (window n ?len ls) \<and> (a \<le> n \<and> n \<le> ?last)"
    using better_windows [of ls search ?len "[a..<Suc ?last]" "(min a ?last, None)" n s "\<lambda>n. a \<le> n \<and> n \<le> ?last"] b(1)
    by (simp del: upt_Suc)
  moreover have "1 \<le> length search" "1 \<le> length ls" using assms(3) ls by (simp_all add: Suc_leI)
  moreover from this have "?len = min (length search) (length ls)" by (simp only: max_absorb1 min.bounded_iff)
  ultimately have "window n ?len ls = window n (min (n + length search) (length ls) - n) ls"
    by (auto simp: window_def min_def)
  then show ?thesis using \<open>s = _ \<and> _\<close> assms(2) by auto
qed

lemma split_keep_block_Nil: "split_keep_block block = [] \<longleftrightarrow> block = []"
proof
  assume "split_keep_block block = []"
  show "block = []"
  proof (rule ccontr)
    assume ne: "block \<noteq> []"
    then have "last block = line_feed" "butlast (split_on (\<lambda>c. c = line_feed) block) = []"
      using \<open>split_keep_block block = []\<close> by (auto simp: split_keep_block_def Let_def split: if_splits)
    then have "length (split_on (\<lambda>c. c = line_feed) block) = 1"
      by (metis One_nat_def append_butlast_last_id append_self_conv2 length_Cons list.size(3) split_on_not_Nil)
    then obtain l where l: "split_on (\<lambda>c. c = line_feed) block = [l]" by (auto simp: length_Suc_conv)
    have "line_feed \<notin> set block" using l by (induction block arbitrary: l) (auto split: if_splits list.splits)
    then show False using \<open>last block = line_feed\<close> ne last_in_set by metis
  qed
qed (simp add: split_keep_block_def)

section \<open>Where a hunk is applied\<close>

lemma locate_hunk_site:
  assumes "locate_hunk fmt ls hunk i a = Inr m" "a \<le> length ls"
  shows "a \<le> hm_start_line m \<and> hm_start_line m \<le> min (hm_end_line m) (length ls)
    \<and> site_matches (hm_strategy m) (split_keep_block (ph_search hunk))
        (window (hm_start_line m) (min (hm_end_line m) (length ls) - hm_start_line m) ls)"
proof (cases "ph_search hunk = []")
  case True
  then show ?thesis using assms by (auto simp: locate_hunk_def window_def split_keep_block_def)
next
  case False
  let ?s = "split_keep_block (ph_search hunk)"
  have ne: "?s \<noteq> []" using False by (simp add: split_keep_block_Nil)
  consider (perfect) n where "find_perfect ls ?s a = Some n" "m = \<lparr>hm_start_line = n, hm_end_line = n + length ?s, hm_strategy = Perfect\<rparr>"
    | (white) n where "find_whitespace ls ?s a = Some n" "m = \<lparr>hm_start_line = n, hm_end_line = n + length ?s, hm_strategy = Whitespace\<rparr>"
    | (dots) n n' where "find_dotdotdot ls ?s a = Some (n, n')" "m = \<lparr>hm_start_line = n, hm_end_line = n', hm_strategy = DotDotDot\<rparr>"
    | (fuzzy) n s where "find_fuzzy ls ?s a = FuzzyFound n s" "ratio_ge s FUZZY_THRESHOLD"
        "m = \<lparr>hm_start_line = n, hm_end_line = n + length ?s, hm_strategy = Fuzzy\<rparr>"
    using assms(1) False by (auto simp: locate_hunk_def Let_def split: option.splits fuzzy_result.splits if_splits)
  then show ?thesis
  proof cases
    case perfect
    then have "find (\<lambda>start. window start (length ?s) ls = ?s) [a..<Suc (length ls - length ?s)] = Some n" "length ?s \<le> length ls"
      by (auto simp: find_perfect_def simp del: upt_Suc split: if_splits)
    then show ?thesis using find_upt_Some perfect(2) by fastforce
  next
    case white
    then show ?thesis using find_whitespace_Some [OF white(1)] by auto
  next
    case dots
    then show ?thesis using find_dotdotdot_Some [OF dots(1)] by auto
  next
    case fuzzy
    then show ?thesis using find_fuzzy_Found [OF fuzzy(1,2) ne] by auto
  qed
qed

text \<open>
  An edit keeps some lines and then replaces a site; the script of a patch has one edit per hunk, in the
  order of the hunks.
\<close>

record edit =
  ed_kept :: "string list"
  ed_site :: "string list"
  ed_hunk :: patch_hunk
  ed_strategy :: match_strategy

definition before_edit :: "edit \<Rightarrow> string list" where
  "before_edit e = ed_kept e @ ed_site e"

definition after_edit :: "edit \<Rightarrow> string list" where
  "after_edit e = ed_kept e @ split_keep_block (ph_replace (ed_hunk e))"

definition edit_ok :: "edit \<Rightarrow> bool" where
  "edit_ok e = site_matches (ed_strategy e) (split_keep_block (ph_search (ed_hunk e))) (ed_site e)"

lemma cut_at_window:
  assumes "length d \<le> a" "a \<le> b"
  shows "ls = take (a - length d) ls @ window a (b - a) (d @ ls) @ drop b (d @ ls)"
proof -
  obtain i j where "a = length d + i" "b = length d + i + j" using assms by (metis le_Suc_ex)
  then show ?thesis by (simp add: window_def) (metis append_assoc append_take_drop_id take_add)
qed

lemma apply_from_edits:
  assumes "apply_from fmt i (length done) (done @ ls) hunks = Inr (ls', ms, rs)"
  shows "\<exists>es rest. ls = concat (map before_edit es) @ rest \<and> ls' = done @ concat (map after_edit es) @ rest
     \<and> map ed_hunk es = hunks \<and> map ed_strategy es = map hm_strategy ms \<and> list_all edit_ok es"
  using assms
proof (induction hunks arbitrary: i "done" ls ms rs)
  case Nil
  then show ?case by (intro exI [of _ "[]"] exI [of _ ls]) auto
next
  case (Cons h hunks)
  obtain m where m: "locate_hunk fmt (done @ ls) h i (length done) = Inr m"
    using Cons.prems by (auto simp: and_then_Inr_iff)
  let ?st = "hm_start_line m" and ?fin = "min (hm_end_line m) (length (done @ ls))" and ?rep = "split_keep_block (ph_replace h)"
  have site: "length done \<le> ?st" "?st \<le> ?fin"
    "site_matches (hm_strategy m) (split_keep_block (ph_search h)) (window ?st (?fin - ?st) (done @ ls))"
    using locate_hunk_site [OF m] by auto
  let ?e = "\<lparr>ed_kept = take (?st - length done) ls, ed_site = window ?st (?fin - ?st) (done @ ls), ed_hunk = h, ed_strategy = hm_strategy m\<rparr>"
  let ?done = "take ?st (done @ ls) @ ?rep"
  have "?st \<le> length (done @ ls)" using site by simp
  then have len: "?st + length ?rep = length ?done" by simp
  from Cons.prems m obtain ms' rs' where
    rec: "apply_from fmt (Suc i) (length ?done) (?done @ drop ?fin (done @ ls)) hunks = Inr (ls', ms', rs')" "ms = m # ms'"
    unfolding apply_from.simps m and_then.simps Let_def len append_assoc by (auto simp: and_then_Inr_iff)
  from Cons.IH [OF rec(1)] obtain es rest where es: "drop ?fin (done @ ls) = concat (map before_edit es) @ rest"
    "ls' = ?done @ concat (map after_edit es) @ rest" "map ed_hunk es = hunks" "map ed_strategy es = map hm_strategy ms'" "list_all edit_ok es"
    by blast
  have "ls = before_edit ?e @ drop ?fin (done @ ls)"
    unfolding before_edit_def edit.simps append_assoc by (rule cut_at_window [OF site(1,2)])
  moreover have "?done = done @ after_edit ?e" using site(1) by (simp add: after_edit_def)
  moreover have "edit_ok ?e" using site(3) by (simp add: edit_ok_def)
  ultimately show ?case using es rec(2) by (intro exI [of _ "?e # es"] exI [of _ rest]) simp
qed

end
