(* ===== verification/Tool_Wrappers.thy ===== *)
theory Tool_Wrappers
  imports Local_Process Tool_Registry Tool_Parsers Apply_Patch Frame_Reader
begin

text \<open>
  \<open>capo-tools/src/runtime_wrapper_types.rs\<close> and \<open>runtime_wrappers.rs\<close>: the tools an agent may call in a
  workspace, from the authorization over the audit trail to the effect on the file system.

  The clock, the line differ of the crate \<open>similar\<close>, the two-digit rendering of a ratio, the debug text of
  a runtime error, \<open>serde_json\<close> and the operating system are the fields of \<open>tool_env\<close>.

  Shown here: without an allowing authorization made for this very call nothing happens; a guarded write
  leaves the file alone when its content is not the expected one.
\<close>

section \<open>Types\<close>

record tool_env =
  te_os :: os
  te_serde :: serde
  te_duration_ms :: int
  te_started_at_ms :: int
  te_completed_at_ms :: int
  te_diff :: "string \<Rightarrow> string \<Rightarrow> string \<Rightarrow> string \<Rightarrow> string"
  te_ratio :: "ratio \<Rightarrow> string"
  te_debug_error :: "runtime_error \<Rightarrow> string"

definition DEFAULT_ARTIFACT_LIMIT_BYTES :: nat where
  "DEFAULT_ARTIFACT_LIMIT_BYTES = 16 * 1024 * 1024"

record runtime_tool_config =
  rtc_workspace_root :: path_buf
  rtc_artifact_root :: path_buf
  rtc_env_allowlist :: "string list"
  rtc_redaction_rules :: "redaction_rule list"
  rtc_output_limit_bytes :: nat
  rtc_artifact_limit_bytes :: nat

definition local_workspace :: "path_buf \<Rightarrow> path_buf \<Rightarrow> runtime_tool_config" where
  "local_workspace workspace_root artifact_root =
     \<lparr>rtc_workspace_root = workspace_root, rtc_artifact_root = artifact_root, rtc_env_allowlist = [],
      rtc_redaction_rules = [], rtc_output_limit_bytes = 64 * 1024,
      rtc_artifact_limit_bytes = DEFAULT_ARTIFACT_LIMIT_BYTES\<rparr>"

record wrapper_tool_request =
  wtr_tool_call_id :: string
  wtr_session_id :: string
  wtr_run_id :: string
  wtr_tool_id :: string
  wtr_capability_profile_id :: string
  wtr_input :: json

record wrapper_artifact =
  wa_artifact_id :: string
  wa_kind :: string
  wa_uri :: string
  wa_content_hash :: string
  wa_size_bytes :: int
  wa_redaction_state :: string
  wa_summary :: string

record wrapper_tool_result =
  wts_tool_call_id :: string
  wts_tool_id :: string
  wts_status :: string
  wts_summary :: string
  wts_typed_output :: json
  wts_input_artifact :: "wrapper_artifact option"
  wts_output_artifacts :: "wrapper_artifact list"
  wts_permission_decision :: permission_decision
  wts_events :: "tool_audit_event list"

record wrapper_execution =
  wx_status :: string
  wx_summary :: string
  wx_typed_output :: json
  wx_output_artifacts :: "wrapper_artifact list"
  wx_reached_completion :: bool

definition execution_completed :: "string \<Rightarrow> string \<Rightarrow> json \<Rightarrow> wrapper_artifact list \<Rightarrow> wrapper_execution" where
  "execution_completed status summary typed_output artifacts =
     \<lparr>wx_status = status, wx_summary = summary, wx_typed_output = typed_output, wx_output_artifacts = artifacts,
      wx_reached_completion = True\<rparr>"

section \<open>Results that did not run the tool\<close>

definition type_default :: "string \<Rightarrow> json" where
  "type_default base_type =
     (if base_type = ''string'' then JString []
      else if base_type = ''integer'' \<or> base_type = ''number'' then JNumber (NInt 0)
      else if base_type = ''boolean'' then JBool False
      else if base_type = ''string[]'' \<or> base_type = ''array'' then JArray []
      else if base_type = ''object'' then JObject []
      else JNull)"

definition default_entry :: "string \<times> json \<Rightarrow> (string \<times> json) option" where
  "default_entry decl =
     (case value_as_str (snd decl) of
        None \<Rightarrow> None
      | Some t \<Rightarrow> (let (base, optional) = declared_base t in if optional then None else Some (fst decl, type_default base)))"

definition schema_default_object :: "serde \<Rightarrow> string \<Rightarrow> (string \<times> json) list" where
  "schema_default_object sj output_schema =
     (case from_text sj output_schema of
        Inl _ \<Rightarrow> []
      | Inr schema \<Rightarrow>
          (case Option.bind (json_get schema ''output'') as_object of
             None \<Rightarrow> []
           | Some decls \<Rightarrow> btree_of (List.map_filter default_entry decls)))"

definition set_if_present :: "string \<Rightarrow> json \<Rightarrow> (string \<times> json) list \<Rightarrow> (string \<times> json) list" where
  "set_if_present key value object = (if key \<in> fst ` set object then btree_insert key value object else object)"

definition terminal_typed_output :: "serde \<Rightarrow> string \<Rightarrow> string \<Rightarrow> string \<Rightarrow> json" where
  "terminal_typed_output sj output_schema status detail =
     JObject (set_if_present ''summary'' (JString detail)
       (set_if_present ''status'' (JString status) (schema_default_object sj output_schema)))"

definition denied_typed_output :: "serde \<Rightarrow> string \<Rightarrow> permission_decision \<Rightarrow> json" where
  "denied_typed_output sj output_schema decision = terminal_typed_output sj output_schema ''denied'' (dec_explanation decision)"

definition failed_typed_output :: "serde \<Rightarrow> string \<Rightarrow> string \<Rightarrow> json" where
  "failed_typed_output sj output_schema error = terminal_typed_output sj output_schema ''failed'' error"

definition result_denied ::
  "serde \<Rightarrow> wrapper_tool_request \<Rightarrow> tool_definition \<Rightarrow> permission_decision \<Rightarrow> tool_audit_event list \<Rightarrow> wrapper_tool_result" where
  "result_denied sj request d decision events =
     \<lparr>wts_tool_call_id = wtr_tool_call_id request, wts_tool_id = td_tool_id d, wts_status = ''denied'',
      wts_summary = dec_explanation decision, wts_typed_output = denied_typed_output sj (td_output_schema d) decision,
      wts_input_artifact = None, wts_output_artifacts = [], wts_permission_decision = decision, wts_events = events\<rparr>"

section \<open>Tool definitions\<close>

definition EXEC_OUTPUT_SCHEMA :: string where
  "EXEC_OUTPUT_SCHEMA = ''{\"output\":{\"status\":\"string\",\"exit_status\":\"integer?\",\"passed\":\"boolean\",\"duration_ms\":\"integer\",\"output_artifact_id\":\"string\",\"truncated\":\"boolean\"}}''"

definition FILE_READ_OUTPUT_SCHEMA :: string where
  "FILE_READ_OUTPUT_SCHEMA = ''{\"output\":{\"status\":\"string\",\"path\":\"string\",\"bytes_read\":\"integer\",\"content_hash\":\"string\",\"output_artifact_id\":\"string\"}}''"

definition FILE_WRITE_OUTPUT_SCHEMA :: string where
  "FILE_WRITE_OUTPUT_SCHEMA = ''{\"output\":{\"status\":\"string\",\"path\":\"string\",\"mode\":\"string\",\"before_hash\":\"string\",\"after_hash\":\"string\",\"bytes_written\":\"integer\",\"output_artifact_id\":\"string\",\"expected_hash\":\"string?\",\"actual_hash\":\"string?\"}}''"

definition APPLY_PATCH_OUTPUT_SCHEMA :: string where
  "APPLY_PATCH_OUTPUT_SCHEMA = ''{\"output\":{\"status\":\"string\",\"path\":\"string\",\"hunks_total\":\"integer\",\"hunks_applied\":\"integer\",\"hunks_rejected\":\"integer\",\"changed_line_ranges\":\"string[]\",\"output_artifact_id\":\"string\",\"lint_status\":\"string\",\"lint_findings\":\"array\",\"rejected_hunk_index\":\"integer?\",\"reject_reason\":\"string?\",\"nearest_line\":\"integer?\",\"nearest_preview\":\"string?\"}}''"

definition SEARCH_OUTPUT_SCHEMA :: string where
  "SEARCH_OUTPUT_SCHEMA = ''{\"output\":{\"status\":\"string\",\"query\":\"string\",\"matches\":\"array\",\"returned_matches\":\"integer\",\"total_matches\":\"integer\",\"truncated\":\"boolean\",\"truncation_reason\":\"string\",\"duration_ms\":\"integer\"}}''"

definition TEST_RUN_OUTPUT_SCHEMA :: string where
  "TEST_RUN_OUTPUT_SCHEMA = ''{\"output\":{\"status\":\"string\",\"command\":\"string\",\"exit_status\":\"integer?\",\"passed\":\"boolean\",\"failing_items\":\"string[]\",\"failing_items_total\":\"integer\",\"failing_items_truncated\":\"boolean\",\"duration_ms\":\"integer\",\"started_at\":\"integer\",\"completed_at\":\"integer\",\"output_artifact_id\":\"string\"}}''"

definition wrapper_output_schema :: "string \<Rightarrow> string" where
  "wrapper_output_schema tool_id =
     (if tool_id \<in> set [''capo.shell_run'', ''capo.git_status'', ''capo.git_diff'', ''capo.git_commit''] then EXEC_OUTPUT_SCHEMA
      else if tool_id = ''capo.file_write'' then FILE_WRITE_OUTPUT_SCHEMA
      else if tool_id = ''capo.apply_patch'' then APPLY_PATCH_OUTPUT_SCHEMA
      else if tool_id = ''capo.search'' then SEARCH_OUTPUT_SCHEMA
      else if tool_id = ''capo.test_run'' then TEST_RUN_OUTPUT_SCHEMA
      else FILE_READ_OUTPUT_SCHEMA)"

definition wrapper_redaction_policy :: "string \<Rightarrow> string" where
  "wrapper_redaction_policy tool_id =
     (if tool_id \<in> set [''capo.shell_run'', ''capo.git_status'', ''capo.git_diff'', ''capo.git_commit'']
      then ''{\"strategy\":\"credential_scan\",\"fields\":[\"stdout\",\"stderr\"]}''
      else if tool_id = ''capo.file_write'' then ''{\"strategy\":\"credential_scan\",\"fields\":[\"content\"]}''
      else if tool_id = ''capo.apply_patch'' then ''{\"strategy\":\"credential_scan\",\"fields\":[\"output_artifact_id\"]}''
      else if tool_id = ''capo.search'' then ''{\"strategy\":\"credential_scan\",\"fields\":[\"preview\"]}''
      else if tool_id = ''capo.test_run'' then ''{\"strategy\":\"credential_scan\",\"fields\":[\"failing_items\",\"output_artifact_id\"]}''
      else ''{\"strategy\":\"credential_scan\",\"fields\":[\"content\"]}'')"

text \<open>Display name, whether the tool changes state, risk, scopes and input schema.\<close>

definition wrapper_tool_row :: "string \<Rightarrow> (string \<times> bool \<times> string \<times> string list \<times> string) option" where
  "wrapper_tool_row tool_id = map_of
     [(''capo.shell_run'', (''Shell Run'', False, ''high'', [''tool:invoke:capo.shell_run'', ''shell:execute:workspace''],
        ''{\"input\":{\"program\":\"string\",\"argv\":\"string[]\",\"cwd\":\"string?\"}}'')),
      (''capo.git_status'', (''Git Status'', False, ''low'', [''tool:invoke:capo.git_status'', ''git:status:workspace''],
        ''{\"input\":{\"path\":\"string?\"}}'')),
      (''capo.git_diff'', (''Git Diff'', False, ''low'', [''tool:invoke:capo.git_diff'', ''git:diff:workspace''],
        ''{\"input\":{\"path\":\"string?\"}}'')),
      (''capo.git_commit'', (''Git Commit'', True, ''high'', [''tool:invoke:capo.git_commit'', ''git:commit:workspace''],
        ''{\"input\":{\"message\":\"string\"}}'')),
      (''capo.file_read'', (''File Read'', False, ''low'', [''tool:invoke:capo.file_read'', ''filesystem:read:workspace''],
        ''{\"input\":{\"path\":\"string\"}}'')),
      (''capo.file_write'', (''File Write'', True, ''medium'', [''tool:invoke:capo.file_write'', ''filesystem:write:workspace''],
        ''{\"input\":{\"path\":\"string\",\"content\":\"string?\",\"expected_hash\":\"string?\",\"replace\":\"string?\",\"with\":\"string?\"}}'')),
      (''capo.apply_patch'', (''Apply Patch'', True, ''medium'', [''tool:invoke:capo.apply_patch'', ''filesystem:write:workspace''],
        ''{\"input\":{\"path\":\"string\",\"hunks\":\"array\",\"auto_lint\":\"boolean?\"}}'')),
      (''capo.search'', (''Search'', False, ''low'', [''tool:invoke:capo.search'', ''filesystem:read:workspace''],
        ''{\"input\":{\"query\":\"string\",\"path\":\"string?\",\"max_matches\":\"integer?\",\"max_preview_bytes\":\"integer?\"}}'')),
      (''capo.test_run'', (''Test Run'', False, ''high'', [''tool:invoke:capo.test_run'', ''shell:execute:workspace''],
        ''{\"input\":{\"program\":\"string\",\"argv\":\"string[]\",\"cwd\":\"string?\",\"max_failing_items\":\"integer?\"}}'')),
      (''capo.workpad_read'', (''Workpad Read'', False, ''low'',
        [''tool:invoke:capo.workpad_read'', ''filesystem:read:workspace'', ''state:read:task''], ''{\"input\":{\"path\":\"string\"}}'')),
      (''capo.project_memory_read'', (''Project Memory Read'', False, ''low'',
        [''tool:invoke:capo.project_memory_read'', ''filesystem:read:workspace'', ''state:read:task''],
        ''{\"input\":{\"path\":\"string\"}}''))] tool_id"

definition describe_tool :: "string \<Rightarrow> tool_definition option" where
  "describe_tool tool_id =
     map_option (\<lambda>(display_name, mutates_state, risk, required_scopes, schema_json).
       \<lparr>td_tool_id = tool_id, td_display_name = display_name, td_origin = ''runtime'', td_handler_kind = ''runtime_wrapper'',
        td_schema_json = schema_json, td_output_schema = wrapper_output_schema tool_id,
        td_required_scopes_json = json_array required_scopes, td_risk = risk,
        td_redaction_policy_json = wrapper_redaction_policy tool_id, td_exposure = ''agent_visible'',
        td_instrumentation_level = ''full'', td_status = ''available'', td_mutates_state = mutates_state\<rparr>)
     (wrapper_tool_row tool_id)"

definition list_tools :: "tool_definition list" where
  "list_tools = map (the \<circ> describe_tool) CAPO_WRAPPER_TOOLS"

section \<open>Authorization\<close>

definition wrapper_input_hash :: "serde \<Rightarrow> json \<Rightarrow> string" where
  "wrapper_input_hash sj input = content_hash (to_text sj input)"

definition authorize_tool_call :: "serde \<Rightarrow> wrapper_tool_request \<Rightarrow> permission_policy \<Rightarrow> tool_authorization" where
  "authorize_tool_call sj request policy =
     (let d = unwrap_or (unknown_tool_definition (wtr_tool_id request)) (describe_tool (wtr_tool_id request));
          permission = decide sj policy
            \<lparr>preq_session_id = wtr_session_id request, preq_capability_profile_id = wtr_capability_profile_id request,
             preq_scope_json = td_required_scopes_json d\<rparr>
      in \<lparr>ta_definition = d, ta_permission = permission, ta_events = requested_events (dec_effect permission),
          ta_session_id = wtr_session_id request, ta_run_id = wtr_run_id request,
          ta_tool_call_id = wtr_tool_call_id request, ta_capability_profile_id = wtr_capability_profile_id request,
          ta_input_hash = wrapper_input_hash sj (wtr_input request)\<rparr>)"

definition verify_authorization_matches_request ::
  "serde \<Rightarrow> wrapper_tool_request \<Rightarrow> tool_authorization \<Rightarrow> (string, unit) result" where
  "verify_authorization_matches_request sj request a =
     (if td_tool_id (ta_definition a) \<noteq> wtr_tool_id request then
        Inl (''authorization tool mismatch: authorized '' @ td_tool_id (ta_definition a) @ '' but requested '' @ wtr_tool_id request)
      else if ta_session_id a \<noteq> wtr_session_id request then Inl ''authorization session mismatch''
      else if ta_run_id a \<noteq> wtr_run_id request then Inl ''authorization run mismatch''
      else if ta_tool_call_id a \<noteq> wtr_tool_call_id request then Inl ''authorization tool call mismatch''
      else if ta_capability_profile_id a \<noteq> wtr_capability_profile_id request then Inl ''authorization capability profile mismatch''
      else if ta_input_hash a \<noteq> wrapper_input_hash sj (wtr_input request) then Inl ''authorization input mismatch''
      else if dec_capability_profile_id (ta_permission a) \<noteq> wtr_capability_profile_id request then Inl ''permission decision profile mismatch''
      else if dec_scope_json (ta_permission a) \<noteq> td_required_scopes_json (ta_definition a) then Inl ''permission decision scope mismatch''
      else Inr ())"

section \<open>Redaction and artifacts\<close>

text \<open>Steps on the file system that may fail with a text.\<close>

type_synonym 'a tool_step = "file_system \<Rightarrow> (string, 'a) result \<times> file_system"

definition step_then :: "'a tool_step \<Rightarrow> ('a \<Rightarrow> 'b tool_step) \<Rightarrow> 'b tool_step" where
  "step_then step next fs = (case step fs of (Inl e, fs1) \<Rightarrow> (Inl e, fs1) | (Inr a, fs1) \<Rightarrow> next a fs1)"

definition step_of :: "(string, 'a) result \<Rightarrow> 'a tool_step" where
  "step_of r fs = (r, fs)"

definition reading :: "(file_system \<Rightarrow> (string, 'a) result) \<Rightarrow> 'a tool_step" where
  "reading f fs = (f fs, fs)"

definition redaction_policy_of :: "runtime_tool_config \<Rightarrow> redaction_policy" where
  "redaction_policy_of config = policy_new (rtc_redaction_rules config)"

definition redact_bytes_with_state :: "runtime_tool_config \<Rightarrow> string \<Rightarrow> string \<times> string" where
  "redact_bytes_with_state config bytes = apply_policy (redaction_policy_of config) (from_utf8_lossy bytes)"

definition redact_bytes :: "runtime_tool_config \<Rightarrow> string \<Rightarrow> string" where
  "redact_bytes config bytes = fst (redact_bytes_with_state config bytes)"

text \<open>A JSON string is text already; the redacted text stays text.\<close>

fun redact_json_value :: "redaction_policy \<Rightarrow> json \<Rightarrow> json \<times> bool" where
  "redact_json_value policy (JString t) =
     (let (redacted, state) = apply_policy policy (from_utf8_lossy t) in (JString (from_utf8_lossy redacted), state = ''redacted''))"
| "redact_json_value policy (JArray items) =
     (let rs = map (redact_json_value policy) items in (JArray (map fst rs), list_ex snd rs))"
| "redact_json_value policy (JObject m) =
     (let rs = map (\<lambda>(key, field). (key, redact_json_value policy field)) m
      in (JObject (map (\<lambda>(key, r). (key, fst r)) rs), list_ex (\<lambda>(_, r). snd r) rs))"
| "redact_json_value policy other = (other, False)"

definition write_tool_artifact ::
  "tool_env \<Rightarrow> runtime_tool_config \<Rightarrow> wrapper_tool_request \<Rightarrow> string \<Rightarrow> string \<Rightarrow> string \<Rightarrow> string \<Rightarrow> wrapper_artifact tool_step" where
  "write_tool_artifact te config request kind summary bytes redaction_state fs =
     (let io = os_io_error (te_os te);
          dir = path_join (rtc_artifact_root config) (path_components (sanitize_path_component (wtr_tool_call_id request)));
          path = path_join dir (path_components (kind @ ''.txt''));
          (made_dirs, fs1) = create_dir_all dir fs
      in if \<not> made_dirs then (Inl io, fs1)
         else
           (let (written, fs2) = write_file path bytes fs1 in
            if \<not> written then (Inl io, fs2)
            else
              (Inr \<lparr>wa_artifact_id = ''artifact-wrapper-'' @ wtr_tool_call_id request @ ''-'' @ kind, wa_kind = kind,
                    wa_uri = path_text path, wa_content_hash = content_hash bytes, wa_size_bytes = int (length bytes),
                    wa_redaction_state = redaction_state, wa_summary = summary\<rparr>, fs2)))"

definition write_redacted_artifact ::
  "tool_env \<Rightarrow> runtime_tool_config \<Rightarrow> wrapper_tool_request \<Rightarrow> string \<Rightarrow> string \<Rightarrow> string \<Rightarrow> wrapper_artifact tool_step" where
  "write_redacted_artifact te config request kind summary bytes =
     (let (redacted, state) = redact_bytes_with_state config bytes
      in write_tool_artifact te config request kind summary redacted state)"

definition record_input_artifact :: "tool_env \<Rightarrow> runtime_tool_config \<Rightarrow> wrapper_tool_request \<Rightarrow> wrapper_artifact tool_step" where
  "record_input_artifact te config request =
     (let (redacted_input, input_redacted) = redact_json_value (redaction_policy_of config) (wtr_input request);
          payload = ''{\"tool_id\":\"'' @ wtr_tool_id request @ ''\",\"input\":'' @ to_text (te_serde te) redacted_input @ ''}'';
          (redacted, payload_redacted) = redact_bytes_with_state config payload;
          redaction_state = (if input_redacted \<or> payload_redacted = ''redacted'' then ''redacted'' else payload_redacted)
      in write_tool_artifact te config request ''input'' ''wrapper input'' redacted redaction_state)"

section \<open>Inputs\<close>

definition input_str :: "wrapper_tool_request \<Rightarrow> string \<Rightarrow> string option" where
  "input_str request key = Option.bind (json_get (wtr_input request) key) value_as_str"

definition or_error :: "string \<Rightarrow> 'a option \<Rightarrow> (string, 'a) result" where
  "or_error e x = (case x of Some a \<Rightarrow> Inr a | None \<Rightarrow> Inl e)"

definition required_input :: "wrapper_tool_request \<Rightarrow> string \<Rightarrow> (string, string) result" where
  "required_input request key =
     or_error (wtr_tool_id request @ '' input requires string field `'' @ key @ ''`'') (input_str request key)"

definition json_string_array :: "json \<Rightarrow> (string, string list) result" where
  "json_string_array value =
     (case value of
        JArray items \<Rightarrow> collect (\<lambda>item. or_error ''argv must contain only strings'' (value_as_str item)) items
      | _ \<Rightarrow> Inl ''argv must be an array of strings'')"

definition input_argv :: "wrapper_tool_request \<Rightarrow> (string, string list) result" where
  "input_argv request = (case json_get (wtr_input request) ''argv'' of None \<Rightarrow> Inr [] | Some v \<Rightarrow> json_string_array v)"

definition parse_patch_hunk :: "nat \<times> json \<Rightarrow> (string, patch_hunk) result" where
  "parse_patch_hunk entry =
     (case entry of (index, item) \<Rightarrow>
       and_then (or_error (''apply_patch hunk '' @ nat_to_string index @ '' requires a string `search`'')
         (Option.bind (json_get item ''search'') value_as_str)) (\<lambda>search.
       and_then (or_error (''apply_patch hunk '' @ nat_to_string index @ '' requires a string `replace`'')
         (Option.bind (json_get item ''replace'') value_as_str)) (\<lambda>replace.
       Inr \<lparr>ph_search = search, ph_replace = replace\<rparr>)))"

definition parse_patch_hunks :: "wrapper_tool_request \<Rightarrow> (string, patch_hunk list) result" where
  "parse_patch_hunks request =
     (case json_get (wtr_input request) ''hunks'' of
        Some (JArray items) \<Rightarrow>
          if items = [] then Inl ''apply_patch requires at least one hunk''
          else collect parse_patch_hunk (List.enumerate 0 items)
      | _ \<Rightarrow> Inl ''apply_patch requires a `hunks` array'')"

definition positive_cap :: "wrapper_tool_request \<Rightarrow> string \<Rightarrow> string \<Rightarrow> nat \<Rightarrow> (string, nat) result" where
  "positive_cap request tool key fallback =
     (case json_get (wtr_input request) key of
        None \<Rightarrow> Inr fallback
      | Some v \<Rightarrow>
          and_then (or_error (tool @ '' `'' @ key @ ''` must be an integer'') (value_as_i64 v)) (\<lambda>n.
          if n \<le> 0 then Inl (tool @ '' `'' @ key @ ''` must be a positive integer'') else Inr (nat n)))"

definition failing_items_caps_of :: "wrapper_tool_request \<Rightarrow> (string, failing_items_caps) result" where
  "failing_items_caps_of request =
     and_then (positive_cap request ''test_run'' ''max_failing_items'' (fic_max_items default_failing_items_caps)) (\<lambda>n.
     Inr (default_failing_items_caps\<lparr>fic_max_items := n\<rparr>))"

definition search_caps_of :: "wrapper_tool_request \<Rightarrow> (string, search_caps) result" where
  "search_caps_of request =
     and_then (positive_cap request ''search'' ''max_matches'' (sc_max_matches default_search_caps)) (\<lambda>n.
     and_then (positive_cap request ''search'' ''max_preview_bytes'' (sc_max_preview_bytes default_search_caps)) (\<lambda>m.
     Inr (default_search_caps\<lparr>sc_max_matches := n, sc_max_preview_bytes := m\<rparr>)))"

section \<open>Running programs\<close>

definition bounded_runtime_runner :: "runtime_tool_config \<Rightarrow> local_process_config" where
  "bounded_runtime_runner config =
     (config_for_test (rtc_workspace_root config) (rtc_artifact_root config))
       \<lparr>lpc_env_allowlist := rtc_env_allowlist config, lpc_redaction_rules := rtc_redaction_rules config,
        lpc_output_limit_bytes := rtc_artifact_limit_bytes config\<rparr>"

definition sanitized_run_id :: "string \<Rightarrow> string" where
  "sanitized_run_id run_id = sanitize_path_component run_id"

definition process_request :: "wrapper_tool_request \<Rightarrow> string \<Rightarrow> string list \<Rightarrow> path_buf \<Rightarrow> local_process_request" where
  "process_request request program argv cwd =
     \<lparr>lpr_run_id = sanitized_run_id (wtr_run_id request), lpr_turn_id = None, lpr_program = program, lpr_argv = argv,
      lpr_cwd = cwd, lpr_env = []\<rparr>"

definition run_program ::
  "tool_env \<Rightarrow> runtime_tool_config \<Rightarrow> wrapper_tool_request \<Rightarrow> string \<Rightarrow> string list \<Rightarrow> path_buf \<Rightarrow> local_process_outcome tool_step" where
  "run_program te config request program argv cwd fs =
     (case start_process (te_os te) (bounded_runtime_runner config) (process_request request program argv cwd) fs of
        (Inl e, fs1) \<Rightarrow> (Inl (te_debug_error te e), fs1)
      | (Inr o', fs1) \<Rightarrow> (Inr o', fs1))"

definition wrapper_artifact_of :: "string \<Rightarrow> runtime_output_artifact \<Rightarrow> wrapper_artifact" where
  "wrapper_artifact_of kind a =
     \<lparr>wa_artifact_id = roa_artifact_id a, wa_kind = kind, wa_uri = path_text (roa_path a), wa_content_hash = roa_content_hash a,
      wa_size_bytes = roa_size_bytes a, wa_redaction_state = roa_redaction_state a, wa_summary = kind @ '' runtime artifact''\<rparr>"

definition exec_typed_output :: "string \<Rightarrow> int option \<Rightarrow> bool \<Rightarrow> int \<Rightarrow> string \<Rightarrow> bool \<Rightarrow> json" where
  "exec_typed_output status exit_status passed duration_ms output_artifact_id truncated =
     json_object [(''status'', JString status), (''exit_status'', j_opt_int exit_status), (''passed'', JBool passed),
       (''duration_ms'', j_int duration_ms), (''output_artifact_id'', JString output_artifact_id), (''truncated'', JBool truncated)]"

text \<open>The end of \<open>shell_run\<close>, \<open>git_command\<close> and \<open>git_commit\<close>.\<close>

definition exec_execution ::
  "tool_env \<Rightarrow> runtime_tool_config \<Rightarrow> string \<Rightarrow> string \<Rightarrow> local_process_outcome \<Rightarrow> wrapper_execution" where
  "exec_execution te config kind summary o' =
     (let out = wrapper_artifact_of (kind @ ''_stdout'') (lpo_stdout o'); err = wrapper_artifact_of (kind @ ''_stderr'') (lpo_stderr o');
          cap = int (rtc_output_limit_bytes config);
          truncated = cap < wa_size_bytes out \<or> cap < wa_size_bytes err;
          status = prf_status (lpo_process o')
      in execution_completed status summary
           (exec_typed_output status (lpo_exit_code o') (lpo_exit_code o' = Some 0) (te_duration_ms te) (wa_artifact_id out) truncated)
           [out, err])"

definition read_to_string :: "file_system \<Rightarrow> path_buf \<Rightarrow> string" where
  "read_to_string fs path = (case read_file fs path of Some bytes \<Rightarrow> if valid_utf8 bytes then bytes else [] | None \<Rightarrow> [])"

definition is_file :: "file_system \<Rightarrow> path_buf \<Rightarrow> bool" where
  "is_file fs path \<longleftrightarrow> read_file fs path \<noteq> None"

text \<open>\<open>Path::join\<close> with a plain name, as text.\<close>

definition join_text :: "string \<Rightarrow> string \<Rightarrow> string" where
  "join_text dir name = (if dir = [] \<or> last dir = CHR ''/'' then dir @ name else dir @ ''/'' @ name)"

definition resolve_program :: "os \<Rightarrow> file_system \<Rightarrow> string \<Rightarrow> string" where
  "resolve_program os fs program =
     (if CHR ''/'' \<in> set program then program
      else
        (case os_env_var os ''PATH'' of
           None \<Rightarrow> program
         | Some path \<Rightarrow>
             unwrap_or program
               (find (\<lambda>c. is_file fs (path_components c)) (map (\<lambda>dir. join_text dir program) (split_on (\<lambda>c. c = CHR '':'') path)))))"

definition resolve_search_program :: "os \<Rightarrow> file_system \<Rightarrow> string" where
  "resolve_search_program os fs =
     (case os_env_var os ''PATH'' of
        None \<Rightarrow> ''rg''
      | Some path \<Rightarrow>
          unwrap_or ''rg'' (find (\<lambda>c. is_file fs (path_components c)) (map (\<lambda>dir. join_text dir ''rg'') (split_on (\<lambda>c. c = CHR '':'') path))))"

definition render_command :: "string \<Rightarrow> string list \<Rightarrow> string" where
  "render_command program argv = (if argv = [] then program else program @ '' '' @ join_with '' '' argv)"

section \<open>The tools\<close>

definition resolved_path :: "tool_env \<Rightarrow> runtime_tool_config \<Rightarrow> string \<Rightarrow> bool \<Rightarrow> path_buf tool_step" where
  "resolved_path te config path allow_missing =
     reading (resolve_workspace_path (os_io_error (te_os te)) (rtc_workspace_root config) path allow_missing)"

definition input_cwd :: "tool_env \<Rightarrow> runtime_tool_config \<Rightarrow> wrapper_tool_request \<Rightarrow> path_buf tool_step" where
  "input_cwd te config request =
     (case input_str request ''cwd'' of
        Some path \<Rightarrow> resolved_path te config path True
      | None \<Rightarrow> step_of (Inr (rtc_workspace_root config)))"

definition shell_run :: "tool_env \<Rightarrow> runtime_tool_config \<Rightarrow> wrapper_tool_request \<Rightarrow> wrapper_execution tool_step" where
  "shell_run te config request =
     step_then (step_of (required_input request ''program'')) (\<lambda>program.
     step_then (step_of (input_argv request)) (\<lambda>argv.
     step_then (input_cwd te config request) (\<lambda>cwd.
     step_then (run_program te config request program argv cwd) (\<lambda>o'.
     step_of (Inr (exec_execution te config ''shell'' (''shell exited with '' @ exit_detail (lpo_exit_code o')) o'))))))"

definition git_command ::
  "tool_env \<Rightarrow> runtime_tool_config \<Rightarrow> wrapper_tool_request \<Rightarrow> string \<Rightarrow> string list \<Rightarrow> wrapper_execution tool_step" where
  "git_command te config request label base_args =
     step_then (step_of (case input_str request ''path'' of
         Some path \<Rightarrow> and_then (workspace_relative_path path) (\<lambda>relative. Inr (base_args @ [relative]))
       | None \<Rightarrow> Inr base_args)) (\<lambda>argv.
     step_then (run_program te config request ''git'' argv (rtc_workspace_root config)) (\<lambda>o'.
     step_of (Inr (exec_execution te config ''git'' (''git '' @ label @ '' completed'') o'))))"

text \<open>\<open>char::is_control\<close> on UTF-8: the bytes below 0x20, 0x7F, and U+0080 to U+009F.\<close>

fun has_control :: "string \<Rightarrow> bool" where
  "has_control [] = False"
| "has_control (c # cs) =
     (byte_of c < 0x20 \<or> byte_of c = 0x7F
      \<or> byte_of c = 0xC2 \<and> cs \<noteq> [] \<and> 0x80 \<le> byte_of (hd cs) \<and> byte_of (hd cs) \<le> 0x9F \<or> has_control cs)"

definition git_commit :: "tool_env \<Rightarrow> runtime_tool_config \<Rightarrow> wrapper_tool_request \<Rightarrow> wrapper_execution tool_step" where
  "git_commit te config request =
     step_then (step_of (required_input request ''message'')) (\<lambda>message.
     if str_trim message = [] then step_of (Inl ''git_commit requires a non-empty message'')
     else if has_control message then step_of (Inl ''git_commit message must not contain control characters'')
     else
       step_then (run_program te config request ''git''
         [''-c'', ''user.name=Capo Wrapper'', ''-c'', ''user.email=capo@example.invalid'', ''commit'', ''-m'', message]
         (rtc_workspace_root config)) (\<lambda>o'.
       step_of (Inr (exec_execution te config ''git_commit'' (''git commit completed with '' @ exit_detail (lpo_exit_code o')) o'))))"

definition file_read :: "tool_env \<Rightarrow> runtime_tool_config \<Rightarrow> wrapper_tool_request \<Rightarrow> string \<Rightarrow> wrapper_execution tool_step" where
  "file_read te config request kind =
     step_then (step_of (required_input request ''path'')) (\<lambda>requested.
     step_then (resolved_path te config requested False) (\<lambda>path.
     step_then (reading (\<lambda>fs. or_error (os_io_error (te_os te)) (read_file fs path))) (\<lambda>bytes.
     step_then (write_redacted_artifact te config request kind
       (nat_to_string (length bytes) @ '' bytes read from '' @ path_text path) bytes) (\<lambda>artifact.
     step_of (Inr (execution_completed ''completed'' (kind @ '' read '' @ path_text path)
       (json_object [(''status'', JString ''completed''), (''path'', JString (path_text path)), (''bytes_read'', j_nat (length bytes)),
          (''content_hash'', JString (wa_content_hash artifact)), (''output_artifact_id'', JString (wa_artifact_id artifact))])
       [artifact]))))))"

definition workpad_read :: "tool_env \<Rightarrow> runtime_tool_config \<Rightarrow> wrapper_tool_request \<Rightarrow> wrapper_execution tool_step" where
  "workpad_read te config request =
     step_then (step_of (required_input request ''path'')) (\<lambda>requested.
     if \<not> is_workpad_path requested
     then step_of (Inl (''workpad_read only supports TASKS.md, project.md, or workpads/*.md paths: '' @ requested))
     else file_read te config request ''workpad_read'')"

definition project_memory_read :: "tool_env \<Rightarrow> runtime_tool_config \<Rightarrow> wrapper_tool_request \<Rightarrow> wrapper_execution tool_step" where
  "project_memory_read te config request =
     step_then (step_of (required_input request ''path'')) (\<lambda>requested.
     if \<not> is_workpad_path requested
     then step_of (Inl (''project_memory_read only supports TASKS.md, project.md, or workpads/*.md paths: '' @ requested))
     else file_read te config request ''project_memory_read'')"

definition unified_diff :: "tool_env \<Rightarrow> string \<Rightarrow> string \<Rightarrow> string \<Rightarrow> string" where
  "unified_diff te before after path = te_diff te (from_utf8_lossy before) (from_utf8_lossy after) (''a/'' @ path) (''b/'' @ path)"

definition precondition_failed :: "path_buf \<Rightarrow> string \<Rightarrow> string \<Rightarrow> wrapper_execution" where
  "precondition_failed path before_hash expected_hash =
     \<lparr>wx_status = ''precondition_failed'',
      wx_summary = ''file_write precondition failed for '' @ path_text path @ '': expected '' @ expected_hash @ '' but on-disk is '' @ before_hash,
      wx_typed_output = json_object
        [(''status'', JString ''precondition_failed''), (''path'', JString (path_text path)), (''mode'', JString ''precondition''),
         (''before_hash'', JString before_hash), (''after_hash'', JString before_hash), (''bytes_written'', j_int 0),
         (''output_artifact_id'', JString ''none''), (''expected_hash'', JString expected_hash), (''actual_hash'', JString before_hash)],
      wx_output_artifacts = [], wx_reached_completion = False\<rparr>"

text \<open>The new content and the mode; \<open>replacen(needle, with, 1)\<close> replaces the first occurrence.\<close>

definition replace_first :: "string \<Rightarrow> string \<Rightarrow> string \<Rightarrow> string" where
  "replace_first needle by' s = (case str_split_once needle s of Some (a, b) \<Rightarrow> a @ by' @ b | None \<Rightarrow> s)"

definition new_file_content :: "wrapper_tool_request \<Rightarrow> path_buf \<Rightarrow> string \<Rightarrow> (string, string \<times> string) result" where
  "new_file_content request path before =
     (case (input_str request ''content'', input_str request ''replace'') of
        (Some content, None) \<Rightarrow> Inr (content, ''overwrite'')
      | (None, Some needle) \<Rightarrow>
          and_then (or_error ''file_write structured replace requires a string `with` field'' (input_str request ''with'')) (\<lambda>by'.
          let current = from_utf8_lossy before in
          if \<not> str_contains current needle then Inl (''file_write replace target not found in '' @ path_text path)
          else Inr (replace_first needle by' current, ''replace''))
      | (Some _, Some _) \<Rightarrow> Inl ''file_write accepts either `content` or a `replace`/`with` pair, not both''
      | (None, None) \<Rightarrow> Inl ''file_write requires either a `content` string or a `replace`/`with` pair'')"

text \<open>The write itself, the artifact with the diff, and the result.\<close>

definition write_and_report ::
  "tool_env \<Rightarrow> runtime_tool_config \<Rightarrow> wrapper_tool_request \<Rightarrow> path_buf \<Rightarrow> string \<Rightarrow> string \<times> string \<Rightarrow> wrapper_execution tool_step" where
  "write_and_report te config request path before new =
     step_then (write_creating (os_io_error (te_os te)) path (fst new)) (\<lambda>_.
     step_then (reading (\<lambda>fs. or_error (os_io_error (te_os te)) (read_file fs path))) (\<lambda>after.
     step_then (write_redacted_artifact te config request ''file_write_diff'' (''unified diff for '' @ path_text path)
       (unified_diff te before after (path_text path))) (\<lambda>artifact.
     step_of (Inr (execution_completed ''completed'' (''file_write '' @ snd new @ '' wrote '' @ path_text path)
       (json_object [(''status'', JString ''completed''), (''path'', JString (path_text path)), (''mode'', JString (snd new)),
          (''before_hash'', JString (content_hash before)), (''after_hash'', JString (content_hash after)),
          (''bytes_written'', j_nat (length after)), (''output_artifact_id'', JString (wa_artifact_id artifact))])
       [artifact])))))"

definition file_write :: "tool_env \<Rightarrow> runtime_tool_config \<Rightarrow> wrapper_tool_request \<Rightarrow> wrapper_execution tool_step" where
  "file_write te config request =
     step_then (step_of (required_input request ''path'')) (\<lambda>requested.
     step_then (resolved_path te config requested True) (\<lambda>path.
     step_then (reading (\<lambda>fs. Inr (unwrap_or [] (read_file fs path)))) (\<lambda>before.
     let before_hash = content_hash before;
         write = step_then (step_of (new_file_content request path before)) (write_and_report te config request path before)
     in case input_str request ''expected_hash'' of
          Some expected_hash \<Rightarrow>
            if expected_hash \<noteq> before_hash then step_of (Inr (precondition_failed path before_hash expected_hash)) else write
        | None \<Rightarrow> write)))"

definition no_match_execution :: "tool_env \<Rightarrow> runtime_tool_config \<Rightarrow> string \<Rightarrow> no_match \<Rightarrow> wrapper_execution" where
  "no_match_execution te config path nm =
     (let redacted_preview = map_option (\<lambda>t. from_utf8_lossy (redact_bytes config t)) (nm_nearest_preview nm);
          preview = (case redacted_preview of Some t \<Rightarrow> ''; nearest candidate:'' @ [line_feed] @ t | None \<Rightarrow> [])
      in \<lparr>wx_status = ''no_match'',
          wx_summary = ''apply_patch hunk '' @ nat_to_string (nm_hunk_index nm) @ '' did not match '' @ path @ '' ('' @ nm_reason nm
            @ ''; similarity '' @ te_ratio te (nm_nearest_similarity nm) @ '')'' @ preview,
          wx_typed_output = json_object
            [(''status'', JString ''no_match''), (''path'', JString path), (''hunks_total'', j_int 0), (''hunks_applied'', j_int 0),
             (''hunks_rejected'', j_int 1), (''changed_line_ranges'', JArray []), (''output_artifact_id'', JString ''none''),
             (''lint_status'', JString ''skipped''), (''lint_findings'', JArray []), (''rejected_hunk_index'', j_nat (nm_hunk_index nm)),
             (''reject_reason'', JString (nm_reason nm)), (''nearest_line'', j_opt j_nat (nm_nearest_start_line nm)),
             (''nearest_preview'', j_opt_str redacted_preview)],
          wx_output_artifacts = [], wx_reached_completion = False\<rparr>)"

definition lint_edited ::
  "tool_env \<Rightarrow> runtime_tool_config \<Rightarrow> path_buf \<Rightarrow> wrapper_tool_request \<Rightarrow> file_system \<Rightarrow> (string \<times> lint_finding list) \<times> file_system" where
  "lint_edited te config path request fs =
     (case linter_for_path path of
        None \<Rightarrow> ((''skipped'', []), fs)
      | Some l \<Rightarrow>
          (case start_process (te_os te) (bounded_runtime_runner config)
              (process_request request (resolve_program (te_os te) fs ''rustfmt'') (linter_argv l (path_text path)) (rtc_workspace_root config)) fs of
             (Inl e, fs1) \<Rightarrow>
               ((''unavailable'', [\<lparr>lf_file = path_text path, lf_line = 0, lf_rule = ''lint'',
                  lf_message = ''lint runner unavailable: '' @ te_debug_error te e\<rparr>]), fs1)
           | (Inr o', fs1) \<Rightarrow>
               (let combined = read_to_string fs1 (roa_path (lpo_stdout o')) @ [line_feed] @ read_to_string fs1 (roa_path (lpo_stderr o'));
                    findings = parse_rustfmt (path_text path) (lpo_exit_code o') combined
                in ((if findings = [] then ''passed'' else ''failed'', findings), fs1))))"

definition patch_execution ::
  "path_buf \<Rightarrow> nat \<Rightarrow> applied_patch \<Rightarrow> wrapper_artifact \<Rightarrow> string \<times> lint_finding list \<Rightarrow> wrapper_execution" where
  "patch_execution path hunk_count applied artifact lint =
     execution_completed ''completed''
       (''apply_patch applied '' @ nat_to_string (length (ap_matches applied)) @ '' hunk(s) to '' @ path_text path @ '' via [''
         @ join_with '', '' (map (strategy_label \<circ> hm_strategy) (ap_matches applied)) @ '']; lint '' @ fst lint)
       (json_object
         [(''status'', JString ''completed''), (''path'', JString (path_text path)), (''hunks_total'', j_nat hunk_count),
          (''hunks_applied'', j_nat (length (ap_matches applied))), (''hunks_rejected'', j_int 0),
          (''changed_line_ranges'', j_strings (ap_changed_line_ranges applied)),
          (''output_artifact_id'', JString (wa_artifact_id artifact)), (''lint_status'', JString (fst lint)),
          (''lint_findings'', JArray (map lint_finding_json (snd lint)))])
       [artifact]"

definition apply_patch :: "tool_env \<Rightarrow> runtime_tool_config \<Rightarrow> wrapper_tool_request \<Rightarrow> wrapper_execution tool_step" where
  "apply_patch te config request =
     step_then (step_of (required_input request ''path'')) (\<lambda>requested.
     step_then (resolved_path te config requested True) (\<lambda>path.
     step_then (step_of (parse_patch_hunks request)) (\<lambda>hunks.
     step_then (reading (\<lambda>fs. Inr (unwrap_or [] (read_file fs path)))) (\<lambda>before.
     if \<not> valid_utf8 before then step_of (Inl (''apply_patch target is not utf-8 text: '' @ path_text path))
     else
       (case apply_hunks (te_ratio te) before hunks of
          Inl nm \<Rightarrow> step_of (Inr (no_match_execution te config (path_text path) nm))
        | Inr applied \<Rightarrow>
            step_then (write_creating (os_io_error (te_os te)) path (ap_new_content applied)) (\<lambda>_.
            step_then (write_redacted_artifact te config request ''apply_patch_diff'' (''unified diff for '' @ path_text path)
              (unified_diff te before (ap_new_content applied) (path_text path))) (\<lambda>artifact fs.
            let auto_lint = unwrap_or True (Option.bind (json_get (wtr_input request) ''auto_lint'') json_as_bool);
                (lint, fs1) = (if auto_lint then lint_edited te config path request fs else ((''skipped'', []), fs))
            in (Inr (patch_execution path (length hunks) applied artifact lint), fs1))))))))"

text \<open>\<open>search\<close>: the argument of ripgrep, what is returned, and the whole tool.\<close>

definition search_arg :: "path_buf \<Rightarrow> path_buf \<Rightarrow> string" where
  "search_arg canonical_root search_root =
     (if path_starts_with search_root canonical_root then
        (let relative = drop (length canonical_root) search_root in if relative = [] then ''.'' else path_text relative)
      else ''.'')"

definition search_execution :: "tool_env \<Rightarrow> string \<Rightarrow> bounded_search \<Rightarrow> wrapper_execution" where
  "search_execution te query bounded =
     execution_completed ''completed''
       (''search matched '' @ nat_to_string (bs_total_matches bounded) @ '' line(s)''
         @ (if bs_truncated bounded
            then '' (truncated to '' @ nat_to_string (length (bs_matches bounded)) @ '' via '' @ bs_truncation_reason bounded @ '')'' else []))
       (json_object
         [(''status'', JString ''completed''), (''query'', JString query), (''matches'', JArray (map search_match_json (bs_matches bounded))),
          (''returned_matches'', j_nat (length (bs_matches bounded))), (''total_matches'', j_nat (bs_total_matches bounded)),
          (''truncated'', JBool (bs_truncated bounded)), (''truncation_reason'', JString (bs_truncation_reason bounded)),
          (''duration_ms'', j_int (te_duration_ms te))]) []"

definition search_result :: "tool_env \<Rightarrow> runtime_tool_config \<Rightarrow> string \<Rightarrow> search_caps \<Rightarrow> local_process_outcome \<Rightarrow> wrapper_execution tool_step" where
  "search_result te config query caps o' fs =
     (if (case lpo_exit_code o' of Some code \<Rightarrow> 1 < code | None \<Rightarrow> False)
      then (Inl (''search failed (rg exit '' @ exit_detail (lpo_exit_code o') @ ''): ''
             @ str_trim (read_to_string fs (roa_path (lpo_stderr o')))), fs)
      else
        (let raw = parse_ripgrep_json (te_serde te) (read_to_string fs (roa_path (lpo_stdout o')));
             redacted = map (\<lambda>m. m\<lparr>sm_preview := from_utf8_lossy (redact_bytes config (sm_preview m))\<rparr>) raw
         in (Inr (search_execution te query (search_apply_caps redacted caps)), fs)))"

definition search :: "tool_env \<Rightarrow> runtime_tool_config \<Rightarrow> wrapper_tool_request \<Rightarrow> wrapper_execution tool_step" where
  "search te config request =
     step_then (step_of (required_input request ''query'')) (\<lambda>query.
     if query = [] then step_of (Inl ''capo.search requires a non-empty `query`'')
     else
       step_then (reading (\<lambda>fs. ok_or_io (os_io_error (te_os te)) (canonicalize fs (rtc_workspace_root config)))) (\<lambda>root.
       step_then (case input_str request ''path'' of
           Some path \<Rightarrow> if path \<noteq> [] then resolved_path te config path False else step_of (Inr root)
         | None \<Rightarrow> step_of (Inr root)) (\<lambda>search_root.
       step_then (step_of (search_caps_of request)) (\<lambda>caps.
       step_then (\<lambda>fs. run_program te config request (resolve_search_program (te_os te) fs)
         [''--json'', ''--sort'', ''path'', ''--'', query, search_arg root search_root] root fs) (search_result te config query caps)))))"

definition test_execution ::
  "tool_env \<Rightarrow> string \<Rightarrow> local_process_outcome \<Rightarrow> failing_items \<Rightarrow> wrapper_artifact \<Rightarrow> wrapper_execution" where
  "test_execution te command o' failing artifact =
     (let passed = lpo_exit_code o' = Some 0 in
      execution_completed (prf_status (lpo_process o'))
        (''test_run `'' @ command @ ''` '' @ (if passed then ''passed'' else ''failed'') @ '' ('' @ nat_to_string (fi_total failing)
          @ '' failing item(s)'' @ (if fi_truncated failing then '', truncated'' else []) @ '')'')
        (json_object
          [(''status'', JString (prf_status (lpo_process o'))), (''command'', JString command), (''exit_status'', j_opt_int (lpo_exit_code o')),
           (''passed'', JBool passed), (''failing_items'', j_strings (fi_items failing)),
           (''failing_items_total'', j_nat (fi_total failing)), (''failing_items_truncated'', JBool (fi_truncated failing)),
           (''duration_ms'', j_int (te_duration_ms te)), (''started_at'', j_int (te_started_at_ms te)),
           (''completed_at'', j_int (te_completed_at_ms te)), (''output_artifact_id'', JString (wa_artifact_id artifact))])
        [artifact])"

definition test_result ::
  "tool_env \<Rightarrow> runtime_tool_config \<Rightarrow> wrapper_tool_request \<Rightarrow> string \<Rightarrow> failing_items_caps \<Rightarrow> local_process_outcome
    \<Rightarrow> wrapper_execution tool_step" where
  "test_result te config request command caps o' fs =
     (let combined = read_to_string fs (roa_path (lpo_stdout o')) @ [line_feed] @ read_to_string fs (roa_path (lpo_stderr o'));
          redacted = redact_bytes config combined;
          failing = extract_failing_items (from_utf8_lossy redacted) (lpo_exit_code o' = Some 0) caps;
          state = (if roa_redaction_state (lpo_stdout o') = ''redacted'' \<or> roa_redaction_state (lpo_stderr o') = ''redacted''
                   then ''redacted'' else ''safe'')
      in step_then (write_tool_artifact te config request ''test_run_output'' (''test_run output for `'' @ command @ ''`'') redacted state)
           (\<lambda>artifact. step_of (Inr (test_execution te command o' failing artifact))) fs)"

definition test_run :: "tool_env \<Rightarrow> runtime_tool_config \<Rightarrow> wrapper_tool_request \<Rightarrow> wrapper_execution tool_step" where
  "test_run te config request =
     step_then (step_of (required_input request ''program'')) (\<lambda>program.
     step_then (step_of (input_argv request)) (\<lambda>argv.
     step_then (input_cwd te config request) (\<lambda>cwd.
     step_then (step_of (failing_items_caps_of request)) (\<lambda>caps.
     step_then (run_program te config request program argv cwd)
       (test_result te config request (render_command program argv) caps)))))"

definition execute_tool :: "tool_env \<Rightarrow> runtime_tool_config \<Rightarrow> wrapper_tool_request \<Rightarrow> wrapper_execution tool_step" where
  "execute_tool te config request =
     (let tool = wtr_tool_id request in
      if tool = ''capo.shell_run'' then shell_run te config request
      else if tool = ''capo.git_status'' then git_command te config request ''status'' [''status'', ''--short'']
      else if tool = ''capo.git_diff'' then git_command te config request ''diff'' [''diff'', ''--'']
      else if tool = ''capo.git_commit'' then git_commit te config request
      else if tool = ''capo.file_read'' then file_read te config request ''file_read''
      else if tool = ''capo.file_write'' then file_write te config request
      else if tool = ''capo.apply_patch'' then apply_patch te config request
      else if tool = ''capo.search'' then search te config request
      else if tool = ''capo.test_run'' then test_run te config request
      else if tool = ''capo.project_memory_read'' then project_memory_read te config request
      else if tool = ''capo.workpad_read'' then workpad_read te config request
      else step_of (Inl (''unsupported wrapper tool: '' @ tool)))"

section \<open>Invoking a tool\<close>

text \<open>The result of a call that ran, or failed before running.\<close>

definition call_result ::
  "wrapper_tool_request \<Rightarrow> tool_authorization \<Rightarrow> wrapper_artifact option \<Rightarrow> wrapper_execution \<Rightarrow> tool_audit_event list \<Rightarrow> wrapper_tool_result" where
  "call_result request a input_artifact x events =
     \<lparr>wts_tool_call_id = wtr_tool_call_id request, wts_tool_id = wtr_tool_id request, wts_status = wx_status x,
      wts_summary = wx_summary x, wts_typed_output = wx_typed_output x, wts_input_artifact = input_artifact,
      wts_output_artifacts = wx_output_artifacts x, wts_permission_decision = ta_permission a,
      wts_events = ta_events a @ [audit_event ''capability.grant_used'' ''used'', audit_event ''tool.invocation_started'' ''running''] @ events\<rparr>"

definition failed_execution :: "serde \<Rightarrow> tool_authorization \<Rightarrow> string \<Rightarrow> wrapper_execution" where
  "failed_execution sj a error =
     \<lparr>wx_status = ''failed'', wx_summary = error, wx_typed_output = failed_typed_output sj (td_output_schema (ta_definition a)) error,
      wx_output_artifacts = [], wx_reached_completion = False\<rparr>"

definition completion_events :: "wrapper_execution \<Rightarrow> tool_audit_event list" where
  "completion_events x =
     (if wx_reached_completion x then
        [audit_event ''tool.output_artifact_recorded'' ''safe'', audit_event ''tool.output_observed'' (wx_status x),
         audit_event ''tool.call_completed'' ''completed'', audit_event ''tool.result_delivered'' ''delivered'']
      else [audit_event ''tool.output_observed'' (wx_status x), audit_event ''tool.call_failed'' (wx_status x)])"

definition mismatch_result :: "serde \<Rightarrow> wrapper_tool_request \<Rightarrow> tool_authorization \<Rightarrow> string \<Rightarrow> wrapper_tool_result" where
  "mismatch_result sj request a error =
     \<lparr>wts_tool_call_id = wtr_tool_call_id request, wts_tool_id = wtr_tool_id request, wts_status = ''denied'', wts_summary = error,
      wts_typed_output = denied_typed_output sj (td_output_schema (ta_definition a)) (ta_permission a), wts_input_artifact = None,
      wts_output_artifacts = [], wts_permission_decision = ta_permission a,
      wts_events = ta_events a @ [audit_event ''tool.call_canceled'' ''authorization_mismatch'']\<rparr>"

definition invoke_authorized ::
  "tool_env \<Rightarrow> runtime_tool_config \<Rightarrow> wrapper_tool_request \<Rightarrow> tool_authorization \<Rightarrow> file_system \<Rightarrow> wrapper_tool_result \<times> file_system" where
  "invoke_authorized te config request a fs =
     (case verify_authorization_matches_request (te_serde te) request a of
        Inl e \<Rightarrow> (mismatch_result (te_serde te) request a e, fs)
      | Inr _ \<Rightarrow>
          if dec_effect (ta_permission a) \<noteq> ''allow'' then
            (result_denied (te_serde te) request (ta_definition a) (ta_permission a)
              (ta_events a @ [audit_event ''tool.call_canceled'' ''permission_denied'']), fs)
          else
            (case record_input_artifact te config request fs of
               (Inl e, fs1) \<Rightarrow>
                 (let x = failed_execution (te_serde te) a e in (call_result request a None x (completion_events x), fs1))
             | (Inr artifact, fs1) \<Rightarrow>
                 (let (r, fs2) = execute_tool te config request fs1;
                      x = (case r of Inr x \<Rightarrow> x | Inl e \<Rightarrow> failed_execution (te_serde te) a e)
                  in (call_result request a (Some artifact) x (completion_events x), fs2))))"

definition authorize_and_invoke ::
  "tool_env \<Rightarrow> runtime_tool_config \<Rightarrow> wrapper_tool_request \<Rightarrow> permission_policy \<Rightarrow> file_system \<Rightarrow> wrapper_tool_result \<times> file_system" where
  "authorize_and_invoke te config request policy fs =
     invoke_authorized te config request (authorize_tool_call (te_serde te) request policy) fs"

end
