(* ===== verification/Tool_Confinement.thy ===== *)
theory Tool_Confinement
  imports Tool_Wrappers
begin

text \<open>
  What the tools of \<open>Tool_Wrappers\<close> may change in the file system.  Writing files and creating directories
  only lets the tree grow; an artifact is written below the artifact directory; a tool that starts no
  program changes nothing outside the workspace and the artifact directory.
\<close>

section \<open>Growing trees\<close>

text \<open>Nothing is removed, only the content of a file is replaced, and no link is made.\<close>

definition node_grows :: "node option \<Rightarrow> node option \<Rightarrow> bool" where
  "node_grows x y \<longleftrightarrow>
     (case x of
        None \<Rightarrow> (\<forall>t. y \<noteq> Some (Link t))
      | Some (Regular _) \<Rightarrow> (\<exists>b. y = Some (Regular b))
      | Some n \<Rightarrow> y = Some n)"

definition grows :: "file_system \<Rightarrow> file_system \<Rightarrow> bool" where
  "grows fs fs' \<longleftrightarrow> fs_wf fs' \<and> fs_cwd fs' = fs_cwd fs \<and> (\<forall>q. node_grows (fs_node fs q) (fs_node fs' q))"

lemma node_grows_refl [simp]: "node_grows x x"
  by (auto simp: node_grows_def split: option.split node.split)

lemma grows_refl: "fs_wf fs \<Longrightarrow> grows fs fs"
  by (simp add: grows_def)

lemma node_grows_trans: "node_grows x y \<Longrightarrow> node_grows y z \<Longrightarrow> node_grows x z"
  by (auto simp: node_grows_def split: option.splits node.splits)

lemma grows_trans: "grows fs fs1 \<Longrightarrow> grows fs1 fs2 \<Longrightarrow> grows fs fs2"
  unfolding grows_def by (metis node_grows_trans)

lemma node_grows_keeps: "node_grows (Some Directory) y \<longleftrightarrow> y = Some Directory"
  by (simp add: node_grows_def)

lemma grows_directory: "grows fs fs' \<Longrightarrow> fs_node fs d = Some Directory \<Longrightarrow> fs_node fs' d = Some Directory"
  unfolding grows_def using node_grows_keeps by metis

lemma grows_set:
  assumes "fs_wf fs" "fs_node fs d = Some Directory" "node_grows (fs_node fs (d @ [s])) (Some x)"
    and "\<forall>b. fs_node fs (d @ [s]) = Some (Regular b) \<longrightarrow> x \<noteq> Directory" "fs_node fs (d @ [s]) \<noteq> Some Directory"
  shows "grows fs (set_node (d @ [s]) x fs)"
proof -
  have "fs_node fs p = Some Directory" if "fs_node (set_node (d @ [s]) x fs) (p @ [t]) \<noteq> None" for p t
  proof (cases "p @ [t] = d @ [s]")
    case False
    then have "fs_node fs (p @ [t]) \<noteq> None" using that by (auto simp: set_node_def)
    then show ?thesis using assms(1) unfolding fs_wf_def by blast
  qed (use assms(2) in simp)
  note parents = this
  have keep: "fs_node (set_node (d @ [s]) x fs) p = Some Directory" if "fs_node fs p = Some Directory" for p
    using assms(5) that by (auto simp: set_node_def)
  have "fs_wf (set_node (d @ [s]) x fs)"
    unfolding fs_wf_def
  proof (intro conjI allI impI)
    show "fs_node (set_node (d @ [s]) x fs) [] = Some Directory" using keep assms(1) by (simp add: fs_wf_def)
    have "fs_node fs (fs_cwd fs) = Some Directory" using assms(1) by (simp add: fs_wf_def)
    then show "fs_node (set_node (d @ [s]) x fs) (fs_cwd (set_node (d @ [s]) x fs)) = Some Directory"
      using keep by (simp add: set_node_def)
    show "fs_node (set_node (d @ [s]) x fs) p = Some Directory" if "fs_node (set_node (d @ [s]) x fs) (p @ [t]) \<noteq> None" for p t
      using parents [OF that] keep by blast
  qed
  then show ?thesis using assms(3) by (auto simp: grows_def set_node_def)
qed

lemma walk_grows:
  "grows fs fs' \<Longrightarrow> walk n fs d cs = Some q \<Longrightarrow> walk n fs' d cs = Some q"
proof (induction n fs d cs rule: walk.induct)
  case (5 n fs d s cs)
  have "node_grows (fs_node fs (d @ [s])) (fs_node fs' (d @ [s]))" using 5(3) by (simp add: grows_def)
  then show ?case
    using 5 by (cases "fs_node fs (d @ [s])") (auto simp: node_grows_def split: node.splits nat.splits if_splits)
qed auto

lemma lookup_grows: "grows fs fs' \<Longrightarrow> fs_lookup fs p = Some q \<Longrightarrow> fs_lookup fs' p = Some q"
  using walk_grows [of fs fs'] by (simp add: fs_lookup_def grows_def)

text \<open>What can be opened for writing is a file or nothing yet, in a directory.\<close>

lemma create_at_target:
  assumes "fs_wf fs" "fs_node fs d = Some Directory" "create_at n fs d cs = Some q"
  obtains e s where "q = e @ [s]" "fs_node fs e = Some Directory" "fs_node fs q = None \<or> (\<exists>b. fs_node fs q = Some (Regular b))"
proof -
  have "\<exists>e s. q = e @ [s] \<and> fs_node fs e = Some Directory \<and> (fs_node fs q = None \<or> (\<exists>b. fs_node fs q = Some (Regular b)))"
    using assms
  proof (induction n fs d cs rule: create_at.induct)
    case (5 n fs d s cs)
    then show ?case
      by (cases "fs_node fs (d @ [s])") (auto split: node.splits nat.splits if_splits)
  qed (auto simp: fs_wf_def parent_directory)
  then show thesis using that by blast
qed

lemma write_file_grows: "fs_wf fs \<Longrightarrow> write_file p bytes fs = (ok, fs') \<Longrightarrow> grows fs fs'"
proof (cases "create_at MAX_LINKS fs (fs_cwd fs) p")
  case (Some q)
  assume wf: "fs_wf fs" and w: "write_file p bytes fs = (ok, fs')"
  from wf Some obtain e s where "q = e @ [s]" "fs_node fs e = Some Directory" "fs_node fs q = None \<or> (\<exists>b. fs_node fs q = Some (Regular b))"
    using create_at_target [of fs "fs_cwd fs" MAX_LINKS p q] by (auto simp: fs_wf_def)
  then show ?thesis using grows_set [OF wf, of e s "Regular bytes"] w Some by (auto simp: write_file_def node_grows_def)
qed (auto simp: write_file_def grows_refl)

lemma mkdir_grows: "fs_wf fs \<Longrightarrow> mkdir fs p = Made fs' \<Longrightarrow> grows fs fs'"
  using grows_set [of fs _ _ Directory]
  by (auto simp: mkdir_def node_grows_def split: if_splits path_component.splits option.splits)

lemma create_dir_all_grows: "fs_wf fs \<Longrightarrow> create_dir_all p fs = (ok, fs') \<Longrightarrow> grows fs fs'"
proof (induction p arbitrary: ok fs' rule: rev_induct)
  case Nil
  then show ?case by (simp add: create_dir_all.simps grows_refl)
next
  case (snoc c p)
  obtain ok1 fs1 where c1: "create_dir_all p fs = (ok1, fs1)" by fastforce
  have g1: "grows fs fs1" using snoc.IH [OF snoc.prems(1) c1] .
  then have "grows fs fs2" if "mkdir fs1 (p @ [c]) = Made fs2" for fs2
    using mkdir_grows [OF _ that] grows_trans [OF g1] g1 by (simp add: grows_def [of fs fs1])
  then show ?case
    using snoc.prems c1 g1 grows_refl [of fs] mkdir_grows [of fs "p @ [c]"]
    by (auto simp: create_dir_all.simps [of "p @ [c]"] split: mkdir_result.splits if_splits)
qed

lemma write_creating_grows:
  assumes "fs_wf fs" "write_creating io p bytes fs = (res, fs')"
  shows "grows fs fs'"
proof -
  obtain ok fs1 where c: "(case path_parent p of Some parent \<Rightarrow> create_dir_all parent fs | None \<Rightarrow> (True, fs)) = (ok, fs1)" by fastforce
  then have g: "grows fs fs1" using assms(1) create_dir_all_grows [of fs] grows_refl [of fs] by (auto split: option.splits)
  obtain ok' fs2 where w: "write_file p bytes fs1 = (ok', fs2)" by fastforce
  have "grows fs1 fs2" using write_file_grows [OF _ w] g by (simp add: grows_def)
  then show ?thesis using assms(2) c w g grows_trans [OF g] by (auto simp: write_creating_def split: if_splits bool.splits)
qed

section \<open>Artifacts\<close>

definition link_free :: "file_system \<Rightarrow> string list \<Rightarrow> bool" where
  "link_free fs r \<longleftrightarrow> (\<forall>rest t. fs_node fs (r @ rest) \<noteq> Some (Link t))"

lemma link_free_grows:
  assumes "grows fs fs'" "link_free fs r"
  shows "link_free fs' r"
proof -
  have "fs_node fs' (r @ rest) \<noteq> Some (Link t)" for rest t
  proof -
    have "node_grows (fs_node fs (r @ rest)) (fs_node fs' (r @ rest))" using assms(1) by (simp add: grows_def)
    then show ?thesis using assms(2) by (auto simp: node_grows_def link_free_def split: option.splits node.splits)
  qed
  then show ?thesis by (simp add: link_free_def)
qed

lemma components_plain: "plain_segment s \<Longrightarrow> path_components s = [Normal s]"
  by (cases s) (auto simp: plain_segment_def path_components_def Let_def split_slash_no_slash segment_component_def)

lemma join_plain: "plain_segment s \<Longrightarrow> path_join p (path_components s) = p @ [Normal s]"
  by (simp add: components_plain path_join_def is_absolute_def)

text \<open>Below a directory without links a name leads to the node of that name.\<close>

lemma lookup_name:
  assumes "fs_wf fs" "fs_lookup fs p = Some d" "fs_node fs d = Some Directory" "link_free fs d"
  shows "fs_lookup fs (p @ [Normal s]) = (if fs_node fs (d @ [s]) = None then None else Some (d @ [s]))"
    and "create_at MAX_LINKS fs (fs_cwd fs) (p @ [Normal s]) = (if fs_node fs (d @ [s]) = Some Directory then None else Some (d @ [s]))"
proof -
  obtain k where k: "\<forall>ds. walk MAX_LINKS fs (fs_cwd fs) (p @ ds) = walk k fs d ds
      \<and> (ds \<noteq> [] \<longrightarrow> create_at MAX_LINKS fs (fs_cwd fs) (p @ ds) = create_at k fs d ds)"
    using resume [of fs "fs_cwd fs" MAX_LINKS p d] assms by (auto simp: fs_wf_def fs_lookup_def)
  have "fs_node fs (d @ [s]) \<noteq> Some (Link t)" for t using assms(4) by (simp add: link_free_def)
  then show "fs_lookup fs (p @ [Normal s]) = (if fs_node fs (d @ [s]) = None then None else Some (d @ [s]))"
    and "create_at MAX_LINKS fs (fs_cwd fs) (p @ [Normal s]) = (if fs_node fs (d @ [s]) = Some Directory then None else Some (d @ [s]))"
    using k by (auto simp: fs_lookup_def split: option.split node.split)
qed

lemma link_free_below: "link_free fs d \<Longrightarrow> link_free fs (d @ e)"
  by (simp add: link_free_def)

lemma changes_trans: "changes_below r fs fs1 \<Longrightarrow> changes_below r fs1 fs2 \<Longrightarrow> changes_below r fs fs2"
  unfolding changes_below_def by metis

lemma named_dir_confined:
  assumes "fs_wf fs" "fs_lookup fs p = Some d" "fs_node fs d = Some Directory" "link_free fs d"
    and "create_dir_all (p @ [Normal s]) fs = (ok, fs')"
  shows "changes_below d fs fs'" "ok \<Longrightarrow> fs_lookup fs' (p @ [Normal s]) = Some (d @ [s]) \<and> fs_node fs' (d @ [s]) = Some Directory"
proof -
  have "changes_below d fs fs' \<and> (ok \<longrightarrow> fs_lookup fs' (p @ [Normal s]) = Some (d @ [s]) \<and> fs_node fs' (d @ [s]) = Some Directory)"
  proof (cases "fs_node fs (d @ [s])")
    case None
    then have "fs_lookup fs (p @ map Normal r) = None" if "r \<noteq> []" "[s] = r @ u" for r u
      using that lookup_name(1) [OF assms(1-4), of s] by (cases r) auto
    then have made: "made d [s] fs fs'" "ok \<Longrightarrow> fs_node fs' (d @ [s]) = Some Directory"
      using create_dirs [OF assms(1,2), of "[s]" ok fs'] assms(5) by auto
    have wf': "fs_wf fs'" using made(1) by (simp add: made_def)
    have "fs_lookup fs' (p @ [Normal s]) = Some (d @ [s])" if ok
      using lookup_below [OF wf' made_lookup [OF made(1) assms(2)], of "[s]"] made(2) [OF that] made_start [OF made(1)] assms(3)
      by (simp add: real_path_def)
    then show ?thesis using changes_made [OF made(1), of d "[]"] made(2) by simp
  next
    case (Some x)
    then have l: "fs_lookup fs (p @ [Normal s]) = Some (d @ [s])" using lookup_name(1) [OF assms(1-4)] by simp
    then show ?thesis using create_existing [OF assms(1) l] assms(5) by auto
  qed
  then show "changes_below d fs fs'" "ok \<Longrightarrow> fs_lookup fs' (p @ [Normal s]) = Some (d @ [s]) \<and> fs_node fs' (d @ [s]) = Some Directory"
    by blast+
qed

lemma named_file_confined:
  assumes "fs_wf fs" "fs_lookup fs p = Some d" "fs_node fs d = Some Directory" "link_free fs d"
    and "write_file (p @ [Normal s]) bytes fs = (ok, fs')"
  shows "changes_below d fs fs'"
  using lookup_name(2) [OF assms(1-4), of s] assms(5) changes_set [OF changes_refl, of d fs "[s]"]
  by (auto simp: write_file_def split: if_splits)

lemma changes_up: "changes_below (r @ e) fs fs' \<Longrightarrow> changes_below r fs fs'"
  by (auto simp: changes_below_def)

lemma tool_artifact_confined:
  assumes "fs_wf fs" "fs_lookup fs (rtc_artifact_root config) = Some ar" "fs_node fs ar = Some Directory" "link_free fs ar"
    and "plain_segment (kind @ ''.txt'')" "write_tool_artifact te config request kind summary bytes state fs = (res, fs')"
  shows "changes_below ar fs fs' \<and> grows fs fs'"
proof -
  let ?dir = "sanitize_path_component (wtr_tool_call_id request)" and ?root = "rtc_artifact_root config"
  obtain ok fs1 where c: "create_dir_all (?root @ [Normal ?dir]) fs = (ok, fs1)" by fastforce
  note dir = named_dir_confined [OF assms(1-4) c]
  have g1: "grows fs fs1" using create_dir_all_grows [OF assms(1) c] .
  then have wf1: "fs_wf fs1" by (simp add: grows_def)
  obtain ok' fs2 where w: "write_file ((?root @ [Normal ?dir]) @ [Normal (kind @ ''.txt'')]) bytes fs1 = (ok', fs2)" by fastforce
  have two: "changes_below ar fs fs2 \<and> grows fs fs2" if ok
    using named_file_confined [OF wf1 _ _ link_free_below [OF link_free_grows [OF g1 assms(4)]] w] dir that
      changes_up [of ar "[?dir]" fs1 fs2] changes_trans [of ar fs fs1 fs2] grows_trans [OF g1 write_file_grows [OF wf1 w]] by simp
  show ?thesis
    using assms(6) c w dir(1) g1 two
    by (auto simp: write_tool_artifact_def Let_def join_plain [OF sanitized_plain] join_plain [OF assms(5)] split: if_splits)
qed

section \<open>Tools that start no program\<close>

text \<open>What such a tool needs to find and may leave behind.\<close>

definition tool_area :: "runtime_tool_config \<Rightarrow> string list \<Rightarrow> string list \<Rightarrow> file_system \<Rightarrow> bool" where
  "tool_area config r ar fs \<longleftrightarrow>
     fs_wf fs \<and> fs_lookup fs (rtc_workspace_root config) = Some r \<and> link_free fs r
     \<and> fs_lookup fs (rtc_artifact_root config) = Some ar \<and> fs_node fs ar = Some Directory \<and> link_free fs ar"

definition changes_within :: "string list \<Rightarrow> string list \<Rightarrow> file_system \<Rightarrow> file_system \<Rightarrow> bool" where
  "changes_within r ar fs fs' \<longleftrightarrow> (\<forall>q. fs_node fs' q \<noteq> fs_node fs q \<longrightarrow> (\<exists>rest. q = r @ rest \<or> q = ar @ rest))"

text \<open>The step keeps to the area and the area stays usable.\<close>

definition keeps_area :: "runtime_tool_config \<Rightarrow> string list \<Rightarrow> string list \<Rightarrow> file_system \<Rightarrow> 'a tool_step \<Rightarrow> bool" where
  "keeps_area config r ar fs step \<longleftrightarrow>
     (\<forall>res fs'. tool_area config r ar fs \<longrightarrow> step fs = (res, fs') \<longrightarrow> changes_within r ar fs fs' \<and> tool_area config r ar fs')"

lemma area_grows: "grows fs fs' \<Longrightarrow> tool_area config r ar fs \<Longrightarrow> tool_area config r ar fs'"
  using lookup_grows [of fs fs'] link_free_grows [of fs fs'] grows_directory [of fs fs' ar]
  by (simp add: tool_area_def) (simp add: grows_def)

lemma within_trans: "changes_within r ar fs fs1 \<Longrightarrow> changes_within r ar fs1 fs2 \<Longrightarrow> changes_within r ar fs fs2"
  unfolding changes_within_def by metis

lemma within_below: "changes_below r fs fs' \<Longrightarrow> changes_within r ar fs fs'" "changes_below ar fs fs' \<Longrightarrow> changes_within r ar fs fs'"
  unfolding changes_within_def changes_below_def by blast+

lemma keeps_same: "snd (step fs) = fs \<Longrightarrow> keeps_area config r ar fs step"
  by (auto simp: keeps_area_def changes_within_def)

lemma keeps_step_of [intro]: "keeps_area config r ar fs (step_of x)"
  by (rule keeps_same) (simp add: step_of_def)

lemma keeps_then:
  assumes "keeps_area config r ar fs step"
    and "\<And>a fs'. step fs = (Inr a, fs') \<Longrightarrow> tool_area config r ar fs \<Longrightarrow> keeps_area config r ar fs' (rest a)"
  shows "keeps_area config r ar fs (step_then step rest)"
  unfolding keeps_area_def
proof (intro allI impI)
  fix res fs'
  assume area: "tool_area config r ar fs" and run: "step_then step rest fs = (res, fs')"
  obtain x fs1 where x: "step fs = (x, fs1)" by fastforce
  have one: "changes_within r ar fs fs1" "tool_area config r ar fs1" using assms(1) area x unfolding keeps_area_def by blast+
  show "changes_within r ar fs fs' \<and> tool_area config r ar fs'"
  proof (cases x)
    case (Inr a)
    then have "rest a fs1 = (res, fs')" using run x by (simp add: step_then_def)
    then have "changes_within r ar fs1 fs'" "tool_area config r ar fs'"
      using assms(2) [OF x [unfolded Inr] area] one(2) unfolding keeps_area_def by blast+
    then show ?thesis using within_trans [OF one(1)] by blast
  qed (use run x one in \<open>auto simp: step_then_def\<close>)
qed

lemma keeps_then_pure:
  assumes "\<And>a. x = Inr a \<Longrightarrow> keeps_area config r ar fs (rest a)"
  shows "keeps_area config r ar fs (step_then (step_of x) rest)"
  using assms by (intro keeps_then) (auto simp: step_of_def)

lemma keeps_then_reading:
  assumes "\<And>a. f fs = Inr a \<Longrightarrow> tool_area config r ar fs \<Longrightarrow> keeps_area config r ar fs (rest a)"
  shows "keeps_area config r ar fs (step_then (reading f) rest)"
  by (rule keeps_then [OF keeps_same]) (auto simp: reading_def assms)

lemma keeps_artifact:
  assumes "plain_segment (kind @ ''.txt'')"
  shows "keeps_area config r ar fs (write_tool_artifact te config request kind summary bytes state)"
  unfolding keeps_area_def
proof (intro allI impI)
  fix res fs'
  assume area: "tool_area config r ar fs" and run: "write_tool_artifact te config request kind summary bytes state fs = (res, fs')"
  then have "changes_below ar fs fs' \<and> grows fs fs'"
    using tool_artifact_confined [of fs config ar kind te request summary bytes state res fs'] assms by (simp add: tool_area_def)
  then show "changes_within r ar fs fs' \<and> tool_area config r ar fs'" using within_below(2) area_grows area by blast
qed

lemma keeps_redacted:
  "plain_segment (kind @ ''.txt'') \<Longrightarrow> keeps_area config r ar fs (write_redacted_artifact te config request kind summary bytes)"
  by (simp add: write_redacted_artifact_def keeps_artifact split: prod.split)

text \<open>A resolved path in a workspace without links does not end in a link.\<close>

lemma resolved_no_link:
  assumes "fs_wf fs" "fs_lookup fs root = Some r" "link_free fs r" "resolve_workspace_path io root path allow fs = Inr p"
  shows "\<not> final_link fs p"
  using assms(1,4,2)
proof (cases rule: resolved_cases)
  case (existing d rest)
  have "\<not> final_link fs (abs_path d)"
  proof (cases d rule: rev_cases)
    case (snoc e s)
    then have "fs_node fs e = Some Directory" using existing(2) assms(1) by (auto simp: real_path_def fs_wf_def)
    then have "fs_lookup fs (abs_path e) = Some e" using lookup_abs [OF assms(1)] by (simp add: real_path_def)
    then show ?thesis using snoc existing(2) by (auto simp: final_link_def abs_path_def real_path_def butlast_append split: node.splits option.splits)
  qed (simp add: final_link_def abs_path_def)
  then show ?thesis using existing(1) by simp
next
  case (fresh front rest s d ext)
  show ?thesis
  proof (cases "rest = []")
    case True
    have "fs_node fs (d @ [s]) \<noteq> Some (Link t)" for t using assms(3) fresh(5) by (simp add: link_free_def)
    then show ?thesis using fresh(1,3) True by (auto simp: final_link_def abs_path_def butlast_append split: node.splits option.splits)
  next
    case False
    then have "fs_lookup fs (abs_path (front @ rest)) = None" using fresh(4) [of rest "[]"] by (simp add: fs_exists_def)
    then show ?thesis using fresh(1) by (simp add: final_link_def abs_path_def butlast_append)
  qed
qed

lemma keeps_write:
  assumes "resolve_workspace_path io (rtc_workspace_root config) path allow fs = Inr p"
  shows "keeps_area config r ar fs (write_creating io p bytes)"
  unfolding keeps_area_def
proof (intro allI impI)
  fix res fs'
  assume area: "tool_area config r ar fs" and run: "write_creating io p bytes fs = (res, fs')"
  have a: "fs_wf fs" "fs_lookup fs (rtc_workspace_root config) = Some r" "link_free fs r" using area by (simp_all add: tool_area_def)
  have "changes_below r fs fs'" by (rule write_confined [OF a(1,2) assms resolved_no_link [OF a assms] run])
  then show "changes_within r ar fs fs' \<and> tool_area config r ar fs'"
    using within_below(1) area_grows [OF write_creating_grows [OF a(1) run]] area by blast
qed

section \<open>The tools, one by one\<close>

lemma plain_kinds:
  "plain_segment (''input'' @ ''.txt'')" "plain_segment (''file_read'' @ ''.txt'')" "plain_segment (''workpad_read'' @ ''.txt'')"
  "plain_segment (''project_memory_read'' @ ''.txt'')" "plain_segment (''file_write_diff'' @ ''.txt'')"
  "plain_segment (''apply_patch_diff'' @ ''.txt'')"
  by (simp_all add: plain_segment_def)

lemma file_read_keeps:
  "plain_segment (kind @ ''.txt'') \<Longrightarrow> keeps_area config r ar fs (file_read te config request kind)"
  unfolding file_read_def resolved_path_def
  by (intro keeps_then_pure keeps_then_reading keeps_then [OF keeps_redacted] keeps_step_of)

lemma workpad_reads_keep:
  "keeps_area config r ar fs (workpad_read te config request)" "keeps_area config r ar fs (project_memory_read te config request)"
  unfolding workpad_read_def project_memory_read_def
  by (intro keeps_then_pure; simp only: file_read_keeps [OF plain_kinds(3)] file_read_keeps [OF plain_kinds(4)] keeps_step_of split: if_split, simp)+

lemma write_and_report_keeps:
  assumes "resolve_workspace_path (os_io_error (te_os te)) (rtc_workspace_root config) path allow fs = Inr p"
  shows "keeps_area config r ar fs (write_and_report te config request p before new)"
  unfolding write_and_report_def
  by (intro keeps_then [OF keeps_write [OF assms]] keeps_then_reading keeps_then [OF keeps_redacted] plain_kinds keeps_step_of)

lemma file_write_keeps: "keeps_area config r ar fs (file_write te config request)"
  unfolding file_write_def resolved_path_def Let_def
  by (intro keeps_then_pure keeps_then_reading) (auto intro!: keeps_then_pure write_and_report_keeps split: option.split)

lemma apply_patch_keeps:
  assumes "json_get (wtr_input request) ''auto_lint'' = Some (JBool False)"
  shows "keeps_area config r ar fs (apply_patch te config request)"
proof -
  have last: "keeps_area config r ar fs1 (\<lambda>fs. (Inr (x fs), fs))" for fs1 and x :: "file_system \<Rightarrow> wrapper_execution"
    by (rule keeps_same) simp
  show ?thesis
    unfolding apply_patch_def resolved_path_def assms bind.simps json_as_bool.simps unwrap_or_def option.case if_False Let_def prod.case
    by (intro keeps_then_pure keeps_then_reading)
      (auto intro!: keeps_then [OF keeps_write] keeps_then [OF keeps_redacted] plain_kinds last split: sum.split)
qed

definition starts_no_program :: "wrapper_tool_request \<Rightarrow> bool" where
  "starts_no_program request \<longleftrightarrow>
     wtr_tool_id request \<in> set [''capo.file_read'', ''capo.file_write'', ''capo.project_memory_read'', ''capo.workpad_read'']
     \<or> wtr_tool_id request = ''capo.apply_patch'' \<and> json_get (wtr_input request) ''auto_lint'' = Some (JBool False)"

lemma execute_keeps: "starts_no_program request \<Longrightarrow> keeps_area config r ar fs (execute_tool te config request)"
  by (auto simp: starts_no_program_def execute_tool_def Let_def intro: file_read_keeps [OF plain_kinds(2)] file_write_keeps apply_patch_keeps workpad_reads_keep)

lemma record_input_keeps: "keeps_area config r ar fs (record_input_artifact te config request)"
  by (simp add: record_input_artifact_def keeps_artifact plain_kinds [simplified] split: prod.split)

lemma invoke_keeps:
  assumes "starts_no_program request" "tool_area config r ar fs" "invoke_authorized te config request a fs = (res, fs')"
  shows "changes_within r ar fs fs' \<and> tool_area config r ar fs'"
proof -
  have same: "changes_within r ar fs fs \<and> tool_area config r ar fs" using assms(2) by (simp add: changes_within_def)
  obtain x fs1 where x: "record_input_artifact te config request fs = (x, fs1)" by fastforce
  obtain y fs2 where y: "execute_tool te config request fs1 = (y, fs2)" by fastforce
  have one: "changes_within r ar fs fs1 \<and> tool_area config r ar fs1"
    using record_input_keeps [of config r ar fs te request] assms(2) x unfolding keeps_area_def by blast
  then have "changes_within r ar fs1 fs2 \<and> tool_area config r ar fs2"
    using execute_keeps [OF assms(1), of config r ar fs1 te] y unfolding keeps_area_def by blast
  then have two: "changes_within r ar fs fs2 \<and> tool_area config r ar fs2" using one within_trans by blast
  have "fs' \<in> {fs, fs1, fs2}"
    using assms(3) x y by (auto simp: invoke_authorized_def Let_def split: sum.splits if_splits)
  then show ?thesis using same one two by blast
qed

end
