(* ===== verification/Program_Confinement.thy ===== *)
theory Program_Confinement
  imports Tool_Confinement
begin

text \<open>
  Where the programs of the tools run.  A command is \<open>spawn_inside\<close> the workspace when its working
  directory, looked up in the file system at the moment of the start, is a directory below the root, or
  is none at all (the operating system then refuses), and its environment has allowed names only.

  To say that only such commands are started, the operating system is replaced by any \<open>f\<close> that agrees
  with it on them: the outcome is the same, so no other command reaches it.  Shown for the runner, when
  its artifact directory exists, and for every tool call.  A runner whose artifact directory does not
  exist yet checks the directory before it creates the artifact directory and starts the program
  after: \<open>fresh_artifact_root_escapes\<close> is a run outside the workspace.
\<close>

section \<open>The runner\<close>

definition spawn_inside :: "string list list \<Rightarrow> string list \<Rightarrow> file_system \<Rightarrow> spawn \<Rightarrow> bool" where
  "spawn_inside rs names fs s \<longleftrightarrow>
     fst ` set (sp_env s) \<subseteq> set names
     \<and> (\<forall>d. fs_lookup fs (sp_cwd s) = Some d \<longrightarrow> (\<exists>r \<in> set rs. \<exists>rest. d = r @ rest))"

lemma cwd_below_root:
  assumes "list_all2 (\<lambda>root r. fs_lookup fs root = Some r) (lpc_workspace_roots config) rs"
    and "ensure_cwd_allowed os config fs cwd = Inr ()" "fs_lookup fs cwd = Some d"
  shows "\<exists>r \<in> set rs. \<exists>rest. d = r @ rest"
proof -
  have norm: "normalize_path os fs p = Inr (abs_path q)" if "fs_lookup fs p = Some q" for p q
    using that by (simp add: normalize_path_def fs_exists_def canonicalize_def)
  obtain root where "root \<in> set (lpc_workspace_roots config)"
      "case normalize_path os fs root of Inr r \<Rightarrow> path_starts_with (abs_path d) r | Inl _ \<Rightarrow> False"
    using assms(2) norm [OF assms(3)] by (auto simp: ensure_cwd_allowed_def list_ex_iff split: if_splits)
  moreover have "\<exists>r \<in> set rs. fs_lookup fs root = Some r"
    using assms(1) calculation(1) by (induction rule: list_all2_induct) auto
  ultimately show ?thesis using norm by fastforce
qed

lemma start_process_inside:
  assumes "fs_wf fs" "list_all2 (\<lambda>root r. fs_lookup fs root = Some r) (lpc_workspace_roots config) rs"
    and "fs_lookup fs (lpc_artifact_root config) = Some ar"
    and agree: "\<And>s. spawn_inside rs (lpc_env_allowlist config) fs s \<Longrightarrow> f s fs = os_output os s fs"
  shows "start_process (os\<lparr>os_output := f\<rparr>) config request fs = start_process os config request fs"
proof (cases "ensure_cwd_allowed os config fs (lpr_cwd request)")
  case (Inr u)
  let ?s = "\<lambda>env. \<lparr>sp_program = lpr_program request, sp_argv = lpr_argv request, sp_cwd = lpr_cwd request, sp_env = env\<rparr>"
  have "f (?s env) fs = os_output os (?s env) fs"
    if "apply_request_env (lpc_env_allowlist config) (lpr_env request) (allowed_env os (lpc_env_allowlist config)) = Inr env" for env
    using request_env_names [OF that allowed_env_names] cwd_below_root [OF assms(2), of os "lpr_cwd request"] Inr
    by (intro agree) (simp add: spawn_inside_def)
  moreover have "create_dir_all (lpc_artifact_root config) fs = (fs_node fs ar = Some Directory, fs)"
    by (rule create_existing [OF assms(1,3)])
  ultimately show ?thesis using Inr by (simp add: start_process_def io_step_def split: sum.split prod.split)
qed (simp add: start_process_def)

section \<open>Nothing else of a tool asks the operating system to run anything\<close>

abbreviation with_output ::
  "tool_env \<Rightarrow> (spawn \<Rightarrow> file_system \<Rightarrow> (string, process_output) result \<times> file_system) \<Rightarrow> tool_env" where
  "with_output te f \<equiv> te\<lparr>te_os := (te_os te)\<lparr>os_output := f\<rparr>\<rparr>"

named_theorems same_output

lemma env_same:
  "te_os (with_output te f) = (te_os te)\<lparr>os_output := f\<rparr>" "te_serde (with_output te f) = te_serde te"
  "te_duration_ms (with_output te f) = te_duration_ms te" "te_started_at_ms (with_output te f) = te_started_at_ms te"
  "te_completed_at_ms (with_output te f) = te_completed_at_ms te" "te_diff (with_output te f) = te_diff te"
  "te_ratio (with_output te f) = te_ratio te" "te_debug_error (with_output te f) = te_debug_error te"
  by simp_all

lemma resolve_same [same_output]:
  "resolve_program (os\<lparr>os_output := f\<rparr>) = resolve_program os" "resolve_search_program (os\<lparr>os_output := f\<rparr>) = resolve_search_program os"
  unfolding fun_eq_iff resolve_program_def resolve_search_program_def os_update_base by simp_all

lemma artifact_same [same_output]:
  "write_tool_artifact (with_output te f) = write_tool_artifact te"
  unfolding fun_eq_iff write_tool_artifact_def env_same os_update_base by simp

lemma redacted_same [same_output]:
  "write_redacted_artifact (with_output te f) = write_redacted_artifact te"
  "record_input_artifact (with_output te f) = record_input_artifact te"
  unfolding fun_eq_iff write_redacted_artifact_def record_input_artifact_def artifact_same env_same by simp_all

lemma pieces_same [same_output]:
  "resolved_path (with_output te f) = resolved_path te" "exec_execution (with_output te f) = exec_execution te"
  "unified_diff (with_output te f) = unified_diff te" "no_match_execution (with_output te f) = no_match_execution te"
  "search_execution (with_output te f) = search_execution te" "test_execution (with_output te f) = test_execution te"
  unfolding fun_eq_iff resolved_path_def exec_execution_def unified_diff_def no_match_execution_def search_execution_def
    test_execution_def env_same os_update_base by simp_all

lemma results_same [same_output]:
  "input_cwd (with_output te f) = input_cwd te" "search_result (with_output te f) = search_result te"
  "test_result (with_output te f) = test_result te" "write_and_report (with_output te f) = write_and_report te"
  unfolding fun_eq_iff input_cwd_def search_result_def test_result_def write_and_report_def env_same os_update_base
    pieces_same redacted_same artifact_same by simp_all

lemma file_tools_same [same_output]:
  "file_read (with_output te f) = file_read te" "file_write (with_output te f) = file_write te"
  unfolding fun_eq_iff file_read_def file_write_def env_same os_update_base results_same pieces_same redacted_same by simp_all

lemma workpad_same [same_output]:
  "workpad_read (with_output te f) = workpad_read te" "project_memory_read (with_output te f) = project_memory_read te"
  unfolding fun_eq_iff workpad_read_def project_memory_read_def file_tools_same by simp_all

section \<open>Every tool call starts its programs inside\<close>

definition agrees_inside ::
  "tool_env \<Rightarrow> runtime_tool_config \<Rightarrow> string list
    \<Rightarrow> (spawn \<Rightarrow> file_system \<Rightarrow> (string, process_output) result \<times> file_system) \<Rightarrow> bool" where
  "agrees_inside te config r f \<longleftrightarrow>
     (\<forall>s fs. spawn_inside [r] (rtc_env_allowlist config) fs s \<longrightarrow> f s fs = os_output (te_os te) s fs)"

lemma start_process_area:
  assumes "tool_area config r ar fs" "agrees_inside te config r f"
  shows "start_process ((te_os te)\<lparr>os_output := f\<rparr>) (bounded_runtime_runner config) request fs
    = start_process (te_os te) (bounded_runtime_runner config) request fs"
  using assms by (intro start_process_inside [where rs = "[r]" and ar = ar])
    (simp_all add: tool_area_def agrees_inside_def bounded_runtime_runner_def config_for_test_def)

lemma run_program_area:
  assumes "tool_area config r ar fs" "agrees_inside te config r f"
  shows "run_program (with_output te f) config request program argv cwd fs = run_program te config request program argv cwd fs"
  unfolding run_program_def env_same start_process_area [OF assms] by (rule refl)

lemma lint_area:
  assumes "tool_area config r ar fs" "agrees_inside te config r f"
  shows "lint_edited (with_output te f) config path request fs = lint_edited te config path request fs"
  unfolding lint_edited_def env_same resolve_same start_process_area [OF assms] by (rule refl)

text \<open>Two sequences agree when their first steps do and keep to the area.\<close>

lemma step_then_area:
  assumes "tool_area config r ar fs" "keeps_area config r ar fs step" "step' fs = step fs"
    and "\<And>a fs1. step fs = (Inr a, fs1) \<Longrightarrow> tool_area config r ar fs1 \<Longrightarrow> rest' a fs1 = rest a fs1"
  shows "step_then step' rest' fs = step_then step rest fs"
  using assms by (auto simp: step_then_def keeps_area_def split: prod.split sum.split)

lemma step_of_area:
  "(\<And>a. x = Inr a \<Longrightarrow> rest' a fs = rest a fs) \<Longrightarrow> step_then (step_of x) rest' fs = step_then (step_of x) rest fs"
  by (simp add: step_then_def step_of_def split: sum.split)

lemma reading_area:
  "(\<And>a. g fs = Inr a \<Longrightarrow> rest' a fs = rest a fs) \<Longrightarrow> step_then (reading g) rest' fs = step_then (reading g) rest fs"
  by (simp add: step_then_def reading_def split: sum.split)

lemma run_then_area:
  assumes "tool_area config r ar fs" "agrees_inside te config r f"
  shows "step_then (run_program (with_output te f) config request program argv cwd) rest fs
    = step_then (run_program te config request program argv cwd) rest fs"
  by (simp add: step_then_def run_program_area [OF assms])

lemma input_cwd_area:
  assumes "\<And>cwd. rest' cwd fs = rest cwd fs"
  shows "step_then (input_cwd te config request) rest' fs = step_then (input_cwd te config request) rest fs"
proof (cases "input_str request ''cwd''")
  case None
  then show ?thesis unfolding input_cwd_def by (simp only: option.case) (rule step_of_area, rule assms)
next
  case (Some path)
  then show ?thesis unfolding input_cwd_def resolved_path_def by (simp only: option.case) (rule reading_area, rule assms)
qed

lemma program_tools_area:
  assumes "tool_area config r ar fs" "agrees_inside te config r f"
  shows "shell_run (with_output te f) config request fs = shell_run te config request fs"
    and "git_command (with_output te f) config request label args fs = git_command te config request label args fs"
    and "git_commit (with_output te f) config request fs = git_commit te config request fs"
    and "test_run (with_output te f) config request fs = test_run te config request fs"
proof -
  note run = run_then_area [OF assms]
  show "shell_run (with_output te f) config request fs = shell_run te config request fs"
    unfolding shell_run_def results_same pieces_same
    by (rule step_of_area, rule step_of_area, rule input_cwd_area, rule run)
  show "git_command (with_output te f) config request label args fs = git_command te config request label args fs"
    unfolding git_command_def pieces_same by (rule step_of_area, rule run)
  show "git_commit (with_output te f) config request fs = git_commit te config request fs"
    unfolding git_commit_def pieces_same
  proof (rule step_of_area)
    fix message
    show "(if str_trim message = [] then step_of (Inl ''git_commit requires a non-empty message'')
       else if has_control message then step_of (Inl ''git_commit message must not contain control characters'')
       else step_then (run_program (with_output te f) config request ''git'' (argv message) cwd) (rest message)) fs
     = (if str_trim message = [] then step_of (Inl ''git_commit requires a non-empty message'')
       else if has_control message then step_of (Inl ''git_commit message must not contain control characters'')
       else step_then (run_program te config request ''git'' (argv message) cwd) (rest message)) fs" for argv cwd rest
      by (simp only: run if_distribR)
  qed
  show "test_run (with_output te f) config request fs = test_run te config request fs"
    unfolding test_run_def results_same
    by (rule step_of_area, rule step_of_area, rule input_cwd_area, rule step_of_area, rule run)
qed

lemma search_area:
  assumes "tool_area config r ar fs" "agrees_inside te config r f"
  shows "search (with_output te f) config request fs = search te config request fs"
proof -
  have run: "step_then (\<lambda>fs. run_program (with_output te f) config request (resolve_search_program (te_os te) fs) (argv fs) root fs) rest fs
      = step_then (\<lambda>fs. run_program te config request (resolve_search_program (te_os te) fs) (argv fs) root fs) rest fs" for argv root rest
    by (simp add: step_then_def run_program_area [OF assms])
  have tail: "step_then (step_of (search_caps_of request)) (\<lambda>caps. step_then (\<lambda>fs. run_program (with_output te f) config request
        (resolve_search_program (te_os te) fs) [''--json'', ''--sort'', ''path'', ''--'', query, search_arg root sr] root fs) (search_result te config query caps)) fs
      = step_then (step_of (search_caps_of request)) (\<lambda>caps. step_then (\<lambda>fs. run_program te config request
        (resolve_search_program (te_os te) fs) [''--json'', ''--sort'', ''path'', ''--'', query, search_arg root sr] root fs) (search_result te config query caps)) fs"
    for query root sr by (rule step_of_area) (rule run)
  have path: "step_then (case input_str request ''path'' of
           Some path \<Rightarrow> if path \<noteq> [] then resolved_path te config path False else step_of (Inr root)
         | None \<Rightarrow> step_of (Inr root)) k' fs
      = step_then (case input_str request ''path'' of
           Some path \<Rightarrow> if path \<noteq> [] then resolved_path te config path False else step_of (Inr root)
         | None \<Rightarrow> step_of (Inr root)) k fs" if k: "\<And>sr. k' sr fs = k sr fs" for root k k'
  proof -
    have "step_then (step_of (Inr root)) k' fs = step_then (step_of (Inr root)) k fs" by (rule step_of_area, rule k)
    moreover have "step_then (resolved_path te config path False) k' fs = step_then (resolved_path te config path False) k fs" for path
      unfolding resolved_path_def by (rule reading_area, rule k)
    ultimately show ?thesis by (simp only: split: option.split if_split) simp
  qed
  have "step_then (reading g) k' fs = step_then (reading g) k fs" if "\<And>root. k' root fs = k root fs" for g k k'
    using that by (intro reading_area)
  note steps = this path tail
  show ?thesis
    unfolding search_def same_output env_same os_update_base
    by (rule step_of_area) (auto intro!: steps)
qed

lemma apply_patch_area:
  assumes "tool_area config r ar fs" "agrees_inside te config r f"
  shows "apply_patch (with_output te f) config request fs = apply_patch te config request fs"
  unfolding apply_patch_def same_output env_same os_update_base resolved_path_def
  by (intro step_of_area reading_area)
    (auto intro!: step_then_area [OF assms(1) keeps_write] step_then_area [where ar = ar, OF _ keeps_redacted] plain_kinds
      simp: lint_area [where ar = ar, OF _ assms(2)] split: sum.split)

lemma execute_area:
  assumes "tool_area config r ar fs" "agrees_inside te config r f"
  shows "execute_tool (with_output te f) config request fs = execute_tool te config request fs"
  by (simp add: execute_tool_def Let_def program_tools_area [OF assms] search_area [OF assms] apply_patch_area [OF assms]
      file_tools_same workpad_same)

lemma invoke_area:
  assumes "tool_area config r ar fs" "agrees_inside te config r f"
  shows "invoke_authorized (with_output te f) config request a fs = invoke_authorized te config request a fs"
proof -
  obtain x fs1 where x: "record_input_artifact te config request fs = (x, fs1)" by fastforce
  have "tool_area config r ar fs1"
    using record_input_keeps [of config r ar fs te request] assms(1) x unfolding keeps_area_def by blast
  from execute_area [OF this assms(2)] show ?thesis
    unfolding invoke_authorized_def redacted_same x env_same by (simp split: sum.split)
qed

section \<open>A runner that creates its artifact directory\<close>

text \<open>
  The working directory leads through the artifact directory, which does not exist, and up again.  It
  does not resolve, so it is compared as text and lies below \<open>/w\<close>; then the artifact directory is
  created, and the program starts in \<open>/etc\<close>.
\<close>

definition escape_fs :: file_system where
  "escape_fs = \<lparr>fs_cwd = [], fs_node = map_of [([], Directory), ([''w''], Directory), ([''etc''], Directory)]\<rparr>"

definition escape_cwd :: path_buf where
  "escape_cwd = [RootDir, Normal ''w'', Normal ''art'', ParentDir, ParentDir, Normal ''etc'']"

definition escape_config :: local_process_config where
  "escape_config = config_for_test [RootDir, Normal ''w''] [RootDir, Normal ''w'', Normal ''art'']"

definition escape_request :: "string \<Rightarrow> local_process_request" where
  "escape_request program =
     \<lparr>lpr_run_id = ''r1'', lpr_turn_id = None, lpr_program = program, lpr_argv = [], lpr_cwd = escape_cwd, lpr_env = []\<rparr>"

definition escaped_fs :: file_system where
  "escaped_fs = snd (create_dir_all [RootDir, Normal ''w'', Normal ''art''] escape_fs)"

lemma fresh_artifact_root_escapes:
  "fs_lookup escaped_fs escape_cwd = Some [''etc'']"
  "start_process (os\<lparr>os_output := f\<rparr>) escape_config (escape_request program) escape_fs =
     (case f \<lparr>sp_program = program, sp_argv = [], sp_cwd = escape_cwd, sp_env = []\<rparr> escaped_fs of
        (Inl e, fs2) \<Rightarrow> (Inl (RuntimeIo e), fs2)
      | (Inr res, fs2) \<Rightarrow> record_output os escape_config (escape_request program) res fs2)"
proof -
  have made: "create_dir_all [RootDir, Normal ''w'', Normal ''art''] escape_fs = (True, escaped_fs)"
  proof -
    have "fst (create_dir_all [RootDir, Normal ''w'', Normal ''art''] escape_fs)" by code_simp
    then show ?thesis by (simp add: escaped_fs_def prod_eq_iff)
  qed
  have escape_roots: "lpc_artifact_root escape_config = [RootDir, Normal ''w'', Normal ''art'']" "lpc_env_allowlist escape_config = []"
    by (simp_all add: escape_config_def config_for_test_def)
  have "\<not> fs_exists escape_fs escape_cwd" "path_starts_with escape_cwd [RootDir, Normal ''w'']"
      "canonicalize escape_fs [RootDir, Normal ''w''] = Some [RootDir, Normal ''w'']" "fs_exists escape_fs [RootDir, Normal ''w'']"
    by code_simp+
  then have "ensure_cwd_allowed os escape_config escape_fs escape_cwd = Inr ()"
    by (simp add: ensure_cwd_allowed_def normalize_path_def escape_config_def config_for_test_def)
  then show "start_process (os\<lparr>os_output := f\<rparr>) escape_config (escape_request program) escape_fs =
     (case f \<lparr>sp_program = program, sp_argv = [], sp_cwd = escape_cwd, sp_env = []\<rparr> escaped_fs of
        (Inl e, fs2) \<Rightarrow> (Inl (RuntimeIo e), fs2)
      | (Inr res, fs2) \<Rightarrow> record_output os escape_config (escape_request program) res fs2)"
    using made unfolding start_process_def os_update_writes os_update_checks os_update_record
    by (simp add: escape_request_def io_step_def allowed_env_def escape_roots)
  show "fs_lookup escaped_fs escape_cwd = Some [''etc'']" by code_simp
qed

end
