(* ===== verification/Tool_Properties.thy ===== *)
theory Tool_Properties
  imports Program_Confinement Json_Text
begin

text \<open>
  The properties of the tool layer: authorization, confinement of writes and of started programs, the
  edits of a patch, the bounds of a search, and the shape of a result.
\<close>

section \<open>Authorization\<close>

definition authorizes :: "serde \<Rightarrow> tool_authorization \<Rightarrow> wrapper_tool_request \<Rightarrow> bool" where
  "authorizes sj a request \<longleftrightarrow>
     td_tool_id (ta_definition a) = wtr_tool_id request \<and> ta_session_id a = wtr_session_id request
     \<and> ta_run_id a = wtr_run_id request \<and> ta_tool_call_id a = wtr_tool_call_id request
     \<and> ta_capability_profile_id a = wtr_capability_profile_id request
     \<and> ta_input_hash a = content_hash (to_text sj (wtr_input request))
     \<and> dec_capability_profile_id (ta_permission a) = wtr_capability_profile_id request
     \<and> dec_scope_json (ta_permission a) = td_required_scopes_json (ta_definition a)
     \<and> dec_effect (ta_permission a) = ''allow''"

lemma authorizes_iff:
  "authorizes sj a request \<longleftrightarrow>
     verify_authorization_matches_request sj request a = Inr () \<and> dec_effect (ta_permission a) = ''allow''"
  by (auto simp: authorizes_def verify_authorization_matches_request_def wrapper_input_hash_def)

text \<open>A refused call is answered without looking at the file system.\<close>

lemma refused_call:
  assumes "\<not> authorizes (te_serde te) a request"
  obtains r reason where "\<And>os fs. invoke_authorized (te\<lparr>te_os := os\<rparr>) config request a fs = (r, fs)"
    "wts_status r = ''denied''" "wts_input_artifact r = None" "wts_output_artifacts r = []"
    "wts_events r = ta_events a @ [audit_event ''tool.call_canceled'' reason]"
proof (cases "verify_authorization_matches_request (te_serde te) request a")
  case (Inl e)
  show thesis by (rule that [of "mismatch_result (te_serde te) request a e"]) (simp_all add: invoke_authorized_def Inl mismatch_result_def)
next
  case (Inr u)
  then have "dec_effect (ta_permission a) \<noteq> ''allow''" using assms by (simp add: authorizes_iff)
  then show thesis
    by (intro that [of "result_denied (te_serde te) request (ta_definition a) (ta_permission a)
      (ta_events a @ [audit_event ''tool.call_canceled'' ''permission_denied''])"]) (simp_all add: invoke_authorized_def Inr result_denied_def)
qed

text \<open>
  C33. A tool runs only under an allowing authorization made for this very call: for this tool, session,
  run, call, profile and input, with the permission decided for the tool's own scopes.  Any other call
  leaves the file system as it is, starts no program (the operating system does not matter), is answered
  as denied without an artifact, and is audited as canceled.
\<close>

theorem unauthorized_call_does_nothing:
  assumes "\<not> authorizes (te_serde te) a request"
  shows "\<exists>r reason. (\<forall>os. invoke_authorized (te\<lparr>te_os := os\<rparr>) config request a fs = (r, fs))
    \<and> wts_status r = ''denied'' \<and> wts_input_artifact r = None \<and> wts_output_artifacts r = []
    \<and> wts_events r = ta_events a @ [audit_event ''tool.call_canceled'' reason]"
  using assms by (rule refused_call [of te a request config]) blast

section \<open>A concrete workspace\<close>

definition demo_os :: os where
  "demo_os = \<lparr>os_output = (\<lambda>_ fs. (Inl ''no programs'', fs)), os_env_var = (\<lambda>_. None), os_io_error = ''os error''\<rparr>"

definition demo_env :: tool_env where
  "demo_env =
     \<lparr>te_os = demo_os, te_serde = rfc8259, te_duration_ms = 1, te_started_at_ms = 10, te_completed_at_ms = 11,
      te_diff = (\<lambda>_ after _ _. after), te_ratio = (\<lambda>_. ''0.50''), te_debug_error = (\<lambda>_. ''error'')\<rparr>"

definition demo_fs :: file_system where
  "demo_fs = \<lparr>fs_cwd = [], fs_node = map_of [([], Directory), ([''w''], Directory), ([''a''], Directory), ([''w'', ''f''], Regular ''one'')]\<rparr>"

definition demo_config :: runtime_tool_config where
  "demo_config =
     \<lparr>rtc_workspace_root = [RootDir, Normal ''w''], rtc_artifact_root = [RootDir, Normal ''a''], rtc_env_allowlist = [],
      rtc_redaction_rules = [], rtc_output_limit_bytes = 64, rtc_artifact_limit_bytes = 256\<rparr>"

definition demo_write :: wrapper_tool_request where
  "demo_write =
     \<lparr>wtr_tool_call_id = ''c1'', wtr_session_id = ''s1'', wtr_run_id = ''r1'', wtr_tool_id = ''capo.file_write'',
      wtr_capability_profile_id = ''trusted-local-dev'',
      wtr_input = json_object [(''path'', JString ''d/g''), (''content'', JString ''2'')]\<rparr>"

definition demo_auth :: tool_authorization where
  "demo_auth = authorize_tool_call rfc8259 demo_write FakePolicy"

theorem unauthorized_call_does_nothing_witness:
  "\<exists>r reason. (\<forall>os. invoke_authorized (demo_env\<lparr>te_os := os\<rparr>) demo_config (demo_write\<lparr>wtr_run_id := ''r2''\<rparr>) demo_auth demo_fs = (r, demo_fs))
    \<and> wts_status r = ''denied'' \<and> wts_input_artifact r = None \<and> wts_output_artifacts r = []
    \<and> wts_events r = ta_events demo_auth @ [audit_event ''tool.call_canceled'' reason]"
  by (rule unauthorized_call_does_nothing)
    (simp add: authorizes_def demo_auth_def authorize_tool_call_def demo_write_def Let_def)

section \<open>Profiles\<close>

definition required_scopes :: "string \<Rightarrow> string list" where
  "required_scopes tool_id =
     (case wrapper_tool_row tool_id of Some (_, _, _, scopes, _) \<Rightarrow> scopes | None \<Rightarrow> [''tool:invoke:capo''])"

lemma authorize_scopes:
  "td_required_scopes_json (ta_definition (authorize_tool_call sj request policy)) = json_array (required_scopes (wtr_tool_id request))"
  by (auto simp: authorize_tool_call_def describe_tool_def required_scopes_def unknown_tool_definition_def unwrap_or_def Let_def
      split: option.split)

lemma authorize_permission:
  "ta_permission (authorize_tool_call sj request policy) = decide sj policy
     \<lparr>preq_session_id = wtr_session_id request, preq_capability_profile_id = wtr_capability_profile_id request,
      preq_scope_json = json_array (required_scopes (wtr_tool_id request))\<rparr>"
  using authorize_scopes [of sj request policy] by (simp add: authorize_tool_call_def Let_def)

lemma string_items_strings: "string_items (map JString xs) = Inr xs"
  by (induction xs) auto

definition read_only_tools :: "string list" where
  "read_only_tools = [''capo.git_status'', ''capo.git_diff'', ''capo.file_read'', ''capo.workpad_read'', ''capo.project_memory_read'']"

lemma row_cases:
  "wrapper_tool_row tool_id = Some row \<Longrightarrow> tool_id \<in> set CAPO_WRAPPER_TOOLS"
  by (auto simp: wrapper_tool_row_def CAPO_WRAPPER_TOOLS_def split: if_splits)

text \<open>Every other tool needs a scope that neither profile has.\<close>

lemma scopes_beyond_read_only:
  assumes "tool_id \<notin> set read_only_tools" "p \<in> {read_only_local, reviewer}"
  shows "\<not> list_all (\<lambda>s. s \<in> set (stp_allowed_scopes p)) (required_scopes tool_id)"
proof (cases "tool_id \<in> set CAPO_WRAPPER_TOOLS")
  case True
  have "list_all (\<lambda>t. t \<in> set read_only_tools \<or> list_all (\<lambda>p. \<not> list_all (\<lambda>s. s \<in> set (stp_allowed_scopes p)) (required_scopes t))
    [read_only_local, reviewer]) CAPO_WRAPPER_TOOLS" by code_simp
  then show ?thesis using True assms unfolding list_all_iff [of _ CAPO_WRAPPER_TOOLS] by fastforce
next
  case False
  then have "required_scopes tool_id = [''tool:invoke:capo'']"
    using row_cases [of tool_id] by (cases "wrapper_tool_row tool_id") (auto simp: required_scopes_def)
  then show ?thesis using assms(2) by (auto simp: read_only_local_def reviewer_def)
qed

text \<open>
  C34. Under the read-only and the reviewer profile an agent can use five tools: git status, git diff and
  the three readers.  Every other request (shell, commit, write, patch, search, test run, or a tool that
  does not exist) is denied and has no effect.  \<open>serde_json\<close> reads the array of scope names that the tool
  definition prints.
\<close>

theorem read_only_profiles_bound_tools:
  assumes "p \<in> {read_only_local, reviewer}" "wtr_tool_id request \<notin> set read_only_tools"
    and "from_text (te_serde te) (json_array (required_scopes (wtr_tool_id request)))
      = Inr (JArray (map JString (required_scopes (wtr_tool_id request))))"
  shows "\<exists>r. (\<forall>os. authorize_and_invoke (te\<lparr>te_os := os\<rparr>) config request (StaticPolicy p) fs = (r, fs)) \<and> wts_status r = ''denied''"
proof -
  let ?a = "authorize_tool_call (te_serde te) request (StaticPolicy p)"
  have "dec_effect (ta_permission ?a) \<noteq> ''allow''"
    using assms(3) scopes_beyond_read_only [OF assms(2,1)]
    by (simp add: authorize_permission static_allow_iff scope_items_def string_items_strings)
  then have "\<not> authorizes (te_serde te) ?a request" by (simp add: authorizes_def)
  then obtain r where "\<And>os fs. invoke_authorized (te\<lparr>te_os := os\<rparr>) config request ?a fs = (r, fs)" "wts_status r = ''denied''"
    using refused_call [of te ?a request config] by metis
  then show ?thesis by (auto simp: authorize_and_invoke_def)
qed

theorem read_only_profiles_bound_tools_witness:
  "\<exists>r. (\<forall>os. authorize_and_invoke (demo_env\<lparr>te_os := os\<rparr>) demo_config demo_write (StaticPolicy reviewer) demo_fs = (r, demo_fs))
     \<and> wts_status r = ''denied''"
proof (rule read_only_profiles_bound_tools)
  show "wtr_tool_id demo_write \<notin> set read_only_tools" by code_simp
  show "from_text (te_serde demo_env) (json_array (required_scopes (wtr_tool_id demo_write)))
      = Inr (JArray (map JString (required_scopes (wtr_tool_id demo_write))))" by code_simp
qed simp

section \<open>Confinement\<close>

text \<open>
  C35. A tool that starts no program (the readers, a write, a patch without the linter) changes nothing
  outside the workspace and the artifact directory, whatever path it is asked for, whatever the
  authorization, and whether it succeeds or fails, provided neither directory contains a symbolic link.
\<close>

theorem file_tools_stay_inside:
  assumes "starts_no_program request" "tool_area config r ar fs" "invoke_authorized te config request a fs = (res, fs')"
    and "fs_node fs' q \<noteq> fs_node fs q"
  shows "\<exists>rest. q = r @ rest \<or> q = ar @ rest"
  using invoke_keeps [OF assms(1-3)] assms(4) by (auto simp: changes_within_def)

lemma demo_area: "tool_area demo_config [''w''] [''a''] demo_fs"
proof -
  have wf: "fs_wf demo_fs" by (auto simp: fs_wf_def demo_fs_def append_eq_Cons_conv)
  have "fs_lookup demo_fs (rtc_workspace_root demo_config) = Some [''w'']" "fs_lookup demo_fs (rtc_artifact_root demo_config) = Some [''a'']"
    by code_simp+
  moreover have "link_free demo_fs r" for r by (auto simp: link_free_def demo_fs_def)
  ultimately show ?thesis using wf by (simp add: tool_area_def demo_fs_def)
qed

text \<open>The call writes \<open>/w/d/g\<close>, a new file in a new directory.\<close>

theorem file_tools_stay_inside_witness:
  "fs_node (snd (invoke_authorized demo_env demo_config demo_write demo_auth demo_fs)) [''w'', ''d'', ''g''] \<noteq> fs_node demo_fs [''w'', ''d'', ''g'']
   \<and> (\<exists>rest. [''w'', ''d'', ''g''] = [''w''] @ rest \<or> [''w'', ''d'', ''g''] = [''a''] @ rest)"
proof
  have starts: "starts_no_program demo_write" by code_simp
  show changed: "fs_node (snd (invoke_authorized demo_env demo_config demo_write demo_auth demo_fs)) [''w'', ''d'', ''g'']
      \<noteq> fs_node demo_fs [''w'', ''d'', ''g'']" by code_simp
  show "\<exists>rest. [''w'', ''d'', ''g''] = [''w''] @ rest \<or> [''w'', ''d'', ''g''] = [''a''] @ rest"
    by (rule file_tools_stay_inside [OF starts demo_area surjective_pairing changed])
qed

text \<open>
  C36. With a link the promise fails.  When the workspace contains a dangling symbolic link, resolving its
  name succeeds (the target does not exist, so only the parent is checked), and the write that follows
  creates the target of the link, wherever it is.
\<close>

theorem dangling_link_escapes:
  assumes "fs_wf fs" and "fs_lookup fs root = Some r" "fs_node fs r = Some Directory"
    and "fs_node fs (r @ [s]) = Some (Link t)" "plain_segment s"
    and "path_components t = abs_path (d @ [x])" "fs_node fs d = Some Directory" "fs_node fs (d @ [x]) = None"
  shows "\<exists>p fs'. resolve_workspace_path io root s True fs = Inr p \<and> write_creating io p bytes fs = (Inr (), fs')
    \<and> fs_node fs' (d @ [x]) = Some (Regular bytes)"
  using dangling_escapes(1) [OF assms, of io] dangling_escapes(2) [OF assms, of io bytes] by (auto simp: set_node_def)

definition linked_fs :: file_system where
  "linked_fs = set_node [''w'', ''l''] (Link ''/etc'') (set_node [''w''] Directory demo_fs)"

theorem dangling_link_escapes_witness:
  "\<exists>p fs'. resolve_workspace_path ''io'' [RootDir, Normal ''w''] ''l'' True linked_fs = Inr p
     \<and> write_creating ''io'' p ''x'' linked_fs = (Inr (), fs') \<and> fs_node fs' ([] @ [''etc'']) = Some (Regular ''x'')"
proof (rule dangling_link_escapes)
  show "fs_wf linked_fs" by (auto simp: fs_wf_def linked_fs_def demo_fs_def set_node_def append_eq_Cons_conv split: if_splits)
qed (code_simp+)

text \<open>
  C37. Whatever tool is called, with whatever input and authorization, every program the call starts runs
  in a directory of the workspace and with variables from the allowed names only.  A command is inside
  (\<open>spawn_inside\<close>) if its working directory, looked up in the file system at the moment it is started,
  lies below the workspace root \<open>r\<close>, or does not exist, and its variables are allowed.  If \<open>f\<close> behaves
  like the operating system on the commands that are inside, in every file system, then replacing the
  one by the other changes neither the result of the call nor the file system it leaves: no other
  command is ever started.  The workspace root and the artifact directory exist and hold no symbolic
  links when the call begins; what the programs then do to the file system is not restricted.
\<close>

theorem programs_start_in_workspace:
  assumes "tool_area config r ar fs"
    and "\<forall>s fs1. spawn_inside [r] (rtc_env_allowlist config) fs1 s \<longrightarrow> f s fs1 = os_output (te_os te) s fs1"
  shows "invoke_authorized (te\<lparr>te_os := (te_os te)\<lparr>os_output := f\<rparr>\<rparr>) config request a fs = invoke_authorized te config request a fs"
  using assms by (intro invoke_area) (simp_all add: agrees_inside_def)

text \<open>
  An operating system that runs everything, one that refuses what is outside \<open>/w\<close> (so \<open>/a\<close>), and a
  shell call that asks for \<open>/w\<close> in a roundabout way.  Its program does start there.
\<close>

definition running_env :: tool_env where
  "running_env = demo_env\<lparr>te_os := demo_os\<lparr>os_output :=
     (\<lambda>_ fs. (Inr \<lparr>po_stdout = ''ok'', po_stderr = [], po_code = Some 0\<rparr>, fs))\<rparr>\<rparr>"

definition refusing :: "spawn \<Rightarrow> file_system \<Rightarrow> (string, process_output) result \<times> file_system" where
  "refusing s fs =
     (if sp_env s = [] \<and> (case fs_lookup fs (sp_cwd s) of None \<Rightarrow> True | Some d \<Rightarrow> take 1 d = [''w''])
      then os_output (te_os running_env) s fs else (Inl ''refused'', demo_fs))"

definition demo_shell :: wrapper_tool_request where
  "demo_shell = demo_write\<lparr>wtr_tool_id := ''capo.shell_run'',
     wtr_input := json_object [(''program'', JString ''ls''), (''cwd'', JString ''x/..'')]\<rparr>"

lemma bounded_runner_fields [code]:
  "bounded_runtime_runner config =
     \<lparr>lpc_workspace_roots = [rtc_workspace_root config], lpc_artifact_root = rtc_artifact_root config,
      lpc_env_allowlist = rtc_env_allowlist config, lpc_redaction_rules = rtc_redaction_rules config,
      lpc_output_limit_bytes = rtc_artifact_limit_bytes config\<rparr>"
  by (simp add: bounded_runtime_runner_def config_for_test_def)

theorem programs_start_in_workspace_witness:
  "invoke_authorized (running_env\<lparr>te_os := (te_os running_env)\<lparr>os_output := refusing\<rparr>\<rparr>) demo_config demo_shell
     (authorize_tool_call rfc8259 demo_shell FakePolicy) demo_fs
   = invoke_authorized running_env demo_config demo_shell (authorize_tool_call rfc8259 demo_shell FakePolicy) demo_fs
   \<and> refusing \<lparr>sp_program = ''ls'', sp_argv = [], sp_cwd = [RootDir, Normal ''a''], sp_env = []\<rparr> demo_fs = (Inl ''refused'', demo_fs)
   \<and> isl (fst (start_process (te_os running_env) (bounded_runtime_runner demo_config)
        (process_request demo_shell ''ls'' [] [RootDir, Normal ''w'']) demo_fs)) = False"
proof (intro conjI)
  have "refusing s fs1 = os_output (te_os running_env) s fs1" if "spawn_inside [[''w'']] (rtc_env_allowlist demo_config) fs1 s" for s fs1
  proof -
    have "sp_env s = []" using that by (simp add: spawn_inside_def demo_config_def)
    moreover have "take 1 d = [''w'']" if "fs_lookup fs1 (sp_cwd s) = Some d" for d
      using \<open>spawn_inside _ _ _ _\<close> that by (auto simp: spawn_inside_def)
    ultimately show ?thesis by (simp add: refusing_def split: option.split)
  qed
  then show "invoke_authorized (running_env\<lparr>te_os := (te_os running_env)\<lparr>os_output := refusing\<rparr>\<rparr>) demo_config demo_shell
     (authorize_tool_call rfc8259 demo_shell FakePolicy) demo_fs
   = invoke_authorized running_env demo_config demo_shell (authorize_tool_call rfc8259 demo_shell FakePolicy) demo_fs"
    by (intro programs_start_in_workspace [OF demo_area] allI impI)
  have "fs_lookup demo_fs [RootDir, Normal ''a''] = Some [''a'']" by code_simp
  then show "refusing \<lparr>sp_program = ''ls'', sp_argv = [], sp_cwd = [RootDir, Normal ''a''], sp_env = []\<rparr> demo_fs = (Inl ''refused'', demo_fs)"
    by (simp add: refusing_def)
  show "isl (fst (start_process (te_os running_env) (bounded_runtime_runner demo_config)
      (process_request demo_shell ''ls'' [] [RootDir, Normal ''w'']) demo_fs)) = False" by code_simp
qed

section \<open>Patches\<close>

text \<open>The text of edited lines; a file that ended with a newline, or was empty, ends with one.\<close>

definition lines_text :: "string \<Rightarrow> string list \<Rightarrow> string" where
  "lines_text original ls =
     (let content = join_with [line_feed] ls in
      if (original = [] \<or> last original = line_feed) \<and> content \<noteq> [] then content @ [line_feed] else content)"

text \<open>
  C38. A patch that applies is a script of edits on disjoint places of the file, one for each hunk and in
  the order of the hunks.  Every edit keeps the lines before its place and replaces a place that its
  strategy accepts for the hunk's search block; nothing else changes.
\<close>

theorem patch_edits_disjoint_places:
  assumes "apply_hunks fmt original hunks = Inr applied"
  shows "\<exists>es rest. file_lines original = concat (map before_edit es) @ rest
    \<and> ap_new_content applied = lines_text original (concat (map after_edit es) @ rest)
    \<and> map ed_hunk es = hunks \<and> map ed_strategy es = map hm_strategy (ap_matches applied) \<and> list_all edit_ok es"
proof -
  obtain ls' ms rs where r: "apply_from fmt 0 0 (file_lines original) hunks = Inr (ls', ms, rs)"
    "ap_new_content applied = lines_text original ls'" "ap_matches applied = ms"
    using assms by (auto simp: apply_hunks_def and_then_Inr_iff lines_text_def Let_def)
  then show ?thesis using apply_from_edits [of fmt 0 "[]" "file_lines original" hunks ls' ms rs] by auto
qed

definition demo_text :: string where
  "demo_text = ''a'' @ [line_feed] @ ''b'' @ [line_feed] @ ''a'' @ [line_feed]"

theorem patch_edits_disjoint_places_witness:
  "\<exists>applied es rest. apply_hunks (\<lambda>_. []) demo_text [\<lparr>ph_search = ''b'', ph_replace = ''c''\<rparr>, \<lparr>ph_search = ''a'', ph_replace = ''d''\<rparr>] = Inr applied
    \<and> file_lines demo_text = concat (map before_edit es) @ rest
    \<and> ap_new_content applied = lines_text demo_text (concat (map after_edit es) @ rest)
    \<and> map ed_hunk es = [\<lparr>ph_search = ''b'', ph_replace = ''c''\<rparr>, \<lparr>ph_search = ''a'', ph_replace = ''d''\<rparr>]
    \<and> map ed_strategy es = map hm_strategy (ap_matches applied) \<and> list_all edit_ok es"
proof -
  let ?hs = "[\<lparr>ph_search = ''b'', ph_replace = ''c''\<rparr>, \<lparr>ph_search = ''a'', ph_replace = ''d''\<rparr>]"
  have "isl (apply_hunks (\<lambda>_. []) demo_text ?hs) = False" by code_simp
  then obtain applied where a: "apply_hunks (\<lambda>_. []) demo_text ?hs = Inr applied" by (cases "apply_hunks (\<lambda>_. []) demo_text ?hs") simp_all
  show ?thesis using patch_edits_disjoint_places [OF a] by (intro exI [of _ applied]) (simp only: a simp_thms)
qed

section \<open>Searches\<close>

text \<open>
  C39. A search result is bounded and honest: it holds the first matches, clipped to the line limit, and
  at most as many as allowed.  Its previews keep within the byte limit, except that the first match is
  always kept: a result over the byte limit is a single match.  The total counts every match; and a
  result that is not marked truncated is complete and unclipped.
\<close>

theorem search_is_bounded:
  "\<exists>n. n \<le> length raw \<and> bs_matches (search_apply_caps raw caps) = map (clipped caps) (take n raw)
     \<and> length (bs_matches (search_apply_caps raw caps)) \<le> sc_max_matches caps
     \<and> (preview_bytes (bs_matches (search_apply_caps raw caps)) \<le> sc_max_preview_bytes caps
        \<or> length (bs_matches (search_apply_caps raw caps)) \<le> 1)
     \<and> bs_total_matches (search_apply_caps raw caps) = length raw
     \<and> (bs_truncated (search_apply_caps raw caps) \<or> n = length raw
        \<and> list_all (\<lambda>m. \<not> sm_preview_clipped m) (bs_matches (search_apply_caps raw caps)))"
proof -
  obtain ms reason flag where c: "cap_matches caps [] 0 False raw = (ms, reason, flag)" by (cases "cap_matches caps [] 0 False raw")
  have "cap_matches caps [] (preview_bytes []) False raw = (ms, reason, flag)" using c by (simp add: preview_bytes_def)
  then obtain n where n: "n \<le> length raw" "ms = map (clipped caps) (take n raw)" "reason = ''none'' \<longleftrightarrow> n = length raw"
    "length ms \<le> sc_max_matches caps" "preview_bytes ms \<le> sc_max_preview_bytes caps \<or> length ms \<le> 1"
    using cap_matches_kept [of caps "[]" False raw ms reason flag] by (auto simp: preview_bytes_def)
  have "\<forall>m \<in> set ms. sm_preview_clipped m \<longrightarrow> flag" using cap_matches_flag [OF c] by simp
  then show ?thesis using n c by (intro exI [of _ n]) (auto simp: search_apply_caps_def list_all_iff)
qed

section \<open>Results\<close>

lemma default_matches: "scalar_type_matches base (type_default base)"
  by (simp add: scalar_type_matches_def type_default_def)

definition declares_strings :: "(string \<times> json) list \<Rightarrow> bool" where
  "declares_strings decls \<longleftrightarrow>
     distinct (map fst decls) \<and> list_all (\<lambda>(f, t). value_is_string t \<and> (f \<in> {''status'', ''summary''} \<longrightarrow> t = JString ''string'')) decls"

lemma default_entry_key: "default_entry decl = Some entry \<Longrightarrow> fst entry = fst decl"
  by (auto simp: default_entry_def Let_def split: option.splits prod.splits if_splits)

lemma set_defaults: "entry \<in> set (List.map_filter default_entry decls) \<longleftrightarrow> (\<exists>d \<in> set decls. default_entry d = Some entry)"
  by (force simp: List.map_filter_def)

lemma map_of_defaults:
  assumes "distinct (map fst decls)" "(f, t) \<in> set decls"
  shows "map_of (btree_of (List.map_filter default_entry decls)) f = map_option snd (default_entry (f, t))"
proof -
  let ?es = "List.map_filter default_entry decls"
  have "map fst (List.map_filter default_entry ds) = map fst (filter (\<lambda>d. default_entry d \<noteq> None) ds)" for ds
    by (induction ds) (auto simp: List.map_filter_def default_entry_key)
  then have dist: "distinct (map fst (rev ?es))" using assms(1) by (simp add: distinct_map_filter rev_map [symmetric])
  have "map_of (rev ?es) f = map_option snd (default_entry (f, t))"
  proof (cases "default_entry (f, t)")
    case None
    have "f \<notin> fst ` set ?es"
    proof
      assume "f \<in> fst ` set ?es"
      then obtain d e where d: "d \<in> set decls" "default_entry d = Some e" "fst e = f" by (auto simp: set_defaults)
      then have "d = (f, t)" using assms default_entry_key [OF d(2)] by (metis eq_key_imp_eq_value prod.collapse)
      then show False using d(2) None by simp
    qed
    then show ?thesis using None by (simp add: map_of_eq_None_iff)
  next
    case (Some e)
    then have "(f, snd e) \<in> set (rev ?es)" using assms(2) default_entry_key [OF Some] set_defaults [of "(f, snd e)" decls] by force
    then show ?thesis using map_of_is_SomeI [OF dist] Some by simp
  qed
  then show ?thesis by (simp add: btree_of_def map_of_fold_btree)
qed

lemma field_ok:
  assumes "declares_strings decls" "(f, t) \<in> set decls"
    and "m = set_if_present ''summary'' (JString detail) (set_if_present ''status'' (JString status) (btree_of (List.map_filter default_entry decls)))"
  shows "field_errors m (f, t) = []"
proof -
  let ?o = "btree_of (List.map_filter default_entry decls)"
  obtain ty where t: "t = JString ty" using assms(1,2) by (cases t) (auto simp: declares_strings_def list_all_iff)
  obtain base optional where b: "declared_base ty = (base, optional)" by fastforce
  have o: "map_of ?o f = (if optional then None else Some (type_default base))"
    using map_of_defaults [of decls f t] assms(1,2) t b by (simp add: declares_strings_def default_entry_def)
  have set': "map_of (set_if_present k v o') f = (if k = f \<and> map_of o' f \<noteq> None then Some v else map_of o' f)" for k v o'
    by (auto simp: set_if_present_def map_of_eq_None_iff)
  have str: "base = ''string''" if "f = ''status'' \<or> f = ''summary''"
  proof -
    have "ty = ''string''" using assms(1,2) that t unfolding declares_strings_def list_all_iff by fastforce
    then show ?thesis using b by (simp add: declared_base_def)
  qed
  have js: "scalar_type_matches ''string'' (JString x)" for x by (simp add: scalar_type_matches_def)
  have "map_of m f = None \<and> optional \<or> (\<exists>v. map_of m f = Some v \<and> scalar_type_matches base v)"
  proof (cases "optional")
    case False
    then have "map_of m f = Some (if f = ''summary'' then JString detail else if f = ''status'' then JString status else type_default base)"
      unfolding assms(3) set' o by simp
    then show ?thesis using str js default_matches [of base] by (cases "f = ''summary'' \<or> f = ''status''") auto
  qed (simp add: assms(3) set' o)
  then show ?thesis using t b by (auto simp: field_errors_def)
qed

text \<open>An output schema that reads as an object of distinct fields with textual types, status and summary being strings.\<close>

definition schema_declares :: "serde \<Rightarrow> string \<Rightarrow> bool" where
  "schema_declares sj output_schema =
     (case from_text sj output_schema of
        Inr schema \<Rightarrow> (case json_get schema ''output'' of Some (JObject decls) \<Rightarrow> declares_strings decls | _ \<Rightarrow> False)
      | Inl _ \<Rightarrow> False)"

lemma terminal_conforms:
  assumes "schema_declares sj output_schema"
  shows "validate_against_schema sj output_schema ''output'' (terminal_typed_output sj output_schema status detail) = []"
proof -
  obtain schema decls where d: "from_text sj output_schema = Inr schema" "json_get schema ''output'' = Some (JObject decls)"
    "declares_strings decls"
    using assms by (auto simp: schema_declares_def split: sum.splits option.splits json.splits)
  let ?m = "set_if_present ''summary'' (JString detail) (set_if_present ''status'' (JString status) (btree_of (List.map_filter default_entry decls)))"
  have "terminal_typed_output sj output_schema status detail = JObject ?m"
    using d(1,2) by (simp add: terminal_typed_output_def schema_default_object_def)
  moreover have "field_errors ?m x = []" if "x \<in> set decls" for x using field_ok [OF d(3), of "fst x" "snd x" ?m] that by simp
  ultimately show ?thesis using d(1,2) by (simp add: validate_against_schema_def)
qed

text \<open>What a tool id is declared as, and the seven schemas that occur.\<close>

definition declared_tool :: "string \<Rightarrow> tool_definition" where
  "declared_tool tool_id = unwrap_or (unknown_tool_definition tool_id) (describe_tool tool_id)"

lemma authorize_declares: "ta_definition (authorize_tool_call sj request policy) = declared_tool (wtr_tool_id request)"
  by (simp add: authorize_tool_call_def declared_tool_def Let_def)

definition declared_schemas :: "string list" where
  "declared_schemas =
     [EXEC_OUTPUT_SCHEMA, FILE_READ_OUTPUT_SCHEMA, FILE_WRITE_OUTPUT_SCHEMA, APPLY_PATCH_OUTPUT_SCHEMA, SEARCH_OUTPUT_SCHEMA,
      TEST_RUN_OUTPUT_SCHEMA, CAPO_REGISTRY_OUTPUT_SCHEMA]"

lemma declared_schema: "schema_declares rfc8259 (td_output_schema (declared_tool tool_id))"
proof -
  have "wrapper_output_schema tool_id \<in> set declared_schemas"
    unfolding wrapper_output_schema_def declared_schemas_def by (simp only: list.set split: if_split) blast
  then have "td_output_schema (declared_tool tool_id) \<in> set declared_schemas"
    by (cases "wrapper_tool_row tool_id")
      (auto simp: declared_tool_def describe_tool_def unknown_tool_definition_def unwrap_or_def declared_schemas_def)
  moreover have "list_all (schema_declares rfc8259) declared_schemas" by code_simp
  ultimately show ?thesis by (simp only: list_all_iff)
qed

text \<open>The call was refused, or its input could not be recorded, or the tool returned an error.\<close>

definition ends_early ::
  "tool_env \<Rightarrow> runtime_tool_config \<Rightarrow> wrapper_tool_request \<Rightarrow> tool_authorization \<Rightarrow> file_system \<Rightarrow> bool" where
  "ends_early te config request a fs \<longleftrightarrow>
     \<not> authorizes (te_serde te) a request
     \<or> (case record_input_artifact te config request fs of
          (Inl _, _) \<Rightarrow> True
        | (Inr _, fs1) \<Rightarrow> isl (fst (execute_tool te config request fs1)))"

lemma early_output:
  assumes "ends_early te config request a fs"
  shows "\<exists>status detail. wts_typed_output (fst (invoke_authorized te config request a fs))
    = terminal_typed_output (te_serde te) (td_output_schema (ta_definition a)) status detail"
proof (cases "authorizes (te_serde te) a request")
  case False
  then show ?thesis
    by (auto simp: authorizes_iff invoke_authorized_def mismatch_result_def result_denied_def denied_typed_output_def split: sum.split)
next
  case True
  obtain x fs1 where x: "record_input_artifact te config request fs = (x, fs1)" by fastforce
  obtain y fs2 where y: "execute_tool te config request fs1 = (y, fs2)" by fastforce
  have auth: "verify_authorization_matches_request (te_serde te) request a = Inr ()" "dec_effect (ta_permission a) = ''allow''"
    using True by (simp_all add: authorizes_iff)
  have "\<exists>e. x = Inl e \<or> (\<exists>b. x = Inr b) \<and> y = Inl e"
    using assms True x y by (cases x; cases y) (auto simp: ends_early_def)
  then obtain e where "x = Inl e \<or> (\<exists>b. x = Inr b) \<and> y = Inl e" ..
  then have "wts_typed_output (fst (invoke_authorized te config request a fs))
      = terminal_typed_output (te_serde te) (td_output_schema (ta_definition a)) ''failed'' e"
    using auth x y
    by (auto simp: invoke_authorized_def call_result_def failed_execution_def failed_typed_output_def Let_def)
  then show ?thesis by blast
qed

text \<open>
  C40. A call that was refused, or whose input could not be recorded, or whose tool returned an error, still
  answers in the shape its tool declares: the typed output of the result passes the check against the
  declared schema.  This is so for each of the tools and for an unknown tool id; \<open>serde_json\<close> reads the
  schema texts as RFC 8259 says.  A call whose program ran and failed is not such a call: its output is
  built from the exit code and need not pass, see below.
\<close>

theorem terminal_output_conforms:
  assumes "ta_definition a = declared_tool tool_id" and "ends_early te config request a fs"
    and "from_text (te_serde te) (td_output_schema (declared_tool tool_id)) = from_text rfc8259 (td_output_schema (declared_tool tool_id))"
  shows "validate_against_schema (te_serde te) (td_output_schema (declared_tool tool_id)) ''output''
    (wts_typed_output (fst (invoke_authorized te config request a fs))) = []"
proof -
  have "schema_declares (te_serde te) (td_output_schema (declared_tool tool_id))"
    using declared_schema [of tool_id] assms(3) by (simp add: schema_declares_def)
  then show ?thesis using early_output [OF assms(2)] terminal_conforms assms(1) by metis
qed

text \<open>A read that names no file, and a write under the authorization of another run.\<close>

definition demo_read :: wrapper_tool_request where
  "demo_read = demo_write\<lparr>wtr_tool_id := ''capo.file_read'', wtr_input := JObject []\<rparr>"

theorem terminal_output_conforms_witness:
  "validate_against_schema rfc8259 (td_output_schema (declared_tool ''capo.file_read'')) ''output''
     (wts_typed_output (fst (invoke_authorized demo_env demo_config demo_read (authorize_tool_call rfc8259 demo_read FakePolicy) demo_fs))) = []
   \<and> validate_against_schema rfc8259 (td_output_schema (declared_tool ''capo.file_write'')) ''output''
     (wts_typed_output (fst (invoke_authorized demo_env demo_config (demo_write\<lparr>wtr_run_id := ''r2''\<rparr>) demo_auth demo_fs))) = []"
proof
  have serde: "te_serde demo_env = rfc8259" by (simp add: demo_env_def)
  have ids: "wtr_tool_id demo_read = ''capo.file_read''" "ta_definition demo_auth = declared_tool ''capo.file_write''"
    by (simp_all add: demo_read_def demo_auth_def authorize_declares demo_write_def)
  have "ends_early demo_env demo_config demo_read (authorize_tool_call rfc8259 demo_read FakePolicy) demo_fs"
    by (simp add: ends_early_def execute_tool_def file_read_def required_input_def input_str_def demo_read_def or_error_def
        step_then_def step_of_def split: prod.split sum.split)
  from terminal_output_conforms [OF authorize_declares this] show "validate_against_schema rfc8259 (td_output_schema (declared_tool ''capo.file_read'')) ''output''
     (wts_typed_output (fst (invoke_authorized demo_env demo_config demo_read (authorize_tool_call rfc8259 demo_read FakePolicy) demo_fs))) = []"
    by (simp only: serde ids)
  have "ends_early demo_env demo_config (demo_write\<lparr>wtr_run_id := ''r2''\<rparr>) demo_auth demo_fs"
    by (simp add: ends_early_def authorizes_def demo_auth_def authorize_tool_call_def demo_write_def Let_def)
  from terminal_output_conforms [OF ids(2) this] show "validate_against_schema rfc8259 (td_output_schema (declared_tool ''capo.file_write'')) ''output''
     (wts_typed_output (fst (invoke_authorized demo_env demo_config (demo_write\<lparr>wtr_run_id := ''r2''\<rparr>) demo_auth demo_fs))) = []"
    by (simp only: serde)
qed

text \<open>
  The results of a run do not always pass: a program that was ended by a signal has no exit code, the
  result says null, and the declared optional integer does not admit null.
\<close>

lemma signal_result_fails_schema:
  "validate_against_schema rfc8259 EXEC_OUTPUT_SCHEMA ''output'' (exec_typed_output ''failed'' None False 1 ''x'' False) \<noteq> []"
  by code_simp

end
