(* ===== verification/Spec2Isabelle.thy ===== *)
theory Spec2Isabelle
  imports Store_Properties Capo_Core Grant_Properties Lock_Properties Goal_Properties Transport_Properties Tool_Properties
begin

text \<open>
  \<^bold>\<open>The program.\<close>  Capo is a controller for coding agents, written in Rust.  Every decision it takes is
  an event in an append-only SQLite log (\<open>src/crates/capo-state\<close>); each event commits, in one
  transaction, typed projection records that are kept twice: encoded in a projection log and applied
  to 43 read-model tables.  The controller (\<open>src/crates/capo-controller\<close>) reads those tables and
  appends events: it decides permissions, keeps grants, answers an adapter's permission requests
  (\<open>src/crates/capo-adapters\<close>), hands out the write lock of a workspace, audits whether a goal is
  complete and decides whether it gets another turn.  The server (\<open>src/crates/capo-server\<close>) takes the
  operator's commands as JSON-RPC lines over a socket, answers them, streams committed events to
  subscribers and scrubs credentials from what it sends.  The tools an agent may call, with their
  policies, are in \<open>src/crates/capo-tools\<close>; they read and write files of a workspace and start programs
  through \<open>src/crates/capo-runtime\<close>.  Ids and statuses are in \<open>src/crates/capo-core\<close>.

  \<^bold>\<open>How the model is built.\<close>  A store is one record (\<open>store\<close> in \<^verbatim>\<open>Event_Store\<close>): the event log, the
  projection log, the tables, the watermarks, artifacts, recovery attempts and the broadcast hub.  An
  operation that may fail is a function from the store to an error or a result together with the next
  store (\<open>op\<close> in \<^verbatim>\<open>Event_Store\<close>); a transaction that fails returns the store it was given.  Signed
  64-bit values are \<open>int\<close> with the bound or the wrap-around written out, the FNV hash of grant ids is on
  64-bit words, text is a list of characters.  All operations are executable.

  \<^bold>\<open>Operations are atomic.\<close>  An operation of the store or of the controller is one step, and steps follow
  one another.  That is what the code has while one thread writes: the transport passes writing commands
  through one lock (\<open>WriteSerializer\<close>).  It is an assumption where the code has no lock: an append
  publishes after its commit, an interrupt is dispatched past the lock, other processes may open the same
  database.  Two places where this decides the outcome are modelled in smaller steps.
  \<^verbatim>\<open>Concurrent_Writers\<close> separates commit and publication, and \<^verbatim>\<open>Workspace_Lock\<close> separates the read of a
  lease from its acquisition (\<open>acquire_after_read\<close>) and shows two unserialized acquisitions that both succeed.

  \<^bold>\<open>Parameters.\<close>  \<open>serde_json\<close> is not part of the repository: it is the argument \<open>sj\<close> (printer and parser),
  and \<^verbatim>\<open>Json_Text\<close> gives a concrete reader and writer of RFC 8259 text, \<open>rfc8259\<close>, on which the assumed
  round trip is proved, so that every property with that assumption has an instance.  The wall clock is
  an argument of the operations that read it.  For the tools, the record \<open>os\<close> says what starting a program
  does and \<open>tool_env\<close> adds the clock, the line differ of the crate \<open>similar\<close> and the rendering of numbers.

  \<^bold>\<open>Theories, in the order of the code.\<close>
  \<^item> \<^verbatim>\<open>Capo_Prelude\<close>: results, folds that stop at an error, text and integer conversions.
  \<^item> \<^verbatim>\<open>Capo_Core\<close>: \<open>capo-core/src/lib.rs\<close>, ids, statuses, evidence sources, the boundary registry.
  \<^item> \<^verbatim>\<open>Event_Kinds\<close>: \<open>capo-state/src/event.rs\<close>, event kinds, wire names, redaction states.
  \<^item> \<^verbatim>\<open>Projections\<close>, \<^verbatim>\<open>Projection_Methods\<close>: \<open>projections.rs\<close>, the 43 record kinds and their methods.
  \<^item> \<^verbatim>\<open>Json_Value\<close>, \<^verbatim>\<open>Json_Text\<close>: JSON values, and reading and writing them.
  \<^item> \<^verbatim>\<open>Codec_Encode\<close>, \<^verbatim>\<open>Codec_Decode\<close>, \<^verbatim>\<open>Codec_Roundtrip\<close>: \<open>codec.rs\<close>, \<open>codec_adapter.rs\<close>,
    \<open>codec_encode.rs\<close>; decoding an encoded record gives it back.
  \<^item> \<^verbatim>\<open>Projection_Tables\<close>: \<open>apply.rs\<close>, \<open>schema.rs\<close>; upserts, column checks and typed tables.
  \<^item> \<^verbatim>\<open>Broadcast\<close>: \<open>broadcast.rs\<close>; subscriptions see what is published, in order.
  \<^item> \<^verbatim>\<open>Event_Store\<close>: \<open>capo-state/src/lib.rs\<close>, every operation of the store that changes it.
  \<^item> \<^verbatim>\<open>Store_Append\<close>, \<^verbatim>\<open>Store_Invariants\<close>, \<^verbatim>\<open>Store_Rebuild\<close>, \<^verbatim>\<open>Store_Machine\<close>, \<^verbatim>\<open>Store_Recovery\<close>,
    \<^verbatim>\<open>Store_Properties\<close>: the three outcomes of an append, the invariant \<open>store_wf\<close>, replay of the
    projection log, the step relation of the store, restart recovery, and the properties.
  \<^item> \<^verbatim>\<open>Queries\<close>: \<open>queries.rs\<close>, every SELECT; a reader is an interpretation of the locale \<open>row_query\<close>.
  \<^item> \<^verbatim>\<open>Permission_Policy\<close>, \<^verbatim>\<open>Adapter_Permission\<close>: \<open>capo-tools/src/permission.rs\<close> and
    \<open>capo-adapters/src/permission_request.rs\<close>.
  \<^item> \<^verbatim>\<open>Controller_Base\<close>, \<^verbatim>\<open>Grant_Lifecycle\<close>, \<^verbatim>\<open>Permission_Round_Trip\<close>, \<^verbatim>\<open>Fake_Session_Grants\<close>,
    \<^verbatim>\<open>Grant_Properties\<close>: \<open>grant_lifecycle.rs\<close>, the grant writer and live gate of
    \<open>tool_dispatch.rs\<close>, \<open>permission_round_trip.rs\<close>, the decision recorder of \<open>fake_session.rs\<close>.
  \<^item> \<^verbatim>\<open>Workspace_Lock\<close>, \<^verbatim>\<open>Lock_Properties\<close>: \<open>workspace_lock.rs\<close>.
  \<^item> \<^verbatim>\<open>Completion_Auditor\<close>, \<^verbatim>\<open>Resource_Ceiling\<close>, \<^verbatim>\<open>Continuation_Scheduler\<close>, \<^verbatim>\<open>Goal_Report\<close>: the modules
    of those names in \<open>capo-controller\<close> and \<open>capo-state\<close>.
  \<^item> \<^verbatim>\<open>Goal_Commands\<close>, \<^verbatim>\<open>Goal_Ledger\<close>, \<^verbatim>\<open>Goal_Effects\<close>, \<^verbatim>\<open>Goal_Properties\<close>: \<open>goal_commands.rs\<close> of the
    server; the locale \<open>goal_client\<close> says what an invariant needs to be kept by every goal command.
  \<^item> \<^verbatim>\<open>Text_Tools\<close>, \<^verbatim>\<open>Redaction\<close>: the string functions of Rust the code uses, on UTF-8 bytes, and the
    credential scan of \<open>capo-runtime/src/lib.rs\<close>.
  \<^item> \<^verbatim>\<open>Server_Types\<close>, \<^verbatim>\<open>Transport_Wire\<close>, \<^verbatim>\<open>Transport_Command\<close>, \<^verbatim>\<open>Transport_Response\<close>, \<^verbatim>\<open>Jsonrpc\<close>:
    \<open>types.rs\<close>, \<open>transport/wire.rs\<close>, \<open>transport/codec.rs\<close> and \<open>transport/jsonrpc.rs\<close> of the server, every
    command and every response with its encoder and decoder.
  \<^item> \<^verbatim>\<open>Frame_Reader\<close>, \<^verbatim>\<open>Connection\<close>: \<open>transport.rs\<close>, reading bounded lines from a stream that arrives in
    chunks, and the state machine of a connection.
  \<^item> \<^verbatim>\<open>Event_Tail\<close>, \<^verbatim>\<open>Concurrent_Writers\<close>, \<^verbatim>\<open>Session_Thread\<close>, \<^verbatim>\<open>Transport_Properties\<close>: \<open>event_tail.rs\<close>,
    \<open>subscribe\<close> of the server, writers whose commits and publications interleave, \<open>thread.rs\<close>, and the
    properties of the wire.
  \<^item> \<^verbatim>\<open>Unix_Path\<close>, \<^verbatim>\<open>File_System\<close>: \<open>std::path\<close> and \<open>std::fs\<close>, a tree of directories, files and symbolic
    links with the operations the code uses.
  \<^item> \<^verbatim>\<open>Workspace_Paths\<close>, \<^verbatim>\<open>Apply_Patch\<close>, \<^verbatim>\<open>Tool_Parsers\<close>: \<open>runtime_wrapper_paths.rs\<close>, \<open>apply_patch.rs\<close>,
    \<open>search.rs\<close>, \<open>test_run.rs\<close> and \<open>lint.rs\<close> of \<open>capo-tools\<close>.
  \<^item> \<^verbatim>\<open>Tool_Registry\<close>, \<^verbatim>\<open>Local_Process\<close>, \<^verbatim>\<open>Tool_Wrappers\<close>: \<open>capo-tools/src/lib.rs\<close>, the synchronous process
    runner of \<open>capo-runtime/src/lib.rs\<close>, and \<open>runtime_wrappers.rs\<close> with its types: all eleven tools, their
    authorization, artifacts and audit events, as steps on the file system.
  \<^item> \<^verbatim>\<open>Tool_Confinement\<close>, \<^verbatim>\<open>Program_Confinement\<close>, \<^verbatim>\<open>Tool_Properties\<close>: what a tool can change, where it can
    start a program, and the properties of the tools.

  \<^bold>\<open>What is shown.\<close>  For the store: the log is gap free, append only and idempotent; a failed operation
  changes nothing; rebuilding the read models from the projection log reproduces them; recovery sweeps
  can be repeated; an approval that has been decided stays decided under every later operation that does
  not write a pending row over it.  For permissions: which authority decides a request,
  that revocation and expiry end a grant's authority, that another subject's grants do not matter, that
  the built-in profiles fail closed, and that an adapter proceeds only on an allowed request with an
  offered allow option.  For the workspace lock: a single writer per workspace under every spelling of
  its root, for writers that run one at a time.  For goals: only observed sources validate a requirement, only validated requirements
  complete a goal, claims never do; a goal continues only at a safe boundary and an exhausted one that is not blocked stops
  its run; reports show no payloads.  For the wire: requests arrive as they were sent however the bytes
  are cut, each is answered once whatever interleaves with it, a subscriber whose backlog fits
  one page sees every later event once when events are published in the order of their commits,
  responses and events leave without credential-shaped text, threads are the events grouped by turn.
  For the tools: a call has an effect only under an allowing authorization made for that call, the
  read-only profiles bound the tools, file tools stay inside the workspace and the artifact directory,
  every program a tool call starts runs below the workspace root, a patch is a script of disjoint edits, a
  search is bounded apart from its first match, and a call that is refused or fails before its tool has a
  result still answers in the shape its tool declares.

  Some theorems show that the code falls short of what it says: a session's blocker is lost in the log,
  a line break in an approval reason blocks every rebuild, the scripted session writer reinstates revoked
  grants, acquiring twice in a millisecond acquires nothing, a goal can be paused only once, an oversized
  frame takes the next one along, a long backlog leaves a hole in the tail, an event whose publication is
  overtaken is never delivered, two acquisitions of a lease that both read first both succeed, the words
  of a report's summary decide whether a validation is weak, threads show the text the
  tail withholds, turn limits wrap at 32 bits, a dangling link in a workspace lets a write escape, a
  process runner whose artifact directory does not exist yet can start a program outside its roots, and the
  result of a program ended by a signal fails its own schema.

  \<^bold>\<open>Bounds.\<close>  Sequences are SQLite row ids: an append at \<open>2 ^ 63 - 1\<close> fails with a full database, and the
  properties that promise a commit assume room below that.  Json_Text parses with fuel equal to the
  length of its input, which is shown to be enough for printed text.  A frame is bounded by 384 KiB and
  a page of events by 4096, as in the code.  A file lookup follows at most 40 links, as Linux does.  The loops of the frame reader recurse on the bytes that are left.

  \<^bold>\<open>Not modelled.\<close>  Files, pragmas and connections of SQLite, spawned, piped and remote processes
  (\<open>capo-runtime\<close>), file permissions and concurrent changes of the file system, sockets, timeouts and HTTP (\<open>capo-server\<close>, \<open>capo-web\<close>), the command line (\<open>capo-cli\<close>),
  the subprocess adapters and their output parsers (\<open>capo-adapters\<close>), and the turn loop, dispatch and live
  provider flows of \<open>capo-controller\<close> and \<open>capo-server\<close>, which drive those.
\<close>

end
